(* ===== verification/Prelude.thy ===== *)
theory Prelude
  imports Complex_Main "HOL-Library.AList" "HOL-Library.Multiset"
begin

text \<open>
  What every component of the development shares: results that are either an error or
  a value, the JavaScript \<open>Map\<close> as an association list in insertion order, the stable
  \<open>Array.prototype.sort\<close>, and labelled state machines with the two contracts the
  components discharge: an invariant that every step keeps, and an event that can
  happen at most once.
\<close>

named_theorems inv_simps "unfolds the invariants of the components"
named_theorems guard_simps "unfolds the guards of the operations"

section \<open>Results\<close>

type_synonym ('e, 'a) result = "'e + 'a"

definition and_then :: "'e + 'a \<Rightarrow> ('a \<Rightarrow> 'e + 'b) \<Rightarrow> 'e + 'b" where
  "and_then r f = (case r of Inl e \<Rightarrow> Inl e | Inr x \<Rightarrow> f x)"

lemma and_then_Inl [simp]: "and_then (Inl e) f = Inl e"
  by (simp add: and_then_def)

lemma and_then_Inr [simp]: "and_then (Inr x) f = f x"
  by (simp add: and_then_def)

lemma and_then_eq_Inr:
  "and_then r f = Inr y \<longleftrightarrow> (\<exists>x. r = Inr x \<and> f x = Inr y)"
  by (cases r) simp_all

text \<open>An operation that returned passed each of its guards.\<close>

lemma guard_eq_Inr [guard_simps]: "(if c then Inl e else r) = Inr y \<longleftrightarrow> \<not> c \<and> r = Inr y"
  by simp

lemma option_guard_eq_Inr [guard_simps]:
  "(case x of None \<Rightarrow> Inl e | Some a \<Rightarrow> f a) = Inr y \<longleftrightarrow> (\<exists>a. x = Some a \<and> f a = Inr y)"
  by (cases x) simp_all

lemma map_sum_eq_Inr [guard_simps]: "map_sum id f r = Inr y \<longleftrightarrow> (\<exists>x. r = Inr x \<and> y = f x)"
  by (cases r) auto

lemma sum_inject_Inr [guard_simps]: "Inr x = Inr y \<longleftrightarrow> x = y"
  by simp

declare and_then_eq_Inr [guard_simps]

text \<open>\<open>xs.map(f)\<close> where the callback may throw: the first error wins.\<close>

fun map_result :: "('a \<Rightarrow> 'e + 'b) \<Rightarrow> 'a list \<Rightarrow> 'e + 'b list" where
  "map_result f [] = Inr []"
| "map_result f (x # xs) =
     (case f x of Inl e \<Rightarrow> Inl e
      | Inr y \<Rightarrow> (case map_result f xs of Inl e \<Rightarrow> Inl e | Inr ys \<Rightarrow> Inr (y # ys)))"

lemma map_result_Inr_iff:
  "map_result f xs = Inr ys \<longleftrightarrow> list_all2 (\<lambda>x y. f x = Inr y) xs ys"
proof (induction xs arbitrary: ys)
  case Nil
  show ?case by auto
next
  case (Cons x xs)
  show ?case
    by (cases "f x"; cases "map_result f xs") (auto simp: list_all2_Cons1 simp flip: Cons.IH)
qed

lemma map_result_total:
  "(\<And>x. x \<in> set xs \<Longrightarrow> f x = Inr (g x)) \<Longrightarrow> map_result f xs = Inr (map g xs)"
  by (induction xs) auto

section \<open>Maps in insertion order\<close>

text \<open>
  A JavaScript \<open>Map\<close> iterates in insertion order, and \<open>set\<close> on a present key keeps
  its place: exactly \<^const>\<open>AList.update\<close>.
\<close>

abbreviation js_get :: "('k \<times> 'v) list \<Rightarrow> 'k \<Rightarrow> 'v option" where
  "js_get \<equiv> map_of"

abbreviation js_set :: "'k \<Rightarrow> 'v \<Rightarrow> ('k \<times> 'v) list \<Rightarrow> ('k \<times> 'v) list" where
  "js_set \<equiv> AList.update"

abbreviation js_keys :: "('k \<times> 'v) list \<Rightarrow> 'k list" where
  "js_keys m \<equiv> map fst m"

definition js_map :: "('k \<times> 'v) list \<Rightarrow> bool" where
  "js_map m \<longleftrightarrow> distinct (js_keys m)"

lemma js_map_Nil [simp]: "js_map []"
  by (simp add: js_map_def)

lemma js_map_set [simp]: "js_map m \<Longrightarrow> js_map (js_set k v m)"
  by (simp add: js_map_def distinct_update)

lemma js_get_set: "js_get (js_set k v m) k' = (if k' = k then Some v else js_get m k')"
  by (simp add: update_conv')

lemma js_set_new: "js_get m k = None \<Longrightarrow> js_set k v m = m @ [(k, v)]"
  by (induction m) (auto split: if_splits)

lemma js_set_values:
  "(k', v') \<in> set (js_set k v m) \<Longrightarrow> (k', v') \<in> set m \<or> (k' = k \<and> v' = v)"
  by (induction m) (auto split: if_splits)

lemma js_get_in_set: "js_map m \<Longrightarrow> (k, v) \<in> set m \<longleftrightarrow> js_get m k = Some v"
  by (simp add: js_map_def)

section \<open>Array.prototype.sort\<close>

text \<open>
  The specification's sort is stable. For a comparator that is a total preorder every
  stable sort returns the same array, so insertion from the right stands for it.
\<close>

fun js_insert :: "('a \<Rightarrow> 'a \<Rightarrow> int) \<Rightarrow> 'a \<Rightarrow> 'a list \<Rightarrow> 'a list" where
  "js_insert cmp x [] = [x]"
| "js_insert cmp x (y # ys) = (if cmp x y \<le> 0 then x # y # ys else y # js_insert cmp x ys)"

definition js_sort :: "('a \<Rightarrow> 'a \<Rightarrow> int) \<Rightarrow> 'a list \<Rightarrow> 'a list" where
  "js_sort cmp xs = foldr (js_insert cmp) xs []"

lemma js_sort_simps [simp]:
  "js_sort cmp [] = []"
  "js_sort cmp (x # xs) = js_insert cmp x (js_sort cmp xs)"
  by (simp_all add: js_sort_def)

lemma mset_js_insert [simp]: "mset (js_insert cmp x ys) = add_mset x (mset ys)"
  by (induction ys) auto

lemma set_js_insert [simp]: "set (js_insert cmp x ys) = insert x (set ys)"
  by (induction ys) auto

lemma mset_js_sort [simp]: "mset (js_sort cmp xs) = mset xs"
  by (induction xs) auto

lemma set_js_sort [simp]: "set (js_sort cmp xs) = set xs"
  by (rule mset_eq_setD) simp

lemma length_js_sort [simp]: "length (js_sort cmp xs) = length xs"
  by (rule mset_eq_length) simp

lemma js_insert_map:
  "js_insert cmp (f x) (map f ys) = map f (js_insert (\<lambda>a b. cmp (f a) (f b)) x ys)"
  by (induction ys) auto

lemma js_sort_map: "js_sort cmp (map f xs) = map f (js_sort (\<lambda>a b. cmp (f a) (f b)) xs)"
  by (induction xs) (auto simp: js_insert_map)

text \<open>What a consistent comparator promises, and what sorting with one gives.\<close>

locale consistent_comparator =
  fixes cmp :: "'a \<Rightarrow> 'a \<Rightarrow> int"
  assumes cmp_total: "cmp x y \<le> 0 \<or> cmp y x \<le> 0"
    and cmp_trans: "cmp x y \<le> 0 \<Longrightarrow> cmp y z \<le> 0 \<Longrightarrow> cmp x z \<le> 0"
begin

lemma js_insert_sorted:
  "sorted_wrt (\<lambda>a b. cmp a b \<le> 0) ys \<Longrightarrow> sorted_wrt (\<lambda>a b. cmp a b \<le> 0) (js_insert cmp x ys)"
proof (induction ys)
  case Nil
  show ?case by simp
next
  case (Cons y ys)
  show ?case
  proof (cases "cmp x y \<le> 0")
    case True
    with Cons.prems show ?thesis by (auto intro: cmp_trans)
  next
    case False
    then have "cmp y x \<le> 0" using cmp_total by blast
    with Cons False show ?thesis by auto
  qed
qed

lemma js_sort_sorted: "sorted_wrt (\<lambda>a b. cmp a b \<le> 0) (js_sort cmp xs)"
  by (induction xs) (auto intro: js_insert_sorted)

end

text \<open>\<open>xs.slice(0, n)\<close>: a negative end counts from the back.\<close>

definition js_slice0 :: "'a list \<Rightarrow> int \<Rightarrow> 'a list" where
  "js_slice0 xs n =
     (if n < 0 then take (nat (int (length xs) + n)) xs else take (nat n) xs)"

lemma set_js_slice0: "set (js_slice0 xs n) \<subseteq> set xs"
  by (auto simp: js_slice0_def dest: in_set_takeD)

lemma length_js_slice0: "0 \<le> n \<Longrightarrow> int (length (js_slice0 xs n)) \<le> n"
  by (simp add: js_slice0_def)

section \<open>Labelled state machines\<close>

inductive run :: "('s \<Rightarrow> 'l \<Rightarrow> 's \<Rightarrow> bool) \<Rightarrow> 's \<Rightarrow> 'l list \<Rightarrow> 's \<Rightarrow> bool" for step where
  run_nil: "run step s [] s"
| run_cons: "step s l t \<Longrightarrow> run step t ls u \<Longrightarrow> run step s (l # ls) u"

inductive_cases run_nilE: "run step s [] t"
inductive_cases run_consE: "run step s (l # ls) t"

inductive_simps run_nil_iff [simp]: "run step s [] t"
inductive_simps run_cons_iff: "run step s (l # ls) t"

lemma run_append:
  "run step s ls t \<Longrightarrow> run step t ls' u \<Longrightarrow> run step s (ls @ ls') u"
  by (induction rule: run.induct) (auto intro: run_cons)

text \<open>The contract of a component whose operations keep an invariant.\<close>

locale invariant_machine =
  fixes step :: "'s \<Rightarrow> 'l \<Rightarrow> 's \<Rightarrow> bool"
    and inv :: "'s \<Rightarrow> bool"
  assumes inv_step: "inv s \<Longrightarrow> step s l t \<Longrightarrow> inv t"
begin

lemma run_inv: "run step s ls t \<Longrightarrow> inv s \<Longrightarrow> inv t"
  by (induction rule: run.induct) (auto intro: inv_step)

end

text \<open>
  The contract of a one-shot event: it needs an unspent state, it spends it, and no
  step makes a spent state unspent again. Then it happens at most once in any run.
\<close>

locale one_shot_machine = invariant_machine step inv
  for step :: "'s \<Rightarrow> 'l \<Rightarrow> 's \<Rightarrow> bool"
    and inv :: "'s \<Rightarrow> bool" +
  fixes fires :: "'l \<Rightarrow> bool"
    and spent :: "'s \<Rightarrow> bool"
  assumes fire_unspent: "inv s \<Longrightarrow> step s l t \<Longrightarrow> fires l \<Longrightarrow> \<not> spent s"
    and fire_spends: "inv s \<Longrightarrow> step s l t \<Longrightarrow> fires l \<Longrightarrow> spent t"
    and spent_stays: "inv s \<Longrightarrow> step s l t \<Longrightarrow> spent s \<Longrightarrow> spent t"
begin

lemma spent_never_fires:
  "run step s ls t \<Longrightarrow> inv s \<Longrightarrow> spent s \<Longrightarrow> filter fires ls = []"
proof (induction rule: run.induct)
  case (run_nil s)
  show ?case by simp
next
  case (run_cons s l t ls u)
  then show ?case
    using fire_unspent [of s l t] spent_stays [of s l t] inv_step [of s l t] by auto
qed

lemma fires_at_most_once:
  "run step s ls t \<Longrightarrow> inv s \<Longrightarrow> length (filter fires ls) \<le> 1"
proof (induction rule: run.induct)
  case (run_nil s)
  show ?case by simp
next
  case (run_cons s l t ls u)
  have inv_t: "inv t" using run_cons.hyps(1) run_cons.prems by (rule inv_step [rotated])
  show ?case
  proof (cases "fires l")
    case True
    then have "spent t" using run_cons.hyps(1) run_cons.prems by (blast intro: fire_spends)
    then have "filter fires ls = []"
      using run_cons.hyps(2) inv_t by (blast intro: spent_never_fires)
    with True show ?thesis by simp
  next
    case False
    with run_cons.IH inv_t show ?thesis by simp
  qed
qed

end

end
