(* ===== verification/Js_Value.thy ===== *)
theory Js_Value
  imports Prelude "HOL-Library.Char_ord" "HOL-Library.List_Lexorder"
begin

text \<open>
  The JavaScript values the program passes around, and the standard-library operations
  it applies to them: property access, nullish defaults, truthiness, strict equality,
  the coercion a \<open>RegExp\<close> test performs on its subject, \<open>trim\<close>, and the key checks
  (\<open>exactKeys\<close>, \<open>exactRecord\<close>) that its validators share. A string is the list of
  its code units, all below 256 here; a finite number is the rational it denotes
  (negative zero is identified with zero); an object is the list of its own
  enumerable properties in insertion order. What the standard library leaves to the
  implementation, or what only a cryptographic library computes, is a field of
  \<open>jsenv\<close>.
\<close>

section \<open>Values\<close>

datatype jnum = Fin rat | NaN | PInf | NInf

datatype jsv =
    Undef
  | Null
  | Bool bool
  | Num jnum
  | Str string
  | DateV "int option" \<comment> \<open>a \<open>Date\<close>: its time value, \<open>None\<close> when invalid\<close>
  | Arr "jsv list"
  | Obj "(string \<times> jsv) list"

record jsenv =
  localeCompare :: "string \<Rightarrow> string \<Rightarrow> int"
  date_parse :: "string \<Rightarrow> int option" \<comment> \<open>\<open>Date.parse\<close> of a string, \<open>None\<close> for \<open>NaN\<close>\<close>
  date_of_object :: "jsv \<Rightarrow> int option" \<comment> \<open>\<open>new Date(x)\<close> on an array or an object\<close>
  sha256_hex :: "string \<Rightarrow> string" \<comment> \<open>\<open>createHash("sha256")\<close> in hexadecimal\<close>
  frac_str :: "rat \<Rightarrow> string" \<comment> \<open>\<open>Number::toString\<close> of a non-integer\<close>
  string_of :: "jsv \<Rightarrow> string" \<comment> \<open>\<open>String(x)\<close> of a value that is not a string\<close>
  to_number :: "jsv \<Rightarrow> jnum" \<comment> \<open>\<open>Number(x)\<close> of a string, an array or an object\<close>

text \<open>What an operation throws.\<close>

datatype js_error = TypeErr string | RangeErr string | Err string | MemoryUnavailable

abbreviation int_num :: "int \<Rightarrow> jsv" where
  "int_num n \<equiv> Num (Fin (of_int n))"

fun fld :: "jsv \<Rightarrow> string \<Rightarrow> jsv" where
  "fld (Obj kvs) k = (case map_of kvs k of None \<Rightarrow> Undef | Some v \<Rightarrow> v)"
| "fld _ k = Undef"

fun nullish :: "jsv \<Rightarrow> bool" where
  "nullish Undef = True"
| "nullish Null = True"
| "nullish _ = False"

text \<open>\<open>v ?? d\<close>\<close>

definition coalesce :: "jsv \<Rightarrow> jsv \<Rightarrow> jsv" where
  "coalesce v d = (if nullish v then d else v)"

fun truthy :: "jsv \<Rightarrow> bool" where
  "truthy Undef = False"
| "truthy Null = False"
| "truthy (Bool b) = b"
| "truthy (Num x) = (x \<noteq> Fin 0 \<and> x \<noteq> NaN)"
| "truthy (Str s) = (s \<noteq> [])"
| "truthy _ = True"

text \<open>
  \<open>a === b\<close>. Two object values are the same only when they are one object, which the
  code never asks: every comparison of the modelled code has a primitive on one side.
\<close>

fun strict_eq :: "jsv \<Rightarrow> jsv \<Rightarrow> bool" where
  "strict_eq Undef Undef = True"
| "strict_eq Null Null = True"
| "strict_eq (Bool a) (Bool b) = (a = b)"
| "strict_eq (Num a) (Num b) = (a = b \<and> a \<noteq> NaN)"
| "strict_eq (Str a) (Str b) = (a = b)"
| "strict_eq _ _ = False"

lemma strict_eq_Str [simp]: "strict_eq v (Str s) \<longleftrightarrow> v = Str s"
  by (cases v) auto

lemma strict_eq_Str' [simp]: "strict_eq (Str s) v \<longleftrightarrow> v = Str s"
  by (cases v) auto

lemma strict_eq_Bool [simp]: "strict_eq v (Bool b) \<longleftrightarrow> v = Bool b"
  by (cases v) auto

lemma bool_guard_eq_Inr [guard_simps]:
  "(case v of Bool b \<Rightarrow> f b | _ \<Rightarrow> Inl e) = Inr y \<longleftrightarrow> (\<exists>b. v = Bool b \<and> f b = Inr y)"
  by (cases v) simp_all

lemma strict_eq_Null [simp]: "strict_eq v Null \<longleftrightarrow> v = Null"
  by (cases v) auto

fun is_array :: "jsv \<Rightarrow> bool" where
  "is_array (Arr _) = True"
| "is_array _ = False"

fun is_string :: "jsv \<Rightarrow> bool" where
  "is_string (Str _) = True"
| "is_string _ = False"

definition js_string :: "jsenv \<Rightarrow> jsv \<Rightarrow> string" where
  "js_string E v = (case v of Str s \<Rightarrow> s | _ \<Rightarrow> string_of E v)"

lemma js_string_Str [simp]: "js_string E (Str s) = s"
  by (simp add: js_string_def)

text \<open>\<open>[...new Set(xs)]\<close>: the first of equal elements stays.\<close>

definition dedup :: "'a list \<Rightarrow> 'a list" where
  "dedup xs = rev (remdups (rev xs))"

lemma dedup_props [simp]: "set (dedup xs) = set xs" "distinct (dedup xs)" "dedup xs = [] \<longleftrightarrow> xs = []"
    "list_all P (dedup xs) \<longleftrightarrow> list_all P xs"
  by (simp_all add: dedup_def list_all_iff)

text \<open>
  \<open>xs.slice(0, v)\<close>: an absent end is the length, any other is converted to a number and
  truncated.
\<close>

definition js_truncate :: "rat \<Rightarrow> int" where
  "js_truncate r = (if r < 0 then ceiling r else floor r)"

fun slice_number :: "'a list \<Rightarrow> jnum \<Rightarrow> 'a list" where
  "slice_number xs (Fin r) = js_slice0 xs (js_truncate r)"
| "slice_number xs PInf = xs"
| "slice_number xs NInf = []"
| "slice_number xs NaN = []"

fun slice_to :: "jsenv \<Rightarrow> 'a list \<Rightarrow> jsv \<Rightarrow> 'a list" where
  "slice_to E xs Undef = xs"
| "slice_to E xs Null = []"
| "slice_to E xs (Bool b) = take (if b then 1 else 0) xs"
| "slice_to E xs (Num x) = slice_number xs x"
| "slice_to E xs (DateV t) = (case t of None \<Rightarrow> [] | Some n \<Rightarrow> js_slice0 xs n)"
| "slice_to E xs v = slice_number xs (to_number E v)"

lemma set_slice_number: "set (slice_number xs x) \<subseteq> set xs"
  by (cases x) (auto dest: subsetD [OF set_js_slice0])

lemma set_slice_to: "set (slice_to E xs v) \<subseteq> set xs"
  by (cases v) (auto dest: subsetD [OF set_js_slice0] subsetD [OF set_slice_number] in_set_takeD
    split: option.splits)

lemma length_slice_to: "length (slice_to E xs (int_num (int n))) \<le> n"
  by (simp add: js_truncate_def js_slice0_def)

fun elements :: "jsv \<Rightarrow> jsv list" where
  "elements (Arr xs) = xs"
| "elements _ = []"

text \<open>\<open>Number.isSafeInteger\<close> and \<open>Number.isFinite\<close>\<close>

definition max_safe_integer :: int where
  "max_safe_integer = 9007199254740991"

fun as_safe_integer :: "jsv \<Rightarrow> int option" where
  "as_safe_integer (Num (Fin r)) =
     (if of_int (floor r) = r \<and> \<bar>floor r\<bar> \<le> max_safe_integer then Some (floor r) else None)"
| "as_safe_integer _ = None"

fun as_finite :: "jsv \<Rightarrow> rat option" where
  "as_finite (Num (Fin r)) = Some r"
| "as_finite _ = None"

lemma as_safe_integer_int [simp]:
  "as_safe_integer (int_num n) = (if \<bar>n\<bar> \<le> max_safe_integer then Some n else None)"
  by simp

section \<open>Strings\<close>

text \<open>White space and line terminators among the code units below 256.\<close>

definition js_space :: "char \<Rightarrow> bool" where
  "js_space c \<longleftrightarrow> of_char c \<in> {9, 10, 11, 12, 13, 32, 160 :: nat}"

definition trim :: "string \<Rightarrow> string" where
  "trim s = rev (dropWhile js_space (rev (dropWhile js_space s)))"

lemma dropWhile_idem [simp]: "dropWhile P (dropWhile P xs) = dropWhile P xs"
  by (induction xs) auto

lemma rev_dropWhile_keeps_front:
  assumes "dropWhile P s = s"
  shows "dropWhile P (rev (dropWhile P (rev s))) = rev (dropWhile P (rev s))"
proof (cases "rev (dropWhile P (rev s))")
  case Nil
  show ?thesis unfolding Nil by simp
next
  case (Cons x xs)
  have "s = rev (takeWhile P (rev s) @ dropWhile P (rev s))" by simp
  then have "s = rev (dropWhile P (rev s)) @ rev (takeWhile P (rev s))"
    by (simp only: rev_append)
  with Cons have "s = x # xs @ rev (takeWhile P (rev s))" by simp
  with assms have "\<not> P x" by (metis dropWhile_eq_Cons_conv)
  with Cons show ?thesis by simp
qed

lemma trim_trim [simp]: "trim (trim s) = trim s"
  by (simp add: trim_def rev_dropWhile_keeps_front)

lemma trim_keeps_front: "dropWhile js_space (trim s) = trim s"
  by (simp add: trim_def rev_dropWhile_keeps_front)

fun infix_of :: "string \<Rightarrow> string \<Rightarrow> bool" where
  "infix_of [] p = (p = [])"
| "infix_of (c # cs) p = (take (length p) (c # cs) = p \<or> infix_of cs p)"

text \<open>\<open>Buffer.byteLength(s, "utf8")\<close>: two bytes for a code unit from 128 on.\<close>

definition utf8_length :: "string \<Rightarrow> nat" where
  "utf8_length s = sum_list (map (\<lambda>c. if of_char c < (128 :: nat) then 1 else 2) s)"

section \<open>Patterns\<close>

text \<open>
  The subject a \<open>RegExp\<close> test sees: \<open>String(v)\<close>. An array is the join of its
  elements, so a one-element array is seen as its element. Numbers, booleans, dates,
  objects and longer arrays render as text (\<open>"[object Object]"\<close>, \<open>"1,2"\<close>) that none of
  the patterns below matches, and are \<open>None\<close> here.
\<close>

fun pattern_subject :: "jsv \<Rightarrow> string option" where
  "pattern_subject (Str s) = Some s"
| "pattern_subject (Arr []) = Some []"
| "pattern_subject (Arr [x]) = (if nullish x then Some [] else pattern_subject x)"
| "pattern_subject _ = None"

definition test_pattern :: "(string \<Rightarrow> bool) \<Rightarrow> jsv \<Rightarrow> bool" where
  "test_pattern p v = (case pattern_subject v of None \<Rightarrow> False | Some s \<Rightarrow> p s)"

lemma test_pattern_Str [simp]: "test_pattern p (Str s) = p s"
  by (simp add: test_pattern_def)

text \<open>\<open>P.test(v ?? "")\<close>, as the validators write it.\<close>

definition test_or_empty :: "(string \<Rightarrow> bool) \<Rightarrow> jsv \<Rightarrow> bool" where
  "test_or_empty p v = test_pattern p (coalesce v (Str ''''))"

lemma test_or_empty_Str [simp]: "test_or_empty p (Str s) = p s"
  by (simp add: test_or_empty_def coalesce_def)

definition hex_digit :: "char \<Rightarrow> bool" where
  "hex_digit c \<longleftrightarrow> (let n = of_char c :: nat in (48 \<le> n \<and> n \<le> 57) \<or> (97 \<le> n \<and> n \<le> 102))"

definition hex_of_length :: "nat \<Rightarrow> string \<Rightarrow> bool" where
  "hex_of_length n s \<longleftrightarrow> length s = n \<and> list_all hex_digit s"

abbreviation hex_64 :: "string \<Rightarrow> bool" where
  "hex_64 \<equiv> hex_of_length 64"

abbreviation hex_40 :: "string \<Rightarrow> bool" where
  "hex_40 \<equiv> hex_of_length 40"

text \<open>
  \<open>/^[0-9a-f]{8}-[0-9a-f]{4}-[1-5][0-9a-f]{3}-[89ab][0-9a-f]{3}-[0-9a-f]{12}$/u\<close>
\<close>

definition uuid_shape :: "string \<Rightarrow> bool" where
  "uuid_shape s \<longleftrightarrow> length s = 36 \<and>
     list_all (\<lambda>i. if i \<in> {8, 13, 18, 23} then s ! i = CHR ''-''
       else if i = 14 then s ! i \<in> set ''12345''
       else if i = 19 then s ! i \<in> set ''89ab''
       else hex_digit (s ! i)) [0..<36]"

lemma hex_of_length_length: "hex_of_length n s \<Longrightarrow> length s = n"
  by (simp add: hex_of_length_def)

lemma uuid_shape_not_Nil: "uuid_shape s \<Longrightarrow> s \<noteq> []"
  by (auto simp: uuid_shape_def)

section \<open>Exact keys\<close>

fun obj_keys :: "jsv \<Rightarrow> string list option" where
  "obj_keys (Obj kvs) = Some (map fst kvs)"
| "obj_keys (DateV _) = Some []"
| "obj_keys _ = None"

fun join :: "string \<Rightarrow> string list \<Rightarrow> string" where
  "join sep [] = []"
| "join sep [x] = x"
| "join sep (x # y # ys) = x @ sep @ join sep (y # ys)"

text \<open>
  \<open>exactKeys\<close>: a non-array object whose sorted own keys, joined by a newline, are those
  expected. \<open>Array.prototype.sort\<close> without a comparator orders by code units, which
  is the order of HOL-Library.List_Lexorder on strings.
\<close>

definition exact_keys :: "jsv \<Rightarrow> string list \<Rightarrow> bool" where
  "exact_keys v ks =
     (case obj_keys v of None \<Rightarrow> False
      | Some own \<Rightarrow> join [CHR 0x0A] (sort own) = join [CHR 0x0A] (sort ks))"

lemma exact_keys_perm: "mset (map fst kvs) = mset ks \<Longrightarrow> exact_keys (Obj kvs) ks"
proof -
  assume "mset (map fst kvs) = mset ks"
  then have "sort (map fst kvs) = sort ks"
    by (intro properties_for_sort) (simp_all del: mset_map)
  then show ?thesis by (simp add: exact_keys_def)
qed

text \<open>
  \<open>exactRecord\<close>: a plain object with as many own keys as expected, each of them
  expected, and every expected key present.
\<close>

fun exact_record :: "jsv \<Rightarrow> string list \<Rightarrow> bool" where
  "exact_record (Obj kvs) ks \<longleftrightarrow>
     length kvs = length ks \<and> list_all (\<lambda>k. k \<in> set ks) (map fst kvs) \<and>
     list_all (\<lambda>k. k \<in> set (map fst kvs)) ks"
| "exact_record _ ks \<longleftrightarrow> False"

end
