(* ===== verification/Json.thy ===== *)
theory Json
  imports Js_Value
begin

text \<open>
  JSON text: \<open>JSON.stringify\<close> on strings and numbers, and the two \<open>canonicalJson\<close>
  functions of the program, which differ only in the order of the keys of an object
  (\<open>src/protocol.js\<close> sorts them with \<open>localeCompare\<close>, \<open>src/cloud/canonical-json.js\<close> by
  code units). The main lemma is that canonical text determines the value up to the
  order of the keys: the comparison of two canonical texts is a comparison of values.
\<close>

section \<open>Numbers and strings\<close>

definition digit_char :: "nat \<Rightarrow> char" where
  "digit_char d = char_of (48 + d)"

fun nat_str :: "nat \<Rightarrow> string" where
  "nat_str n = (if n < 10 then [digit_char n] else nat_str (n div 10) @ [digit_char (n mod 10)])"

declare nat_str.simps [simp del]

definition int_str :: "int \<Rightarrow> string" where
  "int_str i = (if i < 0 then CHR ''-'' # nat_str (nat (- i)) else nat_str (nat i))"

text \<open>
  \<open>JSON.stringify\<close> of a number: decimal digits for an integer (of magnitude below
  \<open>10^21\<close>, where the exponent form starts), \<open>null\<close> for what is not finite.
\<close>

fun num_text :: "(rat \<Rightarrow> string) \<Rightarrow> jnum \<Rightarrow> string" where
  "num_text fs (Fin r) = (if of_int (floor r) = r then int_str (floor r) else fs r)"
| "num_text fs _ = ''null''"

definition hex_char :: "nat \<Rightarrow> char" where
  "hex_char d = (if d < 10 then char_of (48 + d) else char_of (87 + d))"

text \<open>\<open>JSON.stringify\<close> of a string, one code unit at a time.\<close>

definition esc :: "char \<Rightarrow> string" where
  "esc c = (let n = of_char c :: nat in
     if n = 34 then [CHR 0x5C, CHR 0x22]
     else if n = 92 then [CHR 0x5C, CHR 0x5C]
     else if n = 8 then [CHR 0x5C, CHR ''b'']
     else if n = 9 then [CHR 0x5C, CHR ''t'']
     else if n = 10 then [CHR 0x5C, CHR ''n'']
     else if n = 12 then [CHR 0x5C, CHR ''f'']
     else if n = 13 then [CHR 0x5C, CHR ''r'']
     else if n < 32 then [CHR 0x5C, CHR ''u'', CHR ''0'', CHR ''0'', hex_char (n div 16), hex_char (n mod 16)]
     else [c])"

definition quote :: "string \<Rightarrow> string" where
  "quote s = CHR 0x22 # concat (map esc s) @ [CHR 0x22]"

section \<open>Canonical text\<close>

lemma size_elem_less: "x \<in> set xs \<Longrightarrow> size x < Suc (size_list size xs)"
  by (induction xs) auto

lemma size_snd_less: "(k, v) \<in> set kvs \<Longrightarrow> size v < Suc (size_list (size_prod (\<lambda>_. 0) size) kvs)"
  by (induction kvs) auto

text \<open>
  \<open>canonicalJson\<close>. An absent value renders as the text \<open>undefined\<close>, except that
  \<open>Array.prototype.join\<close> drops an absent element; a \<open>Date\<close> is an object without own
  enumerable properties.
\<close>

function canonical_json :: "(rat \<Rightarrow> string) \<Rightarrow> (string \<Rightarrow> string \<Rightarrow> int) \<Rightarrow> jsv \<Rightarrow> string" where
  "canonical_json fs cmp (Arr xs) =
     ''['' @ join '','' (map (\<lambda>x. if x = Undef then [] else canonical_json fs cmp x) xs) @ '']''"
| "canonical_json fs cmp (Obj kvs) =
     ''{'' @ join '','' (map (\<lambda>(k, v). quote k @ '':'' @ canonical_json fs cmp v)
        (js_sort (\<lambda>a b. cmp (fst a) (fst b)) kvs)) @ ''}''"
| "canonical_json fs cmp (DateV _) = ''{}''"
| "canonical_json fs cmp Undef = ''undefined''"
| "canonical_json fs cmp Null = ''null''"
| "canonical_json fs cmp (Bool b) = (if b then ''true'' else ''false'')"
| "canonical_json fs cmp (Num x) = num_text fs x"
| "canonical_json fs cmp (Str s) = quote s"
  by pat_completeness auto
termination
  by (relation "measure (\<lambda>(fs, cmp, v). size v)")
     (auto dest: size_snd_less size_elem_less)

text \<open>\<open>compareCanonicalKeys\<close>: the order of code units.\<close>

definition compare_canonical_keys :: "string \<Rightarrow> string \<Rightarrow> int" where
  "compare_canonical_keys l r = (if l < r then -1 else if l > r then 1 else 0)"

text \<open>The function of \<open>src/cloud/canonical-json.js\<close>, and the one of \<open>src/protocol.js\<close>.\<close>

definition cloud_canonical_json :: "jsenv \<Rightarrow> jsv \<Rightarrow> string" where
  "cloud_canonical_json E v = canonical_json (frac_str E) compare_canonical_keys v"

definition protocol_canonical_json :: "jsenv \<Rightarrow> jsv \<Rightarrow> string" where
  "protocol_canonical_json E v = canonical_json (frac_str E) (localeCompare E) v"

interpretation canonical_keys: consistent_comparator compare_canonical_keys
  by unfold_locales (auto simp: compare_canonical_keys_def split: if_splits)

section \<open>The value behind a canonical text\<close>

fun sort_keys :: "(string \<Rightarrow> string \<Rightarrow> int) \<Rightarrow> jsv \<Rightarrow> jsv" where
  "sort_keys cmp (Arr xs) = Arr (map (sort_keys cmp) xs)"
| "sort_keys cmp (Obj kvs) =
     Obj (js_sort (\<lambda>a b. cmp (fst a) (fst b)) (map (\<lambda>(k, v). (k, sort_keys cmp v)) kvs))"
| "sort_keys cmp v = v"

fun render :: "jsv \<Rightarrow> string" where
  "render (Arr xs) = ''['' @ join '','' (map render xs) @ '']''"
| "render (Obj kvs) = ''{'' @ join '','' (map (\<lambda>(k, v). quote k @ '':'' @ render v) kvs) @ ''}''"
| "render Null = ''null''"
| "render (Bool b) = (if b then ''true'' else ''false'')"
| "render (Num x) = num_text (\<lambda>_. []) x"
| "render (Str s) = quote s"
| "render _ = []"

text \<open>Values of which every part has a JSON text of its own: the numbers are integers.\<close>

fun json_ok :: "jsv \<Rightarrow> bool" where
  "json_ok (Arr xs) = list_all json_ok xs"
| "json_ok (Obj kvs) = list_all (\<lambda>(k, v). json_ok v) kvs"
| "json_ok (Num (Fin r)) = (of_int (floor r) = r)"
| "json_ok Null = True"
| "json_ok (Bool _) = True"
| "json_ok (Str _) = True"
| "json_ok _ = False"

lemma json_ok_sort_keys: "json_ok v \<Longrightarrow> json_ok (sort_keys cmp v)"
proof (induction v)
  case (Num x)
  then show ?case by (cases x) auto
qed (auto simp: list_all_iff)

lemma canonical_json_render:
  "json_ok v \<Longrightarrow> canonical_json fs cmp v = render (sort_keys cmp v)"
proof (induction v)
  case (Num x)
  then show ?case by (cases x) auto
next
  case (Arr xs)
  then have eq: "map (\<lambda>x. if x = Undef then [] else canonical_json fs cmp x) xs
      = map (\<lambda>x. render (sort_keys cmp x)) xs"
    by (auto simp: list_all_iff)
  show ?case
    by (simp only: canonical_json.simps render.simps sort_keys.simps map_map comp_def eq)
next
  case (Obj kvs)
  let ?ord = "\<lambda>a b :: string \<times> jsv. cmp (fst a) (fst b)"
  have "map (\<lambda>(k, v). quote k @ '':'' @ canonical_json fs cmp v) (js_sort ?ord kvs)
      = map (\<lambda>(k, v). quote k @ '':'' @ render (sort_keys cmp v)) (js_sort ?ord kvs)"
    using Obj by (fastforce simp: list_all_iff)
  also have "\<dots> = map (\<lambda>(k, v). quote k @ '':'' @ render v)
      (js_sort ?ord (map (\<lambda>(k, v). (k, sort_keys cmp v)) kvs))"
    by (simp add: js_sort_map case_prod_beta comp_def)
  finally show ?case by simp
qed auto

section \<open>Numbers and strings determine what they render\<close>

definition ends :: "string \<Rightarrow> bool" where
  "ends r \<longleftrightarrow> (case r of [] \<Rightarrow> True | c # _ \<Rightarrow> c \<in> set '',]}'')"

definition decimal :: "char \<Rightarrow> bool" where
  "decimal c \<longleftrightarrow> (let n = of_char c :: nat in 48 \<le> n \<and> n \<le> 57)"

lemma of_char_digit_char: "d < 10 \<Longrightarrow> of_char (digit_char d) = (48 + d :: nat)"
  by (simp add: digit_char_def)

lemma decimal_digit_char: "d < 10 \<Longrightarrow> decimal (digit_char d)"
  by (simp add: decimal_def of_char_digit_char)

lemma nat_str_decimal: "list_all decimal (nat_str n)"
proof (induction n rule: nat_str.induct)
  case (1 n)
  then show ?case
    by (subst nat_str.simps) (auto simp: decimal_digit_char)
qed

lemma nat_str_not_Nil [simp]: "nat_str n \<noteq> []"
  by (subst nat_str.simps) simp

definition nat_of_str :: "string \<Rightarrow> nat" where
  "nat_of_str = foldl (\<lambda>n c. 10 * n + (of_char c - 48)) 0"

lemma nat_of_str_nat_str [simp]: "nat_of_str (nat_str n) = n"
proof (induction n rule: nat_str.induct)
  case (1 n)
  show ?case
  proof (cases "n < 10")
    case True
    then show ?thesis
      by (subst nat_str.simps) (simp add: nat_of_str_def of_char_digit_char)
  next
    case False
    then have "nat_of_str (nat_str (n div 10) @ [digit_char (n mod 10)]) = n"
      using "1.IH" by (simp add: nat_of_str_def of_char_digit_char)
    with False show ?thesis by (simp add: nat_str.simps [of n])
  qed
qed

lemma ends_not_decimal: "ends r \<Longrightarrow> takeWhile decimal r = []"
  by (cases r) (auto simp: ends_def decimal_def)

lemma takeWhile_nat_str: "ends r \<Longrightarrow> takeWhile decimal (nat_str n @ r) = nat_str n"
  using nat_str_decimal [of n] by (simp add: takeWhile_append2 list_all_iff ends_not_decimal)

lemma nat_str_append_inj:
  assumes "nat_str m @ r = nat_str n @ s" and "ends r" and "ends s"
  shows "m = n \<and> r = s"
proof -
  have "nat_str m = nat_str n"
    using assms takeWhile_nat_str [of r m] takeWhile_nat_str [of s n] by simp
  then have "m = n" by (metis nat_of_str_nat_str)
  with assms(1) show ?thesis by simp
qed

lemma nat_str_head: "\<exists>c cs. nat_str n = c # cs \<and> decimal c"
  using nat_str_decimal [of n] nat_str_not_Nil [of n] by (cases "nat_str n") auto

lemma int_str_append_inj:
  assumes eq: "int_str m @ r = int_str n @ s" and "ends r" and "ends s"
  shows "m = n \<and> r = s"
proof -
  have minus: "\<not> decimal (CHR ''-'')" by (simp add: decimal_def)
  have sgn: "m < 0 \<longleftrightarrow> n < 0"
    using eq minus nat_str_head [of "nat m"] nat_str_head [of "nat n"]
    by (auto simp: int_str_def split: if_splits)
  show ?thesis
  proof (cases "m < 0")
    case True
    with sgn eq have "nat_str (nat (- m)) @ r = nat_str (nat (- n)) @ s"
      by (simp add: int_str_def)
    with assms(2,3) have "nat (- m) = nat (- n) \<and> r = s" by (intro nat_str_append_inj)
    with True sgn show ?thesis by auto
  next
    case False
    with sgn eq have "nat_str (nat m) @ r = nat_str (nat n) @ s" by (simp add: int_str_def)
    with assms(2,3) have "nat m = nat n \<and> r = s" by (intro nat_str_append_inj)
    with False sgn show ?thesis by auto
  qed
qed

lemma int_str_inj: "int_str m = int_str n \<Longrightarrow> m = n"
  using int_str_append_inj [of m "[]" n "[]"] by (simp add: ends_def)

lemma hex_char_inj: "a < 16 \<Longrightarrow> b < 16 \<Longrightarrow> hex_char a = hex_char b \<Longrightarrow> a = b"
proof -
  assume "a < 16" "b < 16" "hex_char a = hex_char b"
  moreover have "of_char (hex_char d) = (if d < 10 then 48 + d else 87 + d)" if "d < 16" for d
    using that by (simp add: hex_char_def)
  ultimately have "(if a < 10 then 48 + a else 87 + a) = (if b < 10 then 48 + b else 87 + b)"
    by metis
  then show ?thesis by (simp split: if_splits)
qed

lemma control_hex_inj:
  fixes m n :: nat
  assumes "m < 32" and "n < 32"
    and "hex_char (m div 16) = hex_char (n div 16)" and "hex_char (m mod 16) = hex_char (n mod 16)"
  shows "m = n"
proof -
  have "m div 16 = n div 16" "m mod 16 = n mod 16"
    using assms by (auto intro!: hex_char_inj)
  then show ?thesis by (metis div_mult_mod_eq)
qed

lemma of_char_inj: "(of_char c :: nat) = of_char d \<Longrightarrow> c = d"
  by (metis char_of_char)

lemma esc_cases:
  obtains (plain) "esc c = [c]" "of_char c \<noteq> (92 :: nat)" "of_char c \<noteq> (34 :: nat)" "\<not> of_char c < (32 :: nat)"
  | (short) x where "esc c = [CHR 0x5C, x]" "x \<noteq> CHR ''u''"
      "(x, of_char c) \<in> {(CHR 0x22, 34), (CHR 0x5C, 92 :: nat), (CHR ''b'', 8), (CHR ''t'', 9), (CHR ''n'', 10), (CHR ''f'', 12), (CHR ''r'', 13)}"
  | (hex) "esc c = [CHR 0x5C, CHR ''u'', CHR ''0'', CHR ''0'', hex_char (of_char c div 16), hex_char (of_char c mod 16)]"
      "of_char c < (32 :: nat)"
  by (cases "of_char c \<in> {34, 92, 8, 9, 10, 12, 13 :: nat}"; cases "of_char c < (32 :: nat)")
     (auto simp: esc_def Let_def)

lemma esc_append_inj: "esc c @ r = esc d @ s \<Longrightarrow> c = d \<and> r = s"
proof -
  assume eq: "esc c @ r = esc d @ s"
  show ?thesis
  proof (cases c rule: esc_cases)
    case plain
    with eq show ?thesis by (cases d rule: esc_cases) auto
  next
    case (short x)
    with eq show ?thesis by (cases d rule: esc_cases) (auto intro: of_char_inj)
  next
    case hex
    with eq show ?thesis
      by (cases d rule: esc_cases) (auto intro: of_char_inj control_hex_inj)
  qed
qed

lemma esc_head: "\<exists>x xs. esc c = x # xs \<and> x \<noteq> CHR 0x22"
  by (cases c rule: esc_cases) auto

lemma quote_body_inj:
  "concat (map esc s) @ CHR 0x22 # r = concat (map esc t) @ CHR 0x22 # u \<Longrightarrow> s = t \<and> r = u"
proof (induction s arbitrary: t)
  case Nil
  show ?case
  proof (cases t)
    case (Cons d t')
    obtain x xs where "esc d = x # xs" "x \<noteq> CHR 0x22" using esc_head by blast
    with Nil Cons show ?thesis by simp
  qed (use Nil in simp)
next
  case (Cons c s)
  obtain x xs where x: "esc c = x # xs" "x \<noteq> CHR 0x22" using esc_head by blast
  show ?case
  proof (cases t)
    case Nil
    with Cons.prems x show ?thesis by simp
  next
    case (Cons d t')
    with Cons.prems
    have "esc c @ (concat (map esc s) @ CHR 0x22 # r) = esc d @ (concat (map esc t') @ CHR 0x22 # u)"
      by simp
    from esc_append_inj [OF this] Cons Cons.IH [of t'] show ?thesis by simp
  qed
qed

lemma quote_append_inj: "quote s @ r = quote t @ u \<Longrightarrow> s = t \<and> r = u"
  by (rule quote_body_inj) (simp add: quote_def)

section \<open>Canonical text determines the value\<close>

lemma join_Cons: "join sep (x # xs) = x @ (if xs = [] then [] else sep @ join sep xs)"
  by (cases xs) simp_all

text \<open>
  Comma-separated renderings between brackets are uniquely readable when each element
  is: the rest after an element starts with a comma or the closing bracket.
\<close>

lemma join_inj:
  assumes elem: "\<And>x y r s. x \<in> set xs \<Longrightarrow> y \<in> set ys \<Longrightarrow> ends r \<Longrightarrow> ends s \<Longrightarrow>
      f x @ r = f y @ s \<Longrightarrow> x = y \<and> r = s"
    and head: "\<And>x. x \<in> set xs \<union> set ys \<Longrightarrow> \<not> ends (f x)"
    and close: "c = CHR '']'' \<or> c = CHR ''}''"
    and eq: "join '','' (map f xs) @ c # r = join '','' (map f ys) @ c # s"
  shows "xs = ys \<and> r = s"
  using elem head eq
proof (induction xs arbitrary: ys)
  case Nil
  show ?case
  proof (cases ys)
    case Nil
    with Nil.prems(3) show ?thesis by simp
  next
    case (Cons y ys')
    then have "\<not> ends (f y)" using Nil.prems(2) by simp
    with Nil.prems(3) Cons close show ?thesis
      by (cases "f y") (auto simp: join_Cons ends_def)
  qed
next
  case (Cons x xs)
  show ?case
  proof (cases ys)
    case Nil
    have "\<not> ends (f x)" using Cons.prems(2) by simp
    with Cons.prems(3) Nil close show ?thesis
      by (cases "f x") (auto simp: join_Cons ends_def)
  next
    case (Cons y ys')
    define tx where "tx = (if xs = [] then [] else '','' @ join '','' (map f xs)) @ c # r"
    define ty where "ty = (if ys' = [] then [] else '','' @ join '','' (map f ys')) @ c # s"
    have eq': "f x @ tx = f y @ ty"
      using Cons.prems(3) Cons by (simp add: join_Cons tx_def ty_def)
    have "ends tx" "ends ty" using close by (auto simp: tx_def ty_def ends_def)
    with eq' Cons.prems(1) [of x y tx ty] Cons have xy: "x = y" "tx = ty" by simp_all
    have "xs = [] \<longleftrightarrow> ys' = []"
      using xy(2) close by (auto simp: tx_def ty_def split: if_splits)
    with xy(2) have "join '','' (map f xs) @ c # r = join '','' (map f ys') @ c # s"
      by (auto simp: tx_def ty_def split: if_splits)
    with Cons.IH [of ys'] Cons.prems(1,2) Cons xy(1) show ?thesis by auto
  qed
qed

text \<open>The first character of a rendering tells the kind of the value.\<close>

fun head_ok :: "jsv \<Rightarrow> char \<Rightarrow> bool" where
  "head_ok Null c = (c = CHR ''n'')"
| "head_ok (Bool b) c = (c = (if b then CHR ''t'' else CHR ''f''))"
| "head_ok (Num _) c = (decimal c \<or> c = CHR ''-'')"
| "head_ok (Str _) c = (c = CHR 0x22)"
| "head_ok (Arr _) c = (c = CHR ''['')"
| "head_ok (Obj _) c = (c = CHR ''{'')"
| "head_ok _ c = False"

fun kind :: "jsv \<Rightarrow> nat" where
  "kind Undef = 0" | "kind Null = 1" | "kind (Bool _) = 2" | "kind (Num _) = 3"
| "kind (Str _) = 4" | "kind (DateV _) = 5" | "kind (Arr _) = 6" | "kind (Obj _) = 7"

lemma head_ok_kind: "head_ok v c \<Longrightarrow> head_ok w c \<Longrightarrow> kind v = kind w"
  by (cases v; cases w) (simp_all add: decimal_def split: if_splits)

lemma head_ok_not_ends: "head_ok v c \<Longrightarrow> c \<notin> set '',]}''"
  by (cases v) (auto simp: decimal_def split: if_splits)

lemma json_ok_Num: "json_ok (Num x) \<Longrightarrow> \<exists>m. x = Fin (of_int m)"
  by (cases x) auto

lemma int_str_head: "\<exists>c cs. int_str m = c # cs \<and> (decimal c \<or> c = CHR ''-'')"
  using nat_str_head [of "nat m"] by (auto simp: int_str_def)

lemma render_head: "json_ok v \<Longrightarrow> \<exists>c cs. render v = c # cs \<and> head_ok v c"
proof (cases v)
  case (Num x)
  assume "json_ok v"
  with Num obtain m where "x = Fin (of_int m)" using json_ok_Num by blast
  with Num show ?thesis using int_str_head [of m] by auto
qed (auto simp: quote_def)

lemma render_not_ends:
  assumes "json_ok v"
  shows "\<not> ends (render v)"
proof -
  obtain c cs where "render v = c # cs" "head_ok v c" using render_head assms by blast
  then show ?thesis using head_ok_not_ends by (simp add: ends_def)
qed

lemma render_same_kind:
  assumes "json_ok v" and "json_ok w" and "render v @ r = render w @ s"
  shows "kind v = kind w"
proof -
  obtain c cs where v: "render v = c # cs" "head_ok v c" using render_head assms(1) by blast
  obtain d ds where w: "render w = d # ds" "head_ok w d" using render_head assms(2) by blast
  from v(1) w(1) assms(3) have "c = d" by simp
  with v(2) w(2) show ?thesis using head_ok_kind by blast
qed

lemma render_append_inj:
  "json_ok v \<Longrightarrow> json_ok w \<Longrightarrow> ends r \<Longrightarrow> ends s \<Longrightarrow> render v @ r = render w @ s \<Longrightarrow> v = w \<and> r = s"
proof (induction v arbitrary: w r s)
  case Undef
  then show ?case by simp
next
  case (DateV d)
  then show ?case by simp
next
  case Null
  from render_same_kind [OF Null.prems(1,2,5)] Null.prems(5) show ?case by (cases w) auto
next
  case (Bool b)
  from render_same_kind [OF Bool.prems(1,2,5)] Bool.prems(5) show ?case
    by (cases w) (auto split: if_splits)
next
  case (Num x)
  from render_same_kind [OF Num.prems(1,2,5)] obtain y where y: "w = Num y" by (cases w) auto
  obtain m n where mn: "x = Fin (of_int m)" "y = Fin (of_int n)"
    using Num.prems(1,2) y json_ok_Num by blast
  from Num.prems(5) mn y have "int_str m @ r = int_str n @ s" by simp
  with Num.prems(3,4) have "m = n \<and> r = s" by (intro int_str_append_inj)
  with mn y show ?case by simp
next
  case (Str t)
  from render_same_kind [OF Str.prems(1,2,5)] obtain u where w: "w = Str u" by (cases w) auto
  with Str.prems(5) have "quote t @ r = quote u @ s" by simp
  from quote_append_inj [OF this] w show ?case by simp
next
  case (Arr xs)
  from render_same_kind [OF Arr.prems(1,2,5)] obtain ys where w: "w = Arr ys" by (cases w) auto
  with Arr.prems(5) have "join '','' (map render xs) @ CHR '']'' # r = join '','' (map render ys) @ CHR '']'' # s"
    by simp
  moreover have "x = y \<and> r' = s'" if "x \<in> set xs" "y \<in> set ys" "ends r'" "ends s'"
      "render x @ r' = render y @ s'" for x y r' s'
    using that Arr.IH [of x y r' s'] Arr.prems(1,2) w by (auto simp: list_all_iff)
  moreover have "\<not> ends (render x)" if "x \<in> set xs \<union> set ys" for x
    using that Arr.prems(1,2) w by (auto simp: list_all_iff render_not_ends)
  ultimately have "xs = ys \<and> r = s" by (intro join_inj [where f = render and c = "CHR '']''"]) auto
  with w show ?case by simp
next
  case (Obj kvs)
  let ?f = "\<lambda>(k, v). quote k @ '':'' @ render v"
  from render_same_kind [OF Obj.prems(1,2,5)] obtain kws where w: "w = Obj kws" by (cases w) auto
  with Obj.prems(5) have "join '','' (map ?f kvs) @ CHR ''}'' # r = join '','' (map ?f kws) @ CHR ''}'' # s"
    by simp
  moreover have "x = y \<and> r' = s'" if xy: "x \<in> set kvs" "y \<in> set kws" and e: "ends r'" "ends s'"
      and eq: "?f x @ r' = ?f y @ s'" for x y r' s'
  proof -
    obtain k v k' v' where p: "x = (k, v)" "y = (k', v')" by (cases x; cases y)
    with eq have "quote k @ ('':'' @ render v @ r') = quote k' @ ('':'' @ render v' @ s')" by simp
    from quote_append_inj [OF this] have kv: "k = k'" "render v @ r' = render v' @ s'" by simp_all
    have ok: "json_ok v" "json_ok v'" using xy p Obj.prems(1,2) w by (auto simp: list_all_iff)
    have "v \<in> Basic_BNFs.snds x" using p by simp
    from Obj.IH [OF xy(1) this ok e kv(2)] p kv(1) show ?thesis by simp
  qed
  moreover have "\<not> ends (?f x)" if "x \<in> set kvs \<union> set kws" for x
    by (cases x) (simp add: quote_def ends_def)
  ultimately have "kvs = kws \<and> r = s" by (intro join_inj [where f = ?f and c = "CHR ''}''"]) auto
  with w show ?case by simp
qed

text \<open>
  Equal canonical texts come from equal values up to the order of object keys, whatever
  the two orders of keys are.
\<close>

lemma canonical_json_inj:
  assumes "json_ok v" and "json_ok w"
  shows "canonical_json fs cmp v = canonical_json fs cmp w \<longleftrightarrow> sort_keys cmp v = sort_keys cmp w"
proof -
  have "render (sort_keys cmp v) = render (sort_keys cmp w) \<Longrightarrow> sort_keys cmp v = sort_keys cmp w"
    using render_append_inj [of "sort_keys cmp v" "sort_keys cmp w" "[]" "[]"] assms
    by (simp add: json_ok_sort_keys ends_def)
  with assms show ?thesis by (auto simp: canonical_json_render)
qed

lemma sort_keys_Obj_mset:
  "sort_keys cmp (Obj kvs) = sort_keys cmp (Obj kws) \<Longrightarrow>
   mset (map (\<lambda>(k, v). (k, sort_keys cmp v)) kvs) = mset (map (\<lambda>(k, v). (k, sort_keys cmp v)) kws)"
proof -
  assume "sort_keys cmp (Obj kvs) = sort_keys cmp (Obj kws)"
  then have "js_sort (\<lambda>a b. cmp (fst a) (fst b)) (map (\<lambda>(k, v). (k, sort_keys cmp v)) kvs)
      = js_sort (\<lambda>a b. cmp (fst a) (fst b)) (map (\<lambda>(k, v). (k, sort_keys cmp v)) kws)" by simp
  from arg_cong [OF this, of mset] show ?thesis by (simp only: mset_js_sort)
qed

lemma sort_keys_Obj_map_of:
  assumes "sort_keys cmp (Obj kvs) = sort_keys cmp (Obj kws)"
    and "distinct (map fst kvs)" and "distinct (map fst kws)"
  shows "map_option (sort_keys cmp) (map_of kvs k) = map_option (sort_keys cmp) (map_of kws k)"
proof -
  let ?n = "\<lambda>(k, v). (k :: string, sort_keys cmp v)"
  have eq: "set (map ?n kvs) = set (map ?n kws)"
    by (rule mset_eq_setD) (rule sort_keys_Obj_mset [OF assms(1)])
  have dist: "distinct (map fst (map ?n kvs))" "distinct (map fst (map ?n kws))"
    using assms(2,3) by (simp_all add: case_prod_beta comp_def)
  have "map_of (map ?n kvs) k = map_of (map ?n kws) k"
    using map_of_inject_set [OF dist] eq by simp
  then show ?thesis by (simp add: map_of_map case_prod_beta)
qed

end
