(* ===== verification/Iso_Time.thy ===== *)
theory Iso_Time
  imports Json
begin

text \<open>
  \<open>Date.prototype.toISOString\<close> on time values (milliseconds since 1970), the parser of
  the texts it produces, and the contract \<open>js_dates\<close> under which the components use
  \<open>Date.parse\<close>: it reads back what \<open>toISOString\<close> wrote. The contract is discharged on
  the parser \<open>parse_iso\<close> of the extended ISO format; \<open>Date.parse\<close> may accept more texts
  than that, which no component relies on.
\<close>

section \<open>The Gregorian calendar\<close>

text \<open>Days since 1 March of year 0, in eras of 400 years (146097 days).\<close>

definition year_of_era :: "int \<Rightarrow> int" where
  "year_of_era doe =
     (doe - doe div 1460 + doe div 36524 - doe div 146096) div 365"

definition year_start :: "int \<Rightarrow> int" where
  "year_start yoe = 365 * yoe + yoe div 4 - yoe div 100"

definition civil_of_day :: "int \<Rightarrow> int \<times> int \<times> int" where
  "civil_of_day z = (let
     shifted = z + 719468;
     era = shifted div 146097;
     doe = shifted mod 146097;
     yoe = year_of_era doe;
     doy = doe - year_start yoe;
     mp = (5 * doy + 2) div 153;
     d = doy - (153 * mp + 2) div 5 + 1;
     m = (if mp < 10 then mp + 3 else mp - 9)
   in (yoe + era * 400 + (if m \<le> 2 then 1 else 0), m, d))"

fun day_of_civil :: "int \<times> int \<times> int \<Rightarrow> int" where
  "day_of_civil (y, m, d) = (let
     y' = (if m \<le> 2 then y - 1 else y);
     mp = (if 2 < m then m - 3 else m + 9);
     doy = (153 * mp + 2) div 5 + d - 1
   in (y' div 400) * 146097 + (year_start (y' mod 400) + doy) - 719468)"

lemma era_day_mono:
  fixes x y :: int
  assumes "x \<le> y"
  shows "x - x div 1460 + x div 36524 - x div 146096 \<le> y - y div 1460 + y div 36524 - y div 146096"
proof -
  have four: "z div 146096 = z div 36524 div 4" for z :: int
    by (simp add: zdiv_zmult2_eq [symmetric])
  have "x - x div 1460 \<le> y - y div 1460" using assms by linarith
  moreover have "x div 36524 \<le> y div 36524" using assms by (simp add: zdiv_mono1)
  then have "x div 36524 - x div 36524 div 4 \<le> y div 36524 - y div 36524 div 4" by linarith
  ultimately show ?thesis by (simp add: four)
qed

lemma year_of_era_bounds:
  assumes "0 \<le> doe" and "doe < 146097"
  shows "0 \<le> year_of_era doe" and "year_of_era doe < 400"
proof -
  have "0 - 0 div 1460 + 0 div 36524 - 0 div 146096 \<le> doe - doe div 1460 + doe div 36524 - doe div (146096 :: int)"
    using assms(1) by (rule era_day_mono)
  then show "0 \<le> year_of_era doe" by (simp add: year_of_era_def)
  have "doe - doe div 1460 + doe div 36524 - doe div 146096
      \<le> 146096 - 146096 div 1460 + 146096 div 36524 - 146096 div (146096 :: int)"
    using assms(2) by (intro era_day_mono) simp
  then show "year_of_era doe < 400" by (simp add: year_of_era_def)
qed

text \<open>The day lies in the year that was computed for it.\<close>

lemma day_in_year:
  assumes "0 \<le> doe" and "doe < 146097"
  shows "0 \<le> doe - year_start (year_of_era doe)" and "doe - year_start (year_of_era doe) \<le> 366"
proof -
  define Y where "Y = year_of_era doe"
  define c where "c = Y div 100"
  define k where "k = Y mod 100 div 4"
  define j where "j = Y mod 100 mod 4"
  define f where "f x = x - x div 1460 + x div 36524 - x div 146096" for x :: int
  have mono: "f x \<le> f y" if "x \<le> y" for x y unfolding f_def using that by (rule era_day_mono)
  have Yb: "0 \<le> Y" "Y < 400" using year_of_era_bounds [OF assms] by (simp_all add: Y_def)
  have r: "0 \<le> Y mod 100" "Y mod 100 < 100" by simp_all
  have c: "0 \<le> c" "c \<le> 3" using Yb unfolding c_def by linarith+
  have k: "0 \<le> k" "k \<le> 24" using r unfolding k_def by linarith+
  have j: "0 \<le> j" "j \<le> 3" unfolding j_def by linarith+
  note b = c k j
  have "Y = 100 * c + Y mod 100" by (simp add: c_def)
  moreover have "Y mod 100 = 4 * k + j" by (simp add: k_def j_def)
  ultimately have Y: "Y = 100 * c + 4 * k + j" by simp
  have S: "year_start Y = 36524 * c + 1461 * k + 365 * j"
  proof -
    have "Y div 4 = 25 * c + k" "Y div 100 = c" using Y b by linarith+
    then show ?thesis using Y by (simp add: year_start_def)
  qed
  have low: "365 * Y \<le> f doe" and up: "f doe < 365 * Y + 365"
    unfolding Y_def year_of_era_def f_def [symmetric] by linarith+
  show "0 \<le> doe - year_start (year_of_era doe)"
  proof (rule ccontr)
    assume "\<not> 0 \<le> doe - year_start (year_of_era doe)"
    then have le: "doe \<le> year_start Y - 1" by (simp add: Y_def)
    have Ypos: "0 < Y" using le assms(1) S Y b by (cases "Y = 0") auto
    have "(year_start Y - 1) div 1460 = 25 * c + k"
      using S Y b Ypos by linarith
    moreover have "(year_start Y - 1) div 36524 \<le> c" using S b by linarith
    moreover have "0 \<le> (year_start Y - 1) div 146096" using le assms(1) by linarith
    ultimately have "f (year_start Y - 1) < 365 * Y" using S Y by (simp add: f_def)
    with mono [OF le] low show False by linarith
  qed
  show "doe - year_start (year_of_era doe) \<le> 366"
  proof (rule ccontr)
    assume "\<not> doe - year_start (year_of_era doe) \<le> 366"
    then have le: "year_start Y + 367 \<le> doe" by (simp add: Y_def)
    have "(year_start Y + 367) div 1460 \<le> 25 * c + k + 1" using S b by linarith
    moreover have "(year_start Y + 367) div 146096 \<le> (year_start Y + 367) div 36524 - c"
    proof (cases "year_start Y + 367 < 146096")
      case True
      have "0 \<le> year_start Y + 367" "c \<le> (year_start Y + 367) div 36524" using S b by linarith+
      with True show ?thesis by (simp add: div_pos_pos_trivial)
    next
      case False
      then have "4 \<le> (year_start Y + 367) div 36524" "(year_start Y + 367) div 146096 \<le> 1"
        using S b by linarith+
      with b(2) show ?thesis by linarith
    qed
    ultimately have "365 * Y + 365 \<le> f (year_start Y + 367)" using S Y by (simp add: f_def)
    with mono [OF le] up show False by linarith
  qed
qed

lemma day_of_civil_of_day: "day_of_civil (civil_of_day z) = z"
proof -
  define shifted where "shifted = z + 719468"
  define era where "era = shifted div 146097"
  define doe where "doe = shifted mod 146097"
  define yoe where "yoe = year_of_era doe"
  define doy where "doy = doe - year_start yoe"
  define mp where "mp = (5 * doy + 2) div 153"
  define m where "m = (if mp < 10 then mp + 3 else mp - 9)"
  have doe: "0 \<le> doe" "doe < 146097" by (simp_all add: doe_def)
  have yoe: "0 \<le> yoe" "yoe < 400" using year_of_era_bounds [OF doe] by (simp_all add: yoe_def)
  have doy: "0 \<le> doy" "doy \<le> 366" using day_in_year [OF doe] by (simp_all add: doy_def yoe_def)
  have mp: "0 \<le> mp" "mp \<le> 11" using doy unfolding mp_def by linarith+
  have unshift: "(if 2 < m then m - 3 else m + 9) = mp" using mp by (simp add: m_def)
  have civil: "civil_of_day z
      = (yoe + era * 400 + (if m \<le> 2 then 1 else 0), m, doy - (153 * mp + 2) div 5 + 1)"
    by (simp add: civil_of_day_def Let_def shifted_def era_def doe_def yoe_def doy_def mp_def m_def)
  have y: "(if m \<le> 2 then yoe + era * 400 + (if m \<le> 2 then 1 else 0) - 1
      else yoe + era * 400 + (if m \<le> 2 then 1 else 0)) = yoe + era * 400" by simp
  have "(yoe + era * 400) div 400 = era" "(yoe + era * 400) mod 400 = yoe" using yoe by simp_all
  then have "day_of_civil (civil_of_day z) = era * 146097 + (year_start yoe + doy) - 719468"
    unfolding civil day_of_civil.simps Let_def unshift y by simp
  also have "\<dots> = era * 146097 + doe - 719468" by (simp add: doy_def)
  also have "\<dots> = z" by (simp add: era_def doe_def shifted_def)
  finally show ?thesis .
qed

section \<open>Text\<close>

text \<open>\<open>String(n).padStart(k, "0")\<close> for a number of at most \<open>k\<close> digits.\<close>

fun pad :: "nat \<Rightarrow> nat \<Rightarrow> string" where
  "pad 0 n = []"
| "pad (Suc k) n = pad k (n div 10) @ [digit_char (n mod 10)]"

lemma length_pad [simp]: "length (pad k n) = k"
  by (induction k arbitrary: n) auto

lemma nat_of_str_pad: "nat_of_str (pad k n) = n mod 10 ^ k"
proof (induction k arbitrary: n)
  case 0
  show ?case by (simp add: nat_of_str_def)
next
  case (Suc k)
  have "nat_of_str (pad (Suc k) n) = 10 * (n div 10 mod 10 ^ k) + n mod 10"
    using Suc.IH [of "n div 10"] by (simp add: nat_of_str_def of_char_digit_char)
  also have "\<dots> = n mod 10 ^ Suc k" by (simp add: mod_mult2_eq)
  finally show ?case .
qed

lemma nat_of_str_pad_small [simp]: "n < 10 ^ k \<Longrightarrow> nat_of_str (pad k n) = n"
  by (simp add: nat_of_str_pad)

definition max_time :: int where
  "max_time = 8640000000000000"

text \<open>Years outside 0 to 9999 have a sign and six digits.\<close>

definition year_text :: "int \<Rightarrow> string" where
  "year_text y = (if 0 \<le> y \<and> y \<le> 9999 then pad 4 (nat y)
     else (if y < 0 then CHR ''-'' else CHR ''+'') # pad 6 (nat \<bar>y\<bar>))"

definition iso_text :: "int \<Rightarrow> string" where
  "iso_text t = (let
     (y, m, d) = civil_of_day (t div 86400000);
     ms = t mod 86400000
   in year_text y @ CHR ''-'' # pad 2 (nat m) @ CHR ''-'' # pad 2 (nat d) @ CHR ''T'' #
      pad 2 (nat (ms div 3600000)) @ CHR '':'' # pad 2 (nat (ms div 60000 mod 60)) @ CHR '':'' #
      pad 2 (nat (ms div 1000 mod 60)) @ CHR ''.'' # pad 3 (nat (ms mod 1000)) @ [CHR ''Z''])"

text \<open>\<open>new Date(t).toISOString()\<close>: a \<open>RangeError\<close> outside the range of time values.\<close>

definition to_iso_string :: "int \<Rightarrow> string option" where
  "to_iso_string t = (if \<bar>t\<bar> \<le> max_time then Some (iso_text t) else None)"

section \<open>Reading it back\<close>

definition iso_fields :: "string \<Rightarrow> int \<times> string" where
  "iso_fields s = (if length s = 24 then (int (nat_of_str (take 4 s)), drop 5 s)
     else ((if hd s = CHR ''-'' then -1 else 1) * int (nat_of_str (take 6 (tl s))), drop 8 s))"

definition read_iso :: "string \<Rightarrow> int" where
  "read_iso s = (let (y, r) = iso_fields s in
     day_of_civil (y, int (nat_of_str (take 2 r)), int (nat_of_str (take 2 (drop 3 r)))) * 86400000
     + int (nat_of_str (take 2 (drop 6 r))) * 3600000 + int (nat_of_str (take 2 (drop 9 r))) * 60000
     + int (nat_of_str (take 2 (drop 12 r))) * 1000 + int (nat_of_str (take 3 (drop 15 r))))"

definition parse_iso :: "string \<Rightarrow> int option" where
  "parse_iso s = (let t = read_iso s in if \<bar>t\<bar> \<le> max_time \<and> iso_text t = s then Some t else None)"

lemma civil_of_day_bounds:
  assumes "civil_of_day z = (y, m, d)"
  shows "1 \<le> m" and "m \<le> 12" and "1 \<le> d" and "d \<le> 31"
proof -
  define doe where "doe = (z + 719468) mod 146097"
  define doy where "doy = doe - year_start (year_of_era doe)"
  define mp where "mp = (5 * doy + 2) div 153"
  have doe: "0 \<le> doe" "doe < 146097" by (simp_all add: doe_def)
  have doy: "0 \<le> doy" "doy \<le> 366" using day_in_year [OF doe] by (simp_all add: doy_def)
  have mp: "0 \<le> mp" "mp \<le> 11" using doy unfolding mp_def by linarith+
  have m: "m = (if mp < 10 then mp + 3 else mp - 9)" and d: "d = doy - (153 * mp + 2) div 5 + 1"
    using assms by (simp_all add: civil_of_day_def Let_def mp_def doy_def doe_def split: if_splits)
  show "1 \<le> m" "m \<le> 12" using m mp by auto
  have "153 * mp \<le> 5 * doy + 2" "5 * doy + 2 < 153 * mp + 153" unfolding mp_def by linarith+
  with d show "1 \<le> d" "d \<le> 31" by linarith+
qed

lemma civil_of_day_year:
  "fst (civil_of_day z) = year_of_era ((z + 719468) mod 146097) + (z + 719468) div 146097 * 400
     + (if fst (snd (civil_of_day z)) \<le> 2 then 1 else 0)"
  by (simp add: civil_of_day_def Let_def)

lemma civil_year_bound:
  assumes "civil_of_day z = (y, m, d)" and "\<bar>z\<bar> \<le> 100000000"
  shows "\<bar>y\<bar> < 1000000"
proof -
  define shifted where "shifted = z + 719468"
  define yoe where "yoe = year_of_era (shifted mod 146097)"
  have "0 \<le> yoe" "yoe < 400" unfolding yoe_def by (rule year_of_era_bounds; simp)+
  moreover have "\<bar>shifted div 146097\<bar> \<le> 1000" using assms(2) unfolding shifted_def by linarith
  moreover have "y = yoe + shifted div 146097 * 400 + (if m \<le> 2 then 1 else 0)"
    using civil_of_day_year [of z] by (simp only: assms(1) fst_conv snd_conv shifted_def yoe_def)
  ultimately show ?thesis by (cases "m \<le> 2") (simp_all add: abs_le_iff abs_less_iff)
qed

lemma time_of_day:
  fixes ms :: int
  shows "ms div 3600000 * 3600000 + ms div 60000 mod 60 * 60000 + ms div 1000 mod 60 * 1000 + ms mod 1000 = ms"
proof -
  define s where "s = ms div 1000"
  define n where "n = s div 60"
  have div: "ms div 60000 = n" "ms div 3600000 = n div 60"
    by (simp_all add: n_def s_def zdiv_zmult2_eq [symmetric])
  have ms: "ms = s * 1000 + ms mod 1000" and s: "s = n * 60 + s mod 60" and n: "n = n div 60 * 60 + n mod 60"
    by (simp_all add: s_def n_def)
  show ?thesis unfolding div s_def [symmetric] using ms s n by linarith
qed

lemma read_iso_iso_text:
  assumes "\<bar>t\<bar> \<le> max_time"
  shows "read_iso (iso_text t) = t"
proof -
  obtain y m d where civil: "civil_of_day (t div 86400000) = (y, m, d)" by (cases "civil_of_day (t div 86400000)")
  define ms where "ms = t mod 86400000"
  have ms: "0 \<le> ms" "ms < 86400000" by (simp_all add: ms_def)
  have md: "1 \<le> m" "m \<le> 12" "1 \<le> d" "d \<le> 31" using civil_of_day_bounds [OF civil] by simp_all
  have "\<bar>t div 86400000\<bar> \<le> 100000000" using assms unfolding max_time_def by linarith
  from civil_year_bound [OF civil this] have y: "\<bar>y\<bar> < 1000000" .
  define r where "r = pad 2 (nat m) @ CHR ''-'' # pad 2 (nat d) @ CHR ''T'' #
      pad 2 (nat (ms div 3600000)) @ CHR '':'' # pad 2 (nat (ms div 60000 mod 60)) @ CHR '':'' #
      pad 2 (nat (ms div 1000 mod 60)) @ CHR ''.'' # pad 3 (nat (ms mod 1000)) @ [CHR ''Z'']"
  have shape: "iso_text t = year_text y @ CHR ''-'' # r"
    by (simp add: iso_text_def civil ms_def r_def Let_def)
  have "length r = 19" by (simp add: r_def)
  then have fields: "iso_fields (iso_text t) = (y, r)"
    using y by (auto simp: iso_fields_def shape year_text_def)
  have time: "ms div 3600000 * 3600000 + ms div 60000 mod 60 * 60000 + ms div 1000 mod 60 * 1000 + ms mod 1000 = ms"
    by (rule time_of_day)
  have parts: "take 2 r = pad 2 (nat m)" "take 2 (drop 3 r) = pad 2 (nat d)"
      "take 2 (drop 6 r) = pad 2 (nat (ms div 3600000))"
      "take 2 (drop 9 r) = pad 2 (nat (ms div 60000 mod 60))"
      "take 2 (drop 12 r) = pad 2 (nat (ms div 1000 mod 60))"
      "take 3 (drop 15 r) = pad 3 (nat (ms mod 1000))"
    by (simp_all add: r_def)
  have small: "nat m < 10 ^ 2" "nat d < 10 ^ 2" "nat (ms div 3600000) < 10 ^ 2"
      "nat (ms div 60000 mod 60) < 10 ^ 2" "nat (ms div 1000 mod 60) < 10 ^ 2" "nat (ms mod 1000) < 10 ^ 3"
    using md ms by (auto simp: nat_less_iff)
  have nonneg: "0 \<le> ms div 3600000" "0 \<le> ms div 60000 mod 60" "0 \<le> ms div 1000 mod 60" "0 \<le> ms mod 1000"
    using ms by (auto simp: pos_imp_zdiv_nonneg_iff)
  have nonneg_md: "0 \<le> m" "0 \<le> d" using md by simp_all
  have day: "day_of_civil (y, m, d) = t div 86400000"
    using day_of_civil_of_day [of "t div 86400000"] by (simp only: civil)
  have "read_iso (iso_text t) = day_of_civil (y, m, d) * 86400000 + ms div 3600000 * 3600000
      + ms div 60000 mod 60 * 60000 + ms div 1000 mod 60 * 1000 + ms mod 1000"
    unfolding read_iso_def fields Let_def prod.case parts small [THEN nat_of_str_pad_small]
    by (simp only: nonneg md int_nat_eq if_True nonneg_md)
  also have "\<dots> = t div 86400000 * 86400000 + ms" unfolding day using time by linarith
  also have "\<dots> = t" by (simp add: ms_def)
  finally show ?thesis .
qed

lemma parse_iso_iso_text: "\<bar>t\<bar> \<le> max_time \<Longrightarrow> parse_iso (iso_text t) = Some t"
  by (simp add: parse_iso_def read_iso_iso_text)

text \<open>\<open>new Date(v)\<close>\<close>

fun new_date :: "jsenv \<Rightarrow> jsv \<Rightarrow> int option" where
  "new_date E Undef = None"
| "new_date E Null = Some 0"
| "new_date E (Bool b) = Some (if b then 1 else 0)"
| "new_date E (Num x) = (case x of Fin r \<Rightarrow>
      if \<bar>r\<bar> \<le> of_int max_time then Some (js_truncate r) else None | _ \<Rightarrow> None)"
| "new_date E (Str s) = date_parse E s"
| "new_date E (DateV t) = t"
| "new_date E v = date_of_object E v"

section \<open>The contract of the date functions\<close>

locale js_dates =
  fixes parse :: "string \<Rightarrow> int option"
  assumes parse_iso_text: "\<bar>t\<bar> \<le> max_time \<Longrightarrow> parse (iso_text t) = Some t"
begin

lemma iso_text_inj: "\<bar>t\<bar> \<le> max_time \<Longrightarrow> \<bar>u\<bar> \<le> max_time \<Longrightarrow> iso_text t = iso_text u \<Longrightarrow> t = u"
  by (metis option.inject parse_iso_text)

lemma parse_to_iso_string: "to_iso_string t = Some s \<Longrightarrow> parse s = Some t"
  by (auto simp: to_iso_string_def parse_iso_text split: if_splits)

end

interpretation iso_dates: js_dates parse_iso
  by unfold_locales (rule parse_iso_iso_text)

end
