(* ===== verification/Protocol.thy ===== *)
theory Protocol
  imports Iso_Time
begin

text \<open>
  The in-process evidence memory of \<open>src/protocol.js\<close>: the class \<open>ProofToActMemory\<close>
  with its private fields as a record, one definition per method, and
  \<open>InMemoryVectorIndex\<close>. A method that changes state returns the new state beside its
  result, so that what a throw leaves behind is visible; a method that only reads
  returns its result. A method reads the clock through \<open>clk\<close>: \<open>clk k\<close> is its \<open>k\<close>-th
  reading, \<open>None\<close> when the clock returned something that is no date.
\<close>

section \<open>Data\<close>

datatype evidence_status = ADMITTED | CONFLICTED | INVALID_PROVENANCE | NOT_YET_VALID | EXPIRED

fun status_text :: "evidence_status \<Rightarrow> string" where
  "status_text ADMITTED = ''admitted''"
| "status_text CONFLICTED = ''conflicted''"
| "status_text INVALID_PROVENANCE = ''invalid_provenance''"
| "status_text NOT_YET_VALID = ''not_yet_valid''"
| "status_text EXPIRED = ''expired''"

record evidence =
  ev_id :: string
  ev_incident :: string
  claim_key :: string
  claim_value :: string
  assertion :: string
  issuer :: string
  scopes :: "string list"
  observed_at :: string
  valid_from :: string
  valid_until :: string
  valid_from_ms :: int
  valid_until_ms :: int
  signature_valid :: bool
  confidence :: rat
  embedding :: "rat list option"
  conflicted :: bool
  ev_status :: "evidence_status option"

record public_view =
  pv_id :: string
  pv_incident :: string
  pv_claim_key :: string
  pv_claim_value :: string
  pv_assertion :: string
  pv_issuer :: string
  pv_scopes :: "string list"
  pv_observed_at :: string
  pv_valid_from :: string
  pv_valid_until :: string
  pv_signature_valid :: bool
  pv_confidence :: rat
  pv_status :: evidence_status
  action_eligible :: bool

record lease =
  ls_incident :: string
  ls_resource :: string
  ls_agent :: string
  ls_operation :: string
  ls_token :: int
  acquired_at :: string
  expires_at :: string
  expires_at_ms :: int

record request =
  rq_agent :: string
  rq_agency :: string
  rq_evidence :: "string list"
  rq_incident :: string
  rq_lease_ms :: int
  rq_resource :: string

datatype outcome =
    Authorization_denied string \<comment> \<open>the reason\<close>
  | Resource_held_denied string int \<comment> \<open>the holder and its fencing token\<close>
  | Resource_reserved int \<comment> \<open>the fencing token\<close>

record receipt =
  rc_operation :: string
  rc_incident :: string
  rc_resource :: string
  rc_agent :: string
  rc_outcome :: outcome
  rc_evidence :: "string list"
  rc_recorded :: string

record receipt_reference =
  receipt_digest :: string
  rs_outcome :: string
  rs_reason :: "string option"
  rs_resource :: string

record checkpoint =
  cp_id :: string
  cp_incident :: string
  cp_agent :: string
  cp_evidence :: "string list"
  cp_receipt :: "receipt_reference option"
  cp_state :: jsv
  cp_recorded :: string

record 'vi memory =
  available :: bool
  checkpoints :: "checkpoint list"
  evidence_map :: "(string \<times> evidence) list"
  fencing_tokens :: "(string \<times> int) list"
  leases :: "(string \<times> lease) list"
  operation_requests :: "(string \<times> request) list"
  receipts :: "(string \<times> receipt) list"
  vector_state :: 'vi

type_synonym clock = "nat \<Rightarrow> int option"

definition new_memory :: "'vi \<Rightarrow> 'vi memory" where
  "new_memory vi = \<lparr>available = True, checkpoints = [], evidence_map = [], fencing_tokens = [],
     leases = [], operation_requests = [], receipts = [], vector_state = vi\<rparr>"

section \<open>Helpers\<close>

definition require_text :: "jsv \<Rightarrow> string \<Rightarrow> js_error + string" where
  "require_text v name =
     (case v of
        Str s \<Rightarrow> if trim s = [] then Inl (TypeErr (name @ '' must be a non-empty string''))
                 else Inr (trim s)
      | _ \<Rightarrow> Inl (TypeErr (name @ '' must be a non-empty string'')))"

definition timestamp :: "jsenv \<Rightarrow> jsv \<Rightarrow> string \<Rightarrow> js_error + int" where
  "timestamp E v name =
     (case date_parse E (js_string E v) of
        None \<Rightarrow> Inl (TypeErr (name @ '' must be an ISO-compatible timestamp''))
      | Some t \<Rightarrow> Inr t)"

text \<open>\<open>new Date(t).toISOString()\<close>\<close>

definition iso_string :: "int \<Rightarrow> js_error + string" where
  "iso_string t =
     (case to_iso_string t of None \<Rightarrow> Inl (RangeErr ''Invalid time value'') | Some s \<Rightarrow> Inr s)"

definition validate_vector :: "jsv \<Rightarrow> string \<Rightarrow> js_error + rat list" where
  "validate_vector v name =
     (case v of
        Arr xs \<Rightarrow> if xs = [] \<or> list_ex (\<lambda>x. as_finite x = None) xs
          then Inl (TypeErr (name @ '' must be a non-empty array of finite numbers''))
          else Inr (map (\<lambda>x. the (as_finite x)) xs)
      | _ \<Rightarrow> Inl (TypeErr (name @ '' must be a non-empty array of finite numbers'')))"

definition read_clock :: "clock \<Rightarrow> nat \<Rightarrow> js_error + int" where
  "read_clock clk k =
     (case clk k of
        None \<Rightarrow> Inl (TypeErr ''clock must return a Date or ISO-compatible timestamp'')
      | Some t \<Rightarrow> Inr t)"

text \<open>\<open>m.get(v)\<close> on a map whose keys are strings\<close>

fun get_any :: "(string \<times> 'a) list \<Rightarrow> jsv \<Rightarrow> 'a option" where
  "get_any m (Str s) = js_get m s"
| "get_any m _ = None"

section \<open>InMemoryVectorIndex\<close>

text \<open>
  Floating-point arithmetic is an argument: the rounded operations on numbers. The
  similarity is computed by the loop of \<open>cosineSimilarity\<close> over them.
\<close>

record arith =
  d_add :: "jnum \<Rightarrow> jnum \<Rightarrow> jnum"
  d_sub :: "jnum \<Rightarrow> jnum \<Rightarrow> jnum"
  d_mul :: "jnum \<Rightarrow> jnum \<Rightarrow> jnum"
  d_square :: "jnum \<Rightarrow> jnum"
  d_div :: "jnum \<Rightarrow> jnum \<Rightarrow> jnum"
  d_sqrt :: "jnum \<Rightarrow> jnum"

fun cosine_loop :: "arith \<Rightarrow> rat list \<Rightarrow> rat list \<Rightarrow> jnum \<times> jnum \<times> jnum \<Rightarrow> jnum \<times> jnum \<times> jnum" where
  "cosine_loop A (x # xs) (y # ys) (dot, lm, rm) =
     cosine_loop A xs ys (d_add A dot (d_mul A (Fin x) (Fin y)),
       d_add A lm (d_square A (Fin x)), d_add A rm (d_square A (Fin y)))"
| "cosine_loop A _ _ acc = acc"

definition cosine_similarity :: "arith \<Rightarrow> rat list \<Rightarrow> rat list \<Rightarrow> js_error + jnum" where
  "cosine_similarity A l r =
     (if length l \<noteq> length r then Inl (TypeErr ''vectors must have the same dimensions'')
      else let (dot, lm, rm) = cosine_loop A l r (Fin 0, Fin 0, Fin 0) in
        if lm = Fin 0 \<or> rm = Fin 0 then Inr (Fin 0)
        else Inr (d_div A dot (d_sqrt A (d_mul A lm rm))))"

fun sign_of :: "jnum \<Rightarrow> int" where
  "sign_of (Fin r) = (if r < 0 then -1 else if 0 < r then 1 else 0)"
| "sign_of PInf = 1"
| "sign_of NInf = -1"
| "sign_of NaN = 0"

text \<open>\<open>right.score - left.score || left.id.localeCompare(right.id)\<close>\<close>

definition compare_scores :: "jsenv \<Rightarrow> arith \<Rightarrow> string \<times> jnum \<Rightarrow> string \<times> jnum \<Rightarrow> int" where
  "compare_scores E A l r =
     (let s = sign_of (d_sub A (snd r) (snd l)) in
      if s \<noteq> 0 then s else localeCompare E (fst l) (fst r))"

type_synonym vectors = "(string \<times> rat list) list"

definition index_upsert :: "string \<Rightarrow> rat list \<Rightarrow> vectors \<Rightarrow> js_error + vectors" where
  "index_upsert i vec vs =
     and_then (require_text (Str i) ''id'') (\<lambda>key.
     and_then (validate_vector (Arr (map (\<lambda>x. Num (Fin x)) vec)) ''embedding'') (\<lambda>copy.
       Inr (js_set key copy vs)))"

definition index_search ::
    "jsenv \<Rightarrow> arith \<Rightarrow> jsv \<Rightarrow> string list \<Rightarrow> jsv \<Rightarrow> vectors \<Rightarrow> js_error + (string \<times> jnum) list" where
  "index_search E A query_vector candidate_ids limit vs =
     and_then (validate_vector query_vector ''queryVector'') (\<lambda>query.
     and_then (map_result (\<lambda>(i, vec). map_sum id (Pair i) (cosine_similarity A query vec))
         (filter (\<lambda>(i, vec). i \<in> set candidate_ids) vs)) (\<lambda>scored.
       Inr (slice_to E (js_sort (compare_scores E A) scored)
         (if limit = Undef then int_num 5 else limit))))"

section \<open>Evidence\<close>

definition set_available :: "'vi memory \<Rightarrow> jsv \<Rightarrow> 'vi memory" where
  "set_available m v = m\<lparr>available := truthy v\<rparr>"

definition status_at :: "evidence \<Rightarrow> int \<Rightarrow> evidence_status" where
  "status_at r t_ms =
     (if \<not> signature_valid r then INVALID_PROVENANCE
      else if t_ms < valid_from_ms r then NOT_YET_VALID
      else if t_ms \<ge> valid_until_ms r then EXPIRED
      else if conflicted r then CONFLICTED else ADMITTED)"

definition public_evidence :: "evidence \<Rightarrow> int \<Rightarrow> public_view" where
  "public_evidence r t_ms =
     \<lparr>pv_id = ev_id r, pv_incident = ev_incident r, pv_claim_key = claim_key r,
      pv_claim_value = claim_value r, pv_assertion = assertion r, pv_issuer = issuer r,
      pv_scopes = scopes r, pv_observed_at = observed_at r, pv_valid_from = valid_from r,
      pv_valid_until = valid_until r, pv_signature_valid = signature_valid r,
      pv_confidence = confidence r, pv_status = status_at r t_ms,
      action_eligible = (status_at r t_ms = ADMITTED)\<rparr>"

text \<open>The record that \<open>ingestEvidence\<close> builds, with every check before its first clock reading.\<close>

definition evidence_of_input :: "jsenv \<Rightarrow> 'vi memory \<Rightarrow> jsv \<Rightarrow> js_error + evidence" where
  "evidence_of_input E m inp =
     and_then (require_text (fld inp ''id'') ''id'') (\<lambda>i.
     if js_get (evidence_map m) i \<noteq> None then Inl (Err (''evidence id already exists: '' @ i)) else
     if \<not> is_array (fld inp ''scopes'') \<or> elements (fld inp ''scopes'') = []
     then Inl (TypeErr ''scopes must contain at least one agency or *'') else
     (case fld inp ''signatureValid'' of Bool sig \<Rightarrow>
     (case as_finite (fld inp ''confidence'') of
        None \<Rightarrow> Inl (TypeErr ''confidence must be between 0 and 1'')
      | Some conf \<Rightarrow>
     if conf < 0 \<or> conf > 1 then Inl (TypeErr ''confidence must be between 0 and 1'') else
     and_then (timestamp E (fld inp ''validFrom'') ''validFrom'') (\<lambda>from_ms.
     and_then (timestamp E (fld inp ''validUntil'') ''validUntil'') (\<lambda>until_ms.
     if until_ms \<le> from_ms then Inl (RangeErr ''validUntil must be later than validFrom'') else
     and_then (require_text (fld inp ''incidentId'') ''incidentId'') (\<lambda>inc.
     and_then (require_text (fld inp ''claimKey'') ''claimKey'') (\<lambda>ck.
     and_then (require_text (fld inp ''claimValue'') ''claimValue'') (\<lambda>cv.
     and_then (require_text (fld inp ''assertion'') ''assertion'') (\<lambda>asrt.
     and_then (require_text (fld inp ''issuer'') ''issuer'') (\<lambda>isr.
     and_then (map_result (\<lambda>s. require_text s ''scope'') (elements (fld inp ''scopes''))) (\<lambda>scs.
     and_then (and_then (timestamp E (fld inp ''observedAt'') ''observedAt'') iso_string) (\<lambda>obs.
     and_then (iso_string from_ms) (\<lambda>from_text.
     and_then (iso_string until_ms) (\<lambda>until_text.
     and_then (if truthy (fld inp ''embedding'')
         then map_sum id Some (validate_vector (fld inp ''embedding'') ''embedding'')
         else Inr None) (\<lambda>emb.
       Inr \<lparr>ev_id = i, ev_incident = inc, claim_key = ck, claim_value = cv, assertion = asrt,
            issuer = isr, scopes = dedup scs, observed_at = obs, valid_from = from_text,
            valid_until = until_text, valid_from_ms = from_ms, valid_until_ms = until_ms,
            signature_valid = sig, confidence = conf, embedding = emb, conflicted = False,
            ev_status = None\<rparr>)))))))))))))
      | _ \<Rightarrow> Inl (TypeErr ''signatureValid must be a boolean'')))"

definition overlapping_scope :: "evidence \<Rightarrow> evidence \<Rightarrow> bool" where
  "overlapping_scope existing r \<longleftrightarrow>
     list_ex (\<lambda>scope. scope = ''*'' \<or> scope \<in> set (scopes r)) (scopes existing)
     \<or> ''*'' \<in> set (scopes r)"

definition contradicts :: "evidence \<Rightarrow> evidence \<Rightarrow> bool" where
  "contradicts existing r \<longleftrightarrow>
     ev_incident existing = ev_incident r \<and> claim_key existing = claim_key r
     \<and> claim_value existing \<noteq> claim_value r \<and> overlapping_scope existing r"

text \<open>\<open>existingCurrent\<close>: the clock is read again when the first status is not \<open>admitted\<close>.\<close>

definition existing_current :: "clock \<Rightarrow> nat \<Rightarrow> evidence \<Rightarrow> js_error + bool \<times> nat" where
  "existing_current clk k e =
     and_then (read_clock clk k) (\<lambda>t.
     if status_at e t = ADMITTED then Inr (True, Suc k) else
     and_then (read_clock clk (Suc k)) (\<lambda>t'.
       Inr (status_at e t' = CONFLICTED, Suc (Suc k))))"

definition mark_conflicted :: "evidence \<Rightarrow> evidence" where
  "mark_conflicted e = e\<lparr>conflicted := True, ev_status := Some CONFLICTED\<rparr>"

fun mark_conflicts :: "clock \<Rightarrow> nat \<Rightarrow> evidence \<Rightarrow> (string \<times> evidence) list \<Rightarrow>
    (string \<times> evidence) list \<times> evidence \<times> (js_error + nat)" where
  "mark_conflicts clk k r [] = ([], r, Inr k)"
| "mark_conflicts clk k r ((i, e) # es) =
     (case existing_current clk k e of
        Inl err \<Rightarrow> ((i, e) # es, r, Inl err)
      | Inr (current, k') \<Rightarrow>
          if contradicts e r \<and> current
          then (let (es', r', res) = mark_conflicts clk k' (mark_conflicted r) es
                in ((i, mark_conflicted e) # es', r', res))
          else (let (es', r', res) = mark_conflicts clk k' r es in ((i, e) # es', r', res)))"

text \<open>The end of \<open>ingestEvidence\<close>: the record is stored, indexed and returned.\<close>

definition store_evidence ::
    "(string \<Rightarrow> rat list \<Rightarrow> 'vi \<Rightarrow> js_error + 'vi) \<Rightarrow> 'vi memory \<Rightarrow> evidence \<Rightarrow> clock \<Rightarrow> nat \<Rightarrow>
     'vi memory \<times> (js_error + public_view)" where
  "store_evidence upsert m r clk k =
     (let m1 = m\<lparr>evidence_map := js_set (ev_id r) r (evidence_map m)\<rparr> in
      case (case embedding r of
              None \<Rightarrow> Inr (vector_state m)
            | Some vec \<Rightarrow> upsert (ev_id r) vec (vector_state m)) of
        Inl err \<Rightarrow> (m1, Inl err)
      | Inr vi \<Rightarrow>
          (m1\<lparr>vector_state := vi\<rparr>,
           and_then (read_clock clk k) (\<lambda>t_end. Inr (public_evidence r t_end))))"

definition ingest_evidence ::
    "jsenv \<Rightarrow> (string \<Rightarrow> rat list \<Rightarrow> 'vi \<Rightarrow> js_error + 'vi) \<Rightarrow> 'vi memory \<Rightarrow> jsv \<Rightarrow> clock \<Rightarrow>
     'vi memory \<times> (js_error + public_view)" where
  "ingest_evidence E upsert m inp clk =
     (if \<not> available m then (m, Inl MemoryUnavailable) else
      case evidence_of_input E m inp of
        Inl err \<Rightarrow> (m, Inl err)
      | Inr built \<Rightarrow>
     (case read_clock clk 0 of
        Inl err \<Rightarrow> (m, Inl err)
      | Inr t \<Rightarrow>
     (let r = built\<lparr>ev_status := Some (status_at built t)\<rparr>;
          (marked, r', res) =
            (if status_at built t = ADMITTED then mark_conflicts clk 1 r (evidence_map m)
             else (evidence_map m, r, Inr 1));
          m' = m\<lparr>evidence_map := marked\<rparr>
      in case res of
           Inl err \<Rightarrow> (m', Inl err)
         | Inr k \<Rightarrow> store_evidence upsert m' r' clk k)))"

definition list_evidence :: "jsenv \<Rightarrow> 'vi memory \<Rightarrow> jsv \<Rightarrow> clock \<Rightarrow> js_error + public_view list" where
  "list_evidence E m inp clk =
     (if \<not> available m then Inl MemoryUnavailable else
      and_then (read_clock clk 0) (\<lambda>at_in.
        Inr (js_sort (\<lambda>l r. localeCompare E (pv_id l) (pv_id r))
          (map (\<lambda>r. public_evidence r at_in)
            (filter (\<lambda>r. \<not> truthy (fld inp ''incidentId'') \<or> fld inp ''incidentId'' = Str (ev_incident r))
              (map snd (evidence_map m)))))))"

text \<open>The default \<open>at = new Date(this.#now()).toISOString()\<close>, evaluated before the body.\<close>

definition default_at :: "jsv \<Rightarrow> clock \<Rightarrow> js_error + jsv" where
  "default_at v clk =
     (if v = Undef then and_then (read_clock clk 0) (\<lambda>t. map_sum id Str (iso_string t)) else Inr v)"

definition in_scope :: "evidence \<Rightarrow> string \<Rightarrow> bool" where
  "in_scope r requester \<longleftrightarrow> ''*'' \<in> set (scopes r) \<or> requester \<in> set (scopes r)"

definition candidates :: "'vi memory \<Rightarrow> string \<Rightarrow> string \<Rightarrow> int \<Rightarrow> evidence list" where
  "candidates m incident requester at_ms =
     filter (\<lambda>r. ev_incident r = incident \<and> status_at r at_ms = ADMITTED \<and> in_scope r requester)
       (map snd (evidence_map m))"

definition compare_confidence :: "jsenv \<Rightarrow> evidence \<Rightarrow> evidence \<Rightarrow> int" where
  "compare_confidence E l r =
     (let s = sign_of (Fin (confidence r - confidence l)) in
      if s \<noteq> 0 then s else localeCompare E (ev_id l) (ev_id r))"

definition retrieve_evidence ::
    "jsenv \<Rightarrow> (jsv \<Rightarrow> string list \<Rightarrow> jsv \<Rightarrow> 'vi \<Rightarrow> js_error + (string \<times> jnum) list) \<Rightarrow>
     'vi memory \<Rightarrow> jsv \<Rightarrow> clock \<Rightarrow> js_error + (public_view \<times> jnum option) list" where
  "retrieve_evidence E search m inp clk =
     and_then (default_at (fld inp ''at'') clk) (\<lambda>at_in.
     let limit = (if fld inp ''limit'' = Undef then int_num 5 else fld inp ''limit'') in
     if \<not> available m then Inl MemoryUnavailable else
     and_then (require_text (fld inp ''incidentId'') ''incidentId'') (\<lambda>incident.
     and_then (require_text (fld inp ''agency'') ''agency'') (\<lambda>requester.
     and_then (timestamp E at_in ''at'') (\<lambda>at_ms.
     let cands = candidates m incident requester at_ms in
     if truthy (fld inp ''queryVector'') then
       and_then (search (fld inp ''queryVector'') (map ev_id cands) limit (vector_state m))
         (map_result (\<lambda>(i, score).
            case map_of (map (\<lambda>r. (ev_id r, r)) (rev cands)) i of
              None \<Rightarrow> Inl (TypeErr ''Cannot read properties of undefined'')
            | Some r \<Rightarrow> Inr (public_evidence r at_ms, Some score)))
     else Inr (map (\<lambda>r. (public_evidence r at_ms, None))
            (slice_to E (js_sort (compare_confidence E) cands) limit))))))"

section \<open>Decisions\<close>

record decision =
  allowed :: bool
  reason :: string
  decision_evidence :: "jsv option"

fun decide_evidence :: "'vi memory \<Rightarrow> string \<Rightarrow> string \<Rightarrow> int \<Rightarrow> jsv list \<Rightarrow> decision" where
  "decide_evidence m incident requester at_ms [] =
     \<lparr>allowed = True, reason = ''evidence_admissible'', decision_evidence = None\<rparr>"
| "decide_evidence m incident requester at_ms (i # ids) =
     (case get_any (evidence_map m) i of
        None \<Rightarrow> \<lparr>allowed = False, reason = ''missing_evidence'', decision_evidence = Some i\<rparr>
      | Some r \<Rightarrow>
          if ev_incident r \<noteq> incident
          then \<lparr>allowed = False, reason = ''missing_evidence'', decision_evidence = Some i\<rparr>
          else if status_at r at_ms = CONFLICTED
          then \<lparr>allowed = False, reason = ''evidence_conflict'', decision_evidence = Some i\<rparr>
          else if status_at r at_ms \<noteq> ADMITTED
          then \<lparr>allowed = False, reason = ''evidence_'' @ status_text (status_at r at_ms),
                decision_evidence = Some i\<rparr>
          else if \<not> in_scope r requester
          then \<lparr>allowed = False, reason = ''evidence_out_of_scope'', decision_evidence = Some i\<rparr>
          else decide_evidence m incident requester at_ms ids)"

definition evaluate_decision :: "jsenv \<Rightarrow> 'vi memory \<Rightarrow> jsv \<Rightarrow> clock \<Rightarrow> js_error + decision" where
  "evaluate_decision E m inp clk =
     and_then (default_at (fld inp ''at'') clk) (\<lambda>at_in.
     if \<not> available m then Inl MemoryUnavailable else
     and_then (require_text (fld inp ''incidentId'') ''incidentId'') (\<lambda>incident.
     and_then (require_text (fld inp ''agency'') ''agency'') (\<lambda>requester.
     and_then (timestamp E at_in ''at'') (\<lambda>at_ms.
     if \<not> is_array (fld inp ''evidenceIds'') \<or> elements (fld inp ''evidenceIds'') = []
     then Inr \<lparr>allowed = False, reason = ''no_evidence'', decision_evidence = None\<rparr>
     else Inr (decide_evidence m incident requester at_ms (elements (fld inp ''evidenceIds'')))))))"

section \<open>Reservations\<close>

datatype reservation =
    Digest_mismatch_denied string
  | Operation_replay string receipt
  | Recorded receipt

definition request_value :: "request \<Rightarrow> jsv" where
  "request_value q = Obj
     [(''agentId'', Str (rq_agent q)),
      (''agency'', Str (rq_agency q)),
      (''evidenceIds'', Arr (map Str (rq_evidence q))),
      (''incidentId'', Str (rq_incident q)),
      (''leaseMs'', int_num (rq_lease_ms q)),
      (''resourceId'', Str (rq_resource q))]"

text \<open>The inputs of \<open>reserveResource\<close>, checked in the order of the code.\<close>

definition reserve_input :: "jsv \<Rightarrow> js_error + string \<times> request" where
  "reserve_input inp =
     and_then (require_text (fld inp ''operationId'') ''operationId'') (\<lambda>operation.
     and_then (require_text (fld inp ''incidentId'') ''incidentId'') (\<lambda>incident.
     and_then (require_text (fld inp ''resourceId'') ''resourceId'') (\<lambda>resource.
     and_then (require_text (fld inp ''agentId'') ''agentId'') (\<lambda>agent.
     and_then (require_text (fld inp ''agency'') ''agency'') (\<lambda>requester.
     if \<not> is_array (fld inp ''evidenceIds'') \<or> elements (fld inp ''evidenceIds'') = []
     then Inl (TypeErr ''evidenceIds must contain at least one evidence id'') else
     and_then (map_result (\<lambda>v. require_text v ''evidenceId'') (elements (fld inp ''evidenceIds''))) (\<lambda>ids.
     case as_safe_integer (if fld inp ''leaseMs'' = Undef then int_num 60000 else fld inp ''leaseMs'') of
       None \<Rightarrow> Inl (TypeErr ''leaseMs must be a positive safe integer'')
     | Some lease_ms \<Rightarrow>
         if lease_ms \<le> 0 then Inl (TypeErr ''leaseMs must be a positive safe integer'')
         else Inr (operation,
           \<lparr>rq_agent = agent, rq_agency = requester, rq_evidence = ids, rq_incident = incident,
            rq_lease_ms = lease_ms, rq_resource = resource\<rparr>)))))))"

definition lease_key :: "string \<Rightarrow> string \<Rightarrow> string" where
  "lease_key incident resource = incident @ '':'' @ resource"

definition make_receipt :: "string \<Rightarrow> request \<Rightarrow> outcome \<Rightarrow> string \<Rightarrow> receipt" where
  "make_receipt operation q out recorded =
     \<lparr>rc_operation = operation, rc_incident = rq_incident q, rc_resource = rq_resource q,
      rc_agent = rq_agent q, rc_outcome = out, rc_evidence = rq_evidence q,
      rc_recorded = recorded\<rparr>"

text \<open>\<open>#operationRequests.set\<close> and \<open>#receipts.set\<close>, as every recorded outcome does.\<close>

definition record_receipt :: "'vi memory \<Rightarrow> string \<Rightarrow> request \<Rightarrow> receipt \<Rightarrow> 'vi memory" where
  "record_receipt m operation q rc =
     m\<lparr>operation_requests := js_set operation q (operation_requests m),
       receipts := js_set operation rc (receipts m)\<rparr>"

text \<open>The answer to an operation that has a receipt already.\<close>

definition replay :: "jsenv \<Rightarrow> 'vi memory \<Rightarrow> string \<Rightarrow> request \<Rightarrow> receipt \<Rightarrow> reservation" where
  "replay E m operation q previous =
     (case js_get (operation_requests m) operation of
        None \<Rightarrow> Digest_mismatch_denied operation
      | Some q' \<Rightarrow>
          if protocol_canonical_json E (request_value q')
               \<noteq> protocol_canonical_json E (request_value q)
          then Digest_mismatch_denied operation
          else Operation_replay operation previous)"

text \<open>
  The grant. The fencing token is stored before the lease is built: a lease whose end is
  no representable date throws with the token already taken.
\<close>

definition grant_lease ::
    "'vi memory \<Rightarrow> string \<Rightarrow> request \<Rightarrow> int \<Rightarrow> string \<Rightarrow> 'vi memory \<times> (js_error + reservation)" where
  "grant_lease m operation q now_ms recorded =
     (let key = lease_key (rq_incident q) (rq_resource q);
          token = (case js_get (fencing_tokens m) key of None \<Rightarrow> 0 | Some t \<Rightarrow> t) + 1;
          m1 = m\<lparr>fencing_tokens := js_set key token (fencing_tokens m)\<rparr>
      in case iso_string (now_ms + rq_lease_ms q) of
           Inl err \<Rightarrow> (m1, Inl err)
         | Inr expires \<Rightarrow>
        (let l = \<lparr>ls_incident = rq_incident q, ls_resource = rq_resource q, ls_agent = rq_agent q,
               ls_operation = operation, ls_token = token, acquired_at = recorded,
               expires_at = expires, expires_at_ms = now_ms + rq_lease_ms q\<rparr>;
             m2 = m1\<lparr>leases := js_set key l (leases m1)\<rparr>;
             rc = make_receipt operation q (Resource_reserved token) recorded
         in (record_receipt m2 operation q rc, Inr (Recorded rc))))"

definition reserve_resource ::
    "jsenv \<Rightarrow> 'vi memory \<Rightarrow> jsv \<Rightarrow> clock \<Rightarrow> 'vi memory \<times> (js_error + reservation)" where
  "reserve_resource E m inp clk =
     (if \<not> available m then (m, Inl MemoryUnavailable) else
      case reserve_input inp of
        Inl err \<Rightarrow> (m, Inl err)
      | Inr (operation, q) \<Rightarrow>
     (case js_get (receipts m) operation of
        Some previous \<Rightarrow> (m, Inr (replay E m operation q previous))
      | None \<Rightarrow>
     (case and_then (read_clock clk 0) (\<lambda>t. map_sum id (Pair t) (iso_string t)) of
        Inl err \<Rightarrow> (m, Inl err)
      | Inr (now_ms, recorded) \<Rightarrow>
     (case evaluate_decision E m
             (Obj [(''incidentId'', Str (rq_incident q)), (''agency'', Str (rq_agency q)),
                   (''evidenceIds'', Arr (map Str (rq_evidence q))), (''at'', Str recorded)])
             (\<lambda>k. clk (Suc k)) of
        Inl err \<Rightarrow> (m, Inl err)
      | Inr d \<Rightarrow>
     (if \<not> allowed d then
        (let rc = make_receipt operation q (Authorization_denied (reason d)) recorded
         in (record_receipt m operation q rc, Inr (Recorded rc)))
      else
        (case js_get (leases m) (lease_key (rq_incident q) (rq_resource q)) of
           None \<Rightarrow> grant_lease m operation q now_ms recorded
         | Some held \<Rightarrow>
             if expires_at_ms held > now_ms then
               (let rc = make_receipt operation q
                      (Resource_held_denied (ls_agent held) (ls_token held)) recorded
                in (record_receipt m operation q rc, Inr (Recorded rc)))
             else grant_lease m operation q now_ms recorded))))))"

section \<open>Checkpoints and succession\<close>

fun outcome_text :: "outcome \<Rightarrow> string" where
  "outcome_text (Authorization_denied _) = ''authorization_denied''"
| "outcome_text (Resource_held_denied _ _) = ''resource_held_denied''"
| "outcome_text (Resource_reserved _) = ''resource_reserved''"

fun outcome_reason :: "outcome \<Rightarrow> string option" where
  "outcome_reason (Authorization_denied r) = Some r"
| "outcome_reason _ = None"

fun outcome_fields :: "outcome \<Rightarrow> (string \<times> jsv) list" where
  "outcome_fields (Authorization_denied r) =
     [(''outcome'', Str ''authorization_denied''), (''reason'', Str r)]"
| "outcome_fields (Resource_held_denied h t) =
     [(''outcome'', Str ''resource_held_denied''), (''heldBy'', Str h), (''fencingToken'', int_num t)]"
| "outcome_fields (Resource_reserved t) =
     [(''outcome'', Str ''resource_reserved''), (''fencingToken'', int_num t)]"

definition receipt_value :: "receipt \<Rightarrow> jsv" where
  "receipt_value rc = Obj
     ([(''operationId'', Str (rc_operation rc)), (''incidentId'', Str (rc_incident rc)),
       (''resourceId'', Str (rc_resource rc)), (''agentId'', Str (rc_agent rc))]
      @ outcome_fields (rc_outcome rc)
      @ [(''evidenceIds'', Arr (map Str (rc_evidence rc))), (''recordedAt'', Str (rc_recorded rc))])"

definition text_array :: "jsenv \<Rightarrow> string list \<Rightarrow> string" where
  "text_array E xs = protocol_canonical_json E (Arr (map Str (sort xs)))"

text \<open>The evidence ids of a checkpoint: unique, of at most 128 bytes, and of the incident.\<close>

definition checkpoint_evidence :: "'vi memory \<Rightarrow> string \<Rightarrow> jsv list \<Rightarrow> js_error + string list" where
  "checkpoint_evidence m incident vs =
     and_then (map_result (\<lambda>v. and_then (require_text v ''lastEvidenceId'') (\<lambda>i.
         if utf8_length i > 128 then Inl (TypeErr ''lastEvidenceId exceeds 128 bytes'') else Inr i)) vs) (\<lambda>ids.
     if \<not> distinct ids then Inl (TypeErr ''lastEvidenceIds must be unique'') else
     if list_ex (\<lambda>i. case js_get (evidence_map m) i of None \<Rightarrow> True | Some r \<Rightarrow> ev_incident r \<noteq> incident) ids
     then Inl (Err ''checkpoint evidence binding mismatch'')
     else Inr ids)"

definition bound_receipt :: "'vi memory \<Rightarrow> string \<Rightarrow> string \<Rightarrow> jsv \<Rightarrow> js_error + receipt option" where
  "bound_receipt m incident agent op_id =
     (let matching = filter (\<lambda>rc. rc_incident rc = incident \<and> rc_agent rc = agent) (map snd (receipts m)) in
      if op_id \<noteq> Undef then
        and_then (require_text op_id ''receiptOperationId'') (\<lambda>operation.
          case js_get (receipts m) operation of
            None \<Rightarrow> Inl (Err ''checkpoint receipt binding mismatch'')
          | Some rc \<Rightarrow>
              if rc_incident rc \<noteq> incident \<or> rc_agent rc \<noteq> agent
              then Inl (Err ''checkpoint receipt binding mismatch'') else Inr (Some rc))
      else if length matching > 1 then Inl (Err ''checkpoint receipt binding is ambiguous'')
      else Inr (case matching of [] \<Rightarrow> None | rc # _ \<Rightarrow> Some rc))"

text \<open>The reference to the bound receipt, after its evidence was compared as text.\<close>

definition reference_of :: "jsenv \<Rightarrow> 'vi memory \<Rightarrow> string list \<Rightarrow> receipt option \<Rightarrow> js_error + receipt_reference option" where
  "reference_of E m ids bound =
     (case bound of
        None \<Rightarrow> Inr None
      | Some rc \<Rightarrow>
          (case js_get (operation_requests m) (rc_operation rc) of
             None \<Rightarrow> Inl (Err ''checkpoint receipt evidence binding mismatch'')
           | Some q \<Rightarrow>
               if text_array E ids \<noteq> text_array E (rc_evidence rc)
               then Inl (Err ''checkpoint receipt evidence binding mismatch'')
               else Inr (Some
                 \<lparr>receipt_digest = sha256_hex E (''tideproof.local-receipt-reference.v1'' @ [CHR 0x00] @
                    protocol_canonical_json E
                      (Obj [(''receipt'', receipt_value rc), (''request'', request_value q)])),
                  rs_outcome = outcome_text (rc_outcome rc),
                  rs_reason = outcome_reason (rc_outcome rc),
                  rs_resource = rc_resource rc\<rparr>)))"

definition checkpoint_of_input :: "jsenv \<Rightarrow> 'vi memory \<Rightarrow> jsv \<Rightarrow> clock \<Rightarrow> js_error + checkpoint" where
  "checkpoint_of_input E m inp clk =
     (if \<not> is_array (fld inp ''lastEvidenceIds'') \<or> length (elements (fld inp ''lastEvidenceIds'')) > 100
      then Inl (TypeErr ''lastEvidenceIds must be an array of at most 100 ids'') else
      and_then (require_text (fld inp ''incidentId'') ''incidentId'') (\<lambda>incident.
      and_then (require_text (fld inp ''agentId'') ''agentId'') (\<lambda>agent.
      and_then (checkpoint_evidence m incident (elements (fld inp ''lastEvidenceIds''))) (\<lambda>ids.
      and_then (bound_receipt m incident agent (fld inp ''receiptOperationId'')) (\<lambda>bound.
      and_then (reference_of E m ids bound) (\<lambda>reference.
      and_then (require_text (fld inp ''checkpointId'') ''checkpointId'') (\<lambda>cid.
      and_then (and_then (read_clock clk 0) iso_string) (\<lambda>recorded.
        Inr \<lparr>cp_id = cid, cp_incident = incident, cp_agent = agent, cp_evidence = ids,
             cp_receipt = reference, cp_state = coalesce (fld inp ''state'') (Obj []),
             cp_recorded = recorded\<rparr>))))))))"

definition checkpoint_agent ::
    "jsenv \<Rightarrow> 'vi memory \<Rightarrow> jsv \<Rightarrow> clock \<Rightarrow> 'vi memory \<times> (js_error + checkpoint)" where
  "checkpoint_agent E m inp clk =
     (if \<not> available m then (m, Inl MemoryUnavailable) else
      case checkpoint_of_input E m inp clk of
        Inl err \<Rightarrow> (m, Inl err)
      | Inr cp \<Rightarrow> (m\<lparr>checkpoints := checkpoints m @ [cp]\<rparr>, Inr cp))"

record checkpoint_summary =
  cs_version :: int
  cs_failed_agent :: string
  cs_phase :: string
  cs_scenario :: string

record succession =
  su_incident :: string
  su_failed_agent :: string
  su_successor :: string
  su_checkpoint :: "checkpoint_summary option"
  admitted_count :: nat
  classification :: string
  evidence_digest :: string
  conflict_status :: string
  unresolved_count :: nat
  su_receipt :: "receipt_reference option"
  authority_transferred :: bool
  requires_fresh_authorization :: bool
  operational_capabilities_returned :: bool

definition recover_successor :: "jsenv \<Rightarrow> 'vi memory \<Rightarrow> jsv \<Rightarrow> clock \<Rightarrow> js_error + succession" where
  "recover_successor E m inp clk =
     (if \<not> available m then Inl MemoryUnavailable else
      and_then (require_text (fld inp ''incidentId'') ''incidentId'') (\<lambda>incident.
      and_then (require_text (fld inp ''failedAgentId'') ''failedAgentId'') (\<lambda>failed.
      and_then (require_text (fld inp ''successorAgentId'') ''successorAgentId'') (\<lambda>successor.
      let cp = List.find (\<lambda>c. cp_incident c = incident \<and> cp_agent c = failed) (rev (checkpoints m));
          ids = (case cp of None \<Rightarrow> [] | Some c \<Rightarrow> cp_evidence c);
          evidence = List.map_filter (js_get (evidence_map m)) ids
      in and_then (read_clock clk 0) (\<lambda>now_ms.
      let unresolved = length (filter (\<lambda>r. status_at r now_ms = CONFLICTED) evidence) in
        Inr \<lparr>su_incident = incident, su_failed_agent = failed, su_successor = successor,
             su_checkpoint = map_option (\<lambda>_. \<lparr>cs_version = 1, cs_failed_agent = failed,
                cs_phase = ''successor-context-recovery'', cs_scenario = ''synthetic-highwater''\<rparr>) cp,
             admitted_count = length (filter (\<lambda>r. status_at r now_ms = ADMITTED) evidence),
             classification = ''synthetic'',
             evidence_digest = sha256_hex E (text_array E ids),
             conflict_status = (if unresolved > 0 then ''quarantined'' else ''none''),
             unresolved_count = unresolved,
             su_receipt = (case cp of None \<Rightarrow> None | Some c \<Rightarrow> cp_receipt c),
             authority_transferred = False, requires_fresh_authorization = True,
             operational_capabilities_returned = False\<rparr>)))))"

end
