(* ===== verification/Protocol_Inv.thy ===== *)
theory Protocol_Inv
  imports Protocol
begin

text \<open>
  The evidence memory as a state machine over its state-changing methods, and the
  invariant they keep: evidence is well formed, every receipt has the request it answers,
  a lease carries a token that a receipt granted, and the tokens granted for a lease key
  increase in the order of the receipts.
\<close>

section \<open>Checked text\<close>

lemma require_text_Inr:
  "require_text v name = Inr s \<longleftrightarrow> (\<exists>t. v = Str t \<and> s = trim t \<and> s \<noteq> [])"
  by (cases v) (auto simp: require_text_def)

definition checked :: "string \<Rightarrow> bool" where
  "checked s \<longleftrightarrow> s \<noteq> [] \<and> trim s = s"

lemma require_text_checked: "require_text v name = Inr s \<Longrightarrow> checked s"
  by (auto simp: require_text_Inr checked_def)

lemma require_text_Str [simp]: "checked s \<Longrightarrow> require_text (Str s) name = Inr s"
  by (simp add: require_text_def checked_def)

lemma require_texts_checked:
  "map_result (\<lambda>v. require_text v name) vs = Inr ss \<Longrightarrow> list_all checked ss \<and> length ss = length vs"
  by (auto simp: map_result_Inr_iff list_all_length list_all2_conv_all_nth
      intro: require_text_checked)

lemma iso_string_Inr: "iso_string t = Inr s \<longleftrightarrow> \<bar>t\<bar> \<le> max_time \<and> s = iso_text t"
  by (auto simp: iso_string_def to_iso_string_def split: if_splits)

lemma read_clock_Inr: "read_clock clk k = Inr t \<longleftrightarrow> clk k = Some t"
  by (cases "clk k") (auto simp: read_clock_def)

section \<open>Requests as canonical text\<close>

lemma json_ok_strings [simp]: "json_ok (Arr (map Str xs))"
  by (simp add: list_all_iff)

lemma sort_keys_strings [simp]: "sort_keys cmp (Arr (map Str xs)) = Arr (map Str xs)"
  by simp

lemma map_Str_eq [simp]: "map Str xs = map Str ys \<longleftrightarrow> xs = ys"
  by (auto intro: map_injective simp: inj_def)

lemma text_array_eq: "text_array E xs = text_array E ys \<longleftrightarrow> mset xs = mset ys"
proof -
  have "text_array E xs = text_array E ys \<longleftrightarrow> sort xs = sort ys"
    by (simp only: text_array_def protocol_canonical_json_def sort_keys_strings jsv.inject map_Str_eq
        canonical_json_inj [OF json_ok_strings json_ok_strings])
  also have "\<dots> \<longleftrightarrow> mset xs = mset ys"
    by (metis mset_sort properties_for_sort sorted_sort)
  finally show ?thesis .
qed

lemma json_ok_request: "json_ok (request_value q)"
  by (simp add: request_value_def list_all_iff)

lemma canonical_request_eq:
  "protocol_canonical_json E (request_value q) = protocol_canonical_json E (request_value q')
   \<longleftrightarrow> q = q'"
proof
  assume "protocol_canonical_json E (request_value q) = protocol_canonical_json E (request_value q')"
  then have "sort_keys (localeCompare E) (request_value q) = sort_keys (localeCompare E) (request_value q')"
    unfolding protocol_canonical_json_def
    by (simp only: canonical_json_inj [OF json_ok_request json_ok_request])
  note same = sort_keys_Obj_map_of [OF this [unfolded request_value_def]]
  show "q = q'"
    using same [of "''agentId''"] same [of "''agency''"] same [of "''evidenceIds''"]
      same [of "''incidentId''"] same [of "''leaseMs''"] same [of "''resourceId''"]
    by (simp add: comp_def map_Str_eq)
qed simp

section \<open>The state machine\<close>

datatype memory_event =
    Availability_set jsv
  | Evidence_ingested jsv clock "js_error + public_view"
  | Resource_requested jsv clock "js_error + reservation"
  | Agent_checkpointed jsv clock "js_error + checkpoint"

inductive memory_step ::
    "jsenv \<Rightarrow> (string \<Rightarrow> rat list \<Rightarrow> 'vi \<Rightarrow> js_error + 'vi) \<Rightarrow>
     'vi memory \<Rightarrow> memory_event \<Rightarrow> 'vi memory \<Rightarrow> bool" for E upsert where
  step_available: "memory_step E upsert m (Availability_set v) (set_available m v)"
| step_ingest: "ingest_evidence E upsert m inp clk = (m', res) \<Longrightarrow>
    memory_step E upsert m (Evidence_ingested inp clk res) m'"
| step_reserve: "reserve_resource E m inp clk = (m', res) \<Longrightarrow>
    memory_step E upsert m (Resource_requested inp clk res) m'"
| step_checkpoint: "checkpoint_agent E m inp clk = (m', res) \<Longrightarrow>
    memory_step E upsert m (Agent_checkpointed inp clk res) m'"

inductive_simps memory_step_available: "memory_step E upsert m (Availability_set v) m'"
inductive_simps memory_step_ingest: "memory_step E upsert m (Evidence_ingested inp clk res) m'"
inductive_simps memory_step_reserve: "memory_step E upsert m (Resource_requested inp clk res) m'"
inductive_simps memory_step_checkpoint: "memory_step E upsert m (Agent_checkpointed inp clk res) m'"

lemmas memory_step_iffs =
  memory_step_available memory_step_ingest memory_step_reserve memory_step_checkpoint

section \<open>The invariant\<close>

definition evidence_ok :: "evidence \<Rightarrow> bool" where
  "evidence_ok r \<longleftrightarrow> list_all checked [ev_id r, ev_incident r, claim_key r, claim_value r, assertion r, issuer r]
     \<and> scopes r \<noteq> [] \<and> list_all checked (scopes r) \<and> distinct (scopes r)
     \<and> valid_from_ms r < valid_until_ms r \<and> \<bar>valid_from_ms r\<bar> \<le> max_time \<and> \<bar>valid_until_ms r\<bar> \<le> max_time
     \<and> valid_from r = iso_text (valid_from_ms r) \<and> valid_until r = iso_text (valid_until_ms r)
     \<and> 0 \<le> confidence r \<and> confidence r \<le> 1
     \<and> (case embedding r of None \<Rightarrow> True | Some vec \<Rightarrow> vec \<noteq> [])
     \<and> (conflicted r \<longrightarrow> signature_valid r)"

definition evidence_inv :: "(string \<times> evidence) list \<Rightarrow> bool" where
  "evidence_inv es \<longleftrightarrow> js_map es \<and> list_all (\<lambda>(i, r). ev_id r = i \<and> evidence_ok r) es"

text \<open>The tokens granted for a lease key, in the order of the receipts.\<close>

definition granted_token :: "string \<Rightarrow> receipt \<Rightarrow> int option" where
  "granted_token key rc =
     (case rc_outcome rc of
        Resource_reserved t \<Rightarrow> if lease_key (rc_incident rc) (rc_resource rc) = key then Some t else None
      | _ \<Rightarrow> None)"

definition granted :: "string \<Rightarrow> (string \<times> receipt) list \<Rightarrow> int list" where
  "granted key rcs = List.map_filter (\<lambda>(operation, rc). granted_token key rc) rcs"

definition token_of :: "(string \<times> int) list \<Rightarrow> string \<Rightarrow> int" where
  "token_of ts key = (case js_get ts key of None \<Rightarrow> 0 | Some t \<Rightarrow> t)"

definition tokens_inv :: "(string \<times> receipt) list \<Rightarrow> (string \<times> int) list \<Rightarrow> bool" where
  "tokens_inv rcs ts \<longleftrightarrow> (\<forall>key. sorted_wrt (<) (granted key rcs) \<and>
     (\<forall>t \<in> set (granted key rcs). 1 \<le> t \<and> t \<le> token_of ts key) \<and> 0 \<le> token_of ts key)"

definition receipts_inv :: "(string \<times> receipt) list \<Rightarrow> (string \<times> request) list \<Rightarrow> bool" where
  "receipts_inv rcs qs \<longleftrightarrow> js_map rcs \<and> js_map qs \<and> js_keys rcs = js_keys qs \<and>
     (\<forall>operation rc. js_get rcs operation = Some rc \<longrightarrow>
        (\<exists>q. js_get qs operation = Some q \<and> 0 < rq_lease_ms q \<and> rq_evidence q \<noteq> [] \<and>
             rc = make_receipt operation q (rc_outcome rc) (rc_recorded rc)))"

definition leases_inv :: "(string \<times> lease) list \<Rightarrow> (string \<times> receipt) list \<Rightarrow> bool" where
  "leases_inv ls rcs \<longleftrightarrow> js_map ls \<and>
     (\<forall>key l. js_get ls key = Some l \<longrightarrow>
        key = lease_key (ls_incident l) (ls_resource l) \<and> expires_at l = iso_text (expires_at_ms l) \<and>
        (\<exists>rc. js_get rcs (ls_operation l) = Some rc \<and> rc_agent rc = ls_agent l \<and>
              granted_token key rc = Some (ls_token l)))"

text \<open>A checkpoint names evidence that is registered, of its incident, without repetition.\<close>

definition checkpoint_ok :: "(string \<times> evidence) list \<Rightarrow> checkpoint \<Rightarrow> bool" where
  "checkpoint_ok es cp \<longleftrightarrow> distinct (cp_evidence cp) \<and> length (cp_evidence cp) \<le> 100 \<and>
     (\<forall>i \<in> set (cp_evidence cp). \<exists>r. js_get es i = Some r \<and> ev_incident r = cp_incident cp)"

definition memory_inv :: "'vi memory \<Rightarrow> bool" where
  "memory_inv m \<longleftrightarrow> evidence_inv (evidence_map m) \<and> js_map (fencing_tokens m) \<and>
     tokens_inv (receipts m) (fencing_tokens m) \<and>
     receipts_inv (receipts m) (operation_requests m) \<and>
     leases_inv (leases m) (receipts m) \<and>
     list_all (checkpoint_ok (evidence_map m)) (checkpoints m)"

lemma new_memory_inv: "memory_inv (new_memory vi)"
  by (simp add: memory_inv_def new_memory_def evidence_inv_def tokens_inv_def granted_def token_of_def
      receipts_inv_def leases_inv_def List.map_filter_def)

lemma memory_invD:
  assumes "memory_inv m"
  shows "evidence_inv (evidence_map m)" "js_map (fencing_tokens m)"
    "tokens_inv (receipts m) (fencing_tokens m)" "receipts_inv (receipts m) (operation_requests m)"
    "leases_inv (leases m) (receipts m)" "list_all (checkpoint_ok (evidence_map m)) (checkpoints m)"
  using assms by (simp_all add: memory_inv_def)

section \<open>Ingestion keeps the invariant\<close>

lemma evidence_of_input_ok:
  assumes "evidence_of_input E m inp = Inr r"
  shows "evidence_ok r" and "js_get (evidence_map m) (ev_id r) = None" and "\<not> conflicted r"
proof -
  have texts: "checked s" if "require_text v name = Inr s" for v name s
    using that by (rule require_text_checked)
  have vec: "vec \<noteq> []" if "validate_vector v name = Inr vec" for v name vec
    using that by (auto simp: validate_vector_def split: jsv.splits if_splits)
  have scs: "list_all checked ss \<and> length ss = length vs"
    if "map_result (\<lambda>v. require_text v name) vs = Inr ss" for name vs ss
    using that by (rule require_texts_checked)
  show "evidence_ok r" and "js_get (evidence_map m) (ev_id r) = None" and "\<not> conflicted r"
    using assms unfolding evidence_of_input_def guard_simps
    by (auto simp: iso_string_Inr evidence_ok_def guard_simps
        dest!: texts vec scs split: if_split_asm)
qed

definition marked_from :: "(string \<times> evidence) list \<Rightarrow> (string \<times> evidence) list \<Rightarrow> bool" where
  "marked_from es es' \<longleftrightarrow> list_all2 (\<lambda>(i, e) (i', e'). i' = i \<and>
     (e' = e \<or> e' = mark_conflicted e \<and> signature_valid e)) es es'"

lemma marked_from_refl [simp]: "marked_from es es"
  by (auto simp: marked_from_def intro: list_all2_refl)

lemma existing_current_signed: "existing_current clk k e = Inr (True, k') \<Longrightarrow> signature_valid e"
  by (auto simp: existing_current_def and_then_eq_Inr status_at_def split: if_splits)

lemma mark_conflicts_marked:
  "mark_conflicts clk k r es = (es', r', res) \<Longrightarrow>
   marked_from es es' \<and> (r' = r \<or> r' = mark_conflicted r)"
proof (induction clk k r es arbitrary: es' r' res rule: mark_conflicts.induct)
  case (1 clk k r)
  then show ?case by simp
next
  case (2 clk k r i e es)
  have idem: "mark_conflicted (mark_conflicted r) = mark_conflicted r" by (simp add: mark_conflicted_def)
  show ?case
    using 2 by (auto simp: marked_from_def idem split: sum.splits prod.splits if_splits
        dest: existing_current_signed intro: list_all2_refl)
qed

lemma mark_conflicted_same [simp]:
  "ev_id (mark_conflicted e) = ev_id e" "ev_incident (mark_conflicted e) = ev_incident e"
  "embedding (mark_conflicted e) = embedding e"
  by (simp_all add: mark_conflicted_def)

lemma evidence_ok_mark: "evidence_ok e \<Longrightarrow> signature_valid e \<Longrightarrow> evidence_ok (mark_conflicted e)"
  by (simp add: evidence_ok_def mark_conflicted_def)

lemma marked_from_keys: "marked_from es es' \<Longrightarrow> js_keys es' = js_keys es"
  unfolding marked_from_def by (induction rule: list_all2_induct) auto

lemma marked_from_inv: "marked_from es es' \<Longrightarrow> evidence_inv es \<Longrightarrow> evidence_inv es'"
proof -
  assume m: "marked_from es es'" and inv: "evidence_inv es"
  have "js_map es'" using marked_from_keys [OF m] inv by (simp add: evidence_inv_def js_map_def)
  moreover have "list_all (\<lambda>(i, r). ev_id r = i \<and> evidence_ok r) es \<longrightarrow>
      list_all (\<lambda>(i, r). ev_id r = i \<and> evidence_ok r) es'"
    using m unfolding marked_from_def by (induction rule: list_all2_induct) (auto simp: evidence_ok_mark)
  ultimately show ?thesis using inv by (simp add: evidence_inv_def)
qed

lemma marked_from_get:
  "marked_from es es' \<Longrightarrow> js_get es i = Some r \<Longrightarrow>
   \<exists>r'. js_get es' i = Some r' \<and> (r' = r \<or> r' = mark_conflicted r)"
  unfolding marked_from_def by (induction rule: list_all2_induct) auto

lemma evidence_inv_set: "evidence_inv es \<Longrightarrow> evidence_ok r \<Longrightarrow> evidence_inv (js_set (ev_id r) r es)"
  by (auto simp: evidence_inv_def list_all_iff dest!: js_set_values)

definition extends_evidence :: "(string \<times> evidence) list \<Rightarrow> (string \<times> evidence) list \<Rightarrow> bool" where
  "extends_evidence es es' \<longleftrightarrow> (\<forall>i r. js_get es i = Some r \<longrightarrow>
     (\<exists>r'. js_get es' i = Some r' \<and> (r' = r \<or> r' = mark_conflicted r)))"

lemma extends_evidence_refl [simp]: "extends_evidence es es"
  by (simp add: extends_evidence_def)

lemma checkpoints_extend:
  "extends_evidence es es' \<Longrightarrow> list_all (checkpoint_ok es) cps \<Longrightarrow> list_all (checkpoint_ok es') cps"
  unfolding extends_evidence_def checkpoint_ok_def list_all_iff
  by (metis mark_conflicted_same(2))

text \<open>
  What ingestion can do to the registered evidence, whatever it returns or throws: it
  marks records as conflicted, and it adds at most the new record.
\<close>

lemma ingest_evidence_effect:
  assumes "ingest_evidence E upsert m inp clk = (m', res)" and inv: "evidence_inv (evidence_map m)"
  shows "evidence_inv (evidence_map m') \<and> extends_evidence (evidence_map m) (evidence_map m') \<and>
    (\<exists>vi. m' = m\<lparr>evidence_map := evidence_map m', vector_state := vi\<rparr>)"
proof -
  consider (same) "m' = m"
    | (marked) es where "marked_from (evidence_map m) es" "m' = m\<lparr>evidence_map := es\<rparr>"
    | (stored) es r vi where "marked_from (evidence_map m) es" "evidence_ok r"
        "js_get (evidence_map m) (ev_id r) = None"
        "m' = m\<lparr>evidence_map := js_set (ev_id r) r es, vector_state := vi\<rparr>"
  proof (cases "available m \<and> (\<exists>built t. evidence_of_input E m inp = Inr built \<and> read_clock clk 0 = Inr t)")
    case False
    then have "m' = m" using assms(1) by (auto simp: ingest_evidence_def split: sum.splits if_splits)
    then show ?thesis by (rule same)
  next
    case True
    then obtain built t where built: "available m" "evidence_of_input E m inp = Inr built" "read_clock clk 0 = Inr t"
      by blast
    define r where "r = built\<lparr>ev_status := Some (status_at built t)\<rparr>"
    define step where "step = (if status_at built t = ADMITTED then mark_conflicts clk 1 r (evidence_map m)
             else (evidence_map m, r, Inr 1))"
    obtain es r' st where step: "step = (es, r', st)" by (cases step)
    have marks: "marked_from (evidence_map m) es" and r': "r' = r \<or> (r' = mark_conflicted r \<and> signature_valid r)"
      using step mark_conflicts_marked [of clk 1 r "evidence_map m" es r' st]
      by (auto simp: step_def r_def status_at_def split: if_splits)
    note ok = evidence_of_input_ok [OF built(2)]
    have "evidence_ok r" using ok(1) by (simp add: r_def evidence_ok_def)
    with r' have "evidence_ok r'" by (auto simp: evidence_ok_mark)
    have "ev_id r' = ev_id built" using r' by (auto simp: r_def)
    with ok(2) have fresh: "js_get (evidence_map m) (ev_id r') = None" by simp
    have "ingest_evidence E upsert m inp clk = (case st of Inl err \<Rightarrow> (m\<lparr>evidence_map := es\<rparr>, Inl err)
        | Inr k \<Rightarrow> store_evidence upsert (m\<lparr>evidence_map := es\<rparr>) r' clk k)"
      using built step by (simp add: ingest_evidence_def r_def [symmetric] step_def [symmetric] Let_def)
    then have "(\<exists>vi. m' = m\<lparr>evidence_map := js_set (ev_id r') r' es, vector_state := vi\<rparr>) \<or> m' = m\<lparr>evidence_map := es\<rparr>"
      using assms(1) by (auto simp: store_evidence_def Let_def split: sum.splits)
        (metis memory.surjective memory.update_convs(3,8))+
    then show ?thesis using marks \<open>evidence_ok r'\<close> fresh marked stored by blast
  qed
  then show ?thesis
  proof cases
    case same
    then show ?thesis using inv by (auto intro: exI [of _ "vector_state m"])
  next
    case (marked es)
    then show ?thesis
      using marked_from_inv [OF marked(1) inv] marked_from_get [OF marked(1)]
      by (auto simp: extends_evidence_def intro: exI [of _ "vector_state m"])
  next
    case (stored es r vi)
    have "js_get es (ev_id r) = None"
      using stored(3) marked_from_keys [OF stored(1)] by (metis list.set_map map_of_eq_None_iff)
    then have "extends_evidence (evidence_map m) (js_set (ev_id r) r es)"
      unfolding extends_evidence_def using marked_from_get [OF stored(1)] stored(3)
      by (metis js_get_set option.distinct(1))
    then show ?thesis
      using stored evidence_inv_set [OF marked_from_inv [OF stored(1) inv] stored(2)] by auto
  qed
qed

lemma ingest_inv:
  assumes "ingest_evidence E upsert m inp clk = (m', res)" and inv: "memory_inv m"
  shows "memory_inv m'"
proof -
  note effect = ingest_evidence_effect [OF assms(1) memory_invD(1) [OF inv]]
  then obtain vi where m': "m' = m\<lparr>evidence_map := evidence_map m', vector_state := vi\<rparr>" by blast
  have rest: "fencing_tokens m' = fencing_tokens m" "receipts m' = receipts m"
      "operation_requests m' = operation_requests m" "leases m' = leases m" "checkpoints m' = checkpoints m"
    by (subst m'; simp)+
  show ?thesis
    using effect memory_invD [OF inv] checkpoints_extend unfolding memory_inv_def rest by blast
qed

section \<open>Reservation keeps the invariant\<close>

definition decision_input :: "request \<Rightarrow> string \<Rightarrow> jsv" where
  "decision_input q recorded =
     Obj [(''incidentId'', Str (rq_incident q)), (''agency'', Str (rq_agency q)),
          (''evidenceIds'', Arr (map Str (rq_evidence q))), (''at'', Str recorded)]"

definition lease_free :: "'vi memory \<Rightarrow> string \<Rightarrow> int \<Rightarrow> bool" where
  "lease_free m key now_ms \<longleftrightarrow>
     (case js_get (leases m) key of None \<Rightarrow> True | Some l \<Rightarrow> expires_at_ms l \<le> now_ms)"

text \<open>The ways a reservation can end.\<close>

lemma reserve_cases [consumes 1, case_names failed replayed unauthorized held granted]:
  assumes "reserve_resource E m inp clk = (m', res)"
  obtains
    (failed) e where "m' = m" "res = Inl e"
  | (replayed) operation q previous where "available m" "reserve_input inp = Inr (operation, q)"
      "js_get (receipts m) operation = Some previous" "m' = m" "res = Inr (replay E m operation q previous)"
  | (unauthorized) operation q now_ms d rc where "available m" "reserve_input inp = Inr (operation, q)"
      "js_get (receipts m) operation = None" "clk 0 = Some now_ms" "\<bar>now_ms\<bar> \<le> max_time"
      "evaluate_decision E m (decision_input q (iso_text now_ms)) (\<lambda>k. clk (Suc k)) = Inr d" "\<not> allowed d"
      "rc = make_receipt operation q (Authorization_denied (reason d)) (iso_text now_ms)"
      "m' = record_receipt m operation q rc" "res = Inr (Recorded rc)"
  | (held) operation q now_ms d l rc where "available m" "reserve_input inp = Inr (operation, q)"
      "js_get (receipts m) operation = None" "clk 0 = Some now_ms" "\<bar>now_ms\<bar> \<le> max_time"
      "evaluate_decision E m (decision_input q (iso_text now_ms)) (\<lambda>k. clk (Suc k)) = Inr d" "allowed d"
      "js_get (leases m) (lease_key (rq_incident q) (rq_resource q)) = Some l" "expires_at_ms l > now_ms"
      "rc = make_receipt operation q (Resource_held_denied (ls_agent l) (ls_token l)) (iso_text now_ms)"
      "m' = record_receipt m operation q rc" "res = Inr (Recorded rc)"
  | (granted) operation q now_ms d where "available m" "reserve_input inp = Inr (operation, q)"
      "js_get (receipts m) operation = None" "clk 0 = Some now_ms" "\<bar>now_ms\<bar> \<le> max_time"
      "evaluate_decision E m (decision_input q (iso_text now_ms)) (\<lambda>k. clk (Suc k)) = Inr d" "allowed d"
      "lease_free m (lease_key (rq_incident q) (rq_resource q)) now_ms"
      "(m', res) = grant_lease m operation q now_ms (iso_text now_ms)"
proof (cases "available m")
  case False
  with assms have "m' = m" "res = Inl MemoryUnavailable" by (simp_all add: reserve_resource_def)
  then show ?thesis by (rule failed)
next
  case avail: True
  show ?thesis
  proof (cases "reserve_input inp")
    case (Inl e)
    with assms avail have "m' = m" "res = Inl e" by (simp_all add: reserve_resource_def)
    then show ?thesis by (rule failed)
  next
    case (Inr oq)
    then obtain operation q where input: "reserve_input inp = Inr (operation, q)" by (cases oq) auto
    show ?thesis
    proof (cases "js_get (receipts m) operation")
      case (Some previous)
      with assms avail input have "m' = m" "res = Inr (replay E m operation q previous)"
        by (auto simp: reserve_resource_def)
      then show ?thesis by (rule replayed [OF avail input Some])
    next
      case fresh: None
      show ?thesis
      proof (cases "and_then (read_clock clk 0) (\<lambda>t. map_sum id (Pair t) (iso_string t))")
        case (Inl e)
        with assms avail input fresh have "m' = m" "res = Inl e" by (simp_all add: reserve_resource_def)
        then show ?thesis by (rule failed)
      next
        case nr: (Inr nr)
        then obtain now_ms where clock: "clk 0 = Some now_ms" "\<bar>now_ms\<bar> \<le> max_time" "nr = (now_ms, iso_text now_ms)"
          by (auto simp: guard_simps read_clock_Inr iso_string_Inr)
        show ?thesis
        proof (cases "evaluate_decision E m (decision_input q (iso_text now_ms)) (\<lambda>k. clk (Suc k))")
          case (Inl e)
          with assms avail input fresh nr clock(3) have "m' = m" "res = Inl e"
            by (simp_all add: reserve_resource_def decision_input_def)
          then show ?thesis by (rule failed)
        next
          case decision: (Inr d)
          have "reserve_resource E m inp clk =
            (if \<not> allowed d then
               (let rc = make_receipt operation q (Authorization_denied (reason d)) (iso_text now_ms)
                in (record_receipt m operation q rc, Inr (Recorded rc)))
             else case js_get (leases m) (lease_key (rq_incident q) (rq_resource q)) of
                 None \<Rightarrow> grant_lease m operation q now_ms (iso_text now_ms)
               | Some held \<Rightarrow>
                   if expires_at_ms held > now_ms then
                     (let rc = make_receipt operation q
                            (Resource_held_denied (ls_agent held) (ls_token held)) (iso_text now_ms)
                      in (record_receipt m operation q rc, Inr (Recorded rc)))
                   else grant_lease m operation q now_ms (iso_text now_ms))"
            using avail input fresh nr clock(3) decision
            by (simp add: reserve_resource_def decision_input_def)
          then show ?thesis
            using assms unauthorized [OF avail input fresh clock(1,2) decision]
              held [OF avail input fresh clock(1,2) decision]
              granted [OF avail input fresh clock(1,2) decision]
            by (auto simp: Let_def lease_free_def split: if_splits option.splits)
        qed
      qed
    qed
  qed
qed

lemma granted_append:
  "granted key (rcs @ [(operation, rc)]) =
   granted key rcs @ (case granted_token key rc of None \<Rightarrow> [] | Some t \<Rightarrow> [t])"
  by (simp add: granted_def List.map_filter_def split: option.splits)

lemma receipts_inv_fresh:
  assumes "receipts_inv rcs qs" and "js_get rcs operation = None"
  shows "js_get qs operation = None" "js_set operation rc rcs = rcs @ [(operation, rc)]"
    "js_set operation q qs = qs @ [(operation, q)]"
proof -
  show none: "js_get qs operation = None"
    using assms by (metis map_of_eq_None_iff receipts_inv_def list.set_map)
  show "js_set operation rc rcs = rcs @ [(operation, rc)]" using assms(2) by (rule js_set_new)
  show "js_set operation q qs = qs @ [(operation, q)]" using none by (rule js_set_new)
qed

lemma receipts_inv_record:
  assumes inv: "receipts_inv rcs qs" and fresh: "js_get rcs operation = None"
    and rc: "rc = make_receipt operation q out recorded" "0 < rq_lease_ms q" "rq_evidence q \<noteq> []"
  shows "receipts_inv (js_set operation rc rcs) (js_set operation q qs)"
proof -
  have keys: "js_keys (js_set operation rc rcs) = js_keys (js_set operation q qs)"
    using inv receipts_inv_fresh [OF inv fresh] by (simp add: receipts_inv_def)
  show ?thesis
    using inv rc unfolding receipts_inv_def keys
    by (auto simp: js_get_set make_receipt_def keys [unfolded receipts_inv_def])
qed

lemma reserve_input_ok:
  "reserve_input inp = Inr (operation, q) \<Longrightarrow>
   0 < rq_lease_ms q \<and> rq_evidence q \<noteq> [] \<and> checked (rq_incident q) \<and> checked (rq_agency q)
   \<and> checked operation \<and> list_all checked (rq_evidence q)"
  unfolding reserve_input_def guard_simps
  by (auto dest!: require_text_checked require_texts_checked)

lemma record_inv:
  assumes inv: "memory_inv m" and fresh: "js_get (receipts m) operation = None"
    and rc: "rc = make_receipt operation q out recorded" "0 < rq_lease_ms q" "rq_evidence q \<noteq> []"
    and tokens: "tokens_inv (receipts m @ [(operation, rc)]) ts" "js_map ts"
    and leases: "leases_inv ls (receipts m @ [(operation, rc)])"
  shows "memory_inv (record_receipt (m\<lparr>fencing_tokens := ts, leases := ls\<rparr>) operation q rc)"
  using memory_invD [OF inv] receipts_inv_record [OF memory_invD(4) [OF inv] fresh rc] tokens leases
    js_set_new [OF fresh]
  by (simp add: memory_inv_def record_receipt_def)

lemma leases_inv_append:
  assumes "leases_inv ls rcs" and "js_get rcs operation = None"
  shows "leases_inv ls (rcs @ [(operation, rc)])"
proof -
  have "js_get (rcs @ [(operation, rc)]) o' = Some rc'" if "js_get rcs o' = Some rc'" for o' rc'
    using that by simp
  then show ?thesis using assms(1) unfolding leases_inv_def by metis
qed

lemma denied_inv:
  assumes inv: "memory_inv m" and fresh: "js_get (receipts m) operation = None"
    and input: "reserve_input inp = Inr (operation, q)"
    and rc: "rc = make_receipt operation q out recorded" and out: "\<And>t. out \<noteq> Resource_reserved t"
  shows "memory_inv (record_receipt m operation q rc)"
proof -
  have "granted_token key rc = None" for key
    using out by (auto simp: granted_token_def rc make_receipt_def split: outcome.splits)
  then have "tokens_inv (receipts m @ [(operation, rc)]) (fencing_tokens m)"
    using memory_invD(3) [OF inv] by (simp add: tokens_inv_def granted_append)
  from record_inv [OF inv fresh rc _ _ this memory_invD(2) [OF inv]
      leases_inv_append [OF memory_invD(5) [OF inv] fresh]] reserve_input_ok [OF input]
  show ?thesis by simp
qed

lemma grant_lease_result:
  assumes "grant_lease m operation q now_ms recorded = (m', res)"
  defines "key \<equiv> lease_key (rq_incident q) (rq_resource q)"
  defines "token \<equiv> token_of (fencing_tokens m) key + 1"
  obtains
    (overflow) "m' = m\<lparr>fencing_tokens := js_set key token (fencing_tokens m)\<rparr>"
      "max_time < \<bar>now_ms + rq_lease_ms q\<bar>" "res = Inl (RangeErr ''Invalid time value'')"
  | (lease) l rc where "\<bar>now_ms + rq_lease_ms q\<bar> \<le> max_time"
      "rc = make_receipt operation q (Resource_reserved token) recorded"
      "l = \<lparr>ls_incident = rq_incident q, ls_resource = rq_resource q, ls_agent = rq_agent q,
          ls_operation = operation, ls_token = token, acquired_at = recorded,
          expires_at = iso_text (now_ms + rq_lease_ms q), expires_at_ms = now_ms + rq_lease_ms q\<rparr>"
      "m' = record_receipt (m\<lparr>fencing_tokens := js_set key token (fencing_tokens m),
          leases := js_set key l (leases m)\<rparr>) operation q rc"
      "res = Inr (Recorded rc)"
  using assms by (auto simp: grant_lease_def Let_def key_def token_def token_of_def iso_string_def
      to_iso_string_def split: if_splits option.splits)

lemma tokens_inv_burn:
  assumes "tokens_inv rcs ts" and "token = token_of ts key + 1"
  shows "tokens_inv rcs (js_set key token ts)"
proof -
  have le: "token_of ts k \<le> token_of (js_set key token ts) k" for k
    using assms(2) by (simp add: token_of_def js_get_set split: option.splits)
  show ?thesis using assms(1) unfolding tokens_inv_def by (meson le order_trans)
qed

lemma tokens_inv_grant:
  assumes inv: "tokens_inv rcs ts" and token: "token = token_of ts key + 1"
    and rc: "\<And>k. granted_token k rc = (if k = key then Some token else None)"
  shows "tokens_inv (rcs @ [(operation, rc)]) (js_set key token ts)"
  unfolding tokens_inv_def
proof (intro allI conjI)
  fix k
  have old: "sorted_wrt (<) (granted k rcs)" "\<forall>t \<in> set (granted k rcs). 1 \<le> t \<and> t \<le> token_of ts k"
    "0 \<le> token_of ts k"
    using inv unfolding tokens_inv_def by blast+
  have new: "token_of (js_set key token ts) k = (if k = key then token else token_of ts k)"
    by (simp add: token_of_def js_get_set)
  show "sorted_wrt (<) (granted k (rcs @ [(operation, rc)]))"
    using old token by (auto simp: granted_append rc sorted_wrt_append intro: le_less_trans)
  show "\<forall>t \<in> set (granted k (rcs @ [(operation, rc)])). 1 \<le> t \<and> t \<le> token_of (js_set key token ts) k"
    using old token unfolding new by (auto simp: granted_append rc)
  show "0 \<le> token_of (js_set key token ts) k" using old token unfolding new by auto
qed

lemma grant_inv:
  assumes inv: "memory_inv m" and fresh: "js_get (receipts m) operation = None"
    and input: "reserve_input inp = Inr (operation, q)"
    and step: "grant_lease m operation q now_ms recorded = (m', res)"
  shows "memory_inv m'"
  using step
proof (cases rule: grant_lease_result)
  case overflow
  then show ?thesis
    using memory_invD [OF inv] by (simp add: memory_inv_def tokens_inv_burn)
next
  case (lease l rc)
  let ?key = "lease_key (rq_incident q) (rq_resource q)"
  have rc: "granted_token k rc = (if k = ?key then Some (token_of (fencing_tokens m) ?key + 1) else None)" for k
    using lease(2) by (auto simp: granted_token_def make_receipt_def)
  have "leases_inv (leases m) (receipts m @ [(operation, rc)])"
    by (rule leases_inv_append [OF memory_invD(5) [OF inv] fresh])
  moreover have "js_get (receipts m @ [(operation, rc)]) operation = Some rc"
    using fresh by (simp add: map_add_def)
  ultimately have "leases_inv (js_set ?key l (leases m)) (receipts m @ [(operation, rc)])"
    using lease(2,3) rc [of ?key] unfolding leases_inv_def
    by (simp add: js_get_set del: map_of_append) (simp add: make_receipt_def)
  from record_inv [OF inv fresh lease(2) _ _ tokens_inv_grant [OF memory_invD(3) [OF inv] refl rc]
      js_map_set [OF memory_invD(2) [OF inv]] this] reserve_input_ok [OF input]
  show ?thesis by (simp add: lease(4))
qed

lemma reserve_inv:
  assumes "reserve_resource E m inp clk = (m', res)" and inv: "memory_inv m"
  shows "memory_inv m'"
  using assms(1)
proof (cases rule: reserve_cases)
  case (unauthorized operation q now_ms d rc)
  then show ?thesis using denied_inv [OF inv unauthorized(3,2,8)] by simp
next
  case (held operation q now_ms d l rc)
  then show ?thesis using denied_inv [OF inv held(3,2,10)] by simp
next
  case (granted operation q now_ms d)
  then show ?thesis using grant_inv [OF inv granted(3,2) granted(9) [symmetric]] by simp
qed (use inv in simp_all)

section \<open>Checkpoints keep the invariant\<close>

lemma checkpoint_evidence_ok:
  "checkpoint_evidence m incident vs = Inr ids \<Longrightarrow>
   distinct ids \<and> length ids = length vs \<and>
   (\<forall>i \<in> set ids. \<exists>r. js_get (evidence_map m) i = Some r \<and> ev_incident r = incident)"
  unfolding checkpoint_evidence_def guard_simps
  by (auto simp: list_ex_iff map_result_Inr_iff dest: list_all2_lengthD split: option.splits)

lemma checkpoint_of_input_ok:
  "checkpoint_of_input E m inp clk = Inr cp \<Longrightarrow>
   length (elements (fld inp ''lastEvidenceIds'')) \<le> 100 \<and>
   checkpoint_evidence m (cp_incident cp) (elements (fld inp ''lastEvidenceIds'')) = Inr (cp_evidence cp) \<and>
   (\<exists>bound. bound_receipt m (cp_incident cp) (cp_agent cp) (fld inp ''receiptOperationId'') = Inr bound \<and>
     reference_of E m (cp_evidence cp) bound = Inr (cp_receipt cp))"
  unfolding checkpoint_of_input_def guard_simps by auto

lemma checkpoint_cases:
  assumes "checkpoint_agent E m inp clk = (m', res)"
  obtains (failed) e where "m' = m" "res = Inl e"
  | (stored) cp where "available m" "m' = m\<lparr>checkpoints := checkpoints m @ [cp]\<rparr>" "res = Inr cp"
      "checkpoint_of_input E m inp clk = Inr cp"
proof (cases "available m \<and> (\<exists>cp. checkpoint_of_input E m inp clk = Inr cp)")
  case True
  then show ?thesis using assms stored by (auto simp: checkpoint_agent_def)
next
  case False
  then have "fst (checkpoint_agent E m inp clk) = m \<and> (\<exists>e. snd (checkpoint_agent E m inp clk) = Inl e)"
    by (cases "checkpoint_of_input E m inp clk") (simp_all add: checkpoint_agent_def)
  then show ?thesis using failed assms by auto
qed

lemma checkpoint_inv:
  assumes "checkpoint_agent E m inp clk = (m', res)" and inv: "memory_inv m"
  shows "memory_inv m'"
  using assms(1)
proof (cases rule: checkpoint_cases)
  case (stored cp)
  have "checkpoint_ok (evidence_map m) cp"
    using checkpoint_of_input_ok [OF stored(4)] checkpoint_evidence_ok [of m _ _ "cp_evidence cp"]
    unfolding checkpoint_ok_def by metis
  then show ?thesis using memory_invD [OF inv] stored(2) by (simp add: memory_inv_def)
qed (use inv in simp)

lemma memory_step_inv: "memory_inv m \<Longrightarrow> memory_step E upsert m l m' \<Longrightarrow> memory_inv m'"
  by (auto elim!: memory_step.cases intro: ingest_inv reserve_inv checkpoint_inv)
     (simp add: set_available_def memory_inv_def)

interpretation memory_machine: invariant_machine "memory_step E upsert" memory_inv
  by unfold_locales (rule memory_step_inv)

end
