(* ===== verification/Protocol_Props.thy ===== *)
theory Protocol_Props
  imports Protocol_Inv
begin

text \<open>
  What \<open>ProofToActMemory\<close> promises: the properties of single operations, and those of
  whole runs of the memory, each with a run of the model on which it applies.
\<close>

section \<open>A sample memory\<close>

definition sample_env :: jsenv where
  "sample_env = \<lparr>localeCompare = compare_canonical_keys, date_parse = parse_iso,
     date_of_object = (\<lambda>_. None), sha256_hex = (\<lambda>s. s), frac_str = (\<lambda>_. []),
     string_of = (\<lambda>_. []), to_number = (\<lambda>_. NaN)\<rparr>"

definition sample_upsert :: "string \<Rightarrow> rat list \<Rightarrow> unit \<Rightarrow> js_error + unit" where
  "sample_upsert i vec u = Inr u"

definition sample_evidence :: "string \<Rightarrow> string \<Rightarrow> int \<Rightarrow> int \<Rightarrow> jsv" where
  "sample_evidence i val from until = Obj
     [(''id'', Str i), (''incidentId'', Str ''flood''), (''claimKey'', Str ''bridge''),
      (''claimValue'', Str val), (''assertion'', Str ''text''), (''issuer'', Str ''city''),
      (''scopes'', Arr [Str ''*'']), (''observedAt'', Str (iso_text 0)),
      (''validFrom'', Str (iso_text from)), (''validUntil'', Str (iso_text until)),
      (''signatureValid'', Bool True), (''confidence'', int_num 1)]"

definition sample_request :: "string \<Rightarrow> string \<Rightarrow> string \<Rightarrow> int \<Rightarrow> jsv" where
  "sample_request operation resource agent lease_ms = Obj
     [(''operationId'', Str operation), (''incidentId'', Str ''flood''), (''resourceId'', Str resource),
      (''agentId'', Str agent), (''agency'', Str ''fire''), (''evidenceIds'', Arr [Str ''e1'']),
      (''leaseMs'', int_num lease_ms)]"

lemma date_parse_sample [simp]: "date_parse sample_env = parse_iso"
  by (simp add: sample_env_def)

lemma parse_iso_text_small: "\<bar>t\<bar> \<le> 8640000000000000 \<Longrightarrow> parse_iso (iso_text t) = Some t"
  by (simp add: parse_iso_iso_text max_time_def)

lemma iso_string_small: "\<bar>t\<bar> \<le> 8640000000000000 \<Longrightarrow> iso_string t = Inr (iso_text t)"
  by (simp add: iso_string_def to_iso_string_def max_time_def)

lemmas sample_eval =
  new_memory_def evidence_of_input_def sample_evidence_def sample_request_def require_text_def trim_def
  js_space_def timestamp_def iso_string_small parse_iso_text_small read_clock_def status_at_def
  store_evidence_def dedup_def ingest_evidence_def mark_conflicts.simps
  existing_current_def contradicts_def overlapping_scope_def mark_conflicted_def public_evidence_def
  reserve_resource_def reserve_input_def max_safe_integer_def evaluate_decision_def default_at_def
  in_scope_def grant_lease_def lease_key_def make_receipt_def record_receipt_def

definition one_evidence :: "unit memory" where
  "one_evidence = fst (ingest_evidence sample_env sample_upsert (new_memory ())
     (sample_evidence ''e1'' ''open'' 0 100000) (\<lambda>_. Some 5))"

definition one_lease :: "unit memory" where
  "one_lease = fst (reserve_resource sample_env one_evidence (sample_request ''op1'' ''boat'' ''ann'' 1000)
     (\<lambda>_. Some 10))"

definition ev1 :: evidence where
  "ev1 = \<lparr>ev_id = ''e1'', ev_incident = ''flood'', claim_key = ''bridge'', claim_value = ''open'',
     assertion = ''text'', issuer = ''city'', scopes = [''*''], observed_at = iso_text 0,
     valid_from = iso_text 0, valid_until = iso_text 100000, valid_from_ms = 0, valid_until_ms = 100000,
     signature_valid = True, confidence = 1, embedding = None, conflicted = False,
     ev_status = Some ADMITTED\<rparr>"

definition req1 :: request where
  "req1 = \<lparr>rq_agent = ''ann'', rq_agency = ''fire'', rq_evidence = [''e1''], rq_incident = ''flood'',
     rq_lease_ms = 1000, rq_resource = ''boat''\<rparr>"

lemma one_evidence_eq: "one_evidence = (new_memory ())\<lparr>evidence_map := [(''e1'', ev1)]\<rparr>"
  by (simp add: one_evidence_def ev1_def sample_eval Let_def)

lemma sample_input: "reserve_input (sample_request ''op1'' ''boat'' ''ann'' 1000) = Inr (''op1'', req1)"
  by (simp add: sample_eval req1_def)

definition rc1 :: receipt where
  "rc1 = make_receipt ''op1'' req1 (Resource_reserved 1) (iso_text 10)"

definition lease1 :: lease where
  "lease1 = \<lparr>ls_incident = ''flood'', ls_resource = ''boat'', ls_agent = ''ann'', ls_operation = ''op1'',
     ls_token = 1, acquired_at = iso_text 10, expires_at = iso_text 1010, expires_at_ms = 1010\<rparr>"

lemma reserve_one: "reserve_resource sample_env one_evidence (sample_request ''op1'' ''boat'' ''ann'' 1000)
     (\<lambda>_. Some 10) = (one_evidence\<lparr>fencing_tokens := [(''flood:boat'', 1)], leases := [(''flood:boat'', lease1)],
       operation_requests := [(''op1'', req1)], receipts := [(''op1'', rc1)]\<rparr>, Inr (Recorded rc1))"
  by (simp add: sample_eval Let_def one_evidence_eq ev1_def req1_def rc1_def lease1_def)

lemma one_lease_eq: "one_lease = \<lparr>available = True, checkpoints = [], evidence_map = [(''e1'', ev1)],
     fencing_tokens = [(''flood:boat'', 1)], leases = [(''flood:boat'', lease1)],
     operation_requests = [(''op1'', req1)], receipts = [(''op1'', rc1)], vector_state = ()\<rparr>"
  by (simp add: one_lease_def reserve_one) (simp add: one_evidence_eq new_memory_def)

lemma sample_run:
  "\<exists>ls. run (memory_step sample_env sample_upsert) (new_memory ()) ls one_lease"
proof -
  have "memory_step sample_env sample_upsert (new_memory ()) (Evidence_ingested (sample_evidence ''e1'' ''open'' 0 100000)
      (\<lambda>_. Some 5) (snd (ingest_evidence sample_env sample_upsert (new_memory ())
     (sample_evidence ''e1'' ''open'' 0 100000) (\<lambda>_. Some 5)))) one_evidence"
    by (rule step_ingest) (simp add: one_evidence_def)
  moreover have "memory_step sample_env sample_upsert one_evidence (Resource_requested
      (sample_request ''op1'' ''boat'' ''ann'' 1000) (\<lambda>_. Some 10) (snd (reserve_resource sample_env one_evidence
       (sample_request ''op1'' ''boat'' ''ann'' 1000) (\<lambda>_. Some 10)))) one_lease"
    by (rule step_reserve) (simp add: one_lease_def)
  ultimately show ?thesis by (blast intro: run_cons run_nil)
qed

section \<open>Runs\<close>

text \<open>C40. Every state a run of the memory reaches is well formed: evidence has checked
  texts, a validity window and a confidence between 0 and 1, every receipt answers its
  request, every lease is held under a token that a receipt granted, granted tokens
  increase and stay below the key's counter, and checkpoints name registered evidence of
  their incident.\<close>

theorem memory_runs_keep_inv:
  assumes "run (memory_step E upsert) (new_memory vi) ls m"
  shows "memory_inv m"
  using memory_machine.run_inv [OF assms new_memory_inv] .

theorem memory_runs_keep_inv_witness:
  "memory_inv one_lease \<and> leases one_lease \<noteq> []"
  using sample_run memory_runs_keep_inv by (metis one_lease_eq list.distinct(1) memory.select_convs(5))

text \<open>C22. Fencing: of two reservations granted for one lease key, the later receipt
  carries the greater token, and no token exceeds the key's counter.\<close>

theorem fencing_tokens_increase:
  assumes "run (memory_step E upsert) (new_memory vi) ls m"
    and "receipts m = xs @ (o1, r1) # ys @ (o2, r2) # zs"
    and "granted_token key r1 = Some t1" and "granted_token key r2 = Some t2"
  shows "1 \<le> t1 \<and> t1 < t2 \<and> t2 \<le> token_of (fencing_tokens m) key"
proof -
  have "tokens_inv (receipts m) (fencing_tokens m)"
    using memory_machine.run_inv [OF assms(1) new_memory_inv] by (rule memory_invD)
  then have inv: "sorted_wrt (<) (granted key (receipts m))"
    "\<forall>t \<in> set (granted key (receipts m)). 1 \<le> t \<and> t \<le> token_of (fencing_tokens m) key"
    unfolding tokens_inv_def by blast+
  have "granted key (receipts m) = granted key xs @ t1 # granted key ys @ t2 # granted key zs"
    using assms(3,4) by (simp add: assms(2) granted_def List.map_filter_def)
  with inv show ?thesis by (auto simp: sorted_wrt_append)
qed

text \<open>A second reservation of the sample resource, after the first lease ended.\<close>

definition two_leases :: "unit memory" where
  "two_leases = fst (reserve_resource sample_env one_lease (sample_request ''op2'' ''boat'' ''bob'' 1000)
     (\<lambda>_. Some 2000))"

lemma two_leases_run:
  "\<exists>ls. run (memory_step sample_env sample_upsert) (new_memory ()) ls two_leases"
proof -
  obtain ls where "run (memory_step sample_env sample_upsert) (new_memory ()) ls one_lease"
    using sample_run by blast
  moreover have "run (memory_step sample_env sample_upsert) one_lease [Resource_requested
      (sample_request ''op2'' ''boat'' ''bob'' 1000) (\<lambda>_. Some 2000) (snd (reserve_resource sample_env one_lease
       (sample_request ''op2'' ''boat'' ''bob'' 1000) (\<lambda>_. Some 2000)))] two_leases"
    by (simp add: run_cons_iff memory_step_reserve two_leases_def)
  ultimately show ?thesis by (blast intro: run_append)
qed

lemma two_leases_receipts: "\<exists>r2. receipts two_leases = [(''op1'', rc1), (''op2'', r2)] \<and>
    granted_token ''flood:boat'' r2 = Some 2"
  by (simp add: two_leases_def one_lease_eq sample_eval Let_def ev1_def lease1_def granted_token_def)

theorem fencing_tokens_increase_witness:
  "1 \<le> (1::int) \<and> (1::int) < 2 \<and> 2 \<le> token_of (fencing_tokens two_leases) ''flood:boat''"
proof -
  obtain r2 where r2: "receipts two_leases = [] @ (''op1'', rc1) # [] @ (''op2'', r2) # []"
      "granted_token ''flood:boat'' r2 = Some 2"
    using two_leases_receipts by auto
  have "granted_token ''flood:boat'' rc1 = Some 1"
    by (simp add: granted_token_def rc1_def req1_def make_receipt_def lease_key_def)
  from two_leases_run fencing_tokens_increase [OF _ r2(1) this r2(2)] show ?thesis by blast
qed

text \<open>A receipt, and the request it answers, outlive every later operation.\<close>

lemma record_receipt_keeps:
  assumes "js_get (receipts m) operation = None" and "js_get (receipts m) o' = Some rc'"
    and "js_get (operation_requests m) o' = Some q'"
  shows "js_get (receipts (record_receipt m operation q rc)) o' = Some rc'"
    and "js_get (operation_requests (record_receipt m operation q rc)) o' = Some q'"
  using assms by (auto simp: record_receipt_def js_get_set)

lemma step_keeps_receipt:
  assumes "memory_step E upsert m l m'"
    and rc: "js_get (receipts m) o' = Some rc'" and q: "js_get (operation_requests m) o' = Some q'"
    and inv: "memory_inv m"
  shows "js_get (receipts m') o' = Some rc' \<and> js_get (operation_requests m') o' = Some q'"
  using assms(1)
proof cases
  case (step_available v)
  then show ?thesis using rc q by (simp add: set_available_def)
next
  case (step_ingest inp clk res)
  from ingest_evidence_effect [OF step_ingest(2) memory_invD(1) [OF inv]]
  obtain es vi where "m' = m\<lparr>evidence_map := es, vector_state := vi\<rparr>" by blast
  then show ?thesis using rc q by simp
next
  case (step_checkpoint inp clk res)
  from step_checkpoint(2) show ?thesis using rc q by (cases rule: checkpoint_cases) simp_all
next
  case (step_reserve inp clk res)
  from step_reserve(2) show ?thesis
  proof (cases rule: reserve_cases)
    case (granted operation q1 now_ms d)
    from granted(9) [symmetric] show ?thesis
      using rc q granted(3) by (cases rule: grant_lease_result) (auto simp: record_receipt_def js_get_set)
  qed (use rc q in \<open>auto simp: record_receipt_def js_get_set\<close>)
qed

text \<open>Receipts are permanent: whatever is done after an operation was recorded, its
  receipt and its request stay as they are.\<close>

theorem receipts_are_permanent:
  assumes "run (memory_step E upsert) m ls m'" and "memory_inv m"
    and "js_get (receipts m) operation = Some rc" and "js_get (operation_requests m) operation = Some q"
  shows "js_get (receipts m') operation = Some rc \<and> js_get (operation_requests m') operation = Some q"
  using assms
proof (induction rule: run.induct)
  case (run_nil m)
  then show ?case by simp
next
  case (run_cons m l t ls u)
  from step_keeps_receipt [OF run_cons.hyps(1) run_cons.prems(2,3,1)]
    memory_step_inv [OF run_cons.prems(1) run_cons.hyps(1)] run_cons.IH
  show ?case by blast
qed

lemma one_lease_inv: "memory_inv one_lease"
proof -
  obtain ls where "run (memory_step sample_env sample_upsert) (new_memory ()) ls one_lease"
    using sample_run by blast
  from memory_machine.run_inv [OF this new_memory_inv] show ?thesis .
qed

theorem receipts_are_permanent_witness:
  "js_get (receipts two_leases) ''op1'' = Some rc1 \<and> js_get (operation_requests two_leases) ''op1'' = Some req1"
proof (rule receipts_are_permanent)
  show "run (memory_step sample_env sample_upsert) one_lease [Resource_requested
      (sample_request ''op2'' ''boat'' ''bob'' 1000) (\<lambda>_. Some 2000) (snd (reserve_resource sample_env one_lease
       (sample_request ''op2'' ''boat'' ''bob'' 1000) (\<lambda>_. Some 2000)))] two_leases"
    by (simp add: run_cons_iff memory_step_reserve two_leases_def)
qed (simp_all add: one_lease_inv, simp_all add: one_lease_eq)

section \<open>Decisions\<close>

lemma decide_evidence_allowed:
  "allowed (decide_evidence m incident requester t ids) \<longleftrightarrow>
   (\<forall>v \<in> set ids. \<exists>r. get_any (evidence_map m) v = Some r \<and> ev_incident r = incident \<and>
      status_at r t = ADMITTED \<and> in_scope r requester)"
  by (induction ids) (auto split: option.splits)

text \<open>A decision allows an action exactly when evidence is named and every named item
  is registered, of the incident, admitted at the decision time (signed, valid and
  not conflicted) and in the scope of the agency.\<close>

theorem decision_allowed_iff:
  assumes "evaluate_decision E m inp clk = Inr d"
  shows "\<exists>incident requester at_in t.
     require_text (fld inp ''incidentId'') ''incidentId'' = Inr incident \<and>
     require_text (fld inp ''agency'') ''agency'' = Inr requester \<and>
     default_at (fld inp ''at'') clk = Inr at_in \<and> timestamp E at_in ''at'' = Inr t \<and>
     (allowed d \<longleftrightarrow> elements (fld inp ''evidenceIds'') \<noteq> [] \<and>
        (\<forall>v \<in> set (elements (fld inp ''evidenceIds'')). \<exists>r. get_any (evidence_map m) v = Some r \<and>
           ev_incident r = incident \<and> signature_valid r \<and> valid_from_ms r \<le> t \<and> t < valid_until_ms r \<and>
           \<not> conflicted r \<and> in_scope r requester))"
proof -
  have admitted: "status_at r t = ADMITTED \<longleftrightarrow>
      signature_valid r \<and> valid_from_ms r \<le> t \<and> t < valid_until_ms r \<and> \<not> conflicted r" for r t
    by (auto simp: status_at_def)
  from assms obtain incident requester at_in t where *:
      "default_at (fld inp ''at'') clk = Inr at_in"
      "require_text (fld inp ''incidentId'') ''incidentId'' = Inr incident"
      "require_text (fld inp ''agency'') ''agency'' = Inr requester" "timestamp E at_in ''at'' = Inr t"
      "(if \<not> is_array (fld inp ''evidenceIds'') \<or> elements (fld inp ''evidenceIds'') = []
        then Inr \<lparr>allowed = False, reason = ''no_evidence'', decision_evidence = None\<rparr>
        else Inr (decide_evidence m incident requester t (elements (fld inp ''evidenceIds'')))) = (Inr d :: js_error + decision)"
    unfolding evaluate_decision_def guard_simps by auto
  have arr: "elements v \<noteq> [] \<Longrightarrow> is_array v" for v by (cases v) auto
  have "allowed d \<longleftrightarrow> elements (fld inp ''evidenceIds'') \<noteq> [] \<and>
      (\<forall>v \<in> set (elements (fld inp ''evidenceIds'')). \<exists>r. get_any (evidence_map m) v = Some r \<and>
         ev_incident r = incident \<and> status_at r t = ADMITTED \<and> in_scope r requester)"
  proof (cases "elements (fld inp ''evidenceIds'') = []")
    case False
    with *(5) arr have "d = decide_evidence m incident requester t (elements (fld inp ''evidenceIds''))" by simp
    with False show ?thesis by (simp only: decide_evidence_allowed simp_thms)
  qed (use *(5) in auto)
  with *(1-4) show ?thesis unfolding admitted by (metis (no_types, lifting))
qed

theorem decision_allowed_iff_witness:
  "\<exists>incident requester at_in t.
     require_text (fld (decision_input req1 (iso_text 10)) ''incidentId'') ''incidentId'' = Inr incident \<and>
     require_text (fld (decision_input req1 (iso_text 10)) ''agency'') ''agency'' = Inr requester \<and>
     default_at (fld (decision_input req1 (iso_text 10)) ''at'') (\<lambda>_. None) = Inr at_in \<and>
     timestamp sample_env at_in ''at'' = Inr t \<and>
     (True \<longleftrightarrow> elements (fld (decision_input req1 (iso_text 10)) ''evidenceIds'') \<noteq> [] \<and>
        (\<forall>v \<in> set (elements (fld (decision_input req1 (iso_text 10)) ''evidenceIds'')).
           \<exists>r. get_any (evidence_map one_evidence) v = Some r \<and>
           ev_incident r = incident \<and> signature_valid r \<and> valid_from_ms r \<le> t \<and> t < valid_until_ms r \<and>
           \<not> conflicted r \<and> in_scope r requester))"
proof -
  have "evaluate_decision sample_env one_evidence (decision_input req1 (iso_text 10)) (\<lambda>_. None)
      = Inr \<lparr>allowed = True, reason = ''evidence_admissible'', decision_evidence = None\<rparr>"
    by (simp add: sample_eval decision_input_def one_evidence_eq req1_def ev1_def)
  from decision_allowed_iff [OF this] show ?thesis by simp
qed

section \<open>Reservations\<close>

lemma replay_not_recorded [simp]: "replay E m operation q rc \<noteq> Recorded rc'" "Recorded rc' \<noteq> replay E m operation q rc"
  by (auto simp: replay_def split: option.splits)

lemma reserve_granted:
  assumes "reserve_resource E m inp clk = (m', Inr (Recorded rc))" and "rc_outcome rc = Resource_reserved t"
  obtains operation q now_ms d l where "available m" "reserve_input inp = Inr (operation, q)"
    "js_get (receipts m) operation = None" "clk 0 = Some now_ms" "\<bar>now_ms\<bar> \<le> max_time"
    "evaluate_decision E m (decision_input q (iso_text now_ms)) (\<lambda>k. clk (Suc k)) = Inr d" "allowed d"
    "lease_free m (lease_key (rq_incident q) (rq_resource q)) now_ms"
    "t = token_of (fencing_tokens m) (lease_key (rq_incident q) (rq_resource q)) + 1"
    "rc = make_receipt operation q (Resource_reserved t) (iso_text now_ms)"
    "js_get (leases m') (lease_key (rq_incident q) (rq_resource q)) = Some l"
    "ls_token l = t" "ls_agent l = rq_agent q" "expires_at_ms l = now_ms + rq_lease_ms q" "0 < rq_lease_ms q"
  using assms(1)
proof (cases rule: reserve_cases)
  case (granted operation q now_ms d)
  from granted(9) [symmetric] show ?thesis
  proof (cases rule: grant_lease_result)
    case (lease l rc')
    from lease(5) have "rc = rc'" by simp
    moreover from this assms(2) lease(2)
    have "t = token_of (fencing_tokens m) (lease_key (rq_incident q) (rq_resource q)) + 1"
      by (simp add: make_receipt_def)
    moreover have "js_get (leases m') (lease_key (rq_incident q) (rq_resource q)) = Some l"
      by (simp add: lease(4) record_receipt_def js_get_set)
    ultimately show ?thesis
      using that granted(1-8) lease(2,3) reserve_input_ok [OF granted(2)] by simp
  qed simp
qed (use assms(2) in \<open>simp_all add: make_receipt_def\<close>)

text \<open>C21. Authority of a reservation: a granted lease has every cited item of evidence
  admitted for its incident and agency at the moment of the grant, finds no lease
  unexpired, takes the next fencing token, and holds for the requested time.\<close>

theorem reservation_is_authorized:
  assumes "js_dates (date_parse E)"
    and "reserve_resource E m inp clk = (m', Inr (Recorded rc))" and "rc_outcome rc = Resource_reserved t"
  shows "\<exists>operation q now_ms l. reserve_input inp = Inr (operation, q) \<and> clk 0 = Some now_ms \<and>
     rq_evidence q \<noteq> [] \<and>
     (\<forall>i \<in> set (rq_evidence q). \<exists>r. js_get (evidence_map m) i = Some r \<and> ev_incident r = rq_incident q \<and>
        status_at r now_ms = ADMITTED \<and> in_scope r (rq_agency q)) \<and>
     lease_free m (lease_key (rq_incident q) (rq_resource q)) now_ms \<and>
     t = token_of (fencing_tokens m) (lease_key (rq_incident q) (rq_resource q)) + 1 \<and>
     js_get (leases m') (lease_key (rq_incident q) (rq_resource q)) = Some l \<and>
     ls_token l = t \<and> ls_agent l = rq_agent q \<and> expires_at_ms l = now_ms + rq_lease_ms q"
  using assms(2,3)
proof (cases rule: reserve_granted)
  case (1 operation q now_ms d l)
  note input = reserve_input_ok [OF 1(2)]
  have parse: "date_parse E (iso_text now_ms) = Some now_ms"
    using assms(1) 1(5) by (rule js_dates.parse_iso_text)
  have "evaluate_decision E m (decision_input q (iso_text now_ms)) (\<lambda>k. clk (Suc k))
      = Inr (decide_evidence m (rq_incident q) (rq_agency q) now_ms (map Str (rq_evidence q)))"
    using input 1(1) parse
    by (simp add: evaluate_decision_def decision_input_def default_at_def timestamp_def)
  with 1(6,7) have "allowed (decide_evidence m (rq_incident q) (rq_agency q) now_ms (map Str (rq_evidence q)))"
    by simp
  then show ?thesis
    using 1 input by (intro exI [of _ operation] exI [of _ q] exI [of _ now_ms] exI [of _ l])
      (simp add: decide_evidence_allowed)
qed

theorem reservation_is_authorized_witness:
  "\<exists>operation q now_ms l. reserve_input (sample_request ''op1'' ''boat'' ''ann'' 1000) = Inr (operation, q) \<and>
     (\<lambda>_. Some 10 :: int option) (0 :: nat) = Some now_ms \<and> rq_evidence q \<noteq> [] \<and>
     (\<forall>i \<in> set (rq_evidence q). \<exists>r. js_get (evidence_map one_evidence) i = Some r \<and> ev_incident r = rq_incident q \<and>
        status_at r now_ms = ADMITTED \<and> in_scope r (rq_agency q)) \<and>
     lease_free one_evidence (lease_key (rq_incident q) (rq_resource q)) now_ms \<and>
     1 = token_of (fencing_tokens one_evidence) (lease_key (rq_incident q) (rq_resource q)) + 1 \<and>
     js_get (leases one_lease) (lease_key (rq_incident q) (rq_resource q)) = Some l \<and>
     ls_token l = 1 \<and> ls_agent l = rq_agent q \<and> expires_at_ms l = now_ms + rq_lease_ms q"
proof (rule reservation_is_authorized)
  show "js_dates (date_parse sample_env)" unfolding date_parse_sample by (rule iso_dates.js_dates_axioms)
  show "reserve_resource sample_env one_evidence (sample_request ''op1'' ''boat'' ''ann'' 1000) (\<lambda>_. Some 10)
      = (one_lease, Inr (Recorded rc1))"
    by (simp add: one_lease_def reserve_one)
qed (simp add: rc1_def make_receipt_def)

lemma step_leases_grow:
  assumes "memory_step E upsert m l m'" and "js_get (leases m) key = Some l1"
  shows "\<exists>l2. js_get (leases m') key = Some l2 \<and> expires_at_ms l1 \<le> expires_at_ms l2"
  using assms(1)
proof cases
  case (step_available v)
  then show ?thesis using assms(2) by (simp add: set_available_def)
next
  case (step_ingest inp clk res)
  have "leases (fst (ingest_evidence E upsert m inp clk)) = leases m"
    by (simp add: ingest_evidence_def store_evidence_def Let_def split: sum.split option.split prod.split)
  then show ?thesis using assms(2) step_ingest by simp
next
  case (step_checkpoint inp clk res)
  from step_checkpoint(2) show ?thesis using assms(2) by (cases rule: checkpoint_cases) simp_all
next
  case (step_reserve inp clk res)
  from step_reserve(2) show ?thesis
  proof (cases rule: reserve_cases)
    case (granted operation q now_ms d)
    from granted(9) [symmetric] show ?thesis
      using assms(2) granted(8) reserve_input_ok [OF granted(2)]
      by (cases rule: grant_lease_result) (auto simp: record_receipt_def js_get_set lease_free_def)
  qed (use assms(2) in \<open>auto simp: record_receipt_def\<close>)
qed

lemma run_leases_grow:
  "run (memory_step E upsert) m ls m' \<Longrightarrow> js_get (leases m) key = Some l1 \<Longrightarrow>
   \<exists>l2. js_get (leases m') key = Some l2 \<and> expires_at_ms l1 \<le> expires_at_ms l2"
proof (induction arbitrary: l1 rule: run.induct)
  case (run_nil m)
  then show ?case by blast
next
  case (run_cons m l t ls u)
  from step_leases_grow [OF run_cons.hyps(1) run_cons.prems] run_cons.IH show ?case
    by (meson order_trans)
qed

text \<open>C23. Mutual exclusion: when a lease key is granted twice in a run, the second grant
  happens at a clock reading at or after the end of the first lease.\<close>

theorem leases_do_not_overlap:
  assumes first: "reserve_resource E m1 inp1 clk1 = (m2, Inr (Recorded rc1))" "rc_outcome rc1 = Resource_reserved t1"
    and between: "run (memory_step E upsert) m2 ls m3"
    and second: "reserve_resource E m3 inp2 clk2 = (m4, Inr (Recorded rc2))" "rc_outcome rc2 = Resource_reserved t2"
    and key: "lease_key (rc_incident rc1) (rc_resource rc1) = lease_key (rc_incident rc2) (rc_resource rc2)"
  shows "\<exists>l1 now_ms. js_get (leases m2) (lease_key (rc_incident rc1) (rc_resource rc1)) = Some l1 \<and>
     ls_token l1 = t1 \<and> clk2 0 = Some now_ms \<and> expires_at_ms l1 \<le> now_ms"
  using first
proof (cases rule: reserve_granted)
  case one: (1 operation q now_ms d l1)
  from second show ?thesis
  proof (cases rule: reserve_granted)
    case two: (1 operation' q' now_ms' d' l')
    have k: "lease_key (rc_incident rc1) (rc_resource rc1) = lease_key (rq_incident q) (rq_resource q)"
      "lease_key (rc_incident rc1) (rc_resource rc1) = lease_key (rq_incident q') (rq_resource q')"
      using key by (simp_all add: one(10) two(10) make_receipt_def)
    from run_leases_grow [OF between one(11)] k obtain l2 where
        "js_get (leases m3) (lease_key (rq_incident q') (rq_resource q')) = Some l2"
        "expires_at_ms l1 \<le> expires_at_ms l2" by auto
    with two(8) have "expires_at_ms l1 \<le> now_ms'" by (simp add: lease_free_def)
    with one(11,12) two(4) k(1) show ?thesis by (intro exI [of _ l1] exI [of _ now_ms']) simp
  qed
qed

theorem leases_do_not_overlap_witness:
  "\<exists>l1 now_ms. js_get (leases one_lease) (lease_key (rc_incident rc1) (rc_resource rc1)) = Some l1 \<and>
     ls_token l1 = 1 \<and> (\<lambda>_. Some 2000 :: int option) (0 :: nat) = Some now_ms \<and> expires_at_ms l1 \<le> now_ms"
proof -
  have first: "reserve_resource sample_env one_evidence (sample_request ''op1'' ''boat'' ''ann'' 1000) (\<lambda>_. Some 10)
      = (one_lease, Inr (Recorded rc1))"
    by (simp add: one_lease_def reserve_one)
  have out: "rc_outcome rc1 = Resource_reserved 1" by (simp add: rc1_def make_receipt_def)
  have "\<exists>rc2 t2. snd (reserve_resource sample_env one_lease (sample_request ''op2'' ''boat'' ''bob'' 1000) (\<lambda>_. Some 2000))
      = Inr (Recorded rc2) \<and> rc_outcome rc2 = Resource_reserved t2 \<and>
      lease_key (rc_incident rc1) (rc_resource rc1) = lease_key (rc_incident rc2) (rc_resource rc2)"
    by (simp add: one_lease_eq sample_eval Let_def ev1_def lease1_def rc1_def req1_def)
  then obtain rc2 t2 where two: "reserve_resource sample_env one_lease (sample_request ''op2'' ''boat'' ''bob'' 1000) (\<lambda>_. Some 2000)
      = (two_leases, Inr (Recorded rc2))" "rc_outcome rc2 = Resource_reserved t2"
      "lease_key (rc_incident rc1) (rc_resource rc1) = lease_key (rc_incident rc2) (rc_resource rc2)"
    unfolding two_leases_def by (metis prod.collapse)
  show ?thesis
    by (rule leases_do_not_overlap [where upsert = sample_upsert and ls = "[]", OF first out _ two]) simp
qed

text \<open>Replay: an operation that has a receipt changes nothing. The same request gets the
  original receipt, and any other request is denied: the comparison of canonical texts
  decides equality of requests.\<close>

theorem replay_returns_original:
  assumes "memory_inv m" and "available m" and "reserve_input inp = Inr (operation, q)"
    and "js_get (receipts m) operation = Some rc"
  shows "\<exists>q'. js_get (operation_requests m) operation = Some q' \<and>
    reserve_resource E m inp clk =
      (m, Inr (if q' = q then Operation_replay operation rc else Digest_mismatch_denied operation))"
proof -
  from memory_invD(4) [OF assms(1)] assms(4) obtain q' where q': "js_get (operation_requests m) operation = Some q'"
    unfolding receipts_inv_def by blast
  with assms(2-4) show ?thesis
    by (auto simp: reserve_resource_def replay_def canonical_request_eq)
qed

theorem replay_returns_original_witness:
  "\<exists>q'. js_get (operation_requests one_lease) ''op1'' = Some q' \<and>
    reserve_resource sample_env one_lease (sample_request ''op1'' ''boat'' ''ann'' 1000) (\<lambda>_. None) =
      (one_lease, Inr (if q' = req1 then Operation_replay ''op1'' rc1 else Digest_mismatch_denied ''op1''))"
  by (rule replay_returns_original [OF one_lease_inv _ sample_input]) (simp_all add: one_lease_eq)

text \<open>A reservation that throws leaves the memory as it was, except when the end of the
  granted lease is no representable date: then the fencing token is already taken, and
  neither lease nor receipt is stored.\<close>

theorem reservation_error_effect:
  assumes "reserve_resource E m inp clk = (m', Inl e)"
  shows "m' = m \<or>
    (\<exists>operation q now_ms. reserve_input inp = Inr (operation, q) \<and> clk 0 = Some now_ms \<and>
       max_time < \<bar>now_ms + rq_lease_ms q\<bar> \<and> e = RangeErr ''Invalid time value'' \<and>
       m' = m\<lparr>fencing_tokens := js_set (lease_key (rq_incident q) (rq_resource q))
              (token_of (fencing_tokens m) (lease_key (rq_incident q) (rq_resource q)) + 1) (fencing_tokens m)\<rparr>)"
  using assms
proof (cases rule: reserve_cases)
  case (granted operation q now_ms d)
  from granted(9) [symmetric] show ?thesis
    using granted(2,4) by (cases rule: grant_lease_result) auto
qed simp_all

theorem reservation_error_effect_witness:
  "one_evidence\<lparr>fencing_tokens := [(''flood:boat'', 1)]\<rparr> = one_evidence \<or>
    (\<exists>operation q now_ms. reserve_input (sample_request ''op1'' ''boat'' ''ann'' 9007199254740991) = Inr (operation, q) \<and>
       (\<lambda>_. Some 10 :: int option) (0 :: nat) = Some now_ms \<and>
       max_time < \<bar>now_ms + rq_lease_ms q\<bar> \<and> RangeErr ''Invalid time value'' = RangeErr ''Invalid time value'' \<and>
       one_evidence\<lparr>fencing_tokens := [(''flood:boat'', 1)]\<rparr> = one_evidence
         \<lparr>fencing_tokens := js_set (lease_key (rq_incident q) (rq_resource q))
              (token_of (fencing_tokens one_evidence) (lease_key (rq_incident q) (rq_resource q)) + 1)
              (fencing_tokens one_evidence)\<rparr>)"
  by (rule reservation_error_effect [where E = sample_env])
     (simp add: sample_eval one_evidence_eq ev1_def iso_string_def to_iso_string_def max_time_def Let_def)

end
