(* ===== verification/Protocol_Evidence.thy ===== *)
theory Protocol_Evidence
  imports Protocol_Props
begin

text \<open>
  Evidence in the memory of \<open>src/protocol.js\<close>: the contract of the vector index and
  retrieval under it, what ingestion does to contradictory records, checkpoints and
  succession, the outage switch, and two behaviours of the code that its intent does not
  cover (contradictions that start in the future, and lease keys that coincide).
\<close>

section \<open>The vector index\<close>

text \<open>
  What the memory relies on: a search returns candidates only, at most as many as the
  limit, and indexing a checked id with a non-empty vector succeeds.
\<close>

locale vector_index =
  fixes search :: "jsv \<Rightarrow> string list \<Rightarrow> jsv \<Rightarrow> 'vi \<Rightarrow> js_error + (string \<times> jnum) list"
    and upsert :: "string \<Rightarrow> rat list \<Rightarrow> 'vi \<Rightarrow> js_error + 'vi"
  assumes search_candidates: "search query ids limit vi = Inr hits \<Longrightarrow> fst ` set hits \<subseteq> set ids"
    and search_limit: "search query ids (int_num (int n)) vi = Inr hits \<Longrightarrow> length hits \<le> n"
    and upsert_total: "checked i \<Longrightarrow> vec \<noteq> [] \<Longrightarrow> \<exists>vi'. upsert i vec vi = Inr vi'"
begin

lemma map_of_candidates:
  "map_of (map (\<lambda>r. (ev_id r, r)) rs) i = Some r \<Longrightarrow> r \<in> set rs \<and> ev_id r = i"
  by (auto dest!: map_of_SomeD)

lemma retrieve_from_candidates:
  assumes "retrieve_evidence E search m inp clk = Inr rs"
  shows "\<exists>incident requester at_in t. require_text (fld inp ''incidentId'') ''incidentId'' = Inr incident \<and>
     require_text (fld inp ''agency'') ''agency'' = Inr requester \<and>
     default_at (fld inp ''at'') clk = Inr at_in \<and> timestamp E at_in ''at'' = Inr t \<and>
     (\<forall>(v, s) \<in> set rs. \<exists>r \<in> set (candidates m incident requester t). v = public_evidence r t) \<and>
     (\<forall>n. fld inp ''limit'' = int_num (int n) \<longrightarrow> length rs \<le> n)"
proof -
  define limit where "limit = (if fld inp ''limit'' = Undef then int_num 5 else fld inp ''limit'')"
  have limit_n: "limit = int_num (int n)" if "fld inp ''limit'' = int_num (int n)" for n
    using that by (simp add: limit_def)
  from assms obtain incident requester at_in t where *:
      "require_text (fld inp ''incidentId'') ''incidentId'' = Inr incident"
      "require_text (fld inp ''agency'') ''agency'' = Inr requester"
      "default_at (fld inp ''at'') clk = Inr at_in" "timestamp E at_in ''at'' = Inr t"
    and rs: "(if truthy (fld inp ''queryVector'') then
        and_then (search (fld inp ''queryVector'') (map ev_id (candidates m incident requester t)) limit (vector_state m))
          (map_result (\<lambda>(i, score).
            case map_of (map (\<lambda>r. (ev_id r, r)) (rev (candidates m incident requester t))) i of
              None \<Rightarrow> Inl (TypeErr ''Cannot read properties of undefined'')
            | Some r \<Rightarrow> Inr (public_evidence r t, Some score)))
      else Inr (map (\<lambda>r. (public_evidence r t, None))
            (slice_to E (js_sort (compare_confidence E) (candidates m incident requester t)) limit))) = Inr rs"
    unfolding retrieve_evidence_def guard_simps Let_def limit_def by blast
  have "(\<forall>(v, s) \<in> set rs. \<exists>r \<in> set (candidates m incident requester t). v = public_evidence r t) \<and>
      (\<forall>n. limit = int_num (int n) \<longrightarrow> length rs \<le> n)"
  proof (cases "truthy (fld inp ''queryVector'')")
    case True
    with rs obtain hits where hits:
        "search (fld inp ''queryVector'') (map ev_id (candidates m incident requester t)) limit (vector_state m) = Inr hits"
      and all2: "list_all2 (\<lambda>x y. \<exists>r. map_of (map (\<lambda>r. (ev_id r, r)) (rev (candidates m incident requester t))) (fst x) = Some r
          \<and> (public_evidence r t, Some (snd x)) = y) hits rs"
      by (auto simp: guard_simps map_result_Inr_iff case_prod_beta)
    have "\<exists>r \<in> set (candidates m incident requester t). v = public_evidence r t" if "(v, s) \<in> set rs" for v s
    proof -
      from that obtain k where "k < length rs" "rs ! k = (v, s)" by (auto simp: in_set_conv_nth)
      with all2 have "\<exists>r. map_of (map (\<lambda>r. (ev_id r, r)) (rev (candidates m incident requester t))) (fst (hits ! k)) = Some r
          \<and> v = public_evidence r t"
        by (auto simp: list_all2_conv_all_nth case_prod_beta)
      then show ?thesis using map_of_candidates by fastforce
    qed
    moreover have "length rs \<le> n" if "limit = int_num (int n)" for n
      using search_limit [OF hits [unfolded that]] list_all2_lengthD [OF all2] by simp
    ultimately show ?thesis by blast
  next
    case False
    with rs have "rs = map (\<lambda>r. (public_evidence r t, None))
        (slice_to E (js_sort (compare_confidence E) (candidates m incident requester t)) limit)" by simp
    then show ?thesis
      using set_slice_to [of E "js_sort (compare_confidence E) (candidates m incident requester t)" limit]
        length_slice_to [of E] by fastforce
  qed
  with * limit_n show ?thesis by (metis (no_types, lifting))
qed

text \<open>Ingestion of a checked record is never refused by the index.\<close>

lemma store_never_refused:
  "evidence_ok r \<Longrightarrow> read_clock clk k = Inr t \<Longrightarrow>
   \<exists>vi. store_evidence upsert m r clk k =
     (m\<lparr>evidence_map := js_set (ev_id r) r (evidence_map m), vector_state := vi\<rparr>, Inr (public_evidence r t))"
  using upsert_total [of "ev_id r" "the (embedding r)" "vector_state m"]
  by (cases "embedding r") (auto simp: store_evidence_def evidence_ok_def intro: exI [of _ "vector_state m"])

end

lemma index_search_spec:
  "index_search E A query ids limit vs = Inr hits \<Longrightarrow>
   \<exists>scored. hits = slice_to E (js_sort (compare_scores E A) scored) (if limit = Undef then int_num 5 else limit)
     \<and> list_all2 (\<lambda>(i, vec) y. fst y = i) (filter (\<lambda>(i, vec). i \<in> set ids) vs) scored"
  unfolding index_search_def guard_simps map_result_Inr_iff
  by (auto simp: guard_simps case_prod_beta elim!: list_all2_mono)

lemma index_search_candidates:
  assumes "index_search E A query ids limit vs = Inr hits"
  shows "fst ` set hits \<subseteq> set ids"
proof -
  from index_search_spec [OF assms] obtain scored where
      hits: "hits = slice_to E (js_sort (compare_scores E A) scored) (if limit = Undef then int_num 5 else limit)"
    and all2: "list_all2 (\<lambda>(i, vec) y. fst y = i) (filter (\<lambda>(i, vec). i \<in> set ids) vs) scored" by blast
  have "set hits \<subseteq> set scored" using set_slice_to unfolding hits by (metis set_js_sort)
  moreover have "fst y \<in> set ids" if "y \<in> set scored" for y
  proof -
    from that obtain k where k: "k < length scored" "scored ! k = y" by (auto simp: in_set_conv_nth)
    with all2 have "filter (\<lambda>(i, vec). i \<in> set ids) vs ! k \<in> set (filter (\<lambda>(i, vec). i \<in> set ids) vs)"
      using list_all2_lengthD [OF all2] nth_mem [of k "filter (\<lambda>(i, vec). i \<in> set ids) vs"] by simp
    moreover have "fst (filter (\<lambda>(i, vec). i \<in> set ids) vs ! k) = fst y"
      using list_all2_nthD2 [OF all2 k(1)] k(2) by (simp add: case_prod_beta)
    ultimately show ?thesis by (auto simp: case_prod_beta)
  qed
  ultimately show ?thesis by auto
qed

interpretation memory_index: vector_index "index_search E A" index_upsert for E A
proof
  fix query ids limit vi hits n i vec
  show "index_search E A query ids limit vi = Inr hits \<Longrightarrow> fst ` set hits \<subseteq> set ids"
    by (rule index_search_candidates)
  show "index_search E A query ids (int_num (int n)) vi = Inr hits \<Longrightarrow> length hits \<le> n"
    using length_slice_to [of E _ n] by (auto dest!: index_search_spec simp del: slice_to.simps)
  show "checked i \<Longrightarrow> vec \<noteq> [] \<Longrightarrow> \<exists>vi'. index_upsert i vec vi = Inr vi'"
    by (auto simp: index_upsert_def validate_vector_def list_ex_iff)
qed


section \<open>Retrieval\<close>

text \<open>Retrieval with the in-memory index returns views of evidence that is registered
  for the incident, admitted at the requested time and in the agency's scope, each marked
  eligible for action, and no more of them than the limit, whether ranked by similarity
  or by confidence.\<close>

theorem retrieval_is_admissible:
  assumes "retrieve_evidence E (index_search E A) m inp clk = Inr rs"
  shows "\<exists>incident requester at_in t. require_text (fld inp ''incidentId'') ''incidentId'' = Inr incident \<and>
     require_text (fld inp ''agency'') ''agency'' = Inr requester \<and>
     default_at (fld inp ''at'') clk = Inr at_in \<and> timestamp E at_in ''at'' = Inr t \<and>
     (\<forall>(v, s) \<in> set rs. \<exists>r \<in> snd ` set (evidence_map m). v = public_evidence r t \<and>
        ev_incident r = incident \<and> status_at r t = ADMITTED \<and> in_scope r requester \<and> action_eligible v) \<and>
     (\<forall>n. fld inp ''limit'' = int_num (int n) \<longrightarrow> length rs \<le> n)"
proof -
  from memory_index.retrieve_from_candidates [OF assms] obtain incident requester at_in t where *:
     "require_text (fld inp ''incidentId'') ''incidentId'' = Inr incident"
     "require_text (fld inp ''agency'') ''agency'' = Inr requester"
     "default_at (fld inp ''at'') clk = Inr at_in" "timestamp E at_in ''at'' = Inr t"
     "\<forall>(v, s) \<in> set rs. \<exists>r \<in> set (candidates m incident requester t). v = public_evidence r t"
     "\<forall>n. fld inp ''limit'' = int_num (int n) \<longrightarrow> length rs \<le> n" by blast
  have "\<forall>(v, s) \<in> set rs. \<exists>r \<in> snd ` set (evidence_map m). v = public_evidence r t \<and>
        ev_incident r = incident \<and> status_at r t = ADMITTED \<and> in_scope r requester \<and> action_eligible v"
    using *(5) by (fastforce simp: candidates_def public_evidence_def)
  with * show ?thesis by blast
qed

definition indexed_evidence :: "vectors memory" where
  "indexed_evidence = (new_memory [(''e1'', [1])])\<lparr>evidence_map := [(''e1'', ev1\<lparr>embedding := Some [1]\<rparr>)]\<rparr>"

definition sample_arith :: arith where
  "sample_arith = \<lparr>d_add = (\<lambda>x y. x), d_sub = (\<lambda>x y. x), d_mul = (\<lambda>x y. x), d_square = (\<lambda>x. x),
     d_div = (\<lambda>x y. x), d_sqrt = (\<lambda>x. x)\<rparr>"

definition sample_query :: jsv where
  "sample_query = Obj [(''incidentId'', Str ''flood''), (''agency'', Str ''fire''),
     (''queryVector'', Arr [int_num 1]), (''at'', Str (iso_text 7)), (''limit'', int_num 1)]"

theorem retrieval_is_admissible_witness:
  "\<exists>rs :: (public_view \<times> jnum option) list. rs \<noteq> [] \<and> (\<exists>incident requester at_in t. require_text (fld sample_query ''incidentId'') ''incidentId'' = Inr incident \<and>
     require_text (fld sample_query ''agency'') ''agency'' = Inr requester \<and>
     default_at (fld sample_query ''at'') (\<lambda>_. None) = Inr at_in \<and> timestamp sample_env at_in ''at'' = Inr t \<and>
     (\<forall>(v, s) \<in> set rs. \<exists>r \<in> snd ` set (evidence_map indexed_evidence). v = public_evidence r t \<and>
        ev_incident r = incident \<and> status_at r t = ADMITTED \<and> in_scope r requester \<and> action_eligible v) \<and>
     (\<forall>n. fld sample_query ''limit'' = int_num (int n) \<longrightarrow> length rs \<le> n))"
proof -
  have "\<exists>rs. rs \<noteq> [] \<and> retrieve_evidence sample_env (index_search sample_env sample_arith) indexed_evidence
      sample_query (\<lambda>_. None) = Inr rs"
    by (simp add: sample_eval sample_query_def retrieve_evidence_def candidates_def indexed_evidence_def ev1_def
        index_search_def validate_vector_def cosine_similarity_def Let_def js_truncate_def js_slice0_def)
  then obtain rs where rs: "rs \<noteq> []" "retrieve_evidence sample_env (index_search sample_env sample_arith)
      indexed_evidence sample_query (\<lambda>_. None) = Inr rs" by blast
  show ?thesis
  proof (rule exI [of _ rs], rule conjI)
    show "rs \<noteq> []" by (rule rs(1))
  qed (rule retrieval_is_admissible [OF rs(2)])
qed

section \<open>Contradictory evidence\<close>

definition current_at :: "evidence \<Rightarrow> int \<Rightarrow> bool" where
  "current_at e t \<longleftrightarrow> status_at e t = ADMITTED \<or> status_at e t = CONFLICTED"

lemma contradicts_mark [simp]: "contradicts e (mark_conflicted r) = contradicts e r"
  by (simp add: contradicts_def mark_conflicted_def overlapping_scope_def)

lemma mark_conflicts_steady:
  "\<exists>k'. mark_conflicts (\<lambda>_. Some t) k r es =
     (map (\<lambda>(i, e). (i, if contradicts e r \<and> current_at e t then mark_conflicted e else e)) es,
      if \<exists>e \<in> snd ` set es. contradicts e r \<and> current_at e t then mark_conflicted r else r, Inr k')"
proof (induction es arbitrary: k r)
  case Nil
  show ?case by simp
next
  case (Cons ie es)
  obtain i e where ie: "ie = (i, e)" by (cases ie)
  have "\<exists>k'. existing_current (\<lambda>_. Some t) k e = Inr (current_at e t, k')"
    by (simp add: existing_current_def read_clock_def current_at_def)
  then obtain k' where k': "existing_current (\<lambda>_. Some t) k e = Inr (current_at e t, k')" ..
  have idem: "mark_conflicted (mark_conflicted r) = mark_conflicted r" by (simp add: mark_conflicted_def)
  show ?case
  proof (cases "contradicts e r \<and> current_at e t")
    case True
    then show ?thesis using Cons.IH [of k' "mark_conflicted r"] by (auto simp: ie k' idem Let_def)
  next
    case False
    from Cons.IH [of k' r] obtain k'' where "mark_conflicts (\<lambda>_. Some t) k' r es =
       (map (\<lambda>(i, e). (i, if contradicts e r \<and> current_at e t then mark_conflicted e else e)) es,
        if \<exists>e \<in> snd ` set es. contradicts e r \<and> current_at e t then mark_conflicted r else r, Inr k'')"
      by blast
    moreover have "mark_conflicts (\<lambda>_. Some t) k r ((i, e) # es) =
        (let (es', r', res) = mark_conflicts (\<lambda>_. Some t) k' r es in ((i, e) # es', r', res))"
      using False by (auto simp: k')
    moreover have "(\<exists>e' \<in> snd ` set ((i, e) # es). contradicts e' r \<and> current_at e' t) \<longleftrightarrow>
        (\<exists>e' \<in> snd ` set es. contradicts e' r \<and> current_at e' t)" using False by auto
    ultimately show ?thesis using False by (intro exI [of _ k'']) (simp only: ie, auto)
  qed
qed

text \<open>Ingestion of evidence that is admitted at a steady clock marks exactly the
  registered records that contradict it and are current, and the new record is conflicted
  exactly when there is one.\<close>

theorem ingestion_marks_contradictions:
  assumes "ingest_evidence E upsert m inp (\<lambda>_. Some t) = (m', Inr v)"
    and "evidence_of_input E m inp = Inr r" and "status_at r t = ADMITTED"
  shows "(\<forall>i e. js_get (evidence_map m) i = Some e \<longrightarrow>
      js_get (evidence_map m') i = Some (if contradicts e r \<and> current_at e t then mark_conflicted e else e)) \<and>
    (\<exists>r'. js_get (evidence_map m') (ev_id r) = Some r' \<and> v = public_evidence r' t) \<and>
    pv_status v = (if \<exists>e \<in> snd ` set (evidence_map m). contradicts e r \<and> current_at e t
           then CONFLICTED else ADMITTED)"
proof -
  let ?hit = "\<lambda>e. contradicts e r \<and> current_at e t"
  let ?es = "map (\<lambda>(i, e). (i, if ?hit e then mark_conflicted e else e)) (evidence_map m)"
  define r0 where "r0 = r\<lparr>ev_status := Some ADMITTED\<rparr>"
  define r' where "r' = (if \<exists>e \<in> snd ` set (evidence_map m). ?hit e then mark_conflicted r0 else r0)"
  have same: "contradicts e r0 = contradicts e r" for e
    by (simp add: r0_def contradicts_def overlapping_scope_def)
  have ids: "ev_id r' = ev_id r" by (simp add: r'_def r0_def)
  from mark_conflicts_steady [of t 1 r0 "evidence_map m"] obtain k' where
      marks: "mark_conflicts (\<lambda>_. Some t) 1 r0 (evidence_map m) = (?es, r', Inr k')"
    unfolding same r'_def by blast
  have "available m" using assms(1) by (auto simp: ingest_evidence_def split: if_splits)
  then have "ingest_evidence E upsert m inp (\<lambda>_. Some t)
      = store_evidence upsert (m\<lparr>evidence_map := ?es\<rparr>) r' (\<lambda>_. Some t) k'"
    using assms(2,3) marks by (simp add: ingest_evidence_def read_clock_def r0_def [symmetric] Let_def)
  with assms(1) have stored: "evidence_map m' = js_set (ev_id r) r' ?es" "v = public_evidence r' t"
    by (auto simp: store_evidence_def Let_def ids read_clock_def split: sum.splits)
  have fresh: "js_get (evidence_map m) (ev_id r) = None" by (rule evidence_of_input_ok [OF assms(2)])
  have "js_get (evidence_map m') i = Some (if ?hit e then mark_conflicted e else e)"
    if "js_get (evidence_map m) i = Some e" for i e
    using that fresh by (auto simp: stored js_get_set map_of_map)
  moreover have "pv_status v = (if \<exists>e \<in> snd ` set (evidence_map m). ?hit e then CONFLICTED else ADMITTED)"
    using assms(3)
    by (auto simp: stored public_evidence_def r'_def r0_def status_at_def mark_conflicted_def split: if_splits)
  moreover have "js_get (evidence_map m') (ev_id r) = Some r'" by (simp add: stored js_get_set)
  ultimately show ?thesis using stored(2) by blast
qed

lemma sample_contradiction:
  "contradicts ev1 r \<longleftrightarrow> ev_incident r = ''flood'' \<and> claim_key r = ''bridge'' \<and> claim_value r \<noteq> ''open''"
  by (auto simp: contradicts_def ev1_def overlapping_scope_def)

theorem ingestion_marks_contradictions_witness:
  "\<exists>(m' :: unit memory) v r. (\<forall>i e. js_get (evidence_map one_evidence) i = Some e \<longrightarrow>
      js_get (evidence_map m') i = Some (if contradicts e r \<and> current_at e 6 then mark_conflicted e else e)) \<and>
    (\<exists>r'. js_get (evidence_map m') (ev_id r) = Some r' \<and> v = public_evidence r' 6) \<and>
    pv_status v = (if \<exists>e \<in> snd ` set (evidence_map one_evidence). contradicts e r \<and> current_at e 6
           then CONFLICTED else ADMITTED)"
proof -
  have "\<exists>m' v. ingest_evidence sample_env sample_upsert one_evidence (sample_evidence ''e2'' ''closed'' 0 100000)
      (\<lambda>_. Some 6) = (m', Inr v)"
    by (simp add: sample_eval one_evidence_eq ev1_def Let_def)
  moreover have "\<exists>r. evidence_of_input sample_env one_evidence (sample_evidence ''e2'' ''closed'' 0 100000) = Inr r
      \<and> status_at r 6 = ADMITTED"
    by (simp add: sample_eval one_evidence_eq Let_def)
  ultimately obtain m' v r where "ingest_evidence sample_env sample_upsert one_evidence
      (sample_evidence ''e2'' ''closed'' 0 100000) (\<lambda>_. Some 6) = (m', Inr v)"
      "evidence_of_input sample_env one_evidence (sample_evidence ''e2'' ''closed'' 0 100000) = Inr r"
      "status_at r 6 = ADMITTED" by blast
  from ingestion_marks_contradictions [OF this] show ?thesis
    by (intro exI [of _ m'] exI [of _ v] exI [of _ r])
qed

definition future_evidence :: "unit memory" where
  "future_evidence =
     (let ingest = (\<lambda>m inp. fst (ingest_evidence sample_env sample_upsert m inp (\<lambda>_. Some 5)))
      in ingest (ingest (new_memory ()) (sample_evidence ''e1'' ''open'' 10 100000))
           (sample_evidence ''e2'' ''closed'' 10 100000))"

text \<open>Contradictions that start in the future are not noticed: the comparison runs only
  for a record that is admitted when it is ingested. Two records that assert different
  values of one claim, ingested before they become valid, are later both admitted, and a
  reservation that cites either is authorized.\<close>

theorem future_contradictions_are_admitted:
  "\<exists>a b. js_get (evidence_map future_evidence) ''e1'' = Some a \<and> js_get (evidence_map future_evidence) ''e2'' = Some b
     \<and> contradicts a b \<and> status_at a 20 = ADMITTED \<and> status_at b 20 = ADMITTED \<and>
     (\<exists>rc. snd (reserve_resource sample_env future_evidence (sample_request ''op1'' ''boat'' ''ann'' 1000)
        (\<lambda>_. Some 20)) = Inr (Recorded rc) \<and> rc_outcome rc = Resource_reserved 1)"
  by (simp add: future_evidence_def sample_eval Let_def)

definition colliding_evidence :: "string \<Rightarrow> string \<Rightarrow> jsv" where
  "colliding_evidence i incident = Obj
     [(''id'', Str i), (''incidentId'', Str incident), (''claimKey'', Str ''bridge''),
      (''claimValue'', Str ''open''), (''assertion'', Str ''text''), (''issuer'', Str ''city''),
      (''scopes'', Arr [Str ''*'']), (''observedAt'', Str (iso_text 0)),
      (''validFrom'', Str (iso_text 0)), (''validUntil'', Str (iso_text 100000)),
      (''signatureValid'', Bool True), (''confidence'', int_num 1)]"

definition colliding_request :: "string \<Rightarrow> string \<Rightarrow> string \<Rightarrow> string \<Rightarrow> jsv" where
  "colliding_request operation i incident resource = Obj
     [(''operationId'', Str operation), (''incidentId'', Str incident), (''resourceId'', Str resource),
      (''agentId'', Str ''ann''), (''agency'', Str ''fire''), (''evidenceIds'', Arr [Str i]),
      (''leaseMs'', int_num 1000)]"

definition colliding_evidences :: "unit memory" where
  "colliding_evidences =
     (let ingest = (\<lambda>m inp. fst (ingest_evidence sample_env sample_upsert m inp (\<lambda>_. Some 5)))
      in ingest (ingest (new_memory ()) (colliding_evidence ''e1'' ''a'')) (colliding_evidence ''e2'' ''a:b''))"

definition colliding_memory :: "unit memory" where
  "colliding_memory = fst (reserve_resource sample_env colliding_evidences
     (colliding_request ''op1'' ''e1'' ''a'' ''b:c'') (\<lambda>_. Some 10))"

definition colliding_record :: "string \<Rightarrow> string \<Rightarrow> evidence" where
  "colliding_record i incident = ev1\<lparr>ev_id := i, ev_incident := incident\<rparr>"

lemma colliding_evidences_eq: "colliding_evidences = (new_memory ())\<lparr>evidence_map :=
    [(''e1'', colliding_record ''e1'' ''a''), (''e2'', colliding_record ''e2'' ''a:b'')]\<rparr>"
  by (simp add: colliding_evidences_def colliding_evidence_def colliding_record_def sample_eval Let_def ev1_def)

lemma colliding_memory_eq: "\<exists>q l rc. colliding_memory = colliding_evidences
    \<lparr>fencing_tokens := [(''a:b:c'', 1)], leases := [(''a:b:c'', l)], operation_requests := [(''op1'', q)],
     receipts := [(''op1'', rc)]\<rparr> \<and> rc_incident rc = ''a'' \<and> rc_resource rc = ''b:c'' \<and>
     ls_agent l = ''ann'' \<and> ls_token l = 1 \<and> expires_at_ms l = 1010"
  by (simp add: colliding_memory_def colliding_request_def colliding_evidences_eq sample_eval Let_def
      colliding_record_def ev1_def)

text \<open>Lease keys of different resources can coincide, since the separator is not
  escaped: while resource \<open>b:c\<close> of incident \<open>a\<close> is leased, a reservation of resource \<open>c\<close>
  of incident \<open>a:b\<close>, which nobody holds, is denied as held.\<close>

theorem lease_keys_collide:
  "map (\<lambda>(operation, rc). (rc_incident rc, rc_resource rc)) (receipts colliding_memory) = [(''a'', ''b:c'')] \<and>
   (\<exists>rc. snd (reserve_resource sample_env colliding_memory (colliding_request ''op2'' ''e2'' ''a:b'' ''c'') (\<lambda>_. Some 20))
      = Inr (Recorded rc) \<and> rc_incident rc = ''a:b'' \<and> rc_resource rc = ''c'' \<and>
      rc_outcome rc = Resource_held_denied ''ann'' 1)"
proof -
  from colliding_memory_eq obtain q l rc where m: "colliding_memory = colliding_evidences
    \<lparr>fencing_tokens := [(''a:b:c'', 1)], leases := [(''a:b:c'', l)], operation_requests := [(''op1'', q)],
     receipts := [(''op1'', rc)]\<rparr>" "rc_incident rc = ''a''" "rc_resource rc = ''b:c''"
     "ls_agent l = ''ann''" "ls_token l = 1" "expires_at_ms l = 1010" by blast
  show ?thesis
    by (simp add: m colliding_evidences_eq colliding_request_def sample_eval Let_def colliding_record_def ev1_def)
qed

end
