(* ===== verification/Protocol_Succession.thy ===== *)
theory Protocol_Succession
  imports Protocol_Evidence
begin

text \<open>
  Checkpoints, succession and outages of the memory of \<open>src/protocol.js\<close>.
\<close>

section \<open>Checkpoints\<close>

lemma bound_receipt_found:
  "bound_receipt m incident agent op_id = Inr (Some rc) \<Longrightarrow>
   rc \<in> snd ` set (receipts m) \<and> rc_incident rc = incident \<and> rc_agent rc = agent"
proof (cases "op_id = Undef")
  case True
  assume "bound_receipt m incident agent op_id = Inr (Some rc)"
  with True have "rc \<in> set (filter (\<lambda>rc. rc_incident rc = incident \<and> rc_agent rc = agent) (map snd (receipts m)))"
    by (cases "filter (\<lambda>rc. rc_incident rc = incident \<and> rc_agent rc = agent) (map snd (receipts m))")
       (simp_all add: bound_receipt_def split: if_splits)
  then show ?thesis by auto
next
  case False
  assume "bound_receipt m incident agent op_id = Inr (Some rc)"
  with False obtain operation where "js_get (receipts m) operation = Some rc" "rc_incident rc = incident" "rc_agent rc = agent"
    by (auto simp: bound_receipt_def guard_simps)
  then show ?thesis by (auto dest!: map_of_SomeD intro: rev_image_eqI)
qed

lemma bound_receipt_none:
  assumes "bound_receipt m incident agent op_id = Inr None"
  shows "op_id = Undef \<and> (\<forall>rc \<in> snd ` set (receipts m). \<not> (rc_incident rc = incident \<and> rc_agent rc = agent))"
proof (cases "op_id = Undef")
  case True
  have "filter (\<lambda>rc. rc_incident rc = incident \<and> rc_agent rc = agent) (map snd (receipts m)) = []"
    using assms True
    by (cases "filter (\<lambda>rc. rc_incident rc = incident \<and> rc_agent rc = agent) (map snd (receipts m))")
       (simp_all add: bound_receipt_def split: if_splits)
  then show ?thesis using True by (simp add: filter_empty_conv)
next
  case False
  then show ?thesis using assms by (auto simp: bound_receipt_def guard_simps)
qed

lemma reference_of_Some:
  "reference_of E m ids (Some rc) = Inr ref \<Longrightarrow>
   \<exists>r. ref = Some r \<and> mset ids = mset (rc_evidence rc) \<and> rs_resource r = rc_resource rc \<and>
     rs_outcome r = outcome_text (rc_outcome rc)"
  by (auto simp: reference_of_def guard_simps text_array_eq)

text \<open>A stored checkpoint names registered evidence of its incident, without repetition,
  and refers to a receipt of the same agent and incident over the same evidence; it
  refers to none only when the agent has no receipt for the incident.\<close>

theorem checkpoint_binds_receipt:
  assumes "checkpoint_agent E m inp clk = (m', Inr cp)"
  shows "checkpoints m' = checkpoints m @ [cp] \<and> checkpoint_ok (evidence_map m) cp \<and>
    (case cp_receipt cp of
       None \<Rightarrow> \<forall>rc \<in> snd ` set (receipts m). \<not> (rc_incident rc = cp_incident cp \<and> rc_agent rc = cp_agent cp)
     | Some ref \<Rightarrow> \<exists>rc \<in> snd ` set (receipts m). rc_incident rc = cp_incident cp \<and> rc_agent rc = cp_agent cp \<and>
         mset (rc_evidence rc) = mset (cp_evidence cp) \<and> rs_resource ref = rc_resource rc \<and>
         rs_outcome ref = outcome_text (rc_outcome rc))"
  using assms
proof (cases rule: checkpoint_cases)
  case (stored cp')
  then have cp: "cp' = cp" "checkpoints m' = checkpoints m @ [cp]" by auto
  from checkpoint_of_input_ok [OF stored(4)] cp(1) obtain bound where
      len: "length (elements (fld inp ''lastEvidenceIds'')) \<le> 100"
    and ids: "checkpoint_evidence m (cp_incident cp) (elements (fld inp ''lastEvidenceIds'')) = Inr (cp_evidence cp)"
    and bound: "bound_receipt m (cp_incident cp) (cp_agent cp) (fld inp ''receiptOperationId'') = Inr bound"
    and ref: "reference_of E m (cp_evidence cp) bound = Inr (cp_receipt cp)" by auto
  have ok: "checkpoint_ok (evidence_map m) cp"
    using checkpoint_evidence_ok [OF ids] len by (simp add: checkpoint_ok_def)
  show ?thesis
  proof (cases bound)
    case None
    with ref have "cp_receipt cp = None" by (simp add: reference_of_def)
    with cp ok bound_receipt_none [OF bound [unfolded None]] show ?thesis by simp
  next
    case (Some rc)
    from ref Some obtain r where r: "cp_receipt cp = Some r" "mset (cp_evidence cp) = mset (rc_evidence rc)"
        "rs_resource r = rc_resource rc" "rs_outcome r = outcome_text (rc_outcome rc)"
      using reference_of_Some by blast
    from bound_receipt_found [OF bound [unfolded Some]] r cp ok show ?thesis by (auto intro!: bexI [of _ rc])
  qed
qed simp

definition sample_checkpoint :: jsv where
  "sample_checkpoint = Obj [(''checkpointId'', Str ''c1''), (''incidentId'', Str ''flood''), (''agentId'', Str ''ann''),
     (''lastEvidenceIds'', Arr [Str ''e1''])]"

lemma checkpoint_one:
  "\<exists>m' cp. checkpoint_agent sample_env one_lease sample_checkpoint (\<lambda>_. Some 30) = (m', Inr cp) \<and>
     cp_incident cp = ''flood'' \<and> cp_agent cp = ''ann'' \<and> cp_evidence cp = [''e1''] \<and> cp_receipt cp \<noteq> None
     \<and> m' = one_lease\<lparr>checkpoints := [cp]\<rparr>"
  by (simp add: checkpoint_agent_def checkpoint_of_input_def checkpoint_evidence_def sample_checkpoint_def
      sample_eval one_lease_eq ev1_def utf8_length_def bound_receipt_def rc1_def req1_def reference_of_def text_array_eq)

theorem checkpoint_binds_receipt_witness:
  "\<exists>cp (m' :: unit memory). checkpoints m' = checkpoints one_lease @ [cp] \<and> checkpoint_ok (evidence_map one_lease) cp \<and>
    (case cp_receipt cp of
       None \<Rightarrow> \<forall>rc \<in> snd ` set (receipts one_lease). \<not> (rc_incident rc = cp_incident cp \<and> rc_agent rc = cp_agent cp)
     | Some ref \<Rightarrow> \<exists>rc \<in> snd ` set (receipts one_lease). rc_incident rc = cp_incident cp \<and> rc_agent rc = cp_agent cp \<and>
         mset (rc_evidence rc) = mset (cp_evidence cp) \<and> rs_resource ref = rc_resource rc \<and>
         rs_outcome ref = outcome_text (rc_outcome rc))"
proof -
  obtain m' cp where "checkpoint_agent sample_env one_lease sample_checkpoint (\<lambda>_. Some 30) = (m', Inr cp)"
    using checkpoint_one by blast
  from checkpoint_binds_receipt [OF this] show ?thesis by (intro exI [of _ cp] exI [of _ m'])
qed

section \<open>Succession\<close>

lemma find_rev_Some:
  "List.find P (rev xs) = Some x \<Longrightarrow> \<exists>ys zs. xs = ys @ x # zs \<and> P x \<and> (\<forall>z \<in> set zs. \<not> P z)"
proof (induction xs rule: rev_induct)
  case Nil
  then show ?case by simp
next
  case (snoc y xs)
  show ?case
  proof (cases "P y")
    case True
    with snoc.prems have "xs @ [y] = xs @ x # [] \<and> P x" by simp
    then show ?thesis by (metis empty_iff list.set(1))
  next
    case False
    with snoc obtain ys zs where "xs = ys @ x # zs" "P x" "\<forall>z \<in> set zs. \<not> P z" by auto
    then show ?thesis using False by (intro exI [of _ ys] exI [of _ "zs @ [y]"]) auto
  qed
qed

lemma length_map_filter: "length (List.map_filter f xs) \<le> length xs"
  by (simp add: List.map_filter_def)

lemma filter_disjoint_length:
  "(\<And>x. x \<in> set xs \<Longrightarrow> \<not> (P x \<and> Q x)) \<Longrightarrow> length (filter P xs) + length (filter Q xs) \<le> length xs"
  by (induction xs) (auto, (meson add_mono le_SucI le_refl)?)

text \<open>C39. Succession transfers no authority: what a successor receives comes from the
  latest checkpoint of the failed agent for the incident, counts of evidence that never
  exceed the evidence of that checkpoint, and the flags that demand a fresh
  authorization; the receipt is a reference and no lease or token is part of it.\<close>

theorem succession_carries_no_authority:
  assumes "recover_successor E m inp clk = Inr su"
  shows "\<not> authority_transferred su \<and> requires_fresh_authorization su \<and>
    \<not> operational_capabilities_returned su \<and>
    (conflict_status su = ''quarantined'' \<longleftrightarrow> 0 < unresolved_count su) \<and>
    (case su_checkpoint su of
       None \<Rightarrow> su_receipt su = None \<and> admitted_count su = 0 \<and> unresolved_count su = 0 \<and>
         (\<forall>c \<in> set (checkpoints m). \<not> (cp_incident c = su_incident su \<and> cp_agent c = su_failed_agent su))
     | Some _ \<Rightarrow> \<exists>before c after. checkpoints m = before @ c # after \<and>
         cp_incident c = su_incident su \<and> cp_agent c = su_failed_agent su \<and>
         (\<forall>d \<in> set after. \<not> (cp_incident d = su_incident su \<and> cp_agent d = su_failed_agent su)) \<and>
         su_receipt su = cp_receipt c \<and>
         admitted_count su + unresolved_count su \<le> length (cp_evidence c))"
proof -
  let ?mine = "\<lambda>c. cp_incident c = su_incident su \<and> cp_agent c = su_failed_agent su"
  from assms obtain now_ms ids where
      flags: "\<not> authority_transferred su" "requires_fresh_authorization su" "\<not> operational_capabilities_returned su"
      "conflict_status su = (if 0 < unresolved_count su then ''quarantined'' else ''none'')"
    and cp: "su_checkpoint su = None \<longleftrightarrow> List.find ?mine (rev (checkpoints m)) = None"
      "su_receipt su = (case List.find ?mine (rev (checkpoints m)) of None \<Rightarrow> None | Some c \<Rightarrow> cp_receipt c)"
      "ids = (case List.find ?mine (rev (checkpoints m)) of None \<Rightarrow> [] | Some c \<Rightarrow> cp_evidence c)"
      "admitted_count su = length (filter (\<lambda>r. status_at r now_ms = ADMITTED) (List.map_filter (js_get (evidence_map m)) ids))"
      "unresolved_count su = length (filter (\<lambda>r. status_at r now_ms = CONFLICTED) (List.map_filter (js_get (evidence_map m)) ids))"
    unfolding recover_successor_def guard_simps Let_def by auto
  have counts: "admitted_count su + unresolved_count su \<le> length ids"
  proof -
    have "admitted_count su + unresolved_count su \<le> length (List.map_filter (js_get (evidence_map m)) ids)"
      unfolding cp(4,5) by (rule filter_disjoint_length) simp
    also have "\<dots> \<le> length ids" by (rule length_map_filter)
    finally show ?thesis .
  qed
  show ?thesis
  proof (cases "List.find ?mine (rev (checkpoints m))")
    case None
    then have "\<forall>c \<in> set (checkpoints m). \<not> ?mine c" by (simp add: find_None_iff)
    with flags cp counts None show ?thesis by auto
  next
    case (Some c)
    from find_rev_Some [OF Some] obtain ys zs where "checkpoints m = ys @ c # zs" "?mine c" "\<forall>z \<in> set zs. \<not> ?mine z"
      by blast
    moreover have "su_receipt su = cp_receipt c" "length ids = length (cp_evidence c)" "su_checkpoint su \<noteq> None"
      using cp(1-3) Some by auto
    ultimately have "\<exists>before c after. checkpoints m = before @ c # after \<and> ?mine c \<and>
        (\<forall>d \<in> set after. \<not> ?mine d) \<and> su_receipt su = cp_receipt c \<and>
        admitted_count su + unresolved_count su \<le> length (cp_evidence c)"
      using counts by metis
    moreover obtain y where "su_checkpoint su = Some y" using cp(1) Some by auto
    ultimately show ?thesis using flags by simp
  qed
qed

definition sample_succession :: jsv where
  "sample_succession = Obj [(''incidentId'', Str ''flood''), (''failedAgentId'', Str ''ann''), (''successorAgentId'', Str ''bob'')]"

theorem succession_carries_no_authority_witness:
  "\<exists>(m :: unit memory) (su :: succession). su_checkpoint su \<noteq> None \<and> admitted_count su = 1 \<and>
    (\<not> authority_transferred su \<and> requires_fresh_authorization su \<and>
    \<not> operational_capabilities_returned su \<and>
    (conflict_status su = ''quarantined'' \<longleftrightarrow> 0 < unresolved_count su) \<and>
    (case su_checkpoint su of
       None \<Rightarrow> su_receipt su = None \<and> admitted_count su = 0 \<and> unresolved_count su = 0 \<and>
         (\<forall>c \<in> set (checkpoints m). \<not> (cp_incident c = su_incident su \<and> cp_agent c = su_failed_agent su))
     | Some _ \<Rightarrow> \<exists>before c after. checkpoints m = before @ c # after \<and>
         cp_incident c = su_incident su \<and> cp_agent c = su_failed_agent su \<and>
         (\<forall>d \<in> set after. \<not> (cp_incident d = su_incident su \<and> cp_agent d = su_failed_agent su)) \<and>
         su_receipt su = cp_receipt c \<and>
         admitted_count su + unresolved_count su \<le> length (cp_evidence c)))"
proof -
  obtain m' cp where m': "m' = one_lease\<lparr>checkpoints := [cp]\<rparr>" "cp_incident cp = ''flood''" "cp_agent cp = ''ann''"
      "cp_evidence cp = [''e1'']"
    using checkpoint_one by blast
  have "\<exists>su. recover_successor sample_env m' sample_succession (\<lambda>_. Some 40) = Inr su \<and> su_checkpoint su \<noteq> None
      \<and> admitted_count su = 1"
    by (simp add: recover_successor_def sample_succession_def m' one_lease_eq sample_eval ev1_def List.map_filter_def)
  then obtain su where su: "recover_successor sample_env m' sample_succession (\<lambda>_. Some 40) = Inr su"
      "su_checkpoint su \<noteq> None" "admitted_count su = 1" by blast
  show ?thesis
    by (rule exI [of _ m'], rule exI [of _ su])
      (rule conjI [OF su(2) conjI [OF su(3) succession_carries_no_authority [OF su(1)]]])
qed

section \<open>Outage\<close>

text \<open>An unavailable memory fails closed: every operation is refused, and those that
  could change state leave it as it was.\<close>

theorem outage_fails_closed:
  "ingest_evidence E upsert (m\<lparr>available := False\<rparr>) inp clk = (m\<lparr>available := False\<rparr>, Inl MemoryUnavailable) \<and>
   reserve_resource E (m\<lparr>available := False\<rparr>) inp clk = (m\<lparr>available := False\<rparr>, Inl MemoryUnavailable) \<and>
   checkpoint_agent E (m\<lparr>available := False\<rparr>) inp clk = (m\<lparr>available := False\<rparr>, Inl MemoryUnavailable) \<and>
   list_evidence E (m\<lparr>available := False\<rparr>) inp clk = Inl MemoryUnavailable \<and>
   recover_successor E (m\<lparr>available := False\<rparr>) inp clk = Inl MemoryUnavailable \<and>
   (\<exists>e. evaluate_decision E (m\<lparr>available := False\<rparr>) inp clk = Inl e) \<and>
   (\<exists>e. retrieve_evidence E search (m\<lparr>available := False\<rparr>) inp clk = Inl e)"
  by (simp add: ingest_evidence_def reserve_resource_def checkpoint_agent_def list_evidence_def
      recover_successor_def evaluate_decision_def retrieve_evidence_def and_then_def split: sum.split)

end
