(* ===== verification/Sql.thy ===== *)
theory Sql
  imports Js_Value
begin

text \<open>
  What the two groups of stored functions share: exceptions with their code, comparisons
  with a null operand, the text operators of the database on JSON values, and unique
  keys of a table.
\<close>

section \<open>Exceptions and nulls\<close>

datatype sql_error = Sql_error string string \<comment> \<open>the code and the message\<close>

definition sql_raise :: "string \<Rightarrow> string \<Rightarrow> sql_error + 'a" where
  "sql_raise code message = Inl (Sql_error code message)"

lemma sql_raise_Inr [simp]: "sql_raise code message \<noteq> Inr x" "Inr x \<noteq> sql_raise code message"
  by (simp_all add: sql_raise_def)

lemma sql_guard_Inr: "(if c then sql_raise code message else r) = Inr x \<longleftrightarrow> \<not> c \<and> r = Inr x"
  by simp

lemma sql_raise_eq: "sql_raise c m = Inl (Sql_error c' m') \<longleftrightarrow> c = c' \<and> m = m'"
  by (simp add: sql_raise_def)

text \<open>\<open>x <> y\<close> with a nullable \<open>x\<close>: true only when \<open>x\<close> is known to differ.\<close>

definition known_differs :: "string option \<Rightarrow> string \<Rightarrow> bool" where
  "known_differs v s \<longleftrightarrow> (case v of None \<Rightarrow> False | Some t \<Rightarrow> t \<noteq> s)"

lemma known_differs_simps [simp]: "\<not> known_differs None s" "known_differs (Some t) s \<longleftrightarrow> t \<noteq> s"
  by (simp_all add: known_differs_def)

section \<open>The database's own functions\<close>

text \<open>
  What only the database computes: \<open>sha256\<close> of a text in hexadecimal, \<open>to_json\<close> of a text,
  the text of a JSON value that is not a string, and \<open>to_char\<close> of a time stamp.
\<close>

record pg =
  pg_sha256 :: "string \<Rightarrow> string"
  pg_to_json :: "string \<Rightarrow> string"
  pg_json_text :: "jsv \<Rightarrow> string"
  pg_time_text :: "int \<Rightarrow> string"

text \<open>\<open>v->>k\<close>\<close>

fun json_text :: "pg \<Rightarrow> jsv \<Rightarrow> string option" where
  "json_text D Undef = None"
| "json_text D Null = None"
| "json_text D (Str s) = Some s"
| "json_text D v = Some (pg_json_text D v)"

definition arrow_text :: "pg \<Rightarrow> jsv \<Rightarrow> string \<Rightarrow> string option" where
  "arrow_text D v k = json_text D (fld v k)"

fun is_object :: "jsv \<Rightarrow> bool" where
  "is_object (Obj kvs) = True"
| "is_object v = False"

fun members :: "jsv \<Rightarrow> string list" where
  "members (Obj kvs) = map fst kvs"
| "members v = []"

text \<open>\<open>btrim\<close>: spaces at both ends.\<close>

definition btrim :: "string \<Rightarrow> string" where
  "btrim s = rev (dropWhile (\<lambda>c. c = CHR '' '') (rev (dropWhile (\<lambda>c. c = CHR '' '') s)))"

section \<open>Unique keys\<close>

text \<open>Adding a row whose key is new keeps a key unique, and so does an update that keeps the keys.\<close>

definition unique_on :: "('r \<Rightarrow> bool) \<Rightarrow> ('r \<Rightarrow> 'k) \<Rightarrow> 'r list \<Rightarrow> bool" where
  "unique_on P key rows \<longleftrightarrow> distinct (map key (filter P rows))"

definition taken :: "('r \<Rightarrow> bool) \<Rightarrow> ('r \<Rightarrow> 'k) \<Rightarrow> 'k \<Rightarrow> 'r list \<Rightarrow> bool" where
  "taken P key k rows \<longleftrightarrow> list_ex (\<lambda>r. P r \<and> key r = k) rows"

lemma taken_iff: "taken P key k rows \<longleftrightarrow> (\<exists>r \<in> set rows. P r \<and> key r = k)"
  by (auto simp: taken_def list_ex_iff)

lemma unique_on_Nil [simp]: "unique_on P key []"
  by (simp add: unique_on_def)

lemma unique_on_Cons [simp]: "unique_on P key (r # rows) \<longleftrightarrow> unique_on P key rows \<and> (P r \<longrightarrow> \<not> taken P key (key r) rows)"
proof -
  have "key r \<in> key ` {x \<in> set rows. P x} \<longleftrightarrow> taken P key (key r) rows"
    unfolding taken_iff by (auto simp: image_iff)
  then show ?thesis by (auto simp: unique_on_def)
qed

lemma taken_simps [simp]: "\<not> taken P key k []" "taken P key k (r # rows) \<longleftrightarrow> P r \<and> key r = k \<or> taken P key k rows"
    "taken P key k (rows @ rows') \<longleftrightarrow> taken P key k rows \<or> taken P key k rows'"
  by (auto simp: taken_def)

lemma unique_on_append:
  "unique_on P key (rows @ [r]) \<longleftrightarrow> unique_on P key rows \<and> (P r \<longrightarrow> \<not> taken P key (key r) rows)"
  by (induction rows) auto

lemma unique_onD:
  "unique_on P key rows \<Longrightarrow> r \<in> set rows \<Longrightarrow> s \<in> set rows \<Longrightarrow> P r \<Longrightarrow> P s \<Longrightarrow> key r = key s \<Longrightarrow> r = s"
  by (auto simp: unique_on_def distinct_map inj_on_def)

lemma filter_not_taken: "\<not> taken P key k rows \<Longrightarrow> filter (\<lambda>x. P x \<and> key x = k) rows = []"
  by (auto simp: taken_iff filter_empty_conv)

lemma unique_on_filter_one:
  "unique_on P key rows \<Longrightarrow> r \<in> set rows \<Longrightarrow> P r \<Longrightarrow> filter (\<lambda>x. P x \<and> key x = key r) rows = [r]"
proof (induction rows)
  case (Cons a rows)
  then show ?case
    by (cases "a = r") (auto simp: filter_not_taken taken_iff)
qed simp

lemma find_filter: "filter P rows = [r] \<Longrightarrow> find P rows = Some r"
  by (induction rows) (auto split: if_splits)

lemma find_unique:
  "unique_on P key rows \<Longrightarrow> r \<in> set rows \<Longrightarrow> P r \<Longrightarrow> find (\<lambda>x. P x \<and> key x = key r) rows = Some r"
  by (rule find_filter) (rule unique_on_filter_one)

lemma find_SomeD: "find P xs = Some x \<Longrightarrow> x \<in> set xs \<and> P x"
  by (auto simp: find_Some_iff)

text \<open>An update of one row.\<close>

definition update_where :: "('r \<Rightarrow> bool) \<Rightarrow> ('r \<Rightarrow> 'r) \<Rightarrow> 'r list \<Rightarrow> 'r list" where
  "update_where P f rows = map (\<lambda>r. if P r then f r else r) rows"

lemma set_update_where:
  "x \<in> set (update_where P f rows) \<longleftrightarrow> (\<exists>r \<in> set rows. P r \<and> x = f r \<or> \<not> P r \<and> x = r)"
  by (auto simp: update_where_def)

lemma update_where_none [simp]: "\<forall>r \<in> set rows. \<not> P r \<Longrightarrow> update_where P f rows = rows"
  by (simp add: update_where_def map_idI)

lemma update_where_append [simp]: "update_where P f (rows @ rows') = update_where P f rows @ update_where P f rows'"
  by (simp add: update_where_def)

lemma map_update_where: "(\<And>r. key (f r) = key r) \<Longrightarrow> map key (update_where P f rows) = map key rows"
  by (simp add: update_where_def)

lemma unique_on_update_where:
  "(\<And>r. key (f r) = key r) \<Longrightarrow> unique_on (\<lambda>_. True) key (update_where P f rows) \<longleftrightarrow> unique_on (\<lambda>_. True) key rows"
  by (simp add: unique_on_def map_update_where)

lemma find_update_where:
  "(\<And>r. Q (f r) = Q r) \<Longrightarrow> find Q (update_where P f rows) = map_option (\<lambda>r. if P r then f r else r) (find Q rows)"
  by (induction rows) (auto simp: update_where_def)

lemma list_all_update_where:
  "list_all Q rows \<Longrightarrow> (\<And>r. Q r \<Longrightarrow> P r \<Longrightarrow> Q (f r)) \<Longrightarrow> list_all Q (update_where P f rows)"
  by (auto simp: list_all_iff update_where_def)

lemma find_append: "find P (xs @ ys) = (case find P xs of None \<Rightarrow> find P ys | Some x \<Rightarrow> Some x)"
  by (induction xs) auto

lemma find_None_taken: "find (\<lambda>r. key r = k) rows = None \<longleftrightarrow> \<not> taken (\<lambda>_. True) key k rows"
  by (auto simp: find_None_iff taken_iff)

end
