(* ===== verification/Dispatch_Sql.thy ===== *)
theory Dispatch_Sql
  imports Sql
begin

text \<open>
  The provider-dispatch tables and stored functions that
  \<open>src/cloud/primary-security.js\<close> installs in the database: the effect occupancy, the
  dispatch controls and the activations, with their constraints, and the eight functions
  \<open>claim\<close>, \<open>begin\<close>, \<open>redeem\<close>, \<open>activate\<close>, \<open>complete\<close>, \<open>mark unknown\<close>, \<open>terminalize\<close> and
  \<open>resolve\<close>. A function runs in one transaction: an exception leaves the tables as they
  were. The tables are lists of rows. Arguments are not null (the clients of
  \<open>src/cloud\<close> validate them); a nullable column is an option, and a comparison with a
  null column is neither true nor false. The readings of \<open>clock_timestamp()\<close> and the
  database's \<open>sha256\<close> are arguments. Times are in microseconds.
\<close>

section \<open>Tables\<close>

datatype ledger_version = LEGACY_V1 | CURRENT_V2

record occupancy_row =
  oc_effect_key :: string
  oc_ledger :: ledger_version
  oc_authorization :: string
  oc_binding :: string

record activation_row =
  ac_authorization :: string
  ac_grant :: string
  ac_binding :: string
  ac_request :: string
  ac_activated_at :: int

datatype dispatch_state =
  GRANTED | EXECUTING | CREDENTIAL_REDEEMED | COMPLETED | UNKNOWN_DO_NOT_ACT | EXPIRED

text \<open>The columns a claim fixes for good, except the grant and its capability.\<close>

record dispatch_binding =
  authorization_id :: string
  tenant_id :: string
  run_id :: string
  interaction_id :: string
  control_binding :: string
  logical_request :: string
  effect_key :: string
  dispatch_authorization :: string
  source_commit :: string
  tree_digest :: string
  build_identity :: string
  issued_at :: int
  lapses_at :: int
  worker_spec :: string

record control_row =
  bound :: dispatch_binding
  grant_id :: string
  execution_capability :: string
  completion_capability :: "string option"
  dstate :: dispatch_state
  granted_at :: "int option"
  executing_at :: "int option"
  redeemed_at :: "int option"
  terminal_at :: "int option"
  mcp_result :: "string option"
  session_close :: "string option"

record dispatch_db =
  occupancy :: "occupancy_row list"
  activations :: "activation_row list"
  controls :: "control_row list"

abbreviation c_auth :: "control_row \<Rightarrow> string" where
  "c_auth c \<equiv> authorization_id (bound c)"

abbreviation c_effect :: "control_row \<Rightarrow> string" where
  "c_effect c \<equiv> effect_key (bound c)"

section \<open>Row constraints\<close>

definition occupancy_check :: "occupancy_row \<Rightarrow> bool" where
  "occupancy_check o' \<longleftrightarrow> length (oc_effect_key o') = 64 \<and> length (oc_binding o') = 64"

definition activation_check :: "activation_row \<Rightarrow> bool" where
  "activation_check a \<longleftrightarrow> length (ac_binding a) = 64 \<and> length (ac_request a) = 64"

definition binding_check :: "dispatch_binding \<Rightarrow> bool" where
  "binding_check b \<longleftrightarrow> issued_at b < lapses_at b \<and> length (control_binding b) = 64 \<and>
     length (logical_request b) = 64 \<and> length (effect_key b) = 64 \<and>
     length (dispatch_authorization b) = 64 \<and> length (source_commit b) = 40 \<and>
     length (tree_digest b) = 40 \<and> length (build_identity b) = 64 \<and> length (worker_spec b) = 64"

definition len64 :: "string option \<Rightarrow> bool" where
  "len64 v \<longleftrightarrow> (case v of None \<Rightarrow> False | Some s \<Rightarrow> length s = 64)"

text \<open>The disjunction of the table's state constraint. No part of it is null.\<close>

definition state_check :: "control_row \<Rightarrow> bool" where
  "state_check c \<longleftrightarrow>
     (case dstate c of
        GRANTED \<Rightarrow> granted_at c \<noteq> None \<and> executing_at c = None \<and> redeemed_at c = None \<and>
          completion_capability c = None \<and> terminal_at c = None \<and> mcp_result c = None \<and> session_close c = None
      | EXECUTING \<Rightarrow> granted_at c \<noteq> None \<and> executing_at c \<noteq> None \<and> redeemed_at c = None \<and>
          completion_capability c = None \<and> terminal_at c = None \<and> mcp_result c = None \<and> session_close c = None
      | CREDENTIAL_REDEEMED \<Rightarrow> granted_at c \<noteq> None \<and> executing_at c \<noteq> None \<and> redeemed_at c \<noteq> None \<and>
          len64 (completion_capability c) \<and> terminal_at c = None \<and> mcp_result c = None \<and> session_close c = None
      | COMPLETED \<Rightarrow> granted_at c \<noteq> None \<and> executing_at c \<noteq> None \<and> redeemed_at c \<noteq> None \<and>
          len64 (completion_capability c) \<and> terminal_at c \<noteq> None \<and> len64 (mcp_result c) \<and> len64 (session_close c)
      | UNKNOWN_DO_NOT_ACT \<Rightarrow> granted_at c \<noteq> None \<and> executing_at c \<noteq> None \<and> redeemed_at c \<noteq> None \<and>
          len64 (completion_capability c) \<and> terminal_at c \<noteq> None \<and> mcp_result c = None \<and> session_close c = None
      | EXPIRED \<Rightarrow> terminal_at c \<noteq> None \<and> redeemed_at c = None \<and> completion_capability c = None \<and>
          mcp_result c = None \<and> session_close c = None)"

definition control_check :: "control_row \<Rightarrow> bool" where
  "control_check c \<longleftrightarrow> binding_check (bound c) \<and> length (execution_capability c) = 64 \<and> state_check c"

text \<open>The tables' keys: primary keys and unique constraints.\<close>

definition keys_ok :: "dispatch_db \<Rightarrow> bool" where
  "keys_ok db \<longleftrightarrow> distinct (map oc_effect_key (occupancy db)) \<and>
     distinct (map (\<lambda>o'. (oc_ledger o', oc_authorization o')) (occupancy db)) \<and>
     distinct (map ac_authorization (activations db)) \<and> distinct (map ac_grant (activations db)) \<and>
     distinct (map c_auth (controls db)) \<and> distinct (map grant_id (controls db)) \<and>
     distinct (map c_effect (controls db))"

section \<open>Results\<close>

datatype transition_outcome =
    DISPATCH_GRANTED | AUTHORITY_NOT_CURRENT | ALREADY_TERMINAL_OR_EXECUTING
  | EXECUTION_STARTED | ALREADY_EXECUTING_DO_NOT_START | ALREADY_TERMINAL
  | REDEEMED | ALREADY_REDEEMED_DO_NOT_DELIVER | ALREADY_TERMINAL_DO_NOT_DELIVER
  | ACTIVATION_NOT_AUTHORIZED | ACTIVATION_GRANTED | ACTIVATION_ALREADY_CONSUMED
  | DISPATCH_COMPLETED | UNKNOWN_RECORDED | EXPIRED_RECORDED | NOT_EXPIRED
  | RESOLVED | RESOLVED_ABSENT

record dispatch_result =
  rw_authorization :: string
  rw_grant :: "string option"
  rw_binding :: string
  rw_state :: "dispatch_state option" \<comment> \<open>\<open>None\<close> is the text \<open>ABSENT\<close>\<close>
  rw_outcome :: transition_outcome
  rw_now :: int
  rw_expires_at :: "int option"
  rw_worker_spec :: "string option"
  rw_mcp_result :: "string option"
  rw_session_close :: "string option"
  rw_activated_at :: "int option"
  rw_activation_request :: "string option"

text \<open>The row a function returns after its last \<open>SELECT\<close>.\<close>

definition result_of :: "control_row \<Rightarrow> transition_outcome \<Rightarrow> int \<Rightarrow> dispatch_result" where
  "result_of c out now_us =
     \<lparr>rw_authorization = c_auth c, rw_grant = Some (grant_id c), rw_binding = control_binding (bound c),
      rw_state = Some (dstate c), rw_outcome = out, rw_now = now_us, rw_expires_at = Some (lapses_at (bound c)),
      rw_worker_spec = Some (worker_spec (bound c)), rw_mcp_result = mcp_result c,
      rw_session_close = session_close c, rw_activated_at = None, rw_activation_request = None\<rparr>"

section \<open>Statements\<close>

text \<open>\<open>UPDATE ... WHERE authorization_id = a\<close>: a violated constraint aborts.\<close>

definition update_control ::
    "string \<Rightarrow> (control_row \<Rightarrow> control_row) \<Rightarrow> dispatch_db \<Rightarrow> sql_error + dispatch_db" where
  "update_control a f db =
     (if list_all (\<lambda>c. c_auth c = a \<longrightarrow> control_check (f c)) (controls db)
      then Inr (db\<lparr>controls := map (\<lambda>c. if c_auth c = a then f c else c) (controls db)\<rparr>)
      else sql_raise ''23514'' ''check constraint'')"

definition controls_of :: "dispatch_db \<Rightarrow> string \<Rightarrow> control_row list" where
  "controls_of db a = filter (\<lambda>c. c_auth c = a) (controls db)"

text \<open>
  The start of every function but \<open>claim\<close> and \<open>resolve\<close>: exactly one control row, read
  \<open>FOR UPDATE\<close>.
\<close>

definition select_control :: "dispatch_db \<Rightarrow> string \<Rightarrow> sql_error + control_row" where
  "select_control db a =
     (case controls_of db a of
        [c] \<Rightarrow> Inr c
      | _ \<Rightarrow> sql_raise ''22023'' ''provider dispatch control absent'')"

text \<open>The end of every function: the row is read again and returned with the outcome.\<close>

definition finish :: "dispatch_db \<Rightarrow> string \<Rightarrow> transition_outcome \<Rightarrow> int \<Rightarrow> sql_error + dispatch_db \<times> dispatch_result" where
  "finish db a out now_us =
     and_then (select_control db a) (\<lambda>c. Inr (db, result_of c out now_us))"

definition expire_row :: "int \<Rightarrow> control_row \<Rightarrow> control_row" where
  "expire_row now_us c = c\<lparr>dstate := EXPIRED, terminal_at := Some now_us\<rparr>"

definition current :: "dispatch_binding \<Rightarrow> int \<Rightarrow> bool" where
  "current b now_us \<longleftrightarrow> issued_at b \<le> now_us \<and> now_us < lapses_at b"

section \<open>Claim\<close>

definition claim_input_ok :: "dispatch_binding \<Rightarrow> string \<Rightarrow> bool" where
  "claim_input_ok b capability \<longleftrightarrow>
     \<not> (length (control_binding b) \<noteq> 64 \<or> length (logical_request b) \<noteq> 64 \<or> length (effect_key b) \<noteq> 64 \<or>
        length (dispatch_authorization b) \<noteq> 64 \<or> length (source_commit b) \<noteq> 40 \<or>
        length (tree_digest b) \<noteq> 40 \<or> length (build_identity b) \<noteq> 64 \<or> length capability \<noteq> 64 \<or>
        length (worker_spec b) \<noteq> 64 \<or> issued_at b \<ge> lapses_at b)"

text \<open>
  \<open>INSERT ... ON CONFLICT (provider_effect_key_sha256) DO NOTHING\<close>: the other unique
  constraint still aborts.
\<close>

definition insert_occupancy :: "dispatch_binding \<Rightarrow> dispatch_db \<Rightarrow> sql_error + dispatch_db" where
  "insert_occupancy b db =
     (if list_ex (\<lambda>o'. oc_effect_key o' = effect_key b) (occupancy db) then Inr db
      else if list_ex (\<lambda>o'. oc_ledger o' = CURRENT_V2 \<and> oc_authorization o' = authorization_id b) (occupancy db)
      then sql_raise ''23505'' ''duplicate key value violates unique constraint''
      else Inr (db\<lparr>occupancy := occupancy db @
        [\<lparr>oc_effect_key = effect_key b, oc_ledger = CURRENT_V2, oc_authorization = authorization_id b,
          oc_binding = control_binding b\<rparr>]\<rparr>))"

definition check_occupancy :: "dispatch_binding \<Rightarrow> dispatch_db \<Rightarrow> sql_error + unit" where
  "check_occupancy b db =
     (case filter (\<lambda>o'. oc_effect_key o' = effect_key b) (occupancy db) of
        [o'] \<Rightarrow>
          if oc_ledger o' \<noteq> CURRENT_V2
          then sql_raise ''42501'' ''legacy provider effect already occupied''
          else if oc_authorization o' \<noteq> authorization_id b \<or> oc_binding o' \<noteq> control_binding b
          then sql_raise ''22023'' ''provider effect occupancy binding conflict''
          else Inr ()
      | _ \<Rightarrow> sql_raise ''40001'' ''provider effect occupancy unavailable'')"

definition claim_matches :: "dispatch_binding \<Rightarrow> dispatch_db \<Rightarrow> control_row list" where
  "claim_matches b db =
     filter (\<lambda>c. c_auth c = authorization_id b \<or> c_effect c = effect_key b) (controls db)"

definition new_control :: "dispatch_binding \<Rightarrow> string \<Rightarrow> string \<Rightarrow> int \<Rightarrow> control_row" where
  "new_control b g capability now_us =
     \<lparr>bound = b, grant_id = g, execution_capability = capability, completion_capability = None,
      dstate = (if now_us < issued_at b \<or> now_us \<ge> lapses_at b then EXPIRED else GRANTED),
      granted_at = (if now_us \<ge> issued_at b \<and> now_us < lapses_at b then Some now_us else None),
      executing_at = None, redeemed_at = None,
      terminal_at = (if now_us < issued_at b \<or> now_us \<ge> lapses_at b then Some now_us else None),
      mcp_result = None, session_close = None\<rparr>"

text \<open>\<open>INSERT ... ON CONFLICT DO NOTHING\<close>: any conflict keeps the table.\<close>

definition insert_control :: "control_row \<Rightarrow> dispatch_db \<Rightarrow> sql_error + dispatch_db" where
  "insert_control c db =
     (if \<not> control_check c then sql_raise ''23514'' ''check constraint''
      else if list_ex (\<lambda>c'. c_auth c' = c_auth c \<or> grant_id c' = grant_id c \<or> c_effect c' = c_effect c) (controls db)
      then Inr db
      else Inr (db\<lparr>controls := controls db @ [c]\<rparr>))"

definition claim_outcome :: "control_row \<Rightarrow> string \<Rightarrow> string \<Rightarrow> transition_outcome" where
  "claim_outcome c g capability =
     (if dstate c = GRANTED \<and> grant_id c = g \<and> execution_capability c = capability then DISPATCH_GRANTED
      else if dstate c = EXPIRED then AUTHORITY_NOT_CURRENT
      else ALREADY_TERMINAL_OR_EXECUTING)"

definition claim_dispatch ::
    "string \<Rightarrow> dispatch_binding \<Rightarrow> string \<Rightarrow> string \<Rightarrow> int \<Rightarrow> int \<Rightarrow> dispatch_db \<Rightarrow>
     sql_error + dispatch_db \<times> dispatch_result" where
  "claim_dispatch user b g capability insert_us now_us db =
     (if user \<noteq> ''tp_provider_claim_user''
      then sql_raise ''42501'' ''provider claim database session required''
      else if \<not> claim_input_ok b capability
      then sql_raise ''22023'' ''provider dispatch claim input rejected''
      else
     and_then (insert_occupancy b db) (\<lambda>db1.
     and_then (check_occupancy b db1) (\<lambda>_.
     if length (claim_matches b db1) > 1
     then sql_raise ''22023'' ''provider dispatch split binding conflict''
     else
     and_then (if claim_matches b db1 = [] then insert_control (new_control b g capability insert_us) db1
               else Inr db1) (\<lambda>db2.
     case claim_matches b db2 of
       [c] \<Rightarrow>
         if bound c \<noteq> b
         then sql_raise ''22023'' ''provider dispatch claim binding conflict''
         else
         and_then (if dstate c = GRANTED \<and> \<not> current (bound c) now_us
                   then update_control (authorization_id b) (expire_row now_us) db2 else Inr db2) (\<lambda>db3.
           finish db3 (authorization_id b)
             (claim_outcome (if dstate c = GRANTED \<and> \<not> current (bound c) now_us then expire_row now_us c else c) g capability)
             now_us)
     | _ \<Rightarrow> sql_raise ''40001'' ''provider dispatch claim unavailable''))))"

section \<open>Begin and redeem\<close>

definition begin_dispatch ::
    "(string \<Rightarrow> string) \<Rightarrow> string \<Rightarrow> string \<Rightarrow> string \<Rightarrow> string \<Rightarrow> string \<Rightarrow> string \<Rightarrow> int \<Rightarrow> dispatch_db \<Rightarrow>
     sql_error + dispatch_db \<times> dispatch_result" where
  "begin_dispatch sha user a g control capability spec now_us db =
     (if user \<noteq> ''tp_provider_begin_user''
      then sql_raise ''42501'' ''provider begin database session required''
      else if length control \<noteq> 64 \<or> length capability \<noteq> 64 \<or> length spec \<noteq> 64
      then sql_raise ''22023'' ''provider dispatch begin input rejected''
      else
     and_then (select_control db a) (\<lambda>c.
     if grant_id c \<noteq> g \<or> control_binding (bound c) \<noteq> control \<or> worker_spec (bound c) \<noteq> spec
        \<or> execution_capability c \<noteq> sha capability
     then sql_raise ''42501'' ''provider dispatch begin capability rejected''
     else if dstate c = GRANTED \<and> current (bound c) now_us then
       and_then (update_control a (\<lambda>r. r\<lparr>dstate := EXECUTING, executing_at := Some now_us\<rparr>) db)
         (\<lambda>db'. finish db' a EXECUTION_STARTED now_us)
     else if dstate c = GRANTED then
       and_then (update_control a (expire_row now_us) db) (\<lambda>db'. finish db' a AUTHORITY_NOT_CURRENT now_us)
     else if dstate c = EXECUTING then finish db a ALREADY_EXECUTING_DO_NOT_START now_us
     else if dstate c = EXPIRED then finish db a AUTHORITY_NOT_CURRENT now_us
     else finish db a ALREADY_TERMINAL now_us))"

definition redeem_dispatch ::
    "(string \<Rightarrow> string) \<Rightarrow> string \<Rightarrow> string \<Rightarrow> string \<Rightarrow> string \<Rightarrow> string \<Rightarrow> string \<Rightarrow> string \<Rightarrow> int \<Rightarrow>
     dispatch_db \<Rightarrow> sql_error + dispatch_db \<times> dispatch_result" where
  "redeem_dispatch sha user a g control capability completion spec now_us db =
     (if user \<noteq> ''tp_provider_redeem_user''
      then sql_raise ''42501'' ''provider redeem database session required''
      else if length control \<noteq> 64 \<or> length capability \<noteq> 64 \<or> length completion \<noteq> 64 \<or> length spec \<noteq> 64
      then sql_raise ''22023'' ''provider dispatch redemption input rejected''
      else
     and_then (select_control db a) (\<lambda>c.
     if grant_id c \<noteq> g \<or> control_binding (bound c) \<noteq> control \<or> worker_spec (bound c) \<noteq> spec
        \<or> execution_capability c \<noteq> sha capability
     then sql_raise ''42501'' ''provider dispatch redemption capability rejected''
     else if dstate c = CREDENTIAL_REDEEMED \<and> known_differs (completion_capability c) completion
     then sql_raise ''42501'' ''provider dispatch redemption replay rejected''
     else if dstate c = EXECUTING \<and> current (bound c) now_us then
       and_then (update_control a (\<lambda>r. r\<lparr>dstate := CREDENTIAL_REDEEMED, redeemed_at := Some now_us,
             completion_capability := Some completion\<rparr>) db)
         (\<lambda>db'. finish db' a REDEEMED now_us)
     else if dstate c = EXECUTING then
       and_then (update_control a (expire_row now_us) db) (\<lambda>db'. finish db' a AUTHORITY_NOT_CURRENT now_us)
     else if dstate c = CREDENTIAL_REDEEMED then finish db a ALREADY_REDEEMED_DO_NOT_DELIVER now_us
     else finish db a ALREADY_TERMINAL_DO_NOT_DELIVER now_us))"

section \<open>Activate\<close>

text \<open>\<open>INSERT ... ON CONFLICT (authorization_id) DO NOTHING\<close>: a taken grant still aborts.\<close>

definition insert_activation :: "activation_row \<Rightarrow> dispatch_db \<Rightarrow> sql_error + dispatch_db \<times> bool" where
  "insert_activation r db =
     (if \<not> activation_check r then sql_raise ''23514'' ''check constraint''
      else if list_ex (\<lambda>x. ac_authorization x = ac_authorization r) (activations db) then Inr (db, False)
      else if list_ex (\<lambda>x. ac_grant x = ac_grant r) (activations db)
      then sql_raise ''23505'' ''duplicate key value violates unique constraint''
      else Inr (db\<lparr>activations := activations db @ [r]\<rparr>, True))"

definition activate_dispatch ::
    "string \<Rightarrow> string \<Rightarrow> string \<Rightarrow> string \<Rightarrow> string \<Rightarrow> int \<Rightarrow> dispatch_db \<Rightarrow>
     sql_error + dispatch_db \<times> dispatch_result" where
  "activate_dispatch user a g control request now_us db =
     (if user \<noteq> ''tp_provider_activate_user''
      then sql_raise ''42501'' ''provider activate database session required''
      else if length control \<noteq> 64 \<or> length request \<noteq> 64
      then sql_raise ''22023'' ''provider activation input rejected''
      else
     and_then (select_control db a) (\<lambda>c.
     if grant_id c \<noteq> g \<or> control_binding (bound c) \<noteq> control
     then sql_raise ''42501'' ''provider activation binding rejected''
     else if dstate c \<noteq> CREDENTIAL_REDEEMED \<or> \<not> current (bound c) now_us
     then Inr (db, result_of c ACTIVATION_NOT_AUTHORIZED now_us)
     else
     and_then (insert_activation \<lparr>ac_authorization = a, ac_grant = g, ac_binding = control,
         ac_request = request, ac_activated_at = now_us\<rparr> db) (\<lambda>(db', inserted).
     case filter (\<lambda>x. ac_authorization x = a) (activations db') of
       x # _ \<Rightarrow>
         if ac_grant x \<noteq> g \<or> ac_binding x \<noteq> control \<or> ac_request x \<noteq> request
         then sql_raise ''22023'' ''provider activation replay conflict''
         else Inr (db', (result_of c (if inserted then ACTIVATION_GRANTED else ACTIVATION_ALREADY_CONSUMED) now_us)
           \<lparr>rw_activated_at := Some (ac_activated_at x), rw_activation_request := Some (ac_request x)\<rparr>)
     | [] \<Rightarrow> Inr (db', result_of c (if inserted then ACTIVATION_GRANTED else ACTIVATION_ALREADY_CONSUMED) now_us))))"

section \<open>Complete and mark unknown\<close>

definition activated :: "dispatch_db \<Rightarrow> string \<Rightarrow> string \<Rightarrow> string \<Rightarrow> bool" where
  "activated db a g control \<longleftrightarrow>
     list_ex (\<lambda>x. ac_authorization x = a \<and> ac_grant x = g \<and> ac_binding x = control) (activations db)"

definition complete_dispatch ::
    "(string \<Rightarrow> string) \<Rightarrow> string \<Rightarrow> string \<Rightarrow> string \<Rightarrow> string \<Rightarrow> string \<Rightarrow> string \<Rightarrow> string \<Rightarrow> int \<Rightarrow>
     dispatch_db \<Rightarrow> sql_error + dispatch_db \<times> dispatch_result" where
  "complete_dispatch sha user a g control capability mcp close now_us db =
     (if user \<noteq> ''tp_provider_finalize_user''
      then sql_raise ''42501'' ''provider finalize database session required''
      else if length control \<noteq> 64 \<or> length capability \<noteq> 64 \<or> length mcp \<noteq> 64 \<or> length close \<noteq> 64
      then sql_raise ''22023'' ''provider dispatch completion input rejected''
      else
     and_then (select_control db a) (\<lambda>c.
     if grant_id c \<noteq> g \<or> control_binding (bound c) \<noteq> control
        \<or> known_differs (completion_capability c) (sha capability)
     then sql_raise ''42501'' ''provider dispatch completion capability rejected''
     else if dstate c = CREDENTIAL_REDEEMED \<and> activated db a g control then
       and_then (update_control a (\<lambda>r. r\<lparr>dstate := COMPLETED, terminal_at := Some now_us,
             mcp_result := Some mcp, session_close := Some close\<rparr>) db)
         (\<lambda>db'. finish db' a DISPATCH_COMPLETED now_us)
     else if dstate c = COMPLETED \<and> mcp_result c = Some mcp \<and> session_close c = Some close
     then finish db a DISPATCH_COMPLETED now_us
     else if dstate c = COMPLETED
     then sql_raise ''22023'' ''provider dispatch completion conflict''
     else sql_raise ''42501'' ''provider dispatch completion state rejected''))"

definition mark_unknown_dispatch ::
    "(string \<Rightarrow> string) \<Rightarrow> string \<Rightarrow> string \<Rightarrow> string \<Rightarrow> string \<Rightarrow> string \<Rightarrow> int \<Rightarrow> dispatch_db \<Rightarrow>
     sql_error + dispatch_db \<times> dispatch_result" where
  "mark_unknown_dispatch sha user a g control capability now_us db =
     (if user \<noteq> ''tp_provider_finalize_user''
      then sql_raise ''42501'' ''provider finalize database session required''
      else if length control \<noteq> 64 \<or> length capability \<noteq> 64
      then sql_raise ''22023'' ''provider dispatch unknown input rejected''
      else
     and_then (select_control db a) (\<lambda>c.
     if grant_id c \<noteq> g \<or> control_binding (bound c) \<noteq> control
        \<or> known_differs (completion_capability c) (sha capability)
     then sql_raise ''42501'' ''provider dispatch unknown capability rejected''
     else if dstate c = CREDENTIAL_REDEEMED then
       and_then (update_control a (\<lambda>r. r\<lparr>dstate := UNKNOWN_DO_NOT_ACT, terminal_at := Some now_us\<rparr>) db)
         (\<lambda>db'. finish db' a UNKNOWN_RECORDED now_us)
     else if dstate c = UNKNOWN_DO_NOT_ACT then finish db a UNKNOWN_RECORDED now_us
     else sql_raise ''42501'' ''provider dispatch unknown state rejected''))"

section \<open>Terminalize and resolve\<close>

definition terminalize_dispatch ::
    "string \<Rightarrow> string \<Rightarrow> string \<Rightarrow> string \<Rightarrow> string \<Rightarrow> int \<Rightarrow> dispatch_db \<Rightarrow>
     sql_error + dispatch_db \<times> dispatch_result" where
  "terminalize_dispatch user a g control spec now_us db =
     (if user \<noteq> ''tp_provider_terminalize_user''
      then sql_raise ''42501'' ''provider terminalize database session required''
      else if length control \<noteq> 64 \<or> length spec \<noteq> 64
      then sql_raise ''22023'' ''provider terminalize input rejected''
      else
     and_then (select_control db a) (\<lambda>c.
     if grant_id c \<noteq> g \<or> control_binding (bound c) \<noteq> control \<or> worker_spec (bound c) \<noteq> spec
     then sql_raise ''42501'' ''provider terminalize binding rejected''
     else if dstate c \<in> {GRANTED, EXECUTING} \<and> now_us \<ge> lapses_at (bound c) then
       and_then (update_control a (expire_row now_us) db) (\<lambda>db'. finish db' a EXPIRED_RECORDED now_us)
     else if dstate c = CREDENTIAL_REDEEMED \<and> now_us \<ge> lapses_at (bound c) then
       and_then (update_control a (\<lambda>r. r\<lparr>dstate := UNKNOWN_DO_NOT_ACT, terminal_at := Some now_us\<rparr>) db)
         (\<lambda>db'. finish db' a UNKNOWN_RECORDED now_us)
     else if dstate c \<in> {COMPLETED, UNKNOWN_DO_NOT_ACT, EXPIRED} then finish db a ALREADY_TERMINAL now_us
     else finish db a NOT_EXPIRED now_us))"

definition resolve_dispatch ::
    "string \<Rightarrow> string \<Rightarrow> string \<Rightarrow> int \<Rightarrow> dispatch_db \<Rightarrow> sql_error + dispatch_result" where
  "resolve_dispatch user a control now_us db =
     (if user \<noteq> ''tp_provider_reconcile_user''
      then sql_raise ''42501'' ''provider reconcile database session required''
      else if length control \<noteq> 64
      then sql_raise ''22023'' ''provider dispatch resolve input rejected''
      else
     (case controls_of db a of
        [] \<Rightarrow> Inr \<lparr>rw_authorization = a, rw_grant = None, rw_binding = control, rw_state = None,
               rw_outcome = RESOLVED_ABSENT, rw_now = now_us, rw_expires_at = None, rw_worker_spec = None,
               rw_mcp_result = None, rw_session_close = None, rw_activated_at = None, rw_activation_request = None\<rparr>
      | [c] \<Rightarrow>
          if control_binding (bound c) \<noteq> control
          then sql_raise ''22023'' ''provider dispatch resolve binding conflict''
          else Inr (result_of c RESOLVED now_us)
      | _ \<Rightarrow> sql_raise ''22023'' ''provider dispatch split binding conflict''))"

end
