(* ===== verification/Dispatch_Inv.thy ===== *)
theory Dispatch_Inv
  imports Dispatch_Sql
begin

text \<open>
  The stored functions of provider dispatch as a state machine over the tables: the
  abstract life cycle of one authorization, the effect of every function on the rows, and
  the invariant (keys, row constraints and the references between the tables) that every
  call keeps.
\<close>

section \<open>The life cycle\<close>

inductive dispatch_edge :: "dispatch_state \<Rightarrow> dispatch_state \<Rightarrow> bool" where
  "dispatch_edge GRANTED EXECUTING"
| "dispatch_edge GRANTED EXPIRED"
| "dispatch_edge EXECUTING CREDENTIAL_REDEEMED"
| "dispatch_edge EXECUTING EXPIRED"
| "dispatch_edge CREDENTIAL_REDEEMED COMPLETED"
| "dispatch_edge CREDENTIAL_REDEEMED UNKNOWN_DO_NOT_ACT"

declare dispatch_edge.intros [intro]

inductive_cases dispatch_edgeE [elim]: "dispatch_edge s t"

fun terminal :: "dispatch_state \<Rightarrow> bool" where
  "terminal COMPLETED = True"
| "terminal UNKNOWN_DO_NOT_ACT = True"
| "terminal EXPIRED = True"
| "terminal _ = False"

fun rank :: "dispatch_state \<Rightarrow> nat" where
  "rank GRANTED = 0" | "rank EXECUTING = 1" | "rank CREDENTIAL_REDEEMED = 2"
| "rank COMPLETED = 3" | "rank UNKNOWN_DO_NOT_ACT = 3" | "rank EXPIRED = 3"

lemma edge_rank: "dispatch_edge s t \<Longrightarrow> rank s < rank t"
  by (erule dispatch_edge.cases) simp_all

lemma terminal_no_edge: "terminal s \<Longrightarrow> \<not> dispatch_edge s t"
  by (cases s) (auto elim: dispatch_edge.cases)

section \<open>Rows\<close>

lemma select_control_Inr: "select_control db a = Inr c \<longleftrightarrow> controls_of db a = [c]"
  by (auto simp: select_control_def sql_raise_def split: list.splits)

lemma finish_Inr:
  "finish db a out t = Inr (db', r) \<longleftrightarrow> db' = db \<and> (\<exists>c. controls_of db a = [c] \<and> r = result_of c out t)"
  by (auto simp: finish_def guard_simps select_control_Inr)

definition same_identity :: "control_row \<Rightarrow> control_row \<Rightarrow> bool" where
  "same_identity c c' \<longleftrightarrow> bound c' = bound c \<and> grant_id c' = grant_id c \<and>
     execution_capability c' = execution_capability c"

lemma same_identity_refl [simp]: "same_identity c c"
  by (simp add: same_identity_def)

text \<open>The one row of an authorization was replaced, along an edge of the life cycle or not at all.\<close>

definition advanced :: "dispatch_db \<Rightarrow> string \<Rightarrow> control_row \<Rightarrow> control_row \<Rightarrow> dispatch_db \<Rightarrow> bool" where
  "advanced db a c c' db' \<longleftrightarrow> controls_of db a = [c] \<and> same_identity c c' \<and>
     db' = db\<lparr>controls := map (\<lambda>x. if c_auth x = a then c' else x) (controls db)\<rparr> \<and>
     (c' = c \<or> dispatch_edge (dstate c) (dstate c') \<and> control_check c')"

lemma controls_of_set: "controls_of db a = [c] \<Longrightarrow> x \<in> set (controls db) \<Longrightarrow> c_auth x = a \<longleftrightarrow> x = c"
proof -
  assume one: "controls_of db a = [c]" and x: "x \<in> set (controls db)"
  have "set (controls_of db a) = {y \<in> set (controls db). c_auth y = a}" by (auto simp: controls_of_def)
  with one have eq: "{y \<in> set (controls db). c_auth y = a} = {c}" by simp
  then show ?thesis using x by blast
qed

lemma controls_of_in: "controls_of db a = [c] \<Longrightarrow> c \<in> set (controls db) \<and> c_auth c = a"
proof -
  assume "controls_of db a = [c]"
  then have "c \<in> set (controls_of db a)" by simp
  then show ?thesis by (simp add: controls_of_def)
qed

lemma filter_map_where:
  "(\<And>x. P x \<Longrightarrow> P (f x)) \<Longrightarrow> filter P (map (\<lambda>x. if P x then f x else x) xs) = map f (filter P xs)"
  by (induction xs) auto

lemma controls_of_update:
  "(\<And>x. c_auth x = a \<Longrightarrow> c_auth (f x) = a) \<Longrightarrow>
   controls_of (db\<lparr>controls := map (\<lambda>x. if c_auth x = a then f x else x) (controls db)\<rparr>) a = map f (controls_of db a)"
  by (simp add: controls_of_def filter_map_where)

lemma advanced_refl: "controls_of db a = [c] \<Longrightarrow> advanced db a c c db"
  using controls_of_set [of db a c] by (simp add: advanced_def map_idI)

lemma finish_same:
  "finish db a out t = Inr (db', r) \<Longrightarrow> controls_of db a = [c] \<Longrightarrow> advanced db a c c db' \<and> r = result_of c out t"
  by (auto simp: finish_Inr advanced_refl)

lemma update_finish:
  assumes "and_then (update_control a f db) (\<lambda>d. finish d a out t) = Inr (db', r)"
    and one: "controls_of db a = [c]" and id: "\<And>x. same_identity x (f x)"
    and edge: "dispatch_edge (dstate c) (dstate (f c))"
  shows "advanced db a c (f c) db' \<and> r = result_of (f c) out t"
proof -
  let ?db = "db\<lparr>controls := map (\<lambda>x. if c_auth x = a then f x else x) (controls db)\<rparr>"
  from assms(1) have check: "list_all (\<lambda>c. c_auth c = a \<longrightarrow> control_check (f c)) (controls db)"
    and fin: "finish ?db a out t = Inr (db', r)"
    by (auto simp: and_then_eq_Inr update_control_def split: if_splits)
  have "controls_of ?db a = map f (controls_of db a)"
    using id by (intro controls_of_update) (simp add: same_identity_def)
  with one fin have res: "db' = ?db" "r = result_of (f c) out t" by (auto simp: finish_Inr)
  have "map (\<lambda>x. if c_auth x = a then f x else x) (controls db)
      = map (\<lambda>x. if c_auth x = a then f c else x) (controls db)"
    using controls_of_set [OF one] by auto
  moreover have "control_check (f c)" using check controls_of_in [OF one] by (auto simp: list_all_iff)
  ultimately show ?thesis using res one id edge by (simp add: advanced_def)
qed

section \<open>Calls\<close>

datatype dispatch_call =
    Claim dispatch_binding string string int int
  | Begin string string string string string int
  | Redeem string string string string string string int
  | Activate string string string string int
  | Complete string string string string string string int
  | Mark_unknown string string string string int
  | Terminalize string string string string int
  | Resolve string string int

fun dispatch_apply ::
    "(string \<Rightarrow> string) \<Rightarrow> string \<Rightarrow> dispatch_call \<Rightarrow> dispatch_db \<Rightarrow> sql_error + dispatch_db \<times> dispatch_result" where
  "dispatch_apply sha user (Claim b g capability insert_us now_us) db =
     claim_dispatch user b g capability insert_us now_us db"
| "dispatch_apply sha user (Begin a g control capability spec now_us) db =
     begin_dispatch sha user a g control capability spec now_us db"
| "dispatch_apply sha user (Redeem a g control capability completion spec now_us) db =
     redeem_dispatch sha user a g control capability completion spec now_us db"
| "dispatch_apply sha user (Activate a g control request now_us) db =
     activate_dispatch user a g control request now_us db"
| "dispatch_apply sha user (Complete a g control capability mcp close now_us) db =
     complete_dispatch sha user a g control capability mcp close now_us db"
| "dispatch_apply sha user (Mark_unknown a g control capability now_us) db =
     mark_unknown_dispatch sha user a g control capability now_us db"
| "dispatch_apply sha user (Terminalize a g control spec now_us) db =
     terminalize_dispatch user a g control spec now_us db"
| "dispatch_apply sha user (Resolve a control now_us) db =
     map_sum id (Pair db) (resolve_dispatch user a control now_us db)"

section \<open>The effect of each function\<close>

lemma begin_effect:
  assumes "begin_dispatch sha user a g control capability spec now_us db = Inr (db', r)"
  shows "\<exists>c c'. advanced db a c c' db' \<and> r = result_of c' (rw_outcome r) now_us \<and> grant_id c = g \<and>
    control_binding (bound c) = control \<and> worker_spec (bound c) = spec \<and> execution_capability c = sha capability \<and>
    (if dstate c = GRANTED \<and> current (bound c) now_us then dstate c' = EXECUTING \<and> rw_outcome r = EXECUTION_STARTED
     else if dstate c = GRANTED then dstate c' = EXPIRED \<and> rw_outcome r = AUTHORITY_NOT_CURRENT
     else c' = c \<and> rw_outcome r = (if dstate c = EXECUTING then ALREADY_EXECUTING_DO_NOT_START
       else if dstate c = EXPIRED then AUTHORITY_NOT_CURRENT else ALREADY_TERMINAL))"
proof -
  from assms obtain c where one: "controls_of db a = [c]" and ok: "grant_id c = g" "control_binding (bound c) = control"
      "worker_spec (bound c) = spec" "execution_capability c = sha capability"
    and rest: "(if dstate c = GRANTED \<and> current (bound c) now_us then
       and_then (update_control a (\<lambda>r. r\<lparr>dstate := EXECUTING, executing_at := Some now_us\<rparr>) db)
         (\<lambda>db'. finish db' a EXECUTION_STARTED now_us)
     else if dstate c = GRANTED then
       and_then (update_control a (expire_row now_us) db) (\<lambda>db'. finish db' a AUTHORITY_NOT_CURRENT now_us)
     else if dstate c = EXECUTING then finish db a ALREADY_EXECUTING_DO_NOT_START now_us
     else if dstate c = EXPIRED then finish db a AUTHORITY_NOT_CURRENT now_us
     else finish db a ALREADY_TERMINAL now_us) = Inr (db', r)"
    unfolding begin_dispatch_def sql_guard_Inr and_then_eq_Inr select_control_Inr by auto
  consider (go) "dstate c = GRANTED" "current (bound c) now_us" | (late) "dstate c = GRANTED" "\<not> current (bound c) now_us"
    | (other) "dstate c \<noteq> GRANTED" by blast
  then show ?thesis
  proof cases
    case go
    with rest have "and_then (update_control a (\<lambda>r. r\<lparr>dstate := EXECUTING, executing_at := Some now_us\<rparr>) db)
         (\<lambda>db'. finish db' a EXECUTION_STARTED now_us) = Inr (db', r)" by simp
    from update_finish [OF this one] go
    have "advanced db a c (c\<lparr>dstate := EXECUTING, executing_at := Some now_us\<rparr>) db'"
      "r = result_of (c\<lparr>dstate := EXECUTING, executing_at := Some now_us\<rparr>) EXECUTION_STARTED now_us"
      by (auto simp: same_identity_def)
    with go ok show ?thesis by (intro exI conjI) (auto simp: result_of_def)
  next
    case late
    with rest have "and_then (update_control a (expire_row now_us) db) (\<lambda>db'. finish db' a AUTHORITY_NOT_CURRENT now_us)
        = Inr (db', r)" by simp
    from update_finish [OF this one] late
    have "advanced db a c (expire_row now_us c) db'" "r = result_of (expire_row now_us c) AUTHORITY_NOT_CURRENT now_us"
      by (auto simp: same_identity_def expire_row_def)
    with late ok show ?thesis by (intro exI conjI) (auto simp: result_of_def expire_row_def)
  next
    case other
    with rest have "finish db a (if dstate c = EXECUTING then ALREADY_EXECUTING_DO_NOT_START
       else if dstate c = EXPIRED then AUTHORITY_NOT_CURRENT else ALREADY_TERMINAL) now_us = Inr (db', r)"
      by (auto split: if_splits)
    from finish_same [OF this one] other ok show ?thesis
      by (intro exI [of _ c] conjI) (auto simp: result_of_def)
  qed
qed

lemma redeem_effect:
  assumes "redeem_dispatch sha user a g control capability completion spec now_us db = Inr (db', r)"
  shows "\<exists>c c'. advanced db a c c' db' \<and> r = result_of c' (rw_outcome r) now_us \<and> grant_id c = g \<and>
    control_binding (bound c) = control \<and> worker_spec (bound c) = spec \<and> execution_capability c = sha capability \<and>
    (if dstate c = EXECUTING \<and> current (bound c) now_us
     then dstate c' = CREDENTIAL_REDEEMED \<and> completion_capability c' = Some completion \<and> rw_outcome r = REDEEMED
     else if dstate c = EXECUTING then dstate c' = EXPIRED \<and> rw_outcome r = AUTHORITY_NOT_CURRENT
     else c' = c \<and> rw_outcome r = (if dstate c = CREDENTIAL_REDEEMED then ALREADY_REDEEMED_DO_NOT_DELIVER
       else ALREADY_TERMINAL_DO_NOT_DELIVER))"
proof -
  let ?redeem = "\<lambda>r. r\<lparr>dstate := CREDENTIAL_REDEEMED, redeemed_at := Some now_us, completion_capability := Some completion\<rparr>"
  from assms obtain c where one: "controls_of db a = [c]" and ok: "grant_id c = g" "control_binding (bound c) = control"
      "worker_spec (bound c) = spec" "execution_capability c = sha capability"
    and rest: "(if dstate c = EXECUTING \<and> current (bound c) now_us then
       and_then (update_control a ?redeem db) (\<lambda>db'. finish db' a REDEEMED now_us)
     else if dstate c = EXECUTING then
       and_then (update_control a (expire_row now_us) db) (\<lambda>db'. finish db' a AUTHORITY_NOT_CURRENT now_us)
     else if dstate c = CREDENTIAL_REDEEMED then finish db a ALREADY_REDEEMED_DO_NOT_DELIVER now_us
     else finish db a ALREADY_TERMINAL_DO_NOT_DELIVER now_us) = Inr (db', r)"
    unfolding redeem_dispatch_def sql_guard_Inr and_then_eq_Inr select_control_Inr by auto
  consider (go) "dstate c = EXECUTING" "current (bound c) now_us" | (late) "dstate c = EXECUTING" "\<not> current (bound c) now_us"
    | (other) "dstate c \<noteq> EXECUTING" by blast
  then show ?thesis
  proof cases
    case go
    with rest have "and_then (update_control a ?redeem db) (\<lambda>db'. finish db' a REDEEMED now_us) = Inr (db', r)" by simp
    from update_finish [OF this one] go
    have "advanced db a c (?redeem c) db'" "r = result_of (?redeem c) REDEEMED now_us"
      by (auto simp: same_identity_def)
    with go ok show ?thesis by (intro exI conjI) (auto simp: result_of_def)
  next
    case late
    with rest have "and_then (update_control a (expire_row now_us) db) (\<lambda>db'. finish db' a AUTHORITY_NOT_CURRENT now_us)
        = Inr (db', r)" by simp
    from update_finish [OF this one] late
    have "advanced db a c (expire_row now_us c) db'" "r = result_of (expire_row now_us c) AUTHORITY_NOT_CURRENT now_us"
      by (auto simp: same_identity_def expire_row_def)
    with late ok show ?thesis by (intro exI conjI) (auto simp: result_of_def expire_row_def)
  next
    case other
    with rest have "finish db a (if dstate c = CREDENTIAL_REDEEMED then ALREADY_REDEEMED_DO_NOT_DELIVER
       else ALREADY_TERMINAL_DO_NOT_DELIVER) now_us = Inr (db', r)"
      by (auto split: if_splits)
    from finish_same [OF this one] other ok show ?thesis
      by (intro exI [of _ c] conjI) (auto simp: result_of_def)
  qed
qed

lemma complete_effect:
  assumes "complete_dispatch sha user a g control capability mcp close now_us db = Inr (db', r)"
  shows "\<exists>c c'. advanced db a c c' db' \<and> r = result_of c' DISPATCH_COMPLETED now_us \<and> grant_id c = g \<and>
    control_binding (bound c) = control \<and> \<not> known_differs (completion_capability c) (sha capability) \<and>
    dstate c' = COMPLETED \<and> mcp_result c' = Some mcp \<and> session_close c' = Some close \<and>
    (if dstate c = CREDENTIAL_REDEEMED then activated db a g control else c' = c)"
proof -
  let ?done = "\<lambda>r. r\<lparr>dstate := COMPLETED, terminal_at := Some now_us, mcp_result := Some mcp, session_close := Some close\<rparr>"
  from assms obtain c where one: "controls_of db a = [c]" and ok: "grant_id c = g" "control_binding (bound c) = control"
      "\<not> known_differs (completion_capability c) (sha capability)"
    and rest: "(if dstate c = CREDENTIAL_REDEEMED \<and> activated db a g control then
       and_then (update_control a ?done db) (\<lambda>db'. finish db' a DISPATCH_COMPLETED now_us)
     else if dstate c = COMPLETED \<and> mcp_result c = Some mcp \<and> session_close c = Some close
     then finish db a DISPATCH_COMPLETED now_us
     else if dstate c = COMPLETED
     then sql_raise ''22023'' ''provider dispatch completion conflict''
     else sql_raise ''42501'' ''provider dispatch completion state rejected'') = Inr (db', r)"
    unfolding complete_dispatch_def sql_guard_Inr and_then_eq_Inr select_control_Inr by auto
  consider (go) "dstate c = CREDENTIAL_REDEEMED" "activated db a g control"
    | (again) "dstate c = COMPLETED" "mcp_result c = Some mcp" "session_close c = Some close"
    using rest by (auto split: if_splits)
  then show ?thesis
  proof cases
    case go
    with rest have "and_then (update_control a ?done db) (\<lambda>db'. finish db' a DISPATCH_COMPLETED now_us) = Inr (db', r)"
      by simp
    from update_finish [OF this one] go
    have "advanced db a c (?done c) db'" "r = result_of (?done c) DISPATCH_COMPLETED now_us"
      by (auto simp: same_identity_def)
    with go ok show ?thesis by (intro exI conjI) auto
  next
    case again
    with rest have "finish db a DISPATCH_COMPLETED now_us = Inr (db', r)" by simp
    from finish_same [OF this one] again ok show ?thesis by (intro exI [of _ c] conjI) auto
  qed
qed

lemma mark_unknown_effect:
  assumes "mark_unknown_dispatch sha user a g control capability now_us db = Inr (db', r)"
  shows "\<exists>c c'. advanced db a c c' db' \<and> r = result_of c' UNKNOWN_RECORDED now_us \<and> grant_id c = g \<and>
    control_binding (bound c) = control \<and> \<not> known_differs (completion_capability c) (sha capability) \<and>
    dstate c' = UNKNOWN_DO_NOT_ACT \<and> dstate c \<in> {CREDENTIAL_REDEEMED, UNKNOWN_DO_NOT_ACT}"
proof -
  let ?unknown = "\<lambda>r. r\<lparr>dstate := UNKNOWN_DO_NOT_ACT, terminal_at := Some now_us\<rparr>"
  from assms obtain c where one: "controls_of db a = [c]" and ok: "grant_id c = g" "control_binding (bound c) = control"
      "\<not> known_differs (completion_capability c) (sha capability)"
    and rest: "(if dstate c = CREDENTIAL_REDEEMED then
       and_then (update_control a ?unknown db) (\<lambda>db'. finish db' a UNKNOWN_RECORDED now_us)
     else if dstate c = UNKNOWN_DO_NOT_ACT then finish db a UNKNOWN_RECORDED now_us
     else sql_raise ''42501'' ''provider dispatch unknown state rejected'') = Inr (db', r)"
    unfolding mark_unknown_dispatch_def sql_guard_Inr and_then_eq_Inr select_control_Inr by auto
  show ?thesis
  proof (cases "dstate c = CREDENTIAL_REDEEMED")
    case True
    with rest have "and_then (update_control a ?unknown db) (\<lambda>db'. finish db' a UNKNOWN_RECORDED now_us) = Inr (db', r)"
      by simp
    from update_finish [OF this one] True
    have "advanced db a c (?unknown c) db'" "r = result_of (?unknown c) UNKNOWN_RECORDED now_us"
      by (auto simp: same_identity_def)
    with True ok show ?thesis by (intro exI conjI) auto
  next
    case False
    with rest have "dstate c = UNKNOWN_DO_NOT_ACT" "finish db a UNKNOWN_RECORDED now_us = Inr (db', r)"
      by (auto split: if_splits)
    with finish_same [OF this(2) one] ok show ?thesis by (intro exI [of _ c] conjI) auto
  qed
qed

lemma terminalize_effect:
  assumes "terminalize_dispatch user a g control spec now_us db = Inr (db', r)"
  shows "\<exists>c c'. advanced db a c c' db' \<and> r = result_of c' (rw_outcome r) now_us \<and> grant_id c = g \<and>
    control_binding (bound c) = control \<and> worker_spec (bound c) = spec \<and>
    (if terminal (dstate c) then c' = c \<and> rw_outcome r = ALREADY_TERMINAL
     else if now_us < lapses_at (bound c) then c' = c \<and> rw_outcome r = NOT_EXPIRED
     else if dstate c = CREDENTIAL_REDEEMED then dstate c' = UNKNOWN_DO_NOT_ACT \<and> rw_outcome r = UNKNOWN_RECORDED
     else dstate c' = EXPIRED \<and> rw_outcome r = EXPIRED_RECORDED)"
proof -
  let ?unknown = "\<lambda>r. r\<lparr>dstate := UNKNOWN_DO_NOT_ACT, terminal_at := Some now_us\<rparr>"
  from assms obtain c where one: "controls_of db a = [c]" and ok: "grant_id c = g" "control_binding (bound c) = control"
      "worker_spec (bound c) = spec"
    and rest: "(if dstate c \<in> {GRANTED, EXECUTING} \<and> now_us \<ge> lapses_at (bound c) then
       and_then (update_control a (expire_row now_us) db) (\<lambda>db'. finish db' a EXPIRED_RECORDED now_us)
     else if dstate c = CREDENTIAL_REDEEMED \<and> now_us \<ge> lapses_at (bound c) then
       and_then (update_control a ?unknown db) (\<lambda>db'. finish db' a UNKNOWN_RECORDED now_us)
     else if dstate c \<in> {COMPLETED, UNKNOWN_DO_NOT_ACT, EXPIRED} then finish db a ALREADY_TERMINAL now_us
     else finish db a NOT_EXPIRED now_us) = Inr (db', r)"
    unfolding terminalize_dispatch_def sql_guard_Inr and_then_eq_Inr select_control_Inr by auto
  consider (lapse) "dstate c \<in> {GRANTED, EXECUTING}" "now_us \<ge> lapses_at (bound c)"
    | (unknown) "dstate c = CREDENTIAL_REDEEMED" "now_us \<ge> lapses_at (bound c)"
    | (ended) "terminal (dstate c)" | (early) "\<not> terminal (dstate c)" "now_us < lapses_at (bound c)"
    by (cases "dstate c") force+
  then show ?thesis
  proof cases
    case lapse
    with rest have "and_then (update_control a (expire_row now_us) db) (\<lambda>db'. finish db' a EXPIRED_RECORDED now_us)
        = Inr (db', r)" by simp
    moreover have "dispatch_edge (dstate c) (dstate (expire_row now_us c))"
      using lapse(1) by (auto simp: expire_row_def)
    ultimately have "advanced db a c (expire_row now_us c) db'" "r = result_of (expire_row now_us c) EXPIRED_RECORDED now_us"
      using update_finish [OF _ one, of "expire_row now_us"] by (auto simp: same_identity_def expire_row_def)
    with lapse ok show ?thesis by (intro exI conjI) (auto simp: result_of_def expire_row_def)
  next
    case unknown
    with rest have "and_then (update_control a ?unknown db) (\<lambda>db'. finish db' a UNKNOWN_RECORDED now_us) = Inr (db', r)"
      by simp
    from update_finish [OF this one] unknown
    have "advanced db a c (?unknown c) db'" "r = result_of (?unknown c) UNKNOWN_RECORDED now_us"
      by (auto simp: same_identity_def)
    with unknown ok show ?thesis by (intro exI conjI) (auto simp: result_of_def)
  next
    case ended
    with rest have "finish db a ALREADY_TERMINAL now_us = Inr (db', r)" by (cases "dstate c") auto
    from finish_same [OF this one] ended ok show ?thesis
      by (intro exI [of _ c] conjI) (auto simp: result_of_def)
  next
    case early
    with rest have "finish db a NOT_EXPIRED now_us = Inr (db', r)" by (cases "dstate c") auto
    from finish_same [OF this one] early ok show ?thesis
      by (intro exI [of _ c] conjI) (auto simp: result_of_def)
  qed
qed

lemma activate_effect:
  assumes "activate_dispatch user a g control request now_us db = Inr (db', r)"
  shows "\<exists>c. controls_of db a = [c] \<and> grant_id c = g \<and> control_binding (bound c) = control \<and> controls db' = controls db \<and>
    occupancy db' = occupancy db \<and> rw_authorization r = a \<and> rw_state r = Some (dstate c) \<and> rw_now r = now_us \<and>
    (if dstate c \<noteq> CREDENTIAL_REDEEMED \<or> \<not> current (bound c) now_us
     then db' = db \<and> rw_outcome r = ACTIVATION_NOT_AUTHORIZED
     else if list_ex (\<lambda>x. ac_authorization x = a) (activations db)
     then db' = db \<and> rw_outcome r = ACTIVATION_ALREADY_CONSUMED
     else \<exists>x. activations db' = activations db @ [x] \<and> activation_check x \<and> ac_authorization x = a \<and> ac_grant x = g \<and>
       ac_binding x = control \<and> ac_request x = request \<and> ac_activated_at x = now_us \<and>
       \<not> list_ex (\<lambda>y. ac_grant y = g) (activations db) \<and> rw_outcome r = ACTIVATION_GRANTED)"
proof -
  let ?x = "\<lparr>ac_authorization = a, ac_grant = g, ac_binding = control, ac_request = request, ac_activated_at = now_us\<rparr>"
  from assms obtain c where one: "controls_of db a = [c]" and ok: "grant_id c = g" "control_binding (bound c) = control"
    and rest: "(if dstate c \<noteq> CREDENTIAL_REDEEMED \<or> \<not> current (bound c) now_us
     then Inr (db, result_of c ACTIVATION_NOT_AUTHORIZED now_us)
     else
     and_then (insert_activation ?x db) (\<lambda>(db', inserted).
     case filter (\<lambda>x. ac_authorization x = a) (activations db') of
       x # _ \<Rightarrow>
         if ac_grant x \<noteq> g \<or> ac_binding x \<noteq> control \<or> ac_request x \<noteq> request
         then sql_raise ''22023'' ''provider activation replay conflict''
         else Inr (db', (result_of c (if inserted then ACTIVATION_GRANTED else ACTIVATION_ALREADY_CONSUMED) now_us)
           \<lparr>rw_activated_at := Some (ac_activated_at x), rw_activation_request := Some (ac_request x)\<rparr>)
     | [] \<Rightarrow> Inr (db', result_of c (if inserted then ACTIVATION_GRANTED else ACTIVATION_ALREADY_CONSUMED) now_us)))
     = Inr (db', r)"
    unfolding activate_dispatch_def sql_guard_Inr and_then_eq_Inr select_control_Inr by auto
  have a: "c_auth c = a" using controls_of_in [OF one] by simp
  show ?thesis
  proof (cases "dstate c \<noteq> CREDENTIAL_REDEEMED \<or> \<not> current (bound c) now_us")
    case True
    with rest have "db' = db" "r = result_of c ACTIVATION_NOT_AUTHORIZED now_us" by auto
    with True one ok a show ?thesis by (intro exI [of _ c]) (simp add: result_of_def)
  next
    case False
    then have rest': "and_then (insert_activation ?x db) (\<lambda>(d, inserted).
     case filter (\<lambda>x. ac_authorization x = a) (activations d) of
       x # _ \<Rightarrow>
         if ac_grant x \<noteq> g \<or> ac_binding x \<noteq> control \<or> ac_request x \<noteq> request
         then sql_raise ''22023'' ''provider activation replay conflict''
         else Inr (d, (result_of c (if inserted then ACTIVATION_GRANTED else ACTIVATION_ALREADY_CONSUMED) now_us)
           \<lparr>rw_activated_at := Some (ac_activated_at x), rw_activation_request := Some (ac_request x)\<rparr>)
     | [] \<Rightarrow> Inr (d, result_of c (if inserted then ACTIVATION_GRANTED else ACTIVATION_ALREADY_CONSUMED) now_us))
       = Inr (db', r)" using rest by (simp only: if_False)
    then obtain d inserted where ins': "insert_activation ?x db = Inr (d, inserted)"
      unfolding and_then_eq_Inr by auto
    have "d = db' \<and> rw_outcome r = (if inserted then ACTIVATION_GRANTED else ACTIVATION_ALREADY_CONSUMED) \<and>
        rw_authorization r = c_auth c \<and> rw_state r = Some (dstate c) \<and> rw_now r = now_us"
      using rest' unfolding ins' and_then_Inr prod.case
      by (cases "filter (\<lambda>x. ac_authorization x = a) (activations d)") (auto simp: result_of_def split: if_splits)
    then have ins: "insert_activation ?x db = Inr (db', inserted)"
      and r: "rw_outcome r = (if inserted then ACTIVATION_GRANTED else ACTIVATION_ALREADY_CONSUMED)"
        "rw_authorization r = c_auth c" "rw_state r = Some (dstate c)" "rw_now r = now_us"
      using ins' by simp_all
    show ?thesis
    proof (cases "list_ex (\<lambda>x. ac_authorization x = a) (activations db)")
      case True
      with ins have "db' = db" "\<not> inserted" by (auto simp: insert_activation_def split: if_splits)
      with one ok a False r True show ?thesis by (intro exI [of _ c]) simp
    next
      case fresh: False
      with ins have "activation_check ?x" "\<not> list_ex (\<lambda>y. ac_grant y = g) (activations db)" "inserted"
          "db' = db\<lparr>activations := activations db @ [?x]\<rparr>"
        by (auto simp: insert_activation_def split: if_splits)
      with one ok a False r fresh show ?thesis by (intro exI [of _ c]) simp
    qed
  qed
qed

lemma claim_matches_one:
  "claim_matches b db = [c] \<Longrightarrow> bound c = b \<Longrightarrow> controls_of db (authorization_id b) = [c]"
proof -
  assume one: "claim_matches b db = [c]" and b: "bound c = b"
  have "controls_of db (authorization_id b) = filter (\<lambda>c. c_auth c = authorization_id b) (claim_matches b db)"
    by (simp add: controls_of_def claim_matches_def) (metis (mono_tags, lifting))
  with one b show ?thesis by simp
qed

lemma expire_identity: "same_identity x (expire_row now_us x)"
  by (simp add: same_identity_def expire_row_def)

lemma expire_state: "dstate (expire_row now_us x) = EXPIRED"
  by (simp add: expire_row_def)

lemma claim_effect:
  assumes "claim_dispatch user b g capability insert_us now_us db = Inr (db', r)"
  shows "\<exists>db1 db2 c c'. claim_input_ok b capability \<and> insert_occupancy b db = Inr db1 \<and> check_occupancy b db1 = Inr () \<and>
    (if claim_matches b db1 = [] then insert_control (new_control b g capability insert_us) db1 = Inr db2 else db2 = db1) \<and>
    claim_matches b db2 = [c] \<and> bound c = b \<and> advanced db2 (authorization_id b) c c' db' \<and>
    (if dstate c = GRANTED \<and> \<not> current b now_us then dstate c' = EXPIRED else c' = c) \<and>
    r = result_of c' (claim_outcome c' g capability) now_us"
proof -
  let ?late = "\<lambda>c. dstate c = GRANTED \<and> \<not> current (bound c) now_us"
  from assms obtain db1 db2 u where input: "claim_input_ok b capability" and occ: "insert_occupancy b db = Inr db1" "check_occupancy b db1 = Inr u"
    and ins: "(if claim_matches b db1 = [] then insert_control (new_control b g capability insert_us) db1 else Inr db1) = Inr db2"
    and rest: "(case claim_matches b db2 of
       [c] \<Rightarrow>
         if bound c \<noteq> b
         then sql_raise ''22023'' ''provider dispatch claim binding conflict''
         else
         and_then (if ?late c then update_control (authorization_id b) (expire_row now_us) db2 else Inr db2) (\<lambda>db3.
           finish db3 (authorization_id b) (claim_outcome (if ?late c then expire_row now_us c else c) g capability) now_us)
     | _ \<Rightarrow> sql_raise ''40001'' ''provider dispatch claim unavailable'') = Inr (db', r)"
    unfolding claim_dispatch_def sql_guard_Inr and_then_eq_Inr not_not by blast
  have "check_occupancy b db1 = Inr ()" using occ(2) by (cases u) simp
  note occ = occ(1) this
  from rest obtain c where one: "claim_matches b db2 = [c]" by (auto split: list.split_asm)
  with rest have b: "bound c = b" and
    fin: "and_then (if ?late c then update_control (authorization_id b) (expire_row now_us) db2 else Inr db2) (\<lambda>db3.
           finish db3 (authorization_id b) (claim_outcome (if ?late c then expire_row now_us c else c) g capability) now_us)
      = Inr (db', r)"
    by (auto split: if_split_asm)
  note row = claim_matches_one [OF one b]
  have "\<exists>c'. advanced db2 (authorization_id b) c c' db' \<and> (if ?late c then dstate c' = EXPIRED else c' = c) \<and>
      r = result_of c' (claim_outcome c' g capability) now_us"
  proof (cases "?late c")
    case True
    then have edge: "dispatch_edge (dstate c) (dstate (expire_row now_us c))" by (auto simp: expire_row_def)
    from True fin have "and_then (update_control (authorization_id b) (expire_row now_us) db2)
        (\<lambda>db3. finish db3 (authorization_id b) (claim_outcome (expire_row now_us c) g capability) now_us) = Inr (db', r)"
      by simp
    from update_finish [OF this row expire_identity edge] True show ?thesis
      by (intro exI [of _ "expire_row now_us c"]) (simp only: expire_state if_True simp_thms)
  next
    case False
    then have "finish db2 (authorization_id b) (claim_outcome c g capability) now_us = Inr (db', r)"
      using fin by (simp only: if_False and_then_Inr)
    from finish_same [OF this row] False show ?thesis
      by (intro exI [of _ c]) (simp only: if_False simp_thms)
  qed
  then obtain c' where c': "advanced db2 (authorization_id b) c c' db'" "if ?late c then dstate c' = EXPIRED else c' = c"
      "r = result_of c' (claim_outcome c' g capability) now_us" by blast
  have "if claim_matches b db1 = [] then insert_control (new_control b g capability insert_us) db1 = Inr db2 else db2 = db1"
    using ins by (simp split: if_split_asm)
  with input occ one b c' show ?thesis
    by (intro exI [of _ db1] exI [of _ db2] exI [of _ c] exI [of _ c']) (simp only: simp_thms)
qed

section \<open>The invariant\<close>

definition refs_ok :: "dispatch_db \<Rightarrow> bool" where
  "refs_ok db \<longleftrightarrow>
     (\<forall>c \<in> set (controls db). \<exists>o' \<in> set (occupancy db). oc_effect_key o' = c_effect c \<and> oc_ledger o' = CURRENT_V2 \<and>
        oc_authorization o' = c_auth c \<and> oc_binding o' = control_binding (bound c)) \<and>
     (\<forall>x \<in> set (activations db). \<exists>c \<in> set (controls db). c_auth c = ac_authorization x \<and> grant_id c = ac_grant x \<and>
        control_binding (bound c) = ac_binding x \<and> dstate c \<in> {CREDENTIAL_REDEEMED, COMPLETED, UNKNOWN_DO_NOT_ACT}) \<and>
     (\<forall>c \<in> set (controls db). dstate c = COMPLETED \<longrightarrow> activated db (c_auth c) (grant_id c) (control_binding (bound c)))"

definition checks_ok :: "dispatch_db \<Rightarrow> bool" where
  "checks_ok db \<longleftrightarrow> list_all occupancy_check (occupancy db) \<and> list_all activation_check (activations db) \<and>
     list_all control_check (controls db)"

definition db_ok :: "dispatch_db \<Rightarrow> bool" where
  "db_ok db \<longleftrightarrow> keys_ok db \<and> checks_ok db \<and> refs_ok db"

lemma advanced_map:
  assumes "advanced db a c c' db'" and "\<And>x. same_identity c x \<Longrightarrow> f x = f c"
  shows "map f (controls db') = map f (controls db)"
proof -
  have one: "controls_of db a = [c]" and id: "same_identity c c'"
    and db': "controls db' = map (\<lambda>x. if c_auth x = a then c' else x) (controls db)"
    using assms(1) by (auto simp: advanced_def)
  have "f (if c_auth x = a then c' else x) = f x" if "x \<in> set (controls db)" for x
    using controls_of_set [OF one that] assms(2) [OF id] by auto
  then show ?thesis by (simp add: db')
qed

lemma advanced_rows:
  assumes "advanced db a c c' db'"
  shows "occupancy db' = occupancy db" "activations db' = activations db"
    "\<And>x. x \<in> set (controls db') \<longleftrightarrow> x = c' \<or> x \<in> set (controls db) \<and> c_auth x \<noteq> a"
    "c \<in> set (controls db)" "c_auth c = a" "c_auth c' = a" "controls_of db' a = [c']"
proof -
  have one: "controls_of db a = [c]" and id: "same_identity c c'"
    and db': "db' = db\<lparr>controls := map (\<lambda>x. if c_auth x = a then c' else x) (controls db)\<rparr>"
    using assms by (auto simp: advanced_def)
  note c = controls_of_in [OF one]
  show "occupancy db' = occupancy db" "activations db' = activations db" by (simp_all add: db')
  show "x \<in> set (controls db') \<longleftrightarrow> x = c' \<or> x \<in> set (controls db) \<and> c_auth x \<noteq> a" for x
    using c by (auto simp: db')
  show "c \<in> set (controls db)" "c_auth c = a" using c by simp_all
  show "c_auth c' = a" using c id by (simp add: same_identity_def)
  then show "controls_of db' a = [c']"
    using controls_of_update [of a "\<lambda>_. c'" db] by (simp add: db' one)
qed

lemma advanced_ok:
  assumes ok: "db_ok db" and adv: "advanced db a c c' db'"
    and complete: "dstate c' = COMPLETED \<Longrightarrow> c' = c \<or> activated db a (grant_id c) (control_binding (bound c))"
  shows "db_ok db'"
proof -
  note rows = advanced_rows [OF adv]
  have id: "same_identity c c'" using adv by (simp add: advanced_def)
  have keys: "keys_ok db'"
    using ok advanced_map [OF adv, of c_auth] advanced_map [OF adv, of grant_id] advanced_map [OF adv, of c_effect]
    by (simp add: db_ok_def keys_ok_def rows(1,2) same_identity_def)
  have "control_check c'" using adv ok rows(4) by (auto simp: advanced_def db_ok_def checks_ok_def list_all_iff)
  then have checks: "checks_ok db'"
    using ok rows(1-3) by (auto simp: db_ok_def checks_ok_def list_all_iff)
  have refs: "refs_ok db" using ok by (simp add: db_ok_def)
  have same: "c_effect c' = c_effect c" "c_auth c' = c_auth c" "control_binding (bound c') = control_binding (bound c)"
      "grant_id c' = grant_id c"
    using id by (simp_all add: same_identity_def)
  have act: "activated db' = activated db" by (simp add: activated_def fun_eq_iff rows(2))
  have "refs_ok db'"
    unfolding refs_ok_def
  proof (intro conjI ballI impI)
    fix x assume "x \<in> set (controls db')"
    then show "\<exists>o' \<in> set (occupancy db'). oc_effect_key o' = c_effect x \<and> oc_ledger o' = CURRENT_V2 \<and>
        oc_authorization o' = c_auth x \<and> oc_binding o' = control_binding (bound x)"
      using refs rows(1,3,4) same unfolding refs_ok_def by metis
  next
    fix x assume "x \<in> set (activations db')"
    then obtain d where d: "d \<in> set (controls db)" "c_auth d = ac_authorization x" "grant_id d = ac_grant x"
        "control_binding (bound d) = ac_binding x" "dstate d \<in> {CREDENTIAL_REDEEMED, COMPLETED, UNKNOWN_DO_NOT_ACT}"
      using refs unfolding refs_ok_def rows(2) by blast
    show "\<exists>c \<in> set (controls db'). c_auth c = ac_authorization x \<and> grant_id c = ac_grant x \<and>
        control_binding (bound c) = ac_binding x \<and> dstate c \<in> {CREDENTIAL_REDEEMED, COMPLETED, UNKNOWN_DO_NOT_ACT}"
    proof (cases "d = c")
      case True
      have "dstate c' \<in> {CREDENTIAL_REDEEMED, COMPLETED, UNKNOWN_DO_NOT_ACT}"
        using adv d(5) True by (auto simp: advanced_def)
      with True d same rows(3) show ?thesis by (intro bexI [of _ c']) auto
    next
      case False
      have "controls_of db a = [c]" using adv by (simp add: advanced_def)
      from controls_of_set [OF this d(1)] False have "c_auth d \<noteq> a" by simp
      with d rows(3) show ?thesis by (intro bexI [of _ d]) auto
    qed
  next
    fix x assume "x \<in> set (controls db')" "dstate x = COMPLETED"
    then show "activated db' (c_auth x) (grant_id x) (control_binding (bound x))"
      using refs rows complete same unfolding refs_ok_def act by metis
  qed
  with keys checks show ?thesis by (simp add: db_ok_def)
qed

lemma insert_occupancy_ok:
  assumes ok: "db_ok db" and input: "claim_input_ok b capability" and ins: "insert_occupancy b db = Inr db'"
  shows "db_ok db' \<and> controls db' = controls db \<and> activations db' = activations db"
proof (cases "list_ex (\<lambda>o'. oc_effect_key o' = effect_key b) (occupancy db)")
  case True
  with ins ok show ?thesis by (simp add: insert_occupancy_def)
next
  case False
  define row where "row = \<lparr>oc_effect_key = effect_key b, oc_ledger = CURRENT_V2,
      oc_authorization = authorization_id b, oc_binding = control_binding b\<rparr>"
  from False ins have free: "\<not> list_ex (\<lambda>o'. oc_ledger o' = CURRENT_V2 \<and> oc_authorization o' = authorization_id b) (occupancy db)"
    and db': "db' = db\<lparr>occupancy := occupancy db @ [row]\<rparr>"
    by (auto simp: insert_occupancy_def row_def split: if_split_asm)
  have "keys_ok db'" using ok False free
    by (auto simp: db_ok_def keys_ok_def db' row_def list_ex_iff)
  moreover have "occupancy_check row" using input by (auto simp: occupancy_check_def row_def claim_input_ok_def)
  then have "checks_ok db'" using ok by (simp add: db_ok_def checks_ok_def db')
  moreover have "refs_ok db'" using ok by (auto simp: db_ok_def refs_ok_def db' activated_def)
  ultimately show ?thesis by (simp add: db_ok_def db')
qed

lemma check_occupancy_found:
  assumes "check_occupancy b db = Inr ()"
  shows "\<exists>o' \<in> set (occupancy db). oc_effect_key o' = effect_key b \<and> oc_ledger o' = CURRENT_V2 \<and>
    oc_authorization o' = authorization_id b \<and> oc_binding o' = control_binding b"
proof -
  from assms obtain o' where o': "filter (\<lambda>o'. oc_effect_key o' = effect_key b) (occupancy db) = [o']"
    by (auto simp: check_occupancy_def split: list.split_asm)
  then have "o' \<in> set (filter (\<lambda>o'. oc_effect_key o' = effect_key b) (occupancy db))" by simp
  moreover have "oc_ledger o' = CURRENT_V2 \<and> oc_authorization o' = authorization_id b \<and> oc_binding o' = control_binding b"
    using assms o' by (auto simp: check_occupancy_def split: if_split_asm)
  ultimately show ?thesis by auto
qed

lemma insert_control_ok:
  assumes ok: "db_ok db" and occ: "check_occupancy b db = Inr ()"
    and ins: "insert_control (new_control b g capability now_us) db = Inr db'"
  shows "db_ok db' \<and> occupancy db' = occupancy db \<and> activations db' = activations db \<and>
    (controls db' = controls db \<or> controls db' = controls db @ [new_control b g capability now_us])"
proof -
  define c where "c = new_control b g capability now_us"
  have check: "control_check c" using ins by (simp add: insert_control_def c_def split: if_split_asm)
  show ?thesis
  proof (cases "list_ex (\<lambda>c'. c_auth c' = c_auth c \<or> grant_id c' = grant_id c \<or> c_effect c' = c_effect c) (controls db)")
    case True
    with ins check ok show ?thesis by (simp add: insert_control_def c_def [symmetric])
  next
    case False
    with ins check have db': "db' = db\<lparr>controls := controls db @ [c]\<rparr>"
      by (simp add: insert_control_def c_def [symmetric])
    have "keys_ok db'" using ok False by (auto simp: db_ok_def keys_ok_def db' list_ex_iff)
    moreover have "checks_ok db'" using ok check by (simp add: db_ok_def checks_ok_def db')
    moreover have "dstate c \<noteq> COMPLETED" "bound c = b" by (simp_all add: c_def new_control_def)
    then have "refs_ok db'"
      using ok check_occupancy_found [OF occ] by (auto simp: db_ok_def refs_ok_def db' activated_def)
    ultimately show ?thesis by (simp add: db_ok_def db' c_def)
  qed
qed

definition rows_grow :: "dispatch_db \<Rightarrow> dispatch_db \<Rightarrow> bool" where
  "rows_grow db db' \<longleftrightarrow>
     (\<forall>c \<in> set (controls db). \<exists>c' \<in> set (controls db'). same_identity c c' \<and>
        (c' = c \<or> dispatch_edge (dstate c) (dstate c'))) \<and>
     set (activations db) \<subseteq> set (activations db')"

lemma rows_grow_same:
  "controls db' = controls db \<Longrightarrow> set (activations db) \<subseteq> set (activations db') \<Longrightarrow> rows_grow db db'"
  unfolding rows_grow_def by (metis same_identity_refl)

lemma rows_grow_refl [simp]: "rows_grow db db"
  by (rule rows_grow_same) simp_all

lemma advanced_grow:
  assumes "advanced db a c c' db'"
  shows "rows_grow db db'"
proof -
  note rows = advanced_rows [OF assms]
  have one: "controls_of db a = [c]" using assms by (simp add: advanced_def)
  have "\<exists>x' \<in> set (controls db'). same_identity x x' \<and> (x' = x \<or> dispatch_edge (dstate x) (dstate x'))"
    if "x \<in> set (controls db)" for x
  proof (cases "x = c")
    case True
    then show ?thesis using assms rows(3) by (intro bexI [of _ c']) (auto simp: advanced_def)
  next
    case False
    then show ?thesis using that rows(3) controls_of_set [OF one that] by (intro bexI [of _ x]) auto
  qed
  then show ?thesis using rows(2) by (simp add: rows_grow_def)
qed

lemma rows_grow_extend:
  "set (controls db) \<subseteq> set (controls db1) \<Longrightarrow> set (activations db) \<subseteq> set (activations db1) \<Longrightarrow>
   rows_grow db1 db2 \<Longrightarrow> rows_grow db db2"
  unfolding rows_grow_def by (meson subset_iff)

lemma claim_ok:
  assumes ok: "db_ok db" and claim: "claim_dispatch user b g capability insert_us now_us db = Inr (db', r)"
  shows "db_ok db' \<and> rows_grow db db'"
proof -
  from claim_effect [OF claim] obtain db1 db2 c c' where input: "claim_input_ok b capability"
    and occ: "insert_occupancy b db = Inr db1" "check_occupancy b db1 = Inr ()"
    and ins: "if claim_matches b db1 = [] then insert_control (new_control b g capability insert_us) db1 = Inr db2 else db2 = db1"
    and adv: "advanced db2 (authorization_id b) c c' db'"
    and state: "if dstate c = GRANTED \<and> \<not> current b now_us then dstate c' = EXPIRED else c' = c" by blast
  have one: "db_ok db1" "controls db1 = controls db" "activations db1 = activations db"
    using insert_occupancy_ok [OF ok input occ(1)] by simp_all
  have two: "db_ok db2 \<and> set (controls db) \<subseteq> set (controls db2) \<and> set (activations db) \<subseteq> set (activations db2)"
  proof (cases "claim_matches b db1 = []")
    case True
    with ins have "insert_control (new_control b g capability insert_us) db1 = Inr db2" by simp
    from insert_control_ok [OF one(1) occ(2) this] show ?thesis using one by auto
  next
    case False
    with ins one show ?thesis by simp
  qed
  have "db_ok db'" using advanced_ok [OF _ adv] two state by (simp split: if_split_asm)
  then show ?thesis using rows_grow_extend [OF _ _ advanced_grow [OF adv]] two by blast
qed

lemma activate_ok:
  assumes ok: "db_ok db" and act: "activate_dispatch user a g control request now_us db = Inr (db', r)"
  shows "db_ok db' \<and> rows_grow db db'"
proof -
  from activate_effect [OF act] obtain c where one: "controls_of db a = [c]"
    and same: "controls db' = controls db" "occupancy db' = occupancy db"
    and bind: "grant_id c = g" "control_binding (bound c) = control"
    and out: "if dstate c \<noteq> CREDENTIAL_REDEEMED \<or> \<not> current (bound c) now_us
       then db' = db \<and> rw_outcome r = ACTIVATION_NOT_AUTHORIZED
       else if list_ex (\<lambda>x. ac_authorization x = a) (activations db)
       then db' = db \<and> rw_outcome r = ACTIVATION_ALREADY_CONSUMED
       else \<exists>x. activations db' = activations db @ [x] \<and> activation_check x \<and> ac_authorization x = a \<and> ac_grant x = g \<and>
         ac_binding x = control \<and> ac_request x = request \<and> ac_activated_at x = now_us \<and>
         \<not> list_ex (\<lambda>y. ac_grant y = g) (activations db) \<and> rw_outcome r = ACTIVATION_GRANTED"
    by blast
  show ?thesis
  proof (cases "db' = db")
    case True
    with ok show ?thesis by simp
  next
    case False
    with out have redeemed: "dstate c = CREDENTIAL_REDEEMED" and none: "\<not> list_ex (\<lambda>x. ac_authorization x = a) (activations db)"
      by (auto split: if_split_asm)
    with False out obtain x where x: "activations db' = activations db @ [x]" "activation_check x" "ac_authorization x = a"
        "ac_grant x = g" "ac_binding x = control" "\<not> list_ex (\<lambda>y. ac_grant y = g) (activations db)"
      by (auto split: if_split_asm)
    note c = controls_of_in [OF one]
    have "keys_ok db'" using ok x none by (auto simp: db_ok_def keys_ok_def same list_ex_iff)
    moreover have "checks_ok db'" using ok x by (simp add: db_ok_def checks_ok_def same)
    moreover have "refs_ok db'"
      using ok c redeemed bind x by (auto simp: db_ok_def refs_ok_def same activated_def)
    moreover have "rows_grow db db'" using x(1) by (intro rows_grow_same) (auto simp: same)
    ultimately show ?thesis by (simp add: db_ok_def)
  qed
qed

lemma apply_ok:
  assumes ok: "db_ok db" and app: "dispatch_apply sha user call db = Inr (db', r)"
  shows "db_ok db' \<and> rows_grow db db'"
proof -
  have move: "db_ok db' \<and> rows_grow db db'"
    if "advanced db a c c' db'" "dstate c' = COMPLETED \<Longrightarrow> c' = c \<or> activated db a (grant_id c) (control_binding (bound c))"
    for a c c'
    using advanced_ok [OF ok that] advanced_grow [OF that(1)] by simp
  show ?thesis
  proof (cases call)
    case (Claim b g capability insert_us now_us)
    with app claim_ok [OF ok] show ?thesis by simp
  next
    case (Begin a g control capability spec now_us)
    with app have "begin_dispatch sha user a g control capability spec now_us db = Inr (db', r)" by simp
    from begin_effect [OF this] show ?thesis
      by (elim exE conjE) (erule move, auto split: if_split_asm)
  next
    case (Redeem a g control capability completion spec now_us)
    with app have "redeem_dispatch sha user a g control capability completion spec now_us db = Inr (db', r)" by simp
    from redeem_effect [OF this] show ?thesis
      by (elim exE conjE) (erule move, auto split: if_split_asm)
  next
    case (Activate a g control request now_us)
    with app activate_ok [OF ok] show ?thesis by simp
  next
    case (Complete a g control capability mcp close now_us)
    with app have "complete_dispatch sha user a g control capability mcp close now_us db = Inr (db', r)" by simp
    from complete_effect [OF this] show ?thesis
      by (elim exE conjE) (erule move, auto split: if_split_asm)
  next
    case (Mark_unknown a g control capability now_us)
    with app have "mark_unknown_dispatch sha user a g control capability now_us db = Inr (db', r)" by simp
    from mark_unknown_effect [OF this] show ?thesis
      by (elim exE conjE) (erule move, auto)
  next
    case (Terminalize a g control spec now_us)
    with app have "terminalize_dispatch user a g control spec now_us db = Inr (db', r)" by simp
    from terminalize_effect [OF this] show ?thesis
      by (elim exE conjE) (erule move, auto split: if_split_asm)
  next
    case (Resolve a control now_us)
    with app ok show ?thesis by (auto simp: map_sum_eq_Inr)
  qed
qed

section \<open>The state machine\<close>

inductive dispatch_step ::
    "(string \<Rightarrow> string) \<Rightarrow> dispatch_db \<Rightarrow> dispatch_call \<times> (sql_error + dispatch_result) \<Rightarrow> dispatch_db \<Rightarrow> bool" for sha where
  call_returns: "dispatch_apply sha user call db = Inr (db', r) \<Longrightarrow> dispatch_step sha db (call, Inr r) db'"
| call_raises: "dispatch_apply sha user call db = Inl e \<Longrightarrow> dispatch_step sha db (call, Inl e) db"

inductive_cases dispatch_returnsE: "dispatch_step sha db (call, Inr r) db'"
inductive_cases dispatch_stepE: "dispatch_step sha db l db'"

lemma dispatch_step_ok: "db_ok db \<Longrightarrow> dispatch_step sha db l db' \<Longrightarrow> db_ok db'"
  by (auto elim!: dispatch_stepE dest: apply_ok)

lemma dispatch_step_grow: "db_ok db \<Longrightarrow> dispatch_step sha db l db' \<Longrightarrow> rows_grow db db'"
  by (auto elim!: dispatch_stepE dest: apply_ok)

interpretation dispatch_machine: invariant_machine "dispatch_step sha" db_ok
  by unfold_locales (rule dispatch_step_ok)

text \<open>What a returned outcome says of the rows before and after.\<close>

definition row_in :: "dispatch_db \<Rightarrow> string \<Rightarrow> dispatch_state set \<Rightarrow> bool" where
  "row_in db a states \<longleftrightarrow> (\<exists>c \<in> set (controls db). c_auth c = a \<and> dstate c \<in> states)"

lemma row_in_unique:
  "db_ok db \<Longrightarrow> c \<in> set (controls db) \<Longrightarrow> row_in db (c_auth c) states \<longleftrightarrow> dstate c \<in> states"
  by (auto simp: row_in_def db_ok_def keys_ok_def distinct_map dest: inj_onD)

lemma advanced_row_in:
  assumes "db_ok db" and "advanced db a c c' db'"
  shows "row_in db a states \<longleftrightarrow> dstate c \<in> states" and "row_in db' a states \<longleftrightarrow> dstate c' \<in> states"
proof -
  note rows = advanced_rows [OF assms(2)]
  from row_in_unique [OF assms(1) rows(4)] rows(5) show "row_in db a states \<longleftrightarrow> dstate c \<in> states" by simp
  show "row_in db' a states \<longleftrightarrow> dstate c' \<in> states" using rows(3,6) by (auto simp: row_in_def)
qed

lemma started_rows:
  assumes ok: "db_ok db" and app: "dispatch_apply sha user call db = Inr (db', r)"
  shows "rw_outcome r = EXECUTION_STARTED \<Longrightarrow>
      row_in db (rw_authorization r) {GRANTED} \<and> row_in db' (rw_authorization r) {EXECUTING}"
    and "rw_outcome r = REDEEMED \<Longrightarrow>
      row_in db (rw_authorization r) {EXECUTING} \<and> row_in db' (rw_authorization r) {CREDENTIAL_REDEEMED}"
proof -
  have out: "rw_outcome r \<noteq> EXECUTION_STARTED \<and> rw_outcome r \<noteq> REDEEMED \<or>
      (\<exists>a c c'. advanced db a c c' db' \<and> rw_authorization r = c_auth c' \<and>
        (rw_outcome r = EXECUTION_STARTED \<longrightarrow> dstate c = GRANTED \<and> dstate c' = EXECUTING) \<and>
        (rw_outcome r = REDEEMED \<longrightarrow> dstate c = EXECUTING \<and> dstate c' = CREDENTIAL_REDEEMED))"
  proof (cases call)
    case (Claim b g capability insert_us now_us)
    with app have "claim_dispatch user b g capability insert_us now_us db = Inr (db', r)" by simp
    from claim_effect [OF this] show ?thesis by (elim exE conjE) (simp add: result_of_def claim_outcome_def)
  next
    case (Begin a g control capability spec now_us)
    with app have "begin_dispatch sha user a g control capability spec now_us db = Inr (db', r)" by simp
    from begin_effect [OF this] obtain c c' where adv: "advanced db a c c' db'" and r: "r = result_of c' (rw_outcome r) now_us"
      and st: "rw_outcome r = EXECUTION_STARTED \<longrightarrow> dstate c = GRANTED \<and> dstate c' = EXECUTING" "rw_outcome r \<noteq> REDEEMED"
      by (elim exE conjE) (auto split: if_split_asm)
    have "rw_authorization r = c_auth c'" by (subst r) (simp add: result_of_def)
    with adv st show ?thesis by blast
  next
    case (Redeem a g control capability completion spec now_us)
    with app have "redeem_dispatch sha user a g control capability completion spec now_us db = Inr (db', r)" by simp
    from redeem_effect [OF this] obtain c c' where adv: "advanced db a c c' db'" and r: "r = result_of c' (rw_outcome r) now_us"
      and st: "rw_outcome r = REDEEMED \<longrightarrow> dstate c = EXECUTING \<and> dstate c' = CREDENTIAL_REDEEMED" "rw_outcome r \<noteq> EXECUTION_STARTED"
      by (elim exE conjE) (auto split: if_split_asm)
    have "rw_authorization r = c_auth c'" by (subst r) (simp add: result_of_def)
    with adv st show ?thesis by blast
  next
    case (Activate a g control request now_us)
    with app have "activate_dispatch user a g control request now_us db = Inr (db', r)" by simp
    from activate_effect [OF this] show ?thesis by (elim exE conjE) (auto split: if_split_asm)
  next
    case (Complete a g control capability mcp close now_us)
    with app have "complete_dispatch sha user a g control capability mcp close now_us db = Inr (db', r)" by simp
    from complete_effect [OF this] show ?thesis by (elim exE conjE) (simp add: result_of_def)
  next
    case (Mark_unknown a g control capability now_us)
    with app have "mark_unknown_dispatch sha user a g control capability now_us db = Inr (db', r)" by simp
    from mark_unknown_effect [OF this] show ?thesis by (elim exE conjE) (simp add: result_of_def)
  next
    case (Terminalize a g control spec now_us)
    with app have "terminalize_dispatch user a g control spec now_us db = Inr (db', r)" by simp
    from terminalize_effect [OF this] show ?thesis by (elim exE conjE) (auto split: if_split_asm)
  next
    case (Resolve a control now_us)
    with app show ?thesis
      by (auto simp: map_sum_eq_Inr resolve_dispatch_def result_of_def split: if_split_asm list.split_asm)
  qed
  have moved: "row_in db (rw_authorization r) states \<longleftrightarrow> dstate c \<in> states"
      "row_in db' (rw_authorization r) states \<longleftrightarrow> dstate c' \<in> states"
    if "advanced db a c c' db'" "rw_authorization r = c_auth c'" for a c c' states
    using advanced_row_in [OF ok that(1)] advanced_rows(6) [OF that(1)] that(2) by simp_all
  show "row_in db (rw_authorization r) {GRANTED} \<and> row_in db' (rw_authorization r) {EXECUTING}"
    if "rw_outcome r = EXECUTION_STARTED"
  proof -
    from out that obtain a c c' where "advanced db a c c' db'" "rw_authorization r = c_auth c'"
        "dstate c = GRANTED" "dstate c' = EXECUTING" by blast
    with moved show ?thesis by simp
  qed
  show "row_in db (rw_authorization r) {EXECUTING} \<and> row_in db' (rw_authorization r) {CREDENTIAL_REDEEMED}"
    if "rw_outcome r = REDEEMED"
  proof -
    from out that obtain a c c' where "advanced db a c c' db'" "rw_authorization r = c_auth c'"
        "dstate c = EXECUTING" "dstate c' = CREDENTIAL_REDEEMED" by blast
    with moved show ?thesis by simp
  qed
qed

lemma row_in_stays:
  assumes grow: "rows_grow db db'" and row: "row_in db a states"
    and closed: "\<And>s t. s \<in> states \<Longrightarrow> dispatch_edge s t \<Longrightarrow> t \<in> states"
  shows "row_in db' a states"
proof -
  from row obtain c where c: "c \<in> set (controls db)" "c_auth c = a" "dstate c \<in> states" by (auto simp: row_in_def)
  from grow c(1) obtain c' where c': "c' \<in> set (controls db')" "same_identity c c'"
      "c' = c \<or> dispatch_edge (dstate c) (dstate c')"
    unfolding rows_grow_def by blast
  have "dstate c' \<in> states" using c'(3) c(3) closed by blast
  with c(2) c'(1,2) show ?thesis
    unfolding row_in_def same_identity_def by (intro bexI [of _ c']) simp_all
qed

end
