(* ===== verification/Dispatch_Props.thy ===== *)
theory Dispatch_Props
  imports Dispatch_Inv
begin

text \<open>
  What the stored functions of provider dispatch promise over every sequence of calls,
  by any caller and at any reading of the clock.
\<close>

section \<open>A sample dispatch\<close>

definition hx :: string where
  "hx = replicate 64 (CHR ''a'')"

definition sample_binding :: dispatch_binding where
  "sample_binding = \<lparr>authorization_id = ''auth'', tenant_id = ''tenant'', run_id = ''run'', interaction_id = ''turn'',
     control_binding = hx, logical_request = hx, effect_key = hx, dispatch_authorization = hx,
     source_commit = replicate 40 (CHR ''b''), tree_digest = replicate 40 (CHR ''c''), build_identity = hx,
     issued_at = 0, lapses_at = 100, worker_spec = hx\<rparr>"

definition empty_db :: dispatch_db where
  "empty_db = \<lparr>occupancy = [], activations = [], controls = []\<rparr>"

definition granted_row :: control_row where
  "granted_row = \<lparr>bound = sample_binding, grant_id = ''grant'', execution_capability = hx, completion_capability = None,
     dstate = GRANTED, granted_at = Some 1, executing_at = None, redeemed_at = None, terminal_at = None,
     mcp_result = None, session_close = None\<rparr>"

definition executing_row :: control_row where
  "executing_row = granted_row\<lparr>dstate := EXECUTING, executing_at := Some 3\<rparr>"

definition redeemed_row :: control_row where
  "redeemed_row = executing_row\<lparr>dstate := CREDENTIAL_REDEEMED, redeemed_at := Some 4, completion_capability := Some hx\<rparr>"

definition completed_row :: control_row where
  "completed_row = redeemed_row\<lparr>dstate := COMPLETED, terminal_at := Some 6, mcp_result := Some hx, session_close := Some hx\<rparr>"

definition sample_db :: "control_row \<Rightarrow> activation_row list \<Rightarrow> dispatch_db" where
  "sample_db c acts = \<lparr>occupancy = [\<lparr>oc_effect_key = hx, oc_ledger = CURRENT_V2, oc_authorization = ''auth'', oc_binding = hx\<rparr>],
     activations = acts, controls = [c]\<rparr>"

definition sample_activation :: activation_row where
  "sample_activation = \<lparr>ac_authorization = ''auth'', ac_grant = ''grant'', ac_binding = hx, ac_request = hx, ac_activated_at = 5\<rparr>"

lemma len_hx [simp]: "length hx = 64"
  by (simp add: hx_def)

lemmas dispatch_eval =
  sample_binding_def empty_db_def sample_db_def granted_row_def executing_row_def redeemed_row_def completed_row_def
  sample_activation_def
  claim_dispatch_def claim_input_ok_def insert_occupancy_def check_occupancy_def claim_matches_def new_control_def
  insert_control_def claim_outcome_def select_control_def controls_of_def finish_def update_control_def current_def
  begin_dispatch_def redeem_dispatch_def activate_dispatch_def insert_activation_def complete_dispatch_def
  control_check_def binding_check_def state_check_def len64_def activation_check_def known_differs_def activated_def

lemma sample_claim:
  "\<exists>r. dispatch_apply (\<lambda>s. s) ''tp_provider_claim_user'' (Claim sample_binding ''grant'' hx 1 2) empty_db
     = Inr (sample_db granted_row [], r) \<and> rw_outcome r = DISPATCH_GRANTED \<and> rw_authorization r = ''auth''"
  by (simp add: dispatch_eval result_of_def)

lemma sample_begin:
  "\<exists>r. dispatch_apply (\<lambda>s. s) ''tp_provider_begin_user'' (Begin ''auth'' ''grant'' hx hx hx 3) (sample_db granted_row [])
     = Inr (sample_db executing_row [], r) \<and> rw_outcome r = EXECUTION_STARTED \<and> rw_authorization r = ''auth''"
  by (simp add: dispatch_eval result_of_def)

lemma sample_redeem:
  "\<exists>r. dispatch_apply (\<lambda>s. s) ''tp_provider_redeem_user'' (Redeem ''auth'' ''grant'' hx hx hx hx 4) (sample_db executing_row [])
     = Inr (sample_db redeemed_row [], r) \<and> rw_outcome r = REDEEMED \<and> rw_authorization r = ''auth''"
  by (simp add: dispatch_eval result_of_def)

lemma sample_activate:
  "\<exists>r. dispatch_apply (\<lambda>s. s) ''tp_provider_activate_user'' (Activate ''auth'' ''grant'' hx hx 5) (sample_db redeemed_row [])
     = Inr (sample_db redeemed_row [sample_activation], r) \<and> rw_outcome r = ACTIVATION_GRANTED \<and> rw_authorization r = ''auth''"
  by (simp add: dispatch_eval result_of_def)

lemma sample_complete:
  "\<exists>r. dispatch_apply (\<lambda>s. s) ''tp_provider_finalize_user'' (Complete ''auth'' ''grant'' hx hx hx hx 6)
     (sample_db redeemed_row [sample_activation])
     = Inr (sample_db completed_row [sample_activation], r) \<and> rw_outcome r = DISPATCH_COMPLETED \<and> rw_authorization r = ''auth''"
  by (simp add: dispatch_eval result_of_def)

lemma empty_db_ok: "db_ok empty_db"
  by (simp add: db_ok_def keys_ok_def checks_ok_def refs_ok_def empty_db_def)

lemma sample_dispatch_run:
  "\<exists>r1 r2 r3 r4 r5. run (dispatch_step (\<lambda>s. s)) empty_db
     [(Claim sample_binding ''grant'' hx 1 2, Inr r1), (Begin ''auth'' ''grant'' hx hx hx 3, Inr r2),
      (Redeem ''auth'' ''grant'' hx hx hx hx 4, Inr r3), (Activate ''auth'' ''grant'' hx hx 5, Inr r4),
      (Complete ''auth'' ''grant'' hx hx hx hx 6, Inr r5)] (sample_db completed_row [sample_activation]) \<and>
     rw_outcome r2 = EXECUTION_STARTED \<and> rw_authorization r2 = ''auth'' \<and> rw_outcome r5 = DISPATCH_COMPLETED"
proof -
  from sample_claim sample_begin sample_redeem sample_activate sample_complete
  obtain r1 r2 r3 r4 r5 where
    "dispatch_apply (\<lambda>s. s) ''tp_provider_claim_user'' (Claim sample_binding ''grant'' hx 1 2) empty_db
      = Inr (sample_db granted_row [], r1)"
    "dispatch_apply (\<lambda>s. s) ''tp_provider_begin_user'' (Begin ''auth'' ''grant'' hx hx hx 3) (sample_db granted_row [])
      = Inr (sample_db executing_row [], r2)" "rw_outcome r2 = EXECUTION_STARTED" "rw_authorization r2 = ''auth''"
    "dispatch_apply (\<lambda>s. s) ''tp_provider_redeem_user'' (Redeem ''auth'' ''grant'' hx hx hx hx 4) (sample_db executing_row [])
      = Inr (sample_db redeemed_row [], r3)"
    "dispatch_apply (\<lambda>s. s) ''tp_provider_activate_user'' (Activate ''auth'' ''grant'' hx hx 5) (sample_db redeemed_row [])
      = Inr (sample_db redeemed_row [sample_activation], r4)"
    "dispatch_apply (\<lambda>s. s) ''tp_provider_finalize_user'' (Complete ''auth'' ''grant'' hx hx hx hx 6)
      (sample_db redeemed_row [sample_activation]) = Inr (sample_db completed_row [sample_activation], r5)" "rw_outcome r5 = DISPATCH_COMPLETED"
    by blast
  then show ?thesis by (intro exI conjI) (assumption | rule run_cons run_nil call_returns)+
qed

section \<open>One shot\<close>

definition returned :: "transition_outcome \<Rightarrow> string \<Rightarrow> dispatch_call \<times> (sql_error + dispatch_result) \<Rightarrow> bool" where
  "returned out a l \<longleftrightarrow> (case snd l of Inl _ \<Rightarrow> False | Inr r \<Rightarrow> rw_outcome r = out \<and> rw_authorization r = a)"

lemma returned_step:
  assumes "dispatch_step sha db l db'" and "returned out a l"
  obtains user call r where "l = (call, Inr r)" "dispatch_apply sha user call db = Inr (db', r)"
    "rw_outcome r = out" "rw_authorization r = a"
  using assms by (auto simp: returned_def elim!: dispatch_stepE)

lemma row_in_disjoint: "db_ok db \<Longrightarrow> row_in db a S \<Longrightarrow> row_in db a T \<Longrightarrow> S \<inter> T \<noteq> {}"
proof -
  assume ok: "db_ok db" and S: "row_in db a S" and T: "row_in db a T"
  from S obtain c where "c \<in> set (controls db)" "c_auth c = a" "dstate c \<in> S" by (auto simp: row_in_def)
  with row_in_unique [OF ok, of c T] T show ?thesis by auto
qed

lemma activation_granted_rows:
  assumes "dispatch_apply sha user call db = Inr (db', r)" and "rw_outcome r = ACTIVATION_GRANTED"
  shows "\<not> (\<exists>x \<in> set (activations db). ac_authorization x = rw_authorization r) \<and>
    (\<exists>x \<in> set (activations db'). ac_authorization x = rw_authorization r)"
proof (cases call)
  case (Activate a g control request now_us)
  with assms have "activate_dispatch user a g control request now_us db = Inr (db', r)" by simp
  from activate_effect [OF this] obtain x where "rw_authorization r = a" "activations db' = activations db @ [x]"
      "ac_authorization x = a" "\<not> list_ex (\<lambda>x. ac_authorization x = a) (activations db)"
    using assms(2) by (auto split: if_split_asm)
  then show ?thesis by (auto simp: list_ex_iff)
next
  case (Claim b g capability insert_us now_us)
  with assms(1) have "claim_dispatch user b g capability insert_us now_us db = Inr (db', r)" by simp
  from claim_effect [OF this] obtain c' where "r = result_of c' (claim_outcome c' g capability) now_us" by blast
  with assms(2) show ?thesis by (simp add: result_of_def claim_outcome_def split: if_split_asm)
next
  case (Begin a g control capability spec now_us)
  with assms(1) have "begin_dispatch sha user a g control capability spec now_us db = Inr (db', r)" by simp
  from begin_effect [OF this] assms(2) show ?thesis by (elim exE conjE) (simp split: if_split_asm)
next
  case (Redeem a g control capability completion spec now_us)
  with assms(1) have "redeem_dispatch sha user a g control capability completion spec now_us db = Inr (db', r)" by simp
  from redeem_effect [OF this] assms(2) show ?thesis by (elim exE conjE) (simp split: if_split_asm)
next
  case (Complete a g control capability mcp close now_us)
  with assms(1) have "complete_dispatch sha user a g control capability mcp close now_us db = Inr (db', r)" by simp
  from complete_effect [OF this] assms(2) show ?thesis by (elim exE conjE) (simp add: result_of_def)
next
  case (Mark_unknown a g control capability now_us)
  with assms(1) have "mark_unknown_dispatch sha user a g control capability now_us db = Inr (db', r)" by simp
  from mark_unknown_effect [OF this] assms(2) show ?thesis by (elim exE conjE) (simp add: result_of_def)
next
  case (Terminalize a g control spec now_us)
  with assms(1) have "terminalize_dispatch user a g control spec now_us db = Inr (db', r)" by simp
  from terminalize_effect [OF this] assms(2) show ?thesis by (elim exE conjE) (simp split: if_split_asm)
next
  case (Resolve a control now_us)
  with assms show ?thesis
    by (auto simp: map_sum_eq_Inr resolve_dispatch_def result_of_def split: if_split_asm list.split_asm)
qed

lemma start_rows:
  assumes "db_ok db" and "dispatch_step sha db l db'" and "returned EXECUTION_STARTED a l"
  shows "row_in db a {GRANTED} \<and> row_in db' a {EXECUTING}"
  using assms(2,3) by (rule returned_step) (use started_rows(1) [OF assms(1)] in auto)

lemma redeem_rows:
  assumes "db_ok db" and "dispatch_step sha db l db'" and "returned REDEEMED a l"
  shows "row_in db a {EXECUTING} \<and> row_in db' a {CREDENTIAL_REDEEMED}"
  using assms(2,3) by (rule returned_step) (use started_rows(2) [OF assms(1)] in auto)

lemma activate_rows:
  assumes "dispatch_step sha db l db'" and "returned ACTIVATION_GRANTED a l"
  shows "\<not> (\<exists>x \<in> set (activations db). ac_authorization x = a) \<and> (\<exists>x \<in> set (activations db'). ac_authorization x = a)"
  using assms by (rule returned_step) (use activation_granted_rows in auto)

lemma row_in_mono: "row_in db a S \<Longrightarrow> S \<subseteq> T \<Longrightarrow> row_in db a T"
  by (auto simp: row_in_def)

interpretation start_once: one_shot_machine "dispatch_step sha" db_ok "returned EXECUTION_STARTED a" "\<lambda>db. row_in db a (- {GRANTED})"
  for sha a
proof
  fix db l db'
  assume ok: "db_ok db" and step: "dispatch_step sha db l db'"
  show "returned EXECUTION_STARTED a l \<Longrightarrow> \<not> row_in db a (- {GRANTED})"
    using start_rows [OF ok step] row_in_disjoint [OF ok, of a "{GRANTED}" "- {GRANTED}"] by auto
  show "returned EXECUTION_STARTED a l \<Longrightarrow> row_in db' a (- {GRANTED})"
    using start_rows [OF ok step, of a] row_in_mono [of db' a "{EXECUTING}" "- {GRANTED}"] by auto
  show "row_in db a (- {GRANTED}) \<Longrightarrow> row_in db' a (- {GRANTED})"
    by (erule row_in_stays [OF dispatch_step_grow [OF ok step]]) auto
qed

interpretation redeem_once: one_shot_machine "dispatch_step sha" db_ok "returned REDEEMED a"
    "\<lambda>db. row_in db a (- {GRANTED, EXECUTING})" for sha a
proof
  fix db l db'
  assume ok: "db_ok db" and step: "dispatch_step sha db l db'"
  show "returned REDEEMED a l \<Longrightarrow> \<not> row_in db a (- {GRANTED, EXECUTING})"
    using redeem_rows [OF ok step] row_in_disjoint [OF ok, of a "{EXECUTING}" "- {GRANTED, EXECUTING}"] by auto
  show "returned REDEEMED a l \<Longrightarrow> row_in db' a (- {GRANTED, EXECUTING})"
    using redeem_rows [OF ok step, of a] row_in_mono [of db' a "{CREDENTIAL_REDEEMED}" "- {GRANTED, EXECUTING}"] by auto
  show "row_in db a (- {GRANTED, EXECUTING}) \<Longrightarrow> row_in db' a (- {GRANTED, EXECUTING})"
    by (erule row_in_stays [OF dispatch_step_grow [OF ok step]]) auto
qed

interpretation activate_once: one_shot_machine "dispatch_step sha" db_ok "returned ACTIVATION_GRANTED a"
    "\<lambda>db. \<exists>x \<in> set (activations db). ac_authorization x = a" for sha a
proof
  fix db l db'
  assume ok: "db_ok db" and step: "dispatch_step sha db l db'"
  show "returned ACTIVATION_GRANTED a l \<Longrightarrow> \<not> (\<exists>x \<in> set (activations db). ac_authorization x = a)"
    using activate_rows [OF step] by blast
  show "returned ACTIVATION_GRANTED a l \<Longrightarrow> \<exists>x \<in> set (activations db'). ac_authorization x = a"
    using activate_rows [OF step] by blast
  show "\<exists>x \<in> set (activations db). ac_authorization x = a \<Longrightarrow> \<exists>x \<in> set (activations db'). ac_authorization x = a"
    using dispatch_step_grow [OF ok step] by (auto simp: rows_grow_def)
qed

section \<open>Properties of runs\<close>

text \<open>C29. Every sequence of calls keeps the tables' keys and row constraints, the occupancy
  behind every control, the control behind every activation, and the activation behind
  every completed control.\<close>

theorem dispatch_runs_keep_db_ok:
  assumes "db_ok db" and "run (dispatch_step sha) db ls db'"
  shows "db_ok db'"
  using dispatch_machine.run_inv [OF assms(2,1)] .

theorem dispatch_runs_keep_db_ok_witness:
  "db_ok (sample_db completed_row [sample_activation])"
  using sample_dispatch_run dispatch_runs_keep_db_ok [OF empty_db_ok] by blast

text \<open>C11. A provider effect is executed at most once: in any sequence of calls, at most one
  \<open>begin\<close> returns \<open>EXECUTION_STARTED\<close> among all authorizations whose control holds the
  effect key.\<close>

theorem effect_starts_at_most_once:
  assumes "db_ok db" and "run (dispatch_step sha) db ls db'"
  shows "length (filter (\<lambda>l. \<exists>c. c \<in> set (controls db') \<and> c_effect c = key \<and> returned EXECUTION_STARTED (c_auth c) l) ls) \<le> 1"
proof (cases "\<exists>c. c \<in> set (controls db') \<and> c_effect c = key")
  case True
  then obtain c where c: "c \<in> set (controls db')" "c_effect c = key" by blast
  have "db_ok db'" using dispatch_machine.run_inv [OF assms(2,1)] .
  then have inj: "inj_on c_effect (set (controls db'))" by (simp add: db_ok_def keys_ok_def distinct_map)
  have "c' = c" if "c' \<in> set (controls db')" "c_effect c' = key" for c'
    using inj_onD [OF inj _ that(1) c(1)] that(2) c(2) by simp
  then have "(\<lambda>l. \<exists>c. c \<in> set (controls db') \<and> c_effect c = key \<and> returned EXECUTION_STARTED (c_auth c) l)
      = returned EXECUTION_STARTED (c_auth c)"
    using c by (intro ext) blast
  then show ?thesis using start_once.fires_at_most_once [OF assms(2,1)] by simp
next
  case False
  then have "filter (\<lambda>l. \<exists>c. c \<in> set (controls db') \<and> c_effect c = key \<and> returned EXECUTION_STARTED (c_auth c) l) ls = []"
    by (auto simp: filter_empty_conv)
  then show ?thesis by simp
qed

theorem effect_starts_at_most_once_witness:
  "\<exists>ls. run (dispatch_step (\<lambda>s. s)) empty_db ls (sample_db completed_row [sample_activation]) \<and> length ls = 5 \<and>
    length (filter (\<lambda>l. \<exists>c. c \<in> set (controls (sample_db completed_row [sample_activation])) \<and> c_effect c = hx \<and>
      returned EXECUTION_STARTED (c_auth c) l) ls) \<le> 1"
proof -
  from sample_dispatch_run obtain ls where ls: "run (dispatch_step (\<lambda>s. s)) empty_db ls (sample_db completed_row [sample_activation])"
      "length ls = 5" by force
  from effect_starts_at_most_once [OF empty_db_ok ls(1)] ls show ?thesis by blast
qed

text \<open>C19. One authorization delivers its credential at most once and is granted activation
  at most once, in any sequence of calls.\<close>

theorem credential_and_activation_at_most_once:
  assumes "db_ok db" and "run (dispatch_step sha) db ls db'"
  shows "length (filter (returned REDEEMED a) ls) \<le> 1 \<and> length (filter (returned ACTIVATION_GRANTED a) ls) \<le> 1"
  using redeem_once.fires_at_most_once [OF assms(2,1)] activate_once.fires_at_most_once [OF assms(2,1)] ..

theorem credential_and_activation_at_most_once_witness:
  "\<exists>ls. length ls = 5 \<and> length (filter (returned REDEEMED ''auth'') ls) \<le> 1 \<and>
     length (filter (returned ACTIVATION_GRANTED ''auth'') ls) \<le> 1"
proof -
  from sample_dispatch_run obtain ls where ls: "run (dispatch_step (\<lambda>s. s)) empty_db ls (sample_db completed_row [sample_activation])"
      "length ls = 5" by force
  from credential_and_activation_at_most_once [OF empty_db_ok ls(1)] ls show ?thesis by blast
qed

lemma run_rows_follow:
  "run (dispatch_step sha) db ls db' \<Longrightarrow> db_ok db \<Longrightarrow> c \<in> set (controls db) \<Longrightarrow>
   \<exists>c' \<in> set (controls db'). same_identity c c' \<and> dispatch_edge\<^sup>*\<^sup>* (dstate c) (dstate c') \<and>
     (terminal (dstate c) \<longrightarrow> c' = c)"
proof (induction arbitrary: c rule: run.induct)
  case (run_nil db)
  then show ?case by (intro bexI [of _ c]) simp_all
next
  case (run_cons db l db1 ls db2)
  from dispatch_step_grow [OF run_cons.prems(1) run_cons.hyps(1)] run_cons.prems(2)
  obtain c1 where c1: "c1 \<in> set (controls db1)" "same_identity c c1" "c1 = c \<or> dispatch_edge (dstate c) (dstate c1)"
    unfolding rows_grow_def by blast
  from run_cons.IH [OF dispatch_step_ok [OF run_cons.prems(1) run_cons.hyps(1)] c1(1)]
  obtain c2 where c2: "c2 \<in> set (controls db2)" "same_identity c1 c2" "dispatch_edge\<^sup>*\<^sup>* (dstate c1) (dstate c2)"
      "terminal (dstate c1) \<longrightarrow> c2 = c1" by blast
  have "dispatch_edge\<^sup>*\<^sup>* (dstate c) (dstate c2)" using c1(3) c2(3) by (auto intro: converse_rtranclp_into_rtranclp)
  moreover have "terminal (dstate c) \<longrightarrow> c2 = c" using c1(3) c2(4) terminal_no_edge by blast
  ultimately show ?case using c1(2) c2(1,2) by (intro bexI [of _ c2]) (auto simp: same_identity_def)
qed

text \<open>C20. Refinement: over any sequence of calls each control keeps its identity (bindings,
  grant and execution capability) and its state follows the edges of the life cycle;
  a terminal control is never changed again.\<close>

theorem dispatch_refines_life_cycle:
  assumes "db_ok db" and "run (dispatch_step sha) db ls db'" and "c \<in> set (controls db)"
  shows "\<exists>c' \<in> set (controls db'). same_identity c c' \<and> dispatch_edge\<^sup>*\<^sup>* (dstate c) (dstate c') \<and>
     (terminal (dstate c) \<longrightarrow> c' = c)"
  using run_rows_follow [OF assms(2,1,3)] .

theorem dispatch_refines_life_cycle_witness:
  "\<exists>c' \<in> set (controls (sample_db executing_row [])). same_identity granted_row c' \<and>
     dispatch_edge\<^sup>*\<^sup>* (dstate granted_row) (dstate c') \<and> (terminal (dstate granted_row) \<longrightarrow> c' = granted_row)"
proof -
  from sample_claim obtain r where "dispatch_step (\<lambda>s. s) empty_db (Claim sample_binding ''grant'' hx 1 2, Inr r) (sample_db granted_row [])"
    using call_returns by blast
  from dispatch_step_ok [OF empty_db_ok this] have ok: "db_ok (sample_db granted_row [])" .
  from sample_begin obtain r2 where "dispatch_step (\<lambda>s. s) (sample_db granted_row [])
      (Begin ''auth'' ''grant'' hx hx hx 3, Inr r2) (sample_db executing_row [])"
    using call_returns by blast
  then have "run (dispatch_step (\<lambda>s. s)) (sample_db granted_row []) [(Begin ''auth'' ''grant'' hx hx hx 3, Inr r2)]
      (sample_db executing_row [])" by (simp add: run_cons_iff)
  from dispatch_refines_life_cycle [OF ok this] show ?thesis by (simp add: sample_db_def)
qed

section \<open>Properties of single calls\<close>

lemma state_check_redeemed:
  "control_check c \<Longrightarrow> dstate c \<in> {CREDENTIAL_REDEEMED, COMPLETED, UNKNOWN_DO_NOT_ACT} \<Longrightarrow> completion_capability c \<noteq> None"
  by (auto simp: control_check_def state_check_def len64_def split: option.splits)

lemma known_differs_Some: "\<not> known_differs v s \<Longrightarrow> v \<noteq> None \<Longrightarrow> v = Some s"
  by (auto simp: known_differs_def)


lemma sample_activated_ok: "db_ok (sample_db redeemed_row [sample_activation])"
proof -
  from sample_claim sample_begin sample_redeem sample_activate obtain r1 r2 r3 r4 where
    "dispatch_step (\<lambda>s. s) empty_db (Claim sample_binding ''grant'' hx 1 2, Inr r1) (sample_db granted_row [])"
    "dispatch_step (\<lambda>s. s) (sample_db granted_row []) (Begin ''auth'' ''grant'' hx hx hx 3, Inr r2) (sample_db executing_row [])"
    "dispatch_step (\<lambda>s. s) (sample_db executing_row []) (Redeem ''auth'' ''grant'' hx hx hx hx 4, Inr r3) (sample_db redeemed_row [])"
    "dispatch_step (\<lambda>s. s) (sample_db redeemed_row []) (Activate ''auth'' ''grant'' hx hx 5, Inr r4)
      (sample_db redeemed_row [sample_activation])"
    using call_returns by meson
  then show ?thesis using empty_db_ok dispatch_step_ok by blast
qed


text \<open>C17. Authority is exercised only inside its window: a grant, a start, a delivery of the
  credential or an activation is returned only at a database time at or after the issue
  and before the expiry of the control.\<close>

theorem authority_only_in_window:
  assumes app: "dispatch_apply sha user call db = Inr (db', r)"
    and out: "rw_outcome r \<in> {DISPATCH_GRANTED, EXECUTION_STARTED, REDEEMED, ACTIVATION_GRANTED}"
  shows "\<exists>c \<in> set (controls db'). c_auth c = rw_authorization r \<and> issued_at (bound c) \<le> rw_now r \<and> rw_now r < lapses_at (bound c)"
proof -
  have row: "\<exists>c \<in> set (controls db'). c_auth c = rw_authorization r \<and> issued_at (bound c) \<le> rw_now r \<and> rw_now r < lapses_at (bound c)"
    if "advanced d a c c' db'" "current (bound c) now_us" "r = result_of c' out' now_us" for d a c c' out' now_us
  proof -
    have "c' \<in> set (controls db')" using advanced_rows(3) [OF that(1), of c'] by simp
    moreover have "bound c' = bound c" using that(1) by (simp add: advanced_def same_identity_def)
    ultimately show ?thesis
      using that(2,3) by (auto simp: current_def result_of_def intro!: bexI [of _ c'])
  qed
  show ?thesis
  proof (cases call)
    case (Claim b g capability insert_us now_us)
    with app have "claim_dispatch user b g capability insert_us now_us db = Inr (db', r)" by simp
    from claim_effect [OF this] obtain d c c' where *: "bound c = b" "advanced d (authorization_id b) c c' db'"
        "if dstate c = GRANTED \<and> \<not> current b now_us then dstate c' = EXPIRED else c' = c"
        "r = result_of c' (claim_outcome c' g capability) now_us" by blast
    have "dstate c' = GRANTED" using out *(4) by (auto simp: result_of_def claim_outcome_def split: if_split_asm)
    with *(1,3) have "current (bound c) now_us" by (auto split: if_split_asm)
    then show ?thesis using row [OF *(2) _ *(4)] by simp
  next
    case (Begin a g control capability spec now_us)
    with app have "begin_dispatch sha user a g control capability spec now_us db = Inr (db', r)" by simp
    from begin_effect [OF this] out obtain c c' where "advanced db a c c' db'" "r = result_of c' (rw_outcome r) now_us"
        "current (bound c) now_us" by (elim exE conjE) (auto split: if_split_asm)
    then show ?thesis using row by blast
  next
    case (Redeem a g control capability completion spec now_us)
    with app have "redeem_dispatch sha user a g control capability completion spec now_us db = Inr (db', r)" by simp
    from redeem_effect [OF this] out obtain c c' where "advanced db a c c' db'" "r = result_of c' (rw_outcome r) now_us"
        "current (bound c) now_us" by (elim exE conjE) (auto split: if_split_asm)
    then show ?thesis using row by blast
  next
    case (Activate a g control request now_us)
    with app have "activate_dispatch user a g control request now_us db = Inr (db', r)" by simp
    from activate_effect [OF this] out obtain c where "controls_of db a = [c]" "controls db' = controls db"
        "rw_authorization r = a" "rw_now r = now_us" "current (bound c) now_us"
      by (elim exE conjE) (auto split: if_split_asm)
    with controls_of_in [of db a c] show ?thesis by (auto simp: current_def)
  next
    case (Complete a g control capability mcp close now_us)
    with app have "complete_dispatch sha user a g control capability mcp close now_us db = Inr (db', r)" by simp
    from complete_effect [OF this] out show ?thesis by (elim exE conjE) (simp add: result_of_def)
  next
    case (Mark_unknown a g control capability now_us)
    with app have "mark_unknown_dispatch sha user a g control capability now_us db = Inr (db', r)" by simp
    from mark_unknown_effect [OF this] out show ?thesis by (elim exE conjE) (simp add: result_of_def)
  next
    case (Terminalize a g control spec now_us)
    with app have "terminalize_dispatch user a g control spec now_us db = Inr (db', r)" by simp
    from terminalize_effect [OF this] out show ?thesis by (elim exE conjE) (auto split: if_split_asm)
  next
    case (Resolve a control now_us)
    with app out show ?thesis
      by (auto simp: map_sum_eq_Inr resolve_dispatch_def result_of_def split: if_split_asm list.split_asm)
  qed
qed

theorem authority_only_in_window_witness:
  "\<exists>r :: dispatch_result. rw_outcome r = EXECUTION_STARTED \<and> (\<exists>c \<in> set (controls (sample_db executing_row [])). c_auth c = rw_authorization r \<and>
     issued_at (bound c) \<le> rw_now r \<and> rw_now r < lapses_at (bound c))"
proof -
  from sample_begin obtain r where r: "dispatch_apply (\<lambda>s. s) ''tp_provider_begin_user'' (Begin ''auth'' ''grant'' hx hx hx 3)
      (sample_db granted_row []) = Inr (sample_db executing_row [], r)" "rw_outcome r = EXECUTION_STARTED" by blast
  from authority_only_in_window [OF r(1)] r(2) show ?thesis by blast
qed

end
