(* ===== verification/Dispatch_Errors.thy ===== *)
theory Dispatch_Errors
  imports Dispatch_Props
begin

text \<open>
  The errors of the dispatch functions: on tables that satisfy their invariant no call is
  ever stopped by a row constraint, and the retryable error of a claim whose grant
  identifier belongs to another authorization.
\<close>

section \<open>Row constraints never stop a call\<close>

definition by_check :: "sql_error + 'a \<Rightarrow> bool" where
  "by_check r \<longleftrightarrow> (\<exists>message. r = Inl (Sql_error ''23514'' message))"

lemma by_check_Inr [simp]: "\<not> by_check (Inr x)"
  by (simp add: by_check_def)

lemma by_check_raise [simp]: "by_check (sql_raise code message) \<longleftrightarrow> code = ''23514''"
  by (auto simp: by_check_def sql_raise_def)

lemma by_check_if: "by_check (if c then r else s) \<longleftrightarrow> (if c then by_check r else by_check s)"
  by simp

lemma by_check_and_then: "by_check (and_then r f) \<longleftrightarrow> by_check r \<or> (\<exists>x. r = Inr x \<and> by_check (f x))"
  by (cases r) (auto simp: by_check_def)

lemma by_check_select [simp]: "\<not> by_check (select_control db a)"
  by (auto simp: select_control_def split: list.split)

lemma by_check_finish [simp]: "\<not> by_check (finish db a out t)"
  by (auto simp: finish_def by_check_and_then)

lemma update_by_check:
  "db_ok db \<Longrightarrow> by_check (update_control a f db) \<Longrightarrow>
   \<exists>c \<in> set (controls_of db a). control_check c \<and> \<not> control_check (f c)"
  by (auto simp: update_control_def controls_of_def list_all_iff db_ok_def checks_ok_def split: if_split_asm)

lemma check_expire:
  "control_check c \<Longrightarrow> dstate c = GRANTED \<or> dstate c = EXECUTING \<Longrightarrow> control_check (expire_row t c)"
  by (auto simp: control_check_def state_check_def expire_row_def)

lemma check_begin:
  "control_check c \<Longrightarrow> dstate c = GRANTED \<Longrightarrow> control_check (c\<lparr>dstate := EXECUTING, executing_at := Some t\<rparr>)"
  by (auto simp: control_check_def state_check_def)

lemma check_redeem:
  "control_check c \<Longrightarrow> dstate c = EXECUTING \<Longrightarrow> length s = 64 \<Longrightarrow>
   control_check (c\<lparr>dstate := CREDENTIAL_REDEEMED, redeemed_at := Some t, completion_capability := Some s\<rparr>)"
  by (auto simp: control_check_def state_check_def len64_def)

lemma check_complete:
  "control_check c \<Longrightarrow> dstate c = CREDENTIAL_REDEEMED \<Longrightarrow> length s = 64 \<Longrightarrow> length s' = 64 \<Longrightarrow>
   control_check (c\<lparr>dstate := COMPLETED, terminal_at := Some t, mcp_result := Some s, session_close := Some s'\<rparr>)"
  by (auto simp: control_check_def state_check_def len64_def)

lemma check_unknown:
  "control_check c \<Longrightarrow> dstate c = CREDENTIAL_REDEEMED \<Longrightarrow>
   control_check (c\<lparr>dstate := UNKNOWN_DO_NOT_ACT, terminal_at := Some t\<rparr>)"
  by (auto simp: control_check_def state_check_def)

lemma check_new: "claim_input_ok b capability \<Longrightarrow> control_check (new_control b g capability t)"
  by (auto simp: control_check_def state_check_def new_control_def binding_check_def claim_input_ok_def)

lemmas checks = check_expire check_begin check_redeem check_complete check_unknown

lemmas by_check_call = by_check_if by_check_and_then select_control_Inr

lemma begin_by_check:
  assumes ok: "db_ok db"
  shows "\<not> by_check (begin_dispatch sha user a g control capability spec t db)"
  by (auto simp: begin_dispatch_def by_check_call checks dest!: update_by_check [OF ok])

lemma redeem_by_check:
  assumes ok: "db_ok db"
  shows "\<not> by_check (redeem_dispatch sha user a g control capability completion spec t db)"
  by (auto simp: redeem_dispatch_def by_check_call checks dest!: update_by_check [OF ok])

lemma complete_by_check:
  assumes ok: "db_ok db"
  shows "\<not> by_check (complete_dispatch sha user a g control capability mcp close t db)"
  by (auto simp: complete_dispatch_def by_check_call checks dest!: update_by_check [OF ok])

lemma mark_unknown_by_check:
  assumes ok: "db_ok db"
  shows "\<not> by_check (mark_unknown_dispatch sha user a g control capability t db)"
  by (auto simp: mark_unknown_dispatch_def by_check_call checks dest!: update_by_check [OF ok])

lemma terminalize_by_check:
  assumes ok: "db_ok db"
  shows "\<not> by_check (terminalize_dispatch user a g control spec t db)"
  by (auto simp: terminalize_dispatch_def by_check_call checks dest!: update_by_check [OF ok])

lemma activate_by_check: "\<not> by_check (activate_dispatch user a g control request t db)"
  by (auto simp: activate_dispatch_def by_check_call insert_activation_def activation_check_def split: list.split)

lemma resolve_by_check: "\<not> by_check (resolve_dispatch user a control t db)"
  by (auto simp: resolve_dispatch_def by_check_call split: list.split)

lemma claim_by_check:
  assumes ok: "db_ok db"
  shows "\<not> by_check (claim_dispatch user b g capability insert_us now_us db)"
proof
  assume abort: "by_check (claim_dispatch user b g capability insert_us now_us db)"
  have occ: "\<not> by_check (insert_occupancy b db)" "\<And>d. \<not> by_check (check_occupancy b d)"
    by (auto simp: insert_occupancy_def check_occupancy_def by_check_if split: list.split)
  from abort occ obtain db1 where input: "claim_input_ok b capability"
    and one: "insert_occupancy b db = Inr db1" "check_occupancy b db1 = Inr ()"
    and rest: "by_check (and_then (if claim_matches b db1 = [] then insert_control (new_control b g capability insert_us) db1
        else Inr db1) (\<lambda>db2.
     case claim_matches b db2 of
       [c] \<Rightarrow>
         if bound c \<noteq> b
         then sql_raise ''22023'' ''provider dispatch claim binding conflict''
         else
         and_then (if dstate c = GRANTED \<and> \<not> current (bound c) now_us
                   then update_control (authorization_id b) (expire_row now_us) db2 else Inr db2) (\<lambda>db3.
           finish db3 (authorization_id b)
             (claim_outcome (if dstate c = GRANTED \<and> \<not> current (bound c) now_us then expire_row now_us c else c) g capability)
             now_us)
     | _ \<Rightarrow> sql_raise ''40001'' ''provider dispatch claim unavailable''))"
    unfolding claim_dispatch_def by_check_if by_check_and_then by (auto split: if_split_asm)
  have ok1: "db_ok db1" using insert_occupancy_ok [OF ok input one(1)] by simp
  have ins: "\<not> by_check (insert_control (new_control b g capability insert_us) db1)"
    using check_new [OF input] by (simp add: insert_control_def by_check_if)
  from rest ins obtain db2 where two: "(if claim_matches b db1 = [] then insert_control (new_control b g capability insert_us) db1
        else Inr db1) = Inr db2"
      and late: "by_check (case claim_matches b db2 of
       [c] \<Rightarrow>
         if bound c \<noteq> b
         then sql_raise ''22023'' ''provider dispatch claim binding conflict''
         else
         and_then (if dstate c = GRANTED \<and> \<not> current (bound c) now_us
                   then update_control (authorization_id b) (expire_row now_us) db2 else Inr db2) (\<lambda>db3.
           finish db3 (authorization_id b)
             (claim_outcome (if dstate c = GRANTED \<and> \<not> current (bound c) now_us then expire_row now_us c else c) g capability)
             now_us)
     | _ \<Rightarrow> sql_raise ''40001'' ''provider dispatch claim unavailable'')"
    unfolding by_check_and_then by (simp only: by_check_if by_check_Inr split: if_split_asm) auto
  have ok2: "db_ok db2" using two ok1 insert_control_ok [OF ok1 one(2)] by (auto split: if_split_asm)
  from late obtain c where c: "claim_matches b db2 = [c]" by (auto split: list.split_asm)
  with late have b: "bound c = b" by (auto split: if_split_asm)
  with late c have "dstate c = GRANTED" "by_check (update_control (authorization_id b) (expire_row now_us) db2)"
    by (auto simp: by_check_and_then split: if_split_asm)
  with update_by_check [OF ok2 this(2)] claim_matches_one [OF c b] show False by (auto simp: check_expire)
qed



section \<open>A grant that another authorization holds\<close>

text \<open>A claim whose grant identifier belongs to another authorization is never decided:
  the insertion is skipped without an error, and the claim fails with the code of a
  serialization failure, which callers retry, at every attempt and leaving no trace.\<close>

theorem taken_grant_is_retryable:
  assumes ok: "db_ok db" and input: "claim_input_ok b capability"
    and free: "claim_matches b db = []"
    and occupancy: "\<And>o'. o' \<in> set (occupancy db) \<Longrightarrow> oc_effect_key o' \<noteq> effect_key b \<and> oc_authorization o' \<noteq> authorization_id b"
    and taken: "\<exists>c \<in> set (controls db). grant_id c = g"
  shows "claim_dispatch ''tp_provider_claim_user'' b g capability insert_us now_us db
     = Inl (Sql_error ''40001'' ''provider dispatch claim unavailable'')"
proof -
  define row where "row = \<lparr>oc_effect_key = effect_key b, oc_ledger = CURRENT_V2,
      oc_authorization = authorization_id b, oc_binding = control_binding b\<rparr>"
  define db1 where "db1 = db\<lparr>occupancy := occupancy db @ [row]\<rparr>"
  have none: "filter (\<lambda>o'. oc_effect_key o' = effect_key b) (occupancy db) = []"
    using occupancy by (auto simp: filter_empty_conv)
  have ins: "insert_occupancy b db = Inr db1"
    using occupancy by (auto simp: insert_occupancy_def db1_def row_def list_ex_iff)
  have chk: "check_occupancy b db1 = Inr ()" using none by (simp add: check_occupancy_def db1_def row_def)
  have same: "claim_matches b db1 = []" using free by (simp add: claim_matches_def db1_def)
  have "insert_control (new_control b g capability insert_us) db1 = Inr db1"
    using check_new [OF input] taken by (auto simp: insert_control_def new_control_def db1_def list_ex_iff)
  with ins chk same input show ?thesis by (simp add: claim_dispatch_def sql_raise_def)
qed

definition other_binding :: dispatch_binding where
  "other_binding = sample_binding\<lparr>authorization_id := ''other'', effect_key := replicate 64 (CHR ''z'')\<rparr>"

theorem taken_grant_is_retryable_witness:
  "claim_dispatch ''tp_provider_claim_user'' other_binding ''grant'' hx 1 2 (sample_db redeemed_row [sample_activation])
     = Inl (Sql_error ''40001'' ''provider dispatch claim unavailable'')"
proof (rule taken_grant_is_retryable [OF sample_activated_ok])
  have diff: "replicate 64 (CHR ''z'') \<noteq> hx" by (simp add: hx_def eval_nat_numeral)
  show "claim_input_ok other_binding hx"
    by (simp add: claim_input_ok_def other_binding_def sample_binding_def)
  show "claim_matches other_binding (sample_db redeemed_row [sample_activation]) = []"
    using diff by (simp add: claim_matches_def other_binding_def dispatch_eval)
  show "oc_effect_key o' \<noteq> effect_key other_binding \<and> oc_authorization o' \<noteq> authorization_id other_binding"
    if "o' \<in> set (occupancy (sample_db redeemed_row [sample_activation]))" for o'
    using that diff by (simp add: other_binding_def dispatch_eval)
  show "\<exists>c \<in> set (controls (sample_db redeemed_row [sample_activation])). grant_id c = ''grant''"
    by (simp add: dispatch_eval)
qed

end
