(* ===== verification/Dispatch_Client.thy ===== *)
theory Dispatch_Client
  imports Iso_Time
begin

text \<open>
  The JavaScript side of provider dispatch under \<open>src/cloud\<close>: the control binding
  (\<open>provider-dispatch-binding.js\<close>), the validation of database results
  (\<open>provider-dispatch-result.js\<close>), the retrying query (\<open>provider-dispatch-client.js\<close>,
  \<open>provider-dispatch-resolve-database.js\<close>), the controls that call the stored functions,
  and the reconciliation input. A function returns what it throws on the left: an error
  is the object with its message and its cause. One attempt of a query, connecting
  included, is an argument.
\<close>

section \<open>Errors and helpers\<close>

definition error_value :: "string \<Rightarrow> jsv \<Rightarrow> jsv" where
  "error_value code cause = Obj [(''message'', Str code), (''cause'', cause)]"

definition reject :: "string \<Rightarrow> jsv + 'a" where
  "reject code = Inl (error_value code Undef)"

definition reject_because :: "string \<Rightarrow> jsv \<Rightarrow> jsv + 'a" where
  "reject_because code cause = Inl (error_value code cause)"

lemma reject_Inr [simp]: "reject code \<noteq> Inr x" "reject_because code cause \<noteq> Inr x"
  by (simp_all add: reject_def reject_because_def)

lemma reject_guard [guard_simps]: "(if c then reject code else r) = Inr x \<longleftrightarrow> \<not> c \<and> r = Inr x"
  by simp

definition js_includes :: "string list \<Rightarrow> jsv \<Rightarrow> bool" where
  "js_includes ss v \<longleftrightarrow> list_ex (\<lambda>s. v = Str s) ss"

text \<open>\<open>a < b\<close> on the results of \<open>Date.parse\<close>: false when one is \<open>NaN\<close>.\<close>

definition time_less :: "int option \<Rightarrow> int option \<Rightarrow> bool" where
  "time_less a b \<longleftrightarrow> (case (a, b) of (Some x, Some y) \<Rightarrow> x < y | _ \<Rightarrow> False)"

definition time_le :: "int option \<Rightarrow> int option \<Rightarrow> bool" where
  "time_le a b \<longleftrightarrow> (case (a, b) of (Some x, Some y) \<Rightarrow> x \<le> y | _ \<Rightarrow> False)"

fun parse_text :: "jsenv \<Rightarrow> jsv \<Rightarrow> int option" where
  "parse_text E v = date_parse E (js_string E v)"

abbreviation uuid_ok :: "jsv \<Rightarrow> bool" where
  "uuid_ok \<equiv> test_or_empty uuid_shape"

abbreviation hex64_ok :: "jsv \<Rightarrow> bool" where
  "hex64_ok \<equiv> test_or_empty hex_64"

abbreviation hex40_ok :: "jsv \<Rightarrow> bool" where
  "hex40_ok \<equiv> test_or_empty hex_40"

section \<open>The control binding\<close>

definition binding_schema :: string where
  "binding_schema = ''tideproof.provider-dispatch-control-binding.v2''"

definition control_states :: "string list" where
  "control_states = [''ABSENT'', ''COMPLETED'', ''CREDENTIAL_REDEEMED'', ''EXECUTING'', ''EXPIRED'', ''GRANTED'',
     ''UNKNOWN_DO_NOT_ACT'']"

definition binding_keys :: "string list" where
  "binding_keys = [''authorizationId'', ''controlBindingSha256'', ''expiresAt'', ''interactionId'', ''issuedAt'',
     ''logicalMcpRequestSha256'', ''providerDispatchAuthorizationSha256'', ''providerEffectKeySha256'', ''runId'',
     ''schemaVersion'', ''sourceBuildIdentity'', ''sourceCommit'', ''tenantId'', ''treeDigest'']"

definition binding_rejected :: string where
  "binding_rejected = ''INTEGRATED_LIVE_DRILL_PROVIDER_CONTROL_BINDING_REJECTED''"

text \<open>\<open>exactIso\<close> of the binding: a text that is its own ISO rendering.\<close>

definition exact_iso_text :: "jsenv \<Rightarrow> jsv \<Rightarrow> string option" where
  "exact_iso_text E v =
     (case v of
        Str s \<Rightarrow> (case date_parse E s of
            None \<Rightarrow> None
          | Some t \<Rightarrow> if to_iso_string t = Some s then Some s else None)
      | _ \<Rightarrow> None)"

definition effect_key_sha256 :: "jsenv \<Rightarrow> jsv \<Rightarrow> jsv \<Rightarrow> jsv + string" where
  "effect_key_sha256 E logical cluster =
     (if \<not> hex64_ok logical \<or> \<not> uuid_ok cluster then reject binding_rejected
      else Inr (sha256_hex E (cloud_canonical_json E (Obj
        [(''schemaVersion'', Str ''tideproof.provider-effect-key.v1''), (''database'', Str ''tideproof_recovery''),
         (''logicalMcpRequestSha256'', logical), (''provider'', Str ''cockroachdb-managed-mcp''),
         (''recoveryClusterId'', cluster), (''tool'', Str ''select_query'')]))))"

definition binding_body :: "jsv \<Rightarrow> jsv" where
  "binding_body v = Obj (map (\<lambda>k. (k, fld v k)) (filter (\<lambda>k. k \<noteq> ''controlBindingSha256'') binding_keys))"

definition binding_shape :: "jsenv \<Rightarrow> jsv \<Rightarrow> bool" where
  "binding_shape E v \<longleftrightarrow>
     (let issued = exact_iso_text E (fld v ''issuedAt''); expires = exact_iso_text E (fld v ''expiresAt'') in
      \<not> (\<not> exact_record v binding_keys \<or>
        fld v ''schemaVersion'' \<noteq> Str binding_schema \<or>
        \<not> uuid_ok (fld v ''authorizationId'') \<or>
        \<not> uuid_ok (fld v ''interactionId'') \<or>
        \<not> uuid_ok (fld v ''runId'') \<or>
        \<not> uuid_ok (fld v ''tenantId'') \<or>
        \<not> hex40_ok (fld v ''sourceCommit'') \<or>
        \<not> hex40_ok (fld v ''treeDigest'') \<or>
        \<not> hex64_ok (fld v ''sourceBuildIdentity'') \<or>
        \<not> hex64_ok (fld v ''logicalMcpRequestSha256'') \<or>
        \<not> hex64_ok (fld v ''providerDispatchAuthorizationSha256'') \<or>
        \<not> hex64_ok (fld v ''providerEffectKeySha256'') \<or>
        \<not> hex64_ok (fld v ''controlBindingSha256'') \<or>
        issued = None \<or> expires = None \<or>
        time_le (date_parse E (the expires)) (date_parse E (the issued))))"

definition validate_binding :: "jsenv \<Rightarrow> jsv \<Rightarrow> jsv + jsv" where
  "validate_binding E v =
     (if \<not> binding_shape E v then reject binding_rejected
      else if Str (sha256_hex E (cloud_canonical_json E (binding_body v))) \<noteq> fld v ''controlBindingSha256''
      then reject binding_rejected
      else Inr v)"

text \<open>\<open>Number.isSafeInteger(n) ? new Date(n).toISOString() : null\<close>\<close>

definition iso_of_number :: "jsv \<Rightarrow> jsv + jsv" where
  "iso_of_number v =
     (case as_safe_integer v of
        None \<Rightarrow> Inr Null
      | Some t \<Rightarrow> (case to_iso_string t of
            None \<Rightarrow> reject ''Invalid time value''
          | Some s \<Rightarrow> Inr (Str s)))"

definition build_binding :: "jsenv \<Rightarrow> jsv \<Rightarrow> jsv \<Rightarrow> jsv \<Rightarrow> jsv \<Rightarrow> jsv + jsv" where
  "build_binding E context authorization expiry issued =
     (let intent = fld context ''preCallIntent''; spec = fld (fld context ''trustedRunContext'') ''spec'' in
      and_then (iso_of_number issued) (\<lambda>issued_at.
      and_then (iso_of_number expiry) (\<lambda>expires_at.
      and_then (effect_key_sha256 E (fld intent ''logicalMcpRequestSha256'') (fld intent ''recoveryClusterId'')) (\<lambda>key.
      let body =
        [(''authorizationId'', fld intent ''authorizationId''), (''expiresAt'', expires_at),
         (''interactionId'', fld intent ''interactionId''), (''issuedAt'', issued_at),
         (''logicalMcpRequestSha256'', fld intent ''logicalMcpRequestSha256''),
         (''providerDispatchAuthorizationSha256'', authorization), (''providerEffectKeySha256'', Str key),
         (''runId'', fld intent ''runId''), (''schemaVersion'', Str binding_schema),
         (''sourceBuildIdentity'', fld spec ''sourceBuildIdentity''), (''sourceCommit'', fld spec ''sourceCommit''),
         (''tenantId'', fld intent ''tenantId''), (''treeDigest'', fld spec ''treeDigest'')]
      in validate_binding E (Obj (body @
           [(''controlBindingSha256'', Str (sha256_hex E (cloud_canonical_json E (Obj body))))]))))))"

section \<open>Results of the database\<close>

definition result_keys :: "string list" where
  "result_keys = [''authorization_id'', ''control_binding_sha256'', ''database_now'', ''expires_at'', ''grant_id'',
     ''mcp_result_sha256'', ''session_close_sha256'', ''state'', ''transition_outcome'', ''worker_spec_sha256'']"

text \<open>\<open>exactIso\<close> of the results: any date, as its ISO text.\<close>

definition iso_of_date :: "jsenv \<Rightarrow> jsv \<Rightarrow> string option" where
  "iso_of_date E v = (case new_date E v of None \<Rightarrow> None | Some t \<Rightarrow> to_iso_string t)"

definition optional_digest :: "jsv \<Rightarrow> bool" where
  "optional_digest v \<longleftrightarrow> v = Null \<or> hex64_ok v"

text \<open>\<open>result?.rows?.[0]\<close>\<close>

fun index0 :: "jsv \<Rightarrow> jsv" where
  "index0 (Arr (x # _)) = x"
| "index0 (Obj kvs) = fld (Obj kvs) ''0''"
| "index0 (Str (c # _)) = Str [c]"
| "index0 _ = Undef"

definition text_or_null :: "string option \<Rightarrow> jsv" where
  "text_or_null v = (case v of None \<Rightarrow> Null | Some s \<Rightarrow> Str s)"

definition result_ok :: "jsenv \<Rightarrow> jsv \<Rightarrow> jsv \<Rightarrow> string list \<Rightarrow> bool" where
  "result_ok E result binding outcomes \<longleftrightarrow>
     (let row = index0 (fld result ''rows'');
          absent = (fld row ''state'' = Str ''ABSENT'');
          completed = (fld row ''state'' = Str ''COMPLETED'');
          expires = (if fld row ''expires_at'' = Null then None else iso_of_date E (fld row ''expires_at''))
      in \<not> (\<not> strict_eq (fld result ''rowCount'') (int_num 1) \<or> \<not> exact_keys row result_keys \<or>
        \<not> strict_eq (fld row ''authorization_id'') (fld binding ''authorizationId'') \<or>
        \<not> strict_eq (fld row ''control_binding_sha256'') (fld binding ''controlBindingSha256'') \<or>
        \<not> js_includes control_states (fld row ''state'') \<or>
        \<not> js_includes outcomes (fld row ''transition_outcome'') \<or> iso_of_date E (fld row ''database_now'') = None \<or>
        \<not> optional_digest (fld row ''mcp_result_sha256'') \<or>
        \<not> optional_digest (fld row ''session_close_sha256'') \<or>
        (if completed
         then \<not> hex64_ok (fld row ''mcp_result_sha256'') \<or> \<not> hex64_ok (fld row ''session_close_sha256'')
         else fld row ''mcp_result_sha256'' \<noteq> Null \<or> fld row ''session_close_sha256'' \<noteq> Null) \<or>
        (if absent then fld row ''transition_outcome'' \<noteq> Str ''RESOLVED_ABSENT''
         else fld row ''transition_outcome'' = Str ''RESOLVED_ABSENT'') \<or>
        (if absent
         then fld row ''grant_id'' \<noteq> Null \<or> expires \<noteq> None \<or> fld row ''worker_spec_sha256'' \<noteq> Null \<or>
           fld row ''mcp_result_sha256'' \<noteq> Null \<or> fld row ''session_close_sha256'' \<noteq> Null
         else \<not> uuid_ok (fld row ''grant_id'') \<or> text_or_null expires \<noteq> fld binding ''expiresAt'' \<or>
           \<not> hex64_ok (fld row ''worker_spec_sha256''))))"

definition validate_result :: "jsenv \<Rightarrow> jsv \<Rightarrow> jsv \<Rightarrow> string list \<Rightarrow> jsv + jsv" where
  "validate_result E result binding_input outcomes =
     and_then (validate_binding E binding_input) (\<lambda>binding.
     if \<not> result_ok E result binding outcomes
     then reject ''INTEGRATED_LIVE_DRILL_PROVIDER_CONTROL_RESULT_REJECTED''
     else
       let row = index0 (fld result ''rows'') in
       Inr (Obj
        [(''authorizationId'', fld row ''authorization_id''),
         (''controlBindingSha256'', fld row ''control_binding_sha256''),
         (''databaseNow'', text_or_null (iso_of_date E (fld row ''database_now''))),
         (''expiresAt'', text_or_null (if fld row ''expires_at'' = Null then None else iso_of_date E (fld row ''expires_at''))),
         (''grantId'', fld row ''grant_id''),
         (''mcpResultSha256'', fld row ''mcp_result_sha256''),
         (''sessionCloseSha256'', fld row ''session_close_sha256''),
         (''state'', fld row ''state''),
         (''transitionOutcome'', fld row ''transition_outcome''),
         (''workerSpecSha256'', fld row ''worker_spec_sha256'')]))"

section \<open>The retrying query\<close>

text \<open>\<open>transientDatabaseFailure\<close>: a serialization failure, a connection exception (class 08) or
  a socket error.\<close>

definition transient_failure :: "jsv \<Rightarrow> bool" where
  "transient_failure cause \<longleftrightarrow> fld cause ''code'' = Str ''40001'' \<or>
     test_or_empty (\<lambda>s. take 2 s = ''08'') (fld cause ''code'') \<or>
     js_includes [''ECONNRESET'', ''ECONNREFUSED'', ''EPIPE'', ''ETIMEDOUT''] (fld cause ''code'')"

definition unavailable_code :: string where
  "unavailable_code = ''INTEGRATED_LIVE_DRILL_PROVIDER_CONTROL_UNAVAILABLE''"

text \<open>The loop, from attempt \<open>attempts - left\<close> on (attempts are counted from 0 here).\<close>

fun query_loop :: "(nat \<Rightarrow> jsv + jsv) \<Rightarrow> nat \<Rightarrow> nat \<Rightarrow> jsv + jsv" where
  "query_loop attempt k 0 = reject unavailable_code"
| "query_loop attempt k (Suc left) =
     (case attempt k of
        Inr result \<Rightarrow> Inr result
      | Inl cause \<Rightarrow>
          if \<not> transient_failure cause \<or> left = 0 then reject_because unavailable_code cause
          else query_loop attempt (Suc k) left)"

definition database_query :: "(nat \<Rightarrow> jsv + jsv) \<Rightarrow> jsv \<Rightarrow> jsv \<Rightarrow> jsv \<Rightarrow> jsv + jsv" where
  "database_query attempt attempts params sql =
     (case as_safe_integer attempts of
        None \<Rightarrow> reject ''INTEGRATED_LIVE_DRILL_PROVIDER_CONTROL_QUERY_REJECTED''
      | Some n \<Rightarrow>
          if n < 1 \<or> n > 5 \<or> \<not> is_array params \<or> \<not> is_string sql \<or> sql = Str []
          then reject ''INTEGRATED_LIVE_DRILL_PROVIDER_CONTROL_QUERY_REJECTED''
          else query_loop attempt 0 (nat n))"

text \<open>The resolver's own client: three attempts.\<close>

definition resolve_query :: "(nat \<Rightarrow> jsv + jsv) \<Rightarrow> jsv + jsv" where
  "resolve_query attempt = query_loop attempt 0 3"

text \<open>\<open>databaseFailureCode\<close>: the first code along at most four causes.\<close>

fun failure_code :: "nat \<Rightarrow> jsv \<Rightarrow> string option" where
  "failure_code 0 v = None"
| "failure_code (Suc n) v =
     (case v of
        Obj kvs \<Rightarrow> (case fld v ''code'' of Str s \<Rightarrow> Some s | _ \<Rightarrow> failure_code n (fld v ''cause''))
      | _ \<Rightarrow> None)"

section \<open>The controls\<close>

text \<open>
  A control builds the parameters of its stored function and hands them to the database:
  \<open>db params k\<close> is what attempt \<open>k\<close> of the query with these parameters yields.
\<close>

type_synonym database = "jsv list \<Rightarrow> nat \<Rightarrow> jsv + jsv"

definition run_query :: "database \<Rightarrow> int \<Rightarrow> jsv list \<Rightarrow> jsv + jsv" where
  "run_query db attempts params =
     database_query (db params) (int_num attempts) (Arr params) (Str ''SELECT * FROM tp_api'')"

definition begin_control :: "jsenv \<Rightarrow> database \<Rightarrow> jsv \<Rightarrow> jsv \<Rightarrow> jsv + jsv" where
  "begin_control E db binding_input inp =
     and_then (validate_binding E binding_input) (\<lambda>binding.
     if \<not> uuid_ok (fld inp ''grantId'') \<or> \<not> hex64_ok (fld inp ''executionCapability'')
        \<or> \<not> hex64_ok (fld inp ''workerSpecSha256'')
     then reject ''INTEGRATED_LIVE_DRILL_PROVIDER_CONTROL_BEGIN_REJECTED''
     else
     and_then (run_query db 1 [fld binding ''authorizationId'', fld inp ''grantId'',
         fld binding ''controlBindingSha256'', fld inp ''executionCapability'', fld inp ''workerSpecSha256'']) (\<lambda>raw.
     and_then (validate_result E raw binding
         [''ALREADY_EXECUTING_DO_NOT_START'', ''ALREADY_TERMINAL'', ''AUTHORITY_NOT_CURRENT'', ''EXECUTION_STARTED'']) (\<lambda>result.
     if \<not> strict_eq (fld result ''grantId'') (fld inp ''grantId'')
        \<or> \<not> strict_eq (fld result ''workerSpecSha256'') (fld inp ''workerSpecSha256'')
     then reject ''INTEGRATED_LIVE_DRILL_PROVIDER_CONTROL_BEGIN_REJECTED''
     else Inr result)))"

definition claim_control :: "jsenv \<Rightarrow> database \<Rightarrow> jsv \<Rightarrow> jsv \<Rightarrow> jsv + jsv" where
  "claim_control E db binding_input inp =
     and_then (validate_binding E binding_input) (\<lambda>binding.
     if \<not> uuid_ok (fld inp ''grantId'') \<or> \<not> hex64_ok (fld inp ''executionCapabilitySha256'')
        \<or> \<not> hex64_ok (fld inp ''workerSpecSha256'')
     then reject ''INTEGRATED_LIVE_DRILL_PROVIDER_CONTROL_CLAIM_REJECTED''
     else
     and_then (run_query db 3 [fld binding ''authorizationId'', fld inp ''grantId'', fld binding ''tenantId'',
         fld binding ''runId'', fld binding ''interactionId'', fld binding ''controlBindingSha256'',
         fld binding ''logicalMcpRequestSha256'', fld binding ''providerEffectKeySha256'',
         fld binding ''providerDispatchAuthorizationSha256'', fld binding ''sourceCommit'', fld binding ''treeDigest'',
         fld binding ''sourceBuildIdentity'', fld binding ''issuedAt'', fld binding ''expiresAt'',
         fld inp ''executionCapabilitySha256'', fld inp ''workerSpecSha256'']) (\<lambda>raw.
     and_then (validate_result E raw binding
         [''ALREADY_TERMINAL_OR_EXECUTING'', ''AUTHORITY_NOT_CURRENT'', ''DISPATCH_GRANTED'']) (\<lambda>result.
     if fld result ''transitionOutcome'' = Str ''DISPATCH_GRANTED'' \<and>
        (\<not> strict_eq (fld result ''grantId'') (fld inp ''grantId'')
         \<or> \<not> strict_eq (fld result ''workerSpecSha256'') (fld inp ''workerSpecSha256''))
     then reject ''INTEGRATED_LIVE_DRILL_PROVIDER_CONTROL_CLAIM_REJECTED''
     else Inr result)))"

definition redeem_control :: "jsenv \<Rightarrow> database \<Rightarrow> jsv \<Rightarrow> jsv \<Rightarrow> jsv + jsv" where
  "redeem_control E db binding_input inp =
     and_then (validate_binding E binding_input) (\<lambda>binding.
     if \<not> uuid_ok (fld inp ''grantId'') \<or> \<not> hex64_ok (fld inp ''executionCapability'')
        \<or> \<not> hex64_ok (fld inp ''completionCapabilitySha256'') \<or> \<not> hex64_ok (fld inp ''workerSpecSha256'')
     then reject ''INTEGRATED_LIVE_DRILL_PROVIDER_CONTROL_REDEEM_REJECTED''
     else
     and_then (run_query db 1 [fld binding ''authorizationId'', fld inp ''grantId'',
         fld binding ''controlBindingSha256'', fld inp ''executionCapability'',
         fld inp ''completionCapabilitySha256'', fld inp ''workerSpecSha256'']) (\<lambda>raw.
     and_then (validate_result E raw binding
         [''ALREADY_REDEEMED_DO_NOT_DELIVER'', ''ALREADY_TERMINAL_DO_NOT_DELIVER'', ''AUTHORITY_NOT_CURRENT'',
          ''CREDENTIAL_REDEEMED'']) (\<lambda>result.
     if \<not> strict_eq (fld result ''grantId'') (fld inp ''grantId'')
        \<or> \<not> strict_eq (fld result ''workerSpecSha256'') (fld inp ''workerSpecSha256'')
     then reject ''INTEGRATED_LIVE_DRILL_PROVIDER_CONTROL_REDEEM_REJECTED''
     else Inr result)))"

text \<open>\<open>#grant\<close> of the finalizing control.\<close>

definition finalize_grant :: "jsv \<Rightarrow> jsv + jsv" where
  "finalize_grant v =
     (if \<not> uuid_ok (fld v ''grantId'') \<or> \<not> hex64_ok (fld v ''completionCapability'')
      then reject ''INTEGRATED_LIVE_DRILL_PROVIDER_CONTROL_FINALIZE_REJECTED'' else Inr v)"

definition complete_control :: "jsenv \<Rightarrow> database \<Rightarrow> jsv \<Rightarrow> jsv \<Rightarrow> jsv \<Rightarrow> jsv + jsv" where
  "complete_control E db binding_input grant_input result_input =
     and_then (validate_binding E binding_input) (\<lambda>binding.
     and_then (finalize_grant grant_input) (\<lambda>grant.
     if \<not> hex64_ok (fld result_input ''mcpResultSha256'') \<or> \<not> hex64_ok (fld result_input ''sessionCloseSha256'')
     then reject ''INTEGRATED_LIVE_DRILL_PROVIDER_CONTROL_FINALIZE_REJECTED''
     else
     and_then (run_query db 3 [fld binding ''authorizationId'', fld grant ''grantId'',
         fld binding ''controlBindingSha256'', fld grant ''completionCapability'',
         fld result_input ''mcpResultSha256'', fld result_input ''sessionCloseSha256'']) (\<lambda>raw.
     and_then (validate_result E raw binding [''COMPLETED'']) (\<lambda>result.
     if \<not> strict_eq (fld result ''grantId'') (fld grant ''grantId'')
     then reject ''INTEGRATED_LIVE_DRILL_PROVIDER_CONTROL_FINALIZE_REJECTED''
     else Inr result))))"

definition mark_unknown_control :: "jsenv \<Rightarrow> database \<Rightarrow> jsv \<Rightarrow> jsv \<Rightarrow> jsv + jsv" where
  "mark_unknown_control E db binding_input grant_input =
     and_then (validate_binding E binding_input) (\<lambda>binding.
     and_then (finalize_grant grant_input) (\<lambda>grant.
     and_then (run_query db 3 [fld binding ''authorizationId'', fld grant ''grantId'',
         fld binding ''controlBindingSha256'', fld grant ''completionCapability'']) (\<lambda>raw.
     and_then (validate_result E raw binding [''UNKNOWN_RECORDED'']) (\<lambda>result.
     if \<not> strict_eq (fld result ''grantId'') (fld grant ''grantId'')
     then reject ''INTEGRATED_LIVE_DRILL_PROVIDER_CONTROL_FINALIZE_REJECTED''
     else Inr result))))"

definition terminalize_rejected :: string where
  "terminalize_rejected = ''INTEGRATED_LIVE_DRILL_PROVIDER_CONTROL_TERMINALIZE_REJECTED''"

definition terminalize_control :: "jsenv \<Rightarrow> database \<Rightarrow> jsv \<Rightarrow> jsv \<Rightarrow> jsv + jsv" where
  "terminalize_control E db binding_input inp =
     and_then (validate_binding E binding_input) (\<lambda>binding.
     if \<not> exact_record inp [''grantId'', ''workerSpecSha256''] then reject terminalize_rejected
     else if \<not> uuid_ok (fld inp ''grantId'') \<or> \<not> hex64_ok (fld inp ''workerSpecSha256'')
     then reject terminalize_rejected
     else
     (case run_query db 3 [fld binding ''authorizationId'', fld inp ''grantId'',
         fld binding ''controlBindingSha256'', fld inp ''workerSpecSha256''] of
        Inl cause \<Rightarrow>
          reject_because
            (if failure_code 4 cause = Some ''22023'' \<or> failure_code 4 cause = Some ''42501''
             then terminalize_rejected
             else ''INTEGRATED_LIVE_DRILL_PROVIDER_CONTROL_TERMINALIZATION_RETRY_REQUIRED'') cause
      | Inr raw \<Rightarrow>
     and_then (validate_result E raw binding
         [''ALREADY_TERMINAL'', ''EXPIRED_RECORDED'', ''NOT_EXPIRED'', ''UNKNOWN_RECORDED'']) (\<lambda>result.
     if \<not> strict_eq (fld result ''grantId'') (fld inp ''grantId'')
        \<or> \<not> strict_eq (fld result ''workerSpecSha256'') (fld inp ''workerSpecSha256'')
     then reject terminalize_rejected
     else Inr result)))"

definition resolve_control :: "jsenv \<Rightarrow> database \<Rightarrow> jsv \<Rightarrow> jsv + jsv" where
  "resolve_control E db binding_input =
     and_then (validate_binding E binding_input) (\<lambda>binding.
     and_then (resolve_query (db [fld binding ''authorizationId'', fld binding ''controlBindingSha256''])) (\<lambda>raw.
       validate_result E raw binding [''RESOLVED'', ''RESOLVED_ABSENT'']))"

section \<open>Activation\<close>

definition activate_rejected :: string where
  "activate_rejected = ''INTEGRATED_LIVE_DRILL_PROVIDER_CONTROL_ACTIVATE_REJECTED''"

definition activation_unknown :: string where
  "activation_unknown = ''INTEGRATED_LIVE_DRILL_PROVIDER_CONTROL_ACTIVATION_UNKNOWN_DO_NOT_DELIVER''"

definition activation_keys :: "string list" where
  "activation_keys = [''activated_at'', ''activation_request_sha256''] @ result_keys"

text \<open>\<open>Object.fromEntries(Object.entries(row).filter(...))\<close>\<close>

fun without_keys :: "string list \<Rightarrow> jsv \<Rightarrow> jsv" where
  "without_keys ks (Obj kvs) = Obj (filter (\<lambda>(k, v). k \<notin> set ks) kvs)"
| "without_keys ks v = v"

fun spread_onto :: "jsv \<Rightarrow> (string \<times> jsv) list \<Rightarrow> jsv" where
  "spread_onto (Obj kvs) extra = Obj (kvs @ extra)"
| "spread_onto v extra = v"

definition activation_result :: "jsenv \<Rightarrow> jsv \<Rightarrow> jsv \<Rightarrow> jsv + jsv" where
  "activation_result E result binding =
     (let now_t = parse_text E (fld result ''databaseNow'');
          in_window = (time_le (parse_text E (fld binding ''issuedAt'')) now_t \<and>
            time_less now_t (parse_text E (fld binding ''expiresAt'')));
          out = fld result ''transitionOutcome'';
          redeemed = (fld result ''state'' = Str ''CREDENTIAL_REDEEMED'')
      in if ((out = Str ''ACTIVATION_GRANTED'' \<or> out = Str ''ACTIVATION_ALREADY_CONSUMED'') \<and> (\<not> redeemed \<or> \<not> in_window))
           \<or> (out = Str ''ACTIVATION_NOT_AUTHORIZED'' \<and> redeemed \<and> in_window)
         then reject activate_rejected
         else Inr (spread_onto result [(''activationDisposition'',
           Str (if out = Str ''ACTIVATION_GRANTED'' then ''DELIVER_CREDENTIAL_ONCE'' else ''DO_NOT_DELIVER_CREDENTIAL''))]))"

text \<open>The part of \<open>activate\<close> after the query, whose failures all become \<open>activation_unknown\<close>.\<close>

definition activation_of_row :: "jsenv \<Rightarrow> jsv \<Rightarrow> jsv \<Rightarrow> jsv \<Rightarrow> jsv + jsv" where
  "activation_of_row E raw binding inp =
     (let row = index0 (fld raw ''rows'') in
      if \<not> strict_eq (fld raw ''rowCount'') (int_num 1) \<or> \<not> exact_record row activation_keys
      then reject activate_rejected
      else
      and_then (validate_result E
          (Obj [(''rowCount'', int_num 1), (''rows'', Arr [without_keys [''activated_at'', ''activation_request_sha256''] row])])
          binding [''ACTIVATION_ALREADY_CONSUMED'', ''ACTIVATION_GRANTED'', ''ACTIVATION_NOT_AUTHORIZED'']) (\<lambda>result.
      let out = fld result ''transitionOutcome'';
          decided = (out = Str ''ACTIVATION_GRANTED'' \<or> out = Str ''ACTIVATION_ALREADY_CONSUMED'')
      in and_then (if fld row ''activated_at'' = Null then Inr Null
          else (case iso_of_date E (fld row ''activated_at'') of
                  None \<Rightarrow> reject ''Invalid time value''
                | Some s \<Rightarrow> Inr (Str s))) (\<lambda>activated_at.
      if \<not> strict_eq (fld result ''grantId'') (fld inp ''grantId'')
         \<or> \<not> strict_eq (fld result ''workerSpecSha256'') (fld inp ''workerSpecSha256'')
         \<or> (if decided
            then \<not> strict_eq (fld row ''activation_request_sha256'') (fld inp ''activationRequestSha256'')
              \<or> activated_at = Null
              \<or> (out = Str ''ACTIVATION_GRANTED'' \<and> activated_at \<noteq> fld result ''databaseNow'')
              \<or> (out = Str ''ACTIVATION_ALREADY_CONSUMED'' \<and>
                 time_less (parse_text E (fld result ''databaseNow'')) (parse_text E activated_at))
            else fld row ''activation_request_sha256'' \<noteq> Null \<or> activated_at \<noteq> Null)
      then reject ''provider activation database result identity mismatch''
      else activation_result E (spread_onto result [(''activatedAt'', activated_at)]) binding)))"

definition activate_control :: "jsenv \<Rightarrow> database \<Rightarrow> jsv \<Rightarrow> jsv \<Rightarrow> jsv + jsv" where
  "activate_control E db binding_input inp =
     and_then (validate_binding E binding_input) (\<lambda>binding.
     if \<not> exact_record inp [''activationRequestSha256'', ''grantId'', ''workerSpecSha256''] then reject activate_rejected
     else if \<not> uuid_ok (fld inp ''grantId'') \<or> \<not> hex64_ok (fld inp ''activationRequestSha256'')
        \<or> \<not> hex64_ok (fld inp ''workerSpecSha256'')
     then reject activate_rejected
     else
     (case run_query db 1 [fld binding ''authorizationId'', fld inp ''grantId'',
         fld binding ''controlBindingSha256'', fld inp ''activationRequestSha256''] of
        Inl cause \<Rightarrow>
          reject_because
            (if failure_code 4 cause = Some ''22023'' \<or> failure_code 4 cause = Some ''42501''
             then activate_rejected else activation_unknown) cause
      | Inr raw \<Rightarrow>
          (case activation_of_row E raw binding inp of
             Inr result \<Rightarrow> Inr result
           | Inl cause \<Rightarrow>
               if fld cause ''message'' = Str activation_unknown then Inl cause
               else reject_because activation_unknown cause)))"

section \<open>Reconciliation input\<close>

definition reconciliation_schema :: string where
  "reconciliation_schema = ''tideproof.highwater-drill-provider-reconciliation-input.v3''"

definition reconciliation_rejected :: string where
  "reconciliation_rejected = ''INTEGRATED_LIVE_DRILL_PROVIDER_RECONCILIATION_INPUT_REJECTED''"

definition reconciliation_body :: "jsv \<Rightarrow> jsv \<Rightarrow> (string \<times> jsv) list" where
  "reconciliation_body v binding =
     [(''admission'', fld v ''admission''), (''binding'', binding), (''packageLockDigest'', fld v ''packageLockDigest''),
      (''schemaVersion'', fld v ''schemaVersion'')]"

definition validate_reconciliation_input :: "jsenv \<Rightarrow> jsv \<Rightarrow> jsv + jsv" where
  "validate_reconciliation_input E v =
     (if \<not> exact_record v [''admission'', ''binding'', ''packageLockDigest'', ''receiptSha256'', ''schemaVersion'']
        \<or> fld v ''schemaVersion'' \<noteq> Str reconciliation_schema
        \<or> \<not> exact_record (fld v ''admission'') [''grantId'', ''workerSpecSha256'']
        \<or> \<not> uuid_ok (fld (fld v ''admission'') ''grantId'')
        \<or> \<not> hex64_ok (fld (fld v ''admission'') ''workerSpecSha256'')
        \<or> \<not> hex64_ok (fld v ''packageLockDigest'') \<or> \<not> hex64_ok (fld v ''receiptSha256'')
      then reject reconciliation_rejected
      else (case validate_binding E (fld v ''binding'') of
          Inl cause \<Rightarrow> reject_because reconciliation_rejected cause
        | Inr binding \<Rightarrow>
            if Str (sha256_hex E (cloud_canonical_json E (Obj (reconciliation_body v binding)))) \<noteq> fld v ''receiptSha256''
            then reject reconciliation_rejected
            else Inr (Obj (reconciliation_body v binding @ [(''receiptSha256'', fld v ''receiptSha256'')]))))"

definition build_reconciliation_input :: "jsenv \<Rightarrow> jsv \<Rightarrow> jsv \<Rightarrow> jsv \<Rightarrow> jsv \<Rightarrow> jsv + jsv" where
  "build_reconciliation_input E binding grant lock_digest worker =
     (let body = [(''admission'', Obj [(''grantId'', grant), (''workerSpecSha256'', worker)]), (''binding'', binding),
        (''packageLockDigest'', lock_digest), (''schemaVersion'', Str reconciliation_schema)]
      in validate_reconciliation_input E
        (Obj (body @ [(''receiptSha256'', Str (sha256_hex E (cloud_canonical_json E (Obj body))))])))"

definition reconciliation_input_bytes :: "jsenv \<Rightarrow> jsv \<Rightarrow> jsv + string" where
  "reconciliation_input_bytes E v =
     and_then (validate_reconciliation_input E v) (\<lambda>accepted. Inr (cloud_canonical_json E accepted @ [CHR 0x0A]))"

end
