(* ===== verification/Dispatch_Wire.thy ===== *)
theory Dispatch_Wire
  imports Dispatch_Inv Dispatch_Client
begin

text \<open>
  The two sides of provider dispatch together: a row of a stored function as the
  JavaScript value the database driver makes of it, and the proof that the controls
  accept every row the stored functions return. The driver's conversion of a time
  stamp to a \<open>Date\<close> is an argument; it drops what is below a millisecond.
\<close>

section \<open>Rows as JavaScript values\<close>

fun state_text :: "dispatch_state option \<Rightarrow> string" where
  "state_text None = ''ABSENT''"
| "state_text (Some GRANTED) = ''GRANTED''"
| "state_text (Some EXECUTING) = ''EXECUTING''"
| "state_text (Some CREDENTIAL_REDEEMED) = ''CREDENTIAL_REDEEMED''"
| "state_text (Some COMPLETED) = ''COMPLETED''"
| "state_text (Some UNKNOWN_DO_NOT_ACT) = ''UNKNOWN_DO_NOT_ACT''"
| "state_text (Some EXPIRED) = ''EXPIRED''"

fun outcome_text :: "transition_outcome \<Rightarrow> string" where
  "outcome_text DISPATCH_GRANTED = ''DISPATCH_GRANTED''"
| "outcome_text AUTHORITY_NOT_CURRENT = ''AUTHORITY_NOT_CURRENT''"
| "outcome_text ALREADY_TERMINAL_OR_EXECUTING = ''ALREADY_TERMINAL_OR_EXECUTING''"
| "outcome_text EXECUTION_STARTED = ''EXECUTION_STARTED''"
| "outcome_text ALREADY_EXECUTING_DO_NOT_START = ''ALREADY_EXECUTING_DO_NOT_START''"
| "outcome_text ALREADY_TERMINAL = ''ALREADY_TERMINAL''"
| "outcome_text REDEEMED = ''CREDENTIAL_REDEEMED''"
| "outcome_text ALREADY_REDEEMED_DO_NOT_DELIVER = ''ALREADY_REDEEMED_DO_NOT_DELIVER''"
| "outcome_text ALREADY_TERMINAL_DO_NOT_DELIVER = ''ALREADY_TERMINAL_DO_NOT_DELIVER''"
| "outcome_text ACTIVATION_NOT_AUTHORIZED = ''ACTIVATION_NOT_AUTHORIZED''"
| "outcome_text ACTIVATION_GRANTED = ''ACTIVATION_GRANTED''"
| "outcome_text ACTIVATION_ALREADY_CONSUMED = ''ACTIVATION_ALREADY_CONSUMED''"
| "outcome_text DISPATCH_COMPLETED = ''COMPLETED''"
| "outcome_text UNKNOWN_RECORDED = ''UNKNOWN_RECORDED''"
| "outcome_text EXPIRED_RECORDED = ''EXPIRED_RECORDED''"
| "outcome_text NOT_EXPIRED = ''NOT_EXPIRED''"
| "outcome_text RESOLVED = ''RESOLVED''"
| "outcome_text RESOLVED_ABSENT = ''RESOLVED_ABSENT''"

definition column :: "string option \<Rightarrow> jsv" where
  "column v = (case v of None \<Rightarrow> Null | Some s \<Rightarrow> Str s)"

definition time_column :: "(int \<Rightarrow> int) \<Rightarrow> int option \<Rightarrow> jsv" where
  "time_column ms v = (case v of None \<Rightarrow> Null | Some t \<Rightarrow> DateV (Some (ms t)))"

text \<open>The columns of \<open>providerDispatchTableWrapperSql\<close>, and the two more of the activation.\<close>

definition wrapper_columns :: "(int \<Rightarrow> int) \<Rightarrow> dispatch_result \<Rightarrow> (string \<times> jsv) list" where
  "wrapper_columns ms r =
     [(''authorization_id'', Str (rw_authorization r)), (''grant_id'', column (rw_grant r)),
      (''control_binding_sha256'', Str (rw_binding r)), (''state'', Str (state_text (rw_state r))),
      (''transition_outcome'', Str (outcome_text (rw_outcome r))), (''database_now'', DateV (Some (ms (rw_now r)))),
      (''expires_at'', time_column ms (rw_expires_at r)), (''worker_spec_sha256'', column (rw_worker_spec r)),
      (''mcp_result_sha256'', column (rw_mcp_result r)), (''session_close_sha256'', column (rw_session_close r))]"

definition activation_columns :: "(int \<Rightarrow> int) \<Rightarrow> dispatch_result \<Rightarrow> (string \<times> jsv) list" where
  "activation_columns ms r =
     [(''activated_at'', time_column ms (rw_activated_at r)),
      (''activation_request_sha256'', column (rw_activation_request r))] @ wrapper_columns ms r"

definition one_row :: "(string \<times> jsv) list \<Rightarrow> jsv" where
  "one_row columns = Obj [(''rowCount'', int_num 1), (''rows'', Arr [Obj columns])]"

definition sql_failure :: "sql_error \<Rightarrow> jsv" where
  "sql_failure e = (case e of Sql_error code message \<Rightarrow> Obj [(''message'', Str message), (''code'', Str code)])"

text \<open>The database behind the activating control: the stored function, by the driver's parameters.\<close>

definition activate_database :: "(int \<Rightarrow> int) \<Rightarrow> string \<Rightarrow> int \<Rightarrow> dispatch_db \<Rightarrow> database" where
  "activate_database ms user now_us db ps k =
     (case ps of
        [Str a, Str g, Str control, Str request] \<Rightarrow>
          (case activate_dispatch user a g control request now_us db of
             Inl e \<Rightarrow> Inl (sql_failure e)
           | Inr (db', r) \<Rightarrow> Inr (one_row (activation_columns ms r)))
      | _ \<Rightarrow> Inl (sql_failure (Sql_error ''22P02'' ''invalid parameter'')))"

text \<open>What the validator makes of a row it accepts.\<close>

definition accepted_fields :: "(int \<Rightarrow> int) \<Rightarrow> dispatch_result \<Rightarrow> (string \<times> jsv) list" where
  "accepted_fields ms r =
     [(''authorizationId'', Str (rw_authorization r)), (''controlBindingSha256'', Str (rw_binding r)),
      (''databaseNow'', text_or_null (to_iso_string (ms (rw_now r)))),
      (''expiresAt'', text_or_null (case rw_expires_at r of None \<Rightarrow> None | Some t \<Rightarrow> to_iso_string (ms t))),
      (''grantId'', column (rw_grant r)), (''mcpResultSha256'', column (rw_mcp_result r)),
      (''sessionCloseSha256'', column (rw_session_close r)), (''state'', Str (state_text (rw_state r))),
      (''transitionOutcome'', Str (outcome_text (rw_outcome r))), (''workerSpecSha256'', column (rw_worker_spec r))]"

section \<open>What the rows hold\<close>

text \<open>The shapes the controls check before they call: a stored grant is a UUID, a digest is hexadecimal.\<close>

definition all_hex :: "string option \<Rightarrow> bool" where
  "all_hex v \<longleftrightarrow> (case v of None \<Rightarrow> True | Some s \<Rightarrow> hex_64 s)"

definition row_shaped :: "control_row \<Rightarrow> bool" where
  "row_shaped c \<longleftrightarrow> uuid_shape (grant_id c) \<and> hex_64 (worker_spec (bound c)) \<and> all_hex (mcp_result c) \<and>
     all_hex (session_close c)"

definition rows_shaped :: "dispatch_db \<Rightarrow> bool" where
  "rows_shaped db \<longleftrightarrow> list_all row_shaped (controls db)"

fun call_shaped :: "dispatch_call \<Rightarrow> bool" where
  "call_shaped (Claim b g capability insert_us now_us) \<longleftrightarrow> uuid_shape g \<and> hex_64 (worker_spec b)"
| "call_shaped (Complete a g control capability mcp close now_us) \<longleftrightarrow> hex_64 mcp \<and> hex_64 close"
| "call_shaped _ \<longleftrightarrow> True"

fun call_authorization :: "dispatch_call \<Rightarrow> string" where
  "call_authorization (Claim b g capability insert_us now_us) = authorization_id b"
| "call_authorization (Begin a g control capability spec now_us) = a"
| "call_authorization (Redeem a g control capability completion spec now_us) = a"
| "call_authorization (Activate a g control request now_us) = a"
| "call_authorization (Complete a g control capability mcp close now_us) = a"
| "call_authorization (Mark_unknown a g control capability now_us) = a"
| "call_authorization (Terminalize a g control spec now_us) = a"
| "call_authorization (Resolve a control now_us) = a"

fun call_control :: "dispatch_call \<Rightarrow> string" where
  "call_control (Claim b g capability insert_us now_us) = control_binding b"
| "call_control (Begin a g control capability spec now_us) = control"
| "call_control (Redeem a g control capability completion spec now_us) = control"
| "call_control (Activate a g control request now_us) = control"
| "call_control (Complete a g control capability mcp close now_us) = control"
| "call_control (Mark_unknown a g control capability now_us) = control"
| "call_control (Terminalize a g control spec now_us) = control"
| "call_control (Resolve a control now_us) = control"

fun call_time :: "dispatch_call \<Rightarrow> int" where
  "call_time (Claim b g capability insert_us now_us) = now_us"
| "call_time (Begin a g control capability spec now_us) = now_us"
| "call_time (Redeem a g control capability completion spec now_us) = now_us"
| "call_time (Activate a g control request now_us) = now_us"
| "call_time (Complete a g control capability mcp close now_us) = now_us"
| "call_time (Mark_unknown a g control capability now_us) = now_us"
| "call_time (Terminalize a g control spec now_us) = now_us"
| "call_time (Resolve a control now_us) = now_us"

text \<open>The outcomes each control accepts, in the order of its list.\<close>

fun call_outcomes :: "dispatch_call \<Rightarrow> transition_outcome list" where
  "call_outcomes (Claim b g capability insert_us now_us) =
     [ALREADY_TERMINAL_OR_EXECUTING, AUTHORITY_NOT_CURRENT, DISPATCH_GRANTED]"
| "call_outcomes (Begin a g control capability spec now_us) =
     [ALREADY_EXECUTING_DO_NOT_START, ALREADY_TERMINAL, AUTHORITY_NOT_CURRENT, EXECUTION_STARTED]"
| "call_outcomes (Redeem a g control capability completion spec now_us) =
     [ALREADY_REDEEMED_DO_NOT_DELIVER, ALREADY_TERMINAL_DO_NOT_DELIVER, AUTHORITY_NOT_CURRENT, REDEEMED]"
| "call_outcomes (Activate a g control request now_us) =
     [ACTIVATION_ALREADY_CONSUMED, ACTIVATION_GRANTED, ACTIVATION_NOT_AUTHORIZED]"
| "call_outcomes (Complete a g control capability mcp close now_us) = [DISPATCH_COMPLETED]"
| "call_outcomes (Mark_unknown a g control capability now_us) = [UNKNOWN_RECORDED]"
| "call_outcomes (Terminalize a g control spec now_us) = [ALREADY_TERMINAL, EXPIRED_RECORDED, NOT_EXPIRED, UNKNOWN_RECORDED]"
| "call_outcomes (Resolve a control now_us) = [RESOLVED, RESOLVED_ABSENT]"

text \<open>A result is a view of a row of the table, or says that there is none.\<close>

definition views :: "dispatch_result \<Rightarrow> control_row \<Rightarrow> bool" where
  "views r c \<longleftrightarrow> rw_authorization r = c_auth c \<and> rw_grant r = Some (grant_id c) \<and>
     rw_binding r = control_binding (bound c) \<and> rw_state r = Some (dstate c) \<and>
     rw_expires_at r = Some (lapses_at (bound c)) \<and> rw_worker_spec r = Some (worker_spec (bound c)) \<and>
     rw_mcp_result r = mcp_result c \<and> rw_session_close r = session_close c"

definition absent_view :: "dispatch_result \<Rightarrow> bool" where
  "absent_view r \<longleftrightarrow> rw_grant r = None \<and> rw_state r = None \<and> rw_expires_at r = None \<and> rw_worker_spec r = None \<and>
     rw_mcp_result r = None \<and> rw_session_close r = None \<and> rw_outcome r = RESOLVED_ABSENT"

lemma views_result_of [simp]: "views (result_of c out t) c"
  by (simp add: views_def result_of_def)

lemma result_of_fields [simp]: "rw_outcome (result_of c out t) = out" "rw_now (result_of c out t) = t"
  by (simp_all add: result_of_def)

text \<open>Whatever a function returns, the row it shows is the row of the authorization after the call.\<close>

definition shows_row :: "dispatch_call \<Rightarrow> dispatch_db \<Rightarrow> dispatch_result \<Rightarrow> bool" where
  "shows_row call db' r \<longleftrightarrow> rw_authorization r = call_authorization call \<and> rw_binding r = call_control call \<and>
     rw_now r = call_time call \<and> rw_outcome r \<in> set (call_outcomes call) \<and>
     (absent_view r \<or> rw_outcome r \<noteq> RESOLVED_ABSENT \<and> (\<exists>c \<in> set (controls db'). views r c))"

lemma shows_advanced:
  assumes adv: "advanced db a c c' db'" and r: "r = result_of c' out now_us"
    and call: "a = call_authorization call" "control_binding (bound c) = call_control call" "now_us = call_time call"
    and out: "out \<in> set (call_outcomes call)" "out \<noteq> RESOLVED_ABSENT"
  shows "shows_row call db' r"
proof -
  note rows = advanced_rows [OF adv]
  have "bound c' = bound c" using adv by (simp add: advanced_def same_identity_def)
  moreover have "c' \<in> set (controls db')" using rows(3) by simp
  moreover have "views r c'" by (simp add: r)
  moreover have "c_auth c' = a" by (rule rows(6))
  ultimately show ?thesis using call out unfolding shows_row_def
    by (auto simp: r result_of_def)
qed

lemma activate_shows:
  assumes "activate_dispatch user a g control request now_us db = Inr (db', r)"
  shows "\<exists>c. controls_of db a = [c] \<and> grant_id c = g \<and> control_binding (bound c) = control \<and> controls db' = controls db \<and>
    views r c \<and> rw_now r = now_us \<and>
    (if dstate c \<noteq> CREDENTIAL_REDEEMED \<or> \<not> current (bound c) now_us
     then rw_outcome r = ACTIVATION_NOT_AUTHORIZED \<and> rw_activated_at r = None \<and> rw_activation_request r = None
     else rw_outcome r \<in> {ACTIVATION_ALREADY_CONSUMED, ACTIVATION_GRANTED} \<and> rw_activation_request r = Some request \<and>
       (\<exists>x \<in> set (activations db'). rw_activated_at r = Some (ac_activated_at x) \<and> ac_authorization x = a \<and>
         (rw_outcome r = ACTIVATION_GRANTED \<longrightarrow> ac_activated_at x = now_us) \<and>
         (rw_outcome r = ACTIVATION_ALREADY_CONSUMED \<longrightarrow> x \<in> set (activations db))))"
proof -
  let ?x = "\<lparr>ac_authorization = a, ac_grant = g, ac_binding = control, ac_request = request, ac_activated_at = now_us\<rparr>"
  let ?stale = "\<lambda>c. dstate c \<noteq> CREDENTIAL_REDEEMED \<or> \<not> current (bound c) now_us"
  let ?rest = "\<lambda>c d inserted. (case filter (\<lambda>x. ac_authorization x = a) (activations d) of
       x # _ \<Rightarrow>
         if ac_grant x \<noteq> g \<or> ac_binding x \<noteq> control \<or> ac_request x \<noteq> request
         then sql_raise ''22023'' ''provider activation replay conflict''
         else Inr (d, (result_of c (if inserted then ACTIVATION_GRANTED else ACTIVATION_ALREADY_CONSUMED) now_us)
           \<lparr>rw_activated_at := Some (ac_activated_at x), rw_activation_request := Some (ac_request x)\<rparr>)
     | [] \<Rightarrow> Inr (d, result_of c (if inserted then ACTIVATION_GRANTED else ACTIVATION_ALREADY_CONSUMED) now_us))"
  from assms obtain c where one: "controls_of db a = [c]" and ok: "grant_id c = g" "control_binding (bound c) = control"
    and rest: "(if ?stale c then Inr (db, result_of c ACTIVATION_NOT_AUTHORIZED now_us)
     else and_then (insert_activation ?x db) (\<lambda>(d, inserted). ?rest c d inserted)) = Inr (db', r)"
    unfolding activate_dispatch_def sql_guard_Inr and_then_eq_Inr select_control_Inr by auto
  show ?thesis
  proof (cases "?stale c")
    case True
    with rest have "db' = db" "r = result_of c ACTIVATION_NOT_AUTHORIZED now_us" by auto
    with True one ok show ?thesis by (intro exI [of _ c]) (simp add: result_of_def views_def)
  next
    case False
    with rest have "and_then (insert_activation ?x db) (\<lambda>(d, inserted). ?rest c d inserted) = Inr (db', r)"
      by (simp only: if_False)
    then obtain d inserted where ins: "insert_activation ?x db = Inr (d, inserted)" and r: "?rest c d inserted = Inr (db', r)"
      unfolding and_then_eq_Inr by auto
    from ins have same: "controls d = controls db" and
      new: "filter (\<lambda>x. ac_authorization x = a) (activations d) \<noteq> []"
        "inserted \<Longrightarrow> filter (\<lambda>x. ac_authorization x = a) (activations d) = [?x]" "\<not> inserted \<Longrightarrow> d = db"
      by (auto simp: insert_activation_def filter_empty_conv list_ex_iff split: if_split_asm)
    from new(1) obtain x xs where x: "filter (\<lambda>x. ac_authorization x = a) (activations d) = x # xs"
      by (cases "filter (\<lambda>x. ac_authorization x = a) (activations d)") auto
    then have "x \<in> set (filter (\<lambda>x. ac_authorization x = a) (activations d))" by simp
    then have in_d: "x \<in> set (activations d)" "ac_authorization x = a" by simp_all
    have "inserted \<Longrightarrow> x = ?x" using new(2) x by simp
    then have t: "inserted \<Longrightarrow> ac_activated_at x = now_us" by simp
    from r x have "ac_request x = request" "d = db'" and
      r': "r = (result_of c (if inserted then ACTIVATION_GRANTED else ACTIVATION_ALREADY_CONSUMED) now_us)
           \<lparr>rw_activated_at := Some (ac_activated_at x), rw_activation_request := Some (ac_request x)\<rparr>"
      by (auto split: if_split_asm)
    with False one ok same in_d t new(3) show ?thesis
      by (intro exI [of _ c]) (auto simp: result_of_def views_def)
  qed
qed

lemma resolve_shows:
  assumes "resolve_dispatch user a control now_us db = Inr r"
  shows "shows_row (Resolve a control now_us) db r"
proof -
  from assms consider (none) "controls_of db a = []" "absent_view r" "rw_authorization r = a" "rw_binding r = control" "rw_now r = now_us"
    | (row) c where "controls_of db a = [c]" "control_binding (bound c) = control" "r = result_of c RESOLVED now_us"
    by (auto simp: resolve_dispatch_def absent_view_def split: if_split_asm list.split_asm)
  then show ?thesis
  proof cases
    case none
    then show ?thesis by (simp add: shows_row_def absent_view_def)
  next
    case row
    then show ?thesis by (intro shows_advanced [OF advanced_refl [OF row(1)] row(3)]) simp_all
  qed
qed

lemma apply_shows:
  assumes app: "dispatch_apply sha user call db = Inr (db', r)"
  shows "shows_row call db' r"
proof (cases call)
  case (Claim b g capability insert_us now_us)
  with app have "claim_dispatch user b g capability insert_us now_us db = Inr (db', r)" by simp
  from claim_effect [OF this] show ?thesis
    by (elim exE conjE) (erule (1) shows_advanced, auto simp: Claim claim_outcome_def)
next
  case (Begin a g control capability spec now_us)
  with app have "begin_dispatch sha user a g control capability spec now_us db = Inr (db', r)" by simp
  from begin_effect [OF this] show ?thesis
    by (elim exE conjE) (erule (1) shows_advanced, auto simp: Begin split: if_split_asm)
next
  case (Redeem a g control capability completion spec now_us)
  with app have "redeem_dispatch sha user a g control capability completion spec now_us db = Inr (db', r)" by simp
  from redeem_effect [OF this] show ?thesis
    by (elim exE conjE) (erule (1) shows_advanced, auto simp: Redeem split: if_split_asm)
next
  case (Activate a g control request now_us)
  with app have "activate_dispatch user a g control request now_us db = Inr (db', r)" by simp
  from activate_shows [OF this] obtain c where c: "controls_of db a = [c]" "control_binding (bound c) = control"
      "controls db' = controls db" "views r c" "rw_now r = now_us"
      "rw_outcome r \<in> {ACTIVATION_NOT_AUTHORIZED, ACTIVATION_ALREADY_CONSUMED, ACTIVATION_GRANTED}"
    by (auto split: if_split_asm)
  with controls_of_in [OF c(1)] show ?thesis
    by (auto simp: shows_row_def Activate views_def)
next
  case (Complete a g control capability mcp close now_us)
  with app have "complete_dispatch sha user a g control capability mcp close now_us db = Inr (db', r)" by simp
  from complete_effect [OF this] show ?thesis
    by (elim exE conjE) (erule (1) shows_advanced, auto simp: Complete)
next
  case (Mark_unknown a g control capability now_us)
  with app have "mark_unknown_dispatch sha user a g control capability now_us db = Inr (db', r)" by simp
  from mark_unknown_effect [OF this] show ?thesis
    by (elim exE conjE) (erule (1) shows_advanced, auto simp: Mark_unknown)
next
  case (Terminalize a g control spec now_us)
  with app have "terminalize_dispatch user a g control spec now_us db = Inr (db', r)" by simp
  from terminalize_effect [OF this] show ?thesis
    by (elim exE conjE) (erule (1) shows_advanced, auto simp: Terminalize split: if_split_asm)
next
  case (Resolve a control now_us)
  with app resolve_shows show ?thesis by (auto simp: map_sum_eq_Inr)
qed

end
