(* ===== verification/Dispatch_Client_Props.thy ===== *)
theory Dispatch_Client_Props
  imports Dispatch_Wire Dispatch_Props
begin

text \<open>
  The properties of the JavaScript side of provider dispatch and of its agreement with
  the stored functions.
\<close>

section \<open>The shapes the clients keep\<close>

lemma row_shaped_step:
  assumes "row_shaped c" and "same_identity c c'" and "c' = c \<or> control_check c'"
    and "dstate c' = COMPLETED \<Longrightarrow> c' = c \<or> all_hex (mcp_result c') \<and> all_hex (session_close c')"
  shows "row_shaped c'"
proof (cases "c' = c \<or> dstate c' = COMPLETED")
  case True
  with assms show ?thesis by (auto simp: row_shaped_def same_identity_def)
next
  case False
  with assms(3) have "state_check c'" by (simp add: control_check_def)
  with False have "mcp_result c' = None \<and> session_close c' = None"
    by (simp add: state_check_def split: dispatch_state.splits)
  with assms(1,2) show ?thesis by (simp add: row_shaped_def same_identity_def all_hex_def)
qed

lemma advanced_shaped:
  assumes shaped: "rows_shaped db" and adv: "advanced db a c c' db'"
    and fin: "dstate c' = COMPLETED \<Longrightarrow> c' = c \<or> all_hex (mcp_result c') \<and> all_hex (session_close c')"
  shows "rows_shaped db'"
proof -
  note rows = advanced_rows [OF adv]
  have "row_shaped c" using shaped rows(4) by (simp add: rows_shaped_def list_all_iff)
  moreover have "same_identity c c'" "c' = c \<or> control_check c'" using adv by (auto simp: advanced_def)
  ultimately have "row_shaped c'" using fin by (rule row_shaped_step)
  then show ?thesis using shaped rows(3) by (auto simp: rows_shaped_def list_all_iff)
qed

lemma new_control_shaped:
  "uuid_shape g \<Longrightarrow> hex_64 (worker_spec b) \<Longrightarrow> row_shaped (new_control b g capability t)"
  by (simp add: row_shaped_def new_control_def all_hex_def)

lemma claim_shaped:
  assumes shaped: "rows_shaped db" and call: "uuid_shape g" "hex_64 (worker_spec b)"
    and claim: "claim_dispatch user b g capability insert_us now_us db = Inr (db', r)"
  shows "rows_shaped db'"
proof -
  from claim_effect [OF claim] obtain db1 db2 c c' where occ: "insert_occupancy b db = Inr db1"
    and ins: "if claim_matches b db1 = [] then insert_control (new_control b g capability insert_us) db1 = Inr db2 else db2 = db1"
    and adv: "advanced db2 (authorization_id b) c c' db'"
    and st: "if dstate c = GRANTED \<and> \<not> current b now_us then dstate c' = EXPIRED else c' = c" by blast
  have one: "rows_shaped db1" using occ shaped by (auto simp: insert_occupancy_def rows_shaped_def split: if_split_asm)
  have two: "rows_shaped db2"
    using one ins new_control_shaped [OF call]
    by (auto simp: insert_control_def rows_shaped_def split: if_split_asm)
  show ?thesis by (rule advanced_shaped [OF two adv]) (use st in \<open>auto split: if_split_asm\<close>)
qed

lemma apply_shaped:
  assumes shaped: "rows_shaped db" and call: "call_shaped call"
    and app: "dispatch_apply sha user call db = Inr (db', r)"
  shows "rows_shaped db'"
proof (cases call)
  case (Claim b g capability insert_us now_us)
  with app call show ?thesis by (auto intro: claim_shaped [OF shaped])
next
  case (Begin a g control capability spec now_us)
  with app have "begin_dispatch sha user a g control capability spec now_us db = Inr (db', r)" by simp
  from begin_effect [OF this] show ?thesis
    by (elim exE conjE) (erule advanced_shaped [OF shaped], auto split: if_split_asm)
next
  case (Redeem a g control capability completion spec now_us)
  with app have "redeem_dispatch sha user a g control capability completion spec now_us db = Inr (db', r)" by simp
  from redeem_effect [OF this] show ?thesis
    by (elim exE conjE) (erule advanced_shaped [OF shaped], auto split: if_split_asm)
next
  case (Activate a g control request now_us)
  with app have "activate_dispatch user a g control request now_us db = Inr (db', r)" by simp
  from activate_shows [OF this] shaped show ?thesis by (auto simp: rows_shaped_def)
next
  case (Complete a g control capability mcp close now_us)
  with app have "complete_dispatch sha user a g control capability mcp close now_us db = Inr (db', r)" by simp
  from complete_effect [OF this] call show ?thesis unfolding Complete
    by (elim exE conjE) (erule advanced_shaped [OF shaped], simp add: all_hex_def)
next
  case (Mark_unknown a g control capability now_us)
  with app have "mark_unknown_dispatch sha user a g control capability now_us db = Inr (db', r)" by simp
  from mark_unknown_effect [OF this] show ?thesis
    by (elim exE conjE) (erule advanced_shaped [OF shaped], simp)
next
  case (Terminalize a g control spec now_us)
  with app have "terminalize_dispatch user a g control spec now_us db = Inr (db', r)" by simp
  from terminalize_effect [OF this] show ?thesis
    by (elim exE conjE) (erule advanced_shaped [OF shaped], auto split: if_split_asm)
next
  case (Resolve a control now_us)
  with app shaped show ?thesis by (auto simp: map_sum_eq_Inr)
qed

text \<open>A call of a client: its arguments passed the checks of its control.\<close>

definition client_step ::
    "(string \<Rightarrow> string) \<Rightarrow> dispatch_db \<Rightarrow> dispatch_call \<times> (sql_error + dispatch_result) \<Rightarrow> dispatch_db \<Rightarrow> bool" where
  "client_step sha db l db' \<longleftrightarrow> call_shaped (fst l) \<and> dispatch_step sha db l db'"

lemma client_step_shaped: "rows_shaped db \<Longrightarrow> client_step sha db l db' \<Longrightarrow> rows_shaped db'"
  by (auto simp: client_step_def elim!: dispatch_stepE dest: apply_shaped)

interpretation client_machine: invariant_machine "client_step sha" "\<lambda>db. db_ok db \<and> rows_shaped db"
  by unfold_locales (auto simp: client_step_def intro: dispatch_step_ok client_step_shaped [unfolded client_step_def])

section \<open>Accepted rows\<close>

text \<open>The binding names the expiry the row holds: their digests are equal, and the digest covers the expiry.\<close>

definition expiry_known :: "(int \<Rightarrow> int) \<Rightarrow> jsv \<Rightarrow> dispatch_db \<Rightarrow> bool" where
  "expiry_known ms binding db \<longleftrightarrow>
     (\<forall>c \<in> set (controls db). fld binding ''controlBindingSha256'' = Str (control_binding (bound c)) \<longrightarrow>
        (\<exists>s. to_iso_string (ms (lapses_at (bound c))) = Some s \<and> fld binding ''expiresAt'' = Str s))"

lemma exact_wrapper_columns [simp]: "exact_keys (Obj (wrapper_columns ms r)) result_keys"
  by (rule exact_keys_perm) (simp add: wrapper_columns_def result_keys_def)

lemma js_includes_states [simp]: "js_includes control_states (Str (state_text s))"
  by (cases s rule: state_text.cases) (simp_all add: state_text.simps js_includes_def control_states_def)

lemma js_includes_outcomes: "out \<in> set outs \<Longrightarrow> js_includes (map outcome_text outs) (Str (outcome_text out))"
  by (auto simp: js_includes_def list_ex_iff)

declare state_text.simps [simp del]

lemma state_text_eq [simp]:
  "state_text s = ''ABSENT'' \<longleftrightarrow> s = None" "state_text s = ''COMPLETED'' \<longleftrightarrow> s = Some COMPLETED"
  "state_text s = ''CREDENTIAL_REDEEMED'' \<longleftrightarrow> s = Some CREDENTIAL_REDEEMED"
  by (cases s rule: state_text.cases; simp add: state_text.simps)+

lemma outcome_text_inj [simp]: "outcome_text a = outcome_text b \<longleftrightarrow> a = b"
  by (cases a; cases b; simp)

lemma outcome_text_absent [simp]: "outcome_text a = ''RESOLVED_ABSENT'' \<longleftrightarrow> a = RESOLVED_ABSENT"
  using outcome_text_inj [of a RESOLVED_ABSENT] by (simp del: outcome_text_inj)

lemma wrapper_fields [simp]:
  "fld (Obj (wrapper_columns ms r)) ''authorization_id'' = Str (rw_authorization r)"
  "fld (Obj (wrapper_columns ms r)) ''grant_id'' = column (rw_grant r)"
  "fld (Obj (wrapper_columns ms r)) ''control_binding_sha256'' = Str (rw_binding r)"
  "fld (Obj (wrapper_columns ms r)) ''state'' = Str (state_text (rw_state r))"
  "fld (Obj (wrapper_columns ms r)) ''transition_outcome'' = Str (outcome_text (rw_outcome r))"
  "fld (Obj (wrapper_columns ms r)) ''database_now'' = DateV (Some (ms (rw_now r)))"
  "fld (Obj (wrapper_columns ms r)) ''expires_at'' = time_column ms (rw_expires_at r)"
  "fld (Obj (wrapper_columns ms r)) ''worker_spec_sha256'' = column (rw_worker_spec r)"
  "fld (Obj (wrapper_columns ms r)) ''mcp_result_sha256'' = column (rw_mcp_result r)"
  "fld (Obj (wrapper_columns ms r)) ''session_close_sha256'' = column (rw_session_close r)"
  by (simp_all add: wrapper_columns_def)

lemma one_row_fields [simp]:
  "index0 (fld (one_row columns) ''rows'') = Obj columns" "strict_eq (fld (one_row columns) ''rowCount'') (Num (Fin 1))"
  by (simp_all add: one_row_def)

lemma iso_of_date_date [simp]: "iso_of_date E (DateV (Some t)) = to_iso_string t"
  by (simp add: iso_of_date_def)

lemma column_simps [simp]: "column None = Null" "column (Some s) = Str s" "time_column ms None = Null"
    "time_column ms (Some t) = DateV (Some (ms t))" "column v = Null \<longleftrightarrow> v = None" "column v = Str s \<longleftrightarrow> v = Some s"
  by (auto simp: column_def time_column_def split: option.splits)

lemma optional_digest_column [simp]: "optional_digest (column v) \<longleftrightarrow> all_hex v"
    "optional_digest Null" "optional_digest (Str s) \<longleftrightarrow> hex_64 s"
  by (auto simp: optional_digest_def all_hex_def split: option.splits)

lemma absent_row_accepted:
  assumes "absent_view r" and "fld binding ''authorizationId'' = Str (rw_authorization r)"
    and "fld binding ''controlBindingSha256'' = Str (rw_binding r)"
    and "to_iso_string (ms (rw_now r)) \<noteq> None" and "rw_outcome r \<in> set outs"
  shows "result_ok E (one_row (wrapper_columns ms r)) binding (map outcome_text outs)"
  using assms js_includes_outcomes [of RESOLVED_ABSENT outs] unfolding result_ok_def Let_def absent_view_def
  by (simp add: all_hex_def del: fld.simps)

lemma row_accepted:
  assumes view: "views r c" and shaped: "row_shaped c" and check: "control_check c"
    and auth: "fld binding ''authorizationId'' = Str (rw_authorization r)"
    and control: "fld binding ''controlBindingSha256'' = Str (rw_binding r)"
    and now: "to_iso_string (ms (rw_now r)) \<noteq> None"
    and expiry: "to_iso_string (ms (lapses_at (bound c))) = Some s" "fld binding ''expiresAt'' = Str s"
    and out: "rw_outcome r \<in> set outs" "rw_outcome r \<noteq> RESOLVED_ABSENT"
  shows "result_ok E (one_row (wrapper_columns ms r)) binding (map outcome_text outs)"
proof -
  have hex: "all_hex (mcp_result c)" "all_hex (session_close c)" using shaped by (simp_all add: row_shaped_def)
  have fin: "if dstate c = COMPLETED then \<exists>m d. mcp_result c = Some m \<and> session_close c = Some d
      else mcp_result c = None \<and> session_close c = None"
    using check by (auto simp: control_check_def state_check_def len64_def split: dispatch_state.splits option.splits)
  have row: "uuid_shape (grant_id c)" "hex_64 (worker_spec (bound c))" using shaped by (simp_all add: row_shaped_def)
  show ?thesis
    using view auth control now expiry out row fin hex unfolding result_ok_def Let_def views_def
    by (cases "dstate c = COMPLETED") (auto simp: js_includes_outcomes text_or_null_def all_hex_def simp del: fld.simps)
qed

text \<open>The validator turns a row of the stored functions into the fields its callers read.\<close>

lemma call_accepted:
  assumes ok: "db_ok db'" and shaped: "rows_shaped db'" and shows': "shows_row call db' r"
    and binding: "validate_binding E v = Inr binding"
    and auth: "fld binding ''authorizationId'' = Str (call_authorization call)"
    and control: "fld binding ''controlBindingSha256'' = Str (call_control call)"
    and expiry: "expiry_known ms binding db'" and now: "to_iso_string (ms (call_time call)) \<noteq> None"
  shows "validate_result E (one_row (wrapper_columns ms r)) v (map outcome_text (call_outcomes call))
    = Inr (Obj (accepted_fields ms r))"
proof -
  note r = shows' [unfolded shows_row_def]
  have "result_ok E (one_row (wrapper_columns ms r)) binding (map outcome_text (call_outcomes call))"
  proof (cases "absent_view r")
    case True
    show ?thesis by (rule absent_row_accepted [OF True]) (use r auth control now in auto)
  next
    case False
    with r obtain c where c: "c \<in> set (controls db')" "views r c" and not_absent: "rw_outcome r \<noteq> RESOLVED_ABSENT" by blast
    have "control_binding (bound c) = call_control call" using c(2) r by (simp add: views_def)
    with expiry c(1) control obtain s where s: "to_iso_string (ms (lapses_at (bound c))) = Some s" "fld binding ''expiresAt'' = Str s"
      by (auto simp: expiry_known_def)
    show ?thesis
      by (rule row_accepted [where c = c and s = s])
        (use ok shaped c s r auth control now not_absent in \<open>auto simp: db_ok_def checks_ok_def rows_shaped_def list_all_iff\<close>)
  qed
  then show ?thesis
    using binding
    by (cases "rw_expires_at r") (simp_all add: validate_result_def Let_def accepted_fields_def del: fld.simps)
qed

section \<open>Activation\<close>

lemma activation_columns_exact: "exact_record (Obj (activation_columns ms r)) activation_keys"
  by (simp add: activation_columns_def wrapper_columns_def activation_keys_def result_keys_def)

lemma activation_columns_rest:
  "without_keys [''activated_at'', ''activation_request_sha256''] (Obj (activation_columns ms r)) = Obj (wrapper_columns ms r)"
  by (simp add: activation_columns_def wrapper_columns_def)

lemma activation_fields:
  "fld (Obj (activation_columns ms r)) ''activated_at'' = time_column ms (rw_activated_at r)"
  "fld (Obj (activation_columns ms r)) ''activation_request_sha256'' = column (rw_activation_request r)"
  by (simp_all add: activation_columns_def)

lemma accepted_field_simps:
  "fld (Obj (accepted_fields ms r @ more')) ''grantId'' = column (rw_grant r)"
  "fld (Obj (accepted_fields ms r @ more')) ''workerSpecSha256'' = column (rw_worker_spec r)"
  "fld (Obj (accepted_fields ms r @ more')) ''state'' = Str (state_text (rw_state r))"
  "fld (Obj (accepted_fields ms r @ more')) ''transitionOutcome'' = Str (outcome_text (rw_outcome r))"
  "fld (Obj (accepted_fields ms r @ more')) ''databaseNow'' = text_or_null (to_iso_string (ms (rw_now r)))"
  by (simp_all add: accepted_fields_def)

lemmas accepted_field_simps0 = accepted_field_simps [where more' = "[]", unfolded append_Nil2]

lemma one_row_eq: "Obj [(''rowCount'', int_num 1), (''rows'', Arr [Obj columns])] = one_row columns"
  by (simp add: one_row_def)

text \<open>The fields the activating control returns.\<close>

definition activation_answer :: "(int \<Rightarrow> int) \<Rightarrow> dispatch_result \<Rightarrow> jsv" where
  "activation_answer ms r = Obj (accepted_fields ms r @
     [(''activatedAt'', text_or_null (case rw_activated_at r of None \<Rightarrow> None | Some t \<Rightarrow> to_iso_string (ms t))),
      (''activationDisposition'', Str (if rw_outcome r = ACTIVATION_GRANTED then ''DELIVER_CREDENTIAL_ONCE''
         else ''DO_NOT_DELIVER_CREDENTIAL''))])"

lemma outcome_text_activation [simp]:
  "outcome_text a = ''ACTIVATION_GRANTED'' \<longleftrightarrow> a = ACTIVATION_GRANTED"
  "outcome_text a = ''ACTIVATION_ALREADY_CONSUMED'' \<longleftrightarrow> a = ACTIVATION_ALREADY_CONSUMED"
  "outcome_text a = ''ACTIVATION_NOT_AUTHORIZED'' \<longleftrightarrow> a = ACTIVATION_NOT_AUTHORIZED"
  using outcome_text_inj [of a ACTIVATION_GRANTED] outcome_text_inj [of a ACTIVATION_ALREADY_CONSUMED]
    outcome_text_inj [of a ACTIVATION_NOT_AUTHORIZED]
  by (simp_all del: outcome_text_inj)

lemma to_iso_string_Some [simp]: "\<bar>t\<bar> \<le> max_time \<Longrightarrow> to_iso_string t = Some (iso_text t)"
  by (simp add: to_iso_string_def)

definition window_known :: "jsv \<Rightarrow> int \<Rightarrow> int \<Rightarrow> bool" where
  "window_known binding ti te \<longleftrightarrow> fld binding ''issuedAt'' = Str (iso_text ti) \<and> fld binding ''expiresAt'' = Str (iso_text te) \<and>
     \<bar>ti\<bar> \<le> max_time \<and> \<bar>te\<bar> \<le> max_time"

lemma window_agrees:
  "issued_at b = 1000 * ti \<Longrightarrow> lapses_at b = 1000 * te \<Longrightarrow>
   current b now_us \<longleftrightarrow> ti \<le> now_us div 1000 \<and> now_us div 1000 < te"
  unfolding current_def by linarith

lemma activation_of_row_eq:
  assumes valid: "validate_result E (one_row (wrapper_columns ms r)) binding
      [''ACTIVATION_ALREADY_CONSUMED'', ''ACTIVATION_GRANTED'', ''ACTIVATION_NOT_AUTHORIZED'']
    = Inr (Obj (accepted_fields ms r))"
    and act: "case rw_activated_at r of None \<Rightarrow> True | Some t \<Rightarrow> \<bar>ms t\<bar> \<le> max_time"
  shows "activation_of_row E (one_row (activation_columns ms r)) binding inp =
    (let at' = text_or_null (case rw_activated_at r of None \<Rightarrow> None | Some t \<Rightarrow> to_iso_string (ms t));
         now = text_or_null (to_iso_string (ms (rw_now r)))
     in if \<not> strict_eq (column (rw_grant r)) (fld inp ''grantId'')
         \<or> \<not> strict_eq (column (rw_worker_spec r)) (fld inp ''workerSpecSha256'')
         \<or> (if rw_outcome r = ACTIVATION_GRANTED \<or> rw_outcome r = ACTIVATION_ALREADY_CONSUMED
            then \<not> strict_eq (column (rw_activation_request r)) (fld inp ''activationRequestSha256'')
              \<or> at' = Null
              \<or> (rw_outcome r = ACTIVATION_GRANTED \<and> at' \<noteq> now)
              \<or> (rw_outcome r = ACTIVATION_ALREADY_CONSUMED \<and> time_less (parse_text E now) (parse_text E at'))
            else rw_activation_request r \<noteq> None \<or> at' \<noteq> Null)
      then reject ''provider activation database result identity mismatch''
      else activation_result E (Obj (accepted_fields ms r @ [(''activatedAt'', at')])) binding)"
proof -
  show ?thesis
  proof (cases "rw_activated_at r")
    case None
    then show ?thesis
      unfolding activation_of_row_def Let_def one_row_fields(1) activation_columns_rest one_row_eq valid and_then_Inr
        activation_fields
      by (simp add: activation_columns_exact accepted_field_simps0 text_or_null_def
        del: fld.simps exact_record.simps)
  next
    case (Some t)
    with act show ?thesis
      unfolding activation_of_row_def Let_def one_row_fields(1) activation_columns_rest one_row_eq valid and_then_Inr
        activation_fields
      by (simp add: activation_columns_exact accepted_field_simps0 text_or_null_def
        del: fld.simps exact_record.simps)
  qed
qed

lemma activation_result_eq:
  assumes dates: "js_dates (date_parse E)" and window: "window_known binding ti te" and now: "\<bar>ms (rw_now r)\<bar> \<le> max_time"
    and agree: "rw_outcome r \<in> {ACTIVATION_GRANTED, ACTIVATION_ALREADY_CONSUMED} \<longleftrightarrow>
      rw_state r = Some CREDENTIAL_REDEEMED \<and> ti \<le> ms (rw_now r) \<and> ms (rw_now r) < te"
    and out: "rw_outcome r \<in> {ACTIVATION_GRANTED, ACTIVATION_ALREADY_CONSUMED, ACTIVATION_NOT_AUTHORIZED}"
  shows "activation_result E (Obj (accepted_fields ms r @ more')) binding
    = Inr (Obj (accepted_fields ms r @ more' @ [(''activationDisposition'',
        Str (if rw_outcome r = ACTIVATION_GRANTED then ''DELIVER_CREDENTIAL_ONCE'' else ''DO_NOT_DELIVER_CREDENTIAL''))]))"
proof -
  have parse: "date_parse E (iso_text t) = Some t" if "\<bar>t\<bar> \<le> max_time" for t
    using js_dates.parse_iso_text [OF dates that] .
  from out consider "rw_outcome r = ACTIVATION_GRANTED" | "rw_outcome r = ACTIVATION_ALREADY_CONSUMED"
    | "rw_outcome r = ACTIVATION_NOT_AUTHORIZED" by blast
  then show ?thesis
    using agree now window unfolding activation_result_def Let_def accepted_field_simps window_known_def
    by cases (simp_all add: parse time_le_def time_less_def text_or_null_def del: fld.simps)
qed

lemma row_answer:
  assumes dates: "js_dates (date_parse E)"
    and act: "activate_dispatch user a g control q now_us db = Inr (db', r)"
    and ok: "db_ok db'" "rows_shaped db'"
    and binding: "validate_binding E binding = Inr binding"
    and auth: "fld binding ''authorizationId'' = Str a" "fld binding ''controlBindingSha256'' = Str control"
    and window: "window_known binding ti te"
    and rows: "\<And>c. c \<in> set (controls db') \<Longrightarrow> control_binding (bound c) = control \<Longrightarrow>
      issued_at (bound c) = 1000 * ti \<and> lapses_at (bound c) = 1000 * te \<and> worker_spec (bound c) = w"
    and now: "\<bar>now_us div 1000\<bar> \<le> max_time"
    and past: "\<And>x. x \<in> set (activations db) \<Longrightarrow> ac_activated_at x \<le> now_us \<and> \<bar>ac_activated_at x div 1000\<bar> \<le> max_time"
    and inp: "fld inp ''grantId'' = Str g" "fld inp ''workerSpecSha256'' = Str w" "fld inp ''activationRequestSha256'' = Str q"
  shows "activation_of_row E (one_row (activation_columns (\<lambda>t. t div 1000) r)) binding inp
    = Inr (activation_answer (\<lambda>t. t div 1000) r)"
proof -
  let ?ms = "\<lambda>t. t div 1000 :: int"
  from activate_shows [OF act] obtain c where c: "controls_of db a = [c]" "grant_id c = g" "control_binding (bound c) = control"
      "controls db' = controls db" "views r c" "rw_now r = now_us"
    and out: "if dstate c \<noteq> CREDENTIAL_REDEEMED \<or> \<not> current (bound c) now_us
     then rw_outcome r = ACTIVATION_NOT_AUTHORIZED \<and> rw_activated_at r = None \<and> rw_activation_request r = None
     else rw_outcome r \<in> {ACTIVATION_ALREADY_CONSUMED, ACTIVATION_GRANTED} \<and> rw_activation_request r = Some q \<and>
       (\<exists>x \<in> set (activations db'). rw_activated_at r = Some (ac_activated_at x) \<and> ac_authorization x = a \<and>
         (rw_outcome r = ACTIVATION_GRANTED \<longrightarrow> ac_activated_at x = now_us) \<and>
         (rw_outcome r = ACTIVATION_ALREADY_CONSUMED \<longrightarrow> x \<in> set (activations db)))" by blast
  have in_db: "c \<in> set (controls db')" using controls_of_in [OF c(1)] c(4) by simp
  from rows [OF in_db c(3)] have row: "issued_at (bound c) = 1000 * ti" "lapses_at (bound c) = 1000 * te" "worker_spec (bound c) = w"
    by simp_all
  have known: "expiry_known ?ms binding db'" using rows auth(2) window
    by (auto simp: expiry_known_def window_known_def)
  have "dispatch_apply sha user (Activate a g control q now_us) db = Inr (db', r)" for sha using act by simp
  from call_accepted [OF ok apply_shows [OF this] binding _ _ known] auth now
  have valid: "validate_result E (one_row (wrapper_columns ?ms r)) binding
      [''ACTIVATION_ALREADY_CONSUMED'', ''ACTIVATION_GRANTED'', ''ACTIVATION_NOT_AUTHORIZED'']
    = Inr (Obj (accepted_fields ?ms r))" by simp
  have parse: "date_parse E (iso_text t) = Some t" if "\<bar>t\<bar> \<le> max_time" for t
    using js_dates.parse_iso_text [OF dates that] .
  have out_set: "rw_outcome r \<in> {ACTIVATION_GRANTED, ACTIVATION_ALREADY_CONSUMED, ACTIVATION_NOT_AUTHORIZED}"
    using out by (auto split: if_split_asm)
  have agree: "rw_outcome r \<in> {ACTIVATION_GRANTED, ACTIVATION_ALREADY_CONSUMED} \<longleftrightarrow>
      rw_state r = Some CREDENTIAL_REDEEMED \<and> ti \<le> ?ms (rw_now r) \<and> ?ms (rw_now r) < te"
    using out c(5,6) window_agrees [OF row(1,2)] by (auto simp: views_def split: if_split_asm)
  have past': "\<forall>x \<in> set (activations db). ?ms (ac_activated_at x) \<le> ?ms now_us \<and> \<bar>?ms (ac_activated_at x)\<bar> \<le> max_time"
    using past by (simp add: zdiv_mono1)
  have at': "case rw_activated_at r of None \<Rightarrow> True | Some t \<Rightarrow>
      \<bar>?ms t\<bar> \<le> max_time \<and> ?ms t \<le> ?ms now_us \<and> (rw_outcome r = ACTIVATION_GRANTED \<longrightarrow> t = now_us)"
    using out now past' by (auto split: if_split_asm)
  then have "case rw_activated_at r of None \<Rightarrow> True | Some t \<Rightarrow> \<bar>?ms t\<bar> \<le> max_time"
    by (simp split: option.splits)
  note eq = activation_of_row_eq [OF valid this, of inp]
  have "rw_now r = now_us" by (rule c(6))
  then have "\<bar>?ms (rw_now r)\<bar> \<le> max_time" using now by simp
  note res = activation_result_eq [where ms = ?ms, OF dates window this agree out_set]
  have r: "rw_grant r = Some g" "rw_worker_spec r = Some w" using c(2,5) row by (simp_all add: views_def)
  show ?thesis
  proof (cases "rw_activated_at r")
    case None
    then have "rw_outcome r \<notin> {ACTIVATION_GRANTED, ACTIVATION_ALREADY_CONSUMED}" "rw_activation_request r = None"
      using out by (auto split: if_split_asm)
    with None inp r show ?thesis
      unfolding eq Let_def res by (simp add: activation_answer_def text_or_null_def del: fld.simps)
  next
    case (Some t)
    then have "rw_outcome r \<in> {ACTIVATION_GRANTED, ACTIVATION_ALREADY_CONSUMED}" "rw_activation_request r = Some q"
      using out by (auto split: if_split_asm)
    with Some inp r at' c(6) now show ?thesis
      unfolding eq Let_def res
      by (auto simp: activation_answer_def text_or_null_def parse time_less_def simp del: fld.simps)
  qed
qed

lemma validate_binding_Inr:
  "validate_binding E v = Inr b \<longleftrightarrow> b = v \<and> binding_shape E v \<and>
     fld v ''controlBindingSha256'' = Str (sha256_hex E (cloud_canonical_json E (binding_body v)))"
  by (auto simp: validate_binding_def)

lemma run_query_once: "run_query db 1 ps = (case db ps 0 of Inr r \<Rightarrow> Inr r | Inl c \<Rightarrow> reject_because unavailable_code c)"
  by (simp add: run_query_def database_query_def max_safe_integer_def split: sum.split)

lemma failure_code_sql:
  "failure_code 4 (error_value unavailable_code (sql_failure (Sql_error code m))) = Some code"
  by (simp add: numeral_eq_Suc error_value_def sql_failure_def)

lemma activate_control_eq:
  assumes binding: "validate_binding E binding = Inr binding"
    and inp: "exact_record inp [''activationRequestSha256'', ''grantId'', ''workerSpecSha256'']"
      "fld inp ''grantId'' = Str g" "fld inp ''workerSpecSha256'' = Str w" "fld inp ''activationRequestSha256'' = Str q"
      "uuid_shape g" "hex_64 w" "hex_64 q"
    and auth: "fld binding ''authorizationId'' = Str a" "fld binding ''controlBindingSha256'' = Str control"
  shows "activate_control E (activate_database ms user now_us db) binding inp =
    (case activate_dispatch user a g control q now_us db of
       Inl (Sql_error code m) \<Rightarrow>
         reject_because (if code = ''22023'' \<or> code = ''42501'' then activate_rejected else activation_unknown)
           (error_value unavailable_code (sql_failure (Sql_error code m)))
     | Inr (db', r) \<Rightarrow>
         (case activation_of_row E (one_row (activation_columns ms r)) binding inp of
            Inr result \<Rightarrow> Inr result
          | Inl cause \<Rightarrow> if fld cause ''message'' = Str activation_unknown then Inl cause
              else reject_because activation_unknown cause))"
  unfolding activate_control_def binding and_then_Inr inp(2-4) auth run_query_once
  using inp(1,5-7)
  by (simp add: activate_database_def reject_because_def failure_code_sql del: fld.simps exact_record.simps failure_code.simps
    split: sum.split prod.split sql_error.split)

section \<open>A sample client\<close>

definition uid :: string where
  "uid = ''00000000-0000-1000-8000-000000000000''"

definition client_env :: jsenv where
  "client_env = \<lparr>localeCompare = compare_canonical_keys, date_parse = parse_iso, date_of_object = (\<lambda>_. None),
     sha256_hex = (\<lambda>_. hx), frac_str = (\<lambda>_. []), string_of = (\<lambda>_. []), to_number = (\<lambda>_. NaN)\<rparr>"

definition h40 :: string where
  "h40 = replicate 40 (CHR ''b'')"

definition binding_value :: jsv where
  "binding_value = Obj [(''authorizationId'', Str uid), (''controlBindingSha256'', Str hx), (''expiresAt'', Str (iso_text 100)),
     (''interactionId'', Str uid), (''issuedAt'', Str (iso_text 0)), (''logicalMcpRequestSha256'', Str hx),
     (''providerDispatchAuthorizationSha256'', Str hx), (''providerEffectKeySha256'', Str hx), (''runId'', Str uid),
     (''schemaVersion'', Str binding_schema), (''sourceBuildIdentity'', Str hx), (''sourceCommit'', Str h40),
     (''tenantId'', Str uid), (''treeDigest'', Str h40)]"

definition wire_binding :: dispatch_binding where
  "wire_binding = \<lparr>authorization_id = uid, tenant_id = uid, run_id = uid, interaction_id = uid,
     control_binding = hx, logical_request = hx, effect_key = hx, dispatch_authorization = hx,
     source_commit = h40, tree_digest = h40, build_identity = hx,
     issued_at = 0, lapses_at = 100000, worker_spec = hx\<rparr>"

definition wire_row :: control_row where
  "wire_row = \<lparr>bound = wire_binding, grant_id = uid, execution_capability = hx, completion_capability = None,
     dstate = GRANTED, granted_at = Some 1, executing_at = None, redeemed_at = None, terminal_at = None,
     mcp_result = None, session_close = None\<rparr>"

definition wire_redeemed :: control_row where
  "wire_redeemed = wire_row\<lparr>dstate := CREDENTIAL_REDEEMED, executing_at := Some 2, redeemed_at := Some 3,
     completion_capability := Some hx\<rparr>"

definition wire_db :: "control_row \<Rightarrow> dispatch_db" where
  "wire_db c = \<lparr>occupancy = [\<lparr>oc_effect_key = hx, oc_ledger = CURRENT_V2, oc_authorization = uid, oc_binding = hx\<rparr>],
     activations = [], controls = [c]\<rparr>"

lemma uid_shape [simp]: "uuid_shape uid"
  by code_simp

lemma hx_hex [simp]: "hex_64 hx"
  by code_simp

lemma h40_hex [simp]: "hex_40 h40" "length h40 = 40"
  by (code_simp, simp add: h40_def)

lemma binding_value_ok: "validate_binding client_env binding_value = Inr binding_value"
proof -
  have times: "exact_iso_text client_env (Str (iso_text t)) = Some (iso_text t)" "date_parse client_env (iso_text t) = Some t"
    if "\<bar>t\<bar> \<le> max_time" for t
    using that by (simp_all add: exact_iso_text_def client_env_def parse_iso_iso_text)
  have range: "\<bar>0\<bar> \<le> max_time" "\<bar>100\<bar> \<le> max_time" by (simp_all add: max_time_def)
  have "binding_shape client_env binding_value"
    by (simp add: binding_shape_def binding_value_def binding_keys_def times [OF range(1)] times [OF range(2)] time_le_def)
  then show ?thesis by (simp add: validate_binding_Inr) (simp add: client_env_def binding_value_def)
qed

lemma client_dates: "js_dates (date_parse client_env)"
  using iso_dates.js_dates_axioms by (simp add: client_env_def)

lemma wire_claim:
  "\<exists>r. claim_dispatch ''tp_provider_claim_user'' wire_binding uid hx 1 2 empty_db = Inr (wire_db wire_row, r) \<and>
     rw_outcome r = DISPATCH_GRANTED"
  by (simp add: dispatch_eval wire_binding_def wire_row_def wire_db_def result_of_def)

section \<open>Properties\<close>

lemma query_loop_Inr:
  "query_loop attempt k left = Inr r \<longleftrightarrow>
   (\<exists>j<left. attempt (k + j) = Inr r \<and> (\<forall>i<j. \<exists>c. attempt (k + i) = Inl c \<and> transient_failure c))"
proof (induction left arbitrary: k)
  case 0
  then show ?case by simp
next
  case (Suc left)
  have split_first: "(\<exists>j<Suc left. P j \<and> (\<forall>i<j. Q i)) \<longleftrightarrow> P 0 \<or> Q 0 \<and> (\<exists>j<left. P (Suc j) \<and> (\<forall>i<j. Q (Suc i)))"
    for P Q :: "nat \<Rightarrow> bool"
    by (auto simp: Ex_less_Suc2 All_less_Suc2)
  show ?case
  proof (cases "attempt k")
    case (Inr x)
    then show ?thesis by (subst split_first) auto
  next
    case (Inl c)
    show ?thesis
    proof (cases "transient_failure c \<and> left \<noteq> 0")
      case True
      with Inl Suc.IH [of "Suc k"] show ?thesis by (subst split_first) simp
    next
      case False
      with Inl show ?thesis by (subst split_first) auto
    qed
  qed
qed

text \<open>A query of the database client with a budget of one to five attempts returns a
  result exactly when some attempt within the budget returned it and every attempt before
  it failed with a transient failure (a serialization failure, a connection exception or
  a socket error): other failures are never retried, and the first success is the one
  returned.\<close>

theorem query_retries_only_transient:
  assumes "1 \<le> n" and "n \<le> 5" and "sql \<noteq> []"
  shows "database_query attempt (int_num n) (Arr ps) (Str sql) = Inr r \<longleftrightarrow>
    (\<exists>j<nat n. attempt j = Inr r \<and> (\<forall>i<j. \<exists>c. attempt i = Inl c \<and> transient_failure c))"
  using assms query_loop_Inr [of attempt 0 "nat n" r] by (simp add: database_query_def max_safe_integer_def)

definition flaky :: "nat \<Rightarrow> jsv + jsv" where
  "flaky k = (if k < 2 then Inl (Obj [(''code'', Str ''40001'')]) else Inr (Str ''row''))"

theorem query_retries_only_transient_witness:
  "database_query flaky (int_num 3) (Arr []) (Str ''SELECT'') = Inr (Str ''row'')"
proof -
  have "transient_failure (Obj [(''code'', Str ''40001'')])" by (simp add: transient_failure_def)
  then show ?thesis
    by (subst query_retries_only_transient) (auto simp: flaky_def intro!: exI [of _ 2])
qed

lemma empty_rows_shaped: "rows_shaped empty_db"
  by (simp add: rows_shaped_def empty_db_def)

text \<open>C27. Start from empty tables and let the clients call the stored functions in any order, with
  arguments that passed the checks of the controls. Every row a call then returns passes the
  result validation of its control, whose outcome list names every outcome the function can
  report, and the control reads from it the fields of the database row. (The binding carries
  the authorization and the digest of the call and the expiry the digest covers.)\<close>

theorem results_pass_validation:
  assumes "run (client_step sha) empty_db ls db" and "client_step sha db (call, Inr r) db'"
    and "validate_binding E v = Inr binding"
    and "fld binding ''authorizationId'' = Str (call_authorization call)"
    and "fld binding ''controlBindingSha256'' = Str (call_control call)"
    and "expiry_known ms binding db'" and "\<bar>ms (call_time call)\<bar> \<le> max_time"
  shows "validate_result E (one_row (wrapper_columns ms r)) v (map outcome_text (call_outcomes call))
    = Inr (Obj (accepted_fields ms r))"
proof -
  have ok: "db_ok db \<and> rows_shaped db"
    using client_machine.run_inv [OF assms(1)] empty_db_ok empty_rows_shaped by blast
  then have ok': "db_ok db' \<and> rows_shaped db'" using client_machine.inv_step assms(2) by blast
  have "shows_row call db' r"
    using assms(2) by (auto simp: client_step_def elim!: dispatch_returnsE intro: apply_shows)
  then show ?thesis using call_accepted [OF _ _ _ assms(3-6)] ok' assms(7) by simp
qed

theorem results_pass_validation_witness:
  "\<exists>(r :: dispatch_result). claim_dispatch ''tp_provider_claim_user'' wire_binding uid hx 1 2 empty_db = Inr (wire_db wire_row, r) \<and>
     validate_result client_env (one_row (wrapper_columns (\<lambda>t. t div 1000) r)) binding_value
       [''ALREADY_TERMINAL_OR_EXECUTING'', ''AUTHORITY_NOT_CURRENT'', ''DISPATCH_GRANTED'']
     = Inr (Obj (accepted_fields (\<lambda>t. t div 1000) r))"
proof -
  let ?call = "Claim wire_binding uid hx 1 2"
  obtain r where r: "claim_dispatch ''tp_provider_claim_user'' wire_binding uid hx 1 2 empty_db = Inr (wire_db wire_row, r)"
    using wire_claim by blast
  have step: "client_step (\<lambda>s. s) empty_db (?call, Inr r) (wire_db wire_row)"
    unfolding client_step_def
    by (intro conjI call_returns [where user = "''tp_provider_claim_user''"]) (use r in \<open>simp_all add: wire_binding_def\<close>)
  have known: "expiry_known (\<lambda>t. t div 1000) binding_value (wire_db wire_row)"
    by (simp add: expiry_known_def wire_db_def wire_row_def wire_binding_def binding_value_def max_time_def)
  have "run (client_step (\<lambda>s. s)) empty_db [] empty_db" by simp
  from results_pass_validation [OF this step binding_value_ok _ _ known] r show ?thesis
    by (simp add: binding_value_def wire_binding_def max_time_def)
qed

text \<open>C28. The activating control, run against the stored activation function, tells its caller to
  deliver the credential exactly when the database granted the activation in this call; a
  repeated or late activation is answered with the row and the order not to deliver, an input
  the database rejects is a rejection, and any other database failure is an unknown
  activation. So the control's own re-check of the window, which sees times to the
  millisecond, never disagrees with the database, which decides in microseconds.\<close>

theorem activation_agrees_with_database:
  assumes "js_dates (date_parse E)" and "db_ok db" and "rows_shaped db"
    and "validate_binding E binding = Inr binding"
    and "fld binding ''authorizationId'' = Str a" and "fld binding ''controlBindingSha256'' = Str control"
    and "window_known binding ti te"
    and "\<forall>c \<in> set (controls db). control_binding (bound c) = control \<longrightarrow>
      issued_at (bound c) = 1000 * ti \<and> lapses_at (bound c) = 1000 * te \<and> worker_spec (bound c) = w"
    and "\<bar>now_us div 1000\<bar> \<le> max_time"
    and "\<forall>x \<in> set (activations db). ac_activated_at x \<le> now_us \<and> \<bar>ac_activated_at x div 1000\<bar> \<le> max_time"
    and "exact_record inp [''activationRequestSha256'', ''grantId'', ''workerSpecSha256'']"
    and "fld inp ''grantId'' = Str g" and "fld inp ''workerSpecSha256'' = Str w"
    and "fld inp ''activationRequestSha256'' = Str q" and "uuid_shape g" and "hex_64 w" and "hex_64 q"
  shows "activate_control E (activate_database (\<lambda>t. t div 1000) user now_us db) binding inp =
    (case activate_dispatch user a g control q now_us db of
       Inl (Sql_error code m) \<Rightarrow>
         reject_because (if code = ''22023'' \<or> code = ''42501'' then activate_rejected else activation_unknown)
           (error_value unavailable_code (sql_failure (Sql_error code m)))
     | Inr (db', r) \<Rightarrow> Inr (activation_answer (\<lambda>t. t div 1000) r))"
proof (cases "activate_dispatch user a g control q now_us db")
  case (Inl e)
  then show ?thesis
    by (simp add: activate_control_eq [OF assms(4,11-17) assms(5,6)] split: sql_error.split)
next
  case (Inr x)
  then obtain db' r where act: "activate_dispatch user a g control q now_us db = Inr (db', r)" by (cases x) simp
  have ok: "db_ok db'" using activate_ok [OF assms(2) act] by simp
  have same: "controls db' = controls db" using activate_shows [OF act] by blast
  then have shaped: "rows_shaped db'" using assms(3) by (simp add: rows_shaped_def)
  have "activation_of_row E (one_row (activation_columns (\<lambda>t. t div 1000) r)) binding inp
      = Inr (activation_answer (\<lambda>t. t div 1000) r)"
    by (rule row_answer [OF assms(1) act ok shaped assms(4-7) _ assms(9) _ assms(12-14)]) (use assms(8,10) same in auto)
  with act show ?thesis by (simp add: activate_control_eq [OF assms(4,11-17) assms(5,6)])
qed

definition activate_input :: jsv where
  "activate_input = Obj [(''activationRequestSha256'', Str hx), (''grantId'', Str uid), (''workerSpecSha256'', Str hx)]"

lemma wire_redeemed_ok: "db_ok (wire_db wire_redeemed)" "rows_shaped (wire_db wire_redeemed)"
  by (simp_all add: db_ok_def keys_ok_def checks_ok_def refs_ok_def wire_db_def wire_redeemed_def wire_row_def wire_binding_def
    occupancy_check_def control_check_def binding_check_def state_check_def len64_def rows_shaped_def row_shaped_def all_hex_def)

theorem activation_agrees_with_database_witness:
  "\<exists>(r :: dispatch_result). rw_outcome r = ACTIVATION_GRANTED \<and>
     activate_control client_env
       (activate_database (\<lambda>t. t div 1000) ''tp_provider_activate_user'' 4 (wire_db wire_redeemed)) binding_value activate_input
     = Inr (activation_answer (\<lambda>t. t div 1000) r)"
proof -
  have "\<exists>db' r. activate_dispatch ''tp_provider_activate_user'' uid uid hx hx 4 (wire_db wire_redeemed) = Inr (db', r) \<and>
      rw_outcome r = ACTIVATION_GRANTED"
    by (simp add: dispatch_eval wire_db_def wire_redeemed_def wire_row_def wire_binding_def result_of_def)
  then obtain db' r where r: "activate_dispatch ''tp_provider_activate_user'' uid uid hx hx 4 (wire_db wire_redeemed) = Inr (db', r)"
      "rw_outcome r = ACTIVATION_GRANTED" by blast
  have "window_known binding_value 0 100" by (simp add: window_known_def binding_value_def max_time_def)
  from activation_agrees_with_database [where w = hx and user = "''tp_provider_activate_user''" and now_us = 4 and inp = activate_input
      and q = hx and g = uid and a = uid and control = hx, OF client_dates wire_redeemed_ok binding_value_ok _ _ this] r
  show ?thesis
    by (intro exI [of _ r])
      (simp add: activate_input_def binding_value_def wire_db_def wire_redeemed_def wire_row_def wire_binding_def max_time_def)
qed

end
