(* ===== verification/Dispatch_Binding_Props.thy ===== *)
theory Dispatch_Binding_Props
  imports Dispatch_Client_Props
begin

text \<open>
  Properties of the control binding and of the reconciliation input: what their digests
  pin down, and when building one succeeds.
\<close>

section \<open>Values a pattern accepts\<close>

text \<open>A value that passes a pattern not matching the empty string is a string, possibly wrapped in
  one-element arrays; its canonical text determines it.\<close>

lemma pattern_subject_canonical:
  "pattern_subject v = Some s \<Longrightarrow> s \<noteq> [] \<Longrightarrow> json_ok v \<and> sort_keys cmp v = v"
  by (induction v arbitrary: s rule: pattern_subject.induct) (auto split: if_split_asm)

lemma test_or_empty_canonical:
  assumes "test_or_empty p v" and "\<not> p []"
  shows "json_ok v \<and> sort_keys cmp v = v"
proof -
  from assms have "\<not> nullish v" by (auto simp: test_or_empty_def coalesce_def test_pattern_def)
  with assms obtain s where "pattern_subject v = Some s" "p s"
    by (auto simp: test_or_empty_def coalesce_def test_pattern_def split: option.splits)
  with assms(2) show ?thesis using pattern_subject_canonical by blast
qed

lemma not_shape_Nil [simp]: "\<not> uuid_shape []" "\<not> hex_64 []" "\<not> hex_40 []"
  by (auto simp: uuid_shape_def hex_of_length_def)

text \<open>Hence the validators take a one-element array for its element.\<close>

lemma one_element_array_passes: "test_or_empty p (Arr [Str s]) \<longleftrightarrow> p s"
  by (simp add: test_or_empty_def coalesce_def test_pattern_def)

lemma exact_iso_text_Some: "exact_iso_text E v = Some s \<Longrightarrow> v = Str s"
  by (auto simp: exact_iso_text_def split: jsv.splits option.splits if_splits)

lemma binding_field_canonical:
  assumes "binding_shape E v" and "k \<in> set binding_keys"
  shows "json_ok (fld v k) \<and> sort_keys cmp (fld v k) = fld v k"
proof -
  from assms(1) have shape: "fld v ''schemaVersion'' = Str binding_schema" "uuid_ok (fld v ''authorizationId'')" "uuid_ok (fld v ''interactionId'')"
      "uuid_ok (fld v ''runId'')" "uuid_ok (fld v ''tenantId'')" "hex40_ok (fld v ''sourceCommit'')" "hex40_ok (fld v ''treeDigest'')"
      "hex64_ok (fld v ''sourceBuildIdentity'')" "hex64_ok (fld v ''logicalMcpRequestSha256'')"
      "hex64_ok (fld v ''providerDispatchAuthorizationSha256'')" "hex64_ok (fld v ''providerEffectKeySha256'')"
      "hex64_ok (fld v ''controlBindingSha256'')"
    and times: "exact_iso_text E (fld v ''issuedAt'') \<noteq> None" "exact_iso_text E (fld v ''expiresAt'') \<noteq> None"
    unfolding binding_shape_def Let_def by (blast | metis)+
  from times obtain i e where "fld v ''issuedAt'' = Str i" "fld v ''expiresAt'' = Str e"
    using exact_iso_text_Some by (metis option.exhaust)
  then have "list_all (\<lambda>k. json_ok (fld v k) \<and> sort_keys cmp (fld v k) = fld v k) binding_keys"
    by (simp add: binding_keys_def shape(1) shape(2-12) [THEN test_or_empty_canonical] del: fld.simps)
  with assms(2) show ?thesis by (simp only: list_all_iff)
qed

section \<open>Properties\<close>

text \<open>The digest of a control binding pins down the whole binding: two values the validator
  accepts under one digest agree on every field, unless their canonical texts are a
  collision of the hash.\<close>

theorem accepted_bindings_agree:
  assumes "validate_binding E v = Inr v" and "validate_binding E w = Inr w"
    and "fld v ''controlBindingSha256'' = fld w ''controlBindingSha256''"
    and "sha256_hex E (cloud_canonical_json E (binding_body v)) = sha256_hex E (cloud_canonical_json E (binding_body w))
      \<Longrightarrow> cloud_canonical_json E (binding_body v) = cloud_canonical_json E (binding_body w)"
    and "k \<in> set binding_keys"
  shows "fld v k = fld w k"
proof (cases "k = ''controlBindingSha256''")
  case True
  with assms(3) show ?thesis by simp
next
  case False
  let ?keys = "filter (\<lambda>k. k \<noteq> ''controlBindingSha256'') binding_keys"
  let ?kvs = "\<lambda>v. map (\<lambda>k. (k, fld v k)) ?keys"
  let ?cmp = compare_canonical_keys
  have shape: "binding_shape E v" "binding_shape E w" using assms(1,2) by (simp_all add: validate_binding_Inr)
  from assms have "cloud_canonical_json E (binding_body v) = cloud_canonical_json E (binding_body w)"
    by (simp add: validate_binding_Inr)
  moreover have "json_ok (binding_body x)" if "binding_shape E x" for x
    using binding_field_canonical [OF that] by (auto simp: binding_body_def list_all_iff simp del: fld.simps)
  ultimately have "sort_keys ?cmp (binding_body v) = sort_keys ?cmp (binding_body w)"
    using canonical_json_inj [of "binding_body v" "binding_body w" "frac_str E" ?cmp] shape
    unfolding cloud_canonical_json_def by blast
  then have "sort_keys ?cmp (Obj (?kvs v)) = sort_keys ?cmp (Obj (?kvs w))" by (simp only: binding_body_def)
  moreover have dist: "distinct (map fst (?kvs x))" for x by (simp add: binding_keys_def)
  ultimately have "map_option (sort_keys ?cmp) (map_of (?kvs v) k) = map_option (sort_keys ?cmp) (map_of (?kvs w) k)"
    using sort_keys_Obj_map_of [OF _ dist dist] by blast
  moreover have "map_of (?kvs x) k = Some (fld x k)" for x
    using False assms(5) by (simp add: map_of_map_restrict restrict_map_def del: fld.simps)
  ultimately show ?thesis using binding_field_canonical [OF shape(1) assms(5)] binding_field_canonical [OF shape(2) assms(5)]
    by (simp del: fld.simps)
qed

theorem accepted_bindings_agree_witness:
  "fld binding_value ''runId'' = fld binding_value ''runId''"
  by (rule accepted_bindings_agree [OF binding_value_ok binding_value_ok]) (simp_all add: binding_keys_def)

definition intent_shaped :: "jsv \<Rightarrow> jsv \<Rightarrow> jsv \<Rightarrow> bool" where
  "intent_shaped intent spec authorization \<longleftrightarrow>
     uuid_ok (fld intent ''authorizationId'') \<and> uuid_ok (fld intent ''interactionId'') \<and> uuid_ok (fld intent ''runId'') \<and>
     uuid_ok (fld intent ''tenantId'') \<and> uuid_ok (fld intent ''recoveryClusterId'') \<and>
     hex64_ok (fld intent ''logicalMcpRequestSha256'') \<and> hex64_ok authorization \<and>
     hex64_ok (fld spec ''sourceBuildIdentity'') \<and> hex40_ok (fld spec ''sourceCommit'') \<and> hex40_ok (fld spec ''treeDigest'')"

text \<open>C37. A control binding can be built from a pre-call intent exactly when its identifiers are
  UUIDs, its digests hexadecimal of their length and the issue time before the expiry, for
  times a \<open>Date\<close> can hold; the binding built states the two times as ISO texts and keeps
  the identifiers of the intent.\<close>

theorem binding_built_iff_shaped:
  assumes "js_dates (date_parse E)" and "\<And>s. hex_64 (sha256_hex E s)"
    and "\<bar>ti\<bar> \<le> max_time" and "\<bar>te\<bar> \<le> max_time"
  shows "(\<exists>b. build_binding E ctx authorization (int_num te) (int_num ti) = Inr b \<and>
      validate_binding E b = Inr b \<and> fld b ''issuedAt'' = Str (iso_text ti) \<and> fld b ''expiresAt'' = Str (iso_text te) \<and>
      fld b ''runId'' = fld (fld ctx ''preCallIntent'') ''runId'')
    \<longleftrightarrow> intent_shaped (fld ctx ''preCallIntent'') (fld (fld ctx ''trustedRunContext'') ''spec'') authorization \<and> ti < te"
proof -
  let ?intent = "fld ctx ''preCallIntent''" and ?spec = "fld (fld ctx ''trustedRunContext'') ''spec''"
  have time: "exact_iso_text E (Str (iso_text t)) = Some (iso_text t)" "date_parse E (iso_text t) = Some t"
      "iso_of_number (int_num t) = Inr (Str (iso_text t))" if "\<bar>t\<bar> \<le> max_time" for t
  proof -
    show parse: "date_parse E (iso_text t) = Some t" by (rule js_dates.parse_iso_text [OF assms(1) that])
    with that show "exact_iso_text E (Str (iso_text t)) = Some (iso_text t)" by (simp add: exact_iso_text_def)
    have "\<bar>t\<bar> \<le> max_safe_integer" using that by (simp add: max_time_def max_safe_integer_def)
    with that show "iso_of_number (int_num t) = Inr (Str (iso_text t))"
      by (simp add: iso_of_number_def del: as_safe_integer.simps)
  qed
  note times = time [OF assms(3)] time [OF assms(4)]
  define key where "key = sha256_hex E (cloud_canonical_json E (Obj
        [(''schemaVersion'', Str ''tideproof.provider-effect-key.v1''), (''database'', Str ''tideproof_recovery''),
         (''logicalMcpRequestSha256'', fld ?intent ''logicalMcpRequestSha256''), (''provider'', Str ''cockroachdb-managed-mcp''),
         (''recoveryClusterId'', fld ?intent ''recoveryClusterId''), (''tool'', Str ''select_query'')]))"
  have effect: "effect_key_sha256 E (fld ?intent ''logicalMcpRequestSha256'') (fld ?intent ''recoveryClusterId'')
      = (if hex64_ok (fld ?intent ''logicalMcpRequestSha256'') \<and> uuid_ok (fld ?intent ''recoveryClusterId'') then Inr key
         else reject binding_rejected)"
    by (simp add: effect_key_sha256_def key_def)
  define body where "body =
        [(''authorizationId'', fld ?intent ''authorizationId''), (''expiresAt'', Str (iso_text te)),
         (''interactionId'', fld ?intent ''interactionId''), (''issuedAt'', Str (iso_text ti)),
         (''logicalMcpRequestSha256'', fld ?intent ''logicalMcpRequestSha256''),
         (''providerDispatchAuthorizationSha256'', authorization), (''providerEffectKeySha256'', Str key),
         (''runId'', fld ?intent ''runId''), (''schemaVersion'', Str binding_schema),
         (''sourceBuildIdentity'', fld ?spec ''sourceBuildIdentity''), (''sourceCommit'', fld ?spec ''sourceCommit''),
         (''tenantId'', fld ?intent ''tenantId''), (''treeDigest'', fld ?spec ''treeDigest'')]"
  define b where "b = Obj (body @ [(''controlBindingSha256'', Str (sha256_hex E (cloud_canonical_json E (Obj body))))])"
  have build: "build_binding E ctx authorization (int_num te) (int_num ti)
      = (if hex64_ok (fld ?intent ''logicalMcpRequestSha256'') \<and> uuid_ok (fld ?intent ''recoveryClusterId'')
         then validate_binding E b else reject binding_rejected)"
    unfolding build_binding_def Let_def times(3,6) and_then_Inr effect
    by (simp add: b_def body_def reject_def)
  have "binding_body b = Obj body" by (simp add: binding_body_def binding_keys_def b_def body_def)
  then have digest: "fld b ''controlBindingSha256'' = Str (sha256_hex E (cloud_canonical_json E (binding_body b)))"
    by (simp add: b_def body_def)
  have record': "exact_record b binding_keys" by (simp add: b_def body_def binding_keys_def)
  have vals: "fld b ''schemaVersion'' = Str binding_schema" "fld b ''authorizationId'' = fld ?intent ''authorizationId''"
    "fld b ''interactionId'' = fld ?intent ''interactionId''" "fld b ''runId'' = fld ?intent ''runId''"
    "fld b ''tenantId'' = fld ?intent ''tenantId''" "fld b ''sourceCommit'' = fld ?spec ''sourceCommit''"
    "fld b ''treeDigest'' = fld ?spec ''treeDigest''" "fld b ''sourceBuildIdentity'' = fld ?spec ''sourceBuildIdentity''"
    "fld b ''logicalMcpRequestSha256'' = fld ?intent ''logicalMcpRequestSha256''"
    "fld b ''providerDispatchAuthorizationSha256'' = authorization" "hex64_ok (fld b ''providerEffectKeySha256'')"
    "hex64_ok (Str (sha256_hex E t))" "fld b ''issuedAt'' = Str (iso_text ti)" "fld b ''expiresAt'' = Str (iso_text te)" for t
    by (simp_all add: b_def body_def key_def assms(2))
  have fields: "fld b ''issuedAt'' = Str (iso_text ti)" "fld b ''expiresAt'' = Str (iso_text te)"
    "fld b ''runId'' = fld ?intent ''runId''" by (simp_all add: b_def body_def)
  have shape: "binding_shape E b \<and> uuid_ok (fld ?intent ''recoveryClusterId'') \<longleftrightarrow> intent_shaped ?intent ?spec authorization \<and> ti < te"
    unfolding binding_shape_def Let_def intent_shaped_def using record' times(1,2,4,5)
    by (simp add: vals assms(2) digest time_le_def not_le conj_ac del: fld.simps exact_record.simps)
  have "(build_binding E ctx authorization (int_num te) (int_num ti) = Inr x) \<longleftrightarrow>
      x = b \<and> hex64_ok (fld ?intent ''logicalMcpRequestSha256'') \<and> uuid_ok (fld ?intent ''recoveryClusterId'') \<and> binding_shape E b" for x
    using digest unfolding build by (auto simp: validate_binding_Inr)
  moreover have "binding_shape E b \<Longrightarrow> hex64_ok (fld ?intent ''logicalMcpRequestSha256'')"
    by (simp add: binding_shape_def vals Let_def del: fld.simps exact_record.simps)
  ultimately show ?thesis using shape fields digest by (auto simp: validate_binding_Inr simp del: fld.simps)
qed

definition sample_context :: jsv where
  "sample_context = Obj
     [(''preCallIntent'', Obj [(''authorizationId'', Str uid), (''interactionId'', Str uid), (''runId'', Str uid),
        (''tenantId'', Str uid), (''recoveryClusterId'', Str uid), (''logicalMcpRequestSha256'', Str hx)]),
      (''trustedRunContext'', Obj [(''spec'', Obj [(''sourceBuildIdentity'', Str hx), (''sourceCommit'', Str h40),
        (''treeDigest'', Str h40)])])]"

theorem binding_built_iff_shaped_witness:
  "\<exists>b. build_binding client_env sample_context (Str hx) (int_num 100) (int_num 0) = Inr b"
proof -
  have "hex_64 (sha256_hex client_env s)" for s by (simp add: client_env_def)
  from binding_built_iff_shaped [OF client_dates this, of 0 100 sample_context "Str hx"] show ?thesis
    by (simp add: max_time_def intent_shaped_def sample_context_def) blast
qed

text \<open>C38. A reconciliation input can be built exactly from an accepted binding, a UUID for the grant
  and hexadecimal digests for the package lock and the worker. What is built passes the
  validator unchanged, so its bytes are the canonical text of the input itself.\<close>

theorem reconciliation_input_roundtrip:
  assumes "\<And>s. hex_64 (sha256_hex E s)"
  shows "(\<exists>v. build_reconciliation_input E binding grant lock_digest worker = Inr v \<and>
      validate_reconciliation_input E v = Inr v \<and>
      reconciliation_input_bytes E v = Inr (cloud_canonical_json E v @ [CHR 0x0A]) \<and>
      fld v ''binding'' = binding \<and> fld (fld v ''admission'') ''grantId'' = grant)
    \<longleftrightarrow> uuid_ok grant \<and> hex64_ok worker \<and> hex64_ok lock_digest \<and> validate_binding E binding = Inr binding"
proof -
  define body where "body = [(''admission'', Obj [(''grantId'', grant), (''workerSpecSha256'', worker)]), (''binding'', binding),
        (''packageLockDigest'', lock_digest), (''schemaVersion'', Str reconciliation_schema)]"
  define v where "v = Obj (body @ [(''receiptSha256'', Str (sha256_hex E (cloud_canonical_json E (Obj body))))])"
  have build: "build_reconciliation_input E binding grant lock_digest worker = validate_reconciliation_input E v"
    by (simp add: build_reconciliation_input_def body_def v_def)
  have body: "reconciliation_body v binding = body" by (simp add: reconciliation_body_def v_def body_def)
  have fields: "fld v ''binding'' = binding" "fld v ''admission'' = Obj [(''grantId'', grant), (''workerSpecSha256'', worker)]"
    "fld v ''packageLockDigest'' = lock_digest" "fld v ''schemaVersion'' = Str reconciliation_schema"
    "fld v ''receiptSha256'' = Str (sha256_hex E (cloud_canonical_json E (Obj body)))" by (simp_all add: v_def body_def)
  have record': "exact_record v [''admission'', ''binding'', ''packageLockDigest'', ''receiptSha256'', ''schemaVersion'']"
    by (simp add: v_def body_def)
  have admission: "exact_record (Obj [(''grantId'', grant), (''workerSpecSha256'', worker)]) [''grantId'', ''workerSpecSha256'']"
    by simp
  have same: "Obj (reconciliation_body v binding @ [(''receiptSha256'', fld v ''receiptSha256'')]) = v"
    unfolding body fields by (simp add: v_def)
  have eq: "validate_reconciliation_input E v = Inr x \<longleftrightarrow>
      x = v \<and> uuid_ok grant \<and> hex64_ok worker \<and> hex64_ok lock_digest \<and> validate_binding E binding = Inr binding" for x
  proof (cases "validate_binding E binding")
    case (Inl cause)
    then show ?thesis by (simp add: validate_reconciliation_input_def fields del: exact_record.simps)
  next
    case (Inr b)
    then have "validate_binding E binding = Inr binding" by (simp add: validate_binding_Inr)
    then show ?thesis using record' admission assms same
      unfolding validate_reconciliation_input_def by (auto simp: fields body simp del: exact_record.simps)
  qed
  have "validate_reconciliation_input E v = Inr v \<Longrightarrow>
      reconciliation_input_bytes E v = Inr (cloud_canonical_json E v @ [CHR 0x0A])"
    by (simp add: reconciliation_input_bytes_def)
  then show ?thesis using fields(1,2) eq [of v] unfolding build
    by (auto simp: eq simp del: split_paired_Ex)
qed

theorem reconciliation_input_roundtrip_witness:
  "\<exists>v. build_reconciliation_input client_env binding_value (Str uid) (Str hx) (Str hx) = Inr v"
proof -
  have "hex_64 (sha256_hex client_env s)" for s by (simp add: client_env_def)
  from reconciliation_input_roundtrip [OF this, of binding_value "Str uid" "Str hx" "Str hx"] binding_value_ok show ?thesis
    by simp blast
qed

end
