(* ===== verification/Commit_Result.thy ===== *)
theory Commit_Result
  imports Iso_Time
begin

text \<open>
  The results of durable database operations (\<open>src/cloud/database-commit-result.js\<close>):
  what a caller may conclude from a commit that was acknowledged, read back, denied or
  left unknown. A call takes its argument object as a value; a missing member is
  \<open>undefined\<close> and takes the default the code gives it.
\<close>

section \<open>Fields\<close>

definition commit_schema :: string where
  "commit_schema = ''tideproof.database-commit-result.v1''"

text \<open>\<open>String.prototype.toLowerCase\<close> on code units below 256.\<close>

definition lower_char :: "char \<Rightarrow> char" where
  "lower_char c = (let n = of_char c :: nat in
     if (65 \<le> n \<and> n \<le> 90) \<or> (192 \<le> n \<and> n \<le> 222 \<and> n \<noteq> 215) then char_of (n + 32) else c)"

definition to_lower :: "string \<Rightarrow> string" where
  "to_lower s = map lower_char s"

definition lower_letter :: "char \<Rightarrow> bool" where
  "lower_letter c \<longleftrightarrow> (let n = of_char c :: nat in 97 \<le> n \<and> n \<le> 122)"

definition digit :: "char \<Rightarrow> bool" where
  "digit c \<longleftrightarrow> (let n = of_char c :: nat in 48 \<le> n \<and> n \<le> 57)"

text \<open>\<open>/^[a-z][a-z0-9_]{0,63}$/u\<close>\<close>

fun operation_shape :: "string \<Rightarrow> bool" where
  "operation_shape [] = False"
| "operation_shape (c # cs) \<longleftrightarrow> lower_letter c \<and> length cs \<le> 63 \<and>
     list_all (\<lambda>d. lower_letter d \<or> digit d \<or> d = CHR ''_'') cs"

definition required_text :: "jsv \<Rightarrow> string \<Rightarrow> js_error + string" where
  "required_text v code =
     (case v of Str s \<Rightarrow> if trim s = [] then Inl (TypeErr code) else Inr (trim s) | _ \<Rightarrow> Inl (TypeErr code))"

definition operation_identity :: "jsv \<Rightarrow> jsv \<Rightarrow> js_error + string \<times> string" where
  "operation_identity operation digest =
     and_then (required_text operation ''DATABASE_COMMIT_OPERATION_INVALID'') (\<lambda>op.
     and_then (map_sum id to_lower (required_text digest ''DATABASE_COMMIT_DIGEST_INVALID'')) (\<lambda>d.
     if \<not> operation_shape op then Inl (TypeErr ''DATABASE_COMMIT_OPERATION_INVALID'')
     else if \<not> hex_64 d then Inl (TypeErr ''DATABASE_COMMIT_DIGEST_INVALID'')
     else Inr (op, d)))"

text \<open>\<open>databaseTimestampFromDriver\<close>, and \<open>databaseTimestamp\<close>, which takes texts only.\<close>

definition driver_timestamp :: "jsenv \<Rightarrow> jsv \<Rightarrow> js_error + string" where
  "driver_timestamp E v =
     (case (case v of DateV t \<Rightarrow> t | Str s \<Rightarrow> date_parse E s | _ \<Rightarrow> None) of
        None \<Rightarrow> Inl (TypeErr ''DATABASE_COMMIT_TIME_INVALID'')
      | Some t \<Rightarrow> (case to_iso_string t of
            None \<Rightarrow> Inl (RangeErr ''Invalid time value'')
          | Some s \<Rightarrow> Inr s))"

definition database_timestamp :: "jsenv \<Rightarrow> jsv \<Rightarrow> js_error + string" where
  "database_timestamp E v =
     (if is_string v then driver_timestamp E v else Inl (TypeErr ''DATABASE_COMMIT_TIME_INVALID''))"

record authority_state =
  current_authority :: "bool option" \<comment> \<open>\<open>None\<close> is \<open>null\<close>\<close>
  requires_fresh :: bool

definition authority_state :: "jsv \<Rightarrow> jsv \<Rightarrow> js_error + authority_state" where
  "authority_state cur fresh =
     (if (case cur of Null \<Rightarrow> False | Bool _ \<Rightarrow> False | _ \<Rightarrow> True) then Inl (TypeErr ''DATABASE_COMMIT_AUTHORITY_INVALID'')
      else case fresh of
        Bool f \<Rightarrow>
          if (cur = Bool True \<and> f) \<or> (cur \<noteq> Bool True \<and> \<not> f) then Inl (TypeErr ''DATABASE_COMMIT_AUTHORITY_INVALID'')
          else Inr \<lparr>current_authority = (case cur of Bool b \<Rightarrow> Some b | _ \<Rightarrow> None), requires_fresh = f\<rparr>
      | _ \<Rightarrow> Inl (TypeErr ''DATABASE_COMMIT_AUTHORITY_INVALID''))"

section \<open>Results\<close>

record commit_result =
  cr_schema :: string
  cr_status :: string
  cr_operation :: string
  cr_digest :: string
  cr_observation :: string
  cr_database_now :: "string option"
  cr_outcome :: "string option"
  cr_authority :: authority_state
  cr_reason :: "string option"

definition default_to :: "jsv \<Rightarrow> jsv \<Rightarrow> jsv" where
  "default_to v d = (if v = Undef then d else v)"

definition destructure :: "jsv \<Rightarrow> (jsv \<Rightarrow> js_error + 'a) \<Rightarrow> js_error + 'a" where
  "destructure inp f = (if nullish inp then Inl (TypeErr ''Cannot destructure'') else f inp)"

definition denied :: "string \<Rightarrow> bool" where
  "denied s \<longleftrightarrow> infix_of s ''denied''"

text \<open>\<open>OBSERVATIONS.has(observation)\<close>\<close>

definition observed :: "jsv \<Rightarrow> js_error + string" where
  "observed v = (case v of
       Str s \<Rightarrow> if s = ''direct_ack'' \<or> s = ''read_reconciled'' then Inr s else Inl (TypeErr ''DATABASE_COMMIT_OBSERVATION_INVALID'')
     | _ \<Rightarrow> Inl (TypeErr ''DATABASE_COMMIT_OBSERVATION_INVALID''))"

definition optional_text :: "jsv \<Rightarrow> string \<Rightarrow> js_error + string option" where
  "optional_text v code = (if v = Null then Inr None else map_sum id Some (required_text v code))"

definition committed_status :: "authority_state \<Rightarrow> string \<Rightarrow> string" where
  "committed_status authority out =
     (if current_authority authority = Some False \<and> \<not> denied out then ''COMMITTED_BUT_NO_LONGER_CURRENT'' else ''COMMITTED'')"

definition committed_database_result :: "jsenv \<Rightarrow> jsv \<Rightarrow> js_error + commit_result" where
  "committed_database_result E inp = destructure inp (\<lambda>i.
     and_then (operation_identity (fld i ''operation'') (fld i ''operationDigest'')) (\<lambda>identity.
     and_then (observed (fld i ''observation'')) (\<lambda>obs.
     and_then (required_text (fld i ''outcome'') ''DATABASE_COMMIT_OUTCOME_INVALID'') (\<lambda>out.
     and_then (authority_state (default_to (fld i ''authorityCurrent'') Null)
         (default_to (fld i ''requiresFreshAuthorization'') (Bool True))) (\<lambda>authority.
     if denied out \<and> current_authority authority = Some True then Inl (TypeErr ''DATABASE_COMMIT_AUTHORITY_INVALID'')
     else
     and_then (database_timestamp E (fld i ''databaseNow'')) (\<lambda>now.
     and_then (optional_text (default_to (fld i ''reason'') Null) ''DATABASE_COMMIT_REASON_INVALID'') (\<lambda>why.
     Inr \<lparr>cr_schema = commit_schema, cr_status = committed_status authority out, cr_operation = fst identity, cr_digest = snd identity,
          cr_observation = obs, cr_database_now = Some now, cr_outcome = Some out, cr_authority = authority,
          cr_reason = why\<rparr>)))))))"

definition non_durable_database_result :: "jsenv \<Rightarrow> jsv \<Rightarrow> js_error + commit_result" where
  "non_durable_database_result E inp = destructure inp (\<lambda>i.
     and_then (operation_identity (fld i ''operation'') (fld i ''operationDigest'')) (\<lambda>identity.
     if default_to (fld i ''observation'') (Str ''direct_ack'') \<noteq> Str ''direct_ack''
     then Inl (TypeErr ''DATABASE_COMMIT_OBSERVATION_INVALID'')
     else
     and_then (required_text (fld i ''outcome'') ''DATABASE_COMMIT_OUTCOME_INVALID'') (\<lambda>out.
     if \<not> denied out then Inl (TypeErr ''DATABASE_COMMIT_OUTCOME_INVALID'')
     else
     and_then (database_timestamp E (fld i ''databaseNow'')) (\<lambda>now.
     and_then (authority_state (Bool False) (Bool True)) (\<lambda>authority.
     and_then (required_text (fld i ''reason'') ''DATABASE_COMMIT_REASON_INVALID'') (\<lambda>why.
     Inr \<lparr>cr_schema = commit_schema, cr_status = ''DENIED_NOT_DURABLE'', cr_operation = fst identity, cr_digest = snd identity, cr_observation = ''direct_ack'',
          cr_database_now = Some now, cr_outcome = Some out, cr_authority = authority, cr_reason = Some why\<rparr>))))))"

definition unknown_database_result :: "jsv \<Rightarrow> js_error + commit_result" where
  "unknown_database_result inp = destructure inp (\<lambda>i.
     and_then (operation_identity (fld i ''operation'') (fld i ''operationDigest'')) (\<lambda>identity.
     and_then (authority_state Null (default_to (fld i ''requiresFreshAuthorization'') (Bool True))) (\<lambda>authority.
     and_then (required_text (fld i ''reason'') ''DATABASE_COMMIT_REASON_INVALID'') (\<lambda>why.
     Inr \<lparr>cr_schema = commit_schema, cr_status = ''UNKNOWN_DO_NOT_ACT'', cr_operation = fst identity, cr_digest = snd identity, cr_observation = ''read_reconciled'',
          cr_database_now = None, cr_outcome = None, cr_authority = authority, cr_reason = Some why\<rparr>))))"

section \<open>Facts of the fields\<close>

lemma authority_state_Inr:
  "authority_state cur fresh = Inr a \<longleftrightarrow>
   (cur = Null \<or> cur = Bool True \<or> cur = Bool False) \<and> fresh = Bool (requires_fresh a) \<and>
   current_authority a = (case cur of Bool b \<Rightarrow> Some b | _ \<Rightarrow> None) \<and>
   (requires_fresh a \<longleftrightarrow> current_authority a \<noteq> Some True)"
  by (cases a; cases fresh; cases cur) (auto simp: authority_state_def)

lemma required_text_Inr: "required_text v code = Inr t \<longleftrightarrow> (\<exists>s. v = Str s \<and> t = trim s \<and> t \<noteq> [])"
  by (cases v) (auto simp: required_text_def)

lemma destructure_Inr [guard_simps]: "destructure inp f = Inr r \<longleftrightarrow> \<not> nullish inp \<and> f inp = Inr r"
  by (simp add: destructure_def)

lemma lower_idem [simp]: "to_lower (to_lower s) = to_lower s"
proof -
  have "lower_char (lower_char c) = lower_char c" for c
  proof (cases "lower_char c = c")
    case False
    then have "65 \<le> (of_char c :: nat) \<and> (of_char c :: nat) \<le> 90 \<or> 192 \<le> (of_char c :: nat) \<and> (of_char c :: nat) \<le> 222"
      by (auto simp: lower_char_def Let_def split: if_split_asm)
    moreover from this have "(of_char (char_of (of_char c + 32 :: nat)) :: nat) = of_char c + 32" by auto
    ultimately show ?thesis by (auto simp: lower_char_def Let_def)
  qed simp
  then show ?thesis by (simp add: to_lower_def)
qed

lemma trim_no_space: "list_all (\<lambda>c. \<not> js_space c) s \<Longrightarrow> trim s = s"
proof -
  have drop: "list_all (\<lambda>c. \<not> js_space c) t \<Longrightarrow> dropWhile js_space t = t" for t
    by (cases t) simp_all
  assume "list_all (\<lambda>c. \<not> js_space c) s"
  then show ?thesis by (simp add: trim_def drop)
qed

lemma hex_not_space: "hex_64 s \<Longrightarrow> trim s = s"
proof (rule trim_no_space)
  assume "hex_64 s"
  moreover have "hex_digit c \<Longrightarrow> \<not> js_space c" for c
    by (auto simp: hex_digit_def js_space_def Let_def)
  ultimately show "list_all (\<lambda>c. \<not> js_space c) s" by (auto simp: hex_of_length_def list_all_iff)
qed

lemma hex_64_not_Nil: "hex_64 s \<Longrightarrow> s \<noteq> []"
  by (auto simp: hex_of_length_def)

lemma operation_identity_Inr:
  "operation_identity operation digest = Inr (op, d) \<longleftrightarrow>
   (\<exists>s t. operation = Str s \<and> digest = Str t \<and> op = trim s \<and> d = to_lower (trim t) \<and> operation_shape op \<and> hex_64 d \<and>
      op \<noteq> [] \<and> trim t \<noteq> [])"
  by (auto simp: operation_identity_def and_then_eq_Inr map_sum_eq_Inr required_text_Inr split: if_split_asm)

lemma operation_identity_again:
  assumes "operation_identity operation digest = Inr (op, d)"
  shows "operation_identity (Str op) (Str d) = Inr (op, d)"
proof -
  from assms have "trim op = op" "operation_shape op" "hex_64 d" "to_lower d = d" "op \<noteq> []"
    by (auto simp: operation_identity_Inr)
  then show ?thesis by (auto simp: operation_identity_Inr hex_not_space dest: hex_64_not_Nil)
qed

lemma database_timestamp_Inr:
  "database_timestamp E v = Inr s \<longleftrightarrow> (\<exists>t n. v = Str t \<and> date_parse E t = Some n \<and> to_iso_string n = Some s)"
  by (cases v) (auto simp: database_timestamp_def driver_timestamp_def split: option.splits)

section \<open>What a result says\<close>

lemma observed_Inr: "observed v = Inr s \<longleftrightarrow> v = Str s \<and> (s = ''direct_ack'' \<or> s = ''read_reconciled'')"
  by (cases v) (auto simp: observed_def)

lemma optional_text_Inr:
  "optional_text v code = Inr t \<longleftrightarrow> (if v = Null then t = None else \<exists>s. required_text v code = Inr s \<and> t = Some s)"
  by (auto simp: optional_text_def map_sum_eq_Inr)

lemmas result_defs = committed_database_result_def non_durable_database_result_def unknown_database_result_def
  destructure_Inr and_then_eq_Inr guard_eq_Inr

lemma committed_Inr:
  "committed_database_result E inp = Inr r \<longleftrightarrow> \<not> nullish inp \<and> cr_schema r = commit_schema \<and>
   operation_identity (fld inp ''operation'') (fld inp ''operationDigest'') = Inr (cr_operation r, cr_digest r) \<and>
   observed (fld inp ''observation'') = Inr (cr_observation r) \<and>
   authority_state (default_to (fld inp ''authorityCurrent'') Null)
     (default_to (fld inp ''requiresFreshAuthorization'') (Bool True)) = Inr (cr_authority r) \<and>
   optional_text (default_to (fld inp ''reason'') Null) ''DATABASE_COMMIT_REASON_INVALID'' = Inr (cr_reason r) \<and>
   (\<exists>out now. required_text (fld inp ''outcome'') ''DATABASE_COMMIT_OUTCOME_INVALID'' = Inr out \<and> cr_outcome r = Some out \<and>
     \<not> (denied out \<and> current_authority (cr_authority r) = Some True) \<and>
     database_timestamp E (fld inp ''databaseNow'') = Inr now \<and> cr_database_now r = Some now \<and>
     cr_status r = committed_status (cr_authority r) out)"
  (is "?lhs \<longleftrightarrow> ?rhs")
proof
  assume ?rhs
  then show ?lhs unfolding result_defs by (elim exE conjE) (cases r, simp)
qed (unfold result_defs, clarsimp)

definition commits :: "jsenv \<Rightarrow> jsv \<Rightarrow> commit_result \<Rightarrow> bool" where
  "commits E inp r \<longleftrightarrow> committed_database_result E inp = Inr r \<or> non_durable_database_result E inp = Inr r \<or>
     unknown_database_result inp = Inr r"

text \<open>C36. Whatever of the three constructors built a result, only an acknowledged or read-back
  commit whose authority is known to be current, and whose outcome is not a denial, lets
  its holder act without a fresh authorization; denials, unknown commits and commits whose
  authority lapsed or is unknown all require one. A commit that is no longer current is
  reported as such.\<close>

theorem only_current_commits_authorize:
  assumes "commits E inp r"
  shows "(requires_fresh (cr_authority r) \<longleftrightarrow> current_authority (cr_authority r) \<noteq> Some True) \<and>
    (\<not> requires_fresh (cr_authority r) \<longrightarrow> cr_status r = ''COMMITTED'' \<and> cr_database_now r \<noteq> None \<and>
      (\<exists>out. cr_outcome r = Some out \<and> \<not> denied out)) \<and>
    (cr_status r = ''COMMITTED_BUT_NO_LONGER_CURRENT'' \<longrightarrow> current_authority (cr_authority r) = Some False)"
proof -
  from assms consider (committed) "committed_database_result E inp = Inr r"
    | (denial) "non_durable_database_result E inp = Inr r" | (unknown) "unknown_database_result inp = Inr r"
    unfolding commits_def by blast
  then show ?thesis
  proof cases
    case committed
    then have "authority_state (default_to (fld inp ''authorityCurrent'') Null)
        (default_to (fld inp ''requiresFreshAuthorization'') (Bool True)) = Inr (cr_authority r)"
      and "\<exists>out now. cr_outcome r = Some out \<and> \<not> (denied out \<and> current_authority (cr_authority r) = Some True) \<and>
        cr_database_now r = Some now \<and> cr_status r = committed_status (cr_authority r) out"
      unfolding committed_Inr by blast+
    then show ?thesis unfolding authority_state_Inr committed_status_def by auto
  next
    case denial
    then show ?thesis
      unfolding result_defs by (clarsimp simp: authority_state_Inr)
  next
    case unknown
    then show ?thesis
      unfolding result_defs by (clarsimp simp: authority_state_Inr)
  qed
qed

definition commit_env :: jsenv where
  "commit_env = \<lparr>localeCompare = compare_canonical_keys, date_parse = parse_iso, date_of_object = (\<lambda>_. None),
     sha256_hex = (\<lambda>s. s), frac_str = (\<lambda>_. []), string_of = (\<lambda>_. []), to_number = (\<lambda>_. NaN)\<rparr>"

definition commit_input :: jsv where
  "commit_input = Obj [(''operation'', Str '' reserve ''), (''operationDigest'', Str (replicate 64 (CHR ''A''))),
     (''observation'', Str ''direct_ack''), (''databaseNow'', Str (iso_text 0)), (''outcome'', Str ''resource_reserved''),
     (''authorityCurrent'', Bool True), (''requiresFreshAuthorization'', Bool False)]"

lemma commit_input_accepted:
  "\<exists>(r :: commit_result). committed_database_result commit_env commit_input = Inr r \<and> cr_operation r = ''reserve'' \<and>
     cr_status r = ''COMMITTED'' \<and> \<not> requires_fresh (cr_authority r)"
proof -
  have identity: "operation_identity (Str '' reserve '') (Str (replicate 64 (CHR ''A''))) = Inr (''reserve'', replicate 64 (CHR ''a''))"
    by code_simp
  have out: "required_text (Str ''resource_reserved'') ''DATABASE_COMMIT_OUTCOME_INVALID'' = Inr ''resource_reserved''"
      "\<not> denied ''resource_reserved''" by code_simp+
  have now: "database_timestamp commit_env (Str (iso_text 0)) = Inr (iso_text 0)"
    by (simp add: database_timestamp_def driver_timestamp_def commit_env_def parse_iso_iso_text to_iso_string_def max_time_def)
  show ?thesis
    by (intro exI [of _ "\<lparr>cr_schema = commit_schema, cr_status = ''COMMITTED'', cr_operation = ''reserve'', cr_digest = replicate 64 (CHR ''a''),
        cr_observation = ''direct_ack'', cr_database_now = Some (iso_text 0), cr_outcome = Some ''resource_reserved'',
        cr_authority = \<lparr>current_authority = Some True, requires_fresh = False\<rparr>, cr_reason = None\<rparr>"])
      (simp add: committed_Inr commit_input_def identity out now observed_def optional_text_def authority_state_def
        default_to_def committed_status_def)
qed

theorem only_current_commits_authorize_witness:
  "\<exists>(r :: commit_result). commits commit_env commit_input r \<and> \<not> requires_fresh (cr_authority r) \<and>
     cr_database_now r \<noteq> None \<and> current_authority (cr_authority r) = Some True"
proof -
  obtain r :: commit_result where r: "committed_database_result commit_env commit_input = Inr r" "\<not> requires_fresh (cr_authority r)"
    using commit_input_accepted by blast
  then have c: "commits commit_env commit_input r" by (simp add: commits_def)
  from only_current_commits_authorize [OF c] r(2) c show ?thesis by blast
qed

section \<open>Presenting a result again\<close>

text \<open>The argument that presents a committed result again.\<close>

definition represented :: "commit_result \<Rightarrow> jsv" where
  "represented r = Obj
     [(''operation'', Str (cr_operation r)), (''operationDigest'', Str (cr_digest r)), (''observation'', Str (cr_observation r)),
      (''databaseNow'', case cr_database_now r of None \<Rightarrow> Null | Some s \<Rightarrow> Str s),
      (''outcome'', case cr_outcome r of None \<Rightarrow> Null | Some s \<Rightarrow> Str s),
      (''authorityCurrent'', case current_authority (cr_authority r) of None \<Rightarrow> Null | Some b \<Rightarrow> Bool b),
      (''requiresFreshAuthorization'', Bool (requires_fresh (cr_authority r))),
      (''reason'', case cr_reason r of None \<Rightarrow> Null | Some s \<Rightarrow> Str s)]"

text \<open>A committed result is in normal form: building it again from its own fields gives the
  same result, so a result can be stored and presented again without changing (identity and
  digest are trimmed and lower-cased once and for all, the time is its own ISO text).\<close>

theorem committed_result_is_stable:
  assumes "js_dates (date_parse E)" and "committed_database_result E inp = Inr r"
  shows "committed_database_result E (represented r) = Inr r"
proof -
  have schema: "cr_schema r = commit_schema" using assms(2) by (simp add: committed_Inr)
  from assms(2) obtain out now where r:
    "operation_identity (fld inp ''operation'') (fld inp ''operationDigest'') = Inr (cr_operation r, cr_digest r)"
    "observed (fld inp ''observation'') = Inr (cr_observation r)"
    "authority_state (default_to (fld inp ''authorityCurrent'') Null)
      (default_to (fld inp ''requiresFreshAuthorization'') (Bool True)) = Inr (cr_authority r)"
    "optional_text (default_to (fld inp ''reason'') Null) ''DATABASE_COMMIT_REASON_INVALID'' = Inr (cr_reason r)"
    "required_text (fld inp ''outcome'') ''DATABASE_COMMIT_OUTCOME_INVALID'' = Inr out" "cr_outcome r = Some out"
    "\<not> (denied out \<and> current_authority (cr_authority r) = Some True)"
    "database_timestamp E (fld inp ''databaseNow'') = Inr now" "cr_database_now r = Some now"
    "cr_status r = committed_status (cr_authority r) out"
    unfolding committed_Inr by blast
  have text': "required_text v c = Inr s \<Longrightarrow> required_text (Str s) c = Inr s" for v s c
    by (auto simp: required_text_Inr)
  have "optional_text (case cr_reason r of None \<Rightarrow> Null | Some s \<Rightarrow> Str s) ''DATABASE_COMMIT_REASON_INVALID'' = Inr (cr_reason r)"
    using r(4) by (auto simp: optional_text_Inr text' split: option.split if_split_asm)
  moreover have "database_timestamp E (Str now) = Inr now"
    using r(8) js_dates.parse_to_iso_string [OF assms(1)] by (fastforce simp: database_timestamp_Inr)
  moreover have "authority_state (case current_authority (cr_authority r) of None \<Rightarrow> Null | Some b \<Rightarrow> Bool b)
      (Bool (requires_fresh (cr_authority r))) = Inr (cr_authority r)"
    using r(3) by (auto simp: authority_state_Inr split: option.split jsv.splits)
  moreover have "observed (Str (cr_observation r)) = Inr (cr_observation r)" using r(2) by (auto simp: observed_Inr)
  ultimately show ?thesis
    using schema r(6,7,9,10) text' [OF r(5)] operation_identity_again [OF r(1)]
    by (auto simp: committed_Inr represented_def default_to_def split: option.split)
qed

theorem committed_result_is_stable_witness:
  "\<exists>(r :: commit_result). committed_database_result commit_env commit_input = Inr r \<and>
     committed_database_result commit_env (represented r) = Inr r"
proof -
  obtain r :: commit_result where r: "committed_database_result commit_env commit_input = Inr r"
    using commit_input_accepted by blast
  have "js_dates (date_parse commit_env)" using iso_dates.js_dates_axioms by (simp add: commit_env_def)
  from committed_result_is_stable [OF this r] r show ?thesis by blast
qed

end
