(* ===== verification/Authority_Identity.thy ===== *)
theory Authority_Identity
  imports Commit_Result Json
begin

text \<open>
  The identities authority is keyed by (\<open>src/cloud/authority-identity.js\<close>) and the selection
  receipt a proposal rests on (\<open>src/cloud/dvi-selection.js\<close>): checks of the fields, the
  frozen identity objects, and the digests of their canonical texts. An argument is an object (the
  code reads members of \<open>null\<close> only when its caller passes it one); the identity objects
  are JavaScript values with their members in the order the code writes them.
\<close>

section \<open>Fields\<close>

definition control_char :: "char \<Rightarrow> bool" where
  "control_char c \<longleftrightarrow> (let n = of_char c :: nat in n < 32 \<or> n = 127)"

definition bounded_text :: "jsv \<Rightarrow> string \<Rightarrow> nat \<Rightarrow> js_error + string" where
  "bounded_text v name maximum =
     (case v of
        Str s \<Rightarrow> if s = [] \<or> maximum < length s \<or> s \<noteq> trim s \<or> list_ex control_char s
                 then Inl (TypeErr (name @ '' must be bounded canonical text'')) else Inr s
      | _ \<Rightarrow> Inl (TypeErr (name @ '' must be bounded canonical text'')))"

definition identity_uuid :: "jsv \<Rightarrow> string \<Rightarrow> js_error + string" where
  "identity_uuid v name = and_then (bounded_text v name 36) (\<lambda>s.
     if uuid_shape (to_lower s) then Inr (to_lower s) else Inl (TypeErr (name @ '' must be a UUID'')))"

definition identity_sha256 :: "jsv \<Rightarrow> string \<Rightarrow> js_error + string" where
  "identity_sha256 v name = and_then (bounded_text v name 64) (\<lambda>s.
     if hex_64 s then Inr s else Inl (TypeErr (name @ '' must be lowercase SHA-256 hex'')))"

definition identity_time :: "jsenv \<Rightarrow> jsv \<Rightarrow> string \<Rightarrow> js_error + string \<times> int" where
  "identity_time E v name = and_then (bounded_text v name 24) (\<lambda>s.
     case date_parse E s of
       None \<Rightarrow> Inl (TypeErr (name @ '' must be canonical UTC milliseconds''))
     | Some t \<Rightarrow> (case to_iso_string t of
           None \<Rightarrow> Inl (RangeErr ''Invalid time value'')
         | Some canon \<Rightarrow> if canon \<noteq> s then Inl (TypeErr (name @ '' must be canonical UTC milliseconds'')) else Inr (s, t)))"

definition max_authorization_epoch :: int where
  "max_authorization_epoch = 9007199254740991"

definition required_epoch :: "jsv \<Rightarrow> js_error + int" where
  "required_epoch v = (case as_safe_integer v of
       None \<Rightarrow> Inl (RangeErr ''authorizationEpoch outside policy'')
     | Some n \<Rightarrow> if n < 1 \<or> n > max_authorization_epoch then Inl (RangeErr ''authorizationEpoch outside policy'') else Inr n)"

text \<open>\<open>/^[A-Za-z0-9._:-]+$/u\<close>\<close>

definition safe_char :: "char \<Rightarrow> bool" where
  "safe_char c \<longleftrightarrow> (let n = of_char c :: nat in
     (65 \<le> n \<and> n \<le> 90) \<or> (97 \<le> n \<and> n \<le> 122) \<or> (48 \<le> n \<and> n \<le> 57) \<or> c \<in> set ''._:-'')"

definition payload_text :: "jsv \<Rightarrow> string \<Rightarrow> js_error + string" where
  "payload_text v name = and_then (bounded_text v name 128) (\<lambda>s.
     if s \<noteq> [] \<and> list_all safe_char s then Inr s else Inl (Err ''AUTHORITY_DISPATCH_PAYLOAD_TEXT''))"

text \<open>The sorted own keys are the sorted expected ones; arrays and primitives have none.\<close>

definition own_keys_are :: "jsv \<Rightarrow> string list \<Rightarrow> bool" where
  "own_keys_are v ks = (case obj_keys v of None \<Rightarrow> False | Some own \<Rightarrow> sort own = sort ks)"

definition has_own :: "jsv \<Rightarrow> string \<Rightarrow> bool" where
  "has_own v k = (case obj_keys v of None \<Rightarrow> False | Some own \<Rightarrow> k \<in> set own)"

definition identity_digest :: "jsenv \<Rightarrow> jsv \<Rightarrow> string" where
  "identity_digest E v = sha256_hex E (cloud_canonical_json E v)"

section \<open>The dispatch payload\<close>

definition action_kind :: string where
  "action_kind = ''dispatch_rescue_unit''"

definition dispatch_payload :: "jsv \<Rightarrow> js_error + jsv" where
  "dispatch_payload inp = (case obj_keys inp of
       None \<Rightarrow> Inl (Err ''AUTHORITY_DISPATCH_PAYLOAD_SHAPE'')
     | Some keys \<Rightarrow>
         if \<not> (list_all (\<lambda>k. k \<in> set keys) [''action'', ''scenario''] \<and>
               list_all (\<lambda>k. k \<in> set [''action'', ''scenario'', ''destination'', ''logicalDispatch'']) keys \<and>
               2 \<le> length keys \<and> length keys \<le> 4)
         then Inl (Err ''AUTHORITY_DISPATCH_PAYLOAD_SHAPE'')
         else
           and_then (payload_text (fld inp ''action'') ''payload.action'') (\<lambda>action.
           if action \<noteq> action_kind then Inl (Err ''AUTHORITY_ACTION_KIND_UNSUPPORTED'')
           else
             and_then (if ''destination'' \<in> set keys
                       then map_sum id (\<lambda>s. [(''destination'', Str s)]) (payload_text (fld inp ''destination'') ''payload.destination'')
                       else Inr []) (\<lambda>destination.
             and_then (if ''logicalDispatch'' \<in> set keys
                       then map_sum id (\<lambda>s. [(''logicalDispatch'', Str s)])
                              (payload_text (fld inp ''logicalDispatch'') ''payload.logicalDispatch'')
                       else Inr []) (\<lambda>logical.
             and_then (payload_text (fld inp ''scenario'') ''payload.scenario'') (\<lambda>scenario.
             Inr (Obj ((''action'', Str action) # destination @ logical @ [(''scenario'', Str scenario)])))))))"

section \<open>Identities\<close>

definition logical_action_schema :: string where
  "logical_action_schema = ''tideproof.authority.logical-action.v1''"

definition logical_action_fields :: "string list" where
  "logical_action_fields = [''tenantId'', ''incidentId'', ''resourceId'', ''agency'', ''actionKind'', ''payloadDigest'']"

definition logical_action_identity :: "jsv \<Rightarrow> js_error + jsv" where
  "logical_action_identity inp =
     (if \<not> own_keys_are inp logical_action_fields then Inl (Err ''AUTHORITY_LOGICAL_ACTION_SHAPE'')
      else
        and_then (bounded_text (fld inp ''actionKind'') ''actionKind'' 64) (\<lambda>kind.
        if kind \<noteq> action_kind then Inl (Err ''AUTHORITY_ACTION_KIND_UNSUPPORTED'')
        else
          and_then (identity_uuid (fld inp ''tenantId'') ''tenantId'') (\<lambda>tenant.
          and_then (identity_uuid (fld inp ''incidentId'') ''incidentId'') (\<lambda>incident.
          and_then (bounded_text (fld inp ''resourceId'') ''resourceId'' 256) (\<lambda>resource.
          and_then (bounded_text (fld inp ''agency'') ''agency'' 128) (\<lambda>agency.
          and_then (identity_sha256 (fld inp ''payloadDigest'') ''payloadDigest'') (\<lambda>payload.
          Inr (Obj [(''schemaVersion'', Str logical_action_schema), (''tenantId'', Str tenant), (''incidentId'', Str incident),
            (''resourceId'', Str resource), (''agency'', Str agency), (''actionKind'', Str kind), (''payloadDigest'', Str payload)]))))))))"

definition logical_action_digest :: "jsenv \<Rightarrow> jsv \<Rightarrow> js_error + string" where
  "logical_action_digest E inp = map_sum id (identity_digest E) (logical_action_identity inp)"

definition proposal_schema :: string where
  "proposal_schema = ''tideproof.authority.dvi-proposal-identity.v1''"

definition proposal_fields :: "string list" where
  "proposal_fields = [''tenantId'', ''runId'', ''incidentId'', ''retrievalId'', ''logicalActionDigest'',
     ''authorityEvidenceBindingSha256'', ''selectedEvidenceId'', ''selectedEvidenceDigest'', ''policyVersion'', ''selectedRank'',
     ''admittedAt'', ''expiresAt'']"

definition proposal_identity :: "jsenv \<Rightarrow> jsv \<Rightarrow> js_error + jsv" where
  "proposal_identity E inp =
     (if \<not> own_keys_are inp proposal_fields then Inl (Err ''AUTHORITY_DVI_PROPOSAL_SHAPE'')
      else
        and_then (identity_time E (fld inp ''admittedAt'') ''admittedAt'') (\<lambda>(admitted, admitted_ms).
        and_then (identity_time E (fld inp ''expiresAt'') ''expiresAt'') (\<lambda>(expires, expires_ms).
        if expires_ms \<le> admitted_ms then Inl (Err ''AUTHORITY_DVI_PROPOSAL_TIME'')
        else if fld inp ''selectedRank'' \<noteq> int_num 1 then Inl (Err ''AUTHORITY_DVI_SELECTED_RANK'')
        else
          and_then (identity_uuid (fld inp ''tenantId'') ''tenantId'') (\<lambda>tenant.
          and_then (identity_uuid (fld inp ''runId'') ''runId'') (\<lambda>run_id.
          and_then (identity_uuid (fld inp ''incidentId'') ''incidentId'') (\<lambda>incident.
          and_then (identity_uuid (fld inp ''retrievalId'') ''retrievalId'') (\<lambda>retrieval.
          and_then (identity_sha256 (fld inp ''logicalActionDigest'') ''logicalActionDigest'') (\<lambda>action.
          and_then (identity_sha256 (fld inp ''authorityEvidenceBindingSha256'') ''authorityEvidenceBindingSha256'') (\<lambda>evidence.
          and_then (identity_uuid (fld inp ''selectedEvidenceId'') ''selectedEvidenceId'') (\<lambda>selected.
          and_then (identity_sha256 (fld inp ''selectedEvidenceDigest'') ''selectedEvidenceDigest'') (\<lambda>digest.
          and_then (bounded_text (fld inp ''policyVersion'') ''policyVersion'' 128) (\<lambda>policy.
          Inr (Obj [(''schemaVersion'', Str proposal_schema), (''tenantId'', Str tenant), (''runId'', Str run_id),
            (''incidentId'', Str incident), (''retrievalId'', Str retrieval), (''logicalActionDigest'', Str action),
            (''authorityEvidenceBindingSha256'', Str evidence), (''selectedEvidenceId'', Str selected),
            (''selectedEvidenceDigest'', Str digest), (''policyVersion'', Str policy), (''selectedRank'', int_num 1),
            (''admittedAt'', Str admitted), (''expiresAt'', Str expires)])))))))))))))"

definition proposal_digest :: "jsenv \<Rightarrow> jsv \<Rightarrow> js_error + string" where
  "proposal_digest E inp = map_sum id (identity_digest E) (proposal_identity E inp)"

definition authority_key_schema :: string where
  "authority_key_schema = ''tideproof.authority.logical-authority-key.v1''"

definition authority_key_body :: "string \<Rightarrow> int \<Rightarrow> (string \<times> jsv) list" where
  "authority_key_body action epoch =
     [(''schemaVersion'', Str authority_key_schema), (''logicalActionDigest'', Str action), (''authorizationEpoch'', int_num epoch)]"

definition logical_authority_key :: "jsenv \<Rightarrow> jsv \<Rightarrow> js_error + jsv" where
  "logical_authority_key E inp =
     (if \<not> own_keys_are inp [''logicalActionDigest'', ''authorizationEpoch''] then Inl (Err ''AUTHORITY_LOGICAL_KEY_SHAPE'')
      else
        and_then (identity_sha256 (fld inp ''logicalActionDigest'') ''logicalActionDigest'') (\<lambda>action.
        and_then (required_epoch (fld inp ''authorizationEpoch'')) (\<lambda>epoch.
        let identity = authority_key_body action epoch in
        Inr (Obj (identity @ [(''logicalAuthorityKeySha256'', Str (identity_digest E (Obj identity)))])))))"

definition authorization_binding_schema :: string where
  "authorization_binding_schema = ''tideproof.authority.authorization-binding.v1''"

definition authorization_binding :: "jsenv \<Rightarrow> jsv \<Rightarrow> js_error + jsv" where
  "authorization_binding E inp =
     (if \<not> own_keys_are inp [''logicalActionDigest'', ''proposalDigest'', ''authorizationEpoch''] then Inl (Err ''AUTHORITY_BINDING_SHAPE'')
      else
        and_then (identity_sha256 (fld inp ''logicalActionDigest'') ''logicalActionDigest'') (\<lambda>action.
        and_then (identity_sha256 (fld inp ''proposalDigest'') ''proposalDigest'') (\<lambda>proposal.
        and_then (required_epoch (fld inp ''authorizationEpoch'')) (\<lambda>epoch.
        and_then (logical_authority_key E (Obj [(''logicalActionDigest'', Str action), (''authorizationEpoch'', int_num epoch)])) (\<lambda>key.
        let identity = [(''schemaVersion'', Str authorization_binding_schema), (''logicalActionDigest'', Str action),
            (''proposalDigest'', Str proposal), (''authorizationEpoch'', int_num epoch),
            (''logicalAuthorityKeySha256'', fld key ''logicalAuthorityKeySha256'')] in
        Inr (Obj (identity @ [(''authorizationBindingSha256'', Str (identity_digest E (Obj identity)))])))))))"

section \<open>The selection receipt\<close>

definition required_pattern :: "(string \<Rightarrow> bool) \<Rightarrow> jsv \<Rightarrow> string \<Rightarrow> js_error + string" where
  "required_pattern p v name = (case v of
       Str s \<Rightarrow> if p s then Inr s else Inl (TypeErr (name @ '' is not canonical''))
     | _ \<Rightarrow> Inl (TypeErr (name @ '' is not canonical'')))"

definition selection_time :: "jsenv \<Rightarrow> jsv \<Rightarrow> string \<Rightarrow> js_error + string \<times> int" where
  "selection_time E v name = (case v of
       Str s \<Rightarrow> (case date_parse E s of
           None \<Rightarrow> Inl (TypeErr (name @ '' must be canonical UTC milliseconds''))
         | Some t \<Rightarrow> (case to_iso_string t of
               None \<Rightarrow> Inl (RangeErr ''Invalid time value'')
             | Some canon \<Rightarrow> if canon \<noteq> s then Inl (TypeErr (name @ '' must be canonical UTC milliseconds'')) else Inr (s, t)))
     | _ \<Rightarrow> Inl (TypeErr (name @ '' must be canonical UTC milliseconds'')))"

definition sequence_line :: "jsv \<Rightarrow> js_error + string" where
  "sequence_line row = (case obj_keys row of
       None \<Rightarrow> Inl (TypeErr ''DVI_RANKED_SEQUENCE_SHAPE'')
     | Some keys \<Rightarrow>
         if join '','' (sort keys) \<noteq> ''evidenceDigest,evidenceId'' then Inl (TypeErr ''DVI_RANKED_SEQUENCE_SHAPE'')
         else
           and_then (required_pattern uuid_shape (fld row ''evidenceId'') ''evidenceId'') (\<lambda>i.
           and_then (required_pattern hex_64 (fld row ''evidenceDigest'') ''evidenceDigest'') (\<lambda>d.
           Inr (i @ '':'' @ d))))"

definition ranked_sequence_sha256 :: "jsenv \<Rightarrow> jsv \<Rightarrow> js_error + string" where
  "ranked_sequence_sha256 E rows = (case rows of
       Arr xs \<Rightarrow> if length xs < 1 \<or> length xs > 100 then Inl (TypeErr ''DVI_RANKED_SEQUENCE_SIZE'')
                  else and_then (map_result sequence_line xs) (\<lambda>lines.
                    Inr (sha256_hex E (join [CHR 0x0A] lines @ [CHR 0x0A])))
     | _ \<Rightarrow> Inl (TypeErr ''DVI_RANKED_SEQUENCE_SIZE''))"

definition selection_schema :: string where
  "selection_schema = ''tideproof.authority.dvi-selection-receipt.v2''"

definition selection_receipt :: "jsenv \<Rightarrow> jsv \<Rightarrow> js_error + jsv" where
  "selection_receipt E inp =
     and_then (selection_time E (fld inp ''admittedAt'') ''admittedAt'') (\<lambda>(admitted, admitted_ms).
     and_then (selection_time E (fld inp ''expiresAt'') ''expiresAt'') (\<lambda>(expires, expires_ms).
     if expires_ms \<le> admitted_ms then Inl (TypeErr ''DVI_SELECTION_RECEIPT_TIME'')
     else if fld inp ''selectedRank'' \<noteq> int_num 1 then Inl (TypeErr ''DVI_SELECTION_RECEIPT_RANK'')
     else case as_safe_integer (fld inp ''resultLimit'') of
       None \<Rightarrow> Inl (TypeErr ''DVI_SELECTION_RECEIPT_LIMIT'')
     | Some limit \<Rightarrow>
       if limit < 1 \<or> limit > 100 then Inl (TypeErr ''DVI_SELECTION_RECEIPT_LIMIT'')
       else
         and_then (required_pattern (\<lambda>s. 1 \<le> length s \<and> length s \<le> 128 \<and> s = trim s) (fld inp ''agency'') ''agency'') (\<lambda>agency.
         if fld inp ''policyVersion'' \<noteq> Str ''g1-admissibility-v2'' then Inl (TypeErr ''DVI_SELECTION_RECEIPT_POLICY'')
         else
           and_then (required_pattern hex_40 (fld inp ''sourceCommit'') ''sourceCommit'') (\<lambda>commit.
           and_then (required_pattern hex_40 (fld inp ''treeDigest'') ''treeDigest'') (\<lambda>tree.
           and_then (required_pattern hex_64 (fld inp ''specSha256'') ''specSha256'') (\<lambda>spec.
           and_then (required_pattern uuid_shape (fld inp ''runId'') ''runId'') (\<lambda>run_id.
           and_then (required_pattern uuid_shape (fld inp ''tenantId'') ''tenantId'') (\<lambda>tenant.
           and_then (required_pattern uuid_shape (fld inp ''incidentId'') ''incidentId'') (\<lambda>incident.
           and_then (required_pattern uuid_shape (fld inp ''retrievalId'') ''retrievalId'') (\<lambda>retrieval.
           and_then (required_pattern hex_64 (fld inp ''rankedSequenceSha256'') ''rankedSequenceSha256'') (\<lambda>sequence.
           and_then (required_pattern hex_64 (fld inp ''queryEmbeddingSha256'') ''queryEmbeddingSha256'') (\<lambda>embedding.
           and_then (required_pattern uuid_shape (fld inp ''selectedEvidenceId'') ''selectedEvidenceId'') (\<lambda>selected.
           and_then (required_pattern hex_64 (fld inp ''selectedEvidenceDigest'') ''selectedEvidenceDigest'') (\<lambda>digest.
           Inr (Obj [(''schemaVersion'', Str selection_schema), (''sourceCommit'', Str commit), (''treeDigest'', Str tree),
             (''specSha256'', Str spec), (''runId'', Str run_id), (''tenantId'', Str tenant), (''incidentId'', Str incident),
             (''retrievalId'', Str retrieval), (''agency'', Str agency), (''policyVersion'', Str ''g1-admissibility-v2''),
             (''snapshot'', Obj [(''admittedAt'', Str admitted), (''expiresAt'', Str expires)]),
             (''rankedSequenceSha256'', Str sequence), (''queryEmbeddingSha256'', Str embedding), (''resultLimit'', int_num limit),
             (''selected'', Obj [(''rank'', int_num 1), (''evidenceId'', Str selected), (''evidenceDigest'', Str digest)])])))))))))))))))"

definition selection_binding_sha256 :: "jsenv \<Rightarrow> jsv \<Rightarrow> js_error + string" where
  "selection_binding_sha256 E inp = map_sum id (identity_digest E) (selection_receipt E inp)"

section \<open>What a digest pins down\<close>

text \<open>An object of strings and integers: its canonical text determines its members.\<close>

fun plain :: "jsv \<Rightarrow> bool" where
  "plain (Str s) = True"
| "plain (Num (Fin r)) = (of_int (floor r) = r)"
| "plain v = False"

fun flat :: "jsv \<Rightarrow> bool" where
  "flat (Obj kvs) \<longleftrightarrow> distinct (map fst kvs) \<and> list_all (\<lambda>(k, v). plain v) kvs"
| "flat v = False"

definition no_collision :: "jsenv \<Rightarrow> jsv \<Rightarrow> jsv \<Rightarrow> bool" where
  "no_collision E v w \<longleftrightarrow>
     (identity_digest E v = identity_digest E w \<longrightarrow> cloud_canonical_json E v = cloud_canonical_json E w)"

lemma plain_json: "plain v \<Longrightarrow> json_ok v \<and> sort_keys cmp v = v"
  by (cases v rule: plain.cases) auto

lemma plain_int_num: "plain (int_num n)"
  by simp

lemma flat_json_ok: "flat v \<Longrightarrow> json_ok v"
  by (cases v) (auto simp: list_all_iff dest!: plain_json)

lemma flat_fld: "flat v \<Longrightarrow> fld v k \<noteq> Undef \<Longrightarrow> plain (fld v k)"
  by (cases v) (auto simp: list_all_iff dest: map_of_SomeD split: option.splits)

lemma flat_sorted_fld:
  assumes "flat v" and "flat w" and "sort_keys cmp v = sort_keys cmp w"
  shows "fld v k = fld w k"
proof -
  from assms(1,2) obtain kvs kws where v: "v = Obj kvs" and w: "w = Obj kws" and d: "distinct (map fst kvs)" "distinct (map fst kws)"
    by (cases v; cases w) auto
  have id: "map_option (sort_keys cmp) (map_of us k) = map_of us k" if "flat (Obj us)" for us
  proof (cases "map_of us k")
    case (Some x)
    with that have "plain x" by (auto simp: list_all_iff dest: map_of_SomeD)
    with Some plain_json [of x cmp] show ?thesis by simp
  qed simp
  have "map_of kvs k = map_of kws k"
    using sort_keys_Obj_map_of [OF assms(3) [unfolded v w] d, of k] id [of kvs] id [of kws] assms(1,2) v w by simp
  then show ?thesis by (simp add: v w)
qed

lemma digest_pins_members:
  assumes "flat v" and "flat w" and "no_collision E v w" and "identity_digest E v = identity_digest E w"
  shows "fld v k = fld w k"
proof -
  from assms(3,4) have "cloud_canonical_json E v = cloud_canonical_json E w" by (simp add: no_collision_def)
  then have "sort_keys compare_canonical_keys v = sort_keys compare_canonical_keys w"
    using canonical_json_inj [OF flat_json_ok [OF assms(1)] flat_json_ok [OF assms(2)]] by (simp add: cloud_canonical_json_def)
  with assms(1,2) show ?thesis by (rule flat_sorted_fld)
qed

section \<open>Checked fields\<close>

lemma bounded_text_Inr: "bounded_text v name m = Inr s \<longleftrightarrow>
    v = Str s \<and> s \<noteq> [] \<and> length s \<le> m \<and> trim s = s \<and> \<not> list_ex control_char s"
  by (cases v) (auto simp: bounded_text_def)

lemma identity_uuid_Inr: "identity_uuid v name = Inr s \<Longrightarrow> uuid_shape s"
  by (auto simp: identity_uuid_def and_then_eq_Inr split: if_splits)

lemma identity_sha256_Inr: "identity_sha256 v name = Inr s \<longleftrightarrow> v = Str s \<and> bounded_text v name 64 = Inr s \<and> hex_64 s"
  by (auto simp: identity_sha256_def and_then_eq_Inr bounded_text_Inr split: if_splits)

lemma identity_time_Inr: "identity_time E v name = Inr (s, t) \<Longrightarrow>
    v = Str s \<and> date_parse E s = Some t \<and> to_iso_string t = Some s"
  by (auto simp: identity_time_def and_then_eq_Inr bounded_text_Inr split: option.splits if_splits)

lemma required_epoch_Inr: "required_epoch v = Inr n \<Longrightarrow> as_safe_integer v = Some n \<and> 1 \<le> n \<and> n \<le> max_authorization_epoch"
  by (auto simp: required_epoch_def split: option.splits if_splits)

lemma payload_text_Inr: "payload_text v name = Inr s \<Longrightarrow> list_all safe_char s \<and> s \<noteq> [] \<and> length s \<le> 128"
  by (auto simp: payload_text_def and_then_eq_Inr bounded_text_Inr split: if_splits)

lemma dispatch_payload_flat: "dispatch_payload inp = Inr p \<Longrightarrow> flat p"
  by (auto simp: dispatch_payload_def and_then_eq_Inr map_sum_eq_Inr split: option.splits if_split_asm)

lemma logical_action_identity_flat: "logical_action_identity inp = Inr a \<Longrightarrow> flat a"
  by (auto simp: logical_action_identity_def and_then_eq_Inr split: if_split_asm)

lemma proposal_identity_flat: "proposal_identity E inp = Inr p \<Longrightarrow> flat p"
  by (auto simp: proposal_identity_def and_then_eq_Inr split: if_split_asm)

end
