(* ===== verification/Authority_Request.thy ===== *)
theory Authority_Request
  imports Authority_Identity
begin

text \<open>
  The normal form of a request for authority (\<open>normalizeRequest\<close> and its helpers in
  \<open>src/cloud/authority-store.js\<close>): the argument is checked field by field, its payload,
  logical action and proposal are reduced to digests, and the request digest is taken of the
  canonical text of everything the request stands for. An argument is an object.
\<close>

section \<open>Fields\<close>

definition store_text :: "jsv \<Rightarrow> string \<Rightarrow> js_error + string" where
  "store_text v name = required_text v (name @ '' must be a non-empty string'')"

definition store_uuid :: "jsv \<Rightarrow> string \<Rightarrow> js_error + string" where
  "store_uuid v name = and_then (store_text v name) (\<lambda>s.
     if uuid_shape (to_lower s) then Inr (to_lower s) else Inl (TypeErr (name @ '' must be a UUID'')))"

definition store_sha256 :: "jsv \<Rightarrow> string \<Rightarrow> js_error + string" where
  "store_sha256 v name = and_then (store_text v name) (\<lambda>s.
     if hex_64 (to_lower s) then Inr (to_lower s)
     else Inl (TypeErr (name @ '' must be a lowercase SHA-256 hex digest'')))"

definition min_lease_ms :: int where "min_lease_ms = 1000"

definition standard_max_lease_ms :: int where "standard_max_lease_ms = 600000"

definition max_lease_ms :: int where "max_lease_ms = 1800000"

definition store_lease :: "jsv \<Rightarrow> js_error + int" where
  "store_lease v = (case as_safe_integer v of
       None \<Rightarrow> Inl (RangeErr ''leaseMs must be an integer from 1000 through 1800000'')
     | Some n \<Rightarrow> if n < min_lease_ms \<or> n > max_lease_ms
                 then Inl (RangeErr ''leaseMs must be an integer from 1000 through 1800000'') else Inr n)"

definition store_time :: "jsenv \<Rightarrow> jsv \<Rightarrow> string \<Rightarrow> js_error + string" where
  "store_time E v name = and_then (store_text v name) (\<lambda>s.
     case date_parse E s of
       None \<Rightarrow> Inl (TypeErr (name @ '' must be an ISO-compatible timestamp''))
     | Some t \<Rightarrow> (case to_iso_string t of
           None \<Rightarrow> Inl (RangeErr ''Invalid time value'')
         | Some s' \<Rightarrow> Inr s'))"

definition exact_object :: "jsv \<Rightarrow> string list \<Rightarrow> string \<Rightarrow> js_error + jsv" where
  "exact_object v ks code = (if own_keys_are v ks then Inr v else Inl (TypeErr code))"

section \<open>The logical action\<close>

definition logical_action_input_fields :: "string list" where
  "logical_action_input_fields = [''tenantId'', ''incidentId'', ''resourceId'', ''agency'', ''actionKind'', ''payload'']"

definition normalize_logical_action :: "jsenv \<Rightarrow> jsv \<Rightarrow> js_error + jsv" where
  "normalize_logical_action E inp =
     and_then (exact_object inp logical_action_input_fields ''AUTHORITY_LOGICAL_ACTION_INPUT_SHAPE'') (\<lambda>_.
     and_then (dispatch_payload (fld inp ''payload'')) (\<lambda>payload.
     and_then (store_text (fld inp ''actionKind'') ''logicalAction.actionKind'') (\<lambda>kind.
     if kind \<noteq> action_kind then Inl (TypeErr ''AUTHORITY_ACTION_KIND_UNSUPPORTED'')
     else
       and_then (store_uuid (fld inp ''tenantId'') ''logicalAction.tenantId'') (\<lambda>tenant.
       and_then (store_uuid (fld inp ''incidentId'') ''logicalAction.incidentId'') (\<lambda>incident.
       and_then (store_text (fld inp ''resourceId'') ''logicalAction.resourceId'') (\<lambda>resource.
       and_then (store_text (fld inp ''agency'') ''logicalAction.agency'') (\<lambda>agency.
       let payload_digest = identity_digest E payload in
       and_then (logical_action_digest E (Obj [(''tenantId'', Str tenant), (''incidentId'', Str incident),
           (''resourceId'', Str resource), (''agency'', Str agency), (''actionKind'', Str kind), (''payloadDigest'', Str payload_digest)]))
         (\<lambda>digest.
       Inr (Obj [(''tenantId'', Str tenant), (''incidentId'', Str incident), (''resourceId'', Str resource), (''agency'', Str agency),
         (''actionKind'', Str kind), (''payload'', payload), (''payloadDigest'', Str payload_digest),
         (''logicalActionDigest'', Str digest)])))))))))"

section \<open>The proposal\<close>

definition proposal_input_fields :: "string list" where
  "proposal_input_fields = [''tenantId'', ''runId'', ''incidentId'', ''retrievalId'', ''authorityEvidenceBindingSha256'',
     ''selectedEvidenceId'', ''selectedEvidenceDigest'', ''policyVersion'', ''selectedRank'', ''admittedAt'', ''expiresAt'']"

definition normalize_proposal :: "jsenv \<Rightarrow> jsv \<Rightarrow> jsv \<Rightarrow> js_error + jsv \<times> string" where
  "normalize_proposal E inp action =
     and_then (exact_object inp proposal_input_fields ''AUTHORITY_DVI_PROPOSAL_INPUT_SHAPE'') (\<lambda>_.
     and_then (store_uuid (fld inp ''tenantId'') ''dviProposal.tenantId'') (\<lambda>tenant.
     and_then (store_uuid (fld inp ''runId'') ''dviProposal.runId'') (\<lambda>run_id.
     and_then (store_uuid (fld inp ''incidentId'') ''dviProposal.incidentId'') (\<lambda>incident.
     and_then (store_uuid (fld inp ''retrievalId'') ''dviProposal.retrievalId'') (\<lambda>retrieval.
     and_then (store_sha256 (fld inp ''authorityEvidenceBindingSha256'') ''dviProposal.authorityEvidenceBindingSha256'') (\<lambda>evidence.
     and_then (store_uuid (fld inp ''selectedEvidenceId'') ''dviProposal.selectedEvidenceId'') (\<lambda>selected.
     and_then (store_sha256 (fld inp ''selectedEvidenceDigest'') ''dviProposal.selectedEvidenceDigest'') (\<lambda>digest.
     and_then (store_text (fld inp ''policyVersion'') ''dviProposal.policyVersion'') (\<lambda>policy.
     and_then (store_time E (fld inp ''admittedAt'') ''dviProposal.admittedAt'') (\<lambda>admitted.
     and_then (store_time E (fld inp ''expiresAt'') ''dviProposal.expiresAt'') (\<lambda>expires.
     let proposal = Obj [(''tenantId'', Str tenant), (''runId'', Str run_id), (''incidentId'', Str incident),
         (''retrievalId'', Str retrieval), (''logicalActionDigest'', fld action ''logicalActionDigest''),
         (''authorityEvidenceBindingSha256'', Str evidence), (''selectedEvidenceId'', Str selected),
         (''selectedEvidenceDigest'', Str digest), (''policyVersion'', Str policy), (''selectedRank'', fld inp ''selectedRank''),
         (''admittedAt'', Str admitted), (''expiresAt'', Str expires)] in
     if Str tenant \<noteq> fld action ''tenantId'' \<or> Str incident \<noteq> fld action ''incidentId''
     then Inl (TypeErr ''AUTHORITY_PROPOSAL_REQUEST_MISMATCH'')
     else
       and_then (proposal_identity E proposal) (\<lambda>identity.
       and_then (proposal_digest E proposal) (\<lambda>d.
       Inr (identity, d))))))))))))))"

section \<open>The authorization of a proposal\<close>

definition dvi_authorization_fields :: "string list" where
  "dvi_authorization_fields = [''dviProposal'', ''selectedEvidenceId'', ''selectedEvidenceDigest'', ''logicalAction'']"

definition normalized_dvi_authorization :: "jsenv \<Rightarrow> jsv \<Rightarrow> js_error + jsv" where
  "normalized_dvi_authorization E inp =
     and_then (exact_object inp dvi_authorization_fields ''AUTHORITY_DVI_AUTHORIZATION_SHAPE'') (\<lambda>_.
     if fld inp ''authorizationEpoch'' \<noteq> Undef \<or> fld inp ''logicalAuthorityKeySha256'' \<noteq> Undef
     then Inl (TypeErr ''AUTHORITY_DATABASE_OWNED_IDENTITY'')
     else
       and_then (normalize_logical_action E (fld inp ''logicalAction'')) (\<lambda>action.
       and_then (normalize_proposal E (fld inp ''dviProposal'') action) (\<lambda>(proposal, pdigest).
       and_then (store_uuid (fld inp ''selectedEvidenceId'') ''selectedEvidenceId'') (\<lambda>selected.
       and_then (store_sha256 (fld inp ''selectedEvidenceDigest'') ''selectedEvidenceDigest'') (\<lambda>digest.
       if fld proposal ''selectedEvidenceId'' \<noteq> Str selected \<or> fld proposal ''selectedEvidenceDigest'' \<noteq> Str digest
       then Inl (TypeErr ''AUTHORITY_DVI_SELECTION_MISMATCH'')
       else Inr (Obj [(''logicalAction'', action), (''logicalActionDigest'', fld action ''logicalActionDigest''),
         (''dviProposal'', proposal), (''proposalDigest'', Str pdigest), (''selectedEvidenceId'', Str selected),
         (''selectedEvidenceDigest'', Str digest)]))))))"

section \<open>The request\<close>

definition policy_version :: string where
  "policy_version = ''gate1-policy-v2''"

definition request_dvi_authorization_fields :: "string list" where
  "request_dvi_authorization_fields = [''dviProposal'', ''selectedEvidenceId'', ''selectedEvidenceDigest'']"

definition default_payload :: jsv where
  "default_payload = Obj [(''scenario'', Str ''synthetic-highwater''), (''action'', Str action_kind)]"

definition client_clock :: "jsv \<Rightarrow> bool" where
  "client_clock inp \<longleftrightarrow> fld inp ''at'' \<noteq> Undef \<or> fld inp ''authorizationTime'' \<noteq> Undef \<or> fld inp ''clientNow'' \<noteq> Undef \<or>
     fld inp ''now'' \<noteq> Undef \<or> fld inp ''leaseExpiresAt'' \<noteq> Undef"

text \<open>The members of \<open>normalized\<close>.\<close>

definition normalized_fields :: "jsenv \<Rightarrow> jsv \<Rightarrow> jsv \<Rightarrow> js_error + (string \<times> jsv) list" where
  "normalized_fields E inp payload =
     and_then (store_uuid (fld inp ''tenantId'') ''tenantId'') (\<lambda>tenant.
     and_then (store_uuid (fld inp ''runId'') ''runId'') (\<lambda>run_id.
     and_then (store_uuid (fld inp ''incidentId'') ''incidentId'') (\<lambda>incident.
     and_then (store_text (fld inp ''resourceId'') ''resourceId'') (\<lambda>resource.
     and_then (store_uuid (fld inp ''operationId'') ''operationId'') (\<lambda>operation.
     and_then (store_text (fld inp ''agentId'') ''agentId'') (\<lambda>agent.
     and_then (store_text (fld inp ''agency'') ''agency'') (\<lambda>agency.
     and_then (store_uuid (fld inp ''evidenceId'') ''evidenceId'') (\<lambda>evidence.
     and_then (store_uuid (fld inp ''intentNonce'') ''intentNonce'') (\<lambda>nonce.
     and_then (store_uuid (fld inp ''effectKey'') ''effectKey'') (\<lambda>effect.
     and_then (store_lease (coalesce (fld inp ''leaseMs'') (int_num 300000))) (\<lambda>lease.
     Inr [(''digestVersion'', int_num 2), (''tenantId'', Str tenant), (''runId'', Str run_id), (''incidentId'', Str incident),
       (''resourceId'', Str resource), (''operationId'', Str operation), (''agentId'', Str agent), (''agency'', Str agency),
       (''evidenceId'', Str evidence), (''intentNonce'', Str nonce), (''effectKey'', Str effect), (''leaseMs'', int_num lease),
       (''policyVersion'', Str policy_version), (''actionKind'', Str action_kind), (''payload'', payload),
       (''payloadDigest'', Str (identity_digest E payload))])))))))))))"

text \<open>The lease is a standard one, or the proposal spans exactly the extended window.\<close>

definition lease_allowed :: "jsenv \<Rightarrow> jsv \<Rightarrow> jsv \<Rightarrow> bool" where
  "lease_allowed E lease proposal \<longleftrightarrow>
     (case as_safe_integer lease of
        None \<Rightarrow> True
      | Some ms \<Rightarrow> ms \<le> standard_max_lease_ms \<or>
          ms = max_lease_ms \<and>
          (case (new_date E (fld proposal ''admittedAt''), new_date E (fld proposal ''expiresAt'')) of
             (Some a, Some e) \<Rightarrow> e - a = max_lease_ms
           | _ \<Rightarrow> False))"

definition semantic_fields :: "string list" where
  "semantic_fields = [''digestVersion'', ''tenantId'', ''runId'', ''incidentId'', ''resourceId'', ''agentId'', ''agency'', ''evidenceId'',
     ''intentNonce'', ''effectKey'', ''leaseMs'', ''policyVersion'', ''actionKind'', ''payloadDigest'']"

definition semantic_payload :: "jsv \<Rightarrow> jsv \<Rightarrow> string \<Rightarrow> string \<Rightarrow> string \<Rightarrow> jsv" where
  "semantic_payload normalized action pdigest selected digest =
     Obj (map (\<lambda>k. (k, fld normalized k)) semantic_fields @
       [(''logicalActionDigest'', fld action ''logicalActionDigest''), (''proposalDigest'', Str pdigest),
        (''selectedEvidenceId'', Str selected), (''selectedEvidenceDigest'', Str digest)])"

definition normalize_request :: "jsenv \<Rightarrow> jsv \<Rightarrow> js_error + jsv" where
  "normalize_request E inp =
     (if client_clock inp then Inl (TypeErr ''authorization and lease time are database-controlled'')
      else
        and_then (dispatch_payload (if has_own inp ''payload'' then fld inp ''payload'' else default_payload)) (\<lambda>payload.
        and_then (exact_object (fld inp ''dviAuthorization'') request_dvi_authorization_fields ''AUTHORITY_DVI_AUTHORIZATION_SHAPE'') (\<lambda>dvi.
        and_then (normalized_fields E inp payload) (\<lambda>fields.
        let normalized = Obj fields in
        and_then (normalize_logical_action E (Obj (map (\<lambda>k. (k, fld normalized k)) logical_action_input_fields))) (\<lambda>action.
        and_then (normalize_proposal E (fld dvi ''dviProposal'') action) (\<lambda>(proposal, pdigest).
        if \<not> lease_allowed E (fld normalized ''leaseMs'') proposal
        then Inl (RangeErr ''extended lease is reserved for the exact fresh recovery window'')
        else if fld proposal ''runId'' \<noteq> fld normalized ''runId'' \<or> fld proposal ''tenantId'' \<noteq> fld normalized ''tenantId'' \<or>
            fld proposal ''incidentId'' \<noteq> fld normalized ''incidentId''
        then Inl (TypeErr ''AUTHORITY_PROPOSAL_REQUEST_MISMATCH'')
        else
          and_then (store_uuid (fld dvi ''selectedEvidenceId'') ''dviAuthorization.selectedEvidenceId'') (\<lambda>selected.
          if Str selected \<noteq> fld normalized ''evidenceId'' then Inl (TypeErr ''AUTHORITY_SELECTED_EVIDENCE_MISMATCH'')
          else
            and_then (store_sha256 (fld dvi ''selectedEvidenceDigest'') ''dviAuthorization.selectedEvidenceDigest'') (\<lambda>digest.
            if fld proposal ''selectedEvidenceId'' \<noteq> Str selected \<or> fld proposal ''selectedEvidenceDigest'' \<noteq> Str digest
            then Inl (TypeErr ''AUTHORITY_DVI_SELECTION_MISMATCH'')
            else
              let semantic = semantic_payload normalized action pdigest selected digest in
              Inr (Obj (fields @
                [(''logicalActionDigest'', fld action ''logicalActionDigest''), (''dviProposal'', proposal),
                 (''proposalDigest'', Str pdigest), (''selectedEvidenceId'', Str selected), (''selectedEvidenceDigest'', Str digest),
                 (''requestPayload'', semantic), (''requestDigest'', Str (identity_digest E semantic))]))))))))))"

definition request_digest_for :: "jsenv \<Rightarrow> jsv \<Rightarrow> js_error + jsv" where
  "request_digest_for E inp = map_sum id (\<lambda>r. fld r ''requestDigest'') (normalize_request E inp)"

definition authorization_from_request :: "jsv \<Rightarrow> jsv" where
  "authorization_from_request r =
     Obj [(''logicalAction'', Obj (map (\<lambda>k. (k, fld r k)) [''tenantId'', ''incidentId'', ''resourceId'', ''agency'', ''actionKind'',
           ''payload'', ''payloadDigest'', ''logicalActionDigest''])),
       (''logicalActionDigest'', fld r ''logicalActionDigest''), (''dviProposal'', fld r ''dviProposal''),
       (''proposalDigest'', fld r ''proposalDigest''), (''selectedEvidenceId'', fld r ''selectedEvidenceId''),
       (''selectedEvidenceDigest'', fld r ''selectedEvidenceDigest'')]"

end
