(* ===== verification/Evidence_Store.thy ===== *)
theory Evidence_Store
  imports Authority_Request Sql
begin

text \<open>
  The evidence of the authority ledger: verification keys, verification receipts and evidence
  rows, and what writes and reads them. The writers are \<open>registerVerificationKey\<close>,
  \<open>revokeVerificationKey\<close>, \<open>appendSignedEvidence\<close> of \<open>src/cloud/authority-store.js\<close> and the
  stored functions \<open>g1_append_verified_evidence_v1\<close> and \<open>_v2\<close> of
  \<open>src/cloud/primary-security.js\<close>; the readers compute admissibility
  (\<open>g1_list_admissibility_internal_v1\<close>, \<open>g1_observe_admissibility_v1\<close> and \<open>_v2\<close>,
  \<open>auditEvidenceStatusAt\<close>). A nullable column is an option and a condition with a null operand
  is not true. Times are in microseconds; each call is one serializable transaction.
\<close>

section \<open>Base64\<close>

text \<open>\<open>Buffer.toString("base64")\<close> on bytes, and its inverse on the texts it produces.\<close>

definition sextet_char :: "nat \<Rightarrow> char" where
  "sextet_char n = (if n < 26 then char_of (65 + n) else if n < 52 then char_of (71 + n)
     else if n < 62 then char_of (n - 4) else if n = 62 then CHR ''+'' else CHR ''/'')"

definition char_sextet :: "char \<Rightarrow> nat option" where
  "char_sextet c = (let n = of_char c :: nat in
     if 65 \<le> n \<and> n \<le> 90 then Some (n - 65) else if 97 \<le> n \<and> n \<le> 122 then Some (n - 71)
     else if 48 \<le> n \<and> n \<le> 57 then Some (n + 4) else if n = 43 then Some 62 else if n = 47 then Some 63 else None)"

fun base64_encode :: "nat list \<Rightarrow> string" where
  "base64_encode [] = []"
| "base64_encode [a] = [sextet_char (a div 4), sextet_char (a mod 4 * 16), CHR ''='', CHR ''='']"
| "base64_encode [a, b] = [sextet_char (a div 4), sextet_char (a mod 4 * 16 + b div 16), sextet_char (b mod 16 * 4), CHR ''='']"
| "base64_encode (a # b # c # bytes) =
     [sextet_char (a div 4), sextet_char (a mod 4 * 16 + b div 16), sextet_char (b mod 16 * 4 + c div 64), sextet_char (c mod 64)]
     @ base64_encode bytes"

definition sextets :: "char list \<Rightarrow> nat list option" where
  "sextets cs = (if list_all (\<lambda>c. char_sextet c \<noteq> None) cs then Some (map (\<lambda>c. the (char_sextet c)) cs) else None)"

fun base64_decode :: "string \<Rightarrow> nat list option" where
  "base64_decode [] = Some []"
| "base64_decode (w # x # y # z # cs) =
     (if z = CHR ''='' \<and> y = CHR ''='' then
        (case sextets [w, x] of Some [p, q] \<Rightarrow> if cs = [] then Some [p * 4 + q div 16] else None | _ \<Rightarrow> None)
      else if z = CHR ''='' then
        (case sextets [w, x, y] of Some [p, q, r] \<Rightarrow>
           if cs = [] then Some [p * 4 + q div 16, q mod 16 * 16 + r div 4] else None | _ \<Rightarrow> None)
      else
        (case (sextets [w, x, y, z], base64_decode cs) of
           (Some [p, q, r, s], Some bytes) \<Rightarrow> Some ([p * 4 + q div 16, q mod 16 * 16 + r div 4, r mod 4 * 64 + s] @ bytes)
         | _ \<Rightarrow> None))"
| "base64_decode _ = None"

text \<open>\<open>requireBase64\<close>: the text is what its bytes are written as.\<close>

definition required_base64 :: "jsv \<Rightarrow> string \<Rightarrow> js_error + string \<times> nat list" where
  "required_base64 v name = and_then (store_text v name) (\<lambda>s.
     case base64_decode s of
       None \<Rightarrow> Inl (TypeErr (name @ '' must be canonical base64''))
     | Some bytes \<Rightarrow> if bytes = [] \<or> base64_encode bytes \<noteq> s then Inl (TypeErr (name @ '' must be canonical base64''))
                      else Inr (s, bytes))"

lemma sextet_char_inverse: "n < 64 \<Longrightarrow> char_sextet (sextet_char n) = Some n"
  by (auto simp: sextet_char_def char_sextet_def Let_def)

lemma sextet_char_not_pad: "n < 64 \<Longrightarrow> sextet_char n \<noteq> CHR ''=''"
  using sextet_char_inverse [of n] by (auto simp: char_sextet_def)

lemma base64_roundtrip: "list_all (\<lambda>b. b < 256) bytes \<Longrightarrow> base64_decode (base64_encode bytes) = Some bytes"
proof (induction bytes rule: base64_encode.induct)
  case (2 a)
  then show ?case by (simp add: sextets_def sextet_char_inverse)
next
  case (3 a b)
  then have "a div 4 < 64" "a mod 4 * 16 + b div 16 < 64" "b mod 16 * 4 < 64" "b div 16 div 16 = 0" "b div 16 mod 16 = b div 16" by auto
  with 3 show ?case by (simp add: sextets_def sextet_char_inverse sextet_char_not_pad)
next
  case (4 a b c bytes)
  then have "a div 4 < 64" "a mod 4 * 16 + b div 16 < 64" "b mod 16 * 4 + c div 64 < 64" "c mod 64 < 64" by auto
  moreover have "(a mod 4 * 16 + b div 16) div 16 = a mod 4" "(b mod 16 * 4 + c div 64) div 4 = b mod 16"
      "(a mod 4 * 16 + b div 16) mod 16 = b div 16" "(b mod 16 * 4 + c div 64) mod 4 = c div 64"
    using 4(2) by auto
  ultimately show ?case using 4 by (simp add: sextets_def sextet_char_inverse sextet_char_not_pad)
qed simp

text \<open>What \<open>node:crypto\<close> computes: the digest of bytes, the type of a public key in SPKI form (an
  error when it cannot be read) and the check of a signature (an error when it cannot be made).\<close>

record crypto =
  sha256_bytes :: "nat list \<Rightarrow> string"
  key_type :: "nat list \<Rightarrow> string option"
  verify_signature :: "nat list \<Rightarrow> string \<Rightarrow> nat list \<Rightarrow> bool option"

section \<open>Tables\<close>

record evidence_row =
  ev_tenant :: string
  ev_id :: string
  ev_incident :: string
  ev_issuer :: string
  ev_scope :: string
  ev_claim_key :: "string option"
  ev_claim_value :: "string option"
  ev_key_id :: "string option"
  ev_verifier :: "string option"
  ev_payload_digest :: "string option"
  ev_signature :: "string option"
  ev_digest :: "string option"
  ev_observed_at :: int
  ev_valid_from :: int
  ev_valid_until :: int
  ev_provenance :: string
  ev_conflict :: string
  ev_assertion :: string
  ev_embedding :: string

definition length_64 :: "string option \<Rightarrow> bool" where
  "length_64 v = (case v of None \<Rightarrow> True | Some s \<Rightarrow> length s = 64)"

definition evidence_check :: "evidence_row \<Rightarrow> bool" where
  "evidence_check e \<longleftrightarrow> ev_valid_until e > ev_valid_from e \<and>
     ev_provenance e \<in> {''verified'', ''invalid'', ''revoked''} \<and> ev_conflict e \<in> {''none'', ''unresolved'', ''resolved''} \<and>
     length_64 (ev_payload_digest e) \<and> length_64 (ev_signature e) \<and> length_64 (ev_digest e)"

record verification_row =
  vr_tenant :: string
  vr_evidence :: string
  vr_request_digest :: string
  vr_incident :: string
  vr_issuer :: string
  vr_key_id :: string
  vr_verifier :: string
  vr_payload_digest :: string
  vr_signature :: string
  vr_key_digest :: "string option"
  vr_outcome :: string
  vr_reason :: "string option"

definition verification_check :: "verification_row \<Rightarrow> bool" where
  "verification_check v \<longleftrightarrow> length (vr_request_digest v) = 64 \<and> length (vr_payload_digest v) = 64 \<and> length (vr_signature v) = 64 \<and>
     length_64 (vr_key_digest v) \<and> vr_outcome v \<in> {''verified'', ''rejected''} \<and>
     (vr_outcome v = ''verified'' \<and> vr_reason v = None \<and> vr_key_digest v \<noteq> None \<or> vr_outcome v = ''rejected'' \<and> vr_reason v \<noteq> None)"

record key_row =
  vk_tenant :: string
  vk_id :: string
  vk_issuer :: string
  vk_algorithm :: string
  vk_spki :: string
  vk_digest :: string
  vk_status :: string
  vk_valid_from :: int
  vk_valid_until :: int
  vk_revoked_at :: "int option"

definition key_check :: "key_row \<Rightarrow> bool" where
  "key_check k \<longleftrightarrow> vk_algorithm k = ''ed25519'' \<and> length (vk_digest k) = 64 \<and> vk_status k \<in> {''active'', ''revoked''} \<and>
     vk_valid_until k > vk_valid_from k \<and>
     (vk_status k = ''active'' \<and> vk_revoked_at k = None \<or> vk_status k = ''revoked'' \<and> vk_revoked_at k \<noteq> None)"

record evidence_db =
  evidence_rows :: "evidence_row list"
  verifications :: "verification_row list"
  key_rows :: "key_row list"

definition evidence_key :: "evidence_row \<Rightarrow> string \<times> string" where
  "evidence_key e = (ev_tenant e, ev_id e)"

definition verification_key :: "verification_row \<Rightarrow> string \<times> string" where
  "verification_key v = (vr_tenant v, vr_evidence v)"

definition verification_request :: "verification_row \<Rightarrow> string \<times> string" where
  "verification_request v = (vr_tenant v, vr_request_digest v)"

definition signing_key :: "key_row \<Rightarrow> string \<times> string" where
  "signing_key k = (vk_tenant k, vk_id k)"

abbreviation every :: "'r \<Rightarrow> bool" where "every \<equiv> \<lambda>_. True"

text \<open>An insert fails on a violated check or on a taken key.\<close>

definition insert_verification :: "verification_row \<Rightarrow> evidence_db \<Rightarrow> sql_error + evidence_db" where
  "insert_verification v db =
     (if \<not> verification_check v then sql_raise ''23514'' ''g1_evidence_verification_receipts''
      else if taken every verification_key (verification_key v) (verifications db) \<or>
        taken every verification_request (verification_request v) (verifications db)
      then sql_raise ''23505'' ''g1_evidence_verification_receipts''
      else Inr (db\<lparr>verifications := verifications db @ [v]\<rparr>))"

text \<open>\<open>vector\<close> tells which texts the database takes for a \<open>VECTOR(3)\<close>.\<close>

definition insert_evidence :: "(string \<Rightarrow> bool) \<Rightarrow> evidence_row \<Rightarrow> evidence_db \<Rightarrow> sql_error + evidence_db" where
  "insert_evidence vector e db =
     (if \<not> vector (ev_embedding e) then sql_raise ''22P02'' ''VECTOR(3)''
      else if \<not> evidence_check e then sql_raise ''23514'' ''g1_evidence''
      else if taken every evidence_key (evidence_key e) (evidence_rows db) then sql_raise ''23505'' ''g1_evidence''
      else Inr (db\<lparr>evidence_rows := evidence_rows db @ [e]\<rparr>))"

section \<open>Signed evidence\<close>

text \<open>A number as \<open>join\<close> writes it.\<close>

definition required_embedding :: "jsenv \<Rightarrow> jsv \<Rightarrow> js_error + string" where
  "required_embedding E v =
     (case v of
        Arr xs \<Rightarrow> if length xs \<noteq> 3 \<or> list_ex (\<lambda>x. as_finite x = None) xs
                   then Inl (TypeErr ''embedding must contain exactly three finite numbers'')
                   else Inr (''['' @ join '','' (map (\<lambda>x. num_text (frac_str E) (Fin (the (as_finite x)))) xs) @ '']'')
      | _ \<Rightarrow> Inl (TypeErr ''embedding must contain exactly three finite numbers''))"

text \<open>The members of \<open>normalizeEvidence\<close>, in its order.\<close>

definition normalize_evidence :: "jsenv \<Rightarrow> jsv \<Rightarrow> js_error + (string \<times> jsv) list" where
  "normalize_evidence E inp =
     and_then (store_uuid (fld inp ''tenantId'') ''tenantId'') (\<lambda>tenant.
     and_then (store_uuid (fld inp ''evidenceId'') ''evidenceId'') (\<lambda>evidence.
     and_then (store_uuid (fld inp ''incidentId'') ''incidentId'') (\<lambda>incident.
     and_then (store_text (fld inp ''issuer'') ''issuer'') (\<lambda>issuer.
     and_then (store_text (fld inp ''agencyScope'') ''agencyScope'') (\<lambda>scope.
     and_then (store_text (fld inp ''claimKey'') ''claimKey'') (\<lambda>claim.
     and_then (store_text (fld inp ''claimValue'') ''claimValue'') (\<lambda>claimed.
     and_then (store_time E (fld inp ''observedAt'') ''observedAt'') (\<lambda>observed.
     and_then (store_time E (fld inp ''validFrom'') ''validFrom'') (\<lambda>starts.
     and_then (store_time E (fld inp ''validUntil'') ''validUntil'') (\<lambda>ends_at.
     and_then (store_text (fld inp ''conflictStatus'') ''conflictStatus'') (\<lambda>conflict.
     and_then (store_text (fld inp ''assertion'') ''assertion'') (\<lambda>assertion.
     and_then (required_embedding E (fld inp ''embedding'')) (\<lambda>embedding.
     Inr [(''tenantId'', Str tenant), (''evidenceId'', Str evidence), (''incidentId'', Str incident), (''issuer'', Str issuer),
       (''agencyScope'', Str scope), (''claimKey'', Str claim), (''claimValue'', Str claimed), (''observedAt'', Str observed),
       (''validFrom'', Str starts), (''validUntil'', Str ends_at), (''conflictStatus'', Str conflict),
       (''assertion'', Str assertion), (''embedding'', Str embedding)])))))))))))))"

definition signed_payload :: "jsenv \<Rightarrow> (string \<times> jsv) list \<Rightarrow> string" where
  "signed_payload E evidence = cloud_canonical_json E (Obj ((''digestVersion'', int_num 1) # evidence))"

text \<open>\<open>evidenceDigestFor\<close> on the row written for an envelope: the times are ISO texts already.\<close>

definition evidence_digest_of :: "jsenv \<Rightarrow> (string \<times> jsv) list \<Rightarrow> string \<Rightarrow> string \<Rightarrow> string \<Rightarrow> string \<Rightarrow> string \<Rightarrow> string" where
  "evidence_digest_of E evidence key_id verifier payload_digest signature_digest provenance =
     (let v = Obj evidence in
      identity_digest E (Obj (map (\<lambda>k. (k, fld v k)) [''tenantId'', ''evidenceId'', ''incidentId'', ''issuer'', ''agencyScope'', ''claimKey'', ''claimValue''] @
        [(''verificationKeyId'', Str key_id), (''verifierVersion'', Str verifier), (''signedPayloadDigest'', Str payload_digest),
         (''signatureDigest'', Str signature_digest)] @
        map (\<lambda>k. (k, fld v k)) [''observedAt'', ''validFrom'', ''validUntil''] @
        [(''provenanceStatus'', Str provenance)] @
        map (\<lambda>k. (k, fld v k)) [''conflictStatus'', ''assertion'', ''embedding''])))"

record envelope =
  en_evidence :: "(string \<times> jsv) list"
  en_key_id :: string
  en_verifier :: string
  en_signature_bytes :: "nat list"
  en_payload :: string
  en_payload_digest :: string
  en_signature_digest :: string
  en_request_digest :: string
  en_digest :: string

definition signed_envelope :: "jsenv \<Rightarrow> crypto \<Rightarrow> jsv \<Rightarrow> js_error + envelope" where
  "signed_envelope E C inp =
     and_then (normalize_evidence E inp) (\<lambda>evidence.
     and_then (store_text (fld inp ''verificationKeyId'') ''verificationKeyId'') (\<lambda>key_id.
     and_then (store_text (fld inp ''verifierVersion'') ''verifierVersion'') (\<lambda>verifier.
     and_then (required_base64 (fld inp ''signatureBase64'') ''signatureBase64'') (\<lambda>(_, bytes).
     let payload = signed_payload E evidence; payload_digest = sha256_hex E payload; signature_digest = sha256_bytes C bytes in
     Inr \<lparr>en_evidence = evidence, en_key_id = key_id, en_verifier = verifier, en_signature_bytes = bytes, en_payload = payload,
       en_payload_digest = payload_digest, en_signature_digest = signature_digest,
       en_request_digest = identity_digest E (Obj [(''digestVersion'', int_num 1), (''tenantId'', fld (Obj evidence) ''tenantId''),
         (''evidenceId'', fld (Obj evidence) ''evidenceId''), (''verificationKeyId'', Str key_id), (''verifierVersion'', Str verifier),
         (''signedPayloadDigest'', Str payload_digest), (''signatureDigest'', Str signature_digest)]),
       en_digest = evidence_digest_of E evidence key_id verifier payload_digest signature_digest ''verified''\<rparr>))))"

text \<open>The columns of an envelope: texts, and ISO texts cast to time stamps.\<close>

definition text_of :: "jsv \<Rightarrow> string" where
  "text_of v = (case v of Str s \<Rightarrow> s | _ \<Rightarrow> [])"

definition stamp_of :: "jsv \<Rightarrow> int" where
  "stamp_of v = read_iso (text_of v) * 1000"

definition evidence_of :: "envelope \<Rightarrow> evidence_row" where
  "evidence_of n = (let v = Obj (en_evidence n) in
     \<lparr>ev_tenant = text_of (fld v ''tenantId''), ev_id = text_of (fld v ''evidenceId''), ev_incident = text_of (fld v ''incidentId''),
      ev_issuer = text_of (fld v ''issuer''), ev_scope = text_of (fld v ''agencyScope''),
      ev_claim_key = Some (text_of (fld v ''claimKey'')), ev_claim_value = Some (text_of (fld v ''claimValue'')),
      ev_key_id = Some (en_key_id n), ev_verifier = Some (en_verifier n), ev_payload_digest = Some (en_payload_digest n),
      ev_signature = Some (en_signature_digest n), ev_digest = Some (en_digest n), ev_observed_at = stamp_of (fld v ''observedAt''),
      ev_valid_from = stamp_of (fld v ''validFrom''), ev_valid_until = stamp_of (fld v ''validUntil''),
      ev_provenance = ''verified'', ev_conflict = text_of (fld v ''conflictStatus''), ev_assertion = text_of (fld v ''assertion''),
      ev_embedding = text_of (fld v ''embedding'')\<rparr>)"

datatype store_error =
  Js js_error
| Database sql_error
| Evidence_mismatch string \<comment> \<open>\<open>EvidenceVerificationMismatchError\<close>\<close>
| Invariant string \<comment> \<open>\<open>InvariantViolationError\<close>\<close>
| Operation_mismatch string \<comment> \<open>\<open>OperationDigestMismatchError\<close>\<close>
| Effect_mismatch string \<comment> \<open>\<open>EffectKeyMismatchError\<close>\<close>

abbreviation js_call :: "js_error + 'a \<Rightarrow> store_error + 'a" where
  "js_call \<equiv> map_sum Js id"

abbreviation db_call :: "sql_error + 'a \<Rightarrow> store_error + 'a" where
  "db_call \<equiv> map_sum Database id"

section \<open>Verification keys\<close>

definition find_key :: "evidence_db \<Rightarrow> string \<Rightarrow> string \<Rightarrow> key_row option" where
  "find_key db tenant key_id = find (\<lambda>k. signing_key k = (tenant, key_id)) (key_rows db)"

text \<open>The row of a key that can be registered, with the two times as texts.\<close>

definition key_input :: "jsenv \<Rightarrow> crypto \<Rightarrow> jsv \<Rightarrow> js_error + key_row \<times> string \<times> string" where
  "key_input E C inp =
     and_then (store_uuid (fld inp ''tenantId'') ''tenantId'') (\<lambda>tenant.
     and_then (store_text (fld inp ''verificationKeyId'') ''verificationKeyId'') (\<lambda>key_id.
     and_then (store_text (fld inp ''issuer'') ''issuer'') (\<lambda>issuer.
     and_then (map_sum id to_lower (store_text (coalesce (fld inp ''algorithm'') (Str ''ed25519'')) ''algorithm'')) (\<lambda>algorithm.
     if algorithm \<noteq> ''ed25519'' then Inl (TypeErr ''algorithm must be ed25519'')
     else
       and_then (required_base64 (fld inp ''publicKeySpkiBase64'') ''publicKeySpkiBase64'') (\<lambda>(text, bytes).
       case key_type C bytes of
         None \<Rightarrow> Inl (Err ''createPublicKey'')
       | Some algo \<Rightarrow>
           if algo \<noteq> ''ed25519'' then Inl (TypeErr ''publicKeySpkiBase64 must contain an Ed25519 key'')
           else
             and_then (store_time E (fld inp ''validFrom'') ''validFrom'') (\<lambda>starts.
             and_then (store_time E (fld inp ''validUntil'') ''validUntil'') (\<lambda>ends_at.
             if (case (date_parse E ends_at, date_parse E starts) of (Some u, Some f) \<Rightarrow> u \<le> f | _ \<Rightarrow> False)
             then Inl (RangeErr ''verification key validUntil must follow validFrom'')
             else Inr (\<lparr>vk_tenant = tenant, vk_id = key_id, vk_issuer = issuer, vk_algorithm = algorithm, vk_spki = text,
                   vk_digest = sha256_bytes C bytes, vk_status = ''active'', vk_valid_from = stamp_of (Str starts),
                   vk_valid_until = stamp_of (Str ends_at), vk_revoked_at = None\<rparr>, starts, ends_at))))))))"

definition store_key :: "key_row \<Rightarrow> string \<Rightarrow> string \<Rightarrow> evidence_db \<Rightarrow> store_error + evidence_db \<times> string \<times> key_row" where
  "store_key k starts ends_at db =
     (if \<not> key_check k then Inl (Database (Sql_error ''23514'' ''g1_verification_keys''))
      else case find_key db (vk_tenant k) (vk_id k) of
          None \<Rightarrow> Inr (db\<lparr>key_rows := key_rows db @ [k]\<rparr>, ''verification_key_registered'', k)
        | Some row \<Rightarrow>
            if vk_issuer row \<noteq> vk_issuer k \<or> vk_algorithm row \<noteq> vk_algorithm k \<or> vk_spki row \<noteq> vk_spki k \<or>
              vk_digest row \<noteq> vk_digest k \<or> to_iso_string (vk_valid_from row div 1000) \<noteq> Some starts \<or>
              to_iso_string (vk_valid_until row div 1000) \<noteq> Some ends_at
            then Inl (Evidence_mismatch (vk_id k))
            else Inr (db, ''verification_key_replay'', row))"

definition register_key :: "jsenv \<Rightarrow> crypto \<Rightarrow> jsv \<Rightarrow> evidence_db \<Rightarrow> store_error + evidence_db \<times> string \<times> key_row" where
  "register_key E C inp db = and_then (js_call (key_input E C inp)) (\<lambda>(k, starts, ends_at). store_key k starts ends_at db)"

text \<open>The update of the one key, at the time \<open>now\<close> of the transaction.\<close>

definition revoke_row :: "int \<Rightarrow> key_row \<Rightarrow> key_row" where
  "revoke_row now k = k\<lparr>vk_status := ''revoked'', vk_revoked_at := (case vk_revoked_at k of None \<Rightarrow> Some now | Some t \<Rightarrow> Some t)\<rparr>"

definition revoke_key :: "int \<Rightarrow> jsv \<Rightarrow> evidence_db \<Rightarrow> store_error + evidence_db \<times> key_row" where
  "revoke_key now inp db =
     and_then (js_call (store_uuid (fld inp ''tenantId'') ''tenantId'')) (\<lambda>tenant.
     and_then (js_call (store_text (fld inp ''verificationKeyId'') ''verificationKeyId'')) (\<lambda>key_id.
     case find_key db tenant key_id of
       None \<Rightarrow> Inl (Invariant ''verification key does not exist'')
     | Some k \<Rightarrow> Inr (db\<lparr>key_rows := update_where (\<lambda>k. signing_key k = (tenant, key_id)) (revoke_row now) (key_rows db)\<rparr>,
                      revoke_row now k)))"

section \<open>Appending signed evidence\<close>

text \<open>
  \<open>Date.parse(key.valid_from)\<close>: the driver hands a \<open>Date\<close> of milliseconds, which \<open>Date.parse\<close>
  reads through its string form, of whole seconds.
\<close>

definition parsed_date :: "int \<Rightarrow> int" where
  "parsed_date stamp = stamp div 1000 div 1000 * 1000"

definition rejection :: "jsenv \<Rightarrow> crypto \<Rightarrow> envelope \<Rightarrow> key_row option \<Rightarrow> string option" where
  "rejection E C n key =
     (case key of
        None \<Rightarrow> Some ''verification_key_unknown''
      | Some k \<Rightarrow>
          let observed = date_parse E (text_of (fld (Obj (en_evidence n)) ''observedAt'')) in
          if vk_issuer k \<noteq> ev_issuer (evidence_of n) then Some ''verification_issuer_mismatch''
          else if vk_status k \<noteq> ''active'' then Some ''verification_key_revoked''
          else if (case observed of None \<Rightarrow> False | Some t \<Rightarrow> t < parsed_date (vk_valid_from k) \<or> t \<ge> parsed_date (vk_valid_until k))
          then Some ''verification_key_not_valid_at_observation''
          else case base64_decode (vk_spki k) of
            None \<Rightarrow> Some ''verification_key_invalid''
          | Some spki \<Rightarrow>
              (case key_type C spki of
                 None \<Rightarrow> Some ''verification_key_invalid''
               | Some algo \<Rightarrow>
                   if algo \<noteq> ''ed25519'' then Some ''signature_invalid''
                   else case verify_signature C spki (en_payload n) (en_signature_bytes n) of
                     None \<Rightarrow> Some ''verification_key_invalid''
                   | Some valid \<Rightarrow> if valid then None else Some ''signature_invalid''))"

definition receipt_of :: "envelope \<Rightarrow> key_row option \<Rightarrow> string option \<Rightarrow> verification_row" where
  "receipt_of n key reason = (let e = evidence_of n in
     \<lparr>vr_tenant = ev_tenant e, vr_evidence = ev_id e, vr_request_digest = en_request_digest n, vr_incident = ev_incident e,
      vr_issuer = ev_issuer e, vr_key_id = en_key_id n, vr_verifier = en_verifier n, vr_payload_digest = en_payload_digest n,
      vr_signature = en_signature_digest n, vr_key_digest = map_option vk_digest key,
      vr_outcome = (case reason of None \<Rightarrow> ''verified'' | Some _ \<Rightarrow> ''rejected''), vr_reason = reason\<rparr>)"

definition find_verification :: "evidence_db \<Rightarrow> string \<Rightarrow> string \<Rightarrow> verification_row option" where
  "find_verification db tenant evidence = find (\<lambda>v. verification_key v = (tenant, evidence)) (verifications db)"

definition append_envelope ::
    "jsenv \<Rightarrow> crypto \<Rightarrow> (string \<Rightarrow> bool) \<Rightarrow> envelope \<Rightarrow> evidence_db \<Rightarrow> store_error + evidence_db \<times> string \<times> verification_row" where
  "append_envelope E C vector n db =
     (let e = evidence_of n;
          by_evidence = (case find_verification db (ev_tenant e) (ev_id e) of None \<Rightarrow> [] | Some v \<Rightarrow> [v]);
          by_digest = (case find (\<lambda>v. verification_request v = (ev_tenant e, en_request_digest n)) (verifications db) of
              None \<Rightarrow> [] | Some w \<Rightarrow> if list_ex (\<lambda>v. vr_evidence v = vr_evidence w) by_evidence then [] else [w]) in
      case by_evidence @ by_digest of
        v # rest \<Rightarrow>
          if rest \<noteq> [] \<or> vr_request_digest v \<noteq> en_request_digest n then Inl (Evidence_mismatch (ev_id e))
          else Inr (db, ''evidence_verification_replay'', v)
      | [] \<Rightarrow>
          let key = find_key db (ev_tenant e) (en_key_id n); reason = rejection E C n key; v = receipt_of n key reason in
          and_then (db_call (insert_verification v db)) (\<lambda>db'.
          if reason \<noteq> None then Inr (db', ''evidence_rejected'', v)
          else and_then (db_call (insert_evidence vector e db')) (\<lambda>db''. Inr (db'', ''evidence_verified'', v))))"

definition append_signed ::
    "jsenv \<Rightarrow> crypto \<Rightarrow> (string \<Rightarrow> bool) \<Rightarrow> jsv \<Rightarrow> evidence_db \<Rightarrow> store_error + evidence_db \<times> string \<times> verification_row" where
  "append_signed E C vector inp db =
     and_then (js_call (signed_envelope E C inp)) (\<lambda>n. append_envelope E C vector n db)"

text \<open>\<open>appendEvidence\<close>: a row without a verification receipt; digests not given are computed.\<close>

definition append_unsigned :: "jsenv \<Rightarrow> (string \<Rightarrow> bool) \<Rightarrow> jsv \<Rightarrow> evidence_db \<Rightarrow> store_error + evidence_db \<times> evidence_row" where
  "append_unsigned E vector inp db =
     and_then (js_call (normalize_evidence E inp)) (\<lambda>evidence.
     and_then (js_call (store_text (fld inp ''provenanceStatus'') ''provenanceStatus'')) (\<lambda>provenance.
     and_then (js_call (store_sha256 (coalesce (fld inp ''signedPayloadDigest'') (Str (identity_digest E
         (Obj (map (\<lambda>k. (k, fld (Obj evidence) k)) [''tenantId'', ''evidenceId'', ''incidentId'', ''issuer'', ''agencyScope'', ''observedAt'',
           ''validFrom'', ''validUntil'', ''assertion'']))))) ''signedPayloadDigest'')) (\<lambda>payload_digest.
     and_then (js_call (store_text (coalesce (fld inp ''verificationKeyId'') (Str ''gate1-synthetic-key-v1'')) ''verificationKeyId'')) (\<lambda>key_id.
     and_then (js_call (store_text (coalesce (fld inp ''verifierVersion'') (Str ''gate1-verifier-v1'')) ''verifierVersion'')) (\<lambda>verifier.
     and_then (js_call (store_sha256 (coalesce (fld inp ''signatureDigest'')
         (Str (sha256_hex E (''gate1-test-signature:'' @ payload_digest)))) ''signatureDigest'')) (\<lambda>signature.
     let digest = evidence_digest_of E evidence key_id verifier payload_digest signature provenance;
         e = (evidence_of \<lparr>en_evidence = evidence, en_key_id = key_id, en_verifier = verifier, en_signature_bytes = [], en_payload = [],
                en_payload_digest = payload_digest, en_signature_digest = signature, en_request_digest = [], en_digest = digest\<rparr>)
             \<lparr>ev_provenance := provenance\<rparr> in
     and_then (db_call (insert_evidence vector e db)) (\<lambda>db'. Inr (db', e))))))))"

section \<open>Stored functions that append evidence\<close>

record evidence_params =
  ea_tenant :: string
  ea_id :: string
  ea_incident :: string
  ea_issuer :: string
  ea_scope :: string
  ea_claim_key :: "string option"
  ea_claim_value :: "string option"
  ea_key_id :: string
  ea_verifier :: string
  ea_request_digest :: string
  ea_payload_digest :: string
  ea_signature :: string
  ea_digest :: string
  ea_observed_at :: int
  ea_valid_from :: int
  ea_valid_until :: int
  ea_conflict :: string
  ea_assertion :: string
  ea_embedding :: string

definition params_row :: "evidence_params \<Rightarrow> string option \<Rightarrow> string option \<Rightarrow> string option \<Rightarrow> evidence_row" where
  "params_row a claim claimed signature =
     \<lparr>ev_tenant = ea_tenant a, ev_id = ea_id a, ev_incident = ea_incident a, ev_issuer = ea_issuer a, ev_scope = ea_scope a,
      ev_claim_key = claim, ev_claim_value = claimed, ev_key_id = Some (ea_key_id a), ev_verifier = Some (ea_verifier a),
      ev_payload_digest = Some (ea_payload_digest a), ev_signature = signature, ev_digest = Some (ea_digest a),
      ev_observed_at = ea_observed_at a, ev_valid_from = ea_valid_from a, ev_valid_until = ea_valid_until a,
      ev_provenance = ''verified'', ev_conflict = ea_conflict a, ev_assertion = ea_assertion a, ev_embedding = ea_embedding a\<rparr>"

definition append_v1 ::
    "string \<Rightarrow> (string \<Rightarrow> bool) \<Rightarrow> evidence_params \<Rightarrow> evidence_db \<Rightarrow> sql_error + evidence_db \<times> string option" where
  "append_v1 user vector a db =
     (if user \<noteq> ''tp_ingest_user'' then Inr (db, None)
      else and_then (insert_evidence vector (params_row a None None None) db) (\<lambda>db'. Inr (db', Some (ea_id a))))"

definition usable_key :: "evidence_params \<Rightarrow> key_row \<Rightarrow> bool" where
  "usable_key a k \<longleftrightarrow> vk_tenant k = ea_tenant a \<and> vk_id k = ea_key_id a \<and> vk_issuer k = ea_issuer a \<and> vk_algorithm k = ''ed25519'' \<and>
     vk_status k = ''active'' \<and> ea_observed_at a \<ge> vk_valid_from k \<and> ea_observed_at a < vk_valid_until k"

definition append_v2 ::
    "string \<Rightarrow> (string \<Rightarrow> bool) \<Rightarrow> evidence_params \<Rightarrow> evidence_db \<Rightarrow> sql_error + evidence_db \<times> string" where
  "append_v2 user vector a db =
     (if user \<noteq> ''tp_ingest_user'' then sql_raise ''42501'' ''ingest database session required''
      else if ea_verifier a \<noteq> ''gate1-ed25519-verifier-v1'' then sql_raise ''22023'' ''unsupported verifier version''
      else if length (ea_request_digest a) \<noteq> 64 \<or> length (ea_payload_digest a) \<noteq> 64 \<or> length (ea_signature a) \<noteq> 64 \<or>
        length (ea_digest a) \<noteq> 64
      then sql_raise ''22023'' ''verification digest must be SHA-256 hex''
      else if length (filter (usable_key a) (key_rows db)) \<noteq> 1 then sql_raise ''42501'' ''verification key is not admissible''
      else case find_verification db (ea_tenant a) (ea_id a) of
          Some v \<Rightarrow>
            if vr_request_digest v \<noteq> ea_request_digest a \<or> vr_outcome v \<noteq> ''verified''
            then sql_raise ''22000'' ''evidence verification mismatch''
            else if length (filter (\<lambda>e. evidence_key e = (ea_tenant a, ea_id a)) (evidence_rows db)) \<noteq> 1
            then sql_raise ''XX000'' ''verified receipt lacks evidence row''
            else Inr (db, ea_id a)
        | None \<Rightarrow>
            and_then (insert_verification
              \<lparr>vr_tenant = ea_tenant a, vr_evidence = ea_id a, vr_request_digest = ea_request_digest a, vr_incident = ea_incident a,
               vr_issuer = ea_issuer a, vr_key_id = ea_key_id a, vr_verifier = ea_verifier a, vr_payload_digest = ea_payload_digest a,
               vr_signature = ea_signature a, vr_key_digest = map_option vk_digest (find_key db (ea_tenant a) (ea_key_id a)),
               vr_outcome = ''verified'', vr_reason = None\<rparr> db) (\<lambda>db'.
            and_then (insert_evidence vector (params_row a (ea_claim_key a) (ea_claim_value a) (Some (ea_signature a))) db') (\<lambda>db''.
            Inr (db'', ea_id a))))"

definition resolve_verified ::
    "string \<Rightarrow> string \<Rightarrow> string \<Rightarrow> string \<Rightarrow> string \<Rightarrow> evidence_db \<Rightarrow> (string \<times> string \<times> string option \<times> string) option" where
  "resolve_verified user tenant evidence request_digest digest db =
     (case (find_verification db tenant evidence, find (\<lambda>e. evidence_key e = (tenant, evidence)) (evidence_rows db)) of
        (Some v, Some e) \<Rightarrow>
          if user = ''tp_ingest_user'' \<and> vr_request_digest v = request_digest \<and> vr_outcome v = ''verified'' \<and> ev_digest e = Some digest
          then Some (ev_id e, vr_request_digest v, ev_digest e, ''evidence_verified'') else None
      | _ \<Rightarrow> None)"

end
