(* ===== verification/Evidence_Admission.thy ===== *)
theory Evidence_Admission
  imports Evidence_Store
begin

text \<open>
  What the database takes for admissible evidence (\<open>g1_list_admissibility_internal_v1\<close>,
  \<open>g1_observe_admissibility_v1\<close> and \<open>_v2\<close> of \<open>src/cloud/primary-security.js\<close>) and what an audit
  reports of it (\<open>auditEvidenceStatusAt\<close> of \<open>src/cloud/authority-store.js\<close>). The time of the
  statement is an argument.
\<close>

section \<open>Joins\<close>

definition verification_of :: "evidence_db \<Rightarrow> evidence_row \<Rightarrow> verification_row option" where
  "verification_of db e = find_verification db (ev_tenant e) (ev_id e)"

definition key_of :: "evidence_db \<Rightarrow> evidence_row \<Rightarrow> key_row option" where
  "key_of db e = (case ev_key_id e of None \<Rightarrow> None | Some i \<Rightarrow> find_key db (ev_tenant e) i)"

definition five_minutes :: int where
  "five_minutes = 300000000"

text \<open>The receipt is about this evidence: a comparison with a null column is not true.\<close>

definition same_binding :: "evidence_row \<Rightarrow> verification_row \<Rightarrow> bool" where
  "same_binding e v \<longleftrightarrow> vr_incident v = ev_incident e \<and> vr_issuer v = ev_issuer e \<and> Some (vr_key_id v) = ev_key_id e \<and>
     Some (vr_verifier v) = ev_verifier e \<and> Some (vr_payload_digest v) = ev_payload_digest e \<and>
     Some (vr_signature v) = ev_signature e"

text \<open>The \<open>EXISTS\<close> of the last case: another current verified claim of the incident with another value.\<close>

definition conflicting :: "evidence_db \<Rightarrow> int \<Rightarrow> string \<Rightarrow> evidence_row \<Rightarrow> evidence_row \<Rightarrow> bool" where
  "conflicting db t agency e other \<longleftrightarrow>
     (case (verification_of db other, key_of db other) of
        (Some v, Some k) \<Rightarrow>
          ev_tenant other = ev_tenant e \<and> ev_incident other = ev_incident e \<and> ev_id other \<noteq> ev_id e \<and>
          (case (ev_claim_key other, ev_claim_key e) of (Some a, Some b) \<Rightarrow> a = b | _ \<Rightarrow> False) \<and>
          (case (ev_claim_value other, ev_claim_value e) of (Some a, Some b) \<Rightarrow> a \<noteq> b | _ \<Rightarrow> False) \<and>
          ev_provenance other = ''verified'' \<and> vr_outcome v = ''verified'' \<and> same_binding other v \<and>
          vk_status k = ''active'' \<and> vk_issuer k = ev_issuer other \<and> vr_key_digest v = Some (vk_digest k) \<and>
          ev_observed_at other \<ge> vk_valid_from k \<and> ev_observed_at other < vk_valid_until k \<and>
          ev_observed_at other \<le> t + five_minutes \<and> ev_valid_from other \<le> t \<and> ev_valid_until other > t \<and>
          (ev_scope other = agency \<or> ev_scope other = ''*'')
      | _ \<Rightarrow> False)"

definition admissibility_of :: "evidence_db \<Rightarrow> int \<Rightarrow> string \<Rightarrow> evidence_row \<Rightarrow> string" where
  "admissibility_of db t agency e =
     (if ev_key_id e = None \<or> ev_verifier e = None \<or> ev_payload_digest e = None \<or> ev_signature e = None \<or> ev_digest e = None
      then ''verification_receipt_missing''
      else case verification_of db e of
        None \<Rightarrow> ''verification_receipt_missing''
      | Some v \<Rightarrow>
          if vr_outcome v \<noteq> ''verified''
          then (case vr_reason v of None \<Rightarrow> ''verification_rejected'' | Some why \<Rightarrow> why)
          else if \<not> same_binding e v then ''verification_binding_mismatch''
          else case key_of db e of
            None \<Rightarrow> ''verification_key_unknown''
          | Some k \<Rightarrow>
              if known_differs (vr_key_digest v) (vk_digest k) then ''verification_key_digest_mismatch''
              else if vk_issuer k \<noteq> ev_issuer e then ''verification_issuer_mismatch''
              else if vk_status k \<noteq> ''active'' then ''verification_key_revoked''
              else if ev_observed_at e < vk_valid_from k \<or> ev_observed_at e \<ge> vk_valid_until k
              then ''verification_key_not_valid_at_observation''
              else if ev_provenance e \<noteq> ''verified'' then ''provenance_not_verified''
              else if ev_claim_key e = None \<or> ev_claim_value e = None then ''claim_binding_missing''
              else if ev_observed_at e > t + five_minutes then ''future_observation''
              else if ev_valid_from e > t then ''not_yet_valid''
              else if ev_valid_until e \<le> t then ''expired''
              else if ev_scope e \<noteq> agency \<and> ev_scope e \<noteq> ''*'' then ''out_of_scope''
              else if ev_conflict e = ''unresolved'' then ''unresolved_conflict''
              else if list_ex (conflicting db t agency e) (evidence_rows db) then ''unresolved_conflict''
              else ''admissible'')"

definition list_admissibility ::
    "string \<Rightarrow> int \<Rightarrow> string \<Rightarrow> string \<Rightarrow> string \<Rightarrow> evidence_db \<Rightarrow> (string \<times> string \<times> string option) list" where
  "list_admissibility user t tenant incident agency db =
     (if user \<notin> {''tp_authorizer_user'', ''tp_gate2_authorizer_user'', ''tp_recovery_source_user''} then []
      else map (\<lambda>e. (ev_id e, admissibility_of db t agency e, ev_digest e))
        (filter (\<lambda>e. ev_tenant e = tenant \<and> ev_incident e = incident) (evidence_rows db)))"

text \<open>The first row of the observation, as \<open>SELECT ... INTO\<close> reads it.\<close>

definition observe_admissibility ::
    "string \<Rightarrow> int \<Rightarrow> string \<Rightarrow> string \<Rightarrow> string \<Rightarrow> string \<Rightarrow> evidence_db \<Rightarrow> (string \<times> string option) option" where
  "observe_admissibility user t tenant evidence incident agency db =
     (if user \<notin> {''tp_authorizer_user'', ''tp_gate2_authorizer_user''} then None
      else map_option snd (find (\<lambda>(i, _). i = evidence) (list_admissibility user t tenant incident agency db)))"

definition observe_v1 :: "string \<Rightarrow> int \<Rightarrow> string \<Rightarrow> string \<Rightarrow> string \<Rightarrow> string \<Rightarrow> evidence_db \<Rightarrow> (string \<times> string option) option" where
  "observe_v1 user t tenant evidence incident agency db =
     (if user \<noteq> ''tp_authorizer_user'' then None
      else map_option (\<lambda>e.
        (if ev_key_id e = None \<or> ev_verifier e = None \<or> ev_payload_digest e = None \<or> ev_digest e = None
         then ''verification_receipt_missing''
         else if ev_provenance e \<noteq> ''verified'' then ''provenance_not_verified''
         else if ev_conflict e = ''unresolved'' then ''unresolved_conflict''
         else if ev_observed_at e > t + five_minutes then ''future_observation''
         else if ev_valid_from e > t then ''not_yet_valid''
         else if ev_valid_until e \<le> t then ''expired''
         else if ev_scope e \<noteq> agency \<and> ev_scope e \<noteq> ''*'' then ''out_of_scope''
         else ''admissible'', ev_digest e))
        (find (\<lambda>e. evidence_key e = (tenant, evidence) \<and> ev_incident e = incident) (evidence_rows db)))"

definition audit_status_of :: "evidence_db \<Rightarrow> int \<Rightarrow> string \<Rightarrow> evidence_row \<Rightarrow> string" where
  "audit_status_of db t agency e =
     (case verification_of db e of
        None \<Rightarrow> ''verification_not_valid''
      | Some v \<Rightarrow>
          if vr_outcome v \<noteq> ''verified'' then ''verification_not_valid''
          else case key_of db e of
            None \<Rightarrow> ''verification_key_not_valid''
          | Some k \<Rightarrow>
              if vk_status k \<noteq> ''active'' \<or> known_differs (vr_key_digest v) (vk_digest k) then ''verification_key_not_valid''
              else if ev_claim_key e = None \<or> ev_claim_value e = None then ''claim_binding_missing''
              else if ev_observed_at e > t + five_minutes then ''future_observation''
              else if ev_valid_from e > t then ''not_yet_valid''
              else if ev_valid_until e \<le> t then ''expired''
              else if ev_scope e \<noteq> agency \<and> ev_scope e \<noteq> ''*'' then ''out_of_scope''
              else if ev_conflict e = ''unresolved'' then ''unresolved_conflict''
              else if list_ex (conflicting db t agency e) (evidence_rows db) then ''unresolved_conflict''
              else ''admissible'')"

definition audit_status :: "jsenv \<Rightarrow> jsv \<Rightarrow> evidence_db \<Rightarrow> store_error + string \<times> string" where
  "audit_status E inp db =
     and_then (js_call (store_uuid (fld inp ''tenantId'') ''tenantId'')) (\<lambda>tenant.
     and_then (js_call (store_uuid (fld inp ''evidenceId'') ''evidenceId'')) (\<lambda>evidence.
     and_then (js_call (store_uuid (fld inp ''incidentId'') ''incidentId'')) (\<lambda>incident.
     and_then (js_call (store_text (fld inp ''agency'') ''agency'')) (\<lambda>agency.
     and_then (js_call (store_time E (fld inp ''at'') ''at'')) (\<lambda>audit_time.
     Inr (case find (\<lambda>e. evidence_key e = (tenant, evidence) \<and> ev_incident e = incident) (evidence_rows db) of
         None \<Rightarrow> (''evidence_missing'', audit_time)
       | Some e \<Rightarrow> (audit_status_of db (stamp_of (Str audit_time)) agency e, audit_time)))))))"

section \<open>Admissible evidence\<close>

text \<open>Reasons of rejection never read like an admission.\<close>

definition rejection_reasons :: "string list" where
  "rejection_reasons = [''verification_key_unknown'', ''verification_issuer_mismatch'', ''verification_key_revoked'',
     ''verification_key_not_valid_at_observation'', ''signature_invalid'', ''verification_key_invalid'']"

definition evidence_ok :: "evidence_db \<Rightarrow> bool" where
  "evidence_ok db \<longleftrightarrow>
     unique_on every evidence_key (evidence_rows db) \<and> unique_on every verification_key (verifications db) \<and>
     unique_on every verification_request (verifications db) \<and> unique_on every signing_key (key_rows db) \<and>
     list_all evidence_check (evidence_rows db) \<and> list_all verification_check (verifications db) \<and> list_all key_check (key_rows db) \<and>
     list_all (\<lambda>v. case vr_reason v of None \<Rightarrow> True | Some why \<Rightarrow> why \<in> set rejection_reasons) (verifications db)"

text \<open>The key and the receipt that carry a piece of evidence.\<close>

definition carried :: "evidence_db \<Rightarrow> evidence_row \<Rightarrow> bool" where
  "carried db e \<longleftrightarrow> (case (verification_of db e, key_of db e) of
     (Some v, Some k) \<Rightarrow> vr_outcome v = ''verified'' \<and> same_binding e v \<and> \<not> known_differs (vr_key_digest v) (vk_digest k) \<and>
       vk_issuer k = ev_issuer e \<and> vk_status k = ''active'' \<and> vk_valid_from k \<le> ev_observed_at e \<and> ev_observed_at e < vk_valid_until k
   | _ \<Rightarrow> False)"

definition in_force :: "int \<Rightarrow> string \<Rightarrow> evidence_row \<Rightarrow> bool" where
  "in_force t agency e \<longleftrightarrow> ev_observed_at e \<le> t + five_minutes \<and> ev_valid_from e \<le> t \<and> t < ev_valid_until e \<and>
     (ev_scope e = agency \<or> ev_scope e = ''*'')"

lemma admissible_iff:
  assumes "evidence_ok db"
  shows "admissibility_of db t agency e = ''admissible'' \<longleftrightarrow>
    ev_digest e \<noteq> None \<and> ev_claim_key e \<noteq> None \<and> ev_claim_value e \<noteq> None \<and> carried db e \<and>
    ev_provenance e = ''verified'' \<and> in_force t agency e \<and> ev_conflict e \<noteq> ''unresolved'' \<and>
    \<not> list_ex (conflicting db t agency e) (evidence_rows db)"
proof (cases "verification_of db e")
  case None
  then show ?thesis by (simp add: admissibility_of_def carried_def)
next
  case (Some v)
  then have v: "v \<in> set (verifications db)"
    by (auto simp: verification_of_def find_verification_def dest: find_SomeD)
  with assms have why: "vr_reason v \<noteq> Some ''admissible''"
    by (auto simp: evidence_ok_def list_all_iff rejection_reasons_def dest!: bspec [of _ _ v])
  show ?thesis
  proof (cases "vr_outcome v = ''verified''")
    case False
    with Some why show ?thesis by (auto simp: admissibility_of_def carried_def split: option.splits)
  next
    case True
    have bind: "same_binding e v \<Longrightarrow> ev_key_id e \<noteq> None \<and> ev_verifier e \<noteq> None \<and> ev_payload_digest e \<noteq> None \<and> ev_signature e \<noteq> None"
      unfolding same_binding_def by (metis option.distinct(1))
    show ?thesis
    proof (cases "same_binding e v")
      case True
      with bind obtain i f p s where "ev_key_id e = Some i" "ev_verifier e = Some f" "ev_payload_digest e = Some p" "ev_signature e = Some s"
        by auto
      with Some True \<open>vr_outcome v = ''verified''\<close> show ?thesis
        by (cases "key_of db e") (auto simp: admissibility_of_def carried_def in_force_def)
    qed (use Some True in \<open>auto simp: admissibility_of_def carried_def split: option.split_asm if_split_asm\<close>)
  qed
qed

lemma admissible_audited:
  assumes "evidence_ok db" and "admissibility_of db t agency e = ''admissible''"
  shows "audit_status_of db t agency e = ''admissible''"
  using assms(2) unfolding admissible_iff [OF assms(1)] audit_status_of_def carried_def in_force_def
  by (clarsimp split: option.split_asm)

text \<open>Evidence that is carried and in force conflicts with any other on the same claim and another value.\<close>

lemma carried_conflicts:
  assumes "carried db other" and "evidence_ok db" and "in_force t agency other" and "ev_provenance other = ''verified''"
    and "ev_tenant other = ev_tenant e" and "ev_incident other = ev_incident e" and "ev_id other \<noteq> ev_id e"
    and "ev_claim_key e = Some c" and "ev_claim_key other = Some c" and "ev_claim_value e = Some x" and "ev_claim_value other = Some y" and "x \<noteq> y"
  shows "conflicting db t agency e other"
proof -
  from assms(1) obtain v k where vk: "verification_of db other = Some v" "key_of db other = Some k" "vr_outcome v = ''verified''"
      "same_binding other v" "\<not> known_differs (vr_key_digest v) (vk_digest k)" "vk_issuer k = ev_issuer other" "vk_status k = ''active''"
      "vk_valid_from k \<le> ev_observed_at other" "ev_observed_at other < vk_valid_until k"
    by (auto simp: carried_def split: option.splits)
  then have "v \<in> set (verifications db)" by (auto simp: verification_of_def find_verification_def dest: find_SomeD)
  with assms(2) vk(3) have "vr_key_digest v \<noteq> None" by (auto simp: evidence_ok_def list_all_iff verification_check_def)
  with vk(5) have "vr_key_digest v = Some (vk_digest k)" by (auto simp: known_differs_def)
  with vk assms(3-) show ?thesis by (auto simp: conflicting_def in_force_def)
qed

end
