(* ===== verification/Authority_Request_Props.thy ===== *)
theory Authority_Request_Props
  imports Authority_Request
begin

text \<open>
  Properties of normalised requests: every field of an accepted request is well formed and
  agrees with the others, and the request digest pins down what the request stands for.
\<close>

section \<open>Checked fields\<close>

lemma store_text_Inr: "store_text v name = Inr s \<longleftrightarrow> (\<exists>t. v = Str t \<and> s = trim t \<and> s \<noteq> [])"
  by (cases v) (auto simp: store_text_def required_text_def)

lemma store_uuid_Inr: "store_uuid v name = Inr s \<Longrightarrow> uuid_shape s"
  by (auto simp: store_uuid_def and_then_eq_Inr split: if_splits)

lemma store_sha256_Inr: "store_sha256 v name = Inr s \<Longrightarrow> hex_64 s"
  by (auto simp: store_sha256_def and_then_eq_Inr split: if_splits)

lemma store_lease_Inr: "store_lease v = Inr n \<Longrightarrow> min_lease_ms \<le> n \<and> n \<le> max_lease_ms"
  by (auto simp: store_lease_def split: option.splits if_splits)

lemmas store_Inr = store_uuid_Inr store_sha256_Inr store_lease_Inr

lemma exact_object_Inr: "exact_object v ks code = Inr w \<longleftrightarrow> own_keys_are v ks \<and> w = v"
  by (auto simp: exact_object_def)

text \<open>Identifiers and digests are in lower case, without white space or control characters.\<close>

definition id_char :: "char \<Rightarrow> bool" where
  "id_char c \<longleftrightarrow> c \<in> set ''-12345689ab'' \<or> hex_digit c"

lemma id_char_code:
  "id_char c \<Longrightarrow> of_char c = (45 :: nat) \<or> (48 \<le> (of_char c :: nat) \<and> of_char c \<le> (57 :: nat)) \<or>
    (97 \<le> (of_char c :: nat) \<and> of_char c \<le> (102 :: nat))"
  by (auto simp: id_char_def hex_digit_def Let_def)

lemma id_char_props:
  assumes "id_char c"
  shows "lower_char c = c" and "\<not> js_space c" and "\<not> control_char c"
  using id_char_code [OF assms] by (auto simp: lower_char_def js_space_def control_char_def Let_def)

lemma id_text: "list_all id_char s \<Longrightarrow> to_lower s = s \<and> trim s = s \<and> \<not> list_ex control_char s"
proof (intro conjI)
  assume s: "list_all id_char s"
  then show "to_lower s = s" by (auto simp: to_lower_def list_all_iff id_char_props intro: map_idI)
  from s show "trim s = s" by (intro trim_no_space) (auto simp: list_all_iff id_char_props)
  from s show "\<not> list_ex control_char s" by (auto simp: list_all_iff list_ex_iff id_char_props)
qed

lemma uuid_shape_id_text: "uuid_shape s \<Longrightarrow> list_all id_char s"
proof -
  assume s: "uuid_shape s"
  have "id_char (s ! i)" if "i < 36" for i
    using s that by (auto simp: uuid_shape_def list_all_iff id_char_def split: if_split_asm dest!: bspec [of _ _ i])
  with s show ?thesis by (auto simp: list_all_length uuid_shape_def)
qed

lemma hex_64_id_text: "hex_64 s \<Longrightarrow> list_all id_char s"
  by (auto simp: hex_of_length_def id_char_def list_all_iff)

lemmas id_text_simps [simp] = id_text [OF uuid_shape_id_text] id_text [OF hex_64_id_text]

lemma identity_uuid_of_uuid: "uuid_shape s \<Longrightarrow> identity_uuid (Str s) name = Inr t \<Longrightarrow> t = s"
  by (auto simp: identity_uuid_def and_then_eq_Inr bounded_text_Inr split: if_splits)

section \<open>Parts of a request\<close>

definition uuid_in :: "jsv \<Rightarrow> string \<Rightarrow> bool" where
  "uuid_in r k \<longleftrightarrow> (case fld r k of Str s \<Rightarrow> uuid_shape s | _ \<Rightarrow> False)"

definition sha256_in :: "jsv \<Rightarrow> string \<Rightarrow> bool" where
  "sha256_in r k \<longleftrightarrow> (case fld r k of Str s \<Rightarrow> hex_64 s | _ \<Rightarrow> False)"

definition text_in :: "jsv \<Rightarrow> string \<Rightarrow> bool" where
  "text_in r k \<longleftrightarrow> (case fld r k of Str s \<Rightarrow> s \<noteq> [] \<and> trim s = s | _ \<Rightarrow> False)"

lemma field_iffs:
  "uuid_in r k \<longleftrightarrow> (\<exists>s. fld r k = Str s \<and> uuid_shape s)"
  "sha256_in r k \<longleftrightarrow> (\<exists>s. fld r k = Str s \<and> hex_64 s)"
  "text_in r k \<longleftrightarrow> (\<exists>s. fld r k = Str s \<and> s \<noteq> [] \<and> trim s = s)"
  by (auto simp: uuid_in_def sha256_in_def text_in_def split: jsv.splits)

lemma stored_identity_uuid: "store_uuid v name = Inr s \<Longrightarrow> identity_uuid (Str s) name' = Inr t \<Longrightarrow> t = s"
  by (rule identity_uuid_of_uuid [OF store_uuid_Inr])

definition action_identity :: "jsv \<Rightarrow> jsv" where
  "action_identity a = Obj ((''schemaVersion'', Str logical_action_schema) # map (\<lambda>k. (k, fld a k)) logical_action_fields)"

lemma trim_props: "store_text v name = Inr s \<Longrightarrow> trim s = s \<and> s \<noteq> []"
  by (auto simp: store_text_Inr)

lemma normalize_logical_action_Inr:
  assumes "normalize_logical_action E inp = Inr a"
  shows "dispatch_payload (fld inp ''payload'') = Inr (fld a ''payload'') \<and> flat (action_identity a) \<and>
      fld a ''payloadDigest'' = Str (identity_digest E (fld a ''payload'')) \<and>
      fld a ''logicalActionDigest'' = Str (identity_digest E (action_identity a)) \<and>
      uuid_in a ''tenantId'' \<and> uuid_in a ''incidentId'' \<and> text_in a ''resourceId'' \<and> text_in a ''agency'' \<and>
      fld a ''actionKind'' = Str action_kind"
  using assms unfolding normalize_logical_action_def logical_action_digest_def logical_action_identity_def Let_def
  by (clarsimp simp: guard_simps exact_object_Inr bounded_text_Inr identity_sha256_Inr action_identity_def logical_action_fields_def
      field_iffs store_uuid_Inr trim_props split: if_split_asm) (auto dest: stored_identity_uuid)

definition proposal_time_order :: "jsenv \<Rightarrow> jsv \<Rightarrow> bool" where
  "proposal_time_order E p \<longleftrightarrow> (case (fld p ''admittedAt'', fld p ''expiresAt'') of
     (Str s, Str s') \<Rightarrow> (case (date_parse E s, date_parse E s') of (Some t, Some u) \<Rightarrow> t < u | _ \<Rightarrow> False)
   | _ \<Rightarrow> False)"

definition proposal_well_formed :: "jsenv \<Rightarrow> jsv \<Rightarrow> bool" where
  "proposal_well_formed E p \<longleftrightarrow> flat p \<and> uuid_in p ''runId'' \<and> uuid_in p ''retrievalId'' \<and> uuid_in p ''selectedEvidenceId'' \<and>
     sha256_in p ''selectedEvidenceDigest'' \<and> sha256_in p ''authorityEvidenceBindingSha256'' \<and>
     fld p ''selectedRank'' = int_num 1 \<and> proposal_time_order E p"

lemma proposal_identity_Inr:
  assumes "proposal_identity E q = Inr p"
  shows "proposal_well_formed E p \<and> fld p ''logicalActionDigest'' = fld q ''logicalActionDigest'' \<and>
    (uuid_in q ''tenantId'' \<longrightarrow> fld p ''tenantId'' = fld q ''tenantId'') \<and>
    (uuid_in q ''incidentId'' \<longrightarrow> fld p ''incidentId'' = fld q ''incidentId'')"
  using assms proposal_identity_flat [OF assms] unfolding proposal_identity_def proposal_well_formed_def
  by (clarsimp simp: guard_simps identity_sha256_Inr field_iffs proposal_time_order_def identity_uuid_Inr
      split: if_split_asm dest!: identity_time_Inr) (auto dest: identity_uuid_of_uuid)

lemma normalize_proposal_Inr:
  assumes "normalize_proposal E inp a = Inr (p, d)"
  shows "proposal_well_formed E p \<and> d = identity_digest E p \<and> fld p ''logicalActionDigest'' = fld a ''logicalActionDigest'' \<and>
    fld p ''tenantId'' = fld a ''tenantId'' \<and> fld p ''incidentId'' = fld a ''incidentId''"
  using assms unfolding normalize_proposal_def proposal_digest_def Let_def
  by (clarsimp simp: guard_simps exact_object_Inr split: if_split_asm)
    (drule proposal_identity_Inr, drule sym [of "Str _"], drule sym [of "Str _"], simp add: field_iffs store_uuid_Inr)

section \<open>Normal forms are kept\<close>

lemma store_uuid_keeps: "uuid_shape s \<Longrightarrow> store_uuid (Str s) name = Inr s"
  by (simp add: store_uuid_def store_text_def required_text_def uuid_shape_not_Nil)

lemma store_text_keeps: "trim s = s \<Longrightarrow> s \<noteq> [] \<Longrightarrow> store_text (Str s) name = Inr s"
  by (simp add: store_text_def required_text_def)

lemma payload_text_keeps: "payload_text v name = Inr s \<Longrightarrow> v = Str s"
  by (auto simp: payload_text_def and_then_eq_Inr bounded_text_Inr split: if_splits)

definition optional_member :: "string \<Rightarrow> string \<Rightarrow> (string \<times> jsv) list \<Rightarrow> bool" where
  "optional_member k name kvs \<longleftrightarrow> kvs = [] \<or> (\<exists>s. kvs = [(k, Str s)] \<and> payload_text (Str s) name = Inr s)"

lemma optional_member_if:
  "(if c then map_sum id (\<lambda>s. [(k, Str s)]) (payload_text v name) else Inr []) = Inr kvs \<Longrightarrow> optional_member k name kvs"
  by (auto simp: optional_member_def map_sum_eq_Inr split: if_split_asm dest: payload_text_keeps)

lemma dispatch_payload_shape:
  assumes "dispatch_payload inp = Inr p"
  shows "\<exists>ds ls sc. p = Obj ((''action'', Str action_kind) # ds @ ls @ [(''scenario'', Str sc)]) \<and>
    optional_member ''destination'' ''payload.destination'' ds \<and> optional_member ''logicalDispatch'' ''payload.logicalDispatch'' ls \<and>
    payload_text (Str sc) ''payload.scenario'' = Inr sc \<and> payload_text (Str action_kind) ''payload.action'' = Inr action_kind"
proof -
  from assms obtain ac ds ls sc where parts: "payload_text (fld inp ''action'') ''payload.action'' = Inr ac" "ac = action_kind"
      "optional_member ''destination'' ''payload.destination'' ds" "optional_member ''logicalDispatch'' ''payload.logicalDispatch'' ls"
      "payload_text (fld inp ''scenario'') ''payload.scenario'' = Inr sc"
      "p = Obj ((''action'', Str ac) # ds @ ls @ [(''scenario'', Str sc)])"
    unfolding dispatch_payload_def by (simp only: guard_simps) (blast dest: optional_member_if)
  from parts(1,2,5) have "fld inp ''action'' = Str action_kind" "fld inp ''scenario'' = Str sc"
    by (simp_all add: payload_text_keeps)
  with parts show ?thesis by metis
qed

lemma dispatch_payload_keeps: "dispatch_payload inp = Inr p \<Longrightarrow> dispatch_payload p = Inr p"
  by (drule dispatch_payload_shape) (auto simp: optional_member_def dispatch_payload_def)

lemma normalize_logical_action_keeps:
  assumes "normalize_logical_action E inp = Inr a" and "uuid_in inp ''tenantId''" and "uuid_in inp ''incidentId''"
    and "text_in inp ''resourceId''" and "text_in inp ''agency''" and "dispatch_payload p = Inr (fld inp ''payload'')"
  shows "fld a ''tenantId'' = fld inp ''tenantId'' \<and> fld a ''incidentId'' = fld inp ''incidentId'' \<and>
    fld a ''resourceId'' = fld inp ''resourceId'' \<and> fld a ''agency'' = fld inp ''agency'' \<and> fld a ''payload'' = fld inp ''payload''"
  using assms(1-5) dispatch_payload_keeps [OF assms(6)] unfolding normalize_logical_action_def Let_def
  by (clarsimp simp: guard_simps exact_object_Inr field_iffs store_uuid_keeps store_text_keeps split: if_split_asm)

section \<open>The normal form of a request\<close>

definition request_uuids :: "string list" where
  "request_uuids = [''tenantId'', ''runId'', ''incidentId'', ''operationId'', ''evidenceId'', ''intentNonce'', ''effectKey'',
     ''selectedEvidenceId'']"

definition lease_in_policy :: "jsenv \<Rightarrow> jsv \<Rightarrow> bool" where
  "lease_in_policy E r \<longleftrightarrow> (case as_safe_integer (fld r ''leaseMs'') of
       None \<Rightarrow> False
     | Some ms \<Rightarrow> min_lease_ms \<le> ms \<and> ms \<le> max_lease_ms \<and> lease_allowed E (fld r ''leaseMs'') (fld r ''dviProposal''))"

definition same_members :: "string list \<Rightarrow> jsv \<Rightarrow> jsv \<Rightarrow> bool" where
  "same_members ks v w \<longleftrightarrow> list_all (\<lambda>k. fld v k = fld w k) ks"

definition request_well_formed :: "jsenv \<Rightarrow> jsv \<Rightarrow> bool" where
  "request_well_formed E r \<longleftrightarrow>
     list_all (uuid_in r) request_uuids \<and> text_in r ''resourceId'' \<and> text_in r ''agency'' \<and> text_in r ''agentId'' \<and>
     sha256_in r ''selectedEvidenceDigest'' \<and> lease_in_policy E r \<and>
     fld r ''policyVersion'' = Str policy_version \<and> fld r ''actionKind'' = Str action_kind \<and>
     flat (fld r ''payload'') \<and> fld r ''payloadDigest'' = Str (identity_digest E (fld r ''payload'')) \<and>
     flat (action_identity r) \<and> fld r ''logicalActionDigest'' = Str (identity_digest E (action_identity r)) \<and>
     proposal_well_formed E (fld r ''dviProposal'') \<and> fld r ''proposalDigest'' = Str (identity_digest E (fld r ''dviProposal'')) \<and>
     same_members [''tenantId'', ''runId'', ''incidentId'', ''logicalActionDigest'', ''selectedEvidenceId'', ''selectedEvidenceDigest'']
       (fld r ''dviProposal'') r \<and>
     fld r ''evidenceId'' = fld r ''selectedEvidenceId'' \<and>
     flat (fld r ''requestPayload'') \<and>
     same_members (semantic_fields @ [''logicalActionDigest'', ''proposalDigest'', ''selectedEvidenceId'', ''selectedEvidenceDigest''])
       (fld r ''requestPayload'') r \<and>
     fld r ''requestDigest'' = Str (identity_digest E (fld r ''requestPayload''))"

definition fields_well_formed :: "jsenv \<Rightarrow> jsv \<Rightarrow> (string \<times> jsv) list \<Rightarrow> bool" where
  "fields_well_formed E payload kvs \<longleftrightarrow>
     map fst kvs = [''digestVersion'', ''tenantId'', ''runId'', ''incidentId'', ''resourceId'', ''operationId'', ''agentId'',
       ''agency'', ''evidenceId'', ''intentNonce'', ''effectKey'', ''leaseMs'', ''policyVersion'', ''actionKind'', ''payload'',
       ''payloadDigest''] \<and>
     (let n = Obj kvs in
       list_all (uuid_in n) (butlast request_uuids) \<and> text_in n ''resourceId'' \<and> text_in n ''agency'' \<and> text_in n ''agentId'' \<and>
       fld n ''digestVersion'' = int_num 2 \<and>
       (\<exists>ms. fld n ''leaseMs'' = int_num ms \<and> min_lease_ms \<le> ms \<and> ms \<le> max_lease_ms) \<and>
       fld n ''policyVersion'' = Str policy_version \<and> fld n ''actionKind'' = Str action_kind \<and>
       fld n ''payload'' = payload \<and> fld n ''payloadDigest'' = Str (identity_digest E payload))"

lemma normalized_fields_Inr: "normalized_fields E inp payload = Inr kvs \<Longrightarrow> fields_well_formed E payload kvs"
  unfolding normalized_fields_def
  by (clarsimp simp: guard_simps fields_well_formed_def field_iffs request_uuids_def store_uuid_Inr trim_props store_lease_Inr)

lemma fld_append: "fld (Obj (kvs @ kws)) k = (if k \<in> set (map fst kvs) then fld (Obj kvs) k else fld (Obj kws) k)"
proof (cases "map_of kvs k")
  case None
  then have "k \<notin> set (map fst kvs)" by (simp add: map_of_eq_None_iff)
  with None show ?thesis by (simp add: map_add_def)
next
  case (Some v)
  then have "k \<in> set (map fst kvs)" by (metis map_of_eq_None_iff option.distinct(1) set_map)
  with Some show ?thesis by (simp add: map_add_def)
qed

definition assembled :: "jsenv \<Rightarrow> (string \<times> jsv) list \<Rightarrow> jsv \<Rightarrow> jsv \<Rightarrow> string \<Rightarrow> string \<Rightarrow> string \<Rightarrow> jsv" where
  "assembled E kvs a p d selected digest = (let semantic = semantic_payload (Obj kvs) a d selected digest in
     Obj (kvs @ [(''logicalActionDigest'', fld a ''logicalActionDigest''), (''dviProposal'', p), (''proposalDigest'', Str d),
       (''selectedEvidenceId'', Str selected), (''selectedEvidenceDigest'', Str digest), (''requestPayload'', semantic),
       (''requestDigest'', Str (identity_digest E semantic))]))"

lemma normalize_request_parts:
  assumes "normalize_request E inp = Inr r"
  shows "\<exists>payload kvs a p d selected digest src input_payload prop.
    dispatch_payload input_payload = Inr payload \<and> normalized_fields E src payload = Inr kvs \<and>
    normalize_logical_action E (Obj (map (\<lambda>k. (k, fld (Obj kvs) k)) logical_action_input_fields)) = Inr a \<and>
    normalize_proposal E prop a = Inr (p, d) \<and> lease_allowed E (fld (Obj kvs) ''leaseMs'') p \<and>
    fld p ''runId'' = fld (Obj kvs) ''runId'' \<and> uuid_shape selected \<and> Str selected = fld (Obj kvs) ''evidenceId'' \<and>
    hex_64 digest \<and> fld p ''selectedEvidenceId'' = Str selected \<and> fld p ''selectedEvidenceDigest'' = Str digest \<and>
    r = assembled E kvs a p d selected digest"
  using assms unfolding normalize_request_def assembled_def Let_def
  by (simp only: guard_simps split_paired_Ex prod.case not_not) (blast dest: store_uuid_Inr store_sha256_Inr)

text \<open>The members a request takes over from \<open>normalized\<close> and those it adds.\<close>

lemma added_members:
  assumes "fields_well_formed E payload kvs"
    and "r = Obj (kvs @ [(''logicalActionDigest'', la), (''dviProposal'', p), (''proposalDigest'', d),
      (''selectedEvidenceId'', selected), (''selectedEvidenceDigest'', digest), (''requestPayload'', sem), (''requestDigest'', rd)])"
  shows "k \<in> set (''payload'' # ''operationId'' # semantic_fields) \<Longrightarrow> fld r k = fld (Obj kvs) k"
    and "fld r ''logicalActionDigest'' = la" and "fld r ''dviProposal'' = p" and "fld r ''proposalDigest'' = d"
    and "fld r ''selectedEvidenceId'' = selected" and "fld r ''selectedEvidenceDigest'' = digest"
    and "fld r ''requestPayload'' = sem" and "fld r ''requestDigest'' = rd"
  using assms(1) unfolding assms(2) fields_well_formed_def fld_append by (auto simp: semantic_fields_def simp del: fld.simps) simp_all

lemma request_members:
  assumes "fields_well_formed E payload kvs" and "r = assembled E kvs a p d selected digest"
  shows "k \<in> set (''payload'' # ''operationId'' # semantic_fields) \<Longrightarrow> fld r k = fld (Obj kvs) k"
    and "fld r ''logicalActionDigest'' = fld a ''logicalActionDigest''" and "fld r ''dviProposal'' = p"
    and "fld r ''proposalDigest'' = Str d" and "fld r ''selectedEvidenceId'' = Str selected"
    and "fld r ''selectedEvidenceDigest'' = Str digest"
    and "fld r ''requestPayload'' = semantic_payload (Obj kvs) a d selected digest"
    and "fld r ''requestDigest'' = Str (identity_digest E (semantic_payload (Obj kvs) a d selected digest))"
  using added_members [OF assms(1) assms(2) [unfolded assembled_def Let_def]] by blast+

text \<open>The checks of \<open>normalized\<close> hold of the request.\<close>

lemma request_fields:
  assumes "fields_well_formed E payload kvs" and "r = assembled E kvs a p d selected digest"
  shows "list_all (uuid_in r) (butlast request_uuids)" and "text_in r ''resourceId''" and "text_in r ''agency''"
    and "text_in r ''agentId''" and "\<exists>ms. fld r ''leaseMs'' = int_num ms \<and> min_lease_ms \<le> ms \<and> ms \<le> max_lease_ms"
    and "fld r ''policyVersion'' = Str policy_version" and "fld r ''actionKind'' = Str action_kind"
    and "fld r ''payload'' = payload" and "fld r ''payloadDigest'' = Str (identity_digest E payload)"
proof -
  have "list_all (\<lambda>k. fld r k = fld (Obj kvs) k) (''payload'' # ''operationId'' # semantic_fields)"
    using request_members(1) [OF assms] by (simp only: list_all_iff) blast
  then have K: "list_all (\<lambda>k. fld r k = fld (Obj kvs) k) [''payload'', ''operationId'', ''tenantId'', ''runId'', ''incidentId'',
      ''resourceId'', ''agentId'', ''agency'', ''evidenceId'', ''intentNonce'', ''effectKey'', ''leaseMs'', ''policyVersion'',
      ''actionKind'', ''payloadDigest'']"
    by (simp only: semantic_fields_def list.pred_inject simp_thms)
  show "list_all (uuid_in r) (butlast request_uuids)" "text_in r ''resourceId''" "text_in r ''agency''" "text_in r ''agentId''"
      "\<exists>ms. fld r ''leaseMs'' = int_num ms \<and> min_lease_ms \<le> ms \<and> ms \<le> max_lease_ms"
      "fld r ''policyVersion'' = Str policy_version" "fld r ''actionKind'' = Str action_kind"
      "fld r ''payload'' = payload" "fld r ''payloadDigest'' = Str (identity_digest E payload)"
    using assms(1) K by (simp_all add: fields_well_formed_def Let_def field_iffs request_uuids_def del: fld.simps)
qed

lemma semantic_payload_props:
  assumes "fields_well_formed E payload kvs" and "fld a ''logicalActionDigest'' = Str la"
  shows "flat (semantic_payload (Obj kvs) a d selected digest)"
    and "k \<in> set semantic_fields \<Longrightarrow> fld (semantic_payload (Obj kvs) a d selected digest) k = fld (Obj kvs) k"
    and "fld (semantic_payload (Obj kvs) a d selected digest) ''logicalActionDigest'' = Str la"
    and "fld (semantic_payload (Obj kvs) a d selected digest) ''proposalDigest'' = Str d"
    and "fld (semantic_payload (Obj kvs) a d selected digest) ''selectedEvidenceId'' = Str selected"
    and "fld (semantic_payload (Obj kvs) a d selected digest) ''selectedEvidenceDigest'' = Str digest"
proof -
  have "list_all (\<lambda>k. plain (fld (Obj kvs) k)) semantic_fields"
    using assms(1) by (clarsimp simp: fields_well_formed_def Let_def field_iffs semantic_fields_def request_uuids_def simp del: fld.simps)
  then show "flat (semantic_payload (Obj kvs) a d selected digest)"
    by (simp add: semantic_payload_def semantic_fields_def assms(2) del: fld.simps)
qed (auto simp: semantic_payload_def semantic_fields_def assms(2))

lemma logical_action_input:
  assumes "fields_well_formed E payload kvs" and "dispatch_payload q = Inr payload"
    and "normalize_logical_action E (Obj (map (\<lambda>k. (k, fld (Obj kvs) k)) logical_action_input_fields)) = Inr a"
  shows "same_members logical_action_fields a (Obj kvs)"
proof -
  let ?inp = "Obj (map (\<lambda>k. (k, fld (Obj kvs) k)) logical_action_input_fields)"
  have inp: "fld ?inp k = fld (Obj kvs) k" if "k \<in> set logical_action_input_fields" for k
    using that by (auto simp: logical_action_input_fields_def)
  have n: "uuid_in (Obj kvs) ''tenantId''" "uuid_in (Obj kvs) ''incidentId''" "text_in (Obj kvs) ''resourceId''"
      "text_in (Obj kvs) ''agency''" "fld (Obj kvs) ''payload'' = payload" "fld (Obj kvs) ''actionKind'' = Str action_kind"
      "fld (Obj kvs) ''payloadDigest'' = Str (identity_digest E payload)"
    using assms(1) by (simp_all add: fields_well_formed_def Let_def request_uuids_def del: fld.simps)
  from normalize_logical_action_keeps [OF assms(3)] inp n assms(2)
  have "fld a ''tenantId'' = fld (Obj kvs) ''tenantId''" "fld a ''incidentId'' = fld (Obj kvs) ''incidentId''"
      "fld a ''resourceId'' = fld (Obj kvs) ''resourceId''" "fld a ''agency'' = fld (Obj kvs) ''agency''" "fld a ''payload'' = payload"
    by (simp_all add: field_iffs logical_action_input_fields_def del: fld.simps)
  with normalize_logical_action_Inr [OF assms(3)] n show ?thesis
    by (simp add: same_members_def logical_action_fields_def del: fld.simps)
qed

lemma same_members_in: "same_members ks v w \<Longrightarrow> k \<in> set ks \<Longrightarrow> fld v k = fld w k"
  by (simp add: same_members_def list_all_iff)

lemma action_identity_cong: "same_members logical_action_fields a b \<Longrightarrow> action_identity a = action_identity b"
  by (simp add: same_members_def action_identity_def list_all_iff)

text \<open>Every part of a normalized request.\<close>

lemma normalized_well_formed:
  assumes "normalize_request E inp = Inr r"
  shows "request_well_formed E r"
proof -
  obtain payload kvs a p d selected digest src q prop' where pay: "dispatch_payload q = Inr payload"
      and kvs: "normalized_fields E src payload = Inr kvs"
      and act: "normalize_logical_action E (Obj (map (\<lambda>k. (k, fld (Obj kvs) k)) logical_action_input_fields)) = Inr a"
      and prp: "normalize_proposal E prop' a = Inr (p, d)" and lease: "lease_allowed E (fld (Obj kvs) ''leaseMs'') p"
      and rn: "fld p ''runId'' = fld (Obj kvs) ''runId''" and sel: "uuid_shape selected" "Str selected = fld (Obj kvs) ''evidenceId''"
      and dg: "hex_64 digest" and psel: "fld p ''selectedEvidenceId'' = Str selected" "fld p ''selectedEvidenceDigest'' = Str digest"
      and r: "r = assembled E kvs a p d selected digest"
    using normalize_request_parts [OF assms] by (elim exE conjE) (rule that; assumption)
  note F = normalized_fields_Inr [OF kvs]
  note R = request_members [OF F r] and n = request_fields [OF F r]
    and A = normalize_logical_action_Inr [OF act] and P = normalize_proposal_Inr [OF prp]
  from A have la: "fld a ''logicalActionDigest'' = Str (identity_digest E (action_identity a))" by blast
  note S = semantic_payload_props [OF F la, where d = d and selected = selected and digest = digest]
  have keys: "set logical_action_fields \<subseteq> set semantic_fields" "''tenantId'' \<in> set semantic_fields" "''incidentId'' \<in> set semantic_fields"
      "''runId'' \<in> set semantic_fields" "''leaseMs'' \<in> set semantic_fields" "''evidenceId'' \<in> set semantic_fields"
    by (simp_all add: logical_action_fields_def semantic_fields_def)
  have I: "same_members logical_action_fields a r"
    unfolding same_members_def list_all_iff
    using same_members_in [OF logical_action_input [OF F pay act]] R(1) keys(1) by (simp add: subset_iff del: fld.simps)
  have R': "fld r k = fld (Obj kvs) k" if "k \<in> set semantic_fields" for k using R(1) that by simp
  have sem: "same_members (semantic_fields @ [''logicalActionDigest'', ''proposalDigest'', ''selectedEvidenceId'', ''selectedEvidenceDigest''])
      (fld r ''requestPayload'') r"
    using R(1) R(2-8) S(2-6) la by (auto simp: same_members_def list_all_iff simp del: fld.simps)
  have uu: "list_all (uuid_in r) request_uuids" using n(1) R(5) sel(1) by (simp add: request_uuids_def field_iffs del: fld.simps)
  have lp: "lease_in_policy E r" using n(5) R'[OF keys(5)] lease R(3) by (auto simp: lease_in_policy_def max_safe_integer_def
      max_lease_ms_def min_lease_ms_def as_safe_integer_int simp del: fld.simps as_safe_integer.simps)
  have "same_members [''tenantId'', ''runId'', ''incidentId'', ''logicalActionDigest'', ''selectedEvidenceId'', ''selectedEvidenceDigest'']
      (fld r ''dviProposal'') r"
    using R(2-6) R'[OF keys(4)] P rn psel I by (simp add: same_members_def logical_action_fields_def del: fld.simps)
  with A P R(2-8) S(1) sel R'[OF keys(6)] action_identity_cong [OF I] n uu lp sem dg dispatch_payload_flat [OF pay] show ?thesis
    unfolding request_well_formed_def by (simp add: field_iffs del: fld.simps)
qed

text \<open>C25. A request the client code accepts is well formed in every part: its identifiers are UUIDs,
  its lease is a standard one or the exact extended window of its proposal, each digest is the
  digest of the part it names, the proposal speaks of the same tenant, run, incident, action
  and evidence as the request, and the digest of the request is taken of exactly these.\<close>

theorem normalized_requests_are_well_formed:
  assumes "normalize_request E inp = Inr r"
  shows "request_well_formed E r"
  using assms by (rule normalized_well_formed)

definition request_env :: jsenv where
  "request_env = \<lparr>localeCompare = compare_canonical_keys, date_parse = parse_iso, date_of_object = (\<lambda>_. None),
     sha256_hex = (\<lambda>s. replicate 64 (CHR ''a'')), frac_str = (\<lambda>_. []), string_of = (\<lambda>_. []), to_number = (\<lambda>v. if v = Str ''1'' then Fin 1 else NaN)\<rparr>"

definition sample_uuid :: "char \<Rightarrow> string" where
  "sample_uuid c = replicate 8 c @ ''-0000-4000-8000-'' @ replicate 12 c"

definition proposal_input :: jsv where
  "proposal_input = Obj [(''tenantId'', Str (sample_uuid (CHR ''1''))), (''runId'', Str (sample_uuid (CHR ''2''))),
     (''incidentId'', Str (sample_uuid (CHR ''3''))), (''retrievalId'', Str (sample_uuid (CHR ''4''))),
     (''authorityEvidenceBindingSha256'', Str (replicate 64 (CHR ''b''))), (''selectedEvidenceId'', Str (sample_uuid (CHR ''5''))),
     (''selectedEvidenceDigest'', Str (replicate 64 (CHR ''c''))), (''policyVersion'', Str ''g1-admissibility-v2''),
     (''selectedRank'', int_num 1), (''admittedAt'', Str (iso_text 0)), (''expiresAt'', Str (iso_text 1800000))]"

definition request_input :: "string \<Rightarrow> jsv" where
  "request_input operation = Obj [(''tenantId'', Str (sample_uuid (CHR ''1''))), (''runId'', Str (sample_uuid (CHR ''2''))),
     (''incidentId'', Str (sample_uuid (CHR ''3''))), (''resourceId'', Str '' boat-1 ''), (''operationId'', Str operation),
     (''agentId'', Str ''agent''), (''agency'', Str ''harbor''), (''evidenceId'', Str (sample_uuid (CHR ''5''))),
     (''intentNonce'', Str (sample_uuid (CHR ''6''))), (''effectKey'', Str (sample_uuid (CHR ''7''))), (''leaseMs'', int_num 1800000),
     (''dviAuthorization'', Obj [(''dviProposal'', proposal_input), (''selectedEvidenceId'', Str (sample_uuid (CHR ''5''))),
        (''selectedEvidenceDigest'', Str (replicate 64 (CHR ''c'')))])]"

lemma identity_uuid_keeps: "uuid_shape s \<Longrightarrow> identity_uuid (Str s) name = Inr s"
  by (simp add: identity_uuid_def bounded_text_def uuid_shape_not_Nil) (simp add: uuid_shape_def)

lemma identity_sha256_keeps: "hex_64 s \<Longrightarrow> identity_sha256 (Str s) name = Inr s"
  by (auto simp: identity_sha256_def bounded_text_def dest: hex_of_length_length)

lemma store_sha256_keeps: "hex_64 s \<Longrightarrow> store_sha256 (Str s) name = Inr s"
  by (auto simp: store_sha256_def store_text_def required_text_def dest: hex_of_length_length)

lemma sample_times: "iso_text 0 = ''1970-01-01T00:00:00.000Z''" "iso_text 1800000 = ''1970-01-01T00:30:00.000Z''"
  by code_simp+

lemma hex_digit_zero: "hex_digit (CHR ''0'')"
  by (simp add: hex_digit_def)

lemma sample_uuid_shape [simp]: "hex_digit c \<Longrightarrow> uuid_shape (sample_uuid c)"
  by (simp add: uuid_shape_def sample_uuid_def numeral_eq_Suc upt_rec hex_digit_zero)

lemma sample_hex_digit [simp]: "list_all hex_digit ''123456789''"
  by (simp add: hex_digit_def)

lemma sample_digest [simp]: "hex_64 (replicate 64 (CHR ''a''))" "hex_64 (replicate 64 (CHR ''b''))" "hex_64 (replicate 64 (CHR ''c''))"
  by (simp_all add: hex_of_length_def hex_digit_def list_all_iff)

lemma sample_digest_env [simp]: "identity_digest request_env v = replicate 64 (CHR ''a'')"
  by (simp add: identity_digest_def request_env_def)

lemma sample_payload: "dispatch_payload default_payload = Inr (Obj [(''action'', Str action_kind), (''scenario'', Str ''synthetic-highwater'')])"
  by code_simp

lemma sample_texts:
  "store_text (Str '' boat-1 '') n = Inr ''boat-1''" "store_text (Str ''boat-1'') n = Inr ''boat-1''"
  "store_text (Str ''agent'') n = Inr ''agent''" "store_text (Str ''harbor'') n = Inr ''harbor''"
  "store_text (Str ''g1-admissibility-v2'') n = Inr ''g1-admissibility-v2''" "store_text (Str action_kind) n = Inr action_kind"
  "bounded_text (Str ''boat-1'') n 256 = Inr ''boat-1''" "bounded_text (Str ''harbor'') n 128 = Inr ''harbor''"
  "bounded_text (Str action_kind) n 64 = Inr action_kind"
  "bounded_text (Str ''g1-admissibility-v2'') n 128 = Inr ''g1-admissibility-v2''"
  by code_simp+

lemma sample_time_values:
  "date_parse request_env (iso_text 0) = Some 0" "date_parse request_env (iso_text 1800000) = Some 1800000"
  "to_iso_string 0 = Some (iso_text 0)" "to_iso_string 1800000 = Some (iso_text 1800000)"
  by (simp_all add: request_env_def parse_iso_iso_text max_time_def to_iso_string_def)

lemma sample_time_texts:
  "store_text (Str (iso_text 0)) n = Inr (iso_text 0)" "store_text (Str (iso_text 1800000)) n = Inr (iso_text 1800000)"
  "bounded_text (Str (iso_text 0)) n 24 = Inr (iso_text 0)" "bounded_text (Str (iso_text 1800000)) n 24 = Inr (iso_text 1800000)"
  unfolding sample_times by code_simp+

lemmas sample_simps = sample_payload sample_texts sample_time_values sample_time_texts store_uuid_keeps identity_uuid_keeps
  identity_sha256_keeps store_sha256_keeps hex_digit_def

definition sample_fields :: "string \<Rightarrow> (string \<times> jsv) list" where
  "sample_fields operation = [(''digestVersion'', int_num 2), (''tenantId'', Str (sample_uuid (CHR ''1''))),
     (''runId'', Str (sample_uuid (CHR ''2''))), (''incidentId'', Str (sample_uuid (CHR ''3''))), (''resourceId'', Str ''boat-1''),
     (''operationId'', Str operation), (''agentId'', Str ''agent''), (''agency'', Str ''harbor''),
     (''evidenceId'', Str (sample_uuid (CHR ''5''))), (''intentNonce'', Str (sample_uuid (CHR ''6''))),
     (''effectKey'', Str (sample_uuid (CHR ''7''))), (''leaseMs'', int_num 1800000), (''policyVersion'', Str policy_version),
     (''actionKind'', Str action_kind), (''payload'', Obj [(''action'', Str action_kind), (''scenario'', Str ''synthetic-highwater'')]),
     (''payloadDigest'', Str (replicate 64 (CHR ''a'')))]"

lemma sample_normalized:
  "uuid_shape operation \<Longrightarrow>
   normalized_fields request_env (request_input operation) (Obj [(''action'', Str action_kind), (''scenario'', Str ''synthetic-highwater'')])
     = Inr (sample_fields operation)"
  by (simp add: normalized_fields_def request_input_def sample_simps sample_fields_def coalesce_def store_lease_def max_safe_integer_def
      min_lease_ms_def max_lease_ms_def)

definition sample_action :: jsv where
  "sample_action = Obj [(''tenantId'', Str (sample_uuid (CHR ''1''))), (''incidentId'', Str (sample_uuid (CHR ''3''))),
     (''resourceId'', Str ''boat-1''), (''agency'', Str ''harbor''), (''actionKind'', Str action_kind),
     (''payload'', Obj [(''action'', Str action_kind), (''scenario'', Str ''synthetic-highwater'')]),
     (''payloadDigest'', Str (replicate 64 (CHR ''a''))), (''logicalActionDigest'', Str (replicate 64 (CHR ''a'')))]"

lemma sample_action_normalized:
  "normalize_logical_action request_env (Obj (map (\<lambda>k. (k, fld (Obj (sample_fields operation)) k)) logical_action_input_fields))
     = Inr sample_action"
  by (simp add: normalize_logical_action_def exact_object_def own_keys_are_def logical_action_input_fields_def sample_fields_def
      sample_simps dispatch_payload_keeps [OF sample_payload] logical_action_digest_def logical_action_identity_def
      logical_action_fields_def sample_action_def Let_def)

definition sample_proposal :: jsv where
  "sample_proposal = Obj [(''schemaVersion'', Str proposal_schema), (''tenantId'', Str (sample_uuid (CHR ''1''))),
     (''runId'', Str (sample_uuid (CHR ''2''))), (''incidentId'', Str (sample_uuid (CHR ''3''))),
     (''retrievalId'', Str (sample_uuid (CHR ''4''))), (''logicalActionDigest'', Str (replicate 64 (CHR ''a''))),
     (''authorityEvidenceBindingSha256'', Str (replicate 64 (CHR ''b''))), (''selectedEvidenceId'', Str (sample_uuid (CHR ''5''))),
     (''selectedEvidenceDigest'', Str (replicate 64 (CHR ''c''))), (''policyVersion'', Str ''g1-admissibility-v2''),
     (''selectedRank'', int_num 1), (''admittedAt'', Str (iso_text 0)), (''expiresAt'', Str (iso_text 1800000))]"

lemma sample_proposal_normalized:
  "normalize_proposal request_env proposal_input sample_action = Inr (sample_proposal, replicate 64 (CHR ''a''))"
  by (simp add: normalize_proposal_def exact_object_def own_keys_are_def proposal_input_def proposal_input_fields_def sample_simps
      sample_action_def proposal_digest_def proposal_identity_def proposal_fields_def store_time_def identity_time_def
      sample_proposal_def Let_def)

lemma sample_request:
  assumes "uuid_shape operation"
  shows "normalize_request request_env (request_input operation)
    = Inr (assembled request_env (sample_fields operation) sample_action sample_proposal (replicate 64 (CHR ''a''))
        (sample_uuid (CHR ''5'')) (replicate 64 (CHR ''c'')))"
proof -
  let ?dvi = "Obj [(''dviProposal'', proposal_input), (''selectedEvidenceId'', Str (sample_uuid (CHR ''5''))),
        (''selectedEvidenceDigest'', Str (replicate 64 (CHR ''c'')))]"
  have inp: "\<not> client_clock (request_input operation)" "\<not> has_own (request_input operation) ''payload''"
      "fld (request_input operation) ''dviAuthorization'' = ?dvi"
      "exact_object ?dvi request_dvi_authorization_fields ''AUTHORITY_DVI_AUTHORIZATION_SHAPE'' = Inr ?dvi"
    by (simp_all add: request_input_def client_clock_def has_own_def exact_object_def own_keys_are_def request_dvi_authorization_fields_def)
  have dvi: "fld ?dvi ''dviProposal'' = proposal_input" "fld ?dvi ''selectedEvidenceId'' = Str (sample_uuid (CHR ''5''))"
      "fld ?dvi ''selectedEvidenceDigest'' = Str (replicate 64 (CHR ''c''))" by simp_all
  have lease: "lease_allowed request_env (fld (Obj (sample_fields operation)) ''leaseMs'') sample_proposal"
    by (simp add: lease_allowed_def sample_fields_def sample_proposal_def sample_time_values max_lease_ms_def max_safe_integer_def)
  have match: "fld sample_proposal ''runId'' = fld (Obj (sample_fields operation)) ''runId''"
      "fld sample_proposal ''tenantId'' = fld (Obj (sample_fields operation)) ''tenantId''"
      "fld sample_proposal ''incidentId'' = fld (Obj (sample_fields operation)) ''incidentId''"
      "fld (Obj (sample_fields operation)) ''evidenceId'' = Str (sample_uuid (CHR ''5''))"
      "fld sample_proposal ''selectedEvidenceId'' = Str (sample_uuid (CHR ''5''))"
      "fld sample_proposal ''selectedEvidenceDigest'' = Str (replicate 64 (CHR ''c''))"
    by (simp_all add: sample_proposal_def sample_fields_def)
  show ?thesis
    unfolding normalize_request_def Let_def
    by (simp add: inp dvi lease match sample_payload sample_normalized [OF assms] sample_action_normalized sample_proposal_normalized
        store_uuid_keeps store_sha256_keeps hex_digit_def assembled_def del: fld.simps)
qed

theorem normalized_requests_are_well_formed_witness:
  "\<exists>r. normalize_request request_env (request_input (sample_uuid (CHR ''8''))) = Inr r \<and> request_well_formed request_env r"
proof -
  have "uuid_shape (sample_uuid (CHR ''8''))" by (simp add: hex_digit_def)
  from normalized_requests_are_well_formed [OF sample_request [OF this]] sample_request [OF this] show ?thesis by blast
qed

section \<open>What the request digest pins down\<close>

lemma request_digests:
  assumes "request_well_formed E r"
  shows "flat (fld r ''requestPayload'')" and "fld r ''requestDigest'' = Str (identity_digest E (fld r ''requestPayload''))"
    and "flat (fld r ''payload'')" and "fld r ''payloadDigest'' = Str (identity_digest E (fld r ''payload''))"
    and "flat (fld r ''dviProposal'')" and "fld r ''proposalDigest'' = Str (identity_digest E (fld r ''dviProposal''))"
    and "same_members (semantic_fields @ [''logicalActionDigest'', ''proposalDigest'', ''selectedEvidenceId'', ''selectedEvidenceDigest''])
      (fld r ''requestPayload'') r"
  using assms unfolding request_well_formed_def proposal_well_formed_def by blast+

text \<open>C26. Two accepted requests with one request digest ask for the same thing: they agree on every
  member of the semantic payload, and their dispatch payloads and proposals agree member by
  member, unless one of the three digests involved is a collision of the hash. The operation
  identifier is not part of it, so a request may be retried under a new one.\<close>

theorem request_digest_pins_request:
  assumes "normalize_request E inp = Inr r" and "normalize_request E inp' = Inr r'"
    and "fld r ''requestDigest'' = fld r' ''requestDigest''"
    and "no_collision E (fld r ''requestPayload'') (fld r' ''requestPayload'')"
    and "no_collision E (fld r ''payload'') (fld r' ''payload'')"
    and "no_collision E (fld r ''dviProposal'') (fld r' ''dviProposal'')"
  shows "same_members (semantic_fields @ [''logicalActionDigest'', ''proposalDigest'', ''selectedEvidenceId'', ''selectedEvidenceDigest'']) r r' \<and>
    (\<forall>k. fld (fld r ''payload'') k = fld (fld r' ''payload'') k) \<and>
    (\<forall>k. fld (fld r ''dviProposal'') k = fld (fld r' ''dviProposal'') k)"
proof -
  note W = request_digests [OF normalized_well_formed [OF assms(1)]]
    and W' = request_digests [OF normalized_well_formed [OF assms(2)]]
  have "identity_digest E (fld r ''requestPayload'') = identity_digest E (fld r' ''requestPayload'')"
    using assms(3) W(2) W'(2) by simp
  then have sem: "fld (fld r ''requestPayload'') k = fld (fld r' ''requestPayload'') k" for k
    using digest_pins_members [OF W(1) W'(1) assms(4)] by blast
  have same: "same_members (semantic_fields @ [''logicalActionDigest'', ''proposalDigest'', ''selectedEvidenceId'', ''selectedEvidenceDigest'']) r r'"
    using W(7) W'(7) sem by (simp add: same_members_def list_all_iff del: set_append)
  have "fld r ''payloadDigest'' = fld r' ''payloadDigest''" "fld r ''proposalDigest'' = fld r' ''proposalDigest''"
    by (rule same_members_in [OF same], simp add: semantic_fields_def)+
  then have "identity_digest E (fld r ''payload'') = identity_digest E (fld r' ''payload'')"
      "identity_digest E (fld r ''dviProposal'') = identity_digest E (fld r' ''dviProposal'')"
    using W(4,6) W'(4,6) by simp_all
  with same digest_pins_members [OF W(3) W'(3) assms(5)] digest_pins_members [OF W(5) W'(5) assms(6)] show ?thesis by blast
qed

theorem request_digest_pins_request_witness:
  "\<exists>r r'. normalize_request request_env (request_input (sample_uuid (CHR ''8''))) = Inr r \<and>
     normalize_request request_env (request_input (sample_uuid (CHR ''9''))) = Inr r' \<and>
     same_members (semantic_fields @ [''logicalActionDigest'', ''proposalDigest'', ''selectedEvidenceId'', ''selectedEvidenceDigest'']) r r'"
proof -
  have u: "uuid_shape (sample_uuid (CHR ''8''))" "uuid_shape (sample_uuid (CHR ''9''))" by (simp_all add: hex_digit_def)
  note N = sample_request [OF u(1)] sample_request [OF u(2)]
  let ?r = "\<lambda>c. assembled request_env (sample_fields (sample_uuid c)) sample_action sample_proposal (replicate 64 (CHR ''a''))
        (sample_uuid (CHR ''5'')) (replicate 64 (CHR ''c''))"
  have eq: "fld (?r (CHR ''8'')) k = fld (?r (CHR ''9'')) k" if "k \<noteq> ''operationId''" for k
    using that by (simp add: assembled_def sample_fields_def semantic_payload_def semantic_fields_def Let_def)
  have "same_members (semantic_fields @ [''logicalActionDigest'', ''proposalDigest'', ''selectedEvidenceId'', ''selectedEvidenceDigest''])
      (?r (CHR ''8'')) (?r (CHR ''9''))"
    by (rule request_digest_pins_request [OF N, THEN conjunct1]) (simp_all only: eq no_collision_def list.inject char.inject simp_thms)
  with N show ?thesis by blast
qed

end
