(* ===== verification/Evidence_Props.thy ===== *)
theory Evidence_Props
  imports Evidence_Admission Authority_Request_Props
begin

text \<open>
  The evidence tables as a state machine: every writer keeps the keys unique, the checks and
  the reasons of rejection, so in every state the program reaches contradicting evidence is
  never admissible and a revoked key never carries any.
\<close>

section \<open>The machine\<close>

definition no_evidence :: evidence_db where
  "no_evidence = \<lparr>evidence_rows = [], verifications = [], key_rows = []\<rparr>"

datatype evidence_call =
  Register_key jsv
| Revoke_key int jsv
| Append_signed jsv
| Append_unsigned jsv
| Append_v1 string evidence_params
| Append_v2 string evidence_params

inductive evidence_step :: "jsenv \<Rightarrow> crypto \<Rightarrow> (string \<Rightarrow> bool) \<Rightarrow> evidence_db \<Rightarrow> evidence_call \<Rightarrow> evidence_db \<Rightarrow> bool"
  for E C vector where
  step_register: "register_key E C inp db = Inr (db', out) \<Longrightarrow> evidence_step E C vector db (Register_key inp) db'"
| step_revoke: "revoke_key now inp db = Inr (db', k) \<Longrightarrow> evidence_step E C vector db (Revoke_key now inp) db'"
| step_signed: "append_signed E C vector inp db = Inr (db', out) \<Longrightarrow> evidence_step E C vector db (Append_signed inp) db'"
| step_unsigned: "append_unsigned E vector inp db = Inr (db', e) \<Longrightarrow> evidence_step E C vector db (Append_unsigned inp) db'"
| step_v1: "append_v1 user vector a db = Inr (db', i) \<Longrightarrow> evidence_step E C vector db (Append_v1 user a) db'"
| step_v2: "append_v2 user vector a db = Inr (db', i) \<Longrightarrow> evidence_step E C vector db (Append_v2 user a) db'"

inductive_cases evidence_stepE: "evidence_step E C vector db call db'"

section \<open>What a call may do to the tables\<close>

text \<open>Every writer is one of four kinds of change.\<close>

inductive evidence_change :: "(string \<Rightarrow> bool) \<Rightarrow> evidence_db \<Rightarrow> evidence_db \<Rightarrow> bool" for vector where
  change_none: "evidence_change vector db db"
| change_key: "key_check k \<Longrightarrow> find_key db (vk_tenant k) (vk_id k) = None \<Longrightarrow> evidence_change vector db (db\<lparr>key_rows := key_rows db @ [k]\<rparr>)"
| change_revoke: "evidence_change vector db (db\<lparr>key_rows := update_where (\<lambda>k. signing_key k = i) (revoke_row now) (key_rows db)\<rparr>)"
| change_receipt: "insert_verification v db = Inr db' \<Longrightarrow> (\<And>why. vr_reason v = Some why \<Longrightarrow> why \<in> set rejection_reasons) \<Longrightarrow>
    evidence_change vector db db'"
| change_evidence: "insert_evidence vector e db = Inr db' \<Longrightarrow> evidence_change vector db db'"
| change_both: "insert_verification v db = Inr db' \<Longrightarrow> vr_reason v = None \<Longrightarrow> insert_evidence vector e db' = Inr db'' \<Longrightarrow>
    evidence_change vector db db''"

lemma js_call_Inr: "js_call r = Inr x \<longleftrightarrow> r = Inr x"
  by (cases r) auto

lemma db_call_Inr: "db_call r = Inr x \<longleftrightarrow> r = Inr x"
  by (cases r) auto

lemmas call_Inr = js_call_Inr db_call_Inr

lemma rejection_in: "rejection E C n key = Some why \<Longrightarrow> why \<in> set rejection_reasons"
  by (auto simp: rejection_def rejection_reasons_def Let_def split: option.splits if_splits)

lemma register_change: "register_key E C inp db = Inr (db', out) \<Longrightarrow> evidence_change vector db db'"
  by (auto simp: register_key_def store_key_def guard_simps call_Inr split: option.split_asm if_split_asm
      intro: change_none change_key)

lemma revoke_change: "revoke_key now inp db = Inr (db', k) \<Longrightarrow> evidence_change vector db db'"
  by (auto simp: revoke_key_def guard_simps call_Inr split: option.split_asm intro: change_revoke)

lemma append_envelope_change: "append_envelope E C vector n db = Inr (db', out) \<Longrightarrow> evidence_change vector db db'"
proof -
  assume r: "append_envelope E C vector n db = Inr (db', out)"
  let ?v = "receipt_of n (find_key db (ev_tenant (evidence_of n)) (en_key_id n))"
  let ?reason = "rejection E C n (find_key db (ev_tenant (evidence_of n)) (en_key_id n))"
  have reasons: "vr_reason (?v reason) = reason" for reason by (simp add: receipt_of_def Let_def)
  from r consider "db' = db"
    | why where "?reason = Some why" "insert_verification (?v (Some why)) db = Inr db'"
    | db'' where "insert_verification (?v None) db = Inr db''" "insert_evidence vector (evidence_of n) db'' = Inr db'"
    unfolding append_envelope_def Let_def
    by (auto simp: guard_simps call_Inr split: list.split_asm if_split_asm option.split_asm)
  then show ?thesis
  proof cases
    case (2 why)
    then show ?thesis by (intro change_receipt [OF 2(2)]) (auto simp: reasons dest: rejection_in)
  qed (auto intro: change_none change_both simp: reasons)
qed

lemma append_v2_change: "append_v2 user vector a db = Inr (db', i) \<Longrightarrow> evidence_change vector db db'"
  by (auto simp: append_v2_def sql_guard_Inr and_then_eq_Inr split: option.split_asm intro: change_none change_both)

lemma step_change: "evidence_step E C vector db call db' \<Longrightarrow> evidence_change vector db db'"
  by (auto elim!: evidence_stepE simp: append_signed_def append_unsigned_def append_v1_def Let_def guard_simps call_Inr
      intro: register_change revoke_change append_envelope_change append_v2_change change_none change_evidence split: if_split_asm)

section \<open>The invariant\<close>

lemma insert_verification_Inr: "insert_verification v db = Inr db' \<longleftrightarrow>
    verification_check v \<and> \<not> taken every verification_key (verification_key v) (verifications db) \<and>
    \<not> taken every verification_request (verification_request v) (verifications db) \<and>
    db' = db\<lparr>verifications := verifications db @ [v]\<rparr>"
  by (auto simp: insert_verification_def)

lemma insert_evidence_Inr: "insert_evidence vector e db = Inr db' \<longleftrightarrow>
    vector (ev_embedding e) \<and> evidence_check e \<and> \<not> taken every evidence_key (evidence_key e) (evidence_rows db) \<and>
    db' = db\<lparr>evidence_rows := evidence_rows db @ [e]\<rparr>"
  by (auto simp: insert_evidence_def)

lemma find_key_None: "find_key db tenant i = None \<longleftrightarrow> \<not> taken every signing_key (tenant, i) (key_rows db)"
  by (simp add: find_key_def find_None_taken)

lemma revoke_row_same [simp]: "signing_key (revoke_row now k) = signing_key k" "key_check k \<Longrightarrow> key_check (revoke_row now k)"
  by (auto simp: signing_key_def revoke_row_def key_check_def split: option.splits)

lemma evidence_ok_change: "evidence_change vector db db' \<Longrightarrow> evidence_ok db \<Longrightarrow> evidence_ok db'"
proof (induction rule: evidence_change.induct)
  case (change_key k db)
  then show ?case by (simp add: evidence_ok_def unique_on_append find_key_None signing_key_def)
next
  case (change_revoke db i now)
  then show ?case by (simp add: evidence_ok_def unique_on_update_where list_all_update_where)
next
  case (change_receipt v db db')
  then show ?case by (auto simp: evidence_ok_def insert_verification_Inr unique_on_append split: option.splits)
qed (auto simp: evidence_ok_def insert_verification_Inr insert_evidence_Inr unique_on_append)

text \<open>A revoked key.\<close>

definition revoked :: "evidence_db \<Rightarrow> string \<Rightarrow> string \<Rightarrow> bool" where
  "revoked db tenant key_id \<longleftrightarrow> (case find_key db tenant key_id of None \<Rightarrow> False | Some k \<Rightarrow> vk_status k = ''revoked'')"

lemma find_key_revoke:
  "find_key (db\<lparr>key_rows := update_where (\<lambda>k. signing_key k = j) (revoke_row now) (key_rows db)\<rparr>) tenant i
    = map_option (\<lambda>k. if signing_key k = j then revoke_row now k else k) (find_key db tenant i)"
  by (simp add: find_key_def find_update_where)

lemma revoke_row_status [simp]: "vk_status (revoke_row now k) = ''revoked''"
  by (simp add: revoke_row_def)

lemma revoke_key_Inr:
  assumes "revoke_key now inp db = Inr (db', k)"
  shows "revoked db' (vk_tenant k) (vk_id k)"
proof -
  from assms obtain tenant i row where row: "find_key db tenant i = Some row" and k: "k = revoke_row now row"
      and db': "db' = db\<lparr>key_rows := update_where (\<lambda>k. signing_key k = (tenant, i)) (revoke_row now) (key_rows db)\<rparr>"
    by (auto simp: revoke_key_def guard_simps call_Inr split: option.split_asm)
  from row have s: "signing_key row = (tenant, i)" by (auto simp: find_key_def dest: find_SomeD)
  with k have "vk_tenant k = tenant" "vk_id k = i" by (simp_all add: signing_key_def revoke_row_def)
  with row s show ?thesis by (simp add: revoked_def db' find_key_revoke)
qed

lemma revoked_change: "evidence_change vector db db' \<Longrightarrow> revoked db tenant key_id \<Longrightarrow> revoked db' tenant key_id"
proof (induction rule: evidence_change.induct)
  case (change_key k db)
  then show ?case by (auto simp: revoked_def find_key_def find_append split: option.splits)
next
  case (change_revoke db i now)
  then show ?case by (auto simp: revoked_def find_key_revoke split: option.split_asm)
qed (auto simp: revoked_def find_key_def insert_verification_Inr insert_evidence_Inr)

interpretation evidence_machine: invariant_machine "evidence_step E C vector" evidence_ok for E C vector
  by unfold_locales (blast intro: evidence_ok_change step_change)

interpretation revocation_machine: invariant_machine "evidence_step E C vector" "\<lambda>db. evidence_ok db \<and> revoked db tenant key_id"
  for E C vector tenant key_id
  by unfold_locales (blast intro: evidence_ok_change revoked_change step_change)

lemma no_evidence_ok: "evidence_ok no_evidence"
  by (simp add: evidence_ok_def no_evidence_def)

lemma admissible_not_revoked:
  assumes "evidence_ok db" and "revoked db (ev_tenant e) i" and "ev_key_id e = Some i"
  shows "admissibility_of db t agency e \<noteq> ''admissible''"
  using assms(2,3) unfolding admissible_iff [OF assms(1)] carried_def revoked_def key_of_def
  by (auto split: option.splits)

section \<open>Properties\<close>

text \<open>C14. Contradicting evidence is never admissible: in every state the program reaches from empty
  tables, of two pieces of evidence of one incident that are admissible at the same time for
  the same agency and speak about the same claim, both say the same; and what the database
  admits an audit for that time reports as admissible too.\<close>

theorem admissible_evidence_never_contradicts:
  assumes "run (evidence_step E C vector) no_evidence calls db"
    and "e \<in> set (evidence_rows db)" and "other \<in> set (evidence_rows db)"
    and "ev_tenant other = ev_tenant e" and "ev_incident other = ev_incident e" and "ev_claim_key other = ev_claim_key e"
    and "admissibility_of db t agency e = ''admissible''" and "admissibility_of db t agency other = ''admissible''"
  shows "ev_claim_value other = ev_claim_value e \<and> audit_status_of db t agency e = ''admissible''"
proof
  have ok: "evidence_ok db" using assms(1) no_evidence_ok by (rule evidence_machine.run_inv)
  note adm = assms(7,8) [unfolded admissible_iff [OF ok]]
  show "ev_claim_value other = ev_claim_value e"
  proof (cases "ev_id other = ev_id e")
    case True
    then have "evidence_key other = evidence_key e" by (simp add: evidence_key_def assms(4))
    moreover have "unique_on every evidence_key (evidence_rows db)" using ok by (simp add: evidence_ok_def)
    ultimately show ?thesis using assms(2,3) by (metis unique_onD)
  next
    case False
    then show ?thesis
      using adm assms(3-6) carried_conflicts [OF _ ok, of other t agency e] by (fastforce simp: list_ex_iff)
  qed
  show "audit_status_of db t agency e = ''admissible''" using ok assms(7) by (rule admissible_audited)
qed

text \<open>C15. Revocation is final: once a verification key is revoked, whatever is registered, revoked or
  appended afterwards, no evidence signed with that key is admissible, at any time and for any
  agency.\<close>

theorem revoked_key_admits_nothing:
  assumes "run (evidence_step E C vector) no_evidence calls db" and "revoke_key now inp db = Inr (db', k)"
    and "run (evidence_step E C vector) db' later db''"
    and "ev_tenant e = vk_tenant k" and "ev_key_id e = Some (vk_id k)"
  shows "admissibility_of db'' t agency e \<noteq> ''admissible''"
proof -
  have ok: "evidence_ok db" using assms(1) no_evidence_ok by (rule evidence_machine.run_inv)
  from assms(2) have "evidence_ok db'" using ok by (blast intro: evidence_ok_change revoke_change)
  moreover have "revoked db' (vk_tenant k) (vk_id k)"
    using assms(2) by (rule revoke_key_Inr)
  ultimately have "evidence_ok db'' \<and> revoked db'' (vk_tenant k) (vk_id k)"
    using revocation_machine.run_inv [OF assms(3)] by simp
  with assms(4,5) show ?thesis by (metis admissible_not_revoked)
qed

section \<open>A sample run\<close>

definition sample_crypto :: crypto where
  "sample_crypto = \<lparr>sha256_bytes = (\<lambda>_. replicate 64 (CHR ''d'')), key_type = (\<lambda>_. Some ''ed25519''), verify_signature = (\<lambda>_ _ _. Some True)\<rparr>"

definition sample_key_input :: jsv where
  "sample_key_input = Obj [(''tenantId'', Str (sample_uuid (CHR ''1''))), (''verificationKeyId'', Str ''agent''), (''issuer'', Str ''harbor''),
     (''publicKeySpkiBase64'', Str ''AQID''), (''validFrom'', Str (iso_text 0)), (''validUntil'', Str (iso_text 1800000))]"

definition sample_key :: key_row where
  "sample_key = \<lparr>vk_tenant = sample_uuid (CHR ''1''), vk_id = ''agent'', vk_issuer = ''harbor'', vk_algorithm = ''ed25519'', vk_spki = ''AQID'',
     vk_digest = replicate 64 (CHR ''d''), vk_status = ''active'', vk_valid_from = 0, vk_valid_until = 1800000000, vk_revoked_at = None\<rparr>"

definition sample_params :: "char \<Rightarrow> evidence_params" where
  "sample_params c = \<lparr>ea_tenant = sample_uuid (CHR ''1''), ea_id = sample_uuid c, ea_incident = sample_uuid (CHR ''3''),
     ea_issuer = ''harbor'', ea_scope = ''*'', ea_claim_key = Some ''gate'', ea_claim_value = Some ''open'', ea_key_id = ''agent'',
     ea_verifier = ''gate1-ed25519-verifier-v1'', ea_request_digest = replicate 64 c, ea_payload_digest = replicate 64 c,
     ea_signature = replicate 64 c, ea_digest = replicate 64 c, ea_observed_at = 1000, ea_valid_from = 1000, ea_valid_until = 2000,
     ea_conflict = ''none'', ea_assertion = ''gate open'', ea_embedding = ''[1,0,0]''\<rparr>"

definition sample_evidence :: "char \<Rightarrow> evidence_row" where
  "sample_evidence c = params_row (sample_params c) (Some ''gate'') (Some ''open'') (Some (replicate 64 c))"

definition sample_receipt :: "char \<Rightarrow> verification_row" where
  "sample_receipt c = \<lparr>vr_tenant = sample_uuid (CHR ''1''), vr_evidence = sample_uuid c, vr_request_digest = replicate 64 c,
     vr_incident = sample_uuid (CHR ''3''), vr_issuer = ''harbor'', vr_key_id = ''agent'', vr_verifier = ''gate1-ed25519-verifier-v1'',
     vr_payload_digest = replicate 64 c, vr_signature = replicate 64 c, vr_key_digest = Some (replicate 64 (CHR ''d'')),
     vr_outcome = ''verified'', vr_reason = None\<rparr>"

definition sample_db :: "char list \<Rightarrow> evidence_db" where
  "sample_db cs = \<lparr>evidence_rows = map sample_evidence cs, verifications = map sample_receipt cs, key_rows = [sample_key]\<rparr>"

lemma sample_uuid_eq [simp]: "sample_uuid c = sample_uuid d \<longleftrightarrow> c = d"
  by (simp add: sample_uuid_def numeral_eq_Suc)

lemma sample_base64: "required_base64 (Str ''AQID'') name = Inr (''AQID'', [1, 2, 3])"
  by code_simp

lemma sample_stamps: "stamp_of (Str (iso_text 0)) = 0" "stamp_of (Str (iso_text 1800000)) = 1800000000"
  by (simp_all add: stamp_of_def text_of_def read_iso_iso_text max_time_def)

lemma sample_registered: "register_key request_env sample_crypto sample_key_input no_evidence
    = Inr (sample_db [], ''verification_key_registered'', sample_key)"
proof -
  have time: "store_time request_env (Str (iso_text 0)) name = Inr (iso_text 0)"
      "store_time request_env (Str (iso_text 1800000)) name = Inr (iso_text 1800000)" for name
    by (simp_all add: store_time_def sample_simps)
  have lower: "to_lower ''ed25519'' = ''ed25519''" by code_simp
  have "store_text (Str ''ed25519'') name = Inr ''ed25519''" for name by code_simp
  with time lower have "key_input request_env sample_crypto sample_key_input = Inr (sample_key, iso_text 0, iso_text 1800000)"
    by (simp add: key_input_def sample_key_input_def sample_simps sample_base64 sample_stamps sample_crypto_def coalesce_def sample_key_def)
  then show ?thesis
    by (simp add: register_key_def store_key_def find_key_def no_evidence_def sample_db_def key_check_def sample_key_def)
qed

lemma sample_appended:
  assumes "c \<notin> set cs"
  shows "append_v2 ''tp_ingest_user'' (\<lambda>_. True) (sample_params c) (sample_db cs) = Inr (sample_db (cs @ [c]), sample_uuid c)"
proof -
  have key: "filter (usable_key (sample_params c)) (key_rows (sample_db cs)) = [sample_key]"
      "find_key (sample_db cs) (sample_uuid (CHR ''1'')) ''agent'' = Some sample_key"
    by (simp_all add: usable_key_def sample_params_def sample_db_def sample_key_def find_key_def signing_key_def)
  have none: "find_verification (sample_db cs) (sample_uuid (CHR ''1'')) (sample_uuid c) = None"
      "\<not> taken every verification_key (sample_uuid (CHR ''1''), sample_uuid c) (verifications (sample_db cs))"
      "\<not> taken every verification_request (sample_uuid (CHR ''1''), replicate 64 c) (verifications (sample_db cs))"
      "\<not> taken every evidence_key (sample_uuid (CHR ''1''), sample_uuid c) (evidence_rows (sample_db cs))"
    using assms
    by (auto simp: find_verification_def find_None_iff taken_iff sample_db_def sample_receipt_def verification_key_def
        verification_request_def evidence_key_def sample_evidence_def params_row_def sample_params_def)
  show ?thesis
    by (simp add: append_v2_def sample_params_def key [unfolded sample_params_def] none insert_verification_def insert_evidence_def
        verification_check_def evidence_check_def length_64_def params_row_def verification_key_def verification_request_def evidence_key_def)
      (simp add: sample_db_def sample_receipt_def sample_evidence_def params_row_def sample_params_def sample_key_def)
qed

lemma sample_evidence_run:
  "run (evidence_step request_env sample_crypto (\<lambda>_. True)) no_evidence
     [Register_key sample_key_input, Append_v2 ''tp_ingest_user'' (sample_params (CHR ''5'')),
      Append_v2 ''tp_ingest_user'' (sample_params (CHR ''6''))] (sample_db [CHR ''5'', CHR ''6''])"
  using step_register [OF sample_registered] step_v2 [OF sample_appended [of "CHR ''5''" "[]"]]
    step_v2 [OF sample_appended [of "CHR ''6''" "[CHR ''5'']"]]
  by (auto intro!: run_cons)

lemma sample_admissible:
  "c \<in> {CHR ''5'', CHR ''6''} \<Longrightarrow> admissibility_of (sample_db [CHR ''5'', CHR ''6'']) 1500 ''harbor'' (sample_evidence c) = ''admissible''"
  by (auto simp: admissibility_of_def sample_evidence_def params_row_def sample_params_def sample_db_def verification_of_def
      find_verification_def verification_key_def sample_receipt_def same_binding_def key_of_def find_key_def signing_key_def
      sample_key_def five_minutes_def conflicting_def)

theorem admissible_evidence_never_contradicts_witness:
  "admissibility_of (sample_db [CHR ''5'', CHR ''6'']) 1500 ''harbor'' (sample_evidence (CHR ''5'')) = ''admissible'' \<and>
   ev_claim_value (sample_evidence (CHR ''6'')) = ev_claim_value (sample_evidence (CHR ''5''))"
proof -
  have adm: "admissibility_of (sample_db [CHR ''5'', CHR ''6'']) 1500 ''harbor'' (sample_evidence (CHR ''5'')) = ''admissible''"
      "admissibility_of (sample_db [CHR ''5'', CHR ''6'']) 1500 ''harbor'' (sample_evidence (CHR ''6'')) = ''admissible''"
    by (simp_all add: sample_admissible)
  have "sample_evidence (CHR ''5'') \<in> set (evidence_rows (sample_db [CHR ''5'', CHR ''6'']))"
      "sample_evidence (CHR ''6'') \<in> set (evidence_rows (sample_db [CHR ''5'', CHR ''6'']))" by (simp_all add: sample_db_def)
  from admissible_evidence_never_contradicts [OF sample_evidence_run this _ _ _ adm] adm(1) show ?thesis
    by (simp add: sample_evidence_def params_row_def sample_params_def)
qed

theorem revoked_key_admits_nothing_witness:
  "\<exists>db' k. revoke_key 7 sample_key_input (sample_db [CHR ''5'', CHR ''6'']) = Inr (db', k) \<and>
     admissibility_of db' 1500 ''harbor'' (sample_evidence (CHR ''5'')) \<noteq> ''admissible''"
proof -
  have r: "revoke_key 7 sample_key_input (sample_db [CHR ''5'', CHR ''6''])
      = Inr ((sample_db [CHR ''5'', CHR ''6''])\<lparr>key_rows := [revoke_row 7 sample_key]\<rparr>, revoke_row 7 sample_key)"
    by (simp add: revoke_key_def sample_key_input_def sample_simps find_key_def sample_db_def signing_key_def sample_key_def update_where_def)
  from revoked_key_admits_nothing [OF sample_evidence_run r run_nil] r show ?thesis
    by (simp add: sample_evidence_def params_row_def sample_params_def revoke_row_def sample_key_def)
qed

end
