(* ===== verification/Ledger.thy ===== *)
theory Ledger
  imports Evidence_Admission
begin

text \<open>
  The tables of the authority ledger (\<open>migrate\<close> of \<open>src/cloud/authority-store.js\<close>): selection
  receipts, epochs of logical actions, authorized proposals, authority receipts, resources,
  outbox intents and protected effects. The five columns that identify an authority are one
  record, and so are the holder columns of a resource, which are null together by a check.
  JSON columns are values in normal form. Columns that only record when a row was written are
  left out.
\<close>

section \<open>Rows\<close>

definition int8_max :: int where
  "int8_max = 9223372036854775807"

record authority_id =
  ai_proposal :: string
  ai_action :: string
  ai_epoch :: int
  ai_key :: string
  ai_binding :: string

definition authority_id_check :: "authority_id \<Rightarrow> bool" where
  "authority_id_check i \<longleftrightarrow> length (ai_proposal i) = 64 \<and> length (ai_action i) = 64 \<and> ai_epoch i > 0 \<and>
     length (ai_key i) = 64 \<and> length (ai_binding i) = 64"

record selection_row =
  sl_tenant :: string
  sl_retrieval :: string
  sl_evidence_binding :: string
  sl_run :: string
  sl_incident :: string
  sl_agency :: string
  sl_policy :: string
  sl_commit :: string
  sl_tree :: string
  sl_spec :: string
  sl_admitted :: int
  sl_expires :: int
  sl_ranked :: string
  sl_query :: string
  sl_limit :: int
  sl_rank :: int
  sl_evidence :: string
  sl_evidence_digest :: string

definition selection_check :: "selection_row \<Rightarrow> bool" where
  "selection_check s \<longleftrightarrow> sl_policy s = ''g1-admissibility-v2'' \<and> length (sl_commit s) = 40 \<and> length (sl_tree s) = 40 \<and>
     length (sl_spec s) = 64 \<and> length (sl_evidence_binding s) = 64 \<and> length (sl_ranked s) = 64 \<and> length (sl_query s) = 64 \<and>
     1 \<le> sl_limit s \<and> sl_limit s \<le> 100 \<and> length (sl_evidence_digest s) = 64 \<and> sl_rank s = 1 \<and> sl_expires s > sl_admitted s"

record epoch_row =
  ep_tenant :: string
  ep_action :: string
  ep_epoch :: int

definition epoch_check :: "epoch_row \<Rightarrow> bool" where
  "epoch_check e \<longleftrightarrow> length (ep_action e) = 64 \<and> 0 \<le> ep_epoch e \<and> ep_epoch e < int8_max"

record proposal_row =
  pr_tenant :: string
  pr_id :: authority_id
  pr_resource :: string
  pr_agency :: string
  pr_kind :: string
  pr_payload :: jsv
  pr_canonical :: string
  pr_payload_digest :: string
  pr_retrieval :: string
  pr_run :: string
  pr_incident :: string
  pr_evidence_binding :: string
  pr_policy :: string
  pr_rank :: int
  pr_evidence :: string
  pr_evidence_digest :: string
  pr_admitted :: int
  pr_expires :: int

definition proposal_check :: "proposal_row \<Rightarrow> bool" where
  "proposal_check p \<longleftrightarrow> authority_id_check (pr_id p) \<and> pr_kind p = action_kind \<and> is_object (pr_payload p) \<and>
     length (pr_canonical p) > 1 \<and> length (pr_payload_digest p) = 64 \<and> length (pr_evidence_binding p) = 64 \<and>
     length (pr_evidence_digest p) = 64 \<and> pr_rank p = 1 \<and> pr_expires p > pr_admitted p"

record receipt_row =
  ar_tenant :: string
  ar_operation :: string
  ar_digest :: string
  ar_payload :: jsv
  ar_id :: authority_id
  ar_run :: string
  ar_incident :: string
  ar_resource :: string
  ar_agent :: string
  ar_agency :: string
  ar_evidence :: string
  ar_evidence_digest :: "string option"
  ar_effect :: string
  ar_payload_digest :: string
  ar_policy :: string
  ar_outcome :: string
  ar_reason :: "string option"
  ar_fence :: "int option"
  ar_seen_holder :: "string option"
  ar_seen_fence :: "int option"
  ar_expires :: "int option"

definition reserved :: "receipt_row \<Rightarrow> bool" where
  "reserved a \<longleftrightarrow> ar_outcome a = ''resource_reserved''"

definition receipt_check :: "receipt_row \<Rightarrow> bool" where
  "receipt_check a \<longleftrightarrow> authority_id_check (ar_id a) \<and>
     ar_outcome a \<in> {''pending'', ''resource_reserved'', ''resource_held_denied'', ''authorization_denied''} \<and>
     (reserved a \<longrightarrow> ar_evidence_digest a \<noteq> None \<and> (case ar_fence a of None \<Rightarrow> False | Some f \<Rightarrow> f > 0) \<and> ar_expires a \<noteq> None)"

record holder =
  ho_incident :: string
  ho_operation :: string
  ho_agent :: string
  ho_proposal :: string
  ho_key :: string
  ho_expires :: int

record resource_row =
  rs_tenant :: string
  rs_id :: string
  rs_fence :: int
  rs_run :: string
  rs_holder :: "holder option"

definition resource_check :: "resource_row \<Rightarrow> bool" where
  "resource_check r \<longleftrightarrow> 0 \<le> rs_fence r"

record outbox_row =
  ob_tenant :: string
  ob_operation :: string
  ob_digest :: string
  ob_id :: authority_id
  ob_run :: string
  ob_incident :: string
  ob_resource :: string
  ob_fence :: int
  ob_effect :: string
  ob_kind :: string
  ob_payload :: jsv
  ob_payload_digest :: string

definition outbox_check :: "outbox_row \<Rightarrow> bool" where
  "outbox_check b \<longleftrightarrow> authority_id_check (ob_id b) \<and> ob_fence b > 0 \<and> ob_kind b = action_kind"

record effect_row =
  fx_tenant :: string
  fx_effect :: string
  fx_operation :: string
  fx_digest :: string
  fx_id :: authority_id
  fx_run :: string
  fx_incident :: string
  fx_resource :: string
  fx_agent :: string
  fx_fence :: int
  fx_payload_digest :: string

definition effect_check :: "effect_row \<Rightarrow> bool" where
  "effect_check f \<longleftrightarrow> authority_id_check (fx_id f) \<and> fx_fence f > 0"

record ledger =
  evidence :: evidence_db
  selections :: "selection_row list"
  epochs :: "epoch_row list"
  proposals :: "proposal_row list"
  receipts :: "receipt_row list"
  resources :: "resource_row list"
  outbox :: "outbox_row list"
  effects :: "effect_row list"

section \<open>Keys\<close>

definition selection_key :: "selection_row \<Rightarrow> string \<times> string" where "selection_key s = (sl_tenant s, sl_retrieval s)"

definition selection_binding_key :: "selection_row \<Rightarrow> string \<times> string" where
  "selection_binding_key s = (sl_tenant s, sl_evidence_binding s)"

definition epoch_key :: "epoch_row \<Rightarrow> string \<times> string" where "epoch_key e = (ep_tenant e, ep_action e)"

definition proposal_key :: "proposal_row \<Rightarrow> string \<times> string" where "proposal_key p = (pr_tenant p, ai_proposal (pr_id p))"

definition proposal_epoch_key :: "proposal_row \<Rightarrow> string \<times> string \<times> int" where
  "proposal_epoch_key p = (pr_tenant p, ai_action (pr_id p), ai_epoch (pr_id p))"

definition proposal_authority_key :: "proposal_row \<Rightarrow> string \<times> string" where
  "proposal_authority_key p = (pr_tenant p, ai_key (pr_id p))"

definition receipt_key :: "receipt_row \<Rightarrow> string \<times> string" where "receipt_key a = (ar_tenant a, ar_operation a)"

definition receipt_digest_key :: "receipt_row \<Rightarrow> string \<times> string" where "receipt_digest_key a = (ar_tenant a, ar_digest a)"

definition receipt_authority_key :: "receipt_row \<Rightarrow> string \<times> string" where
  "receipt_authority_key a = (ar_tenant a, ai_key (ar_id a))"

definition receipt_action_key :: "receipt_row \<Rightarrow> string \<times> string" where
  "receipt_action_key a = (ar_tenant a, ai_action (ar_id a))"

definition receipt_fence_key :: "receipt_row \<Rightarrow> string \<times> string \<times> int option" where
  "receipt_fence_key a = (ar_tenant a, ar_resource a, ar_fence a)"

definition resource_key :: "resource_row \<Rightarrow> string \<times> string" where "resource_key r = (rs_tenant r, rs_id r)"

definition outbox_keys :: "outbox_row \<Rightarrow> (string \<times> string) list" where
  "outbox_keys b = [(ob_tenant b, ob_operation b), (ob_tenant b, ob_effect b), (ob_tenant b, ai_key (ob_id b)), (ob_tenant b, ai_action (ob_id b))]"

definition effect_keys :: "effect_row \<Rightarrow> (string \<times> string) list" where
  "effect_keys f = [(fx_tenant f, fx_effect f), (fx_tenant f, fx_operation f), (fx_tenant f, ai_key (fx_id f)), (fx_tenant f, ai_action (fx_id f))]"

text \<open>Some key of the row is taken by another.\<close>

definition clashes :: "('r \<Rightarrow> 'k list) \<Rightarrow> 'r \<Rightarrow> 'r list \<Rightarrow> bool" where
  "clashes keys r rows \<longleftrightarrow> list_ex (\<lambda>s. list_ex (\<lambda>(k, k'). k = k') (zip (keys r) (keys s))) rows"

definition spend_clash :: "receipt_row \<Rightarrow> receipt_row \<Rightarrow> bool" where
  "spend_clash a b \<longleftrightarrow> receipt_key a \<noteq> receipt_key b \<and> reserved a \<and> reserved b \<and>
     (receipt_authority_key a = receipt_authority_key b \<or> receipt_action_key a = receipt_action_key b \<or>
      receipt_fence_key a = receipt_fence_key b)"

section \<open>Reading\<close>

definition find_epoch :: "ledger \<Rightarrow> string \<Rightarrow> string \<Rightarrow> epoch_row option" where
  "find_epoch L tenant action = find (\<lambda>e. epoch_key e = (tenant, action)) (epochs L)"

definition find_proposal :: "ledger \<Rightarrow> string \<Rightarrow> string \<Rightarrow> proposal_row option" where
  "find_proposal L tenant digest = find (\<lambda>p. proposal_key p = (tenant, digest)) (proposals L)"

definition find_receipt :: "ledger \<Rightarrow> string \<Rightarrow> string \<Rightarrow> receipt_row option" where
  "find_receipt L tenant operation = find (\<lambda>a. receipt_key a = (tenant, operation)) (receipts L)"

definition find_resource :: "ledger \<Rightarrow> string \<Rightarrow> string \<Rightarrow> resource_row option" where
  "find_resource L tenant resource = find (\<lambda>r. resource_key r = (tenant, resource)) (resources L)"

definition find_outbox :: "ledger \<Rightarrow> string \<Rightarrow> string \<Rightarrow> outbox_row option" where
  "find_outbox L tenant operation = find (\<lambda>b. ob_tenant b = tenant \<and> ob_operation b = operation) (outbox L)"

definition spends :: "ledger \<Rightarrow> string \<Rightarrow> string \<Rightarrow> receipt_row list" where
  "spends L tenant action = filter (\<lambda>a. receipt_action_key a = (tenant, action) \<and> reserved a) (receipts L)"

section \<open>Resources\<close>

definition new_resource :: "string \<Rightarrow> string \<Rightarrow> string \<Rightarrow> resource_row" where
  "new_resource tenant resource run_id =
     \<lparr>rs_tenant = tenant, rs_id = resource, rs_fence = 0, rs_run = run_id, rs_holder = None\<rparr>"

definition prepare_resource :: "jsv \<Rightarrow> ledger \<Rightarrow> store_error + ledger \<times> resource_row" where
  "prepare_resource inp L =
     and_then (js_call (store_uuid (fld inp ''tenantId'') ''tenantId'')) (\<lambda>tenant.
     and_then (js_call (store_text (fld inp ''resourceId'') ''resourceId'')) (\<lambda>resource.
     and_then (js_call (store_uuid (fld inp ''runId'') ''runId'')) (\<lambda>run_id.
     if taken every resource_key (tenant, resource) (resources L) then Inl (Database (Sql_error ''23505'' ''g1_resources''))
     else Inr (L\<lparr>resources := resources L @ [new_resource tenant resource run_id]\<rparr>, new_resource tenant resource run_id))))"

end
