(* ===== verification/Ledger_Proposal.thy ===== *)
theory Ledger_Proposal
  imports Ledger
begin

text \<open>
  Authorizing a proposal (\<open>g1_authorize_dvi_proposal_v1\<close> of \<open>src/cloud/primary-security.js\<close>):
  the payload and the selection receipt are checked, the selected evidence has to be
  admissible, every digest is derived from the database's own rows, and an epoch of the
  logical action is opened at most once. Parameters are not null. \<open>t\<close> is the time of the
  statement and \<open>clock n\<close> the n-th reading of \<open>clock_timestamp()\<close> in the call.
\<close>

section \<open>Texts the database hashes\<close>

definition action_text :: "pg \<Rightarrow> string \<Rightarrow> string \<Rightarrow> string \<Rightarrow> string \<Rightarrow> string \<Rightarrow> string \<Rightarrow> string" where
  \<open>action_text D action agency incident payload_digest resource tenant =
     ''{"actionKind":'' @ action @ '',"agency":'' @ pg_to_json D agency @ '',"incidentId":"'' @ incident @
     ''","payloadDigest":"'' @ payload_digest @ ''","resourceId":'' @ pg_to_json D resource @
     '',"schemaVersion":"tideproof.authority.logical-action.v1"'' @ '',"tenantId":"'' @ tenant @ ''"}''\<close>

definition proposal_text :: "pg \<Rightarrow> selection_row \<Rightarrow> string \<Rightarrow> string \<Rightarrow> string" where
  \<open>proposal_text D s action tenant =
     ''{"admittedAt":"'' @ pg_time_text D (sl_admitted s) @ ''","authorityEvidenceBindingSha256":"'' @ sl_evidence_binding s @
     ''","expiresAt":"'' @ pg_time_text D (sl_expires s) @ ''","incidentId":"'' @ sl_incident s @
     ''","logicalActionDigest":"'' @ action @ ''","policyVersion":'' @ pg_to_json D (sl_policy s) @
     '',"retrievalId":"'' @ sl_retrieval s @ ''","runId":"'' @ sl_run s @
     ''","schemaVersion":"tideproof.authority.dvi-proposal-identity.v1"'' @
     '',"selectedEvidenceDigest":"'' @ sl_evidence_digest s @ ''","selectedEvidenceId":"'' @ sl_evidence s @
     ''","selectedRank":1'' @ '',"tenantId":"'' @ tenant @ ''"}''\<close>

definition authority_key_text :: "int \<Rightarrow> string \<Rightarrow> string" where
  \<open>authority_key_text epoch action =
     ''{"authorizationEpoch":'' @ int_str epoch @ '',"logicalActionDigest":"'' @ action @
     ''","schemaVersion":"tideproof.authority.logical-authority-key.v1"}''\<close>

definition authority_binding_text :: "int \<Rightarrow> string \<Rightarrow> string \<Rightarrow> string \<Rightarrow> string" where
  \<open>authority_binding_text epoch action authority_key proposal =
     ''{"authorizationEpoch":'' @ int_str epoch @ '',"logicalActionDigest":"'' @ action @
     ''","logicalAuthorityKeySha256":"'' @ authority_key @ ''","proposalDigest":"'' @ proposal @
     ''","schemaVersion":"tideproof.authority.authorization-binding.v1"}''\<close>

definition member_text :: "pg \<Rightarrow> jsv \<Rightarrow> string \<Rightarrow> string" where
  "member_text D payload k = (case arrow_text D payload k of None \<Rightarrow> [] | Some s \<Rightarrow> pg_to_json D s)"

definition payload_canonical :: "pg \<Rightarrow> jsv \<Rightarrow> string" where
  \<open>payload_canonical D payload =
     ''{"action":'' @ member_text D payload ''action'' @
     (if fld payload ''destination'' \<noteq> Undef then '',"destination":'' @ member_text D payload ''destination'' else []) @
     (if fld payload ''logicalDispatch'' \<noteq> Undef then '',"logicalDispatch":'' @ member_text D payload ''logicalDispatch'' else []) @
     '',"scenario":'' @ member_text D payload ''scenario'' @ ''}''\<close>

section \<open>The input\<close>

record proposal_request =
  az_tenant :: string
  az_retrieval :: string
  az_run :: string
  az_incident :: string
  az_evidence :: string
  az_evidence_digest :: string
  az_resource :: string
  az_agency :: string
  az_kind :: string
  az_payload :: jsv

definition proposal_input_ok :: "proposal_request \<Rightarrow> bool" where
  "proposal_input_ok z \<longleftrightarrow> hex_64 (az_evidence_digest z) \<and>
     1 \<le> length (az_resource z) \<and> length (az_resource z) \<le> 256 \<and> btrim (az_resource z) = az_resource z \<and>
     1 \<le> length (az_agency z) \<and> length (az_agency z) \<le> 128 \<and> btrim (az_agency z) = az_agency z \<and>
     az_kind z = action_kind \<and> is_object (az_payload z)"

definition safe_member :: "jsv \<Rightarrow> bool" where
  "safe_member v = (case v of
       Str s \<Rightarrow> 1 \<le> utf8_length s \<and> utf8_length s \<le> 128 \<and> s \<noteq> [] \<and> list_all safe_char s
     | _ \<Rightarrow> False)"

definition payload_ok :: "pg \<Rightarrow> jsv \<Rightarrow> bool" where
  "payload_ok D payload \<longleftrightarrow> utf8_length (pg_json_text D payload) \<le> 768 \<and>
     2 \<le> length (members payload) \<and> length (members payload) \<le> 4 \<and>
     list_all (\<lambda>k. k \<in> {''action'', ''destination'', ''logicalDispatch'', ''scenario''}) (members payload) \<and>
     fld payload ''action'' = Str action_kind \<and> safe_member (fld payload ''scenario'') \<and>
     (fld payload ''destination'' = Undef \<or> safe_member (fld payload ''destination'')) \<and>
     (fld payload ''logicalDispatch'' = Undef \<or> safe_member (fld payload ''logicalDispatch''))"

section \<open>Decisions\<close>

record proposal_context =
  pc_evidence_binding :: string
  pc_run :: string
  pc_incident :: string
  pc_policy :: string
  pc_rank :: int
  pc_evidence :: string
  pc_evidence_digest :: string
  pc_admitted :: int
  pc_expires :: int

record proposal_decision =
  pd_outcome :: string
  pd_reason :: "string option"
  pd_proposal :: "string option"
  pd_action :: "string option"
  pd_epoch :: "int option"
  pd_key :: "string option"
  pd_binding :: "string option"
  pd_context :: "proposal_context option"
  pd_payload_digest :: "string option"
  pd_current :: bool
  pd_now :: int

definition selection_context :: "selection_row \<Rightarrow> proposal_context" where
  "selection_context s = \<lparr>pc_evidence_binding = sl_evidence_binding s, pc_run = sl_run s, pc_incident = sl_incident s,
     pc_policy = sl_policy s, pc_rank = sl_rank s, pc_evidence = sl_evidence s, pc_evidence_digest = sl_evidence_digest s,
     pc_admitted = sl_admitted s, pc_expires = sl_expires s\<rparr>"

definition row_context :: "proposal_row \<Rightarrow> proposal_context" where
  "row_context p = \<lparr>pc_evidence_binding = pr_evidence_binding p, pc_run = pr_run p, pc_incident = pr_incident p,
     pc_policy = pr_policy p, pc_rank = pr_rank p, pc_evidence = pr_evidence p, pc_evidence_digest = pr_evidence_digest p,
     pc_admitted = pr_admitted p, pc_expires = pr_expires p\<rparr>"

definition proposal_denied ::
    "string \<Rightarrow> string option \<Rightarrow> string option \<Rightarrow> proposal_context option \<Rightarrow> string option \<Rightarrow> int \<Rightarrow> proposal_decision" where
  "proposal_denied reason proposal action context payload_digest now =
     \<lparr>pd_outcome = ''proposal_authorization_denied'', pd_reason = Some reason, pd_proposal = proposal, pd_action = action,
      pd_epoch = None, pd_key = None, pd_binding = None, pd_context = context, pd_payload_digest = payload_digest,
      pd_current = False, pd_now = now\<rparr>"

definition proposal_granted :: "string \<Rightarrow> proposal_row \<Rightarrow> int \<Rightarrow> proposal_decision" where
  "proposal_granted outcome p now =
     \<lparr>pd_outcome = outcome, pd_reason = None, pd_proposal = Some (ai_proposal (pr_id p)), pd_action = Some (ai_action (pr_id p)),
      pd_epoch = Some (ai_epoch (pr_id p)), pd_key = Some (ai_key (pr_id p)), pd_binding = Some (ai_binding (pr_id p)),
      pd_context = Some (row_context p), pd_payload_digest = Some (pr_payload_digest p), pd_current = True, pd_now = now\<rparr>"

text \<open>An authorized proposal is presented again.\<close>

definition proposal_replay :: "int \<Rightarrow> proposal_row \<Rightarrow> ledger \<Rightarrow> proposal_decision" where
  "proposal_replay now p L =
     (let denied = (\<lambda>reason. proposal_denied reason (Some (ai_proposal (pr_id p))) (Some (ai_action (pr_id p))) (Some (row_context p))
            (Some (pr_payload_digest p)) now) in
      if spends L (pr_tenant p) (ai_action (pr_id p)) \<noteq> [] then denied ''logical_authority_already_spent''
      else if pr_expires p \<le> now then denied ''explicit_new_authorization_required''
      else proposal_granted ''proposal_authorization_replay'' p now)"

section \<open>Authorizing\<close>

text \<open>The row of the proposal, with every digest derived.\<close>

definition proposal_of :: "pg \<Rightarrow> proposal_request \<Rightarrow> selection_row \<Rightarrow> int \<Rightarrow> proposal_row" where
  "proposal_of D z s epoch =
     (let canonical = payload_canonical D (az_payload z); payload_digest = pg_sha256 D canonical;
          action = pg_sha256 D (action_text D (pg_to_json D (az_kind z)) (az_agency z) (sl_incident s) payload_digest (az_resource z) (az_tenant z));
          proposal = pg_sha256 D (proposal_text D s action (az_tenant z));
          authority_key = pg_sha256 D (authority_key_text epoch action) in
      \<lparr>pr_tenant = az_tenant z,
       pr_id = \<lparr>ai_proposal = proposal, ai_action = action, ai_epoch = epoch, ai_key = authority_key,
         ai_binding = pg_sha256 D (authority_binding_text epoch action authority_key proposal)\<rparr>,
       pr_resource = az_resource z, pr_agency = az_agency z, pr_kind = az_kind z, pr_payload = az_payload z, pr_canonical = canonical,
       pr_payload_digest = payload_digest, pr_retrieval = sl_retrieval s, pr_run = sl_run s, pr_incident = sl_incident s,
       pr_evidence_binding = sl_evidence_binding s, pr_policy = sl_policy s, pr_rank = sl_rank s, pr_evidence = sl_evidence s,
       pr_evidence_digest = sl_evidence_digest s, pr_admitted = sl_admitted s, pr_expires = sl_expires s\<rparr>)"

definition same_proposal :: "proposal_row \<Rightarrow> proposal_row \<Rightarrow> bool" where
  "same_proposal p q \<longleftrightarrow> ai_action (pr_id p) = ai_action (pr_id q) \<and> pr_resource p = pr_resource q \<and> pr_agency p = pr_agency q \<and>
     pr_kind p = pr_kind q \<and> pr_canonical p = pr_canonical q \<and> pr_payload_digest p = pr_payload_digest q \<and>
     pr_retrieval p = pr_retrieval q \<and> pr_run p = pr_run q \<and> pr_incident p = pr_incident q \<and>
     pr_evidence_binding p = pr_evidence_binding q \<and> pr_evidence p = pr_evidence q \<and> pr_evidence_digest p = pr_evidence_digest q"

definition insert_epoch :: "string \<Rightarrow> string \<Rightarrow> ledger \<Rightarrow> sql_error + ledger" where
  "insert_epoch tenant action L =
     (let e = \<lparr>ep_tenant = tenant, ep_action = action, ep_epoch = 0\<rparr> in
      if \<not> epoch_check e then sql_raise ''23514'' ''g1_logical_authority_epochs''
      else if taken every epoch_key (epoch_key e) (epochs L) then Inr L
      else Inr (L\<lparr>epochs := epochs L @ [e]\<rparr>))"

definition open_epoch :: "string \<Rightarrow> string \<Rightarrow> ledger \<Rightarrow> ledger" where
  "open_epoch tenant action L =
     L\<lparr>epochs := update_where (\<lambda>e. epoch_key e = (tenant, action) \<and> ep_epoch e = 0) (\<lambda>e. e\<lparr>ep_epoch := 1\<rparr>) (epochs L)\<rparr>"

definition insert_proposal :: "proposal_row \<Rightarrow> ledger \<Rightarrow> sql_error + ledger" where
  "insert_proposal p L =
     (if \<not> proposal_check p then sql_raise ''23514'' ''g1_dvi_proposal_receipts''
      else if taken every proposal_key (proposal_key p) (proposals L) \<or> taken every proposal_epoch_key (proposal_epoch_key p) (proposals L) \<or>
        taken every proposal_authority_key (proposal_authority_key p) (proposals L)
      then sql_raise ''23505'' ''g1_dvi_proposal_receipts''
      else Inr (L\<lparr>proposals := proposals L @ [p]\<rparr>))"

text \<open>From the lock of the epoch on: \<open>p\<close> is the proposal to write.\<close>

definition open_proposal :: "int \<Rightarrow> selection_row \<Rightarrow> proposal_row \<Rightarrow> ledger \<Rightarrow> sql_error + ledger \<times> proposal_decision" where
  "open_proposal now s p L =
     (let tenant = pr_tenant p; proposal = ai_proposal (pr_id p); action = ai_action (pr_id p);
          denied = (\<lambda>reason. proposal_denied reason (Some proposal) (Some action) (Some (selection_context s)) (Some (pr_payload_digest p)) now) in
      case find_epoch L tenant action of
        None \<Rightarrow> sql_raise ''22000'' ''logical authority epoch lock missing''
      | Some e \<Rightarrow>
          if sl_expires s \<le> now then Inr (L, denied ''dvi_selection_receipt_expired'')
          else case find_proposal L tenant proposal of
            Some q \<Rightarrow> Inr (L, proposal_replay now q L)
          | None \<Rightarrow>
              if spends L tenant action \<noteq> [] then Inr (L, denied ''logical_authority_already_spent'')
              else if ep_epoch e = 1 then Inr (L, denied ''explicit_new_authorization_required'')
              else if ep_epoch e \<noteq> 0
              then sql_raise ''XX000'' ''authorization epoch advancement requires an explicit new-authorization receipt''
              else and_then (insert_proposal p (open_epoch tenant action L)) (\<lambda>L'.
                Inr (L', proposal_granted ''proposal_authorized'' p now)))"

definition authorize_proposal ::
    "pg \<Rightarrow> string \<Rightarrow> int \<Rightarrow> (nat \<Rightarrow> int) \<Rightarrow> proposal_request \<Rightarrow> ledger \<Rightarrow> sql_error + ledger \<times> proposal_decision" where
  "authorize_proposal D user t clock z L =
     (if user \<noteq> ''tp_authorizer_user'' then sql_raise ''42501'' ''Gate One authorizer database session required''
      else if \<not> proposal_input_ok z then sql_raise ''22023'' ''DVI proposal authorization input outside policy''
      else if \<not> payload_ok D (az_payload z) then sql_raise ''22023'' ''DVI proposal payload outside policy''
      else case find (\<lambda>s. selection_key s = (az_tenant z, az_retrieval z)) (selections L) of
        None \<Rightarrow> Inr (L, proposal_denied ''dvi_selection_receipt_missing'' None None None None (clock 0))
      | Some s \<Rightarrow>
          let denied = (\<lambda>reason. Inr (L, proposal_denied reason None None (Some (selection_context s)) None (clock 0))) in
          if sl_run s \<noteq> az_run z \<or> sl_incident s \<noteq> az_incident z \<or> sl_agency s \<noteq> az_agency z \<or> sl_rank s \<noteq> 1 \<or>
            sl_evidence s \<noteq> az_evidence z \<or> sl_evidence_digest s \<noteq> az_evidence_digest z
          then denied ''dvi_selection_request_mismatch''
          else if sl_admitted s > clock 0 \<or> sl_expires s \<le> clock 0 then denied ''dvi_selection_receipt_expired''
          else case filter (\<lambda>(i, _). i = sl_evidence s) (list_admissibility user t (az_tenant z) (sl_incident s) (az_agency z) (evidence L)) of
            [] \<Rightarrow> denied ''selected_evidence_missing''
          | (_, admissibility, digest) # rest \<Rightarrow>
              if rest \<noteq> [] then sql_raise ''22000'' ''selected evidence cardinality invalid''
              else if admissibility \<noteq> ''admissible'' then denied ''selected_evidence_not_admissible''
              else if digest \<noteq> Some (sl_evidence_digest s) then denied ''selected_evidence_digest_mismatch''
              else let p = proposal_of D z s 1 in
                case find_proposal L (az_tenant z) (ai_proposal (pr_id p)) of
                  Some q \<Rightarrow>
                    if \<not> same_proposal q p then sql_raise ''22000'' ''proposal digest matched different durable state''
                    else Inr (L, proposal_replay (clock 0) q L)
                | None \<Rightarrow> and_then (insert_epoch (az_tenant z) (ai_action (pr_id p)) L) (open_proposal (clock 1) s p))"

end
