(* ===== verification/Authority_Reconcile.thy ===== *)
theory Authority_Reconcile
  imports Authority_Request
begin

text \<open>
  Reconciliation of a request whose outcome is unknown (\<open>normalizeAuthorityReconciliationRow\<close> and
  \<open>reconcileRequest\<close> of \<open>src/cloud/authority-store.js\<close>): the one row the database joins from the
  receipt, its outbox intent, its resource and its proposal is believed only when every digest,
  identity and state in it agrees. A row is the JavaScript object the driver makes of it; the
  answers of the queries are arguments.
\<close>

section \<open>Conversions\<close>

text \<open>\<open>Number(v)\<close>\<close>

fun js_number :: "jsenv \<Rightarrow> jsv \<Rightarrow> jnum" where
  "js_number E (Num x) = x"
| "js_number E Undef = NaN"
| "js_number E Null = Fin 0"
| "js_number E (Bool b) = Fin (if b then 1 else 0)"
| "js_number E (DateV t) = (case t of None \<Rightarrow> NaN | Some n \<Rightarrow> Fin (of_int n))"
| "js_number E v = to_number E v"

definition invariant_error :: "string \<Rightarrow> js_error" where
  "invariant_error message = Err message"

definition epoch_error :: js_error where
  "epoch_error = invariant_error ''database authorization epoch is outside the runtime identity contract''"

text \<open>\<open>authorizationEpochFromRow\<close>\<close>

definition epoch_from_row :: "jsenv \<Rightarrow> jsv \<Rightarrow> js_error + int" where
  "epoch_from_row E v =
     (case as_safe_integer (Num (js_number E v)) of
        None \<Rightarrow> Inl epoch_error
      | Some n \<Rightarrow> if n < 1 \<or> int_str n \<noteq> js_string E v then Inl epoch_error else Inr n)"

abbreviation same :: "jsv \<Rightarrow> string \<Rightarrow> jsv \<Rightarrow> string \<Rightarrow> bool" where
  "same a k b l \<equiv> strict_eq (fld a k) (fld b l)"

definition one_of :: "string list \<Rightarrow> jsv \<Rightarrow> bool" where
  "one_of ss v \<longleftrightarrow> list_ex (\<lambda>s. v = Str s) ss"

text \<open>\<open>/^[1-9][0-9]*$/\<close>, and the pattern of a UUID in either case.\<close>

fun positive_decimal :: "string \<Rightarrow> bool" where
  "positive_decimal [] = False"
| "positive_decimal (c # s) = (digit c \<and> c \<noteq> CHR ''0'' \<and> list_all digit s)"

definition any_uuid :: "string \<Rightarrow> bool" where
  "any_uuid s \<longleftrightarrow> uuid_shape (to_lower s)"

text \<open>\<open>v === null || v === undefined ? null : String(v)\<close>, and the same with \<open>new Date(v).getTime()\<close>.\<close>

definition text_if_any :: "jsenv \<Rightarrow> jsv \<Rightarrow> string option" where
  "text_if_any E v = (if nullish v then None else Some (js_string E v))"

definition time_if_any :: "jsenv \<Rightarrow> jsv \<Rightarrow> int option option" where
  "time_if_any E v = (if nullish v then None else Some (new_date E v))"

text \<open>\<open>t > now\<close> on times that may be \<open>null\<close> (zero) or \<open>NaN\<close>.\<close>

definition later :: "int option option \<Rightarrow> int option \<Rightarrow> bool" where
  "later t now = (case (t, now) of
     (None, Some n) \<Rightarrow> 0 > n | (Some (Some m), Some n) \<Rightarrow> m > n | _ \<Rightarrow> False)"

definition not_later :: "int option \<Rightarrow> int option \<Rightarrow> bool" where
  "not_later t now = (case (t, now) of (Some m, Some n) \<Rightarrow> m \<le> n | _ \<Rightarrow> False)"

definition finite_time :: "int option option \<Rightarrow> bool" where
  "finite_time t \<longleftrightarrow> (\<exists>n. t = Some (Some n))"

section \<open>The receipt and its request\<close>

definition plain_object :: "jsv \<Rightarrow> bool" where
  "plain_object v \<longleftrightarrow> obj_keys v \<noteq> None"

definition receipt_bound :: "jsenv \<Rightarrow> jsv \<Rightarrow> jsv \<Rightarrow> bool" where
  "receipt_bound E row request \<longleftrightarrow>
     (let payload = fld row ''request_payload'';
          keys = (case obj_keys (fld request ''requestPayload'') of None \<Rightarrow> [] | Some ks \<Rightarrow> ks)
      in truthy row \<and>
         one_of [''authorization_denied'', ''resource_held_denied'', ''resource_reserved''] (fld row ''outcome'') \<and>
         one_of [''operation_replay'', ''semantic_replay'', ''logical_authority_replay''] (fld row ''reconciliation_kind'') \<and>
         own_keys_are payload keys \<and>
         fld row ''request_digest'' = Str (identity_digest E payload) \<and>
         fld payload ''digestVersion'' = int_num 2 \<and>
         same payload ''tenantId'' row ''tenant_id'' \<and>
         same payload ''runId'' row ''run_id'' \<and>
         same payload ''incidentId'' row ''incident_id'' \<and>
         same payload ''resourceId'' row ''resource_id'' \<and>
         same payload ''agentId'' row ''agent_id'' \<and>
         same payload ''agency'' row ''agency'' \<and>
         same payload ''evidenceId'' row ''evidence_id'' \<and>
         same payload ''selectedEvidenceId'' row ''evidence_id'' \<and>
         same payload ''selectedEvidenceId'' row ''receipt_proposal_selected_evidence_id'' \<and>
         same payload ''selectedEvidenceDigest'' row ''receipt_proposal_selected_evidence_digest'' \<and>
         same payload ''effectKey'' row ''effect_key'' \<and>
         same payload ''payloadDigest'' row ''payload_digest'' \<and>
         same payload ''policyVersion'' row ''policy_version'' \<and>
         same payload ''logicalActionDigest'' row ''logical_action_digest'' \<and>
         same payload ''proposalDigest'' row ''proposal_digest'' \<and>
         fld payload ''actionKind'' = Str action_kind \<and>
         (case as_safe_integer (fld payload ''leaseMs'') of
            None \<Rightarrow> False | Some n \<Rightarrow> min_lease_ms \<le> n \<and> n \<le> max_lease_ms) \<and>
         test_or_empty any_uuid (fld payload ''intentNonce'') \<and>
         same row ''logical_action_digest'' request ''logicalActionDigest'')"

section \<open>The proposal of the receipt\<close>

definition stored_key :: "jsenv \<Rightarrow> jsv \<Rightarrow> int \<Rightarrow> js_error + jsv" where
  "stored_key E row epoch =
     logical_authority_key E (Obj [(''logicalActionDigest'', fld row ''logical_action_digest''), (''authorizationEpoch'', int_num epoch)])"

definition stored_binding :: "jsenv \<Rightarrow> jsv \<Rightarrow> int \<Rightarrow> js_error + jsv" where
  "stored_binding E row epoch =
     authorization_binding E (Obj [(''logicalActionDigest'', fld row ''logical_action_digest''),
       (''proposalDigest'', fld row ''proposal_digest''), (''authorizationEpoch'', int_num epoch)])"

text \<open>The identity the columns of the proposal stand for, as the code reads them.\<close>

definition proposal_columns :: "jsenv \<Rightarrow> jsv \<Rightarrow> js_error + jsv" where
  "proposal_columns E row =
     and_then (store_uuid (fld row ''receipt_proposal_tenant_id'') ''receiptProposal.tenantId'') (\<lambda>tenant.
     and_then (store_uuid (fld row ''receipt_proposal_run_id'') ''receiptProposal.runId'') (\<lambda>run_id.
     and_then (store_uuid (fld row ''receipt_proposal_incident_id'') ''receiptProposal.incidentId'') (\<lambda>incident.
     and_then (store_uuid (fld row ''receipt_proposal_retrieval_id'') ''receiptProposal.retrievalId'') (\<lambda>retrieval.
     and_then (store_sha256 (fld row ''receipt_proposal_logical_action_digest'') ''receiptProposal.logicalActionDigest'') (\<lambda>action.
     and_then (store_sha256 (fld row ''receipt_proposal_authority_evidence_binding_sha256'')
       ''receiptProposal.authorityEvidenceBindingSha256'') (\<lambda>binding.
     and_then (store_uuid (fld row ''receipt_proposal_selected_evidence_id'') ''receiptProposal.selectedEvidenceId'') (\<lambda>selected.
     and_then (store_sha256 (fld row ''receipt_proposal_selected_evidence_digest'') ''receiptProposal.selectedEvidenceDigest'') (\<lambda>digest.
     and_then (store_text (fld row ''receipt_proposal_policy_version'') ''receiptProposal.policyVersion'') (\<lambda>policy.
     and_then (driver_timestamp E (fld row ''receipt_proposal_admitted_at'')) (\<lambda>admitted.
     and_then (driver_timestamp E (fld row ''receipt_proposal_expires_at'')) (\<lambda>expires.
     Inr (Obj [(''tenantId'', Str tenant), (''runId'', Str run_id), (''incidentId'', Str incident), (''retrievalId'', Str retrieval),
       (''logicalActionDigest'', Str action), (''authorityEvidenceBindingSha256'', Str binding), (''selectedEvidenceId'', Str selected),
       (''selectedEvidenceDigest'', Str digest), (''policyVersion'', Str policy),
       (''selectedRank'', Num (js_number E (fld row ''receipt_proposal_selected_rank''))),
       (''admittedAt'', Str admitted), (''expiresAt'', Str expires)]))))))))))))"

definition proposal_mismatch :: js_error where
  "proposal_mismatch = invariant_error ''authority reconciliation proposal binding mismatch''"

definition proposal_agrees :: "jsenv \<Rightarrow> jsv \<Rightarrow> jsv \<Rightarrow> jsv \<Rightarrow> string \<Rightarrow> jsv \<Rightarrow> string \<Rightarrow> bool" where
  "proposal_agrees E row request payload payload_digest p action \<longleftrightarrow>
     same p ''tenantId'' request ''tenantId'' \<and>
     same row ''receipt_proposal_digest'' row ''proposal_digest'' \<and>
     same p ''logicalActionDigest'' row ''logical_action_digest'' \<and>
     fld row ''logical_action_digest'' = Str action \<and>
     same row ''receipt_proposal_resource_id'' row ''resource_id'' \<and>
     same row ''receipt_proposal_agency'' row ''agency'' \<and>
     fld row ''receipt_proposal_action_kind'' = Str action_kind \<and>
     fld row ''receipt_proposal_payload_canonical'' = Str (cloud_canonical_json E payload) \<and>
     identity_digest E payload = payload_digest \<and>
     fld row ''payload_digest'' = Str payload_digest \<and>
     same p ''runId'' row ''run_id'' \<and>
     same p ''incidentId'' row ''incident_id'' \<and>
     same p ''selectedEvidenceId'' row ''evidence_id''"

text \<open>The proposal is the one of the receipt; its expiry. Every error inside is the same to the caller.\<close>

definition proposal_expiry :: "jsenv \<Rightarrow> jsv \<Rightarrow> jsv \<Rightarrow> int \<Rightarrow> jsv \<Rightarrow> jsv \<Rightarrow> js_error + int option" where
  "proposal_expiry E row request epoch key binding = map_sum (\<lambda>_. proposal_mismatch) id
     (and_then (dispatch_payload (fld row ''receipt_proposal_payload'')) (\<lambda>payload.
      and_then (store_sha256 (fld row ''receipt_proposal_payload_digest'') ''receiptProposal.payloadDigest'') (\<lambda>payload_digest.
      and_then (proposal_columns E row) (\<lambda>p.
      and_then (epoch_from_row E (fld row ''receipt_proposal_authorization_epoch'')) (\<lambda>proposal_epoch.
      and_then (logical_action_digest E (Obj [(''tenantId'', fld p ''tenantId''), (''incidentId'', fld p ''incidentId''),
        (''resourceId'', fld row ''receipt_proposal_resource_id''), (''agency'', fld row ''receipt_proposal_agency''),
        (''actionKind'', fld row ''receipt_proposal_action_kind''), (''payloadDigest'', Str payload_digest)])) (\<lambda>action.
      if \<not> proposal_agrees E row request payload payload_digest p action
      then Inl (Err ''receipt proposal identity mismatch'')
      else
        and_then (proposal_digest E p) (\<lambda>digest.
        if fld row ''proposal_digest'' \<noteq> Str digest \<or> proposal_epoch \<noteq> epoch \<or>
           \<not> same row ''receipt_proposal_logical_authority_key_sha256'' key ''logicalAuthorityKeySha256'' \<or>
           \<not> same row ''receipt_proposal_authorization_binding_sha256'' binding ''authorizationBindingSha256''
        then Inl (Err ''receipt proposal identity mismatch'')
        else Inr (new_date E (fld p ''expiresAt'')))))))))"

section \<open>The outcome of the receipt\<close>

definition identity_agrees :: "jsenv \<Rightarrow> jsv \<Rightarrow> jsv \<Rightarrow> int \<Rightarrow> jsv \<Rightarrow> jsv \<Rightarrow> bool" where
  "identity_agrees E row request epoch key binding \<longleftrightarrow>
     same row ''logical_authority_key_sha256'' key ''logicalAuthorityKeySha256'' \<and>
     same row ''authorization_binding_sha256'' binding ''authorizationBindingSha256'' \<and>
     (fld row ''reconciliation_kind'' \<noteq> Str ''logical_authority_replay'' \<longrightarrow>
        same row ''request_digest'' request ''requestDigest'' \<and>
        same row ''proposal_digest'' request ''proposalDigest'' \<and>
        fld request ''authorizationEpoch'' = int_num epoch \<and>
        cloud_canonical_json E (fld row ''request_payload'') = cloud_canonical_json E (fld request ''requestPayload'')) \<and>
     (fld row ''reconciliation_kind'' = Str ''operation_replay'' \<longrightarrow> same row ''operation_id'' request ''operationId'') \<and>
     (fld row ''reconciliation_kind'' = Str ''logical_authority_replay'' \<longrightarrow> fld row ''outcome'' = Str ''resource_reserved'')"

definition outbox_columns :: "string list" where
  "outbox_columns = [''intent_id'', ''outbox_operation_id'', ''outbox_request_digest'', ''outbox_proposal_digest'',
     ''outbox_logical_action_digest'', ''outbox_authorization_epoch'', ''outbox_logical_authority_key_sha256'',
     ''outbox_authorization_binding_sha256'', ''outbox_run_id'', ''outbox_incident_id'', ''outbox_resource_id'', ''outbox_effect_key'',
     ''outbox_intent_kind'', ''outbox_payload'', ''outbox_payload_digest'', ''outbox_fencing_token'']"

definition has_outbox :: "jsv \<Rightarrow> bool" where
  "has_outbox row \<longleftrightarrow> list_ex (\<lambda>k. \<not> nullish (fld row k)) outbox_columns"

text \<open>
  The intent is the one of the receipt. Its epoch is read only when the columns before it agree,
  and may be refused.
\<close>

definition exact_outbox :: "jsenv \<Rightarrow> jsv \<Rightarrow> jsv \<Rightarrow> int \<Rightarrow> js_error + bool" where
  "exact_outbox E row request epoch =
     (if \<not> (truthy (fld row ''intent_id'') \<and>
             same row ''outbox_operation_id'' row ''operation_id'' \<and>
             same row ''outbox_request_digest'' row ''request_digest'' \<and>
             same row ''outbox_proposal_digest'' row ''proposal_digest'' \<and>
             same row ''outbox_logical_action_digest'' row ''logical_action_digest'')
      then Inr False
      else and_then (epoch_from_row E (fld row ''outbox_authorization_epoch'')) (\<lambda>outbox_epoch. Inr
        (outbox_epoch = epoch \<and>
         same row ''outbox_logical_authority_key_sha256'' row ''logical_authority_key_sha256'' \<and>
         same row ''outbox_authorization_binding_sha256'' row ''authorization_binding_sha256'' \<and>
         same row ''outbox_run_id'' row ''run_id'' \<and>
         same row ''outbox_incident_id'' row ''incident_id'' \<and>
         same row ''outbox_resource_id'' row ''resource_id'' \<and>
         same row ''outbox_effect_key'' row ''effect_key'' \<and>
         fld row ''outbox_intent_kind'' = Str action_kind \<and>
         plain_object (fld row ''outbox_payload'') \<and>
         plain_object (fld row ''receipt_proposal_payload'') \<and>
         cloud_canonical_json E (fld row ''outbox_payload'') = cloud_canonical_json E (fld row ''receipt_proposal_payload'') \<and>
         cloud_canonical_json E (fld row ''outbox_payload'') = cloud_canonical_json E (fld request ''payload'') \<and>
         fld row ''outbox_payload_digest'' = Str (identity_digest E (fld row ''outbox_payload'')) \<and>
         same row ''outbox_payload_digest'' row ''payload_digest'' \<and>
         text_if_any E (fld row ''outbox_fencing_token'') = text_if_any E (fld row ''fencing_token''))))"

definition winning :: "jsv \<Rightarrow> bool" where
  "winning row \<longleftrightarrow> fld row ''outcome'' = Str ''resource_reserved''"

definition evidence_agrees :: "jsv \<Rightarrow> bool" where
  "evidence_agrees row \<longleftrightarrow>
     same row ''evidence_id'' row ''receipt_proposal_selected_evidence_id'' \<and>
     same row ''evidence_digest'' row ''receipt_proposal_selected_evidence_digest''"

definition won_state :: "jsenv \<Rightarrow> jsv \<Rightarrow> bool \<Rightarrow> int option \<Rightarrow> bool" where
  "won_state E row outbox expiry \<longleftrightarrow>
     outbox \<and> evidence_agrees row \<and> nullish (fld row ''reason'') \<and>
     (case text_if_any E (fld row ''fencing_token'') of None \<Rightarrow> False | Some fence \<Rightarrow> positive_decimal fence) \<and>
     finite_time (time_if_any E (fld row ''lease_expires_at'')) \<and>
     finite_time (time_if_any E (fld row ''resource_lease_expires_at'')) \<and>
     expiry \<noteq> None \<and>
     nullish (fld row ''observed_holder_operation_id'') \<and> nullish (fld row ''observed_fence'')"

definition lost_state :: "jsv \<Rightarrow> bool" where
  "lost_state row \<longleftrightarrow>
     \<not> has_outbox row \<and> (\<exists>s. fld row ''reason'' = Str s \<and> s \<noteq> []) \<and>
     nullish (fld row ''fencing_token'') \<and> nullish (fld row ''lease_expires_at'')"

definition outcome_state :: "jsenv \<Rightarrow> jsv \<Rightarrow> bool" where
  "outcome_state E row \<longleftrightarrow>
     (fld row ''outcome'' = Str ''resource_held_denied'' \<longrightarrow>
        fld row ''reason'' = Str ''active_holder'' \<and> evidence_agrees row \<and>
        test_or_empty any_uuid (fld row ''observed_holder_operation_id'') \<and>
        (case text_if_any E (fld row ''observed_fence'') of None \<Rightarrow> False | Some fence \<Rightarrow> positive_decimal fence)) \<and>
     (fld row ''outcome'' = Str ''authorization_denied'' \<longrightarrow>
        fld row ''reason'' \<noteq> Str ''active_holder'' \<and>
        nullish (fld row ''observed_holder_operation_id'') \<and> nullish (fld row ''observed_fence'')) \<and>
     (fld row ''reason'' = Str ''selected_evidence_digest_mismatch'' \<longrightarrow>
        fld row ''evidence_digest'' \<noteq> Null \<and> \<not> evidence_agrees row) \<and>
     (fld row ''reason'' = Str ''evidence_missing'' \<longrightarrow> fld row ''evidence_digest'' = Null)"

text \<open>The authority of a winning receipt is current while its fence still holds the resource, unexpired.\<close>

definition still_current :: "jsenv \<Rightarrow> jsv \<Rightarrow> int option \<Rightarrow> bool" where
  "still_current E row expiry \<longleftrightarrow>
     (let now = new_date E (fld row ''database_now'') in
      winning row \<and>
      text_if_any E (fld row ''fencing_token'') = Some (js_string E (fld row ''current_fence'')) \<and>
      same row ''operation_id'' row ''holder_operation_id'' \<and>
      same row ''run_id'' row ''active_run_id'' \<and>
      same row ''proposal_digest'' row ''holder_proposal_digest'' \<and>
      same row ''logical_authority_key_sha256'' row ''holder_logical_authority_key_sha256'' \<and>
      later (time_if_any E (fld row ''lease_expires_at'')) now \<and>
      later (time_if_any E (fld row ''resource_lease_expires_at'')) now \<and>
      later (Some expiry) now)"

record reconciled =
  rc_current :: bool
  rc_outcome :: jsv
  rc_epoch :: int

definition normalize_reconciliation :: "jsenv \<Rightarrow> jsv \<Rightarrow> jsv \<Rightarrow> js_error + reconciled" where
  "normalize_reconciliation E row request =
     (if \<not> receipt_bound E row request
      then Inl (invariant_error ''authority reconciliation receipt binding mismatch'')
      else
        and_then (epoch_from_row E (fld row ''authorization_epoch'')) (\<lambda>epoch.
        and_then (stored_key E row epoch) (\<lambda>key.
        and_then (stored_binding E row epoch) (\<lambda>binding.
        and_then (proposal_expiry E row request epoch key binding) (\<lambda>expiry.
        if \<not> identity_agrees E row request epoch key binding
        then Inl (invariant_error ''authority reconciliation identity mismatch'')
        else
          and_then (exact_outbox E row request epoch) (\<lambda>outbox.
          if new_date E (fld row ''database_now'') = None \<or>
             winning row \<and> \<not> won_state E row outbox expiry \<or>
             \<not> winning row \<and> \<not> lost_state row \<or>
             \<not> outcome_state E row
          then Inl (invariant_error ''authority reconciliation terminal state mismatch'')
          else Inr \<lparr>rc_current = still_current E row expiry, rc_outcome = fld row ''outcome'', rc_epoch = epoch\<rparr>))))))"

section \<open>The proposal the request rests on\<close>

definition iso_date :: "jsenv \<Rightarrow> jsv \<Rightarrow> js_error + string" where
  "iso_date E v =
     (case new_date E v of
        None \<Rightarrow> Inl (RangeErr ''Invalid time value'')
      | Some t \<Rightarrow> (case to_iso_string t of None \<Rightarrow> Inl (RangeErr ''Invalid time value'') | Some s \<Rightarrow> Inr s))"

text \<open>\<open>proposalReceiptMatches\<close>: the times are converted only when the columns before them agree.\<close>

definition proposal_receipt_matches :: "jsenv \<Rightarrow> jsv \<Rightarrow> jsv \<Rightarrow> js_error + bool" where
  "proposal_receipt_matches E row authorization =
     (let action = fld authorization ''logicalAction''; proposal = fld authorization ''dviProposal'' in
      if \<not> truthy row then Inr False
      else
        and_then (epoch_from_row E (fld row ''authorization_epoch'')) (\<lambda>epoch.
        and_then (logical_authority_key E (Obj [(''logicalActionDigest'', fld authorization ''logicalActionDigest''),
          (''authorizationEpoch'', int_num epoch)])) (\<lambda>key.
        and_then (authorization_binding E (Obj [(''logicalActionDigest'', fld authorization ''logicalActionDigest''),
          (''proposalDigest'', fld authorization ''proposalDigest''), (''authorizationEpoch'', int_num epoch)])) (\<lambda>binding.
        if \<not> (same row ''tenant_id'' action ''tenantId'' \<and>
               same row ''proposal_digest'' authorization ''proposalDigest'' \<and>
               same row ''logical_action_digest'' authorization ''logicalActionDigest'' \<and>
               same row ''resource_id'' action ''resourceId'' \<and>
               same row ''agency'' action ''agency'' \<and>
               same row ''action_kind'' action ''actionKind'' \<and>
               same row ''payload_digest'' action ''payloadDigest'' \<and>
               fld row ''payload_canonical'' = Str (cloud_canonical_json E (fld action ''payload'')) \<and>
               cloud_canonical_json E (fld row ''payload'') = cloud_canonical_json E (fld action ''payload'') \<and>
               same row ''retrieval_id'' proposal ''retrievalId'' \<and>
               same row ''run_id'' proposal ''runId'' \<and>
               same row ''incident_id'' proposal ''incidentId'' \<and>
               same row ''authority_evidence_binding_sha256'' proposal ''authorityEvidenceBindingSha256'' \<and>
               same row ''policy_version'' proposal ''policyVersion'' \<and>
               strict_eq (Num (js_number E (fld row ''selected_rank''))) (fld proposal ''selectedRank'') \<and>
               same row ''selected_evidence_id'' authorization ''selectedEvidenceId'' \<and>
               same row ''selected_evidence_digest'' authorization ''selectedEvidenceDigest'')
        then Inr False
        else
          and_then (iso_date E (fld row ''admitted_at'')) (\<lambda>admitted.
          if fld proposal ''admittedAt'' \<noteq> Str admitted then Inr False
          else
            and_then (iso_date E (fld row ''expires_at'')) (\<lambda>expires.
            Inr (fld proposal ''expiresAt'' = Str expires \<and>
                 same row ''logical_authority_key_sha256'' key ''logicalAuthorityKeySha256'' \<and>
                 same row ''authorization_binding_sha256'' binding ''authorizationBindingSha256'')))))))"

datatype bound_proposal =
    Not_bound string
  | Bound (bp_current: bool) (bp_row: jsv) (bp_epoch: int)

definition bound_proposal :: "jsenv \<Rightarrow> jsv list \<Rightarrow> jsv \<Rightarrow> bool \<Rightarrow> js_error + bound_proposal" where
  "bound_proposal E rows request require_current =
     (case rows of
        [] \<Rightarrow> Inr (Not_bound ''proposal_authorization_missing'')
      | [row] \<Rightarrow>
          and_then (proposal_receipt_matches E row (authorization_from_request request)) (\<lambda>matches.
          let current = later (Some (new_date E (fld row ''expires_at''))) (new_date E (fld row ''database_now'')) in
          if \<not> matches then Inr (Not_bound ''proposal_authorization_binding_mismatch'')
          else if \<not> same row ''selected_evidence_id'' request ''evidenceId'' \<or>
                  \<not> same row ''selected_evidence_digest'' request ''selectedEvidenceDigest''
          then Inr (Not_bound ''selected_evidence_binding_mismatch'')
          else if require_current \<and> not_later (new_date E (fld row ''expires_at'')) (new_date E (fld row ''database_now''))
          then Inr (Not_bound ''proposal_authorization_expired'')
          else and_then (epoch_from_row E (fld row ''authorization_epoch'')) (\<lambda>epoch. Inr (Bound current row epoch)))
      | _ \<Rightarrow> Inr (Not_bound ''proposal_authorization_ambiguous''))"

section \<open>Reconciling a request\<close>

text \<open>What the session answers: whether it begins and commits, and the rows of the two queries (\<open>None\<close> when one fails).\<close>

record reading =
  session_begins :: bool
  session_commits :: bool
  proposal_rows :: "jsv list option"
  receipt_rows :: "jsv list option"

datatype reconciliation =
    Unknown (rn_reason: string) (rn_commit: commit_result)
  | Reconciled (rn_digest: jsv) (rn_row: jsv) (rn_fresh: bool) (rn_commit: commit_result)

definition unknown_answer :: "jsv \<Rightarrow> string \<Rightarrow> js_error + reconciliation" where
  "unknown_answer request reason = map_sum id (Unknown reason)
     (unknown_database_result (Obj [(''operation'', Str ''authority''), (''operationDigest'', fld request ''requestDigest''),
        (''reason'', Str reason), (''requiresFreshAuthorization'', Bool True)]))"

definition with_binding :: "jsv \<Rightarrow> bound_proposal \<Rightarrow> jsv" where
  "with_binding request b =
     (case request of
        Obj kvs \<Rightarrow> Obj (kvs @ [(''authorizationEpoch'', int_num (bp_epoch b)),
          (''logicalAuthorityKeySha256'', fld (bp_row b) ''logical_authority_key_sha256''),
          (''authorizationBindingSha256'', fld (bp_row b) ''authorization_binding_sha256'')])
      | v \<Rightarrow> v)"

definition outcome_denied :: "jsv \<Rightarrow> bool" where
  "outcome_denied v = (case v of Str s \<Rightarrow> denied s | _ \<Rightarrow> False)"

definition reconciled_answer :: "jsenv \<Rightarrow> jsv \<Rightarrow> jsv \<Rightarrow> reconciled \<Rightarrow> js_error + reconciliation" where
  "reconciled_answer E request row n =
     (let fresh = (\<not> rc_current n \<or> outcome_denied (rc_outcome n)) in
      and_then (driver_timestamp E (fld row ''database_now'')) (\<lambda>now.
      map_sum id (Reconciled (fld request ''requestDigest'') row fresh)
        (committed_database_result E (Obj [(''operation'', Str ''authority''), (''operationDigest'', fld row ''request_digest''),
          (''observation'', Str ''read_reconciled''), (''databaseNow'', Str now), (''outcome'', rc_outcome n),
          (''authorityCurrent'', Bool (rc_current n)), (''requiresFreshAuthorization'', Bool fresh),
          (''reason'', coalesce (fld row ''reason'') Null)]))))"

definition read_receipts :: "jsenv \<Rightarrow> jsv list \<Rightarrow> jsv \<Rightarrow> jsv \<Rightarrow> js_error + reconciliation" where
  "read_receipts E receipts request unbound =
     (case receipts of
        [] \<Rightarrow> unknown_answer unbound ''terminal_receipt_not_observed''
      | [row] \<Rightarrow>
          (case normalize_reconciliation E row request of
             Inl e \<Rightarrow> unknown_answer unbound ''partial_or_superseded_authority_state''
           | Inr n \<Rightarrow> reconciled_answer E request row n)
      | _ \<Rightarrow> unknown_answer unbound ''multiple_receipts_observed'')"

definition read_request :: "jsenv \<Rightarrow> reading \<Rightarrow> jsv \<Rightarrow> js_error + reconciliation" where
  "read_request E Q unbound =
     (case proposal_rows Q of
        None \<Rightarrow> Inl (Err ''query'')
      | Some rows \<Rightarrow>
          and_then (bound_proposal E rows unbound False) (\<lambda>b. case b of
            Not_bound reason \<Rightarrow> if session_commits Q then unknown_answer unbound reason else Inl (Err ''commit'')
          | Bound current row epoch \<Rightarrow>
              (case receipt_rows Q of
                 None \<Rightarrow> Inl (Err ''query'')
               | Some receipts \<Rightarrow>
                   if \<not> session_commits Q then Inl (Err ''commit'')
                   else read_receipts E receipts (with_binding unbound b) unbound)))"

definition reconcile_request :: "jsenv \<Rightarrow> reading \<Rightarrow> jsv \<Rightarrow> js_error + reconciliation" where
  "reconcile_request E Q inp =
     and_then (normalize_request E inp) (\<lambda>unbound.
       case (if session_begins Q then read_request E Q unbound else Inl (Err ''connect'')) of
         Inr answer \<Rightarrow> Inr answer
       | Inl e \<Rightarrow> unknown_answer unbound ''reconciliation_unavailable'')"

section \<open>What reconciliation claims\<close>

end
