(* ===== verification/Store_Proposal.thy ===== *)
theory Store_Proposal
  imports Ledger_Proposal Authority_Reconcile
begin

text \<open>
  Authorizing a proposal in the store's own transaction (\<open>authorizeDviProposal\<close> of
  \<open>src/cloud/authority-store.js\<close>) on the tables of the ledger. The work of one attempt of
  \<open>#runSerializable\<close> is a function of the tables it sees; \<open>t n\<close> is the time of its n-th timed
  statement. \<open>ms\<close> is what the driver makes of a time stamp: the milliseconds of a \<open>Date\<close>; it
  reads eight-byte integers as decimal texts. A count and an epoch that the code turns into a
  number are integers here.
\<close>

section \<open>Rows as the driver presents them\<close>

definition driver_date :: "(int \<Rightarrow> int) \<Rightarrow> int \<Rightarrow> jsv" where
  "driver_date ms t = DateV (Some (ms t))"

definition driver_int :: "int \<Rightarrow> jsv" where
  "driver_int n = Str (int_str n)"

definition driver_text :: "string option \<Rightarrow> jsv" where
  "driver_text v = (case v of None \<Rightarrow> Null | Some s \<Rightarrow> Str s)"

definition proposal_object :: "(int \<Rightarrow> int) \<Rightarrow> int \<Rightarrow> proposal_row \<Rightarrow> jsv" where
  "proposal_object ms now p = Obj
     [(''tenant_id'', Str (pr_tenant p)), (''proposal_digest'', Str (ai_proposal (pr_id p))),
      (''logical_action_digest'', Str (ai_action (pr_id p))), (''resource_id'', Str (pr_resource p)), (''agency'', Str (pr_agency p)),
      (''action_kind'', Str (pr_kind p)), (''payload'', pr_payload p), (''payload_canonical'', Str (pr_canonical p)),
      (''payload_digest'', Str (pr_payload_digest p)), (''retrieval_id'', Str (pr_retrieval p)), (''run_id'', Str (pr_run p)),
      (''incident_id'', Str (pr_incident p)), (''authority_evidence_binding_sha256'', Str (pr_evidence_binding p)),
      (''policy_version'', Str (pr_policy p)), (''selected_rank'', driver_int (pr_rank p)), (''selected_evidence_id'', Str (pr_evidence p)),
      (''selected_evidence_digest'', Str (pr_evidence_digest p)), (''admitted_at'', driver_date ms (pr_admitted p)),
      (''expires_at'', driver_date ms (pr_expires p)), (''authorization_epoch'', driver_int (ai_epoch (pr_id p))),
      (''logical_authority_key_sha256'', Str (ai_key (pr_id p))), (''authorization_binding_sha256'', Str (ai_binding (pr_id p))),
      (''database_now'', driver_date ms now)]"

text \<open>\<open>evidenceDigestFor\<close> on a row read from the table.\<close>

definition stored_evidence_digest :: "jsenv \<Rightarrow> (int \<Rightarrow> int) \<Rightarrow> evidence_row \<Rightarrow> js_error + string" where
  "stored_evidence_digest E ms e =
     and_then (iso_date E (driver_date ms (ev_observed_at e))) (\<lambda>observed.
     and_then (iso_date E (driver_date ms (ev_valid_from e))) (\<lambda>starts.
     and_then (iso_date E (driver_date ms (ev_valid_until e))) (\<lambda>ends_at.
     Inr (identity_digest E (Obj
       [(''tenantId'', Str (ev_tenant e)), (''evidenceId'', Str (ev_id e)), (''incidentId'', Str (ev_incident e)),
        (''issuer'', Str (ev_issuer e)), (''agencyScope'', Str (ev_scope e)), (''claimKey'', driver_text (ev_claim_key e)),
        (''claimValue'', driver_text (ev_claim_value e)), (''verificationKeyId'', driver_text (ev_key_id e)),
        (''verifierVersion'', driver_text (ev_verifier e)), (''signedPayloadDigest'', driver_text (ev_payload_digest e)),
        (''signatureDigest'', driver_text (ev_signature e)), (''observedAt'', Str observed), (''validFrom'', Str starts),
        (''validUntil'', Str ends_at), (''provenanceStatus'', Str (ev_provenance e)), (''conflictStatus'', Str (ev_conflict e)),
        (''assertion'', Str (ev_assertion e)), (''embedding'', Str (ev_embedding e))])))))"

section \<open>The selection receipt\<close>

text \<open>\<open>dviSelectionReceiptInputFromRow\<close>\<close>

definition selection_input :: "jsenv \<Rightarrow> (int \<Rightarrow> int) \<Rightarrow> selection_row \<Rightarrow> js_error + jsv" where
  "selection_input E ms s =
     and_then (iso_date E (driver_date ms (sl_admitted s))) (\<lambda>admitted.
     and_then (iso_date E (driver_date ms (sl_expires s))) (\<lambda>expires.
     Inr (Obj [(''sourceCommit'', Str (sl_commit s)), (''treeDigest'', Str (sl_tree s)), (''specSha256'', Str (sl_spec s)),
       (''runId'', Str (sl_run s)), (''tenantId'', Str (sl_tenant s)), (''incidentId'', Str (sl_incident s)),
       (''retrievalId'', Str (sl_retrieval s)), (''agency'', Str (sl_agency s)), (''policyVersion'', Str (sl_policy s)),
       (''admittedAt'', Str admitted), (''expiresAt'', Str expires), (''rankedSequenceSha256'', Str (sl_ranked s)),
       (''queryEmbeddingSha256'', Str (sl_query s)), (''resultLimit'', Num (js_number E (driver_int (sl_limit s)))),
       (''selectedRank'', Num (js_number E (driver_int (sl_rank s)))), (''selectedEvidenceId'', Str (sl_evidence s)),
       (''selectedEvidenceDigest'', Str (sl_evidence_digest s))])))"

text \<open>\<open>dviSelectionReceiptMatches\<close>: the digest is recomputed only when the column agrees.\<close>

definition selection_matches :: "jsenv \<Rightarrow> (int \<Rightarrow> int) \<Rightarrow> selection_row \<Rightarrow> jsv \<Rightarrow> js_error + bool" where
  "selection_matches E ms s authorization =
     (let action = fld authorization ''logicalAction''; proposal = fld authorization ''dviProposal'' in
      and_then (selection_input E ms s) (\<lambda>i.
      if fld proposal ''authorityEvidenceBindingSha256'' \<noteq> Str (sl_evidence_binding s) then Inr False
      else
        and_then (selection_binding_sha256 E i) (\<lambda>binding. Inr
          (fld proposal ''authorityEvidenceBindingSha256'' = Str binding \<and>
           same i ''tenantId'' action ''tenantId'' \<and> same i ''runId'' proposal ''runId'' \<and>
           same i ''incidentId'' action ''incidentId'' \<and> same i ''retrievalId'' proposal ''retrievalId'' \<and>
           same i ''agency'' action ''agency'' \<and> same i ''policyVersion'' proposal ''policyVersion'' \<and>
           same i ''admittedAt'' proposal ''admittedAt'' \<and> same i ''expiresAt'' proposal ''expiresAt'' \<and>
           same i ''selectedRank'' proposal ''selectedRank'' \<and>
           same i ''selectedEvidenceId'' authorization ''selectedEvidenceId'' \<and>
           same i ''selectedEvidenceDigest'' authorization ''selectedEvidenceDigest''))))"

section \<open>Answers\<close>

record proposal_answer =
  pa_outcome :: string
  pa_reason :: "string option"
  pa_proposal :: "proposal_row option"
  pa_current :: "bool option" \<comment> \<open>\<open>authorityCurrent\<close>, when the answer has it\<close>
  pa_fresh :: "bool option" \<comment> \<open>\<open>requiresFreshAuthorization\<close>\<close>

definition refused :: "string \<Rightarrow> proposal_answer" where
  "refused reason = \<lparr>pa_outcome = ''proposal_authorization_denied'', pa_reason = Some reason, pa_proposal = None, pa_current = None, pa_fresh = None\<rparr>"

definition refused_stale :: "string \<Rightarrow> proposal_row option \<Rightarrow> proposal_answer" where
  "refused_stale reason p = \<lparr>pa_outcome = ''proposal_authorization_denied'', pa_reason = Some reason, pa_proposal = p,
     pa_current = Some False, pa_fresh = Some True\<rparr>"

definition accepted :: "string \<Rightarrow> proposal_row \<Rightarrow> proposal_answer" where
  "accepted outcome p = \<lparr>pa_outcome = outcome, pa_reason = None, pa_proposal = Some p, pa_current = Some True, pa_fresh = Some False\<rparr>"

text \<open>\<open>replayDecision\<close>\<close>

definition replay_decision :: "(int \<Rightarrow> int) \<Rightarrow> int \<Rightarrow> proposal_row \<Rightarrow> ledger \<Rightarrow> proposal_answer" where
  "replay_decision ms now p L =
     (if spends L (pr_tenant p) (ai_action (pr_id p)) \<noteq> [] then refused_stale ''logical_authority_already_spent'' (Some p)
      else if ms (pr_expires p) \<le> ms now then refused_stale ''explicit_new_authorization_required'' (Some p)
      else accepted ''proposal_authorization_replay'' p)"

text \<open>The rows \<open>findExisting\<close> reads, and what is made of them: \<open>None\<close> when there is none.\<close>

definition existing_proposal ::
    "jsenv \<Rightarrow> (int \<Rightarrow> int) \<Rightarrow> int \<Rightarrow> jsv \<Rightarrow> string \<Rightarrow> string \<Rightarrow> ledger \<Rightarrow> store_error + proposal_answer option" where
  "existing_proposal E ms now authorization mismatch several L =
     (case filter (\<lambda>p. proposal_key p = (text_of (fld (fld authorization ''logicalAction'') ''tenantId''),
          text_of (fld authorization ''proposalDigest''))) (proposals L) of
        [] \<Rightarrow> Inr None
      | [p] \<Rightarrow>
          and_then (js_call (proposal_receipt_matches E (proposal_object ms now p) authorization)) (\<lambda>matches.
          if \<not> matches then Inl (Invariant mismatch) else Inr (Some (replay_decision ms now p L)))
      | _ \<Rightarrow> Inl (Invariant several))"

section \<open>Writing the proposal\<close>

definition integer_of :: "jsv \<Rightarrow> int" where
  "integer_of v = (case as_safe_integer v of None \<Rightarrow> 0 | Some n \<Rightarrow> n)"

text \<open>The row of the first epoch, from the parameters of the insert.\<close>

definition stored_proposal :: "jsenv \<Rightarrow> jsv \<Rightarrow> string \<Rightarrow> string \<Rightarrow> proposal_row" where
  "stored_proposal E authorization key binding =
     (let action = fld authorization ''logicalAction''; proposal = fld authorization ''dviProposal'' in
      \<lparr>pr_tenant = text_of (fld action ''tenantId''),
       pr_id = \<lparr>ai_proposal = text_of (fld authorization ''proposalDigest''), ai_action = text_of (fld authorization ''logicalActionDigest''),
         ai_epoch = 1, ai_key = key, ai_binding = binding\<rparr>,
       pr_resource = text_of (fld action ''resourceId''), pr_agency = text_of (fld action ''agency''),
       pr_kind = text_of (fld action ''actionKind''), pr_payload = fld action ''payload'',
       pr_canonical = cloud_canonical_json E (fld action ''payload''), pr_payload_digest = text_of (fld action ''payloadDigest''),
       pr_retrieval = text_of (fld proposal ''retrievalId''), pr_run = text_of (fld proposal ''runId''),
       pr_incident = text_of (fld proposal ''incidentId''),
       pr_evidence_binding = text_of (fld proposal ''authorityEvidenceBindingSha256''), pr_policy = text_of (fld proposal ''policyVersion''),
       pr_rank = integer_of (fld proposal ''selectedRank''), pr_evidence = text_of (fld authorization ''selectedEvidenceId''),
       pr_evidence_digest = text_of (fld authorization ''selectedEvidenceDigest''), pr_admitted = stamp_of (fld proposal ''admittedAt''),
       pr_expires = stamp_of (fld proposal ''expiresAt'')\<rparr>)"

text \<open>An expired authorization is taken back before the commit.\<close>

definition delete_proposal :: "string \<Rightarrow> string \<Rightarrow> ledger \<Rightarrow> ledger" where
  "delete_proposal tenant digest L = L\<lparr>proposals := filter (\<lambda>p. proposal_key p \<noteq> (tenant, digest)) (proposals L)\<rparr>"

definition restore_epoch :: "string \<Rightarrow> string \<Rightarrow> ledger \<Rightarrow> ledger" where
  "restore_epoch tenant action L =
     L\<lparr>epochs := update_where (\<lambda>e. epoch_key e = (tenant, action) \<and> ep_epoch e = 1) (\<lambda>e. e\<lparr>ep_epoch := 0\<rparr>) (epochs L)\<rparr>"

definition take_back :: "string \<Rightarrow> string \<Rightarrow> string \<Rightarrow> ledger \<Rightarrow> store_error + ledger \<times> proposal_answer" where
  "take_back tenant digest action L =
     (if \<not> list_ex (\<lambda>e. epoch_key e = (tenant, action) \<and> ep_epoch e = 1) (epochs L)
      then Inl (Invariant ''expired proposal authorization epoch could not be restored'')
      else Inr (restore_epoch tenant action (delete_proposal tenant digest L), refused_stale ''proposal_expired'' None))"

text \<open>From the update of the epoch on.\<close>

definition initialize_epoch ::
    "jsenv \<Rightarrow> pg \<Rightarrow> (int \<Rightarrow> int) \<Rightarrow> (nat \<Rightarrow> int) \<Rightarrow> jsv \<Rightarrow> ledger \<Rightarrow> store_error + ledger \<times> proposal_answer" where
  "initialize_epoch E D ms t authorization L =
     (let tenant = text_of (fld (fld authorization ''logicalAction'') ''tenantId''); digest = text_of (fld authorization ''proposalDigest'');
          action = text_of (fld authorization ''logicalActionDigest'');
          key = pg_sha256 D (authority_key_text 1 action); binding = pg_sha256 D (authority_binding_text 1 action key digest) in
      and_then (js_call (logical_authority_key E (Obj [(''logicalActionDigest'', fld authorization ''logicalActionDigest''),
        (''authorizationEpoch'', int_num 1)]))) (\<lambda>expected_key.
      and_then (js_call (authorization_binding E (Obj [(''logicalActionDigest'', fld authorization ''logicalActionDigest''),
        (''proposalDigest'', fld authorization ''proposalDigest''), (''authorizationEpoch'', int_num 1)]))) (\<lambda>expected_binding.
      if fld expected_key ''logicalAuthorityKeySha256'' \<noteq> Str key \<or> fld expected_binding ''authorizationBindingSha256'' \<noteq> Str binding
      then Inl (Invariant ''database-derived authorization identity diverged from the frozen contract'')
      else
        let p = stored_proposal E authorization key binding in
        and_then (db_call (insert_proposal p (open_epoch tenant action L))) (\<lambda>L'.
        and_then (js_call (proposal_receipt_matches E (proposal_object ms (t 3) p) authorization)) (\<lambda>matches.
        if \<not> matches then Inl (Invariant ''durable proposal authorization binding was not observable'')
        else if (case find_proposal L' tenant digest of None \<Rightarrow> True | Some q \<Rightarrow> pr_expires q \<le> t 4)
        then take_back tenant digest action L'
        else Inr (L', accepted ''proposal_authorized'' p))))))"

text \<open>From the lock of the epoch on.\<close>

definition lock_epoch ::
    "jsenv \<Rightarrow> pg \<Rightarrow> (int \<Rightarrow> int) \<Rightarrow> (nat \<Rightarrow> int) \<Rightarrow> jsv \<Rightarrow> ledger \<Rightarrow> store_error + ledger \<times> proposal_answer" where
  "lock_epoch E D ms t authorization L =
     (let tenant = text_of (fld (fld authorization ''logicalAction'') ''tenantId''); action = text_of (fld authorization ''logicalActionDigest'');
          expires = new_date E (fld (fld authorization ''dviProposal'') ''expiresAt'') in
      case find_epoch L tenant action of
        None \<Rightarrow> Inl (Invariant ''database authorization epoch row was not locked exactly once'')
      | Some e \<Rightarrow>
          if not_later expires (Some (ms (t 2))) then Inr (L, refused_stale ''proposal_expired'' None)
          else
            and_then (existing_proposal E ms (t 3) authorization ''proposal digest raced with a different durable authorization''
              ''proposal digest race was not singular'' L) (\<lambda>raced.
            case raced of
              Some answer \<Rightarrow> Inr (L, answer)
            | None \<Rightarrow>
                if spends L tenant action \<noteq> [] then Inr (L, refused ''logical_authority_already_spent'')
                else if ep_epoch e = 1 then Inr (L, refused ''explicit_new_authorization_required'')
                else if ep_epoch e \<noteq> 0
                then Inl (Invariant ''authorization epoch advancement requires an explicit new-authorization receipt'')
                else initialize_epoch E D ms t authorization L))"

text \<open>The selected evidence is the authorized one, and the proposal in force.\<close>

definition grounds_refused ::
    "jsenv \<Rightarrow> (int \<Rightarrow> int) \<Rightarrow> (nat \<Rightarrow> int) \<Rightarrow> jsv \<Rightarrow> ledger \<Rightarrow> store_error + proposal_answer option" where
  "grounds_refused E ms t authorization L =
     (let action = fld authorization ''logicalAction''; proposal = fld authorization ''dviProposal'';
          selected = fld authorization ''selectedEvidenceDigest'' in
      case filter (\<lambda>e. evidence_key e = (text_of (fld action ''tenantId''), text_of (fld authorization ''selectedEvidenceId'')) \<and>
          ev_incident e = text_of (fld action ''incidentId'')) (evidence_rows (evidence L)) of
        [e] \<Rightarrow>
          if driver_text (ev_digest e) \<noteq> selected then Inr (Some (refused ''selected_evidence_digest_mismatch''))
          else
            and_then (js_call (stored_evidence_digest E ms e)) (\<lambda>digest.
            Inr (if selected \<noteq> Str digest then Some (refused ''selected_evidence_digest_mismatch'')
              else if not_later (new_date E (fld proposal ''expiresAt'')) (Some (ms (t 1))) then Some (refused ''proposal_expired'')
              else if later (Some (new_date E (fld proposal ''admittedAt''))) (Some (ms (t 1))) then Some (refused ''proposal_not_yet_admitted'')
              else None))
      | _ \<Rightarrow> Inr (Some (refused ''selected_evidence_missing'')))"

text \<open>The selection receipt of the proposal.\<close>

definition selection_refused :: "jsenv \<Rightarrow> (int \<Rightarrow> int) \<Rightarrow> jsv \<Rightarrow> ledger \<Rightarrow> store_error + proposal_answer option" where
  "selection_refused E ms authorization L =
     (case filter (\<lambda>s. selection_binding_key s = (text_of (fld (fld authorization ''logicalAction'') ''tenantId''),
          text_of (fld (fld authorization ''dviProposal'') ''authorityEvidenceBindingSha256''))) (selections L) of
        [s] \<Rightarrow> and_then (js_call (selection_matches E ms s authorization)) (\<lambda>matches.
          Inr (if matches then None else Some (refused ''dvi_selection_receipt_mismatch'')))
      | _ \<Rightarrow> Inr (Some (refused ''dvi_selection_receipt_missing'')))"

definition authorize_work ::
    "jsenv \<Rightarrow> pg \<Rightarrow> (int \<Rightarrow> int) \<Rightarrow> (nat \<Rightarrow> int) \<Rightarrow> jsv \<Rightarrow> ledger \<Rightarrow> store_error + ledger \<times> proposal_answer" where
  "authorize_work E D ms t authorization L =
     and_then (existing_proposal E ms (t 0) authorization ''proposal digest matched a different durable authorization''
       ''proposal digest matched multiple durable authorizations'' L) (\<lambda>existing.
     case existing of
       Some answer \<Rightarrow> Inr (L, answer)
     | None \<Rightarrow>
         and_then (selection_refused E ms authorization L) (\<lambda>no_selection.
         case no_selection of
           Some answer \<Rightarrow> Inr (L, answer)
         | None \<Rightarrow>
             and_then (grounds_refused E ms t authorization L) (\<lambda>no_grounds.
             case no_grounds of
               Some answer \<Rightarrow> Inr (L, answer)
             | None \<Rightarrow>
                 and_then (db_call (insert_epoch (text_of (fld (fld authorization ''logicalAction'') ''tenantId''))
                   (text_of (fld authorization ''logicalActionDigest'')) L)) (\<lambda>L'.
                 lock_epoch E D ms t authorization L'))))"

definition store_authorize ::
    "jsenv \<Rightarrow> pg \<Rightarrow> (int \<Rightarrow> int) \<Rightarrow> (nat \<Rightarrow> int) \<Rightarrow> jsv \<Rightarrow> ledger \<Rightarrow> store_error + ledger \<times> proposal_answer" where
  "store_authorize E D ms t inp L =
     and_then (js_call (normalized_dvi_authorization E inp)) (\<lambda>authorization. authorize_work E D ms t authorization L)"

end
