(* ===== verification/Ledger_Spend.thy ===== *)
theory Ledger_Spend
  imports Ledger_Proposal
begin

text \<open>
  The first half of spending authority (\<open>g1_spend_authority_v1\<close> of
  \<open>src/cloud/primary-security.js\<close>): the request and its digests, whether a receipt is still
  current (\<open>g1_authority_receipt_current_v2\<close>), earlier answers to the same request and the
  writing of receipts. Parameters are not null. \<open>t\<close> is the time of the statement;
  the readings of \<open>clock_timestamp()\<close> are numbered: 0 on entry, 1 after the lock of the epoch,
  2 after the lock of the resource, 3 inside its update, 4 after a failed update and 5 when the
  receipt of a replay is judged.
\<close>

section \<open>The request\<close>

record spend_request =
  sq_tenant :: string
  sq_operation :: string
  sq_digest :: string
  sq_request :: jsv
  sq_proposal :: string
  sq_action :: string
  sq_evidence_digest :: string
  sq_run :: string
  sq_incident :: string
  sq_resource :: string
  sq_agent :: string
  sq_agency :: string
  sq_evidence :: string
  sq_effect :: string
  sq_payload :: jsv
  sq_payload_digest :: string
  sq_policy :: string
  sq_lease :: int

definition authorizers :: "string list" where
  "authorizers = [''tp_authorizer_user'', ''tp_gate2_authorizer_user'']"

definition digests_shaped :: "spend_request \<Rightarrow> bool" where
  "digests_shaped q \<longleftrightarrow> hex_64 (sq_digest q) \<and> hex_64 (sq_payload_digest q) \<and> hex_64 (sq_proposal q) \<and> hex_64 (sq_action q) \<and>
     hex_64 (sq_evidence_digest q)"

definition lease_length_ok :: "int \<Rightarrow> bool" where
  "lease_length_ok ms \<longleftrightarrow> ms = 1800000 \<or> 1000 \<le> ms \<and> ms \<le> 600000"

text \<open>The request payload repeats the parameters.\<close>

definition bound_fields :: "spend_request \<Rightarrow> (string \<times> string) list" where
  "bound_fields q =
     [(''digestVersion'', ''2''), (''tenantId'', sq_tenant q), (''runId'', sq_run q), (''incidentId'', sq_incident q),
      (''resourceId'', sq_resource q), (''agentId'', sq_agent q), (''agency'', sq_agency q), (''evidenceId'', sq_evidence q),
      (''effectKey'', sq_effect q), (''leaseMs'', int_str (sq_lease q)), (''policyVersion'', sq_policy q), (''actionKind'', action_kind),
      (''payloadDigest'', sq_payload_digest q), (''logicalActionDigest'', sq_action q), (''proposalDigest'', sq_proposal q),
      (''selectedEvidenceId'', sq_evidence q), (''selectedEvidenceDigest'', sq_evidence_digest q)]"

definition request_bound :: "pg \<Rightarrow> spend_request \<Rightarrow> bool" where
  "request_bound D q \<longleftrightarrow> length (members (sq_request q)) = 18 \<and>
     list_all (\<lambda>(k, s). arrow_text D (sq_request q) k = Some s) (bound_fields q) \<and>
     (case arrow_text D (sq_request q) ''intentNonce'' of None \<Rightarrow> False | Some s \<Rightarrow> uuid_shape s) \<and>
     arrow_text D (sq_payload q) ''action'' = Some action_kind \<and> sq_policy q = policy_version"

definition proposal_for :: "spend_request \<Rightarrow> ledger \<Rightarrow> proposal_row option" where
  "proposal_for q L = find (\<lambda>p. proposal_key p = (sq_tenant q, sq_proposal q) \<and> ai_action (pr_id p) = sq_action q \<and>
     pr_run p = sq_run q \<and> pr_incident p = sq_incident q \<and> pr_resource p = sq_resource q \<and> pr_agency p = sq_agency q \<and>
     pr_kind p = action_kind \<and> pr_payload p = sq_payload q \<and> pr_payload_digest p = sq_payload_digest q \<and>
     pr_evidence p = sq_evidence q \<and> pr_evidence_digest p = sq_evidence_digest q \<and> pr_rank p = 1) (proposals L)"

definition request_text :: "pg \<Rightarrow> spend_request \<Rightarrow> string \<Rightarrow> string \<Rightarrow> string" where
  \<open>request_text D q action payload_digest =
     ''{"actionKind":"dispatch_rescue_unit","agency":'' @ pg_to_json D (sq_agency q) @ '',"agentId":'' @ pg_to_json D (sq_agent q) @
     '',"digestVersion":2'' @ '',"effectKey":"'' @ sq_effect q @ ''","evidenceId":"'' @ sq_evidence q @
     ''","incidentId":"'' @ sq_incident q @ ''","intentNonce":'' @ member_text D (sq_request q) ''intentNonce'' @
     '',"leaseMs":'' @ int_str (sq_lease q) @ '',"logicalActionDigest":"'' @ action @ ''","payloadDigest":"'' @ payload_digest @
     ''","policyVersion":'' @ pg_to_json D (sq_policy q) @ '',"proposalDigest":"'' @ sq_proposal q @
     ''","resourceId":'' @ pg_to_json D (sq_resource q) @ '',"runId":"'' @ sq_run q @
     ''","selectedEvidenceDigest":"'' @ sq_evidence_digest q @ ''","selectedEvidenceId":"'' @ sq_evidence q @
     ''","tenantId":"'' @ sq_tenant q @ ''"}''\<close>

definition kind_literal :: string where
  \<open>kind_literal = ''"dispatch_rescue_unit"''\<close>

definition digests_derived :: "pg \<Rightarrow> spend_request \<Rightarrow> proposal_row \<Rightarrow> bool" where
  "digests_derived D q p \<longleftrightarrow>
     (let payload_digest = pg_sha256 D (pr_canonical p);
          action = pg_sha256 D (action_text D kind_literal (sq_agency q) (sq_incident q) payload_digest (sq_resource q) (sq_tenant q)) in
      payload_digest = sq_payload_digest q \<and> action = sq_action q \<and>
      pg_sha256 D (request_text D q action payload_digest) = sq_digest q)"

section \<open>Current receipts\<close>

definition outbox_matches :: "outbox_row \<Rightarrow> receipt_row \<Rightarrow> bool" where
  "outbox_matches b a \<longleftrightarrow> ob_digest b = ar_digest a \<and> ob_id b = ar_id a \<and> ob_run b = ar_run a \<and> ob_incident b = ar_incident a \<and>
     ob_resource b = ar_resource a \<and> Some (ob_fence b) = ar_fence a \<and> ob_effect b = ar_effect a \<and> ob_payload_digest b = ar_payload_digest a"

definition structurally_current :: "pg \<Rightarrow> receipt_row \<Rightarrow> resource_row \<Rightarrow> outbox_row \<Rightarrow> proposal_row \<Rightarrow> bool" where
  "structurally_current D a r b p \<longleftrightarrow> reserved a \<and> ar_fence a = Some (rs_fence r) \<and> ar_run a = rs_run r \<and>
     (case rs_holder r of None \<Rightarrow> False | Some h \<Rightarrow> ar_operation a = ho_operation h \<and> ai_proposal (ar_id a) = ho_proposal h \<and>
        ai_key (ar_id a) = ho_key h) \<and>
     outbox_matches b a \<and> ob_kind b = action_kind \<and> pr_payload p = ob_payload b \<and> pr_payload_digest p = ob_payload_digest b \<and>
     pg_sha256 D (pr_canonical p) = ob_payload_digest b"

definition receipt_current :: "pg \<Rightarrow> string \<Rightarrow> int \<Rightarrow> ledger \<Rightarrow> string \<Rightarrow> string \<Rightarrow> sql_error + bool \<times> int" where
  "receipt_current D user now L tenant operation =
     (if user \<notin> set authorizers then sql_raise ''42501'' ''authorizer database session required''
      else Inr
        (case find_receipt L tenant operation of
           None \<Rightarrow> False
         | Some a \<Rightarrow>
             (case (find_resource L tenant (ar_resource a), find_outbox L tenant operation, find_proposal L tenant (ai_proposal (ar_id a))) of
                (Some r, Some b, Some p) \<Rightarrow>
                  structurally_current D a r b p \<and>
                  (case ar_expires a of None \<Rightarrow> False | Some x \<Rightarrow> x > now) \<and>
                  (case rs_holder r of None \<Rightarrow> False | Some h \<Rightarrow> ho_expires h > now) \<and> pr_expires p > now
              | _ \<Rightarrow> False), now))"

section \<open>Decisions\<close>

record spend_decision =
  dc_outcome :: string
  dc_reason :: "string option"
  dc_fence :: "int option"
  dc_expires :: "int option"
  dc_operation :: string
  dc_digest :: string
  dc_replay :: "string option"
  dc_proposal :: string
  dc_action :: string
  dc_epoch :: "int option"
  dc_key :: "string option"
  dc_binding :: "string option"
  dc_current :: bool
  dc_now :: int

definition spend_denied :: "spend_request \<Rightarrow> authority_id option \<Rightarrow> string \<Rightarrow> string \<Rightarrow> int \<Rightarrow> spend_decision" where
  "spend_denied q i outcome reason now =
     \<lparr>dc_outcome = outcome, dc_reason = Some reason, dc_fence = None, dc_expires = None, dc_operation = sq_operation q,
      dc_digest = sq_digest q, dc_replay = None, dc_proposal = sq_proposal q, dc_action = sq_action q, dc_epoch = map_option ai_epoch i,
      dc_key = map_option ai_key i, dc_binding = map_option ai_binding i, dc_current = False, dc_now = now\<rparr>"

definition replayed :: "pg \<Rightarrow> string \<Rightarrow> (nat \<Rightarrow> int) \<Rightarrow> ledger \<Rightarrow> string \<Rightarrow> receipt_row \<Rightarrow> sql_error + spend_decision" where
  "replayed D user clock L how a =
     and_then (receipt_current D user (clock 5) L (ar_tenant a) (ar_operation a)) (\<lambda>(cur, now).
     Inr \<lparr>dc_outcome = ar_outcome a, dc_reason = ar_reason a, dc_fence = ar_fence a, dc_expires = ar_expires a,
       dc_operation = ar_operation a, dc_digest = ar_digest a, dc_replay = Some how, dc_proposal = ai_proposal (ar_id a),
       dc_action = ai_action (ar_id a), dc_epoch = Some (ai_epoch (ar_id a)), dc_key = Some (ai_key (ar_id a)),
       dc_binding = Some (ai_binding (ar_id a)), dc_current = cur, dc_now = now\<rparr>)"

text \<open>The three ways a request has been answered before, in the order the code asks.\<close>

definition earlier_answer ::
    "pg \<Rightarrow> string \<Rightarrow> (nat \<Rightarrow> int) \<Rightarrow> spend_request \<Rightarrow> ledger \<Rightarrow> (sql_error + spend_decision) option" where
  "earlier_answer D user clock q L =
     (case find_receipt L (sq_tenant q) (sq_operation q) of
        Some a \<Rightarrow> Some
          (if ar_digest a \<noteq> sq_digest q \<or> ar_payload a \<noteq> sq_request q then sql_raise ''22000'' ''operation digest mismatch''
           else if ar_outcome a = ''pending'' then sql_raise ''XX000'' ''committed pending receipt invariant''
           else replayed D user clock L ''operation_replay'' a)
      | None \<Rightarrow>
          (case spends L (sq_tenant q) (sq_action q) of
             a # rest \<Rightarrow> Some
               (if rest \<noteq> [] then sql_raise ''XX000'' ''logical authority spend was not singular''
                else replayed D user clock L ''logical_authority_replay'' a)
           | [] \<Rightarrow>
               (case find (\<lambda>a. receipt_digest_key a = (sq_tenant q, sq_digest q)) (receipts L) of
                  Some a \<Rightarrow> Some
                    (if ar_payload a \<noteq> sq_request q then sql_raise ''22000'' ''semantic request payload mismatch''
                     else if ar_outcome a = ''pending'' then sql_raise ''XX000'' ''committed pending receipt invariant''
                     else replayed D user clock L ''semantic_replay'' a)
                | None \<Rightarrow> None)))"

section \<open>Writing receipts\<close>

definition pending_receipt :: "spend_request \<Rightarrow> proposal_row \<Rightarrow> receipt_row" where
  "pending_receipt q p =
     \<lparr>ar_tenant = sq_tenant q, ar_operation = sq_operation q, ar_digest = sq_digest q, ar_payload = sq_request q,
      ar_id = \<lparr>ai_proposal = sq_proposal q, ai_action = sq_action q, ai_epoch = ai_epoch (pr_id p), ai_key = ai_key (pr_id p),
        ai_binding = ai_binding (pr_id p)\<rparr>,
      ar_run = sq_run q, ar_incident = sq_incident q, ar_resource = sq_resource q, ar_agent = sq_agent q, ar_agency = sq_agency q,
      ar_evidence = sq_evidence q, ar_evidence_digest = None, ar_effect = sq_effect q, ar_payload_digest = sq_payload_digest q,
      ar_policy = sq_policy q, ar_outcome = ''pending'', ar_reason = None, ar_fence = None, ar_seen_holder = None,
      ar_seen_fence = None, ar_expires = None\<rparr>"

text \<open>\<open>ON CONFLICT DO NOTHING\<close>: \<open>None\<close> when a key is taken.\<close>

definition insert_pending :: "receipt_row \<Rightarrow> ledger \<Rightarrow> sql_error + ledger option" where
  "insert_pending a L =
     (if \<not> receipt_check a then sql_raise ''23514'' ''g1_authority_receipts''
      else if taken every receipt_key (receipt_key a) (receipts L) \<or> taken every receipt_digest_key (receipt_digest_key a) (receipts L)
      then Inr None
      else Inr (Some (L\<lparr>receipts := receipts L @ [a]\<rparr>)))"

text \<open>The update of the receipt of an operation.\<close>

definition update_receipt :: "receipt_row \<Rightarrow> ledger \<Rightarrow> sql_error + ledger" where
  "update_receipt a L =
     (if \<not> receipt_check a then sql_raise ''23514'' ''g1_authority_receipts''
      else if list_ex (spend_clash a) (receipts L) then sql_raise ''23505'' ''g1_authority_receipts''
      else Inr (L\<lparr>receipts := update_where (\<lambda>b. receipt_key b = receipt_key a) (\<lambda>_. a) (receipts L)\<rparr>))"

text \<open>What the code does when another receipt stands in the way of the pending one.\<close>

definition conflict_answer ::
    "pg \<Rightarrow> string \<Rightarrow> (nat \<Rightarrow> int) \<Rightarrow> spend_request \<Rightarrow> proposal_row \<Rightarrow> ledger \<Rightarrow> sql_error + spend_decision" where
  "conflict_answer D user clock q p L =
     (case filter (\<lambda>a. ar_tenant a = sq_tenant q \<and> (ar_operation a = sq_operation q \<or> ar_digest a = sq_digest q \<or>
          ai_action (ar_id a) = sq_action q \<and> reserved a)) (receipts L) of
        [a] \<Rightarrow>
          if ar_outcome a = ''pending'' then sql_raise ''XX000'' ''receipt conflict was not terminal''
          else
            let how = (if ar_operation a = sq_operation q then ''operation_replay''
                 else if ar_digest a = sq_digest q then ''semantic_replay'' else ''logical_authority_replay'') in
            if how \<noteq> ''logical_authority_replay'' \<and> ar_payload a \<noteq> sq_request q then sql_raise ''22000'' ''receipt replay payload mismatch''
            else if ai_action (ar_id a) \<noteq> sq_action q \<or>
              how \<noteq> ''logical_authority_replay'' \<and> (ai_epoch (ar_id a) \<noteq> ai_epoch (pr_id p) \<or> ai_key (ar_id a) \<noteq> ai_key (pr_id p))
            then sql_raise ''XX000'' ''receipt replay logical identity mismatch''
            else replayed D user clock L how a
      | _ \<Rightarrow> sql_raise ''XX000'' ''receipt conflict was not singular'')"

end
