(* ===== verification/Ledger_Acquire.thy ===== *)
theory Ledger_Acquire
  imports Ledger_Spend
begin

text \<open>
  The second half of \<open>g1_spend_authority_v1\<close> of \<open>src/cloud/primary-security.js\<close>, from the
  pending receipt to the reserved resource, the race of two contenders on top of it
  (\<open>g2_spend_authority_race_v1\<close>). The readings of the clock are numbered as in the first half.
\<close>

section \<open>Admission\<close>

definition admission :: "string \<Rightarrow> int \<Rightarrow> spend_request \<Rightarrow> ledger \<Rightarrow> string \<times> string option" where
  "admission user t q L =
     (case observe_admissibility user t (sq_tenant q) (sq_evidence q) (sq_incident q) (sq_agency q) (evidence L) of
        None \<Rightarrow> (''evidence_missing'', None)
      | Some answer \<Rightarrow> answer)"

text \<open>The pending receipt becomes a denial.\<close>

definition deny ::
    "spend_request \<Rightarrow> receipt_row \<Rightarrow> string \<Rightarrow> string option \<Rightarrow> int \<Rightarrow> ledger \<Rightarrow> sql_error + ledger \<times> spend_decision" where
  "deny q a reason digest now L =
     and_then (update_receipt
         (a\<lparr>ar_outcome := ''authorization_denied'', ar_reason := Some reason, ar_evidence_digest := digest\<rparr>) L) (\<lambda>L'.
     Inr (L', spend_denied q (Some (ar_id a)) ''authorization_denied'' reason now))"

definition deny_held ::
    "spend_request \<Rightarrow> receipt_row \<Rightarrow> resource_row \<Rightarrow> holder \<Rightarrow> string option \<Rightarrow> int \<Rightarrow> ledger \<Rightarrow> sql_error + ledger \<times> spend_decision" where
  "deny_held q a r h digest now L =
     and_then (update_receipt
         (a\<lparr>ar_outcome := ''resource_held_denied'', ar_reason := Some ''active_holder'', ar_evidence_digest := digest,
           ar_seen_holder := Some (ho_operation h), ar_seen_fence := Some (rs_fence r)\<rparr>) L) (\<lambda>L'.
     Inr (L', spend_denied q (Some (ar_id a)) ''resource_held_denied'' ''active_holder'' now))"

section \<open>Reserving the resource\<close>

definition held :: "int \<Rightarrow> resource_row \<Rightarrow> bool" where
  "held now r \<longleftrightarrow> (case rs_holder r of None \<Rightarrow> False | Some h \<Rightarrow> ho_expires h > now)"

text \<open>The condition of the update: the proposal is read once more at a later time.\<close>

definition can_acquire :: "int \<Rightarrow> int \<Rightarrow> spend_request \<Rightarrow> receipt_row \<Rightarrow> resource_row \<Rightarrow> ledger \<Rightarrow> bool" where
  "can_acquire now later q a r L \<longleftrightarrow> rs_run r = sq_run q \<and> rs_fence r < int8_max \<and> \<not> held now r \<and>
     list_ex (\<lambda>p. proposal_key p = (sq_tenant q, sq_proposal q) \<and> pr_id p = ar_id a \<and> pr_expires p > later) (proposals L)"

definition acquired :: "spend_request \<Rightarrow> receipt_row \<Rightarrow> int \<Rightarrow> resource_row \<Rightarrow> resource_row" where
  "acquired q a expires r = r\<lparr>rs_fence := rs_fence r + 1, rs_holder := Some
     \<lparr>ho_incident = sq_incident q, ho_operation = sq_operation q, ho_agent = sq_agent q, ho_proposal = sq_proposal q,
      ho_key = ai_key (ar_id a), ho_expires = expires\<rparr>\<rparr>"

definition intent :: "spend_request \<Rightarrow> receipt_row \<Rightarrow> int \<Rightarrow> outbox_row" where
  "intent q a fence =
     \<lparr>ob_tenant = sq_tenant q, ob_operation = sq_operation q, ob_digest = sq_digest q, ob_id = ar_id a, ob_run = sq_run q,
      ob_incident = sq_incident q, ob_resource = sq_resource q, ob_fence = fence, ob_effect = sq_effect q, ob_kind = action_kind,
      ob_payload = sq_payload q, ob_payload_digest = sq_payload_digest q\<rparr>"

definition insert_outbox :: "outbox_row \<Rightarrow> ledger \<Rightarrow> sql_error + ledger" where
  "insert_outbox b L =
     (if \<not> outbox_check b then sql_raise ''23514'' ''g1_outbox_intents''
      else if clashes outbox_keys b (outbox L) then sql_raise ''23505'' ''g1_outbox_intents''
      else Inr (L\<lparr>outbox := outbox L @ [b]\<rparr>))"

definition spend_granted :: "spend_request \<Rightarrow> authority_id \<Rightarrow> int \<Rightarrow> int \<Rightarrow> int \<Rightarrow> spend_decision" where
  "spend_granted q i fence expires now =
     \<lparr>dc_outcome = ''resource_reserved'', dc_reason = None, dc_fence = Some fence, dc_expires = Some expires,
      dc_operation = sq_operation q, dc_digest = sq_digest q, dc_replay = None, dc_proposal = sq_proposal q, dc_action = sq_action q,
      dc_epoch = Some (ai_epoch i), dc_key = Some (ai_key i), dc_binding = Some (ai_binding i), dc_current = True, dc_now = now\<rparr>"

definition reserve ::
    "spend_request \<Rightarrow> receipt_row \<Rightarrow> resource_row \<Rightarrow> string option \<Rightarrow> int \<Rightarrow> ledger \<Rightarrow> sql_error + ledger \<times> spend_decision" where
  "reserve q a r digest now L =
     (let fence = rs_fence r + 1; expires = now + sq_lease q * 1000 in
      and_then (update_receipt
          (a\<lparr>ar_outcome := ''resource_reserved'', ar_evidence_digest := digest, ar_fence := Some fence, ar_expires := Some expires\<rparr>)
          (L\<lparr>resources := update_where (\<lambda>s. resource_key s = (sq_tenant q, sq_resource q)) (acquired q a expires) (resources L)\<rparr>)) (\<lambda>L'.
      and_then (insert_outbox (intent q a fence) L') (\<lambda>L''.
      Inr (L'', spend_granted q (ar_id a) fence expires now))))"

text \<open>The decision on a pending receipt.\<close>

definition settle ::
    "string \<Rightarrow> int \<Rightarrow> (nat \<Rightarrow> int) \<Rightarrow> spend_request \<Rightarrow> proposal_row \<Rightarrow> receipt_row \<Rightarrow> ledger \<Rightarrow> sql_error + ledger \<times> spend_decision" where
  "settle user t clock q p a L =
     (let (admissibility, digest) = admission user t q L in
      if admissibility \<noteq> ''admissible'' then deny q a admissibility digest (clock 1) L
      else if known_differs digest (sq_evidence_digest q) then deny q a ''selected_evidence_digest_mismatch'' digest (clock 1) L
      else case find_resource L (sq_tenant q) (sq_resource q) of
        None \<Rightarrow> deny q a ''resource_missing'' digest (clock 1) L
      | Some r \<Rightarrow>
          if rs_run r \<noteq> sq_run q then deny q a ''inactive_run'' digest (clock 2) L
          else if pr_expires p \<le> clock 2 then deny q a ''proposal_authorization_expired'' digest (clock 2) L
          else case rs_holder r of
            Some h \<Rightarrow>
              if ho_expires h > clock 2 then deny_held q a r h digest (clock 2) L
              else if can_acquire (clock 2) (clock 3) q a r L then reserve q a r digest (clock 2) L
              else if pr_expires p \<le> clock 4 then deny q a ''proposal_authorization_expired'' digest (clock 4) L
              else sql_raise ''XX000'' ''resource acquisition invariant''
          | None \<Rightarrow>
              if can_acquire (clock 2) (clock 3) q a r L then reserve q a r digest (clock 2) L
              else if pr_expires p \<le> clock 4 then deny q a ''proposal_authorization_expired'' digest (clock 4) L
              else sql_raise ''XX000'' ''resource acquisition invariant'')"

section \<open>Spending\<close>

definition unchanged :: "ledger \<Rightarrow> sql_error + 'd \<Rightarrow> sql_error + ledger \<times> 'd" where
  "unchanged L r = and_then r (\<lambda>d. Inr (L, d))"

definition spend_fresh ::
    "pg \<Rightarrow> string \<Rightarrow> int \<Rightarrow> (nat \<Rightarrow> int) \<Rightarrow> spend_request \<Rightarrow> proposal_row \<Rightarrow> ledger \<Rightarrow> sql_error + ledger \<times> spend_decision" where
  "spend_fresh D user t clock q p L =
     and_then (insert_pending (pending_receipt q p) L) (\<lambda>inserted.
     case inserted of
       None \<Rightarrow> unchanged L (conflict_answer D user clock q p L)
     | Some L' \<Rightarrow> settle user t clock q p (pending_receipt q p) L')"

definition spend_authority ::
    "pg \<Rightarrow> string \<Rightarrow> int \<Rightarrow> (nat \<Rightarrow> int) \<Rightarrow> spend_request \<Rightarrow> ledger \<Rightarrow> sql_error + ledger \<times> spend_decision" where
  "spend_authority D user t clock q L =
     (if user \<notin> set authorizers then sql_raise ''42501'' ''authorizer database session required''
      else if \<not> digests_shaped q then sql_raise ''22023'' ''digest must be SHA-256 hex''
      else if \<not> lease_length_ok (sq_lease q) then sql_raise ''22023'' ''lease duration outside policy''
      else if \<not> is_object (sq_request q) \<or> \<not> is_object (sq_payload q)
      then sql_raise ''22023'' ''authority request payload must be an object''
      else if \<not> request_bound D q then sql_raise ''22023'' ''authority request identity binding mismatch''
      else case proposal_for q L of
        None \<Rightarrow> Inr (L, spend_denied q None ''authorization_denied'' ''proposal_authorization_missing_or_stale'' (clock 0))
      | Some p \<Rightarrow>
          if sq_lease q > 600000 \<and> \<not> (sq_lease q = 1800000 \<and> pr_expires p - pr_admitted p = 1800000000)
          then sql_raise ''22023'' ''lease duration outside fresh recovery policy''
          else if \<not> digests_derived D q p then sql_raise ''22023'' ''database-derived authority identity mismatch''
          else case find_epoch L (sq_tenant q) (sq_action q) of
            None \<Rightarrow> sql_raise ''XX000'' ''logical authority epoch lock missing''
          | Some e \<Rightarrow>
              (case earlier_answer D user clock q L of
                 Some r \<Rightarrow> unchanged L r
               | None \<Rightarrow>
                   if ep_epoch e \<noteq> ai_epoch (pr_id p)
                   then Inr (L, spend_denied q (Some (pr_id p)) ''authorization_denied'' ''proposal_authorization_superseded'' (clock 1))
                   else if pr_expires p \<le> clock 1
                   then Inr (L, spend_denied q (Some (pr_id p)) ''authorization_denied'' ''proposal_authorization_expired'' (clock 1))
                   else spend_fresh D user t clock q p L))"

text \<open>The race: the decision with what its receipt and proposal say, the decision's own rows included.\<close>

record race_decision =
  rc_decision :: spend_decision
  rc_durable :: bool
  rc_evidence_binding :: "string option"
  rc_evidence :: "string option"
  rc_evidence_digest :: "string option"

definition contenders :: "string list" where
  "contenders = [''aws-authority-alpha'', ''aws-authority-bravo'']"

definition race_answer :: "string \<Rightarrow> ledger \<Rightarrow> spend_decision \<Rightarrow> race_decision" where
  "race_answer tenant L d =
     (let a = find_receipt L tenant (dc_operation d);
          p = Option.bind a (\<lambda>a. find_proposal L tenant (ai_proposal (ar_id a))) in
      \<lparr>rc_decision = d, rc_durable = (a \<noteq> None),
       rc_evidence_binding = Option.bind p (\<lambda>p. if ai_proposal (pr_id p) = dc_proposal d then Some (pr_evidence_binding p) else None),
       rc_evidence = map_option ar_evidence a, rc_evidence_digest = Option.bind a ar_evidence_digest\<rparr>)"

definition spend_race ::
    "pg \<Rightarrow> string \<Rightarrow> int \<Rightarrow> (nat \<Rightarrow> int) \<Rightarrow> spend_request \<Rightarrow> ledger \<Rightarrow> sql_error + ledger \<times> race_decision" where
  "spend_race D user t clock q L =
     (if user \<noteq> ''tp_gate2_authorizer_user'' then sql_raise ''42501'' ''Gate Two authorizer database session required''
      else if sq_agent q \<notin> set contenders then sql_raise ''42501'' ''Gate Two contender is not allowed''
      else and_then (spend_authority D user t clock q L) (\<lambda>(L', d). Inr (L', race_answer (sq_tenant q) L' d)))"

end
