(* ===== verification/Store_Spend.thy ===== *)
theory Store_Spend
  imports Store_Proposal Ledger_Acquire Commit_Result
begin

text \<open>
  Spending authority in the store's own transaction (\<open>spendAuthority\<close>, \<open>#existingReceipt\<close> and
  \<open>#receiptAuthorityCurrent\<close> of \<open>src/cloud/authority-store.js\<close>) on the tables of the ledger.
  The timed statements are numbered: 0 the proposal, 1 the state of a replayed receipt, 2 the
  evidence, 3 the resource, 4 its update, 5 the proposal again and 6 the last check. Observers
  and the barrier of tests are left out.
\<close>

section \<open>The request\<close>

text \<open>The parameters of the statements: members of the request in normal form.\<close>

definition spend_parameters :: "jsv \<Rightarrow> spend_request" where
  "spend_parameters r =
     \<lparr>sq_tenant = text_of (fld r ''tenantId''), sq_operation = text_of (fld r ''operationId''), sq_digest = text_of (fld r ''requestDigest''),
      sq_request = fld r ''requestPayload'', sq_proposal = text_of (fld r ''proposalDigest''), sq_action = text_of (fld r ''logicalActionDigest''),
      sq_evidence_digest = text_of (fld r ''selectedEvidenceDigest''), sq_run = text_of (fld r ''runId''),
      sq_incident = text_of (fld r ''incidentId''), sq_resource = text_of (fld r ''resourceId''), sq_agent = text_of (fld r ''agentId''),
      sq_agency = text_of (fld r ''agency''), sq_evidence = text_of (fld r ''evidenceId''), sq_effect = text_of (fld r ''effectKey''),
      sq_payload = fld r ''payload'', sq_payload_digest = text_of (fld r ''payloadDigest''), sq_policy = text_of (fld r ''policyVersion''),
      sq_lease = integer_of (fld r ''leaseMs'')\<rparr>"

text \<open>The query of \<open>#boundProposal\<close> on the table.\<close>

definition bound_in :: "jsenv \<Rightarrow> (int \<Rightarrow> int) \<Rightarrow> int \<Rightarrow> jsv \<Rightarrow> bool \<Rightarrow> ledger \<Rightarrow> store_error + bound_proposal" where
  "bound_in E ms now r require_current L =
     js_call (bound_proposal E (map (proposal_object ms now)
       (filter (\<lambda>p. proposal_key p = (text_of (fld r ''tenantId''), text_of (fld r ''proposalDigest''))) (proposals L))) r require_current)"

text \<open>The identity the bound proposal adds to the request.\<close>

definition bound_identity :: "spend_request \<Rightarrow> bound_proposal \<Rightarrow> authority_id" where
  "bound_identity q b =
     \<lparr>ai_proposal = sq_proposal q, ai_action = sq_action q, ai_epoch = bp_epoch b,
      ai_key = text_of (fld (bp_row b) ''logical_authority_key_sha256''), ai_binding = text_of (fld (bp_row b) ''authorization_binding_sha256'')\<rparr>"

section \<open>Receipts that are still current\<close>

definition column_epoch :: "jsenv \<Rightarrow> int \<Rightarrow> js_error + int" where
  "column_epoch E n = epoch_from_row E (driver_int n)"

text \<open>\<open>new Date(v).getTime()\<close> on a nullable time stamp: \<open>null\<close> is the time zero.\<close>

definition date_or_zero :: "(int \<Rightarrow> int) \<Rightarrow> int option \<Rightarrow> int" where
  "date_or_zero ms t = (case t of None \<Rightarrow> 0 | Some x \<Rightarrow> ms x)"

definition intent_agrees :: "jsenv \<Rightarrow> receipt_row \<Rightarrow> outbox_row \<Rightarrow> proposal_row \<Rightarrow> bool" where
  "intent_agrees E a b p \<longleftrightarrow>
     ai_key (ob_id b) = ai_key (ar_id a) \<and> ai_binding (ob_id b) = ai_binding (ar_id a) \<and> ob_run b = ar_run a \<and>
     ob_incident b = ar_incident a \<and> ob_resource b = ar_resource a \<and> Some (ob_fence b) = ar_fence a \<and> ob_effect b = ar_effect a \<and>
     ob_kind b = action_kind \<and> ob_payload_digest b = ar_payload_digest a \<and> pr_payload_digest p = ar_payload_digest a \<and>
     cloud_canonical_json E (ob_payload b) = cloud_canonical_json E (pr_payload p) \<and>
     identity_digest E (ob_payload b) = ob_payload_digest b"

text \<open>\<open>exactOutbox\<close>: the epochs are read only when the columns before them agree.\<close>

definition exact_intent :: "jsenv \<Rightarrow> receipt_row \<Rightarrow> outbox_row \<Rightarrow> proposal_row \<Rightarrow> js_error + bool" where
  "exact_intent E a b p =
     (if ob_digest b \<noteq> ar_digest a \<or> ai_proposal (ob_id b) \<noteq> ai_proposal (ar_id a) \<or> ai_action (ob_id b) \<noteq> ai_action (ar_id a)
      then Inr False
      else
        and_then (column_epoch E (ai_epoch (ob_id b))) (\<lambda>x.
        and_then (column_epoch E (ai_epoch (ar_id a))) (\<lambda>y.
        Inr (x = y \<and> intent_agrees E a b p))))"

definition holds_receipt :: "(int \<Rightarrow> int) \<Rightarrow> int \<Rightarrow> receipt_row \<Rightarrow> resource_row \<Rightarrow> proposal_row \<Rightarrow> bool" where
  "holds_receipt ms now a r p \<longleftrightarrow>
     ar_fence a = Some (rs_fence r) \<and> ar_run a = rs_run r \<and>
     (case rs_holder r of None \<Rightarrow> False | Some h \<Rightarrow>
        ar_operation a = ho_operation h \<and> ai_proposal (ar_id a) = ho_proposal h \<and> ai_key (ar_id a) = ho_key h \<and>
        date_or_zero ms (ar_expires a) > ms now \<and> ms (ho_expires h) > ms now \<and> ms (pr_expires p) > ms now)"

definition receipt_authority_current :: "jsenv \<Rightarrow> (int \<Rightarrow> int) \<Rightarrow> int \<Rightarrow> receipt_row \<Rightarrow> ledger \<Rightarrow> js_error + bool" where
  "receipt_authority_current E ms now a L =
     (if \<not> reserved a then Inr False
      else case (find_resource L (ar_tenant a) (ar_resource a), find_outbox L (ar_tenant a) (ar_operation a),
          find_proposal L (ar_tenant a) (ai_proposal (ar_id a))) of
        (Some r, Some b, Some p) \<Rightarrow> and_then (exact_intent E a b p) (\<lambda>exact. Inr (exact \<and> holds_receipt ms now a r p))
      | _ \<Rightarrow> Inr False)"

section \<open>Answers\<close>

record spend_answer =
  sa_outcome :: string
  sa_reason :: "string option"
  sa_replay :: "string option"
  sa_digest :: string
  sa_receipt :: "receipt_row option"
  sa_outbox :: "outbox_row option"
  sa_current :: bool
  sa_fresh :: bool \<comment> \<open>\<open>requiresFreshAuthorization === true\<close>\<close>
  sa_durable :: bool \<comment> \<open>\<open>durableMutation !== false\<close>\<close>

text \<open>A denial that writes nothing, and one with its receipt.\<close>

definition unwritten :: "spend_request \<Rightarrow> string \<Rightarrow> spend_answer" where
  "unwritten q reason = \<lparr>sa_outcome = ''authorization_denied'', sa_reason = Some reason, sa_replay = None, sa_digest = sq_digest q,
     sa_receipt = None, sa_outbox = None, sa_current = False, sa_fresh = False, sa_durable = False\<rparr>"

definition written :: "spend_request \<Rightarrow> string \<Rightarrow> string option \<Rightarrow> receipt_row \<Rightarrow> spend_answer" where
  "written q outcome reason a = \<lparr>sa_outcome = outcome, sa_reason = reason, sa_replay = None, sa_digest = sq_digest q,
     sa_receipt = Some a, sa_outbox = None, sa_current = False, sa_fresh = False, sa_durable = True\<rparr>"

text \<open>The \<open>replay\<close> of \<open>#existingReceipt\<close>.\<close>

definition replay_receipt :: "jsenv \<Rightarrow> (int \<Rightarrow> int) \<Rightarrow> int \<Rightarrow> spend_request \<Rightarrow> string \<Rightarrow> receipt_row \<Rightarrow> ledger \<Rightarrow> store_error + spend_answer" where
  "replay_receipt E ms now q how a L =
     (if \<not> reserved a then Inr
        \<lparr>sa_outcome = ''authorization_denied'',
         sa_reason = Some (case ar_reason a of None \<Rightarrow> ''explicit_new_authorization_required'' | Some why \<Rightarrow> why),
         sa_replay = Some how, sa_digest = sq_digest q, sa_receipt = Some a, sa_outbox = None, sa_current = False, sa_fresh = True,
         sa_durable = True\<rparr>
      else
        and_then (js_call (receipt_authority_current E ms now a L)) (\<lambda>cur. Inr
        \<lparr>sa_outcome = how, sa_reason = None, sa_replay = None, sa_digest = sq_digest q, sa_receipt = Some a, sa_outbox = None,
         sa_current = cur, sa_fresh = \<not> cur, sa_durable = True\<rparr>))"

definition existing_receipt :: "jsenv \<Rightarrow> (int \<Rightarrow> int) \<Rightarrow> int \<Rightarrow> spend_request \<Rightarrow> ledger \<Rightarrow> store_error + spend_answer option" where
  "existing_receipt E ms now q L =
     (case filter (\<lambda>a. receipt_key a = (sq_tenant q, sq_operation q)) (receipts L) of
        a # others \<Rightarrow>
          if others \<noteq> [] then Inl (Invariant ''operation ID matched multiple authority receipts'')
          else if ar_digest a \<noteq> sq_digest q then Inl (Operation_mismatch (sq_operation q))
          else if ar_outcome a = ''pending'' then Inl (Invariant ''committed pending receipt found'')
          else map_sum id Some (replay_receipt E ms now q ''operation_replay'' a L)
      | [] \<Rightarrow>
          (case spends L (sq_tenant q) (sq_action q) of
             a # others \<Rightarrow>
               if others \<noteq> [] then Inl (Invariant ''logical action matched multiple positive receipts'')
               else map_sum id Some (replay_receipt E ms now q ''logical_authority_replay'' a L)
           | [] \<Rightarrow>
               (case filter (\<lambda>a. receipt_digest_key a = (sq_tenant q, sq_digest q)) (receipts L) of
                  [] \<Rightarrow> Inr None
                | a # others \<Rightarrow>
                    if others \<noteq> [] then Inl (Invariant ''semantic digest matched multiple authority receipts'')
                    else if ar_outcome a = ''pending'' then Inl (Invariant ''committed pending receipt found'')
                    else map_sum id Some (replay_receipt E ms now q ''semantic_replay'' a L))))"

section \<open>Deciding on a pending receipt\<close>

definition opened_receipt :: "spend_request \<Rightarrow> authority_id \<Rightarrow> receipt_row" where
  "opened_receipt q i =
     \<lparr>ar_tenant = sq_tenant q, ar_operation = sq_operation q, ar_digest = sq_digest q, ar_payload = sq_request q, ar_id = i,
      ar_run = sq_run q, ar_incident = sq_incident q, ar_resource = sq_resource q, ar_agent = sq_agent q, ar_agency = sq_agency q,
      ar_evidence = sq_evidence q, ar_evidence_digest = None, ar_effect = sq_effect q, ar_payload_digest = sq_payload_digest q,
      ar_policy = sq_policy q, ar_outcome = ''pending'', ar_reason = None, ar_fence = None, ar_seen_holder = None,
      ar_seen_fence = None, ar_expires = None\<rparr>"

text \<open>The update of the pending receipt to \<open>a\<close>, and the denial it is answered with.\<close>

definition denied_as :: "spend_request \<Rightarrow> string option \<Rightarrow> receipt_row \<Rightarrow> ledger \<Rightarrow> store_error + ledger \<times> spend_answer" where
  "denied_as q reason a L = and_then (db_call (update_receipt a L)) (\<lambda>L'. Inr (L', written q (ar_outcome a) reason a))"

definition store_deny ::
    "spend_request \<Rightarrow> receipt_row \<Rightarrow> string \<Rightarrow> string option \<Rightarrow> ledger \<Rightarrow> store_error + ledger \<times> spend_answer" where
  "store_deny q a reason digest L = denied_as q (Some reason)
     (a\<lparr>ar_outcome := ''authorization_denied'', ar_reason := Some reason, ar_evidence_digest := digest\<rparr>) L"

definition store_deny_held ::
    "spend_request \<Rightarrow> receipt_row \<Rightarrow> string \<Rightarrow> resource_row \<Rightarrow> holder \<Rightarrow> ledger \<Rightarrow> store_error + ledger \<times> spend_answer" where
  "store_deny_held q a digest r h L = denied_as q None
     (a\<lparr>ar_outcome := ''resource_held_denied'', ar_reason := Some ''active_holder'', ar_evidence_digest := Some digest,
       ar_seen_holder := Some (ho_operation h), ar_seen_fence := Some (rs_fence r)\<rparr>) L"

text \<open>The condition of the update that takes the resource.\<close>

definition may_acquire :: "int \<Rightarrow> spend_request \<Rightarrow> receipt_row \<Rightarrow> resource_row \<Rightarrow> ledger \<Rightarrow> bool" where
  "may_acquire now q a r L \<longleftrightarrow> rs_run r = sq_run q \<and> rs_fence r < int8_max \<and> \<not> held now r \<and>
     list_ex (\<lambda>p. proposal_key p = (sq_tenant q, sq_proposal q) \<and> ai_key (pr_id p) = ai_key (ar_id a) \<and> pr_expires p > now) (proposals L)"

text \<open>\<open>finalAuthority\<close>: the one row of the join, in force at \<open>now\<close>.\<close>

definition final_authority :: "int \<Rightarrow> spend_request \<Rightarrow> int \<Rightarrow> ledger \<Rightarrow> bool" where
  "final_authority now q fence L \<longleftrightarrow>
     (case [(r, p). r \<leftarrow> resources L, a \<leftarrow> receipts L, p \<leftarrow> proposals L,
         resource_key r = (sq_tenant q, sq_resource q) \<and> rs_run r = sq_run q \<and> rs_fence r = fence \<and>
         (case rs_holder r of None \<Rightarrow> False | Some h \<Rightarrow> ho_operation h = sq_operation q \<and> receipt_key a = (rs_tenant r, ho_operation h)) \<and>
         reserved a \<and> pr_tenant p = ar_tenant a \<and> pr_id p = ar_id a] of
        [(r, p)] \<Rightarrow> held now r \<and> pr_expires p > now
      | _ \<Rightarrow> False)"

text \<open>The lease comes back from the update as a \<open>Date\<close>, and the receipt is written with that.\<close>

definition store_reserve ::
    "(int \<Rightarrow> int) \<Rightarrow> (nat \<Rightarrow> int) \<Rightarrow> spend_request \<Rightarrow> receipt_row \<Rightarrow> string \<Rightarrow> resource_row \<Rightarrow> ledger \<Rightarrow> store_error + ledger \<times> spend_answer" where
  "store_reserve ms t q a digest r L =
     (let fence = rs_fence r + 1; expires = t 4 + sq_lease q * 1000;
          a' = a\<lparr>ar_outcome := ''resource_reserved'', ar_evidence_digest := Some digest, ar_fence := Some fence,
            ar_expires := Some (ms expires * 1000)\<rparr> in
      and_then (db_call (update_receipt a'
          (L\<lparr>resources := update_where (\<lambda>s. resource_key s = (sq_tenant q, sq_resource q)) (acquired q a expires) (resources L)\<rparr>))) (\<lambda>L'.
      and_then (db_call (insert_outbox (intent q a fence) L')) (\<lambda>L''.
      Inr (L'', \<lparr>sa_outcome = ''resource_reserved'', sa_reason = None, sa_replay = None, sa_digest = sq_digest q, sa_receipt = Some a',
        sa_outbox = Some (intent q a fence), sa_current = final_authority (t 6) q fence L'', sa_fresh = \<not> final_authority (t 6) q fence L'',
        sa_durable = True\<rparr>))))"

text \<open>The resource could not be taken although nothing seemed to hold it.\<close>

definition acquisition_failed ::
    "jsenv \<Rightarrow> (int \<Rightarrow> int) \<Rightarrow> (nat \<Rightarrow> int) \<Rightarrow> jsv \<Rightarrow> receipt_row \<Rightarrow> string \<Rightarrow> ledger \<Rightarrow> store_error + ledger \<times> spend_answer" where
  "acquisition_failed E ms t r a digest L =
     and_then (bound_in E ms (t 5) r True L) (\<lambda>b.
     case b of
       Not_bound reason \<Rightarrow>
         if reason = ''proposal_authorization_expired'' then store_deny (spend_parameters r) a reason (Some digest) L
         else Inl (Invariant ''locked resource could not be acquired or denied deterministically'')
     | Bound _ _ _ \<Rightarrow> Inl (Invariant ''locked resource could not be acquired or denied deterministically''))"

definition take_resource ::
    "jsenv \<Rightarrow> (int \<Rightarrow> int) \<Rightarrow> (nat \<Rightarrow> int) \<Rightarrow> jsv \<Rightarrow> receipt_row \<Rightarrow> string \<Rightarrow> ledger \<Rightarrow> store_error + ledger \<times> spend_answer" where
  "take_resource E ms t r a digest L =
     (let q = spend_parameters r in
      case find_resource L (sq_tenant q) (sq_resource q) of
        None \<Rightarrow> store_deny q a ''resource_missing'' (Some digest) L
      | Some s \<Rightarrow>
          if rs_run s \<noteq> sq_run q then store_deny q a ''inactive_run'' (Some digest) L
          else case (case rs_holder s of None \<Rightarrow> None | Some h \<Rightarrow> if ms (ho_expires h) > ms (t 3) then Some h else None) of
            Some h \<Rightarrow> store_deny_held q a digest s h L
          | None \<Rightarrow>
              if may_acquire (t 4) q a s L then store_reserve ms t q a digest s L
              else acquisition_failed E ms t r a digest L)"

text \<open>The evidence of the request, with the reason the query gives it.\<close>

definition evidence_for :: "spend_request \<Rightarrow> ledger \<Rightarrow> evidence_row list" where
  "evidence_for q L = filter (\<lambda>e. evidence_key e = (sq_tenant q, sq_evidence q) \<and> ev_incident e = sq_incident q) (evidence_rows (evidence L))"

definition store_settle ::
    "jsenv \<Rightarrow> (int \<Rightarrow> int) \<Rightarrow> (nat \<Rightarrow> int) \<Rightarrow> jsv \<Rightarrow> receipt_row \<Rightarrow> ledger \<Rightarrow> store_error + ledger \<times> spend_answer" where
  "store_settle E ms t r a L =
     (let q = spend_parameters r in
      case evidence_for q L of
        [e] \<Rightarrow>
          let admissibility = admissibility_of (evidence L) (t 2) (sq_agency q) e in
          if admissibility \<noteq> ''admissible'' then store_deny q a admissibility None L
          else
            and_then (js_call (stored_evidence_digest E ms e)) (\<lambda>digest.
            if ev_digest e \<noteq> Some digest \<or> digest \<noteq> sq_evidence_digest q
            then store_deny q a ''selected_evidence_digest_mismatch'' None L
            else take_resource E ms t r a digest L)
      | _ \<Rightarrow> store_deny q a ''evidence_missing'' None L)"

section \<open>Spending\<close>

definition spend_new ::
    "jsenv \<Rightarrow> (int \<Rightarrow> int) \<Rightarrow> (nat \<Rightarrow> int) \<Rightarrow> jsv \<Rightarrow> authority_id \<Rightarrow> ledger \<Rightarrow> store_error + ledger \<times> spend_answer" where
  "spend_new E ms t r i L =
     (let q = spend_parameters r in
      and_then (db_call (insert_pending (opened_receipt q i) L)) (\<lambda>inserted.
      case inserted of
        None \<Rightarrow>
          and_then (existing_receipt E ms (t 1) q L) (\<lambda>existing.
          case existing of
            None \<Rightarrow> Inl (Invariant ''receipt conflict was not reconcilable by operation or digest'')
          | Some answer \<Rightarrow> Inr (L, answer))
      | Some L' \<Rightarrow> store_settle E ms t r (opened_receipt q i) L'))"

text \<open>From the lock of the epoch on, the request bound to its proposal.\<close>

definition spend_bound ::
    "jsenv \<Rightarrow> (int \<Rightarrow> int) \<Rightarrow> (nat \<Rightarrow> int) \<Rightarrow> jsv \<Rightarrow> bound_proposal \<Rightarrow> ledger \<Rightarrow> store_error + ledger \<times> spend_answer" where
  "spend_bound E ms t r b L =
     (let q = spend_parameters r in
      case find_epoch L (sq_tenant q) (sq_action q) of
        None \<Rightarrow> Inl (Invariant ''logical authority epoch lock was not singular'')
      | Some e \<Rightarrow>
          and_then (existing_receipt E ms (t 1) q L) (\<lambda>existing.
          case existing of
            Some answer \<Rightarrow> Inr (L, answer)
          | None \<Rightarrow>
              if ep_epoch e \<noteq> bp_epoch b then Inr (L, unwritten q ''proposal_authorization_superseded'')
              else if \<not> bp_current b then Inr (L, unwritten q ''proposal_authorization_expired'')
              else spend_new E ms t r (bound_identity q b) L))"

definition spend_work :: "jsenv \<Rightarrow> (int \<Rightarrow> int) \<Rightarrow> (nat \<Rightarrow> int) \<Rightarrow> jsv \<Rightarrow> ledger \<Rightarrow> store_error + ledger \<times> spend_answer" where
  "spend_work E ms t r L =
     and_then (bound_in E ms (t 0) r False L) (\<lambda>b.
     case b of
       Not_bound reason \<Rightarrow> Inr (L, unwritten (spend_parameters r) reason)
     | Bound _ _ _ \<Rightarrow> spend_bound E ms t r b L)"

definition store_spend :: "jsenv \<Rightarrow> (int \<Rightarrow> int) \<Rightarrow> (nat \<Rightarrow> int) \<Rightarrow> jsv \<Rightarrow> ledger \<Rightarrow> store_error + ledger \<times> spend_answer" where
  "store_spend E ms t inp L = and_then (js_call (normalize_request E inp)) (\<lambda>r. spend_work E ms t r L)"

section \<open>What the caller is told\<close>

definition committed_outcome :: "spend_answer \<Rightarrow> string" where
  "committed_outcome s = (case sa_receipt s of None \<Rightarrow> sa_outcome s | Some a \<Rightarrow> ar_outcome a)"

definition committed_digest :: "spend_answer \<Rightarrow> string" where
  "committed_digest s = (case sa_receipt s of None \<Rightarrow> sa_digest s | Some a \<Rightarrow> ar_digest a)"

definition committed_reason :: "spend_answer \<Rightarrow> string option" where
  "committed_reason s = (case sa_reason s of None \<Rightarrow> Option.bind (sa_receipt s) ar_reason | Some why \<Rightarrow> Some why)"

definition answer_fresh :: "spend_answer \<Rightarrow> bool" where
  "answer_fresh s \<longleftrightarrow> sa_fresh s \<or> \<not> sa_current s \<or> denied (committed_outcome s)"

text \<open>The \<open>commit\<close> member of the result; \<open>now\<close> is the time of the transaction as a text.\<close>

definition spend_commit :: "jsenv \<Rightarrow> string \<Rightarrow> jsv \<Rightarrow> spend_answer \<Rightarrow> js_error + commit_result" where
  "spend_commit E now r s =
     (if \<not> sa_durable s
      then non_durable_database_result E (Obj [(''operation'', Str ''authority''), (''operationDigest'', fld r ''requestDigest''),
        (''observation'', Str ''direct_ack''), (''databaseNow'', Str now), (''outcome'', Str (committed_outcome s)),
        (''reason'', driver_text (sa_reason s))])
      else committed_database_result E (Obj [(''operation'', Str ''authority''), (''operationDigest'', Str (committed_digest s)),
        (''observation'', Str ''direct_ack''), (''databaseNow'', Str now), (''outcome'', Str (committed_outcome s)),
        (''authorityCurrent'', Bool (sa_current s)), (''requiresFreshAuthorization'', Bool (answer_fresh s)),
        (''reason'', driver_text (committed_reason s))]))"

end
