(* ===== verification/Ledger_Effect.thy ===== *)
theory Ledger_Effect
  imports Ledger_Acquire
begin

text \<open>
  The protected effect (\<open>g1_record_protected_effect_v1\<close> of \<open>src/cloud/primary-security.js\<close>): the
  authority is joined together from the resource, its outbox intent, the receipt and the
  proposal, the row is written, and the authority is looked up once more before the call
  answers. Readings 0 to 2 of the clock belong to the first join, 3 follows it and 4 follows
  the second.
\<close>

record effect_request =
  fq_tenant :: string
  fq_effect :: string
  fq_operation :: string
  fq_digest :: string
  fq_run :: string
  fq_incident :: string
  fq_resource :: string
  fq_agent :: string
  fq_fence :: int
  fq_payload_digest :: string

type_synonym authority_rows = "resource_row \<times> outbox_row \<times> receipt_row \<times> proposal_row"

section \<open>The joins\<close>

definition holds_for :: "effect_request \<Rightarrow> resource_row \<Rightarrow> bool" where
  "holds_for f r \<longleftrightarrow> resource_key r = (fq_tenant f, fq_resource f) \<and> rs_run r = fq_run f \<and> rs_fence r = fq_fence f \<and>
     (case rs_holder r of None \<Rightarrow> False | Some h \<Rightarrow> ho_incident h = fq_incident f \<and> ho_operation h = fq_operation f \<and> ho_agent h = fq_agent f)"

definition joins_proposal :: "pg \<Rightarrow> outbox_row \<Rightarrow> proposal_row \<Rightarrow> bool" where
  "joins_proposal D b p \<longleftrightarrow> pr_tenant p = ob_tenant b \<and> pr_id p = ob_id b \<and> pr_run p = ob_run b \<and> pr_incident p = ob_incident b \<and>
     pr_resource p = ob_resource b \<and> pr_payload p = ob_payload b \<and> pr_payload_digest p = ob_payload_digest b \<and>
     pg_sha256 D (pr_canonical p) = ob_payload_digest b"

definition first_join :: "pg \<Rightarrow> effect_request \<Rightarrow> authority_rows \<Rightarrow> bool" where
  "first_join D f = (\<lambda>(r, b, a, p).
     holds_for f r \<and>
     ob_tenant b = rs_tenant r \<and> ob_operation b = fq_operation f \<and> ob_digest b = fq_digest f \<and> ob_run b = fq_run f \<and>
     ob_incident b = fq_incident f \<and> ob_resource b = fq_resource f \<and> ob_fence b = fq_fence f \<and> ob_effect b = fq_effect f \<and>
     ob_payload_digest b = fq_payload_digest f \<and>
     ar_tenant a = ob_tenant b \<and> ar_operation a = ob_operation b \<and> ar_id a = ob_id b \<and> ar_agent a = fq_agent f \<and> reserved a \<and>
     joins_proposal D b p \<and>
     (case rs_holder r of None \<Rightarrow> False | Some h \<Rightarrow> ho_proposal h = ai_proposal (ob_id b) \<and> ho_key h = ai_key (ob_id b)))"

definition second_join :: "pg \<Rightarrow> effect_request \<Rightarrow> authority_rows \<Rightarrow> bool" where
  "second_join D f = (\<lambda>(r, b, a, p).
     holds_for f r \<and>
     ar_tenant a = rs_tenant r \<and> ar_run a = rs_run r \<and> ar_resource a = rs_id r \<and> ar_fence a = Some (rs_fence r) \<and> reserved a \<and>
     (case rs_holder r of None \<Rightarrow> False | Some h \<Rightarrow> ar_operation a = ho_operation h \<and> ar_incident a = ho_incident h \<and>
        ar_agent a = ho_agent h \<and> ai_proposal (ar_id a) = ho_proposal h \<and> ai_key (ar_id a) = ho_key h) \<and>
     ob_tenant b = ar_tenant a \<and> ob_operation b = ar_operation a \<and> outbox_matches b a \<and>
     pr_tenant p = ar_tenant a \<and> pr_id p = ar_id a \<and> pr_run p = ar_run a \<and> pr_incident p = ar_incident a \<and> pr_resource p = ar_resource a \<and>
     pr_payload p = ob_payload b \<and> pr_payload_digest p = ob_payload_digest b \<and> pg_sha256 D (pr_canonical p) = ob_payload_digest b \<and>
     ar_digest a = fq_digest f \<and> ar_effect a = fq_effect f \<and> ar_payload_digest a = fq_payload_digest f)"

definition joined :: "(authority_rows \<Rightarrow> bool) \<Rightarrow> ledger \<Rightarrow> authority_rows list" where
  "joined match L = [(r, b, a, p). r \<leftarrow> resources L, b \<leftarrow> outbox L, a \<leftarrow> receipts L, p \<leftarrow> proposals L, match (r, b, a, p)]"

text \<open>A receipt, a holder and a proposal that are in force at the given times.\<close>

definition live :: "int \<Rightarrow> int \<Rightarrow> int \<Rightarrow> authority_rows \<Rightarrow> bool" where
  "live now_a now_r now_p = (\<lambda>(r, b, a, p).
     (case ar_expires a of None \<Rightarrow> False | Some x \<Rightarrow> x > now_a) \<and> held now_r r \<and> pr_expires p > now_p)"

text \<open>One row is found and it is in force at \<open>now\<close>.\<close>

definition single_live :: "int \<Rightarrow> authority_rows list \<Rightarrow> bool" where
  "single_live now rows \<longleftrightarrow> (case rows of [x] \<Rightarrow> live now now now x | _ \<Rightarrow> False)"

section \<open>Recording\<close>

definition effect_of :: "effect_request \<Rightarrow> authority_id \<Rightarrow> effect_row" where
  "effect_of f i =
     \<lparr>fx_tenant = fq_tenant f, fx_effect = fq_effect f, fx_operation = fq_operation f, fx_digest = fq_digest f, fx_id = i,
      fx_run = fq_run f, fx_incident = fq_incident f, fx_resource = fq_resource f, fx_agent = fq_agent f, fx_fence = fq_fence f,
      fx_payload_digest = fq_payload_digest f\<rparr>"

text \<open>\<open>ON CONFLICT DO NOTHING\<close>: \<open>None\<close> when a key is taken.\<close>

definition insert_effect :: "effect_row \<Rightarrow> ledger \<Rightarrow> sql_error + ledger option" where
  "insert_effect e L =
     (if \<not> effect_check e then sql_raise ''23514'' ''g1_protected_effects''
      else if clashes effect_keys e (effects L) then Inr None
      else Inr (Some (L\<lparr>effects := effects L @ [e]\<rparr>)))"

definition delete_effect :: "effect_request \<Rightarrow> ledger \<Rightarrow> ledger" where
  "delete_effect f L =
     L\<lparr>effects := filter (\<lambda>e. \<not> (fx_tenant e = fq_tenant f \<and> fx_effect e = fq_effect f \<and> fx_operation e = fq_operation f)) (effects L)\<rparr>"

definition record_effect ::
    "pg \<Rightarrow> string \<Rightarrow> (nat \<Rightarrow> int) \<Rightarrow> effect_request \<Rightarrow> ledger \<Rightarrow> sql_error + ledger \<times> (string \<times> string) option" where
  "record_effect D user clock f L =
     (if user \<noteq> ''tp_dispatch_user'' then sql_raise ''42501'' ''dispatch database session required''
      else
        case joined (\<lambda>x. first_join D f x \<and> live (clock 0) (clock 1) (clock 2) x) L of
          [(r, b, a, p)] \<Rightarrow>
            if \<not> live (clock 3) (clock 3) (clock 3) (r, b, a, p) then Inr (L, None)
            else and_then (insert_effect (effect_of f (ob_id b)) L) (\<lambda>inserted.
              case inserted of
                None \<Rightarrow> Inr (L, None)
              | Some L' \<Rightarrow>
                  if \<not> single_live (clock 4) (joined (second_join D f) L') then Inr (delete_effect f L', None)
                  else Inr (L', Some (fq_effect f, fq_operation f)))
        | _ \<Rightarrow> Inr (L, None))"

end
