(* ===== verification/Store_Effect.thy ===== *)
theory Store_Effect
  imports Store_Spend Ledger_Effect
begin

text \<open>
  Recording a protected effect in the store's own transaction (\<open>recordProtectedEffect\<close> of
  \<open>src/cloud/authority-store.js\<close>) on the tables of the ledger: one row of resource, intent,
  receipt and proposal carries the insert, an effect recorded before is answered, and the new
  row is taken back when the authority has expired. The timed statements are numbered: 0 the
  proposal, 1 the insert and 2 the last check.
\<close>

section \<open>The request\<close>

text \<open>\<open>/^[1-9][0-9]*$/\<close> on the fence, given as any value.\<close>

definition fence_argument :: "jsenv \<Rightarrow> jsv \<Rightarrow> js_error + string" where
  "fence_argument E v =
     and_then (store_text (Str (js_string E v)) ''fencingToken'') (\<lambda>s.
     if positive_decimal s then Inr s else Inl (TypeErr ''fencingToken must be a positive INT8 value''))"

section \<open>Answers\<close>

datatype effect_answer =
    Effect_denied (ea_reason: "string option") \<comment> \<open>\<open>stale_or_unauthorized_fence_denied\<close>\<close>
  | Effect_known (ea_replay: "string option") (ea_effect: effect_row) \<comment> \<open>\<open>effect_already_recorded\<close>\<close>
  | Effect_recorded (ea_effect: effect_row) \<comment> \<open>\<open>protected_effect_recorded\<close>\<close>

section \<open>Effects recorded before\<close>

definition effects_for :: "spend_request \<Rightarrow> ledger \<Rightarrow> effect_row list" where
  "effects_for q L = filter (\<lambda>e. fx_tenant e = sq_tenant q \<and>
     (fx_effect e = sq_effect q \<or> fx_operation e = sq_operation q \<or> ai_action (fx_id e) = sq_action q)) (effects L)"

text \<open>The answer to one found; \<open>how\<close> is the kind of replay when action and payload agree.\<close>

definition known_effect :: "spend_request \<Rightarrow> string \<Rightarrow> string \<Rightarrow> effect_row \<Rightarrow> store_error + effect_answer" where
  "known_effect q fence how e =
     (if ai_action (fx_id e) = sq_action q \<and> fx_payload_digest e = sq_payload_digest q then Inr (Effect_known (Some how) e)
      else if fx_effect e \<noteq> sq_effect q \<or> fx_operation e \<noteq> sq_operation q \<or> fx_digest e \<noteq> sq_digest q \<or>
        int_str (fx_fence e) \<noteq> fence \<or> fx_payload_digest e \<noteq> sq_payload_digest q
      then Inl (Effect_mismatch (sq_effect q))
      else Inr (Effect_known None e))"

definition known_effects :: "spend_request \<Rightarrow> string \<Rightarrow> (effect_row \<Rightarrow> string) \<Rightarrow> ledger \<Rightarrow> store_error + effect_answer option" where
  "known_effects q fence how L =
     (case effects_for q L of
        [] \<Rightarrow> Inr None
      | e # others \<Rightarrow>
          if others \<noteq> [] then Inl (Invariant ''effect key and operation matched different effects'')
          else map_sum id Some (known_effect q fence (how e) e))"

section \<open>The insert\<close>

text \<open>The rows the insert selects from, for the bound identity and the fence of the caller.\<close>

definition effect_join :: "pg \<Rightarrow> int \<Rightarrow> spend_request \<Rightarrow> authority_id \<Rightarrow> int \<Rightarrow> authority_rows \<Rightarrow> bool" where
  "effect_join D now q i fence = (\<lambda>(r, b, a, p).
     ob_tenant b = rs_tenant r \<and> ob_operation b = sq_operation q \<and> ob_digest b = sq_digest q \<and> ob_id b = i \<and> ob_run b = sq_run q \<and>
     ob_incident b = sq_incident q \<and> ob_resource b = sq_resource q \<and> ob_fence b = fence \<and> ob_effect b = sq_effect q \<and>
     ob_payload_digest b = sq_payload_digest q \<and>
     ar_tenant a = ob_tenant b \<and> ar_operation a = ob_operation b \<and> ar_id a = i \<and> ar_agent a = sq_agent q \<and> reserved a \<and>
     pr_tenant p = ob_tenant b \<and> pr_id p = ob_id b \<and> pr_run p = ob_run b \<and> pr_incident p = ob_incident b \<and> pr_resource p = ob_resource b \<and>
     pr_payload p = ob_payload b \<and> pr_payload_digest p = ob_payload_digest b \<and>
     resource_key r = (sq_tenant q, sq_resource q) \<and> rs_run r = sq_run q \<and> rs_fence r = fence \<and>
     (case rs_holder r of None \<Rightarrow> False | Some h \<Rightarrow> ho_incident h = sq_incident q \<and> ho_operation h = sq_operation q \<and>
        ho_agent h = sq_agent q \<and> ho_proposal h = sq_proposal q \<and> ho_key h = ai_key i) \<and>
     pg_sha256 D (pr_canonical p) = ob_payload_digest b \<and> held now r \<and> pr_expires p > now)"

definition protected_effect :: "spend_request \<Rightarrow> authority_id \<Rightarrow> int \<Rightarrow> effect_row" where
  "protected_effect q i fence =
     \<lparr>fx_tenant = sq_tenant q, fx_effect = sq_effect q, fx_operation = sq_operation q, fx_digest = sq_digest q, fx_id = i,
      fx_run = sq_run q, fx_incident = sq_incident q, fx_resource = sq_resource q, fx_agent = sq_agent q, fx_fence = fence,
      fx_payload_digest = sq_payload_digest q\<rparr>"

definition remove_effect :: "spend_request \<Rightarrow> ledger \<Rightarrow> ledger" where
  "remove_effect q L =
     L\<lparr>effects := filter (\<lambda>e. \<not> (fx_tenant e = sq_tenant q \<and> fx_effect e = sq_effect q \<and> fx_operation e = sq_operation q)) (effects L)\<rparr>"

text \<open>However many rows are selected, one row is inserted: a second one would have the same keys.\<close>

definition insert_protected ::
    "pg \<Rightarrow> int \<Rightarrow> spend_request \<Rightarrow> authority_id \<Rightarrow> int \<Rightarrow> ledger \<Rightarrow> sql_error + ledger option" where
  "insert_protected D now q i fence L =
     (if fence > int8_max then sql_raise ''22003'' ''INT8''
      else if joined (effect_join D now q i fence) L = [] then Inr None
      else insert_effect (protected_effect q i fence) L)"

text \<open>The fence is a decimal text, read by the cast to an eight-byte integer.\<close>

definition decimal_value :: "string \<Rightarrow> int" where
  "decimal_value s = foldl (\<lambda>n c. 10 * n + (of_char c - 48)) 0 s"

definition effect_insert ::
    "pg \<Rightarrow> (nat \<Rightarrow> int) \<Rightarrow> spend_request \<Rightarrow> authority_id \<Rightarrow> string \<Rightarrow> ledger \<Rightarrow> store_error + ledger \<times> effect_answer" where
  "effect_insert D t q i fence L =
     (let n = decimal_value fence in
      and_then (db_call (insert_protected D (t 1) q i n L)) (\<lambda>inserted.
      case inserted of
        None \<Rightarrow>
          and_then (known_effects q fence (\<lambda>_. ''logical_authority_replay'') L) (\<lambda>raced.
          Inr (L, case raced of Some answer \<Rightarrow> answer | None \<Rightarrow> Effect_denied None))
      | Some L' \<Rightarrow>
          if final_authority (t 2) q n L' then Inr (L', Effect_recorded (protected_effect q i n))
          else Inr (remove_effect q L', Effect_denied None)))"

definition effect_work ::
    "jsenv \<Rightarrow> pg \<Rightarrow> (int \<Rightarrow> int) \<Rightarrow> (nat \<Rightarrow> int) \<Rightarrow> jsv \<Rightarrow> string \<Rightarrow> ledger \<Rightarrow> store_error + ledger \<times> effect_answer" where
  "effect_work E D ms t r fence L =
     (let q = spend_parameters r in
      and_then (bound_in E ms (t 0) r True L) (\<lambda>b.
      case b of
        Not_bound reason \<Rightarrow> Inr (L, Effect_denied (Some reason))
      | Bound _ _ _ \<Rightarrow>
          and_then (known_effects q fence (\<lambda>e. if fx_operation e = sq_operation q then ''operation_replay'' else ''logical_authority_replay'') L) (\<lambda>known.
          case known of
            Some answer \<Rightarrow> Inr (L, answer)
          | None \<Rightarrow> effect_insert D t q (bound_identity q b) fence L)))"

definition store_record ::
    "jsenv \<Rightarrow> pg \<Rightarrow> (int \<Rightarrow> int) \<Rightarrow> (nat \<Rightarrow> int) \<Rightarrow> jsv \<Rightarrow> jsv \<Rightarrow> ledger \<Rightarrow> store_error + ledger \<times> effect_answer" where
  "store_record E D ms t inp agent L =
     and_then (js_call (normalize_request E inp)) (\<lambda>r.
     and_then (js_call (store_text agent ''authenticatedAgentId'')) (\<lambda>actor.
     if Str actor \<noteq> fld r ''agentId'' then Inr (L, Effect_denied None)
     else
       and_then (js_call (fence_argument E (fld inp ''fencingToken''))) (\<lambda>fence. effect_work E D ms t r fence L)))"

end
