(* ===== verification/Ledger_Change.thy ===== *)
theory Ledger_Change
  imports Ledger_Effect Evidence_Props
begin

text \<open>
  What the operations of the ledger do to its tables. A spend that returns leaves the tables
  alone, appends one denial, or makes a reservation: one new receipt, one new intent and the
  next fence of one resource, all under the conditions collected here.
\<close>

section \<open>A pending receipt is finished\<close>

lemma update_appended:
  assumes "\<not> taken every receipt_key (receipt_key a) (receipts L)" and "receipt_key b = receipt_key a"
  shows "update_receipt b (L\<lparr>receipts := receipts L @ [a]\<rparr>) = Inr L' \<longleftrightarrow>
    receipt_check b \<and> \<not> list_ex (spend_clash b) (receipts L) \<and> L' = L\<lparr>receipts := receipts L @ [b]\<rparr>"
proof -
  have "\<forall>c \<in> set (receipts L). receipt_key c \<noteq> receipt_key b"
    using assms by (auto simp: taken_iff)
  then have "update_where (\<lambda>c. receipt_key c = receipt_key b) (\<lambda>_. b) (receipts L @ [a]) = receipts L @ [b]"
    using assms(2) by (simp add: update_where_def map_idI)
  moreover have "\<not> spend_clash b a" using assms(2) by (simp add: spend_clash_def)
  ultimately show ?thesis by (auto simp: update_receipt_def)
qed

text \<open>One denial is appended.\<close>

definition refused_by_holder :: "receipt_row \<Rightarrow> ledger \<Rightarrow> bool" where
  "refused_by_holder a L \<longleftrightarrow> ar_reason a = Some ''active_holder'' \<and>
     (\<exists>r h. find_resource L (ar_tenant a) (ar_resource a) = Some r \<and> rs_run r = ar_run a \<and> rs_holder r = Some h \<and>
        ar_seen_holder a = Some (ho_operation h) \<and> ar_seen_fence a = Some (rs_fence r))"

definition denial :: "spend_request \<Rightarrow> receipt_row \<Rightarrow> ledger \<Rightarrow> ledger \<Rightarrow> bool" where
  "denial q a L L' \<longleftrightarrow> ar_outcome a \<in> {''authorization_denied'', ''resource_held_denied''} \<and> receipt_check a \<and>
     receipt_key a = (sq_tenant q, sq_operation q) \<and> receipt_digest_key a = (sq_tenant q, sq_digest q) \<and>
     \<not> taken every receipt_key (receipt_key a) (receipts L) \<and> \<not> taken every receipt_digest_key (receipt_digest_key a) (receipts L) \<and>
     ar_fence a = None \<and> (ar_outcome a = ''resource_held_denied'' \<longrightarrow> refused_by_holder a L) \<and>
     L' = L\<lparr>receipts := receipts L @ [a]\<rparr>"

text \<open>The receipt of a reservation.\<close>

definition reserving :: "spend_request \<Rightarrow> proposal_row \<Rightarrow> int \<Rightarrow> int \<Rightarrow> receipt_row" where
  "reserving q p fence expires = (pending_receipt q p)
     \<lparr>ar_outcome := ''resource_reserved'', ar_evidence_digest := Some (sq_evidence_digest q), ar_fence := Some fence, ar_expires := Some expires\<rparr>"

definition reserved_tables :: "spend_request \<Rightarrow> proposal_row \<Rightarrow> resource_row \<Rightarrow> int \<Rightarrow> ledger \<Rightarrow> ledger" where
  "reserved_tables q p r now L =
     (let fence = rs_fence r + 1; expires = now + sq_lease q * 1000; a = reserving q p fence expires in
      L\<lparr>receipts := receipts L @ [a],
        resources := update_where (\<lambda>s. resource_key s = (sq_tenant q, sq_resource q)) (acquired q a expires) (resources L),
        outbox := outbox L @ [intent q a fence]\<rparr>)"

text \<open>What a reservation at time \<open>now\<close> rests on.\<close>

definition authorized :: "pg \<Rightarrow> string \<Rightarrow> int \<Rightarrow> int \<Rightarrow> spend_request \<Rightarrow> proposal_row \<Rightarrow> resource_row \<Rightarrow> ledger \<Rightarrow> bool" where
  "authorized D user t now q p r L \<longleftrightarrow>
     user \<in> set authorizers \<and> digests_shaped q \<and> lease_length_ok (sq_lease q) \<and> request_bound D q \<and>
     (sq_lease q > 600000 \<longrightarrow> pr_expires p - pr_admitted p = 1800000000) \<and>
     proposal_for q L = Some p \<and> digests_derived D q p \<and>
     (\<exists>e. find_epoch L (sq_tenant q) (sq_action q) = Some e \<and> ep_epoch e = ai_epoch (pr_id p)) \<and>
     spends L (sq_tenant q) (sq_action q) = [] \<and>
     admission user t q L = (''admissible'', Some (sq_evidence_digest q)) \<and> pr_expires p > now \<and>
     find_resource L (sq_tenant q) (sq_resource q) = Some r \<and> rs_run r = sq_run q \<and> \<not> held now r"

definition reservation ::
    "pg \<Rightarrow> string \<Rightarrow> int \<Rightarrow> int \<Rightarrow> spend_request \<Rightarrow> proposal_row \<Rightarrow> resource_row \<Rightarrow> ledger \<Rightarrow> ledger \<Rightarrow> bool" where
  "reservation D user t now q p r L L' \<longleftrightarrow> authorized D user t now q p r L \<and> rs_fence r < int8_max \<and>
     (let a = reserving q p (rs_fence r + 1) (now + sq_lease q * 1000) in
      receipt_check a \<and> \<not> list_ex (spend_clash a) (receipts L) \<and>
      \<not> taken every receipt_key (receipt_key a) (receipts L) \<and> \<not> taken every receipt_digest_key (receipt_digest_key a) (receipts L) \<and>
      outbox_check (intent q a (rs_fence r + 1)) \<and> \<not> clashes outbox_keys (intent q a (rs_fence r + 1)) (outbox L)) \<and>
     L' = reserved_tables q p r now L"

section \<open>What a spend does\<close>

definition fresh :: "spend_decision \<Rightarrow> bool" where
  "fresh d \<longleftrightarrow> dc_outcome d = ''resource_reserved'' \<and> dc_replay d = None"

lemma not_fresh [simp]: "\<not> fresh (spend_denied q i ''authorization_denied'' reason now)"
    "\<not> fresh (spend_denied q i ''resource_held_denied'' reason now)"
  by (simp_all add: fresh_def spend_denied_def)

lemma denied_not_granted [simp]: "spend_denied q i outcome reason now \<noteq> spend_granted q' i' fence expires now'"
  by (simp add: spend_denied_def spend_granted_def)

lemma fresh_granted [simp]: "fresh (spend_granted q i fence expires now)"
  by (simp add: fresh_def spend_granted_def)

lemma replayed_not_fresh: "replayed D user clock L how a = Inr d \<Longrightarrow> \<not> fresh d"
  by (auto simp: replayed_def fresh_def and_then_eq_Inr split: prod.splits)

lemma earlier_not_fresh: "earlier_answer D user clock q L = Some (Inr d) \<Longrightarrow> \<not> fresh d"
  by (auto simp: earlier_answer_def split: option.splits list.splits if_splits dest: replayed_not_fresh)

lemma conflict_not_fresh: "conflict_answer D user clock q p L = Inr d \<Longrightarrow> \<not> fresh d"
  by (auto simp: conflict_answer_def Let_def split: list.splits if_splits dest: replayed_not_fresh)

lemma unchanged_Inr [simp]: "unchanged L r = Inr (L', d) \<longleftrightarrow> L' = L \<and> r = Inr d"
  by (auto simp: unchanged_def and_then_eq_Inr)

text \<open>The new receipt as it is inserted.\<close>

lemma pending_keys [simp]:
  "receipt_key (pending_receipt q p) = (sq_tenant q, sq_operation q)"
  "receipt_digest_key (pending_receipt q p) = (sq_tenant q, sq_digest q)"
  "ar_fence (pending_receipt q p) = None" "ar_tenant (pending_receipt q p) = sq_tenant q" "ar_resource (pending_receipt q p) = sq_resource q"
  "ar_run (pending_receipt q p) = sq_run q"
  by (simp_all add: receipt_key_def receipt_digest_key_def pending_receipt_def)

lemma insert_pending_Some: "insert_pending a L = Inr (Some L') \<longleftrightarrow> receipt_check a \<and>
    \<not> taken every receipt_key (receipt_key a) (receipts L) \<and> \<not> taken every receipt_digest_key (receipt_digest_key a) (receipts L) \<and>
    L' = L\<lparr>receipts := receipts L @ [a]\<rparr>"
  by (auto simp: insert_pending_def)

lemma insert_pending_None: "insert_pending a L = Inr None \<longleftrightarrow> receipt_check a \<and>
    (taken every receipt_key (receipt_key a) (receipts L) \<or> taken every receipt_digest_key (receipt_digest_key a) (receipts L))"
  by (auto simp: insert_pending_def)

lemma deny_denial:
  assumes "insert_pending (pending_receipt q p) L = Inr (Some L1)"
    and "deny q (pending_receipt q p) reason digest now L1 = Inr (L', d)"
  shows "(\<exists>a. denial q a L L') \<and> \<not> fresh d"
proof -
  let ?a = "(pending_receipt q p)\<lparr>ar_outcome := ''authorization_denied'', ar_reason := Some reason, ar_evidence_digest := digest\<rparr>"
  have k: "receipt_key ?a = (sq_tenant q, sq_operation q)" "receipt_digest_key ?a = (sq_tenant q, sq_digest q)"
    by (simp_all add: receipt_key_def receipt_digest_key_def pending_receipt_def)
  from assms(1) have p: "\<not> taken every receipt_key (receipt_key (pending_receipt q p)) (receipts L)"
      "\<not> taken every receipt_digest_key (sq_tenant q, sq_digest q) (receipts L)" "L1 = L\<lparr>receipts := receipts L @ [pending_receipt q p]\<rparr>"
    by (simp_all add: insert_pending_Some)
  from assms(2) have "receipt_check ?a" "L' = L\<lparr>receipts := receipts L @ [?a]\<rparr>" "\<not> fresh d"
    using update_appended [OF p(1), of ?a L'] k unfolding p(3) deny_def by (auto simp: and_then_eq_Inr)
  then have "denial q ?a L L'" using p k by (simp add: denial_def)
  with \<open>\<not> fresh d\<close> show ?thesis by blast
qed

lemma deny_held_denial:
  assumes "insert_pending (pending_receipt q p) L = Inr (Some L1)"
    and "deny_held q (pending_receipt q p) r h digest now L1 = Inr (L', d)"
    and "find_resource L1 (sq_tenant q) (sq_resource q) = Some r" and "rs_run r = sq_run q" and "rs_holder r = Some h"
  shows "(\<exists>a. denial q a L L') \<and> \<not> fresh d"
proof -
  let ?a = "(pending_receipt q p)\<lparr>ar_outcome := ''resource_held_denied'', ar_reason := Some ''active_holder'', ar_evidence_digest := digest,
    ar_seen_holder := Some (ho_operation h), ar_seen_fence := Some (rs_fence r)\<rparr>"
  have k: "receipt_key ?a = (sq_tenant q, sq_operation q)" "receipt_digest_key ?a = (sq_tenant q, sq_digest q)"
    by (simp_all add: receipt_key_def receipt_digest_key_def pending_receipt_def)
  from assms(1) have p: "\<not> taken every receipt_key (receipt_key (pending_receipt q p)) (receipts L)"
      "\<not> taken every receipt_digest_key (sq_tenant q, sq_digest q) (receipts L)" "L1 = L\<lparr>receipts := receipts L @ [pending_receipt q p]\<rparr>"
    by (simp_all add: insert_pending_Some)
  from assms(2) have "receipt_check ?a" "L' = L\<lparr>receipts := receipts L @ [?a]\<rparr>" "\<not> fresh d"
    using update_appended [OF p(1), of ?a L'] k unfolding p(3) deny_held_def by (auto simp: and_then_eq_Inr)
  moreover have "find_resource L (sq_tenant q) (sq_resource q) = Some r" using assms(3) p(3) by (simp add: find_resource_def)
  ultimately have "denial q ?a L L'" using p k assms(4,5) by (simp add: denial_def refused_by_holder_def)
  with \<open>\<not> fresh d\<close> show ?thesis by blast
qed

lemma reserve_changes:
  assumes "insert_pending (pending_receipt q p) L = Inr (Some L1)"
    and "reserve q (pending_receipt q p) r digest now L1 = Inr (L', d)" and "\<not> known_differs digest (sq_evidence_digest q)"
  defines "a \<equiv> reserving q p (rs_fence r + 1) (now + sq_lease q * 1000)"
  shows "digest = Some (sq_evidence_digest q) \<and> receipt_check a \<and> \<not> list_ex (spend_clash a) (receipts L) \<and>
    outbox_check (intent q a (rs_fence r + 1)) \<and> \<not> clashes outbox_keys (intent q a (rs_fence r + 1)) (outbox L) \<and>
    L' = reserved_tables q p r now L \<and> d = spend_granted q (pr_id p\<lparr>ai_proposal := sq_proposal q, ai_action := sq_action q\<rparr>) (rs_fence r + 1) (now + sq_lease q * 1000) now"
proof -
  let ?b = "(pending_receipt q p)\<lparr>ar_outcome := ''resource_reserved'', ar_evidence_digest := digest, ar_fence := Some (rs_fence r + 1),
    ar_expires := Some (now + sq_lease q * 1000)\<rparr>"
  have k: "receipt_key ?b = receipt_key (pending_receipt q p)" by (simp add: receipt_key_def)
  from assms(1) have p: "\<not> taken every receipt_key (receipt_key (pending_receipt q p)) (receipts L)"
      "L1 = L\<lparr>receipts := receipts L @ [pending_receipt q p]\<rparr>"
    by (simp_all add: insert_pending_Some)
  let ?rs = "update_where (\<lambda>s. resource_key s = (sq_tenant q, sq_resource q))
    (acquired q (pending_receipt q p) (now + sq_lease q * 1000)) (resources L)"
  have same: "acquired q (pending_receipt q p) e = acquired q a e" for e
    by (simp add: acquired_def a_def reserving_def fun_eq_iff)
  have id: "ar_id (pending_receipt q p) = pr_id p\<lparr>ai_proposal := sq_proposal q, ai_action := sq_action q\<rparr>" by (simp add: pending_receipt_def)
  from assms(2) obtain L2 where u: "update_receipt ?b (L\<lparr>receipts := receipts L @ [pending_receipt q p], resources := ?rs\<rparr>) = Inr L2"
      "insert_outbox (intent q (pending_receipt q p) (rs_fence r + 1)) L2 = Inr L'"
      "d = spend_granted q (ar_id (pending_receipt q p)) (rs_fence r + 1) (now + sq_lease q * 1000) now"
    unfolding reserve_def Let_def p(2) by (auto simp: and_then_eq_Inr)
  have swap: "L\<lparr>receipts := x, resources := y\<rparr> = L\<lparr>resources := y, receipts := x\<rparr>" for x y by (cases L) simp
  from u(1) have b: "receipt_check ?b" "\<not> list_ex (spend_clash ?b) (receipts L)" "L2 = L\<lparr>resources := ?rs, receipts := receipts L @ [?b]\<rparr>"
    using update_appended [of "pending_receipt q p" "L\<lparr>resources := ?rs\<rparr>" ?b L2] p(1) k by (auto simp: swap)
  from b(1) have "digest \<noteq> None" by (auto simp: receipt_check_def reserved_def)
  with assms(3) have digest: "digest = Some (sq_evidence_digest q)" by (cases digest) auto
  then have ba: "?b = a" by (simp add: a_def reserving_def)
  have ia: "intent q (pending_receipt q p) f = intent q a f" for f by (simp add: intent_def a_def reserving_def)
  from u(2) show ?thesis
    unfolding u(3) ia insert_outbox_def b(3) ba reserved_tables_def Let_def a_def [symmetric] id
    using digest b(1,2) ba by (auto simp: same swap split: if_splits)
qed

text \<open>What is left of a settled spend, the guards of the call aside.\<close>

definition won :: "string \<Rightarrow> int \<Rightarrow> int \<Rightarrow> spend_request \<Rightarrow> proposal_row \<Rightarrow> resource_row \<Rightarrow> ledger \<Rightarrow> ledger \<Rightarrow> spend_decision \<Rightarrow> bool" where
  "won user t now q p r L L' d \<longleftrightarrow>
     admission user t q L = (''admissible'', Some (sq_evidence_digest q)) \<and> pr_expires p > now \<and>
     find_resource L (sq_tenant q) (sq_resource q) = Some r \<and> rs_run r = sq_run q \<and> \<not> held now r \<and> rs_fence r < int8_max \<and>
     (let a = reserving q p (rs_fence r + 1) (now + sq_lease q * 1000) in
      receipt_check a \<and> \<not> list_ex (spend_clash a) (receipts L) \<and>
      outbox_check (intent q a (rs_fence r + 1)) \<and> \<not> clashes outbox_keys (intent q a (rs_fence r + 1)) (outbox L)) \<and>
     L' = reserved_tables q p r now L \<and>
     d = spend_granted q (pr_id p\<lparr>ai_proposal := sq_proposal q, ai_action := sq_action q\<rparr>) (rs_fence r + 1) (now + sq_lease q * 1000) now"

lemma settle_result:
  assumes "insert_pending (pending_receipt q p) L = Inr (Some L1)" and "settle user t clock q p (pending_receipt q p) L1 = Inr (L', d)"
  shows "(\<exists>a. denial q a L L') \<and> \<not> fresh d \<or> (\<exists>r. won user t (clock 2) q p r L L' d)"
proof (cases "\<exists>r digest. reserve q (pending_receipt q p) r digest (clock 2) L1 = Inr (L', d) \<and> \<not> known_differs digest (sq_evidence_digest q) \<and>
    admission user t q L1 = (''admissible'', digest) \<and> find_resource L1 (sq_tenant q) (sq_resource q) = Some r \<and>
    rs_run r = sq_run q \<and> pr_expires p > clock 2 \<and> can_acquire (clock 2) (clock 3) q (pending_receipt q p) r L1")
  case True
  then obtain r digest where r: "reserve q (pending_receipt q p) r digest (clock 2) L1 = Inr (L', d)" "\<not> known_differs digest (sq_evidence_digest q)"
      "admission user t q L1 = (''admissible'', digest)" "find_resource L1 (sq_tenant q) (sq_resource q) = Some r"
      "rs_run r = sq_run q" "pr_expires p > clock 2" "can_acquire (clock 2) (clock 3) q (pending_receipt q p) r L1"
    by blast
  have L1: "L1 = L\<lparr>receipts := receipts L @ [pending_receipt q p]\<rparr>" using assms(1) by (simp add: insert_pending_Some)
  have same: "admission user t q L1 = admission user t q L" "find_resource L1 = find_resource L"
    by (simp_all add: L1 admission_def find_resource_def fun_eq_iff)
  from r reserve_changes [OF assms(1) r(1,2)] have "won user t (clock 2) q p r L L' d"
    by (simp add: won_def same can_acquire_def Let_def)
  then show ?thesis by blast
next
  case False
  with assms(2) have "\<exists>reason digest now h r. deny q (pending_receipt q p) reason digest now L1 = Inr (L', d) \<or>
      deny_held q (pending_receipt q p) r h digest now L1 = Inr (L', d) \<and> find_resource L1 (sq_tenant q) (sq_resource q) = Some r \<and>
      rs_run r = sq_run q \<and> rs_holder r = Some h"
    unfolding settle_def by (simp split: prod.splits option.splits if_splits) blast+
  then show ?thesis using deny_denial [OF assms(1)] deny_held_denial [OF assms(1)] by blast
qed

text \<open>Every spend that returns.\<close>

lemma spend_result:
  assumes "spend_authority D user t clock q L = Inr (L', d)"
  shows "L' = L \<and> \<not> fresh d \<or> (\<exists>a. denial q a L L') \<and> \<not> fresh d \<or>
    (\<exists>p r. reservation D user t (clock 2) q p r L L' \<and> won user t (clock 2) q p r L L' d)"
proof (cases "\<exists>p. proposal_for q L = Some p \<and> earlier_answer D user clock q L = None \<and> spend_fresh D user t clock q p L = Inr (L', d)")
  case False
  with assms show ?thesis
    unfolding spend_authority_def
    by (auto split: option.split_asm if_split_asm dest: earlier_not_fresh)
next
  case True
  then obtain p where p: "proposal_for q L = Some p" "earlier_answer D user clock q L = None" "spend_fresh D user t clock q p L = Inr (L', d)"
    by blast
  from p(3) consider "L' = L" "\<not> fresh d"
    | L1 where "insert_pending (pending_receipt q p) L = Inr (Some L1)" "settle user t clock q p (pending_receipt q p) L1 = Inr (L', d)"
    by (auto simp: spend_fresh_def and_then_eq_Inr split: option.split_asm dest: conflict_not_fresh)
  then show ?thesis
  proof cases
    case 2
    from settle_result [OF 2] show ?thesis
    proof
      assume "\<exists>r. won user t (clock 2) q p r L L' d"
      then obtain r where r: "won user t (clock 2) q p r L L' d" ..
      have none: "find_receipt L (sq_tenant q) (sq_operation q) = None" "spends L (sq_tenant q) (sq_action q) = []"
        using p(2) by (auto simp: earlier_answer_def split: option.splits list.splits if_splits)
      have keys: "receipt_key (reserving q p f x) = (sq_tenant q, sq_operation q)" "receipt_digest_key (reserving q p f x) = (sq_tenant q, sq_digest q)" for f x
        by (simp_all add: reserving_def receipt_key_def receipt_digest_key_def pending_receipt_def)
      from assms p 2(1) r none have "reservation D user t (clock 2) q p r L L'"
        unfolding reservation_def authorized_def won_def Let_def spend_authority_def insert_pending_Some
        by (simp add: keys split: option.split_asm if_split_asm)
      with r show ?thesis by blast
    qed blast
  qed blast
qed

end
