(* ===== verification/Ledger_Digest.thy ===== *)
theory Ledger_Digest
  imports Ledger_Spend Authority_Request_Props
begin

text \<open>
  The client and the database derive the digests of an authority request independently: the
  client hashes the canonical JSON of objects (\<open>src/cloud/authority-identity.js\<close>,
  \<open>src/cloud/authority-store.js\<close>), the database concatenates texts from its own columns
  (\<open>src/cloud/primary-security.js\<close>). Here both are shown to hash the same texts.
\<close>

section \<open>Canonical text, field by field\<close>

lemma canonical_fields:
  assumes "distinct (map fst kvs)" and "js_sort compare_canonical_keys (map fst kvs) = ks"
  shows "cloud_canonical_json E (Obj kvs)
    = ''{'' @ join '','' (map (\<lambda>k. quote k @ '':'' @ cloud_canonical_json E (fld (Obj kvs) k)) ks) @ ''}''"
proof -
  let ?f = "\<lambda>k. (k, fld (Obj kvs) k)"
  have "kvs = map ?f (map fst kvs)"
    using assms(1) by (auto intro!: map_idI [symmetric] simp: map_of_is_SomeI)
  then have "js_sort (\<lambda>a b. compare_canonical_keys (fst a) (fst b)) kvs = map ?f ks"
    using js_sort_map [of "\<lambda>a b. compare_canonical_keys (fst a) (fst b)" ?f "map fst kvs"] assms(2) by simp
  then show ?thesis by (simp add: cloud_canonical_json_def comp_def)
qed

lemma plain_quote: "list_all (\<lambda>c. esc c = [c]) s \<Longrightarrow> quote s = CHR 0x22 # s @ [CHR 0x22]"
proof -
  have "list_all (\<lambda>c. esc c = [c]) s \<Longrightarrow> concat (map esc s) = s" by (induction s) auto
  then show "list_all (\<lambda>c. esc c = [c]) s \<Longrightarrow> quote s = CHR 0x22 # s @ [CHR 0x22]" by (simp add: quote_def)
qed

lemma id_quote: "list_all id_char s \<Longrightarrow> quote s = CHR 0x22 # s @ [CHR 0x22]"
  by (rule plain_quote) (auto simp: list_all_iff esc_def Let_def dest!: id_char_code)

lemmas plain_quotes = id_quote [OF uuid_shape_id_text] id_quote [OF hex_64_id_text]

lemma canonical_Str [simp]: "cloud_canonical_json E (Str s) = quote s"
  by (simp add: cloud_canonical_json_def)

lemma canonical_int [simp]: "cloud_canonical_json E (int_num n) = int_str n"
  by (simp add: cloud_canonical_json_def)

lemma canonical_small: "cloud_canonical_json E (Num (Fin 1)) = ''1''" "cloud_canonical_json E (Num (Fin 2)) = ''2''"
proof -
  have "int_str 1 = ''1''" "int_str 2 = ''2''" by code_simp+
  then show "cloud_canonical_json E (Num (Fin 1)) = ''1''" "cloud_canonical_json E (Num (Fin 2)) = ''2''"
    using canonical_int [of E 1] canonical_int [of E 2] by simp_all
qed

lemma key_order:
  "js_sort compare_canonical_keys (''schemaVersion'' # logical_action_fields)
    = [''actionKind'', ''agency'', ''incidentId'', ''payloadDigest'', ''resourceId'', ''schemaVersion'', ''tenantId'']"
  "js_sort compare_canonical_keys (''schemaVersion'' # [''tenantId'', ''runId'', ''incidentId'', ''retrievalId'', ''logicalActionDigest'',
      ''authorityEvidenceBindingSha256'', ''selectedEvidenceId'', ''selectedEvidenceDigest'', ''policyVersion'', ''selectedRank'', ''admittedAt'', ''expiresAt''])
    = [''admittedAt'', ''authorityEvidenceBindingSha256'', ''expiresAt'', ''incidentId'', ''logicalActionDigest'', ''policyVersion'', ''retrievalId'',
       ''runId'', ''schemaVersion'', ''selectedEvidenceDigest'', ''selectedEvidenceId'', ''selectedRank'', ''tenantId'']"
  "js_sort compare_canonical_keys (semantic_fields @ [''logicalActionDigest'', ''proposalDigest'', ''selectedEvidenceId'', ''selectedEvidenceDigest''])
    = [''actionKind'', ''agency'', ''agentId'', ''digestVersion'', ''effectKey'', ''evidenceId'', ''incidentId'', ''intentNonce'', ''leaseMs'',
       ''logicalActionDigest'', ''payloadDigest'', ''policyVersion'', ''proposalDigest'', ''resourceId'', ''runId'', ''selectedEvidenceDigest'',
       ''selectedEvidenceId'', ''tenantId'']"
  "js_sort compare_canonical_keys [''schemaVersion'', ''logicalActionDigest'', ''authorizationEpoch'']
    = [''authorizationEpoch'', ''logicalActionDigest'', ''schemaVersion'']"
  "js_sort compare_canonical_keys [''schemaVersion'', ''logicalActionDigest'', ''proposalDigest'', ''authorizationEpoch'', ''logicalAuthorityKeySha256'']
    = [''authorizationEpoch'', ''logicalActionDigest'', ''logicalAuthorityKeySha256'', ''proposalDigest'', ''schemaVersion'']"
  by code_simp+

lemma literal_quotes:
  "quote ''actionKind'' = CHR 0x22 # ''actionKind'' @ [CHR 0x22]"
  "quote ''agency'' = CHR 0x22 # ''agency'' @ [CHR 0x22]"
  "quote ''agentId'' = CHR 0x22 # ''agentId'' @ [CHR 0x22]"
  "quote ''digestVersion'' = CHR 0x22 # ''digestVersion'' @ [CHR 0x22]"
  "quote ''effectKey'' = CHR 0x22 # ''effectKey'' @ [CHR 0x22]"
  "quote ''evidenceId'' = CHR 0x22 # ''evidenceId'' @ [CHR 0x22]"
  "quote ''incidentId'' = CHR 0x22 # ''incidentId'' @ [CHR 0x22]"
  "quote ''intentNonce'' = CHR 0x22 # ''intentNonce'' @ [CHR 0x22]"
  "quote ''leaseMs'' = CHR 0x22 # ''leaseMs'' @ [CHR 0x22]"
  "quote ''logicalActionDigest'' = CHR 0x22 # ''logicalActionDigest'' @ [CHR 0x22]"
  "quote ''payloadDigest'' = CHR 0x22 # ''payloadDigest'' @ [CHR 0x22]"
  "quote ''policyVersion'' = CHR 0x22 # ''policyVersion'' @ [CHR 0x22]"
  "quote ''proposalDigest'' = CHR 0x22 # ''proposalDigest'' @ [CHR 0x22]"
  "quote ''resourceId'' = CHR 0x22 # ''resourceId'' @ [CHR 0x22]"
  "quote ''runId'' = CHR 0x22 # ''runId'' @ [CHR 0x22]"
  "quote ''selectedEvidenceDigest'' = CHR 0x22 # ''selectedEvidenceDigest'' @ [CHR 0x22]"
  "quote ''selectedEvidenceId'' = CHR 0x22 # ''selectedEvidenceId'' @ [CHR 0x22]"
  "quote ''tenantId'' = CHR 0x22 # ''tenantId'' @ [CHR 0x22]"
  "quote ''admittedAt'' = CHR 0x22 # ''admittedAt'' @ [CHR 0x22]"
  "quote ''authorityEvidenceBindingSha256'' = CHR 0x22 # ''authorityEvidenceBindingSha256'' @ [CHR 0x22]"
  "quote ''expiresAt'' = CHR 0x22 # ''expiresAt'' @ [CHR 0x22]"
  "quote ''retrievalId'' = CHR 0x22 # ''retrievalId'' @ [CHR 0x22]"
  "quote ''schemaVersion'' = CHR 0x22 # ''schemaVersion'' @ [CHR 0x22]"
  "quote ''selectedRank'' = CHR 0x22 # ''selectedRank'' @ [CHR 0x22]"
  "quote ''authorizationEpoch'' = CHR 0x22 # ''authorizationEpoch'' @ [CHR 0x22]"
  "quote ''logicalAuthorityKeySha256'' = CHR 0x22 # ''logicalAuthorityKeySha256'' @ [CHR 0x22]"
  "quote ''action'' = CHR 0x22 # ''action'' @ [CHR 0x22]"
  "quote ''destination'' = CHR 0x22 # ''destination'' @ [CHR 0x22]"
  "quote ''logicalDispatch'' = CHR 0x22 # ''logicalDispatch'' @ [CHR 0x22]"
  "quote ''scenario'' = CHR 0x22 # ''scenario'' @ [CHR 0x22]"
  "quote logical_action_schema = CHR 0x22 # ''tideproof.authority.logical-action.v1'' @ [CHR 0x22]"
  "quote proposal_schema = CHR 0x22 # ''tideproof.authority.dvi-proposal-identity.v1'' @ [CHR 0x22]"
  "quote authority_key_schema = CHR 0x22 # ''tideproof.authority.logical-authority-key.v1'' @ [CHR 0x22]"
  "quote authorization_binding_schema = CHR 0x22 # ''tideproof.authority.authorization-binding.v1'' @ [CHR 0x22]"
  "quote action_kind = kind_literal"
  by code_simp+

section \<open>The same texts\<close>

text \<open>What the documentation of the database says of its functions, for the strings the model covers.\<close>

definition database_agrees :: "jsenv \<Rightarrow> pg \<Rightarrow> bool" where
  "database_agrees E D \<longleftrightarrow> (\<forall>s. pg_sha256 D s = sha256_hex E s) \<and> (\<forall>s. pg_to_json D s = quote s) \<and>
     (\<forall>n. pg_json_text D (int_num n) = int_str n) \<and> (\<forall>t. list_all (\<lambda>c. esc c = [c]) (pg_time_text D t)) \<and>
     (\<forall>s. hex_64 (pg_sha256 D s))"

lemma action_texts:
  assumes "database_agrees E D" and "fld r ''tenantId'' = Str tenant" "uuid_shape tenant" and "fld r ''incidentId'' = Str incident" "uuid_shape incident"
    and "fld r ''resourceId'' = Str resource" and "fld r ''agency'' = Str agency" and "fld r ''actionKind'' = Str action_kind"
    and "fld r ''payloadDigest'' = Str payload_digest" "hex_64 payload_digest"
  shows "cloud_canonical_json E (action_identity r) = action_text D kind_literal agency incident payload_digest resource tenant"
proof -
  have keys: "map fst ((''schemaVersion'', Str logical_action_schema) # map (\<lambda>k. (k, fld r k)) logical_action_fields) = ''schemaVersion'' # logical_action_fields"
    by (simp add: logical_action_fields_def)
  show ?thesis
    unfolding action_identity_def
    by (subst canonical_fields [OF _ key_order(1) [folded keys]])
      (use assms in \<open>simp_all add: logical_action_fields_def literal_quotes action_text_def database_agrees_def plain_quotes\<close>)
qed

definition proposal_keys :: "string list" where
  "proposal_keys = ''schemaVersion'' # [''tenantId'', ''runId'', ''incidentId'', ''retrievalId'', ''logicalActionDigest'',
      ''authorityEvidenceBindingSha256'', ''selectedEvidenceId'', ''selectedEvidenceDigest'', ''policyVersion'', ''selectedRank'', ''admittedAt'', ''expiresAt'']"

definition semantic_keys :: "string list" where
  "semantic_keys = semantic_fields @ [''logicalActionDigest'', ''proposalDigest'', ''selectedEvidenceId'', ''selectedEvidenceDigest'']"

text \<open>The columns of a selection row against the members of a proposal.\<close>

definition selects :: "pg \<Rightarrow> jsv \<Rightarrow> selection_row \<Rightarrow> bool" where
  "selects D p s \<longleftrightarrow> list_all (\<lambda>(k, v). fld p k = Str v)
     [(''runId'', sl_run s), (''incidentId'', sl_incident s), (''retrievalId'', sl_retrieval s),
      (''authorityEvidenceBindingSha256'', sl_evidence_binding s), (''selectedEvidenceId'', sl_evidence s),
      (''selectedEvidenceDigest'', sl_evidence_digest s), (''policyVersion'', sl_policy s),
      (''admittedAt'', pg_time_text D (sl_admitted s)), (''expiresAt'', pg_time_text D (sl_expires s))]"

lemma uuid_quote: "uuid_in r k \<Longrightarrow> fld r k = Str s \<Longrightarrow> quote s = CHR 0x22 # s @ [CHR 0x22]"
  by (simp add: uuid_in_def plain_quotes)

lemma sha256_quote: "sha256_in r k \<Longrightarrow> fld r k = Str s \<Longrightarrow> quote s = CHR 0x22 # s @ [CHR 0x22]"
  by (simp add: sha256_in_def plain_quotes)

lemma proposal_texts:
  assumes agree: "database_agrees E D" and p: "p = Obj pvs" "map fst pvs = proposal_keys" and s: "selects D p s"
    and id: "fld p ''tenantId'' = Str tenant" "uuid_shape tenant" "fld p ''logicalActionDigest'' = Str action" "hex_64 action"
    and rest: "fld p ''schemaVersion'' = Str proposal_schema" "fld p ''selectedRank'' = int_num 1"
    and shapes: "uuid_in p ''runId''" "uuid_in p ''incidentId''" "uuid_in p ''retrievalId''" "uuid_in p ''selectedEvidenceId''"
      "sha256_in p ''selectedEvidenceDigest''" "sha256_in p ''authorityEvidenceBindingSha256''"
  shows "cloud_canonical_json E p = proposal_text D s action tenant"
proof -
  have m: "fld p ''runId'' = Str (sl_run s)" "fld p ''incidentId'' = Str (sl_incident s)" "fld p ''retrievalId'' = Str (sl_retrieval s)"
      "fld p ''authorityEvidenceBindingSha256'' = Str (sl_evidence_binding s)" "fld p ''selectedEvidenceId'' = Str (sl_evidence s)"
      "fld p ''selectedEvidenceDigest'' = Str (sl_evidence_digest s)" "fld p ''policyVersion'' = Str (sl_policy s)"
      "fld p ''admittedAt'' = Str (pg_time_text D (sl_admitted s))" "fld p ''expiresAt'' = Str (pg_time_text D (sl_expires s))"
    using s by (simp_all add: selects_def)
  note q = uuid_quote [OF shapes(1) m(1)] uuid_quote [OF shapes(2) m(2)] uuid_quote [OF shapes(3) m(3)] uuid_quote [OF shapes(4) m(5)]
    sha256_quote [OF shapes(5) m(6)] sha256_quote [OF shapes(6) m(4)] plain_quotes(1) [OF id(2)] plain_quotes(2) [OF id(4)]
  have t: "quote (pg_time_text D t) = CHR 0x22 # pg_time_text D t @ [CHR 0x22]" for t
    using agree by (simp add: database_agrees_def plain_quote)
  have "distinct (map fst pvs)" unfolding p(2) proposal_keys_def by simp
  from canonical_fields [OF this key_order(2) [folded proposal_keys_def, folded p(2)], of E, folded p(1)] show ?thesis
    using agree by (simp add: m id rest q t canonical_small literal_quotes proposal_text_def database_agrees_def)
qed

text \<open>A spend request against the members of the client's request.\<close>

definition asks :: "jsv \<Rightarrow> spend_request \<Rightarrow> bool" where
  "asks r q \<longleftrightarrow> list_all (\<lambda>(k, v). fld r k = Str v)
     [(''tenantId'', sq_tenant q), (''runId'', sq_run q), (''incidentId'', sq_incident q), (''resourceId'', sq_resource q),
      (''agentId'', sq_agent q), (''agency'', sq_agency q), (''evidenceId'', sq_evidence q), (''effectKey'', sq_effect q),
      (''policyVersion'', sq_policy q), (''payloadDigest'', sq_payload_digest q), (''logicalActionDigest'', sq_action q),
      (''proposalDigest'', sq_proposal q), (''selectedEvidenceDigest'', sq_evidence_digest q), (''requestDigest'', sq_digest q)] \<and>
     fld r ''leaseMs'' = int_num (sq_lease q) \<and> sq_request q = fld r ''requestPayload'' \<and> sq_payload q = fld r ''payload''"

lemma request_texts:
  assumes agree: "database_agrees E D" and p: "fld r ''requestPayload'' = Obj kvs" "map fst kvs = semantic_keys" and q: "asks r q"
    and same: "same_members semantic_keys (Obj kvs) r" and v: "fld r ''digestVersion'' = int_num 2"
    and shapes: "uuid_in r ''tenantId''" "uuid_in r ''runId''" "uuid_in r ''incidentId''" "uuid_in r ''evidenceId''" "uuid_in r ''effectKey''"
      "sha256_in r ''payloadDigest''" "sha256_in r ''logicalActionDigest''" "sha256_in r ''proposalDigest''" "sha256_in r ''selectedEvidenceDigest''"
    and kind: "fld r ''actionKind'' = Str action_kind" and nonce: "fld r ''intentNonce'' = Str nonce" and sel: "fld r ''selectedEvidenceId'' = fld r ''evidenceId''"
  shows "cloud_canonical_json E (fld r ''requestPayload'') = request_text D q (sq_action q) (sq_payload_digest q)"
proof -
  have f: "fld r ''tenantId'' = Str (sq_tenant q)" "fld r ''runId'' = Str (sq_run q)" "fld r ''incidentId'' = Str (sq_incident q)"
      "fld r ''evidenceId'' = Str (sq_evidence q)" "fld r ''effectKey'' = Str (sq_effect q)" "fld r ''payloadDigest'' = Str (sq_payload_digest q)"
      "fld r ''logicalActionDigest'' = Str (sq_action q)" "fld r ''proposalDigest'' = Str (sq_proposal q)"
      "fld r ''selectedEvidenceDigest'' = Str (sq_evidence_digest q)" "fld r ''resourceId'' = Str (sq_resource q)"
      "fld r ''agentId'' = Str (sq_agent q)" "fld r ''agency'' = Str (sq_agency q)" "fld r ''policyVersion'' = Str (sq_policy q)"
      "fld r ''leaseMs'' = int_num (sq_lease q)" "sq_request q = Obj kvs"
    using q p(1) by (simp_all add: asks_def)
  have "list_all (\<lambda>k. fld (Obj kvs) k = fld r k) semantic_keys" using same by (simp add: same_members_def)
  then have m: "fld (Obj kvs) k = fld r k" if "k \<in> set semantic_keys" for k using that by (auto simp: list_all_iff)
  have in_keys: "set semantic_keys = {''digestVersion'', ''tenantId'', ''runId'', ''incidentId'', ''resourceId'', ''agentId'', ''agency'', ''evidenceId'',
      ''intentNonce'', ''effectKey'', ''leaseMs'', ''policyVersion'', ''actionKind'', ''payloadDigest'', ''logicalActionDigest'', ''proposalDigest'',
      ''selectedEvidenceId'', ''selectedEvidenceDigest''}" by (auto simp: semantic_keys_def semantic_fields_def)
  note quotes = uuid_quote [OF shapes(1) f(1)] uuid_quote [OF shapes(2) f(2)] uuid_quote [OF shapes(3) f(3)] uuid_quote [OF shapes(4) f(4)]
    uuid_quote [OF shapes(5) f(5)] sha256_quote [OF shapes(6) f(6)] sha256_quote [OF shapes(7) f(7)] sha256_quote [OF shapes(8) f(8)]
    sha256_quote [OF shapes(9) f(9)]
  have "member_text D (sq_request q) ''intentNonce'' = quote nonce"
    using m [of "''intentNonce''"] nonce agree in_keys f(15) by (simp add: member_text_def arrow_text_def database_agrees_def del: fld.simps)
  moreover have "distinct (map fst kvs)" unfolding p(2) semantic_keys_def by (simp add: semantic_fields_def)
  from canonical_fields [OF this key_order(3) [folded semantic_keys_def, folded p(2)], of E]
  have "cloud_canonical_json E (Obj kvs) = ''{'' @ join '','' (map (\<lambda>k. quote k @ '':'' @ cloud_canonical_json E (fld r k))
      [''actionKind'', ''agency'', ''agentId'', ''digestVersion'', ''effectKey'', ''evidenceId'', ''incidentId'', ''intentNonce'', ''leaseMs'',
       ''logicalActionDigest'', ''payloadDigest'', ''policyVersion'', ''proposalDigest'', ''resourceId'', ''runId'', ''selectedEvidenceDigest'',
       ''selectedEvidenceId'', ''tenantId'']) @ ''}''"
    using m in_keys by (simp del: fld.simps)
  ultimately show ?thesis
    using agree unfolding p(1) by (simp add: f kind nonce sel v quotes canonical_small literal_quotes kind_literal_def request_text_def database_agrees_def)
qed

lemma payload_texts:
  assumes "database_agrees E D" and "dispatch_payload inp = Inr payload"
  shows "cloud_canonical_json E payload = payload_canonical D payload"
proof -
  from dispatch_payload_shape [OF assms(2)] obtain ds ls sc where p: "payload = Obj ((''action'', Str action_kind) # ds @ ls @ [(''scenario'', Str sc)])"
      and o: "ds = [] \<or> (\<exists>d. ds = [(''destination'', Str d)])" "ls = [] \<or> (\<exists>l. ls = [(''logicalDispatch'', Str l)])"
    by (auto simp: optional_member_def)
  have order: "js_sort compare_canonical_keys [''action'', ''scenario''] = [''action'', ''scenario'']"
      "js_sort compare_canonical_keys [''action'', ''destination'', ''scenario''] = [''action'', ''destination'', ''scenario'']"
      "js_sort compare_canonical_keys [''action'', ''logicalDispatch'', ''scenario''] = [''action'', ''logicalDispatch'', ''scenario'']"
      "js_sort compare_canonical_keys [''action'', ''destination'', ''logicalDispatch'', ''scenario'']
        = [''action'', ''destination'', ''logicalDispatch'', ''scenario'']"
    by code_simp+
  have str: "fld payload k = Str v \<Longrightarrow> member_text D payload k = quote v" for k v
    using assms(1) by (simp add: member_text_def arrow_text_def database_agrees_def)
  have "js_sort compare_canonical_keys (map fst ((''action'', Str action_kind) # ds @ ls @ [(''scenario'', Str sc)]))
      = map fst ((''action'', Str action_kind) # ds @ ls @ [(''scenario'', Str sc)])"
    using o order by auto
  moreover have "distinct (map fst ((''action'', Str action_kind) # ds @ ls @ [(''scenario'', Str sc)]))" using o by auto
  ultimately have "cloud_canonical_json E payload = ''{'' @ join '','' (map (\<lambda>k. quote k @ '':'' @ cloud_canonical_json E (fld payload k))
      (map fst ((''action'', Str action_kind) # ds @ ls @ [(''scenario'', Str sc)]))) @ ''}''"
    unfolding p by (rule canonical_fields [rotated])
  moreover have "payload_canonical D payload = ''{'' @ join '','' (map (\<lambda>k. quote k @ '':'' @ cloud_canonical_json E (fld payload k))
      (map fst ((''action'', Str action_kind) # ds @ ls @ [(''scenario'', Str sc)]))) @ ''}''"
    using o str by (auto simp: payload_canonical_def p literal_quotes)
  ultimately show ?thesis by simp
qed

section \<open>The shape of a normalized request\<close>

lemma proposal_identity_keys: "proposal_identity E q = Inr p \<Longrightarrow> \<exists>pvs. p = Obj pvs \<and> map fst pvs = proposal_keys \<and> fld p ''schemaVersion'' = Str proposal_schema"
  unfolding proposal_identity_def by (clarsimp simp: guard_simps proposal_keys_def split: if_split_asm)

lemma normalized_shape:
  assumes "normalize_request E inp = Inr r"
  shows "(\<exists>kvs. fld r ''requestPayload'' = Obj kvs \<and> map fst kvs = semantic_keys) \<and>
    (\<exists>pvs. fld r ''dviProposal'' = Obj pvs \<and> map fst pvs = proposal_keys) \<and> fld (fld r ''dviProposal'') ''schemaVersion'' = Str proposal_schema \<and>
    fld r ''digestVersion'' = int_num 2 \<and> (\<exists>q. dispatch_payload q = Inr (fld r ''payload''))"
proof -
  obtain payload kvs a p d selected digest src q prop' where pay: "dispatch_payload q = Inr payload"
      and kvs: "normalized_fields E src payload = Inr kvs" and prp: "normalize_proposal E prop' a = Inr (p, d)"
      and r: "r = assembled E kvs a p d selected digest"
    using normalize_request_parts [OF assms] by (elim exE conjE) (rule that; assumption)
  note F = normalized_fields_Inr [OF kvs]
  note R = request_members [OF F r] and n = request_fields [OF F r]
  have "\<exists>q. proposal_identity E q = Inr p"
    using prp unfolding normalize_proposal_def Let_def by (clarsimp simp: guard_simps split: if_split_asm) blast
  then have "\<exists>pvs. p = Obj pvs \<and> map fst pvs = proposal_keys \<and> fld p ''schemaVersion'' = Str proposal_schema"
    using proposal_identity_keys by blast
  moreover have "fld r ''digestVersion'' = int_num 2"
    using R(1) [of "''digestVersion''"] F by (simp add: semantic_fields_def fields_well_formed_def Let_def del: fld.simps)
  moreover have "\<exists>ps. semantic_payload (Obj kvs) a d selected digest = Obj ps \<and> map fst ps = semantic_keys"
    by (simp add: semantic_payload_def semantic_keys_def semantic_fields_def)
  ultimately show ?thesis using R(3,7) n(8) pay by auto
qed

section \<open>The same digests\<close>

definition proposes :: "spend_request \<Rightarrow> proposal_request \<Rightarrow> bool" where
  "proposes q z \<longleftrightarrow> az_tenant z = sq_tenant q \<and> az_resource z = sq_resource q \<and> az_agency z = sq_agency q \<and> az_kind z = action_kind \<and>
     az_payload z = sq_payload q"

text \<open>What a normalized request provides to the texts.\<close>

lemma normalized_facts:
  assumes "normalize_request E inp = Inr r" and "database_agrees E D" and "asks r q"
  shows "list_all (uuid_in r) request_uuids" and "list_all (sha256_in r) [''payloadDigest'', ''logicalActionDigest'', ''proposalDigest'', ''selectedEvidenceDigest'']"
    and "sq_payload_digest q = pg_sha256 D (payload_canonical D (sq_payload q))"
    and "sq_action q = pg_sha256 D (cloud_canonical_json E (action_identity r))"
    and "sq_proposal q = pg_sha256 D (cloud_canonical_json E (fld r ''dviProposal''))"
    and "sq_digest q = pg_sha256 D (cloud_canonical_json E (fld r ''requestPayload''))"
proof -
  note W = normalized_well_formed [OF assms(1), unfolded request_well_formed_def]
  from normalized_shape [OF assms(1)] obtain q' where pay: "dispatch_payload q' = Inr (fld r ''payload'')" by blast
  have id: "identity_digest E v = pg_sha256 D (cloud_canonical_json E v)" for v
    using assms(2) by (simp add: database_agrees_def identity_digest_def)
  have "hex_64 (identity_digest E v)" for v using assms(2) unfolding id database_agrees_def by blast
  with W show "list_all (sha256_in r) [''payloadDigest'', ''logicalActionDigest'', ''proposalDigest'', ''selectedEvidenceDigest'']"
    by (simp add: sha256_in_def)
  show "list_all (uuid_in r) request_uuids" using W by blast
  show "sq_payload_digest q = pg_sha256 D (payload_canonical D (sq_payload q))"
    using W assms(3) payload_texts [OF assms(2) pay] by (simp add: asks_def id)
  show "sq_action q = pg_sha256 D (cloud_canonical_json E (action_identity r))"
    "sq_proposal q = pg_sha256 D (cloud_canonical_json E (fld r ''dviProposal''))"
    "sq_digest q = pg_sha256 D (cloud_canonical_json E (fld r ''requestPayload''))"
    using W assms(3) by (simp_all add: asks_def id)
qed

text \<open>The action and the request hash to the texts of the database, whatever proposal the request is for.\<close>

lemma bound_digests:
  assumes "normalize_request E inp = Inr r" and "database_agrees E D" and "asks r q"
  shows "cloud_canonical_json E (action_identity r)
      = action_text D kind_literal (sq_agency q) (sq_incident q) (sq_payload_digest q) (sq_resource q) (sq_tenant q)"
    and "cloud_canonical_json E (fld r ''requestPayload'') = request_text D q (sq_action q) (sq_payload_digest q)"
    and "uuid_shape (sq_tenant q) \<and> uuid_shape (sq_incident q) \<and> digests_shaped q"
proof -
  note W = normalized_well_formed [OF assms(1), unfolded request_well_formed_def]
  note F = normalized_facts [OF assms(1-3)]
  have q: "fld r ''tenantId'' = Str (sq_tenant q)" "fld r ''incidentId'' = Str (sq_incident q)" "fld r ''resourceId'' = Str (sq_resource q)"
      "fld r ''agency'' = Str (sq_agency q)" "fld r ''payloadDigest'' = Str (sq_payload_digest q)" "fld r ''actionKind'' = Str action_kind"
      "fld r ''logicalActionDigest'' = Str (sq_action q)" "fld r ''evidenceId'' = fld r ''selectedEvidenceId''"
      "fld r ''proposalDigest'' = Str (sq_proposal q)" "fld r ''selectedEvidenceDigest'' = Str (sq_evidence_digest q)"
    using assms(3) W by (simp_all add: asks_def)
  have sh: "uuid_in r ''tenantId''" "uuid_in r ''runId''" "uuid_in r ''incidentId''" "uuid_in r ''evidenceId''" "uuid_in r ''effectKey''"
      "uuid_in r ''intentNonce''" "sha256_in r ''payloadDigest''" "sha256_in r ''logicalActionDigest''" "sha256_in r ''proposalDigest''"
      "sha256_in r ''selectedEvidenceDigest''"
    using F(1,2) by (simp_all add: request_uuids_def)
  have "hex_64 (sq_digest q)" using assms(2) unfolding F(6) database_agrees_def by blast
  with sh show hx: "uuid_shape (sq_tenant q) \<and> uuid_shape (sq_incident q) \<and> digests_shaped q"
    by (simp add: uuid_in_def sha256_in_def q digests_shaped_def)
  then have d: "uuid_shape (sq_tenant q)" "uuid_shape (sq_incident q)" "hex_64 (sq_payload_digest q)" by (simp_all add: digests_shaped_def)
  show "cloud_canonical_json E (action_identity r)
      = action_text D kind_literal (sq_agency q) (sq_incident q) (sq_payload_digest q) (sq_resource q) (sq_tenant q)"
    by (rule action_texts [OF assms(2) q(1) d(1) q(2) d(2) q(3,4,6,5) d(3)])
  from normalized_shape [OF assms(1)] obtain kvs where shape: "fld r ''requestPayload'' = Obj kvs" "map fst kvs = semantic_keys"
      "fld r ''digestVersion'' = int_num 2" by blast
  have kvs: "same_members semantic_keys (Obj kvs) r" using W unfolding shape(1) [symmetric] semantic_keys_def by blast
  obtain nonce where nonce: "fld r ''intentNonce'' = Str nonce" using sh(6) by (auto simp: field_iffs)
  show "cloud_canonical_json E (fld r ''requestPayload'') = request_text D q (sq_action q) (sq_payload_digest q)"
    by (rule request_texts [OF assms(2) shape(1,2) assms(3) kvs shape(3) sh(1-5,7-10) q(6) nonce q(8) [symmetric]])
qed

text \<open>A spend of the request passes the derivation for any row that keeps the canonical text of its payload.\<close>

lemma digests_derived_for:
  assumes "normalize_request E inp = Inr r" and "database_agrees E D" and "asks r q" and "pr_canonical p = payload_canonical D (sq_payload q)"
  shows "digests_derived D q p"
  using normalized_facts(3,4,6) [OF assms(1-3)] bound_digests(1,2) [OF assms(1-3)] assms(4) by (simp add: digests_derived_def)

lemma derived_ids:
  assumes "normalize_request E inp = Inr r" and "database_agrees E D" and "asks r q" and "selects D (fld r ''dviProposal'') s" and "proposes q z"
  shows "pr_payload_digest (proposal_of D z s epoch) = sq_payload_digest q" and "ai_action (pr_id (proposal_of D z s epoch)) = sq_action q"
    and "ai_proposal (pr_id (proposal_of D z s epoch)) = sq_proposal q" and "digests_derived D q (proposal_of D z s epoch)"
proof -
  note W = normalized_well_formed [OF assms(1), unfolded request_well_formed_def]
  note F = normalized_facts [OF assms(1-3)] and R = bound_digests [OF assms(1-3)]
  have same: "same_members [''tenantId'', ''runId'', ''incidentId'', ''logicalActionDigest'', ''selectedEvidenceId'', ''selectedEvidenceDigest'']
      (fld r ''dviProposal'') r" and pw: "proposal_well_formed E (fld r ''dviProposal'')" using W by blast+
  then have dp: "fld (fld r ''dviProposal'') ''tenantId'' = Str (sq_tenant q)" "fld (fld r ''dviProposal'') ''logicalActionDigest'' = Str (sq_action q)"
      "fld (fld r ''dviProposal'') ''incidentId'' = Str (sq_incident q)" using assms(3) by (simp_all add: same_members_def asks_def)
  have si: "sl_incident s = sq_incident q" using assms(4) dp(3) by (simp add: selects_def)
  have z: "az_tenant z = sq_tenant q" "az_resource z = sq_resource q" "az_agency z = sq_agency q" "az_payload z = sq_payload q" "az_kind z = action_kind"
    using assms(5) by (simp_all add: proposes_def)
  from assms(2) have js: "pg_to_json D action_kind = kind_literal" by (simp add: database_agrees_def literal_quotes)
  from normalized_shape [OF assms(1)] obtain pvs where shape: "fld r ''dviProposal'' = Obj pvs" "map fst pvs = proposal_keys"
      "fld (fld r ''dviProposal'') ''schemaVersion'' = Str proposal_schema" by blast
  have hx: "uuid_shape (sq_tenant q)" "uuid_shape (sq_incident q)" "hex_64 (sq_action q)" using R(3) by (simp_all add: digests_shaped_def)
  have prop_text: "cloud_canonical_json E (fld r ''dviProposal'') = proposal_text D s (sq_action q) (sq_tenant q)"
    using pw dp hx by (intro proposal_texts [OF assms(2) shape(1,2) assms(4)]) (simp_all add: shape(3) proposal_well_formed_def uuid_in_def)
  show "pr_payload_digest (proposal_of D z s epoch) = sq_payload_digest q"
    using F(3) by (simp add: proposal_of_def Let_def z)
  show "ai_action (pr_id (proposal_of D z s epoch)) = sq_action q"
    using F(3,4) R(1) by (simp add: proposal_of_def Let_def z si js)
  show "ai_proposal (pr_id (proposal_of D z s epoch)) = sq_proposal q"
    using F(3,4,5) R(1) prop_text by (simp add: proposal_of_def Let_def z si js)
  show "digests_derived D q (proposal_of D z s epoch)"
    by (rule digests_derived_for [OF assms(1-3)]) (simp add: proposal_of_def Let_def z)
qed

lemma request_is_bound:
  assumes "normalize_request E inp = Inr r" and "database_agrees E D" and "asks r q"
  shows "request_bound D q"
proof -
  note W = normalized_well_formed [OF assms(1), unfolded request_well_formed_def]
  from normalized_shape [OF assms(1)] obtain kvs p where shape: "fld r ''requestPayload'' = Obj kvs" "map fst kvs = semantic_keys"
      "fld r ''digestVersion'' = int_num 2" and pay: "dispatch_payload p = Inr (fld r ''payload'')" by blast
  have m: "list_all (\<lambda>k. fld (sq_request q) k = fld r k) semantic_keys"
    using W assms(3) unfolding asks_def same_members_def semantic_keys_def by metis
  have q: "sq_request q = Obj kvs" "sq_payload q = fld r ''payload''" using assms(3) shape(1) by (simp_all add: asks_def)
  have num: "json_text D (int_num n) = Some (int_str n)" for n using assms(2) by (simp add: database_agrees_def)
  have two: "int_str 2 = ''2''" by code_simp
  have "length (members (sq_request q)) = 18"
    unfolding q(1) using arg_cong [OF shape(2), of length] by (simp add: semantic_keys_def semantic_fields_def)
  moreover have "uuid_in r ''intentNonce''" using W by (simp add: request_uuids_def)
  then obtain nonce where "fld r ''intentNonce'' = Str nonce" "uuid_shape nonce" by (auto simp: field_iffs)
  moreover have "fld (sq_payload q) ''action'' = Str action_kind"
    using dispatch_payload_shape [OF pay] by (auto simp: q(2))
  moreover have "sq_policy q = policy_version" using W assms(3) by (simp add: asks_def)
  moreover have "fld r ''selectedEvidenceId'' = Str (sq_evidence q)" "fld r ''actionKind'' = Str action_kind"
    using W assms(3) by (simp_all add: asks_def)
  ultimately show ?thesis
    using assms(3) m shape(3) num [of 2] num [of "sq_lease q"] unfolding asks_def
    by (simp add: request_bound_def bound_fields_def arrow_text_def semantic_keys_def semantic_fields_def two)
qed

text \<open>C5. The client and the database derive the same digests: for every request the client code
  accepts, the proposal that the database writes for the same action and selection carries the
  payload, action and proposal digests of the request, and a spend of the request passes the
  database's own derivation and the binding of its payload, so neither is ever refused as a
  mismatch, provided the database computes SHA-256, JSON texts and decimal numbers as the
  client does.\<close>

theorem database_derives_client_digests:
  assumes "normalize_request E inp = Inr r" and "database_agrees E D" and "asks r q" and "selects D (fld r ''dviProposal'') s" and "proposes q z"
  shows "pr_payload_digest (proposal_of D z s epoch) = sq_payload_digest q \<and> ai_action (pr_id (proposal_of D z s epoch)) = sq_action q \<and>
    ai_proposal (pr_id (proposal_of D z s epoch)) = sq_proposal q \<and> digests_derived D q (proposal_of D z s epoch) \<and> request_bound D q"
  using derived_ids [OF assms] request_is_bound [OF assms(1-3)] by blast

section \<open>A request of both\<close>

definition digest_pg :: pg where
  "digest_pg = \<lparr>pg_sha256 = sha256_hex request_env, pg_to_json = quote,
     pg_json_text = (\<lambda>v. case v of Num (Fin x) \<Rightarrow> int_str (floor x) | _ \<Rightarrow> []),
     pg_time_text = (\<lambda>t. if t = 0 then iso_text 0 else iso_text 1800000)\<rparr>"

definition digest_selection :: selection_row where
  "digest_selection = \<lparr>sl_tenant = sample_uuid (CHR ''1''), sl_retrieval = sample_uuid (CHR ''4''), sl_evidence_binding = replicate 64 (CHR ''b''),
     sl_run = sample_uuid (CHR ''2''), sl_incident = sample_uuid (CHR ''3''), sl_agency = ''harbor'', sl_policy = ''g1-admissibility-v2'',
     sl_commit = replicate 40 (CHR ''1''), sl_tree = replicate 40 (CHR ''2''), sl_spec = replicate 64 (CHR ''3''), sl_admitted = 0,
     sl_expires = 1800000000, sl_ranked = replicate 64 (CHR ''4''), sl_query = replicate 64 (CHR ''5''), sl_limit = 5, sl_rank = 1,
     sl_evidence = sample_uuid (CHR ''5''), sl_evidence_digest = replicate 64 (CHR ''c'')\<rparr>"

definition digest_request :: jsv where
  "digest_request = assembled request_env (sample_fields (sample_uuid (CHR ''8''))) sample_action sample_proposal (replicate 64 (CHR ''a''))
     (sample_uuid (CHR ''5'')) (replicate 64 (CHR ''c''))"

definition digest_spend :: spend_request where
  "digest_spend = \<lparr>sq_tenant = sample_uuid (CHR ''1''), sq_operation = sample_uuid (CHR ''8''), sq_digest = replicate 64 (CHR ''a''),
     sq_request = fld digest_request ''requestPayload'', sq_proposal = replicate 64 (CHR ''a''), sq_action = replicate 64 (CHR ''a''),
     sq_evidence_digest = replicate 64 (CHR ''c''), sq_run = sample_uuid (CHR ''2''), sq_incident = sample_uuid (CHR ''3''), sq_resource = ''boat-1'',
     sq_agent = ''agent'', sq_agency = ''harbor'', sq_evidence = sample_uuid (CHR ''5''), sq_effect = sample_uuid (CHR ''7''),
     sq_payload = fld digest_request ''payload'', sq_payload_digest = replicate 64 (CHR ''a''), sq_policy = policy_version, sq_lease = 1800000\<rparr>"

definition digest_ask :: proposal_request where
  "digest_ask = \<lparr>az_tenant = sample_uuid (CHR ''1''), az_retrieval = sample_uuid (CHR ''4''), az_run = sample_uuid (CHR ''2''),
     az_incident = sample_uuid (CHR ''3''), az_evidence = sample_uuid (CHR ''5''), az_evidence_digest = replicate 64 (CHR ''c''), az_resource = ''boat-1'',
     az_agency = ''harbor'', az_kind = action_kind, az_payload = sq_payload digest_spend\<rparr>"

lemma digest_agrees: "database_agrees request_env digest_pg"
proof -
  have "list_all (\<lambda>c. esc c = [c]) (iso_text 0)" "list_all (\<lambda>c. esc c = [c]) (iso_text 1800000)"
    unfolding sample_times by code_simp+
  then show ?thesis by (simp add: database_agrees_def digest_pg_def request_env_def)
qed

lemma digest_fields:
  "asks digest_request digest_spend" "selects digest_pg (fld digest_request ''dviProposal'') digest_selection" "proposes digest_spend digest_ask"
  by (simp_all add: asks_def selects_def proposes_def digest_spend_def digest_selection_def digest_ask_def)
    (simp_all add: digest_request_def assembled_def Let_def sample_fields_def sample_action_def sample_proposal_def digest_pg_def)

theorem database_derives_client_digests_witness:
  "digests_derived digest_pg digest_spend (proposal_of digest_pg digest_ask digest_selection 1) \<and> request_bound digest_pg digest_spend"
proof -
  have "normalize_request request_env (request_input (sample_uuid (CHR ''8''))) = Inr digest_request"
    unfolding digest_request_def by (rule sample_request) (simp add: hex_digit_def)
  from database_derives_client_digests [OF this digest_agrees digest_fields] show ?thesis by blast
qed

end
