(* ===== verification/Store_Change.thy ===== *)
theory Store_Change
  imports Store_Effect Ledger_Change Ledger_Digest
begin

text \<open>
  What the store's own transactions do to the tables: an authorization that returns leaves them
  alone, writes an epoch or opens one with its proposal; a spend leaves them alone, appends one
  denial or makes a reservation on the row of the proposal it is bound to; a recorded effect is
  one row under a live authority.
\<close>

section \<open>Requests in normal form\<close>

lemma safe_integer_num: "as_safe_integer v = Some n \<Longrightarrow> v = int_num n"
  by (cases v rule: as_safe_integer.cases) (auto split: if_split_asm)

lemma normalized_lease: "normalize_request E inp = Inr r \<Longrightarrow> fld r ''leaseMs'' = int_num (integer_of (fld r ''leaseMs''))"
  using normalized_well_formed [of E inp r]
  by (auto simp: request_well_formed_def lease_in_policy_def integer_of_def split: option.split_asm dest: safe_integer_num)

lemma text_of_Str [simp]: "text_of (Str s) = s"
  by (simp add: text_of_def)

lemma normalized_texts:
  assumes "normalize_request E inp = Inr r" and "k \<in> {''tenantId'', ''operationId'', ''requestDigest'', ''proposalDigest'',
      ''logicalActionDigest'', ''selectedEvidenceDigest'', ''runId'', ''incidentId'', ''resourceId'', ''agentId'', ''agency'', ''evidenceId'',
      ''effectKey'', ''payloadDigest'', ''policyVersion'', ''selectedEvidenceId'', ''actionKind''}"
  shows "fld r k = Str (text_of (fld r k))"
proof -
  note W = normalized_well_formed [OF assms(1), unfolded request_well_formed_def request_uuids_def field_iffs]
  then have "\<exists>s. fld r k = Str s" using assms(2) by (auto simp del: fld.simps simp: field_iffs)
  then show ?thesis by auto
qed

lemma parameters_ask: "normalize_request E inp = Inr r \<Longrightarrow> asks r (spend_parameters r)"
  using normalized_texts [of E inp r] normalized_lease [of E inp r]
  by (simp add: asks_def spend_parameters_def del: fld.simps)

section \<open>Proposals that match\<close>

lemma proposal_columns_read:
  "fld (proposal_object ms now p) ''tenant_id'' = Str (pr_tenant p)"
  "fld (proposal_object ms now p) ''proposal_digest'' = Str (ai_proposal (pr_id p))"
  "fld (proposal_object ms now p) ''logical_action_digest'' = Str (ai_action (pr_id p))"
  "fld (proposal_object ms now p) ''resource_id'' = Str (pr_resource p)"
  "fld (proposal_object ms now p) ''agency'' = Str (pr_agency p)"
  "fld (proposal_object ms now p) ''action_kind'' = Str (pr_kind p)"
  "fld (proposal_object ms now p) ''payload'' = pr_payload p"
  "fld (proposal_object ms now p) ''payload_canonical'' = Str (pr_canonical p)"
  "fld (proposal_object ms now p) ''payload_digest'' = Str (pr_payload_digest p)"
  "fld (proposal_object ms now p) ''retrieval_id'' = Str (pr_retrieval p)"
  "fld (proposal_object ms now p) ''run_id'' = Str (pr_run p)"
  "fld (proposal_object ms now p) ''incident_id'' = Str (pr_incident p)"
  "fld (proposal_object ms now p) ''authority_evidence_binding_sha256'' = Str (pr_evidence_binding p)"
  "fld (proposal_object ms now p) ''policy_version'' = Str (pr_policy p)"
  "fld (proposal_object ms now p) ''selected_rank'' = driver_int (pr_rank p)"
  "fld (proposal_object ms now p) ''selected_evidence_id'' = Str (pr_evidence p)"
  "fld (proposal_object ms now p) ''selected_evidence_digest'' = Str (pr_evidence_digest p)"
  "fld (proposal_object ms now p) ''admitted_at'' = driver_date ms (pr_admitted p)"
  "fld (proposal_object ms now p) ''expires_at'' = driver_date ms (pr_expires p)"
  "fld (proposal_object ms now p) ''authorization_epoch'' = driver_int (ai_epoch (pr_id p))"
  "fld (proposal_object ms now p) ''logical_authority_key_sha256'' = Str (ai_key (pr_id p))"
  "fld (proposal_object ms now p) ''authorization_binding_sha256'' = Str (ai_binding (pr_id p))"
  "fld (proposal_object ms now p) ''database_now'' = driver_date ms now"
  by (simp_all only: proposal_object_def fld.simps map_of_Cons_code fst_conv snd_conv list.inject list.distinct char.inject HOL.simp_thms
      if_True if_False option.case)

lemma authorization_columns:
  "fld (authorization_from_request r) ''logicalActionDigest'' = fld r ''logicalActionDigest''"
  "fld (authorization_from_request r) ''dviProposal'' = fld r ''dviProposal''"
  "fld (authorization_from_request r) ''proposalDigest'' = fld r ''proposalDigest''"
  "fld (authorization_from_request r) ''selectedEvidenceId'' = fld r ''selectedEvidenceId''"
  "fld (authorization_from_request r) ''selectedEvidenceDigest'' = fld r ''selectedEvidenceDigest''"
  "k \<in> {''tenantId'', ''incidentId'', ''resourceId'', ''agency'', ''actionKind'', ''payload'', ''payloadDigest'', ''logicalActionDigest''} \<Longrightarrow>
    fld (fld (authorization_from_request r) ''logicalAction'') k = fld r k"
  by (auto simp: authorization_from_request_def)

text \<open>What a row that matches an authorization has in its columns.\<close>

lemma proposal_matches:
  assumes "proposal_receipt_matches E (proposal_object ms now p) z = Inr True"
  shows "fld (fld z ''logicalAction'') ''tenantId'' = Str (pr_tenant p)" and "fld z ''proposalDigest'' = Str (ai_proposal (pr_id p))"
    and "fld z ''logicalActionDigest'' = Str (ai_action (pr_id p))" and "fld (fld z ''logicalAction'') ''resourceId'' = Str (pr_resource p)"
    and "fld (fld z ''logicalAction'') ''agency'' = Str (pr_agency p)" and "fld (fld z ''logicalAction'') ''payloadDigest'' = Str (pr_payload_digest p)"
    and "fld (fld z ''dviProposal'') ''runId'' = Str (pr_run p)" and "fld (fld z ''dviProposal'') ''incidentId'' = Str (pr_incident p)"
    and "fld z ''selectedEvidenceId'' = Str (pr_evidence p)" and "fld z ''selectedEvidenceDigest'' = Str (pr_evidence_digest p)"
    and "fld (fld z ''logicalAction'') ''actionKind'' = Str (pr_kind p)"
    and "pr_canonical p = cloud_canonical_json E (fld (fld z ''logicalAction'') ''payload'')"
    and "cloud_canonical_json E (pr_payload p) = cloud_canonical_json E (fld (fld z ''logicalAction'') ''payload'')"
  using assms unfolding proposal_receipt_matches_def Let_def proposal_columns_read
  by (auto simp: and_then_eq_Inr split: if_split_asm)

text \<open>The proposal a request is bound to.\<close>

definition binds :: "jsenv \<Rightarrow> (int \<Rightarrow> int) \<Rightarrow> int \<Rightarrow> jsv \<Rightarrow> bound_proposal \<Rightarrow> proposal_row \<Rightarrow> ledger \<Rightarrow> bool" where
  "binds E ms now r b p L \<longleftrightarrow> (let q = spend_parameters r in
     filter (\<lambda>p. proposal_key p = (sq_tenant q, sq_proposal q)) (proposals L) = [p] \<and>
     bp_current b = (ms (pr_expires p) > ms now) \<and> pr_tenant p = sq_tenant q \<and> pr_id p = bound_identity q b \<and>
     pr_run p = sq_run q \<and> pr_incident p = sq_incident q \<and> pr_resource p = sq_resource q \<and> pr_agency p = sq_agency q \<and>
     pr_kind p = action_kind \<and> pr_payload_digest p = sq_payload_digest q \<and> pr_evidence p = sq_evidence q \<and>
     pr_evidence_digest p = sq_evidence_digest q \<and> pr_canonical p = cloud_canonical_json E (sq_payload q) \<and>
     cloud_canonical_json E (pr_payload p) = cloud_canonical_json E (sq_payload q))"

lemma epoch_from_row_text:
  assumes "epoch_from_row E (driver_int n) = Inr m"
  shows "n = m"
proof -
  have "int_str m = int_str n"
    using assms by (auto simp: epoch_from_row_def driver_int_def js_string_def split: option.split_asm if_split_asm)
  then show ?thesis by (metis int_str_inj)
qed

lemma bound_in_Inr:
  assumes "normalize_request E inp = Inr r" and "bound_in E ms now r need L = Inr b" and "b = Bound c row n"
  shows "\<exists>p. binds E ms now r b p L"
proof -
  let ?q = "spend_parameters r"
  have q: "fld r ''tenantId'' = Str (sq_tenant ?q)" "fld r ''proposalDigest'' = Str (sq_proposal ?q)" "fld r ''logicalActionDigest'' = Str (sq_action ?q)"
      "fld r ''resourceId'' = Str (sq_resource ?q)" "fld r ''agency'' = Str (sq_agency ?q)" "fld r ''payloadDigest'' = Str (sq_payload_digest ?q)"
      "fld r ''runId'' = Str (sq_run ?q)" "fld r ''incidentId'' = Str (sq_incident ?q)" "fld r ''evidenceId'' = Str (sq_evidence ?q)"
      "fld r ''selectedEvidenceDigest'' = Str (sq_evidence_digest ?q)" "fld r ''payload'' = sq_payload ?q"
    using parameters_ask [OF assms(1)] by (simp_all add: asks_def)
  have W: "fld r ''actionKind'' = Str action_kind" "fld (fld r ''dviProposal'') ''runId'' = fld r ''runId''"
      "fld (fld r ''dviProposal'') ''incidentId'' = fld r ''incidentId''"
    using normalized_well_formed [OF assms(1)] by (simp_all add: request_well_formed_def same_members_def)
  from assms(2,3) obtain p where one: "filter (\<lambda>p. proposal_key p = (sq_tenant ?q, sq_proposal ?q)) (proposals L) = [p]"
      and m: "proposal_receipt_matches E (proposal_object ms now p) (authorization_from_request r) = Inr True"
      and b: "row = proposal_object ms now p" "epoch_from_row E (driver_int (ai_epoch (pr_id p))) = Inr n" "c = (ms (pr_expires p) > ms now)"
      and e: "fld r ''evidenceId'' = Str (pr_evidence p)" "fld r ''selectedEvidenceDigest'' = Str (pr_evidence_digest p)"
    unfolding bound_in_def bound_proposal_def spend_parameters_def
    by (auto simp: call_Inr and_then_eq_Inr proposal_columns_read Let_def later_def driver_date_def q split: list.split_asm if_split_asm)
  note M = proposal_matches [OF m, unfolded authorization_columns, simplified authorization_columns simp_thms insert_iff]
  have i: "pr_id p = bound_identity ?q b"
    using M(2,3) q epoch_from_row_text [OF b(2)] assms(3) b(1) by (cases "pr_id p") (simp add: bound_identity_def proposal_columns_read)
  show ?thesis
    unfolding binds_def Let_def using one b(3) i M e q W assms(3) by (intro exI [of _ p]) (simp add: action_kind_def)
qed

section \<open>What a spend does\<close>

definition granted :: "spend_answer \<Rightarrow> bool" where
  "granted s \<longleftrightarrow> sa_outcome s = ''resource_reserved''"

text \<open>A reservation whose receipt expires at \<open>x\<close> and whose holder at \<open>y\<close>.\<close>

definition booked :: "spend_request \<Rightarrow> proposal_row \<Rightarrow> resource_row \<Rightarrow> int \<Rightarrow> int \<Rightarrow> ledger \<Rightarrow> ledger" where
  "booked q p r x y L =
     (let fence = rs_fence r + 1; a = reserving q p fence x in
      L\<lparr>receipts := receipts L @ [a],
        resources := update_where (\<lambda>s. resource_key s = (sq_tenant q, sq_resource q)) (acquired q a y) (resources L),
        outbox := outbox L @ [intent q a fence]\<rparr>)"

text \<open>What keeps the keys of the tables.\<close>

definition bookable :: "spend_request \<Rightarrow> proposal_row \<Rightarrow> resource_row \<Rightarrow> int \<Rightarrow> ledger \<Rightarrow> bool" where
  "bookable q p r x L \<longleftrightarrow> rs_fence r < int8_max \<and>
     (let a = reserving q p (rs_fence r + 1) x in
      receipt_check a \<and> \<not> list_ex (spend_clash a) (receipts L) \<and>
      \<not> taken every receipt_key (receipt_key a) (receipts L) \<and> \<not> taken every receipt_digest_key (receipt_digest_key a) (receipts L) \<and>
      outbox_check (intent q a (rs_fence r + 1)) \<and> \<not> clashes outbox_keys (intent q a (rs_fence r + 1)) (outbox L))"

text \<open>What a reservation of the store rests on.\<close>

definition grounded :: "jsenv \<Rightarrow> (int \<Rightarrow> int) \<Rightarrow> (nat \<Rightarrow> int) \<Rightarrow> jsv \<Rightarrow> proposal_row \<Rightarrow> resource_row \<Rightarrow> ledger \<Rightarrow> bool" where
  "grounded E ms t r p s L \<longleftrightarrow> (let q = spend_parameters r in
     (\<exists>b. binds E ms (t 0) r b p L) \<and> ms (pr_expires p) > ms (t 0) \<and> pr_expires p > t 4 \<and>
     (\<exists>e. find_epoch L (sq_tenant q) (sq_action q) = Some e \<and> ep_epoch e = ai_epoch (pr_id p)) \<and>
     spends L (sq_tenant q) (sq_action q) = [] \<and>
     (\<exists>e. evidence_for q L = [e] \<and> admissibility_of (evidence L) (t 2) (sq_agency q) e = ''admissible'' \<and>
       ev_digest e = Some (sq_evidence_digest q) \<and> stored_evidence_digest E ms e = Inr (sq_evidence_digest q)) \<and>
     find_resource L (sq_tenant q) (sq_resource q) = Some s \<and> rs_run s = sq_run q \<and> \<not> held (t 4) s)"

definition store_grant :: "(int \<Rightarrow> int) \<Rightarrow> (nat \<Rightarrow> int) \<Rightarrow> spend_request \<Rightarrow> proposal_row \<Rightarrow> resource_row \<Rightarrow> ledger \<Rightarrow> spend_answer \<Rightarrow> bool" where
  "store_grant ms t q p s L' d \<longleftrightarrow> granted d \<and> (let y = t 4 + sq_lease q * 1000; a = reserving q p (rs_fence s + 1) (ms y * 1000) in
     sa_receipt d = Some a \<and> sa_current d = final_authority (t 6) q (rs_fence s + 1) L')"

lemma opened_is_pending: "pr_id p = bound_identity q b \<Longrightarrow> opened_receipt q (bound_identity q b) = pending_receipt q p"
  by (simp add: opened_receipt_def pending_receipt_def bound_identity_def)

lemma replay_not_granted: "how \<noteq> ''resource_reserved'' \<Longrightarrow> replay_receipt E ms now q how a L = Inr d \<Longrightarrow> \<not> granted d"
  by (auto simp: replay_receipt_def granted_def and_then_eq_Inr split: if_split_asm)

lemma existing_not_granted: "existing_receipt E ms now q L = Inr (Some d) \<Longrightarrow> \<not> granted d"
  unfolding existing_receipt_def
  by (auto simp: map_sum_eq_Inr dest!: replay_not_granted [rotated] split: list.split_asm if_split_asm)

lemma unwritten_not_granted [simp]: "\<not> granted (unwritten q reason)"
  by (simp add: granted_def unwritten_def)

lemma denied_as_denial:
  assumes "insert_pending (pending_receipt q p) L = Inr (Some L1)" and "denied_as q reason a L1 = Inr (L', d)"
    and "receipt_key a = (sq_tenant q, sq_operation q)" and "receipt_digest_key a = (sq_tenant q, sq_digest q)"
    and "ar_outcome a \<in> {''authorization_denied'', ''resource_held_denied''}" and "ar_fence a = None"
    and "ar_outcome a = ''resource_held_denied'' \<Longrightarrow> refused_by_holder a L1"
  shows "denial q a L L' \<and> \<not> granted d"
proof -
  from assms(1) have p: "\<not> taken every receipt_key (receipt_key (pending_receipt q p)) (receipts L)"
      "\<not> taken every receipt_digest_key (sq_tenant q, sq_digest q) (receipts L)" "L1 = L\<lparr>receipts := receipts L @ [pending_receipt q p]\<rparr>"
    by (simp_all add: insert_pending_Some)
  from assms(2,3) have "receipt_check a" "L' = L\<lparr>receipts := receipts L @ [a]\<rparr>" "d = written q (ar_outcome a) reason a"
    using update_appended [OF p(1), of a L'] unfolding p(3) denied_as_def by (auto simp: and_then_eq_Inr call_Inr)
  then show ?thesis using p assms(3-7) by (auto simp: denial_def granted_def written_def refused_by_holder_def find_resource_def)
qed

lemma store_deny_denial:
  assumes "insert_pending (pending_receipt q p) L = Inr (Some L1)" and "store_deny q (pending_receipt q p) reason digest L1 = Inr (L', d)"
  shows "(\<exists>a. denial q a L L') \<and> \<not> granted d"
  using denied_as_denial [OF assms(1) assms(2) [unfolded store_deny_def]]
  by (auto simp: receipt_key_def receipt_digest_key_def pending_receipt_def)

lemma store_deny_held_denial:
  assumes "insert_pending (pending_receipt q p) L = Inr (Some L1)" and "store_deny_held q (pending_receipt q p) digest s h L1 = Inr (L', d)"
    and "find_resource L1 (sq_tenant q) (sq_resource q) = Some s" and "rs_run s = sq_run q" and "rs_holder s = Some h"
  shows "(\<exists>a. denial q a L L') \<and> \<not> granted d"
  using denied_as_denial [OF assms(1) assms(2) [unfolded store_deny_held_def]] assms(3-5)
  by (auto simp: receipt_key_def receipt_digest_key_def pending_receipt_def refused_by_holder_def)

lemma store_reserve_books:
  assumes "insert_pending (pending_receipt q p) L = Inr (Some L1)"
    and "store_reserve ms t q (pending_receipt q p) (sq_evidence_digest q) s L1 = Inr (L', d)" and "rs_fence s < int8_max"
  defines "y \<equiv> t 4 + sq_lease q * 1000"
  shows "bookable q p s (ms y * 1000) L \<and> L' = booked q p s (ms y * 1000) y L \<and> store_grant ms t q p s L' d"
proof -
  let ?a = "reserving q p (rs_fence s + 1) (ms y * 1000)"
  have a: "(pending_receipt q p)\<lparr>ar_outcome := ''resource_reserved'', ar_evidence_digest := Some (sq_evidence_digest q),
      ar_fence := Some (rs_fence s + 1), ar_expires := Some (ms y * 1000)\<rparr> = ?a"
    by (simp add: reserving_def)
  have k: "receipt_key ?a = receipt_key (pending_receipt q p)" "receipt_digest_key ?a = receipt_digest_key (pending_receipt q p)"
    by (simp_all add: receipt_key_def receipt_digest_key_def reserving_def)
  from assms(1) have p: "\<not> taken every receipt_key (receipt_key (pending_receipt q p)) (receipts L)"
      "\<not> taken every receipt_digest_key (receipt_digest_key (pending_receipt q p)) (receipts L)" "L1 = L\<lparr>receipts := receipts L @ [pending_receipt q p]\<rparr>"
    by (simp_all add: insert_pending_Some)
  have same: "acquired q (pending_receipt q p) z = acquired q ?a z" "intent q (pending_receipt q p) f = intent q ?a f" for z f
    by (simp_all add: acquired_def intent_def reserving_def fun_eq_iff)
  let ?rs = "update_where (\<lambda>r. resource_key r = (sq_tenant q, sq_resource q)) (acquired q ?a y) (resources L)"
  have swap: "L\<lparr>receipts := u, resources := v\<rparr> = L\<lparr>resources := v, receipts := u\<rparr>" for u v by (cases L) simp
  from assms(2) obtain L2 where u: "update_receipt ?a (L\<lparr>receipts := receipts L @ [pending_receipt q p], resources := ?rs\<rparr>) = Inr L2"
      "insert_outbox (intent q ?a (rs_fence s + 1)) L2 = Inr L'" "granted d" "sa_receipt d = Some ?a"
      "sa_current d = final_authority (t 6) q (rs_fence s + 1) L'"
    unfolding store_reserve_def Let_def y_def [symmetric] a p(3) same by (auto simp: and_then_eq_Inr call_Inr granted_def)
  from u(1) have b: "receipt_check ?a" "\<not> list_ex (spend_clash ?a) (receipts L)" "L2 = L\<lparr>resources := ?rs, receipts := receipts L @ [?a]\<rparr>"
    using update_appended [of "pending_receipt q p" "L\<lparr>resources := ?rs\<rparr>" ?a L2] p(1) k by (auto simp: swap)
  from u(2) have "outbox_check (intent q ?a (rs_fence s + 1))" "\<not> clashes outbox_keys (intent q ?a (rs_fence s + 1)) (outbox L)"
      "L' = booked q p s (ms y * 1000) y L"
    unfolding insert_outbox_def b(3) booked_def Let_def by (auto simp: swap split: if_split_asm)
  with b p k u(3-5) assms(3) show ?thesis by (simp add: bookable_def store_grant_def Let_def y_def)
qed

lemma acquisition_not_granted:
  assumes "insert_pending (pending_receipt q p) L = Inr (Some L1)" and "q = spend_parameters r"
    and "acquisition_failed E ms t r (pending_receipt q p) digest L1 = Inr (L', d)"
  shows "(\<exists>a. denial q a L L') \<and> \<not> granted d"
proof -
  from assms(3) obtain b where b: "(case b of
       Not_bound reason \<Rightarrow>
         if reason = ''proposal_authorization_expired'' then store_deny q (pending_receipt q p) reason (Some digest) L1
         else Inl (Invariant ''locked resource could not be acquired or denied deterministically'')
     | Bound _ _ _ \<Rightarrow> Inl (Invariant ''locked resource could not be acquired or denied deterministically'')) = Inr (L', d)"
    unfolding acquisition_failed_def assms(2) [symmetric] by (auto simp: and_then_eq_Inr)
  then obtain reason where "store_deny q (pending_receipt q p) reason (Some digest) L1 = Inr (L', d)"
    by (cases b) (simp_all split: if_split_asm)
  then show ?thesis by (rule store_deny_denial [OF assms(1)])
qed

lemma take_resource_result:
  assumes "insert_pending (pending_receipt q p) L = Inr (Some L1)" and "q = spend_parameters r"
    and "take_resource E ms t r (pending_receipt q p) (sq_evidence_digest q) L1 = Inr (L', d)"
    and "filter (\<lambda>p. proposal_key p = (sq_tenant q, sq_proposal q)) (proposals L) = [p]"
  shows "(\<exists>a. denial q a L L') \<and> \<not> granted d \<or> (\<exists>s. find_resource L (sq_tenant q) (sq_resource q) = Some s \<and> rs_run s = sq_run q \<and>
    \<not> held (t 4) s \<and> pr_expires p > t 4 \<and> (let y = t 4 + sq_lease q * 1000 in
      bookable q p s (ms y * 1000) L \<and> L' = booked q p s (ms y * 1000) y L \<and> store_grant ms t q p s L' d))"
proof (cases "\<exists>s. find_resource L1 (sq_tenant q) (sq_resource q) = Some s \<and> may_acquire (t 4) q (pending_receipt q p) s L1 \<and>
    store_reserve ms t q (pending_receipt q p) (sq_evidence_digest q) s L1 = Inr (L', d)")
  case False
  with assms(3) have "(\<exists>reason digest. store_deny q (pending_receipt q p) reason digest L1 = Inr (L', d)) \<or>
      (\<exists>s h. store_deny_held q (pending_receipt q p) (sq_evidence_digest q) s h L1 = Inr (L', d) \<and>
        find_resource L1 (sq_tenant q) (sq_resource q) = Some s \<and> rs_run s = sq_run q \<and> rs_holder s = Some h) \<or>
      acquisition_failed E ms t r (pending_receipt q p) (sq_evidence_digest q) L1 = Inr (L', d)"
    unfolding take_resource_def Let_def assms(2) [symmetric] by (auto split: option.split_asm if_split_asm)
  then show ?thesis
    using store_deny_denial [OF assms(1)] store_deny_held_denial [OF assms(1)] acquisition_not_granted [OF assms(1,2)] by blast
next
  case True
  then obtain s where s: "find_resource L1 (sq_tenant q) (sq_resource q) = Some s" "may_acquire (t 4) q (pending_receipt q p) s L1"
      "store_reserve ms t q (pending_receipt q p) (sq_evidence_digest q) s L1 = Inr (L', d)" by blast
  have L1: "L1 = L\<lparr>receipts := receipts L @ [pending_receipt q p]\<rparr>" using assms(1) by (simp add: insert_pending_Some)
  from s(2) obtain p' where p': "p' \<in> set (proposals L)" "proposal_key p' = (sq_tenant q, sq_proposal q)" "pr_expires p' > t 4"
    by (auto simp: may_acquire_def L1 list_ex_iff)
  then have "p' \<in> set (filter (\<lambda>p. proposal_key p = (sq_tenant q, sq_proposal q)) (proposals L))" by simp
  with p'(3) have "pr_expires p > t 4" unfolding assms(4) by simp
  moreover have "rs_fence s < int8_max" "rs_run s = sq_run q" "\<not> held (t 4) s" using s(2) by (simp_all add: may_acquire_def)
  moreover have "find_resource L (sq_tenant q) (sq_resource q) = Some s" using s(1) by (simp add: L1 find_resource_def)
  ultimately show ?thesis using store_reserve_books [OF assms(1) s(3)] by (auto simp: Let_def)
qed

lemma store_settle_result:
  assumes "insert_pending (pending_receipt q p) L = Inr (Some L1)" and "q = spend_parameters r"
    and "store_settle E ms t r (pending_receipt q p) L1 = Inr (L', d)"
    and "filter (\<lambda>p. proposal_key p = (sq_tenant q, sq_proposal q)) (proposals L) = [p]"
  shows "(\<exists>a. denial q a L L') \<and> \<not> granted d \<or>
    (\<exists>e. evidence_for q L = [e] \<and> admissibility_of (evidence L) (t 2) (sq_agency q) e = ''admissible'' \<and>
       ev_digest e = Some (sq_evidence_digest q) \<and> stored_evidence_digest E ms e = Inr (sq_evidence_digest q)) \<and>
    take_resource E ms t r (pending_receipt q p) (sq_evidence_digest q) L1 = Inr (L', d)"
proof (cases "\<exists>reason digest. store_deny q (pending_receipt q p) reason digest L1 = Inr (L', d)")
  case True
  then show ?thesis using store_deny_denial [OF assms(1)] by blast
next
  case False
  have L1: "L1 = L\<lparr>receipts := receipts L @ [pending_receipt q p]\<rparr>" using assms(1) by (simp add: insert_pending_Some)
  then have same: "evidence_for q L1 = evidence_for q L" "evidence L1 = evidence L" by (simp_all add: evidence_for_def)
  from assms(3) False obtain e where e: "evidence_for q L = [e]" "admissibility_of (evidence L) (t 2) (sq_agency q) e = ''admissible''"
      "and_then (js_call (stored_evidence_digest E ms e)) (\<lambda>digest.
         if ev_digest e \<noteq> Some digest \<or> digest \<noteq> sq_evidence_digest q
         then store_deny q (pending_receipt q p) ''selected_evidence_digest_mismatch'' None L1
         else take_resource E ms t r (pending_receipt q p) digest L1) = Inr (L', d)"
    unfolding store_settle_def Let_def assms(2) [symmetric] same by (auto split: list.split_asm if_split_asm)
  then show ?thesis using False by (auto simp: and_then_eq_Inr call_Inr split: if_split_asm)
qed

lemma spend_new_result:
  assumes "spend_new E ms t r (bound_identity q b) L = Inr (L', d)" and "q = spend_parameters r" and "pr_id p = bound_identity q b"
  shows "L' = L \<and> \<not> granted d \<or> (\<exists>L1. insert_pending (pending_receipt q p) L = Inr (Some L1) \<and>
    store_settle E ms t r (pending_receipt q p) L1 = Inr (L', d))"
proof -
  from assms obtain inserted where "insert_pending (pending_receipt q p) L = Inr inserted"
      "(case inserted of
        None \<Rightarrow> and_then (existing_receipt E ms (t 1) q L) (\<lambda>existing.
          case existing of
            None \<Rightarrow> Inl (Invariant ''receipt conflict was not reconcilable by operation or digest'')
          | Some answer \<Rightarrow> Inr (L, answer))
      | Some L' \<Rightarrow> store_settle E ms t r (pending_receipt q p) L') = Inr (L', d)"
    unfolding spend_new_def Let_def assms(2) [symmetric] by (auto simp: and_then_eq_Inr call_Inr opened_is_pending simp del: One_nat_def)
  then show ?thesis
    by (cases inserted) (auto simp: and_then_eq_Inr split: option.split_asm dest: existing_not_granted)
qed

lemma spend_bound_result:
  assumes "spend_bound E ms t r b L = Inr (L', d)" and "\<not> (L' = L \<and> \<not> granted d)"
  shows "\<exists>e. find_epoch L (sq_tenant (spend_parameters r)) (sq_action (spend_parameters r)) = Some e \<and>
    existing_receipt E ms (t 1) (spend_parameters r) L = Inr None \<and> ep_epoch e = bp_epoch b \<and> bp_current b \<and>
    spend_new E ms t r (bound_identity (spend_parameters r) b) L = Inr (L', d)"
proof -
  let ?q = "spend_parameters r"
  from assms(1) obtain e where e: "find_epoch L (sq_tenant ?q) (sq_action ?q) = Some e"
    unfolding spend_bound_def Let_def by (cases "find_epoch L (sq_tenant ?q) (sq_action ?q)") simp_all
  with assms(1) obtain existing where x: "existing_receipt E ms (t 1) ?q L = Inr existing"
      "(case existing of Some answer \<Rightarrow> Inr (L, answer)
        | None \<Rightarrow> if ep_epoch e \<noteq> bp_epoch b then Inr (L, unwritten ?q ''proposal_authorization_superseded'')
            else if \<not> bp_current b then Inr (L, unwritten ?q ''proposal_authorization_expired'')
            else spend_new E ms t r (bound_identity ?q b) L) = Inr (L', d)"
    unfolding spend_bound_def Let_def by (auto simp: and_then_eq_Inr simp del: One_nat_def)
  show ?thesis
  proof (cases existing)
    case (Some answer)
    with x have "L' = L" "\<not> granted d" by (simp_all add: existing_not_granted)
    with assms(2) show ?thesis by simp
  next
    case None
    with x assms(2) show ?thesis using e by (auto simp del: One_nat_def split: if_split_asm)
  qed
qed

text \<open>Every spend of the store that returns.\<close>

lemma store_spend_result:
  assumes "store_spend E ms t inp L = Inr (L', d)"
  shows "\<exists>r. normalize_request E inp = Inr r \<and> (let q = spend_parameters r in
    L' = L \<and> \<not> granted d \<or> (\<exists>a. denial q a L L') \<and> \<not> granted d \<or>
    (\<exists>p s. grounded E ms t r p s L \<and> store_grant ms t q p s L' d \<and>
      (let y = t 4 + sq_lease q * 1000 in bookable q p s (ms y * 1000) L \<and> L' = booked q p s (ms y * 1000) y L)))"
proof -
  from assms obtain r where r: "normalize_request E inp = Inr r" "spend_work E ms t r L = Inr (L', d)"
    by (auto simp: store_spend_def and_then_eq_Inr call_Inr)
  let ?q = "spend_parameters r"
  show ?thesis
  proof (cases "L' = L \<and> \<not> granted d")
    case False
    from r(2) obtain b where b: "bound_in E ms (t 0) r False L = Inr b" by (auto simp: spend_work_def and_then_eq_Inr)
    with r(2) False obtain c row n where c: "b = Bound c row n" by (cases b) (auto simp: spend_work_def)
    with r(2) b have "spend_bound E ms t r b L = Inr (L', d)" by (simp add: spend_work_def)
    from spend_bound_result [OF this False] obtain e where e: "find_epoch L (sq_tenant ?q) (sq_action ?q) = Some e"
        "existing_receipt E ms (t 1) ?q L = Inr None" "ep_epoch e = bp_epoch b" "bp_current b"
        "spend_new E ms t r (bound_identity ?q b) L = Inr (L', d)" by blast
    from bound_in_Inr [OF r(1) b c] obtain p where p: "binds E ms (t 0) r b p L" by blast
    then have pd: "pr_id p = bound_identity ?q b" "filter (\<lambda>p. proposal_key p = (sq_tenant ?q, sq_proposal ?q)) (proposals L) = [p]"
        "ms (t 0) < ms (pr_expires p)" using e(4) by (simp_all add: binds_def Let_def)
    from e(2) have un: "spends L (sq_tenant ?q) (sq_action ?q) = []"
      by (auto simp: existing_receipt_def map_sum_eq_Inr split: list.split_asm if_split_asm)
    from spend_new_result [OF e(5) refl pd(1)] False obtain L1 where i: "insert_pending (pending_receipt ?q p) L = Inr (Some L1)"
        "store_settle E ms t r (pending_receipt ?q p) L1 = Inr (L', d)" by blast
    have ep: "\<exists>e. find_epoch L (sq_tenant ?q) (sq_action ?q) = Some e \<and> ep_epoch e = ai_epoch (pr_id p)"
      using e(1,3) pd(1) by (simp add: bound_identity_def)
    from store_settle_result [OF i(1) refl i(2) pd(2)] take_resource_result [OF i(1) refl _ pd(2)] show ?thesis
      using r(1) p pd(3) un ep unfolding grounded_def Let_def by blast
  qed (use r(1) in \<open>auto simp: Let_def\<close>)
qed

section \<open>What an authorization does\<close>

lemma take_back_undoes:
  assumes "unique_on every epoch_key (epochs L)" and "find_epoch L tenant action = Some e" and "ep_epoch e = 0"
    and "insert_proposal p (open_epoch tenant action L) = Inr L2" and "proposal_key p = (tenant, digest)"
    and "take_back tenant digest action L2 = Inr (L', d)"
  shows "L' = L"
proof -
  let ?f = "\<lambda>e. epoch_key e = (tenant, action) \<and> ep_epoch e = 0" let ?g = "\<lambda>e. epoch_key e = (tenant, action) \<and> ep_epoch e = 1"
  have e: "e \<in> set (epochs L)" "epoch_key e = (tenant, action)" using assms(2) by (auto simp: find_epoch_def dest: find_SomeD)
  have zero: "\<forall>x \<in> set (epochs L). epoch_key x = (tenant, action) \<longrightarrow> ep_epoch x = 0"
    using unique_onD [OF assms(1) _ e(1)] e(2) assms(3) by auto
  have same: "ep_epoch x = 0 \<Longrightarrow> x\<lparr>ep_epoch := 0\<rparr> = x" for x :: epoch_row by (cases x) simp
  have "update_where ?g (\<lambda>e. e\<lparr>ep_epoch := 0\<rparr>) (update_where ?f (\<lambda>e. e\<lparr>ep_epoch := 1\<rparr>) (epochs L)) = epochs L"
    unfolding update_where_def map_map comp_def by (rule map_idI) (use zero same in \<open>auto simp: epoch_key_def\<close>)
  moreover have L2: "L2 = L\<lparr>epochs := update_where ?f (\<lambda>e. e\<lparr>ep_epoch := 1\<rparr>) (epochs L), proposals := proposals L @ [p]\<rparr>"
      "\<not> taken every proposal_key (tenant, digest) (proposals L)"
    using assms(4,5) by (auto simp: insert_proposal_def open_epoch_def split: if_split_asm)
  moreover have "filter (\<lambda>p. proposal_key p \<noteq> (tenant, digest)) (proposals L) = proposals L"
    using L2(2) by (auto simp: taken_iff filter_id_conv)
  ultimately show ?thesis
    using assms(5,6) by (cases L) (auto simp: take_back_def restore_epoch_def delete_proposal_def split: if_split_asm)
qed

lemma stored_proposal_ids:
  "pr_tenant (stored_proposal E z k b) = text_of (fld (fld z ''logicalAction'') ''tenantId'')"
  "pr_id (stored_proposal E z k b) = \<lparr>ai_proposal = text_of (fld z ''proposalDigest''), ai_action = text_of (fld z ''logicalActionDigest''),
     ai_epoch = 1, ai_key = k, ai_binding = b\<rparr>"
  by (simp_all add: stored_proposal_def Let_def)

lemma initialize_result:
  assumes "initialize_epoch E D ms t z L = Inr (L', d)" and "unique_on every epoch_key (epochs L)"
    and "tenant = text_of (fld (fld z ''logicalAction'') ''tenantId'')" and "action = text_of (fld z ''logicalActionDigest'')"
    and "find_epoch L tenant action = Some e" and "ep_epoch e = 0"
  shows "L' = L \<or> (\<exists>p. pr_tenant p = tenant \<and> ai_action (pr_id p) = action \<and> ai_epoch (pr_id p) = 1 \<and>
    insert_proposal p (open_epoch tenant action L) = Inr L')"
proof -
  let ?digest = "text_of (fld z ''proposalDigest'')"
  from assms(1) obtain k b L2 where i: "insert_proposal (stored_proposal E z k b) (open_epoch tenant action L) = Inr L2"
      and c: "L' = L2 \<or> take_back tenant ?digest action L2 = Inr (L', d)"
    unfolding initialize_epoch_def Let_def assms(3,4) by (auto simp: and_then_eq_Inr call_Inr split: if_split_asm)
  let ?p = "stored_proposal E z k b"
  have p: "pr_tenant ?p = tenant" "ai_action (pr_id ?p) = action" "ai_epoch (pr_id ?p) = 1" "ai_proposal (pr_id ?p) = ?digest"
    by (simp_all add: stored_proposal_ids assms(3,4))
  from c show ?thesis
  proof
    assume "take_back tenant ?digest action L2 = Inr (L', d)"
    with take_back_undoes [OF assms(2,5,6) i, of ?digest] p show ?thesis by (simp add: proposal_key_def)
  qed (use p i in blast)
qed

lemma lock_result:
  assumes "lock_epoch E D ms t z L = Inr (L', d)" and "unique_on every epoch_key (epochs L)"
    and "tenant = text_of (fld (fld z ''logicalAction'') ''tenantId'')" and "action = text_of (fld z ''logicalActionDigest'')"
  shows "L' = L \<or> (\<exists>p e. pr_tenant p = tenant \<and> ai_action (pr_id p) = action \<and> ai_epoch (pr_id p) = 1 \<and>
    find_epoch L tenant action = Some e \<and> ep_epoch e = 0 \<and> insert_proposal p (open_epoch tenant action L) = Inr L')"
proof (cases "\<exists>e. find_epoch L tenant action = Some e \<and> ep_epoch e = 0 \<and> initialize_epoch E D ms t z L = Inr (L', d)")
  case True
  then show ?thesis using initialize_result [OF _ assms(2-4)] by blast
next
  case False
  from assms(1) obtain e where e: "find_epoch L tenant action = Some e"
    unfolding lock_epoch_def Let_def assms(3,4)
    by (cases "find_epoch L (text_of (fld (fld z ''logicalAction'') ''tenantId'')) (text_of (fld z ''logicalActionDigest''))") simp_all
  with assms(1) False show ?thesis
    unfolding lock_epoch_def Let_def assms(3,4) by (auto simp: and_then_eq_Inr split: option.split_asm if_split_asm)
qed

text \<open>Every authorization of the store that returns.\<close>

lemma store_authorize_result:
  assumes "store_authorize E D ms t inp L = Inr (L', d)" and "unique_on every epoch_key (epochs L)"
  shows "L' = L \<or> (\<exists>tenant action L1. insert_epoch tenant action L = Inr L1 \<and>
    (L' = L1 \<or> (\<exists>p e. pr_tenant p = tenant \<and> ai_action (pr_id p) = action \<and> ai_epoch (pr_id p) = 1 \<and>
      find_epoch L1 tenant action = Some e \<and> ep_epoch e = 0 \<and> insert_proposal p (open_epoch tenant action L1) = Inr L')))"
proof (cases "L' = L")
  case False
  from assms(1) obtain z where "authorize_work E D ms t z L = Inr (L', d)" by (auto simp: store_authorize_def and_then_eq_Inr)
  with False obtain L1 where L1: "insert_epoch (text_of (fld (fld z ''logicalAction'') ''tenantId'')) (text_of (fld z ''logicalActionDigest'')) L = Inr L1"
      "lock_epoch E D ms t z L1 = Inr (L', d)"
    unfolding authorize_work_def by (auto simp: and_then_eq_Inr call_Inr split: option.split_asm)
  then have "unique_on every epoch_key (epochs L1)" using assms(2) by (auto simp: insert_epoch_def Let_def unique_on_append split: if_split_asm)
  from lock_result [OF L1(2) this refl refl] L1(1) show ?thesis by blast
qed simp

section \<open>What a recorded effect does\<close>

lemma removed_again: "\<not> clashes effect_keys (protected_effect q i n) (effects L) \<Longrightarrow>
    remove_effect q (L\<lparr>effects := effects L @ [protected_effect q i n]\<rparr>) = L"
proof -
  assume c: "\<not> clashes effect_keys (protected_effect q i n) (effects L)"
  have "e \<in> set (effects L) \<Longrightarrow> \<not> (fx_tenant e = sq_tenant q \<and> fx_effect e = sq_effect q \<and> fx_operation e = sq_operation q)" for e
    using c by (auto simp: clashes_def list_ex_iff effect_keys_def protected_effect_def)
  then have "filter (\<lambda>e. \<not> (fx_tenant e = sq_tenant q \<and> fx_effect e = sq_effect q \<and> fx_operation e = sq_operation q)) (effects L) = effects L"
    by (simp add: filter_id_conv)
  then show ?thesis by (simp add: remove_effect_def protected_effect_def)
qed

definition recorded_by :: "effect_answer \<Rightarrow> effect_row option" where
  "recorded_by d = (case d of Effect_recorded e \<Rightarrow> Some e | _ \<Rightarrow> None)"

lemma known_not_recorded: "known_effects q fence how L = Inr (Some d) \<Longrightarrow> recorded_by d = None"
  by (auto simp: known_effects_def known_effect_def recorded_by_def map_sum_eq_Inr split: list.split_asm if_split_asm)

text \<open>A recorded effect: the rows it rests on, and its row.\<close>

definition recorded_on :: "pg \<Rightarrow> (nat \<Rightarrow> int) \<Rightarrow> spend_request \<Rightarrow> authority_id \<Rightarrow> int \<Rightarrow> ledger \<Rightarrow> ledger \<Rightarrow> bool" where
  "recorded_on D t q i n L L' \<longleftrightarrow> (let e = protected_effect q i n in
     joined (effect_join D (t 1) q i n) L \<noteq> [] \<and> \<not> clashes effect_keys e (effects L) \<and>
     L' = L\<lparr>effects := effects L @ [e]\<rparr> \<and> final_authority (t 2) q n L')"

lemma effect_insert_result:
  assumes "effect_insert D t q i fence L = Inr (L', d)" and "n = decimal_value fence"
  shows "L' = L \<and> recorded_by d = None \<or> recorded_by d = Some (protected_effect q i n) \<and> recorded_on D t q i n L L'"
proof -
  from assms obtain inserted where i: "insert_protected D (t 1) q i n L = Inr inserted"
    by (auto simp: effect_insert_def Let_def and_then_eq_Inr call_Inr)
  show ?thesis
  proof (cases inserted)
    case None
    with assms i obtain raced where "known_effects q fence (\<lambda>_. ''logical_authority_replay'') L = Inr raced" "L' = L"
        "d = (case raced of Some answer \<Rightarrow> answer | None \<Rightarrow> Effect_denied None)"
      by (auto simp: effect_insert_def Let_def and_then_eq_Inr)
    then show ?thesis by (cases raced) (auto simp: recorded_by_def known_not_recorded [unfolded recorded_by_def])
  next
    case (Some L1)
    with i have new: "joined (effect_join D (t 1) q i n) L \<noteq> []" "\<not> clashes effect_keys (protected_effect q i n) (effects L)"
        "L1 = L\<lparr>effects := effects L @ [protected_effect q i n]\<rparr>"
      by (auto simp: insert_protected_def insert_effect_def split: if_split_asm)
    from assms i Some have "(if final_authority (t 2) q n L1 then Inr (L1, Effect_recorded (protected_effect q i n))
        else Inr (remove_effect q L1, Effect_denied None)) = (Inr (L', d) :: store_error + _)"
      by (simp add: effect_insert_def Let_def split: if_split_asm)
    with new show ?thesis
      using removed_again [OF new(2)] by (auto simp: recorded_by_def recorded_on_def Let_def split: if_split_asm)
  qed
qed

lemma store_record_result:
  assumes "store_record E D ms t inp agent L = Inr (L', d)"
  shows "L' = L \<and> recorded_by d = None \<or>
    (\<exists>r i n. normalize_request E inp = Inr r \<and> recorded_by d = Some (protected_effect (spend_parameters r) i n) \<and>
      recorded_on D t (spend_parameters r) i n L L')"
proof (cases "L' = L \<and> recorded_by d = None")
  case False
  have [simp]: "recorded_by (Effect_denied reason) = None" for reason by (simp add: recorded_by_def)
  from assms False obtain r fence where r: "normalize_request E inp = Inr r" and w: "effect_work E D ms t r fence L = Inr (L', d)"
    by (auto simp: store_record_def and_then_eq_Inr call_Inr split: if_split_asm)
  let ?q = "spend_parameters r"
  from w obtain b where b: "bound_in E ms (t 0) r True L = Inr b" by (auto simp: effect_work_def Let_def and_then_eq_Inr)
  with w False obtain c row m where c: "b = Bound c row m" by (cases b) (auto simp: effect_work_def Let_def)
  from w b c obtain how known where k: "known_effects ?q fence how L = Inr known"
      "(case known of Some answer \<Rightarrow> Inr (L, answer) | None \<Rightarrow> effect_insert D t ?q (bound_identity ?q b) fence L) = Inr (L', d)"
    by (auto simp: effect_work_def Let_def and_then_eq_Inr)
  with False have "known = None" by (cases known) (auto dest: known_not_recorded)
  with k effect_insert_result [of D t ?q _ fence L L' d] False r show ?thesis by (metis option.simps(4))
qed simp

end
