(* ===== verification/Ledger_Inv.thy ===== *)
theory Ledger_Inv
  imports Store_Change
begin

text \<open>
  The ledger as a state machine and its invariant: every table keeps its keys, a proposal
  stands for the one opened epoch of its action, a reserved receipt is backed by a proposal, an
  intent and the fence of its resource, a holder is a reserved receipt, and so is a protected
  effect.
\<close>

section \<open>The machine\<close>

datatype ledger_event =
  Evidence evidence_call
| Selected selection_row
| Prepared jsv
| Authorized string int "nat \<Rightarrow> int" proposal_request proposal_decision
| Spent string int "nat \<Rightarrow> int" spend_request spend_decision
| Recorded string "nat \<Rightarrow> int" effect_request "(string \<times> string) option"
| Stored_authorized "nat \<Rightarrow> int" jsv proposal_answer
| Stored_spent "nat \<Rightarrow> int" jsv spend_answer
| Stored_recorded "nat \<Rightarrow> int" jsv jsv effect_answer

text \<open>A selection is any row its table accepts.\<close>

inductive ledger_step :: "jsenv \<Rightarrow> crypto \<Rightarrow> (string \<Rightarrow> bool) \<Rightarrow> pg \<Rightarrow> (int \<Rightarrow> int) \<Rightarrow> ledger \<Rightarrow> ledger_event \<Rightarrow> ledger \<Rightarrow> bool" for E C vector D ms where
  step_evidence: "evidence_step E C vector (evidence L) call db \<Longrightarrow> ledger_step E C vector D ms L (Evidence call) (L\<lparr>evidence := db\<rparr>)"
| step_selected: "selection_check s \<Longrightarrow> \<not> taken every selection_key (selection_key s) (selections L) \<Longrightarrow>
    \<not> taken every selection_binding_key (selection_binding_key s) (selections L) \<Longrightarrow>
    ledger_step E C vector D ms L (Selected s) (L\<lparr>selections := selections L @ [s]\<rparr>)"
| step_prepared: "prepare_resource inp L = Inr (L', r) \<Longrightarrow> ledger_step E C vector D ms L (Prepared inp) L'"
| step_authorized: "authorize_proposal D user t clock z L = Inr (L', d) \<Longrightarrow> ledger_step E C vector D ms L (Authorized user t clock z d) L'"
| step_spent: "spend_authority D user t clock q L = Inr (L', d) \<Longrightarrow> ledger_step E C vector D ms L (Spent user t clock q d) L'"
| step_raced: "spend_race D user t clock q L = Inr (L', d) \<Longrightarrow> ledger_step E C vector D ms L (Spent user t clock q (rc_decision d)) L'"
| step_recorded: "record_effect D user clock f L = Inr (L', out) \<Longrightarrow> ledger_step E C vector D ms L (Recorded user clock f out) L'"
| step_stored_authorized: "store_authorize E D ms t inp L = Inr (L', pa) \<Longrightarrow> ledger_step E C vector D ms L (Stored_authorized t inp pa) L'"
| step_stored_spent: "store_spend E ms t inp L = Inr (L', sa) \<Longrightarrow> ledger_step E C vector D ms L (Stored_spent t inp sa) L'"
| step_stored_recorded: "store_record E D ms t inp agent L = Inr (L', ea) \<Longrightarrow> ledger_step E C vector D ms L (Stored_recorded t inp agent ea) L'"

inductive_cases ledger_stepE: "ledger_step E C vector D ms L ev L'"

lemma race_spends: "spend_race D user t clock q L = Inr (L', d) \<Longrightarrow> spend_authority D user t clock q L = Inr (L', rc_decision d)"
  by (auto simp: spend_race_def race_answer_def Let_def and_then_eq_Inr split: if_split_asm)

section \<open>The invariant\<close>

definition keys_unique :: "nat \<Rightarrow> ('r \<Rightarrow> 'k list) \<Rightarrow> 'r list \<Rightarrow> bool" where
  "keys_unique n keys rows \<longleftrightarrow> (\<forall>i < n. unique_on every (\<lambda>r. keys r ! i) rows)"

definition proposals_ok :: "ledger \<Rightarrow> bool" where
  "proposals_ok L \<longleftrightarrow> unique_on every epoch_key (epochs L) \<and> list_all (\<lambda>e. ep_epoch e = 0 \<or> ep_epoch e = 1) (epochs L) \<and>
     unique_on every proposal_key (proposals L) \<and> unique_on every proposal_epoch_key (proposals L) \<and>
     unique_on every proposal_authority_key (proposals L) \<and>
     (\<forall>p \<in> set (proposals L). proposal_check p \<and> ai_epoch (pr_id p) = 1 \<and>
       (\<exists>e \<in> set (epochs L). epoch_key e = (pr_tenant p, ai_action (pr_id p)) \<and> ep_epoch e = 1))"

definition receipts_ok :: "ledger \<Rightarrow> bool" where
  "receipts_ok L \<longleftrightarrow> unique_on every receipt_key (receipts L) \<and> unique_on every receipt_digest_key (receipts L) \<and>
     unique_on reserved receipt_authority_key (receipts L) \<and> unique_on reserved receipt_action_key (receipts L) \<and>
     unique_on reserved receipt_fence_key (receipts L) \<and>
     list_all receipt_check (receipts L) \<and> list_all (\<lambda>a. ar_outcome a \<noteq> ''pending'') (receipts L)"

definition backed_by_proposal :: "proposal_row \<Rightarrow> receipt_row \<Rightarrow> bool" where
  "backed_by_proposal p a \<longleftrightarrow> pr_tenant p = ar_tenant a \<and> pr_id p = ar_id a \<and> pr_run p = ar_run a \<and> pr_incident p = ar_incident a \<and>
     pr_resource p = ar_resource a \<and> pr_agency p = ar_agency a \<and> pr_payload_digest p = ar_payload_digest a \<and>
     pr_evidence p = ar_evidence a \<and> Some (pr_evidence_digest p) = ar_evidence_digest a"

definition backed_by_outbox :: "outbox_row \<Rightarrow> receipt_row \<Rightarrow> bool" where
  "backed_by_outbox b a \<longleftrightarrow> ob_tenant b = ar_tenant a \<and> ob_operation b = ar_operation a \<and> outbox_matches b a"

definition backed_by_resource :: "resource_row \<Rightarrow> receipt_row \<Rightarrow> bool" where
  "backed_by_resource r a \<longleftrightarrow> resource_key r = (ar_tenant a, ar_resource a) \<and>
     (case ar_fence a of None \<Rightarrow> False | Some f \<Rightarrow> f \<le> rs_fence r)"

definition holder_of :: "receipt_row \<Rightarrow> resource_row \<Rightarrow> holder \<Rightarrow> bool" where
  "holder_of a r h \<longleftrightarrow> reserved a \<and> resource_key r = (ar_tenant a, ar_resource a) \<and> ar_operation a = ho_operation h \<and>
     ar_incident a = ho_incident h \<and> ar_agent a = ho_agent h \<and> ai_proposal (ar_id a) = ho_proposal h \<and> ai_key (ar_id a) = ho_key h \<and>
     ar_run a = rs_run r \<and> ar_fence a = Some (rs_fence r)"

definition effect_matches :: "effect_row \<Rightarrow> receipt_row \<Rightarrow> bool" where
  "effect_matches f a \<longleftrightarrow> reserved a \<and> fx_tenant f = ar_tenant a \<and> fx_operation f = ar_operation a \<and> fx_digest f = ar_digest a \<and>
     fx_id f = ar_id a \<and> fx_run f = ar_run a \<and> fx_incident f = ar_incident a \<and> fx_resource f = ar_resource a \<and> fx_agent f = ar_agent a \<and>
     Some (fx_fence f) = ar_fence a \<and> fx_effect f = ar_effect a \<and> fx_payload_digest f = ar_payload_digest a"

definition links_ok :: "ledger \<Rightarrow> bool" where
  "links_ok L \<longleftrightarrow> (\<forall>a \<in> set (receipts L). reserved a \<longrightarrow>
     (\<exists>p \<in> set (proposals L). backed_by_proposal p a) \<and> (\<exists>b \<in> set (outbox L). backed_by_outbox b a) \<and>
     (\<exists>r \<in> set (resources L). backed_by_resource r a)) \<and>
   (\<forall>b \<in> set (outbox L). \<exists>a \<in> set (receipts L). reserved a \<and> backed_by_outbox b a) \<and>
   (\<forall>r \<in> set (resources L). \<forall>h. rs_holder r = Some h \<longrightarrow> (\<exists>a \<in> set (receipts L). holder_of a r h)) \<and>
   (\<forall>f \<in> set (effects L). \<exists>a \<in> set (receipts L). effect_matches f a)"

definition tables_ok :: "ledger \<Rightarrow> bool" where
  "tables_ok L \<longleftrightarrow> unique_on every resource_key (resources L) \<and> list_all (\<lambda>r. 0 \<le> rs_fence r \<and> rs_fence r \<le> int8_max) (resources L) \<and>
     keys_unique 4 outbox_keys (outbox L) \<and> keys_unique 4 effect_keys (effects L)"

definition ledger_ok :: "ledger \<Rightarrow> bool" where
  "ledger_ok L \<longleftrightarrow> evidence_ok (evidence L) \<and> proposals_ok L \<and> receipts_ok L \<and> tables_ok L \<and> links_ok L"

definition empty_ledger :: ledger where
  "empty_ledger = \<lparr>evidence = no_evidence, selections = [], epochs = [], proposals = [], receipts = [], resources = [], outbox = [], effects = []\<rparr>"

lemma empty_ledger_ok: "ledger_ok empty_ledger"
  by (simp add: ledger_ok_def empty_ledger_def no_evidence_ok proposals_ok_def receipts_ok_def tables_ok_def links_ok_def keys_unique_def)

section \<open>Unique keys\<close>

lemma clashes_iff: "clashes keys r rows \<longleftrightarrow> (\<exists>s \<in> set rows. \<exists>i < min (length (keys r)) (length (keys s)). keys r ! i = keys s ! i)"
  by (auto simp: clashes_def list_ex_iff set_zip)

lemma keys_unique_append:
  assumes "\<And>s. length (keys s) = n" and "\<not> clashes keys r rows" and "keys_unique n keys rows"
  shows "keys_unique n keys (rows @ [r])"
  using assms(2,3) unfolding keys_unique_def unique_on_append clashes_iff
  by (simp add: assms(1) taken_iff) metis

lemma key_lengths [simp]: "length (outbox_keys b) = 4" "length (effect_keys f) = 4"
  by (simp_all add: outbox_keys_def effect_keys_def)

lemma keys_uniqueD: "keys_unique n keys rows \<Longrightarrow> i < n \<Longrightarrow> r \<in> set rows \<Longrightarrow> s \<in> set rows \<Longrightarrow> keys r ! i = keys s ! i \<Longrightarrow> r = s"
  by (auto simp: keys_unique_def dest!: spec [of _ i] elim!: unique_onD)

section \<open>Resources, denials and effects keep it\<close>

lemma find_unique_iff:
  assumes "unique_on every key rows"
  shows "find (\<lambda>r. key r = k) rows = Some r \<longleftrightarrow> r \<in> set rows \<and> key r = k"
proof
  assume "r \<in> set rows \<and> key r = k"
  then show "find (\<lambda>r. key r = k) rows = Some r" using find_unique [OF assms, of r] by simp
qed (auto dest: find_SomeD)

lemma find_resource_iff: "unique_on every resource_key (resources L) \<Longrightarrow>
    find_resource L tenant i = Some r \<longleftrightarrow> r \<in> set (resources L) \<and> resource_key r = (tenant, i)"
  unfolding find_resource_def by (rule find_unique_iff)

lemma fresh_resource: "resource_key (new_resource tenant i run_id) = (tenant, i)" "rs_fence (new_resource tenant i run_id) = 0"
    "rs_holder (new_resource tenant i run_id) = None"
  by (simp_all add: new_resource_def resource_key_def)

lemma prepared_ok: "prepare_resource inp L = Inr (L', r) \<Longrightarrow> ledger_ok L \<Longrightarrow> ledger_ok L'"
proof -
  assume "prepare_resource inp L = Inr (L', r)" and ok: "ledger_ok L"
  then obtain tenant i run_id where "\<not> taken every resource_key (tenant, i) (resources L)"
      "L' = L\<lparr>resources := resources L @ [new_resource tenant i run_id]\<rparr>"
    by (auto simp: prepare_resource_def guard_simps call_Inr)
  with ok show ?thesis
    by (simp add: ledger_ok_def proposals_ok_def receipts_ok_def tables_ok_def unique_on_append int8_max_def
        fresh_resource)
      (auto simp: links_ok_def fresh_resource)
qed

lemma denial_ok: "denial q a L L' \<Longrightarrow> ledger_ok L \<Longrightarrow> ledger_ok L'"
proof -
  assume a: "denial q a L L'" and ok: "ledger_ok L"
  have r: "\<not> reserved a" "ar_outcome a \<noteq> ''pending''" using a by (auto simp: denial_def reserved_def)
  from ok have "links_ok L" by (simp add: ledger_ok_def)
  then have "links_ok L'" using a r by (auto simp: links_ok_def denial_def)
  moreover have "receipts_ok L'" using ok a r by (auto simp: ledger_ok_def denial_def receipts_ok_def unique_on_append)
  ultimately show ?thesis using ok a by (simp add: ledger_ok_def denial_def proposals_ok_def tables_ok_def)
qed

lemma single_liveD: "single_live now rows \<Longrightarrow> \<exists>r b a p. rows = [(r, b, a, p)] \<and> live now now now (r, b, a, p)"
  by (auto simp: single_live_def split: list.split_asm)

lemma joinedD: "joined match L = [(r, b, a, p)] \<Longrightarrow> r \<in> set (resources L) \<and> b \<in> set (outbox L) \<and> a \<in> set (receipts L) \<and> p \<in> set (proposals L) \<and> match (r, b, a, p)"
proof -
  assume "joined match L = [(r, b, a, p)]"
  then have "(r, b, a, p) \<in> set (joined match L)" by simp
  then show ?thesis by (auto simp: joined_def split: if_split_asm)
qed

lemma deleted_again: "\<not> clashes effect_keys (effect_of f i) (effects L) \<Longrightarrow>
    delete_effect f (L\<lparr>effects := effects L @ [effect_of f i]\<rparr>) = L"
proof -
  assume c: "\<not> clashes effect_keys (effect_of f i) (effects L)"
  have "e \<in> set (effects L) \<Longrightarrow> \<not> (fx_tenant e = fq_tenant f \<and> fx_effect e = fq_effect f \<and> fx_operation e = fq_operation f)" for e
    using c by (auto simp: clashes_iff effect_keys_def effect_of_def dest!: bspec [of _ _ e] spec [of _ 0])
  then have "filter (\<lambda>e. \<not> (fx_tenant e = fq_tenant f \<and> fx_effect e = fq_effect f \<and> fx_operation e = fq_operation f)) (effects L) = effects L"
    by (simp add: filter_id_conv)
  then show ?thesis by (simp add: delete_effect_def effect_of_def)
qed

text \<open>A call that records writes one row under an authority that is live, found twice; any other leaves the tables as they are.\<close>

lemma record_result:
  assumes "record_effect D user clock f L = Inr (L', out)"
  shows "out = None \<and> L' = L \<or> out = Some (fq_effect f, fq_operation f) \<and>
    (\<exists>r b a p. first_join D f (r, b, a, p) \<and> r \<in> set (resources L) \<and> b \<in> set (outbox L) \<and> a \<in> set (receipts L) \<and> p \<in> set (proposals L) \<and>
      live (clock 3) (clock 3) (clock 3) (r, b, a, p) \<and> \<not> clashes effect_keys (effect_of f (ob_id b)) (effects L) \<and>
      L' = L\<lparr>effects := effects L @ [effect_of f (ob_id b)]\<rparr> \<and> single_live (clock 4) (joined (second_join D f) L'))"
proof (cases "L' = L \<and> out = None")
  case False
  with assms obtain r b a p where j: "joined (\<lambda>x. first_join D f x \<and> live (clock 0) (clock 1) (clock 2) x) L = [(r, b, a, p)]"
      and l: "live (clock 3) (clock 3) (clock 3) (r, b, a, p)" and c: "\<not> clashes effect_keys (effect_of f (ob_id b)) (effects L)"
      and out: "single_live (clock 4) (joined (second_join D f) (L\<lparr>effects := effects L @ [effect_of f (ob_id b)]\<rparr>))"
        "L' = L\<lparr>effects := effects L @ [effect_of f (ob_id b)]\<rparr>" "out = Some (fq_effect f, fq_operation f)"
    unfolding record_effect_def insert_effect_def
    by (auto simp: and_then_eq_Inr deleted_again split: list.split_asm if_split_asm)
  from joinedD [OF j] l c out show ?thesis by blast
qed simp

lemma effects_part:
  assumes "ledger_ok L" and "keys_unique 4 effect_keys fs" and "\<And>f. f \<in> set fs \<Longrightarrow> \<exists>a \<in> set (receipts L). effect_matches f a"
  shows "ledger_ok (L\<lparr>effects := fs\<rparr>)"
  using assms by (simp add: ledger_ok_def proposals_ok_def receipts_ok_def tables_ok_def links_ok_def)

lemma joined_effect_matches:
  assumes "ledger_ok L" and "first_join D f (r, b, a, p)" and "a \<in> set (receipts L)" and "b \<in> set (outbox L)"
  shows "effect_matches (effect_of f (ob_id b)) a"
proof -
  from assms(1,4) obtain a' where a': "a' \<in> set (receipts L)" "reserved a'" "backed_by_outbox b a'"
    by (auto simp: ledger_ok_def links_ok_def)
  from assms(2) a'(3) have "receipt_key a' = receipt_key a"
    by (auto simp: first_join_def backed_by_outbox_def receipt_key_def)
  then have "a' = a" using assms(1,3) a'(1) by (auto simp: ledger_ok_def receipts_ok_def elim!: unique_onD)
  with a' assms(2) show ?thesis
    by (auto simp: first_join_def backed_by_outbox_def outbox_matches_def effect_matches_def effect_of_def holds_for_def resource_key_def)
qed

lemma recorded_ok: "record_effect D user clock f L = Inr (L', out) \<Longrightarrow> ledger_ok L \<Longrightarrow> ledger_ok L'"
proof -
  assume r: "record_effect D user clock f L = Inr (L', out)" and ok: "ledger_ok L"
  have old: "keys_unique 4 effect_keys (effects L)" "g \<in> set (effects L) \<Longrightarrow> \<exists>a \<in> set (receipts L). effect_matches g a" for g
    using ok by (simp_all add: ledger_ok_def tables_ok_def links_ok_def)
  from record_result [OF r] show ?thesis
  proof (elim disjE conjE exE)
    fix rr b a p assume new: "first_join D f (rr, b, a, p)" "a \<in> set (receipts L)" "b \<in> set (outbox L)"
        "\<not> clashes effect_keys (effect_of f (ob_id b)) (effects L)" and L': "L' = L\<lparr>effects := effects L @ [effect_of f (ob_id b)]\<rparr>"
    have "keys_unique 4 effect_keys (effects L @ [effect_of f (ob_id b)])"
      using new(4) old(1) by (intro keys_unique_append) simp_all
    then show ?thesis
      unfolding L' using joined_effect_matches [OF ok new(1-3)] old(2) new(2) by (intro effects_part [OF ok]) auto
  qed (simp add: ok)
qed

section \<open>Authorizing keeps it\<close>

lemma authorize_result:
  assumes "authorize_proposal D user t clock z L = Inr (L', d)"
  shows "L' = L \<or> (\<exists>tenant action L1. insert_epoch tenant action L = Inr L1 \<and>
    (L' = L1 \<or> (\<exists>p e. pr_tenant p = tenant \<and> ai_action (pr_id p) = action \<and> ai_epoch (pr_id p) = 1 \<and>
      find_epoch L1 tenant action = Some e \<and> ep_epoch e = 0 \<and> insert_proposal p (open_epoch tenant action L1) = Inr L')))"
proof (cases "L' = L")
  case False
  with assms obtain s L1 where i: "insert_epoch (az_tenant z) (ai_action (pr_id (proposal_of D z s 1))) L = Inr L1"
      "open_proposal (clock 1) s (proposal_of D z s 1) L1 = Inr (L', d)"
    unfolding authorize_proposal_def by (auto simp: Let_def and_then_eq_Inr split: option.split_asm list.split_asm prod.split_asm if_split_asm)
  have p: "pr_tenant (proposal_of D z s 1) = az_tenant z" "ai_epoch (pr_id (proposal_of D z s 1)) = 1"
    by (simp_all add: proposal_of_def Let_def)
  from i(2) consider "L' = L1" | e where "find_epoch L1 (az_tenant z) (ai_action (pr_id (proposal_of D z s 1))) = Some e" "ep_epoch e = 0"
      "insert_proposal (proposal_of D z s 1) (open_epoch (az_tenant z) (ai_action (pr_id (proposal_of D z s 1))) L1) = Inr L'"
    unfolding open_proposal_def p(1) by (auto simp: Let_def and_then_eq_Inr split: option.split_asm if_split_asm)
  then show ?thesis using i(1) p by cases blast+
qed simp

lemma insert_epoch_Inr: "insert_epoch tenant action L = Inr L' \<Longrightarrow> L' = L \<or>
    \<not> taken every epoch_key (tenant, action) (epochs L) \<and> L' = L\<lparr>epochs := epochs L @ [\<lparr>ep_tenant = tenant, ep_action = action, ep_epoch = 0\<rparr>]\<rparr>"
  by (auto simp: insert_epoch_def Let_def epoch_key_def split: if_split_asm)

text \<open>Only epochs and proposals change.\<close>

lemma proposals_part:
  assumes "ledger_ok L" and "proposals_ok (L\<lparr>epochs := es, proposals := proposals L @ ps\<rparr>)"
  shows "ledger_ok (L\<lparr>epochs := es, proposals := proposals L @ ps\<rparr>)"
proof -
  from assms(1) have "links_ok L" by (simp add: ledger_ok_def)
  then have "links_ok (L\<lparr>epochs := es, proposals := proposals L @ ps\<rparr>)"
    unfolding links_ok_def by (simp add: bex_Un)
  with assms show ?thesis by (simp add: ledger_ok_def receipts_ok_def tables_ok_def)
qed

lemma insert_epoch_ok: "insert_epoch tenant action L = Inr L' \<Longrightarrow> ledger_ok L \<Longrightarrow> ledger_ok L'"
proof -
  assume i: "insert_epoch tenant action L = Inr L'" and ok: "ledger_ok L"
  then have p: "proposals_ok L" by (simp add: ledger_ok_def)
  show ?thesis
  proof (cases "L' = L")
    case False
    let ?e = "\<lparr>ep_tenant = tenant, ep_action = action, ep_epoch = 0\<rparr>"
    have new: "\<not> taken every epoch_key (epoch_key ?e) (epochs L)" "L' = L\<lparr>epochs := epochs L @ [?e]\<rparr>"
      using insert_epoch_Inr [OF i] False by (auto simp: epoch_key_def)
    then have "proposals_ok L'" using p by (auto simp: proposals_ok_def unique_on_append)
    then show ?thesis using proposals_part [OF ok, where es = "epochs L @ [?e]" and ps = "[]"] new(2) by simp
  qed (simp add: ok)
qed

lemma open_epochs:
  assumes "proposals_ok L" and "find_epoch L tenant action = Some e" and "ep_epoch e = 0"
    and p: "pr_tenant p = tenant" "ai_action (pr_id p) = action" "ai_epoch (pr_id p) = 1"
    and "insert_proposal p (open_epoch tenant action L) = Inr L'"
  shows "proposals_ok L'"
proof -
  let ?f = "\<lambda>e. epoch_key e = (tenant, action) \<and> ep_epoch e = 0"
  let ?es = "update_where ?f (\<lambda>e. e\<lparr>ep_epoch := 1\<rparr>) (epochs L)"
  have L': "L' = L\<lparr>epochs := ?es, proposals := proposals L @ [p]\<rparr>" "proposal_check p"
      "\<not> taken every proposal_key (proposal_key p) (proposals L)" "\<not> taken every proposal_epoch_key (proposal_epoch_key p) (proposals L)"
      "\<not> taken every proposal_authority_key (proposal_authority_key p) (proposals L)"
    using assms(7) by (auto simp: insert_proposal_def open_epoch_def split: if_split_asm)
  have e: "e \<in> set (epochs L)" "epoch_key e = (tenant, action)" using assms(2) by (auto simp: find_epoch_def dest: find_SomeD)
  have key: "epoch_key (e\<lparr>ep_epoch := 1\<rparr>) = epoch_key e" for e by (simp add: epoch_key_def)
  have "e\<lparr>ep_epoch := 1\<rparr> \<in> set ?es" unfolding set_update_where using e assms(3) by (intro bexI [of _ e]) simp_all
  then have new: "\<exists>e \<in> set ?es. epoch_key e = (pr_tenant p, ai_action (pr_id p)) \<and> ep_epoch e = 1"
    using key [of e] e(2) p by (intro bexI [of _ "e\<lparr>ep_epoch := 1\<rparr>"]) simp_all
  have old: "\<exists>e' \<in> set ?es. epoch_key e' = k \<and> ep_epoch e' = 1" if "\<exists>e' \<in> set (epochs L). epoch_key e' = k \<and> ep_epoch e' = 1" for k
  proof -
    from that obtain e' where e': "e' \<in> set (epochs L)" "epoch_key e' = k" "ep_epoch e' = 1" by blast
    then have "e' \<in> set ?es" unfolding set_update_where by (intro bexI [of _ e']) simp_all
    with e' show ?thesis by blast
  qed
  have "list_all (\<lambda>e. ep_epoch e = 0 \<or> ep_epoch e = 1) ?es"
    using assms(1) by (auto simp: proposals_ok_def list_all_update_where)
  moreover have "\<forall>q \<in> set (proposals L @ [p]). proposal_check q \<and> ai_epoch (pr_id q) = 1 \<and>
      (\<exists>e \<in> set ?es. epoch_key e = (pr_tenant q, ai_action (pr_id q)) \<and> ep_epoch e = 1)"
  proof
    fix q assume "q \<in> set (proposals L @ [p])"
    then consider "q \<in> set (proposals L)" | "q = p" by auto
    then show "proposal_check q \<and> ai_epoch (pr_id q) = 1 \<and> (\<exists>e \<in> set ?es. epoch_key e = (pr_tenant q, ai_action (pr_id q)) \<and> ep_epoch e = 1)"
    proof cases
      case 1
      with assms(1) have q: "proposal_check q" "ai_epoch (pr_id q) = 1" by (simp_all add: proposals_ok_def)
      from 1 assms(1) have "\<exists>e \<in> set ?es. epoch_key e = (pr_tenant q, ai_action (pr_id q)) \<and> ep_epoch e = 1"
        by (intro old) (simp add: proposals_ok_def)
      with q show ?thesis by (intro conjI)
    qed (use new L'(2) p(3) in \<open>intro conjI; simp\<close>)
  qed
  moreover have "unique_on every epoch_key ?es" using assms(1) key by (simp add: proposals_ok_def unique_on_update_where)
  moreover have "unique_on every proposal_key (proposals L @ [p])" "unique_on every proposal_epoch_key (proposals L @ [p])"
      "unique_on every proposal_authority_key (proposals L @ [p])"
    using assms(1) L'(3-5) by (simp_all add: proposals_ok_def unique_on_append)
  ultimately show ?thesis unfolding proposals_ok_def L'(1) by simp
qed

text \<open>An epoch is written, or opened with its proposal.\<close>

lemma opened_ok:
  assumes "L' = L \<or> (\<exists>tenant action L1. insert_epoch tenant action L = Inr L1 \<and>
      (L' = L1 \<or> (\<exists>p e. pr_tenant p = tenant \<and> ai_action (pr_id p) = action \<and> ai_epoch (pr_id p) = 1 \<and>
        find_epoch L1 tenant action = Some e \<and> ep_epoch e = 0 \<and> insert_proposal p (open_epoch tenant action L1) = Inr L')))"
    and ok: "ledger_ok L"
  shows "ledger_ok L'"
proof -
  from assms(1) consider "L' = L"
    | tenant action where "insert_epoch tenant action L = Inr L'"
    | tenant action L1 p e where "insert_epoch tenant action L = Inr L1" "pr_tenant p = tenant" "ai_action (pr_id p) = action"
        "ai_epoch (pr_id p) = 1" "find_epoch L1 tenant action = Some e" "ep_epoch e = 0"
        "insert_proposal p (open_epoch tenant action L1) = Inr L'"
    by blast
  then show ?thesis
  proof cases
    case 3
    from 3(1) ok have ok1: "ledger_ok L1" by (rule insert_epoch_ok)
    then have "proposals_ok L'" using 3 open_epochs [of L1] by (simp add: ledger_ok_def)
    moreover obtain es where "L' = L1\<lparr>epochs := es, proposals := proposals L1 @ [p]\<rparr>"
      using 3(7) by (auto simp: insert_proposal_def open_epoch_def split: if_split_asm)
    ultimately show ?thesis using proposals_part [OF ok1] by simp
  qed (auto simp: ok intro: insert_epoch_ok [OF _ ok])
qed

lemma authorized_ok: "authorize_proposal D user t clock z L = Inr (L', d) \<Longrightarrow> ledger_ok L \<Longrightarrow> ledger_ok L'"
  by (rule opened_ok [OF authorize_result])

section \<open>Reserving keeps it\<close>

lemma reserving_simps [simp]:
  "ar_tenant (reserving q p f x) = sq_tenant q" "ar_operation (reserving q p f x) = sq_operation q" "ar_digest (reserving q p f x) = sq_digest q"
  "ar_run (reserving q p f x) = sq_run q" "ar_incident (reserving q p f x) = sq_incident q" "ar_resource (reserving q p f x) = sq_resource q"
  "ar_agent (reserving q p f x) = sq_agent q" "ar_agency (reserving q p f x) = sq_agency q" "ar_evidence (reserving q p f x) = sq_evidence q"
  "ar_evidence_digest (reserving q p f x) = Some (sq_evidence_digest q)" "ar_effect (reserving q p f x) = sq_effect q"
  "ar_payload_digest (reserving q p f x) = sq_payload_digest q" "ar_outcome (reserving q p f x) = ''resource_reserved''"
  "ar_fence (reserving q p f x) = Some f" "ar_expires (reserving q p f x) = Some x" "reserved (reserving q p f x)"
  by (simp_all add: reserving_def pending_receipt_def reserved_def)

lemma proposal_forD: "proposal_for q L = Some p \<Longrightarrow> p \<in> set (proposals L) \<and> pr_tenant p = sq_tenant q \<and> ai_proposal (pr_id p) = sq_proposal q \<and>
    ai_action (pr_id p) = sq_action q \<and> pr_run p = sq_run q \<and> pr_incident p = sq_incident q \<and> pr_resource p = sq_resource q \<and>
    pr_agency p = sq_agency q \<and> pr_payload p = sq_payload q \<and> pr_payload_digest p = sq_payload_digest q \<and> pr_evidence p = sq_evidence q \<and>
    pr_evidence_digest p = sq_evidence_digest q"
  unfolding proposal_for_def by (drule find_SomeD) (simp add: proposal_key_def)

lemma reserving_id: "proposal_for q L = Some p \<Longrightarrow> ar_id (reserving q p f x) = pr_id p"
  by (drule proposal_forD) (cases "pr_id p", simp add: reserving_def pending_receipt_def)

lemma acquired_simps [simp]: "resource_key (acquired q a x r) = resource_key r" "rs_fence (acquired q a x r) = rs_fence r + 1"
    "rs_run (acquired q a x r) = rs_run r"
  by (simp_all add: acquired_def resource_key_def)

lemma receipts_append:
  assumes "receipts_ok L" and "receipt_check a" and "reserved a"
    and "\<not> list_ex (spend_clash a) (receipts L)" and "\<not> taken every receipt_key (receipt_key a) (receipts L)"
    and "\<not> taken every receipt_digest_key (receipt_digest_key a) (receipts L)"
  shows "receipts_ok (L\<lparr>receipts := receipts L @ [a]\<rparr>)"
proof -
  have "\<not> taken reserved receipt_authority_key (receipt_authority_key a) (receipts L)"
      "\<not> taken reserved receipt_action_key (receipt_action_key a) (receipts L)" "\<not> taken reserved receipt_fence_key (receipt_fence_key a) (receipts L)"
    using assms(3-5) by (fastforce simp: taken_iff list_ex_iff spend_clash_def)+
  with assms show ?thesis by (auto simp: receipts_ok_def unique_on_append reserved_def)
qed

text \<open>The resources after the update: one has the next fence and the new holder.\<close>

lemma acquired_resources:
  assumes "unique_on every resource_key rows" and "r \<in> set rows" and "resource_key r = k"
  shows "s \<in> set (update_where (\<lambda>s. resource_key s = k) f rows) \<longleftrightarrow> s = f r \<or> s \<in> set rows \<and> resource_key s \<noteq> k"
  unfolding set_update_where using assms unique_onD [OF assms(1)] by auto

lemma acquired_backing:
  assumes "unique_on every resource_key rows" and "r \<in> set rows" and "resource_key r = k"
    and f: "resource_key (f r) = resource_key r" "rs_fence r \<le> rs_fence (f r)" and s: "s \<in> set rows" "backed_by_resource s c"
  shows "\<exists>s' \<in> set (update_where (\<lambda>s. resource_key s = k) f rows). backed_by_resource s' c"
proof (cases "resource_key s = k")
  case True
  then have "s = r" using assms(1-3) s(1) by (auto elim!: unique_onD)
  with s(2) f have "backed_by_resource (f r) c" by (auto simp: backed_by_resource_def split: option.splits)
  then show ?thesis using acquired_resources [OF assms(1-3)] by blast
qed (use s acquired_resources [OF assms(1-3)] in blast)

text \<open>One reserved receipt with its intent joins the tables, and one resource takes the next fence.\<close>

lemma links_extended:
  assumes links: "links_ok L" and u: "unique_on every resource_key (resources L)" and r: "r \<in> set (resources L)" "resource_key r = k"
    and f: "resource_key (f r) = resource_key r" "rs_fence r \<le> rs_fence (f r)"
    and a: "reserved a" "backed_by_outbox b a" "p \<in> set (proposals L)" "backed_by_proposal p a" "backed_by_resource (f r) a"
    and h: "\<And>h. rs_holder (f r) = Some h \<Longrightarrow> holder_of a (f r) h"
  shows "links_ok (L\<lparr>receipts := receipts L @ [a], resources := update_where (\<lambda>s. resource_key s = k) f (resources L), outbox := outbox L @ [b]\<rparr>)"
proof -
  let ?rs = "update_where (\<lambda>s. resource_key s = k) f (resources L)"
  note res = acquired_resources [OF u r, of _ f]
  have "(\<exists>p \<in> set (proposals L). backed_by_proposal p c) \<and> (\<exists>b \<in> set (outbox L @ [b]). backed_by_outbox b c) \<and>
      (\<exists>s \<in> set ?rs. backed_by_resource s c)" if c: "c \<in> set (receipts L @ [a])" "reserved c" for c
  proof (cases "c = a")
    case True
    have "f r \<in> set ?rs" by (simp add: res)
    with True a show ?thesis by auto
  next
    case False
    with c links have "(\<exists>p \<in> set (proposals L). backed_by_proposal p c) \<and> (\<exists>b \<in> set (outbox L). backed_by_outbox b c) \<and>
        (\<exists>s \<in> set (resources L). backed_by_resource s c)" by (simp add: links_ok_def)
    then show ?thesis using acquired_backing [OF u r, of f, OF f] by auto
  qed
  moreover have "\<exists>c \<in> set (receipts L @ [a]). holder_of c s x" if "s \<in> set ?rs" "rs_holder s = Some x" for s x
    using that links h unfolding res links_ok_def by auto
  ultimately show ?thesis using links a(1,2) by (auto simp: links_ok_def)
qed

lemma booking_ok:
  assumes ok: "ledger_ok L" and b: "bookable q p r x L" and find: "find_resource L (sq_tenant q) (sq_resource q) = Some r"
    and run: "rs_run r = sq_run q" and p: "p \<in> set (proposals L)" "backed_by_proposal p (reserving q p (rs_fence r + 1) x)"
  shows "ledger_ok (booked q p r x y L)"
proof -
  let ?a = "reserving q p (rs_fence r + 1) x" let ?b = "intent q ?a (rs_fence r + 1)"
  let ?rs = "update_where (\<lambda>s. resource_key s = (sq_tenant q, sq_resource q)) (acquired q ?a y) (resources L)" let ?L = "booked q p r x y L"
  from b have c: "receipt_check ?a" "\<not> list_ex (spend_clash ?a) (receipts L)" "\<not> taken every receipt_key (receipt_key ?a) (receipts L)"
      "\<not> taken every receipt_digest_key (receipt_digest_key ?a) (receipts L)" "\<not> clashes outbox_keys ?b (outbox L)" "rs_fence r < int8_max"
    by (simp_all add: bookable_def Let_def)
  have L': "?L = L\<lparr>receipts := receipts L @ [?a], resources := ?rs, outbox := outbox L @ [?b]\<rparr>" by (simp add: booked_def Let_def)
  have u: "unique_on every resource_key (resources L)" "links_ok L" using ok by (simp_all add: ledger_ok_def tables_ok_def)
  with find have rin: "r \<in> set (resources L)" "resource_key r = (sq_tenant q, sq_resource q)" by (simp_all add: find_resource_iff)
  have "receipts_ok (L\<lparr>receipts := receipts L @ [?a]\<rparr>)" using ok c by (intro receipts_append) (simp_all add: ledger_ok_def)
  then have "receipts_ok ?L" by (simp add: L' receipts_ok_def)
  moreover have "list_all (\<lambda>s. 0 \<le> rs_fence s \<and> rs_fence s \<le> int8_max) (resources L)" using ok by (simp add: ledger_ok_def tables_ok_def)
  then have "list_all (\<lambda>s. 0 \<le> rs_fence s \<and> rs_fence s \<le> int8_max) ?rs"
    unfolding list_all_iff Ball_def acquired_resources [OF u(1) rin] using rin(1) c(6) by auto
  then have "tables_ok ?L"
    using ok c(5) by (simp add: L' ledger_ok_def tables_ok_def unique_on_update_where keys_unique_append)
  moreover have i: "ar_id ?a = pr_id p" using p(2) by (simp add: backed_by_proposal_def)
  then have i': "ai_proposal (pr_id p) = sq_proposal q" by (simp add: reserving_def pending_receipt_def) (metis authority_id.select_convs(1))
  have "links_ok ?L"
    unfolding L'
  proof (rule links_extended [OF u(2,1) rin, of "acquired q ?a y" ?a ?b p])
    show "holder_of ?a (acquired q ?a y r) h" if "rs_holder (acquired q ?a y r) = Some h" for h
      using that rin(2) run i i' by (auto simp: holder_of_def acquired_def resource_key_def)
  qed (use p rin in \<open>auto simp: backed_by_resource_def backed_by_outbox_def outbox_matches_def intent_def\<close>)
  ultimately show ?thesis using ok by (simp add: ledger_ok_def L' proposals_ok_def)
qed

lemma reservation_books:
  assumes "reservation D user t now q p r L L'"
  shows "bookable q p r (now + sq_lease q * 1000) L \<and> L' = booked q p r (now + sq_lease q * 1000) (now + sq_lease q * 1000) L"
  using assms by (simp add: reservation_def bookable_def booked_def reserved_tables_def Let_def)

lemma reservation_ok:
  assumes ok: "ledger_ok L" and r: "reservation D user t now q p r L L'"
  shows "ledger_ok L'"
proof -
  from r have c: "find_resource L (sq_tenant q) (sq_resource q) = Some r" "proposal_for q L = Some p" "rs_run r = sq_run q"
    by (simp_all add: reservation_def authorized_def)
  note p = proposal_forD [OF c(2)] and i = reserving_id [OF c(2)]
  have "backed_by_proposal p (reserving q p (rs_fence r + 1) (now + sq_lease q * 1000))"
    using p i by (auto simp: backed_by_proposal_def)
  with booking_ok [OF ok _ c(1,3)] reservation_books [OF r] p show ?thesis by blast
qed

lemma spent_ok: "spend_authority D user t clock q L = Inr (L', d) \<Longrightarrow> ledger_ok L \<Longrightarrow> ledger_ok L'"
  using spend_result [of D user t clock q L L' d] denial_ok reservation_ok by blast

section \<open>The store's transactions keep it\<close>

lemma stored_authorized_ok: "store_authorize E D ms t inp L = Inr (L', d) \<Longrightarrow> ledger_ok L \<Longrightarrow> ledger_ok L'"
proof -
  assume a: "store_authorize E D ms t inp L = Inr (L', d)" and ok: "ledger_ok L"
  then have "unique_on every epoch_key (epochs L)" by (simp add: ledger_ok_def proposals_ok_def)
  from opened_ok [OF store_authorize_result [OF a this] ok] show ?thesis .
qed

lemma binds_backed:
  assumes "binds E ms now r b p L" and "q = spend_parameters r"
  shows "p \<in> set (proposals L) \<and> backed_by_proposal p (reserving q p f x)"
proof -
  from assms have "filter (\<lambda>p. proposal_key p = (sq_tenant q, sq_proposal q)) (proposals L) = [p]" by (simp add: binds_def Let_def)
  then have "p \<in> set (filter (\<lambda>p. proposal_key p = (sq_tenant q, sq_proposal q)) (proposals L))" by simp
  then show ?thesis
    using assms by (auto simp: binds_def Let_def backed_by_proposal_def reserving_def pending_receipt_def bound_identity_def)
qed

lemma stored_spent_ok: "store_spend E ms t inp L = Inr (L', d) \<Longrightarrow> ledger_ok L \<Longrightarrow> ledger_ok L'"
proof -
  assume s: "store_spend E ms t inp L = Inr (L', d)" and ok: "ledger_ok L"
  from store_spend_result [OF s, unfolded Let_def] obtain r where "L' = L \<or> (\<exists>a. denial (spend_parameters r) a L L') \<or>
      (\<exists>p s x y. grounded E ms t r p s L \<and> bookable (spend_parameters r) p s x L \<and> L' = booked (spend_parameters r) p s x y L)"
    by blast
  then show ?thesis
  proof (elim disjE exE conjE)
    fix p s x y assume g: "grounded E ms t r p s L" "bookable (spend_parameters r) p s x L" "L' = booked (spend_parameters r) p s x y L"
    then have "find_resource L (sq_tenant (spend_parameters r)) (sq_resource (spend_parameters r)) = Some s" "rs_run s = sq_run (spend_parameters r)"
        "p \<in> set (proposals L) \<and> backed_by_proposal p (reserving (spend_parameters r) p (rs_fence s + 1) x)"
      using binds_backed [OF _ refl] by (auto simp: grounded_def Let_def)
    with booking_ok [OF ok g(2)] g(3) show ?thesis by blast
  qed (use ok denial_ok in auto)
qed

lemma effect_join_matches:
  assumes "ledger_ok L" and "effect_join D now q i n (r, b, a, p)" and "a \<in> set (receipts L)" and "b \<in> set (outbox L)"
  shows "effect_matches (protected_effect q i n) a"
proof -
  from assms(1,4) obtain a' where a': "a' \<in> set (receipts L)" "reserved a'" "backed_by_outbox b a'"
    by (auto simp: ledger_ok_def links_ok_def)
  from assms(2) a'(3) have "receipt_key a' = receipt_key a"
    by (auto simp: effect_join_def backed_by_outbox_def receipt_key_def)
  then have "a' = a" using assms(1,3) a'(1) by (auto simp: ledger_ok_def receipts_ok_def elim!: unique_onD)
  with a' assms(2) show ?thesis
    by (auto simp: effect_join_def backed_by_outbox_def outbox_matches_def effect_matches_def protected_effect_def resource_key_def)
qed

lemma joined_nonemptyD: "joined match L \<noteq> [] \<Longrightarrow> \<exists>r b a p. r \<in> set (resources L) \<and> b \<in> set (outbox L) \<and> a \<in> set (receipts L) \<and>
    p \<in> set (proposals L) \<and> match (r, b, a, p)"
proof -
  assume "joined match L \<noteq> []"
  then have "hd (joined match L) \<in> set (joined match L)" by (rule hd_in_set)
  then show ?thesis by (auto simp: joined_def split: if_split_asm)
qed

lemma stored_recorded_ok: "store_record E D ms t inp agent L = Inr (L', d) \<Longrightarrow> ledger_ok L \<Longrightarrow> ledger_ok L'"
proof -
  assume s: "store_record E D ms t inp agent L = Inr (L', d)" and ok: "ledger_ok L"
  have old: "keys_unique 4 effect_keys (effects L)" "g \<in> set (effects L) \<Longrightarrow> \<exists>a \<in> set (receipts L). effect_matches g a" for g
    using ok by (simp_all add: ledger_ok_def tables_ok_def links_ok_def)
  from store_record_result [OF s] consider "L' = L" | q i n where "recorded_on D t q i n L L'" by blast
  then show ?thesis
  proof cases
    case 2
    let ?e = "protected_effect q i n"
    from 2 have new: "joined (effect_join D (t 1) q i n) L \<noteq> []" "\<not> clashes effect_keys ?e (effects L)" "L' = L\<lparr>effects := effects L @ [?e]\<rparr>"
      by (simp_all add: recorded_on_def Let_def)
    from joined_nonemptyD [OF new(1)] effect_join_matches [OF ok] obtain a where "a \<in> set (receipts L)" "effect_matches ?e a" by blast
    moreover have "keys_unique 4 effect_keys (effects L @ [?e])" using new(2) old(1) by (intro keys_unique_append) simp_all
    ultimately show ?thesis unfolding new(3) using old(2) by (intro effects_part [OF ok]) auto
  qed (simp add: ok)
qed

section \<open>The machine keeps it\<close>

lemma ledger_ok_step: "ledger_step E C vector D ms L ev L' \<Longrightarrow> ledger_ok L \<Longrightarrow> ledger_ok L'"
proof (induction rule: ledger_step.induct)
  case (step_evidence L call db)
  then have "evidence_ok db" using evidence_machine.inv_step [of "evidence L"] by (simp add: ledger_ok_def)
  with step_evidence show ?case by (simp add: ledger_ok_def proposals_ok_def receipts_ok_def tables_ok_def links_ok_def)
next
  case (step_selected s L)
  then show ?case by (simp add: ledger_ok_def proposals_ok_def receipts_ok_def tables_ok_def links_ok_def)
qed (auto intro: prepared_ok authorized_ok spent_ok recorded_ok stored_authorized_ok stored_spent_ok stored_recorded_ok dest: race_spends)

interpretation ledger_machine: invariant_machine "ledger_step E C vector D ms" ledger_ok for E C vector D ms
  by unfold_locales (rule ledger_ok_step)

end
