(* ===== verification/Ledger_Grant.thy ===== *)
theory Ledger_Grant
  imports Ledger_Inv
begin

text \<open>
  When a spend is granted: in a state that keeps the invariant nothing stands between an
  authorized request and its reservation.
\<close>

section \<open>An authorized request is granted\<close>

text \<open>In a state that keeps the invariant no key stands in the way of the first spend of an action.\<close>

lemma unspent_keys:
  assumes ok: "ledger_ok L" and p: "p \<in> set (proposals L)" and un: "spends L (pr_tenant p) (ai_action (pr_id p)) = []"
    and a: "a \<in> set (receipts L)" "reserved a" "ar_tenant a = pr_tenant p"
  shows "ai_action (ar_id a) \<noteq> ai_action (pr_id p) \<and> ai_key (ar_id a) \<noteq> ai_key (pr_id p)"
proof -
  have act: "ai_action (ar_id a) \<noteq> ai_action (pr_id p)"
    using un a by (auto simp: spends_def filter_empty_conv receipt_action_key_def)
  from ok a obtain p' where p': "p' \<in> set (proposals L)" "backed_by_proposal p' a" by (auto simp: ledger_ok_def links_ok_def)
  have "unique_on every proposal_authority_key (proposals L)" using ok by (simp add: ledger_ok_def proposals_ok_def)
  then have "ai_key (ar_id a) = ai_key (pr_id p) \<Longrightarrow> p' = p"
    using p p' a(3) by (auto elim!: unique_onD simp: proposal_authority_key_def backed_by_proposal_def)
  with act p'(2) show ?thesis by (auto simp: backed_by_proposal_def)
qed

lemma no_spend_clash:
  assumes ok: "ledger_ok L" and p: "proposal_for q L = Some p" and un: "spends L (sq_tenant q) (sq_action q) = []"
    and r: "find_resource L (sq_tenant q) (sq_resource q) = Some r"
  shows "\<not> list_ex (spend_clash (reserving q p (rs_fence r + 1) x)) (receipts L)"
proof -
  note pf = proposal_forD [OF p] and id = reserving_id [OF p]
  have "\<not> spend_clash (reserving q p (rs_fence r + 1) x) a" if a: "a \<in> set (receipts L)" for a
  proof
    assume c: "spend_clash (reserving q p (rs_fence r + 1) x) a"
    then have res: "reserved a" "ar_tenant a = sq_tenant q"
      by (auto simp: spend_clash_def receipt_authority_key_def receipt_action_key_def receipt_fence_key_def)
    from unspent_keys [OF ok _ _ a res(1), of p] pf un res(2)
    have "ai_action (ar_id a) \<noteq> sq_action q" "ai_key (ar_id a) \<noteq> ai_key (pr_id p)" by auto
    with c pf id have f: "receipt_fence_key a = (sq_tenant q, sq_resource q, Some (rs_fence r + 1))"
      by (auto simp: spend_clash_def receipt_authority_key_def receipt_action_key_def receipt_fence_key_def)
    from ok a res(1) obtain s where s: "s \<in> set (resources L)" "backed_by_resource s a" by (auto simp: ledger_ok_def links_ok_def)
    have u: "unique_on every resource_key (resources L)" using ok by (simp add: ledger_ok_def tables_ok_def)
    with r have "r \<in> set (resources L)" "resource_key r = (sq_tenant q, sq_resource q)" by (simp_all add: find_resource_iff)
    with u s f have "s = r" by (auto elim!: unique_onD simp: backed_by_resource_def receipt_fence_key_def)
    with s(2) f show False by (simp add: backed_by_resource_def receipt_fence_key_def)
  qed
  then show ?thesis by (simp add: list_ex_iff)
qed

lemma no_outbox_clash:
  assumes ok: "ledger_ok L" and p: "proposal_for q L = Some p" and un: "spends L (sq_tenant q) (sq_action q) = []"
    and op: "find_receipt L (sq_tenant q) (sq_operation q) = None"
    and fx: "\<forall>b \<in> set (outbox L). ob_tenant b = sq_tenant q \<longrightarrow> ob_effect b \<noteq> sq_effect q"
  shows "\<not> clashes outbox_keys (intent q (reserving q p f x) g) (outbox L)"
proof
  note pf = proposal_forD [OF p] and id = reserving_id [OF p]
  let ?i = "intent q (reserving q p f x) g"
  assume "clashes outbox_keys ?i (outbox L)"
  then obtain b i where b: "b \<in> set (outbox L)" "i < 4" "outbox_keys ?i ! i = outbox_keys b ! i"
    by (auto simp: clashes_iff)
  then have t: "ob_tenant b = sq_tenant q" and keys: "ob_operation b = sq_operation q \<or> ob_effect b = sq_effect q \<or>
      ai_key (ob_id b) = ai_key (pr_id p) \<or> ai_action (ob_id b) = sq_action q"
    using pf by (auto simp: outbox_keys_def intent_def id less_Suc_eq numeral_eq_Suc)
  from ok b(1) obtain a where a: "a \<in> set (receipts L)" "reserved a" "backed_by_outbox b a" by (auto simp: ledger_ok_def links_ok_def)
  with t have at: "ar_tenant a = sq_tenant q" "ar_id a = ob_id b" "ar_operation a = ob_operation b"
    by (auto simp: backed_by_outbox_def outbox_matches_def)
  have "ob_operation b \<noteq> sq_operation q" using op a(1) at by (auto simp: find_receipt_def find_None_iff receipt_key_def)
  moreover from unspent_keys [OF ok _ _ a(1,2), of p] pf un at have "ai_action (ob_id b) \<noteq> sq_action q \<and> ai_key (ob_id b) \<noteq> ai_key (pr_id p)"
    by auto
  ultimately show False using keys fx b(1) t by blast
qed

lemma reserving_checks:
  assumes ok: "ledger_ok L" and p: "proposal_for q L = Some p" and r: "find_resource L (sq_tenant q) (sq_resource q) = Some r"
  shows "receipt_check (reserving q p (rs_fence r + 1) x) \<and> receipt_check (pending_receipt q p) \<and>
    outbox_check (intent q (pending_receipt q p) (rs_fence r + 1))"
proof -
  have ids: "ar_id (pending_receipt q p) = pr_id p" using reserving_id [OF p] by (simp add: reserving_def)
  have "authority_id_check (pr_id p)" using proposal_forD [OF p] ok by (auto simp: ledger_ok_def proposals_ok_def proposal_check_def)
  moreover have "0 \<le> rs_fence r" using ok r by (auto simp: ledger_ok_def tables_ok_def list_all_iff find_resource_def dest!: find_SomeD)
  ultimately show ?thesis
    using ids by (simp add: receipt_check_def outbox_check_def intent_def reserving_id [OF p] reserved_def pending_receipt_def)
qed

lemma reserve_goes_through:
  assumes ok: "ledger_ok L" and p: "proposal_for q L = Some p" and r: "find_resource L (sq_tenant q) (sq_resource q) = Some r"
    and un: "spends L (sq_tenant q) (sq_action q) = []" and op: "find_receipt L (sq_tenant q) (sq_operation q) = None"
    and fx: "\<forall>b \<in> set (outbox L). ob_tenant b = sq_tenant q \<longrightarrow> ob_effect b \<noteq> sq_effect q"
  shows "\<exists>L'. reserve q (pending_receipt q p) r (Some (sq_evidence_digest q)) now (L\<lparr>receipts := receipts L @ [pending_receipt q p]\<rparr>)
    = Inr (L', spend_granted q (pr_id p) (rs_fence r + 1) (now + sq_lease q * 1000) now)"
proof -
  let ?x = "now + sq_lease q * 1000" let ?a = "reserving q p (rs_fence r + 1) ?x"
  let ?rs = "update_where (\<lambda>s. resource_key s = (sq_tenant q, sq_resource q)) (acquired q (pending_receipt q p) ?x) (resources L)"
  have k: "\<not> taken every receipt_key (receipt_key (pending_receipt q p)) (receipts L)"
    using op by (simp add: find_receipt_def find_None_taken)
  have swap: "L\<lparr>receipts := y, resources := z\<rparr> = L\<lparr>resources := z, receipts := y\<rparr>" for y z by (cases L) simp
  have "receipt_key ?a = receipt_key (pending_receipt q p)" by (simp add: reserving_def receipt_key_def)
  then have "update_receipt ?a (L\<lparr>receipts := receipts L @ [pending_receipt q p], resources := ?rs\<rparr>)
      = Inr (L\<lparr>resources := ?rs, receipts := receipts L @ [?a]\<rparr>)"
    using update_appended [of "pending_receipt q p" "L\<lparr>resources := ?rs\<rparr>" ?a] k reserving_checks [OF ok p r] no_spend_clash [OF ok p un r]
    by (simp add: swap)
  moreover have "ar_id (pending_receipt q p) = pr_id p" "intent q (pending_receipt q p) = intent q ?a"
    using reserving_id [OF p] by (simp_all add: reserving_def intent_def fun_eq_iff)
  ultimately show ?thesis
    using reserving_checks [OF ok p r] no_outbox_clash [OF ok p un op fx, of "rs_fence r + 1" ?x "rs_fence r + 1"]
    by (simp add: reserve_def Let_def insert_outbox_def reserving_def [symmetric])
qed

lemma settle_goes_through:
  assumes ok: "ledger_ok L" and auth: "authorized D user t (clock 2) q p r L" and op: "find_receipt L (sq_tenant q) (sq_operation q) = None"
    and fx: "\<forall>b \<in> set (outbox L). ob_tenant b = sq_tenant q \<longrightarrow> ob_effect b \<noteq> sq_effect q"
    and f: "rs_fence r < int8_max" and late: "clock 3 < pr_expires p"
  shows "\<exists>L'. settle user t clock q p (pending_receipt q p) (L\<lparr>receipts := receipts L @ [pending_receipt q p]\<rparr>)
    = Inr (L', spend_granted q (pr_id p) (rs_fence r + 1) (clock 2 + sq_lease q * 1000) (clock 2))"
proof -
  let ?L = "L\<lparr>receipts := receipts L @ [pending_receipt q p]\<rparr>"
  have g: "proposal_for q L = Some p" "find_resource L (sq_tenant q) (sq_resource q) = Some r" "spends L (sq_tenant q) (sq_action q) = []"
      "admission user t q L = (''admissible'', Some (sq_evidence_digest q))" "clock 2 < pr_expires p" "rs_run r = sq_run q" "\<not> held (clock 2) r"
    using auth by (simp_all add: authorized_def)
  have "p \<in> set (proposals L)" "proposal_key p = (sq_tenant q, sq_proposal q)" "pr_id p = ar_id (pending_receipt q p)"
    using proposal_forD [OF g(1)] reserving_id [OF g(1)] by (simp_all add: proposal_key_def reserving_def)
  then have "can_acquire (clock 2) (clock 3) q (pending_receipt q p) r ?L"
    using g f late by (auto simp: can_acquire_def list_ex_iff)
  moreover have "admission user t q ?L = admission user t q L" "find_resource ?L = find_resource L"
    by (simp_all add: admission_def find_resource_def fun_eq_iff)
  ultimately show ?thesis
    using reserve_goes_through [OF ok g(1-3) op fx, of "clock 2"] g unfolding settle_def by (auto simp: held_def split: option.splits)
qed

lemma spend_is_granted:
  assumes ok: "ledger_ok L"
    and "authorized D user t (clock 2) q p r L" and "is_object (sq_request q)" and "is_object (sq_payload q)"
    and "find_receipt L (sq_tenant q) (sq_operation q) = None"
    and "\<forall>a \<in> set (receipts L). ar_tenant a = sq_tenant q \<longrightarrow> ar_digest a \<noteq> sq_digest q"
    and "\<forall>b \<in> set (outbox L). ob_tenant b = sq_tenant q \<longrightarrow> ob_effect b \<noteq> sq_effect q"
    and "rs_fence r < int8_max" and "clock 1 < pr_expires p" and "clock 3 < pr_expires p"
  shows "\<exists>L'. spend_authority D user t clock q L
    = Inr (L', spend_granted q (pr_id p) (rs_fence r + 1) (clock 2 + sq_lease q * 1000) (clock 2))"
proof -
  have dk: "\<not> taken every receipt_digest_key (sq_tenant q, sq_digest q) (receipts L)"
    using assms(6) by (auto simp: taken_iff receipt_digest_key_def)
  have k: "\<not> taken every receipt_key (sq_tenant q, sq_operation q) (receipts L)"
    using assms(5) by (simp add: find_receipt_def find_None_taken)
  from assms(2) obtain x where g: "user \<in> set authorizers" "digests_shaped q" "lease_length_ok (sq_lease q)" "request_bound D q"
      "sq_lease q > 600000 \<longrightarrow> pr_expires p - pr_admitted p = 1800000000" "proposal_for q L = Some p" "digests_derived D q p"
      "find_epoch L (sq_tenant q) (sq_action q) = Some x" "ep_epoch x = ai_epoch (pr_id p)" "spends L (sq_tenant q) (sq_action q) = []"
      "find_resource L (sq_tenant q) (sq_resource q) = Some r"
    by (auto simp: authorized_def)
  have "find (\<lambda>a. receipt_digest_key a = (sq_tenant q, sq_digest q)) (receipts L) = None" using dk by (simp add: find_None_taken)
  then have "earlier_answer D user clock q L = None" using g(10) assms(5) by (simp add: earlier_answer_def)
  moreover have ins: "insert_pending (pending_receipt q p) L = Inr (Some (L\<lparr>receipts := receipts L @ [pending_receipt q p]\<rparr>))"
    using reserving_checks [OF ok g(6,11)] dk k by (simp add: insert_pending_Some)
  moreover have lease: "\<not> (sq_lease q > 600000 \<and> \<not> (sq_lease q = 1800000 \<and> pr_expires p - pr_admitted p = 1800000000))"
    using g(3,5) by (auto simp: lease_length_ok_def)
  moreover obtain L' where "settle user t clock q p (pending_receipt q p) (L\<lparr>receipts := receipts L @ [pending_receipt q p]\<rparr>)
      = Inr (L', spend_granted q (pr_id p) (rs_fence r + 1) (clock 2 + sq_lease q * 1000) (clock 2))"
    using settle_goes_through [OF ok assms(2,5,7,8,10)] by blast
  then have "spend_fresh D user t clock q p L = Inr (L', spend_granted q (pr_id p) (rs_fence r + 1) (clock 2 + sq_lease q * 1000) (clock 2))"
    by (simp add: spend_fresh_def ins)
  moreover have "\<not> pr_expires p \<le> clock 1" using assms(9) by simp
  ultimately have "spend_authority D user t clock q L
      = Inr (L', spend_granted q (pr_id p) (rs_fence r + 1) (clock 2 + sq_lease q * 1000) (clock 2))"
    unfolding spend_authority_def by (simp only: g(1-4,6-9) assms(3,4) lease simp_thms if_False option.case)
  then show ?thesis ..
qed

end
