(* ===== verification/Ledger_Sample.thy ===== *)
theory Ledger_Sample
  imports Ledger_Grant
begin

text \<open>
  A run of the ledger on concrete inputs: a signing key and a piece of evidence, a selection, a
  resource, an authorized proposal, its spend and the protected effect.
\<close>

section \<open>Inputs\<close>

abbreviation dig :: "char \<Rightarrow> string" where "dig c \<equiv> replicate 64 c"

definition sample_pg :: pg where
  "sample_pg = \<lparr>pg_sha256 = (\<lambda>_. dig (CHR ''a'')), pg_to_json = (\<lambda>s. s),
     pg_json_text = (\<lambda>v. if v = int_num 2 then ''2'' else if v = int_num 1000 then ''1000'' else []), pg_time_text = (\<lambda>_. [])\<rparr>"

definition sample_clock :: "nat \<Rightarrow> int" where
  "sample_clock n = 1500 + int n"

definition sample_selection :: selection_row where
  "sample_selection = \<lparr>sl_tenant = sample_uuid (CHR ''1''), sl_retrieval = sample_uuid (CHR ''4''), sl_evidence_binding = dig (CHR ''a''),
     sl_run = sample_uuid (CHR ''2''), sl_incident = sample_uuid (CHR ''3''), sl_agency = ''harbor'', sl_policy = ''g1-admissibility-v2'',
     sl_commit = replicate 40 (CHR ''1''), sl_tree = replicate 40 (CHR ''2''), sl_spec = dig (CHR ''3''), sl_admitted = 1000, sl_expires = 1001000,
     sl_ranked = dig (CHR ''a''), sl_query = dig (CHR ''a''), sl_limit = 1, sl_rank = 1, sl_evidence = sample_uuid (CHR ''5''),
     sl_evidence_digest = dig (CHR ''5'')\<rparr>"

definition sample_boat :: jsv where
  "sample_boat = Obj [(''tenantId'', Str (sample_uuid (CHR ''1''))), (''resourceId'', Str ''boat''), (''runId'', Str (sample_uuid (CHR ''2'')))]"

definition sample_effect_payload :: jsv where
  "sample_effect_payload = Obj [(''action'', Str action_kind), (''scenario'', Str ''storm'')]"

definition sample_ask :: proposal_request where
  "sample_ask = \<lparr>az_tenant = sample_uuid (CHR ''1''), az_retrieval = sample_uuid (CHR ''4''), az_run = sample_uuid (CHR ''2''),
     az_incident = sample_uuid (CHR ''3''), az_evidence = sample_uuid (CHR ''5''), az_evidence_digest = dig (CHR ''5''), az_resource = ''boat'',
     az_agency = ''harbor'', az_kind = action_kind, az_payload = sample_effect_payload\<rparr>"

definition sample_request_payload :: jsv where
  "sample_request_payload = Obj [(''digestVersion'', int_num 2), (''tenantId'', Str (sample_uuid (CHR ''1''))), (''runId'', Str (sample_uuid (CHR ''2''))),
     (''incidentId'', Str (sample_uuid (CHR ''3''))), (''resourceId'', Str ''boat''), (''agentId'', Str ''aws-authority-alpha''), (''agency'', Str ''harbor''),
     (''evidenceId'', Str (sample_uuid (CHR ''5''))), (''effectKey'', Str (sample_uuid (CHR ''7''))), (''leaseMs'', int_num 1000),
     (''policyVersion'', Str policy_version), (''actionKind'', Str action_kind), (''payloadDigest'', Str (dig (CHR ''a''))),
     (''logicalActionDigest'', Str (dig (CHR ''a''))), (''proposalDigest'', Str (dig (CHR ''a''))),
     (''selectedEvidenceId'', Str (sample_uuid (CHR ''5''))), (''selectedEvidenceDigest'', Str (dig (CHR ''5''))),
     (''intentNonce'', Str (sample_uuid (CHR ''8'')))]"

definition sample_spend :: spend_request where
  "sample_spend = \<lparr>sq_tenant = sample_uuid (CHR ''1''), sq_operation = sample_uuid (CHR ''9''), sq_digest = dig (CHR ''a''),
     sq_request = sample_request_payload, sq_proposal = dig (CHR ''a''), sq_action = dig (CHR ''a''), sq_evidence_digest = dig (CHR ''5''),
     sq_run = sample_uuid (CHR ''2''), sq_incident = sample_uuid (CHR ''3''), sq_resource = ''boat'', sq_agent = ''aws-authority-alpha'',
     sq_agency = ''harbor'', sq_evidence = sample_uuid (CHR ''5''), sq_effect = sample_uuid (CHR ''7''), sq_payload = sample_effect_payload,
     sq_payload_digest = dig (CHR ''a''), sq_policy = policy_version, sq_lease = 1000\<rparr>"

definition sample_effect :: effect_request where
  "sample_effect = \<lparr>fq_tenant = sample_uuid (CHR ''1''), fq_effect = sample_uuid (CHR ''7''), fq_operation = sample_uuid (CHR ''9''),
     fq_digest = dig (CHR ''a''), fq_run = sample_uuid (CHR ''2''), fq_incident = sample_uuid (CHR ''3''), fq_resource = ''boat'',
     fq_agent = ''aws-authority-alpha'', fq_fence = 1, fq_payload_digest = dig (CHR ''a'')\<rparr>"

section \<open>States\<close>

definition sample_resource :: resource_row where
  "sample_resource = new_resource (sample_uuid (CHR ''1'')) ''boat'' (sample_uuid (CHR ''2''))"

definition sample_proposal_row :: proposal_row where
  "sample_proposal_row = proposal_of sample_pg sample_ask sample_selection 1"

definition sample_authorized :: ledger where
  "sample_authorized = \<lparr>evidence = sample_db [CHR ''5''], selections = [sample_selection],
     epochs = [\<lparr>ep_tenant = sample_uuid (CHR ''1''), ep_action = dig (CHR ''a''), ep_epoch = 1\<rparr>], proposals = [sample_proposal_row],
     receipts = [], resources = [sample_resource], outbox = [], effects = []\<rparr>"

definition sample_reserved :: ledger where
  "sample_reserved = reserved_tables sample_spend sample_proposal_row sample_resource (sample_clock 2) sample_authorized"

lemma sample_ids: "pr_id sample_proposal_row = \<lparr>ai_proposal = dig (CHR ''a''), ai_action = dig (CHR ''a''), ai_epoch = 1, ai_key = dig (CHR ''a''), ai_binding = dig (CHR ''a'')\<rparr>"
    "pr_tenant sample_proposal_row = sample_uuid (CHR ''1'')"
  by (simp_all add: sample_proposal_row_def proposal_of_def Let_def sample_pg_def sample_ask_def)

lemma sample_hex: "hex_64 (dig (CHR ''5''))"
  by (simp add: hex_of_length_def hex_digit_def list_all_iff)

lemma sample_input_ok: "proposal_input_ok sample_ask"
proof -
  have "btrim ''boat'' = ''boat''" "btrim ''harbor'' = ''harbor''" by code_simp+
  then show ?thesis by (simp add: proposal_input_ok_def sample_ask_def sample_effect_payload_def sample_hex)
qed

lemma sample_payload_ok: "payload_ok sample_pg sample_effect_payload"
proof -
  have "safe_member (Str ''storm'')" by code_simp
  then show ?thesis
    by (simp add: payload_ok_def sample_effect_payload_def sample_pg_def utf8_length_def)
qed

lemma sample_admissibility: "list_admissibility ''tp_authorizer_user'' 1500 (sample_uuid (CHR ''1'')) (sample_uuid (CHR ''3'')) ''harbor'' (sample_db [CHR ''5''])
    = [(sample_uuid (CHR ''5''), ''admissible'', Some (dig (CHR ''5'')))]"
  by (simp add: list_admissibility_def admissibility_of_def sample_evidence_def params_row_def sample_params_def sample_db_def verification_of_def
      find_verification_def verification_key_def sample_receipt_def same_binding_def key_of_def find_key_def signing_key_def
      sample_key_def five_minutes_def conflicting_def)

section \<open>The run\<close>

definition sample_ready :: ledger where
  "sample_ready = sample_authorized\<lparr>epochs := [], proposals := []\<rparr>"

lemma sample_proposed: "authorize_proposal sample_pg ''tp_authorizer_user'' 1500 sample_clock sample_ask sample_ready
    = Inr (sample_authorized, proposal_granted ''proposal_authorized'' sample_proposal_row 1501)"
proof -
  have p: "proposal_of sample_pg sample_ask sample_selection 1 = sample_proposal_row" by (simp add: sample_proposal_row_def)
  have check: "proposal_check sample_proposal_row"
    using sample_ids(1)
    by (simp add: proposal_check_def authority_id_check_def)
      (simp add: sample_proposal_row_def proposal_of_def Let_def sample_pg_def sample_ask_def sample_selection_def sample_effect_payload_def payload_canonical_def)
  let ?e = "\<lparr>ep_tenant = sample_uuid (CHR ''1''), ep_action = dig (CHR ''a''), ep_epoch = 0\<rparr>"
  have open_it: "open_proposal (sample_clock 1) sample_selection sample_proposal_row (sample_ready\<lparr>epochs := [?e]\<rparr>)
      = Inr (sample_authorized, proposal_granted ''proposal_authorized'' sample_proposal_row 1501)"
    using check by (simp add: open_proposal_def Let_def sample_ids find_epoch_def find_proposal_def spends_def insert_proposal_def
        open_epoch_def epoch_key_def update_where_def sample_ready_def)
      (simp add: sample_authorized_def sample_selection_def sample_clock_def)
  have "insert_epoch (sample_uuid (CHR ''1'')) (dig (CHR ''a'')) sample_ready = Inr (sample_ready\<lparr>epochs := [?e]\<rparr>)"
    by (simp add: insert_epoch_def Let_def epoch_check_def int8_max_def sample_ready_def)
  moreover have "find (\<lambda>s. selection_key s = (sample_uuid (CHR ''1''), sample_uuid (CHR ''4''))) (selections sample_ready) = Some sample_selection"
    by (simp add: sample_ready_def sample_authorized_def selection_key_def) (simp add: sample_selection_def)
  moreover have "az_payload sample_ask = sample_effect_payload" "az_tenant sample_ask = sample_uuid (CHR ''1'')" "az_retrieval sample_ask = sample_uuid (CHR ''4'')"
      "sl_run sample_selection = az_run sample_ask" "sl_incident sample_selection = az_incident sample_ask" "sl_agency sample_selection = az_agency sample_ask"
      "sl_rank sample_selection = 1" "sl_evidence sample_selection = az_evidence sample_ask" "sl_evidence_digest sample_selection = az_evidence_digest sample_ask"
      "\<not> (sl_admitted sample_selection > sample_clock 0 \<or> sl_expires sample_selection \<le> sample_clock 0)"
    by (simp_all add: sample_ask_def sample_selection_def sample_clock_def)
  moreover have "filter (\<lambda>(i, _). i = az_evidence sample_ask) (list_admissibility ''tp_authorizer_user'' 1500 (sample_uuid (CHR ''1'')) (az_incident sample_ask)
        (az_agency sample_ask) (evidence sample_ready)) = [(sample_uuid (CHR ''5''), ''admissible'', Some (az_evidence_digest sample_ask))]"
    by (simp add: sample_ready_def sample_authorized_def sample_ask_def sample_admissibility)
  moreover have "find_proposal sample_ready (sample_uuid (CHR ''1'')) (dig (CHR ''a'')) = None"
    by (simp add: find_proposal_def sample_ready_def)
  ultimately show ?thesis
    using open_it unfolding authorize_proposal_def
    by (simp add: sample_input_ok sample_payload_ok p sample_ids)
qed

lemma sample_bound: "request_bound sample_pg sample_spend"
proof -
  have num: "int_str 1000 = ''1000''" by code_simp
  have nums: "pg_json_text sample_pg (Num (Fin 2)) = ''2''" "pg_json_text sample_pg (Num (Fin 1000)) = ''1000''"
    by (simp_all add: sample_pg_def)
  show ?thesis
    by (simp add: request_bound_def bound_fields_def sample_spend_def sample_request_payload_def sample_effect_payload_def arrow_text_def num nums
        hex_digit_def)
qed

lemma sample_proposal_fields:
  "pr_run sample_proposal_row = sample_uuid (CHR ''2'')" "pr_incident sample_proposal_row = sample_uuid (CHR ''3'')"
  "pr_resource sample_proposal_row = ''boat''" "pr_agency sample_proposal_row = ''harbor''" "pr_kind sample_proposal_row = action_kind"
  "pr_payload sample_proposal_row = sample_effect_payload" "pr_payload_digest sample_proposal_row = dig (CHR ''a'')"
  "pr_evidence sample_proposal_row = sample_uuid (CHR ''5'')" "pr_evidence_digest sample_proposal_row = dig (CHR ''5'')"
  "pr_rank sample_proposal_row = 1" "pr_expires sample_proposal_row = 1001000"
  by (simp_all add: sample_proposal_row_def proposal_of_def Let_def sample_ask_def sample_selection_def sample_pg_def)

lemma sample_proposal_for: "proposal_for sample_spend sample_authorized = Some sample_proposal_row"
proof -
  have "proposals sample_authorized = [sample_proposal_row]" by (simp add: sample_authorized_def)
  then show ?thesis
    by (simp add: proposal_for_def proposal_key_def sample_proposal_fields sample_ids) (simp add: sample_spend_def)
qed

lemma sample_granting: "authorized sample_pg ''tp_authorizer_user'' 1500 (sample_clock 2) sample_spend sample_proposal_row sample_resource sample_authorized"
proof -
  have "digests_shaped sample_spend" "lease_length_ok (sq_lease sample_spend)" "\<not> sq_lease sample_spend > 600000"
    by (simp_all add: digests_shaped_def sample_spend_def sample_hex lease_length_ok_def)
  moreover have "digests_derived sample_pg sample_spend sample_proposal_row"
    by (simp add: digests_derived_def sample_pg_def sample_spend_def Let_def)
  moreover have "find_epoch sample_authorized (sq_tenant sample_spend) (sq_action sample_spend)
      = Some \<lparr>ep_tenant = sample_uuid (CHR ''1''), ep_action = dig (CHR ''a''), ep_epoch = 1\<rparr>"
    by (simp add: find_epoch_def epoch_key_def sample_authorized_def sample_spend_def)
  moreover have "spends sample_authorized (sq_tenant sample_spend) (sq_action sample_spend) = []"
    by (simp add: spends_def sample_authorized_def)
  moreover have "admission ''tp_authorizer_user'' 1500 sample_spend sample_authorized = (''admissible'', Some (sq_evidence_digest sample_spend))"
    by (simp add: admission_def observe_admissibility_def sample_spend_def sample_authorized_def sample_admissibility)
  moreover have "find_resource sample_authorized (sq_tenant sample_spend) (sq_resource sample_spend) = Some sample_resource"
    by (simp add: find_resource_def sample_authorized_def sample_resource_def fresh_resource sample_spend_def)
  moreover have "rs_run sample_resource = sq_run sample_spend" "\<not> held (sample_clock 2) sample_resource" "sample_clock 2 < pr_expires sample_proposal_row"
    by (simp_all add: sample_resource_def new_resource_def sample_spend_def held_def sample_clock_def sample_proposal_fields)
  ultimately show ?thesis
    by (simp add: authorized_def authorizers_def sample_bound sample_proposal_for sample_ids)
qed

lemma sample_hypotheses:
  "is_object (sq_request sample_spend)" "is_object (sq_payload sample_spend)" "find_receipt sample_authorized tenant operation = None"
  "\<forall>a \<in> set (receipts sample_authorized). ar_tenant a = tenant \<longrightarrow> ar_digest a \<noteq> digest"
  "\<forall>b \<in> set (outbox sample_authorized). ob_tenant b = tenant \<longrightarrow> ob_effect b \<noteq> effect" "rs_fence sample_resource < int8_max"
  "sample_clock 1 < pr_expires sample_proposal_row" "sample_clock 3 < pr_expires sample_proposal_row"
  by (simp_all add: sample_spend_def sample_request_payload_def sample_effect_payload_def find_receipt_def sample_authorized_def
      sample_resource_def fresh_resource int8_max_def sample_clock_def sample_proposal_fields)

lemma sample_steps:
  defines "step \<equiv> ledger_step request_env sample_crypto (\<lambda>_. True) sample_pg (\<lambda>t. t div 1000)"
  shows "step empty_ledger (Evidence (Register_key sample_key_input)) (empty_ledger\<lparr>evidence := sample_db []\<rparr>)"
    and "step (empty_ledger\<lparr>evidence := sample_db []\<rparr>) (Evidence (Append_v2 ''tp_ingest_user'' (sample_params (CHR ''5''))))
      (empty_ledger\<lparr>evidence := sample_db [CHR ''5'']\<rparr>)"
    and "step (empty_ledger\<lparr>evidence := sample_db [CHR ''5'']\<rparr>) (Selected sample_selection)
      (empty_ledger\<lparr>evidence := sample_db [CHR ''5''], selections := [sample_selection]\<rparr>)"
    and "step (empty_ledger\<lparr>evidence := sample_db [CHR ''5''], selections := [sample_selection]\<rparr>) (Prepared sample_boat) sample_ready"
proof -
  have boat: "store_text (Str ''boat'') name = Inr ''boat''" for name by code_simp
  have "prepare_resource sample_boat (empty_ledger\<lparr>evidence := sample_db [CHR ''5''], selections := [sample_selection]\<rparr>) = Inr (sample_ready, sample_resource)"
    by (simp add: prepare_resource_def boat sample_boat_def sample_simps empty_ledger_def sample_ready_def sample_authorized_def sample_resource_def)
  then show "step (empty_ledger\<lparr>evidence := sample_db [CHR ''5''], selections := [sample_selection]\<rparr>) (Prepared sample_boat) sample_ready"
    unfolding step_def by (rule step_prepared)
  have "evidence_step request_env sample_crypto (\<lambda>_. True) (evidence empty_ledger) (Register_key sample_key_input) (sample_db [])"
    using step_register [OF sample_registered] by (simp add: empty_ledger_def)
  from step_evidence [OF this] show "step empty_ledger (Evidence (Register_key sample_key_input)) (empty_ledger\<lparr>evidence := sample_db []\<rparr>)"
    unfolding step_def .
  have "evidence_step request_env sample_crypto (\<lambda>_. True) (evidence (empty_ledger\<lparr>evidence := sample_db []\<rparr>))
      (Append_v2 ''tp_ingest_user'' (sample_params (CHR ''5''))) (sample_db [CHR ''5''])"
    using step_v2 [OF sample_appended [of "CHR ''5''" "[]"]] by simp
  from step_evidence [OF this] show "step (empty_ledger\<lparr>evidence := sample_db []\<rparr>) (Evidence (Append_v2 ''tp_ingest_user'' (sample_params (CHR ''5''))))
      (empty_ledger\<lparr>evidence := sample_db [CHR ''5'']\<rparr>)" unfolding step_def by simp
  have "selection_check sample_selection" by (simp add: selection_check_def sample_selection_def)
  from step_selected [OF this, of "empty_ledger\<lparr>evidence := sample_db [CHR ''5'']\<rparr>"]
  show "step (empty_ledger\<lparr>evidence := sample_db [CHR ''5'']\<rparr>) (Selected sample_selection)
      (empty_ledger\<lparr>evidence := sample_db [CHR ''5''], selections := [sample_selection]\<rparr>)"
    unfolding step_def by (simp add: empty_ledger_def)
qed

lemma sample_ready_run: "run (ledger_step request_env sample_crypto (\<lambda>_. True) sample_pg (\<lambda>t. t div 1000)) empty_ledger
    [Evidence (Register_key sample_key_input), Evidence (Append_v2 ''tp_ingest_user'' (sample_params (CHR ''5''))), Selected sample_selection, Prepared sample_boat]
    sample_ready"
  by (rule run_cons, rule sample_steps(1), rule run_cons, rule sample_steps(2), rule run_cons, rule sample_steps(3), rule run_cons, rule sample_steps(4),
      rule run_nil)

text \<open>The whole run: the proposal is authorized, its authority is spent and the effect recorded.\<close>

definition sample_spent :: spend_decision where
  "sample_spent = spend_granted sample_spend (pr_id sample_proposal_row) 1 (sample_clock 2 + 1000000) (sample_clock 2)"

lemma sample_spends: "spend_authority sample_pg ''tp_authorizer_user'' 1500 sample_clock sample_spend sample_authorized = Inr (sample_reserved, sample_spent)"
proof -
  have ok: "ledger_ok sample_authorized"
    using ledger_machine.run_inv [OF sample_ready_run empty_ledger_ok] authorized_ok [OF sample_proposed] by simp
  from spend_is_granted [OF ok sample_granting sample_hypotheses(1-5) sample_hypotheses(6-8)] obtain L' where
    s: "spend_authority sample_pg ''tp_authorizer_user'' 1500 sample_clock sample_spend sample_authorized = Inr (L', sample_spent)"
    by (auto simp: sample_spent_def sample_resource_def fresh_resource) (simp add: sample_spend_def)
  moreover have "fresh sample_spent" by (simp add: sample_spent_def)
  ultimately obtain p r where "reservation sample_pg ''tp_authorizer_user'' 1500 (sample_clock 2) sample_spend p r sample_authorized L'"
    using spend_result [OF s] by blast
  then have "proposal_for sample_spend sample_authorized = Some p" "find_resource sample_authorized (sq_tenant sample_spend) (sq_resource sample_spend) = Some r"
      "L' = reserved_tables sample_spend p r (sample_clock 2) sample_authorized"
    by (simp_all add: reservation_def authorized_def)
  moreover have "find_resource sample_authorized (sq_tenant sample_spend) (sq_resource sample_spend) = Some sample_resource"
    using sample_granting by (simp add: authorized_def)
  ultimately have "L' = sample_reserved" by (simp add: sample_proposal_for sample_reserved_def)
  with s show ?thesis by simp
qed

definition sample_receipt_row :: receipt_row where
  "sample_receipt_row = reserving sample_spend sample_proposal_row 1 (sample_clock 2 + 1000000)"

definition sample_held :: resource_row where
  "sample_held = acquired sample_spend sample_receipt_row (sample_clock 2 + 1000000) sample_resource"

definition sample_intent :: outbox_row where
  "sample_intent = intent sample_spend sample_receipt_row 1"

lemma sample_rows: "receipts sample_reserved = [sample_receipt_row]" "outbox sample_reserved = [sample_intent]"
    "resources sample_reserved = [sample_held]" "proposals sample_reserved = [sample_proposal_row]" "effects sample_reserved = []"
  by (simp_all add: sample_reserved_def reserved_tables_def Let_def sample_authorized_def sample_receipt_row_def sample_intent_def
      sample_held_def sample_resource_def fresh_resource update_where_def sample_spend_def)

lemma sample_joined:
  assumes "match (sample_held, sample_intent, sample_receipt_row, sample_proposal_row)"
  shows "joined match sample_reserved = [(sample_held, sample_intent, sample_receipt_row, sample_proposal_row)]"
  using assms by (simp add: joined_def sample_rows)

lemma sample_columns:
  "ar_id sample_receipt_row = pr_id sample_proposal_row" "ob_id sample_intent = pr_id sample_proposal_row"
  using reserving_id [OF sample_proposal_for] by (simp_all add: sample_receipt_row_def sample_intent_def intent_def)

lemma sample_spend_simps: "sq_tenant sample_spend = sample_uuid (CHR ''1'')" "sq_operation sample_spend = sample_uuid (CHR ''9'')"
    "sq_digest sample_spend = dig (CHR ''a'')" "sq_proposal sample_spend = dig (CHR ''a'')" "sq_run sample_spend = sample_uuid (CHR ''2'')"
    "sq_incident sample_spend = sample_uuid (CHR ''3'')" "sq_resource sample_spend = ''boat''" "sq_agent sample_spend = ''aws-authority-alpha''"
    "sq_effect sample_spend = sample_uuid (CHR ''7'')" "sq_payload sample_spend = sample_effect_payload" "sq_payload_digest sample_spend = dig (CHR ''a'')"
  by (simp_all add: sample_spend_def)

lemma sample_live: "now < 2000 \<Longrightarrow> now' < 2000 \<Longrightarrow> now'' < 2000 \<Longrightarrow> live now now' now'' (sample_held, sample_intent, sample_receipt_row, sample_proposal_row)"
  by (simp add: live_def sample_receipt_row_def held_def sample_held_def acquired_def sample_clock_def sample_proposal_fields)

lemma sample_joins: "first_join sample_pg sample_effect (sample_held, sample_intent, sample_receipt_row, sample_proposal_row)"
    "second_join sample_pg sample_effect (sample_held, sample_intent, sample_receipt_row, sample_proposal_row)"
  unfolding first_join_def second_join_def holds_for_def joins_proposal_def outbox_matches_def
  by (simp_all add: sample_columns sample_ids sample_proposal_fields)
    (simp_all add: sample_held_def acquired_def sample_resource_def new_resource_def resource_key_def sample_intent_def intent_def sample_receipt_row_def
      sample_effect_def sample_spend_simps sample_pg_def sample_ids reserving_id [OF sample_proposal_for])

definition sample_done :: ledger where
  "sample_done = sample_reserved\<lparr>effects := [effect_of sample_effect (pr_id sample_proposal_row)]\<rparr>"

lemma sample_recorded: "record_effect sample_pg ''tp_dispatch_user'' sample_clock sample_effect sample_reserved
    = Inr (sample_done, Some (sample_uuid (CHR ''7''), sample_uuid (CHR ''9'')))"
proof -
  let ?rows = "(sample_held, sample_intent, sample_receipt_row, sample_proposal_row)"
  have c: "sample_clock n < 2000 \<longleftrightarrow> n < 500" for n by (auto simp: sample_clock_def)
  have "joined (\<lambda>x. first_join sample_pg sample_effect x \<and> live (sample_clock 0) (sample_clock 1) (sample_clock 2) x) sample_reserved = [?rows]"
    by (rule sample_joined) (simp add: sample_joins sample_live c)
  moreover have "joined (second_join sample_pg sample_effect) sample_done = [?rows]"
    using sample_joined [of "second_join sample_pg sample_effect"] by (simp add: joined_def sample_done_def sample_joins)
  moreover have "insert_effect (effect_of sample_effect (pr_id sample_proposal_row)) sample_reserved = Inr (Some sample_done)"
    by (simp add: insert_effect_def effect_check_def authority_id_check_def effect_of_def sample_ids sample_rows clashes_def sample_done_def)
      (simp add: sample_effect_def)
  ultimately show ?thesis
    unfolding record_effect_def by (simp add: sample_live c sample_columns single_live_def) (simp add: sample_effect_def)
qed

definition sample_events :: "ledger_event list" where
  "sample_events = [Evidence (Register_key sample_key_input), Evidence (Append_v2 ''tp_ingest_user'' (sample_params (CHR ''5''))),
     Selected sample_selection, Prepared sample_boat,
     Authorized ''tp_authorizer_user'' 1500 sample_clock sample_ask (proposal_granted ''proposal_authorized'' sample_proposal_row 1501)]"

lemma run_snoc: "run step s ls t \<Longrightarrow> step t l u \<Longrightarrow> run step s (ls @ [l]) u"
  by (erule run_append) (rule run_cons, assumption, rule run_nil)

lemma sample_authorized_run: "run (ledger_step request_env sample_crypto (\<lambda>_. True) sample_pg (\<lambda>t. t div 1000)) empty_ledger sample_events sample_authorized"
  using run_snoc [OF sample_ready_run, OF step_authorized, OF sample_proposed] by (simp add: sample_events_def)

definition sample_spend_event :: ledger_event where
  "sample_spend_event = Spent ''tp_authorizer_user'' 1500 sample_clock sample_spend sample_spent"

definition sample_effect_event :: ledger_event where
  "sample_effect_event = Recorded ''tp_dispatch_user'' sample_clock sample_effect (Some (sample_uuid (CHR ''7''), sample_uuid (CHR ''9'')))"

lemma sample_reserved_run: "run (ledger_step request_env sample_crypto (\<lambda>_. True) sample_pg (\<lambda>t. t div 1000)) empty_ledger (sample_events @ [sample_spend_event]) sample_reserved"
  unfolding sample_spend_event_def
  using sample_authorized_run by (rule run_snoc) (rule step_spent, rule sample_spends)

lemma sample_done_run:
  "run (ledger_step request_env sample_crypto (\<lambda>_. True) sample_pg (\<lambda>t. t div 1000)) empty_ledger ((sample_events @ [sample_spend_event]) @ [sample_effect_event]) sample_done"
  unfolding sample_effect_event_def
  using sample_reserved_run by (rule run_snoc) (rule step_recorded, rule sample_recorded)

end
