(* ===== verification/Ledger_Props.thy ===== *)
theory Ledger_Props
  imports Ledger_Sample
begin

text \<open>
  The properties of the authority ledger: authority over a logical action is spent at most once,
  the fences of a resource only grow, a reservation rests on admissible evidence and an open
  authorization, an authorized request is granted, and a protected effect happens at most once
  and under live authority.
\<close>

section \<open>What no call takes back\<close>

lemma denied_receipts: "denial q a L L' \<Longrightarrow> receipts L' = receipts L @ [a] \<and> resources L' = resources L \<and> effects L' = effects L"
  by (simp add: denial_def)

lemma reserved_receipts: "reservation D user t now q p r L L' \<Longrightarrow>
    receipts L' = receipts L @ [reserving q p (rs_fence r + 1) (now + sq_lease q * 1000)] \<and> effects L' = effects L"
  by (simp add: reservation_def reserved_tables_def Let_def)

lemma authorize_rows: "authorize_proposal D user t clock z L = Inr (L', d) \<Longrightarrow>
    receipts L' = receipts L \<and> resources L' = resources L \<and> effects L' = effects L"
  using authorize_result [of D user t clock z L L' d]
  by (auto dest!: insert_epoch_Inr simp: insert_proposal_def open_epoch_def split: if_split_asm)

lemma record_rows: "record_effect D user clock f L = Inr (L', out) \<Longrightarrow>
    receipts L' = receipts L \<and> resources L' = resources L \<and> (\<exists>es. effects L' = effects L @ es)"
  using record_result [of D user clock f L L' out] by auto

lemma prepare_rows: "prepare_resource inp L = Inr (L', r) \<Longrightarrow>
    receipts L' = receipts L \<and> effects L' = effects L \<and> resources L' = resources L @ [r] \<and> rs_fence r = 0 \<and>
    \<not> taken every resource_key (resource_key r) (resources L)"
  by (auto simp: prepare_resource_def guard_simps call_Inr fresh_resource)

lemma spend_rows: "spend_authority D user t clock q L = Inr (L', d) \<Longrightarrow> (\<exists>as. receipts L' = receipts L @ as) \<and> effects L' = effects L"
  using spend_result [of D user t clock q L L' d] denied_receipts reserved_receipts by blast

lemma store_authorize_rows: "store_authorize E D ms t inp L = Inr (L', d) \<Longrightarrow> ledger_ok L \<Longrightarrow>
    receipts L' = receipts L \<and> resources L' = resources L \<and> effects L' = effects L"
  using store_authorize_result [of E D ms t inp L L' d]
  by (auto dest!: insert_epoch_Inr simp: insert_proposal_def open_epoch_def ledger_ok_def proposals_ok_def split: if_split_asm)

lemma booked_receipts: "receipts (booked q p r x y L) = receipts L @ [reserving q p (rs_fence r + 1) x] \<and> effects (booked q p r x y L) = effects L"
  by (simp add: booked_def Let_def)

lemma store_spend_rows: "store_spend E ms t inp L = Inr (L', d) \<Longrightarrow> (\<exists>as. receipts L' = receipts L @ as) \<and> effects L' = effects L"
  using store_spend_result [of E ms t inp L L' d, unfolded Let_def] denied_receipts booked_receipts by blast

lemma store_record_rows: "store_record E D ms t inp agent L = Inr (L', d) \<Longrightarrow>
    receipts L' = receipts L \<and> resources L' = resources L \<and> (\<exists>es. effects L' = effects L @ es)"
  using store_record_result [of E D ms t inp agent L L' d] by (auto simp: recorded_on_def Let_def)

lemma step_rows: "ledger_step E C vector D ms L ev L' \<Longrightarrow> ledger_ok L \<Longrightarrow> (\<exists>as. receipts L' = receipts L @ as) \<and> (\<exists>es. effects L' = effects L @ es)"
proof (induction rule: ledger_step.induct)
  case (step_raced user t clock q L L' d)
  then show ?case by (auto dest!: race_spends spend_rows)
qed (auto dest!: authorize_rows record_rows prepare_rows spend_rows store_authorize_rows store_spend_rows store_record_rows)

section \<open>Spending once\<close>

text \<open>The events that spend the authority over a logical action.\<close>

fun spends_action :: "string \<Rightarrow> string \<Rightarrow> ledger_event \<Rightarrow> bool" where
  "spends_action tenant action (Spent user t clock q d) \<longleftrightarrow> fresh d \<and> sq_tenant q = tenant \<and> sq_action q = action"
| "spends_action tenant action (Stored_spent t inp d) \<longleftrightarrow> granted d \<and> map_option receipt_action_key (sa_receipt d) = Some (tenant, action)"
| "spends_action tenant action _ \<longleftrightarrow> False"

text \<open>A spend of the store that is granted, as a booking.\<close>

lemma granted_books:
  assumes "store_spend E ms t inp L = Inr (L', d)" and "granted d"
  obtains q p r x y where "bookable q p r x L" "L' = booked q p r x y L" "spends L (sq_tenant q) (sq_action q) = []"
    "find_resource L (sq_tenant q) (sq_resource q) = Some r" "sa_receipt d = Some (reserving q p (rs_fence r + 1) x)"
  using store_spend_result [OF assms(1), unfolded Let_def] assms(2) unfolding grounded_def store_grant_def Let_def by blast

lemma booked_spends: "spends (booked q p r x y L) (sq_tenant q) (sq_action q) \<noteq> []"
  by (simp add: spends_def booked_receipts receipt_action_key_def) (simp add: reserving_def pending_receipt_def)

lemma reservation_spends:
  assumes "reservation D user t now q p r L L'"
  shows "spends L (sq_tenant q) (sq_action q) = [] \<and> spends L' (sq_tenant q) (sq_action q) \<noteq> []"
proof -
  from assms have "spends L (sq_tenant q) (sq_action q) = []" by (simp add: reservation_def authorized_def)
  with reservation_books [OF assms] show ?thesis by (simp add: booked_spends)
qed

lemma spend_step:
  assumes "ledger_step E C vector D ms L ev L'" and "spends_action tenant action ev"
  shows "spends L tenant action = [] \<and> spends L' tenant action \<noteq> []"
proof -
  from assms(2) consider user t clock q d where "ev = Spent user t clock q d" "fresh d" "sq_tenant q = tenant" "sq_action q = action"
    | t inp d where "ev = Stored_spent t inp d" "granted d" "map_option receipt_action_key (sa_receipt d) = Some (tenant, action)"
    by (cases ev) auto
  then show ?thesis
  proof cases
    case (1 user t clock q d)
    with assms(1) have "spend_authority D user t clock q L = Inr (L', d)" by (auto elim!: ledger_stepE intro: race_spends)
    from spend_result [OF this] 1 obtain p r where "reservation D user t (clock 2) q p r L L'" by blast
    from reservation_spends [OF this] 1 show ?thesis by simp
  next
    case (2 t inp d)
    with assms(1) have "store_spend E ms t inp L = Inr (L', d)" by (auto elim!: ledger_stepE)
    from granted_books [OF this 2(2)] obtain q p r x y where b: "L' = booked q p r x y L" "spends L (sq_tenant q) (sq_action q) = []"
        "sa_receipt d = Some (reserving q p (rs_fence r + 1) x)" by metis
    with 2(3) have "sq_tenant q = tenant" "sq_action q = action"
      by (simp_all add: receipt_action_key_def) (simp add: reserving_def pending_receipt_def)
    with b booked_spends show ?thesis by auto
  qed
qed

interpretation spending: one_shot_machine "ledger_step E C vector D ms" ledger_ok "spends_action tenant action" "\<lambda>L. spends L tenant action \<noteq> []"
  for E C vector D ms tenant action
proof unfold_locales
  fix L ev L' assume "ledger_step E C vector D ms L ev L'" and "spends L tenant action \<noteq> []"
  moreover assume "ledger_ok L"
  ultimately show "spends L' tenant action \<noteq> []" using step_rows [of E C vector D ms L ev L'] by (auto simp: spends_def)
qed (use spend_step in blast)+

text \<open>C1. Authority is spent at most once: in any run of the ledger from empty tables, whatever
  clients propose, retry or race with, through the stored functions or the store's own
  transactions, at most one call is granted the authority over a logical
  action of a tenant.\<close>

theorem authority_spent_at_most_once:
  assumes "run (ledger_step E C vector D ms) empty_ledger evs L"
  shows "length (filter (spends_action tenant action) evs) \<le> 1"
  using assms empty_ledger_ok by (rule spending.fires_at_most_once)

section \<open>Fences\<close>

definition fence_now :: "string \<Rightarrow> string \<Rightarrow> ledger \<Rightarrow> int" where
  "fence_now tenant resource L = (case find_resource L tenant resource of None \<Rightarrow> 0 | Some r \<Rightarrow> rs_fence r)"

fun granted_fence :: "string \<Rightarrow> string \<Rightarrow> ledger_event \<Rightarrow> int option" where
  "granted_fence tenant resource (Spent user t clock q d) = (if fresh d \<and> sq_tenant q = tenant \<and> sq_resource q = resource then dc_fence d else None)"
| "granted_fence tenant resource (Stored_spent t inp d) =
     (case sa_receipt d of None \<Rightarrow> None
      | Some a \<Rightarrow> if granted d \<and> ar_tenant a = tenant \<and> ar_resource a = resource then ar_fence a else None)"
| "granted_fence tenant resource _ = None"

lemma find_acquired: "(\<And>s. resource_key (f s) = resource_key s) \<Longrightarrow>
    find_resource (L\<lparr>resources := update_where P f (resources L)\<rparr>) tenant resource
      = map_option (\<lambda>s. if P s then f s else s) (find_resource L tenant resource)"
  by (simp add: find_resource_def find_update_where)

lemma booked_fence:
  assumes "find_resource L (sq_tenant q) (sq_resource q) = Some r"
  shows "fence_now tenant resource (booked q p r x y L)
    = fence_now tenant resource L + (if (tenant, resource) = (sq_tenant q, sq_resource q) then 1 else 0)"
proof -
  have key: "find_resource L tenant resource = Some s \<Longrightarrow> resource_key s = (tenant, resource)" for s
    by (auto simp: find_resource_def dest: find_SomeD)
  have "find_resource (booked q p r x y L) tenant resource = map_option (\<lambda>s. if resource_key s = (sq_tenant q, sq_resource q)
      then acquired q (reserving q p (rs_fence r + 1) x) y s else s) (find_resource L tenant resource)"
    by (simp add: booked_def Let_def find_resource_def find_update_where)
  then show ?thesis using assms key by (auto simp: fence_now_def split: option.splits)
qed

lemma reservation_fence:
  assumes "reservation D user t now q p r L L'"
  shows "fence_now tenant resource L' = fence_now tenant resource L + (if (tenant, resource) = (sq_tenant q, sq_resource q) then 1 else 0)"
proof -
  from assms have "find_resource L (sq_tenant q) (sq_resource q) = Some r" by (simp add: reservation_def authorized_def)
  from booked_fence [OF this] reservation_books [OF assms] show ?thesis by simp
qed

lemma granted_step:
  assumes "ledger_step E C vector D ms L ev L'" and "granted_fence tenant resource ev = Some f"
  shows "fence_now tenant resource L' = fence_now tenant resource L + 1 \<and> f = fence_now tenant resource L' \<and> f \<le> int8_max"
proof -
  from assms(2) consider user t clock q d where "ev = Spent user t clock q d" "fresh d" "sq_tenant q = tenant" "sq_resource q = resource" "dc_fence d = Some f"
    | t inp d a where "ev = Stored_spent t inp d" "granted d" "sa_receipt d = Some a" "ar_tenant a = tenant" "ar_resource a = resource" "ar_fence a = Some f"
    by (cases ev) (auto split: if_split_asm option.split_asm)
  then show ?thesis
  proof cases
    case (1 user t clock q d)
    with assms(1) have "spend_authority D user t clock q L = Inr (L', d)" by (auto elim!: ledger_stepE intro: race_spends)
    from spend_result [OF this] 1(2) obtain p r where r: "reservation D user t (clock 2) q p r L L'" "won user t (clock 2) q p r L L' d" by blast
    from r(2) have "f = rs_fence r + 1" "find_resource L tenant resource = Some r" "rs_fence r < int8_max"
      using 1 by (auto simp: won_def Let_def spend_granted_def)
    then show ?thesis using reservation_fence [OF r(1), of tenant resource] 1(3,4) by (simp add: fence_now_def)
  next
    case (2 t inp d a)
    with assms(1) have "store_spend E ms t inp L = Inr (L', d)" by (auto elim!: ledger_stepE)
    from granted_books [OF this 2(2)] obtain q p r x y where b: "bookable q p r x L" "L' = booked q p r x y L"
        "find_resource L (sq_tenant q) (sq_resource q) = Some r" "sa_receipt d = Some (reserving q p (rs_fence r + 1) x)" by metis
    with 2 have "f = rs_fence r + 1" "sq_tenant q = tenant" "sq_resource q = resource" by auto
    with b booked_fence [OF b(3), of tenant resource p x y] show ?thesis by (simp add: fence_now_def bookable_def)
  qed
qed

lemma fence_step: "ledger_step E C vector D ms L ev L' \<Longrightarrow> ledger_ok L \<Longrightarrow> fence_now tenant resource L \<le> fence_now tenant resource L'"
proof -
  have spend: "fence_now tenant resource L \<le> fence_now tenant resource L'" if "spend_authority D user t clock q L = Inr (L', d)" for user t clock q d L L'
    using spend_result [OF that] reservation_fence [of D user t "clock 2" q _ _ L L' tenant resource] denied_receipts
    by (auto simp: fence_now_def find_resource_def)
  have stored: "fence_now tenant resource L \<le> fence_now tenant resource L'" if "store_spend E ms t inp L = Inr (L', d)" for t inp d L L'
  proof -
    from store_spend_result [OF that, unfolded Let_def] consider "resources L' = resources L"
      | q p r x y where "find_resource L (sq_tenant q) (sq_resource q) = Some r" "L' = booked q p r x y L"
      unfolding grounded_def Let_def using denied_receipts by blast
    then show ?thesis by cases (simp_all add: booked_fence, simp add: fence_now_def find_resource_def)
  qed
  have prepare: "fence_now tenant resource L \<le> fence_now tenant resource L'" if "prepare_resource inp L = Inr (L', r)" for inp r L L'
    using prepare_rows [OF that] by (auto simp: fence_now_def find_resource_def find_append split: option.splits)
  assume "ledger_step E C vector D ms L ev L'" "ledger_ok L"
  then show ?thesis
  proof (induction rule: ledger_step.induct)
    case (step_raced user t clock q L L' d)
    then show ?case using spend [OF race_spends] by blast
  next
    case (step_authorized user t clock z L L' d)
    then show ?case using authorize_rows [of D user t clock z L L' d] by (simp add: fence_now_def find_resource_def)
  next
    case (step_recorded user clock f L L' out)
    then show ?case using record_rows [of D user clock f L L' out] by (simp add: fence_now_def find_resource_def)
  next
    case (step_stored_authorized t inp L L' pa)
    then show ?case using store_authorize_rows [of E D ms t inp L L' pa] by (simp add: fence_now_def find_resource_def)
  next
    case (step_stored_recorded t inp agent L L' ea)
    then show ?case using store_record_rows [of E D ms t inp agent L L' ea] by (simp add: fence_now_def find_resource_def)
  qed (auto simp: spend prepare stored, simp_all add: fence_now_def find_resource_def)
qed

lemma fence_nonneg: "ledger_ok L \<Longrightarrow> 0 \<le> fence_now tenant resource L"
  by (auto simp: fence_now_def find_resource_def ledger_ok_def tables_ok_def list_all_iff split: option.splits dest!: find_SomeD)

lemma fences_from:
  assumes "run (ledger_step E C vector D ms) L evs L'" and "ledger_ok L"
  shows "sorted_wrt (<) (List.map_filter (granted_fence tenant resource) evs) \<and>
    (\<forall>f \<in> set (List.map_filter (granted_fence tenant resource) evs). fence_now tenant resource L < f \<and> f \<le> int8_max)"
  using assms
proof (induction rule: run.induct)
  case (run_cons L ev L1 evs L')
  have ok: "ledger_ok L1" using run_cons.hyps(1) run_cons.prems by (rule ledger_ok_step)
  note IH = run_cons.IH [OF ok]
  show ?case
  proof (cases "granted_fence tenant resource ev")
    case None
    with IH fence_step [OF run_cons.hyps(1) run_cons.prems, of tenant resource] show ?thesis by (fastforce simp: List.map_filter_simps)
  next
    case (Some f)
    from granted_step [OF run_cons.hyps(1) Some] IH Some show ?thesis by (fastforce simp: List.map_filter_simps)
  qed
qed (simp add: List.map_filter_simps)

text \<open>C13. Fencing tokens never repeat or fall: in any run of the ledger from empty tables, the fences
  granted for one resource are strictly increasing in the order of the calls, and each is a
  positive number within the column's eight bytes.\<close>

theorem ledger_fences_increase:
  assumes "run (ledger_step E C vector D ms) empty_ledger evs L"
  shows "sorted_wrt (<) (List.map_filter (granted_fence tenant resource) evs) \<and>
    (\<forall>f \<in> set (List.map_filter (granted_fence tenant resource) evs). 0 < f \<and> f \<le> 9223372036854775807)"
proof -
  have "0 \<le> fence_now tenant resource empty_ledger" by (rule fence_nonneg) (rule empty_ledger_ok)
  then show ?thesis using fences_from [OF assms empty_ledger_ok, of tenant resource] by (force simp: int8_max_def)
qed

section \<open>Reservations and their grounds\<close>

lemma admission_admissible:
  assumes "admission user t q L = (''admissible'', digest)"
  shows "\<exists>e \<in> set (evidence_rows (evidence L)). ev_tenant e = sq_tenant q \<and> ev_id e = sq_evidence q \<and> ev_incident e = sq_incident q \<and>
    ev_digest e = digest \<and> admissibility_of (evidence L) t (sq_agency q) e = ''admissible''"
  using assms
  by (auto simp: admission_def observe_admissibility_def list_admissibility_def split: option.split_asm if_split_asm dest!: find_SomeD) blast+

text \<open>C2. No authority without grounds: a spend that is granted found the authorized proposal of the
  request unexpired and its epoch open, no earlier spend of the action, the selected evidence
  admissible with the very digest that was selected, and the resource of the run held by nobody;
  it leaves the receipt, the intent and the next fence of the resource in the tables, with a
  lease of the requested length.\<close>

theorem fresh_spend_is_authorized:
  assumes "spend_authority D user t clock q L = Inr (L', d)" and "fresh d"
  shows "\<exists>p r e x. proposal_for q L = Some p \<and> clock 2 < pr_expires p \<and>
    find_epoch L (sq_tenant q) (sq_action q) = Some x \<and> ep_epoch x = ai_epoch (pr_id p) \<and> spends L (sq_tenant q) (sq_action q) = [] \<and>
    e \<in> set (evidence_rows (evidence L)) \<and> ev_tenant e = sq_tenant q \<and> ev_id e = sq_evidence q \<and> ev_incident e = sq_incident q \<and>
    ev_digest e = Some (sq_evidence_digest q) \<and> admissibility_of (evidence L) t (sq_agency q) e = ''admissible'' \<and>
    find_resource L (sq_tenant q) (sq_resource q) = Some r \<and> rs_run r = sq_run q \<and> \<not> held (clock 2) r \<and>
    dc_fence d = Some (rs_fence r + 1) \<and> dc_expires d = Some (clock 2 + sq_lease q * 1000) \<and>
    L' = reserved_tables q p r (clock 2) L"
proof -
  from spend_result [OF assms(1)] assms(2) obtain p r where r: "reservation D user t (clock 2) q p r L L'" "won user t (clock 2) q p r L L' d"
    by blast
  from r(2) have d: "dc_fence d = Some (rs_fence r + 1)" "dc_expires d = Some (clock 2 + sq_lease q * 1000)"
    by (simp_all add: won_def spend_granted_def)
  from r(1) have g: "admission user t q L = (''admissible'', Some (sq_evidence_digest q))" "proposal_for q L = Some p" "clock 2 < pr_expires p"
      "\<exists>x. find_epoch L (sq_tenant q) (sq_action q) = Some x \<and> ep_epoch x = ai_epoch (pr_id p)" "spends L (sq_tenant q) (sq_action q) = []"
      "find_resource L (sq_tenant q) (sq_resource q) = Some r" "rs_run r = sq_run q" "\<not> held (clock 2) r" "L' = reserved_tables q p r (clock 2) L"
    by (simp_all add: reservation_def authorized_def)
  from admission_admissible [OF g(1)] g d show ?thesis by blast
qed

section \<open>An authorized request is granted\<close>

text \<open>C12. An authorized request is granted: in every state the ledger reaches, a well-formed request
  whose proposal is open and unexpired, whose evidence is admissible and whose resource is free
  returns the next fence and the full lease, unless the operation, the request digest or the
  effect key was used before or the resource has run out of fences; in particular no internal
  error and no key of a table stops it.\<close>

theorem authorized_spend_is_granted:
  assumes "run (ledger_step E C vector D ms) empty_ledger evs L"
    and "authorized D user t (clock 2) q p r L" and "is_object (sq_request q)" and "is_object (sq_payload q)"
    and "find_receipt L (sq_tenant q) (sq_operation q) = None"
    and "\<forall>a \<in> set (receipts L). ar_tenant a = sq_tenant q \<longrightarrow> ar_digest a \<noteq> sq_digest q"
    and "\<forall>b \<in> set (outbox L). ob_tenant b = sq_tenant q \<longrightarrow> ob_effect b \<noteq> sq_effect q"
    and "rs_fence r < int8_max" and "clock 1 < pr_expires p" and "clock 3 < pr_expires p"
  shows "\<exists>L'. spend_authority D user t clock q L
    = Inr (L', spend_granted q (pr_id p) (rs_fence r + 1) (clock 2 + sq_lease q * 1000) (clock 2))"
proof -
  have "ledger_ok L" using assms(1) empty_ledger_ok by (rule ledger_machine.run_inv)
  then show ?thesis using assms(2-) by (rule spend_is_granted)
qed

section \<open>Protected effects\<close>

text \<open>The events that record an effect, by a column of its row: the key of the effect or the operation.\<close>

fun records :: "(string \<times> string \<Rightarrow> string) \<Rightarrow> string \<Rightarrow> string \<Rightarrow> ledger_event \<Rightarrow> bool" where
  "records col tenant k (Recorded user clock f out) \<longleftrightarrow> fq_tenant f = tenant \<and> map_option col out = Some k"
| "records col tenant k (Stored_recorded t inp agent d) \<longleftrightarrow>
     (case recorded_by d of None \<Rightarrow> False | Some e \<Rightarrow> fx_tenant e = tenant \<and> col (fx_effect e, fx_operation e) = k)"
| "records col tenant k _ \<longleftrightarrow> False"

text \<open>A recording appends one row under new keys.\<close>

lemma effect_of_keys: "fx_tenant (effect_of f i) = fq_tenant f" "fx_effect (effect_of f i) = fq_effect f" "fx_operation (effect_of f i) = fq_operation f"
  by (simp_all add: effect_of_def)

lemma record_appends:
  assumes "ledger_step E C vector D ms L ev L'" and "records col tenant k ev"
  shows "\<exists>e. fx_tenant e = tenant \<and> col (fx_effect e, fx_operation e) = k \<and> \<not> clashes effect_keys e (effects L) \<and> L' = L\<lparr>effects := effects L @ [e]\<rparr>"
proof -
  from assms(2) consider user clock f w where "ev = Recorded user clock f (Some w)" "fq_tenant f = tenant" "col w = k"
    | t inp agent d e where "ev = Stored_recorded t inp agent d" "recorded_by d = Some e" "fx_tenant e = tenant" "col (fx_effect e, fx_operation e) = k"
    by (cases ev) (auto split: option.split_asm)
  then show ?thesis
  proof cases
    case (1 user clock f w)
    with assms(1) have "record_effect D user clock f L = Inr (L', Some w)" by (auto elim!: ledger_stepE)
    from record_result [OF this] obtain i where "w = (fq_effect f, fq_operation f)" "\<not> clashes effect_keys (effect_of f i) (effects L)"
        "L' = L\<lparr>effects := effects L @ [effect_of f i]\<rparr>" by auto
    with 1 show ?thesis by (intro exI [of _ "effect_of f i"]) (simp add: effect_of_keys)
  next
    case (2 t inp agent d e)
    with assms(1) have "store_record E D ms t inp agent L = Inr (L', d)" by (auto elim!: ledger_stepE)
    from store_record_result [OF this] 2 show ?thesis by (auto simp: recorded_on_def Let_def)
  qed
qed

lemma record_step:
  assumes "ledger_step E C vector D ms L ev L'" and "records col tenant k ev"
    and "\<And>e e'. fx_tenant e = fx_tenant e' \<Longrightarrow> col (fx_effect e, fx_operation e) = col (fx_effect e', fx_operation e') \<Longrightarrow>
      \<exists>i < 4. effect_keys e ! i = effect_keys e' ! i"
  shows "\<not> (\<exists>e \<in> set (effects L). fx_tenant e = tenant \<and> col (fx_effect e, fx_operation e) = k) \<and>
    (\<exists>e \<in> set (effects L'). fx_tenant e = tenant \<and> col (fx_effect e, fx_operation e) = k)"
proof -
  from record_appends [OF assms(1,2)] obtain e where e: "fx_tenant e = tenant" "col (fx_effect e, fx_operation e) = k"
      "\<not> clashes effect_keys e (effects L)" "L' = L\<lparr>effects := effects L @ [e]\<rparr>" by blast
  have "\<not> (fx_tenant g = tenant \<and> col (fx_effect g, fx_operation g) = k)" if "g \<in> set (effects L)" for g
    using e(3) that assms(3) [of e g] e(1,2) by (auto simp: clashes_iff)
  with e show ?thesis by auto
qed

lemma effect_rows_stay: "ledger_step E C vector D ms L ev L' \<Longrightarrow> ledger_ok L \<Longrightarrow> \<exists>e \<in> set (effects L). P e \<Longrightarrow> \<exists>e \<in> set (effects L'). P e"
  using step_rows [of E C vector D ms L ev L'] by auto

lemma effect_columns:
  "fx_tenant e = fx_tenant e' \<Longrightarrow> fst (fx_effect e, fx_operation e) = fst (fx_effect e', fx_operation e') \<Longrightarrow>
    \<exists>i < 4. effect_keys e ! i = effect_keys e' ! i"
  "fx_tenant e = fx_tenant e' \<Longrightarrow> snd (fx_effect e, fx_operation e) = snd (fx_effect e', fx_operation e') \<Longrightarrow>
    \<exists>i < 4. effect_keys e ! i = effect_keys e' ! i"
  by (simp_all add: effect_keys_def) (rule exI [of _ 0], simp, rule exI [of _ 1], simp)

interpretation effect_by_key: one_shot_machine "ledger_step E C vector D ms" ledger_ok "records fst tenant k"
    "\<lambda>L. \<exists>e \<in> set (effects L). fx_tenant e = tenant \<and> fst (fx_effect e, fx_operation e) = k"
  for E C vector D ms tenant k
proof unfold_locales
  fix L ev L' assume step: "ledger_step E C vector D ms L ev L'"
  note r = record_step [OF step _ effect_columns(1)]
  show "records fst tenant k ev \<Longrightarrow> \<not> (\<exists>e \<in> set (effects L). fx_tenant e = tenant \<and> fst (fx_effect e, fx_operation e) = k)"
    "records fst tenant k ev \<Longrightarrow> \<exists>e \<in> set (effects L'). fx_tenant e = tenant \<and> fst (fx_effect e, fx_operation e) = k"
    using r by blast+
  show "ledger_ok L \<Longrightarrow> \<exists>e \<in> set (effects L). fx_tenant e = tenant \<and> fst (fx_effect e, fx_operation e) = k \<Longrightarrow>
      \<exists>e \<in> set (effects L'). fx_tenant e = tenant \<and> fst (fx_effect e, fx_operation e) = k"
    by (rule effect_rows_stay [OF step])
qed

interpretation effect_by_operation: one_shot_machine "ledger_step E C vector D ms" ledger_ok "records snd tenant k"
    "\<lambda>L. \<exists>e \<in> set (effects L). fx_tenant e = tenant \<and> snd (fx_effect e, fx_operation e) = k"
  for E C vector D ms tenant k
proof unfold_locales
  fix L ev L' assume step: "ledger_step E C vector D ms L ev L'"
  note r = record_step [OF step _ effect_columns(2)]
  show "records snd tenant k ev \<Longrightarrow> \<not> (\<exists>e \<in> set (effects L). fx_tenant e = tenant \<and> snd (fx_effect e, fx_operation e) = k)"
    "records snd tenant k ev \<Longrightarrow> \<exists>e \<in> set (effects L'). fx_tenant e = tenant \<and> snd (fx_effect e, fx_operation e) = k"
    using r by blast+
  show "ledger_ok L \<Longrightarrow> \<exists>e \<in> set (effects L). fx_tenant e = tenant \<and> snd (fx_effect e, fx_operation e) = k \<Longrightarrow>
      \<exists>e \<in> set (effects L'). fx_tenant e = tenant \<and> snd (fx_effect e, fx_operation e) = k"
    by (rule effect_rows_stay [OF step])
qed

text \<open>C16. A protected effect happens at most once: in any run of the ledger from empty tables, whether
  the calls go through the stored functions or the store's own transactions, at most one call
  records the effect of an effect key, and at most one that of an operation.\<close>

theorem protected_effect_at_most_once:
  assumes "run (ledger_step E C vector D ms) empty_ledger evs L"
  shows "length (filter (records fst tenant k) evs) \<le> 1 \<and> length (filter (records snd tenant operation) evs) \<le> 1"
  using effect_by_key.fires_at_most_once [OF assms empty_ledger_ok] effect_by_operation.fires_at_most_once [OF assms empty_ledger_ok] by blast

text \<open>C3. No effect without live authority: when the ledger records an effect, the resource is still
  held by the operation under exactly the fence the caller presents, the receipt of that
  operation is the one that spent the authority over the action, the payload is the authorized
  one, and holder, receipt and proposal are all unexpired at the last reading of the clock.\<close>

theorem effect_needs_live_authority:
  assumes "run (ledger_step E C vector D ms) empty_ledger evs L" and "record_effect D user clock f L = Inr (L', Some out)"
  shows "\<exists>r h a p. find_resource L (fq_tenant f) (fq_resource f) = Some r \<and> rs_holder r = Some h \<and> rs_fence r = fq_fence f \<and>
    ho_operation h = fq_operation f \<and> ho_agent h = fq_agent f \<and> clock 4 < ho_expires h \<and>
    spends L (fq_tenant f) (ai_action (ar_id a)) = [a] \<and> ar_operation a = fq_operation f \<and> ar_fence a = Some (fq_fence f) \<and>
    ar_effect a = fq_effect f \<and> (\<exists>x. ar_expires a = Some x \<and> clock 4 < x) \<and>
    p \<in> set (proposals L) \<and> pr_id p = ar_id a \<and> pg_sha256 D (pr_canonical p) = fq_payload_digest f \<and> clock 4 < pr_expires p"
proof -
  have ok: "ledger_ok L" using assms(1) empty_ledger_ok by (rule ledger_machine.run_inv)
  from record_result [OF assms(2)] obtain i where L': "L' = L\<lparr>effects := effects L @ [effect_of f i]\<rparr>"
      and live: "single_live (clock 4) (joined (second_join D f) L')" by auto
  from live obtain r b a p where j: "joined (second_join D f) L' = [(r, b, a, p)]" and l: "live (clock 4) (clock 4) (clock 4) (r, b, a, p)"
    by (auto dest: single_liveD)
  from joinedD [OF j] L' have rows: "r \<in> set (resources L)" "a \<in> set (receipts L)" "p \<in> set (proposals L)" and m: "second_join D f (r, b, a, p)"
    by simp_all
  from m obtain h where h: "rs_holder r = Some h" and hf: "resource_key r = (fq_tenant f, fq_resource f)" "rs_fence r = fq_fence f"
      "ho_operation h = fq_operation f" "ho_agent h = fq_agent f"
    by (auto simp: second_join_def holds_for_def split: option.split_asm)
  have a: "reserved a" "ar_tenant a = fq_tenant f" "ar_operation a = fq_operation f" "ar_fence a = Some (fq_fence f)" "ar_effect a = fq_effect f"
      "pr_id p = ar_id a" "pg_sha256 D (pr_canonical p) = fq_payload_digest f"
    using m h hf by (auto simp: second_join_def outbox_matches_def resource_key_def)
  have x: "\<exists>x. ar_expires a = Some x \<and> clock 4 < x" using l by (auto simp: live_def split: option.split_asm)
  have "unique_on reserved receipt_action_key (receipts L)" using ok by (simp add: ledger_ok_def receipts_ok_def)
  from unique_on_filter_one [OF this rows(2) a(1)] a(2) have "spends L (fq_tenant f) (ai_action (ar_id a)) = [a]"
    by (simp add: spends_def receipt_action_key_def conj_commute)
  moreover have "find_resource L (fq_tenant f) (fq_resource f) = Some r"
    using ok rows(1) hf(1) by (simp add: find_resource_iff ledger_ok_def tables_ok_def)
  moreover have "clock 4 < ho_expires h" "clock 4 < pr_expires p" using l h by (simp_all add: live_def held_def)
  ultimately show ?thesis using h hf a x rows(3) by blast
qed

section \<open>Witnesses\<close>

lemma sample_filters: "filter (spends_action (sample_uuid (CHR ''1'')) (dig (CHR ''a''))) (sample_events @ [sample_spend_event]) = [sample_spend_event]"
    "List.map_filter (granted_fence (sample_uuid (CHR ''1'')) ''boat'') (sample_events @ [sample_spend_event]) = [1]"
    "filter (records fst (sample_uuid (CHR ''1'')) (sample_uuid (CHR ''7''))) ((sample_events @ [sample_spend_event]) @ [sample_effect_event])
      = [sample_effect_event]"
  by (simp_all add: sample_events_def sample_spend_event_def sample_effect_event_def sample_spent_def List.map_filter_def)
    (simp_all add: sample_spend_def sample_effect_def spend_granted_def)

theorem authority_spent_at_most_once_witness:
  "length (filter (spends_action (sample_uuid (CHR ''1'')) (dig (CHR ''a''))) (sample_events @ [sample_spend_event])) = 1"
  using authority_spent_at_most_once [OF sample_reserved_run, of "sample_uuid (CHR ''1'')" "dig (CHR ''a'')"] sample_filters(1) by simp

theorem ledger_fences_increase_witness:
  "List.map_filter (granted_fence (sample_uuid (CHR ''1'')) ''boat'') (sample_events @ [sample_spend_event]) = [1] \<and> 0 < (1::int)"
  using ledger_fences_increase [OF sample_reserved_run, of "sample_uuid (CHR ''1'')" "''boat''"] sample_filters(2) by simp

theorem fresh_spend_is_authorized_witness:
  "\<exists>r. find_resource sample_authorized (sq_tenant sample_spend) (sq_resource sample_spend) = Some r \<and> dc_fence sample_spent = Some (rs_fence r + 1)"
proof -
  have "fresh sample_spent" by (simp add: sample_spent_def)
  from fresh_spend_is_authorized [OF sample_spends this] show ?thesis by blast
qed

theorem authorized_spend_is_granted_witness:
  "\<exists>L'. spend_authority sample_pg ''tp_authorizer_user'' 1500 sample_clock sample_spend sample_authorized
    = Inr (L', spend_granted sample_spend (pr_id sample_proposal_row) (rs_fence sample_resource + 1)
        (sample_clock 2 + sq_lease sample_spend * 1000) (sample_clock 2))"
  by (rule authorized_spend_is_granted [OF sample_authorized_run sample_granting sample_hypotheses(1-8)])

theorem protected_effect_at_most_once_witness:
  "length (filter (records fst (sample_uuid (CHR ''1'')) (sample_uuid (CHR ''7''))) ((sample_events @ [sample_spend_event]) @ [sample_effect_event])) = 1"
  using protected_effect_at_most_once [OF sample_done_run, of "sample_uuid (CHR ''1'')" "sample_uuid (CHR ''7'')"] sample_filters(3) by simp

theorem effect_needs_live_authority_witness:
  "\<exists>r h. find_resource sample_reserved (fq_tenant sample_effect) (fq_resource sample_effect) = Some r \<and> rs_holder r = Some h \<and>
     ho_operation h = sample_uuid (CHR ''9'')"
proof -
  have "fq_operation sample_effect = sample_uuid (CHR ''9'')" by (simp add: sample_effect_def)
  with effect_needs_live_authority [OF sample_reserved_run sample_recorded] show ?thesis by auto
qed

end
