(* ===== verification/Strict_Json.thy ===== *)
theory Strict_Json
  imports Js_Value
begin

text \<open>
  The strict reader of JSON texts (\<open>src/cloud/strict-json.js\<close>): a scanner that accepts exactly
  the JSON texts without repeated member names, nested at most to a given depth and with finite
  numbers, in front of \<open>JSON.parse\<close>. A text is the list of its UTF-16 code units. The scanner's
  index into the text is kept as the part of the text from the index on; a function returns what
  it throws on the left, or what is left of the text.
\<close>

type_synonym units = "nat list"

definition units_of :: "string \<Rightarrow> units" where
  "units_of s = map of_char s"

section \<open>White space, strings and numbers\<close>

definition json_space :: "nat \<Rightarrow> bool" where
  "json_space u \<longleftrightarrow> u = 9 \<or> u = 10 \<or> u = 13 \<or> u = 32"

definition skip_space :: "units \<Rightarrow> units" where
  "skip_space r = dropWhile json_space r"

fun simple_escape :: "nat \<Rightarrow> nat option" where
  "simple_escape u =
     (if u = 34 \<or> u = 92 \<or> u = 47 then Some u else if u = 98 then Some 8 else if u = 102 then Some 12
      else if u = 110 then Some 10 else if u = 114 then Some 13 else if u = 116 then Some 9 else None)"

definition digit_unit :: "nat \<Rightarrow> bool" where
  "digit_unit u \<longleftrightarrow> 48 \<le> u \<and> u \<le> 57"

definition hex_unit :: "nat \<Rightarrow> bool" where
  "hex_unit u \<longleftrightarrow> digit_unit u \<or> (97 \<le> u \<and> u \<le> 102) \<or> (65 \<le> u \<and> u \<le> 70)"

definition hex_unit_value :: "nat \<Rightarrow> nat" where
  "hex_unit_value u = (if u \<le> 57 then u - 48 else if u \<le> 70 then u - 55 else u - 87)"

definition hex_value :: "units \<Rightarrow> nat" where
  "hex_value h = foldl (\<lambda>n u. 16 * n + hex_unit_value u) 0 h"

text \<open>What follows the opening quote: the decoded string and the rest of the text.\<close>

function scan_chars :: "string \<Rightarrow> units \<Rightarrow> units \<Rightarrow> js_error + units \<times> units" where
  "scan_chars invalid decoded [] = Inl (Err invalid)"
| "scan_chars invalid decoded (u # r) =
     (if u = 34 then Inr (decoded, r)
      else if u \<le> 31 then Inl (Err invalid)
      else if u \<noteq> 92 then scan_chars invalid (decoded @ [u]) r
      else case r of
        [] \<Rightarrow> Inl (Err invalid)
      | e # r' \<Rightarrow>
         (case simple_escape e of
            Some c \<Rightarrow> scan_chars invalid (decoded @ [c]) r'
          | None \<Rightarrow>
              if e \<noteq> 117 then Inl (Err invalid)
              else if \<not> (length (take 4 r') = 4 \<and> list_all hex_unit (take 4 r')) then Inl (Err invalid)
              else scan_chars invalid (decoded @ [hex_value (take 4 r')]) (drop 4 r')))"
  by pat_completeness auto
termination
  by (relation "measure (\<lambda>(invalid, decoded, r). length r)") auto

fun scan_string :: "string \<Rightarrow> units \<Rightarrow> js_error + units \<times> units" where
  "scan_string invalid [] = Inl (Err invalid)"
| "scan_string invalid (u # r) = (if u \<noteq> 34 then Inl (Err invalid) else scan_chars invalid [] r)"

text \<open>
  The match of \<open>/^-?(?:0|[1-9][0-9]*)(?:\.[0-9]+)?(?:[eE][+-]?[0-9]+)?/\<close>, piece by piece: every
  piece is the longest possible, and what follows a piece may be empty, so the match never goes
  back. A piece comes with the rest of the text.
\<close>

definition match_digits :: "units \<Rightarrow> units \<times> units" where
  "match_digits r = (takeWhile digit_unit r, dropWhile digit_unit r)"

fun match_sign :: "nat list \<Rightarrow> units \<Rightarrow> units \<times> units" where
  "match_sign signs (u # r) = (if u \<in> set signs then ([u], r) else ([], u # r))"
| "match_sign signs [] = ([], [])"

fun match_integer :: "units \<Rightarrow> (units \<times> units) option" where
  "match_integer [] = None"
| "match_integer (u # r) =
     (if u = 48 then Some ([u], r)
      else if digit_unit u then (case match_digits r of (ds, r') \<Rightarrow> Some (u # ds, r'))
      else None)"

fun match_fraction :: "units \<Rightarrow> units \<times> units" where
  "match_fraction [] = ([], [])"
| "match_fraction (u # r) =
     (case match_digits r of (ds, r') \<Rightarrow> if u = 46 \<and> ds \<noteq> [] then (ds, r') else ([], u # r))"

text \<open>The sign and the digits of an exponent.\<close>

fun match_exponent :: "units \<Rightarrow> (units \<times> units) \<times> units" where
  "match_exponent [] = (([], []), [])"
| "match_exponent (u # r) =
     (case match_sign [43, 45] r of (s, r1) \<Rightarrow> case match_digits r1 of (ds, r2) \<Rightarrow>
        if (u = 101 \<or> u = 69) \<and> ds \<noteq> [] then ((s, ds), r2) else (([], []), u # r))"

text \<open>A number literal: its sign, integer digits, fraction digits, and the exponent's sign and digits.\<close>

record numeral =
  nm_sign :: units
  nm_integer :: units
  nm_fraction :: units
  nm_exponent_sign :: units
  nm_exponent :: units

definition match_number :: "units \<Rightarrow> (numeral \<times> units) option" where
  "match_number r =
     (case match_sign [45] r of (s, r1) \<Rightarrow>
      case match_integer r1 of
        None \<Rightarrow> None
      | Some (i, r2) \<Rightarrow>
          (case match_fraction r2 of (f, r3) \<Rightarrow>
           case match_exponent r3 of ((es, ex), r4) \<Rightarrow>
             Some (\<lparr>nm_sign = s, nm_integer = i, nm_fraction = f, nm_exponent_sign = es, nm_exponent = ex\<rparr>, r4)))"

definition digits_value :: "units \<Rightarrow> nat" where
  "digits_value ds = foldl (\<lambda>n u. 10 * n + (u - 48)) 0 ds"

text \<open>
  \<open>Number.isFinite(Number(m))\<close>: with the digits taken as an integer scaled by a power of ten, the
  number is finite when its magnitude is below the midpoint \<open>2^1024 - 2^970\<close> that rounds to infinity.
\<close>

definition double_limit :: nat where
  "double_limit = 2 ^ 1024 - 2 ^ 970"

definition finite_numeral :: "numeral \<Rightarrow> bool" where
  "finite_numeral m =
     (let digits = digits_value (nm_integer m @ nm_fraction m);
          places = length (nm_fraction m);
          power = digits_value (nm_exponent m)
      in if nm_exponent_sign m = [45] then digits < double_limit * 10 ^ (places + power)
         else digits * 10 ^ power < double_limit * 10 ^ places)"

definition scan_number :: "string \<Rightarrow> units \<Rightarrow> js_error + units" where
  "scan_number invalid r =
     (case match_number r of
        None \<Rightarrow> Inl (Err invalid)
      | Some (m, r') \<Rightarrow> if \<not> finite_numeral m then Inl (Err invalid) else Inr r')"

section \<open>Values\<close>

record strict_config =
  duplicate_code :: string
  invalid_code :: string
  max_depth :: nat

fun after_prefix :: "units \<Rightarrow> units \<Rightarrow> units option" where
  "after_prefix [] r = Some r"
| "after_prefix (p # ps) (u # r) = (if p = u then after_prefix ps r else None)"
| "after_prefix (p # ps) [] = None"

definition json_true :: units where "json_true = [116, 114, 117, 101]"

definition json_false :: units where "json_false = [102, 97, 108, 115, 101]"

definition json_null :: units where "json_null = [110, 117, 108, 108]"

definition scan_literal :: "units \<Rightarrow> units option" where
  "scan_literal r =
     (case after_prefix json_true r of
        Some r' \<Rightarrow> Some r'
      | None \<Rightarrow> (case after_prefix json_false r of
          Some r' \<Rightarrow> Some r'
        | None \<Rightarrow> after_prefix json_null r))"

definition scan_scalar :: "string \<Rightarrow> units \<Rightarrow> js_error + units" where
  "scan_scalar invalid r = (case scan_literal r of Some r' \<Rightarrow> Inr r' | None \<Rightarrow> scan_number invalid r)"

lemma and_then_cong [fundef_cong]:
  "r = r' \<Longrightarrow> (\<And>x. r' = Inr x \<Longrightarrow> f x = g x) \<Longrightarrow> and_then r f = and_then r' g"
  by (cases r') simp_all

text \<open>
  A value; the members of an object after its brace and those seen before; the elements of an
  array after its bracket. The set of members is a list.
\<close>

function scan_value :: "strict_config \<Rightarrow> nat \<Rightarrow> units \<Rightarrow> js_error + units"
  and scan_members :: "strict_config \<Rightarrow> nat \<Rightarrow> units list \<Rightarrow> units \<Rightarrow> js_error + units"
  and scan_elements :: "strict_config \<Rightarrow> nat \<Rightarrow> units \<Rightarrow> js_error + units"
where
  "scan_value cfg depth text =
     (if depth > max_depth cfg then Inl (Err (invalid_code cfg))
      else case skip_space text of
        [] \<Rightarrow> scan_scalar (invalid_code cfg) []
      | u # r \<Rightarrow>
          if u = 34 then map_sum id snd (scan_string (invalid_code cfg) (u # r))
          else if u = 123 then
            (case skip_space r of
               [] \<Rightarrow> Inl (Err (invalid_code cfg))
             | u' # r' \<Rightarrow> if u' = 125 then Inr r' else scan_members cfg depth [] (u' # r'))
          else if u = 91 then
            (case skip_space r of
               [] \<Rightarrow> Inl (Err (invalid_code cfg))
             | u' # r' \<Rightarrow> if u' = 93 then Inr r' else scan_elements cfg depth (u' # r'))
          else scan_scalar (invalid_code cfg) (u # r))"
| "scan_members cfg depth members text =
     (if text = [] then Inl (Err (invalid_code cfg))
      else and_then (scan_string (invalid_code cfg) text) (\<lambda>(member, r1).
        if member \<in> set members then Inl (Err (duplicate_code cfg))
        else case skip_space r1 of
          [] \<Rightarrow> Inl (Err (invalid_code cfg))
        | u # r2 \<Rightarrow>
            if u \<noteq> 58 then Inl (Err (invalid_code cfg))
            else and_then (scan_value cfg (depth + 1) r2) (\<lambda>r3.
              case skip_space r3 of
                [] \<Rightarrow> Inl (Err (invalid_code cfg))
              | u' # r4 \<Rightarrow>
                  if u' = 125 then Inr r4
                  else if u' \<noteq> 44 then Inl (Err (invalid_code cfg))
                  else scan_members cfg depth (member # members) (skip_space r4))))"
| "scan_elements cfg depth text =
     (if text = [] then Inl (Err (invalid_code cfg))
      else and_then (scan_value cfg (depth + 1) text) (\<lambda>r1.
        case skip_space r1 of
          [] \<Rightarrow> Inl (Err (invalid_code cfg))
        | u # r2 \<Rightarrow>
            if u = 93 then Inr r2
            else if u \<noteq> 44 then Inl (Err (invalid_code cfg))
            else scan_elements cfg depth (skip_space r2)))"
  by pat_completeness auto

text \<open>Every piece leaves less of the text than it was given.\<close>

lemma skip_space_length: "length (skip_space r) \<le> length r"
  by (simp add: skip_space_def length_dropWhile_le)

lemma skip_space_Cons: "skip_space r = u # r' \<Longrightarrow> length r' < length r"
  using skip_space_length [of r] by simp

lemma scan_chars_length: "scan_chars invalid decoded r = Inr (s, r') \<Longrightarrow> length r' < length r"
  by (induction invalid decoded r rule: scan_chars.induct)
     (force split: if_split_asm list.split_asm option.split_asm simp del: simple_escape.simps)+

lemma scan_string_length: "scan_string invalid r = Inr (s, r') \<Longrightarrow> length r' < length r"
  by (cases r) (auto dest: scan_chars_length split: if_split_asm)

lemma match_digits_split: "match_digits r = (ds, r') \<Longrightarrow> r = ds @ r'"
  by (auto simp: match_digits_def)

lemma match_sign_split: "match_sign signs r = (s, r') \<Longrightarrow> r = s @ r'"
  by (cases r) (auto split: if_split_asm)

lemma match_integer_split: "match_integer r = Some (i, r') \<Longrightarrow> r = i @ r' \<and> i \<noteq> []"
  by (cases r) (auto split: if_split_asm prod.split_asm dest: match_digits_split)

lemma match_fraction_length: "match_fraction r = (f, r') \<Longrightarrow> length r' \<le> length r"
  by (cases r) (auto split: if_split_asm prod.split_asm dest: match_digits_split)

lemma match_exponent_length: "match_exponent r = (e, r') \<Longrightarrow> length r' \<le> length r"
  by (cases r) (auto split: if_split_asm prod.split_asm dest!: match_digits_split match_sign_split)

lemma match_number_length: "match_number r = Some (m, r') \<Longrightarrow> length r' < length r"
  by (auto simp: match_number_def split: prod.split_asm option.split_asm
      dest!: match_integer_split match_sign_split match_fraction_length match_exponent_length simp flip: length_greater_0_conv)

lemma after_prefix_iff: "after_prefix p r = Some r' \<longleftrightarrow> r = p @ r'"
  by (induction p r rule: after_prefix.induct) auto

lemma scan_scalar_length: "scan_scalar invalid r = Inr r' \<Longrightarrow> length r' < length r"
  by (auto simp: scan_scalar_def scan_literal_def scan_number_def after_prefix_iff json_true_def json_false_def json_null_def
      split: option.split_asm if_split_asm dest: match_number_length)

lemma map_sum_snd_Inr: "map_sum id snd x = Inr r \<longleftrightarrow> (\<exists>s. x = Inr (s, r))"
  by (cases x) auto

lemma units_case_Inr:
  "(case r of [] \<Rightarrow> Inl e | u # r' \<Rightarrow> f u r') = Inr y \<longleftrightarrow> (\<exists>u r'. r = u # r' \<and> f u r' = Inr y)"
  by (cases r) auto

lemma scan_length:
  "scan_value_scan_members_scan_elements_dom (Inl (cfg, depth, t)) \<Longrightarrow> scan_value cfg depth t = Inr r \<Longrightarrow> length r < length t"
  "scan_value_scan_members_scan_elements_dom (Inr (Inl (cfg, depth, members, t))) \<Longrightarrow> scan_members cfg depth members t = Inr r \<Longrightarrow> length r < length t"
  "scan_value_scan_members_scan_elements_dom (Inr (Inr (cfg, depth, t))) \<Longrightarrow> scan_elements cfg depth t = Inr r \<Longrightarrow> length r < length t"
proof (induction cfg depth t and cfg depth members t and cfg depth t arbitrary: r and r and r rule: scan_value_scan_members_scan_elements.pinduct)
  case (1 cfg depth t)
  note eq = scan_value.psimps [OF 1(1)]
  show ?case
  proof (cases "skip_space t")
    case Nil
    with 1(4) eq show ?thesis by (auto split: if_split_asm dest: scan_scalar_length)
  next
    case (Cons u t')
    show ?thesis
    proof (cases "(u = 123 \<or> u = 91) \<and> \<not> depth > max_depth cfg")
      case True
      then show ?thesis
        using 1(2) [OF _ Cons] 1(3) [OF _ Cons] 1(4) eq Cons skip_space_Cons [OF Cons]
        by (auto split: if_split_asm list.split_asm dest: skip_space_Cons) (fastforce dest: skip_space_Cons)+
    next
      case False
      with 1(4) eq Cons skip_space_Cons [OF Cons] skip_space_length [of t] show ?thesis
        by (auto simp: map_sum_snd_Inr split: if_split_asm dest!: scan_chars_length scan_scalar_length)
    qed
  qed
next
  case (2 cfg depth members t)
  note eq = scan_members.psimps [OF 2(1)]
  from 2(4) eq obtain member r1 r2 r3 u r4 where
      member: "t \<noteq> []" "scan_string (invalid_code cfg) t = Inr (member, r1)" "member \<notin> set members"
    and colon: "skip_space r1 = 58 # r2" "scan_value cfg (depth + 1) r2 = Inr r3" and u: "skip_space r3 = u # r4"
    and last: "u = 125 \<and> r = r4 \<or> u = 44 \<and> scan_members cfg depth (member # members) (skip_space r4) = Inr r"
    by (auto simp: and_then_eq_Inr units_case_Inr split: if_split_asm)
  have "length r1 < length t" using member(2) by (rule scan_string_length)
  moreover have "length r2 < length r1" using colon(1) by (rule skip_space_Cons)
  moreover have "length r3 < length r2" using 2(2) [OF member(1,2) _ member(3) colon(1)] colon(2) by simp
  moreover have "length r4 < length r3" using u by (rule skip_space_Cons)
  moreover have "length r \<le> length r4"
    using last 2(3) [OF member(1,2) _ member(3) colon(1) _ colon(2) u] skip_space_length [of r4] by fastforce
  ultimately show ?case by simp
next
  case (3 cfg depth t)
  note eq = scan_elements.psimps [OF 3(1)]
  from 3(4) eq obtain r1 where v: "t \<noteq> []" "scan_value cfg (depth + 1) t = Inr r1"
    by (auto simp: and_then_eq_Inr split: if_split_asm)
  with 3(4) eq obtain u r2 where u: "skip_space r1 = u # r2" and last: "u = 93 \<and> r = r2 \<or> u = 44 \<and> scan_elements cfg depth (skip_space r2) = Inr r"
    by (auto simp: and_then_eq_Inr split: if_split_asm list.split_asm)
  have "length r1 < length t" using 3(2) [OF v(1)] v(2) by simp
  moreover have "length r2 < length r1" using u by (rule skip_space_Cons)
  moreover have "length r \<le> length r2" using last 3(3) [OF v u] skip_space_length [of r2] by fastforce
  ultimately show ?case by simp
qed

termination scan_value
proof (relation "measure (case_sum (\<lambda>(cfg, depth, t). 2 * length t + 1) (case_sum (\<lambda>(cfg, depth, members, t). 2 * length t + 2) (\<lambda>(cfg, depth, t). 2 * length t + 2)))", goal_cases)
  case 1
  show ?case by simp
qed (auto dest!: skip_space_Cons scan_length scan_string_length intro!: le_less_trans [OF skip_space_length])

section \<open>The reader\<close>

definition config_error :: js_error where
  "config_error = TypeErr ''strict JSON parser configuration is invalid''"

text \<open>
  A member of the options and its default; the options are an object or absent.
\<close>

definition option_or :: "jsv \<Rightarrow> string \<Rightarrow> jsv \<Rightarrow> jsv" where
  "option_or options k d = (if fld options k = Undef then d else fld options k)"

fun nonempty_string :: "jsv \<Rightarrow> string option" where
  "nonempty_string (Str s) = (if s = [] then None else Some s)"
| "nonempty_string _ = None"

definition strict_config_of :: "jsv \<Rightarrow> strict_config option" where
  "strict_config_of options =
     (case (nonempty_string (option_or options ''duplicateCode'' (Str ''STRICT_JSON_DUPLICATE_MEMBER'')),
            nonempty_string (option_or options ''invalidCode'' (Str ''STRICT_JSON_INVALID'')),
            as_safe_integer (option_or options ''maxDepth'' (int_num 64))) of
        (Some duplicate, Some invalid, Some depth) \<Rightarrow>
          if depth < 1 then None
          else Some \<lparr>duplicate_code = duplicate, invalid_code = invalid, max_depth = nat depth\<rparr>
      | _ \<Rightarrow> None)"

definition scan_document :: "strict_config \<Rightarrow> units \<Rightarrow> js_error + unit" where
  "scan_document cfg t =
     and_then (scan_value cfg 0 t) (\<lambda>r. if skip_space r \<noteq> [] then Inl (Err (invalid_code cfg)) else Inr ())"

text \<open>
  \<open>parseStrictJson\<close> of a text (\<open>None\<close> for an argument that is not a string); \<open>parse\<close> is
  \<open>JSON.parse\<close>, which throws on what is not a JSON text.
\<close>

definition parse_strict_json :: "(units \<Rightarrow> 'v option) \<Rightarrow> units option \<Rightarrow> jsv \<Rightarrow> js_error + 'v" where
  "parse_strict_json parse input options =
     (case (input, strict_config_of options) of
        (Some t, Some cfg) \<Rightarrow>
          and_then (scan_document cfg t) (\<lambda>_.
            case parse t of Some v \<Rightarrow> Inr v | None \<Rightarrow> Inl (Err (invalid_code cfg)))
      | _ \<Rightarrow> Inl config_error)"

end
