(* ===== verification/Strict_Json_Props.thy ===== *)
theory Strict_Json_Props
  imports Strict_Json
begin

text \<open>
  The grammar of JSON (RFC 8259) with the tree every text stands for, and the proof that the
  strict scanner accepts exactly the texts of the grammar whose tree has distinct members,
  bounded depth and finite numbers.
\<close>

section \<open>The grammar\<close>

datatype jtree =
    JTrue
  | JFalse
  | JNull
  | JNum numeral
  | JStr units
  | JArr "jtree list"
  | JObj "(units \<times> jtree) list"

text \<open>What stands between quotes, and the string it stands for.\<close>

inductive json_chars :: "units \<Rightarrow> units \<Rightarrow> bool" where
  chars_end: "json_chars [] []"
| chars_plain: "31 < u \<Longrightarrow> u \<noteq> 34 \<Longrightarrow> u \<noteq> 92 \<Longrightarrow> json_chars t d \<Longrightarrow> json_chars (u # t) (u # d)"
| chars_escape: "simple_escape e = Some c \<Longrightarrow> json_chars t d \<Longrightarrow> json_chars (92 # e # t) (c # d)"
| chars_unicode: "length h = 4 \<Longrightarrow> list_all hex_unit h \<Longrightarrow> json_chars t d \<Longrightarrow> json_chars (92 # 117 # h @ t) (hex_value h # d)"

definition integer_text :: "units \<Rightarrow> bool" where
  "integer_text i \<longleftrightarrow> i = [48] \<or> (\<exists>u ds. i = u # ds \<and> digit_unit u \<and> u \<noteq> 48 \<and> list_all digit_unit ds)"

definition fraction_text :: "units \<Rightarrow> units \<Rightarrow> bool" where
  "fraction_text f t \<longleftrightarrow> f = [] \<and> t = [] \<or> f \<noteq> [] \<and> list_all digit_unit f \<and> t = 46 # f"

definition exponent_text :: "units \<Rightarrow> units \<Rightarrow> units \<Rightarrow> bool" where
  "exponent_text s x t \<longleftrightarrow> s = [] \<and> x = [] \<and> t = [] \<or>
     x \<noteq> [] \<and> list_all digit_unit x \<and> s \<in> {[], [43], [45]} \<and> (t = 101 # s @ x \<or> t = 69 # s @ x)"

definition numeral_text :: "numeral \<Rightarrow> units \<Rightarrow> bool" where
  "numeral_text m t \<longleftrightarrow> (\<exists>f x. t = nm_sign m @ nm_integer m @ f @ x \<and> nm_sign m \<in> {[], [45]} \<and>
     integer_text (nm_integer m) \<and> fraction_text (nm_fraction m) f \<and> exponent_text (nm_exponent_sign m) (nm_exponent m) x)"

abbreviation spaces :: "units \<Rightarrow> bool" where
  "spaces w \<equiv> list_all json_space w"

inductive json_value :: "units \<Rightarrow> jtree \<Rightarrow> bool"
  and json_members :: "units \<Rightarrow> (units \<times> jtree) list \<Rightarrow> bool"
  and json_elements :: "units \<Rightarrow> jtree list \<Rightarrow> bool"
where
  value_true: "json_value json_true JTrue"
| value_false: "json_value json_false JFalse"
| value_null: "json_value json_null JNull"
| value_number: "numeral_text m t \<Longrightarrow> json_value t (JNum m)"
| value_string: "json_chars t d \<Longrightarrow> json_value (34 # t @ [34]) (JStr d)"
| value_empty_array: "spaces w \<Longrightarrow> json_value (91 # w @ [93]) (JArr [])"
| value_array: "json_elements t xs \<Longrightarrow> json_value (91 # t @ [93]) (JArr xs)"
| value_empty_object: "spaces w \<Longrightarrow> json_value (123 # w @ [125]) (JObj [])"
| value_object: "json_members t kvs \<Longrightarrow> json_value (123 # t @ [125]) (JObj kvs)"
| members_one: "spaces w1 \<Longrightarrow> json_chars k d \<Longrightarrow> spaces w2 \<Longrightarrow> spaces w3 \<Longrightarrow> json_value v x \<Longrightarrow> spaces w4 \<Longrightarrow>
    json_members (w1 @ 34 # k @ 34 # w2 @ 58 # w3 @ v @ w4) [(d, x)]"
| members_more: "spaces w1 \<Longrightarrow> json_chars k d \<Longrightarrow> spaces w2 \<Longrightarrow> spaces w3 \<Longrightarrow> json_value v x \<Longrightarrow> spaces w4 \<Longrightarrow> json_members t kvs \<Longrightarrow>
    json_members (w1 @ 34 # k @ 34 # w2 @ 58 # w3 @ v @ w4 @ 44 # t) ((d, x) # kvs)"
| elements_one: "spaces w1 \<Longrightarrow> json_value v x \<Longrightarrow> spaces w2 \<Longrightarrow> json_elements (w1 @ v @ w2) [x]"
| elements_more: "spaces w1 \<Longrightarrow> json_value v x \<Longrightarrow> spaces w2 \<Longrightarrow> json_elements t xs \<Longrightarrow> json_elements (w1 @ v @ w2 @ 44 # t) (x # xs)"

inductive json_document :: "units \<Rightarrow> jtree \<Rightarrow> bool" where
  "spaces w \<Longrightarrow> json_value v x \<Longrightarrow> spaces w' \<Longrightarrow> json_document (w @ v @ w') x"

text \<open>Distinct members, finite numbers, and values at most \<open>n\<close> levels below.\<close>

fun strict_tree :: "nat \<Rightarrow> jtree \<Rightarrow> bool" where
  "strict_tree n (JNum m) \<longleftrightarrow> finite_numeral m"
| "strict_tree n (JArr xs) \<longleftrightarrow> (\<forall>x \<in> set xs. 0 < n \<and> strict_tree (n - 1) x)"
| "strict_tree n (JObj kvs) \<longleftrightarrow> distinct (map fst kvs) \<and> (\<forall>(k, x) \<in> set kvs. 0 < n \<and> strict_tree (n - 1) x)"
| "strict_tree n _ \<longleftrightarrow> True"

section \<open>Strings\<close>

lemma scan_chars_sound: "scan_chars invalid acc r = Inr (s, r') \<Longrightarrow> \<exists>t d. r = t @ 34 # r' \<and> json_chars t d \<and> s = acc @ d"
proof (induction invalid acc r rule: scan_chars.induct)
  case (2 invalid acc u r)
  consider "u = 34" | "31 < u" "u \<noteq> 34" "u \<noteq> 92" | e c r1 where "u = 92" "r = e # r1" "simple_escape e = Some c"
    | e r1 where "u = 92" "r = e # r1" "simple_escape e = None"
    using "2.prems" by (force split: if_split_asm list.split_asm option.split_asm simp del: simple_escape.simps)
  then show ?case
  proof cases
    case 1
    with "2.prems" show ?thesis by (auto intro: chars_end)
  next
    case 2
    with "2.prems" have "scan_chars invalid (acc @ [u]) r = Inr (s, r')" by simp
    from "2.IH"(1) [OF _ _ _ this] 2 obtain t d where "r = t @ 34 # r'" "json_chars t d" "s = acc @ u # d" by auto
    with chars_plain [OF 2] show ?thesis by (intro exI [of _ "u # t"] exI [of _ "u # d"]) simp
  next
    case 3
    with "2.prems" have "scan_chars invalid (acc @ [c]) r1 = Inr (s, r')" by (simp del: simple_escape.simps)
    from "2.IH"(3) [OF _ _ _ _ _ this] 3 obtain t d where "r1 = t @ 34 # r'" "json_chars t d" "s = acc @ c # d" by auto
    with 3 chars_escape [OF 3(3)] show ?thesis by (intro exI [of _ "92 # e # t"] exI [of _ "c # d"]) simp
  next
    case 4
    then have h: "length (take 4 r1) = 4" "list_all hex_unit (take 4 r1)" "e = 117"
        and rest: "scan_chars invalid (acc @ [hex_value (take 4 r1)]) (drop 4 r1) = Inr (s, r')"
      using "2.prems" by (auto split: if_split_asm simp del: simple_escape.simps)
    from "2.IH"(2) 4 h rest obtain t d where t: "drop 4 r1 = t @ 34 # r'" "json_chars t d" "s = acc @ hex_value (take 4 r1) # d"
      by (auto simp del: simple_escape.simps)
    have "r1 = take 4 r1 @ t @ 34 # r'" using t(1) by (metis append_take_drop_id)
    moreover have "json_chars (92 # 117 # take 4 r1 @ t) (hex_value (take 4 r1) # d)" using h t(2) by (intro chars_unicode)
    ultimately show ?thesis using 4 h t(3) by (metis append_Cons append_assoc)
  qed
qed simp

lemma scan_chars_complete: "json_chars t d \<Longrightarrow> scan_chars invalid acc (t @ 34 # r) = Inr (acc @ d, r)"
proof (induction t d arbitrary: acc rule: json_chars.induct)
  case (chars_escape e c t d)
  then show ?case by (simp del: simple_escape.simps)
next
  case (chars_unicode h t d)
  then show ?case by simp
qed simp_all

lemma scan_string_iff: "scan_string invalid r = Inr (s, r') \<longleftrightarrow> (\<exists>t. r = 34 # t @ 34 # r' \<and> json_chars t s)"
  by (cases r) (auto dest: scan_chars_sound simp: scan_chars_complete)

section \<open>Numbers\<close>

lemma match_digits_sound: "match_digits r = (ds, r') \<Longrightarrow> r = ds @ r' \<and> list_all digit_unit ds"
  by (auto simp: match_digits_def list_all_iff dest: set_takeWhileD)

definition no_digit :: "units \<Rightarrow> bool" where
  "no_digit r \<longleftrightarrow> (case r of [] \<Rightarrow> True | u # _ \<Rightarrow> \<not> digit_unit u)"

lemma match_digits_complete: "list_all digit_unit ds \<Longrightarrow> no_digit r \<Longrightarrow> match_digits (ds @ r) = (ds, r)"
  by (cases r) (simp_all add: match_digits_def no_digit_def list_all_iff takeWhile_append2 dropWhile_append2)

lemma match_integer_sound: "match_integer r = Some (i, r') \<Longrightarrow> integer_text i \<and> r = i @ r'"
  by (cases r) (auto simp: integer_text_def split: if_split_asm prod.split_asm dest: match_digits_sound)

lemma match_integer_complete: "integer_text i \<Longrightarrow> no_digit r \<Longrightarrow> match_integer (i @ r) = Some (i, r)"
  by (auto simp: integer_text_def match_digits_complete digit_unit_def)

lemma match_fraction_sound: "match_fraction r = (f, r') \<Longrightarrow> \<exists>t. fraction_text f t \<and> r = t @ r'"
  by (cases r) (auto simp: fraction_text_def split: if_split_asm prod.split_asm dest: match_digits_sound)

lemma match_fraction_complete:
  assumes "fraction_text f t" and "no_digit r" and "f = [] \<longrightarrow> (case r of [] \<Rightarrow> True | u # _ \<Rightarrow> u \<noteq> 46)"
  shows "match_fraction (t @ r) = (f, r)"
proof (cases "f = []")
  case True
  with assms show ?thesis by (cases r) (auto simp: fraction_text_def split: prod.split)
next
  case False
  with assms have "match_digits (f @ r) = (f, r)" "t = 46 # f" by (auto simp: fraction_text_def match_digits_complete)
  with False show ?thesis by simp
qed

lemma match_exponent_sound: "match_exponent r = ((s, x), r') \<Longrightarrow> \<exists>t. exponent_text s x t \<and> r = t @ r'"
proof (cases r)
  case (Cons u r1)
  assume m: "match_exponent r = ((s, x), r')"
  obtain s1 r2 where s1: "match_sign [43, 45] r1 = (s1, r2)" by fastforce
  obtain ds r3 where ds: "match_digits r2 = (ds, r3)" by fastforce
  from match_sign_split [OF s1] match_digits_sound [OF ds] have r1: "r1 = s1 @ ds @ r3" "list_all digit_unit ds" by auto
  have "s1 \<in> {[], [43], [45]}" using s1 by (cases r1) (auto split: if_split_asm)
  moreover have "(if (u = 101 \<or> u = 69) \<and> ds \<noteq> [] then ((s1, ds), r3) else (([], []), u # r1)) = ((s, x), r')"
    using m by (simp add: Cons s1 ds)
  ultimately show ?thesis using r1 Cons by (auto simp: exponent_text_def split: if_split_asm)
qed (simp add: exponent_text_def)

lemma match_sign_complete: "s \<in> insert [] ((\<lambda>u. [u]) ` set signs) \<Longrightarrow> (case r of [] \<Rightarrow> True | u # _ \<Rightarrow> u \<notin> set signs) \<Longrightarrow>
    match_sign signs (s @ r) = (s, r)"
  by (cases r) auto

lemma match_exponent_complete:
  assumes "exponent_text s x t" and "no_digit r" and "case r of [] \<Rightarrow> True | u # _ \<Rightarrow> u \<noteq> 101 \<and> u \<noteq> 69"
  shows "match_exponent (t @ r) = ((s, x), r)"
proof (cases "x = []")
  case True
  with assms show ?thesis by (cases r) (auto simp: exponent_text_def split: prod.split)
next
  case False
  with assms(1) obtain d ds where x: "x = d # ds" "digit_unit d" by (cases x) (auto simp: exponent_text_def)
  with assms(1) have "s \<in> insert [] ((\<lambda>u. [u]) ` set [43, 45])" by (auto simp: exponent_text_def)
  then have "match_sign [43, 45] (s @ x @ r) = (s, x @ r)" using x by (intro match_sign_complete) (auto simp: digit_unit_def)
  moreover have "match_digits (x @ r) = (x, r)" using assms x by (intro match_digits_complete) (auto simp: exponent_text_def)
  ultimately show ?thesis using assms(1) False by (auto simp: exponent_text_def)
qed

lemma match_number_sound: "match_number r = Some (m, r') \<Longrightarrow> \<exists>t. numeral_text m t \<and> r = t @ r'"
proof -
  assume m: "match_number r = Some (m, r')"
  obtain s r1 where s: "match_sign [45] r = (s, r1)" by fastforce
  with m obtain i r2 where i: "match_integer r1 = Some (i, r2)" by (auto simp: match_number_def split: option.split_asm)
  obtain f r3 where f: "match_fraction r2 = (f, r3)" by fastforce
  obtain es x r4 where x: "match_exponent r3 = ((es, x), r4)" by (metis surj_pair)
  from m s i f x have m': "m = \<lparr>nm_sign = s, nm_integer = i, nm_fraction = f, nm_exponent_sign = es, nm_exponent = x\<rparr>" "r' = r4"
    by (auto simp: match_number_def)
  have "s \<in> {[], [45]}" using s by (cases r) (auto split: if_split_asm)
  with match_sign_split [OF s] match_integer_sound [OF i] match_fraction_sound [OF f] match_exponent_sound [OF x] show ?thesis
    unfolding numeral_text_def m' by fastforce
qed

text \<open>What may follow a value.\<close>

definition delimited :: "units \<Rightarrow> bool" where
  "delimited r \<longleftrightarrow> (case r of [] \<Rightarrow> True | u # _ \<Rightarrow> json_space u \<or> u \<in> {44, 93, 125})"

lemma match_number_complete:
  assumes "numeral_text m t" and "delimited r"
  shows "match_number (t @ r) = Some (m, r)"
proof -
  from assms(1) obtain f x where t: "t = nm_sign m @ nm_integer m @ f @ x" "nm_sign m \<in> {[], [45]}" "integer_text (nm_integer m)"
      "fraction_text (nm_fraction m) f" "exponent_text (nm_exponent_sign m) (nm_exponent m) x"
    by (auto simp: numeral_text_def)
  have r: "no_digit r" "case r of [] \<Rightarrow> True | u # _ \<Rightarrow> u \<noteq> 101 \<and> u \<noteq> 69 \<and> u \<noteq> 46"
    using assms(2) by (auto simp: delimited_def no_digit_def digit_unit_def json_space_def split: list.split)
  have x: "no_digit (x @ r)" "case x @ r of [] \<Rightarrow> True | u # _ \<Rightarrow> u \<noteq> 46"
    using t(5) r by (auto simp: exponent_text_def no_digit_def digit_unit_def split: list.split)
  have f: "no_digit (f @ x @ r)" using t(4) x by (auto simp: fraction_text_def no_digit_def digit_unit_def)
  have "case nm_integer m @ f @ x @ r of [] \<Rightarrow> True | u # _ \<Rightarrow> u \<notin> set [45]"
    using t(3) by (auto simp: integer_text_def digit_unit_def)
  with t(2) have "match_sign [45] (nm_sign m @ nm_integer m @ f @ x @ r) = (nm_sign m, nm_integer m @ f @ x @ r)"
    by (intro match_sign_complete) auto
  moreover have "match_exponent (x @ r) = ((nm_exponent_sign m, nm_exponent m), r)"
    using t(5) r by (intro match_exponent_complete) (auto split: list.split_asm list.split)
  ultimately show ?thesis
    using match_integer_complete [OF t(3) f] match_fraction_complete [OF t(4) x(1)] x(2) t(1) by (simp add: match_number_def)
qed

section \<open>What the scanner accepts\<close>

declare scan_value.simps [simp del] scan_members.simps [simp del] scan_elements.simps [simp del] scan_string.simps [simp del]

lemma skip_space_split: "\<exists>w. r = w @ skip_space r \<and> spaces w"
  by (rule exI [of _ "takeWhile json_space r"]) (auto simp: skip_space_def list_all_iff dest: set_takeWhileD)

lemma skip_space_append: "spaces w \<Longrightarrow> skip_space (w @ r) = skip_space r"
  by (simp add: skip_space_def list_all_iff dropWhile_append2)

lemma skip_space_stop: "\<not> json_space u \<Longrightarrow> skip_space (u # r) = u # r"
  by (simp add: skip_space_def)

lemma spaces_append_members: "json_members t kvs \<Longrightarrow> spaces w \<Longrightarrow> json_members (w @ t) kvs"
proof (induction rule: json_members.cases)
  case (members_one w1 k d w2 w3 v x w4)
  then show ?case using json_value_json_members_json_elements.members_one [of "w @ w1" k d w2 w3 v x w4] by simp
next
  case (members_more w1 k d w2 w3 v x w4 t kvs)
  then show ?case using json_value_json_members_json_elements.members_more [of "w @ w1" k d w2 w3 v x w4 t kvs] by simp
qed

lemma spaces_append_elements: "json_elements t xs \<Longrightarrow> spaces w \<Longrightarrow> json_elements (w @ t) xs"
proof (induction rule: json_elements.cases)
  case (elements_one w1 v x w2)
  then show ?case using json_value_json_members_json_elements.elements_one [of "w @ w1" v x w2] by simp
next
  case (elements_more w1 v x w2 t xs)
  then show ?case using json_value_json_members_json_elements.elements_more [of "w @ w1" v x w2 t xs] by simp
qed

lemma scan_scalar_sound:
  assumes "scan_scalar invalid t = Inr r"
  shows "\<exists>v x. t = v @ r \<and> json_value v x \<and> strict_tree n x"
proof (cases "scan_literal t")
  case None
  with assms obtain m where "match_number t = Some (m, r)" "finite_numeral m"
    by (auto simp: scan_scalar_def scan_number_def split: option.split_asm if_split_asm)
  with match_number_sound [of t m r] show ?thesis by (metis strict_tree.simps(1) value_number)
next
  case (Some r')
  with assms have "scan_literal t = Some r" by (simp add: scan_scalar_def)
  then have "t = json_true @ r \<or> t = json_false @ r \<or> t = json_null @ r"
    by (auto simp: scan_literal_def after_prefix_iff split: option.split_asm)
  then show ?thesis using value_true value_false value_null strict_tree.simps by metis
qed

text \<open>The ways a call of the scanner returns.\<close>

lemma scan_value_cases:
  assumes "scan_value cfg depth t = Inr r"
  obtains u t' where "depth \<le> max_depth cfg" "skip_space t = u # t'" "u = 34" "\<exists>s. scan_string (invalid_code cfg) (u # t') = Inr (s, r)"
  | u t' where "depth \<le> max_depth cfg" "skip_space t = u # t'" "u = 123" "skip_space t' = 125 # r"
  | u t' u' r' where "depth \<le> max_depth cfg" "skip_space t = u # t'" "u = 123" "skip_space t' = u' # r'" "u' \<noteq> 125"
      "scan_members cfg depth [] (u' # r') = Inr r"
  | u t' where "depth \<le> max_depth cfg" "skip_space t = u # t'" "u = 91" "skip_space t' = 93 # r"
  | u t' u' r' where "depth \<le> max_depth cfg" "skip_space t = u # t'" "u = 91" "skip_space t' = u' # r'" "u' \<noteq> 93"
      "scan_elements cfg depth (u' # r') = Inr r"
  | "depth \<le> max_depth cfg" "scan_scalar (invalid_code cfg) (skip_space t) = Inr r"
  using assms by (cases "skip_space t") (auto simp: scan_value.simps map_sum_snd_Inr units_case_Inr split: if_split_asm)

lemma scan_members_cases:
  assumes "scan_members cfg depth members t = Inr r"
  obtains k d r1 r2 r3 u r4 where "t = 34 # k @ 34 # r1" "json_chars k d" "scan_string (invalid_code cfg) t = Inr (d, r1)" "d \<notin> set members"
    "skip_space r1 = 58 # r2" "scan_value cfg (depth + 1) r2 = Inr r3" "skip_space r3 = u # r4"
    "u = 125 \<and> r = r4 \<or> u = 44 \<and> scan_members cfg depth (d # members) (skip_space r4) = Inr r"
  using assms by (auto simp: scan_members.simps and_then_eq_Inr units_case_Inr scan_string_iff split: if_split_asm)

lemma scan_elements_cases:
  assumes "scan_elements cfg depth t = Inr r"
  obtains r1 u r2 where "t \<noteq> []" "scan_value cfg (depth + 1) t = Inr r1" "skip_space r1 = u # r2"
    "u = 93 \<and> r = r2 \<or> u = 44 \<and> scan_elements cfg depth (skip_space r2) = Inr r"
  using assms by (auto simp: scan_elements.simps and_then_eq_Inr units_case_Inr split: if_split_asm)

text \<open>What each of them stands for.\<close>

definition value_read :: "nat \<Rightarrow> nat \<Rightarrow> units \<Rightarrow> units \<Rightarrow> bool" where
  "value_read depth n t r \<longleftrightarrow> depth \<le> n \<and> (\<exists>w v x. t = w @ v @ r \<and> spaces w \<and> json_value v x \<and> strict_tree (n - depth) x)"

definition members_read :: "nat \<Rightarrow> nat \<Rightarrow> units list \<Rightarrow> units \<Rightarrow> units \<Rightarrow> bool" where
  "members_read depth n members t r \<longleftrightarrow> depth < n \<and>
     (\<exists>m kvs. t = m @ 125 # r \<and> json_members m kvs \<and> distinct (map fst kvs) \<and> fst ` set kvs \<inter> set members = {} \<and>
        (\<forall>(k, x) \<in> set kvs. strict_tree (n - depth - 1) x))"

definition elements_read :: "nat \<Rightarrow> nat \<Rightarrow> units \<Rightarrow> units \<Rightarrow> bool" where
  "elements_read depth n t r \<longleftrightarrow> depth < n \<and>
     (\<exists>e xs. t = e @ 93 # r \<and> json_elements e xs \<and> (\<forall>x \<in> set xs. strict_tree (n - depth - 1) x))"

lemma value_readI:
  assumes "depth \<le> n" and "skip_space t = v @ r" and "json_value v x" and "strict_tree (n - depth) x"
  shows "value_read depth n t r"
  using assms skip_space_split [of t] unfolding value_read_def by metis

lemma object_read:
  assumes "skip_space t = 123 # t'" and "members_read depth n [] (skip_space t') r"
  shows "value_read depth n t r"
proof -
  from assms(2) obtain m kvs where m: "depth < n" "skip_space t' = m @ 125 # r" "json_members m kvs" "distinct (map fst kvs)"
      "\<forall>(k, x) \<in> set kvs. strict_tree (n - depth - 1) x"
    by (auto simp: members_read_def)
  obtain w where w: "t' = w @ skip_space t'" "spaces w" using skip_space_split by blast
  from m(3) w(2) have "json_value (123 # (w @ m) @ [125]) (JObj kvs)" by (intro value_object spaces_append_members)
  then show ?thesis using assms(1) m w by (intro value_readI [where v = "123 # (w @ m) @ [125]"]) auto
qed

lemma array_read:
  assumes "skip_space t = 91 # t'" and "elements_read depth n (skip_space t') r"
  shows "value_read depth n t r"
proof -
  from assms(2) obtain e xs where e: "depth < n" "skip_space t' = e @ 93 # r" "json_elements e xs" "\<forall>x \<in> set xs. strict_tree (n - depth - 1) x"
    by (auto simp: elements_read_def)
  obtain w where w: "t' = w @ skip_space t'" "spaces w" using skip_space_split by blast
  from e(3) w(2) have "json_value (91 # (w @ e) @ [93]) (JArr xs)" by (intro value_array spaces_append_elements)
  then show ?thesis using assms(1) e w by (intro value_readI [where v = "91 # (w @ e) @ [93]"]) auto
qed

lemma members_read_last:
  assumes "json_chars k d" and "d \<notin> set members" and "skip_space r1 = 58 # r2" and "value_read (depth + 1) n r2 r3" and "skip_space r3 = 125 # r"
  shows "members_read depth n members (34 # k @ 34 # r1) r"
proof -
  obtain w2 where w2: "r1 = w2 @ 58 # r2" "spaces w2" using skip_space_split [of r1] assms(3) by auto
  obtain w4 where w4: "r3 = w4 @ 125 # r" "spaces w4" using skip_space_split [of r3] assms(5) by auto
  from assms(4) obtain w3 v x where v: "depth < n" "r2 = w3 @ v @ r3" "spaces w3" "json_value v x" "strict_tree (n - depth - 1) x"
    by (auto simp: value_read_def)
  have "json_members ([] @ 34 # k @ 34 # w2 @ 58 # w3 @ v @ w4) [(d, x)]" using assms(1) w2 v w4 by (intro members_one) auto
  then show ?thesis using v w2 w4 assms(2) unfolding members_read_def by (intro conjI exI) auto
qed

lemma members_read_more:
  assumes "json_chars k d" and "d \<notin> set members" and "skip_space r1 = 58 # r2" and "value_read (depth + 1) n r2 r3" and "skip_space r3 = 44 # r4"
    and "members_read depth n (d # members) (skip_space r4) r"
  shows "members_read depth n members (34 # k @ 34 # r1) r"
proof -
  obtain w2 where w2: "r1 = w2 @ 58 # r2" "spaces w2" using skip_space_split [of r1] assms(3) by auto
  obtain w4 where w4: "r3 = w4 @ 44 # r4" "spaces w4" using skip_space_split [of r3] assms(5) by auto
  from assms(4) obtain w3 v x where v: "depth < n" "r2 = w3 @ v @ r3" "spaces w3" "json_value v x" "strict_tree (n - depth - 1) x"
    by (auto simp: value_read_def)
  from assms(6) obtain m kvs where m: "skip_space r4 = m @ 125 # r" "json_members m kvs" "distinct (map fst kvs)"
      "fst ` set kvs \<inter> set (d # members) = {}" "\<forall>(k, x) \<in> set kvs. strict_tree (n - depth - 1) x"
    by (auto simp: members_read_def)
  obtain w where w: "r4 = w @ skip_space r4" "spaces w" using skip_space_split by blast
  have "json_members ([] @ 34 # k @ 34 # w2 @ 58 # w3 @ v @ w4 @ 44 # w @ m) ((d, x) # kvs)"
    using assms(1) w2 v w4 w m by (intro members_more spaces_append_members) auto
  moreover have "34 # k @ 34 # r1 = ([] @ 34 # k @ 34 # w2 @ 58 # w3 @ v @ w4 @ 44 # w @ m) @ 125 # r" using w2 v w4 w m(1) by simp
  moreover have "distinct (map fst ((d, x) # kvs)) \<and> fst ` set ((d, x) # kvs) \<inter> set members = {}" using m assms(2) by auto
  ultimately show ?thesis using v m(5) unfolding members_read_def
    by (intro conjI exI [of _ "[] @ 34 # k @ 34 # w2 @ 58 # w3 @ v @ w4 @ 44 # w @ m"] exI [of _ "(d, x) # kvs"]) auto
qed

lemma elements_read_last:
  assumes "value_read (depth + 1) n t r1" and "skip_space r1 = 93 # r"
  shows "elements_read depth n t r"
proof -
  obtain w4 where w4: "r1 = w4 @ 93 # r" "spaces w4" using skip_space_split [of r1] assms(2) by auto
  from assms(1) obtain w3 v x where v: "depth < n" "t = w3 @ v @ r1" "spaces w3" "json_value v x" "strict_tree (n - depth - 1) x"
    by (auto simp: value_read_def)
  have "json_elements (w3 @ v @ w4) [x]" using v w4 by (intro elements_one) auto
  then show ?thesis using v w4 unfolding elements_read_def by (intro conjI exI) auto
qed

lemma elements_read_more:
  assumes "value_read (depth + 1) n t r1" and "skip_space r1 = 44 # r2" and "elements_read depth n (skip_space r2) r"
  shows "elements_read depth n t r"
proof -
  obtain w4 where w4: "r1 = w4 @ 44 # r2" "spaces w4" using skip_space_split [of r1] assms(2) by auto
  from assms(1) obtain w3 v x where v: "depth < n" "t = w3 @ v @ r1" "spaces w3" "json_value v x" "strict_tree (n - depth - 1) x"
    by (auto simp: value_read_def)
  from assms(3) obtain e xs where e: "skip_space r2 = e @ 93 # r" "json_elements e xs" "\<forall>x \<in> set xs. strict_tree (n - depth - 1) x"
    by (auto simp: elements_read_def)
  obtain w where w: "r2 = w @ skip_space r2" "spaces w" using skip_space_split by blast
  have "json_elements (w3 @ v @ w4 @ 44 # w @ e) (x # xs)" using v w4 w e by (intro elements_more spaces_append_elements) auto
  moreover have "t = (w3 @ v @ w4 @ 44 # w @ e) @ 93 # r" using v w4 w e(1) by simp
  ultimately show ?thesis using v e(3) unfolding elements_read_def
    by (intro conjI exI [of _ "w3 @ v @ w4 @ 44 # w @ e"] exI [of _ "x # xs"]) auto
qed

lemma scan_sound:
  "scan_value cfg depth t = Inr r \<Longrightarrow> value_read depth (max_depth cfg) t r"
  "scan_members cfg depth members t = Inr r \<Longrightarrow> members_read depth (max_depth cfg) members t r"
  "scan_elements cfg depth t = Inr r \<Longrightarrow> elements_read depth (max_depth cfg) t r"
proof (induction cfg depth t and cfg depth members t and cfg depth t arbitrary: r and r and r rule: scan_value_scan_members_scan_elements.induct)
  case (1 cfg depth t)
  from "1.prems" show ?case
  proof (cases rule: scan_value_cases)
    case (1 u t')
    then obtain c s where c: "u # t' = 34 # c @ 34 # r" "json_chars c s" by (auto simp: scan_string_iff)
    with 1 value_string [OF c(2)] show ?thesis by (intro value_readI [where v = "34 # c @ [34]"]) auto
  next
    case (2 u t')
    obtain w where w: "t' = w @ skip_space t'" "spaces w" using skip_space_split by blast
    with 2 value_empty_object [OF w(2)] show ?thesis by (intro value_readI [where v = "123 # w @ [125]"]) auto
  next
    case (3 u t' u' r')
    with "1.IH"(1) [OF _ 3(2) _ _ 3(4,5)] show ?thesis by (intro object_read [where t' = t']) auto
  next
    case (4 u t')
    obtain w where w: "t' = w @ skip_space t'" "spaces w" using skip_space_split by blast
    with 4 value_empty_array [OF w(2)] show ?thesis by (intro value_readI [where v = "91 # w @ [93]"]) auto
  next
    case (5 u t' u' r')
    with "1.IH"(2) [OF _ 5(2) _ _ _ 5(4,5)] show ?thesis by (intro array_read [where t' = t']) auto
  next
    case 6
    with scan_scalar_sound [of "invalid_code cfg" "skip_space t" r "max_depth cfg - depth"] show ?thesis by (auto intro: value_readI)
  qed
next
  case (2 cfg depth members t)
  from "2.prems" show ?case
  proof (cases rule: scan_members_cases)
    case (1 k d r1 r2 r3 u r4)
    from "2.IH"(1) [OF _ 1(3) _ _ 1(5) _ 1(6)] 1 have v: "value_read (depth + 1) (max_depth cfg) r2 r3" by auto
    from "2.IH"(2) [OF _ 1(3) _ _ 1(5) _ 1(6,7)] 1 v show ?thesis by (auto intro: members_read_last members_read_more)
  qed
next
  case (3 cfg depth t)
  from "3.prems" show ?case
  proof (cases rule: scan_elements_cases)
    case (1 r1 u r2)
    with "3.IH"(1) [OF 1(1,2)] "3.IH"(2) [OF 1(1,2,3)] show ?thesis by (auto intro: elements_read_last elements_read_more)
  qed
qed

section \<open>What the scanner rejects\<close>

lemma numeral_head: "numeral_text m t \<Longrightarrow> \<exists>u t'. t = u # t' \<and> (u = 45 \<or> digit_unit u)"
  by (auto simp: numeral_text_def integer_text_def digit_unit_def)

lemma value_head: "json_value v x \<Longrightarrow> \<exists>u v'. v = u # v' \<and> \<not> json_space u \<and> u \<notin> {44, 93, 125}"
  by (erule json_value.cases) (auto simp: json_true_def json_false_def json_null_def json_space_def digit_unit_def dest!: numeral_head)

lemma skip_to_value: "spaces w \<Longrightarrow> json_value v x \<Longrightarrow> skip_space (w @ v @ r) = v @ r"
  using value_head [of v x] by (auto simp: skip_space_append skip_space_stop)

lemma members_head: "json_members m kvs \<Longrightarrow> \<exists>m'. skip_space (m @ r) = 34 # m'"
  by (erule json_members.cases) (auto simp: skip_space_append skip_space_stop json_space_def)

lemma elements_head: "json_elements e xs \<Longrightarrow> \<exists>u r'. skip_space (e @ r) = u # r' \<and> u \<notin> {44, 93, 125}"
  by (erule json_elements.cases) (auto simp: skip_to_value dest: value_head)

lemma literal_scalars:
  "scan_scalar invalid (json_true @ r) = Inr r" "scan_scalar invalid (json_false @ r) = Inr r" "scan_scalar invalid (json_null @ r) = Inr r"
  by (simp_all add: scan_scalar_def scan_literal_def json_true_def json_false_def json_null_def)

lemma numeral_scalar:
  assumes "numeral_text m t" and "finite_numeral m" and "delimited r"
  shows "scan_scalar invalid (t @ r) = Inr r"
proof -
  from numeral_head [OF assms(1)] have "scan_literal (t @ r) = None"
    by (auto simp: scan_literal_def json_true_def json_false_def json_null_def digit_unit_def)
  then show ?thesis using assms match_number_complete [of m t r] by (simp add: scan_scalar_def scan_number_def)
qed

lemma scan_value_scalar:
  assumes "skip_space t = u # r" and "u \<notin> {34, 91, 123}" and "depth \<le> max_depth cfg"
  shows "scan_value cfg depth t = scan_scalar (invalid_code cfg) (u # r)"
  using assms by (simp add: scan_value.simps)

lemma delimited_simps [simp]: "delimited (u # r) \<longleftrightarrow> json_space u \<or> u \<in> {44, 93, 125}" "delimited []"
  by (simp_all add: delimited_def)

lemma delimited_spaces: "spaces w \<Longrightarrow> delimited r \<Longrightarrow> delimited (w @ r)"
  by (cases w) auto

lemma spaces_skip: "spaces w \<Longrightarrow> \<not> json_space u \<Longrightarrow> skip_space (w @ u # r) = u # r"
  by (simp add: skip_space_append skip_space_stop)

lemma not_spaces: "u \<in> {34, 44, 45, 58, 91, 93, 102, 110, 116, 123, 125} \<or> digit_unit u \<Longrightarrow> \<not> json_space u"
  by (auto simp: json_space_def digit_unit_def)

lemmas skip_simps = spaces_skip skip_space_stop not_spaces

lemma scan_complete:
  "json_value v x \<Longrightarrow> spaces w \<Longrightarrow> delimited r \<Longrightarrow> depth \<le> max_depth cfg \<Longrightarrow> strict_tree (max_depth cfg - depth) x \<Longrightarrow>
    scan_value cfg depth (w @ v @ r) = Inr r"
  "json_members m kvs \<Longrightarrow> depth < max_depth cfg \<Longrightarrow> distinct (map fst kvs) \<Longrightarrow> fst ` set kvs \<inter> set members = {} \<Longrightarrow>
    \<forall>(k, x) \<in> set kvs. strict_tree (max_depth cfg - depth - 1) x \<Longrightarrow> scan_members cfg depth members (skip_space (m @ 125 # r)) = Inr r"
  "json_elements e xs \<Longrightarrow> depth < max_depth cfg \<Longrightarrow> \<forall>x \<in> set xs. strict_tree (max_depth cfg - depth - 1) x \<Longrightarrow>
    scan_elements cfg depth (skip_space (e @ 93 # r)) = Inr r"
proof (induction v x and m kvs and e xs arbitrary: w r depth and depth members r and depth r rule: json_value_json_members_json_elements.inducts)
  case value_true
  then show ?case using literal_scalars(1) [of "invalid_code cfg" r]
    by (subst scan_value_scalar [where u = 116 and r = "[114, 117, 101] @ r"]) (simp_all add: json_true_def skip_simps)
next
  case value_false
  then show ?case using literal_scalars(2) [of "invalid_code cfg" r]
    by (subst scan_value_scalar [where u = 102 and r = "[97, 108, 115, 101] @ r"]) (simp_all add: json_false_def skip_simps)
next
  case value_null
  then show ?case using literal_scalars(3) [of "invalid_code cfg" r]
    by (subst scan_value_scalar [where u = 110 and r = "[117, 108, 108] @ r"]) (simp_all add: json_null_def skip_simps)
next
  case (value_number m t)
  from numeral_head [OF value_number(1)] obtain u t' where u: "t = u # t'" "u = 45 \<or> digit_unit u" by blast
  with value_number numeral_scalar [of m t r "invalid_code cfg"] show ?case
    by (subst scan_value_scalar [where u = u and r = "t' @ r"]) (auto simp: skip_simps digit_unit_def)
next
  case (value_string t d)
  then show ?case by (auto simp: scan_value.simps skip_simps map_sum_snd_Inr scan_string_iff)
next
  case (value_empty_array w')
  then show ?case by (simp add: scan_value.simps skip_simps)
next
  case (value_array t xs)
  from elements_head [OF value_array(1)] obtain u t' where u: "skip_space (t @ 93 # r) = u # t'" "u \<notin> {44, 93, 125}" by blast
  have "xs \<noteq> []" using value_array(1) by (auto elim: json_elements.cases)
  with value_array have "depth < max_depth cfg \<and> (\<forall>x \<in> set xs. strict_tree (max_depth cfg - depth - 1) x)" by (cases xs) auto
  with value_array u value_array.IH [of depth r] show ?case by (simp add: scan_value.simps skip_simps)
next
  case (value_empty_object w')
  then show ?case by (simp add: scan_value.simps skip_simps)
next
  case (value_object t kvs)
  from members_head [OF value_object(1)] obtain t' where u: "skip_space (t @ 125 # r) = 34 # t'" by blast
  have "kvs \<noteq> []" using value_object(1) by (auto elim: json_members.cases)
  with value_object have "depth < max_depth cfg \<and> (\<forall>(k, x) \<in> set kvs. strict_tree (max_depth cfg - depth - 1) x)" by (cases kvs) auto
  with value_object u value_object.IH [of depth "[]" r] show ?case by (simp add: scan_value.simps skip_simps)
next
  case (members_one w1 k d w2 w3 v x w4)
  have s: "scan_string (invalid_code cfg) (34 # k @ 34 # w2 @ 58 # w3 @ v @ w4 @ 125 # r) = Inr (d, w2 @ 58 # w3 @ v @ w4 @ 125 # r)"
    using members_one by (auto simp: scan_string_iff)
  have "scan_value cfg (depth + 1) (w3 @ v @ (w4 @ 125 # r)) = Inr (w4 @ 125 # r)"
    using members_one by (intro members_one.IH delimited_spaces) auto
  with s members_one show ?case by (simp add: scan_members.simps skip_simps)
next
  case (members_more w1 k d w2 w3 v x w4 t kvs)
  let ?r = "w4 @ 44 # t @ 125 # r"
  have s: "scan_string (invalid_code cfg) (34 # k @ 34 # w2 @ 58 # w3 @ v @ ?r) = Inr (d, w2 @ 58 # w3 @ v @ ?r)"
    using members_more by (auto simp: scan_string_iff)
  have "scan_value cfg (depth + 1) (w3 @ v @ ?r) = Inr ?r"
    using members_more by (intro members_more.IH delimited_spaces) auto
  moreover have "scan_members cfg depth (d # members) (skip_space (t @ 125 # r)) = Inr r"
    using members_more.prems by (intro members_more.IH) auto
  ultimately show ?case using s members_more by (simp add: scan_members.simps skip_simps)
next
  case (elements_one w1 v x w2)
  have "scan_value cfg (depth + 1) ([] @ v @ (w2 @ 93 # r)) = Inr (w2 @ 93 # r)"
    using elements_one by (intro elements_one.IH delimited_spaces) auto
  with elements_one skip_to_value [OF elements_one(1,2)] value_head [OF elements_one(2)] show ?case
    by (auto simp: scan_elements.simps skip_simps)
next
  case (elements_more w1 v x w2 t xs)
  let ?r = "w2 @ 44 # t @ 93 # r"
  have "scan_value cfg (depth + 1) ([] @ v @ ?r) = Inr ?r"
    using elements_more by (intro elements_more.IH delimited_spaces) auto
  moreover have "scan_elements cfg depth (skip_space (t @ 93 # r)) = Inr r"
    using elements_more.prems by (intro elements_more.IH) auto
  ultimately show ?case using elements_more skip_to_value [OF elements_more(1,2)] value_head [OF elements_more(2)]
    by (auto simp: scan_elements.simps skip_simps)
qed

section \<open>The reader\<close>

lemma scan_chars_error: "scan_chars invalid acc r = Inl e \<Longrightarrow> e = Err invalid"
proof (induction invalid acc r rule: scan_chars.induct)
  case (2 invalid acc u r)
  show ?case
  proof (cases "u = 92 \<and> r \<noteq> []")
    case True
    then obtain x r' where r: "u = 92" "r = x # r'" by (cases r) auto
    show ?thesis
    proof (cases "simple_escape x")
      case None
      with "2.IH"(2) [OF _ _ _ r(2)] "2.prems" r show ?thesis by (auto split: if_split_asm simp del: simple_escape.simps)
    next
      case (Some c)
      with "2.IH"(3) [OF _ _ _ r(2)] "2.prems" r show ?thesis by (auto simp del: simple_escape.simps)
    qed
  next
    case False
    with "2.IH"(1) "2.prems" show ?thesis by (auto split: if_split_asm)
  qed
qed simp

lemma scan_string_error: "scan_string invalid r = Inl e \<Longrightarrow> e = Err invalid"
  by (cases r) (auto simp: scan_string.simps split: if_split_asm dest: scan_chars_error)

lemma scan_scalar_error: "scan_scalar invalid r = Inl e \<Longrightarrow> e = Err invalid"
  by (auto simp: scan_scalar_def scan_number_def split: option.split_asm if_split_asm)

lemma and_then_Inl_iff: "and_then r f = Inl e \<longleftrightarrow> r = Inl e \<or> (\<exists>x. r = Inr x \<and> f x = Inl e)"
  by (cases r) auto

lemma map_sum_snd_Inl: "map_sum id snd x = Inl e \<longleftrightarrow> x = Inl e"
  by (cases x) auto

lemma units_case_Inl:
  "(case r of [] \<Rightarrow> a | u # r' \<Rightarrow> f u r') = Inl e \<longleftrightarrow> r = [] \<and> a = Inl e \<or> (\<exists>u r'. r = u # r' \<and> f u r' = Inl e)"
  by (cases r) auto

lemmas error_simps = and_then_Inl_iff map_sum_snd_Inl units_case_Inl

lemma scan_members_error_cases:
  assumes "scan_members cfg depth members t = Inl e"
  obtains "e \<in> {Err (invalid_code cfg), Err (duplicate_code cfg)}"
  | d r1 r2 where "t \<noteq> []" "scan_string (invalid_code cfg) t = Inr (d, r1)" "d \<notin> set members" "skip_space r1 = 58 # r2" "scan_value cfg (depth + 1) r2 = Inl e"
  | d r1 r2 r3 r4 where "t \<noteq> []" "scan_string (invalid_code cfg) t = Inr (d, r1)" "d \<notin> set members" "skip_space r1 = 58 # r2"
      "scan_value cfg (depth + 1) r2 = Inr r3" "skip_space r3 = 44 # r4" "scan_members cfg depth (d # members) (skip_space r4) = Inl e"
proof (cases "scan_string (invalid_code cfg) t")
  case (Inl e')
  with assms scan_string_error [OF Inl] that(1) show ?thesis by (auto simp: scan_members.simps split: if_split_asm)
next
  case (Inr x)
  obtain d r1 where x: "x = (d, r1)" by fastforce
  show ?thesis
  proof (cases "t \<noteq> [] \<and> d \<notin> set members \<and> (\<exists>r2. skip_space r1 = 58 # r2)")
    case True
    then obtain r2 where c: "t \<noteq> []" "d \<notin> set members" "skip_space r1 = 58 # r2" by blast
    note rest = that(2) [OF c(1) Inr [unfolded x] c(2,3)] that(3) [OF c(1) Inr [unfolded x] c(2,3)]
    from assms Inr x c have "and_then (scan_value cfg (depth + 1) r2) (\<lambda>r3. case skip_space r3 of [] \<Rightarrow> Inl (Err (invalid_code cfg))
        | u # r4 \<Rightarrow> if u = 125 then Inr r4 else if u \<noteq> 44 then Inl (Err (invalid_code cfg))
          else scan_members cfg depth (d # members) (skip_space r4)) = Inl e"
      by (simp add: scan_members.simps)
    then show ?thesis using that(1) rest by (auto simp: error_simps split: if_split_asm)
  next
    case False
    with assms Inr x have "e \<in> {Err (invalid_code cfg), Err (duplicate_code cfg)}"
      by (cases "skip_space r1") (auto simp: scan_members.simps split: if_split_asm)
    then show ?thesis by (rule that(1))
  qed
qed

lemma scan_elements_error_cases:
  assumes "scan_elements cfg depth t = Inl e"
  obtains "e \<in> {Err (invalid_code cfg), Err (duplicate_code cfg)}"
  | "t \<noteq> []" "scan_value cfg (depth + 1) t = Inl e"
  | r1 r2 where "t \<noteq> []" "scan_value cfg (depth + 1) t = Inr r1" "skip_space r1 = 44 # r2" "scan_elements cfg depth (skip_space r2) = Inl e"
proof (cases "t = []")
  case True
  with assms that(1) show ?thesis by (simp add: scan_elements.simps)
next
  case False
  with assms have "and_then (scan_value cfg (depth + 1) t) (\<lambda>r1. case skip_space r1 of [] \<Rightarrow> Inl (Err (invalid_code cfg))
      | u # r2 \<Rightarrow> if u = 93 then Inr r2 else if u \<noteq> 44 then Inl (Err (invalid_code cfg)) else scan_elements cfg depth (skip_space r2)) = Inl e"
    by (simp add: scan_elements.simps)
  with False that show ?thesis by (auto simp: error_simps split: if_split_asm)
qed

lemma scan_errors:
  "scan_value cfg depth t = Inl e \<Longrightarrow> e \<in> {Err (invalid_code cfg), Err (duplicate_code cfg)}"
  "scan_members cfg depth members t = Inl e \<Longrightarrow> e \<in> {Err (invalid_code cfg), Err (duplicate_code cfg)}"
  "scan_elements cfg depth t = Inl e \<Longrightarrow> e \<in> {Err (invalid_code cfg), Err (duplicate_code cfg)}"
proof (induction cfg depth t and cfg depth members t and cfg depth t rule: scan_value_scan_members_scan_elements.induct)
  case (1 cfg depth t)
  then show ?case
    by (auto simp: scan_value.simps error_simps split: if_split_asm dest: scan_string_error scan_scalar_error)
next
  case (2 cfg depth members t)
  from "2.prems" show ?case
  proof (cases rule: scan_members_error_cases)
    case (2 d r1 r2)
    from "2.IH"(1) [OF 2(1,2) _ 2(3,4)] 2(5) show ?thesis by simp
  next
    case (3 d r1 r2 r3 r4)
    from "2.IH"(2) [OF 3(1,2) _ 3(3,4) _ 3(5,6)] 3(7) show ?thesis by simp
  qed
next
  case (3 cfg depth t)
  from "3.prems" show ?case by (cases rule: scan_elements_error_cases) (use "3.IH" in auto)
qed

text \<open>Distinct members, bounded depth, finite numbers.\<close>

definition strict_document :: "nat \<Rightarrow> units \<Rightarrow> bool" where
  "strict_document n t \<longleftrightarrow> (\<exists>x. json_document t x \<and> strict_tree n x)"

lemma scan_document_iff: "scan_document cfg t = Inr () \<longleftrightarrow> strict_document (max_depth cfg) t"
proof
  assume "scan_document cfg t = Inr ()"
  then obtain r where r: "scan_value cfg 0 t = Inr r" "skip_space r = []" by (auto simp: scan_document_def and_then_eq_Inr split: if_split_asm)
  from scan_sound(1) [OF r(1)] obtain w v x where v: "t = w @ v @ r" "spaces w" "json_value v x" "strict_tree (max_depth cfg) x"
    by (auto simp: value_read_def)
  moreover have "spaces r" using skip_space_split [of r] r(2) by simp
  ultimately show "strict_document (max_depth cfg) t" by (auto simp: strict_document_def intro: json_document.intros)
next
  assume "strict_document (max_depth cfg) t"
  then obtain w v w' x where t: "t = w @ v @ w'" "spaces w" "json_value v x" "spaces w'" "strict_tree (max_depth cfg) x"
    by (auto simp: strict_document_def json_document.simps)
  then have "scan_value cfg 0 t = Inr w'" using delimited_spaces [OF t(4), of "[]"] by (auto intro: scan_complete(1))
  then show "scan_document cfg t = Inr ()" using skip_space_append [OF t(4), of "[]"] by (simp add: scan_document_def skip_space_def)
qed

lemma scan_document_error: "scan_document cfg t = Inl e \<Longrightarrow> e \<in> {Err (invalid_code cfg), Err (duplicate_code cfg)}"
  by (auto simp: scan_document_def and_then_Inl_iff split: if_split_asm dest: scan_errors(1))

text \<open>C31. The strict reader decides the strict JSON texts: under a valid configuration, and given that
  \<open>JSON.parse\<close> returns on every JSON text, it returns exactly on the texts of the JSON grammar whose
  objects have distinct member names, whose numbers are finite and whose values lie within the depth
  allowed, then with what \<open>JSON.parse\<close> makes of them; every other text is rejected with one of its
  two codes.\<close>

theorem strict_json_decides:
  assumes "strict_config_of options = Some cfg" and "\<forall>x. json_document t x \<longrightarrow> parse t \<noteq> None"
  shows "case parse_strict_json parse (Some t) options of
      Inr v \<Rightarrow> parse t = Some v \<and> strict_document (max_depth cfg) t
    | Inl e \<Rightarrow> e \<in> {Err (invalid_code cfg), Err (duplicate_code cfg)} \<and> \<not> strict_document (max_depth cfg) t"
proof (cases "scan_document cfg t")
  case (Inl e)
  with assms(1) scan_document_error [OF Inl] scan_document_iff [of cfg t] show ?thesis by (simp add: parse_strict_json_def)
next
  case (Inr u)
  then have s: "strict_document (max_depth cfg) t" using scan_document_iff [of cfg t] by simp
  with assms(2) obtain v where "parse t = Some v" by (auto simp: strict_document_def)
  with Inr assms(1) s show ?thesis by (simp add: parse_strict_json_def)
qed

definition sample_text :: units where
  \<open>sample_text = units_of ''{"a" : [1, -2.5e3, "x"], "b": {}}''\<close>

definition repeated_text :: units where
  \<open>repeated_text = units_of ''{"a" : [1, -2.5e3, "x"], "a": {}}''\<close>

lemma sample_units:
  "sample_text = [123, 34, 97, 34, 32, 58, 32, 91, 49, 44, 32, 45, 50, 46, 53, 101, 51, 44, 32, 34, 120, 34, 93, 44, 32, 34, 98, 34, 58, 32, 123, 125, 125]"
  "repeated_text = [123, 34, 97, 34, 32, 58, 32, 91, 49, 44, 32, 45, 50, 46, 53, 101, 51, 44, 32, 34, 120, 34, 93, 44, 32, 34, 97, 34, 58, 32, 123, 125, 125]"
  by code_simp+

lemmas scan_eval = scan_value.simps scan_members.simps scan_elements.simps scan_string.simps skip_space_def json_space_def scan_scalar_def
  scan_literal_def json_true_def json_false_def json_null_def scan_number_def match_number_def match_digits_def digit_unit_def
  finite_numeral_def digits_value_def double_limit_def

lemma sample_scans:
  "strict_config_of Undef = Some \<lparr>duplicate_code = ''STRICT_JSON_DUPLICATE_MEMBER'', invalid_code = ''STRICT_JSON_INVALID'', max_depth = 64\<rparr>"
  "parse_strict_json Some (Some sample_text) Undef = Inr sample_text"
  "parse_strict_json Some (Some repeated_text) Undef = Inl (Err ''STRICT_JSON_DUPLICATE_MEMBER'')"
proof -
  show c: "strict_config_of Undef = Some \<lparr>duplicate_code = ''STRICT_JSON_DUPLICATE_MEMBER'', invalid_code = ''STRICT_JSON_INVALID'', max_depth = 64\<rparr>"
    by code_simp
  show "parse_strict_json Some (Some sample_text) Undef = Inr sample_text"
    by (simp add: parse_strict_json_def c scan_document_def sample_units scan_eval Let_def)
  show "parse_strict_json Some (Some repeated_text) Undef = Inl (Err ''STRICT_JSON_DUPLICATE_MEMBER'')"
    by (simp add: parse_strict_json_def c scan_document_def sample_units scan_eval Let_def)
qed

theorem strict_json_decides_witness:
  "strict_document 64 sample_text \<and> \<not> strict_document 64 repeated_text"
  using strict_json_decides [OF sample_scans(1), of sample_text Some] strict_json_decides [OF sample_scans(1), of repeated_text Some] sample_scans(2,3)
  by simp

end
