(* ===== verification/Store_Retry.thy ===== *)
theory Store_Retry
  imports Commit_Result Sql
begin

text \<open>
  The transaction loop of the authority store (\<open>#runSerializable\<close> of
  \<open>src/cloud/authority-store.js\<close>): a transaction is attempted again only when the database
  reported a serialization failure before \<open>COMMIT\<close> was sent, the attempts are not used up and the
  deadline has not passed; once \<open>COMMIT\<close> was sent a failure leaves the outcome unknown. The database
  the work runs on is a value; what other sessions commit before an attempt, the answers of the
  session and the readings of the clock are arguments, numbered by the attempt. An error is the
  value thrown.
\<close>

section \<open>Errors\<close>

text \<open>\<open>isRetryableTransactionError\<close>, \<open>isAmbiguousTransactionError\<close>\<close>

definition retryable_error :: "jsv \<Rightarrow> bool" where
  "retryable_error e \<longleftrightarrow> fld e ''code'' = Str ''40001''"

definition ambiguous_error :: "jsv \<Rightarrow> bool" where
  "ambiguous_error e \<longleftrightarrow> fld e ''code'' = Str ''40003''"

definition requires_reconciliation :: "jsv \<Rightarrow> bool \<Rightarrow> bool" where
  "requires_reconciliation e dispatched \<longleftrightarrow> dispatched \<or> ambiguous_error e"

text \<open>\<open>/connection (?:terminated|closed|lost)|socket|timeout/i\<close>\<close>

definition transport_message :: "string \<Rightarrow> bool" where
  "transport_message s \<longleftrightarrow>
     list_ex (infix_of (map lower_char s)) [''connection terminated'', ''connection closed'', ''connection lost'', ''socket'', ''timeout'']"

definition transport_error :: "jsv \<Rightarrow> bool" where
  "transport_error e \<longleftrightarrow>
     list_ex (\<lambda>c. fld e ''code'' = Str c) [''ECONNRESET'', ''EPIPE'', ''ETIMEDOUT'', ''57P01'', ''57P02'', ''57P03''] \<or>
     test_or_empty transport_message (fld e ''message'')"

definition ambiguous_commit :: "jsv \<Rightarrow> jsv" where
  "ambiguous_commit cause = Obj
     [(''message'', Str ''COMMIT outcome is unknown; reconcile by exact request digest.''), (''cause'', cause),
      (''name'', Str ''AmbiguousCommitError''), (''code'', Str ''AMBIGUOUS_COMMIT'')]"

definition exhausted_error :: jsv where
  "exhausted_error = Obj [(''message'', Str ''serializable retry loop exhausted'')]"

section \<open>One attempt\<close>

text \<open>What \<open>COMMIT\<close> answers; a failure says whether the database applied the transaction.\<close>

datatype commit_answer = Acknowledged | Commit_failed jsv bool

record 'db session =
  connecting :: "nat \<Rightarrow> jsv option" \<comment> \<open>what \<open>connect\<close> throws\<close>
  beginning :: "nat \<Rightarrow> jsv + string \<times> string" \<comment> \<open>the isolation level and the backend\<close>
  others :: "nat \<Rightarrow> 'db \<Rightarrow> 'db" \<comment> \<open>committed by others before the attempt\<close>
  reading_clock :: "nat \<Rightarrow> jsv + jsv"
  observing :: "nat \<Rightarrow> jsv option" \<comment> \<open>what installing the observer throws\<close>
  committing :: "nat \<Rightarrow> commit_answer"
  after_commit :: "nat \<Rightarrow> jsv option" \<comment> \<open>what \<open>afterCommitObserver\<close> throws\<close>
  elapsed :: "nat \<Rightarrow> int"

text \<open>The work of one attempt on the database it sees: its error, or the new database and its result.\<close>

type_synonym 'db work = "nat \<Rightarrow> 'db \<Rightarrow> jsv + 'db \<times> jsv"

record answered =
  an_result :: jsv
  an_isolation :: string
  an_backend :: string
  an_now :: string

datatype failure = Unconnected jsv | Before_commit jsv | After_dispatch jsv

definition iso_of_row :: "jsenv \<Rightarrow> jsv \<Rightarrow> jsv + string" where
  "iso_of_row E v =
     (case new_date E v of
        None \<Rightarrow> Inl (Obj [(''message'', Str ''Invalid time value'')])
      | Some t \<Rightarrow> (case to_iso_string t of
          None \<Rightarrow> Inl (Obj [(''message'', Str ''Invalid time value'')])
        | Some s \<Rightarrow> Inr s))"

text \<open>The database after the attempt, and its answer; an attempt that fails before \<open>COMMIT\<close> changes nothing.\<close>

definition commit_attempt :: "jsenv \<Rightarrow> 'db session \<Rightarrow> nat \<Rightarrow> string \<times> string \<Rightarrow> jsv \<Rightarrow> jsv \<Rightarrow> 'db \<Rightarrow> 'db \<Rightarrow> 'db \<times> (failure + answered)" where
  "commit_attempt E S n identity result now d d' =
     (case committing S n of
        Commit_failed e applied \<Rightarrow> (if applied then d' else d, Inl (After_dispatch e))
      | Acknowledged \<Rightarrow>
          (case after_commit S n of
             Some e \<Rightarrow> (d', Inl (After_dispatch e))
           | None \<Rightarrow>
               (case iso_of_row E now of
                  Inl e \<Rightarrow> (d', Inl (After_dispatch e))
                | Inr t \<Rightarrow> (d', Inr \<lparr>an_result = result, an_isolation = fst identity, an_backend = snd identity, an_now = t\<rparr>))))"

definition work_attempt :: "jsenv \<Rightarrow> 'db session \<Rightarrow> 'db work \<Rightarrow> nat \<Rightarrow> string \<times> string \<Rightarrow> 'db \<Rightarrow> 'db \<times> (failure + answered)" where
  "work_attempt E S work n identity d =
     (case work n d of
        Inl e \<Rightarrow> (d, Inl (Before_commit e))
      | Inr (d', result) \<Rightarrow>
          (case reading_clock S n of
             Inl e \<Rightarrow> (d, Inl (Before_commit e))
           | Inr now \<Rightarrow>
               (case observing S n of
                  Some e \<Rightarrow> (d, Inl (Before_commit e))
                | None \<Rightarrow> commit_attempt E S n identity result now d d')))"

definition one_attempt :: "jsenv \<Rightarrow> 'db session \<Rightarrow> 'db work \<Rightarrow> nat \<Rightarrow> 'db \<Rightarrow> 'db \<times> string option \<times> (failure + answered)" where
  "one_attempt E S work n d =
     (case connecting S n of
        Some e \<Rightarrow> (d, None, Inl (Unconnected e))
      | None \<Rightarrow>
          (case beginning S n of
             Inl e \<Rightarrow> (d, None, Inl (Before_commit e))
           | Inr identity \<Rightarrow> (case work_attempt E S work n identity d of (d', r) \<Rightarrow> (d', Some (snd identity), r))))"

section \<open>The loop\<close>

text \<open>What the attempts so far leave for the answer, and how their connections were released.\<close>

record progress =
  pg_backends :: "string list"
  pg_codes :: "jsv list"
  pg_releases :: "jsv option list"

record committed =
  cm_answer :: answered
  cm_initial :: string
  cm_backends :: "string list"
  cm_retries :: nat
  cm_codes :: "jsv list"

definition retried :: "'db session \<Rightarrow> int \<Rightarrow> int \<Rightarrow> nat \<Rightarrow> failure \<Rightarrow> bool" where
  "retried S maximum deadline n f =
     (case f of Before_commit e \<Rightarrow> retryable_error e \<and> int n < maximum \<and> elapsed S n < deadline | _ \<Rightarrow> False)"

text \<open>What is thrown for a failure that is not retried, and how the connection is released.\<close>

fun failure_error :: "failure \<Rightarrow> jsv" where
  "failure_error (Unconnected e) = e"
| "failure_error (Before_commit e) = (if requires_reconciliation e False then ambiguous_commit e else e)"
| "failure_error (After_dispatch e) = (if requires_reconciliation e True then ambiguous_commit e else e)"

fun failure_release :: "failure \<Rightarrow> jsv option list" where
  "failure_release (Unconnected e) = []"
| "failure_release (Before_commit e) = [if requires_reconciliation e False \<or> transport_error e then Some e else None]"
| "failure_release (After_dispatch e) = [if requires_reconciliation e True \<or> transport_error e then Some e else None]"

fun failure_code :: "failure \<Rightarrow> jsv" where
  "failure_code (Unconnected e) = fld e ''code''"
| "failure_code (Before_commit e) = fld e ''code''"
| "failure_code (After_dispatch e) = fld e ''code''"

definition pushed :: "string option \<Rightarrow> string list \<Rightarrow> string list" where
  "pushed backend bs = (case backend of None \<Rightarrow> bs | Some b \<Rightarrow> bs @ [b])"

definition finished :: "nat \<Rightarrow> answered \<Rightarrow> string list \<Rightarrow> jsv list \<Rightarrow> committed" where
  "finished n a backends codes =
     \<lparr>cm_answer = a, cm_initial = hd backends, cm_backends = backends, cm_retries = n, cm_codes = codes\<rparr>"

function run_from :: "jsenv \<Rightarrow> 'db session \<Rightarrow> 'db work \<Rightarrow> int \<Rightarrow> int \<Rightarrow> nat \<Rightarrow> 'db \<Rightarrow> progress \<Rightarrow> 'db \<times> progress \<times> (jsv + committed)" where
  "run_from E S work maximum deadline n d p =
     (if int n > maximum then (d, p, Inl exhausted_error)
      else
        let (d', backend, r) = one_attempt E S work n (others S n d);
            p' = p\<lparr>pg_backends := pushed backend (pg_backends p)\<rparr>
        in case r of
          Inr a \<Rightarrow> (d', p'\<lparr>pg_releases := pg_releases p @ [None]\<rparr>, Inr (finished n a (pg_backends p') (pg_codes p)))
        | Inl f \<Rightarrow>
            if retried S maximum deadline n f then
              run_from E S work maximum deadline (n + 1) d'
                (p'\<lparr>pg_codes := pg_codes p @ [failure_code f], pg_releases := pg_releases p @ [None]\<rparr>)
            else (d', p'\<lparr>pg_releases := pg_releases p @ failure_release f\<rparr>, Inl (failure_error f)))"
  by pat_completeness auto
termination
  by (relation "measure (\<lambda>(E, S, work, maximum, deadline, n, d, p). nat (maximum + 1 - int n))") auto

definition default_max_retries :: int where
  "default_max_retries = 20"

definition default_retry_deadline :: int where
  "default_retry_deadline = 30000"

definition run_serializable :: "jsenv \<Rightarrow> 'db session \<Rightarrow> 'db work \<Rightarrow> int \<Rightarrow> int \<Rightarrow> 'db \<Rightarrow> 'db \<times> progress \<times> (jsv + committed)" where
  "run_serializable E S work maximum deadline d =
     run_from E S work maximum deadline 0 d \<lparr>pg_backends = [], pg_codes = [], pg_releases = []\<rparr>"

declare run_from.simps [simp del]

section \<open>What an attempt does\<close>

text \<open>A transaction is applied whole or not at all, and a failure before \<open>COMMIT\<close> applies nothing.\<close>

lemma one_attempt_effect:
  assumes "one_attempt E S work n d = (d', backend, r)"
  shows "case r of
      Inr a \<Rightarrow> work n d = Inr (d', an_result a)
    | Inl f \<Rightarrow> d' = d \<or> (\<exists>e x. f = After_dispatch e \<and> work n d = Inr (d', x))"
  using assms
  by (auto simp: one_attempt_def work_attempt_def commit_attempt_def
      split: option.split_asm sum.split_asm prod.split_asm commit_answer.split_asm if_split_asm)

lemma retried_failure: "retried S maximum deadline n f \<Longrightarrow> \<exists>e. f = Before_commit e \<and> retryable_error e \<and> int n < maximum"
  by (auto simp: retried_def split: failure.split_asm)

lemma retried_keeps:
  assumes "one_attempt E S work n d = (d', backend, Inl f)" and "retried S maximum deadline n f"
  shows "d' = d"
  using one_attempt_effect [OF assms(1)] retried_failure [OF assms(2)] by auto

text \<open>The database the attempts up to \<open>n\<close> have left to their work: only what others committed.\<close>

fun seen :: "(nat \<Rightarrow> 'db \<Rightarrow> 'db) \<Rightarrow> nat \<Rightarrow> nat \<Rightarrow> 'db \<Rightarrow> 'db" where
  "seen change n 0 d = change n d"
| "seen change n (Suc k) d = seen change (Suc n) k (change n d)"

text \<open>Where the loop stops: the attempt, what it saw and what it answered.\<close>

lemma run_from_stops:
  assumes "int n \<le> maximum" and "run_from E S work maximum deadline n d p = (d', p', out)"
  shows "\<exists>k backend r. int (n + k) \<le> maximum \<and> one_attempt E S work (n + k) (seen (others S) n k d) = (d', backend, r) \<and>
    (case r of
      Inr a \<Rightarrow> \<exists>bs cs. out = Inr (finished (n + k) a bs cs) \<and> length cs = length (pg_codes p) + k
    | Inl f \<Rightarrow> out = Inl (failure_error f) \<and> \<not> retried S maximum deadline (n + k) f)"
  using assms
proof (induction E S work maximum deadline n d p rule: run_from.induct)
  case (1 E S work maximum deadline n d p)
  obtain d1 backend r where a: "one_attempt E S work n (others S n d) = (d1, backend, r)" by (metis surj_pair)
  show ?case
  proof (cases "\<exists>f. r = Inl f \<and> retried S maximum deadline n f")
    case False
    with "1.prems" a show ?thesis
      by (intro exI [of _ 0] exI [of _ backend] exI [of _ r]) (auto simp: run_from.simps [of E S] Let_def split: sum.split_asm)
  next
    case True
    then obtain f where f: "r = Inl f" "retried S maximum deadline n f" by blast
    with a have d1: "d1 = others S n d" by (auto dest: retried_keeps)
    let ?p = "p\<lparr>pg_backends := pushed backend (pg_backends p), pg_codes := pg_codes p @ [failure_code f], pg_releases := pg_releases p @ [None]\<rparr>"
    have run: "run_from E S work maximum deadline (n + 1) d1 ?p = (d', p', out)" and n: "int (n + 1) \<le> maximum"
      using "1.prems" a f retried_failure [OF f(2)] by (auto simp: run_from.simps [of E S work maximum deadline n] Let_def)
    from "1.IH" [OF _ a [symmetric] refl refl refl f n] run "1.prems"(1) obtain k backend' r' where
      "int (n + 1 + k) \<le> maximum" "one_attempt E S work (n + 1 + k) (seen (others S) (n + 1) k d1) = (d', backend', r')"
      "case r' of Inr a \<Rightarrow> \<exists>bs cs. out = Inr (finished (n + 1 + k) a bs cs) \<and> length cs = length (pg_codes ?p) + k
        | Inl f \<Rightarrow> out = Inl (failure_error f) \<and> \<not> retried S maximum deadline (n + 1 + k) f"
      by auto
    then show ?thesis using d1
      by (intro exI [of _ "Suc k"] exI [of _ backend'] exI [of _ r']) (auto split: sum.splits)
  qed
qed

text \<open>C34. The transaction loop always answers, within the attempts allowed, and applies the work at most
  once: an answer is that of the last attempt, committed on what others had left by then; an error
  means that nothing was applied, except that an ambiguous commit may have applied the last attempt.\<close>

theorem transaction_applied_at_most_once:
  assumes "0 \<le> maximum" and "run_serializable E S work maximum deadline d = (d', p, out)"
  shows "\<exists>n. int n \<le> maximum \<and>
    (case out of
      Inr c \<Rightarrow> cm_retries c = n \<and> length (cm_codes c) = n \<and> work n (seen (others S) 0 n d) = Inr (d', an_result (cm_answer c))
    | Inl e \<Rightarrow> d' = seen (others S) 0 n d \<or>
        (\<exists>x cause. work n (seen (others S) 0 n d) = Inr (d', x) \<and> e = ambiguous_commit cause))"
proof -
  from run_from_stops [of 0 maximum E S work deadline d _ d' p out] assms obtain n backend r where
    n: "int n \<le> maximum" "one_attempt E S work n (seen (others S) 0 n d) = (d', backend, r)"
    and out: "case r of Inr a \<Rightarrow> \<exists>bs cs. out = Inr (finished n a bs cs) \<and> length cs = n | Inl f \<Rightarrow> out = Inl (failure_error f)"
    by (fastforce simp: run_serializable_def split: sum.splits)
  show ?thesis
  proof (cases r)
    case (Inl f)
    with n out one_attempt_effect [OF n(2)] show ?thesis by (intro exI [of _ n]) (auto simp: requires_reconciliation_def)
  next
    case (Inr a)
    with n out one_attempt_effect [OF n(2)] show ?thesis by (intro exI [of _ n]) (auto simp: finished_def)
  qed
qed

lemma run_from_reaches:
  assumes "\<forall>i < k. \<exists>backend f. one_attempt E S work (n + i) (seen (others S) n i d) = (seen (others S) n i d, backend, Inl f) \<and>
      retried S maximum deadline (n + i) f"
    and "one_attempt E S work (n + k) (seen (others S) n k d) = (d', backend, Inr a)" and "int (n + k) \<le> maximum"
  shows "\<exists>p' c. run_from E S work maximum deadline n d p = (d', p', Inr c) \<and> cm_answer c = a \<and> cm_retries c = n + k"
  using assms
proof (induction k arbitrary: n d p)
  case 0
  then show ?case by (simp add: run_from.simps [of E S] finished_def)
next
  case (Suc k)
  from Suc.prems(1) obtain backend f where f: "one_attempt E S work n (others S n d) = (others S n d, backend, Inl f)" "retried S maximum deadline n f"
    by fastforce
  have "\<forall>i < k. \<exists>backend f. one_attempt E S work (n + 1 + i) (seen (others S) (n + 1) i (others S n d)) = (seen (others S) (n + 1) i (others S n d), backend, Inl f) \<and>
      retried S maximum deadline (n + 1 + i) f"
    using Suc.prems(1) by (metis Suc_less_eq add_Suc_right add_Suc_shift seen.simps(2) Suc_eq_plus1)
  with Suc.IH [of "n + 1" "others S n d"] Suc.prems f show ?case by (simp add: run_from.simps [of E S work maximum deadline n])
qed

text \<open>C35. Serialization failures are survived: when every attempt before the \<open>n\<close>-th ends in one before
  \<open>COMMIT\<close> was sent and before the deadline, and the \<open>n\<close>-th attempt is committed, the loop returns the
  answer of that attempt and counts the attempts it repeated.\<close>

theorem conflicts_are_retried:
  assumes "\<forall>k < n. \<exists>backend e. one_attempt E S work k (seen (others S) 0 k d) = (seen (others S) 0 k d, backend, Inl (Before_commit e)) \<and>
      retryable_error e \<and> elapsed S k < deadline"
    and "one_attempt E S work n (seen (others S) 0 n d) = (d', backend, Inr a)" and "int n \<le> maximum"
  shows "\<exists>p c. run_serializable E S work maximum deadline d = (d', p, Inr c) \<and> cm_answer c = a \<and> cm_retries c = n"
proof -
  have "\<forall>i < n. \<exists>backend f. one_attempt E S work (0 + i) (seen (others S) 0 i d) = (seen (others S) 0 i d, backend, Inl f) \<and>
      retried S maximum deadline (0 + i) f"
    using assms(1,3) by (fastforce simp: retried_def)
  from run_from_reaches [OF this] assms(2,3) show ?thesis by (simp add: run_serializable_def)
qed

section \<open>A sample run\<close>

definition conflict_error :: jsv where
  "conflict_error = Obj [(''code'', Str ''40001'')]"

definition sample_session :: "int session" where
  "sample_session = \<lparr>connecting = \<lambda>_. None, beginning = \<lambda>n. Inr (''serializable'', ''7''), others = \<lambda>n d. d + 10,
     reading_clock = \<lambda>_. Inr (DateV (Some 0)), observing = \<lambda>_. None, committing = \<lambda>_. Acknowledged, after_commit = \<lambda>_. None,
     elapsed = \<lambda>n. int n\<rparr>"

definition sample_work :: "int work" where
  "sample_work n d = (if n < 2 then Inl conflict_error else Inr (d + 1, Null))"

lemma sample_attempts:
  "one_attempt E sample_session sample_work 0 d = (d, Some ''7'', Inl (Before_commit conflict_error))"
  "one_attempt E sample_session sample_work (Suc 0) d = (d, Some ''7'', Inl (Before_commit conflict_error))"
  "one_attempt E sample_session sample_work 2 d =
    (d + 1, Some ''7'', Inr \<lparr>an_result = Null, an_isolation = ''serializable'', an_backend = ''7'', an_now = iso_text 0\<rparr>)"
  by (simp_all add: one_attempt_def work_attempt_def commit_attempt_def sample_session_def sample_work_def iso_of_row_def to_iso_string_def max_time_def)

lemma sample_fields: "elapsed sample_session n = int n" "others sample_session n d = d + 10" "retryable_error conflict_error"
    "\<not> ambiguous_error conflict_error"
  by (simp_all add: sample_session_def retryable_error_def ambiguous_error_def conflict_error_def)

theorem conflicts_are_retried_witness:
  "\<exists>p c. run_serializable commit_env sample_session sample_work 20 30000 0 = (31, p, Inr c) \<and> cm_retries c = 2"
proof -
  have before: "\<forall>k < 2. \<exists>backend e. one_attempt commit_env sample_session sample_work k (seen (others sample_session) 0 k 0)
      = (seen (others sample_session) 0 k 0, backend, Inl (Before_commit e)) \<and> retryable_error e \<and> elapsed sample_session k < 30000"
    by (auto simp: less_2_cases_iff sample_attempts sample_fields)
  have "seen (others sample_session) 0 2 0 = 30" by (simp add: sample_fields numeral_2_eq_2)
  then have last: "one_attempt commit_env sample_session sample_work 2 (seen (others sample_session) 0 2 0) = (31, Some ''7'',
      Inr \<lparr>an_result = Null, an_isolation = ''serializable'', an_backend = ''7'', an_now = iso_text 0\<rparr>)"
    by (simp add: sample_attempts)
  from conflicts_are_retried [OF before last, of 20] show ?thesis by auto
qed

theorem transaction_applied_at_most_once_witness:
  "fst (run_serializable commit_env sample_session sample_work 1 30000 0) = 20 \<and>
   (\<exists>n. int n \<le> 1 \<and> seen (others sample_session) 0 n 0 = 20)"
proof -
  obtain d' p out where r: "run_serializable commit_env sample_session sample_work 1 30000 0 = (d', p, out)" by (metis surj_pair)
  then have out: "out = Inl conflict_error" "d' = 20"
    by (auto simp: run_serializable_def run_from.simps Let_def retried_def sample_attempts sample_fields requires_reconciliation_def)
  from transaction_applied_at_most_once [OF _ r] out have "\<exists>n. int n \<le> 1 \<and> seen (others sample_session) 0 n 0 = 20"
    by (auto simp: conflict_error_def ambiguous_commit_def)
  with r out show ?thesis by simp
qed

end
