(* ===== verification/Authority_Reconcile_Props.thy ===== *)
theory Authority_Reconcile_Props
  imports Authority_Reconcile Authority_Request_Props
begin

text \<open>
  What a reconciled request may be taken for: authority is reported current only when every
  identity in the row agrees and the fence, the leases and the proposal are live, and
  reconciliation always answers.
\<close>

section \<open>The answers\<close>

lemma unknown_answer_Inr:
  assumes "unknown_answer request reason = Inr a"
  shows "\<exists>c. a = Unknown reason c \<and> cr_status c = ''UNKNOWN_DO_NOT_ACT'' \<and> current_authority (cr_authority c) = None \<and> requires_fresh (cr_authority c)"
  using assms
  by (auto simp: unknown_answer_def map_sum_eq_Inr unknown_database_result_def guard_simps authority_state_Inr default_to_def)

lemma reconciled_answer_Inr:
  assumes "reconciled_answer E request row n = Inr a"
  shows "\<exists>c. a = Reconciled (fld request ''requestDigest'') row (requires_fresh (cr_authority c)) c \<and> current_authority (cr_authority c) = Some (rc_current n)"
  using assms
  by (auto simp: reconciled_answer_def Let_def map_sum_eq_Inr committed_database_result_def guard_simps authority_state_Inr default_to_def)

lemma normalize_reconciliation_Inr:
  assumes "normalize_reconciliation E row request = Inr n"
  obtains epoch key binding expiry outbox where "receipt_bound E row request" "proposal_expiry E row request epoch key binding = Inr expiry"
    "identity_agrees E row request epoch key binding" "exact_outbox E row request epoch = Inr outbox"
    "winning row \<Longrightarrow> won_state E row outbox expiry" "\<not> winning row \<Longrightarrow> lost_state row" "new_date E (fld row ''database_now'') \<noteq> None"
    "n = \<lparr>rc_current = still_current E row expiry, rc_outcome = fld row ''outcome'', rc_epoch = epoch\<rparr>"
proof -
  from assms obtain epoch key binding expiry where a: "receipt_bound E row request" "proposal_expiry E row request epoch key binding = Inr expiry"
      "identity_agrees E row request epoch key binding"
    and r: "and_then (exact_outbox E row request epoch) (\<lambda>outbox.
      if new_date E (fld row ''database_now'') = None \<or> winning row \<and> \<not> won_state E row outbox expiry \<or>
         \<not> winning row \<and> \<not> lost_state row \<or> \<not> outcome_state E row
      then Inl (invariant_error ''authority reconciliation terminal state mismatch'')
      else Inr \<lparr>rc_current = still_current E row expiry, rc_outcome = fld row ''outcome'', rc_epoch = epoch\<rparr>) = Inr n"
    unfolding normalize_reconciliation_def guard_simps by (auto split: if_split_asm)
  from r obtain outbox where o: "exact_outbox E row request epoch = Inr outbox" "winning row \<Longrightarrow> won_state E row outbox expiry"
      "\<not> winning row \<Longrightarrow> lost_state row" "new_date E (fld row ''database_now'') \<noteq> None"
      "n = \<lparr>rc_current = still_current E row expiry, rc_outcome = fld row ''outcome'', rc_epoch = epoch\<rparr>"
    by (auto simp: and_then_eq_Inr split: if_split_asm)
  show ?thesis by (rule that [OF a o])
qed

text \<open>A row from which current authority may be read.\<close>

definition live_row :: "jsenv \<Rightarrow> jsv \<Rightarrow> jsv \<Rightarrow> bool" where
  "live_row E row request \<longleftrightarrow>
     fld row ''outcome'' = Str ''resource_reserved'' \<and>
     fld row ''request_digest'' = Str (identity_digest E (fld row ''request_payload'')) \<and>
     same row ''logical_action_digest'' request ''logicalActionDigest'' \<and>
     fld row ''payload_digest'' = Str (identity_digest E (fld row ''outbox_payload'')) \<and>
     same row ''evidence_digest'' row ''receipt_proposal_selected_evidence_digest'' \<and>
     same row ''operation_id'' row ''holder_operation_id'' \<and> same row ''run_id'' row ''active_run_id'' \<and>
     same row ''proposal_digest'' row ''holder_proposal_digest'' \<and>
     (\<exists>fence. text_if_any E (fld row ''fencing_token'') = Some fence \<and> positive_decimal fence \<and> fence = js_string E (fld row ''current_fence'')) \<and>
     (\<exists>now lease resource expires expiry. new_date E (fld row ''database_now'') = Some now \<and>
        new_date E (fld row ''lease_expires_at'') = Some lease \<and> now < lease \<and>
        new_date E (fld row ''resource_lease_expires_at'') = Some resource \<and> now < resource \<and>
        driver_timestamp E (fld row ''receipt_proposal_expires_at'') = Inr expires \<and> new_date E (Str expires) = Some expiry \<and> now < expiry)"

lemma proposal_columns_expiry: "proposal_columns E row = Inr p \<Longrightarrow>
    \<exists>expires. driver_timestamp E (fld row ''receipt_proposal_expires_at'') = Inr expires \<and> fld p ''expiresAt'' = Str expires"
  by (auto simp: proposal_columns_def and_then_eq_Inr)

lemma map_error_Inr: "map_sum f id r = Inr y \<longleftrightarrow> r = Inr y"
  by (cases r) auto

lemma proposal_expiry_time:
  assumes "proposal_expiry E row request epoch key binding = Inr expiry"
  shows "\<exists>expires. driver_timestamp E (fld row ''receipt_proposal_expires_at'') = Inr expires \<and> expiry = new_date E (Str expires)"
proof -
  from assms obtain p where p: "proposal_columns E row = Inr p" "expiry = new_date E (fld p ''expiresAt'')"
    by (auto simp: proposal_expiry_def map_error_Inr and_then_eq_Inr split: if_split_asm)
  from proposal_columns_expiry [OF p(1)] p(2) show ?thesis by auto
qed

lemma exact_outbox_digests: "exact_outbox E row request epoch = Inr True \<Longrightarrow>
    fld row ''payload_digest'' = Str (identity_digest E (fld row ''outbox_payload''))"
  by (auto simp: exact_outbox_def and_then_eq_Inr split: if_split_asm)

lemma later_Some: "later (Some t) now \<longleftrightarrow> (\<exists>m n. t = Some m \<and> now = Some n \<and> n < m)"
  by (auto simp: later_def split: option.splits)

lemma time_finite: "finite_time (time_if_any E v) \<Longrightarrow> time_if_any E v = Some (new_date E v)"
  by (auto simp: finite_time_def time_if_any_def split: if_split_asm)

lemma current_row_live:
  assumes "normalize_reconciliation E row request = Inr n" and "rc_current n"
  shows "live_row E row request"
  using assms(1)
proof (rule normalize_reconciliation_Inr)
  fix epoch key binding expiry outbox
  assume r: "receipt_bound E row request" and x: "proposal_expiry E row request epoch key binding = Inr expiry"
    and o: "exact_outbox E row request epoch = Inr outbox" and w: "winning row \<Longrightarrow> won_state E row outbox expiry"
    and n: "n = \<lparr>rc_current = still_current E row expiry, rc_outcome = fld row ''outcome'', rc_epoch = epoch\<rparr>"
  from n assms(2) have c: "still_current E row expiry" by simp
  then have win: "winning row" by (simp add: still_current_def Let_def)
  with w have s: "won_state E row outbox expiry" by simp
  then have out: "exact_outbox E row request epoch = Inr True" using o by (simp add: won_state_def)
  from c s have times: "later (Some (new_date E (fld row ''lease_expires_at''))) (new_date E (fld row ''database_now''))"
      "later (Some (new_date E (fld row ''resource_lease_expires_at''))) (new_date E (fld row ''database_now''))"
      "later (Some expiry) (new_date E (fld row ''database_now''))"
    by (auto simp: still_current_def won_state_def Let_def dest: time_finite)
  from proposal_expiry_time [OF x] times have t: "\<exists>now lease resource expires expiry. new_date E (fld row ''database_now'') = Some now \<and>
        new_date E (fld row ''lease_expires_at'') = Some lease \<and> now < lease \<and>
        new_date E (fld row ''resource_lease_expires_at'') = Some resource \<and> now < resource \<and>
        driver_timestamp E (fld row ''receipt_proposal_expires_at'') = Inr expires \<and> new_date E (Str expires) = Some expiry \<and> now < expiry"
    unfolding later_Some by fastforce
  have f: "\<exists>fence. text_if_any E (fld row ''fencing_token'') = Some fence \<and> positive_decimal fence \<and> fence = js_string E (fld row ''current_fence'')"
    using c s by (auto simp: still_current_def won_state_def Let_def)
  show ?thesis using t f c r s win exact_outbox_digests [OF out]
    by (simp add: live_row_def receipt_bound_def winning_def still_current_def won_state_def evidence_agrees_def Let_def)
qed

lemma with_binding_keeps: "k \<notin> {''authorizationEpoch'', ''logicalAuthorityKeySha256'', ''authorizationBindingSha256''} \<Longrightarrow>
    fld (with_binding request b) k = fld request k"
  by (cases request) (auto simp: with_binding_def map_add_def split: option.split)

lemma read_receipts_Inr:
  assumes "read_receipts E receipts (with_binding unbound b) unbound = Inr a" and "current_authority (cr_authority (rn_commit a)) = Some True"
  shows "\<exists>row. receipts = [row] \<and> live_row E row unbound"
proof -
  from assms obtain row n where row: "receipts = [row]" "normalize_reconciliation E row (with_binding unbound b) = Inr n"
      "reconciled_answer E (with_binding unbound b) row n = Inr a"
    by (auto simp: read_receipts_def dest!: unknown_answer_Inr split: list.split_asm sum.split_asm)
  from reconciled_answer_Inr [OF row(3)] assms(2) have "rc_current n" by auto
  with current_row_live [OF row(2)] row(1) show ?thesis by (simp add: live_row_def with_binding_keeps)
qed

lemma read_request_Inr:
  assumes "read_request E Q unbound = Inr a" and "current_authority (cr_authority (rn_commit a)) = Some True"
  shows "\<exists>row. receipt_rows Q = Some [row] \<and> live_row E row unbound"
proof (cases "receipt_rows Q")
  case None
  with assms show ?thesis
    by (auto simp: read_request_def and_then_eq_Inr dest!: unknown_answer_Inr split: option.split_asm bound_proposal.split_asm if_split_asm)
next
  case (Some receipts)
  from assms(1) obtain b where "unknown_answer unbound b = Inr a \<or> (\<exists>b. read_receipts E receipts (with_binding unbound b) unbound = Inr a)"
    by (auto simp: read_request_def Some and_then_eq_Inr split: option.split_asm bound_proposal.split_asm if_split_asm)
  then show ?thesis using Some assms(2) read_receipts_Inr by (auto dest!: unknown_answer_Inr)
qed

text \<open>C32. Reconciliation never reports authority that is not there: when it says that the authority of a
  request is current, the one row the database joined is a winning receipt of the request's logical
  action whose digests are those of its stored payloads, whose fence is the resource's current
  fence under the same operation, run and proposal, and whose lease, whose resource's lease and
  whose proposal are all unexpired at the time of the reading.\<close>

theorem reconciled_authority_is_live:
  assumes "reconcile_request E Q inp = Inr a" and "current_authority (cr_authority (rn_commit a)) = Some True"
  shows "\<exists>request row. normalize_request E inp = Inr request \<and> receipt_rows Q = Some [row] \<and> live_row E row request"
proof -
  from assms(1) obtain request where r: "normalize_request E inp = Inr request"
      "(case (if session_begins Q then read_request E Q request else Inl (Err ''connect'')) of
         Inr answer \<Rightarrow> Inr answer | Inl e \<Rightarrow> unknown_answer request ''reconciliation_unavailable'') = Inr a"
    by (auto simp: reconcile_request_def and_then_eq_Inr)
  then have "read_request E Q request = Inr a"
    using assms(2) by (auto split: sum.split_asm if_split_asm dest!: unknown_answer_Inr)
  from read_request_Inr [OF this assms(2)] r(1) show ?thesis by blast
qed

lemma unknown_answer_ok:
  assumes "fld request ''requestDigest'' = Str d" and "hex_64 d" and "trim reason = reason" and "reason \<noteq> []"
  shows "\<exists>c. unknown_answer request reason = Inr (Unknown reason c)"
proof -
  have "operation_identity (Str ''authority'') (Str d) = Inr (''authority'', d)"
    using assms(2) hex_64_not_Nil [OF assms(2)] by (auto simp: operation_identity_def required_text_def hex_not_space) code_simp+
  then show ?thesis using assms by (simp add: unknown_answer_def unknown_database_result_def destructure_def required_text_def authority_state_def default_to_def)
qed

lemma read_receipts_answer:
  assumes "read_receipts E receipts request unbound = Inr a"
  shows "(\<exists>reason. unknown_answer unbound reason = Inr a) \<or> (\<exists>row n. receipts = [row] \<and> reconciled_answer E request row n = Inr a)"
proof (cases "\<exists>row n. receipts = [row] \<and> normalize_reconciliation E row request = Inr n")
  case True
  with assms show ?thesis by (auto simp: read_receipts_def)
next
  case False
  then have "\<exists>reason. read_receipts E receipts request unbound = unknown_answer unbound reason"
    by (auto simp: read_receipts_def split: list.split sum.split)
  with assms show ?thesis by auto
qed

lemma read_request_answer:
  assumes "read_request E Q unbound = Inr a"
  shows "(\<exists>reason. unknown_answer unbound reason = Inr a) \<or>
    (\<exists>b row n. receipt_rows Q = Some [row] \<and> reconciled_answer E (with_binding unbound b) row n = Inr a)"
proof (cases "\<exists>receipts b. receipt_rows Q = Some receipts \<and> read_receipts E receipts (with_binding unbound b) unbound = Inr a")
  case True
  then show ?thesis using read_receipts_answer by blast
next
  case False
  with assms show ?thesis
    by (auto simp: read_request_def and_then_eq_Inr split: option.split_asm bound_proposal.split_asm if_split_asm)
qed

text \<open>C33. Reconciliation always answers: for every request in normal form and whatever the session does,
  it returns, and an answer that is not a reconciled commit says \<open>UNKNOWN_DO_NOT_ACT\<close> and asks for a
  fresh authorization (digests being 64 hexadecimal digits).\<close>

theorem reconciliation_always_answers:
  assumes "normalize_request E inp = Inr request" and "\<forall>s. hex_64 (sha256_hex E s)"
  shows "\<exists>a. reconcile_request E Q inp = Inr a \<and>
    (case a of
      Unknown reason c \<Rightarrow> cr_status c = ''UNKNOWN_DO_NOT_ACT'' \<and> current_authority (cr_authority c) = None \<and> requires_fresh (cr_authority c)
    | Reconciled digest row fresh c \<Rightarrow> digest = fld request ''requestDigest'' \<and> receipt_rows Q = Some [row] \<and>
        fresh = requires_fresh (cr_authority c))"
proof -
  obtain d where d: "fld request ''requestDigest'' = Str d" "hex_64 d"
    using request_digests(2) [OF normalized_well_formed [OF assms(1)]] assms(2) by (auto simp: identity_digest_def)
  obtain c where u: "unknown_answer request ''reconciliation_unavailable'' = Inr (Unknown ''reconciliation_unavailable'' c)"
    using unknown_answer_ok [OF d, of "''reconciliation_unavailable''"] by (auto simp: trim_def js_space_def)
  show ?thesis
  proof (cases "if session_begins Q then read_request E Q request else Inl (Err ''connect'')")
    case (Inl e)
    with assms(1) u unknown_answer_Inr [OF u] show ?thesis by (simp add: reconcile_request_def)
  next
    case (Inr a)
    then have a: "reconcile_request E Q inp = Inr a" using assms(1) by (simp add: reconcile_request_def)
    from Inr have "read_request E Q request = Inr a" by (simp split: if_split_asm)
    from read_request_answer [OF this] a show ?thesis
      by (auto simp: with_binding_keeps dest!: unknown_answer_Inr reconciled_answer_Inr)
  qed
qed

section \<open>A request read back\<close>

abbreviation stamp :: "int \<Rightarrow> jsv" where
  "stamp t \<equiv> DateV (Some t)"

definition sample_request_value :: jsv where
  "sample_request_value = assembled request_env (sample_fields (sample_uuid (CHR ''8''))) sample_action sample_proposal (replicate 64 (CHR ''a''))
     (sample_uuid (CHR ''5'')) (replicate 64 (CHR ''c''))"

definition sample_payload_value :: jsv where
  "sample_payload_value = Obj [(''action'', Str action_kind), (''scenario'', Str ''synthetic-highwater'')]"

definition sample_proposal_row :: jsv where
  "sample_proposal_row = Obj [(''tenant_id'', Str (sample_uuid (CHR ''1''))), (''run_id'', Str (sample_uuid (CHR ''2''))),
     (''incident_id'', Str (sample_uuid (CHR ''3''))), (''retrieval_id'', Str (sample_uuid (CHR ''4''))), (''resource_id'', Str ''boat-1''),
     (''agency'', Str ''harbor''), (''action_kind'', Str action_kind), (''payload'', sample_payload_value),
     (''payload_canonical'', Str (cloud_canonical_json request_env sample_payload_value)), (''payload_digest'', Str (replicate 64 (CHR ''a''))),
     (''logical_action_digest'', Str (replicate 64 (CHR ''a''))), (''proposal_digest'', Str (replicate 64 (CHR ''a''))),
     (''authority_evidence_binding_sha256'', Str (replicate 64 (CHR ''b''))), (''policy_version'', Str ''g1-admissibility-v2''),
     (''selected_rank'', Str ''1''), (''selected_evidence_id'', Str (sample_uuid (CHR ''5''))),
     (''selected_evidence_digest'', Str (replicate 64 (CHR ''c''))), (''admitted_at'', stamp 0), (''expires_at'', stamp 1800000),
     (''authorization_epoch'', Str ''1''), (''logical_authority_key_sha256'', Str (replicate 64 (CHR ''a''))),
     (''authorization_binding_sha256'', Str (replicate 64 (CHR ''a''))), (''database_now'', stamp 1000)]"

definition sample_receipt_row :: jsv where
  "sample_receipt_row = Obj ([(''reconciliation_kind'', Str ''operation_replay''), (''outcome'', Str ''resource_reserved''), (''reason'', Null),
     (''request_payload'', fld sample_request_value ''requestPayload''), (''request_digest'', Str (replicate 64 (CHR ''a''))),
     (''tenant_id'', Str (sample_uuid (CHR ''1''))), (''run_id'', Str (sample_uuid (CHR ''2''))), (''incident_id'', Str (sample_uuid (CHR ''3''))),
     (''resource_id'', Str ''boat-1''), (''operation_id'', Str (sample_uuid (CHR ''8''))), (''agent_id'', Str ''agent''), (''agency'', Str ''harbor''),
     (''evidence_id'', Str (sample_uuid (CHR ''5''))), (''evidence_digest'', Str (replicate 64 (CHR ''c''))),
     (''effect_key'', Str (sample_uuid (CHR ''7''))), (''payload_digest'', Str (replicate 64 (CHR ''a''))), (''policy_version'', Str policy_version),
     (''logical_action_digest'', Str (replicate 64 (CHR ''a''))), (''proposal_digest'', Str (replicate 64 (CHR ''a''))),
     (''authorization_epoch'', Str ''1''), (''logical_authority_key_sha256'', Str (replicate 64 (CHR ''a''))),
     (''authorization_binding_sha256'', Str (replicate 64 (CHR ''a''))), (''fencing_token'', Str ''1''), (''lease_expires_at'', stamp 60000),
     (''observed_holder_operation_id'', Null), (''observed_fence'', Null)] @
    [(''intent_id'', Str (sample_uuid (CHR ''8''))), (''outbox_operation_id'', Str (sample_uuid (CHR ''8''))),
     (''outbox_request_digest'', Str (replicate 64 (CHR ''a''))), (''outbox_proposal_digest'', Str (replicate 64 (CHR ''a''))),
     (''outbox_logical_action_digest'', Str (replicate 64 (CHR ''a''))), (''outbox_authorization_epoch'', Str ''1''),
     (''outbox_logical_authority_key_sha256'', Str (replicate 64 (CHR ''a''))), (''outbox_authorization_binding_sha256'', Str (replicate 64 (CHR ''a''))),
     (''outbox_run_id'', Str (sample_uuid (CHR ''2''))), (''outbox_incident_id'', Str (sample_uuid (CHR ''3''))), (''outbox_resource_id'', Str ''boat-1''),
     (''outbox_effect_key'', Str (sample_uuid (CHR ''7''))), (''outbox_intent_kind'', Str action_kind), (''outbox_payload'', sample_payload_value),
     (''outbox_payload_digest'', Str (replicate 64 (CHR ''a''))), (''outbox_fencing_token'', Str ''1''),
     (''current_fence'', Str ''1''), (''active_run_id'', Str (sample_uuid (CHR ''2''))), (''holder_operation_id'', Str (sample_uuid (CHR ''8''))),
     (''holder_proposal_digest'', Str (replicate 64 (CHR ''a''))), (''holder_logical_authority_key_sha256'', Str (replicate 64 (CHR ''a''))),
     (''resource_lease_expires_at'', stamp 60000)] @
    [(''receipt_proposal_tenant_id'', Str (sample_uuid (CHR ''1''))), (''receipt_proposal_digest'', Str (replicate 64 (CHR ''a''))),
     (''receipt_proposal_logical_action_digest'', Str (replicate 64 (CHR ''a''))), (''receipt_proposal_resource_id'', Str ''boat-1''),
     (''receipt_proposal_agency'', Str ''harbor''), (''receipt_proposal_action_kind'', Str action_kind),
     (''receipt_proposal_payload'', sample_payload_value),
     (''receipt_proposal_payload_canonical'', Str (cloud_canonical_json request_env sample_payload_value)),
     (''receipt_proposal_payload_digest'', Str (replicate 64 (CHR ''a''))), (''receipt_proposal_retrieval_id'', Str (sample_uuid (CHR ''4''))),
     (''receipt_proposal_run_id'', Str (sample_uuid (CHR ''2''))), (''receipt_proposal_incident_id'', Str (sample_uuid (CHR ''3''))),
     (''receipt_proposal_authority_evidence_binding_sha256'', Str (replicate 64 (CHR ''b''))),
     (''receipt_proposal_policy_version'', Str ''g1-admissibility-v2''), (''receipt_proposal_selected_rank'', Str ''1''),
     (''receipt_proposal_selected_evidence_id'', Str (sample_uuid (CHR ''5''))),
     (''receipt_proposal_selected_evidence_digest'', Str (replicate 64 (CHR ''c''))), (''receipt_proposal_admitted_at'', stamp 0),
     (''receipt_proposal_expires_at'', stamp 1800000), (''receipt_proposal_authorization_epoch'', Str ''1''),
     (''receipt_proposal_logical_authority_key_sha256'', Str (replicate 64 (CHR ''a''))),
     (''receipt_proposal_authorization_binding_sha256'', Str (replicate 64 (CHR ''a''))), (''database_now'', stamp 1000)])"

definition sample_reading :: reading where
  "sample_reading = \<lparr>session_begins = True, session_commits = True, proposal_rows = Some [sample_proposal_row], receipt_rows = Some [sample_receipt_row]\<rparr>"

lemma sample_epoch: "epoch_from_row request_env (Str ''1'') = Inr 1"
proof -
  have "int_str 1 = ''1''" by code_simp
  then show ?thesis by (simp add: epoch_from_row_def request_env_def max_safe_integer_def)
qed

lemma sample_dates: "iso_date request_env (stamp 0) = Inr (iso_text 0)" "iso_date request_env (stamp 1800000) = Inr (iso_text 1800000)"
  "driver_timestamp request_env (stamp 0) = Inr (iso_text 0)" "driver_timestamp request_env (stamp 1800000) = Inr (iso_text 1800000)"
  "driver_timestamp request_env (stamp 1000) = Inr (iso_text 1000)"
  by (simp_all add: iso_date_def driver_timestamp_def to_iso_string_def max_time_def)

lemma sample_key:
  "\<exists>key. logical_authority_key request_env (Obj [(''logicalActionDigest'', Str (replicate 64 (CHR ''a''))), (''authorizationEpoch'', Num (Fin 1))]) = Inr key \<and>
    fld key ''logicalAuthorityKeySha256'' = Str (replicate 64 (CHR ''a''))"
  by (simp add: logical_authority_key_def own_keys_are_def identity_sha256_keeps required_epoch_def max_safe_integer_def max_authorization_epoch_def
      authority_key_body_def Let_def)

lemma sample_binding:
  "\<exists>binding. authorization_binding request_env (Obj [(''logicalActionDigest'', Str (replicate 64 (CHR ''a''))),
      (''proposalDigest'', Str (replicate 64 (CHR ''a''))), (''authorizationEpoch'', Num (Fin 1))]) = Inr binding \<and>
    fld binding ''authorizationBindingSha256'' = Str (replicate 64 (CHR ''a''))"
  using sample_key
  by (auto simp: authorization_binding_def own_keys_are_def identity_sha256_keeps required_epoch_def max_safe_integer_def max_authorization_epoch_def Let_def)

lemma proposal_row_columns:
  "fld sample_proposal_row ''tenant_id'' = Str (sample_uuid (CHR ''1''))"
  "fld sample_proposal_row ''run_id'' = Str (sample_uuid (CHR ''2''))"
  "fld sample_proposal_row ''incident_id'' = Str (sample_uuid (CHR ''3''))"
  "fld sample_proposal_row ''retrieval_id'' = Str (sample_uuid (CHR ''4''))"
  "fld sample_proposal_row ''resource_id'' = Str ''boat-1''"
  "fld sample_proposal_row ''agency'' = Str ''harbor''"
  "fld sample_proposal_row ''action_kind'' = Str action_kind"
  "fld sample_proposal_row ''payload'' = sample_payload_value"
  "fld sample_proposal_row ''payload_canonical'' = Str (cloud_canonical_json request_env sample_payload_value)"
  "fld sample_proposal_row ''payload_digest'' = Str (replicate 64 (CHR ''a''))"
  "fld sample_proposal_row ''logical_action_digest'' = Str (replicate 64 (CHR ''a''))"
  "fld sample_proposal_row ''proposal_digest'' = Str (replicate 64 (CHR ''a''))"
  "fld sample_proposal_row ''authority_evidence_binding_sha256'' = Str (replicate 64 (CHR ''b''))"
  "fld sample_proposal_row ''policy_version'' = Str ''g1-admissibility-v2''"
  "fld sample_proposal_row ''selected_rank'' = Str ''1''"
  "fld sample_proposal_row ''selected_evidence_id'' = Str (sample_uuid (CHR ''5''))"
  "fld sample_proposal_row ''selected_evidence_digest'' = Str (replicate 64 (CHR ''c''))"
  "fld sample_proposal_row ''admitted_at'' = stamp 0"
  "fld sample_proposal_row ''expires_at'' = stamp 1800000"
  "fld sample_proposal_row ''authorization_epoch'' = Str ''1''"
  "fld sample_proposal_row ''logical_authority_key_sha256'' = Str (replicate 64 (CHR ''a''))"
  "fld sample_proposal_row ''authorization_binding_sha256'' = Str (replicate 64 (CHR ''a''))"
  "fld sample_proposal_row ''database_now'' = stamp 1000"
  by (simp_all only: sample_proposal_row_def fld.simps map_of_Cons_code fst_conv snd_conv list.inject list.distinct char.inject HOL.simp_thms if_True if_False option.case)

lemma request_columns:
  "fld sample_request_value ''tenantId'' = Str (sample_uuid (CHR ''1''))"
  "fld sample_request_value ''incidentId'' = Str (sample_uuid (CHR ''3''))"
  "fld sample_request_value ''resourceId'' = Str ''boat-1''"
  "fld sample_request_value ''agency'' = Str ''harbor''"
  "fld sample_request_value ''actionKind'' = Str action_kind"
  "fld sample_request_value ''payload'' = sample_payload_value"
  "fld sample_request_value ''payloadDigest'' = Str (replicate 64 (CHR ''a''))"
  "fld sample_request_value ''operationId'' = Str (sample_uuid (CHR ''8''))"
  "fld sample_request_value ''evidenceId'' = Str (sample_uuid (CHR ''5''))"
  "fld sample_request_value ''logicalActionDigest'' = Str (replicate 64 (CHR ''a''))"
  "fld sample_request_value ''dviProposal'' = sample_proposal"
  "fld sample_request_value ''proposalDigest'' = Str (replicate 64 (CHR ''a''))"
  "fld sample_request_value ''selectedEvidenceId'' = Str (sample_uuid (CHR ''5''))"
  "fld sample_request_value ''selectedEvidenceDigest'' = Str (replicate 64 (CHR ''c''))"
  "fld sample_request_value ''requestDigest'' = Str (replicate 64 (CHR ''a''))"
  by (simp_all only: sample_request_value_def assembled_def sample_fields_def Let_def append.simps sample_payload_value_def sample_digest_env
      sample_action_def fld.simps map_of_Cons_code fst_conv snd_conv list.inject list.distinct char.inject HOL.simp_thms if_True if_False option.case)

lemma sample_proposal_columns:
  "fld sample_proposal ''retrievalId'' = Str (sample_uuid (CHR ''4''))"
  "fld sample_proposal ''runId'' = Str (sample_uuid (CHR ''2''))"
  "fld sample_proposal ''incidentId'' = Str (sample_uuid (CHR ''3''))"
  "fld sample_proposal ''authorityEvidenceBindingSha256'' = Str (replicate 64 (CHR ''b''))"
  "fld sample_proposal ''policyVersion'' = Str ''g1-admissibility-v2''"
  "fld sample_proposal ''selectedRank'' = int_num 1"
  "fld sample_proposal ''admittedAt'' = Str (iso_text 0)"
  "fld sample_proposal ''expiresAt'' = Str (iso_text 1800000)"
  by (simp_all only: sample_proposal_def fld.simps map_of_Cons_code fst_conv snd_conv list.inject list.distinct char.inject HOL.simp_thms if_True if_False option.case)

lemma sample_proposal_row_truthy: "truthy sample_proposal_row" "truthy sample_receipt_row"
  by (simp_all add: sample_proposal_row_def sample_receipt_row_def)

lemma sample_matches: "proposal_receipt_matches request_env sample_proposal_row (authorization_from_request sample_request_value) = Inr True"
proof -
  obtain key binding where k: "logical_authority_key request_env (Obj [(''logicalActionDigest'', Str (replicate 64 (CHR ''a''))), (''authorizationEpoch'', Num (Fin 1))]) = Inr key"
      "fld key ''logicalAuthorityKeySha256'' = Str (replicate 64 (CHR ''a''))"
    and b: "authorization_binding request_env (Obj [(''logicalActionDigest'', Str (replicate 64 (CHR ''a''))),
        (''proposalDigest'', Str (replicate 64 (CHR ''a''))), (''authorizationEpoch'', Num (Fin 1))]) = Inr binding"
      "fld binding ''authorizationBindingSha256'' = Str (replicate 64 (CHR ''a''))"
    using sample_key sample_binding by blast
  have "js_number request_env (Str ''1'') = Fin 1" by (simp add: request_env_def)
  then show ?thesis
    by (simp add: proposal_receipt_matches_def proposal_row_columns authorization_from_request_def request_columns sample_proposal_columns
        sample_epoch sample_dates k b Let_def sample_proposal_row_truthy)
qed

lemma sample_bound_proposal: "bound_proposal request_env [sample_proposal_row] sample_request_value False = Inr (Bound True sample_proposal_row 1)"
  by (simp add: bound_proposal_def sample_matches proposal_row_columns request_columns sample_epoch later_def Let_def)

lemma receipt_columns:
  "fld sample_receipt_row ''reconciliation_kind'' = Str ''operation_replay''"
  "fld sample_receipt_row ''outcome'' = Str ''resource_reserved''"
  "fld sample_receipt_row ''reason'' = Null"
  "fld sample_receipt_row ''request_payload'' = fld sample_request_value ''requestPayload''"
  "fld sample_receipt_row ''request_digest'' = Str (replicate 64 (CHR ''a''))"
  "fld sample_receipt_row ''tenant_id'' = Str (sample_uuid (CHR ''1''))"
  "fld sample_receipt_row ''run_id'' = Str (sample_uuid (CHR ''2''))"
  "fld sample_receipt_row ''incident_id'' = Str (sample_uuid (CHR ''3''))"
  "fld sample_receipt_row ''resource_id'' = Str ''boat-1''"
  "fld sample_receipt_row ''operation_id'' = Str (sample_uuid (CHR ''8''))"
  "fld sample_receipt_row ''agent_id'' = Str ''agent''"
  "fld sample_receipt_row ''agency'' = Str ''harbor''"
  "fld sample_receipt_row ''evidence_id'' = Str (sample_uuid (CHR ''5''))"
  "fld sample_receipt_row ''evidence_digest'' = Str (replicate 64 (CHR ''c''))"
  "fld sample_receipt_row ''effect_key'' = Str (sample_uuid (CHR ''7''))"
  "fld sample_receipt_row ''payload_digest'' = Str (replicate 64 (CHR ''a''))"
  "fld sample_receipt_row ''policy_version'' = Str policy_version"
  "fld sample_receipt_row ''logical_action_digest'' = Str (replicate 64 (CHR ''a''))"
  "fld sample_receipt_row ''proposal_digest'' = Str (replicate 64 (CHR ''a''))"
  "fld sample_receipt_row ''authorization_epoch'' = Str ''1''"
  "fld sample_receipt_row ''logical_authority_key_sha256'' = Str (replicate 64 (CHR ''a''))"
  "fld sample_receipt_row ''authorization_binding_sha256'' = Str (replicate 64 (CHR ''a''))"
  "fld sample_receipt_row ''fencing_token'' = Str ''1''"
  "fld sample_receipt_row ''lease_expires_at'' = stamp 60000"
  "fld sample_receipt_row ''observed_holder_operation_id'' = Null"
  "fld sample_receipt_row ''observed_fence'' = Null"
  "fld sample_receipt_row ''intent_id'' = Str (sample_uuid (CHR ''8''))"
  "fld sample_receipt_row ''outbox_operation_id'' = Str (sample_uuid (CHR ''8''))"
  "fld sample_receipt_row ''outbox_request_digest'' = Str (replicate 64 (CHR ''a''))"
  "fld sample_receipt_row ''outbox_proposal_digest'' = Str (replicate 64 (CHR ''a''))"
  "fld sample_receipt_row ''outbox_logical_action_digest'' = Str (replicate 64 (CHR ''a''))"
  "fld sample_receipt_row ''outbox_authorization_epoch'' = Str ''1''"
  "fld sample_receipt_row ''outbox_logical_authority_key_sha256'' = Str (replicate 64 (CHR ''a''))"
  "fld sample_receipt_row ''outbox_authorization_binding_sha256'' = Str (replicate 64 (CHR ''a''))"
  "fld sample_receipt_row ''outbox_run_id'' = Str (sample_uuid (CHR ''2''))"
  "fld sample_receipt_row ''outbox_incident_id'' = Str (sample_uuid (CHR ''3''))"
  "fld sample_receipt_row ''outbox_resource_id'' = Str ''boat-1''"
  "fld sample_receipt_row ''outbox_effect_key'' = Str (sample_uuid (CHR ''7''))"
  "fld sample_receipt_row ''outbox_intent_kind'' = Str action_kind"
  "fld sample_receipt_row ''outbox_payload'' = sample_payload_value"
  "fld sample_receipt_row ''outbox_payload_digest'' = Str (replicate 64 (CHR ''a''))"
  "fld sample_receipt_row ''outbox_fencing_token'' = Str ''1''"
  "fld sample_receipt_row ''current_fence'' = Str ''1''"
  "fld sample_receipt_row ''active_run_id'' = Str (sample_uuid (CHR ''2''))"
  "fld sample_receipt_row ''holder_operation_id'' = Str (sample_uuid (CHR ''8''))"
  "fld sample_receipt_row ''holder_proposal_digest'' = Str (replicate 64 (CHR ''a''))"
  "fld sample_receipt_row ''holder_logical_authority_key_sha256'' = Str (replicate 64 (CHR ''a''))"
  "fld sample_receipt_row ''resource_lease_expires_at'' = stamp 60000"
  "fld sample_receipt_row ''receipt_proposal_tenant_id'' = Str (sample_uuid (CHR ''1''))"
  "fld sample_receipt_row ''receipt_proposal_digest'' = Str (replicate 64 (CHR ''a''))"
  "fld sample_receipt_row ''receipt_proposal_logical_action_digest'' = Str (replicate 64 (CHR ''a''))"
  "fld sample_receipt_row ''receipt_proposal_resource_id'' = Str ''boat-1''"
  "fld sample_receipt_row ''receipt_proposal_agency'' = Str ''harbor''"
  "fld sample_receipt_row ''receipt_proposal_action_kind'' = Str action_kind"
  "fld sample_receipt_row ''receipt_proposal_payload'' = sample_payload_value"
  "fld sample_receipt_row ''receipt_proposal_payload_canonical'' = Str (cloud_canonical_json request_env sample_payload_value)"
  "fld sample_receipt_row ''receipt_proposal_payload_digest'' = Str (replicate 64 (CHR ''a''))"
  "fld sample_receipt_row ''receipt_proposal_retrieval_id'' = Str (sample_uuid (CHR ''4''))"
  "fld sample_receipt_row ''receipt_proposal_run_id'' = Str (sample_uuid (CHR ''2''))"
  "fld sample_receipt_row ''receipt_proposal_incident_id'' = Str (sample_uuid (CHR ''3''))"
  "fld sample_receipt_row ''receipt_proposal_authority_evidence_binding_sha256'' = Str (replicate 64 (CHR ''b''))"
  "fld sample_receipt_row ''receipt_proposal_policy_version'' = Str ''g1-admissibility-v2''"
  "fld sample_receipt_row ''receipt_proposal_selected_rank'' = Str ''1''"
  "fld sample_receipt_row ''receipt_proposal_selected_evidence_id'' = Str (sample_uuid (CHR ''5''))"
  "fld sample_receipt_row ''receipt_proposal_selected_evidence_digest'' = Str (replicate 64 (CHR ''c''))"
  "fld sample_receipt_row ''receipt_proposal_admitted_at'' = stamp 0"
  "fld sample_receipt_row ''receipt_proposal_expires_at'' = stamp 1800000"
  "fld sample_receipt_row ''receipt_proposal_authorization_epoch'' = Str ''1''"
  "fld sample_receipt_row ''receipt_proposal_logical_authority_key_sha256'' = Str (replicate 64 (CHR ''a''))"
  "fld sample_receipt_row ''receipt_proposal_authorization_binding_sha256'' = Str (replicate 64 (CHR ''a''))"
  "fld sample_receipt_row ''database_now'' = stamp 1000"
  by (simp_all only: sample_receipt_row_def append.simps fld.simps
      map_of_Cons_code fst_conv snd_conv list.inject list.distinct char.inject HOL.simp_thms if_True if_False option.case)

lemma sample_identity:
  "proposal_columns request_env sample_receipt_row = Inr (Obj [(''tenantId'', Str (sample_uuid (CHR ''1''))),
     (''runId'', Str (sample_uuid (CHR ''2''))), (''incidentId'', Str (sample_uuid (CHR ''3''))), (''retrievalId'', Str (sample_uuid (CHR ''4''))),
     (''logicalActionDigest'', Str (replicate 64 (CHR ''a''))), (''authorityEvidenceBindingSha256'', Str (replicate 64 (CHR ''b''))),
     (''selectedEvidenceId'', Str (sample_uuid (CHR ''5''))), (''selectedEvidenceDigest'', Str (replicate 64 (CHR ''c''))),
     (''policyVersion'', Str ''g1-admissibility-v2''), (''selectedRank'', Num (Fin 1)), (''admittedAt'', Str (iso_text 0)),
     (''expiresAt'', Str (iso_text 1800000))])"
proof -
  have "js_number request_env (Str ''1'') = Fin 1" by (simp add: request_env_def)
  then show ?thesis
    by (simp add: proposal_columns_def receipt_columns sample_dates sample_simps)
qed

lemma sample_expiry:
  assumes "fld key ''logicalAuthorityKeySha256'' = Str (replicate 64 (CHR ''a''))" and "fld binding ''authorizationBindingSha256'' = Str (replicate 64 (CHR ''a''))"
    and "fld request ''tenantId'' = Str (sample_uuid (CHR ''1''))"
  shows "proposal_expiry request_env sample_receipt_row request 1 key binding = Inr (Some 1800000)"
proof -
  have payload: "dispatch_payload sample_payload_value = Inr sample_payload_value"
    using dispatch_payload_keeps [OF sample_payload] by (simp add: sample_payload_value_def)
  show ?thesis
    using assms
    by (simp add: proposal_expiry_def receipt_columns payload sample_identity sample_epoch sample_simps logical_action_digest_def logical_action_identity_def
        own_keys_are_def logical_action_fields_def proposal_digest_def proposal_identity_def proposal_fields_def identity_time_def
        proposal_agrees_def)
qed

definition sample_semantic :: "(string \<times> jsv) list" where
  "sample_semantic = [(''digestVersion'', int_num 2),
     (''tenantId'', Str (sample_uuid (CHR ''1''))),
     (''runId'', Str (sample_uuid (CHR ''2''))),
     (''incidentId'', Str (sample_uuid (CHR ''3''))),
     (''resourceId'', Str ''boat-1''),
     (''agentId'', Str ''agent''),
     (''agency'', Str ''harbor''),
     (''evidenceId'', Str (sample_uuid (CHR ''5''))),
     (''intentNonce'', Str (sample_uuid (CHR ''6''))),
     (''effectKey'', Str (sample_uuid (CHR ''7''))),
     (''leaseMs'', int_num 1800000),
     (''policyVersion'', Str policy_version),
     (''actionKind'', Str action_kind),
     (''payloadDigest'', Str (replicate 64 (CHR ''a''))),
     (''logicalActionDigest'', Str (replicate 64 (CHR ''a''))),
     (''proposalDigest'', Str (replicate 64 (CHR ''a''))),
     (''selectedEvidenceId'', Str (sample_uuid (CHR ''5''))),
     (''selectedEvidenceDigest'', Str (replicate 64 (CHR ''c'')))]"

lemma sample_semantic_request: "fld sample_request_value ''requestPayload'' = Obj sample_semantic"
  by (simp only: sample_request_value_def assembled_def semantic_payload_def semantic_fields_def sample_fields_def Let_def append.simps list.map
      sample_semantic_def sample_action_def fld.simps map_of_Cons_code fst_conv snd_conv list.inject list.distinct char.inject HOL.simp_thms if_True if_False option.case)

lemma semantic_columns:
  "fld (Obj sample_semantic) ''digestVersion'' = int_num 2"
  "fld (Obj sample_semantic) ''tenantId'' = Str (sample_uuid (CHR ''1''))"
  "fld (Obj sample_semantic) ''runId'' = Str (sample_uuid (CHR ''2''))"
  "fld (Obj sample_semantic) ''incidentId'' = Str (sample_uuid (CHR ''3''))"
  "fld (Obj sample_semantic) ''resourceId'' = Str ''boat-1''"
  "fld (Obj sample_semantic) ''agentId'' = Str ''agent''"
  "fld (Obj sample_semantic) ''agency'' = Str ''harbor''"
  "fld (Obj sample_semantic) ''evidenceId'' = Str (sample_uuid (CHR ''5''))"
  "fld (Obj sample_semantic) ''intentNonce'' = Str (sample_uuid (CHR ''6''))"
  "fld (Obj sample_semantic) ''effectKey'' = Str (sample_uuid (CHR ''7''))"
  "fld (Obj sample_semantic) ''leaseMs'' = int_num 1800000"
  "fld (Obj sample_semantic) ''policyVersion'' = Str policy_version"
  "fld (Obj sample_semantic) ''actionKind'' = Str action_kind"
  "fld (Obj sample_semantic) ''payloadDigest'' = Str (replicate 64 (CHR ''a''))"
  "fld (Obj sample_semantic) ''logicalActionDigest'' = Str (replicate 64 (CHR ''a''))"
  "fld (Obj sample_semantic) ''proposalDigest'' = Str (replicate 64 (CHR ''a''))"
  "fld (Obj sample_semantic) ''selectedEvidenceId'' = Str (sample_uuid (CHR ''5''))"
  "fld (Obj sample_semantic) ''selectedEvidenceDigest'' = Str (replicate 64 (CHR ''c''))"
  by (simp_all only: sample_semantic_def fld.simps map_of_Cons_code fst_conv snd_conv list.inject list.distinct char.inject HOL.simp_thms if_True if_False option.case)

lemma sample_receipt_bound:
  assumes "fld request ''requestPayload'' = Obj sample_semantic" and "fld request ''logicalActionDigest'' = Str (replicate 64 (CHR ''a''))"
  shows "receipt_bound request_env sample_receipt_row request"
proof -
  have "own_keys_are (Obj sample_semantic) (map fst sample_semantic)" by (simp add: own_keys_are_def)
  moreover have "any_uuid (sample_uuid (CHR ''6''))" by (simp add: any_uuid_def hex_digit_def)
  ultimately show ?thesis
    by (simp add: receipt_bound_def assms receipt_columns sample_semantic_request semantic_columns sample_proposal_row_truthy one_of_def
        max_safe_integer_def min_lease_ms_def max_lease_ms_def Let_def del: fld.simps)
qed

lemma sample_outbox:
  assumes "fld request ''payload'' = sample_payload_value"
  shows "exact_outbox request_env sample_receipt_row request 1 = Inr True"
  by (simp add: exact_outbox_def assms receipt_columns sample_epoch plain_object_def sample_uuid_def text_if_any_def)
    (simp add: sample_payload_value_def)

lemma sample_state:
  "won_state request_env sample_receipt_row True (Some 1800000)" "outcome_state request_env sample_receipt_row"
  "still_current request_env sample_receipt_row (Some 1800000)" "winning sample_receipt_row"
  by (simp_all add: won_state_def outcome_state_def still_current_def winning_def evidence_agrees_def receipt_columns text_if_any_def time_if_any_def
      finite_time_def later_def digit_def)

lemma sample_reconciled:
  assumes r: "request = with_binding sample_request_value (Bound True sample_proposal_row 1)"
  shows "normalize_reconciliation request_env sample_receipt_row request
    = Inr \<lparr>rc_current = True, rc_outcome = Str ''resource_reserved'', rc_epoch = 1\<rparr>"
proof -
  note q = with_binding_keeps [of _ sample_request_value "Bound True sample_proposal_row 1"]
  have f: "fld request ''requestPayload'' = Obj sample_semantic" "fld request ''logicalActionDigest'' = Str (replicate 64 (CHR ''a''))"
      "fld request ''payload'' = sample_payload_value" "fld request ''tenantId'' = Str (sample_uuid (CHR ''1''))"
      "fld request ''requestDigest'' = Str (replicate 64 (CHR ''a''))" "fld request ''proposalDigest'' = Str (replicate 64 (CHR ''a''))"
      "fld request ''operationId'' = Str (sample_uuid (CHR ''8''))"
    by (simp_all add: r q request_columns sample_semantic_request)
  have e: "fld request ''authorizationEpoch'' = int_num 1"
    by (simp add: r with_binding_def sample_request_value_def assembled_def sample_fields_def Let_def)
  obtain key binding where k: "stored_key request_env sample_receipt_row 1 = Inr key" "fld key ''logicalAuthorityKeySha256'' = Str (replicate 64 (CHR ''a''))"
    and b: "stored_binding request_env sample_receipt_row 1 = Inr binding" "fld binding ''authorizationBindingSha256'' = Str (replicate 64 (CHR ''a''))"
    using sample_key sample_binding by (auto simp: stored_key_def stored_binding_def receipt_columns)
  have i: "identity_agrees request_env sample_receipt_row request 1 key binding"
    by (simp add: identity_agrees_def receipt_columns k b e f sample_semantic_request)
  show ?thesis
    by (simp add: normalize_reconciliation_def sample_receipt_bound [OF f(1,2)] k(1) b(1) sample_expiry [OF k(2) b(2) f(4)] i sample_outbox [OF f(3)]
        sample_state receipt_columns sample_epoch)
qed

lemma sample_answer:
  "\<exists>a. reconcile_request request_env sample_reading (request_input (sample_uuid (CHR ''8''))) = Inr a \<and>
    current_authority (cr_authority (rn_commit a)) = Some True"
proof -
  have u: "uuid_shape (sample_uuid (CHR ''8''))" by (simp add: hex_digit_def)
  have q: "normalize_request request_env (request_input (sample_uuid (CHR ''8''))) = Inr sample_request_value"
    using sample_request [OF u] by (simp add: sample_request_value_def)
  have o: "operation_identity (Str ''authority'') (Str (replicate 64 (CHR ''a''))) = Inr (''authority'', replicate 64 (CHR ''a''))"
    by code_simp
  have t: "required_text (Str ''resource_reserved'') code = Inr ''resource_reserved''" "\<not> denied ''resource_reserved''" for code
    by code_simp+
  have d: "database_timestamp request_env (Str (iso_text 1000)) = Inr (iso_text 1000)"
    by (simp add: database_timestamp_def driver_timestamp_def request_env_def parse_iso_iso_text max_time_def to_iso_string_def)
  let ?request = "with_binding sample_request_value (Bound True sample_proposal_row 1)"
  have "\<exists>a. reconciled_answer request_env ?request sample_receipt_row \<lparr>rc_current = True, rc_outcome = Str ''resource_reserved'', rc_epoch = 1\<rparr> = Inr a \<and>
      current_authority (cr_authority (rn_commit a)) = Some True"
    by (simp add: reconciled_answer_def receipt_columns sample_dates outcome_denied_def committed_database_result_def destructure_def o t d
        observed_def authority_state_def default_to_def coalesce_def optional_text_def Let_def)
  then show ?thesis
    by (auto simp: reconcile_request_def q sample_reading_def read_request_def sample_bound_proposal read_receipts_def sample_reconciled)
qed

theorem reconciled_authority_is_live_witness:
  "\<exists>request. normalize_request request_env (request_input (sample_uuid (CHR ''8''))) = Inr request \<and>
    live_row request_env sample_receipt_row request"
proof -
  from sample_answer obtain a where "reconcile_request request_env sample_reading (request_input (sample_uuid (CHR ''8''))) = Inr a"
      "current_authority (cr_authority (rn_commit a)) = Some True" by blast
  from reconciled_authority_is_live [OF this] show ?thesis by (simp add: sample_reading_def)
qed

theorem reconciliation_always_answers_witness:
  "\<exists>a. reconcile_request request_env \<lparr>session_begins = False, session_commits = False, proposal_rows = None, receipt_rows = None\<rparr>
    (request_input (sample_uuid (CHR ''8''))) = Inr a"
proof -
  have "uuid_shape (sample_uuid (CHR ''8''))" by (simp add: hex_digit_def)
  from reconciliation_always_answers [OF sample_request [OF this]] show ?thesis by (auto simp: request_env_def)
qed

end
