(* ===== verification/Store_Agreement.thy ===== *)
theory Store_Agreement
  imports Ledger_Inv Authority_Reconcile_Props
begin

text \<open>
  The store's own spend (\<open>spendAuthority\<close> of \<open>src/cloud/authority-store.js\<close>) against the stored
  function \<open>g1_spend_authority_v1\<close> of \<open>src/cloud/primary-security.js\<close>: on a ledger that keeps its
  invariant, at one reading of the clock and for a request bound to its proposal, both decide
  alike, fail alike and leave the same tables, up to the digest that a denial for its evidence
  keeps in its receipt.
\<close>

section \<open>What is compared\<close>

text \<open>The digest of the evidence in the receipt of a denial is left out.\<close>

definition forget :: "ledger \<Rightarrow> ledger" where
  "forget L = L\<lparr>receipts := map (\<lambda>a. if ar_outcome a = ''authorization_denied'' then a\<lparr>ar_evidence_digest := None\<rparr> else a) (receipts L)\<rparr>"

definition agrees :: "spend_answer \<Rightarrow> spend_decision \<Rightarrow> bool" where
  "agrees s d \<longleftrightarrow> committed_outcome s = dc_outcome d \<and> sa_current s = dc_current d \<and> Option.bind (sa_receipt s) ar_fence = dc_fence d \<and>
     (granted s \<longleftrightarrow> fresh d)"

definition same_answer :: "store_error + ledger \<times> spend_answer \<Rightarrow> sql_error + ledger \<times> spend_decision \<Rightarrow> bool" where
  "same_answer x y \<longleftrightarrow>
     (case (x, y) of
        (Inl _, Inl _) \<Rightarrow> True
      | (Inr (L, s), Inr (M, d)) \<Rightarrow> forget L = forget M \<and> agrees s d
      | _ \<Rightarrow> False)"

text \<open>What the driver reads is what the tables hold: no time lies within the millisecond of the clock
  but after it, digests and canonical texts are the ones of the values they stand for.\<close>

definition told_apart :: "(int \<Rightarrow> int) \<Rightarrow> int \<Rightarrow> ledger \<Rightarrow> bool" where
  "told_apart ms now L \<longleftrightarrow>
     list_all (\<lambda>p. (ms (pr_expires p) > ms now) = (pr_expires p > now)) (proposals L) \<and>
     list_all (\<lambda>r. case rs_holder r of None \<Rightarrow> True | Some h \<Rightarrow> (ms (ho_expires h) > ms now) = (ho_expires h > now)) (resources L) \<and>
     list_all (\<lambda>a. case ar_expires a of None \<Rightarrow> True | Some x \<Rightarrow> (ms x > ms now) = (x > now)) (receipts L)"

definition faithful :: "jsenv \<Rightarrow> (int \<Rightarrow> int) \<Rightarrow> spend_request \<Rightarrow> ledger \<Rightarrow> bool" where
  "faithful E ms q L \<longleftrightarrow>
     list_all (\<lambda>p. pr_canonical p = cloud_canonical_json E (pr_payload p)) (proposals L) \<and>
     list_all (\<lambda>p. cloud_canonical_json E (pr_payload p) = cloud_canonical_json E (sq_payload q) \<longrightarrow> pr_payload p = sq_payload q) (proposals L) \<and>
     list_all (\<lambda>b. list_all (\<lambda>p. cloud_canonical_json E (ob_payload b) = cloud_canonical_json E (pr_payload p) \<longrightarrow> pr_payload p = ob_payload b)
       (proposals L)) (outbox L) \<and>
     list_all (\<lambda>e. case ev_digest e of None \<Rightarrow> True | Some d \<Rightarrow> stored_evidence_digest E ms e = Inr d) (evidence_rows (evidence L)) \<and>
     list_all (\<lambda>a. receipt_digest_key a = (sq_tenant q, sq_digest q) \<longrightarrow> ar_payload a = sq_request q) (receipts L) \<and>
     list_all (\<lambda>p. proposal_key p = (sq_tenant q, sq_proposal q) \<and> sq_lease q > 600000 \<longrightarrow> pr_expires p - pr_admitted p = 1800000000) (proposals L)"

lemma same_answer_simps [simp]:
  "same_answer (Inl e) (Inl e')"
  "same_answer (Inr (L, s)) (Inr (M, d)) \<longleftrightarrow> forget L = forget M \<and> agrees s d"
  by (simp_all add: same_answer_def)

section \<open>Receipts\<close>

lemma filter_find:
  assumes "unique_on every key rows"
  shows "filter (\<lambda>r. key r = k) rows = (case find (\<lambda>r. key r = k) rows of None \<Rightarrow> [] | Some r \<Rightarrow> [r])"
proof (cases "find (\<lambda>r. key r = k) rows")
  case None
  then have "filter (\<lambda>r. key r = k) rows = []" by (simp add: find_None_iff filter_empty_conv)
  with None show ?thesis by simp
next
  case (Some r)
  then have "r \<in> set rows" "key r = k" by (auto dest: find_SomeD)
  with unique_on_filter_one [OF assms, of r] Some show ?thesis by simp
qed

lemma receipt_keys: "ledger_ok L \<Longrightarrow> unique_on every receipt_key (receipts L) \<and> unique_on every receipt_digest_key (receipts L)"
  by (simp add: ledger_ok_def receipts_ok_def)

lemma find_own_receipt: "ledger_ok L \<Longrightarrow> a \<in> set (receipts L) \<Longrightarrow> find_receipt L (ar_tenant a) (ar_operation a) = Some a"
  using receipt_keys [of L] find_unique [of every receipt_key "receipts L" a] by (simp add: find_receipt_def receipt_key_def)

text \<open>Whether the receipt of a replay is current.\<close>

lemma same_current:
  assumes ok: "ledger_ok L" and agree: "database_agrees E D" and f: "faithful E ms q L" and t: "told_apart ms now L"
    and user: "user \<in> set authorizers" and a: "a \<in> set (receipts L)" "reserved a" and one: "column_epoch E 1 = Inr 1"
  shows "\<exists>c. receipt_authority_current E ms now a L = Inr c \<and> receipt_current D user now L (ar_tenant a) (ar_operation a) = Inr (c, now)"
proof -
  let ?rows = "(find_resource L (ar_tenant a) (ar_resource a), find_outbox L (ar_tenant a) (ar_operation a), find_proposal L (ar_tenant a) (ai_proposal (ar_id a)))"
  note own = find_own_receipt [OF ok a(1)]
  show ?thesis
  proof (cases "\<exists>r b p. ?rows = (Some r, Some b, Some p)")
    case False
    then show ?thesis
      using user own a(2) by (auto simp: receipt_authority_current_def receipt_current_def split: option.splits)
  next
    case True
    then obtain r b p where r: "?rows = (Some r, Some b, Some p)" by blast
    then have in_rows: "r \<in> set (resources L)" "b \<in> set (outbox L)" "p \<in> set (proposals L)"
      by (auto simp: find_resource_def find_outbox_def find_proposal_def dest!: find_SomeD)
    from ok in_rows(2) obtain a' where a': "reserved a'" "backed_by_outbox b a'" "a' \<in> set (receipts L)" by (auto simp: ledger_ok_def links_ok_def)
    from ok a'(1,3) obtain p' where "p' \<in> set (proposals L)" "backed_by_proposal p' a'" by (auto simp: ledger_ok_def links_ok_def)
    with ok a'(2) have ob: "ai_epoch (ob_id b) = 1"
      by (auto simp: ledger_ok_def proposals_ok_def backed_by_proposal_def backed_by_outbox_def outbox_matches_def)
    from ok a obtain p' where "p' \<in> set (proposals L)" "backed_by_proposal p' a" by (auto simp: ledger_ok_def links_ok_def)
    with ok have ar: "ai_epoch (ar_id a) = 1" by (auto simp: ledger_ok_def proposals_ok_def backed_by_proposal_def)
    obtain x where x: "ar_expires a = Some x" using ok a by (auto simp: ledger_ok_def receipts_ok_def list_all_iff receipt_check_def)
    have times: "(ms x > ms now) = (x > now)" "(ms (pr_expires p) > ms now) = (pr_expires p > now)"
        "rs_holder r = Some h \<Longrightarrow> (ms (ho_expires h) > ms now) = (ho_expires h > now)" for h
      using t in_rows a(1) x by (auto simp: told_apart_def list_all_iff split: option.split_asm)
    have pay: "pr_canonical p = cloud_canonical_json E (pr_payload p)"
        "cloud_canonical_json E (ob_payload b) = cloud_canonical_json E (pr_payload p) \<longrightarrow> pr_payload p = ob_payload b"
      using f in_rows by (auto simp: faithful_def list_all_iff)
    have sha: "pg_sha256 D (pr_canonical p) = identity_digest E (pr_payload p)"
      using agree pay(1) by (simp add: database_agrees_def identity_digest_def)
    have ids: "ob_id b = ar_id a \<longleftrightarrow> ai_proposal (ob_id b) = ai_proposal (ar_id a) \<and> ai_action (ob_id b) = ai_action (ar_id a) \<and>
        ai_key (ob_id b) = ai_key (ar_id a) \<and> ai_binding (ob_id b) = ai_binding (ar_id a)"
      using ob ar by (cases "ob_id b"; cases "ar_id a") auto
    have "structurally_current D a r b p \<longleftrightarrow>
        ob_digest b = ar_digest a \<and> ai_proposal (ob_id b) = ai_proposal (ar_id a) \<and> ai_action (ob_id b) = ai_action (ar_id a) \<and>
        intent_agrees E a b p \<and> ar_fence a = Some (rs_fence r) \<and> ar_run a = rs_run r \<and>
        (case rs_holder r of None \<Rightarrow> False | Some h \<Rightarrow> ar_operation a = ho_operation h \<and> ai_proposal (ar_id a) = ho_proposal h \<and>
          ai_key (ar_id a) = ho_key h)"
      unfolding structurally_current_def outbox_matches_def intent_agrees_def ids sha using a(2) pay(2) by auto
    then show ?thesis
      using r user own a(2) times x one
      by (auto simp: receipt_authority_current_def receipt_current_def exact_intent_def ob ar holds_receipt_def date_or_zero_def
          split: option.splits)
  qed
qed

text \<open>The answer to a request answered before.\<close>

lemma same_replay:
  assumes ok: "ledger_ok L" and agree: "database_agrees E D" and f: "faithful E ms q L" and t: "told_apart ms now L"
    and user: "user \<in> set authorizers" and a: "a \<in> set (receipts L)" and one: "column_epoch E 1 = Inr 1"
    and how: "how \<in> {''operation_replay'', ''logical_authority_replay'', ''semantic_replay''}"
  shows "\<exists>s d. replay_receipt E ms now q how a L = Inr s \<and> replayed D user (\<lambda>_. now) L how a = Inr d \<and> agrees s d"
proof (cases "reserved a")
  case True
  from same_current [OF ok agree f t user a True one] obtain c where c: "receipt_authority_current E ms now a L = Inr c"
      "receipt_current D user now L (ar_tenant a) (ar_operation a) = Inr (c, now)" by blast
  from True how show ?thesis
    by (auto simp: replay_receipt_def replayed_def c agrees_def committed_outcome_def granted_def fresh_def)
next
  case False
  have "receipt_current D user now L (ar_tenant a) (ar_operation a) = Inr (False, now)"
    using user find_own_receipt [OF ok a] False by (auto simp: receipt_current_def structurally_current_def split: option.split)
  with False how show ?thesis
    by (auto simp: replay_receipt_def replayed_def agrees_def committed_outcome_def granted_def fresh_def)
qed

text \<open>Both look for an earlier answer in the same three ways.\<close>

definition same_earlier :: "store_error + spend_answer option \<Rightarrow> (sql_error + spend_decision) option \<Rightarrow> bool" where
  "same_earlier x y \<longleftrightarrow>
     (case y of
        None \<Rightarrow> x = Inr None
      | Some (Inl _) \<Rightarrow> (\<exists>e. x = Inl e)
      | Some (Inr d) \<Rightarrow> (\<exists>s. x = Inr (Some s) \<and> agrees s d))"

lemma same_earlier_replay:
  "\<exists>s d. replay_receipt E ms now q how a L = Inr s \<and> replayed D user clock L how a = Inr d \<and> agrees s d \<Longrightarrow>
   same_earlier (map_sum id Some (replay_receipt E ms now q how a L)) (Some (replayed D user clock L how a))"
  by (auto simp: same_earlier_def)

lemma spends_single: "ledger_ok L \<Longrightarrow> spends L tenant action = [] \<or> (\<exists>a \<in> set (receipts L). spends L tenant action = [a])"
proof -
  assume "ledger_ok L"
  then have u: "unique_on reserved receipt_action_key (receipts L)" by (simp add: ledger_ok_def receipts_ok_def)
  show ?thesis
  proof (cases "\<exists>a \<in> set (receipts L). reserved a \<and> receipt_action_key a = (tenant, action)")
    case True
    then obtain a where a: "a \<in> set (receipts L)" "reserved a" "receipt_action_key a = (tenant, action)" by blast
    with unique_on_filter_one [OF u a(1,2)] have "spends L tenant action = [a]" by (simp add: spends_def conj_commute)
    with a show ?thesis by blast
  qed (auto simp: spends_def filter_empty_conv)
qed

lemma same_existing:
  assumes ok: "ledger_ok L" and agree: "database_agrees E D" and f: "faithful E ms q L" and t: "told_apart ms now L"
    and user: "user \<in> set authorizers" and one: "column_epoch E 1 = Inr 1"
  shows "same_earlier (existing_receipt E ms now q L) (earlier_answer D user (\<lambda>_. now) q L)"
proof -
  note u = receipt_keys [OF ok]
  note same = same_earlier_replay [OF same_replay [OF ok agree f t user _ one]]
  have old: "a \<in> set (receipts L) \<Longrightarrow> ar_outcome a \<noteq> ''pending''" for a
    using ok by (auto simp: ledger_ok_def receipts_ok_def list_all_iff)
  have pay: "a \<in> set (receipts L) \<Longrightarrow> receipt_digest_key a = (sq_tenant q, sq_digest q) \<Longrightarrow> ar_payload a = sq_request q" for a
    using f by (auto simp: faithful_def list_all_iff)
  show ?thesis
  proof (cases "find_receipt L (sq_tenant q) (sq_operation q)")
    case (Some a)
    then have a: "a \<in> set (receipts L)" "receipt_key a = (sq_tenant q, sq_operation q)" by (auto simp: find_receipt_def dest!: find_SomeD)
    have r: "filter (\<lambda>a. receipt_key a = (sq_tenant q, sq_operation q)) (receipts L) = [a]"
      using filter_find [OF conjunct1 [OF u]] Some by (simp add: find_receipt_def)
    show ?thesis
    proof (cases "ar_digest a = sq_digest q")
      case True
      with a have "ar_payload a = sq_request q" by (intro pay) (simp_all add: receipt_key_def receipt_digest_key_def)
      with True show ?thesis using r Some old [OF a(1)] same [OF a(1)] by (simp add: existing_receipt_def earlier_answer_def)
    qed (simp add: existing_receipt_def earlier_answer_def r Some same_earlier_def sql_raise_def)
  next
    case None
    then have r: "filter (\<lambda>a. receipt_key a = (sq_tenant q, sq_operation q)) (receipts L) = []"
      using filter_find [OF conjunct1 [OF u]] by (simp add: find_receipt_def)
    from spends_single [OF ok, of "sq_tenant q" "sq_action q"] show ?thesis
    proof (elim disjE bexE)
      fix a assume "a \<in> set (receipts L)" "spends L (sq_tenant q) (sq_action q) = [a]"
      then show ?thesis using r None same by (simp add: existing_receipt_def earlier_answer_def)
    next
      assume sp: "spends L (sq_tenant q) (sq_action q) = []"
      show ?thesis
      proof (cases "find (\<lambda>a. receipt_digest_key a = (sq_tenant q, sq_digest q)) (receipts L)")
        case None': None
        with r None sp filter_find [OF conjunct2 [OF u], of "(sq_tenant q, sq_digest q)"] show ?thesis
          by (simp add: existing_receipt_def earlier_answer_def same_earlier_def)
      next
        case (Some a)
        then have a: "a \<in> set (receipts L)" "receipt_digest_key a = (sq_tenant q, sq_digest q)" by (auto dest!: find_SomeD)
        with r None sp Some filter_find [OF conjunct2 [OF u], of "(sq_tenant q, sq_digest q)"] show ?thesis
          using old [OF a(1)] pay [OF a] same [OF a(1)] by (simp add: existing_receipt_def earlier_answer_def)
      qed
    qed
  qed
qed

section \<open>Denials\<close>

lemma forget_update:
  assumes "a\<lparr>ar_evidence_digest := None\<rparr> = b\<lparr>ar_evidence_digest := None\<rparr>"
    and "ar_outcome a = ''authorization_denied''" and "ar_outcome b = ''authorization_denied''"
  shows "forget (L\<lparr>receipts := update_where P (\<lambda>_. a) rows\<rparr>) = forget (L\<lparr>receipts := update_where P (\<lambda>_. b) rows\<rparr>)"
  using assms by (auto simp: forget_def update_where_def)

lemma denied_update:
  assumes "\<not> reserved a"
  shows "update_receipt a L = (if receipt_check a then Inr (L\<lparr>receipts := update_where (\<lambda>b. receipt_key b = receipt_key a) (\<lambda>_. a) (receipts L)\<rparr>)
    else sql_raise ''23514'' ''g1_authority_receipts'')"
  using assms by (simp add: update_receipt_def spend_clash_def list_ex_iff)

lemma same_deny:
  assumes "ar_fence a = None"
  shows "same_answer (store_deny q a reason x L) (deny q a reason y now L)"
proof -
  let ?a = "\<lambda>z. a\<lparr>ar_outcome := ''authorization_denied'', ar_reason := Some reason, ar_evidence_digest := z\<rparr>"
  have nr: "\<not> reserved (?a z)" for z by (simp add: reserved_def)
  have same: "receipt_check (?a x) = receipt_check (?a y)" "receipt_key (?a x) = receipt_key (?a y)"
    by (simp_all add: reserved_def receipt_check_def receipt_key_def)
  have "forget (L\<lparr>receipts := update_where (\<lambda>b. receipt_key b = receipt_key (?a y)) (\<lambda>_. ?a x) (receipts L)\<rparr>)
      = forget (L\<lparr>receipts := update_where (\<lambda>b. receipt_key b = receipt_key (?a y)) (\<lambda>_. ?a y) (receipts L)\<rparr>)"
    by (rule forget_update) simp_all
  moreover have "agrees (written q ''authorization_denied'' (Some reason) (?a x)) (spend_denied q (Some (ar_id a)) ''authorization_denied'' reason now)"
    by (simp add: agrees_def committed_outcome_def written_def spend_denied_def assms granted_def fresh_def)
  ultimately show ?thesis
    unfolding store_deny_def deny_def denied_as_def denied_update [OF nr] same by (simp add: sql_raise_def)
qed

lemma same_deny_held:
  assumes "ar_fence a = None"
  shows "same_answer (store_deny_held q a x r h L) (deny_held q a r h (Some x) now L)"
proof -
  let ?a = "a\<lparr>ar_outcome := ''resource_held_denied'', ar_reason := Some ''active_holder'', ar_evidence_digest := Some x,
    ar_seen_holder := Some (ho_operation h), ar_seen_fence := Some (rs_fence r)\<rparr>"
  have "\<not> reserved ?a" by (simp add: reserved_def)
  then show ?thesis
    by (simp add: store_deny_held_def deny_held_def denied_as_def denied_update sql_raise_def agrees_def committed_outcome_def
        written_def spend_denied_def assms granted_def fresh_def)
qed

section \<open>Reservations\<close>

lemma concat_map_single:
  "filter P xs = [x] \<Longrightarrow> (\<And>y. y \<in> set xs \<Longrightarrow> \<not> P y \<Longrightarrow> f y = []) \<Longrightarrow> concat (map f xs) = f x"
proof (induction xs)
  case (Cons y ys)
  show ?case
  proof (cases "P y")
    case True
    with Cons.prems(1) have "y = x" "filter P ys = []" by simp_all
    then have "concat (map f ys) = []" using Cons.prems(2) by (auto simp: filter_empty_conv)
    with \<open>y = x\<close> show ?thesis by simp
  qed (use Cons in auto)
qed simp

lemma single_by_key: "unique_on every key rows \<Longrightarrow> r \<in> set rows \<Longrightarrow> filter (\<lambda>s. key s = key r) rows = [r]"
  using unique_on_filter_one [of every key rows r] by simp

text \<open>The check before the commit finds the one row it looks for.\<close>

lemma final_authority_single:
  assumes ok: "ledger_ok L" and rows: "r \<in> set (resources L)" "a \<in> set (receipts L)" "p \<in> set (proposals L)"
    and r: "resource_key r = (sq_tenant q, sq_resource q)" "rs_run r = sq_run q" "rs_fence r = f" "rs_holder r = Some h" "ho_operation h = sq_operation q"
    and a: "receipt_key a = (rs_tenant r, ho_operation h)" "reserved a" and p: "pr_tenant p = ar_tenant a" "pr_id p = ar_id a"
  shows "final_authority now q f L \<longleftrightarrow> held now r \<and> pr_expires p > now"
proof -
  let ?c = "\<lambda>r a p. resource_key r = (sq_tenant q, sq_resource q) \<and> rs_run r = sq_run q \<and> rs_fence r = f \<and>
      (case rs_holder r of None \<Rightarrow> False | Some h \<Rightarrow> ho_operation h = sq_operation q \<and> receipt_key a = (rs_tenant r, ho_operation h)) \<and>
      reserved a \<and> pr_tenant p = ar_tenant a \<and> pr_id p = ar_id a"
  have u: "unique_on every resource_key (resources L)" "unique_on every receipt_key (receipts L)" "unique_on every proposal_key (proposals L)"
    using ok by (simp_all add: ledger_ok_def tables_ok_def receipts_ok_def proposals_ok_def)
  let ?ps = "\<lambda>r a p. if ?c r a p then [(r, p)] else []"
  let ?as = "\<lambda>r a. concat (map (?ps r a) (proposals L))" let ?rs = "\<lambda>r. concat (map (?as r) (receipts L))"
  have "concat (map ?rs (resources L)) = ?rs r"
    by (rule concat_map_single [OF single_by_key [OF u(1) rows(1)]]) (use r in \<open>auto simp: concat_eq_Nil_conv\<close>)
  also have "\<dots> = ?as r a"
    by (rule concat_map_single [OF single_by_key [OF u(2) rows(2)]]) (use r a in \<open>auto simp: concat_eq_Nil_conv\<close>)
  also have "\<dots> = ?ps r a p"
    by (rule concat_map_single [OF single_by_key [OF u(3) rows(3)]]) (use p in \<open>auto simp: proposal_key_def\<close>)
  finally show ?thesis using r a p by (simp add: final_authority_def)
qed

text \<open>What the stages of a spend share: the request, its proposal and the tables.\<close>

lemma booked_current:
  assumes ok: "ledger_ok L" and b: "bookable q p r x L" and find: "find_resource L (sq_tenant q) (sq_resource q) = Some r"
    and run: "rs_run r = sq_run q" and p: "p \<in> set (proposals L)" "backed_by_proposal p (reserving q p (rs_fence r + 1) x)"
  shows "final_authority now q (rs_fence r + 1) (booked q p r x y L) \<longleftrightarrow> y > now \<and> pr_expires p > now"
proof -
  let ?a = "reserving q p (rs_fence r + 1) x" let ?r = "acquired q ?a y r"
  have rin: "r \<in> set (resources L)" "resource_key r = (sq_tenant q, sq_resource q)"
    using find by (auto simp: find_resource_def dest!: find_SomeD)
  then have r: "?r \<in> set (resources (booked q p r x y L))" "?a \<in> set (receipts (booked q p r x y L))" "p \<in> set (proposals (booked q p r x y L))"
    using p by (auto simp: booked_def Let_def set_update_where)
  have "resource_key ?r = (sq_tenant q, sq_resource q)" "rs_run ?r = sq_run q" "rs_fence ?r = rs_fence r + 1" "rs_holder ?r = Some
      \<lparr>ho_incident = sq_incident q, ho_operation = sq_operation q, ho_agent = sq_agent q, ho_proposal = sq_proposal q,
       ho_key = ai_key (ar_id ?a), ho_expires = y\<rparr>" "rs_tenant ?r = sq_tenant q"
    using rin(2) run by (simp_all add: acquired_def resource_key_def)
  moreover have "receipt_key ?a = (sq_tenant q, sq_operation q)" "reserved ?a" "pr_tenant p = ar_tenant ?a" "pr_id p = ar_id ?a"
    using p(2) by (simp_all add: backed_by_proposal_def receipt_key_def reserving_def pending_receipt_def reserved_def)
  ultimately show ?thesis
    using final_authority_single [OF booking_ok [OF ok b find run p] r, of q] by (simp add: held_def)
qed

lemma same_reserve:
  assumes ok: "ledger_ok L" and i: "insert_pending (pending_receipt q p) L = Inr (Some L1)"
    and find: "find_resource L (sq_tenant q) (sq_resource q) = Some r" and run: "rs_run r = sq_run q" and f: "rs_fence r < int8_max"
    and p: "p \<in> set (proposals L)" "\<And>f x. backed_by_proposal p (reserving q p f x)" "pr_expires p > now"
    and lease: "sq_lease q > 0" "ms (now + sq_lease q * 1000) * 1000 = now + sq_lease q * 1000"
  shows "same_answer (store_reserve ms (\<lambda>_. now) q (pending_receipt q p) (sq_evidence_digest q) r L1)
    (reserve q (pending_receipt q p) r (Some (sq_evidence_digest q)) now L1)"
proof -
  let ?x = "now + sq_lease q * 1000"
  let ?a = "(pending_receipt q p)\<lparr>ar_outcome := ''resource_reserved'', ar_evidence_digest := Some (sq_evidence_digest q),
    ar_fence := Some (rs_fence r + 1), ar_expires := Some ?x\<rparr>"
  let ?u = "update_receipt ?a (L1\<lparr>resources := update_where (\<lambda>s. resource_key s = (sq_tenant q, sq_resource q))
    (acquired q (pending_receipt q p) ?x) (resources L1)\<rparr>)"
  let ?o = "insert_outbox (intent q (pending_receipt q p) (rs_fence r + 1))"
  show ?thesis
  proof (cases "and_then ?u ?o")
    case (Inl e)
    then show ?thesis
      unfolding store_reserve_def reserve_def Let_def lease(2) by (cases ?u) (simp_all add: same_answer_def)
  next
    case (Inr L')
    then obtain L2 where o: "?u = Inr L2" "?o L2 = Inr L'" by (auto simp: and_then_eq_Inr)
    obtain d where s: "store_reserve ms (\<lambda>_. now) q (pending_receipt q p) (sq_evidence_digest q) r L1 = Inr (L', d)"
        "sa_receipt d = Some ?a" "sa_current d = final_authority now q (rs_fence r + 1) L'" "granted d"
      unfolding store_reserve_def Let_def lease(2) by (simp add: o granted_def)
    from store_reserve_books [OF i s(1) f] have b: "bookable q p r ?x L" "L' = booked q p r ?x ?x L" by (simp_all add: lease(2))
    from booked_current [OF ok b(1) find run p(1,2), of now ?x] have "sa_current d" using s(3) b(2) lease(1) p(3) by simp
    with s show ?thesis
      by (simp add: reserve_def Let_def o agrees_def committed_outcome_def spend_granted_def fresh_def)
  qed
qed

section \<open>The resource and the evidence\<close>

lemma bound_while_current:
  assumes "bound_in E ms now r False L = Inr b" and "b = Bound True row n"
  shows "bound_in E ms now r True L = Inr b"
  using assms unfolding bound_in_def bound_proposal_def
  by (auto simp: call_Inr and_then_eq_Inr proposal_columns_read Let_def later_def not_later_def driver_date_def split: list.split_asm if_split_asm)

lemma same_acquire:
  assumes "filter (\<lambda>p. proposal_key p = (sq_tenant q, sq_proposal q)) (proposals L) = [p]" and "pr_id p = ar_id a"
  shows "may_acquire now q a s L \<longleftrightarrow> can_acquire now now q a s L"
proof -
  have one: "x \<in> set (proposals L) \<and> proposal_key x = (sq_tenant q, sq_proposal q) \<longleftrightarrow> x = p" for x
    using arg_cong [OF assms(1), of "\<lambda>ps. x \<in> set ps"] by simp
  have "list_ex (\<lambda>x. proposal_key x = (sq_tenant q, sq_proposal q) \<and> R x) (proposals L) \<longleftrightarrow> R p" for R
    by (simp add: list_ex_iff Bex_def conj_assoc [symmetric] one)
  then show ?thesis using assms(2) by (simp add: may_acquire_def can_acquire_def)
qed

lemma admission_of_one:
  assumes "evidence_ok (evidence L)" and "user \<in> set authorizers"
  shows "evidence_for q L = [] \<and> admission user now q L = (''evidence_missing'', None) \<or>
    (\<exists>e \<in> set (evidence_rows (evidence L)). evidence_for q L = [e] \<and>
      admission user now q L = (admissibility_of (evidence L) now (sq_agency q) e, ev_digest e))"
proof -
  let ?P = "\<lambda>e. evidence_key e = (sq_tenant q, sq_evidence q)" let ?I = "\<lambda>e. ev_incident e = sq_incident q"
  have find_map: "find P (map f (filter Q rows)) = map_option f (find (\<lambda>e. Q e \<and> P (f e)) rows)" for P Q rows and f :: "evidence_row \<Rightarrow> 'b"
    by (induction rows) auto
  have obs: "admission user now q L = (case find (\<lambda>e. ?P e \<and> ?I e) (evidence_rows (evidence L)) of
      None \<Rightarrow> (''evidence_missing'', None) | Some e \<Rightarrow> (admissibility_of (evidence L) now (sq_agency q) e, ev_digest e))"
    using assms(2)
    by (auto simp: admission_def observe_admissibility_def list_admissibility_def authorizers_def find_map evidence_key_def
        option.map_comp comp_def conj_ac split: option.split)
  have "evidence_for q L = filter ?I (filter ?P (evidence_rows (evidence L)))"
    by (simp add: evidence_for_def conj_commute)
  with filter_find [of evidence_key "evidence_rows (evidence L)" "(sq_tenant q, sq_evidence q)"] assms(1)
  have one: "evidence_for q L = [] \<or> (\<exists>e. evidence_for q L = [e])"
    by (auto simp: evidence_ok_def split: option.split)
  have hd: "find Q rows = (case filter Q rows of [] \<Rightarrow> None | e # _ \<Rightarrow> Some e)" for Q and rows :: "evidence_row list"
    by (induction rows) auto
  have "find (\<lambda>e. ?P e \<and> ?I e) (evidence_rows (evidence L)) = (case evidence_for q L of [] \<Rightarrow> None | e # _ \<Rightarrow> Some e)"
    by (simp add: evidence_for_def hd)
  moreover have "e \<in> set (evidence_rows (evidence L))" if "evidence_for q L = [e]" for e
    using arg_cong [OF that, of set] by (auto simp: evidence_for_def)
  ultimately show ?thesis using one obs by auto
qed

text \<open>From the pending receipt on.\<close>

lemma same_take:
  assumes ok: "ledger_ok L" and t: "told_apart ms now L" and i: "insert_pending (pending_receipt q p) L = Inr (Some L1)" and q: "q = spend_parameters r"
    and b: "binds E ms now r b p L" "bound_in E ms now r False L = Inr b" "b = Bound True row n"
    and adm: "admission user now q L = (''admissible'', Some (sq_evidence_digest q))"
    and lease: "sq_lease q > 0" "ms (now + sq_lease q * 1000) * 1000 = now + sq_lease q * 1000"
  shows "same_answer (take_resource E ms (\<lambda>_. now) r (pending_receipt q p) (sq_evidence_digest q) L1)
    (settle user now (\<lambda>_. now) q p (pending_receipt q p) L1)"
proof -
  let ?a = "pending_receipt q p"
  have L1: "L1 = L\<lparr>receipts := receipts L @ [?a]\<rparr>" using i by (simp add: insert_pending_Some)
  have f: "ar_fence ?a = None" by (simp add: pending_receipt_def)
  note deny = same_deny [of ?a q _ "Some (sq_evidence_digest q)" L1 "Some (sq_evidence_digest q)" now, OF f] and held = same_deny_held [of ?a q "sq_evidence_digest q" _ _ L1 now, OF f]
  have p: "filter (\<lambda>p. proposal_key p = (sq_tenant q, sq_proposal q)) (proposals L) = [p]" "pr_id p = bound_identity q b" "pr_expires p > now"
    using b(1,3) t binds_backed [OF b(1) q] by (auto simp: binds_def Let_def q told_apart_def list_all_iff)
  have id: "pr_id p = ar_id ?a" using p(2) by (simp add: pending_receipt_def bound_identity_def)
  note backed = binds_backed [OF b(1) q]
  have acq: "may_acquire now q ?a s L1 = can_acquire now now q ?a s L1" for s
    by (rule same_acquire [OF _ id]) (simp add: L1 p(1))
  have adm1: "admission user now q L1 = (''admissible'', Some (sq_evidence_digest q))" using adm by (simp add: admission_def L1)
  have "bound_in E ms now r True L1 = Inr b" using bound_while_current [OF b(2,3)] by (simp add: bound_in_def L1)
  then have fail: "\<exists>e. acquisition_failed E ms (\<lambda>_. now) r ?a (sq_evidence_digest q) L1 = Inl e"
    using b(3) by (simp add: acquisition_failed_def)
  show ?thesis
  proof (cases "find_resource L1 (sq_tenant q) (sq_resource q)")
    case None
    then show ?thesis using deny by (simp add: take_resource_def settle_def Let_def q [symmetric] adm1)
  next
    case (Some s)
    then have find: "find_resource L (sq_tenant q) (sq_resource q) = Some s" by (simp add: find_resource_def L1)
    then have "s \<in> set (resources L)" by (auto simp: find_resource_def dest!: find_SomeD)
    with t have apart: "rs_holder s = Some h \<Longrightarrow> (ms (ho_expires h) > ms now) = (ho_expires h > now)" for h
      by (auto simp: told_apart_def list_all_iff split: option.split_asm)
    have last: "same_answer (if may_acquire now q ?a s L1 then store_reserve ms (\<lambda>_. now) q ?a (sq_evidence_digest q) s L1
          else acquisition_failed E ms (\<lambda>_. now) r ?a (sq_evidence_digest q) L1)
        (if can_acquire now now q ?a s L1 then reserve q ?a s (Some (sq_evidence_digest q)) now L1
          else if pr_expires p \<le> now then deny q ?a ''proposal_authorization_expired'' (Some (sq_evidence_digest q)) now L1
          else sql_raise ''XX000'' ''resource acquisition invariant'')"
    proof (cases "can_acquire now now q ?a s L1")
      case True
      then have "rs_run s = sq_run q" "rs_fence s < int8_max" by (simp_all add: can_acquire_def)
      then have "same_answer (store_reserve ms (\<lambda>_. now) q ?a (sq_evidence_digest q) s L1)
          (reserve q ?a s (Some (sq_evidence_digest q)) now L1)"
        using backed by (intro same_reserve [OF ok i find] p(3) lease) simp_all
      with True show ?thesis unfolding acq by simp
    qed (use fail p(3) acq in \<open>auto simp: sql_raise_def\<close>)
    show ?thesis
      using Some deny held last apart p(3)
      by (cases "rs_holder s") (auto simp: take_resource_def settle_def Let_def q [symmetric] adm1)
  qed
qed

lemma same_settle:
  assumes ok: "ledger_ok L" and f: "faithful E ms q L" and t: "told_apart ms now L" and i: "insert_pending (pending_receipt q p) L = Inr (Some L1)"
    and q: "q = spend_parameters r" and user: "user \<in> set authorizers"
    and b: "binds E ms now r b p L" "bound_in E ms now r False L = Inr b" "b = Bound True row n"
    and lease: "sq_lease q > 0" "ms (now + sq_lease q * 1000) * 1000 = now + sq_lease q * 1000"
  shows "same_answer (store_settle E ms (\<lambda>_. now) r (pending_receipt q p) L1) (settle user now (\<lambda>_. now) q p (pending_receipt q p) L1)"
proof -
  let ?a = "pending_receipt q p"
  have L1: "evidence_for q L1 = evidence_for q L" "evidence L1 = evidence L" "admission user now q L1 = admission user now q L"
    using i by (auto simp: insert_pending_Some evidence_for_def admission_def)
  have "ar_fence ?a = None" by (simp add: pending_receipt_def)
  note deny = same_deny [OF this]
  from ok have "evidence_ok (evidence L)" by (simp add: ledger_ok_def)
  from admission_of_one [OF this user, of q now] show ?thesis
  proof (elim disjE conjE bexE)
    assume "evidence_for q L = []" "admission user now q L = (''evidence_missing'', None)"
    then show ?thesis using deny by (simp add: store_settle_def settle_def Let_def q [symmetric] L1)
  next
    fix e assume e: "e \<in> set (evidence_rows (evidence L))" "evidence_for q L = [e]"
        "admission user now q L = (admissibility_of (evidence L) now (sq_agency q) e, ev_digest e)"
    show ?thesis
    proof (cases "admissibility_of (evidence L) now (sq_agency q) e = ''admissible''")
      case False
      then show ?thesis using deny e by (simp add: store_settle_def settle_def Let_def q [symmetric] L1)
    next
      case True
      then obtain d where d: "ev_digest e = Some d" by (cases "ev_digest e") (simp_all add: admissibility_of_def)
      with f e(1) have s: "stored_evidence_digest E ms e = Inr d" by (auto simp: faithful_def list_all_iff split: option.split_asm)
      show ?thesis
      proof (cases "d = sq_evidence_digest q")
        case False
        then show ?thesis using deny e True d s by (simp add: store_settle_def settle_def Let_def q [symmetric] L1 known_differs_def)
      next
        case same: True
        with True e d s have "store_settle E ms (\<lambda>_. now) r ?a L1 = take_resource E ms (\<lambda>_. now) r ?a (sq_evidence_digest q) L1"
          by (simp add: store_settle_def Let_def q [symmetric] L1)
        with same_take [OF ok t i q b _ lease, of user] True e(3) d same show ?thesis by simp
      qed
    qed
  qed
qed

section \<open>The whole spend\<close>

text \<open>A request in normal form passes the checks of the stored function, up to the lock of the epoch.\<close>

lemma request_passes:
  assumes n: "normalize_request E inp = Inr r" and agree: "database_agrees E D" and q: "q = spend_parameters r"
  shows "digests_shaped q \<and> lease_length_ok (sq_lease q) \<and> is_object (sq_request q) \<and> is_object (sq_payload q) \<and> request_bound D q \<and> sq_lease q > 0"
proof -
  have asks: "asks r q" unfolding q by (rule parameters_ask [OF n])
  from normalized_shape [OF n] asks obtain kvs p where "sq_request q = Obj kvs" "dispatch_payload p = Inr (sq_payload q)"
    by (auto simp: asks_def)
  then have "is_object (sq_request q)" "is_object (sq_payload q)" by (auto dest: dispatch_payload_shape)
  moreover have "lease_in_policy E r" using normalized_well_formed [OF n] by (simp add: request_well_formed_def)
  with asks have "lease_length_ok (sq_lease q)"
    by (auto simp: lease_in_policy_def asks_def min_lease_ms_def as_safe_integer_int lease_allowed_def lease_length_ok_def
        standard_max_lease_ms_def max_lease_ms_def split: option.split_asm if_split_asm)
  ultimately show ?thesis
    using bound_digests(3) [OF n agree asks] request_is_bound [OF n agree asks] by (auto simp: lease_length_ok_def)
qed

lemma bound_proposal_found:
  assumes n: "normalize_request E inp = Inr r" and agree: "database_agrees E D" and q: "q = spend_parameters r"
    and b: "binds E ms now r b p L" and ok: "ledger_ok L" and f: "faithful E ms q L"
  shows "proposal_for q L = Some p \<and> digests_derived D q p \<and> ai_epoch (pr_id p) = 1 \<and>
    (sq_lease q > 600000 \<longrightarrow> pr_expires p - pr_admitted p = 1800000000) \<and>
    (\<exists>e. find_epoch L (sq_tenant q) (sq_action q) = Some e \<and> ep_epoch e = 1)"
proof -
  have asks: "asks r q" unfolding q by (rule parameters_ask [OF n])
  have B: "filter (\<lambda>p. proposal_key p = (sq_tenant q, sq_proposal q)) (proposals L) = [p]" "pr_tenant p = sq_tenant q" "pr_id p = bound_identity q b"
      "pr_run p = sq_run q" "pr_incident p = sq_incident q" "pr_resource p = sq_resource q" "pr_agency p = sq_agency q" "pr_kind p = action_kind"
      "pr_payload_digest p = sq_payload_digest q" "pr_evidence p = sq_evidence q" "pr_evidence_digest p = sq_evidence_digest q"
      "pr_canonical p = cloud_canonical_json E (sq_payload q)" "cloud_canonical_json E (pr_payload p) = cloud_canonical_json E (sq_payload q)"
    using b by (simp_all add: binds_def Let_def q)
  have pin: "p \<in> set (proposals L)" "proposal_key p = (sq_tenant q, sq_proposal q)" using arg_cong [OF B(1), of set] by auto
  have pay: "pr_payload p = sq_payload q" using f B(13) pin(1) by (auto simp: faithful_def list_all_iff)
  from ok have po: "proposals_ok L" by (simp add: ledger_ok_def)
  with pin(1) have p1: "proposal_check p" "ai_epoch (pr_id p) = 1"
      "\<exists>e \<in> set (epochs L). epoch_key e = (pr_tenant p, ai_action (pr_id p)) \<and> ep_epoch e = 1" by (auto simp: proposals_ok_def)
  have act: "ai_action (pr_id p) = sq_action q" "pr_rank p = 1" using B(3) p1(1) by (simp_all add: bound_identity_def proposal_check_def)
  have "proposal_for q L = Some p"
  proof (cases "proposal_for q L")
    case None
    then show ?thesis using pin B act pay by (auto simp: proposal_for_def find_None_iff)
  next
    case (Some p')
    then have "p' \<in> set (filter (\<lambda>p. proposal_key p = (sq_tenant q, sq_proposal q)) (proposals L))"
      by (auto simp: proposal_for_def dest!: find_SomeD)
    with B(1) Some show ?thesis by simp
  qed
  moreover from normalized_shape [OF n] asks obtain i where "dispatch_payload i = Inr (sq_payload q)" by (auto simp: asks_def)
  then have "digests_derived D q p"
    using digests_derived_for [OF n agree asks, of p] payload_texts [OF agree] B(12) by metis
  moreover from p1(3) obtain e where "e \<in> set (epochs L)" "epoch_key e = (sq_tenant q, sq_action q)" "ep_epoch e = 1" using B(2) act(1) by auto
  moreover from this have "find_epoch L (sq_tenant q) (sq_action q) = Some e"
    using po find_unique_iff [of epoch_key "epochs L"] by (simp add: find_epoch_def proposals_ok_def)
  moreover have "sq_lease q > 600000 \<longrightarrow> pr_expires p - pr_admitted p = 1800000000"
    using f pin by (auto simp: faithful_def list_all_iff)
  ultimately show ?thesis using p1(2) by blast
qed

text \<open>With nothing in the way the pending receipt is written or refused by both.\<close>

lemma same_new:
  assumes ok: "ledger_ok L" and f: "faithful E ms q L" and t: "told_apart ms now L" and q: "q = spend_parameters r" and user: "user \<in> set authorizers"
    and none: "existing_receipt E ms now q L = Inr None"
    and b: "binds E ms now r b p L" "bound_in E ms now r False L = Inr b" "b = Bound True row n"
    and lease: "sq_lease q > 0" "ms (now + sq_lease q * 1000) * 1000 = now + sq_lease q * 1000"
  shows "same_answer (spend_new E ms (\<lambda>_. now) r (bound_identity q b) L) (spend_fresh D user now (\<lambda>_. now) q p L)"
proof -
  have id: "pr_id p = bound_identity q b" using b(1) by (simp add: binds_def Let_def q)
  note a = opened_is_pending [OF id]
  from none have free: "filter (\<lambda>a. receipt_key a = (sq_tenant q, sq_operation q)) (receipts L) = []"
      "filter (\<lambda>a. receipt_digest_key a = (sq_tenant q, sq_digest q)) (receipts L) = []"
    by (auto simp: existing_receipt_def map_sum_eq_Inr split: list.split_asm if_split_asm)
  then have free': "\<not> taken every receipt_key (receipt_key (pending_receipt q p)) (receipts L)"
      "\<not> taken every receipt_digest_key (receipt_digest_key (pending_receipt q p)) (receipts L)"
    by (auto simp: taken_iff filter_empty_conv)
  show ?thesis
  proof (cases "insert_pending (pending_receipt q p) L")
    case (Inl e)
    then show ?thesis by (simp add: spend_new_def spend_fresh_def Let_def q [symmetric] a)
  next
    case (Inr i)
    with free' obtain L1 where "i = Some L1" by (auto simp: insert_pending_def split: if_split_asm)
    with Inr same_settle [OF ok f t _ q user b lease, of L1] show ?thesis
      by (simp add: spend_new_def spend_fresh_def Let_def q [symmetric] a)
  qed
qed

lemma epochs_are_read:
  assumes "bound_in E ms now r need L = Inr (Bound c row n)" and "ledger_ok L"
  shows "column_epoch E 1 = Inr 1"
proof -
  let ?key = "\<lambda>p. proposal_key p = (text_of (fld r ''tenantId''), text_of (fld r ''proposalDigest''))"
  from assms(1) obtain p where one: "filter ?key (proposals L) = [p]" and p: "epoch_from_row E (driver_int (ai_epoch (pr_id p))) = Inr n"
    unfolding bound_in_def bound_proposal_def
    by (auto simp: call_Inr and_then_eq_Inr proposal_columns_read Let_def split: list.split_asm if_split_asm)
  have "p \<in> set (proposals L)" using arg_cong [OF one, of set] by auto
  with assms(2) have "ai_epoch (pr_id p) = 1" by (auto simp: ledger_ok_def proposals_ok_def)
  with p epoch_from_row_text [OF p] show ?thesis by (simp add: column_epoch_def)
qed

text \<open>Both come to the lock of the epoch and ask for an earlier answer.\<close>

lemma spend_stages:
  assumes n: "normalize_request E inp = Inr r" and agree: "database_agrees E D" and user: "user \<in> set authorizers"
    and ok: "ledger_ok L" and f: "faithful E ms q L" and t: "told_apart ms now L"
    and b: "bound_in E ms now r False L = Inr (Bound c row m)" and p: "binds E ms now r (Bound c row m) p L" and q: "q = spend_parameters r"
  shows "store_spend E ms (\<lambda>_. now) inp L = and_then (existing_receipt E ms now q L) (\<lambda>existing.
      case existing of
        Some answer \<Rightarrow> Inr (L, answer)
      | None \<Rightarrow> if pr_expires p \<le> now then Inr (L, unwritten q ''proposal_authorization_expired'')
          else spend_new E ms (\<lambda>_. now) r (bound_identity q (Bound c row m)) L)"
    and "spend_authority D user now (\<lambda>_. now) q L = (case earlier_answer D user (\<lambda>_. now) q L of
      Some d \<Rightarrow> unchanged L d
    | None \<Rightarrow>
        if pr_expires p \<le> now then Inr (L, spend_denied q (Some (pr_id p)) ''authorization_denied'' ''proposal_authorization_expired'' now)
        else spend_fresh D user now (\<lambda>_. now) q p L)"
    and "c \<longleftrightarrow> now < pr_expires p"
proof -
  note pass = request_passes [OF n agree q]
  from bound_proposal_found [OF n agree q p ok f] obtain e where found: "proposal_for q L = Some p" "digests_derived D q p"
      "ai_epoch (pr_id p) = 1" "sq_lease q > 600000 \<longrightarrow> pr_expires p - pr_admitted p = 1800000000"
      "find_epoch L (sq_tenant q) (sq_action q) = Some e" "ep_epoch e = 1" by blast
  have "p \<in> set (proposals L)" using binds_backed [OF p q] by blast
  then have now: "ep_epoch e = m" "c = (pr_expires p > now)"
    using p found(3,6) t by (auto simp: binds_def Let_def bound_identity_def told_apart_def list_all_iff)
  then show "c \<longleftrightarrow> now < pr_expires p" by simp
  have late: "pr_expires p \<le> now \<longleftrightarrow> \<not> c" using now(2) by auto
  show "store_spend E ms (\<lambda>_. now) inp L = and_then (existing_receipt E ms now q L) (\<lambda>existing.
      case existing of
        Some answer \<Rightarrow> Inr (L, answer)
      | None \<Rightarrow> if pr_expires p \<le> now then Inr (L, unwritten q ''proposal_authorization_expired'')
          else spend_new E ms (\<lambda>_. now) r (bound_identity q (Bound c row m)) L)"
    using n b found(5) now(1) unfolding late by (simp add: store_spend_def spend_work_def spend_bound_def Let_def q [symmetric])
  have window: "\<not> (sq_lease q > 600000 \<and> \<not> (sq_lease q = 1800000 \<and> pr_expires p - pr_admitted p = 1800000000))"
    using pass found(4) by (auto simp: lease_length_ok_def)
  have epoch: "ep_epoch e = ai_epoch (pr_id p)" using found(3,6) by simp
  show "spend_authority D user now (\<lambda>_. now) q L = (case earlier_answer D user (\<lambda>_. now) q L of
      Some d \<Rightarrow> unchanged L d
    | None \<Rightarrow>
        if pr_expires p \<le> now then Inr (L, spend_denied q (Some (pr_id p)) ''authorization_denied'' ''proposal_authorization_expired'' now)
        else spend_fresh D user now (\<lambda>_. now) q p L)"
    unfolding spend_authority_def
    by (simp only: pass user found(1,2,5) window epoch simp_thms if_True if_False option.case)
qed

text \<open>C6. The two implementations of spending agree: on tables that keep the invariant, at one reading
  of the clock and for the same request, bound to its proposal, the transaction of the
  JavaScript store and the stored function of the database both fail or both answer, with the
  same outcome, the same word on whether the authority is current, the same fence, the same
  verdict on who is freshly granted, and the same tables afterwards, but for the evidence digest
  kept in the receipt of a denial. What is assumed of the data is that the driver's milliseconds
  tell its times apart, that canonical texts and digests stand for one value each, that an
  extended lease is asked for a window of exactly thirty minutes, and that the lease ends on a
  millisecond.\<close>

theorem store_and_database_spend_alike:
  assumes "normalize_request E inp = Inr r" and "database_agrees E D" and "user \<in> set authorizers"
    and "ledger_ok L" and "faithful E ms (spend_parameters r) L" and "told_apart ms now L"
    and "bound_in E ms now r False L = Inr (Bound c row n)"
    and "ms (now + sq_lease (spend_parameters r) * 1000) * 1000 = now + sq_lease (spend_parameters r) * 1000"
  shows "same_answer (store_spend E ms (\<lambda>_. now) inp L) (spend_authority D user now (\<lambda>_. now) (spend_parameters r) L)"
proof -
  let ?q = "spend_parameters r" let ?b = "Bound c row n"
  from bound_in_Inr [OF assms(1,7) refl] obtain p where p: "binds E ms now r ?b p L" by blast
  note stages = spend_stages [OF assms(1-7) p refl]
  have denied: "agrees (unwritten ?q reason) (spend_denied ?q i ''authorization_denied'' reason now)" for reason i
    by (simp add: agrees_def unwritten_def spend_denied_def committed_outcome_def granted_def fresh_def)
  have same: "same_earlier (existing_receipt E ms now ?q L) (earlier_answer D user (\<lambda>_. now) ?q L)"
    by (rule same_existing [OF assms(4,2,5,6,3) epochs_are_read [OF assms(7,4)]])
  show ?thesis
  proof (cases "earlier_answer D user (\<lambda>_. now) ?q L")
    case None
    with same have none: "existing_receipt E ms now ?q L = Inr None" by (simp add: same_earlier_def)
    have "c \<Longrightarrow> same_answer (spend_new E ms (\<lambda>_. now) r (bound_identity ?q ?b) L) (spend_fresh D user now (\<lambda>_. now) ?q p L)"
      using same_new [OF assms(4,5,6) refl assms(3) none p assms(7) _ _ assms(8)] request_passes [OF assms(1,2) refl] by simp
    with None none denied stages(3) show ?thesis unfolding stages(1,2) by simp
  next
    case (Some d)
    with same show ?thesis unfolding stages(1,2) by (auto simp: same_earlier_def unchanged_def split: sum.split_asm)
  qed
qed

section \<open>A request both decide on\<close>

definition both_proposal :: proposal_row where
  "both_proposal = \<lparr>pr_tenant = sample_uuid (CHR ''1''),
     pr_id = \<lparr>ai_proposal = replicate 64 (CHR ''a''), ai_action = replicate 64 (CHR ''a''), ai_epoch = 1, ai_key = replicate 64 (CHR ''a''),
       ai_binding = replicate 64 (CHR ''a'')\<rparr>,
     pr_resource = ''boat-1'', pr_agency = ''harbor'', pr_kind = action_kind, pr_payload = sample_payload_value,
     pr_canonical = cloud_canonical_json request_env sample_payload_value, pr_payload_digest = replicate 64 (CHR ''a''),
     pr_retrieval = sample_uuid (CHR ''4''), pr_run = sample_uuid (CHR ''2''), pr_incident = sample_uuid (CHR ''3''),
     pr_evidence_binding = replicate 64 (CHR ''b''), pr_policy = ''g1-admissibility-v2'', pr_rank = 1, pr_evidence = sample_uuid (CHR ''5''),
     pr_evidence_digest = replicate 64 (CHR ''c''), pr_admitted = 0, pr_expires = 1800000000\<rparr>"

definition both_ledger :: ledger where
  "both_ledger = empty_ledger\<lparr>epochs := [\<lparr>ep_tenant = sample_uuid (CHR ''1''), ep_action = replicate 64 (CHR ''a''), ep_epoch = 1\<rparr>],
     proposals := [both_proposal]\<rparr>"

lemma both_columns:
  "pr_tenant both_proposal = sample_uuid (CHR ''1'')" "ai_proposal (pr_id both_proposal) = replicate 64 (CHR ''a'')"
  "ai_action (pr_id both_proposal) = replicate 64 (CHR ''a'')" "ai_epoch (pr_id both_proposal) = 1" "ai_key (pr_id both_proposal) = replicate 64 (CHR ''a'')"
  "ai_binding (pr_id both_proposal) = replicate 64 (CHR ''a'')" "pr_resource both_proposal = ''boat-1''" "pr_agency both_proposal = ''harbor''"
  "pr_kind both_proposal = action_kind" "pr_payload both_proposal = sample_payload_value"
  "pr_canonical both_proposal = cloud_canonical_json request_env sample_payload_value" "pr_payload_digest both_proposal = replicate 64 (CHR ''a'')"
  "pr_retrieval both_proposal = sample_uuid (CHR ''4'')" "pr_run both_proposal = sample_uuid (CHR ''2'')" "pr_incident both_proposal = sample_uuid (CHR ''3'')"
  "pr_evidence_binding both_proposal = replicate 64 (CHR ''b'')" "pr_policy both_proposal = ''g1-admissibility-v2''" "pr_rank both_proposal = 1"
  "pr_evidence both_proposal = sample_uuid (CHR ''5'')" "pr_evidence_digest both_proposal = replicate 64 (CHR ''c'')" "pr_admitted both_proposal = 0"
  "pr_expires both_proposal = 1800000000"
  by (simp_all add: both_proposal_def)

lemma both_matches: "proposal_receipt_matches request_env (proposal_object (\<lambda>t. t div 1000) 0 both_proposal) (authorization_from_request sample_request_value)
    = Inr True"
proof -
  obtain key binding where k: "logical_authority_key request_env (Obj [(''logicalActionDigest'', Str (replicate 64 (CHR ''a''))), (''authorizationEpoch'', Num (Fin 1))]) = Inr key"
      "fld key ''logicalAuthorityKeySha256'' = Str (replicate 64 (CHR ''a''))"
    and b: "authorization_binding request_env (Obj [(''logicalActionDigest'', Str (replicate 64 (CHR ''a''))),
        (''proposalDigest'', Str (replicate 64 (CHR ''a''))), (''authorizationEpoch'', Num (Fin 1))]) = Inr binding"
      "fld binding ''authorizationBindingSha256'' = Str (replicate 64 (CHR ''a''))"
    using sample_key sample_binding by blast
  have one: "int_str 1 = ''1''" by code_simp
  have dates: "driver_date (\<lambda>t. t div 1000) 0 = stamp 0" "driver_date (\<lambda>t. t div 1000) 1800000000 = stamp 1800000"
    by (simp_all add: driver_date_def)
  have "js_number request_env (Str ''1'') = Fin 1" "truthy (proposal_object (\<lambda>t. t div 1000) 0 both_proposal)"
    by (simp_all add: request_env_def proposal_object_def)
  then show ?thesis
    by (simp add: proposal_receipt_matches_def proposal_columns_read both_columns driver_int_def one dates authorization_from_request_def request_columns
        sample_proposal_columns sample_epoch sample_dates k b Let_def)
qed

lemma both_rows: "proposals both_ledger = [both_proposal]" "receipts both_ledger = []" "resources both_ledger = []" "outbox both_ledger = []"
    "effects both_ledger = []" "evidence both_ledger = no_evidence"
    "epochs both_ledger = [\<lparr>ep_tenant = sample_uuid (CHR ''1''), ep_action = replicate 64 (CHR ''a''), ep_epoch = 1\<rparr>]"
  by (simp_all add: both_ledger_def empty_ledger_def)

lemma both_bound: "\<exists>row. bound_in request_env (\<lambda>t. t div 1000) 0 sample_request_value False both_ledger = Inr (Bound True row 1)"
proof -
  have one: "int_str 1 = ''1''" by code_simp
  have key: "proposal_key both_proposal = (text_of (fld sample_request_value ''tenantId''), text_of (fld sample_request_value ''proposalDigest''))"
    by (simp add: proposal_key_def both_columns request_columns)
  show ?thesis
    by (simp add: bound_in_def both_rows key bound_proposal_def both_matches proposal_columns_read both_columns request_columns sample_epoch
        driver_int_def one later_def driver_date_def Let_def)
qed

lemma both_ok: "ledger_ok both_ledger"
proof -
  have "length (cloud_canonical_json request_env sample_payload_value) > 1"
    by (simp add: cloud_canonical_json_def sample_payload_value_def)
  then have "proposal_check both_proposal"
    by (simp add: proposal_check_def authority_id_check_def both_columns) (simp add: sample_payload_value_def)
  then show ?thesis
    by (simp add: ledger_ok_def both_rows no_evidence_ok proposals_ok_def receipts_ok_def tables_ok_def links_ok_def keys_unique_def both_columns epoch_key_def)
qed

lemma both_assumptions:
  "faithful request_env (\<lambda>t. t div 1000) (spend_parameters sample_request_value) both_ledger"
  "told_apart (\<lambda>t. t div 1000) 0 both_ledger"
  "(0 + sq_lease (spend_parameters sample_request_value) * 1000) div 1000 * 1000 = 0 + sq_lease (spend_parameters sample_request_value) * 1000"
proof -
  have "sq_payload (spend_parameters sample_request_value) = sample_payload_value" by (simp add: spend_parameters_def request_columns)
  then show "faithful request_env (\<lambda>t. t div 1000) (spend_parameters sample_request_value) both_ledger"
    by (simp add: faithful_def both_rows both_columns no_evidence_def)
qed (simp_all add: told_apart_def both_rows both_columns)

theorem store_and_database_spend_alike_witness:
  "same_answer
     (store_spend request_env (\<lambda>t. t div 1000) (\<lambda>_. 0) (request_input (sample_uuid (CHR ''8''))) both_ledger)
     (spend_authority digest_pg ''tp_authorizer_user'' 0 (\<lambda>_. 0) (spend_parameters sample_request_value) both_ledger)"
proof -
  have "uuid_shape (sample_uuid (CHR ''8''))" by (simp add: hex_digit_def)
  from sample_request [OF this] have r: "normalize_request request_env (request_input (sample_uuid (CHR ''8''))) = Inr sample_request_value"
    by (simp add: sample_request_value_def)
  have user: "''tp_authorizer_user'' \<in> set authorizers" by (simp add: authorizers_def)
  obtain row where "bound_in request_env (\<lambda>t. t div 1000) 0 sample_request_value False both_ledger = Inr (Bound True row 1)" using both_bound by blast
  from store_and_database_spend_alike [OF r digest_agrees user both_ok both_assumptions(1,2) this both_assumptions(3)] show ?thesis .
qed

end
