(* ===== verification/Retrieval.thy ===== *)
theory Retrieval
  imports Ledger_Proposal "HOL-Library.Product_Lexorder"
begin

text \<open>
  Retrieval over the vector index and the commitment of a selection (\<open>g1_prepare_vector_set_v1\<close>,
  \<open>g1_observe_vector_exclusion_v1\<close>, \<open>g1_resolve_vector_set_v1\<close>, \<open>g1_rank_vector_set_v1\<close>,
  \<open>g1_delete_vector_set_v1\<close>, \<open>g1_purge_expired_vector_sets_v1\<close> and \<open>g1_commit_dvi_selection_v1\<close> of
  \<open>src/cloud/primary-security.js\<close> on the tables of \<open>src/cloud/authority-store.js\<close>). A set is a
  snapshot of the admissible evidence of an incident at one time; a selection is the nearest
  candidate of a live set, bound by a digest. \<open>t\<close> is the time of the statement, \<open>tx\<close> the time
  of the transaction, \<open>vector\<close> tells which texts are vectors and \<open>gap\<close> is the distance \<open><=>\<close> of the
  index. Parameters are not null except where the code tests it.
\<close>

section \<open>Tables\<close>

record set_row =
  vs_tenant :: string
  vs_retrieval :: string
  vs_incident :: string
  vs_agency :: string
  vs_policy :: string
  vs_admitted :: int
  vs_expires :: int
  vs_cleaned :: "int option"
  vs_count :: int

definition set_check :: "set_row \<Rightarrow> bool" where
  "set_check s \<longleftrightarrow> vs_policy s = ''g1-admissibility-v2'' \<and> vs_expires s > vs_admitted s \<and>
     (case vs_cleaned s of None \<Rightarrow> True | Some c \<Rightarrow> c \<ge> vs_admitted s) \<and> 0 \<le> vs_count s \<and> vs_count s \<le> 10000"

record candidate_row =
  cn_tenant :: string
  cn_retrieval :: string
  cn_evidence :: string
  cn_digest :: string
  cn_assertion :: string
  cn_embedding :: string

definition octets_between :: "nat \<Rightarrow> nat \<Rightarrow> string \<Rightarrow> bool" where
  "octets_between low high s \<longleftrightarrow> low \<le> utf8_length s \<and> utf8_length s \<le> high"

definition candidate_check :: "candidate_row \<Rightarrow> bool" where
  "candidate_check c \<longleftrightarrow> length (cn_digest c) = 64 \<and> octets_between 1 4096 (cn_assertion c)"

record exclusion_row =
  xc_tenant :: string
  xc_retrieval :: string
  xc_evidence :: string
  xc_digest :: "string option"
  xc_admissibility :: string
  xc_observed :: int

definition exclusion_check :: "exclusion_row \<Rightarrow> bool" where
  "exclusion_check x \<longleftrightarrow> length_64 (xc_digest x) \<and> octets_between 1 128 (xc_admissibility x) \<and> xc_admissibility x \<noteq> ''admissible''"

record vectors =
  vector_sets :: "set_row list"
  vector_candidates :: "candidate_row list"
  vector_exclusions :: "exclusion_row list"

definition set_key :: "set_row \<Rightarrow> string \<times> string" where "set_key s = (vs_tenant s, vs_retrieval s)"

definition candidate_set :: "candidate_row \<Rightarrow> string \<times> string" where "candidate_set c = (cn_tenant c, cn_retrieval c)"

definition exclusion_set :: "exclusion_row \<Rightarrow> string \<times> string" where "exclusion_set x = (xc_tenant x, xc_retrieval x)"

definition candidate_key :: "candidate_row \<Rightarrow> string \<times> string \<times> string" where
  "candidate_key c = (cn_tenant c, cn_retrieval c, cn_evidence c)"

definition exclusion_key :: "exclusion_row \<Rightarrow> string \<times> string \<times> string" where
  "exclusion_key x = (xc_tenant x, xc_retrieval x, xc_evidence x)"

text \<open>The insertion of the rows of a query: all of them or none.\<close>

definition insert_rows :: "string \<Rightarrow> ('r \<Rightarrow> bool) \<Rightarrow> ('r \<Rightarrow> 'k) \<Rightarrow> 'r list \<Rightarrow> 'r list \<Rightarrow> sql_error + 'r list" where
  "insert_rows name check key new rows =
     (if \<not> list_all check new then sql_raise ''23514'' name
      else if \<not> distinct (map key new) \<or> list_ex (\<lambda>r. taken every key (key r) rows) new then sql_raise ''23505'' name
      else Inr (rows @ new))"

section \<open>Preparing a set\<close>

record set_request =
  sr_tenant :: string
  sr_retrieval :: string
  sr_incident :: string
  sr_agency :: string
  sr_policy :: string
  sr_ttl :: int

record prepared_set =
  ps_retrieval :: string
  ps_count :: int
  ps_admitted :: int
  ps_expires :: int

text \<open>The evidence of the incident and what admission says of it.\<close>

definition listed :: "int \<Rightarrow> set_request \<Rightarrow> evidence_db \<Rightarrow> (evidence_row \<times> string) list" where
  "listed t q db = map (\<lambda>e. (e, admissibility_of db t (sr_agency q) e))
     (filter (\<lambda>e. ev_tenant e = sr_tenant q \<and> ev_incident e = sr_incident q) (evidence_rows db))"

definition admitted_rows :: "int \<Rightarrow> set_request \<Rightarrow> evidence_db \<Rightarrow> evidence_row list" where
  "admitted_rows t q db = map fst (filter (\<lambda>(e, a). a = ''admissible'') (listed t q db))"

definition excluded_rows :: "int \<Rightarrow> set_request \<Rightarrow> evidence_db \<Rightarrow> (evidence_row \<times> string) list" where
  "excluded_rows t q db = filter (\<lambda>(e, a). a \<noteq> ''admissible'') (listed t q db)"

text \<open>The long period is granted to one exact fixture only.\<close>

definition fresh_boundary :: "int \<Rightarrow> set_request \<Rightarrow> evidence_db \<Rightarrow> bool" where
  "fresh_boundary t q db \<longleftrightarrow> sr_agency q = ''rescue'' \<and> length (admitted_rows t q db) = 11 \<and>
     length (excluded_rows t q db) = 1 \<and> length (filter (\<lambda>(e, a). a = ''out_of_scope'') (listed t q db)) = 1"

definition set_identifier_used :: "set_request \<Rightarrow> vectors \<Rightarrow> bool" where
  "set_identifier_used q V \<longleftrightarrow> list_ex (\<lambda>s. set_key s = (sr_tenant q, sr_retrieval q)) (vector_sets V) \<or>
     list_ex (\<lambda>c. candidate_set c = (sr_tenant q, sr_retrieval q)) (vector_candidates V) \<or>
     list_ex (\<lambda>x. exclusion_set x = (sr_tenant q, sr_retrieval q)) (vector_exclusions V)"

definition set_of :: "int \<Rightarrow> set_request \<Rightarrow> evidence_db \<Rightarrow> set_row" where
  "set_of t q db = \<lparr>vs_tenant = sr_tenant q, vs_retrieval = sr_retrieval q, vs_incident = sr_incident q, vs_agency = sr_agency q,
     vs_policy = sr_policy q, vs_admitted = t, vs_expires = t + sr_ttl q * 1000, vs_cleaned = None,
     vs_count = int (length (admitted_rows t q db))\<rparr>"

definition exclusion_of :: "int \<Rightarrow> set_request \<Rightarrow> evidence_row \<times> string \<Rightarrow> exclusion_row" where
  "exclusion_of t q = (\<lambda>(e, a). \<lparr>xc_tenant = sr_tenant q, xc_retrieval = sr_retrieval q, xc_evidence = ev_id e,
     xc_digest = ev_digest e, xc_admissibility = a, xc_observed = t\<rparr>)"

text \<open>The digest of a candidate is not null.\<close>

definition candidate_of :: "set_request \<Rightarrow> evidence_row \<Rightarrow> sql_error + candidate_row" where
  "candidate_of q e = (case ev_digest e of
       None \<Rightarrow> sql_raise ''23502'' ''g1_vector_candidates''
     | Some d \<Rightarrow> Inr \<lparr>cn_tenant = sr_tenant q, cn_retrieval = sr_retrieval q, cn_evidence = ev_id e, cn_digest = d,
         cn_assertion = ev_assertion e, cn_embedding = ev_embedding e\<rparr>)"

definition insert_set :: "int \<Rightarrow> set_request \<Rightarrow> evidence_db \<Rightarrow> vectors \<Rightarrow> sql_error + vectors \<times> prepared_set" where
  "insert_set t q db V =
     and_then (insert_rows ''g1_vector_retrieval_sets'' set_check set_key [set_of t q db] (vector_sets V)) (\<lambda>sets.
     and_then (insert_rows ''g1_vector_exclusions'' exclusion_check exclusion_key (map (exclusion_of t q) (excluded_rows t q db))
         (vector_exclusions V)) (\<lambda>exclusions.
     and_then (map_result (candidate_of q) (admitted_rows t q db)) (\<lambda>rows.
     and_then (insert_rows ''g1_vector_candidates'' candidate_check candidate_key rows (vector_candidates V)) (\<lambda>candidates.
     Inr (\<lparr>vector_sets = sets, vector_candidates = candidates, vector_exclusions = exclusions\<rparr>,
       \<lparr>ps_retrieval = sr_retrieval q, ps_count = int (length (admitted_rows t q db)), ps_admitted = t,
        ps_expires = t + sr_ttl q * 1000\<rparr>)))))"

definition prepare_set :: "string \<Rightarrow> int \<Rightarrow> set_request \<Rightarrow> evidence_db \<Rightarrow> vectors \<Rightarrow> sql_error + vectors \<times> prepared_set" where
  "prepare_set user t q db V =
     (if user \<noteq> ''tp_authorizer_user'' then sql_raise ''42501'' ''Gate One authorizer database session required''
      else if sr_policy q \<noteq> ''g1-admissibility-v2'' then sql_raise ''22023'' ''unsupported admissibility policy version''
      else if length (sr_agency q) < 1 \<or> length (sr_agency q) > 128 then sql_raise ''22023'' ''agency outside policy''
      else if sr_ttl q = 1800000 \<and> \<not> fresh_boundary t q db then sql_raise ''22023'' ''fresh recovery retrieval TTL boundary mismatch''
      else if sr_ttl q \<noteq> 1800000 \<and> (sr_ttl q < 1000 \<or> sr_ttl q > 300000) then sql_raise ''22023'' ''retrieval TTL outside policy''
      else if set_identifier_used q V then sql_raise ''23505'' ''retrieval identifier already used''
      else if length (admitted_rows t q db) > 10000 then sql_raise ''54000'' ''admissible candidate set exceeds policy cap''
      else if length (excluded_rows t q db) > 10000 then sql_raise ''54000'' ''inadmissible evidence set exceeds policy cap''
      else if list_ex (\<lambda>e. \<not> octets_between 1 4096 (ev_assertion e)) (admitted_rows t q db)
      then sql_raise ''54000'' ''admissible assertion exceeds policy cap''
      else insert_set t q db V)"

section \<open>Reading a set\<close>

definition find_set :: "vectors \<Rightarrow> string \<Rightarrow> string \<Rightarrow> set_row option" where
  "find_set V tenant retrieval = find (\<lambda>s. set_key s = (tenant, retrieval)) (vector_sets V)"

definition candidates_in :: "vectors \<Rightarrow> string \<Rightarrow> string \<Rightarrow> candidate_row list" where
  "candidates_in V tenant retrieval = filter (\<lambda>c. candidate_set c = (tenant, retrieval)) (vector_candidates V)"

text \<open>The set of the request: its incident, agency and policy are part of the condition.\<close>

definition asked_set :: "set_request \<Rightarrow> vectors \<Rightarrow> set_row list" where
  "asked_set q V = filter (\<lambda>s. set_key s = (sr_tenant q, sr_retrieval q) \<and> vs_incident s = sr_incident q \<and>
     vs_agency s = sr_agency q \<and> vs_policy s = sr_policy q) (vector_sets V)"

definition observe_exclusion :: "string \<Rightarrow> set_request \<Rightarrow> string \<Rightarrow> vectors \<Rightarrow> sql_error + (string \<times> string option \<times> int) list" where
  "observe_exclusion user q i V =
     (if user \<noteq> ''tp_authorizer_user'' then sql_raise ''42501'' ''Gate One authorizer database session required''
      else Inr (concat (map (\<lambda>s. map (\<lambda>x. (xc_admissibility x, xc_digest x, vs_admitted s))
        (filter (\<lambda>x. exclusion_set x = set_key s \<and> xc_evidence x = i \<and> xc_observed x = vs_admitted s) (vector_exclusions V)))
        (asked_set q V))))"

definition resolve_set :: "string \<Rightarrow> int \<Rightarrow> set_request \<Rightarrow> vectors \<Rightarrow> (prepared_set \<times> int) list" where
  "resolve_set user tx q V =
     (if user \<noteq> ''tp_authorizer_user'' then []
      else map (\<lambda>s. (\<lparr>ps_retrieval = vs_retrieval s, ps_count = vs_count s, ps_admitted = vs_admitted s, ps_expires = vs_expires s\<rparr>, tx))
        (filter (\<lambda>s. vs_expires s = vs_admitted s + sr_ttl q * 1000 \<and>
           vs_count s = int (length (candidates_in V (vs_tenant s) (vs_retrieval s)))) (asked_set q V)))"

definition live_set :: "int \<Rightarrow> set_row \<Rightarrow> bool" where
  "live_set tx s \<longleftrightarrow> vs_cleaned s = None \<and> vs_expires s > tx"

definition ranking :: "(string \<Rightarrow> string \<Rightarrow> 'd::linorder) \<Rightarrow> string \<Rightarrow> candidate_row list \<Rightarrow> candidate_row list" where
  "ranking gap query rows = sort_key (\<lambda>c. (gap (cn_embedding c) query, cn_evidence c)) rows"

definition limit_ok :: "int option \<Rightarrow> bool" where
  "limit_ok n \<longleftrightarrow> (case n of None \<Rightarrow> False | Some l \<Rightarrow> 1 \<le> l \<and> l \<le> 100)"

text \<open>The cast of the query is evaluated with the first candidate.\<close>

definition rank_set :: "(string \<Rightarrow> bool) \<Rightarrow> (string \<Rightarrow> string \<Rightarrow> 'd::linorder) \<Rightarrow> string \<Rightarrow> int \<Rightarrow> set_request \<Rightarrow> string option \<Rightarrow>
    int option \<Rightarrow> vectors \<Rightarrow> sql_error + (candidate_row \<times> 'd) list" where
  "rank_set vector gap user tx q query n V =
     (if user \<noteq> ''tp_authorizer_user'' then sql_raise ''42501'' ''Gate One authorizer database session required''
      else if \<not> limit_ok n then sql_raise ''22023'' ''vector result limit outside policy''
      else case query of
        None \<Rightarrow> sql_raise ''22023'' ''query embedding required''
      | Some v \<Rightarrow>
          if length (filter (live_set tx) (asked_set q V)) \<noteq> 1
          then sql_raise ''22023'' ''retrieval set missing, mismatched, or expired''
          else let rows = candidates_in V (sr_tenant q) (sr_retrieval q) in
            if rows \<noteq> [] \<and> \<not> vector v then sql_raise ''22P02'' ''VECTOR(3)''
            else Inr (map (\<lambda>c. (c, gap (cn_embedding c) v)) (take (nat (the n)) (ranking gap v rows))))"

section \<open>Retiring sets\<close>

definition retire :: "int \<Rightarrow> set_row \<Rightarrow> set_row" where
  "retire tx s = s\<lparr>vs_cleaned := Some (case vs_cleaned s of None \<Rightarrow> tx | Some c \<Rightarrow> c)\<rparr>"

definition without :: "(string \<times> string \<Rightarrow> bool) \<Rightarrow> vectors \<Rightarrow> vectors" where
  "without gone V = V\<lparr>vector_candidates := filter (\<lambda>c. \<not> gone (candidate_set c)) (vector_candidates V),
     vector_exclusions := filter (\<lambda>x. \<not> gone (exclusion_set x)) (vector_exclusions V)\<rparr>"

text \<open>The update writes the rows it selects; a violated check fails the call.\<close>

definition retire_sets :: "int \<Rightarrow> (set_row \<Rightarrow> bool) \<Rightarrow> vectors \<Rightarrow> sql_error + vectors \<times> int" where
  "retire_sets tx which V =
     (if \<not> list_all (\<lambda>s. which s \<longrightarrow> set_check (retire tx s)) (vector_sets V) then sql_raise ''23514'' ''g1_vector_retrieval_sets''
      else Inr (V\<lparr>vector_sets := update_where which (retire tx) (vector_sets V)\<rparr>, int (length (filter which (vector_sets V)))))"

definition delete_set :: "string \<Rightarrow> int \<Rightarrow> string \<Rightarrow> string \<Rightarrow> vectors \<Rightarrow> sql_error + vectors \<times> int \<times> int" where
  "delete_set user tx tenant retrieval V =
     (if user \<noteq> ''tp_authorizer_user'' then sql_raise ''42501'' ''Gate One authorizer database session required''
      else
        and_then (retire_sets tx (\<lambda>s. set_key s = (tenant, retrieval)) (without (\<lambda>k. k = (tenant, retrieval)) V)) (\<lambda>(V', retired).
        Inr (V', int (length (candidates_in V tenant retrieval)), if retired = 0 then 0 else 1)))"

definition expired_sets :: "int \<Rightarrow> string \<Rightarrow> int \<Rightarrow> vectors \<Rightarrow> string list" where
  "expired_sets tx tenant n V = map vs_retrieval (take (nat n) (sort_key (\<lambda>s. (vs_expires s, vs_retrieval s))
     (filter (\<lambda>s. vs_tenant s = tenant \<and> vs_cleaned s = None \<and> vs_expires s \<le> tx) (vector_sets V))))"

definition purge_sets :: "string \<Rightarrow> int \<Rightarrow> string \<Rightarrow> int option \<Rightarrow> vectors \<Rightarrow> sql_error + vectors \<times> int \<times> int" where
  "purge_sets user tx tenant n V =
     (if user \<noteq> ''tp_authorizer_user'' then sql_raise ''42501'' ''Gate One authorizer database session required''
      else case n of
        None \<Rightarrow> sql_raise ''22023'' ''vector purge limit outside policy''
      | Some l \<Rightarrow>
          if l < 1 \<or> l > 1000 then sql_raise ''22023'' ''vector purge limit outside policy''
          else let targets = expired_sets tx tenant l V; gone = (\<lambda>(owner, r). owner = tenant \<and> r \<in> set targets) in
            and_then (retire_sets tx (\<lambda>s. gone (set_key s) \<and> vs_cleaned s = None) (without gone V)) (\<lambda>(V', retired).
            Inr (V', int (length (filter (\<lambda>c. gone (candidate_set c)) (vector_candidates V))), retired)))"

section \<open>Committing a selection\<close>

record selection_request =
  sn_tenant :: string
  sn_retrieval :: string
  sn_run :: string
  sn_incident :: string
  sn_agency :: string
  sn_policy :: "string option"
  sn_commit :: "string option"
  sn_tree :: "string option"
  sn_spec :: "string option"
  sn_query :: "string option"
  sn_limit :: "int option"
  sn_claimed :: "string option"

definition holds_text :: "(string \<Rightarrow> bool) \<Rightarrow> string option \<Rightarrow> bool" where
  "holds_text p v \<longleftrightarrow> (case v of None \<Rightarrow> False | Some s \<Rightarrow> p s)"

definition selection_identity_ok :: "selection_request \<Rightarrow> bool" where
  "selection_identity_ok q \<longleftrightarrow> sn_policy q = Some ''g1-admissibility-v2'' \<and> holds_text hex_40 (sn_commit q) \<and> holds_text hex_40 (sn_tree q) \<and>
     holds_text hex_64 (sn_spec q) \<and> sn_query q \<noteq> None \<and> holds_text hex_64 (sn_claimed q) \<and> limit_ok (sn_limit q)"

text \<open>The lines whose digest stands for the ranked sequence.\<close>

definition ranked_text :: "candidate_row list \<Rightarrow> string" where
  "ranked_text rows = join [CHR 0x0A] (map (\<lambda>c. cn_evidence c @ '':'' @ cn_digest c) rows) @ [CHR 0x0A]"

definition selection_text :: "pg \<Rightarrow> selection_row \<Rightarrow> string" where
  \<open>selection_text D s =
     ''{"agency":'' @ pg_to_json D (sl_agency s) @ '',"incidentId":"'' @ sl_incident s @
     ''","policyVersion":'' @ pg_to_json D (sl_policy s) @ '',"queryEmbeddingSha256":"'' @ sl_query s @
     ''","rankedSequenceSha256":"'' @ sl_ranked s @ ''","resultLimit":'' @ int_str (sl_limit s) @
     '',"retrievalId":"'' @ sl_retrieval s @ ''","runId":"'' @ sl_run s @
     ''","schemaVersion":"tideproof.authority.dvi-selection-receipt.v2"'' @
     '',"selected":{"evidenceDigest":"'' @ sl_evidence_digest s @ ''","evidenceId":"'' @ sl_evidence s @ ''","rank":1}'' @
     '',"snapshot":{"admittedAt":"'' @ pg_time_text D (sl_admitted s) @ ''","expiresAt":"'' @ pg_time_text D (sl_expires s) @ ''"}'' @
     '',"sourceCommit":"'' @ sl_commit s @ ''","specSha256":"'' @ sl_spec s @ ''","tenantId":"'' @ sl_tenant s @
     ''","treeDigest":"'' @ sl_tree s @ ''"}''\<close>

text \<open>The row of a selection; the columns it shares with the request are not null there.\<close>

definition unbound_selection :: "pg \<Rightarrow> selection_request \<Rightarrow> set_row \<Rightarrow> candidate_row list \<Rightarrow> candidate_row \<Rightarrow> selection_row" where
  "unbound_selection D q s ranked c =
     \<lparr>sl_tenant = sn_tenant q, sl_retrieval = sn_retrieval q, sl_evidence_binding = [], sl_run = sn_run q, sl_incident = sn_incident q,
      sl_agency = sn_agency q, sl_policy = the (sn_policy q), sl_commit = the (sn_commit q), sl_tree = the (sn_tree q),
      sl_spec = the (sn_spec q), sl_admitted = vs_admitted s, sl_expires = vs_expires s, sl_ranked = pg_sha256 D (ranked_text ranked),
      sl_query = pg_sha256 D (the (sn_query q)), sl_limit = the (sn_limit q), sl_rank = 1, sl_evidence = cn_evidence c,
      sl_evidence_digest = cn_digest c\<rparr>"

definition bound_selection :: "pg \<Rightarrow> selection_row \<Rightarrow> selection_row" where
  "bound_selection D s = s\<lparr>sl_evidence_binding := pg_sha256 D (selection_text D s)\<rparr>"

text \<open>A row in the way is left there; then the row has to be found as it was to be written.\<close>

definition insert_selection :: "selection_row \<Rightarrow> ledger \<Rightarrow> sql_error + ledger" where
  "insert_selection s L =
     (if taken every selection_key (selection_key s) (selections L) \<or>
        taken every selection_binding_key (selection_binding_key s) (selections L) then Inr L
      else if \<not> selection_check s then sql_raise ''23514'' ''g1_dvi_selection_receipts''
      else Inr (L\<lparr>selections := selections L @ [s]\<rparr>))"

definition store_selection :: "selection_request \<Rightarrow> selection_row \<Rightarrow> ledger \<Rightarrow> sql_error + ledger \<times> selection_row" where
  "store_selection q s L =
     (if sn_claimed q \<noteq> Some (sl_evidence_binding s) then sql_raise ''22023'' ''DVI selection binding mismatch''
      else and_then (insert_selection s L) (\<lambda>L'.
        if length (filter (\<lambda>r. r = s) (selections L')) \<noteq> 1 then sql_raise ''22000'' ''DVI selection receipt conflict''
        else Inr (L', s)))"

definition live_sets_of :: "int \<Rightarrow> selection_request \<Rightarrow> vectors \<Rightarrow> set_row list" where
  "live_sets_of tx q V = filter (\<lambda>s. set_key s = (sn_tenant q, sn_retrieval q) \<and> vs_incident s = sn_incident q \<and>
     vs_agency s = sn_agency q \<and> Some (vs_policy s) = sn_policy q \<and> live_set tx s) (vector_sets V)"

definition commit_selection :: "pg \<Rightarrow> (string \<Rightarrow> bool) \<Rightarrow> (string \<Rightarrow> string \<Rightarrow> 'd::linorder) \<Rightarrow> string \<Rightarrow> int \<Rightarrow> selection_request \<Rightarrow>
    vectors \<Rightarrow> ledger \<Rightarrow> sql_error + ledger \<times> selection_row" where
  "commit_selection D vector gap user tx q V L =
     (if user \<noteq> ''tp_authorizer_user'' then sql_raise ''42501'' ''Gate One authorizer database session required''
      else if \<not> selection_identity_ok q then sql_raise ''22023'' ''DVI selection receipt identity outside policy''
      else case live_sets_of tx q V of
        [] \<Rightarrow> sql_raise ''22023'' ''live DVI retrieval set required''
      | s # _ \<Rightarrow>
          let rows = candidates_in V (sn_tenant q) (sn_retrieval q); n = nat (the (sn_limit q)) in
          if rows \<noteq> [] \<and> \<not> vector (the (sn_query q)) then sql_raise ''22P02'' ''VECTOR(3)''
          else let ranked = take n (ranking gap (the (sn_query q)) rows) in
            if length ranked \<noteq> n then sql_raise ''22023'' ''ranked DVI result count outside policy''
            else case ranking gap (the (sn_query q)) rows of
              [] \<Rightarrow> sql_raise ''22023'' ''rank-1 DVI evidence missing''
            | c # _ \<Rightarrow> store_selection q (bound_selection D (unbound_selection D q s ranked c)) L)"

end
