(* ===== verification/Retrieval_Inv.thy ===== *)
theory Retrieval_Inv
  imports Retrieval Ledger_Inv
begin

text \<open>
  The ledger together with the vector sets as a state machine: a selection enters the ledger only
  by being committed. Every run of it is a run of the ledger machine, whose selections are any
  rows; the sets keep an invariant, and each of them is the snapshot of one preparation.
\<close>

section \<open>The machine\<close>

definition no_vectors :: vectors where
  "no_vectors = \<lparr>vector_sets = [], vector_candidates = [], vector_exclusions = []\<rparr>"

fun selects_directly :: "ledger_event \<Rightarrow> bool" where
  "selects_directly (Selected s) = True"
| "selects_directly ev = False"

datatype retrieval_event =
  On_ledger ledger_event
| Set_prepared string int set_request prepared_set
| Set_deleted string int string string "int \<times> int"
| Sets_purged string int string "int option" "int \<times> int"
| Set_committed string int selection_request selection_row

inductive retrieval_step :: "jsenv \<Rightarrow> crypto \<Rightarrow> (string \<Rightarrow> bool) \<Rightarrow> pg \<Rightarrow> (int \<Rightarrow> int) \<Rightarrow> (string \<Rightarrow> string \<Rightarrow> 'd::linorder) \<Rightarrow>
    ledger \<times> vectors \<Rightarrow> retrieval_event \<Rightarrow> ledger \<times> vectors \<Rightarrow> bool" for E C vector D ms gap where
  step_ledger: "ledger_step E C vector D ms L ev L' \<Longrightarrow> \<not> selects_directly ev \<Longrightarrow>
    retrieval_step E C vector D ms gap (L, V) (On_ledger ev) (L', V)"
| step_prepare: "prepare_set user t q (evidence L) V = Inr (V', p) \<Longrightarrow>
    retrieval_step E C vector D ms gap (L, V) (Set_prepared user t q p) (L, V')"
| step_delete: "delete_set user tx tenant i V = Inr (V', n) \<Longrightarrow>
    retrieval_step E C vector D ms gap (L, V) (Set_deleted user tx tenant i n) (L, V')"
| step_purge: "purge_sets user tx tenant k V = Inr (V', n) \<Longrightarrow>
    retrieval_step E C vector D ms gap (L, V) (Sets_purged user tx tenant k n) (L, V')"
| step_commit: "commit_selection D vector gap user tx sn V L = Inr (L', s) \<Longrightarrow>
    retrieval_step E C vector D ms gap (L, V) (Set_committed user tx sn s) (L', V)"

inductive_cases retrieval_stepE: "retrieval_step E C vector D ms gap LV ev LV'"

lemma run_append_iff: "run step s (ls @ ls') u \<longleftrightarrow> (\<exists>t. run step s ls t \<and> run step t ls' u)"
  by (induction ls arbitrary: s) (auto simp: run_cons_iff)

lemma run_snoc_iff: "run step s (ls @ [l]) u \<longleftrightarrow> (\<exists>t. run step s ls t \<and> step t l u)"
  by (simp add: run_append_iff run_cons_iff)

section \<open>What a call changes\<close>

lemma insert_rows_Inr: "insert_rows name check key new rows = Inr rows' \<longleftrightarrow>
    list_all check new \<and> distinct (map key new) \<and> (\<forall>r \<in> set new. \<not> taken every key (key r) rows) \<and> rows' = rows @ new"
  by (auto simp: insert_rows_def list_ex_iff)

lemma prepare_result:
  assumes "prepare_set user t q db V = Inr (V', p)"
  shows "\<not> set_identifier_used q V \<and> set_check (set_of t q db) \<and>
    (\<exists>rows. map_result (candidate_of q) (admitted_rows t q db) = Inr rows \<and> list_all candidate_check rows \<and>
      list_all exclusion_check (map (exclusion_of t q) (excluded_rows t q db)) \<and>
      distinct (map candidate_key rows) \<and> distinct (map exclusion_key (map (exclusion_of t q) (excluded_rows t q db))) \<and>
      V' = \<lparr>vector_sets = vector_sets V @ [set_of t q db], vector_candidates = vector_candidates V @ rows,
            vector_exclusions = vector_exclusions V @ map (exclusion_of t q) (excluded_rows t q db)\<rparr>)"
  using assms unfolding prepare_set_def
  by (auto simp: sql_guard_Inr insert_set_def and_then_eq_Inr insert_rows_Inr)

text \<open>Retiring sets takes their candidates and exclusions away and marks each of them cleaned.\<close>

inductive retiring :: "vectors \<Rightarrow> vectors \<Rightarrow> bool" for V where
  "(\<And>s. which s \<Longrightarrow> gone (set_key s)) \<Longrightarrow> (\<And>s. s \<in> set (vector_sets V) \<Longrightarrow> gone (set_key s) \<Longrightarrow> \<not> which s \<Longrightarrow> vs_cleaned s \<noteq> None) \<Longrightarrow>
    (\<And>s. s \<in> set (vector_sets V) \<Longrightarrow> which s \<Longrightarrow> set_check (retire tx s)) \<Longrightarrow>
    retiring V ((without gone V)\<lparr>vector_sets := update_where which (retire tx) (vector_sets V)\<rparr>)"

lemma retire_sets_Inr: "retire_sets tx which V = Inr (V', n) \<longleftrightarrow>
    (\<forall>s \<in> set (vector_sets V). which s \<longrightarrow> set_check (retire tx s)) \<and>
    V' = V\<lparr>vector_sets := update_where which (retire tx) (vector_sets V)\<rparr> \<and> n = int (length (filter which (vector_sets V)))"
  by (auto simp: retire_sets_def list_all_iff)

lemma without_sets [simp]: "vector_sets (without gone V) = vector_sets V"
  by (simp add: without_def)

lemma delete_result: "delete_set user tx tenant i V = Inr (V', n) \<Longrightarrow> retiring V V'"
  unfolding delete_set_def
  by (auto simp: sql_guard_Inr and_then_eq_Inr retire_sets_Inr split_beta
      intro!: retiring.intros [where which = "\<lambda>s. set_key s = (tenant, i)" and gone = "\<lambda>k. k = (tenant, i)"])

lemma purge_result: "purge_sets user tx tenant k V = Inr (V', n) \<Longrightarrow> retiring V V'"
  unfolding purge_sets_def Let_def
  by (auto simp: sql_guard_Inr and_then_eq_Inr retire_sets_Inr split: option.split_asm if_split_asm
      intro!: retiring.intros)

lemma insert_selection_Inr: "insert_selection s L = Inr L' \<Longrightarrow>
    L' = L \<or> L' = L\<lparr>selections := selections L @ [s]\<rparr> \<and> selection_check s \<and>
      \<not> taken every selection_key (selection_key s) (selections L) \<and> \<not> taken every selection_binding_key (selection_binding_key s) (selections L)"
  by (auto simp: insert_selection_def split: if_split_asm)

text \<open>What a committed selection is.\<close>

lemma commit_result:
  assumes "commit_selection D vector gap user tx q V L = Inr (L', s)"
  obtains v c others n where "v \<in> set (vector_sets V)" "set_key v = (sn_tenant q, sn_retrieval q)" "vs_incident v = sn_incident q"
    "vs_agency v = sn_agency q" "live_set tx v" "sn_limit q = Some n" "1 \<le> n" "n \<le> 100"
    "ranking gap (the (sn_query q)) (candidates_in V (sn_tenant q) (sn_retrieval q)) = c # others" "nat n \<le> length (c # others)"
    "s = bound_selection D (unbound_selection D q v (take (nat n) (c # others)) c)" "sn_claimed q = Some (sl_evidence_binding s)"
    "selection_identity_ok q" "insert_selection s L = Inr L'" "s \<in> set (selections L')"
proof -
  let ?rows = "ranking gap (the (sn_query q)) (candidates_in V (sn_tenant q) (sn_retrieval q))"
  from assms obtain v vs c others where v: "live_sets_of tx q V = v # vs" and ok: "selection_identity_ok q" and r: "?rows = c # others"
      and l: "length (take (nat (the (sn_limit q))) ?rows) = nat (the (sn_limit q))"
      and st: "store_selection q (bound_selection D (unbound_selection D q v (take (nat (the (sn_limit q))) ?rows) c)) L = Inr (L', s)"
    unfolding commit_selection_def Let_def by (auto split: list.split_asm if_split_asm)
  from ok obtain n where n: "sn_limit q = Some n" "1 \<le> n" "n \<le> 100" by (auto simp: selection_identity_ok_def limit_ok_def split: option.split_asm)
  have "v \<in> set (live_sets_of tx q V)" using v by simp
  then have member: "v \<in> set (vector_sets V)" "set_key v = (sn_tenant q, sn_retrieval q)" "vs_incident v = sn_incident q"
      "vs_agency v = sn_agency q" "live_set tx v" by (simp_all add: live_sets_of_def)
  from st have s: "s = bound_selection D (unbound_selection D q v (take (nat n) (c # others)) c)"
      and fin: "sn_claimed q = Some (sl_evidence_binding s)" "insert_selection s L = Inr L'" "length (filter (\<lambda>r. r = s) (selections L')) = 1"
    unfolding store_selection_def r n(1) by (auto simp: and_then_eq_Inr split: if_split_asm)
  from fin(3) have "filter (\<lambda>r. r = s) (selections L') \<noteq> []" by auto
  then have "s \<in> set (selections L')" by (auto simp: filter_empty_conv)
  with member n r l s fin ok show thesis by (intro that) auto
qed

section \<open>Runs project to the ledger\<close>

lemma commit_projects:
  assumes "commit_selection D vector gap user tx q V L = Inr (L', s)"
  shows "L' = L \<or> ledger_step E C vector D ms L (Selected s) L'"
  using assms by (auto elim!: commit_result dest!: insert_selection_Inr intro: step_selected)

lemma retrieval_projects:
  assumes "run (retrieval_step E C vector D ms gap) s evs t"
  shows "\<exists>evs'. run (ledger_step E C vector D ms) (fst s) evs' (fst t) \<and> filter (\<lambda>ev. \<not> selects_directly ev) evs' =
    concat (map (\<lambda>ev. case ev of On_ledger ev' \<Rightarrow> [ev'] | _ \<Rightarrow> []) evs)"
  using assms
proof (induction rule: run.induct)
  case (run_nil s)
  then show ?case by (auto intro: exI [of _ "[]"])
next
  case (run_cons s ev u evs t)
  then obtain evs' where ih: "run (ledger_step E C vector D ms) (fst u) evs' (fst t)"
      "filter (\<lambda>ev. \<not> selects_directly ev) evs' = concat (map (\<lambda>ev. case ev of On_ledger ev' \<Rightarrow> [ev'] | _ \<Rightarrow> []) evs)" by blast
  from run_cons(1) show ?case
  proof cases
    case (step_ledger L ev' L' V)
    with ih run.run_cons [of "ledger_step E C vector D ms" L ev' L'] show ?thesis by (auto intro!: exI [of _ "ev' # evs'"])
  next
    case (step_commit user tx q V L L' x)
    from commit_projects [OF step_commit(4)] show ?thesis
    proof
      assume "ledger_step E C vector D ms L (Selected x) L'"
      with step_commit ih show ?thesis by (auto intro!: exI [of _ "Selected x # evs'"] run.run_cons)
    qed (use step_commit ih in auto)
  qed (use ih in auto)
qed

section \<open>The invariant of the sets\<close>

definition vectors_ok :: "vectors \<Rightarrow> bool" where
  "vectors_ok V \<longleftrightarrow> unique_on every set_key (vector_sets V) \<and> unique_on every candidate_key (vector_candidates V) \<and>
     unique_on every exclusion_key (vector_exclusions V) \<and> list_all set_check (vector_sets V) \<and>
     list_all candidate_check (vector_candidates V) \<and> list_all exclusion_check (vector_exclusions V) \<and>
     (\<forall>c \<in> set (vector_candidates V). \<exists>s \<in> set (vector_sets V). set_key s = candidate_set c \<and> vs_cleaned s = None) \<and>
     (\<forall>x \<in> set (vector_exclusions V). \<exists>s \<in> set (vector_sets V). set_key s = exclusion_set x \<and> vs_cleaned s = None \<and> xc_observed x = vs_admitted s) \<and>
     (\<forall>s \<in> set (vector_sets V). vs_cleaned s = None \<longrightarrow> vs_count s = int (length (candidates_in V (vs_tenant s) (vs_retrieval s))))"

lemma no_vectors_ok: "vectors_ok no_vectors"
  by (simp add: vectors_ok_def no_vectors_def)

lemma candidate_columns:
  assumes "map_result (candidate_of q) es = Inr rows" and "c \<in> set rows"
  shows "candidate_set c = (sr_tenant q, sr_retrieval q) \<and> (\<exists>e \<in> set es. candidate_of q e = Inr c)"
proof -
  from assms have "\<exists>e \<in> set es. candidate_of q e = Inr c"
    unfolding map_result_Inr_iff by (induction es rows rule: list_all2_induct) auto
  then show ?thesis by (auto simp: candidate_of_def candidate_set_def split: option.split_asm)
qed

lemma map_result_length: "map_result f xs = Inr ys \<Longrightarrow> length ys = length xs"
  by (auto simp: map_result_Inr_iff dest: list_all2_lengthD)

lemma set_of_columns [simp]: "set_key (set_of t q db) = (sr_tenant q, sr_retrieval q)" "vs_cleaned (set_of t q db) = None"
    "vs_count (set_of t q db) = int (length (admitted_rows t q db))" "vs_admitted (set_of t q db) = t" "vs_incident (set_of t q db) = sr_incident q"
    "vs_agency (set_of t q db) = sr_agency q" "vs_expires (set_of t q db) = t + sr_ttl q * 1000" "vs_tenant (set_of t q db) = sr_tenant q"
    "vs_retrieval (set_of t q db) = sr_retrieval q"
  by (simp_all add: set_of_def set_key_def)

lemma identifier_unused:
  assumes "\<not> set_identifier_used q V"
  shows "s \<in> set (vector_sets V) \<Longrightarrow> set_key s \<noteq> (sr_tenant q, sr_retrieval q)"
    "c \<in> set (vector_candidates V) \<Longrightarrow> candidate_set c \<noteq> (sr_tenant q, sr_retrieval q)"
    "x \<in> set (vector_exclusions V) \<Longrightarrow> exclusion_set x \<noteq> (sr_tenant q, sr_retrieval q)"
  using assms by (auto simp: set_identifier_used_def list_ex_iff)

lemma candidates_after_prepare:
  assumes "\<not> set_identifier_used q V" and "map_result (candidate_of q) (admitted_rows t q db) = Inr rows"
    and "vector_candidates V' = vector_candidates V @ rows"
  shows "candidates_in V' tenant i = (if (tenant, i) = (sr_tenant q, sr_retrieval q) then rows else candidates_in V tenant i)"
proof -
  have new: "candidate_set c = (sr_tenant q, sr_retrieval q)" if "c \<in> set rows" for c
    using candidate_columns [OF assms(2) that] by simp
  have "filter (\<lambda>c. candidate_set c = (tenant, i)) rows = (if (tenant, i) = (sr_tenant q, sr_retrieval q) then rows else [])"
    using new by (auto simp: filter_empty_conv)
  moreover have "(tenant, i) = (sr_tenant q, sr_retrieval q) \<Longrightarrow> filter (\<lambda>c. candidate_set c = (tenant, i)) (vector_candidates V) = []"
    using identifier_unused(2) [OF assms(1)] by (auto simp: filter_empty_conv)
  ultimately show ?thesis using assms(3) by (auto simp: candidates_in_def)
qed

lemma retire_columns [simp]: "set_key (retire tx s) = set_key s" "vs_cleaned (retire tx s) \<noteq> None" "vs_tenant (retire tx s) = vs_tenant s"
    "vs_retrieval (retire tx s) = vs_retrieval s"
  by (simp_all add: retire_def set_key_def)

lemma candidates_without: "candidates_in (without gone V) tenant i = (if gone (tenant, i) then [] else candidates_in V tenant i)"
  by (auto simp: candidates_in_def without_def filter_empty_conv intro: filter_cong)

lemma candidates_in_vector_sets [simp]: "candidates_in (V\<lparr>vector_sets := sets\<rparr>) tenant i = candidates_in V tenant i"
  by (simp add: candidates_in_def)

lemma unique_on_rows:
  assumes "unique_on every key rows" and "distinct (map key new)" and "\<forall>r \<in> set new. \<not> taken every key (key r) rows"
  shows "unique_on every key (rows @ new)"
  using assms by (auto simp: unique_on_def taken_iff)

lemma prepare_keeps_ok:
  assumes "prepare_set user t q db V = Inr (V', p)" and ok: "vectors_ok V"
  shows "vectors_ok V'"
proof -
  from prepare_result [OF assms(1)] obtain rows where free: "\<not> set_identifier_used q V" and check: "set_check (set_of t q db)"
      and rows: "map_result (candidate_of q) (admitted_rows t q db) = Inr rows" "list_all candidate_check rows"
      "list_all exclusion_check (map (exclusion_of t q) (excluded_rows t q db))" "distinct (map candidate_key rows)"
      "distinct (map exclusion_key (map (exclusion_of t q) (excluded_rows t q db)))"
      and V': "V' = \<lparr>vector_sets = vector_sets V @ [set_of t q db], vector_candidates = vector_candidates V @ rows,
            vector_exclusions = vector_exclusions V @ map (exclusion_of t q) (excluded_rows t q db)\<rparr>" by blast
  note used = identifier_unused [OF free]
  have new: "candidate_set c = (sr_tenant q, sr_retrieval q)" if "c \<in> set rows" for c using candidate_columns [OF rows(1) that] by simp
  have newx: "exclusion_set x = (sr_tenant q, sr_retrieval q) \<and> xc_observed x = t" if "x \<in> exclusion_of t q ` set (excluded_rows t q db)" for x
    using that by (auto simp: exclusion_of_def exclusion_set_def)
  have keys: "candidate_key c = candidate_key d \<Longrightarrow> candidate_set c = candidate_set d"
      "exclusion_key x = exclusion_key y \<Longrightarrow> exclusion_set x = exclusion_set y" for c d x y
    by (simp_all add: candidate_key_def candidate_set_def exclusion_key_def exclusion_set_def)
  have "unique_on every set_key (vector_sets V')" using ok used(1) by (auto simp: V' vectors_ok_def unique_on_append taken_iff)
  moreover have "unique_on every candidate_key (vector_candidates V')"
  proof -
    have "\<not> taken every candidate_key (candidate_key c) (vector_candidates V)" if "c \<in> set rows" for c
      unfolding taken_iff using new [OF that] used(2) keys(1) [of _ c] by metis
    then show ?thesis using ok rows(4) by (simp add: V' vectors_ok_def unique_on_rows)
  qed
  moreover have "unique_on every exclusion_key (vector_exclusions V')"
  proof -
    have "\<not> taken every exclusion_key (exclusion_key x) (vector_exclusions V)" if "x \<in> exclusion_of t q ` set (excluded_rows t q db)" for x
      unfolding taken_iff using newx [OF that] used(3) keys(2) [of _ x] by metis
    then show ?thesis using ok rows(5) by (simp add: V' vectors_ok_def unique_on_rows)
  qed
  moreover have "vs_count s = int (length (candidates_in V' (vs_tenant s) (vs_retrieval s)))"
    if "s \<in> set (vector_sets V')" "vs_cleaned s = None" for s
  proof -
    have c: "candidates_in V' (vs_tenant s) (vs_retrieval s) =
        (if set_key s = (sr_tenant q, sr_retrieval q) then rows else candidates_in V (vs_tenant s) (vs_retrieval s))"
      using candidates_after_prepare [OF free rows(1)] by (simp add: V' set_key_def)
    show ?thesis
    proof (cases "s \<in> set (vector_sets V)")
      case True
      with used(1) [OF this] ok that(2) c show ?thesis by (simp add: vectors_ok_def)
    next
      case False
      with that(1) have "s = set_of t q db" by (simp add: V')
      with c map_result_length [OF rows(1)] show ?thesis by simp
    qed
  qed
  moreover have "\<forall>c \<in> set (vector_candidates V'). \<exists>s \<in> set (vector_sets V'). set_key s = candidate_set c \<and> vs_cleaned s = None"
    using ok new by (auto simp: V' vectors_ok_def)
  moreover have "\<forall>x \<in> set (vector_exclusions V'). \<exists>s \<in> set (vector_sets V'). set_key s = exclusion_set x \<and> vs_cleaned s = None \<and> xc_observed x = vs_admitted s"
  proof
    fix x assume "x \<in> set (vector_exclusions V')"
    then consider "x \<in> set (vector_exclusions V)" | "x \<in> exclusion_of t q ` set (excluded_rows t q db)" by (auto simp: V')
    then show "\<exists>s \<in> set (vector_sets V'). set_key s = exclusion_set x \<and> vs_cleaned s = None \<and> xc_observed x = vs_admitted s"
      by cases (use ok newx in \<open>auto simp: V' vectors_ok_def\<close>)
  qed
  ultimately show ?thesis using ok check rows by (simp add: vectors_ok_def V')
qed

lemma retiring_keeps_ok: "retiring V V' \<Longrightarrow> vectors_ok V \<Longrightarrow> vectors_ok V'"
proof (induction rule: retiring.induct)
  case (1 which gone tx)
  let ?V = "(without gone V)\<lparr>vector_sets := update_where which (retire tx) (vector_sets V)\<rparr>"
  have kept: "s \<in> set (vector_sets ?V)" if "s \<in> set (vector_sets V)" "\<not> gone (set_key s)" for s
    using that 1(1) by (auto simp: set_update_where)
  have left: "s \<in> set (vector_sets V) \<and> \<not> gone (set_key s)" if "s \<in> set (vector_sets ?V)" "vs_cleaned s = None" for s
    using that 1(2) retire_columns(2) by (fastforce simp: set_update_where)
  have sub: "set (vector_candidates ?V) = {c \<in> set (vector_candidates V). \<not> gone (candidate_set c)}"
      "set (vector_exclusions ?V) = {x \<in> set (vector_exclusions V). \<not> gone (exclusion_set x)}" by (auto simp: without_def)
  have filter_unique: "unique_on every key rows \<Longrightarrow> unique_on every key (filter P rows)" for key :: "'x \<Rightarrow> 'k" and P rows
    by (simp add: unique_on_def distinct_map_filter)
  have "unique_on every set_key (vector_sets ?V)" "unique_on every candidate_key (vector_candidates ?V)"
      "unique_on every exclusion_key (vector_exclusions ?V)"
    using 1(4) by (simp_all add: vectors_ok_def unique_on_update_where without_def distinct_map_filter unique_on_def map_update_where)
  moreover have "list_all set_check (vector_sets ?V)"
    using 1(3,4) by (auto simp: vectors_ok_def list_all_iff set_update_where)
  moreover have "list_all candidate_check (vector_candidates ?V)" "list_all exclusion_check (vector_exclusions ?V)"
    using 1(4) sub by (simp_all add: vectors_ok_def list_all_iff)
  moreover have "\<forall>c \<in> set (vector_candidates ?V). \<exists>s \<in> set (vector_sets ?V). set_key s = candidate_set c \<and> vs_cleaned s = None"
    using 1(4) kept unfolding sub vectors_ok_def by fastforce
  moreover have "\<forall>x \<in> set (vector_exclusions ?V). \<exists>s \<in> set (vector_sets ?V). set_key s = exclusion_set x \<and> vs_cleaned s = None \<and> xc_observed x = vs_admitted s"
    using 1(4) kept unfolding sub vectors_ok_def by fastforce
  moreover have "vs_count s = int (length (candidates_in ?V (vs_tenant s) (vs_retrieval s)))"
    if "s \<in> set (vector_sets ?V)" "vs_cleaned s = None" for s
    using left [OF that] that(2) 1(4) by (simp add: vectors_ok_def candidates_without flip: set_key_def)
  ultimately show ?case by (simp add: vectors_ok_def)
qed

lemma retrieval_keeps_ok: "retrieval_step E C vector D ms gap (L, V) ev (L', V') \<Longrightarrow> vectors_ok V \<Longrightarrow> vectors_ok V'"
  by (erule retrieval_stepE) (auto intro: prepare_keeps_ok retiring_keeps_ok dest: delete_result purge_result)

text \<open>The two invariants together.\<close>

definition retrieval_ok :: "ledger \<times> vectors \<Rightarrow> bool" where
  "retrieval_ok = (\<lambda>(L, V). ledger_ok L \<and> vectors_ok V)"

interpretation retrieval_machine: invariant_machine "retrieval_step E C vector D ms gap" retrieval_ok for E C vector D ms gap
proof
  fix s l t
  assume inv: "retrieval_ok s" and step: "retrieval_step E C vector D ms gap s l t"
  from run_cons [of "retrieval_step E C vector D ms gap" s l t "[]" t] step have "run (retrieval_step E C vector D ms gap) s [l] t" by simp
  from retrieval_projects [OF this] obtain evs where "run (ledger_step E C vector D ms) (fst s) evs (fst t)" by blast
  with inv ledger_machine.run_inv [of E C vector D ms] have "ledger_ok (fst t)" by (auto simp: retrieval_ok_def split_beta)
  moreover have "vectors_ok (snd t)"
  proof -
    obtain L V where s: "s = (L, V)" by (cases s)
    obtain L' V' where t: "t = (L', V')" by (cases t)
    from retrieval_keeps_ok step inv show ?thesis unfolding s t by (auto simp: retrieval_ok_def)
  qed
  ultimately show "retrieval_ok t" by (simp add: retrieval_ok_def split_beta)
qed

lemma initially_ok: "retrieval_ok (empty_ledger, no_vectors)"
  by (simp add: retrieval_ok_def empty_ledger_ok no_vectors_ok)

end
