(* ===== verification/Retrieval_Props.thy ===== *)
theory Retrieval_Props
  imports Retrieval_Inv Ledger_Sample
begin

text \<open>
  What holds of selections over all runs: a set is the snapshot of one preparation, a committed
  selection names the nearest evidence that was admissible then, a proposal rests on a committed
  selection, and so does every authority that was spent.
\<close>

section \<open>A set is the snapshot of its preparation\<close>

definition snapshot :: "int \<Rightarrow> set_request \<Rightarrow> evidence_db \<Rightarrow> vectors \<Rightarrow> set_row \<Rightarrow> bool" where
  "snapshot t q db V s \<longleftrightarrow> set_key s = (sr_tenant q, sr_retrieval q) \<and> vs_incident s = sr_incident q \<and> vs_agency s = sr_agency q \<and>
     vs_admitted s = t \<and> vs_expires s = t + sr_ttl q * 1000 \<and>
     (vs_cleaned s = None \<longrightarrow> map_result (candidate_of q) (admitted_rows t q db) = Inr (candidates_in V (sr_tenant q) (sr_retrieval q)))"

lemma snapshot_prepared:
  assumes "prepare_set user t q db V = Inr (V', p)"
  shows "snapshot t q db V' (set_of t q db)" and "s \<in> set (vector_sets V) \<Longrightarrow> snapshot t' q' db' V s \<Longrightarrow> snapshot t' q' db' V' s"
proof -
  from prepare_result [OF assms] obtain rows where free: "\<not> set_identifier_used q V"
      and rows: "map_result (candidate_of q) (admitted_rows t q db) = Inr rows" and V': "vector_candidates V' = vector_candidates V @ rows"
    by auto
  note c = candidates_after_prepare [OF free rows V']
  show "snapshot t q db V' (set_of t q db)" using rows by (simp add: snapshot_def c)
  show "snapshot t' q' db' V' s" if "s \<in> set (vector_sets V)" "snapshot t' q' db' V s"
    using that identifier_unused(1) [OF free that(1)] by (auto simp: snapshot_def c)
qed

lemma snapshot_retired:
  assumes "retiring V V'" and "s' \<in> set (vector_sets V')"
  shows "\<exists>s \<in> set (vector_sets V). \<forall>t q db. snapshot t q db V s \<longrightarrow> snapshot t q db V' s'"
  using assms
proof (induction rule: retiring.induct)
  case (1 which gone tx)
  then obtain s where s: "s \<in> set (vector_sets V)" "which s \<and> s' = retire tx s \<or> \<not> which s \<and> s' = s" by (auto simp: set_update_where)
  have "snapshot t q db ((without gone V)\<lparr>vector_sets := update_where which (retire tx) (vector_sets V)\<rparr>) s'" if "snapshot t q db V s" for t q db
  proof (cases "which s")
    case True
    with s(2) that show ?thesis by (simp add: snapshot_def) (simp add: retire_def)
  next
    case False
    with s(2) have "s' = s" by simp
    moreover have "vs_cleaned s = None \<Longrightarrow> \<not> gone (set_key s)" using 1(2) [OF s(1) _ False] by auto
    ultimately show ?thesis using that by (auto simp: snapshot_def candidates_without)
  qed
  with s(1) show ?case by blast
qed

lemma vectors_step:
  assumes "retrieval_step E C vector D ms gap (L, V) ev (L', V')" and "s' \<in> set (vector_sets V')"
  shows "(\<exists>user t q p. ev = Set_prepared user t q p \<and> prepare_set user t q (evidence L) V = Inr (V', p) \<and> s' = set_of t q (evidence L)) \<or>
    (\<exists>s \<in> set (vector_sets V). \<forall>t q db. snapshot t q db V s \<longrightarrow> snapshot t q db V' s')"
  using assms(1)
proof cases
  case (step_prepare user t q p)
  from prepare_result [OF step_prepare(3)] assms(2) consider "s' = set_of t q (evidence L)" | "s' \<in> set (vector_sets V)" by auto
  then show ?thesis
  proof cases
    case 2
    with snapshot_prepared(2) [OF step_prepare(3) 2] show ?thesis by blast
  qed (use step_prepare in auto)
next
  case (step_delete user tx tenant i n)
  from snapshot_retired [OF delete_result [OF step_delete(3)] assms(2)] show ?thesis ..
next
  case (step_purge user tx tenant k n)
  from snapshot_retired [OF purge_result [OF step_purge(3)] assms(2)] show ?thesis ..
qed (use assms(2) in blast)+

lemma every_set_was_prepared:
  assumes "run (retrieval_step E C vector D ms gap) (empty_ledger, no_vectors) evs (L, V)" and "s \<in> set (vector_sets V)"
  shows "\<exists>pre user t q p post L0 V0 V1. evs = pre @ Set_prepared user t q p # post \<and>
    run (retrieval_step E C vector D ms gap) (empty_ledger, no_vectors) pre (L0, V0) \<and>
    prepare_set user t q (evidence L0) V0 = Inr (V1, p) \<and> snapshot t q (evidence L0) V s"
  using assms
proof (induction evs arbitrary: L V s rule: rev_induct)
  case Nil
  then have "V = no_vectors" by (auto simp: run_nil_iff)
  with Nil show ?case by (simp add: no_vectors_def)
next
  case (snoc ev evs)
  from snoc.prems(1) obtain L1 V1 where r: "run (retrieval_step E C vector D ms gap) (empty_ledger, no_vectors) evs (L1, V1)"
      and st: "retrieval_step E C vector D ms gap (L1, V1) ev (L, V)" by (auto simp: run_snoc_iff)
  from vectors_step [OF st snoc.prems(2)] show ?case
  proof
    assume "\<exists>user t q p. ev = Set_prepared user t q p \<and> prepare_set user t q (evidence L1) V1 = Inr (V, p) \<and> s = set_of t q (evidence L1)"
    then obtain user t q p where p: "ev = Set_prepared user t q p" "prepare_set user t q (evidence L1) V1 = Inr (V, p)" "s = set_of t q (evidence L1)"
      by blast
    then have "evs @ [ev] = evs @ Set_prepared user t q p # []" by simp
    with p(2,3) r snapshot_prepared(1) [OF p(2)] show ?thesis by blast
  next
    assume "\<exists>s0 \<in> set (vector_sets V1). \<forall>t q db. snapshot t q db V1 s0 \<longrightarrow> snapshot t q db V s"
    then obtain s0 where s0: "s0 \<in> set (vector_sets V1)" "\<And>t q db. snapshot t q db V1 s0 \<Longrightarrow> snapshot t q db V s" by blast
    from snoc.IH [OF r s0(1)] obtain pre user t q p post L0 V0 V2 where "evs = pre @ Set_prepared user t q p # post"
        "run (retrieval_step E C vector D ms gap) (empty_ledger, no_vectors) pre (L0, V0)"
        "prepare_set user t q (evidence L0) V0 = Inr (V2, p)" "snapshot t q (evidence L0) V1 s0" by blast
    with s0(2) have "evs @ [ev] = pre @ Set_prepared user t q p # (post @ [ev])" "snapshot t q (evidence L0) V s" by auto
    with \<open>run _ _ pre _\<close> \<open>prepare_set user t q (evidence L0) V0 = Inr (V2, p)\<close> show ?thesis by blast
  qed
qed

section \<open>The nearest evidence\<close>

text \<open>\<open>e\<close> was admissible for the request at \<open>t\<close>, and no other admissible evidence was nearer to the query.\<close>

definition nearest :: "(string \<Rightarrow> string \<Rightarrow> 'd::linorder) \<Rightarrow> string \<Rightarrow> int \<Rightarrow> set_request \<Rightarrow> evidence_db \<Rightarrow> evidence_row \<Rightarrow> bool" where
  "nearest gap query t q db e \<longleftrightarrow> e \<in> set (admitted_rows t q db) \<and>
     (\<forall>e' \<in> set (admitted_rows t q db). (gap (ev_embedding e) query, ev_id e) \<le> (gap (ev_embedding e') query, ev_id e'))"

lemma candidate_of_Inr: "candidate_of q e = Inr c \<longleftrightarrow> (\<exists>d. ev_digest e = Some d \<and> c = \<lparr>cn_tenant = sr_tenant q, cn_retrieval = sr_retrieval q,
    cn_evidence = ev_id e, cn_digest = d, cn_assertion = ev_assertion e, cn_embedding = ev_embedding e\<rparr>)"
  by (auto simp: candidate_of_def split: option.split)

lemma candidates_match:
  assumes "map_result (candidate_of q) es = Inr rows" and "e \<in> set es"
  shows "\<exists>c \<in> set rows. candidate_of q e = Inr c"
  using assms unfolding map_result_Inr_iff by (induction es rows rule: list_all2_induct) auto

lemma ranking_least:
  assumes "ranking gap query rows = c # others" and "c' \<in> set rows"
  shows "(gap (cn_embedding c) query, cn_evidence c) \<le> (gap (cn_embedding c') query, cn_evidence c')"
proof -
  have "sorted (map (\<lambda>c. (gap (cn_embedding c) query, cn_evidence c)) (c # others))"
    unfolding assms(1) [symmetric] ranking_def by (rule sorted_sort_key)
  moreover have "set rows = set (c # others)" unfolding assms(1) [symmetric] ranking_def by simp
  ultimately show ?thesis using assms(2) by auto
qed

lemma ranking_member: "ranking gap query rows = c # others \<Longrightarrow> c \<in> set rows"
  by (metis list.set_intros(1) ranking_def set_sort)

lemma selection_columns [simp]:
  "sl_evidence (bound_selection D (unbound_selection D q v ranked c)) = cn_evidence c"
  "sl_evidence_digest (bound_selection D (unbound_selection D q v ranked c)) = cn_digest c"
  "sl_admitted (bound_selection D (unbound_selection D q v ranked c)) = vs_admitted v"
  "sl_expires (bound_selection D (unbound_selection D q v ranked c)) = vs_expires v"
  "sl_tenant (bound_selection D (unbound_selection D q v ranked c)) = sn_tenant q"
  "sl_retrieval (bound_selection D (unbound_selection D q v ranked c)) = sn_retrieval q"
  "sl_incident (bound_selection D (unbound_selection D q v ranked c)) = sn_incident q"
  "sl_agency (bound_selection D (unbound_selection D q v ranked c)) = sn_agency q"
  "sl_run (bound_selection D (unbound_selection D q v ranked c)) = sn_run q"
  by (simp_all add: bound_selection_def unbound_selection_def)

text \<open>What a commit in the middle of a run stands on.\<close>

definition retrieved :: "jsenv \<Rightarrow> crypto \<Rightarrow> (string \<Rightarrow> bool) \<Rightarrow> pg \<Rightarrow> (int \<Rightarrow> int) \<Rightarrow> (string \<Rightarrow> string \<Rightarrow> 'd::linorder) \<Rightarrow>
    retrieval_event list \<Rightarrow> string \<Rightarrow> selection_row \<Rightarrow> bool" where
  "retrieved E C vector D ms gap evs query s \<longleftrightarrow>
     (\<exists>pre user t q p post L V e. evs = pre @ Set_prepared user t q p # post \<and>
        run (retrieval_step E C vector D ms gap) (empty_ledger, no_vectors) pre (L, V) \<and>
        sr_tenant q = sl_tenant s \<and> sr_retrieval q = sl_retrieval s \<and> sr_incident q = sl_incident s \<and> sr_agency q = sl_agency s \<and>
        sl_admitted s = t \<and> sl_expires s = t + sr_ttl q * 1000 \<and> nearest gap query t q (evidence L) e \<and>
        ev_id e = sl_evidence s \<and> ev_digest e = Some (sl_evidence_digest s))"

lemma commit_retrieved:
  assumes "run (retrieval_step E C vector D ms gap) (empty_ledger, no_vectors) evs (L, V)"
    and "commit_selection D vector gap user tx sn V L = Inr (L', s)"
  shows "retrieved E C vector D ms gap evs (the (sn_query sn)) s \<and> tx < sl_expires s"
proof -
  from assms(2) obtain v c others n where v: "v \<in> set (vector_sets V)" "set_key v = (sn_tenant sn, sn_retrieval sn)" "vs_incident v = sn_incident sn"
      "vs_agency v = sn_agency sn" "live_set tx v"
    and rank: "ranking gap (the (sn_query sn)) (candidates_in V (sn_tenant sn) (sn_retrieval sn)) = c # others"
    and s: "s = bound_selection D (unbound_selection D sn v (take (nat n) (c # others)) c)" by (rule commit_result)
  from every_set_was_prepared [OF assms(1) v(1)] obtain pre user t q p post L0 V0 V1 where evs: "evs = pre @ Set_prepared user t q p # post"
      and run: "run (retrieval_step E C vector D ms gap) (empty_ledger, no_vectors) pre (L0, V0)"
      and snap: "snapshot t q (evidence L0) V v" by blast
  let ?es = "admitted_rows t q (evidence L0)"
  have k: "sr_tenant q = sn_tenant sn" "sr_retrieval q = sn_retrieval sn" "vs_cleaned v = None"
    using snap v(2,5) by (simp_all add: snapshot_def live_set_def)
  with snap have rows: "map_result (candidate_of q) ?es = Inr (candidates_in V (sn_tenant sn) (sn_retrieval sn))" by (simp add: snapshot_def)
  from candidate_columns [OF rows ranking_member [OF rank]] obtain e where e: "e \<in> set ?es" "candidate_of q e = Inr c" by blast
  have "nearest gap (the (sn_query sn)) t q (evidence L0) e"
    unfolding nearest_def
  proof (intro conjI ballI)
    fix e' assume "e' \<in> set ?es"
    from candidates_match [OF rows this] obtain c' where c': "c' \<in> set (candidates_in V (sn_tenant sn) (sn_retrieval sn))" "candidate_of q e' = Inr c'" by blast
    from ranking_least [OF rank c'(1)] e(2) c'(2) show "(gap (ev_embedding e) (the (sn_query sn)), ev_id e) \<le> (gap (ev_embedding e') (the (sn_query sn)), ev_id e')"
      by (auto simp: candidate_of_Inr)
  qed (rule e(1))
  moreover have "ev_id e = sl_evidence s" "ev_digest e = Some (sl_evidence_digest s)" using e(2) by (auto simp: s candidate_of_Inr)
  moreover have "sl_admitted s = t" "sl_expires s = t + sr_ttl q * 1000" "sr_incident q = sl_incident s" "sr_agency q = sl_agency s" "tx < sl_expires s"
      "sr_tenant q = sl_tenant s" "sr_retrieval q = sl_retrieval s"
    using snap v(3-5) k(1,2) by (simp_all add: s snapshot_def live_set_def)
  ultimately show ?thesis using evs run unfolding retrieved_def by blast
qed

section \<open>Proposals rest on selections\<close>

definition selected_by :: "proposal_row \<Rightarrow> selection_row \<Rightarrow> bool" where
  "selected_by p s \<longleftrightarrow> pr_tenant p = sl_tenant s \<and> pr_retrieval p = sl_retrieval s \<and> pr_run p = sl_run s \<and> pr_incident p = sl_incident s \<and>
     pr_agency p = sl_agency s \<and> pr_evidence p = sl_evidence s \<and> pr_evidence_digest p = sl_evidence_digest s \<and>
     pr_evidence_binding p = sl_evidence_binding s"

text \<open>Selections are kept and a new proposal is selected.\<close>

definition keeps_selections :: "ledger \<Rightarrow> ledger \<Rightarrow> bool" where
  "keeps_selections L L' \<longleftrightarrow> selections L' = selections L \<and>
     (\<forall>p \<in> set (proposals L'). p \<in> set (proposals L) \<or> (\<exists>s \<in> set (selections L). selected_by p s))"

lemma keeps_refl [simp]: "keeps_selections L L"
  by (simp add: keeps_selections_def)

lemma insert_epoch_frame: "insert_epoch tenant action L = Inr L' \<Longrightarrow> selections L' = selections L \<and> proposals L' = proposals L"
  by (auto simp: insert_epoch_def Let_def split: if_split_asm)

lemma insert_proposal_frame: "insert_proposal p (open_epoch tenant action L) = Inr L' \<Longrightarrow> selections L' = selections L \<and> proposals L' = proposals L @ [p]"
  by (auto simp: insert_proposal_def open_epoch_def split: if_split_asm)

lemma open_proposal_frame:
  assumes "open_proposal now s p L = Inr (L', d)"
  shows "L' = L \<or> selections L' = selections L \<and> proposals L' = proposals L @ [p]"
  using assms unfolding open_proposal_def Let_def
  by (auto simp: and_then_eq_Inr dest: insert_proposal_frame split: option.split_asm if_split_asm)

lemma authorize_keeps:
  assumes "authorize_proposal D user t clock z L = Inr (L', d)"
  shows "keeps_selections L L'"
proof (cases "L' = L")
  case False
  with assms obtain s L1 where s: "find (\<lambda>s. selection_key s = (az_tenant z, az_retrieval z)) (selections L) = Some s" "sl_agency s = az_agency z"
      and i: "insert_epoch (az_tenant z) (ai_action (pr_id (proposal_of D z s 1))) L = Inr L1"
      "open_proposal (clock 1) s (proposal_of D z s 1) L1 = Inr (L', d)"
    unfolding authorize_proposal_def
    by (auto simp: Let_def and_then_eq_Inr split: option.split_asm list.split_asm prod.split_asm if_split_asm)
  from find_SomeD [OF s(1)] s(2) have "s \<in> set (selections L)" "selected_by (proposal_of D z s 1) s"
    by (auto simp: selected_by_def proposal_of_def Let_def selection_key_def)
  with insert_epoch_frame [OF i(1)] open_proposal_frame [OF i(2)] show ?thesis by (auto simp: keeps_selections_def)
qed simp

lemma selection_matches_columns:
  assumes "selection_matches E ms s z = Inr True" and "fld (fld z ''dviProposal'') ''incidentId'' = fld (fld z ''logicalAction'') ''incidentId''"
  shows "selected_by (stored_proposal E z k b) s"
proof -
  from assms(1) obtain admitted expires where i: "selection_input E ms s = Inr (Obj [(''sourceCommit'', Str (sl_commit s)), (''treeDigest'', Str (sl_tree s)), (''specSha256'', Str (sl_spec s)),
       (''runId'', Str (sl_run s)), (''tenantId'', Str (sl_tenant s)), (''incidentId'', Str (sl_incident s)),
       (''retrievalId'', Str (sl_retrieval s)), (''agency'', Str (sl_agency s)), (''policyVersion'', Str (sl_policy s)),
       (''admittedAt'', Str admitted), (''expiresAt'', Str expires), (''rankedSequenceSha256'', Str (sl_ranked s)),
       (''queryEmbeddingSha256'', Str (sl_query s)), (''resultLimit'', Num (js_number E (driver_int (sl_limit s)))),
       (''selectedRank'', Num (js_number E (driver_int (sl_rank s)))), (''selectedEvidenceId'', Str (sl_evidence s)),
       (''selectedEvidenceDigest'', Str (sl_evidence_digest s))])" (is "_ = Inr ?i")
    unfolding selection_matches_def Let_def selection_input_def by (auto simp: and_then_eq_Inr)
  from assms(1) have m: "fld (fld z ''dviProposal'') ''authorityEvidenceBindingSha256'' = Str (sl_evidence_binding s)"
      "same ?i ''tenantId'' (fld z ''logicalAction'') ''tenantId''" "same ?i ''runId'' (fld z ''dviProposal'') ''runId''"
      "same ?i ''incidentId'' (fld z ''logicalAction'') ''incidentId''" "same ?i ''retrievalId'' (fld z ''dviProposal'') ''retrievalId''"
      "same ?i ''agency'' (fld z ''logicalAction'') ''agency''" "same ?i ''selectedEvidenceId'' z ''selectedEvidenceId''"
      "same ?i ''selectedEvidenceDigest'' z ''selectedEvidenceDigest''"
    unfolding selection_matches_def Let_def i by (auto simp: and_then_eq_Inr split: if_split_asm simp del: fld.simps)
  show ?thesis
    using m assms(2) by (simp add: selected_by_def stored_proposal_def Let_def)
qed

lemma proposal_incident:
  assumes "normalized_dvi_authorization E inp = Inr z"
  shows "fld (fld z ''dviProposal'') ''incidentId'' = fld (fld z ''logicalAction'') ''incidentId''"
proof -
  from assms obtain action proposal pdigest selected digest where p: "normalize_proposal E (fld inp ''dviProposal'') action = Inr (proposal, pdigest)"
      and z: "z = Obj [(''logicalAction'', action), (''logicalActionDigest'', fld action ''logicalActionDigest''),
        (''dviProposal'', proposal), (''proposalDigest'', Str pdigest), (''selectedEvidenceId'', Str selected),
        (''selectedEvidenceDigest'', Str digest)]"
    unfolding normalized_dvi_authorization_def by (auto simp: guard_simps split: prod.split_asm)
  from normalize_proposal_Inr [OF p] have "fld proposal ''incidentId'' = fld action ''incidentId''" by simp
  then show ?thesis by (simp add: z)
qed

lemma initialize_frame:
  assumes "initialize_epoch E D ms t z L = Inr (L', d)" and "unique_on every epoch_key (epochs L)"
    and "find_epoch L (text_of (fld (fld z ''logicalAction'') ''tenantId'')) (text_of (fld z ''logicalActionDigest'')) = Some e" and "ep_epoch e = 0"
  shows "L' = L \<or> selections L' = selections L \<and> (\<exists>k b. proposals L' = proposals L @ [stored_proposal E z k b])"
proof -
  let ?tenant = "text_of (fld (fld z ''logicalAction'') ''tenantId'')" let ?action = "text_of (fld z ''logicalActionDigest'')"
  from assms(1) obtain k b L2 where i: "insert_proposal (stored_proposal E z k b) (open_epoch ?tenant ?action L) = Inr L2"
      and c: "L' = L2 \<or> take_back ?tenant (text_of (fld z ''proposalDigest'')) ?action L2 = Inr (L', d)"
    unfolding initialize_epoch_def Let_def by (auto simp: and_then_eq_Inr call_Inr split: if_split_asm)
  from c show ?thesis
  proof
    assume "take_back ?tenant (text_of (fld z ''proposalDigest'')) ?action L2 = Inr (L', d)"
    with take_back_undoes [OF assms(2-4) i] show ?thesis by (simp add: proposal_key_def stored_proposal_ids)
  qed (use insert_proposal_frame [OF i] in auto)
qed

lemma lock_frame:
  assumes "lock_epoch E D ms t z L = Inr (L', d)" and "unique_on every epoch_key (epochs L)"
  shows "L' = L \<or> selections L' = selections L \<and> (\<exists>k b. proposals L' = proposals L @ [stored_proposal E z k b])"
proof (cases "\<exists>e. find_epoch L (text_of (fld (fld z ''logicalAction'') ''tenantId'')) (text_of (fld z ''logicalActionDigest'')) = Some e \<and>
    ep_epoch e = 0 \<and> initialize_epoch E D ms t z L = Inr (L', d)")
  case True
  then show ?thesis using initialize_frame [OF _ assms(2)] by blast
next
  case False
  with assms(1) show ?thesis
    unfolding lock_epoch_def Let_def by (auto simp: and_then_eq_Inr split: option.split_asm if_split_asm)
qed

lemma store_authorize_keeps:
  assumes "store_authorize E D ms t inp L = Inr (L', d)" and "unique_on every epoch_key (epochs L)"
  shows "keeps_selections L L'"
proof (cases "L' = L")
  case False
  from assms(1) obtain z where z: "normalized_dvi_authorization E inp = Inr z" "authorize_work E D ms t z L = Inr (L', d)"
    by (auto simp: store_authorize_def and_then_eq_Inr call_Inr)
  with False obtain L1 where refused: "selection_refused E ms z L = Inr None"
      and L1: "insert_epoch (text_of (fld (fld z ''logicalAction'') ''tenantId'')) (text_of (fld z ''logicalActionDigest'')) L = Inr L1"
      "lock_epoch E D ms t z L1 = Inr (L', d)"
    unfolding authorize_work_def by (auto simp: and_then_eq_Inr call_Inr split: option.split_asm)
  from refused obtain s where s: "filter (\<lambda>s. selection_binding_key s = (text_of (fld (fld z ''logicalAction'') ''tenantId''),
          text_of (fld (fld z ''dviProposal'') ''authorityEvidenceBindingSha256''))) (selections L) = [s]" and m: "selection_matches E ms s z = Inr True"
    unfolding selection_refused_def by (auto simp: and_then_eq_Inr call_Inr split: list.split_asm if_split_asm)
  have "s \<in> set (filter (\<lambda>s. selection_binding_key s = (text_of (fld (fld z ''logicalAction'') ''tenantId''),
          text_of (fld (fld z ''dviProposal'') ''authorityEvidenceBindingSha256''))) (selections L))" by (simp add: s)
  then have "s \<in> set (selections L)" by simp
  moreover have "unique_on every epoch_key (epochs L1)"
    using assms(2) L1(1) by (auto simp: insert_epoch_def Let_def unique_on_append split: if_split_asm)
  from lock_frame [OF L1(2) this] insert_epoch_frame [OF L1(1)]
  have "selections L' = selections L \<and> (\<forall>p \<in> set (proposals L'). p \<in> set (proposals L) \<or> (\<exists>k b. p = stored_proposal E z k b))" by auto
  ultimately show ?thesis
    unfolding keeps_selections_def using selection_matches_columns [OF m proposal_incident [OF z(1)]] by metis
qed simp

lemma spend_keeps: "spend_authority D user t clock q L = Inr (L', d) \<Longrightarrow> keeps_selections L L'"
  by (drule spend_result) (auto simp: keeps_selections_def denial_def reservation_def reserved_tables_def Let_def)

lemma store_spend_keeps: "store_spend E ms t inp L = Inr (L', d) \<Longrightarrow> keeps_selections L L'"
  by (drule store_spend_result) (auto simp: keeps_selections_def denial_def booked_def Let_def)

lemma record_keeps: "record_effect D user clock f L = Inr (L', out) \<Longrightarrow> keeps_selections L L'"
  by (drule record_result) (auto simp: keeps_selections_def)

lemma store_record_keeps: "store_record E D ms t inp agent L = Inr (L', d) \<Longrightarrow> keeps_selections L L'"
  by (drule store_record_result) (auto simp: keeps_selections_def recorded_on_def Let_def)

lemma ledger_step_keeps:
  assumes "ledger_step E C vector D ms L ev L'" and "\<not> selects_directly ev" and "ledger_ok L"
  shows "keeps_selections L L'"
  using assms(1)
proof cases
  case (step_stored_authorized t inp d)
  with store_authorize_keeps [OF step_stored_authorized(2)] assms(3) show ?thesis by (simp add: ledger_ok_def proposals_ok_def)
next
  case (step_prepared inp r)
  then show ?thesis by (auto simp: prepare_resource_def keeps_selections_def and_then_eq_Inr split: if_split_asm)
next
  case (step_evidence call db)
  then show ?thesis by (simp add: keeps_selections_def)
next
  case (step_selected s)
  with assms(2) show ?thesis by simp
qed (blast intro: authorize_keeps spend_keeps store_spend_keeps record_keeps store_record_keeps dest: race_spends)+

section \<open>Selections are committed\<close>

lemma commit_adds:
  assumes "commit_selection D vector gap user tx q V L = Inr (L', s)"
  shows "set (selections L') \<subseteq> insert s (set (selections L)) \<and> set (selections L) \<subseteq> set (selections L') \<and> proposals L' = proposals L"
  using assms by (auto elim!: commit_result dest!: insert_selection_Inr)

lemma retrieval_selections:
  assumes "run (retrieval_step E C vector D ms gap) (empty_ledger, no_vectors) evs (L, V)" and "s \<in> set (selections L)"
  shows "\<exists>pre user tx sn post L0 V0 L1. evs = pre @ Set_committed user tx sn s # post \<and>
    run (retrieval_step E C vector D ms gap) (empty_ledger, no_vectors) pre (L0, V0) \<and>
    commit_selection D vector gap user tx sn V0 L0 = Inr (L1, s)"
  using assms
proof (induction evs arbitrary: L V rule: rev_induct)
  case Nil
  then show ?case by (auto simp: run_nil_iff empty_ledger_def)
next
  case (snoc ev evs)
  from snoc.prems(1) obtain L1 V1 where r: "run (retrieval_step E C vector D ms gap) (empty_ledger, no_vectors) evs (L1, V1)"
      and st: "retrieval_step E C vector D ms gap (L1, V1) ev (L, V)" by (auto simp: run_snoc_iff)
  have ok: "ledger_ok L1" using retrieval_machine.run_inv [OF r initially_ok] by (simp add: retrieval_ok_def)
  show ?case
  proof (cases "s \<in> set (selections L1)")
    case True
    from snoc.IH [OF r True] obtain pre user tx sn post L0 V0 L2 where "evs = pre @ Set_committed user tx sn s # post"
        "run (retrieval_step E C vector D ms gap) (empty_ledger, no_vectors) pre (L0, V0)"
        "commit_selection D vector gap user tx sn V0 L0 = Inr (L2, s)" by blast
    moreover from this(1) have "evs @ [ev] = pre @ Set_committed user tx sn s # (post @ [ev])" by simp
    ultimately show ?thesis by blast
  next
    case False
    from st show ?thesis
    proof cases
      case (step_ledger ev')
      from ledger_step_keeps [OF step_ledger(3,4) ok] False snoc.prems(2) show ?thesis by (simp add: keeps_selections_def)
    next
      case (step_commit user tx sn x)
      with commit_adds [OF step_commit(3)] False snoc.prems(2) have "x = s" by auto
      with step_commit r have "evs @ [ev] = evs @ Set_committed user tx sn s # []" "commit_selection D vector gap user tx sn V1 L1 = Inr (L, s)" by simp_all
      with r show ?thesis by blast
    qed (use False snoc.prems(2) in simp_all)
  qed
qed

lemma retrieval_proposals:
  assumes "run (retrieval_step E C vector D ms gap) (empty_ledger, no_vectors) evs (L, V)" and "p \<in> set (proposals L)"
  shows "\<exists>s \<in> set (selections L). selected_by p s"
  using assms
proof (induction evs arbitrary: L V rule: rev_induct)
  case Nil
  then show ?case by (auto simp: run_nil_iff empty_ledger_def)
next
  case (snoc ev evs)
  from snoc.prems(1) obtain L1 V1 where r: "run (retrieval_step E C vector D ms gap) (empty_ledger, no_vectors) evs (L1, V1)"
      and st: "retrieval_step E C vector D ms gap (L1, V1) ev (L, V)" by (auto simp: run_snoc_iff)
  have ok: "ledger_ok L1" using retrieval_machine.run_inv [OF r initially_ok] by (simp add: retrieval_ok_def)
  from st show ?case
  proof cases
    case (step_ledger ev')
    from ledger_step_keeps [OF step_ledger(3,4) ok] snoc.IH [OF r] snoc.prems(2) show ?thesis by (auto simp: keeps_selections_def)
  next
    case (step_commit user tx sn x)
    from commit_adds [OF step_commit(3)] snoc.IH [OF r] snoc.prems(2) show ?thesis by auto
  qed (use snoc.IH [OF r] snoc.prems(2) in simp_all)
qed

section \<open>Spent authority rests on what was retrieved\<close>

lemma retrieved_before:
  assumes "run (retrieval_step E C vector D ms gap) (empty_ledger, no_vectors) evs (L, V)" and "s \<in> set (selections L)"
  shows "\<exists>before user tx sn post. evs = before @ Set_committed user tx sn s # post \<and> tx < sl_expires s \<and>
    retrieved E C vector D ms gap before (the (sn_query sn)) s"
proof -
  from retrieval_selections [OF assms] obtain before user tx sn post L0 V0 L1 where evs: "evs = before @ Set_committed user tx sn s # post"
      and run: "run (retrieval_step E C vector D ms gap) (empty_ledger, no_vectors) before (L0, V0)"
      and c: "commit_selection D vector gap user tx sn V0 L0 = Inr (L1, s)"
    by blast
  from evs commit_retrieved [OF run c] show ?thesis by blast
qed

lemma reserved_is_selected:
  assumes "run (retrieval_step E C vector D ms gap) (empty_ledger, no_vectors) evs (L, V)" and "a \<in> set (receipts L)" and "reserved a"
  shows "\<exists>s \<in> set (selections L). sl_tenant s = ar_tenant a \<and> sl_incident s = ar_incident a \<and> sl_agency s = ar_agency a \<and>
    sl_run s = ar_run a \<and> sl_evidence s = ar_evidence a \<and> Some (sl_evidence_digest s) = ar_evidence_digest a"
proof -
  have "ledger_ok L" using retrieval_machine.run_inv [OF assms(1) initially_ok] by (simp add: retrieval_ok_def)
  with assms(2,3) obtain p where p: "p \<in> set (proposals L)" "backed_by_proposal p a" by (auto simp: ledger_ok_def links_ok_def)
  from retrieval_proposals [OF assms(1) p(1)] obtain s where "s \<in> set (selections L)" "selected_by p s" by blast
  with p(2) show ?thesis by (auto simp: selected_by_def backed_by_proposal_def intro!: bexI [of _ s])
qed



section \<open>A run\<close>

definition sample_gap :: "string \<Rightarrow> string \<Rightarrow> nat" where
  "sample_gap a b = (if a = b then 0 else 1)"

definition sample_set :: set_request where
  "sample_set = \<lparr>sr_tenant = sample_uuid (CHR ''1''), sr_retrieval = sample_uuid (CHR ''4''), sr_incident = sample_uuid (CHR ''3''),
     sr_agency = ''harbor'', sr_policy = ''g1-admissibility-v2'', sr_ttl = 1000\<rparr>"

definition sample_commit :: selection_request where
  "sample_commit = \<lparr>sn_tenant = sample_uuid (CHR ''1''), sn_retrieval = sample_uuid (CHR ''4''), sn_run = sample_uuid (CHR ''2''),
     sn_incident = sample_uuid (CHR ''3''), sn_agency = ''harbor'', sn_policy = Some ''g1-admissibility-v2'',
     sn_commit = Some (replicate 40 (CHR ''1'')), sn_tree = Some (replicate 40 (CHR ''2'')), sn_spec = Some (dig (CHR ''3'')),
     sn_query = Some ''[1,0,0]'', sn_limit = Some 1, sn_claimed = Some (dig (CHR ''a''))\<rparr>"

definition sample_vectors :: vectors where
  "sample_vectors = \<lparr>vector_sets = [\<lparr>vs_tenant = sample_uuid (CHR ''1''), vs_retrieval = sample_uuid (CHR ''4''),
       vs_incident = sample_uuid (CHR ''3''), vs_agency = ''harbor'', vs_policy = ''g1-admissibility-v2'', vs_admitted = 1000,
       vs_expires = 1001000, vs_cleaned = None, vs_count = 1\<rparr>],
     vector_candidates = [\<lparr>cn_tenant = sample_uuid (CHR ''1''), cn_retrieval = sample_uuid (CHR ''4''), cn_evidence = sample_uuid (CHR ''5''),
       cn_digest = dig (CHR ''5''), cn_assertion = ''gate open'', cn_embedding = ''[1,0,0]''\<rparr>],
     vector_exclusions = []\<rparr>"

definition sample_prepared :: prepared_set where
  "sample_prepared = \<lparr>ps_retrieval = sample_uuid (CHR ''4''), ps_count = 1, ps_admitted = 1000, ps_expires = 1001000\<rparr>"

lemma sample_listed: "listed 1000 sample_set (sample_db [CHR ''5'']) = [(sample_evidence (CHR ''5''), ''admissible'')]"
  by (simp add: listed_def sample_set_def admissibility_of_def sample_evidence_def params_row_def sample_params_def sample_db_def verification_of_def
      find_verification_def verification_key_def sample_receipt_def same_binding_def key_of_def find_key_def signing_key_def
      sample_key_def five_minutes_def conflicting_def)

lemma sample_set_prepared: "prepare_set ''tp_authorizer_user'' 1000 sample_set (sample_db [CHR ''5'']) no_vectors = Inr (sample_vectors, sample_prepared)"
proof -
  have rows: "admitted_rows 1000 sample_set (sample_db [CHR ''5'']) = [sample_evidence (CHR ''5'')]"
      "excluded_rows 1000 sample_set (sample_db [CHR ''5'']) = []"
    by (simp_all add: admitted_rows_def excluded_rows_def sample_listed)
  have columns: "ev_digest (sample_evidence (CHR ''5'')) = Some (dig (CHR ''5''))" "ev_id (sample_evidence (CHR ''5'')) = sample_uuid (CHR ''5'')"
      "ev_assertion (sample_evidence (CHR ''5'')) = ''gate open''" "ev_embedding (sample_evidence (CHR ''5'')) = ''[1,0,0]''"
    by (simp_all add: sample_evidence_def params_row_def sample_params_def)
  have octets: "octets_between 1 4096 ''gate open''" by code_simp
  show ?thesis
    by (simp add: prepare_set_def insert_set_def rows columns octets insert_rows_def candidate_of_def candidate_check_def set_check_def set_of_def
        set_identifier_used_def no_vectors_def del: One_nat_def)
      (simp add: sample_set_def sample_vectors_def sample_prepared_def)
qed

lemma sample_committed:
  assumes "selections L = []"
  shows "commit_selection sample_pg (\<lambda>_. True) sample_gap ''tp_authorizer_user'' 1200 sample_commit sample_vectors L
    = Inr (L\<lparr>selections := [sample_selection]\<rparr>, sample_selection)"
proof -
  have ok: "selection_identity_ok sample_commit"
    by (simp add: selection_identity_ok_def sample_commit_def holds_text_def limit_ok_def hex_of_length_def hex_digit_def list_all_iff)
  have check: "selection_check sample_selection" by (simp add: selection_check_def sample_selection_def)
  let ?v = "hd (vector_sets sample_vectors)" let ?c = "hd (vector_candidates sample_vectors)"
  have live: "live_sets_of 1200 sample_commit sample_vectors = [?v]"
    by (simp add: live_sets_of_def sample_vectors_def sample_commit_def set_key_def live_set_def)
  have rows: "candidates_in sample_vectors (sn_tenant sample_commit) (sn_retrieval sample_commit) = [?c]"
    by (simp add: candidates_in_def sample_vectors_def sample_commit_def candidate_set_def)
  have s: "bound_selection sample_pg (unbound_selection sample_pg sample_commit ?v [?c] ?c) = sample_selection"
    by (simp add: bound_selection_def unbound_selection_def sample_selection_def) (simp add: sample_commit_def sample_vectors_def sample_pg_def)
  have "sn_claimed sample_commit = Some (sl_evidence_binding sample_selection)" "sn_limit sample_commit = Some 1"
    by (simp_all add: sample_commit_def sample_selection_def)
  then show ?thesis
    by (simp add: commit_selection_def ok live rows ranking_def s store_selection_def insert_selection_def check assms)
qed

abbreviation sample_machine :: "ledger \<times> vectors \<Rightarrow> retrieval_event \<Rightarrow> ledger \<times> vectors \<Rightarrow> bool" where
  "sample_machine \<equiv> retrieval_step request_env sample_crypto (\<lambda>_. True) sample_pg (\<lambda>t. t div 1000) sample_gap"

definition sample_retrieval_events :: "retrieval_event list" where
  "sample_retrieval_events = [On_ledger (Evidence (Register_key sample_key_input)),
     On_ledger (Evidence (Append_v2 ''tp_ingest_user'' (sample_params (CHR ''5'')))),
     Set_prepared ''tp_authorizer_user'' 1000 sample_set sample_prepared, Set_committed ''tp_authorizer_user'' 1200 sample_commit sample_selection,
     On_ledger (Prepared sample_boat),
     On_ledger (Authorized ''tp_authorizer_user'' 1500 sample_clock sample_ask (proposal_granted ''proposal_authorized'' sample_proposal_row 1501)),
     On_ledger (Spent ''tp_authorizer_user'' 1500 sample_clock sample_spend sample_spent)]"

lemma sample_retrieval_run: "run sample_machine (empty_ledger, no_vectors) sample_retrieval_events (sample_reserved, sample_vectors)"
proof -
  let ?L1 = "empty_ledger\<lparr>evidence := sample_db [CHR ''5'']\<rparr>"
  have prepared: "sample_machine (?L1, no_vectors) (Set_prepared ''tp_authorizer_user'' 1000 sample_set sample_prepared) (?L1, sample_vectors)"
    by (rule step_prepare) (simp add: sample_set_prepared)
  have committed: "sample_machine (?L1, sample_vectors) (Set_committed ''tp_authorizer_user'' 1200 sample_commit sample_selection)
      (?L1\<lparr>selections := [sample_selection]\<rparr>, sample_vectors)"
    by (rule step_commit) (rule sample_committed, simp add: empty_ledger_def)
  show ?thesis
    unfolding sample_retrieval_events_def
    by (rule run_cons, rule step_ledger, rule sample_steps(1), simp, rule run_cons, rule step_ledger, rule sample_steps(2), simp,
        rule run_cons, rule prepared, rule run_cons, rule committed, rule run_cons, rule step_ledger, rule sample_steps(4), simp,
        rule run_cons, rule step_ledger, rule step_authorized, rule sample_proposed, simp,
        rule run_cons, rule step_ledger, rule step_spent, rule sample_spends, simp, rule run_nil)
qed



end
