(* ===== verification/Retrieval_Digest.thy ===== *)
theory Retrieval_Digest
  imports Retrieval Ledger_Digest
begin

text \<open>
  The binding of a selection is derived twice: the client hashes the canonical JSON of a selection
  receipt (\<open>dviSelectionBindingSha256For\<close> and \<open>dviRankedSequenceSha256For\<close> of
  \<open>src/cloud/dvi-selection.js\<close>, called by \<open>authorityEvidenceBindingDigest\<close> of
  \<open>src/cloud/admissible-vector-retrieval.js\<close>), the database concatenates texts from its own rows
  (\<open>g1_commit_dvi_selection_v1\<close>). Both hash the same texts.
\<close>

section \<open>The client's digests\<close>

record accepted_spec =
  as_tenant :: string
  as_run :: string
  as_retrieval :: string
  as_incident :: string
  as_agency :: string
  as_query :: string
  as_limit :: int

text \<open>\<open>authorityEvidenceBindingDigest\<close>\<close>

definition binding_input ::
    "accepted_spec \<Rightarrow> string \<times> string \<Rightarrow> string \<Rightarrow> string \<Rightarrow> string \<times> string \<Rightarrow> string \<Rightarrow> string \<Rightarrow> string \<Rightarrow> jsv" where
  "binding_input a timing query_digest sequence selected commit spec tree = Obj
       [(''sourceCommit'', Str commit), (''treeDigest'', Str tree), (''specSha256'', Str spec), (''runId'', Str (as_run a)),
        (''tenantId'', Str (as_tenant a)), (''incidentId'', Str (as_incident a)), (''retrievalId'', Str (as_retrieval a)),
        (''agency'', Str (as_agency a)), (''policyVersion'', Str ''g1-admissibility-v2''), (''admittedAt'', Str (fst timing)),
        (''expiresAt'', Str (snd timing)), (''rankedSequenceSha256'', Str sequence), (''queryEmbeddingSha256'', Str query_digest),
        (''resultLimit'', int_num (as_limit a)), (''selectedRank'', int_num 1), (''selectedEvidenceId'', Str (fst selected)),
        (''selectedEvidenceDigest'', Str (snd selected))]"

definition evidence_binding_digest ::
    "jsenv \<Rightarrow> accepted_spec \<Rightarrow> string \<times> string \<Rightarrow> string \<Rightarrow> string \<Rightarrow> string \<times> string \<Rightarrow> string \<Rightarrow> string \<Rightarrow> string \<Rightarrow> js_error + string" where
  "evidence_binding_digest E a timing query_digest sequence selected commit spec tree =
     selection_binding_sha256 E (binding_input a timing query_digest sequence selected commit spec tree)"

text \<open>The rows of the ranking as the client hands them to \<open>dviRankedSequenceSha256For\<close>.\<close>

definition sequence_row :: "candidate_row \<Rightarrow> jsv" where
  "sequence_row c = Obj [(''evidenceId'', Str (cn_evidence c)), (''evidenceDigest'', Str (cn_digest c))]"

text \<open>The parameters of the query that commits the selection.\<close>

definition commit_parameters :: "accepted_spec \<Rightarrow> string \<Rightarrow> string \<Rightarrow> string \<Rightarrow> string \<Rightarrow> selection_request" where
  "commit_parameters a commit tree spec digest =
     \<lparr>sn_tenant = as_tenant a, sn_retrieval = as_retrieval a, sn_run = as_run a, sn_incident = as_incident a, sn_agency = as_agency a,
      sn_policy = Some ''g1-admissibility-v2'', sn_commit = Some commit, sn_tree = Some tree, sn_spec = Some spec,
      sn_query = Some (as_query a), sn_limit = Some (as_limit a), sn_claimed = Some digest\<rparr>"

text \<open>The set the client prepared and ranks; the period is not a parameter of the ranking.\<close>

definition ranked_set :: "accepted_spec \<Rightarrow> set_request" where
  "ranked_set a = \<lparr>sr_tenant = as_tenant a, sr_retrieval = as_retrieval a, sr_incident = as_incident a, sr_agency = as_agency a,
     sr_policy = ''g1-admissibility-v2'', sr_ttl = 0\<rparr>"

section \<open>The same texts\<close>

lemma sequence_lines:
  assumes "map_result sequence_line (map sequence_row rows) = Inr lines"
  shows "lines = map (\<lambda>c. cn_evidence c @ '':'' @ cn_digest c) rows"
proof -
  have "sequence_line (sequence_row c) = Inr l \<Longrightarrow> l = cn_evidence c @ '':'' @ cn_digest c" for c l
    by (auto simp: sequence_line_def sequence_row_def and_then_eq_Inr required_pattern_def split: if_split_asm)
  with assms show ?thesis
    unfolding map_result_Inr_iff list_all2_map1 by (induction rows lines rule: list_all2_induct) auto
qed

lemma sequence_digest:
  assumes "database_agrees E D" and "ranked_sequence_sha256 E (Arr (map sequence_row rows)) = Inr d"
  shows "d = pg_sha256 D (ranked_text rows)"
  using assms by (auto simp: ranked_sequence_sha256_def ranked_text_def database_agrees_def and_then_eq_Inr dest!: sequence_lines split: if_split_asm)

lemma receipt_key_order:
  "js_sort compare_canonical_keys [''schemaVersion'', ''sourceCommit'', ''treeDigest'', ''specSha256'', ''runId'', ''tenantId'', ''incidentId'',
      ''retrievalId'', ''agency'', ''policyVersion'', ''snapshot'', ''rankedSequenceSha256'', ''queryEmbeddingSha256'', ''resultLimit'', ''selected'']
    = [''agency'', ''incidentId'', ''policyVersion'', ''queryEmbeddingSha256'', ''rankedSequenceSha256'', ''resultLimit'', ''retrievalId'', ''runId'',
       ''schemaVersion'', ''selected'', ''snapshot'', ''sourceCommit'', ''specSha256'', ''tenantId'', ''treeDigest'']"
  "js_sort compare_canonical_keys [''admittedAt'', ''expiresAt''] = [''admittedAt'', ''expiresAt'']"
  "js_sort compare_canonical_keys [''rank'', ''evidenceId'', ''evidenceDigest''] = [''evidenceDigest'', ''evidenceId'', ''rank'']"
  by code_simp+

lemma receipt_quotes:
  "quote ''queryEmbeddingSha256'' = CHR 0x22 # ''queryEmbeddingSha256'' @ [CHR 0x22]"
  "quote ''rankedSequenceSha256'' = CHR 0x22 # ''rankedSequenceSha256'' @ [CHR 0x22]"
  "quote ''resultLimit'' = CHR 0x22 # ''resultLimit'' @ [CHR 0x22]"
  "quote ''selected'' = CHR 0x22 # ''selected'' @ [CHR 0x22]"
  "quote ''snapshot'' = CHR 0x22 # ''snapshot'' @ [CHR 0x22]"
  "quote ''sourceCommit'' = CHR 0x22 # ''sourceCommit'' @ [CHR 0x22]"
  "quote ''specSha256'' = CHR 0x22 # ''specSha256'' @ [CHR 0x22]"
  "quote ''treeDigest'' = CHR 0x22 # ''treeDigest'' @ [CHR 0x22]"
  "quote ''rank'' = CHR 0x22 # ''rank'' @ [CHR 0x22]"
  "quote ''evidenceId'' = CHR 0x22 # ''evidenceId'' @ [CHR 0x22]"
  "quote ''evidenceDigest'' = CHR 0x22 # ''evidenceDigest'' @ [CHR 0x22]"
  "quote selection_schema = CHR 0x22 # ''tideproof.authority.dvi-selection-receipt.v2'' @ [CHR 0x22]"
  by code_simp+

lemma hex_40_quote: "hex_40 s \<Longrightarrow> quote s = CHR 0x22 # s @ [CHR 0x22]"
  by (rule id_quote) (auto simp: hex_of_length_def list_all_iff hex_digit_def id_char_def)

lemma pattern_Inr: "required_pattern p (Str s) name = Inr x \<longleftrightarrow> p s \<and> x = s"
  by (auto simp: required_pattern_def)

lemma selection_time_Str: "selection_time E (Str s) name = Inr (x, t) \<Longrightarrow> x = s"
  by (auto simp: selection_time_def split: option.split_asm if_split_asm)

lemma binding_columns:
  "fld (binding_input a timing query_digest sequence selected commit spec tree) ''sourceCommit'' = Str commit"
  "fld (binding_input a timing query_digest sequence selected commit spec tree) ''treeDigest'' = Str tree"
  "fld (binding_input a timing query_digest sequence selected commit spec tree) ''specSha256'' = Str spec"
  "fld (binding_input a timing query_digest sequence selected commit spec tree) ''runId'' = Str (as_run a)"
  "fld (binding_input a timing query_digest sequence selected commit spec tree) ''tenantId'' = Str (as_tenant a)"
  "fld (binding_input a timing query_digest sequence selected commit spec tree) ''incidentId'' = Str (as_incident a)"
  "fld (binding_input a timing query_digest sequence selected commit spec tree) ''retrievalId'' = Str (as_retrieval a)"
  "fld (binding_input a timing query_digest sequence selected commit spec tree) ''agency'' = Str (as_agency a)"
  "fld (binding_input a timing query_digest sequence selected commit spec tree) ''policyVersion'' = Str ''g1-admissibility-v2''"
  "fld (binding_input a timing query_digest sequence selected commit spec tree) ''admittedAt'' = Str (fst timing)"
  "fld (binding_input a timing query_digest sequence selected commit spec tree) ''expiresAt'' = Str (snd timing)"
  "fld (binding_input a timing query_digest sequence selected commit spec tree) ''rankedSequenceSha256'' = Str sequence"
  "fld (binding_input a timing query_digest sequence selected commit spec tree) ''queryEmbeddingSha256'' = Str query_digest"
  "fld (binding_input a timing query_digest sequence selected commit spec tree) ''resultLimit'' = int_num (as_limit a)"
  "fld (binding_input a timing query_digest sequence selected commit spec tree) ''selectedRank'' = int_num 1"
  "fld (binding_input a timing query_digest sequence selected commit spec tree) ''selectedEvidenceId'' = Str (fst selected)"
  "fld (binding_input a timing query_digest sequence selected commit spec tree) ''selectedEvidenceDigest'' = Str (snd selected)"
  by (simp_all add: binding_input_def)

lemma safe_int_num: "as_safe_integer (int_num n) = Some m \<Longrightarrow> m = n"
  by (auto split: if_split_asm)

lemma receipt_of_binding:
  assumes "selection_receipt E (binding_input a timing query_digest sequence selected commit spec tree) = Inr r"
  shows "r = Obj [(''schemaVersion'', Str selection_schema), (''sourceCommit'', Str commit), (''treeDigest'', Str tree),
             (''specSha256'', Str spec), (''runId'', Str (as_run a)), (''tenantId'', Str (as_tenant a)), (''incidentId'', Str (as_incident a)),
             (''retrievalId'', Str (as_retrieval a)), (''agency'', Str (as_agency a)), (''policyVersion'', Str ''g1-admissibility-v2''),
             (''snapshot'', Obj [(''admittedAt'', Str (fst timing)), (''expiresAt'', Str (snd timing))]),
             (''rankedSequenceSha256'', Str sequence), (''queryEmbeddingSha256'', Str query_digest), (''resultLimit'', int_num (as_limit a)),
             (''selected'', Obj [(''rank'', int_num 1), (''evidenceId'', Str (fst selected)), (''evidenceDigest'', Str (snd selected))])]"
    and "hex_40 commit \<and> hex_40 tree \<and> hex_64 spec \<and> uuid_shape (as_run a) \<and> uuid_shape (as_tenant a) \<and> uuid_shape (as_incident a) \<and>
      uuid_shape (as_retrieval a) \<and> hex_64 sequence \<and> hex_64 query_digest \<and> uuid_shape (fst selected) \<and> hex_64 (snd selected)"
  using assms unfolding selection_receipt_def binding_columns
  by (auto simp: guard_simps pattern_Inr split: if_split_asm split: option.split_asm dest!: selection_time_Str safe_int_num)

lemma selection_texts:
  assumes agree: "database_agrees E D"
    and r: "selection_receipt E (binding_input a timing (sl_query s) (sl_ranked s) (sl_evidence s, sl_evidence_digest s) (sl_commit s) (sl_spec s) (sl_tree s)) = Inr r"
    and a: "as_tenant a = sl_tenant s" "as_run a = sl_run s" "as_retrieval a = sl_retrieval s" "as_incident a = sl_incident s" "as_agency a = sl_agency s"
      "as_limit a = sl_limit s" "sl_policy s = ''g1-admissibility-v2''"
    and time: "timing = (pg_time_text D (sl_admitted s), pg_time_text D (sl_expires s))"
  shows "cloud_canonical_json E r = selection_text D s"
proof -
  note shape = receipt_of_binding [OF r]
  have q: "quote (pg_time_text D t) = CHR 0x22 # pg_time_text D t @ [CHR 0x22]" for t
    using agree by (simp add: database_agrees_def plain_quote)
  have snapshot: "cloud_canonical_json E (Obj [(''admittedAt'', Str (pg_time_text D (sl_admitted s))), (''expiresAt'', Str (pg_time_text D (sl_expires s)))])
      = ''{'' @ (quote ''admittedAt'' @ '':'' @ quote (pg_time_text D (sl_admitted s))) @ '','' @ (quote ''expiresAt'' @ '':'' @ quote (pg_time_text D (sl_expires s))) @ ''}''"
    using canonical_fields [of "[(''admittedAt'', Str (pg_time_text D (sl_admitted s))), (''expiresAt'', Str (pg_time_text D (sl_expires s)))]"] receipt_key_order(2) by simp
  have selected: "cloud_canonical_json E (Obj [(''rank'', Num (Fin 1)), (''evidenceId'', Str (sl_evidence s)), (''evidenceDigest'', Str (sl_evidence_digest s))])
      = ''{'' @ (quote ''evidenceDigest'' @ '':'' @ quote (sl_evidence_digest s)) @ '','' @ (quote ''evidenceId'' @ '':'' @ quote (sl_evidence s)) @ '','' @
          (quote ''rank'' @ '':'' @ ''1'') @ ''}''"
    using canonical_fields [of "[(''rank'', Num (Fin 1)), (''evidenceId'', Str (sl_evidence s)), (''evidenceDigest'', Str (sl_evidence_digest s))]"]
      receipt_key_order(3) by (simp add: canonical_small)
  have keys: "map fst [(''schemaVersion'', Str selection_schema), (''sourceCommit'', Str (sl_commit s)), (''treeDigest'', Str (sl_tree s)),
             (''specSha256'', Str (sl_spec s)), (''runId'', Str (as_run a)), (''tenantId'', Str (as_tenant a)), (''incidentId'', Str (as_incident a)),
             (''retrievalId'', Str (as_retrieval a)), (''agency'', Str (as_agency a)), (''policyVersion'', Str ''g1-admissibility-v2''),
             (''snapshot'', Obj [(''admittedAt'', Str (fst timing)), (''expiresAt'', Str (snd timing))]),
             (''rankedSequenceSha256'', Str (sl_ranked s)), (''queryEmbeddingSha256'', Str (sl_query s)), (''resultLimit'', int_num (as_limit a)),
             (''selected'', Obj [(''rank'', int_num 1), (''evidenceId'', Str (sl_evidence s)), (''evidenceDigest'', Str (sl_evidence_digest s))])]
      = [''schemaVersion'', ''sourceCommit'', ''treeDigest'', ''specSha256'', ''runId'', ''tenantId'', ''incidentId'',
      ''retrievalId'', ''agency'', ''policyVersion'', ''snapshot'', ''rankedSequenceSha256'', ''queryEmbeddingSha256'', ''resultLimit'', ''selected'']"
    by simp
  show ?thesis
    unfolding shape(1) fst_conv snd_conv
    by (subst canonical_fields [OF _ receipt_key_order(1) [folded keys]])
      (use agree shape(2) in \<open>simp_all add: snapshot selected q a time literal_quotes receipt_quotes selection_text_def database_agrees_def plain_quotes hex_40_quote\<close>)
qed

section \<open>The same binding\<close>

text \<open>The ranking the client read is the one the database commits.\<close>

lemma ranking_read:
  assumes "rank_set vector gap user tx (ranked_set a) (Some (as_query a)) (Some (as_limit a)) V = Inr ranked"
    and "find_set V (as_tenant a) (as_retrieval a) = Some v" and "unique_on every set_key (vector_sets V)"
  shows "user = ''tp_authorizer_user'' \<and> limit_ok (Some (as_limit a)) \<and> vs_incident v = as_incident a \<and> vs_agency v = as_agency a \<and>
    vs_policy v = ''g1-admissibility-v2'' \<and> vs_cleaned v = None \<and>
    (candidates_in V (as_tenant a) (as_retrieval a) \<noteq> [] \<longrightarrow> vector (as_query a)) \<and>
    map fst ranked = take (nat (as_limit a)) (ranking gap (as_query a) (candidates_in V (as_tenant a) (as_retrieval a)))"
proof -
  from assms(1) have live: "length (filter (live_set tx) (asked_set (ranked_set a) V)) = 1" and fields: "user = ''tp_authorizer_user''"
      "limit_ok (Some (as_limit a))" "candidates_in V (as_tenant a) (as_retrieval a) \<noteq> [] \<longrightarrow> vector (as_query a)"
    and r: "map fst ranked = take (nat (as_limit a)) (ranking gap (as_query a) (candidates_in V (as_tenant a) (as_retrieval a)))"
    unfolding rank_set_def Let_def by (auto simp: sql_guard_Inr ranked_set_def comp_def split: if_split_asm)
  from live have "filter (live_set tx) (asked_set (ranked_set a) V) \<noteq> []" by auto
  then obtain w where w: "w \<in> set (asked_set (ranked_set a) V)" "live_set tx w" by (auto simp: filter_empty_conv)
  have "find_set V (as_tenant a) (as_retrieval a) = Some w"
    using w(1) find_unique [OF assms(3), of w] by (auto simp: asked_set_def ranked_set_def find_set_def)
  with assms(2) have "w = v" by simp
  with w fields r show ?thesis by (simp add: asked_set_def ranked_set_def live_set_def)
qed

lemma live_set_found:
  assumes "find_set V (as_tenant a) (as_retrieval a) = Some v" and "unique_on every set_key (vector_sets V)" and "vs_incident v = as_incident a"
    and "vs_agency v = as_agency a" and "vs_policy v = ''g1-admissibility-v2''" and "vs_cleaned v = None" and "tx < vs_expires v"
  shows "live_sets_of tx (commit_parameters a commit tree spec digest) V = [v]"
proof -
  have v: "v \<in> set (vector_sets V)" "set_key v = (as_tenant a, as_retrieval a)"
    using assms(1) by (auto simp: find_set_def dest: find_SomeD)
  have "filter (\<lambda>s. set_key s = (as_tenant a, as_retrieval a)) (vector_sets V) = [v]"
    using unique_on_filter_one [OF assms(2) v(1)] v(2) by simp
  then have "filter (\<lambda>s. vs_incident s = as_incident a \<and> vs_agency s = as_agency a \<and> Some (vs_policy s) = Some ''g1-admissibility-v2'' \<and> live_set tx s)
      (filter (\<lambda>s. set_key s = (as_tenant a, as_retrieval a)) (vector_sets V)) = [v]"
    using assms(3-) by (simp add: live_set_def)
  then show ?thesis
    unfolding filter_filter live_sets_of_def commit_parameters_def by (simp add: conj_commute conj_left_commute conj_assoc)
qed


section \<open>A selection of both\<close>

definition binding_spec :: accepted_spec where
  "binding_spec = \<lparr>as_tenant = sample_uuid (CHR ''1''), as_run = sample_uuid (CHR ''2''), as_retrieval = sample_uuid (CHR ''4''),
     as_incident = sample_uuid (CHR ''3''), as_agency = ''harbor'', as_query = ''[1,0,0]'', as_limit = 1\<rparr>"

definition binding_candidate :: candidate_row where
  "binding_candidate = \<lparr>cn_tenant = sample_uuid (CHR ''1''), cn_retrieval = sample_uuid (CHR ''4''), cn_evidence = sample_uuid (CHR ''5''),
     cn_digest = replicate 64 (CHR ''c''), cn_assertion = ''gate open'', cn_embedding = ''[1,0,0]''\<rparr>"

definition binding_set :: set_row where
  "binding_set = \<lparr>vs_tenant = sample_uuid (CHR ''1''), vs_retrieval = sample_uuid (CHR ''4''), vs_incident = sample_uuid (CHR ''3''),
     vs_agency = ''harbor'', vs_policy = ''g1-admissibility-v2'', vs_admitted = 0, vs_expires = 1800000000, vs_cleaned = None, vs_count = 1\<rparr>"

definition binding_vectors :: vectors where
  "binding_vectors = \<lparr>vector_sets = [binding_set], vector_candidates = [binding_candidate], vector_exclusions = []\<rparr>"

abbreviation binding_gap :: "string \<Rightarrow> string \<Rightarrow> nat" where
  "binding_gap \<equiv> \<lambda>a b. if a = b then 0 else 1"

lemma binding_found: "find_set binding_vectors (as_tenant binding_spec) (as_retrieval binding_spec) = Some binding_set"
    "unique_on every set_key (vector_sets binding_vectors)"
    "candidates_in binding_vectors (as_tenant binding_spec) (as_retrieval binding_spec) = [binding_candidate]"
  by (simp_all add: find_set_def candidates_in_def binding_vectors_def)
    (simp_all add: set_key_def candidate_set_def binding_set_def binding_candidate_def binding_spec_def)

lemma binding_ranked: "rank_set (\<lambda>_. True) binding_gap ''tp_authorizer_user'' 1000 (ranked_set binding_spec) (Some (as_query binding_spec))
    (Some (as_limit binding_spec)) binding_vectors = Inr [(binding_candidate, 0)]"
proof -
  have "asked_set (ranked_set binding_spec) binding_vectors = [binding_set]"
    by (simp add: asked_set_def binding_vectors_def) (simp add: set_key_def ranked_set_def binding_set_def binding_spec_def)
  moreover have "live_set 1000 binding_set" "limit_ok (Some (as_limit binding_spec))" "as_limit binding_spec = 1"
      "cn_embedding binding_candidate = as_query binding_spec"
      "sr_tenant (ranked_set binding_spec) = as_tenant binding_spec" "sr_retrieval (ranked_set binding_spec) = as_retrieval binding_spec"
    by (simp_all add: live_set_def binding_set_def limit_ok_def binding_spec_def binding_candidate_def ranked_set_def)
  ultimately show ?thesis by (simp add: rank_set_def binding_found ranking_def)
qed

lemma binding_sequence: "ranked_sequence_sha256 request_env (Arr (map (\<lambda>(c, _). sequence_row c) [(binding_candidate, 0 :: nat)])) = Inr (replicate 64 (CHR ''a''))"
proof -
  have "join '','' (sort [''evidenceId'', ''evidenceDigest'']) = ''evidenceDigest,evidenceId''" by code_simp
  moreover have "uuid_shape (sample_uuid (CHR ''5''))" "hex_64 (replicate 64 (CHR ''c''))" by (simp_all add: hex_of_length_def hex_digit_def list_all_iff)
  ultimately show ?thesis
    by (simp add: ranked_sequence_sha256_def sequence_line_def sequence_row_def binding_candidate_def required_pattern_def request_env_def)
qed

lemma binding_digest: "evidence_binding_digest request_env binding_spec (pg_time_text digest_pg (vs_admitted binding_set), pg_time_text digest_pg (vs_expires binding_set))
    (sha256_hex request_env (as_query binding_spec)) (replicate 64 (CHR ''a'')) (cn_evidence binding_candidate, cn_digest binding_candidate)
    (replicate 40 (CHR ''1'')) (replicate 64 (CHR ''3'')) (replicate 40 (CHR ''2'')) = Inr (replicate 64 (CHR ''a''))"
proof -
  have times: "selection_time request_env (Str (iso_text 0)) name = Inr (iso_text 0, 0)"
      "selection_time request_env (Str (iso_text 1800000)) name = Inr (iso_text 1800000, 1800000)" for name
    unfolding selection_time_def by (simp_all add: sample_time_values)
  have hexes: "hex_64 (replicate 64 (CHR ''a''))" "hex_64 (replicate 64 (CHR ''c''))" "hex_64 (replicate 64 (CHR ''3''))" "hex_40 (replicate 40 (CHR ''1''))"
      "hex_40 (replicate 40 (CHR ''2''))" by (simp_all add: hex_of_length_def hex_digit_def list_all_iff)
  have uuids: "uuid_shape (sample_uuid c)" if "c \<in> set ''12345''" for c using that by (auto simp: hex_digit_def)
  have agency: "''harbor'' = trim ''harbor''" by code_simp
  have columns: "pg_time_text digest_pg (vs_admitted binding_set) = iso_text 0" "pg_time_text digest_pg (vs_expires binding_set) = iso_text 1800000"
      "sha256_hex request_env x = replicate 64 (CHR ''a'')" for x by (simp_all add: digest_pg_def binding_set_def request_env_def)
  show ?thesis
    unfolding evidence_binding_digest_def selection_binding_sha256_def selection_receipt_def binding_columns columns fst_conv snd_conv times and_then_Inr prod.case
    using hexes uuids agency
    by (simp add: identity_digest_def columns required_pattern_def) (simp add: binding_spec_def binding_candidate_def max_safe_integer_def)
qed


end
