(* ===== verification/Race_Request.thy ===== *)
theory Race_Request
  imports Store_Spend
begin

text \<open>
  The requests of the authority Lambda (first half of \<open>infra/aws/lambda/authority.cjs\<close>): its
  configuration from the environment, the validation of events and drills, the authority request
  of a contender with its name-based UUIDs, and the changed request of the probe. A thrown value
  is an object with a message; an environment variable that is not set is \<open>undefined\<close>. SHA-1, the URL
  parser and \<open>JSON.parse\<close> are arguments.
\<close>

section \<open>Errors\<close>

definition thrown :: "string \<Rightarrow> jsv" where
  "thrown message = Obj [(''message'', Str message)]"

definition rejects :: "string \<Rightarrow> jsv + 'a" where
  "rejects message = Inl (thrown message)"

text \<open>\<open>try f catch throw new Error(message)\<close>\<close>

definition rejecting :: "string \<Rightarrow> 'e + 'a \<Rightarrow> jsv + 'a" where
  "rejecting message r = map_sum (\<lambda>_. thrown message) id r"

lemma rejects_Inr [simp]: "rejects message \<noteq> Inr x" "Inr x \<noteq> rejects message"
  by (simp_all add: rejects_def)

lemma rejecting_Inr [guard_simps]: "rejecting message r = Inr x \<longleftrightarrow> r = Inr x"
  by (cases r) (simp_all add: rejecting_def)

lemma reject_guard_Inr [guard_simps]: "(if c then rejects message else r) = Inr x \<longleftrightarrow> \<not> c \<and> r = Inr x"
  by simp

section \<open>Digests and UUIDs\<close>

text \<open>\<open>sha256Hex\<close>: a string is hashed as it is, any other value by its canonical text.\<close>

definition lambda_sha256 :: "jsenv \<Rightarrow> jsv \<Rightarrow> string" where
  "lambda_sha256 E v = (case v of Str s \<Rightarrow> sha256_hex E s | _ \<Rightarrow> sha256_hex E (cloud_canonical_json E v))"

definition hex_value :: "char \<Rightarrow> nat" where
  "hex_value c = (let n = of_char c in if n < 58 then n - 48 else n - 87)"

text \<open>\<open>Buffer.from(s, "hex")\<close> on an even number of lower-case digits.\<close>

fun hex_bytes :: "string \<Rightarrow> nat list" where
  "hex_bytes (a # b # s) = (16 * hex_value a + hex_value b) # hex_bytes s"
| "hex_bytes _ = []"

definition bytes_hex :: "nat list \<Rightarrow> string" where
  "bytes_hex bs = concat (map (\<lambda>b. [hex_char (b div 16), hex_char (b mod 16)]) bs)"

text \<open>\<open>update(s, "utf8")\<close>\<close>

definition utf8_bytes :: "string \<Rightarrow> nat list" where
  "utf8_bytes s = concat (map (\<lambda>c. let n = of_char c in if n < 128 then [n] else [192 + n div 64, 128 + n mod 64]) s)"

definition uuid_bytes :: "jsv \<Rightarrow> jsv + nat list" where
  "uuid_bytes v = (case v of
     Str s \<Rightarrow> if any_uuid s then Inr (hex_bytes (filter (\<lambda>c. c \<noteq> CHR ''-'') (to_lower s))) else rejects ''UUID_REJECTED''
   | _ \<Rightarrow> rejects ''UUID_REJECTED'')"

definition with_version :: "nat list \<Rightarrow> nat list" where
  "with_version bs = bs[6 := bs ! 6 mod 16 + 80, 8 := bs ! 8 mod 64 + 128]"

definition hyphenated :: "string \<Rightarrow> string" where
  "hyphenated h = join ''-'' [take 8 h, take 4 (drop 8 h), take 4 (drop 12 h), take 4 (drop 16 h), drop 20 h]"

definition uuid_v5 :: "(nat list \<Rightarrow> nat list) \<Rightarrow> jsv \<Rightarrow> string \<Rightarrow> jsv + string" where
  "uuid_v5 sha1 namespace name = and_then (uuid_bytes namespace) (\<lambda>ns.
     Inr (hyphenated (bytes_hex (with_version (take 16 (sha1 (ns @ utf8_bytes name)))))))"

definition authority_namespace :: jsv where
  "authority_namespace = Str ''7c952e66-76b8-5b66-8d13-20ef81e86241''"

section \<open>Configuration\<close>

definition bad_configuration :: string where
  "bad_configuration = ''AUTHORITY_CONFIGURATION_REJECTED''"

definition required_environment :: "(string \<Rightarrow> jsv) \<Rightarrow> string \<Rightarrow> nat \<Rightarrow> jsv + string" where
  "required_environment env name maximum = (case env name of
     Str s \<Rightarrow> if trim s = [] \<or> length s > maximum then rejects bad_configuration else Inr (trim s)
   | _ \<Rightarrow> rejects bad_configuration)"

definition required_uuid_environment :: "(string \<Rightarrow> jsv) \<Rightarrow> string \<Rightarrow> jsv + string" where
  "required_uuid_environment env name =
     and_then (required_environment env name 64) (\<lambda>s. and_then (uuid_bytes (Str (to_lower s))) (\<lambda>_. Inr (to_lower s)))"

fun split_on :: "char \<Rightarrow> string \<Rightarrow> string list" where
  "split_on c [] = [[]]"
| "split_on c (d # s) = (if d = c then [] # split_on c s else (case split_on c s of w # ws \<Rightarrow> (d # w) # ws | [] \<Rightarrow> [[d]]))"

definition alphanumeric :: "char \<Rightarrow> bool" where
  "alphanumeric c \<longleftrightarrow> lower_letter c \<or> digit c"

text \<open>\<open>[a-z0-9](?:[a-z0-9-]{0,61}[a-z0-9])?\<close>\<close>

definition host_label :: "string \<Rightarrow> bool" where
  "host_label s \<longleftrightarrow> s \<noteq> [] \<and> length s \<le> 63 \<and> alphanumeric (hd s) \<and> alphanumeric (last s) \<and>
     list_all (\<lambda>c. alphanumeric c \<or> c = CHR ''-'') s"

definition database_host :: "string \<Rightarrow> bool" where
  "database_host s \<longleftrightarrow> 1 \<le> length s \<and> length s \<le> 253 \<and>
     (case rev (split_on (CHR ''.'') s) of
        tld # zone # label # labels \<Rightarrow> tld = ''cloud'' \<and> zone = ''cockroachlabs'' \<and> list_all host_label (label # labels)
      | _ \<Rightarrow> False)"

definition required_host :: "(string \<Rightarrow> jsv) \<Rightarrow> string \<Rightarrow> jsv + string" where
  "required_host env name = and_then (required_environment env name 253) (\<lambda>s.
     if \<not> database_host (to_lower s) then rejects bad_configuration else Inr (to_lower s))"

definition port_text :: "string \<Rightarrow> bool" where
  "port_text s \<longleftrightarrow> positive_decimal s \<and> length s \<le> 5 \<and> nat_of_str s \<le> 65535"

definition required_port :: "(string \<Rightarrow> jsv) \<Rightarrow> string \<Rightarrow> jsv + string" where
  "required_port env name = and_then (required_environment env name 5) (\<lambda>s.
     if \<not> port_text s then rejects bad_configuration else Inr s)"

definition upper_letter :: "char \<Rightarrow> bool" where
  "upper_letter c \<longleftrightarrow> (let n = of_char c :: nat in 65 \<le> n \<and> n \<le> 90)"

definition all_of :: "(char \<Rightarrow> bool) \<Rightarrow> string \<Rightarrow> string \<Rightarrow> bool" where
  "all_of P extra s \<longleftrightarrow> list_all (\<lambda>c. P c \<or> c \<in> set extra) s"

text \<open>\<open>/^arn:aws[a-zA-Z-]*:secretsmanager:[a-z0-9-]+:\d{12}:secret:[A-Za-z0-9/_+=.@-]+$/\<close>\<close>

definition secret_arn :: "string \<Rightarrow> bool" where
  "secret_arn s \<longleftrightarrow> (case split_on (CHR '':'') s of
     [scheme, aws, service, region, account, kind_of, name] \<Rightarrow>
       scheme = ''arn'' \<and> take 3 aws = ''aws'' \<and> all_of (\<lambda>c. lower_letter c \<or> upper_letter c) ''-'' (drop 3 aws) \<and>
       service = ''secretsmanager'' \<and> region \<noteq> [] \<and> all_of alphanumeric ''-'' region \<and>
       length account = 12 \<and> list_all digit account \<and> kind_of = ''secret'' \<and>
       name \<noteq> [] \<and> all_of (\<lambda>c. alphanumeric c \<or> upper_letter c) ''/_+=.@-'' name
   | _ \<Rightarrow> False)"

definition secret_version :: "string \<Rightarrow> bool" where
  "secret_version s \<longleftrightarrow> 32 \<le> length s \<and> length s \<le> 64 \<and> all_of (\<lambda>c. alphanumeric c \<or> upper_letter c) ''-'' s"

record lambda_config =
  lc_secret_arn :: string
  lc_secret_version :: string
  lc_host :: string
  lc_port :: string
  lc_tenant :: string
  lc_incident :: string
  lc_resource :: string
  lc_source_commit :: string
  lc_config_digest :: string
  lc_tree_digest :: string
  lc_package_lock :: string
  lc_source_digest :: string
  lc_artifact_digest :: string

definition config_ok :: "lambda_config \<Rightarrow> bool" where
  "config_ok c \<longleftrightarrow> secret_arn (lc_secret_arn c) \<and> secret_version (lc_secret_version c) \<and> hex_40 (lc_source_commit c) \<and>
     hex_40 (lc_tree_digest c) \<and> list_all hex_64 [lc_config_digest c, lc_package_lock c, lc_source_digest c, lc_artifact_digest c]"

definition configuration :: "(string \<Rightarrow> jsv) \<Rightarrow> jsv + lambda_config" where
  "configuration env =
     and_then (required_environment env ''AUTHORITY_DATABASE_SECRET_ARN'' 2048) (\<lambda>arn.
     and_then (required_environment env ''AUTHORITY_DATABASE_SECRET_VERSION_ID'' 64) (\<lambda>version.
     and_then (required_host env ''AUTHORITY_DATABASE_HOST'') (\<lambda>host.
     and_then (required_port env ''AUTHORITY_DATABASE_PORT'') (\<lambda>port.
     and_then (required_uuid_environment env ''AUTHORITY_TENANT_ID'') (\<lambda>tenant.
     and_then (required_uuid_environment env ''AUTHORITY_INCIDENT_ID'') (\<lambda>incident.
     and_then (required_environment env ''AUTHORITY_RESOURCE_ID'' 160) (\<lambda>resource.
     and_then (required_environment env ''SOURCE_COMMIT'' 64) (\<lambda>commit.
     and_then (required_environment env ''CONFIG_DIGEST'' 64) (\<lambda>config.
     and_then (required_environment env ''TREE_DIGEST'' 64) (\<lambda>tree.
     and_then (required_environment env ''PACKAGE_LOCK_DIGEST'' 64) (\<lambda>lock.
     and_then (required_environment env ''AUTHORITY_SOURCE_DIGEST'' 64) (\<lambda>source_digest.
     and_then (required_environment env ''AUTHORITY_ARTIFACT_DIGEST'' 64) (\<lambda>artifact.
     let c = \<lparr>lc_secret_arn = arn, lc_secret_version = version, lc_host = host, lc_port = port, lc_tenant = tenant, lc_incident = incident,
       lc_resource = resource, lc_source_commit = commit, lc_config_digest = config, lc_tree_digest = tree, lc_package_lock = lock,
       lc_source_digest = source_digest, lc_artifact_digest = artifact\<rparr> in
     if \<not> config_ok c then rejects bad_configuration else Inr c)))))))))))))"

section \<open>Events\<close>

definition bad_request :: string where
  "bad_request = ''AUTHORITY_REQUEST_REJECTED''"

definition request_schema :: string where
  "request_schema = ''tideproof.aws-authority-request.v3''"

definition drill_fields :: "string list" where
  "drill_fields = [''alphaLogicalActionDigest'', ''alphaProposalDigest'', ''authorityEvidenceBindingSha256'', ''bravoLogicalActionDigest'',
     ''bravoProposalDigest'', ''runId'', ''selectedEvidenceDigest'', ''selectedEvidenceId'']"

definition sha256_value :: "jsv \<Rightarrow> bool" where
  "sha256_value v \<longleftrightarrow> (case v of Str s \<Rightarrow> hex_64 s | _ \<Rightarrow> False)"

definition with_field :: "string \<Rightarrow> jsv \<Rightarrow> jsv \<Rightarrow> jsv" where
  "with_field k x v = (case v of Obj kvs \<Rightarrow> Obj (js_set k x kvs) | _ \<Rightarrow> v)"

definition validated_drill :: "jsenv \<Rightarrow> jsv \<Rightarrow> jsv + jsv" where
  "validated_drill E v =
     (let run_id = to_lower (js_string E (fld v ''runId'')); selected = to_lower (js_string E (fld v ''selectedEvidenceId'')) in
      if \<not> exact_keys v drill_fields then rejects bad_request
      else and_then (rejecting bad_request (uuid_bytes (Str run_id))) (\<lambda>_.
           and_then (rejecting bad_request (uuid_bytes (Str selected))) (\<lambda>_.
      if \<not> list_all (\<lambda>k. sha256_value (fld v k)) [''alphaLogicalActionDigest'', ''alphaProposalDigest'', ''authorityEvidenceBindingSha256'',
           ''bravoLogicalActionDigest'', ''bravoProposalDigest'', ''selectedEvidenceDigest''] \<or>
         same v ''alphaProposalDigest'' v ''bravoProposalDigest'' \<or> same v ''alphaLogicalActionDigest'' v ''bravoLogicalActionDigest''
      then rejects bad_request
      else Inr (with_field ''selectedEvidenceId'' (Str selected) (with_field ''runId'' (Str run_id) v)))))"

record parsed_event =
  pe_race :: string
  pe_contender :: "string option"
  pe_drill :: jsv

definition race_names :: "string list" where
  "race_names = [''alpha'', ''bravo'']"

definition event_race :: "jsv \<Rightarrow> jsv + string" where
  "event_race event = (case fld event ''raceId'' of
     Str s \<Rightarrow> and_then (rejecting bad_request (uuid_bytes (Str s))) (\<lambda>_. Inr (to_lower s)) | _ \<Rightarrow> rejects bad_request)"

text \<open>\<open>parseReserveEvent\<close> and \<open>parseChangedInputEvent\<close> differ in the mode they ask for.\<close>

definition parse_contender_event :: "jsenv \<Rightarrow> string \<Rightarrow> jsv \<Rightarrow> jsv + parsed_event" where
  "parse_contender_event E mode event =
     (if \<not> exact_keys event [''contender'', ''drill'', ''mode'', ''raceId'', ''schemaVersion''] \<or> fld event ''schemaVersion'' \<noteq> Str request_schema \<or>
         fld event ''mode'' \<noteq> Str mode \<or> \<not> is_string (fld event ''raceId'') \<or> \<not> one_of race_names (fld event ''contender'')
      then rejects bad_request
      else and_then (event_race event) (\<lambda>race.
           and_then (validated_drill E (fld event ''drill'')) (\<lambda>drill.
           Inr \<lparr>pe_race = race, pe_contender = Some (js_string E (fld event ''contender'')), pe_drill = drill\<rparr>)))"

definition parse_reserve_event :: "jsenv \<Rightarrow> jsv \<Rightarrow> jsv + parsed_event" where
  "parse_reserve_event E event = parse_contender_event E ''reserve'' event"

definition parse_changed_event :: "jsenv \<Rightarrow> jsv \<Rightarrow> jsv + parsed_event" where
  "parse_changed_event E event = parse_contender_event E ''changed_input'' event"

definition parse_proof_event :: "jsenv \<Rightarrow> jsv \<Rightarrow> jsv + parsed_event" where
  "parse_proof_event E event =
     (if \<not> exact_keys event [''drill'', ''mode'', ''raceId'', ''schemaVersion''] \<or> fld event ''schemaVersion'' \<noteq> Str request_schema \<or>
         fld event ''mode'' \<noteq> Str ''proof'' \<or> \<not> is_string (fld event ''raceId'')
      then rejects bad_request
      else and_then (event_race event) (\<lambda>race.
           and_then (validated_drill E (fld event ''drill'')) (\<lambda>drill.
           Inr \<lparr>pe_race = race, pe_contender = None, pe_drill = drill\<rparr>)))"

section \<open>The request of a contender\<close>

definition race_lease_ms :: int where "race_lease_ms = 300000"

definition race_payload :: "string \<Rightarrow> jsv" where
  "race_payload contender = Obj [(''scenario'', Str ''synthetic-highwater''), (''action'', Str action_kind),
     (''destination'', Str ''synthetic-zone-aws-race''), (''logicalDispatch'', Str contender)]"

definition race_fields :: "jsenv \<Rightarrow> lambda_config \<Rightarrow> jsv \<Rightarrow> string \<Rightarrow> string \<Rightarrow> string \<Rightarrow> string \<Rightarrow> (string \<times> jsv) list" where
  "race_fields E c drill contender operation nonce effect =
     [(''digestVersion'', int_num 2), (''tenantId'', Str (lc_tenant c)), (''runId'', fld drill ''runId''), (''incidentId'', Str (lc_incident c)),
      (''resourceId'', Str (lc_resource c)), (''operationId'', Str operation), (''agentId'', Str (''aws-authority-'' @ contender)),
      (''agency'', Str ''rescue''), (''evidenceId'', fld drill ''selectedEvidenceId''), (''intentNonce'', Str nonce), (''effectKey'', Str effect),
      (''leaseMs'', int_num race_lease_ms), (''policyVersion'', Str policy_version), (''actionKind'', Str action_kind),
      (''payload'', race_payload contender), (''payloadDigest'', Str (lambda_sha256 E (race_payload contender))),
      (''proposalDigest'', fld drill (if contender = ''alpha'' then ''alphaProposalDigest'' else ''bravoProposalDigest'')),
      (''logicalActionDigest'', fld drill (if contender = ''alpha'' then ''alphaLogicalActionDigest'' else ''bravoLogicalActionDigest'')),
      (''authorityEvidenceBindingSha256'', fld drill ''authorityEvidenceBindingSha256''),
      (''selectedEvidenceDigest'', fld drill ''selectedEvidenceDigest'')]"

definition payload_of_request :: "jsv \<Rightarrow> jsv" where
  "payload_of_request r = Obj
     (map (\<lambda>k. (k, fld r k)) [''digestVersion'', ''tenantId'', ''runId'', ''incidentId'', ''resourceId'', ''agentId'', ''agency'', ''evidenceId'',
        ''intentNonce'', ''effectKey'', ''leaseMs'', ''policyVersion'', ''actionKind'', ''payloadDigest'', ''logicalActionDigest'', ''proposalDigest''] @
      [(''selectedEvidenceId'', fld r ''evidenceId''), (''selectedEvidenceDigest'', fld r ''selectedEvidenceDigest'')])"

definition authority_request_for :: "jsenv \<Rightarrow> (nat list \<Rightarrow> nat list) \<Rightarrow> lambda_config \<Rightarrow> jsv \<Rightarrow> jsv + jsv" where
  "authority_request_for E sha1 c event =
     and_then (parse_reserve_event E event) (\<lambda>p.
     let contender = (case pe_contender p of Some s \<Rightarrow> s | None \<Rightarrow> []); named = (\<lambda>what. uuid_v5 sha1 authority_namespace (pe_race p @ '':'' @ contender @ what)) in
     and_then (named '':operation'') (\<lambda>operation.
     and_then (named '':intent'') (\<lambda>nonce.
     and_then (named '':effect'') (\<lambda>effect.
     let fields = race_fields E c (pe_drill p) contender operation nonce effect; payload = payload_of_request (Obj fields) in
     Inr (Obj (fields @ [(''requestPayload'', payload), (''requestDigest'', Str (lambda_sha256 E payload))]))))))"

definition changed_request_for :: "jsenv \<Rightarrow> (nat list \<Rightarrow> nat list) \<Rightarrow> lambda_config \<Rightarrow> jsv \<Rightarrow> jsv + jsv" where
  "changed_request_for E sha1 c event =
     and_then (parse_changed_event E event) (\<lambda>p.
     and_then (authority_request_for E sha1 c (with_field ''mode'' (Str ''reserve'') event)) (\<lambda>r.
     let digest = lambda_sha256 E (Obj [(''schemaVersion'', Str ''tideproof.aws-authority-changed-input.v1''),
           (''originalSelectedEvidenceDigest'', fld r ''selectedEvidenceDigest'')]);
         payload = with_field ''selectedEvidenceDigest'' (Str digest) (fld r ''requestPayload'') in
     Inr (with_field ''raceId'' (Str (pe_race p)) (with_field ''requestDigest'' (Str (lambda_sha256 E payload))
       (with_field ''requestPayload'' payload (with_field ''selectedEvidenceDigest'' (Str digest) r))))))"

end
