(* ===== verification/Ledger_Resolve.thy ===== *)
theory Ledger_Resolve
  imports Ledger_Inv
begin

text \<open>
  Reading the ledger back (\<open>g1_authority_receipt_current_v1\<close>, \<open>g1_resolve_request_v1\<close> and
  \<open>g1_observe_authority_race_v1\<close> of \<open>src/cloud/primary-security.js\<close>): the receipt that answers
  a request whose outcome the client does not know, joined with what stands behind it, and the
  state of a resource two contenders raced for. Neither writes. A session that is not an
  authorizer gets no row.
\<close>

section \<open>Currentness\<close>

definition receipt_current_v1 :: "pg \<Rightarrow> string \<Rightarrow> int \<Rightarrow> ledger \<Rightarrow> string \<Rightarrow> string \<Rightarrow> sql_error + bool" where
  "receipt_current_v1 D user now L tenant operation =
     (if user \<notin> set authorizers then sql_raise ''42501'' ''authorizer database session required''
      else map_sum id fst (receipt_current D user now L tenant operation))"

section \<open>Resolving a request\<close>

record resolved =
  rv_receipt :: receipt_row
  rv_replay :: string
  rv_outbox :: "outbox_row option"
  rv_resource :: "resource_row option"
  rv_proposal :: "proposal_row option"
  rv_current :: bool
  rv_now :: int

definition operation_candidates :: "string \<Rightarrow> string \<Rightarrow> ledger \<Rightarrow> receipt_row list" where
  "operation_candidates tenant operation L = take 2 (filter (\<lambda>a. receipt_key a = (tenant, operation)) (receipts L))"

definition logical_candidates :: "string \<Rightarrow> string \<Rightarrow> string \<Rightarrow> ledger \<Rightarrow> receipt_row list" where
  "logical_candidates tenant operation action L =
     (if operation_candidates tenant operation L \<noteq> [] then [] else take 2 (spends L tenant action))"

definition semantic_candidates :: "string \<Rightarrow> string \<Rightarrow> string \<Rightarrow> string \<Rightarrow> ledger \<Rightarrow> receipt_row list" where
  "semantic_candidates tenant operation digest action L =
     (if operation_candidates tenant operation L \<noteq> [] \<or> logical_candidates tenant operation action L \<noteq> [] then []
      else take 2 (filter (\<lambda>a. receipt_digest_key a = (tenant, digest)) (receipts L)))"

definition selected_receipts :: "string \<Rightarrow> string \<Rightarrow> string \<Rightarrow> string \<Rightarrow> ledger \<Rightarrow> (receipt_row \<times> string) list" where
  "selected_receipts tenant operation digest action L =
     map (\<lambda>a. (a, ''operation_replay'')) (operation_candidates tenant operation L) @
     map (\<lambda>a. (a, ''logical_authority_replay'')) (logical_candidates tenant operation action L) @
     map (\<lambda>a. (a, ''semantic_replay'')) (semantic_candidates tenant operation digest action L)"

text \<open>A receipt with its left joins and its currentness; \<open>now\<close> is the clock of that reading.\<close>

definition joined_receipt :: "pg \<Rightarrow> string \<Rightarrow> int \<Rightarrow> ledger \<Rightarrow> receipt_row \<times> string \<Rightarrow> sql_error + resolved" where
  "joined_receipt D user now L c =
     (let (a, how) = c in
      and_then (receipt_current D user now L (ar_tenant a) (ar_operation a)) (\<lambda>(cur, read_at). Inr
        \<lparr>rv_receipt = a, rv_replay = how, rv_outbox = find_outbox L (ar_tenant a) (ar_operation a),
         rv_resource = find_resource L (ar_tenant a) (ar_resource a), rv_proposal = find_proposal L (ar_tenant a) (ai_proposal (ar_id a)),
         rv_current = cur, rv_now = read_at\<rparr>))"

definition resolve_request :: "pg \<Rightarrow> string \<Rightarrow> int \<Rightarrow> string \<Rightarrow> string \<Rightarrow> string \<Rightarrow> string \<Rightarrow> ledger \<Rightarrow> sql_error + resolved list" where
  "resolve_request D user now tenant operation digest action L =
     (if user \<notin> set authorizers then Inr []
      else map_sum id (take 2) (map_result (joined_receipt D user now L) (selected_receipts tenant operation digest action L)))"

section \<open>Observing a race\<close>

record contender_state =
  cs_outcome :: string
  cs_reason :: "string option"
  cs_fence :: "int option"
  cs_seen_holder :: "string option"
  cs_seen_fence :: "int option"

record race_observation =
  ro_run :: string
  ro_fence :: int
  ro_holder :: "string option"
  ro_race :: int
  ro_receipts :: int
  ro_reserved :: int
  ro_held :: int
  ro_pending :: int
  ro_outbox :: int
  ro_outbox_operation :: "string option"
  ro_effects :: int
  ro_alpha :: contender_state
  ro_bravo :: contender_state
  ro_now :: int

definition run_receipts :: "string \<Rightarrow> string \<Rightarrow> string \<Rightarrow> ledger \<Rightarrow> receipt_row list" where
  "run_receipts tenant run_id resource L =
     filter (\<lambda>a. ar_tenant a = tenant \<and> ar_run a = run_id \<and> ar_resource a = resource) (receipts L)"

definition run_outbox :: "string \<Rightarrow> string \<Rightarrow> string \<Rightarrow> ledger \<Rightarrow> outbox_row list" where
  "run_outbox tenant run_id resource L =
     filter (\<lambda>b. ob_tenant b = tenant \<and> ob_run b = run_id \<and> ob_resource b = resource) (outbox L)"

definition run_effects :: "string \<Rightarrow> string \<Rightarrow> string \<Rightarrow> ledger \<Rightarrow> effect_row list" where
  "run_effects tenant run_id resource L =
     filter (\<lambda>f. fx_tenant f = tenant \<and> fx_run f = run_id \<and> fx_resource f = resource) (effects L)"

text \<open>The receipt of a contender: its operation and the digest of its request.\<close>

definition made_by :: "string \<times> string \<Rightarrow> receipt_row \<Rightarrow> bool" where
  "made_by c a \<longleftrightarrow> (ar_operation a, ar_digest a) = c"

definition contender_columns :: "receipt_row \<Rightarrow> contender_state" where
  "contender_columns a = \<lparr>cs_outcome = ar_outcome a, cs_reason = ar_reason a, cs_fence = ar_fence a, cs_seen_holder = ar_seen_holder a,
     cs_seen_fence = ar_seen_fence a\<rparr>"

definition outcome_count :: "string \<Rightarrow> receipt_row list \<Rightarrow> int" where
  "outcome_count out rows = int (length (filter (\<lambda>a. ar_outcome a = out) rows))"

definition first_operation :: "outbox_row list \<Rightarrow> string option" where
  "first_operation rows = (case sort (map ob_operation rows) of [] \<Rightarrow> None | i # _ \<Rightarrow> Some i)"

definition observe_race ::
    "string \<Rightarrow> int \<Rightarrow> string \<Rightarrow> string \<Rightarrow> string \<Rightarrow> string \<times> string \<Rightarrow> string \<times> string \<Rightarrow> ledger \<Rightarrow> race_observation option" where
  "observe_race user now tenant run_id resource alpha bravo L =
     (let rows = run_receipts tenant run_id resource L; intents = run_outbox tenant run_id resource L in
      case (find_resource L tenant resource, find (made_by alpha) rows, find (made_by bravo) rows) of
        (Some r, Some a, Some b) \<Rightarrow>
          if rs_run r \<noteq> run_id \<or> user \<notin> set authorizers then None
          else Some
            \<lparr>ro_run = rs_run r, ro_fence = rs_fence r, ro_holder = map_option ho_operation (rs_holder r),
             ro_race = int (length (filter (\<lambda>a. made_by alpha a \<or> made_by bravo a) rows)), ro_receipts = int (length rows),
             ro_reserved = outcome_count ''resource_reserved'' rows, ro_held = outcome_count ''resource_held_denied'' rows,
             ro_pending = outcome_count ''pending'' rows, ro_outbox = int (length intents),
             ro_outbox_operation = first_operation intents, ro_effects = int (length (run_effects tenant run_id resource L)),
             ro_alpha = contender_columns a, ro_bravo = contender_columns b, ro_now = now\<rparr>
      | _ \<Rightarrow> None)"

end
