(* ===== verification/Race_Rows.thy ===== *)
theory Race_Rows
  imports Race_Request Ledger_Resolve
begin

text \<open>
  What the authority Lambda makes of the rows the database returns (second part of
  \<open>infra/aws/lambda/authority.cjs\<close>): the decision of a spend, a resolved request and the
  observation of a race, each refused unless every member agrees with the request. The rows are
  the objects the driver builds from the answers of \<open>g2_spend_authority_race_v1\<close>,
  \<open>g1_resolve_request_v1\<close> and \<open>g1_observe_authority_race_v1\<close>.
\<close>

section \<open>Identities and times\<close>

definition bad_response :: string where
  "bad_response = ''AUTHORITY_DATABASE_RESPONSE_REJECTED''"

definition bad_reconciliation :: string where
  "bad_reconciliation = ''AUTHORITY_RECONCILIATION_REJECTED''"

record race_identity =
  ri_epoch :: int
  ri_key :: string
  ri_binding :: string

definition race_identity_of :: "jsenv \<Rightarrow> jsv \<Rightarrow> jsv \<Rightarrow> int \<Rightarrow> race_identity" where
  "race_identity_of E action proposal epoch =
     (let key = lambda_sha256 E (Obj [(''schemaVersion'', Str authority_key_schema), (''logicalActionDigest'', action),
            (''authorizationEpoch'', int_num epoch)]) in
      \<lparr>ri_epoch = epoch, ri_key = key,
       ri_binding = lambda_sha256 E (Obj [(''schemaVersion'', Str authorization_binding_schema), (''logicalActionDigest'', action),
         (''proposalDigest'', proposal), (''authorizationEpoch'', int_num epoch), (''logicalAuthorityKeySha256'', Str key)])\<rparr>)"

definition epoch_value :: "jsenv \<Rightarrow> jsv \<Rightarrow> int option" where
  "epoch_value E v = (case as_safe_integer (Num (js_number E v)) of
     None \<Rightarrow> None | Some n \<Rightarrow> if n < 1 \<or> int_str n \<noteq> js_string E v then None else Some n)"

text \<open>\<open>authorityIdentityFor\<close>\<close>

definition authority_identity_for :: "jsenv \<Rightarrow> jsv \<Rightarrow> jsv \<Rightarrow> jsv \<Rightarrow> jsv + race_identity" where
  "authority_identity_for E action proposal v =
     (case epoch_value E v of None \<Rightarrow> rejects bad_response | Some n \<Rightarrow> Inr (race_identity_of E action proposal n))"

text \<open>\<open>normalizeTimestamp\<close>: a time outside the range of dates is not finite.\<close>

definition normalize_timestamp :: "jsenv \<Rightarrow> jsv \<Rightarrow> jsv + string option" where
  "normalize_timestamp E v =
     (if nullish v then Inr None
      else case Option.bind (new_date E v) to_iso_string of None \<Rightarrow> rejects bad_response | Some s \<Rightarrow> Inr (Some s))"

text \<open>\<open>new Date(t).getTime() <= new Date(u).getTime()\<close> on normalized times; \<open>null\<close> is the time zero.\<close>

definition expired_at :: "jsenv \<Rightarrow> string option \<Rightarrow> string \<Rightarrow> bool" where
  "expired_at E t now \<longleftrightarrow> not_later (new_date E (driver_text t)) (date_parse E now)"

definition uuid_value :: "jsv \<Rightarrow> bool" where
  "uuid_value v \<longleftrightarrow> (case v of Str s \<Rightarrow> any_uuid s | _ \<Rightarrow> False)"

definition nonempty_text :: "jsv \<Rightarrow> bool" where
  "nonempty_text v \<longleftrightarrow> (case v of Str s \<Rightarrow> s \<noteq> [] | _ \<Rightarrow> False)"

definition or_null :: "jsv \<Rightarrow> jsv" where
  "or_null v = coalesce v Null"

definition positive_text :: "string option \<Rightarrow> bool" where
  "positive_text t \<longleftrightarrow> (case t of None \<Rightarrow> False | Some s \<Rightarrow> positive_decimal s)"

definition lambda_outcomes :: "string list" where
  "lambda_outcomes = [''authorization_denied'', ''resource_held_denied'', ''resource_reserved'']"

definition replay_kinds :: "string list" where
  "replay_kinds = [''operation_replay'', ''semantic_replay'', ''logical_authority_replay'']"

section \<open>Decisions\<close>

record committed_facts =
  cf_operation :: jsv
  cf_request :: jsv
  cf_proposal :: jsv
  cf_evidence_binding :: jsv
  cf_evidence :: jsv
  cf_evidence_digest :: jsv
  cf_identity :: race_identity

record lambda_decision =
  ld_durable :: "bool option" \<comment> \<open>\<open>durableReceipt\<close>, absent from a reconciled decision\<close>
  ld_outcome :: jsv
  ld_reason :: jsv
  ld_fence :: "string option"
  ld_lease :: "string option"
  ld_current :: bool
  ld_now :: string
  ld_replay :: jsv
  ld_committed :: "committed_facts option"

text \<open>\<open>databaseCommitResult\<close>\<close>

definition race_commit_status :: "lambda_decision \<Rightarrow> string" where
  "race_commit_status d =
     (if ld_durable d = Some False then ''DENIED_NOT_DURABLE''
      else if \<not> ld_current d \<and> \<not> (case ld_outcome d of Str s \<Rightarrow> denied s | _ \<Rightarrow> False) then ''COMMITTED_BUT_NO_LONGER_CURRENT''
      else ''COMMITTED'')"

definition race_commit_result :: "lambda_decision \<Rightarrow> jsv \<Rightarrow> string \<Rightarrow> jsv" where
  "race_commit_result d request observation = Obj
     [(''schemaVersion'', Str commit_schema), (''status'', Str (race_commit_status d)), (''operation'', Str ''authority''),
      (''operationDigest'', if ld_durable d = Some False then fld request ''requestDigest''
         else (case ld_committed d of None \<Rightarrow> Undef | Some c \<Rightarrow> cf_request c)),
      (''observation'', Str observation), (''databaseNow'', Str (ld_now d)), (''outcome'', ld_outcome d),
      (''authority'', Obj [(''current'', Bool (ld_current d)), (''requiresFreshAuthorization'', Bool (\<not> ld_current d))]),
      (''reason'', or_null (ld_reason d))]"

section \<open>The row of a spend\<close>

definition spend_row_shaped :: "jsv \<Rightarrow> jsv \<Rightarrow> jsv \<Rightarrow> string option \<Rightarrow> bool" where
  "spend_row_shaped row request replay now \<longleftrightarrow>
     truthy row \<and> (case fld row ''decision_durable_receipt'' of Bool _ \<Rightarrow> True | _ \<Rightarrow> False) \<and>
     one_of lambda_outcomes (fld row ''decision_outcome'') \<and> (replay = Null \<or> one_of replay_kinds replay) \<and>
     same row ''decision_logical_action_digest'' request ''logicalActionDigest'' \<and>
     (replay \<noteq> Str ''logical_authority_replay'' \<longrightarrow> same row ''decision_proposal_digest'' request ''proposalDigest'') \<and>
     test_or_empty hex_64 (fld row ''decision_proposal_digest'') \<and>
     (replay = Null \<longrightarrow> same row ''decision_operation_id'' request ''operationId'') \<and>
     (replay = Null \<or> one_of [''operation_replay'', ''semantic_replay''] replay \<longrightarrow> same row ''decision_request_digest'' request ''requestDigest'') \<and>
     now \<noteq> None"

text \<open>A denial that left no receipt.\<close>

definition early_denial_ok :: "jsenv \<Rightarrow> jsv \<Rightarrow> jsv \<Rightarrow> jsv \<Rightarrow> jsv \<Rightarrow> string option \<Rightarrow> string option \<Rightarrow> bool" where
  "early_denial_ok E row request replay reason fence lease \<longleftrightarrow>
     (let missing = (reason = Str ''proposal_authorization_missing_or_stale'');
          early = one_of [''proposal_authorization_expired'', ''proposal_authorization_superseded''] reason in
      fld row ''decision_outcome'' = Str ''authorization_denied'' \<and> replay = Null \<and>
      same row ''decision_operation_id'' request ''operationId'' \<and> same row ''decision_request_digest'' request ''requestDigest'' \<and>
      same row ''decision_proposal_digest'' request ''proposalDigest'' \<and>
      same row ''decision_logical_action_digest'' request ''logicalActionDigest'' \<and>
      fld row ''decision_authority_current'' = Bool False \<and> fence = None \<and> lease = None \<and>
      fld row ''decision_committed_evidence_id'' = Null \<and> fld row ''decision_committed_evidence_digest'' = Null \<and>
      (missing \<or> early) \<and>
      (missing \<longrightarrow> fld row ''decision_authorization_epoch'' = Null \<and> fld row ''decision_logical_authority_key_sha256'' = Null \<and>
         fld row ''decision_authorization_binding_sha256'' = Null) \<and>
      (early \<longrightarrow> (case authority_identity_for E (fld request ''logicalActionDigest'') (fld request ''proposalDigest'')
           (fld row ''decision_authorization_epoch'') of
         Inl _ \<Rightarrow> False
       | Inr i \<Rightarrow> fld row ''decision_logical_authority_key_sha256'' = Str (ri_key i) \<and>
           fld row ''decision_authorization_binding_sha256'' = Str (ri_binding i))))"

definition committed_evidence_ok :: "jsv \<Rightarrow> jsv \<Rightarrow> jsv \<Rightarrow> jsv \<Rightarrow> bool" where
  "committed_evidence_ok row request replay reason \<longleftrightarrow>
     (let logical = (replay = Str ''logical_authority_replay''); digest = fld row ''decision_committed_evidence_digest'';
          refused = (fld row ''decision_outcome'' = Str ''authorization_denied'');
          mismatch = (refused \<and> reason = Str ''selected_evidence_digest_mismatch'');
          missing = (refused \<and> reason = Str ''evidence_missing'') in
      test_or_empty hex_64 (fld row ''decision_authority_evidence_binding_sha256'') \<and>
      (\<not> logical \<longrightarrow> same row ''decision_authority_evidence_binding_sha256'' request ''authorityEvidenceBindingSha256'') \<and>
      test_or_empty any_uuid (fld row ''decision_committed_evidence_id'') \<and>
      (\<not> logical \<longrightarrow> same row ''decision_committed_evidence_id'' request ''evidenceId'') \<and>
      (missing \<longrightarrow> digest = Null) \<and>
      (mismatch \<longrightarrow> test_or_empty hex_64 digest \<and> \<not> strict_eq digest (fld request ''selectedEvidenceDigest'')) \<and>
      (\<not> missing \<and> \<not> mismatch \<longrightarrow> test_or_empty hex_64 digest \<and>
         (\<not> logical \<longrightarrow> strict_eq digest (fld request ''selectedEvidenceDigest''))))"

definition spend_identity_ok :: "jsv \<Rightarrow> jsv \<Rightarrow> jsv \<Rightarrow> race_identity \<Rightarrow> bool" where
  "spend_identity_ok row request replay i \<longleftrightarrow>
     fld row ''decision_logical_authority_key_sha256'' = Str (ri_key i) \<and> fld row ''decision_authorization_binding_sha256'' = Str (ri_binding i) \<and>
     (replay = Null \<or> replay = Str ''operation_replay'' \<longrightarrow>
        same row ''decision_operation_id'' request ''operationId'' \<and> same row ''decision_request_digest'' request ''requestDigest'') \<and>
     (replay = Str ''semantic_replay'' \<longrightarrow> same row ''decision_request_digest'' request ''requestDigest'') \<and>
     (replay = Str ''logical_authority_replay'' \<longrightarrow> fld row ''decision_outcome'' = Str ''resource_reserved'')"

definition spend_state_ok :: "jsenv \<Rightarrow> jsv \<Rightarrow> jsv \<Rightarrow> string option \<Rightarrow> string option \<Rightarrow> string \<Rightarrow> bool" where
  "spend_state_ok E row reason fence lease now \<longleftrightarrow>
     (let won = (fld row ''decision_outcome'' = Str ''resource_reserved''); cur = fld row ''decision_authority_current'' in
      (won \<longrightarrow> reason = Null \<and> positive_text fence \<and> lease \<noteq> None) \<and>
      (\<not> won \<longrightarrow> nonempty_text reason \<and> fence = None \<and> lease = None) \<and>
      (fld row ''decision_outcome'' = Str ''resource_held_denied'' \<longrightarrow> reason = Str ''active_holder'') \<and>
      (cur = Bool True \<or> cur = Bool False) \<and> (\<not> won \<longrightarrow> cur = Bool False) \<and> (cur = Bool True \<longrightarrow> \<not> expired_at E lease now))"

definition normalize_spend_row :: "jsenv \<Rightarrow> jsv \<Rightarrow> jsv \<Rightarrow> jsv + lambda_decision" where
  "normalize_spend_row E row request =
     (let replay = or_null (fld row ''decision_replay_kind''); reason = or_null (fld row ''decision_reason'');
          fence = text_if_any E (fld row ''decision_fencing_token'') in
      and_then (normalize_timestamp E (fld row ''decision_lease_expires_at'')) (\<lambda>lease.
      and_then (normalize_timestamp E (fld row ''decision_database_now'')) (\<lambda>now.
      if \<not> spend_row_shaped row request replay now then rejects bad_response
      else if fld row ''decision_durable_receipt'' = Bool False then
        if \<not> early_denial_ok E row request replay reason fence lease then rejects bad_response
        else Inr \<lparr>ld_durable = Some False, ld_outcome = fld row ''decision_outcome'', ld_reason = reason, ld_fence = None, ld_lease = None,
          ld_current = False, ld_now = the now, ld_replay = Null, ld_committed = None\<rparr>
      else if \<not> committed_evidence_ok row request replay reason then rejects bad_response
      else and_then (authority_identity_for E (fld request ''logicalActionDigest'') (fld row ''decision_proposal_digest'')
          (fld row ''decision_authorization_epoch'')) (\<lambda>i.
      if \<not> spend_identity_ok row request replay i \<or> \<not> spend_state_ok E row reason fence lease (the now) then rejects bad_response
      else Inr \<lparr>ld_durable = Some True, ld_outcome = fld row ''decision_outcome'', ld_reason = reason, ld_fence = fence, ld_lease = lease,
        ld_current = (fld row ''decision_authority_current'' = Bool True), ld_now = the now, ld_replay = replay, ld_committed = Some
          \<lparr>cf_operation = fld row ''decision_operation_id'', cf_request = fld row ''decision_request_digest'',
           cf_proposal = fld row ''decision_proposal_digest'', cf_evidence_binding = fld row ''decision_authority_evidence_binding_sha256'',
           cf_evidence = fld row ''decision_committed_evidence_id'', cf_evidence_digest = fld row ''decision_committed_evidence_digest'',
           cf_identity = i\<rparr>\<rparr>))))"

section \<open>A resolved request\<close>

text \<open>The columns of the proposal, and what is made of them: its evidence binding and expiry.\<close>

definition proposal_columns_ok :: "jsenv \<Rightarrow> jsv \<Rightarrow> string option \<Rightarrow> string option \<Rightarrow> bool" where
  "proposal_columns_ok E row admitted expires \<longleftrightarrow>
     (let payload = fld row ''receipt_proposal_payload''; digest = fld row ''receipt_proposal_payload_digest'' in
      list_all (\<lambda>k. uuid_value (fld row k)) [''receipt_proposal_tenant_id'', ''receipt_proposal_run_id'', ''receipt_proposal_incident_id'',
        ''receipt_proposal_retrieval_id'', ''receipt_proposal_selected_evidence_id''] \<and>
      list_all (\<lambda>k. sha256_value (fld row k)) [''receipt_proposal_digest'', ''receipt_proposal_logical_action_digest'',
        ''receipt_proposal_authority_evidence_binding_sha256'', ''receipt_proposal_payload_digest'', ''receipt_proposal_selected_evidence_digest'',
        ''receipt_proposal_logical_authority_key_sha256'', ''receipt_proposal_authorization_binding_sha256''] \<and>
      admitted \<noteq> None \<and> expires \<noteq> None \<and>
      list_all (\<lambda>k. nonempty_text (fld row k)) [''receipt_proposal_resource_id'', ''receipt_proposal_agency'', ''receipt_proposal_policy_version''] \<and>
      plain_object payload \<and> fld row ''receipt_proposal_payload_canonical'' = Str (cloud_canonical_json E payload) \<and>
      digest = Str (lambda_sha256 E payload) \<and> js_number E (fld row ''receipt_proposal_selected_rank'') = Fin 1 \<and>
      epoch_value E (fld row ''receipt_proposal_authorization_epoch'') \<noteq> None \<and>
      \<not> not_later (date_parse E (the expires)) (date_parse E (the admitted)))"

definition column_action_digest :: "jsenv \<Rightarrow> jsv \<Rightarrow> string" where
  "column_action_digest E row = lambda_sha256 E (Obj
     [(''schemaVersion'', Str logical_action_schema), (''tenantId'', fld row ''receipt_proposal_tenant_id''),
      (''incidentId'', fld row ''receipt_proposal_incident_id''), (''resourceId'', fld row ''receipt_proposal_resource_id''),
      (''agency'', fld row ''receipt_proposal_agency''), (''actionKind'', fld row ''receipt_proposal_action_kind''),
      (''payloadDigest'', fld row ''receipt_proposal_payload_digest'')])"

definition column_proposal_digest :: "jsenv \<Rightarrow> jsv \<Rightarrow> string \<Rightarrow> string \<Rightarrow> string" where
  "column_proposal_digest E row admitted expires = lambda_sha256 E (Obj
     [(''schemaVersion'', Str proposal_schema), (''tenantId'', fld row ''receipt_proposal_tenant_id''), (''runId'', fld row ''receipt_proposal_run_id''),
      (''incidentId'', fld row ''receipt_proposal_incident_id''), (''retrievalId'', fld row ''receipt_proposal_retrieval_id''),
      (''logicalActionDigest'', Str (column_action_digest E row)),
      (''authorityEvidenceBindingSha256'', fld row ''receipt_proposal_authority_evidence_binding_sha256''),
      (''selectedEvidenceId'', fld row ''receipt_proposal_selected_evidence_id''),
      (''selectedEvidenceDigest'', fld row ''receipt_proposal_selected_evidence_digest''),
      (''policyVersion'', fld row ''receipt_proposal_policy_version''),
      (''selectedRank'', Num (js_number E (fld row ''receipt_proposal_selected_rank''))), (''admittedAt'', Str admitted), (''expiresAt'', Str expires)])"

definition columns_agree :: "jsenv \<Rightarrow> jsv \<Rightarrow> jsv \<Rightarrow> string \<Rightarrow> string \<Rightarrow> int \<Rightarrow> bool" where
  "columns_agree E row request action proposal epoch \<longleftrightarrow>
     (let i = race_identity_of E (Str action) (Str proposal) epoch in
      same row ''receipt_proposal_tenant_id'' request ''tenantId'' \<and> same row ''receipt_proposal_digest'' row ''proposal_digest'' \<and>
      fld row ''proposal_digest'' = Str proposal \<and> fld row ''logical_action_digest'' = Str action \<and>
      same row ''receipt_proposal_logical_action_digest'' row ''logical_action_digest'' \<and>
      same row ''receipt_proposal_resource_id'' row ''resource_id'' \<and> same row ''receipt_proposal_agency'' row ''agency'' \<and>
      fld row ''receipt_proposal_action_kind'' = Str action_kind \<and> same row ''receipt_proposal_payload_digest'' row ''payload_digest'' \<and>
      cloud_canonical_json E (fld row ''receipt_proposal_payload'') = cloud_canonical_json E (fld request ''payload'') \<and>
      same row ''receipt_proposal_run_id'' row ''run_id'' \<and> same row ''receipt_proposal_incident_id'' row ''incident_id'' \<and>
      same row ''receipt_proposal_selected_evidence_id'' row ''evidence_id'' \<and> int_str epoch = js_string E (fld row ''authorization_epoch'') \<and>
      fld row ''receipt_proposal_logical_authority_key_sha256'' = Str (ri_key i) \<and>
      fld row ''receipt_proposal_authorization_binding_sha256'' = Str (ri_binding i))"

definition normalize_receipt_proposal :: "jsenv \<Rightarrow> jsv \<Rightarrow> jsv \<Rightarrow> jsv + jsv \<times> string" where
  "normalize_receipt_proposal E row request =
     and_then (normalize_timestamp E (fld row ''receipt_proposal_admitted_at'')) (\<lambda>admitted.
     and_then (normalize_timestamp E (fld row ''receipt_proposal_expires_at'')) (\<lambda>expires.
     if \<not> proposal_columns_ok E row admitted expires then rejects bad_reconciliation
     else if \<not> columns_agree E row request (column_action_digest E row) (column_proposal_digest E row (the admitted) (the expires))
         (the (epoch_value E (fld row ''receipt_proposal_authorization_epoch'')))
     then rejects bad_reconciliation
     else Inr (fld row ''receipt_proposal_authority_evidence_binding_sha256'', the expires)))"

definition resolved_row_shaped :: "jsenv \<Rightarrow> jsv \<Rightarrow> jsv \<Rightarrow> bool" where
  "resolved_row_shaped E row request \<longleftrightarrow>
     (let p = fld row ''request_payload'' in
      truthy row \<and> same row ''logical_action_digest'' request ''logicalActionDigest'' \<and> one_of lambda_outcomes (fld row ''outcome'') \<and>
      one_of replay_kinds (fld row ''replay_kind'') \<and> plain_object p \<and> fld row ''request_digest'' = Str (lambda_sha256 E p) \<and>
      same p ''logicalActionDigest'' row ''logical_action_digest'' \<and> same p ''proposalDigest'' row ''proposal_digest'' \<and>
      same p ''runId'' row ''run_id'' \<and> same p ''incidentId'' row ''incident_id'' \<and> same p ''resourceId'' row ''resource_id'' \<and>
      same p ''agentId'' row ''agent_id'' \<and> same p ''agency'' row ''agency'' \<and> same p ''evidenceId'' row ''evidence_id'' \<and>
      same p ''selectedEvidenceId'' row ''receipt_proposal_selected_evidence_id'' \<and>
      same p ''selectedEvidenceDigest'' row ''receipt_proposal_selected_evidence_digest'' \<and>
      same row ''evidence_id'' row ''receipt_proposal_selected_evidence_id'' \<and> same p ''effectKey'' row ''effect_key'' \<and>
      same p ''payloadDigest'' row ''payload_digest'' \<and> same p ''policyVersion'' row ''policy_version'')"

definition replay_agrees :: "jsenv \<Rightarrow> jsv \<Rightarrow> jsv \<Rightarrow> bool" where
  "replay_agrees E row request \<longleftrightarrow>
     (let logical = (fld row ''replay_kind'' = Str ''logical_authority_replay'') in
      (\<not> logical \<longrightarrow> same row ''request_digest'' request ''requestDigest'' \<and> same row ''proposal_digest'' request ''proposalDigest'' \<and>
         cloud_canonical_json E (fld row ''request_payload'') = cloud_canonical_json E (fld request ''requestPayload'')) \<and>
      (fld row ''replay_kind'' = Str ''operation_replay'' \<longrightarrow> same row ''operation_id'' request ''operationId'') \<and>
      (logical \<longrightarrow> fld row ''outcome'' = Str ''resource_reserved''))"

definition resolved_outbox_ok :: "jsenv \<Rightarrow> jsv \<Rightarrow> jsv \<Rightarrow> bool" where
  "resolved_outbox_ok E row request \<longleftrightarrow>
     truthy (fld row ''outbox_intent_id'') \<and>
     list_all (\<lambda>k. same row (''outbox_'' @ k) row k) [''operation_id'', ''request_digest'', ''proposal_digest'', ''logical_action_digest''] \<and>
     js_string E (fld row ''outbox_authorization_epoch'') = js_string E (fld row ''authorization_epoch'') \<and>
     list_all (\<lambda>k. same row (''outbox_'' @ k) row k) [''logical_authority_key_sha256'', ''authorization_binding_sha256'', ''run_id'',
       ''incident_id'', ''resource_id''] \<and>
     text_if_any E (fld row ''outbox_fencing_token'') = text_if_any E (fld row ''fencing_token'') \<and> same row ''outbox_effect_key'' row ''effect_key'' \<and>
     fld row ''outbox_intent_kind'' = Str action_kind \<and> plain_object (fld row ''outbox_payload'') \<and> plain_object (fld row ''receipt_proposal_payload'') \<and>
     cloud_canonical_json E (fld row ''outbox_payload'') = cloud_canonical_json E (fld row ''receipt_proposal_payload'') \<and>
     cloud_canonical_json E (fld row ''outbox_payload'') = cloud_canonical_json E (fld request ''payload'') \<and>
     fld row ''outbox_payload_digest'' = Str (lambda_sha256 E (fld row ''outbox_payload'')) \<and> same row ''outbox_payload_digest'' row ''payload_digest''"

definition resolved_won_ok :: "jsenv \<Rightarrow> jsv \<Rightarrow> jsv \<Rightarrow> race_identity \<Rightarrow> jsv \<Rightarrow> string option \<Rightarrow> string option \<Rightarrow> bool" where
  "resolved_won_ok E row request i reason lease resource_lease \<longleftrightarrow>
     (let fence = text_if_any E (fld row ''fencing_token'') in
      resolved_outbox_ok E row request \<and> reason = Null \<and> positive_text fence \<and> lease \<noteq> None \<and> resource_lease \<noteq> None \<and>
      (truthy (fld row ''authority_current'') \<longrightarrow>
         fence = Some (js_string E (fld row ''current_fence'')) \<and> same row ''active_run_id'' row ''run_id'' \<and>
         same row ''holder_operation_id'' row ''operation_id'' \<and> same row ''holder_proposal_digest'' row ''proposal_digest'' \<and>
         fld row ''holder_logical_authority_key_sha256'' = Str (ri_key i)) \<and>
      same row ''evidence_digest'' row ''receipt_proposal_selected_evidence_digest'')"

definition resolved_denial_ok :: "jsenv \<Rightarrow> jsv \<Rightarrow> jsv \<Rightarrow> bool" where
  "resolved_denial_ok E row reason \<longleftrightarrow>
     (let digest = fld row ''evidence_digest''; selected = same row ''evidence_digest'' row ''receipt_proposal_selected_evidence_digest'';
          refused = (fld row ''outcome'' = Str ''authorization_denied''); held_denial = (fld row ''outcome'' = Str ''resource_held_denied'');
          mismatch = (refused \<and> reason = Str ''selected_evidence_digest_mismatch'');
          missing = (refused \<and> reason = Str ''evidence_missing'') in
      (held_denial \<longrightarrow> reason = Str ''active_holder'' \<and> selected \<and> test_or_empty any_uuid (or_null (fld row ''observed_holder_operation_id'')) \<and>
         positive_text (text_if_any E (fld row ''observed_fence''))) \<and>
      (\<not> held_denial \<longrightarrow> nullish (fld row ''observed_holder_operation_id'') \<and> nullish (fld row ''observed_fence'')) \<and>
      (missing \<longrightarrow> digest = Null) \<and> (mismatch \<longrightarrow> test_or_empty hex_64 digest \<and> \<not> selected) \<and>
      (\<not> missing \<and> \<not> mismatch \<longrightarrow> test_or_empty hex_64 digest))"

definition resolved_state_ok :: "jsenv \<Rightarrow> jsv \<Rightarrow> jsv \<Rightarrow> race_identity \<Rightarrow> jsv \<Rightarrow> string option \<Rightarrow> string option \<Rightarrow> string \<Rightarrow> string option \<Rightarrow> bool" where
  "resolved_state_ok E row request i reason lease resource_lease expires now \<longleftrightarrow>
     (let won = (fld row ''outcome'' = Str ''resource_reserved''); cur = fld row ''authority_current'' in
      (won \<longrightarrow> resolved_won_ok E row request i reason lease resource_lease) \<and>
      (\<not> won \<longrightarrow> \<not> truthy (fld row ''outbox_intent_id'') \<and> nonempty_text reason \<and> nullish (fld row ''fencing_token'') \<and> lease = None) \<and>
      resolved_denial_ok E row reason \<and> (cur = Bool True \<or> cur = Bool False) \<and> (\<not> won \<longrightarrow> cur = Bool False) \<and> now \<noteq> None \<and>
      (cur = Bool True \<longrightarrow> \<not> expired_at E lease (the now) \<and> \<not> expired_at E resource_lease (the now) \<and> \<not> expired_at E (Some expires) (the now)))"

definition normalize_resolved_row :: "jsenv \<Rightarrow> jsv \<Rightarrow> jsv \<Rightarrow> jsv + lambda_decision" where
  "normalize_resolved_row E row request =
     (if \<not> resolved_row_shaped E row request \<or> \<not> replay_agrees E row request then rejects bad_reconciliation
      else
        and_then (rejecting bad_reconciliation (authority_identity_for E (fld request ''logicalActionDigest'') (fld row ''proposal_digest'')
          (fld row ''authorization_epoch''))) (\<lambda>i.
        and_then (rejecting bad_reconciliation (normalize_receipt_proposal E row request)) (\<lambda>(binding, expires).
        if fld row ''logical_authority_key_sha256'' \<noteq> Str (ri_key i) \<or> fld row ''authorization_binding_sha256'' \<noteq> Str (ri_binding i) \<or>
           fld row ''replay_kind'' \<noteq> Str ''logical_authority_replay'' \<and> \<not> strict_eq binding (fld request ''authorityEvidenceBindingSha256'')
        then rejects bad_reconciliation
        else
          and_then (normalize_timestamp E (fld row ''database_now'')) (\<lambda>now.
          and_then (normalize_timestamp E (fld row ''lease_expires_at'')) (\<lambda>lease.
          and_then (normalize_timestamp E (fld row ''resource_lease_expires_at'')) (\<lambda>resource_lease.
          let reason = or_null (fld row ''reason'') in
          if \<not> resolved_state_ok E row request i reason lease resource_lease expires now then rejects bad_reconciliation
          else Inr \<lparr>ld_durable = None, ld_outcome = fld row ''outcome'', ld_reason = reason, ld_fence = text_if_any E (fld row ''fencing_token''),
            ld_lease = lease, ld_current = (fld row ''authority_current'' = Bool True), ld_now = the now,
            ld_replay = (if fld row ''replay_kind'' = Str ''operation_replay'' then Str ''reconciled_after_ambiguous_commit'' else fld row ''replay_kind''),
            ld_committed = Some \<lparr>cf_operation = fld row ''operation_id'', cf_request = fld row ''request_digest'',
              cf_proposal = fld row ''proposal_digest'', cf_evidence_binding = binding, cf_evidence = fld row ''evidence_id'',
              cf_evidence_digest = fld row ''evidence_digest'', cf_identity = i\<rparr>\<rparr>))))))"

section \<open>The observation of a race\<close>

definition bad_proof :: string where
  "bad_proof = ''AUTHORITY_PROOF_REJECTED''"

definition proof_keys :: "string list" where
  "proof_keys = [''active_run_id'', ''alpha_fencing_token'', ''alpha_observed_fence'', ''alpha_observed_holder_operation_id'', ''alpha_outcome'',
     ''alpha_reason'', ''bravo_fencing_token'', ''bravo_observed_fence'', ''bravo_observed_holder_operation_id'', ''bravo_outcome'',
     ''bravo_reason'', ''current_fence'', ''held_denial_count'', ''holder_operation_id'', ''observed_at'', ''outbox_count'',
     ''outbox_operation_id'', ''pending_count'', ''protected_effect_count'', ''race_receipt_count'', ''reserved_count'', ''resource_receipt_count'']"

record contender_outcome =
  co_operation :: jsv
  co_digest :: jsv
  co_outcome :: jsv
  co_reason :: jsv
  co_fence :: "string option"
  co_holder :: jsv
  co_seen_fence :: "string option"

definition contender_outcome :: "jsenv \<Rightarrow> jsv \<Rightarrow> string \<Rightarrow> jsv \<Rightarrow> contender_outcome" where
  "contender_outcome E row name request =
     \<lparr>co_operation = fld request ''operationId'', co_digest = fld request ''requestDigest'', co_outcome = fld row (name @ ''_outcome''),
      co_reason = or_null (fld row (name @ ''_reason'')), co_fence = text_if_any E (fld row (name @ ''_fencing_token'')),
      co_holder = or_null (fld row (name @ ''_observed_holder_operation_id'')),
      co_seen_fence = text_if_any E (fld row (name @ ''_observed_fence''))\<rparr>"

record proof_state =
  ps_run :: jsv
  ps_fence :: string
  ps_holder :: jsv
  ps_outbox :: jsv
  ps_at :: string
  ps_counts :: "(string \<times> string) list"
  ps_outcomes :: "(string \<times> contender_outcome) list"

definition proof_counts :: "jsenv \<Rightarrow> jsv \<Rightarrow> (string \<times> string) list" where
  "proof_counts E row = map (\<lambda>(k, column). (k, js_string E (fld row column)))
     [(''raceReceiptCount'', ''race_receipt_count''), (''resourceReceiptCount'', ''resource_receipt_count''), (''reservedCount'', ''reserved_count''),
      (''heldDenialCount'', ''held_denial_count''), (''pendingCount'', ''pending_count''), (''outboxCount'', ''outbox_count''),
      (''protectedEffectCount'', ''protected_effect_count'')]"

definition expected_counts :: "(string \<times> string) list" where
  "expected_counts = [(''raceReceiptCount'', ''2''), (''resourceReceiptCount'', ''2''), (''reservedCount'', ''1''), (''heldDenialCount'', ''1''),
     (''pendingCount'', ''0''), (''outboxCount'', ''1''), (''protectedEffectCount'', ''0'')]"

text \<open>The keys of the counts are those of the literal just built, and a winner and a denial differ by their outcomes.\<close>

definition race_decided :: "jsenv \<Rightarrow> jsv \<Rightarrow> jsv \<Rightarrow> contender_outcome \<Rightarrow> contender_outcome \<Rightarrow> bool" where
  "race_decided E row drill w d \<longleftrightarrow>
     same row ''active_run_id'' drill ''runId'' \<and> co_reason w = Null \<and> positive_text (co_fence w) \<and> co_holder w = Null \<and> co_seen_fence w = None \<and>
     co_reason d = Str ''active_holder'' \<and> co_fence d = None \<and> strict_eq (co_holder d) (co_operation w) \<and> co_seen_fence d = co_fence w \<and>
     Some (js_string E (fld row ''current_fence'')) = co_fence w \<and> strict_eq (fld row ''holder_operation_id'') (co_operation w) \<and>
     strict_eq (fld row ''outbox_operation_id'') (co_operation w) \<and> proof_counts E row = expected_counts"

definition normalize_proof_row :: "jsenv \<Rightarrow> jsv \<Rightarrow> jsv \<Rightarrow> jsv \<Rightarrow> jsv \<Rightarrow> jsv + proof_state" where
  "normalize_proof_row E row drill alpha bravo =
     (let outcomes = [(''alpha'', contender_outcome E row ''alpha'' alpha), (''bravo'', contender_outcome E row ''bravo'' bravo)];
          with_outcome = (\<lambda>s. find (\<lambda>c. co_outcome c = Str s) (map snd outcomes)) in
      if \<not> exact_keys row proof_keys then rejects bad_proof
      else
        and_then (normalize_timestamp E (fld row ''observed_at'')) (\<lambda>seen.
        case (with_outcome ''resource_reserved'', with_outcome ''resource_held_denied'', seen) of
          (Some w, Some d, Some t) \<Rightarrow>
            if \<not> race_decided E row drill w d then rejects bad_proof
            else Inr \<lparr>ps_run = fld row ''active_run_id'', ps_fence = js_string E (fld row ''current_fence''), ps_holder = fld row ''holder_operation_id'',
              ps_outbox = fld row ''outbox_operation_id'', ps_at = t, ps_counts = proof_counts E row, ps_outcomes = outcomes\<rparr>
        | _ \<Rightarrow> rejects bad_proof))"

end
