(* ===== verification/Race_Lambda.thy ===== *)
theory Race_Lambda
  imports Race_Rows Store_Retry
begin

text \<open>
  The transactions and the handler of the authority Lambda (last part of
  \<open>infra/aws/lambda/authority.cjs\<close>) on the tables of the ledger: the spend with its retries, the
  reconciliation after an unknown commit, the read-only observation of a race and the four modes of an
  invocation. The stored functions are those of the ledger; what the connection, the driver and
  other sessions do is a record of arguments, numbered by the attempt. Telemetry is left out.
\<close>

section \<open>Rows as the driver presents them\<close>

abbreviation driver_int_option :: "int option \<Rightarrow> jsv" where
  "driver_int_option v \<equiv> (case v of None \<Rightarrow> Null | Some n \<Rightarrow> driver_int n)"

abbreviation driver_date_option :: "(int \<Rightarrow> int) \<Rightarrow> int option \<Rightarrow> jsv" where
  "driver_date_option ms v \<equiv> (case v of None \<Rightarrow> Null | Some t \<Rightarrow> driver_date ms t)"

text \<open>The columns of \<open>g2_spend_authority_race_v1\<close>\<close>

definition race_row :: "(int \<Rightarrow> int) \<Rightarrow> race_decision \<Rightarrow> jsv" where
  "race_row ms r = (let d = rc_decision r in Obj
     [(''decision_outcome'', Str (dc_outcome d)), (''decision_reason'', driver_text (dc_reason d)),
      (''decision_fencing_token'', driver_int_option (dc_fence d)), (''decision_lease_expires_at'', driver_date_option ms (dc_expires d)),
      (''decision_operation_id'', Str (dc_operation d)), (''decision_request_digest'', Str (dc_digest d)),
      (''decision_replay_kind'', driver_text (dc_replay d)), (''decision_proposal_digest'', Str (dc_proposal d)),
      (''decision_logical_action_digest'', Str (dc_action d)), (''decision_authorization_epoch'', driver_int_option (dc_epoch d)),
      (''decision_logical_authority_key_sha256'', driver_text (dc_key d)), (''decision_authorization_binding_sha256'', driver_text (dc_binding d)),
      (''decision_authority_current'', Bool (dc_current d)), (''decision_database_now'', driver_date ms (dc_now d)),
      (''decision_durable_receipt'', Bool (rc_durable r)), (''decision_authority_evidence_binding_sha256'', driver_text (rc_evidence_binding r)),
      (''decision_committed_evidence_id'', driver_text (rc_evidence r)), (''decision_committed_evidence_digest'', driver_text (rc_evidence_digest r))])"

text \<open>The columns of \<open>g1_resolve_request_v1\<close>; \<open>ids\<close> is the generated identity of an intent.\<close>

definition receipt_columns :: "(int \<Rightarrow> int) \<Rightarrow> receipt_row \<Rightarrow> (string \<times> jsv) list" where
  "receipt_columns ms a =
     [(''operation_id'', Str (ar_operation a)), (''request_digest'', Str (ar_digest a)), (''request_payload'', ar_payload a),
      (''proposal_digest'', Str (ai_proposal (ar_id a))), (''logical_action_digest'', Str (ai_action (ar_id a))),
      (''authorization_epoch'', driver_int (ai_epoch (ar_id a))), (''logical_authority_key_sha256'', Str (ai_key (ar_id a))),
      (''authorization_binding_sha256'', Str (ai_binding (ar_id a))), (''run_id'', Str (ar_run a)), (''incident_id'', Str (ar_incident a)),
      (''resource_id'', Str (ar_resource a)), (''agent_id'', Str (ar_agent a)), (''agency'', Str (ar_agency a)), (''evidence_id'', Str (ar_evidence a)),
      (''evidence_digest'', driver_text (ar_evidence_digest a)), (''effect_key'', Str (ar_effect a)), (''payload_digest'', Str (ar_payload_digest a)),
      (''policy_version'', Str (ar_policy a)), (''outcome'', Str (ar_outcome a)), (''reason'', driver_text (ar_reason a)),
      (''fencing_token'', driver_int_option (ar_fence a)), (''lease_expires_at'', driver_date_option ms (ar_expires a)),
      (''observed_holder_operation_id'', driver_text (ar_seen_holder a)), (''observed_fence'', driver_int_option (ar_seen_fence a))]"

definition column :: "('r \<Rightarrow> jsv) \<Rightarrow> 'r option \<Rightarrow> jsv" where
  "column f r = (case r of None \<Rightarrow> Null | Some x \<Rightarrow> f x)"

definition outbox_columns_of :: "(outbox_row \<Rightarrow> string) \<Rightarrow> outbox_row option \<Rightarrow> (string \<times> jsv) list" where
  "outbox_columns_of ids b = map (\<lambda>(k, f). (k, column f b))
     [(''outbox_intent_id'', \<lambda>b. Str (ids b)), (''outbox_operation_id'', \<lambda>b. Str (ob_operation b)), (''outbox_request_digest'', \<lambda>b. Str (ob_digest b)),
      (''outbox_proposal_digest'', \<lambda>b. Str (ai_proposal (ob_id b))), (''outbox_logical_action_digest'', \<lambda>b. Str (ai_action (ob_id b))),
      (''outbox_authorization_epoch'', \<lambda>b. driver_int (ai_epoch (ob_id b))), (''outbox_logical_authority_key_sha256'', \<lambda>b. Str (ai_key (ob_id b))),
      (''outbox_authorization_binding_sha256'', \<lambda>b. Str (ai_binding (ob_id b))), (''outbox_run_id'', \<lambda>b. Str (ob_run b)),
      (''outbox_incident_id'', \<lambda>b. Str (ob_incident b)), (''outbox_resource_id'', \<lambda>b. Str (ob_resource b)),
      (''outbox_fencing_token'', \<lambda>b. driver_int (ob_fence b)), (''outbox_effect_key'', \<lambda>b. Str (ob_effect b)),
      (''outbox_intent_kind'', \<lambda>b. Str (ob_kind b)), (''outbox_payload'', ob_payload), (''outbox_payload_digest'', \<lambda>b. Str (ob_payload_digest b))]"

definition resource_columns_of :: "(int \<Rightarrow> int) \<Rightarrow> resource_row option \<Rightarrow> (string \<times> jsv) list" where
  "resource_columns_of ms r = (let h = Option.bind r rs_holder in
     [(''current_fence'', column (\<lambda>r. driver_int (rs_fence r)) r), (''active_run_id'', column (\<lambda>r. Str (rs_run r)) r),
      (''holder_operation_id'', column (\<lambda>h. Str (ho_operation h)) h), (''holder_proposal_digest'', column (\<lambda>h. Str (ho_proposal h)) h),
      (''holder_logical_authority_key_sha256'', column (\<lambda>h. Str (ho_key h)) h),
      (''resource_lease_expires_at'', column (\<lambda>h. driver_date ms (ho_expires h)) h)])"

definition proposal_columns_of :: "(int \<Rightarrow> int) \<Rightarrow> proposal_row option \<Rightarrow> (string \<times> jsv) list" where
  "proposal_columns_of ms p = map (\<lambda>(k, f). (''receipt_proposal_'' @ k, column f p))
     [(''tenant_id'', \<lambda>p. Str (pr_tenant p)), (''digest'', \<lambda>p. Str (ai_proposal (pr_id p))), (''logical_action_digest'', \<lambda>p. Str (ai_action (pr_id p))),
      (''resource_id'', \<lambda>p. Str (pr_resource p)), (''agency'', \<lambda>p. Str (pr_agency p)), (''action_kind'', \<lambda>p. Str (pr_kind p)),
      (''payload'', pr_payload), (''payload_canonical'', \<lambda>p. Str (pr_canonical p)), (''payload_digest'', \<lambda>p. Str (pr_payload_digest p)),
      (''retrieval_id'', \<lambda>p. Str (pr_retrieval p)), (''run_id'', \<lambda>p. Str (pr_run p)), (''incident_id'', \<lambda>p. Str (pr_incident p)),
      (''authority_evidence_binding_sha256'', \<lambda>p. Str (pr_evidence_binding p)), (''policy_version'', \<lambda>p. Str (pr_policy p)),
      (''selected_rank'', \<lambda>p. driver_int (pr_rank p)), (''selected_evidence_id'', \<lambda>p. Str (pr_evidence p)),
      (''selected_evidence_digest'', \<lambda>p. Str (pr_evidence_digest p)), (''admitted_at'', \<lambda>p. driver_date ms (pr_admitted p)),
      (''expires_at'', \<lambda>p. driver_date ms (pr_expires p)), (''authorization_epoch'', \<lambda>p. driver_int (ai_epoch (pr_id p))),
      (''logical_authority_key_sha256'', \<lambda>p. Str (ai_key (pr_id p))), (''authorization_binding_sha256'', \<lambda>p. Str (ai_binding (pr_id p)))]"

definition resolved_row :: "(int \<Rightarrow> int) \<Rightarrow> (outbox_row \<Rightarrow> string) \<Rightarrow> resolved \<Rightarrow> jsv" where
  "resolved_row ms ids v = Obj (receipt_columns ms (rv_receipt v) @ [(''replay_kind'', Str (rv_replay v))] @ outbox_columns_of ids (rv_outbox v) @
     resource_columns_of ms (rv_resource v) @ proposal_columns_of ms (rv_proposal v) @
     [(''authority_current'', Bool (rv_current v)), (''database_now'', driver_date ms (rv_now v))])"

text \<open>The columns of \<open>g1_observe_authority_race_v1\<close>\<close>

definition contender_row :: "string \<Rightarrow> contender_state \<Rightarrow> (string \<times> jsv) list" where
  "contender_row name c =
     [(name @ ''_outcome'', Str (cs_outcome c)), (name @ ''_reason'', driver_text (cs_reason c)), (name @ ''_fencing_token'', driver_int_option (cs_fence c)),
      (name @ ''_observed_holder_operation_id'', driver_text (cs_seen_holder c)), (name @ ''_observed_fence'', driver_int_option (cs_seen_fence c))]"

definition proof_row :: "(int \<Rightarrow> int) \<Rightarrow> race_observation \<Rightarrow> jsv" where
  "proof_row ms r = Obj
     ([(''active_run_id'', Str (ro_run r)), (''current_fence'', driver_int (ro_fence r)), (''holder_operation_id'', driver_text (ro_holder r)),
       (''race_receipt_count'', driver_int (ro_race r)), (''resource_receipt_count'', driver_int (ro_receipts r)),
       (''reserved_count'', driver_int (ro_reserved r)), (''held_denial_count'', driver_int (ro_held r)), (''pending_count'', driver_int (ro_pending r)),
       (''outbox_count'', driver_int (ro_outbox r)), (''outbox_operation_id'', driver_text (ro_outbox_operation r)),
       (''protected_effect_count'', driver_int (ro_effects r))] @
      contender_row ''alpha'' (ro_alpha r) @ contender_row ''bravo'' (ro_bravo r) @ [(''observed_at'', driver_date ms (ro_now r))])"

section \<open>What the world does\<close>

text \<open>One attempt of a spend: errors of the connection and of the statement, the answers of the session, the clocks, others' commits.\<close>

record race_session =
  ss_opening :: "nat \<Rightarrow> jsv option"
  ss_isolation :: "nat \<Rightarrow> jsv"
  ss_backend :: "nat \<Rightarrow> jsv"
  ss_started :: "nat \<Rightarrow> jsv"
  ss_others :: "nat \<Rightarrow> ledger \<Rightarrow> ledger"
  ss_statement :: "nat \<Rightarrow> jsv option"
  ss_completion :: "nat \<Rightarrow> jsv + jsv"
  ss_commit :: "nat \<Rightarrow> commit_answer"
  ss_elapsed :: "nat \<Rightarrow> int"
  ss_time :: "nat \<Rightarrow> int"
  ss_clock :: "nat \<Rightarrow> nat \<Rightarrow> int"
  ss_before_reading :: "ledger \<Rightarrow> ledger" \<comment> \<open>committed by others before the reconciliation reads\<close>
  ss_reading :: "jsv option" \<comment> \<open>what the reading transaction throws\<close>
  ss_reading_clock :: int
  ss_ids :: "outbox_row \<Rightarrow> string"

definition gate2_user :: string where
  "gate2_user = ''tp_gate2_authorizer_user''"

text \<open>What the driver throws for an exception of the database.\<close>

fun sql_thrown :: "sql_error \<Rightarrow> jsv" where
  "sql_thrown (Sql_error code message) = Obj [(''code'', Str code), (''message'', Str message)]"

datatype race_error = Thrown jsv | Digest_mismatch jsv

definition error_code :: "race_error \<Rightarrow> jsv" where
  "error_code e = (case e of Thrown v \<Rightarrow> fld v ''code'' | Digest_mismatch _ \<Rightarrow> Undef)"

definition ambiguous_codes :: "string list" where
  "ambiguous_codes = [''40003'', ''ECONNRESET'', ''EPIPE'', ''ETIMEDOUT'', ''57P01'', ''57P02'', ''57P03'']"

section \<open>Reconciliation\<close>

definition resolve_for :: "pg \<Rightarrow> int \<Rightarrow> jsv \<Rightarrow> ledger \<Rightarrow> sql_error + resolved list" where
  "resolve_for D now request L = resolve_request D gate2_user now (text_of (fld request ''tenantId'')) (text_of (fld request ''operationId''))
     (text_of (fld request ''requestDigest'')) (text_of (fld request ''logicalActionDigest'')) L"

definition race_reconcile :: "jsenv \<Rightarrow> pg \<Rightarrow> (int \<Rightarrow> int) \<Rightarrow> race_session \<Rightarrow> jsv \<Rightarrow> ledger \<Rightarrow> jsv + lambda_decision" where
  "race_reconcile E D ms S request L =
     (case ss_reading S of
        Some e \<Rightarrow> Inl e
      | None \<Rightarrow>
          (case resolve_for D (ss_reading_clock S) request L of
             Inl e \<Rightarrow> Inl (sql_thrown e)
           | Inr [v] \<Rightarrow> normalize_resolved_row E (resolved_row ms (ss_ids S) v) request
           | Inr _ \<Rightarrow> rejects bad_reconciliation))"

section \<open>The spend\<close>

definition bad_probe :: string where
  "bad_probe = ''AUTHORITY_PROBE_PRECONDITION_REJECTED''"

text \<open>The precondition of the probe: the original request is durably answered under the same operation.\<close>

definition probe_ready :: "jsenv \<Rightarrow> pg \<Rightarrow> (int \<Rightarrow> int) \<Rightarrow> race_session \<Rightarrow> nat \<Rightarrow> jsv \<Rightarrow> jsv \<Rightarrow> ledger \<Rightarrow> jsv + unit" where
  "probe_ready E D ms S n original request L =
     (if \<not> same original ''operationId'' request ''operationId'' \<or> same original ''requestDigest'' request ''requestDigest'' then rejects bad_probe
      else case resolve_for D (ss_clock S n 6) original L of
        Inl e \<Rightarrow> Inl (sql_thrown e)
      | Inr [v] \<Rightarrow>
          let row = resolved_row ms (ss_ids S) v in
          if \<not> same row ''operation_id'' original ''operationId'' \<or> \<not> same row ''request_digest'' original ''requestDigest'' \<or>
             fld row ''replay_kind'' \<noteq> Str ''operation_replay''
          then rejects bad_probe
          else and_then (rejecting bad_probe (normalize_resolved_row E row original)) (\<lambda>_. Inr ())
      | Inr _ \<Rightarrow> rejects bad_probe)"

definition spend_error :: "jsv option \<Rightarrow> jsv \<Rightarrow> race_error" where
  "spend_error probe e =
     (if probe \<noteq> None \<and> fld e ''code'' = Str ''22000'' \<and> fld e ''message'' = Str ''operation digest mismatch'' then Digest_mismatch e else Thrown e)"

definition spend_statement :: "pg \<Rightarrow> race_session \<Rightarrow> nat \<Rightarrow> jsv \<Rightarrow> ledger \<Rightarrow> jsv + ledger \<times> race_decision" where
  "spend_statement D S n request L =
     (case ss_statement S n of
        Some e \<Rightarrow> Inl e
      | None \<Rightarrow> map_sum sql_thrown id (spend_race D gate2_user (ss_time S n) (ss_clock S n) (spend_parameters request) L))"

text \<open>The checks after \<open>COMMIT\<close>, and the answer with its transaction.\<close>

definition accepted_answer ::
    "jsenv \<Rightarrow> (int \<Rightarrow> int) \<Rightarrow> race_session \<Rightarrow> nat \<Rightarrow> jsv \<Rightarrow> jsv list \<Rightarrow> jsv \<Rightarrow> race_decision \<Rightarrow> jsv + lambda_decision \<times> jsv" where
  "accepted_answer E ms S n request codes completed rd =
     (if ss_isolation S n \<noteq> Str ''serializable'' \<or> \<not> is_string (ss_backend S n) then rejects bad_response
      else
        and_then (normalize_timestamp E (ss_started S n)) (\<lambda>started.
        and_then (normalize_timestamp E completed) (\<lambda>finished.
        case (started, finished) of
          (Some s, Some f) \<Rightarrow>
            if (case (date_parse E f, date_parse E s) of (Some x, Some y) \<Rightarrow> x < y | _ \<Rightarrow> False) then rejects bad_response
            else and_then (normalize_spend_row E (race_row ms rd) request) (\<lambda>d. Inr (d, Obj
              [(''isolation'', Str ''serializable''), (''attempts'', int_num (int n + 1)), (''retryCodes'', Arr codes),
               (''databaseStartedAt'', Str s), (''databaseCompletedAt'', Str f),
               (''databaseSessionDigest'', Str (lambda_sha256 E (Str (js_string E (fld request ''raceId'') @ '':'' @ js_string E (ss_backend S n)))))]))
        | _ \<Rightarrow> rejects bad_response)))"

datatype attempt_result = Failed race_error bool \<comment> \<open>whether \<open>COMMIT\<close> was dispatched\<close> | Answered lambda_decision jsv

definition commit_spend ::
    "jsenv \<Rightarrow> (int \<Rightarrow> int) \<Rightarrow> race_session \<Rightarrow> nat \<Rightarrow> jsv \<Rightarrow> jsv list \<Rightarrow> race_decision \<Rightarrow> ledger \<Rightarrow> ledger \<Rightarrow> ledger \<times> attempt_result" where
  "commit_spend E ms S n request codes rd L L' =
     (case ss_completion S n of
        Inl e \<Rightarrow> (L, Failed (Thrown e) False)
      | Inr completed \<Rightarrow>
          (case ss_commit S n of
             Commit_failed e applied \<Rightarrow> (if applied then L' else L, Failed (Thrown e) True)
           | Acknowledged \<Rightarrow> (L', case accepted_answer E ms S n request codes completed rd of
                Inl e \<Rightarrow> Failed (Thrown e) True | Inr (d, tr) \<Rightarrow> Answered d tr)))"

definition spend_attempt ::
    "jsenv \<Rightarrow> pg \<Rightarrow> (int \<Rightarrow> int) \<Rightarrow> race_session \<Rightarrow> jsv \<Rightarrow> jsv option \<Rightarrow> nat \<Rightarrow> jsv list \<Rightarrow> ledger \<Rightarrow> ledger \<times> attempt_result" where
  "spend_attempt E D ms S request probe n codes L =
     (case ss_opening S n of
        Some e \<Rightarrow> (L, Failed (Thrown e) False)
      | None \<Rightarrow>
          (case (case probe of None \<Rightarrow> Inr () | Some original \<Rightarrow> probe_ready E D ms S n original request L) of
             Inl e \<Rightarrow> (L, Failed (Thrown e) False)
           | Inr _ \<Rightarrow>
               (case spend_statement D S n request L of
                  Inl e \<Rightarrow> (L, Failed (spend_error probe e) False)
                | Inr (L', rd) \<Rightarrow>
                    if probe \<noteq> None then (L, Failed (Thrown (thrown ''AUTHORITY_PROBE_UNEXPECTED_RETURN'')) False)
                    else commit_spend E ms S n request codes rd L L')))"

definition max_retries :: nat where "max_retries = 6"

definition max_window_ms :: int where "max_window_ms = 20000"

definition attempt_again :: "race_session \<Rightarrow> nat \<Rightarrow> race_error \<Rightarrow> bool \<Rightarrow> bool" where
  "attempt_again S n e dispatched \<longleftrightarrow> \<not> dispatched \<and> error_code e = Str ''40001'' \<and> n < max_retries \<and> ss_elapsed S n < max_window_ms"

text \<open>What is done with a failure that is not retried: \<open>n\<close> is the number of the attempt.\<close>

definition give_up ::
    "jsenv \<Rightarrow> pg \<Rightarrow> (int \<Rightarrow> int) \<Rightarrow> race_session \<Rightarrow> jsv \<Rightarrow> nat \<Rightarrow> jsv list \<Rightarrow> race_error \<Rightarrow> bool \<Rightarrow> ledger
      \<Rightarrow> ledger \<times> (race_error + lambda_decision \<times> jsv)" where
  "give_up E D ms S request n codes e dispatched L =
     (if dispatched \<or> one_of ambiguous_codes (error_code e) then
        let L' = ss_before_reading S L in
        (L', case race_reconcile E D ms S request L' of
           Inl e' \<Rightarrow> Inl (Thrown e')
         | Inr d \<Rightarrow> Inr (d, Obj [(''isolation'', Str ''serializable''), (''attempts'', int_num (int n + 1)), (''retryCodes'', Arr codes),
             (''reconciled'', Bool True)]))
      else (L, Inl e))"

fun spend_attempts ::
    "jsenv \<Rightarrow> pg \<Rightarrow> (int \<Rightarrow> int) \<Rightarrow> race_session \<Rightarrow> jsv \<Rightarrow> jsv option \<Rightarrow> nat \<Rightarrow> nat \<Rightarrow> jsv list \<Rightarrow> ledger
      \<Rightarrow> ledger \<times> (race_error + lambda_decision \<times> jsv)" where
  "spend_attempts E D ms S request probe 0 n codes L = (L, Inl (Thrown (thrown ''AUTHORITY_RETRY_EXHAUSTED'')))"
| "spend_attempts E D ms S request probe (Suc left) n codes L =
     (case spend_attempt E D ms S request probe n codes (ss_others S n L) of
        (L', Answered d tr) \<Rightarrow> (L', Inr (d, tr))
      | (L', Failed e dispatched) \<Rightarrow>
          if attempt_again S n e dispatched then spend_attempts E D ms S request probe left (Suc n) (codes @ [error_code e]) L'
          else give_up E D ms S request n codes e dispatched L')"

definition lambda_spend ::
    "jsenv \<Rightarrow> pg \<Rightarrow> (int \<Rightarrow> int) \<Rightarrow> race_session \<Rightarrow> jsv \<Rightarrow> jsv option \<Rightarrow> ledger \<Rightarrow> ledger \<times> (race_error + lambda_decision \<times> jsv)" where
  "lambda_spend E D ms S request probe L = spend_attempts E D ms S request probe (max_retries + 1) 0 [] L"

end
