(* ===== verification/Ledger_Resolve_Props.thy ===== *)
theory Ledger_Resolve_Props
  imports Ledger_Resolve Ledger_Props
begin

text \<open>
  What reading the ledger back shows: in every state the ledger reaches a request resolves to at
  most one receipt, the one a retry would be answered from; receipts never change, so what a
  request resolves to by its own operation is final; and a receipt read as current is backed by the
  live holder of its resource.
\<close>

section \<open>The one receipt\<close>

text \<open>The receipt that answers a request, and how.\<close>

definition answering :: "string \<Rightarrow> string \<Rightarrow> string \<Rightarrow> string \<Rightarrow> ledger \<Rightarrow> (receipt_row \<times> string) option" where
  "answering tenant operation digest action L =
     (case find_receipt L tenant operation of
        Some a \<Rightarrow> Some (a, ''operation_replay'')
      | None \<Rightarrow>
          (case spends L tenant action of
             a # _ \<Rightarrow> Some (a, ''logical_authority_replay'')
           | [] \<Rightarrow> map_option (\<lambda>a. (a, ''semantic_replay'')) (find (\<lambda>a. receipt_digest_key a = (tenant, digest)) (receipts L))))"

lemma filter_key:
  assumes "unique_on every key rows"
  shows "filter (\<lambda>r. key r = k) rows = (case find (\<lambda>r. key r = k) rows of None \<Rightarrow> [] | Some r \<Rightarrow> [r])"
  using assms
proof (induction rows)
  case (Cons r rows)
  then have u: "unique_on every key rows" and n: "\<not> taken every key (key r) rows" by simp_all
  show ?case
  proof (cases "key r = k")
    case True
    with n have "filter (\<lambda>s. key s = k) rows = []" by (auto simp: taken_iff filter_empty_conv)
    with True show ?thesis by simp
  qed (use Cons.IH [OF u] in simp)
qed simp

lemma ledger_receipts_unique:
  assumes "ledger_ok L"
  shows "unique_on every receipt_key (receipts L)" "unique_on every receipt_digest_key (receipts L)"
  using assms by (simp_all add: ledger_ok_def receipts_ok_def)

lemma spends_at_most_one:
  assumes "ledger_ok L"
  shows "spends L tenant action = [] \<or> (\<exists>a \<in> set (receipts L). reserved a \<and> spends L tenant action = [a])"
proof (cases "spends L tenant action")
  case (Cons a as)
  then have "a \<in> set (spends L tenant action)" by simp
  then have a: "a \<in> set (receipts L)" "reserved a" "receipt_action_key a = (tenant, action)" by (auto simp: spends_def)
  have "unique_on reserved receipt_action_key (receipts L)" using assms by (simp add: ledger_ok_def receipts_ok_def)
  from unique_on_filter_one [OF this a(1,2)] a have "spends L tenant action = [a]"
    by (simp add: spends_def conj_commute)
  with a show ?thesis by blast
qed simp

lemma selected_is_answering:
  assumes "ledger_ok L"
  shows "selected_receipts tenant operation digest action L
    = (case answering tenant operation digest action L of None \<Rightarrow> [] | Some c \<Rightarrow> [c])"
proof -
  note u = ledger_receipts_unique [OF assms]
  have o: "operation_candidates tenant operation L = (case find_receipt L tenant operation of None \<Rightarrow> [] | Some a \<Rightarrow> [a])"
    unfolding operation_candidates_def filter_key [OF u(1)] find_receipt_def by (simp split: option.split)
  have d: "take 2 (filter (\<lambda>a. receipt_digest_key a = (tenant, digest)) (receipts L))
      = (case find (\<lambda>a. receipt_digest_key a = (tenant, digest)) (receipts L) of None \<Rightarrow> [] | Some a \<Rightarrow> [a])"
    unfolding filter_key [OF u(2)] by (simp split: option.split)
  from spends_at_most_one [OF assms, of tenant action] show ?thesis
    by (elim disjE bexE conjE)
      (auto simp: selected_receipts_def logical_candidates_def semantic_candidates_def answering_def o d split: option.split)
qed

text \<open>An authorizer reads exactly that receipt.\<close>

lemma resolve_iff:
  assumes "ledger_ok L" and "user \<in> set authorizers"
  shows "resolve_request D user now tenant operation digest action L
    = (case answering tenant operation digest action L of None \<Rightarrow> Inr [] | Some c \<Rightarrow> map_sum id (\<lambda>v. [v]) (joined_receipt D user now L c))"
  using assms(2)
  by (auto simp: resolve_request_def selected_is_answering [OF assms(1)] split: option.split sum.split)

section \<open>Resolving is replaying\<close>

text \<open>What a resolved receipt says, in the words of a decision.\<close>

definition decision_of :: "resolved \<Rightarrow> spend_decision" where
  "decision_of v = (let a = rv_receipt v in
     \<lparr>dc_outcome = ar_outcome a, dc_reason = ar_reason a, dc_fence = ar_fence a, dc_expires = ar_expires a,
      dc_operation = ar_operation a, dc_digest = ar_digest a, dc_replay = Some (rv_replay v), dc_proposal = ai_proposal (ar_id a),
      dc_action = ai_action (ar_id a), dc_epoch = Some (ai_epoch (ar_id a)), dc_key = Some (ai_key (ar_id a)),
      dc_binding = Some (ai_binding (ar_id a)), dc_current = rv_current v, dc_now = rv_now v\<rparr>)"

lemma replayed_is_joined: "replayed D user clock L how a = map_sum id decision_of (joined_receipt D user (clock 5) L (a, how))"
  by (cases "receipt_current D user (clock 5) L (ar_tenant a) (ar_operation a)")
    (auto simp: replayed_def joined_receipt_def decision_of_def Let_def)

lemma joined_total: "user \<in> set authorizers \<Longrightarrow> \<exists>v. joined_receipt D user now L (a, how) = Inr v \<and> rv_receipt v = a \<and> rv_replay v = how \<and> rv_now v = now"
  by (auto simp: joined_receipt_def receipt_current_def Let_def)

lemma earlier_is_answering:
  assumes ok: "ledger_ok L"
  shows "case answering (sq_tenant q) (sq_operation q) (sq_digest q) (sq_action q) L of
      None \<Rightarrow> earlier_answer D user clock q L = None
    | Some (a, how) \<Rightarrow> earlier_answer D user clock q L = Some (replayed D user clock L how a) \<or>
        how \<noteq> ''logical_authority_replay'' \<and> (ar_digest a \<noteq> sq_digest q \<or> ar_payload a \<noteq> sq_request q) \<and>
        (\<exists>message. earlier_answer D user clock q L = Some (sql_raise ''22000'' message))"
proof -
  have p: "ar_outcome a \<noteq> ''pending''" if "a \<in> set (receipts L)" for a
    using ok that by (auto simp: ledger_ok_def receipts_ok_def list_all_iff)
  consider a where "find_receipt L (sq_tenant q) (sq_operation q) = Some a"
    | a as where "find_receipt L (sq_tenant q) (sq_operation q) = None" "spends L (sq_tenant q) (sq_action q) = a # as"
    | a where "find_receipt L (sq_tenant q) (sq_operation q) = None" "spends L (sq_tenant q) (sq_action q) = []"
        "find (\<lambda>a. receipt_digest_key a = (sq_tenant q, sq_digest q)) (receipts L) = Some a"
    | "find_receipt L (sq_tenant q) (sq_operation q) = None" "spends L (sq_tenant q) (sq_action q) = []"
        "find (\<lambda>a. receipt_digest_key a = (sq_tenant q, sq_digest q)) (receipts L) = None"
    by (metis list.exhaust option.exhaust)
  then show ?thesis
  proof cases
    case (1 a)
    then have "a \<in> set (receipts L)" by (auto simp: find_receipt_def dest: find_SomeD)
    with 1 p show ?thesis by (auto simp: answering_def earlier_answer_def)
  next
    case (2 a as)
    with spends_at_most_one [OF ok, of "sq_tenant q" "sq_action q"] show ?thesis by (auto simp: answering_def earlier_answer_def)
  next
    case (3 a)
    then have "a \<in> set (receipts L)" by (auto dest: find_SomeD)
    with 3 p show ?thesis by (auto simp: answering_def earlier_answer_def)
  qed (simp add: answering_def earlier_answer_def)
qed

text \<open>C9. A request resolves to what a retry would be answered: in every state the ledger reaches, the
  reading finds nothing exactly when the request was never answered; when a retry is answered from an
  earlier receipt, the reading is that one receipt with the same outcome, fence, lease, identity,
  kind of replay and currentness; and when a retry is refused as a changed request, the reading shows
  the receipt it conflicts with.\<close>

theorem resolution_agrees_with_replay:
  assumes "run (ledger_step E C vector D ms) empty_ledger evs L" and "user \<in> set authorizers"
  shows "case earlier_answer D user clock q L of
      None \<Rightarrow> resolve_request D user (clock 5) (sq_tenant q) (sq_operation q) (sq_digest q) (sq_action q) L = Inr []
    | Some (Inr d) \<Rightarrow> \<exists>v. resolve_request D user (clock 5) (sq_tenant q) (sq_operation q) (sq_digest q) (sq_action q) L = Inr [v] \<and> decision_of v = d
    | Some (Inl e) \<Rightarrow> \<exists>v message. resolve_request D user (clock 5) (sq_tenant q) (sq_operation q) (sq_digest q) (sq_action q) L = Inr [v] \<and>
        e = Sql_error ''22000'' message \<and> (ar_digest (rv_receipt v) \<noteq> sq_digest q \<or> ar_payload (rv_receipt v) \<noteq> sq_request q)"
proof -
  have ok: "ledger_ok L" using assms(1) empty_ledger_ok by (rule ledger_machine.run_inv)
  note r = resolve_iff [OF ok assms(2), of D "clock 5" "sq_tenant q" "sq_operation q" "sq_digest q" "sq_action q"]
  note e = earlier_is_answering [OF ok, of D user clock q]
  show ?thesis
  proof (cases "answering (sq_tenant q) (sq_operation q) (sq_digest q) (sq_action q) L")
    case (Some c)
    obtain a how where c: "c = (a, how)" by (cases c)
    from joined_total [OF assms(2), of D "clock 5" L a how] obtain v
      where v: "joined_receipt D user (clock 5) L (a, how) = Inr v" "rv_receipt v = a" by blast
    from e Some c v show ?thesis unfolding r by (auto simp: replayed_is_joined sql_raise_def)
  qed (use e r in simp)
qed

section \<open>Receipts are final\<close>

lemma receipts_stay:
  assumes "run (ledger_step E C vector D ms) L evs L'" and "ledger_ok L"
  shows "\<exists>as. receipts L' = receipts L @ as"
  using assms
proof (induction rule: run.induct)
  case (run_cons L ev L1 evs L')
  then have "ledger_ok L1" by (blast intro: ledger_ok_step)
  with run_cons.IH obtain as where "receipts L' = receipts L1 @ as" by blast
  moreover from step_rows [OF run_cons.hyps(1) run_cons.prems] obtain bs where "receipts L1 = receipts L @ bs" by blast
  ultimately show ?case by simp
qed simp

lemma receipt_stays:
  assumes "run (ledger_step E C vector D ms) L evs L'" and "ledger_ok L" and "find_receipt L tenant operation = Some a"
  shows "find_receipt L' tenant operation = Some a"
  using receipts_stay [OF assms(1,2)] assms(3) by (auto simp: find_receipt_def find_append)

section \<open>Current receipts are live\<close>

text \<open>A receipt that holds its resource at a time: the state protected effects need.\<close>

definition holds_resource :: "int \<Rightarrow> receipt_row \<Rightarrow> ledger \<Rightarrow> bool" where
  "holds_resource now a L \<longleftrightarrow> a \<in> set (receipts L) \<and> spends L (ar_tenant a) (ai_action (ar_id a)) = [a] \<and>
     (\<exists>r h p x. find_resource L (ar_tenant a) (ar_resource a) = Some r \<and> rs_holder r = Some h \<and> ho_operation h = ar_operation a \<and>
        ar_fence a = Some (rs_fence r) \<and> rs_run r = ar_run a \<and> ho_expires h > now \<and> ar_expires a = Some x \<and> x > now \<and>
        p \<in> set (proposals L) \<and> pr_id p = ar_id a \<and> pr_expires p > now)"

lemma current_holds:
  assumes ok: "ledger_ok L" and cur: "receipt_current D user now L tenant operation = Inr (True, n)"
  obtains a where "find_receipt L tenant operation = Some a" "holds_resource now a L" "n = now"
proof -
  have user: "user \<in> set authorizers" using cur by (rule contrapos_pp) (simp add: receipt_current_def)
  obtain a where fa: "find_receipt L tenant operation = Some a"
    using cur user by (cases "find_receipt L tenant operation") (simp_all add: receipt_current_def)
  obtain r where fr: "find_resource L tenant (ar_resource a) = Some r"
    using cur user fa by (cases "find_resource L tenant (ar_resource a)") (simp_all add: receipt_current_def)
  obtain b where fb: "find_outbox L tenant operation = Some b"
    using cur user fa fr by (cases "find_outbox L tenant operation") (simp_all add: receipt_current_def)
  obtain p where fp: "find_proposal L tenant (ai_proposal (ar_id a)) = Some p"
    using cur user fa fr fb by (cases "find_proposal L tenant (ai_proposal (ar_id a))") (simp_all add: receipt_current_def)
  have s: "structurally_current D a r b p" and n: "n = now"
      and x: "case ar_expires a of None \<Rightarrow> False | Some x \<Rightarrow> x > now" "case rs_holder r of None \<Rightarrow> False | Some h \<Rightarrow> ho_expires h > now"
        "pr_expires p > now"
    using cur user fa fr fb fp by (simp_all add: receipt_current_def)
  note f = fa fr fp
  have a: "a \<in> set (receipts L)" "ar_tenant a = tenant" using f(1) by (auto simp: find_receipt_def receipt_key_def dest: find_SomeD)
  have res: "reserved a" "ar_fence a = Some (rs_fence r)" "ar_run a = rs_run r" using s by (simp_all add: structurally_current_def)
  have "unique_on reserved receipt_action_key (receipts L)" using ok by (simp add: ledger_ok_def receipts_ok_def)
  from unique_on_filter_one [OF this a(1) res(1)] have sp: "spends L (ar_tenant a) (ai_action (ar_id a)) = [a]"
    by (simp add: spends_def receipt_action_key_def conj_commute)
  have "p \<in> set (proposals L)" "proposal_key p = (tenant, ai_proposal (ar_id a))"
    using f(3) by (auto simp: find_proposal_def dest: find_SomeD)
  moreover from ok a(1) res(1) obtain p' where p': "p' \<in> set (proposals L)" "backed_by_proposal p' a"
    by (auto simp: ledger_ok_def links_ok_def)
  ultimately have "p' = p" using ok a(2)
    by (auto simp: ledger_ok_def proposals_ok_def proposal_key_def backed_by_proposal_def elim!: unique_onD)
  with p' have "pr_id p = ar_id a" by (simp add: backed_by_proposal_def)
  moreover from s obtain h where "rs_holder r = Some h" "ho_operation h = ar_operation a"
    by (auto simp: structurally_current_def split: option.split_asm)
  ultimately have "holds_resource now a L"
    using a sp f(2) res x \<open>p \<in> set (proposals L)\<close> by (auto simp: holds_resource_def split: option.split_asm)
  then show thesis by (rule that [OF fa _ n])
qed

text \<open>An answer that claims current authority is a replay of a receipt, or a reservation just made.\<close>

lemma earlier_replays:
  assumes "earlier_answer D user clock q L = Some (Inr d)"
  shows "\<exists>how a. a \<in> set (receipts L) \<and> ar_tenant a = sq_tenant q \<and> replayed D user clock L how a = Inr d"
proof -
  have sp: "a \<in> set (receipts L) \<and> ar_tenant a = sq_tenant q" if "spends L (sq_tenant q) (sq_action q) = a # as" for a as
    using that by (auto simp: spends_def filter_eq_Cons_iff receipt_action_key_def)
  from assms show ?thesis
    by (auto simp: earlier_answer_def find_receipt_def receipt_key_def receipt_digest_key_def
        split: option.split_asm list.split_asm if_split_asm dest!: find_SomeD sp)
qed

lemma conflict_replays:
  assumes "conflict_answer D user clock q p L = Inr d"
  shows "\<exists>how a. a \<in> set (receipts L) \<and> ar_tenant a = sq_tenant q \<and> replayed D user clock L how a = Inr d"
proof -
  have single: "a \<in> set rows \<and> P a" if "filter P rows = [a]" for P a and rows :: "receipt_row list"
    using that by (auto simp: filter_eq_Cons_iff)
  from assms show ?thesis
    by (auto simp: conflict_answer_def Let_def split: list.split_asm if_split_asm dest!: single)
qed

lemma denied_not_current [simp]: "\<not> dc_current (spend_denied q i out reason now)"
  by (simp add: spend_denied_def)

lemma settled_not_current:
  assumes "insert_pending (pending_receipt q p) L = Inr (Some L1)" and "settle user t clock q p (pending_receipt q p) L1 = Inr (L', d)"
    and "dc_current d"
  shows "fresh d"
proof (rule ccontr)
  assume "\<not> fresh d"
  then have "\<exists>i out reason now. d = spend_denied q i out reason now"
    using assms(2) unfolding settle_def deny_def deny_held_def reserve_def Let_def
    by (auto simp: and_then_eq_Inr split: prod.split_asm option.split_asm if_split_asm)
  with assms(3) show False by auto
qed

lemma current_answer:
  assumes "spend_authority D user t clock q L = Inr (L', d)" and "dc_current d"
  obtains how a where "L' = L" "a \<in> set (receipts L)" "ar_tenant a = sq_tenant q" "replayed D user clock L how a = Inr d"
    | p r where "reservation D user t (clock 2) q p r L L'" "won user t (clock 2) q p r L L' d"
proof (cases "fresh d")
  case True
  with spend_result [OF assms(1)] that(2) show ?thesis by blast
next
  case False
  from assms have "L' = L \<and> (earlier_answer D user clock q L = Some (Inr d) \<or> (\<exists>p. spend_fresh D user t clock q p L = Inr (L', d)))
      \<or> (\<exists>p. spend_fresh D user t clock q p L = Inr (L', d))"
    unfolding spend_authority_def by (auto split: option.split_asm if_split_asm)
  then consider "L' = L" "earlier_answer D user clock q L = Some (Inr d)" | p where "spend_fresh D user t clock q p L = Inr (L', d)" by blast
  then show ?thesis
  proof cases
    case 1
    with earlier_replays that(1) show ?thesis by blast
  next
    case (2 p)
    with False assms(2) settled_not_current have "L' = L \<and> conflict_answer D user clock q p L = Inr d"
      by (auto simp: spend_fresh_def and_then_eq_Inr split: option.split_asm)
    with conflict_replays that(1) show ?thesis by blast
  qed
qed

lemma find_own: "ledger_ok L \<Longrightarrow> a \<in> set (receipts L) \<Longrightarrow> find_receipt L (ar_tenant a) (ar_operation a) = Some a"
  unfolding find_receipt_def by (intro find_unique_iff [THEN iffD2] ledger_receipts_unique) (simp_all add: receipt_key_def)

lemma reservation_holds:
  assumes ok: "ledger_ok L" and r: "reservation D user t now q p r L L'"
  shows "holds_resource now (reserving q p (rs_fence r + 1) (now + sq_lease q * 1000)) L'"
proof -
  let ?a = "reserving q p (rs_fence r + 1) (now + sq_lease q * 1000)"
  have ok': "ledger_ok L'" using ok r by (rule reservation_ok)
  from r have c: "lease_length_ok (sq_lease q)" "proposal_for q L = Some p" "now < pr_expires p" "rs_run r = sq_run q"
      "find_resource L (sq_tenant q) (sq_resource q) = Some r" and L': "L' = reserved_tables q p r now L"
    by (simp_all add: reservation_def authorized_def)
  have a: "?a \<in> set (receipts L')" "reserved ?a" by (simp_all add: L' reserved_tables_def Let_def)
  have "unique_on reserved receipt_action_key (receipts L')" using ok' by (simp add: ledger_ok_def receipts_ok_def)
  from unique_on_filter_one [OF this a] have "spends L' (ar_tenant ?a) (ai_action (ar_id ?a)) = [?a]"
    by (simp add: spends_def receipt_action_key_def conj_commute)
  moreover have "find_resource L' (sq_tenant q) (sq_resource q) = Some (acquired q ?a (now + sq_lease q * 1000) r)"
    using c(5) by (auto simp: L' reserved_tables_def Let_def find_resource_def find_update_where dest: find_SomeD)
  moreover have "sq_lease q * 1000 > 0" using c(1) by (auto simp: lease_length_ok_def)
  ultimately show ?thesis
    using a(1) c(2-4) proposal_forD [OF c(2)] reserving_id [OF c(2), of "rs_fence r + 1" "now + sq_lease q * 1000"]
    by (simp add: holds_resource_def L' reserved_tables_def Let_def)
      (auto simp: acquired_def reserving_def pending_receipt_def)
qed

text \<open>Whatever a spend answers as current is live in the tables it leaves, at the time it reports.\<close>

lemma current_answer_holds:
  assumes ok: "ledger_ok L" and s: "spend_authority D user t clock q L = Inr (L', d)" and cur: "dc_current d"
  shows "\<exists>a. holds_resource (dc_now d) a L' \<and> ar_tenant a = sq_tenant q \<and> ar_operation a = dc_operation d \<and>
    ai_action (ar_id a) = dc_action d \<and> ar_fence a = dc_fence d"
  using s cur
proof (cases rule: current_answer)
  case (1 how a)
  from 1(4) cur obtain n where c: "receipt_current D user (clock 5) L (ar_tenant a) (ar_operation a) = Inr (True, n)"
      and d: "dc_now d = n" "dc_operation d = ar_operation a" "dc_action d = ai_action (ar_id a)" "dc_fence d = ar_fence a"
    by (auto simp: replayed_def and_then_eq_Inr)
  from current_holds [OF ok c] obtain b where "find_receipt L (ar_tenant a) (ar_operation a) = Some b" "holds_resource (clock 5) b L" "n = clock 5" .
  with find_own [OF ok 1(2)] 1(1,3) d show ?thesis by auto
next
  case (2 p r)
  from 2(2) have "d = spend_granted q (pr_id p\<lparr>ai_proposal := sq_proposal q, ai_action := sq_action q\<rparr>) (rs_fence r + 1) (clock 2 + sq_lease q * 1000) (clock 2)"
    by (simp add: won_def)
  with reservation_holds [OF ok 2(1)] show ?thesis
    by (intro exI [of _ "reserving q p (rs_fence r + 1) (clock 2 + sq_lease q * 1000)"])
      (auto simp: spend_granted_def, auto simp: reserving_def pending_receipt_def)
qed

section \<open>Witness\<close>

lemma sample_own: "find_receipt sample_reserved (sq_tenant sample_spend) (sq_operation sample_spend) = Some sample_receipt_row"
    "ar_digest sample_receipt_row = sq_digest sample_spend" "ar_payload sample_receipt_row = sq_request sample_spend"
    "ar_outcome sample_receipt_row = ''resource_reserved''"
  by (simp_all add: find_receipt_def sample_rows receipt_key_def) (simp_all add: sample_receipt_row_def reserving_def pending_receipt_def)

theorem resolution_agrees_with_replay_witness:
  "\<exists>v. resolve_request sample_pg ''tp_authorizer_user'' (sample_clock 5) (sq_tenant sample_spend) (sq_operation sample_spend) (sq_digest sample_spend)
     (sq_action sample_spend) sample_reserved = Inr [v] \<and> dc_outcome (decision_of v) = ''resource_reserved''"
proof -
  have user: "''tp_authorizer_user'' \<in> set authorizers" by (simp add: authorizers_def)
  have "earlier_answer sample_pg ''tp_authorizer_user'' sample_clock sample_spend sample_reserved
      = Some (replayed sample_pg ''tp_authorizer_user'' sample_clock sample_reserved ''operation_replay'' sample_receipt_row)"
    by (simp add: earlier_answer_def sample_own)
  moreover obtain d where d: "replayed sample_pg ''tp_authorizer_user'' sample_clock sample_reserved ''operation_replay'' sample_receipt_row = Inr d"
      "dc_outcome d = ''resource_reserved''"
    using user by (auto simp: replayed_def receipt_current_def sample_own)
  ultimately show ?thesis
    using resolution_agrees_with_replay [OF sample_reserved_run user, of sample_clock sample_spend] by auto
qed

end
