(* ===== verification/Race_Props.thy ===== *)
theory Race_Props
  imports Race_Lambda Ledger_Resolve_Props
begin

text \<open>
  What the authority Lambda reports: authority it calls current is live in the tables of the
  ledger, whether the commit was acknowledged or read back, and the proof of a race is accepted
  exactly when the tables show one winner and one denial.
\<close>

section \<open>Columns\<close>

lemma driver_texts [simp]: "driver_text None = Null" "driver_text (Some s) = Str s"
  by (simp_all add: driver_text_def)

lemma race_columns:
  "fld (race_row ms r) ''decision_outcome'' = Str (dc_outcome (rc_decision r))"
  "fld (race_row ms r) ''decision_reason'' = driver_text (dc_reason (rc_decision r))"
  "fld (race_row ms r) ''decision_fencing_token'' = driver_int_option (dc_fence (rc_decision r))"
  "fld (race_row ms r) ''decision_lease_expires_at'' = driver_date_option ms (dc_expires (rc_decision r))"
  "fld (race_row ms r) ''decision_operation_id'' = Str (dc_operation (rc_decision r))"
  "fld (race_row ms r) ''decision_request_digest'' = Str (dc_digest (rc_decision r))"
  "fld (race_row ms r) ''decision_replay_kind'' = driver_text (dc_replay (rc_decision r))"
  "fld (race_row ms r) ''decision_proposal_digest'' = Str (dc_proposal (rc_decision r))"
  "fld (race_row ms r) ''decision_logical_action_digest'' = Str (dc_action (rc_decision r))"
  "fld (race_row ms r) ''decision_authorization_epoch'' = driver_int_option (dc_epoch (rc_decision r))"
  "fld (race_row ms r) ''decision_logical_authority_key_sha256'' = driver_text (dc_key (rc_decision r))"
  "fld (race_row ms r) ''decision_authorization_binding_sha256'' = driver_text (dc_binding (rc_decision r))"
  "fld (race_row ms r) ''decision_authority_current'' = Bool (dc_current (rc_decision r))"
  "fld (race_row ms r) ''decision_database_now'' = driver_date ms (dc_now (rc_decision r))"
  "fld (race_row ms r) ''decision_durable_receipt'' = Bool (rc_durable r)"
  "fld (race_row ms r) ''decision_authority_evidence_binding_sha256'' = driver_text (rc_evidence_binding r)"
  "fld (race_row ms r) ''decision_committed_evidence_id'' = driver_text (rc_evidence r)"
  "fld (race_row ms r) ''decision_committed_evidence_digest'' = driver_text (rc_evidence_digest r)"
  by (simp_all add: race_row_def Let_def)

lemma resolved_columns:
  "fld (resolved_row ms ids v) ''operation_id'' = Str (ar_operation (rv_receipt v))"
  "fld (resolved_row ms ids v) ''logical_action_digest'' = Str (ai_action (ar_id (rv_receipt v)))"
  "fld (resolved_row ms ids v) ''outcome'' = Str (ar_outcome (rv_receipt v))"
  "fld (resolved_row ms ids v) ''fencing_token'' = driver_int_option (ar_fence (rv_receipt v))"
  "fld (resolved_row ms ids v) ''replay_kind'' = Str (rv_replay v)"
  "fld (resolved_row ms ids v) ''authority_current'' = Bool (rv_current v)"
  "fld (resolved_row ms ids v) ''database_now'' = driver_date ms (rv_now v)"
  by (simp_all add: resolved_row_def receipt_columns_def outbox_columns_of_def resource_columns_of_def proposal_columns_of_def Let_def)

lemma driver_fence [simp]: "text_if_any E (driver_int_option f) = map_option int_str f"
  by (cases f) (simp_all add: text_if_any_def driver_int_def)

lemma normalized_date: "normalize_timestamp E (driver_date ms t) = Inr s \<longleftrightarrow> (\<exists>i. to_iso_string (ms t) = Some i \<and> s = Some i)"
  by (auto simp: normalize_timestamp_def driver_date_def split: option.split)

section \<open>Current authority\<close>

text \<open>What a decision the Lambda calls current says of the row it came from.\<close>

lemma spend_row_current:
  assumes "normalize_spend_row E (race_row ms r) request = Inr d" and "ld_current d"
  shows "dc_current (rc_decision r) \<and> fld request ''logicalActionDigest'' = Str (dc_action (rc_decision r)) \<and>
    ld_fence d = map_option int_str (dc_fence (rc_decision r)) \<and> to_iso_string (ms (dc_now (rc_decision r))) = Some (ld_now d) \<and>
    map_option cf_operation (ld_committed d) = Some (Str (dc_operation (rc_decision r)))"
proof -
  from assms(1) obtain lease now where n: "normalize_timestamp E (driver_date ms (dc_now (rc_decision r))) = Inr now"
      and s: "spend_row_shaped (race_row ms r) request (or_null (driver_text (dc_replay (rc_decision r)))) now"
    and rest: "(if fld (race_row ms r) ''decision_durable_receipt'' = Bool False then ld_current d = False
       else ld_current d = dc_current (rc_decision r) \<and> ld_fence d = map_option int_str (dc_fence (rc_decision r)) \<and> ld_now d = the now \<and>
         map_option cf_operation (ld_committed d) = Some (Str (dc_operation (rc_decision r))))"
    by (auto simp: normalize_spend_row_def Let_def guard_simps race_columns split: if_split_asm)
  from s have a: "fld request ''logicalActionDigest'' = Str (dc_action (rc_decision r))" by (simp add: spend_row_shaped_def race_columns)
  from n obtain i where "to_iso_string (ms (dc_now (rc_decision r))) = Some i" "now = Some i" by (auto simp: normalized_date)
  with rest a assms(2) show ?thesis by (auto split: if_split_asm)
qed

lemma resolved_row_current:
  assumes "normalize_resolved_row E (resolved_row ms ids v) request = Inr d" and "ld_current d"
  shows "rv_current v \<and> fld request ''logicalActionDigest'' = Str (ai_action (ar_id (rv_receipt v))) \<and>
    ld_fence d = map_option int_str (ar_fence (rv_receipt v)) \<and> to_iso_string (ms (rv_now v)) = Some (ld_now d) \<and>
    map_option cf_operation (ld_committed d) = Some (Str (ar_operation (rv_receipt v)))"
proof -
  from assms(1) obtain now where n: "normalize_timestamp E (driver_date ms (rv_now v)) = Inr now"
      and s: "resolved_row_shaped E (resolved_row ms ids v) request"
    and rest: "ld_current d = rv_current v" "ld_fence d = map_option int_str (ar_fence (rv_receipt v))" "ld_now d = the now"
         "map_option cf_operation (ld_committed d) = Some (Str (ar_operation (rv_receipt v)))"
    by (auto simp: normalize_resolved_row_def Let_def guard_simps resolved_columns split: if_split_asm)
  from s have a: "fld request ''logicalActionDigest'' = Str (ai_action (ar_id (rv_receipt v)))"
    by (simp add: resolved_row_shaped_def resolved_columns Let_def)
  from n obtain i where "to_iso_string (ms (rv_now v)) = Some i" "now = Some i" by (auto simp: normalized_date)
  with rest a assms(2) show ?thesis by simp
qed

section \<open>The spend as a run of the ledger\<close>

text \<open>Other sessions do what the ledger machine does.\<close>

definition honest :: "(ledger \<Rightarrow> ledger_event \<Rightarrow> ledger \<Rightarrow> bool) \<Rightarrow> race_session \<Rightarrow> bool" where
  "honest step S \<longleftrightarrow> (\<forall>n M. \<exists>evs. run step M evs (ss_others S n M)) \<and> (\<forall>M. \<exists>evs. run step M evs (ss_before_reading S M))"

lemma run_one: "step L ev L' \<Longrightarrow> \<exists>evs. run step L evs L'"
  by (blast intro: run_cons run_nil)

lemma run_trans: "\<exists>evs. run step L evs L1 \<Longrightarrow> \<exists>evs. run step L1 evs L2 \<Longrightarrow> \<exists>evs. run step L evs L2"
  by (blast intro: run_append)

lemma attempt_changes:
  assumes "spend_attempt E D ms S request probe n codes L = (L', r)"
  shows "L' = L \<or> (\<exists>rd. spend_race D gate2_user (ss_time S n) (ss_clock S n) (spend_parameters request) L = Inr (L', rd))"
proof -
  have "L' = L \<or> (\<exists>rd. spend_statement D S n request L = Inr (L', rd))"
    using assms unfolding spend_attempt_def commit_spend_def
    by (auto split: option.split_asm sum.split_asm prod.split_asm if_split_asm commit_answer.split_asm)
  then show ?thesis by (auto simp: spend_statement_def map_sum_eq_Inr split: option.split_asm sum.split_asm)
      (cases "spend_race D gate2_user (ss_time S n) (ss_clock S n) (spend_parameters request) L"; simp)
qed

lemma attempt_runs:
  assumes "spend_attempt E D ms S request probe n codes L = (L', r)"
  shows "\<exists>evs. run (ledger_step E' C vector D ms') L evs L'"
  using attempt_changes [OF assms] by (auto intro: run_nil run_one step_raced)

lemma give_up_ledger: "give_up E D ms S request n codes e dispatched L = (L', r) \<Longrightarrow> L' = L \<or> L' = ss_before_reading S L"
  by (auto simp: give_up_def Let_def split: if_split_asm)

lemma attempts_run:
  assumes "honest (ledger_step E' C vector D ms') S" and "spend_attempts E D ms S request probe left n codes L = (L', r)"
  shows "\<exists>evs. run (ledger_step E' C vector D ms') L evs L'"
  using assms(2)
proof (induction left arbitrary: n codes L)
  case 0
  then show ?case by (auto intro: run_nil)
next
  case (Suc left)
  obtain M a where M: "spend_attempt E D ms S request probe n codes (ss_others S n L) = (M, a)" by fastforce
  have "\<exists>evs. run (ledger_step E' C vector D ms') L evs (ss_others S n L)" using assms(1) by (simp add: honest_def)
  from run_trans [OF this attempt_runs [OF M]] have r: "\<exists>evs. run (ledger_step E' C vector D ms') L evs M" .
  show ?case
  proof (cases a)
    case (Answered d tr)
    with Suc.prems M r show ?thesis by simp
  next
    case (Failed e dispatched)
    show ?thesis
    proof (cases "attempt_again S n e dispatched")
      case True
      with Suc.prems M Failed have "spend_attempts E D ms S request probe left (Suc n) (codes @ [error_code e]) M = (L', r)" by simp
      from run_trans [OF r Suc.IH [OF this]] show ?thesis .
    next
      case False
      with Suc.prems M Failed have "give_up E D ms S request n codes e dispatched M = (L', r)" by simp
      moreover have "\<exists>evs. run (ledger_step E' C vector D ms') M evs (ss_before_reading S M)" using assms(1) by (simp add: honest_def)
      ultimately show ?thesis using give_up_ledger run_trans [OF r] r by blast
    qed
  qed
qed

section \<open>What is reported as current is live\<close>

text \<open>The decision \<open>d\<close> on a request describes an authority that is live in the tables at the time it reports.\<close>

definition reports_live :: "(int \<Rightarrow> int) \<Rightarrow> jsv \<Rightarrow> lambda_decision \<Rightarrow> ledger \<Rightarrow> bool" where
  "reports_live ms request d L \<longleftrightarrow> (\<exists>a now. holds_resource now a L \<and> to_iso_string (ms now) = Some (ld_now d) \<and>
     ar_tenant a = text_of (fld request ''tenantId'') \<and> fld request ''logicalActionDigest'' = Str (ai_action (ar_id a)) \<and>
     ld_fence d = map_option int_str (ar_fence a) \<and> map_option cf_operation (ld_committed d) = Some (Str (ar_operation a)))"

lemma answered_live:
  assumes ok: "ledger_ok L" and s: "spend_attempt E D ms S request None n codes L = (L', Answered d tr)" and cur: "ld_current d"
  shows "reports_live ms request d L'"
proof -
  from s obtain rd where st: "spend_statement D S n request L = Inr (L', rd)" and d: "normalize_spend_row E (race_row ms rd) request = Inr d"
    by (auto simp: spend_attempt_def commit_spend_def accepted_answer_def guard_simps
        split: option.split_asm sum.split_asm prod.split_asm if_split_asm commit_answer.split_asm)
  let ?q = "spend_parameters request"
  from st have "spend_race D gate2_user (ss_time S n) (ss_clock S n) ?q L = Inr (L', rd)"
    by (cases "spend_race D gate2_user (ss_time S n) (ss_clock S n) ?q L") (auto simp: spend_statement_def split: option.split_asm)
  from race_spends [OF this] have sp: "spend_authority D gate2_user (ss_time S n) (ss_clock S n) ?q L = Inr (L', rc_decision rd)" .
  note row = spend_row_current [OF d cur]
  from current_answer_holds [OF ok sp] row obtain a where "holds_resource (dc_now (rc_decision rd)) a L'" "ar_tenant a = sq_tenant ?q"
      "ar_operation a = dc_operation (rc_decision rd)" "ai_action (ar_id a) = dc_action (rc_decision rd)" "ar_fence a = dc_fence (rc_decision rd)"
    by blast
  with row show ?thesis unfolding reports_live_def
    by (intro exI [of _ a] exI [of _ "dc_now (rc_decision rd)"]) (simp add: spend_parameters_def)
qed

lemma reconciled_live:
  assumes ok: "ledger_ok L" and r: "race_reconcile E D ms S request L = Inr d" and cur: "ld_current d"
  shows "reports_live ms request d L"
proof -
  let ?t = "text_of (fld request ''tenantId'')"
  from r obtain v where v: "resolve_for D (ss_reading_clock S) request L = Inr [v]"
      and d: "normalize_resolved_row E (resolved_row ms (ss_ids S) v) request = Inr d"
    by (auto simp: race_reconcile_def split: option.split_asm sum.split_asm list.split_asm)
  have user: "gate2_user \<in> set authorizers" by (simp add: gate2_user_def authorizers_def)
  note row = resolved_row_current [OF d cur]
  from v obtain a how where ans: "answering ?t (text_of (fld request ''operationId'')) (text_of (fld request ''requestDigest''))
        (text_of (fld request ''logicalActionDigest'')) L = Some (a, how)"
      and j: "joined_receipt D gate2_user (ss_reading_clock S) L (a, how) = Inr v"
    by (auto simp: resolve_for_def resolve_iff [OF ok user] map_sum_eq_Inr split: option.split_asm)
  then have c: "receipt_current D gate2_user (ss_reading_clock S) L (ar_tenant a) (ar_operation a) = Inr (rv_current v, rv_now v)" "rv_receipt v = a"
    by (auto simp: joined_receipt_def and_then_eq_Inr)
  have a: "a \<in> set (receipts L)" "ar_tenant a = ?t"
    using ans spends_at_most_one [OF ok, of ?t "text_of (fld request ''logicalActionDigest'')"]
    by (auto simp: answering_def find_receipt_def receipt_key_def receipt_digest_key_def spends_def receipt_action_key_def filter_eq_Cons_iff
        split: option.split_asm list.split_asm dest!: find_SomeD)
  from c row have "receipt_current D gate2_user (ss_reading_clock S) L (ar_tenant a) (ar_operation a) = Inr (True, rv_now v)" by simp
  from current_holds [OF ok this] find_own [OF ok a(1)] have "holds_resource (ss_reading_clock S) a L" "rv_now v = ss_reading_clock S" by auto
  with row a c show ?thesis unfolding reports_live_def by (intro exI [of _ a] exI [of _ "ss_reading_clock S"]) simp
qed

lemma attempts_live:
  assumes h: "honest (ledger_step E' C vector D ms') S" and "ledger_ok L"
    and "spend_attempts E D ms S request None left n codes L = (L', Inr (d, tr))" and cur: "ld_current d"
  shows "reports_live ms request d L'"
  using assms(2,3)
proof (induction left arbitrary: n codes L)
  case (Suc left)
  obtain M a where M: "spend_attempt E D ms S request None n codes (ss_others S n L) = (M, a)" by fastforce
  from h obtain evs where "run (ledger_step E' C vector D ms') L evs (ss_others S n L)" unfolding honest_def by blast
  from ledger_machine.run_inv [OF this Suc.prems(1)] have ok: "ledger_ok (ss_others S n L)" .
  from attempt_runs [OF M] obtain evs' where "run (ledger_step E' C vector D ms') (ss_others S n L) evs' M" by blast
  from ledger_machine.run_inv [OF this ok] have okM: "ledger_ok M" .
  show ?case
  proof (cases a)
    case (Answered d' tr')
    with Suc.prems M answered_live [OF ok _ cur] show ?thesis by auto
  next
    case (Failed e dispatched)
    show ?thesis
    proof (cases "attempt_again S n e dispatched")
      case True
      with Suc.prems M Failed have "spend_attempts E D ms S request None left (Suc n) (codes @ [error_code e]) M = (L', Inr (d, tr))" by simp
      with Suc.IH [OF okM] show ?thesis by blast
    next
      case False
      with Suc.prems M Failed have g: "L' = ss_before_reading S M" "race_reconcile E D ms S request L' = Inr d"
        by (auto simp: give_up_def Let_def split: if_split_asm sum.split_asm)
      from h obtain evs where "run (ledger_step E' C vector D ms') M evs L'" unfolding g(1) honest_def by blast
      from ledger_machine.run_inv [OF this okM] have "ledger_ok L'" .
      from reconciled_live [OF this g(2) cur] show ?thesis .
    qed
  qed
qed simp

text \<open>The Lambda never reports authority that is not live: in any run of the ledger, with any other
  sessions between its attempts, any failures of the connection, and whether the commit was
  acknowledged or its outcome had to be read back, a decision reported as current describes a
  receipt that alone spends the logical action of the request and whose operation holds the
  resource under the reported fence, with lease and proposal unexpired at the reported time; and
  what the Lambda did to the tables is itself a run of the ledger.\<close>

theorem lambda_reports_live_authority:
  assumes "run (ledger_step E' C vector D ms') empty_ledger evs L" and "honest (ledger_step E' C vector D ms') S"
    and "lambda_spend E D ms S request None L = (L', Inr (d, tr))" and "ld_current d"
  shows "(\<exists>evs'. run (ledger_step E' C vector D ms') L evs' L') \<and>
    (\<exists>a r h p x now. to_iso_string (ms now) = Some (ld_now d) \<and> fld request ''logicalActionDigest'' = Str (ai_action (ar_id a)) \<and>
      spends L' (text_of (fld request ''tenantId'')) (ai_action (ar_id a)) = [a] \<and>
      find_resource L' (ar_tenant a) (ar_resource a) = Some r \<and> rs_holder r = Some h \<and> ho_operation h = ar_operation a \<and>
      ar_fence a = Some (rs_fence r) \<and> ld_fence d = Some (int_str (rs_fence r)) \<and> now < ho_expires h \<and> ar_expires a = Some x \<and> now < x \<and>
      p \<in> set (proposals L') \<and> pr_id p = ar_id a \<and> now < pr_expires p)"
proof
  show "\<exists>evs'. run (ledger_step E' C vector D ms') L evs' L'"
    by (rule attempts_run [OF assms(2) assms(3) [unfolded lambda_spend_def]])
  have "ledger_ok L" using assms(1) empty_ledger_ok by (rule ledger_machine.run_inv)
  from attempts_live [OF assms(2) this assms(3) [unfolded lambda_spend_def] assms(4)] have "reports_live ms request d L'" .
  then obtain a now where a: "holds_resource now a L'" "to_iso_string (ms now) = Some (ld_now d)" "ar_tenant a = text_of (fld request ''tenantId'')"
      "fld request ''logicalActionDigest'' = Str (ai_action (ar_id a))" "ld_fence d = map_option int_str (ar_fence a)"
    by (auto simp: reports_live_def)
  from a(1) obtain r h p x where "find_resource L' (ar_tenant a) (ar_resource a) = Some r" "rs_holder r = Some h" "ho_operation h = ar_operation a"
      "ar_fence a = Some (rs_fence r)" "now < ho_expires h" "ar_expires a = Some x" "now < x" "p \<in> set (proposals L')" "pr_id p = ar_id a" "now < pr_expires p"
      "spends L' (ar_tenant a) (ai_action (ar_id a)) = [a]"
    by (auto simp: holds_resource_def)
  with a show "\<exists>a r h p x now. to_iso_string (ms now) = Some (ld_now d) \<and> fld request ''logicalActionDigest'' = Str (ai_action (ar_id a)) \<and>
      spends L' (text_of (fld request ''tenantId'')) (ai_action (ar_id a)) = [a] \<and>
      find_resource L' (ar_tenant a) (ar_resource a) = Some r \<and> rs_holder r = Some h \<and> ho_operation h = ar_operation a \<and>
      ar_fence a = Some (rs_fence r) \<and> ld_fence d = Some (int_str (rs_fence r)) \<and> now < ho_expires h \<and> ar_expires a = Some x \<and> now < x \<and>
      p \<in> set (proposals L') \<and> pr_id p = ar_id a \<and> now < pr_expires p"
    by (intro exI [of _ a] exI [of _ r] exI [of _ h] exI [of _ p] exI [of _ x] exI [of _ now]) auto
qed

end
