(* ===== verification/Race_Handler.thy ===== *)
theory Race_Handler
  imports Race_Lambda
begin

text \<open>
  The handler of the authority Lambda (\<open>runAuthority\<close> of \<open>infra/aws/lambda/authority.cjs\<close>), with the
  connection string it reads from a secret and the observation of a race: every error becomes a
  refusal, and an answer binds the configuration it was given under. The secret, the URL parser and
  \<open>JSON.parse\<close> are arguments.
\<close>

section \<open>The secret\<close>

definition bad_secret :: string where
  "bad_secret = ''AUTHORITY_SECRET_REJECTED''"

record url_parts =
  url_protocol :: string
  url_username :: string
  url_password :: string
  url_hostname :: string
  url_port :: string
  url_pathname :: string
  url_hash :: string
  url_query :: "(string \<times> string) list"
  url_text :: string

definition validate_connection_string :: "(jsv \<Rightarrow> url_parts option) \<Rightarrow> jsv \<Rightarrow> string \<Rightarrow> string \<Rightarrow> jsv + string" where
  "validate_connection_string parse_url v host port = (case parse_url v of
     None \<Rightarrow> rejects bad_secret
   | Some u \<Rightarrow>
       if url_protocol u \<notin> set [''postgres:'', ''postgresql:''] \<or> url_username u \<noteq> gate2_user \<or> length (url_password u) < 16 \<or>
          url_hostname u \<noteq> host \<or> url_port u \<noteq> port \<or> url_pathname u \<noteq> ''/tideproof'' \<or> url_hash u \<noteq> [] \<or>
          join [CHR 0x0A] (sort (map fst (url_query u))) \<noteq> ''sslmode'' \<or> map_of (url_query u) ''sslmode'' \<noteq> Some ''verify-full''
       then rejects bad_secret else Inr (url_text u))"

definition connection_string ::
    "(string \<Rightarrow> jsv option) \<Rightarrow> (jsv \<Rightarrow> url_parts option) \<Rightarrow> jsv \<Rightarrow> lambda_config \<Rightarrow> jsv + string" where
  "connection_string parse_json parse_url response c =
     (if \<not> truthy response \<or> fld response ''ARN'' \<noteq> Str (lc_secret_arn c) \<or> fld response ''VersionId'' \<noteq> Str (lc_secret_version c) \<or>
         fld response ''SecretBinary'' \<noteq> Undef \<or> \<not> is_array (fld response ''VersionStages'') \<or>
         \<not> list_ex (\<lambda>v. v = Str ''AWSCURRENT'') (elements (fld response ''VersionStages''))
      then rejects bad_secret
      else case fld response ''SecretString'' of
        Str s \<Rightarrow> (case parse_json s of
            None \<Rightarrow> rejects bad_secret
          | Some secret \<Rightarrow> if \<not> exact_keys secret [''connectionString''] then rejects bad_secret
              else validate_connection_string parse_url (fld secret ''connectionString'') (lc_host c) (lc_port c))
      | _ \<Rightarrow> rejects bad_secret)"

section \<open>Observing a race\<close>

text \<open>The read-only transaction of a proof: what fails, and what the session and the clock answer.\<close>

record proof_session =
  os_failing :: "jsv option"
  os_isolation :: jsv
  os_backend :: jsv
  os_clock :: int

definition race_event :: "string \<Rightarrow> jsv \<Rightarrow> string \<Rightarrow> jsv" where
  "race_event race drill contender = Obj [(''schemaVersion'', Str request_schema), (''mode'', Str ''reserve''), (''raceId'', Str race),
     (''drill'', drill), (''contender'', Str contender)]"

definition asked :: "jsv \<Rightarrow> string \<times> string" where
  "asked request = (text_of (fld request ''operationId''), text_of (fld request ''requestDigest''))"

definition lambda_observe ::
    "jsenv \<Rightarrow> (nat list \<Rightarrow> nat list) \<Rightarrow> (int \<Rightarrow> int) \<Rightarrow> proof_session \<Rightarrow> lambda_config \<Rightarrow> jsv \<Rightarrow> string \<Rightarrow> ledger \<Rightarrow> jsv + proof_state \<times> jsv" where
  "lambda_observe E sha1 ms P c drill race L =
     and_then (authority_request_for E sha1 c (race_event race drill ''alpha'')) (\<lambda>alpha.
     and_then (authority_request_for E sha1 c (race_event race drill ''bravo'')) (\<lambda>bravo.
     case os_failing P of
       Some e \<Rightarrow> Inl e
     | None \<Rightarrow>
         (case observe_race gate2_user (os_clock P) (lc_tenant c) (text_of (fld drill ''runId'')) (lc_resource c) (asked alpha) (asked bravo) L of
            None \<Rightarrow> rejects bad_proof
          | Some r \<Rightarrow>
              if os_isolation P \<noteq> Str ''serializable'' \<or> \<not> is_string (os_backend P) then rejects bad_proof
              else and_then (normalize_proof_row E (proof_row ms r) drill alpha bravo) (\<lambda>state. Inr (state, Obj
                [(''isolation'', Str ''serializable''), (''databaseObservedAt'', Str (ps_at state)),
                 (''databaseSessionDigest'', Str (lambda_sha256 E (Str (race @ '':'' @ js_string E (os_backend P)))))])))))"

section \<open>Answers\<close>

definition build_bindings :: "lambda_config \<Rightarrow> jsv option \<Rightarrow> (string \<times> jsv) list" where
  "build_bindings c request =
     [(''sourceCommit'', Str (lc_source_commit c)), (''configDigest'', Str (lc_config_digest c)), (''treeDigest'', Str (lc_tree_digest c)),
      (''packageLockDigest'', Str (lc_package_lock c)), (''authoritySourceDigest'', Str (lc_source_digest c)),
      (''authorityArtifactDigest'', Str (lc_artifact_digest c))] @
     (case request of None \<Rightarrow> []
      | Some r \<Rightarrow> map (\<lambda>k. (k, fld r k)) [''proposalDigest'', ''logicalActionDigest'', ''selectedEvidenceDigest''])"

definition response_schema :: string where
  "response_schema = ''tideproof.aws-authority-boundary.v4''"

definition fail_closed :: "string \<Rightarrow> lambda_config option \<Rightarrow> parsed_event option \<Rightarrow> jsv option \<Rightarrow> jsv" where
  "fail_closed code c p request = Obj
     ([(''schemaVersion'', Str response_schema), (''status'', Str ''UNKNOWN_DO_NOT_ACT''), (''code'', Str code),
       (''raceId'', case p of None \<Rightarrow> Null | Some e \<Rightarrow> Str (pe_race e)), (''contender'', driver_text (Option.bind p pe_contender)),
       (''authorityTransferred'', Bool False), (''requiresFreshAuthorization'', Bool True), (''modelAccess'', Bool False)] @
      (case c of None \<Rightarrow> [] | Some cfg \<Rightarrow> build_bindings cfg request))"

definition safe_codes :: "string list" where
  "safe_codes = [bad_configuration, bad_response, bad_probe, ''AUTHORITY_PROBE_UNEXPECTED_RETURN'', bad_proof, bad_reconciliation, bad_request,
     ''AUTHORITY_RETRY_EXHAUSTED'', bad_secret]"

definition safe_code :: "race_error \<Rightarrow> string" where
  "safe_code e = (case (case e of Thrown v \<Rightarrow> fld v ''message'' | Digest_mismatch _ \<Rightarrow> Str ''AUTHORITY_OPERATION_DIGEST_MISMATCH'') of
     Str s \<Rightarrow> if s \<in> set safe_codes then s else ''AUTHORITY_UNAVAILABLE'' | _ \<Rightarrow> ''AUTHORITY_UNAVAILABLE'')"

definition invocation_fields :: "(string \<Rightarrow> jsv) \<Rightarrow> jsv \<Rightarrow> (string \<times> jsv) list" where
  "invocation_fields env context =
     [(''invocationRequestId'', case fld context ''awsRequestId'' of Str s \<Rightarrow> Str (take 160 s) | _ \<Rightarrow> Null),
      (''functionVersion'', env ''AWS_LAMBDA_FUNCTION_VERSION'')]"

definition proof_state_object :: "proof_state \<Rightarrow> jsv" where
  "proof_state_object s = Obj
     [(''activeRunId'', ps_run s), (''currentFence'', Str (ps_fence s)), (''holderOperationId'', ps_holder s), (''outboxOperationId'', ps_outbox s),
      (''observedAt'', Str (ps_at s)), (''counts'', Obj (map (\<lambda>(k, v). (k, Str v)) (ps_counts s))),
      (''outcomes'', Obj (map (\<lambda>(k, c). (k, Obj
        [(''operationId'', co_operation c), (''requestDigest'', co_digest c), (''outcome'', co_outcome c), (''reason'', co_reason c),
         (''fencingToken'', driver_text (co_fence c)), (''observedHolderOperationId'', co_holder c), (''observedFence'', driver_text (co_seen_fence c))]))
        (ps_outcomes s)))]"

definition proof_answer :: "(string \<Rightarrow> jsv) \<Rightarrow> jsv \<Rightarrow> lambda_config \<Rightarrow> parsed_event \<Rightarrow> proof_state \<Rightarrow> jsv \<Rightarrow> jsv" where
  "proof_answer env context c p state tr = Obj
     ([(''schemaVersion'', Str ''tideproof.aws-authority-durable-proof.v1''), (''status'', Str ''OBSERVED''), (''raceId'', Str (pe_race p)),
       (''transaction'', tr), (''state'', proof_state_object state)] @ invocation_fields env context @
      [(''readOnly'', Bool True), (''authorityTransferred'', Bool False), (''requiresFreshAuthorization'', Bool True), (''modelAccess'', Bool False)] @
      build_bindings c None)"

definition changed_answer :: "(string \<Rightarrow> jsv) \<Rightarrow> jsv \<Rightarrow> lambda_config \<Rightarrow> parsed_event \<Rightarrow> jsv \<Rightarrow> jsv \<Rightarrow> jsv" where
  "changed_answer env context c p original request = Obj
     ([(''schemaVersion'', Str ''tideproof.aws-authority-changed-input-denial.v2''), (''status'', Str ''DENIED_CHANGED_INPUT''),
       (''code'', Str ''OPERATION_DIGEST_MISMATCH''), (''raceId'', Str (pe_race p)), (''contender'', driver_text (pe_contender p)),
       (''operationId'', fld request ''operationId''), (''originalRequestDigest'', fld original ''requestDigest''),
       (''changedRequestDigest'', fld request ''requestDigest''), (''sameOperationId'', Bool (same original ''operationId'' request ''operationId'')),
       (''requestDigestChanged'', Bool (\<not> same original ''requestDigest'' request ''requestDigest'')), (''databaseRejected'', Bool True),
       (''durableReceiptCreated'', Bool False)] @ rev (invocation_fields env context) @
      [(''authorityTransferred'', Bool False), (''requiresFreshAuthorization'', Bool True), (''modelAccess'', Bool False)] @ build_bindings c None)"

definition not_durable_answer :: "(string \<Rightarrow> jsv) \<Rightarrow> jsv \<Rightarrow> lambda_config \<Rightarrow> parsed_event \<Rightarrow> jsv \<Rightarrow> lambda_decision \<Rightarrow> jsv \<Rightarrow> jsv" where
  "not_durable_answer env context c p request d tr = Obj
     ([(''schemaVersion'', Str response_schema), (''status'', Str ''DENIED_NOT_DURABLE''), (''raceId'', Str (pe_race p)),
       (''contender'', driver_text (pe_contender p)), (''operationId'', fld request ''operationId''), (''requestDigest'', fld request ''requestDigest''),
       (''outcome'', ld_outcome d), (''reason'', ld_reason d), (''authorityCurrent'', Bool False),
       (''commit'', race_commit_result d request ''direct_ack''), (''transaction'', tr)] @ invocation_fields env context @
      [(''authorityTransferred'', Bool False), (''requiresFreshAuthorization'', Bool True), (''modelAccess'', Bool False)] @ build_bindings c (Some request))"

definition committed_members :: "committed_facts \<Rightarrow> (string \<times> jsv) list" where
  "committed_members f =
     [(''authorizationEpoch'', int_num (ri_epoch (cf_identity f))), (''logicalAuthorityKeySha256'', Str (ri_key (cf_identity f))),
      (''authorizationBindingSha256'', Str (ri_binding (cf_identity f))), (''committedProposalDigest'', cf_proposal f),
      (''committedAuthorityEvidenceBindingSha256'', cf_evidence_binding f), (''committedSelectedEvidenceId'', cf_evidence f),
      (''committedSelectedEvidenceDigest'', cf_evidence_digest f)]"

definition committed_answer :: "(string \<Rightarrow> jsv) \<Rightarrow> jsv \<Rightarrow> lambda_config \<Rightarrow> parsed_event \<Rightarrow> jsv \<Rightarrow> lambda_decision \<Rightarrow> jsv \<Rightarrow> jsv" where
  "committed_answer env context c p request d tr =
     (let f = ld_committed d in Obj
     ([(''schemaVersion'', Str response_schema), (''status'', Str ''COMMITTED''), (''raceId'', Str (pe_race p)),
       (''contender'', driver_text (pe_contender p)), (''operationId'', fld request ''operationId''), (''requestDigest'', fld request ''requestDigest''),
       (''committedOperationId'', column cf_operation f), (''committedRequestDigest'', column cf_request f), (''outcome'', ld_outcome d),
       (''reason'', ld_reason d), (''fencingToken'', driver_text (ld_fence d)), (''leaseExpiresAt'', driver_text (ld_lease d)),
       (''replayKind'', ld_replay d)] @ (case f of None \<Rightarrow> [] | Some x \<Rightarrow> committed_members x) @
      [(''authorityCurrent'', Bool (ld_current d)),
       (''commit'', race_commit_result d request (if fld tr ''reconciled'' = Bool True then ''read_reconciled'' else ''direct_ack'')), (''transaction'', tr)] @
      invocation_fields env context @
      [(''authorityTransferred'', Bool False), (''requiresFreshAuthorization'', Bool (\<not> ld_current d)), (''modelAccess'', Bool False)] @
      build_bindings c (Some request)))"

section \<open>The handler\<close>

record lambda_world =
  lw_env :: "string \<Rightarrow> jsv"
  lw_connection :: "lambda_config \<Rightarrow> jsv + string" \<comment> \<open>\<open>getConnectionString\<close>\<close>
  lw_sha1 :: "nat list \<Rightarrow> nat list"
  lw_ms :: "int \<Rightarrow> int"
  lw_session :: race_session
  lw_proof :: proof_session

definition run_proof :: "jsenv \<Rightarrow> lambda_world \<Rightarrow> lambda_config \<Rightarrow> jsv \<Rightarrow> jsv \<Rightarrow> ledger \<Rightarrow> jsv" where
  "run_proof E W c event context L =
     (case parse_proof_event E event of
        Inl e \<Rightarrow> fail_closed (safe_code (Thrown e)) (Some c) None None
      | Inr p \<Rightarrow>
          (case and_then (lw_connection W c) (\<lambda>_. lambda_observe E (lw_sha1 W) (lw_ms W) (lw_proof W) c (pe_drill p) (pe_race p) L) of
             Inl e \<Rightarrow> fail_closed (safe_code (Thrown e)) (Some c) (Some p) None
           | Inr (state, tr) \<Rightarrow> proof_answer (lw_env W) context c p state tr))"

definition run_changed :: "jsenv \<Rightarrow> pg \<Rightarrow> lambda_world \<Rightarrow> lambda_config \<Rightarrow> jsv \<Rightarrow> jsv \<Rightarrow> ledger \<Rightarrow> ledger \<times> jsv" where
  "run_changed E D W c event context L =
     (case parse_changed_event E event of
        Inl e \<Rightarrow> (L, fail_closed (safe_code (Thrown e)) (Some c) None None)
      | Inr p \<Rightarrow>
          (case and_then (authority_request_for E (lw_sha1 W) c (with_field ''mode'' (Str ''reserve'') event)) (\<lambda>original.
              map_sum id (Pair original) (changed_request_for E (lw_sha1 W) c event)) of
             Inl e \<Rightarrow> (L, fail_closed (safe_code (Thrown e)) (Some c) (Some p) None)
           | Inr (original, request) \<Rightarrow>
               (case lw_connection W c of
                  Inl e \<Rightarrow> (L, fail_closed (safe_code (Thrown e)) (Some c) (Some p) (Some request))
                | Inr _ \<Rightarrow>
                    (case lambda_spend E D (lw_ms W) (lw_session W) request (Some original) L of
                       (L', Inl (Digest_mismatch e)) \<Rightarrow> (L', changed_answer (lw_env W) context c p original request)
                     | (L', Inl e) \<Rightarrow> (L', fail_closed (safe_code e) (Some c) (Some p) (Some request))
                     | (L', Inr _) \<Rightarrow>
                         (L', fail_closed (safe_code (Thrown (thrown ''AUTHORITY_CHANGED_INPUT_ACCEPTED''))) (Some c) (Some p) (Some request))))))"

definition run_reserve :: "jsenv \<Rightarrow> pg \<Rightarrow> lambda_world \<Rightarrow> lambda_config \<Rightarrow> jsv \<Rightarrow> jsv \<Rightarrow> ledger \<Rightarrow> ledger \<times> jsv" where
  "run_reserve E D W c event context L =
     (case parse_reserve_event E event of
        Inl e \<Rightarrow> (L, fail_closed (safe_code (Thrown e)) (Some c) None None)
      | Inr p \<Rightarrow>
          (case authority_request_for E (lw_sha1 W) c event of
             Inl e \<Rightarrow> (L, fail_closed (safe_code (Thrown e)) (Some c) (Some p) None)
           | Inr r \<Rightarrow>
               let request = with_field ''raceId'' (Str (pe_race p)) r in
               (case lw_connection W c of
                  Inl e \<Rightarrow> (L, fail_closed (safe_code (Thrown e)) (Some c) (Some p) (Some request))
                | Inr _ \<Rightarrow>
                    (case lambda_spend E D (lw_ms W) (lw_session W) request None L of
                       (L', Inl e) \<Rightarrow> (L', fail_closed (safe_code e) (Some c) (Some p) (Some request))
                     | (L', Inr (d, tr)) \<Rightarrow>
                         (L', if ld_durable d = Some False then not_durable_answer (lw_env W) context c p request d tr
                              else committed_answer (lw_env W) context c p request d tr)))))"

text \<open>\<open>runAuthority\<close>\<close>

definition run_authority :: "jsenv \<Rightarrow> pg \<Rightarrow> lambda_world \<Rightarrow> jsv \<Rightarrow> jsv \<Rightarrow> ledger \<Rightarrow> ledger \<times> jsv" where
  "run_authority E D W event context L =
     (case configuration (lw_env W) of
        Inl e \<Rightarrow> (L, fail_closed (safe_code (Thrown e)) None None None)
      | Inr c \<Rightarrow>
          if exact_keys event [''mode''] \<and> fld event ''mode'' = Str ''status'' then (L, fail_closed ''STATUS_ONLY_NO_AUTHORIZATION'' (Some c) None None)
          else if fld event ''mode'' = Str ''proof'' then (L, run_proof E W c event context L)
          else if fld event ''mode'' = Str ''changed_input'' then run_changed E D W c event context L
          else run_reserve E D W c event context L)"

section \<open>The entry point\<close>

definition telemetry_text :: "jsv \<Rightarrow> nat \<Rightarrow> jsv \<Rightarrow> jsv" where
  "telemetry_text v n fallback = (case v of Str s \<Rightarrow> if s = [] then fallback else Str (take n s) | _ \<Rightarrow> fallback)"

definition semantic_failure_metric :: "(string \<Rightarrow> jsv) \<Rightarrow> jsv \<Rightarrow> jsv \<Rightarrow> int \<Rightarrow> jsv" where
  "semantic_failure_metric env code context now = (let unbound = Str ''UNBOUND'' in Obj
     [(''_aws'', Obj [(''Timestamp'', int_num now),
        (''CloudWatchMetrics'', Arr [Obj [(''Namespace'', Str ''ProofToAct/GateTwo''), (''Dimensions'', Arr [Arr [Str ''Deployment'', Str ''Service'']]),
           (''Metrics'', Arr [Obj [(''Name'', Str ''SemanticFailures''), (''Unit'', Str ''Count'')]])]])]),
      (''Deployment'', telemetry_text (env ''SEMANTIC_METRIC_DEPLOYMENT'') 255 unbound), (''Service'', Str ''authority''),
      (''SemanticFailures'', int_num 1), (''schemaVersion'', Str ''tideproof.aws-semantic-failure.v1''), (''provider'', Str ''AWS_LAMBDA''),
      (''status'', Str ''UNKNOWN_DO_NOT_ACT''), (''code'', telemetry_text code 120 (Str ''AUTHORITY_UNAVAILABLE'')),
      (''awsRequestId'', telemetry_text (fld context ''awsRequestId'') 160 Null), (''region'', telemetry_text (env ''AWS_REGION'') 32 unbound),
      (''functionName'', telemetry_text (env ''AWS_LAMBDA_FUNCTION_NAME'') 64 unbound),
      (''functionVersion'', telemetry_text (env ''AWS_LAMBDA_FUNCTION_VERSION'') 12 unbound),
      (''sourceCommit'', telemetry_text (env ''SOURCE_COMMIT'') 40 unbound), (''configDigest'', telemetry_text (env ''CONFIG_DIGEST'') 64 unbound),
      (''treeDigest'', telemetry_text (env ''TREE_DIGEST'') 40 unbound),
      (''artifactDigest'', telemetry_text (env ''AUTHORITY_ARTIFACT_DIGEST'') 64 unbound)])"

text \<open>\<open>handler\<close>: the answer, and the metric written when it is a failure; \<open>now\<close> is the time of the metric.\<close>

definition lambda_handler ::
    "jsenv \<Rightarrow> pg \<Rightarrow> lambda_world \<Rightarrow> int \<Rightarrow> jsv \<Rightarrow> jsv \<Rightarrow> ledger \<Rightarrow> ledger \<times> jsv \<times> jsv option" where
  "lambda_handler E D W now event context L =
     (let (L', answer) = run_authority E D W event context L in
      (L', answer, if fld answer ''status'' = Str ''UNKNOWN_DO_NOT_ACT'' \<and> fld answer ''code'' \<noteq> Str ''STATUS_ONLY_NO_AUTHORIZATION''
         then Some (semantic_failure_metric (lw_env W) (fld answer ''code'') context now) else None))"

end
