(* ===== verification/Ledger_Outcomes.thy ===== *)
theory Ledger_Outcomes
  imports Ledger_Props
begin

text \<open>
  What the receipts of the ledger say of their outcome, as a second invariant of its machine: a
  reservation names no other holder, and a denial for an active holder names the
  reservation that held the resource, in the same run and under the fence it saw.
\<close>

definition outcome_ok :: "ledger \<Rightarrow> receipt_row \<Rightarrow> bool" where
  "outcome_ok L a \<longleftrightarrow>
     (reserved a \<longrightarrow> ar_reason a = None \<and> ar_seen_holder a = None \<and> ar_seen_fence a = None) \<and>
     (\<not> reserved a \<longrightarrow> ar_fence a = None) \<and>
     (ar_outcome a = ''resource_held_denied'' \<longrightarrow> ar_reason a = Some ''active_holder'' \<and>
        (\<exists>w \<in> set (receipts L). reserved w \<and> ar_tenant w = ar_tenant a \<and> ar_resource w = ar_resource a \<and> ar_run w = ar_run a \<and>
           ar_seen_holder a = Some (ar_operation w) \<and> ar_seen_fence a = ar_fence w))"

definition outcomes_ok :: "ledger \<Rightarrow> bool" where
  "outcomes_ok L \<longleftrightarrow> ledger_ok L \<and> (\<forall>a \<in> set (receipts L). outcome_ok L a)"

lemma empty_outcomes_ok: "outcomes_ok empty_ledger"
  by (simp add: outcomes_ok_def empty_ledger_ok) (simp add: empty_ledger_def)

lemma outcome_grows: "outcome_ok L a \<Longrightarrow> set (receipts L) \<subseteq> set (receipts L') \<Longrightarrow> outcome_ok L' a"
  unfolding outcome_ok_def by blast

lemma reserving_outcome: "outcome_ok L (reserving q p f x)"
  by (simp add: outcome_ok_def reserved_def) (simp add: reserving_def pending_receipt_def)

lemma denial_outcome:
  assumes "denial q a L L'" and "ledger_ok L"
  shows "outcome_ok L' a"
proof (cases "ar_outcome a = ''resource_held_denied''")
  case True
  with assms(1) obtain r h where r: "ar_reason a = Some ''active_holder''" "find_resource L (ar_tenant a) (ar_resource a) = Some r"
      "rs_run r = ar_run a" "rs_holder r = Some h" "ar_seen_holder a = Some (ho_operation h)" "ar_seen_fence a = Some (rs_fence r)" "ar_fence a = None"
    by (auto simp: denial_def refused_by_holder_def)
  have u: "unique_on every resource_key (resources L)" using assms(2) by (simp add: ledger_ok_def tables_ok_def)
  from r(2) u have "r \<in> set (resources L)" "resource_key r = (ar_tenant a, ar_resource a)" by (simp_all add: find_resource_iff)
  with assms(2) r(4) obtain w where w: "w \<in> set (receipts L)" "holder_of w r h" unfolding ledger_ok_def links_ok_def by blast
  have "set (receipts L) \<subseteq> set (receipts L')" using assms(1) by (auto simp: denial_def)
  with r w \<open>resource_key r = (ar_tenant a, ar_resource a)\<close> True show ?thesis
    by (auto simp: outcome_ok_def holder_of_def reserved_def)
next
  case False
  with assms(1) show ?thesis by (auto simp: denial_def outcome_ok_def reserved_def)
qed

text \<open>Every step leaves the receipts as they are, denies one request or reserves for one.\<close>

lemma step_receipts:
  assumes "ledger_step E C vector D ms L ev L'" and "ledger_ok L"
  shows "receipts L' = receipts L \<or> (\<exists>q a. denial q a L L') \<or> (\<exists>q p f x. receipts L' = receipts L @ [reserving q p f x])"
  using assms
proof (induction rule: ledger_step.induct)
  case (step_spent user t clock q L L' d)
  from spend_result [OF step_spent(1)] show ?case using reserved_receipts by blast
next
  case (step_raced user t clock q L L' d)
  from spend_result [OF race_spends [OF step_raced(1)]] show ?case using reserved_receipts by blast
next
  case (step_stored_spent t inp L L' sa)
  from store_spend_result [OF step_stored_spent(1), unfolded Let_def] show ?case using booked_receipts by blast
qed (auto dest: authorize_rows record_rows prepare_rows store_authorize_rows store_record_rows)

lemma outcomes_step:
  assumes "outcomes_ok L" and "ledger_step E C vector D ms L ev L'"
  shows "outcomes_ok L'"
proof -
  have ok: "ledger_ok L" using assms(1) by (simp add: outcomes_ok_def)
  obtain as where as: "receipts L' = receipts L @ as" using step_rows [OF assms(2) ok] by blast
  have "outcome_ok L' a" if a: "a \<in> set (receipts L')" for a
  proof (cases "a \<in> set (receipts L)")
    case True
    with assms(1) have "outcome_ok L a" by (simp add: outcomes_ok_def)
    then show ?thesis by (rule outcome_grows) (simp add: as)
  next
    case False
    from step_receipts [OF assms(2) ok] consider "receipts L' = receipts L" | q b where "denial q b L L'"
      | q p f x where "receipts L' = receipts L @ [reserving q p f x]" by blast
    then show ?thesis
    proof cases
      case (2 q b)
      then have "receipts L' = receipts L @ [b]" by (simp add: denial_def)
      with a False denial_outcome [OF 2 ok] show ?thesis by simp
    qed (use a False reserving_outcome in simp_all)
  qed
  with ledger_ok_step [OF assms(2) ok] show ?thesis by (simp add: outcomes_ok_def)
qed

interpretation outcome_machine: invariant_machine "ledger_step E C vector D ms" outcomes_ok for E C vector D ms
  by unfold_locales (rule outcomes_step)

end
