(* ===== verification/Race_Proof.thy ===== *)
theory Race_Proof
  imports Race_Props Race_Handler Ledger_Outcomes
begin

text \<open>
  The proof of a race. What the Lambda reads back with one query and checks column by column is
  brought to the tables of the ledger: it accepts exactly when the run of the resource holds the
  reservation of one contender, the denial of the other and nothing else.
\<close>

section \<open>The columns of an observation\<close>

lemma nat_str_positive: "0 < n \<Longrightarrow> positive_decimal (nat_str n)"
proof (induction n rule: nat_str.induct)
  case (1 n)
  have d: "digit = decimal" by (simp add: fun_eq_iff digit_def decimal_def)
  show ?case
  proof (cases "n < 10")
    case True
    have "digit_char n \<noteq> CHR ''0''"
    proof
      assume "digit_char n = CHR ''0''"
      then have "(of_char (digit_char n) :: nat) = of_char CHR ''0''" by simp
      with True 1(2) show False by (simp add: of_char_digit_char)
    qed
    with True d decimal_digit_char show ?thesis by (subst nat_str.simps) simp
  next
    case False
    with 1 have "positive_decimal (nat_str (n div 10))" by simp
    with False d decimal_digit_char [of "n mod 10"] show ?thesis
      by (subst nat_str.simps) (cases "nat_str (n div 10)"; simp)
  qed
qed

lemma int_str_positive: "0 < f \<Longrightarrow> positive_decimal (int_str f)"
  by (simp add: int_str_def nat_str_positive)

lemma int_str_eq [simp]: "int_str m = int_str n \<longleftrightarrow> m = n"
  using int_str_inj by blast

lemma proof_row_keys: "exact_keys (proof_row ms r) proof_keys"
  unfolding proof_row_def by (rule exact_keys_perm) (simp add: contender_row_def proof_keys_def)

definition contender_of :: "jsv \<Rightarrow> contender_state \<Rightarrow> contender_outcome" where
  "contender_of request c = \<lparr>co_operation = fld request ''operationId'', co_digest = fld request ''requestDigest'', co_outcome = Str (cs_outcome c),
     co_reason = driver_text (cs_reason c), co_fence = map_option int_str (cs_fence c), co_holder = driver_text (cs_seen_holder c),
     co_seen_fence = map_option int_str (cs_seen_fence c)\<rparr>"

lemma or_null_text [simp]: "or_null (driver_text t) = driver_text t"
  by (cases t) (simp_all add: or_null_def coalesce_def)

lemma proof_columns:
  "contender_outcome E (proof_row ms r) ''alpha'' request = contender_of request (ro_alpha r)"
  "contender_outcome E (proof_row ms r) ''bravo'' request = contender_of request (ro_bravo r)"
  "fld (proof_row ms r) ''active_run_id'' = Str (ro_run r)"
  "fld (proof_row ms r) ''current_fence'' = driver_int (ro_fence r)"
  "fld (proof_row ms r) ''holder_operation_id'' = driver_text (ro_holder r)"
  "fld (proof_row ms r) ''outbox_operation_id'' = driver_text (ro_outbox_operation r)"
  "fld (proof_row ms r) ''observed_at'' = driver_date ms (ro_now r)"
  by (simp_all add: contender_outcome_def contender_of_def proof_row_def contender_row_def)

lemma js_driver_int [simp]: "js_string E (driver_int n) = int_str n"
  by (simp add: driver_int_def)

definition counted :: "race_observation \<Rightarrow> int list" where
  "counted r = [ro_race r, ro_receipts r, ro_reserved r, ro_held r, ro_pending r, ro_outbox r, ro_effects r]"

lemma proof_counts: "proof_counts E (proof_row ms r) = expected_counts \<longleftrightarrow> counted r = [2, 2, 1, 1, 0, 1, 0]"
proof -
  have "proof_counts E (proof_row ms r) = zip (map fst expected_counts) (map int_str (counted r))"
    by (simp add: proof_counts_def expected_counts_def counted_def proof_row_def contender_row_def)
  moreover have "expected_counts = zip (map fst expected_counts) (map int_str [2, 2, 1, 1, 0, 1, 0])"
    by code_simp
  moreover have "zip ks (map int_str xs) = zip ks (map int_str ys) \<longleftrightarrow> xs = ys" if "length ks = length xs" "length ys = length xs" for ks :: "string list" and xs ys
    using that by (auto simp: zip_eq_conv inj_map_eq_map [OF injI, OF int_str_inj])
  ultimately show ?thesis by (simp add: expected_counts_def counted_def)
qed

text \<open>What the checks of \<open>normalizeProofRow\<close> ask of a winner and a loser among the columns.\<close>

definition proof_decided :: "race_observation \<Rightarrow> string \<Rightarrow> contender_state \<Rightarrow> string \<Rightarrow> contender_state \<Rightarrow> bool" where
  "proof_decided r run_id w operation l \<longleftrightarrow>
     cs_outcome w = ''resource_reserved'' \<and> cs_outcome l = ''resource_held_denied'' \<and>
     ro_run r = run_id \<and> cs_reason w = None \<and> positive_text (map_option int_str (cs_fence w)) \<and> cs_seen_holder w = None \<and> cs_seen_fence w = None \<and>
     cs_reason l = Some ''active_holder'' \<and> cs_fence l = None \<and> cs_seen_holder l = Some operation \<and> cs_seen_fence l = cs_fence w \<and>
     cs_fence w = Some (ro_fence r) \<and> ro_holder r = Some operation \<and> ro_outbox_operation r = Some operation \<and> counted r = [2, 2, 1, 1, 0, 1, 0]"

lemma driver_text_iff [simp]: "driver_text t = Str s \<longleftrightarrow> t = Some s" "driver_text t = Null \<longleftrightarrow> t = None"
  by (cases t; simp)+

lemma int_strs_eq [simp]: "map_option int_str x = map_option int_str y \<longleftrightarrow> x = y"
  by (cases x; cases y) simp_all

lemma race_decided_iff:
  assumes "fld drill ''runId'' = Str run_id" and "fld request ''operationId'' = Str operation"
    and "cs_outcome w = ''resource_reserved''" "cs_outcome l = ''resource_held_denied''"
  shows "race_decided E (proof_row ms r) drill (contender_of request w) (contender_of other l) \<longleftrightarrow> proof_decided r run_id w operation l"
  using assms
  by (cases "cs_fence w") (auto simp: race_decided_def proof_columns proof_counts proof_decided_def contender_of_def positive_text_def)

lemma proof_accepted_iff:
  assumes "fld drill ''runId'' = Str run_id" and "fld alpha ''operationId'' = Str A" "fld bravo ''operationId'' = Str B"
    and "to_iso_string (ms (ro_now r)) = Some t"
  shows "(\<exists>s. normalize_proof_row E (proof_row ms r) drill alpha bravo = Inr s) \<longleftrightarrow>
    proof_decided r run_id (ro_alpha r) A (ro_bravo r) \<or> proof_decided r run_id (ro_bravo r) B (ro_alpha r)"
proof -
  let ?a = "contender_of alpha (ro_alpha r)" and ?b = "contender_of bravo (ro_bravo r)"
  have n: "normalize_timestamp E (fld (proof_row ms r) ''observed_at'') = Inr (Some t)"
    using assms(4) by (simp add: proof_columns normalized_date)
  have o: "co_outcome (contender_of q c) = Str s \<longleftrightarrow> cs_outcome c = s" for q c s by (simp add: contender_of_def)
  have "(\<exists>s. normalize_proof_row E (proof_row ms r) drill alpha bravo = Inr s) \<longleftrightarrow>
      (\<exists>w l. find (\<lambda>c. co_outcome c = Str ''resource_reserved'') [?a, ?b] = Some w \<and>
        find (\<lambda>c. co_outcome c = Str ''resource_held_denied'') [?a, ?b] = Some l \<and> race_decided E (proof_row ms r) drill w l)"
    by (auto simp: normalize_proof_row_def Let_def proof_columns(1,2) proof_row_keys n split: option.split)
  also have "\<dots> \<longleftrightarrow> proof_decided r run_id (ro_alpha r) A (ro_bravo r) \<or> proof_decided r run_id (ro_bravo r) B (ro_alpha r)"
    using race_decided_iff [OF assms(1,2), of "ro_alpha r" "ro_bravo r" E ms r bravo]
      race_decided_iff [OF assms(1,3), of "ro_bravo r" "ro_alpha r" E ms r alpha]
    by (auto simp: o) (auto simp: proof_decided_def)
  finally show ?thesis .
qed

section \<open>The tables of a decided race\<close>

text \<open>The run of the resource has a reservation, a denial and nothing else, and the reservation holds the resource.\<close>

definition race_settled :: "string \<Rightarrow> string \<Rightarrow> string \<Rightarrow> string \<times> string \<Rightarrow> string \<times> string \<Rightarrow> ledger \<Rightarrow> bool" where
  "race_settled tenant run_id resource winner loser L \<longleftrightarrow>
     (\<exists>w l r h. mset (run_receipts tenant run_id resource L) = {#w, l#} \<and> made_by winner w \<and> made_by loser l \<and>
        reserved w \<and> ar_outcome l = ''resource_held_denied'' \<and> find_resource L tenant resource = Some r \<and> rs_run r = run_id \<and>
        rs_holder r = Some h \<and> ho_operation h = ar_operation w \<and> run_effects tenant run_id resource L = [])"

lemma pair_filter: "mset xs = {#w, l#} \<Longrightarrow> length (filter P xs) = (if P w then 1 else 0) + (if P l then 1 else 0)"
proof -
  assume p: "mset xs = {#w, l#}"
  have "length (filter P xs) = size (filter_mset P (mset xs))" by (simp flip: mset_filter)
  then show ?thesis by (simp add: p)
qed

lemma pair_find:
  assumes "mset xs = {#w, l#}" and "P w" and "\<not> P l"
  shows "find P xs = Some w"
proof -
  have s: "set xs = {w, l}" using assms(1) by (metis set_mset_add_mset_insert set_mset_empty set_mset_mset)
  then have "find P xs \<noteq> None" using assms(2) by (auto simp: find_None_iff)
  then obtain x where "find P xs = Some x" by blast
  with s assms(3) find_SomeD [of P xs x] show ?thesis by auto
qed

lemma pair_members:
  assumes "length xs = 2" and "w \<in> set xs" "l \<in> set xs" "w \<noteq> l"
  shows "mset xs = {#w, l#}"
proof -
  from assms(1) obtain x y where "xs = [x, y]" by (auto simp: numeral_2_eq_2 length_Suc_conv)
  with assms show ?thesis by auto
qed

lemma in_run: "a \<in> set (run_receipts tenant run_id resource L) \<longleftrightarrow>
    a \<in> set (receipts L) \<and> ar_tenant a = tenant \<and> ar_run a = run_id \<and> ar_resource a = resource"
  by (auto simp: run_receipts_def)

lemma receipt_by_operation:
  assumes "ledger_ok L" and "a \<in> set (receipts L)" "b \<in> set (receipts L)" and "ar_tenant a = ar_tenant b" "ar_operation a = ar_operation b"
  shows "a = b"
  using ledger_receipts_unique [OF assms(1)] assms by (auto simp: receipt_key_def elim!: unique_onD)

lemma holder_fence:
  assumes ok: "ledger_ok L" and "w \<in> set (receipts L)" "ar_tenant w = tenant" "find_resource L tenant resource = Some r"
    and "rs_holder r = Some h" "ho_operation h = ar_operation w"
  shows "ar_fence w = Some (rs_fence r)"
proof -
  from assms have r: "r \<in> set (resources L)" "resource_key r = (tenant, resource)"
    by (auto simp: find_resource_iff ledger_ok_def tables_ok_def)
  with ok assms(5) obtain a where a: "a \<in> set (receipts L)" "holder_of a r h" unfolding ledger_ok_def links_ok_def by blast
  with r receipt_by_operation [OF ok a(1) assms(2)] assms(3,6) have "a = w" by (simp add: holder_of_def)
  with a show ?thesis by (simp add: holder_of_def)
qed

lemma distinct_singleton: "distinct xs \<Longrightarrow> set xs = {b} \<Longrightarrow> xs = [b]"
  by (cases xs rule: remdups_adj.cases) auto

lemma sole_outbox:
  assumes ok: "ledger_ok L" and w: "w \<in> set (run_receipts tenant run_id resource L)" "reserved w"
    and sole: "\<And>a. a \<in> set (run_receipts tenant run_id resource L) \<Longrightarrow> reserved a \<Longrightarrow> a = w"
  shows "map ob_operation (run_outbox tenant run_id resource L) = [ar_operation w]"
proof -
  have links: "links_ok L" and "keys_unique 4 outbox_keys (outbox L)" using ok by (simp_all add: ledger_ok_def tables_ok_def)
  then have "unique_on every (\<lambda>b. outbox_keys b ! 0) (outbox L)" by (simp add: keys_unique_def)
  then have u: "unique_on every (\<lambda>b. (ob_tenant b, ob_operation b)) (outbox L)" by (simp add: outbox_keys_def)
  have own: "ob_operation b = ar_operation w" if "b \<in> set (run_outbox tenant run_id resource L)" for b
  proof -
    from that have b: "b \<in> set (outbox L)" "ob_tenant b = tenant" "ob_run b = run_id" "ob_resource b = resource" by (auto simp: run_outbox_def)
    with links obtain a where a: "a \<in> set (receipts L)" "reserved a" "backed_by_outbox b a" by (auto simp: links_ok_def)
    with b have "a \<in> set (run_receipts tenant run_id resource L)" by (simp add: in_run backed_by_outbox_def outbox_matches_def)
    with sole a show ?thesis by (simp add: backed_by_outbox_def)
  qed
  from links w obtain b where b: "b \<in> set (outbox L)" "backed_by_outbox b w" by (auto simp: links_ok_def in_run)
  with w have bin: "b \<in> set (run_outbox tenant run_id resource L)" by (simp add: run_outbox_def in_run backed_by_outbox_def outbox_matches_def)
  have "c = b" if "c \<in> set (run_outbox tenant run_id resource L)" for c
    using unique_onD [OF u, of c b] that own [OF that] own [OF bin] b(1) bin by (simp add: run_outbox_def)
  with bin have "set (run_outbox tenant run_id resource L) = {b}" by blast
  moreover have "distinct (run_outbox tenant run_id resource L)"
    using u by (simp add: unique_on_def run_outbox_def distinct_map)
  ultimately have "run_outbox tenant run_id resource L = [b]" by (rule distinct_singleton [rotated])
  with own bin show ?thesis by simp
qed

text \<open>The denial of the race names its reservation.\<close>

lemma denial_names:
  assumes "outcomes_ok L" and rows: "mset (run_receipts tenant run_id resource L) = {#w, l#}" and out: "ar_outcome l = ''resource_held_denied''"
  shows "contender_columns l = \<lparr>cs_outcome = ''resource_held_denied'', cs_reason = Some ''active_holder'', cs_fence = None,
    cs_seen_holder = Some (ar_operation w), cs_seen_fence = ar_fence w\<rparr>"
proof -
  have s: "set (run_receipts tenant run_id resource L) = {w, l}"
    using rows by (metis set_mset_add_mset_insert set_mset_empty set_mset_mset)
  then have l: "l \<in> set (run_receipts tenant run_id resource L)" by simp
  with assms(1) have o: "outcome_ok L l" by (simp add: outcomes_ok_def in_run)
  with out obtain x where x: "x \<in> set (receipts L)" "reserved x" "ar_tenant x = ar_tenant l" "ar_resource x = ar_resource l" "ar_run x = ar_run l"
      "ar_seen_holder l = Some (ar_operation x)" "ar_seen_fence l = ar_fence x"
    by (auto simp: outcome_ok_def)
  with l have "x \<in> set (run_receipts tenant run_id resource L)" by (simp add: in_run)
  with s x(2) out have "x = w" by (auto simp: reserved_def)
  with o x out show ?thesis by (simp add: contender_columns_def outcome_ok_def reserved_def)
qed

lemma reservation_columns:
  assumes "outcomes_ok L" and "w \<in> set (receipts L)" "reserved w"
  shows "contender_columns w = \<lparr>cs_outcome = ''resource_reserved'', cs_reason = None, cs_fence = ar_fence w, cs_seen_holder = None, cs_seen_fence = None\<rparr>"
  using assms by (simp add: contender_columns_def outcomes_ok_def outcome_ok_def) (simp add: reserved_def)

lemma settled_is_observed:
  assumes ok: "outcomes_ok L" and user: "user \<in> set authorizers" and s: "race_settled tenant run_id resource W Lo L"
  shows "\<exists>o'. observe_race user now tenant run_id resource W Lo L = Some o' \<and> proof_decided o' run_id (ro_alpha o') (fst W) (ro_bravo o')"
proof -
  let ?rows = "run_receipts tenant run_id resource L"
  from s obtain w l r h where rows: "mset ?rows = {#w, l#}" and w: "made_by W w" "reserved w" and l: "made_by Lo l" "ar_outcome l = ''resource_held_denied''"
      and r: "find_resource L tenant resource = Some r" "rs_run r = run_id" "rs_holder r = Some h" "ho_operation h = ar_operation w"
      and f: "run_effects tenant run_id resource L = []"
    unfolding race_settled_def by blast
  have lok: "ledger_ok L" using ok by (simp add: outcomes_ok_def)
  have set: "set ?rows = {w, l}" using rows by (metis set_mset_add_mset_insert set_mset_empty set_mset_mset)
  then have in_l: "w \<in> set ?rows" "l \<in> set ?rows" by simp_all
  have "w \<noteq> l" using w(2) l(2) by (auto simp: reserved_def)
  with in_l receipt_by_operation [OF lok] have "ar_operation w \<noteq> ar_operation l" by (auto simp: in_run)
  then have other: "\<not> made_by W l" "\<not> made_by Lo w" using w(1) l(1) by (auto simp: made_by_def)
  have find: "find (made_by W) ?rows = Some w" "find (made_by Lo) ?rows = Some l"
    using pair_find [OF rows w(1) other(1)] pair_find [of ?rows l w, OF _ l(1) other(2)] rows by (simp_all add: add_mset_commute)
  have fence: "ar_fence w = Some (rs_fence r)" using holder_fence [OF lok _ _ r(1,3,4)] in_l(1) by (simp add: in_run)
  have "receipt_check w" using lok in_l(1) by (simp add: ledger_ok_def receipts_ok_def list_all_iff in_run)
  with fence w(2) have pos: "positive_decimal (int_str (rs_fence r))" by (simp add: receipt_check_def int_str_positive)
  have boxes: "map ob_operation (run_outbox tenant run_id resource L) = [ar_operation w]"
    by (rule sole_outbox [OF lok in_l(1) w(2)]) (use set l(2) in \<open>auto simp: reserved_def\<close>)
  then have box: "length (run_outbox tenant run_id resource L) = 1" "first_operation (run_outbox tenant run_id resource L) = Some (ar_operation w)"
    by (auto simp: first_operation_def dest: arg_cong [where f = length])
  have len: "length ?rows = 2" using pair_filter [OF rows, of "\<lambda>_. True"] by simp
  have counts: "outcome_count s ?rows = (if ar_outcome w = s then 1 else 0) + (if ar_outcome l = s then 1 else 0)" for s
    by (simp add: outcome_count_def pair_filter [OF rows])
  show ?thesis
    using user r f w l other fence pos find reservation_columns [OF ok _ w(2)] denial_names [OF ok rows l(2)] in_l(1)
    by (simp add: observe_race_def Let_def proof_decided_def counted_def pair_filter [OF rows] counts box len in_run)
      (auto simp: reserved_def made_by_def positive_text_def)
qed

lemma observed_is_settled:
  assumes o: "observe_race user now tenant run_id resource W Lo L = Some o'" and d: "proof_decided o' run_id (ro_alpha o') operation (ro_bravo o')"
    and W: "fst W = operation"
  shows "race_settled tenant run_id resource W Lo L"
proof -
  let ?rows = "run_receipts tenant run_id resource L"
  from o obtain r a b where r: "find_resource L tenant resource = Some r" "rs_run r = run_id"
      and ab: "find (made_by W) ?rows = Some a" "find (made_by Lo) ?rows = Some b"
    by (auto simp: observe_race_def Let_def split: option.split_asm if_split_asm)
  with o have o': "ro_alpha o' = contender_columns a" "ro_bravo o' = contender_columns b" "ro_holder o' = map_option ho_operation (rs_holder r)"
      "counted o' ! 1 = int (length ?rows)" "counted o' ! 6 = int (length (run_effects tenant run_id resource L))"
    by (auto simp: observe_race_def Let_def counted_def split: if_split_asm)
  from ab have in_rows: "a \<in> set ?rows" "made_by W a" "b \<in> set ?rows" "made_by Lo b" by (auto dest: find_SomeD)
  from d o' have out: "reserved a" "ar_outcome b = ''resource_held_denied''" "counted o' = [2, 2, 1, 1, 0, 1, 0]"
      and h: "map_option ho_operation (rs_holder r) = Some operation"
    by (simp_all add: proof_decided_def contender_columns_def reserved_def)
  then have "a \<noteq> b" by (auto simp: reserved_def)
  with pair_members [OF _ in_rows(1,3)] o' out have "mset ?rows = {#a, b#}" by simp
  moreover from h obtain x where "rs_holder r = Some x" "ho_operation x = ar_operation a" using in_rows(2) W by (auto simp: made_by_def)
  moreover have "run_effects tenant run_id resource L = []" using o' out by simp
  ultimately show ?thesis using r in_rows out unfolding race_settled_def by blast
qed

text \<open>The query is symmetric in the contenders.\<close>

definition other_way :: "race_observation \<Rightarrow> race_observation" where
  "other_way r = r\<lparr>ro_alpha := ro_bravo r, ro_bravo := ro_alpha r\<rparr>"

lemma observed_other_way:
  "observe_race user now tenant run_id resource A B L = map_option other_way (observe_race user now tenant run_id resource B A L)"
proof -
  have "(\<lambda>a. made_by A a \<or> made_by B a) = (\<lambda>a. made_by B a \<or> made_by A a)" by auto
  then show ?thesis by (simp add: observe_race_def Let_def other_way_def split: option.split)
qed

lemma decided_other_way [simp]: "proof_decided (other_way r) run_id w i l = proof_decided r run_id w i l"
  by (simp add: proof_decided_def other_way_def counted_def)

lemma observed_iff_settled:
  assumes "outcomes_ok L" and "user \<in> set authorizers"
  shows "(\<exists>r. observe_race user now tenant run_id resource A B L = Some r \<and>
      (proof_decided r run_id (ro_alpha r) (fst A) (ro_bravo r) \<or> proof_decided r run_id (ro_bravo r) (fst B) (ro_alpha r))) \<longleftrightarrow>
    race_settled tenant run_id resource A B L \<or> race_settled tenant run_id resource B A L"
proof (intro iffI; elim exE conjE disjE)
  assume "race_settled tenant run_id resource B A L"
  from settled_is_observed [OF assms this] obtain r where
    "observe_race user now tenant run_id resource B A L = Some r" "proof_decided r run_id (ro_alpha r) (fst B) (ro_bravo r)" by blast
  then show "\<exists>r. observe_race user now tenant run_id resource A B L = Some r \<and>
      (proof_decided r run_id (ro_alpha r) (fst A) (ro_bravo r) \<or> proof_decided r run_id (ro_bravo r) (fst B) (ro_alpha r))"
    by (intro exI [of _ "other_way r"]) (simp add: observed_other_way [of _ _ _ _ _ A B], simp add: other_way_def)
next
  fix r assume "observe_race user now tenant run_id resource A B L = Some r" "proof_decided r run_id (ro_bravo r) (fst B) (ro_alpha r)"
  then have "observe_race user now tenant run_id resource B A L = Some (other_way r)"
      "proof_decided (other_way r) run_id (ro_alpha (other_way r)) (fst B) (ro_bravo (other_way r))"
    by (simp_all add: observed_other_way [of _ _ _ _ _ B A]) (simp add: other_way_def)
  from observed_is_settled [OF this] show "race_settled tenant run_id resource A B L \<or> race_settled tenant run_id resource B A L" by blast
qed (use settled_is_observed [OF assms] observed_is_settled in blast)+

section \<open>The proof of the Lambda\<close>

lemma asked_operation:
  assumes "authority_request_for E sha1 c event = Inr request"
  shows "fld request ''operationId'' = Str (fst (asked request))"
  using assms by (auto simp: authority_request_for_def Let_def and_then_eq_Inr race_fields_def asked_def)

text \<open>C8. The Lambda proves a race exactly when the tables decide it. For any ledger a run of the
  program reaches, in a read-only serializable transaction that goes through, the observation of
  the two contenders is accepted if and only if the run of the resource consists of two
  receipts, a reservation made by one contender and the denial of the other for an active holder, the
  winner's operation holds the resource, and no protected effect has been recorded; every other
  column the code checks (the fence the denial saw, the single intent of the outbox, the winner's
  fence as the current one) follows from the invariants of the ledger.\<close>

theorem race_proof_iff_settled:
  assumes "run (ledger_step E' C vector D ms') empty_ledger evs L" and "fld drill ''runId'' = Str run_id"
    and "authority_request_for E sha1 c (race_event race drill ''alpha'') = Inr alpha"
    and "authority_request_for E sha1 c (race_event race drill ''bravo'') = Inr bravo"
    and "os_failing P = None" "os_isolation P = Str ''serializable''" "is_string (os_backend P)" "to_iso_string (ms (os_clock P)) \<noteq> None"
  shows "(\<exists>state tr. lambda_observe E sha1 ms P c drill race L = Inr (state, tr)) \<longleftrightarrow>
    race_settled (lc_tenant c) run_id (lc_resource c) (asked alpha) (asked bravo) L \<or>
    race_settled (lc_tenant c) run_id (lc_resource c) (asked bravo) (asked alpha) L"
proof -
  have ok: "outcomes_ok L" using assms(1) empty_outcomes_ok by (rule outcome_machine.run_inv)
  have user: "gate2_user \<in> set authorizers" by (simp add: gate2_user_def authorizers_def)
  let ?o = "observe_race gate2_user (os_clock P) (lc_tenant c) run_id (lc_resource c) (asked alpha) (asked bravo) L"
  have now: "ro_now r = os_clock P" if "?o = Some r" for r
    using that by (auto simp: observe_race_def Let_def split: option.split_asm if_split_asm)
  obtain t where "to_iso_string (ms (os_clock P)) = Some t" using assms(8) by blast
  with now have accepted: "(\<exists>s. normalize_proof_row E (proof_row ms r) drill alpha bravo = Inr s) \<longleftrightarrow>
      proof_decided r run_id (ro_alpha r) (fst (asked alpha)) (ro_bravo r) \<or> proof_decided r run_id (ro_bravo r) (fst (asked bravo)) (ro_alpha r)"
    if "?o = Some r" for r
    by (intro proof_accepted_iff assms(2) asked_operation [OF assms(3)] asked_operation [OF assms(4)]) (use that now in simp)
  have "(\<exists>state tr. lambda_observe E sha1 ms P c drill race L = Inr (state, tr)) \<longleftrightarrow>
      (\<exists>r. ?o = Some r \<and> (\<exists>s. normalize_proof_row E (proof_row ms r) drill alpha bravo = Inr s))"
    using assms(2-7) by (auto simp: lambda_observe_def Let_def and_then_eq_Inr split: option.split)
  also have "\<dots> \<longleftrightarrow> (\<exists>r. ?o = Some r \<and> (proof_decided r run_id (ro_alpha r) (fst (asked alpha)) (ro_bravo r) \<or>
      proof_decided r run_id (ro_bravo r) (fst (asked bravo)) (ro_alpha r)))"
    using accepted by blast
  finally show ?thesis unfolding observed_iff_settled [OF ok user] .
qed

end
