(* ===== verification/Race_Sample.thy ===== *)
theory Race_Sample
  imports Race_Proof "HOL-Library.Code_Target_Nat"
begin

text \<open>
  A race on concrete inputs: two proposals are authorized, the first contender reserves the
  resource and the second is denied for an active holder.
\<close>

section \<open>Inputs\<close>

text \<open>A hash that tells apart the payloads of the contenders and what mentions their digests.\<close>

definition race_hash :: "string \<Rightarrow> string" where
  "race_hash s = dig (if 64 \<le> length (filter (\<lambda>c. c = CHR ''9'') s) \<or> CHR ''v'' \<in> set s \<and> CHR ''I'' \<notin> set s \<and> CHR ''V'' \<notin> set s then CHR ''9'' else CHR ''a'')"

definition race_pg :: pg where
  "race_pg = \<lparr>pg_sha256 = race_hash, pg_to_json = quote, pg_json_text = (\<lambda>v. case v of Num (Fin q) \<Rightarrow> int_str \<lfloor>q\<rfloor> | _ \<Rightarrow> []),
     pg_time_text = (\<lambda>_. [])\<rparr>"

lemma race_pg_simps: "pg_sha256 race_pg = race_hash" "pg_to_json race_pg = quote" "pg_json_text race_pg (int_num n) = int_str n" "pg_time_text race_pg t = []"
  by (simp_all add: race_pg_def)

definition race_mark :: "string \<Rightarrow> string" where
  "race_mark who = dig (if who = ''alpha'' then CHR ''a'' else CHR ''9'')"

definition race_uuid :: "string \<Rightarrow> char \<Rightarrow> string" where
  "race_uuid who c = replicate 8 (if who = ''alpha'' then CHR ''a'' else CHR ''b'') @ ''-0000-5000-8000-'' @ replicate 12 c"

definition race_semantic :: "string \<Rightarrow> jsv" where
  "race_semantic who = Obj
     [(''digestVersion'', int_num 2), (''tenantId'', Str (sample_uuid (CHR ''1''))), (''runId'', Str (sample_uuid (CHR ''2''))),
      (''incidentId'', Str (sample_uuid (CHR ''3''))), (''resourceId'', Str ''boat''), (''agentId'', Str (''aws-authority-'' @ who)),
      (''agency'', Str ''rescue''), (''evidenceId'', Str (sample_uuid (CHR ''5''))), (''intentNonce'', Str (race_uuid who (CHR ''2''))),
      (''effectKey'', Str (race_uuid who (CHR ''3''))), (''leaseMs'', int_num 300000), (''policyVersion'', Str policy_version),
      (''actionKind'', Str action_kind), (''payloadDigest'', Str (race_mark who)), (''logicalActionDigest'', Str (race_mark who)),
      (''proposalDigest'', Str (race_mark who)), (''selectedEvidenceId'', Str (sample_uuid (CHR ''5''))), (''selectedEvidenceDigest'', Str (dig (CHR ''5'')))]"

definition race_spend :: "string \<Rightarrow> spend_request" where
  "race_spend who = \<lparr>sq_tenant = sample_uuid (CHR ''1''), sq_operation = race_uuid who (CHR ''1''), sq_digest = race_mark who,
     sq_request = race_semantic who, sq_proposal = race_mark who, sq_action = race_mark who, sq_evidence_digest = dig (CHR ''5''),
     sq_run = sample_uuid (CHR ''2''), sq_incident = sample_uuid (CHR ''3''), sq_resource = ''boat'', sq_agent = ''aws-authority-'' @ who,
     sq_agency = ''rescue'', sq_evidence = sample_uuid (CHR ''5''), sq_effect = race_uuid who (CHR ''3''), sq_payload = race_payload who,
     sq_payload_digest = race_mark who, sq_policy = policy_version, sq_lease = 300000\<rparr>"

definition race_ask :: "string \<Rightarrow> proposal_request" where
  "race_ask who = sample_ask\<lparr>az_agency := ''rescue'', az_payload := race_payload who\<rparr>"

definition race_selection :: selection_row where
  "race_selection = sample_selection\<lparr>sl_agency := ''rescue''\<rparr>"

abbreviation racer :: "string \<Rightarrow> bool" where
  "racer who \<equiv> who = ''alpha'' \<or> who = ''bravo''"

section \<open>The digests of a contender\<close>

definition race_proposal :: "string \<Rightarrow> proposal_row" where
  "race_proposal who = proposal_of race_pg (race_ask who) race_selection 1"

lemma race_numbers: "int_str 1 = ''1''" "int_str 2 = ''2''" "int_str 300000 = ''300000''"
  by code_simp+

lemma race_quotes:
  "quote ''rescue'' = CHR 0x22 # ''rescue'' @ [CHR 0x22]" "quote ''boat'' = CHR 0x22 # ''boat'' @ [CHR 0x22]"
  "quote ''alpha'' = CHR 0x22 # ''alpha'' @ [CHR 0x22]" "quote ''bravo'' = CHR 0x22 # ''bravo'' @ [CHR 0x22]"
  "quote ''aws-authority-alpha'' = CHR 0x22 # ''aws-authority-alpha'' @ [CHR 0x22]"
  "quote ''aws-authority-bravo'' = CHR 0x22 # ''aws-authority-bravo'' @ [CHR 0x22]"
  "quote ''synthetic-highwater'' = CHR 0x22 # ''synthetic-highwater'' @ [CHR 0x22]"
  "quote ''synthetic-zone-aws-race'' = CHR 0x22 # ''synthetic-zone-aws-race'' @ [CHR 0x22]"
  "quote ''dispatch_rescue_unit'' = CHR 0x22 # ''dispatch_rescue_unit'' @ [CHR 0x22]"
  "quote ''gate1-policy-v2'' = CHR 0x22 # ''gate1-policy-v2'' @ [CHR 0x22]"
  "quote ''g1-admissibility-v2'' = CHR 0x22 # ''g1-admissibility-v2'' @ [CHR 0x22]"
  by (simp_all add: plain_quote esc_def)

lemma race_uuids: "racer who \<Longrightarrow> c \<in> {CHR ''1'', CHR ''2'', CHR ''3''} \<Longrightarrow> uuid_shape (race_uuid who c)"
  by (elim disjE insertE emptyE; simp only:; code_simp)

lemma race_uuid_chars: "c \<in> {CHR ''1'', CHR ''2'', CHR ''3''} \<Longrightarrow> filter (\<lambda>x. x = CHR ''9'') (race_uuid who c) = []"
  by (auto simp: race_uuid_def)

lemma race_uuid_quotes: "racer who \<Longrightarrow> quote (race_uuid who (CHR ''2'')) = CHR 0x22 # race_uuid who (CHR ''2'') @ [CHR 0x22]"
  by (rule plain_quotes(1) [OF race_uuids]) simp_all

lemma race_texts:
  assumes "racer who"
  shows "race_hash (payload_canonical race_pg (race_payload who)) = race_mark who"
    and "race_hash (action_text race_pg kind_literal ''rescue'' (sample_uuid (CHR ''3'')) (race_mark who) ''boat'' (sample_uuid (CHR ''1''))) = race_mark who"
    and "race_hash (action_text race_pg (quote action_kind) ''rescue'' (sample_uuid (CHR ''3'')) (race_mark who) ''boat'' (sample_uuid (CHR ''1''))) = race_mark who"
    and "race_hash (proposal_text race_pg race_selection (race_mark who) (sample_uuid (CHR ''1''))) = race_mark who"
    and "race_hash (authority_key_text 1 (race_mark who)) = race_mark who"
    and "race_hash (authority_binding_text 1 (race_mark who) (race_mark who) (race_mark who)) = race_mark who"
    and "race_hash (request_text race_pg (race_spend who) (race_mark who) (race_mark who)) = race_mark who"
  using assms by (auto simp: race_hash_def race_mark_def payload_canonical_def race_payload_def member_text_def arrow_text_def race_pg_def
      action_text_def kind_literal_def sample_uuid_def proposal_text_def race_selection_def sample_selection_def authority_key_text_def
      authority_binding_text_def request_text_def race_spend_def action_kind_def race_uuid_quotes race_uuid_chars policy_version_def race_semantic_def race_numbers race_quotes)

lemma race_ids:
  assumes "racer who"
  shows "pr_id (race_proposal who) = \<lparr>ai_proposal = race_mark who, ai_action = race_mark who, ai_epoch = 1, ai_key = race_mark who, ai_binding = race_mark who\<rparr>"
    "pr_tenant (race_proposal who) = sample_uuid (CHR ''1'')"
  proof -
  have s: "sl_incident race_selection = sample_uuid (CHR ''3'')" by (simp add: race_selection_def sample_selection_def)
  show "pr_id (race_proposal who) = \<lparr>ai_proposal = race_mark who, ai_action = race_mark who, ai_epoch = 1, ai_key = race_mark who, ai_binding = race_mark who\<rparr>"
    "pr_tenant (race_proposal who) = sample_uuid (CHR ''1'')"
    using race_texts [OF assms] by (simp_all add: race_proposal_def proposal_of_def Let_def race_ask_def sample_ask_def race_pg_simps s)
qed

lemma race_marks: "hex_64 (race_mark who)" "race_mark ''alpha'' \<noteq> race_mark ''bravo''" "race_mark ''bravo'' \<noteq> race_mark ''alpha''"
  by (simp_all add: race_mark_def hex_of_length_def hex_digit_def list_all_iff)

lemma race_proposal_fields:
  "pr_run (race_proposal who) = sample_uuid (CHR ''2'')" "pr_incident (race_proposal who) = sample_uuid (CHR ''3'')"
  "pr_resource (race_proposal who) = ''boat''" "pr_agency (race_proposal who) = ''rescue''" "pr_kind (race_proposal who) = action_kind"
  "pr_payload (race_proposal who) = race_payload who" "pr_evidence (race_proposal who) = sample_uuid (CHR ''5'')"
  "pr_evidence_digest (race_proposal who) = dig (CHR ''5'')" "pr_rank (race_proposal who) = 1" "pr_expires (race_proposal who) = 1001000"
  "pr_canonical (race_proposal who) = payload_canonical race_pg (race_payload who)"
  by (simp_all add: race_proposal_def proposal_of_def Let_def race_ask_def sample_ask_def race_selection_def sample_selection_def)

lemma race_payload_digest: "racer who \<Longrightarrow> pr_payload_digest (race_proposal who) = race_mark who"
  using race_texts(1) by (simp add: race_proposal_def proposal_of_def Let_def race_ask_def race_pg_simps)

section \<open>The proposals\<close>

definition race_epoch :: "string \<Rightarrow> epoch_row" where
  "race_epoch who = \<lparr>ep_tenant = sample_uuid (CHR ''1''), ep_action = race_mark who, ep_epoch = 1\<rparr>"

text \<open>The ledger after the proposals of the contenders.\<close>

definition race_proposed :: "string list \<Rightarrow> ledger" where
  "race_proposed ws = \<lparr>evidence = sample_db [CHR ''5''], selections = [race_selection], epochs = map race_epoch ws, proposals = map race_proposal ws,
     receipts = [], resources = [sample_resource], outbox = [], effects = []\<rparr>"

lemma race_input_ok: "racer who \<Longrightarrow> proposal_input_ok (race_ask who)"
proof -
  have "btrim ''boat'' = ''boat''" "btrim ''rescue'' = ''rescue''" by code_simp+
  then show "racer who \<Longrightarrow> proposal_input_ok (race_ask who)"
    by (auto simp: proposal_input_ok_def race_ask_def sample_ask_def race_payload_def sample_hex)
qed

lemma race_payload_ok: "racer who \<Longrightarrow> payload_ok race_pg (race_payload who)"
proof -
  have "safe_member (Str ''synthetic-highwater'')" "safe_member (Str ''synthetic-zone-aws-race'')" "safe_member (Str ''alpha'')" "safe_member (Str ''bravo'')"
    by code_simp+
  then show "racer who \<Longrightarrow> payload_ok race_pg (race_payload who)"
    by (auto simp: payload_ok_def race_payload_def race_pg_def utf8_length_def)
qed

lemma race_admissibility: "user \<in> set authorizers \<Longrightarrow> list_admissibility user 1500 (sample_uuid (CHR ''1'')) (sample_uuid (CHR ''3'')) ''rescue'' (sample_db [CHR ''5''])
    = [(sample_uuid (CHR ''5''), ''admissible'', Some (dig (CHR ''5'')))]"
  by (auto simp: list_admissibility_def admissibility_of_def sample_evidence_def params_row_def sample_params_def sample_db_def verification_of_def
      find_verification_def verification_key_def sample_receipt_def same_binding_def key_of_def find_key_def signing_key_def
      sample_key_def five_minutes_def conflicting_def authorizers_def)

lemma race_check: "racer who \<Longrightarrow> proposal_check (race_proposal who)"
proof -
  assume who: "racer who"
  have "length (payload_canonical race_pg (race_payload who)) > 1" by (simp add: payload_canonical_def)
  moreover have "is_object (race_payload who)" by (simp add: race_payload_def)
  moreover have "pr_evidence_binding (race_proposal who) = dig (CHR ''a'')" "pr_admitted (race_proposal who) = 1000"
    by (simp_all add: race_proposal_def proposal_of_def Let_def race_selection_def sample_selection_def)
  moreover have "length (race_mark who) = 64" by (simp add: race_mark_def)
  ultimately show ?thesis
    using race_ids [OF who] race_payload_digest [OF who] by (simp add: proposal_check_def authority_id_check_def race_proposal_fields)
qed

lemma race_proposes:
  assumes who: "racer who" and fresh: "list_all (\<lambda>w. race_mark w \<noteq> race_mark who) ws" "list_all racer ws"
  shows "authorize_proposal race_pg ''tp_authorizer_user'' 1500 sample_clock (race_ask who) (race_proposed ws)
    = Inr (race_proposed (ws @ [who]), proposal_granted ''proposal_authorized'' (race_proposal who) 1501)"
proof -
  let ?t = "sample_uuid (CHR ''1'')" and ?m = "race_mark who"
  have p: "proposal_of race_pg (race_ask who) race_selection 1 = race_proposal who" by (simp add: race_proposal_def)
  have ids: "pr_id (race_proposal w) = \<lparr>ai_proposal = race_mark w, ai_action = race_mark w, ai_epoch = 1, ai_key = race_mark w, ai_binding = race_mark w\<rparr>"
    if "w \<in> set ws" for w using race_ids [of w] that fresh(2) by (auto simp: list_all_iff)
  let ?e = "\<lparr>ep_tenant = ?t, ep_action = ?m, ep_epoch = 0\<rparr>" and ?L = "race_proposed ws"
  have no: "find_proposal ?L ?t ?m = None" "spends ?L ?t ?m = []"
    "\<not> taken every epoch_key (?t, ?m) (epochs ?L)"
    using fresh ids by (auto simp: find_proposal_def find_None_iff proposal_key_def race_ids race_proposed_def spends_def taken_iff epoch_key_def race_epoch_def list_all_iff)
  have open_it: "open_proposal (sample_clock 1) race_selection (race_proposal who) (?L\<lparr>epochs := epochs ?L @ [?e]\<rparr>)
      = Inr (race_proposed (ws @ [who]), proposal_granted ''proposal_authorized'' (race_proposal who) 1501)"
  proof -
    let ?M = "?L\<lparr>epochs := epochs ?L @ [?e]\<rparr>"
    have e: "epochs ?M = map race_epoch ws @ [?e]" by (simp add: race_proposed_def)
    have "find (\<lambda>e. epoch_key e = (?t, ?m)) (map race_epoch ws) = None"
      using fresh by (auto simp: find_None_iff epoch_key_def race_epoch_def list_all_iff)
    then have f: "find_epoch ?M ?t ?m = Some ?e" by (simp add: find_epoch_def e find_append epoch_key_def)
    have "open_epoch ?t ?m ?M = ?L\<lparr>epochs := map race_epoch (ws @ [who])\<rparr>"
      by (simp add: open_epoch_def e update_where_def epoch_key_def race_epoch_def comp_def race_proposed_def)
    moreover have "insert_proposal (race_proposal who) (?L\<lparr>epochs := map race_epoch (ws @ [who])\<rparr>) = Inr (race_proposed (ws @ [who]))"
      using fresh ids by (auto simp: insert_proposal_def race_check [OF who] taken_iff proposal_key_def proposal_epoch_key_def proposal_authority_key_def
          race_ids [OF who] race_proposed_def list_all_iff)
    moreover have "find_proposal ?M ?t ?m = None" "spends ?M ?t ?m = []" using no by (simp_all add: find_proposal_def spends_def)
    moreover have "\<not> sl_expires race_selection \<le> sample_clock 1" by (simp add: race_selection_def sample_selection_def sample_clock_def)
    ultimately show ?thesis using f by (simp add: open_proposal_def Let_def race_ids [OF who]) (simp add: sample_clock_def)
  qed
  have "insert_epoch ?t ?m ?L = Inr (?L\<lparr>epochs := epochs ?L @ [?e]\<rparr>)"
    using no(3) by (simp add: insert_epoch_def Let_def epoch_check_def int8_max_def) (simp add: race_mark_def epoch_key_def)
  moreover have "find (\<lambda>s. selection_key s = (?t, sample_uuid (CHR ''4''))) (selections ?L) = Some race_selection"
    by (simp add: race_proposed_def selection_key_def) (simp add: race_selection_def sample_selection_def)
  moreover have "az_payload (race_ask who) = race_payload who" "az_tenant (race_ask who) = ?t" "az_retrieval (race_ask who) = sample_uuid (CHR ''4'')"
      "sl_run race_selection = az_run (race_ask who)" "sl_incident race_selection = az_incident (race_ask who)" "sl_agency race_selection = az_agency (race_ask who)"
      "sl_rank race_selection = 1" "sl_evidence race_selection = az_evidence (race_ask who)" "sl_evidence_digest race_selection = az_evidence_digest (race_ask who)"
      "\<not> (sl_admitted race_selection > sample_clock 0 \<or> sl_expires race_selection \<le> sample_clock 0)"
    by (simp_all add: race_ask_def sample_ask_def race_selection_def sample_selection_def sample_clock_def)
  moreover have "filter (\<lambda>(i, _). i = az_evidence (race_ask who)) (list_admissibility ''tp_authorizer_user'' 1500 ?t (az_incident (race_ask who))
        (az_agency (race_ask who)) (evidence ?L)) = [(sample_uuid (CHR ''5''), ''admissible'', Some (az_evidence_digest (race_ask who)))]"
    by (simp add: race_proposed_def race_ask_def sample_ask_def race_admissibility authorizers_def)
  ultimately show ?thesis
    using open_it no(1) unfolding authorize_proposal_def
    by (simp add: race_input_ok [OF who] race_payload_ok [OF who] p race_ids [OF who])
qed

section \<open>The reservation\<close>

definition race_both :: ledger where
  "race_both = race_proposed [''alpha'', ''bravo'']"

lemma race_proposal_for: "racer who \<Longrightarrow> proposal_for (race_spend who) race_both = Some (race_proposal who)"
  using race_ids [of "''alpha''"] race_ids [of "''bravo''"] race_payload_digest [of "''alpha''"] race_payload_digest [of "''bravo''"] race_marks
  by (auto simp: proposal_for_def race_both_def race_proposed_def proposal_key_def race_proposal_fields race_spend_def)

lemma race_bound: "racer who \<Longrightarrow> request_bound race_pg (race_spend who)"
  using race_uuids by (simp add: request_bound_def bound_fields_def race_spend_def race_semantic_def race_payload_def arrow_text_def race_numbers)
    (simp add: race_pg_def race_numbers)

lemma race_derived: "racer who \<Longrightarrow> digests_derived race_pg (race_spend who) (race_proposal who)"
  using race_texts [of who] by (simp add: digests_derived_def Let_def race_proposal_fields) (simp add: race_spend_def race_pg_def)

lemma race_spend_simps: "sq_tenant (race_spend who) = sample_uuid (CHR ''1'')" "sq_operation (race_spend who) = race_uuid who (CHR ''1'')"
    "sq_digest (race_spend who) = race_mark who" "sq_proposal (race_spend who) = race_mark who" "sq_action (race_spend who) = race_mark who"
    "sq_run (race_spend who) = sample_uuid (CHR ''2'')" "sq_incident (race_spend who) = sample_uuid (CHR ''3'')" "sq_resource (race_spend who) = ''boat''"
    "sq_effect (race_spend who) = race_uuid who (CHR ''3'')" "sq_evidence (race_spend who) = sample_uuid (CHR ''5'')"
    "sq_evidence_digest (race_spend who) = dig (CHR ''5'')" "sq_agency (race_spend who) = ''rescue''" "sq_lease (race_spend who) = 300000"
    "sq_agent (race_spend who) = ''aws-authority-'' @ who" "is_object (sq_request (race_spend who))" "is_object (sq_payload (race_spend who))"
  by (simp_all add: race_spend_def race_semantic_def race_payload_def)

lemma race_tables: "evidence race_both = sample_db [CHR ''5'']" "receipts race_both = []" "resources race_both = [sample_resource]" "outbox race_both = []"
    "proposals race_both = [race_proposal ''alpha'', race_proposal ''bravo'']" "epochs race_both = [race_epoch ''alpha'', race_epoch ''bravo'']" "effects race_both = []"
  by (simp_all add: race_both_def race_proposed_def)

lemma race_admitted: "evidence L = sample_db [CHR ''5''] \<Longrightarrow> admission gate2_user 1500 (race_spend who) L = (''admissible'', Some (dig (CHR ''5'')))"
  by (simp add: admission_def observe_admissibility_def race_spend_simps race_admissibility gate2_user_def authorizers_def)

lemma race_epochs: "racer who \<Longrightarrow> epochs L = epochs race_both \<Longrightarrow> find_epoch L (sample_uuid (CHR ''1'')) (race_mark who) = Some (race_epoch who)"
  using race_marks by (auto simp: find_epoch_def race_tables epoch_key_def race_epoch_def)

lemma race_granting: "authorized race_pg gate2_user 1500 (sample_clock 2) (race_spend ''alpha'') (race_proposal ''alpha'') sample_resource race_both"
proof -
  have "digests_shaped (race_spend ''alpha'')" "lease_length_ok (sq_lease (race_spend ''alpha''))" "\<not> sq_lease (race_spend ''alpha'') > 600000"
    using race_marks(1) by (simp_all add: digests_shaped_def race_spend_def sample_hex lease_length_ok_def)
  moreover have "spends race_both (sample_uuid (CHR ''1'')) (race_mark ''alpha'') = []"
    by (simp add: spends_def race_tables)
  moreover have "find_resource race_both (sample_uuid (CHR ''1'')) ''boat'' = Some sample_resource"
    by (simp add: find_resource_def race_tables sample_resource_def fresh_resource)
  moreover have "rs_run sample_resource = sample_uuid (CHR ''2'')" "\<not> held (sample_clock 2) sample_resource" "sample_clock 2 < pr_expires (race_proposal ''alpha'')"
    by (simp_all add: sample_resource_def new_resource_def held_def sample_clock_def race_proposal_fields)
  ultimately show ?thesis
    using race_epochs [of "''alpha''" race_both] race_ids(1) [of "''alpha''"]
    by (simp add: authorized_def gate2_user_def authorizers_def race_bound race_proposal_for race_derived race_spend_simps
        race_admitted [unfolded gate2_user_def] race_tables)
      (simp add: race_epoch_def)
qed

definition race_won :: ledger where
  "race_won = reserved_tables (race_spend ''alpha'') (race_proposal ''alpha'') sample_resource (sample_clock 2) race_both"

definition race_winner :: receipt_row where
  "race_winner = reserving (race_spend ''alpha'') (race_proposal ''alpha'') 1 (sample_clock 2 + 300000000)"

definition race_grant :: spend_decision where
  "race_grant = spend_granted (race_spend ''alpha'') (pr_id (race_proposal ''alpha'')) 1 (sample_clock 2 + 300000000) (sample_clock 2)"

definition race_held :: resource_row where
  "race_held = acquired (race_spend ''alpha'') race_winner (sample_clock 2 + 300000000) sample_resource"

lemma race_won_tables: "evidence race_won = sample_db [CHR ''5'']" "receipts race_won = [race_winner]" "resources race_won = [race_held]"
    "outbox race_won = [intent (race_spend ''alpha'') race_winner 1]" "proposals race_won = proposals race_both" "epochs race_won = epochs race_both"
    "effects race_won = []" "selections race_won = selections race_both"
  by (simp_all add: race_won_def reserved_tables_def Let_def race_tables race_winner_def race_held_def update_where_def race_spend_simps
      sample_resource_def fresh_resource)

lemma race_commits_spend:
  assumes "ledger_ok race_both"
  shows "spend_authority race_pg gate2_user 1500 sample_clock (race_spend ''alpha'') race_both = Inr (race_won, race_grant)"
proof -
  let ?q = "race_spend ''alpha''"
  have h: "find_receipt race_both (sq_tenant ?q) (sq_operation ?q) = None" "\<forall>a \<in> set (receipts race_both). ar_tenant a = sq_tenant ?q \<longrightarrow> ar_digest a \<noteq> sq_digest ?q"
    "\<forall>b \<in> set (outbox race_both). ob_tenant b = sq_tenant ?q \<longrightarrow> ob_effect b \<noteq> sq_effect ?q" "rs_fence sample_resource < int8_max"
    "sample_clock 1 < pr_expires (race_proposal ''alpha'')" "sample_clock 3 < pr_expires (race_proposal ''alpha'')"
    by (simp_all add: find_receipt_def race_tables sample_resource_def fresh_resource int8_max_def sample_clock_def race_proposal_fields)
  from spend_is_granted [OF assms race_granting race_spend_simps(15,16) h] obtain L' where
    s: "spend_authority race_pg gate2_user 1500 sample_clock ?q race_both = Inr (L', race_grant)"
    by (auto simp: race_grant_def race_spend_simps sample_resource_def fresh_resource)
  moreover have "fresh race_grant" by (simp add: race_grant_def)
  ultimately obtain p r where "reservation race_pg gate2_user 1500 (sample_clock 2) ?q p r race_both L'"
    using spend_result [OF s] by blast
  then have "proposal_for ?q race_both = Some p" "find_resource race_both (sq_tenant ?q) (sq_resource ?q) = Some r" "L' = reserved_tables ?q p r (sample_clock 2) race_both"
    by (simp_all add: reservation_def authorized_def)
  moreover have "find_resource race_both (sq_tenant ?q) (sq_resource ?q) = Some sample_resource"
    using race_granting by (simp add: authorized_def)
  ultimately have "L' = race_won" by (simp add: race_proposal_for race_won_def)
  with s show ?thesis by simp
qed

section \<open>The denial\<close>

definition race_loser :: receipt_row where
  "race_loser = (pending_receipt (race_spend ''bravo'') (race_proposal ''bravo''))
     \<lparr>ar_outcome := ''resource_held_denied'', ar_reason := Some ''active_holder'', ar_evidence_digest := Some (dig (CHR ''5'')),
      ar_seen_holder := Some (race_uuid ''alpha'' (CHR ''1'')), ar_seen_fence := Some 1\<rparr>"

definition race_over :: ledger where
  "race_over = race_won\<lparr>receipts := [race_winner, race_loser]\<rparr>"

definition race_refusal :: spend_decision where
  "race_refusal = spend_denied (race_spend ''bravo'') (Some (pr_id (race_proposal ''bravo''))) ''resource_held_denied'' ''active_holder'' (sample_clock 2)"

lemma race_receipt_columns:
  "ar_tenant race_winner = sample_uuid (CHR ''1'')" "ar_operation race_winner = race_uuid ''alpha'' (CHR ''1'')" "ar_digest race_winner = race_mark ''alpha''"
  "ar_tenant race_loser = sample_uuid (CHR ''1'')" "ar_operation race_loser = race_uuid ''bravo'' (CHR ''1'')" "ar_digest race_loser = race_mark ''bravo''"
  "ar_run race_winner = sample_uuid (CHR ''2'')" "ar_resource race_winner = ''boat''" "ar_run race_loser = sample_uuid (CHR ''2'')" "ar_resource race_loser = ''boat''"
  "ar_outcome race_winner = ''resource_reserved''" "ar_outcome race_loser = ''resource_held_denied''"
  "ai_action (ar_id race_winner) = race_mark ''alpha''" 
  by (simp_all add: race_winner_def reserving_def race_loser_def pending_receipt_def race_spend_simps)

lemma race_refuses:
  "spend_authority race_pg gate2_user 1500 sample_clock (race_spend ''bravo'') race_won = Inr (race_over, race_refusal)"
proof -
  let ?q = "race_spend ''bravo''" and ?p = "race_proposal ''bravo''" and ?a = "pending_receipt (race_spend ''bravo'') (race_proposal ''bravo'')"
  have b: "racer ''bravo''" by simp
  have shaped: "digests_shaped ?q" using race_marks(1) by (simp add: digests_shaped_def race_spend_def sample_hex)
  have p: "proposal_for ?q race_won = Some ?p" using race_proposal_for [OF b] by (simp add: proposal_for_def race_won_tables)
  have e: "find_epoch race_won (sq_tenant ?q) (sq_action ?q) = Some (race_epoch ''bravo'')"
    using race_epochs [OF b, of race_won] by (simp add: race_won_tables race_spend_simps)
  have diff: "race_uuid ''alpha'' c \<noteq> race_uuid ''bravo'' c" for c by (simp add: race_uuid_def numeral_eq_Suc)
  have none: "earlier_answer race_pg gate2_user sample_clock ?q race_won = None"
    using diff race_marks by (simp add: earlier_answer_def find_receipt_def race_won_tables receipt_key_def receipt_digest_key_def spends_def
        receipt_action_key_def race_receipt_columns race_spend_simps)
  have keys: "receipt_key ?a = (sample_uuid (CHR ''1''), race_uuid ''bravo'' (CHR ''1''))" "receipt_digest_key ?a = (sample_uuid (CHR ''1''), race_mark ''bravo'')"
    by (simp_all add: receipt_key_def receipt_digest_key_def pending_receipt_def race_spend_simps)
  have ins: "insert_pending ?a race_won = Inr (Some (race_won\<lparr>receipts := [race_winner, ?a]\<rparr>))"
    using diff race_marks race_ids(1) [OF b] race_receipt_columns by (simp add: insert_pending_Some taken_iff keys race_won_tables)
      (auto simp: receipt_key_def receipt_digest_key_def receipt_check_def authority_id_check_def pending_receipt_def race_spend_simps reserved_def race_mark_def)
  have settled: "settle gate2_user 1500 sample_clock ?q ?p ?a (race_won\<lparr>receipts := [race_winner, ?a]\<rparr>) = Inr (race_over, race_refusal)"
  proof -
    let ?M = "race_won\<lparr>receipts := [race_winner, ?a]\<rparr>"
    have adm: "admission gate2_user 1500 ?q ?M = (''admissible'', Some (dig (CHR ''5'')))" by (rule race_admitted) (simp add: race_won_tables)
    have res: "find_resource ?M (sq_tenant ?q) (sq_resource ?q) = Some race_held"
      by (simp add: find_resource_def race_won_tables race_spend_simps) (simp add: race_held_def acquired_def sample_resource_def new_resource_def resource_key_def)
    have held: "rs_run race_held = sq_run ?q" "rs_fence race_held = 1"
      "\<exists>h. rs_holder race_held = Some h \<and> ho_expires h = sample_clock 2 + 300000000 \<and> ho_operation h = race_uuid ''alpha'' (CHR ''1'')"
      by (simp_all add: race_held_def acquired_def sample_resource_def new_resource_def race_spend_simps)
    have loser: "?a\<lparr>ar_outcome := ''resource_held_denied'', ar_reason := Some ''active_holder'', ar_evidence_digest := Some (dig (CHR ''5'')),
        ar_seen_holder := Some (race_uuid ''alpha'' (CHR ''1'')), ar_seen_fence := Some 1\<rparr> = race_loser"
      by (simp add: race_loser_def)
    have "receipt_check race_loser"
      using race_ids(1) [OF b] by (simp add: receipt_check_def authority_id_check_def race_loser_def pending_receipt_def race_spend_simps reserved_def)
        (simp add: race_mark_def)
    moreover have "update_where (\<lambda>b. receipt_key b = receipt_key race_loser) (\<lambda>_. race_loser) (receipts ?M) = [race_winner, race_loser]"
      using diff keys by (simp add: update_where_def receipt_key_def race_receipt_columns)
    moreover have "\<not> list_ex (spend_clash race_loser) (receipts ?M)" by (simp add: spend_clash_def reserved_def race_receipt_columns)
    ultimately have up: "update_receipt race_loser ?M = Inr race_over" by (simp add: update_receipt_def race_over_def)
    have id: "ar_id ?a = pr_id ?p" using race_ids(1) [OF b] by (simp add: pending_receipt_def race_spend_simps)
    from held obtain h where h: "rs_holder race_held = Some h" "ho_expires h = sample_clock 2 + 300000000" "ho_operation h = race_uuid ''alpha'' (CHR ''1'')"
      by blast
    show ?thesis unfolding settle_def adm res
      using h held loser up id by (simp add: known_differs_def race_spend_simps race_proposal_fields deny_held_def race_refusal_def)
        (simp add: sample_clock_def)
  qed
  show ?thesis
    using shaped p e none ins settled race_bound [OF b] race_derived [OF b] race_ids [OF b]
    by (simp add: spend_authority_def spend_fresh_def gate2_user_def authorizers_def race_spend_simps lease_length_ok_def race_epoch_def
        race_proposal_fields sample_clock_def)
qed

section \<open>The run\<close>

definition race_events :: "ledger_event list" where
  "race_events = [Evidence (Register_key sample_key_input), Evidence (Append_v2 ''tp_ingest_user'' (sample_params (CHR ''5''))), Selected race_selection,
     Prepared sample_boat, Authorized ''tp_authorizer_user'' 1500 sample_clock (race_ask ''alpha'') (proposal_granted ''proposal_authorized'' (race_proposal ''alpha'') 1501),
     Authorized ''tp_authorizer_user'' 1500 sample_clock (race_ask ''bravo'') (proposal_granted ''proposal_authorized'' (race_proposal ''bravo'') 1501)]"

lemma race_prepared_run:
  "run (ledger_step request_env sample_crypto (\<lambda>_. True) race_pg (\<lambda>t. t div 1000)) empty_ledger (take 4 race_events) (race_proposed [])"
proof -
  let ?step = "ledger_step request_env sample_crypto (\<lambda>_. True) race_pg (\<lambda>t. t div 1000)"
  have "evidence_step request_env sample_crypto (\<lambda>_. True) (evidence empty_ledger) (Register_key sample_key_input) (sample_db [])"
    using step_register [OF sample_registered] by (simp add: empty_ledger_def)
  from step_evidence [OF this] have 1: "?step empty_ledger (Evidence (Register_key sample_key_input)) (empty_ledger\<lparr>evidence := sample_db []\<rparr>)" .
  have "evidence_step request_env sample_crypto (\<lambda>_. True) (evidence (empty_ledger\<lparr>evidence := sample_db []\<rparr>))
      (Append_v2 ''tp_ingest_user'' (sample_params (CHR ''5''))) (sample_db [CHR ''5''])"
    using step_v2 [OF sample_appended [of "CHR ''5''" "[]"]] by simp
  from step_evidence [OF this] have 2: "?step (empty_ledger\<lparr>evidence := sample_db []\<rparr>) (Evidence (Append_v2 ''tp_ingest_user'' (sample_params (CHR ''5''))))
      (empty_ledger\<lparr>evidence := sample_db [CHR ''5'']\<rparr>)" by simp
  have "selection_check race_selection" by (simp add: selection_check_def race_selection_def sample_selection_def)
  from step_selected [OF this, of "empty_ledger\<lparr>evidence := sample_db [CHR ''5'']\<rparr>"]
  have 3: "?step (empty_ledger\<lparr>evidence := sample_db [CHR ''5'']\<rparr>) (Selected race_selection)
      (empty_ledger\<lparr>evidence := sample_db [CHR ''5''], selections := [race_selection]\<rparr>)"
    by (simp add: empty_ledger_def)
  have boat: "store_text (Str ''boat'') name = Inr ''boat''" for name by code_simp
  have "prepare_resource sample_boat (empty_ledger\<lparr>evidence := sample_db [CHR ''5''], selections := [race_selection]\<rparr>) = Inr (race_proposed [], sample_resource)"
    by (simp add: prepare_resource_def boat sample_boat_def sample_simps empty_ledger_def race_proposed_def sample_resource_def)
  from step_prepared [OF this] have 4: "?step (empty_ledger\<lparr>evidence := sample_db [CHR ''5''], selections := [race_selection]\<rparr>) (Prepared sample_boat) (race_proposed [])" .
  show ?thesis unfolding race_events_def
    by (simp, rule run_cons, rule 1, rule run_cons, rule 2, rule run_cons, rule 3, rule run_cons, rule 4, rule run_nil)
qed

lemma race_both_run: "run (ledger_step request_env sample_crypto (\<lambda>_. True) race_pg (\<lambda>t. t div 1000)) empty_ledger race_events race_both"
proof -
  have "race_mark ''alpha'' \<noteq> race_mark ''bravo''" by (rule race_marks)
  then have p: "authorize_proposal race_pg ''tp_authorizer_user'' 1500 sample_clock (race_ask ''alpha'') (race_proposed [])
      = Inr (race_proposed [''alpha''], proposal_granted ''proposal_authorized'' (race_proposal ''alpha'') 1501)"
    "authorize_proposal race_pg ''tp_authorizer_user'' 1500 sample_clock (race_ask ''bravo'') (race_proposed [''alpha''])
      = Inr (race_both, proposal_granted ''proposal_authorized'' (race_proposal ''bravo'') 1501)"
    using race_proposes [of "''alpha''" "[]"] race_proposes [of "''bravo''" "[''alpha'']"] by (simp_all add: race_both_def)
  have "race_events = (take 4 race_events @
      [Authorized ''tp_authorizer_user'' 1500 sample_clock (race_ask ''alpha'') (proposal_granted ''proposal_authorized'' (race_proposal ''alpha'') 1501)]) @
      [Authorized ''tp_authorizer_user'' 1500 sample_clock (race_ask ''bravo'') (proposal_granted ''proposal_authorized'' (race_proposal ''bravo'') 1501)]"
    by (simp add: race_events_def)
  moreover have "run (ledger_step request_env sample_crypto (\<lambda>_. True) race_pg (\<lambda>t. t div 1000)) empty_ledger \<dots> race_both"
    by (rule run_snoc, rule run_snoc, rule race_prepared_run, rule step_authorized, rule p(1), rule step_authorized, rule p(2))
  ultimately show ?thesis by (rule ssubst)
qed

lemma race_over_run: "\<exists>evs. run (ledger_step request_env sample_crypto (\<lambda>_. True) race_pg (\<lambda>t. t div 1000)) empty_ledger evs race_over"
proof -
  have "ledger_ok race_both" using race_both_run empty_ledger_ok by (rule ledger_machine.run_inv)
  then have "run (ledger_step request_env sample_crypto (\<lambda>_. True) race_pg (\<lambda>t. t div 1000)) empty_ledger
      ((race_events @ [Spent gate2_user 1500 sample_clock (race_spend ''alpha'') race_grant]) @
        [Spent gate2_user 1500 sample_clock (race_spend ''bravo'') race_refusal]) race_over"
    by (intro run_snoc [where t = race_won] run_snoc [where t = race_both] race_both_run step_spent race_commits_spend race_refuses)
  then show ?thesis ..
qed

section \<open>The requests of the contenders\<close>

definition race_env :: jsenv where
  "race_env = request_env\<lparr>sha256_hex := race_hash\<rparr>"

definition race_sha1 :: "nat list \<Rightarrow> nat list" where
  "race_sha1 bs = replicate 4 (if bs ! 53 = 97 then 170 else 187) @ replicate 6 0 @
     replicate 10 (if bs ! 59 = 111 then 17 else if bs ! 59 = 105 then 34 else 51)"

definition race_config :: lambda_config where
  "race_config = \<lparr>lc_secret_arn = ''arn:aws:secretsmanager:x:111111111111:secret:s'', lc_secret_version = replicate 32 (CHR ''1''),
     lc_host = ''x.cockroachlabs.cloud'', lc_port = ''26257'', lc_tenant = sample_uuid (CHR ''1''),
     lc_incident = sample_uuid (CHR ''3''), lc_resource = ''boat'', lc_source_commit = replicate 40 (CHR ''1''), lc_config_digest = dig (CHR ''2''),
     lc_tree_digest = replicate 40 (CHR ''3''), lc_package_lock = dig (CHR ''4''), lc_source_digest = dig (CHR ''5''), lc_artifact_digest = dig (CHR ''6'')\<rparr>"

definition race_drill :: jsv where
  "race_drill = Obj [(''alphaLogicalActionDigest'', Str (race_mark ''alpha'')), (''alphaProposalDigest'', Str (race_mark ''alpha'')),
     (''authorityEvidenceBindingSha256'', Str (dig (CHR ''a''))), (''bravoLogicalActionDigest'', Str (race_mark ''bravo'')),
     (''bravoProposalDigest'', Str (race_mark ''bravo'')), (''runId'', Str (sample_uuid (CHR ''2''))), (''selectedEvidenceDigest'', Str (dig (CHR ''5''))),
     (''selectedEvidenceId'', Str (sample_uuid (CHR ''5'')))]"

lemma race_hyphens:
  "hyphenated (bytes_hex (with_version (replicate 4 170 @ replicate 6 0 @ replicate 6 17))) = race_uuid ''alpha'' (CHR ''1'')"
  "hyphenated (bytes_hex (with_version (replicate 4 170 @ replicate 6 0 @ replicate 6 34))) = race_uuid ''alpha'' (CHR ''2'')"
  "hyphenated (bytes_hex (with_version (replicate 4 170 @ replicate 6 0 @ replicate 6 51))) = race_uuid ''alpha'' (CHR ''3'')"
  "hyphenated (bytes_hex (with_version (replicate 4 187 @ replicate 6 0 @ replicate 6 17))) = race_uuid ''bravo'' (CHR ''1'')"
  "hyphenated (bytes_hex (with_version (replicate 4 187 @ replicate 6 0 @ replicate 6 34))) = race_uuid ''bravo'' (CHR ''2'')"
  "hyphenated (bytes_hex (with_version (replicate 4 187 @ replicate 6 0 @ replicate 6 51))) = race_uuid ''bravo'' (CHR ''3'')"
  by code_simp+

lemma race_hashed:
  assumes "length ns = 16"
  shows "take 16 (race_sha1 (ns @ utf8_bytes (sample_uuid (CHR ''6'') @ '':'' @ ''alpha'' @ '':operation''))) = replicate 4 170 @ replicate 6 0 @ replicate 6 17"
    and "take 16 (race_sha1 (ns @ utf8_bytes (sample_uuid (CHR ''6'') @ '':'' @ ''alpha'' @ '':intent''))) = replicate 4 170 @ replicate 6 0 @ replicate 6 34"
    and "take 16 (race_sha1 (ns @ utf8_bytes (sample_uuid (CHR ''6'') @ '':'' @ ''alpha'' @ '':effect''))) = replicate 4 170 @ replicate 6 0 @ replicate 6 51"
    and "take 16 (race_sha1 (ns @ utf8_bytes (sample_uuid (CHR ''6'') @ '':'' @ ''bravo'' @ '':operation''))) = replicate 4 187 @ replicate 6 0 @ replicate 6 17"
    and "take 16 (race_sha1 (ns @ utf8_bytes (sample_uuid (CHR ''6'') @ '':'' @ ''bravo'' @ '':intent''))) = replicate 4 187 @ replicate 6 0 @ replicate 6 34"
    and "take 16 (race_sha1 (ns @ utf8_bytes (sample_uuid (CHR ''6'') @ '':'' @ ''bravo'' @ '':effect''))) = replicate 4 187 @ replicate 6 0 @ replicate 6 51"
  using assms by (simp_all add: race_sha1_def utf8_bytes_def sample_uuid_def nth_append)

lemma race_named:
  assumes "racer who"
  shows "uuid_v5 race_sha1 authority_namespace (sample_uuid (CHR ''6'') @ '':'' @ who @ '':operation'') = Inr (race_uuid who (CHR ''1''))"
    and "uuid_v5 race_sha1 authority_namespace (sample_uuid (CHR ''6'') @ '':'' @ who @ '':intent'') = Inr (race_uuid who (CHR ''2''))"
    and "uuid_v5 race_sha1 authority_namespace (sample_uuid (CHR ''6'') @ '':'' @ who @ '':effect'') = Inr (race_uuid who (CHR ''3''))"
proof -
  have "map_sum id length (uuid_bytes authority_namespace) = Inr 16" by code_simp
  then obtain ns where ns: "uuid_bytes authority_namespace = Inr ns" "length ns = 16" by (auto simp: map_sum_eq_Inr)
  show "uuid_v5 race_sha1 authority_namespace (sample_uuid (CHR ''6'') @ '':'' @ who @ '':operation'') = Inr (race_uuid who (CHR ''1''))"
    "uuid_v5 race_sha1 authority_namespace (sample_uuid (CHR ''6'') @ '':'' @ who @ '':intent'') = Inr (race_uuid who (CHR ''2''))"
    "uuid_v5 race_sha1 authority_namespace (sample_uuid (CHR ''6'') @ '':'' @ who @ '':effect'') = Inr (race_uuid who (CHR ''3''))"
    using assms race_hashed [OF ns(2)] race_hyphens by (elim disjE; simp add: uuid_v5_def ns(1))+
qed

lemma race_parsed: "racer who \<Longrightarrow> parse_reserve_event race_env (race_event (sample_uuid (CHR ''6'')) race_drill who)
   = Inr \<lparr>pe_race = sample_uuid (CHR ''6''), pe_contender = Some who, pe_drill = race_drill\<rparr>"
  by (elim disjE; simp only:; code_simp)

lemma race_payload_hash: "racer who \<Longrightarrow> lambda_sha256 race_env (race_payload who) = race_mark who"
  by (elim disjE; simp only:; code_simp)

definition race_members :: "string \<Rightarrow> (string \<times> jsv) list" where
  "race_members who = [(''digestVersion'', int_num 2), (''tenantId'', Str (sample_uuid (CHR ''1''))), (''runId'', Str (sample_uuid (CHR ''2''))),
      (''incidentId'', Str (sample_uuid (CHR ''3''))), (''resourceId'', Str ''boat''), (''operationId'', Str (race_uuid who (CHR ''1''))),
      (''agentId'', Str (''aws-authority-'' @ who)), (''agency'', Str ''rescue''), (''evidenceId'', Str (sample_uuid (CHR ''5''))),
      (''intentNonce'', Str (race_uuid who (CHR ''2''))), (''effectKey'', Str (race_uuid who (CHR ''3''))), (''leaseMs'', int_num 300000),
      (''policyVersion'', Str policy_version), (''actionKind'', Str action_kind), (''payload'', race_payload who), (''payloadDigest'', Str (race_mark who)),
      (''proposalDigest'', Str (race_mark who)), (''logicalActionDigest'', Str (race_mark who)),
      (''authorityEvidenceBindingSha256'', Str (dig (CHR ''a''))), (''selectedEvidenceDigest'', Str (dig (CHR ''5'')))]"

definition race_request :: "string \<Rightarrow> jsv" where
  "race_request who = Obj (race_members who @ [(''requestPayload'', race_semantic who), (''requestDigest'', Str (race_mark who))])"

lemma race_agrees: "database_agrees race_env race_pg"
  by (simp add: database_agrees_def race_pg_simps race_env_def) (simp add: race_hash_def hex_of_length_def hex_digit_def list_all_iff)

lemma race_semantic_hash:
  assumes "racer who"
  shows "lambda_sha256 race_env (race_semantic who) = race_mark who"
proof -
  obtain kvs where sem: "race_semantic who = Obj kvs" "map fst kvs = semantic_keys"
    by (simp add: race_semantic_def semantic_keys_def semantic_fields_def)
  let ?r = "Obj (kvs @ [(''requestPayload'', Obj kvs), (''requestDigest'', Str (race_mark who)), (''payload'', race_payload who)])"
  have kvs: "kvs = [(''digestVersion'', int_num 2), (''tenantId'', Str (sample_uuid (CHR ''1''))), (''runId'', Str (sample_uuid (CHR ''2''))),
      (''incidentId'', Str (sample_uuid (CHR ''3''))), (''resourceId'', Str ''boat''), (''agentId'', Str (''aws-authority-'' @ who)),
      (''agency'', Str ''rescue''), (''evidenceId'', Str (sample_uuid (CHR ''5''))), (''intentNonce'', Str (race_uuid who (CHR ''2''))),
      (''effectKey'', Str (race_uuid who (CHR ''3''))), (''leaseMs'', int_num 300000), (''policyVersion'', Str policy_version),
      (''actionKind'', Str action_kind), (''payloadDigest'', Str (race_mark who)), (''logicalActionDigest'', Str (race_mark who)),
      (''proposalDigest'', Str (race_mark who)), (''selectedEvidenceId'', Str (sample_uuid (CHR ''5''))), (''selectedEvidenceDigest'', Str (dig (CHR ''5'')))]"
    using sem(1) by (simp add: race_semantic_def)
  have uuids: "uuid_shape (sample_uuid (CHR ''1''))" "uuid_shape (sample_uuid (CHR ''2''))" "uuid_shape (sample_uuid (CHR ''3''))" "uuid_shape (sample_uuid (CHR ''5''))"
    by code_simp+
  have r: "asks ?r (race_spend who)" "same_members semantic_keys (Obj kvs) ?r"
    using sem by (simp_all add: asks_def same_members_def race_spend_def kvs semantic_keys_def semantic_fields_def)
  have shaped: "uuid_in ?r ''tenantId''" "uuid_in ?r ''runId''" "uuid_in ?r ''incidentId''" "uuid_in ?r ''evidenceId''" "uuid_in ?r ''effectKey''"
      "sha256_in ?r ''payloadDigest''" "sha256_in ?r ''logicalActionDigest''" "sha256_in ?r ''proposalDigest''" "sha256_in ?r ''selectedEvidenceDigest''"
    using uuids race_uuids [OF assms] race_marks(1) sample_hex by (simp_all add: uuid_in_def sha256_in_def kvs)
  have "cloud_canonical_json race_env (Obj kvs) = request_text race_pg (race_spend who) (race_mark who) (race_mark who)"
    using request_texts [OF race_agrees _ sem(2) r _ shaped, of "race_uuid who (CHR ''2'')"] by (simp add: kvs race_spend_simps race_spend_def)
  then show ?thesis
    using race_texts(7) [OF assms] by (simp add: lambda_sha256_def sem race_env_def)
qed

lemma race_requested:
  assumes "racer who"
  shows "authority_request_for race_env race_sha1 race_config (race_event (sample_uuid (CHR ''6'')) race_drill who) = Inr (race_request who)"
proof -
  have f: "race_fields race_env race_config race_drill who (race_uuid who (CHR ''1'')) (race_uuid who (CHR ''2'')) (race_uuid who (CHR ''3'')) = race_members who"
    using assms race_payload_hash [OF assms] by (auto simp: race_fields_def race_members_def race_config_def race_drill_def race_lease_ms_def)
  have "payload_of_request (Obj (race_members who)) = race_semantic who"
    by (simp add: payload_of_request_def race_members_def race_semantic_def)
  with f race_semantic_hash [OF assms] race_named [OF assms] show ?thesis
    by (simp add: authority_request_for_def race_parsed [OF assms] Let_def race_request_def)
qed

section \<open>The race is decided\<close>

lemma race_is_settled: "race_settled (sample_uuid (CHR ''1'')) (sample_uuid (CHR ''2'')) ''boat'' (asked (race_request ''alpha'')) (asked (race_request ''bravo'')) race_over"
proof -
  have asked: "asked (race_request who) = (race_uuid who (CHR ''1''), race_mark who)" for who
    by (simp add: asked_def race_request_def race_members_def)
  have "race_winner \<noteq> race_loser" by (metis race_receipt_columns(3,6) race_marks(2))
  have rows: "run_receipts (sample_uuid (CHR ''1'')) (sample_uuid (CHR ''2'')) ''boat'' race_over = [race_winner, race_loser]"
    by (simp add: run_receipts_def race_over_def race_receipt_columns)
  have "find_resource race_over (sample_uuid (CHR ''1'')) ''boat'' = Some race_held"
    by (simp add: find_resource_def race_over_def race_won_tables) (simp add: race_held_def acquired_def sample_resource_def new_resource_def resource_key_def)
  moreover have "rs_run race_held = sample_uuid (CHR ''2'')" "\<exists>h. rs_holder race_held = Some h \<and> ho_operation h = ar_operation race_winner"
    by (simp_all add: race_held_def acquired_def sample_resource_def new_resource_def race_spend_simps race_receipt_columns)
  moreover have "run_effects (sample_uuid (CHR ''1'')) (sample_uuid (CHR ''2'')) ''boat'' race_over = []"
    by (simp add: run_effects_def race_over_def race_won_tables)
  ultimately show ?thesis unfolding race_settled_def
    using rows by (intro exI [of _ race_winner] exI [of _ race_loser] exI [of _ race_held]) (auto simp: made_by_def asked race_receipt_columns reserved_def)
qed

end
