(* ===== verification/Race_Report.thy ===== *)
theory Race_Report
  imports Race_Props Race_Handler
begin

text \<open>
  What an invocation of the authority Lambda answers: the claim of current authority,
  traced to the tables of the ledger.
\<close>

section \<open>Requests\<close>

lemma request_tenant:
  assumes "authority_request_for E sha1 c event = Inr r"
  shows "fld r ''tenantId'' = Str (lc_tenant c)"
  using assms by (auto simp: authority_request_for_def Let_def and_then_eq_Inr race_fields_def)

lemma with_race [simp]: "k \<noteq> ''raceId'' \<Longrightarrow> fld (with_field ''raceId'' v r) k = fld r k"
  by (cases r) (simp_all add: with_field_def update_conv)

section \<open>Answers that grant\<close>

text \<open>Only the answer to a committed reservation says that no fresh authorization is required.\<close>

lemma fresh_answers:
  "fld (fail_closed code co p q) ''requiresFreshAuthorization'' = Bool True"
  "fld (proof_answer env ctx c p' s tr) ''requiresFreshAuthorization'' = Bool True"
  "fld (changed_answer env ctx c p' o' q') ''requiresFreshAuthorization'' = Bool True"
  "fld (not_durable_answer env ctx c p' q' d tr) ''requiresFreshAuthorization'' = Bool True"
  by (simp_all add: fail_closed_def proof_answer_def changed_answer_def not_durable_answer_def invocation_fields_def build_bindings_def)

lemma committed_fields:
  "fld (committed_answer env ctx c p q d tr) ''requiresFreshAuthorization'' = Bool (\<not> ld_current d)"
  "fld (committed_answer env ctx c p q d tr) ''status'' = Str ''COMMITTED''"
  "fld (committed_answer env ctx c p q d tr) ''fencingToken'' = driver_text (ld_fence d)"
  "fld (committed_answer env ctx c p q d tr) ''committedOperationId'' = column cf_operation (ld_committed d)"
  "fld (committed_answer env ctx c p q d tr) ''logicalActionDigest'' = fld q ''logicalActionDigest''"
  "fld (fld (committed_answer env ctx c p q d tr) ''commit'') ''databaseNow'' = Str (ld_now d)"
  by (simp_all add: committed_answer_def Let_def committed_members_def invocation_fields_def build_bindings_def race_commit_result_def split: option.split)

lemma granting_answer:
  assumes "run_authority E D W event context L = (L', answer)" and "fld answer ''requiresFreshAuthorization'' = Bool False"
  obtains c p r d tr where "configuration (lw_env W) = Inr c" "parse_reserve_event E event = Inr p" "authority_request_for E (lw_sha1 W) c event = Inr r"
    "lambda_spend E D (lw_ms W) (lw_session W) (with_field ''raceId'' (Str (pe_race p)) r) None L = (L', Inr (d, tr))" "ld_current d"
    "answer = committed_answer (lw_env W) context c p (with_field ''raceId'' (Str (pe_race p)) r) d tr"
proof -
  obtain c where c: "configuration (lw_env W) = Inr c"
    using assms by (auto simp: run_authority_def fresh_answers split: sum.split_asm)
  have "run_reserve E D W c event context L = (L', answer)"
    using assms c by (auto simp: run_authority_def run_proof_def run_changed_def fresh_answers
        split: if_split_asm sum.split_asm prod.split_asm race_error.split_asm)
  with assms(2) that [OF c] show thesis
    by (auto simp: run_reserve_def Let_def fresh_answers committed_fields split: if_split_asm sum.split_asm prod.split_asm)
qed

text \<open>C7. The Lambda never claims authority that is not live. In any run of the ledger, with any other
  sessions between its attempts, any failures of the connection, and whether the commit was
  acknowledged or its outcome had to be read back, an answer that does not require fresh
  authorization is the answer to a committed reservation: at the reported database time one receipt alone
  spends the reported logical action of the tenant, its operation holds its resource under the
  reported fencing token, and lease and proposal have not expired; and whatever the
  invocation did to the tables is itself a run of the ledger.\<close>

theorem handler_reports_live_authority:
  assumes "run (ledger_step E' C vector D ms') empty_ledger evs L" and "honest (ledger_step E' C vector D ms') (lw_session W)"
    and "run_authority E D W event context L = (L', answer)" and "fld answer ''requiresFreshAuthorization'' = Bool False"
  shows "fld answer ''status'' = Str ''COMMITTED'' \<and> (\<exists>evs'. run (ledger_step E' C vector D ms') L evs' L') \<and>
    (\<exists>c a r h p x now t. configuration (lw_env W) = Inr c \<and> spends L' (lc_tenant c) (ai_action (ar_id a)) = [a] \<and>
      fld answer ''logicalActionDigest'' = Str (ai_action (ar_id a)) \<and> fld answer ''committedOperationId'' = Str (ar_operation a) \<and>
      find_resource L' (lc_tenant c) (ar_resource a) = Some r \<and> rs_holder r = Some h \<and> ho_operation h = ar_operation a \<and>
      ar_fence a = Some (rs_fence r) \<and> fld answer ''fencingToken'' = Str (int_str (rs_fence r)) \<and>
      fld (fld answer ''commit'') ''databaseNow'' = Str t \<and> to_iso_string (lw_ms W now) = Some t \<and>
      now < ho_expires h \<and> ar_expires a = Some x \<and> now < x \<and> p \<in> set (proposals L') \<and> pr_id p = ar_id a \<and> now < pr_expires p)"
proof -
  from assms(3,4) obtain c e q d tr where c: "configuration (lw_env W) = Inr c" and q: "authority_request_for E (lw_sha1 W) c event = Inr q"
      and s: "lambda_spend E D (lw_ms W) (lw_session W) (with_field ''raceId'' (Str (pe_race e)) q) None L = (L', Inr (d, tr))" "ld_current d"
      and answer: "answer = committed_answer (lw_env W) context c e (with_field ''raceId'' (Str (pe_race e)) q) d tr"
    by (rule granting_answer)
  let ?q = "with_field ''raceId'' (Str (pe_race e)) q"
  have tenant: "fld ?q ''tenantId'' = Str (lc_tenant c)" using request_tenant [OF q] by simp
  have "ledger_ok L" using assms(1) empty_ledger_ok by (rule ledger_machine.run_inv)
  from attempts_live [OF assms(2) this s(1) [unfolded lambda_spend_def] s(2)] have "reports_live (lw_ms W) ?q d L'" .
  then obtain a now where a: "holds_resource now a L'" "to_iso_string (lw_ms W now) = Some (ld_now d)" "ar_tenant a = lc_tenant c"
      "fld ?q ''logicalActionDigest'' = Str (ai_action (ar_id a))" "ld_fence d = map_option int_str (ar_fence a)"
      "map_option cf_operation (ld_committed d) = Some (Str (ar_operation a))"
    using tenant by (auto simp: reports_live_def)
  from a(1) obtain r h p x where live: "find_resource L' (ar_tenant a) (ar_resource a) = Some r" "rs_holder r = Some h" "ho_operation h = ar_operation a"
      "ar_fence a = Some (rs_fence r)" "now < ho_expires h" "ar_expires a = Some x" "now < x" "p \<in> set (proposals L')" "pr_id p = ar_id a" "now < pr_expires p"
      "spends L' (ar_tenant a) (ai_action (ar_id a)) = [a]"
    by (auto simp: holds_resource_def)
  have "\<exists>evs'. run (ledger_step E' C vector D ms') L evs' L'"
    by (rule attempts_run [OF assms(2) s(1) [unfolded lambda_spend_def]])
  moreover have "column cf_operation (ld_committed d) = Str (ar_operation a)" using a(6) by (auto simp: column_def)
  ultimately show ?thesis
    using a live c unfolding answer committed_fields
    by (intro conjI exI [of _ c] exI [of _ a] exI [of _ r] exI [of _ h] exI [of _ p] exI [of _ x] exI [of _ now] exI [of _ "ld_now d"]) auto
qed

end
