(* ===== verification/Race_Witness.thy ===== *)
theory Race_Witness
  imports Race_Sample Race_Report
begin

text \<open>
  The properties of the authority Lambda at a concrete race: the first contender's invocation
  reserves, and the proof of the race is accepted.
\<close>

section \<open>An invocation\<close>

definition race_environment :: "string \<Rightarrow> jsv" where
  "race_environment k = fld (Obj
     [(''AUTHORITY_DATABASE_SECRET_ARN'', Str (lc_secret_arn race_config)), (''AUTHORITY_DATABASE_SECRET_VERSION_ID'', Str (lc_secret_version race_config)),
      (''AUTHORITY_DATABASE_HOST'', Str (lc_host race_config)), (''AUTHORITY_DATABASE_PORT'', Str (lc_port race_config)),
      (''AUTHORITY_TENANT_ID'', Str (lc_tenant race_config)), (''AUTHORITY_INCIDENT_ID'', Str (lc_incident race_config)),
      (''AUTHORITY_RESOURCE_ID'', Str (lc_resource race_config)), (''SOURCE_COMMIT'', Str (lc_source_commit race_config)),
      (''CONFIG_DIGEST'', Str (lc_config_digest race_config)), (''TREE_DIGEST'', Str (lc_tree_digest race_config)),
      (''PACKAGE_LOCK_DIGEST'', Str (lc_package_lock race_config)), (''AUTHORITY_SOURCE_DIGEST'', Str (lc_source_digest race_config)),
      (''AUTHORITY_ARTIFACT_DIGEST'', Str (lc_artifact_digest race_config))]) k"

definition race_session :: race_session where
  "race_session = \<lparr>ss_opening = (\<lambda>_. None), ss_isolation = (\<lambda>_. Str ''serializable''), ss_backend = (\<lambda>_. Str ''7''),
     ss_started = (\<lambda>_. driver_date (\<lambda>t. t div 1000) 1500), ss_others = (\<lambda>_ L. L), ss_statement = (\<lambda>_. None),
     ss_completion = (\<lambda>_. Inr (driver_date (\<lambda>t. t div 1000) 1600)), ss_commit = (\<lambda>_. Acknowledged), ss_elapsed = (\<lambda>_. 0), ss_time = (\<lambda>_. 1500),
     ss_clock = (\<lambda>_. sample_clock), ss_before_reading = (\<lambda>L. L), ss_reading = None, ss_reading_clock = 1700, ss_ids = (\<lambda>_. ''i'')\<rparr>"

definition race_reading :: proof_session where
  "race_reading = \<lparr>os_failing = None, os_isolation = Str ''serializable'', os_backend = Str ''7'', os_clock = 1800\<rparr>"

definition race_world :: lambda_world where
  "race_world = \<lparr>lw_env = race_environment, lw_connection = (\<lambda>_. Inr []), lw_sha1 = race_sha1, lw_ms = (\<lambda>t. t div 1000),
     lw_session = race_session, lw_proof = race_reading\<rparr>"

lemma race_trimmed:
  "list_all (\<lambda>s. trim s = s \<and> s \<noteq> [] \<and> length s \<le> 64) (map (\<lambda>f. f race_config) [lc_secret_arn, lc_secret_version, lc_resource,
     lc_source_commit, lc_config_digest, lc_tree_digest, lc_package_lock, lc_source_digest, lc_artifact_digest, lc_host, lc_tenant, lc_incident])"
  "trim (lc_port race_config) = lc_port race_config" "length (lc_port race_config) = 5" "lc_port race_config \<noteq> []"
  by code_simp+

lemma race_checked: "database_host (lc_host race_config)" "to_lower (lc_host race_config) = lc_host race_config" "port_text (lc_port race_config)"
    "to_lower (lc_tenant race_config) = lc_tenant race_config" "to_lower (lc_incident race_config) = lc_incident race_config"
    "\<exists>bs. uuid_bytes (Str (lc_tenant race_config)) = Inr bs" "\<exists>bs. uuid_bytes (Str (lc_incident race_config)) = Inr bs" "config_ok race_config"
proof -
  have "any_uuid (lc_tenant race_config)" "any_uuid (lc_incident race_config)" by code_simp+
  then show "\<exists>bs. uuid_bytes (Str (lc_tenant race_config)) = Inr bs" "\<exists>bs. uuid_bytes (Str (lc_incident race_config)) = Inr bs"
    by (simp_all add: uuid_bytes_def)
qed code_simp+

lemma race_looked_up:
  "race_environment ''AUTHORITY_DATABASE_SECRET_ARN'' = Str (lc_secret_arn race_config)"
  "race_environment ''AUTHORITY_DATABASE_SECRET_VERSION_ID'' = Str (lc_secret_version race_config)"
  "race_environment ''AUTHORITY_RESOURCE_ID'' = Str (lc_resource race_config)"
  "race_environment ''SOURCE_COMMIT'' = Str (lc_source_commit race_config)"
  "race_environment ''CONFIG_DIGEST'' = Str (lc_config_digest race_config)"
  "race_environment ''TREE_DIGEST'' = Str (lc_tree_digest race_config)"
  "race_environment ''PACKAGE_LOCK_DIGEST'' = Str (lc_package_lock race_config)"
  "race_environment ''AUTHORITY_SOURCE_DIGEST'' = Str (lc_source_digest race_config)"
  "race_environment ''AUTHORITY_ARTIFACT_DIGEST'' = Str (lc_artifact_digest race_config)"
  "race_environment ''AUTHORITY_DATABASE_HOST'' = Str (lc_host race_config)"
  "race_environment ''AUTHORITY_DATABASE_PORT'' = Str (lc_port race_config)"
  "race_environment ''AUTHORITY_TENANT_ID'' = Str (lc_tenant race_config)"
  "race_environment ''AUTHORITY_INCIDENT_ID'' = Str (lc_incident race_config)"
  by (simp_all add: race_environment_def)

lemma race_required:
  "required_environment race_environment ''AUTHORITY_DATABASE_SECRET_ARN'' 2048 = Inr (lc_secret_arn race_config)"
  "required_environment race_environment ''AUTHORITY_DATABASE_SECRET_VERSION_ID'' 64 = Inr (lc_secret_version race_config)"
  "required_environment race_environment ''AUTHORITY_RESOURCE_ID'' 160 = Inr (lc_resource race_config)"
  "required_environment race_environment ''SOURCE_COMMIT'' 64 = Inr (lc_source_commit race_config)"
  "required_environment race_environment ''CONFIG_DIGEST'' 64 = Inr (lc_config_digest race_config)"
  "required_environment race_environment ''TREE_DIGEST'' 64 = Inr (lc_tree_digest race_config)"
  "required_environment race_environment ''PACKAGE_LOCK_DIGEST'' 64 = Inr (lc_package_lock race_config)"
  "required_environment race_environment ''AUTHORITY_SOURCE_DIGEST'' 64 = Inr (lc_source_digest race_config)"
  "required_environment race_environment ''AUTHORITY_ARTIFACT_DIGEST'' 64 = Inr (lc_artifact_digest race_config)"
  "required_environment race_environment ''AUTHORITY_DATABASE_HOST'' 253 = Inr (lc_host race_config)"
  "required_environment race_environment ''AUTHORITY_DATABASE_PORT'' 5 = Inr (lc_port race_config)"
  "required_environment race_environment ''AUTHORITY_TENANT_ID'' 64 = Inr (lc_tenant race_config)"
  "required_environment race_environment ''AUTHORITY_INCIDENT_ID'' 64 = Inr (lc_incident race_config)"
  using race_trimmed by (simp_all add: required_environment_def race_looked_up)

lemma race_configuration: "configuration race_environment = Inr race_config"
proof -
  have rec: "\<lparr>lc_secret_arn = lc_secret_arn race_config, lc_secret_version = lc_secret_version race_config, lc_host = lc_host race_config, lc_port = lc_port race_config, lc_tenant = lc_tenant race_config,
      lc_incident = lc_incident race_config, lc_resource = lc_resource race_config, lc_source_commit = lc_source_commit race_config, lc_config_digest = lc_config_digest race_config,
      lc_tree_digest = lc_tree_digest race_config, lc_package_lock = lc_package_lock race_config, lc_source_digest = lc_source_digest race_config,
      lc_artifact_digest = lc_artifact_digest race_config\<rparr> = race_config" by (cases race_config) simp
  from race_checked show ?thesis unfolding configuration_def
    by (auto simp: race_required required_host_def required_port_def required_uuid_environment_def Let_def rec)
qed

lemma race_dates: "to_iso_string 1 = Some ''1970-01-01T00:00:00.001Z''" "to_iso_string 300001 = Some ''1970-01-01T00:05:00.001Z''"
  by code_simp+

lemma race_unexpired: "\<not> expired_at race_env (Some ''1970-01-01T00:05:00.001Z'') ''1970-01-01T00:00:00.001Z''"
  by code_simp

lemma race_identified: "authority_identity_for race_env (Str (race_mark ''alpha'')) (Str (race_mark ''alpha'')) (driver_int 1)
   = Inr \<lparr>ri_epoch = 1, ri_key = race_mark ''alpha'', ri_binding = race_mark ''alpha''\<rparr>"
  by code_simp

text \<open>The decision on the row of the reservation.\<close>

definition race_row_answer :: race_decision where
  "race_row_answer = race_answer (sample_uuid (CHR ''1'')) race_won race_grant"

definition race_invocation :: jsv where
  "race_invocation = with_field ''raceId'' (Str (sample_uuid (CHR ''6''))) (race_request ''alpha'')"

lemma race_parameters: "spend_parameters race_invocation = race_spend ''alpha''"
  by (simp add: race_invocation_def spend_parameters_def)
    (simp add: race_request_def race_members_def race_spend_def text_of_def integer_of_def max_safe_integer_def)

lemma race_statement: "spend_statement race_pg race_session 0 race_invocation race_both = Inr (race_won, race_row_answer)"
proof -
  have "ledger_ok race_both" using race_both_run empty_ledger_ok by (rule ledger_machine.run_inv)
  from race_commits_spend [OF this] show ?thesis
    by (simp add: spend_statement_def race_session_def spend_race_def race_parameters gate2_user_def contenders_def race_spend_simps race_row_answer_def)
qed

lemma race_answered:
  "rc_decision race_row_answer = race_grant" "rc_durable race_row_answer" "rc_evidence_binding race_row_answer = Some (dig (CHR ''a''))"
  "rc_evidence race_row_answer = Some (sample_uuid (CHR ''5''))" "rc_evidence_digest race_row_answer = Some (dig (CHR ''5''))"
proof -
  have "find_receipt race_won (sample_uuid (CHR ''1'')) (dc_operation race_grant) = Some race_winner"
    by (simp add: find_receipt_def race_won_tables receipt_key_def race_receipt_columns race_grant_def spend_granted_def race_spend_simps)
  moreover have "ai_proposal (ar_id race_winner) = race_mark ''alpha''" "ar_evidence race_winner = sample_uuid (CHR ''5'')"
      "ar_evidence_digest race_winner = Some (dig (CHR ''5''))" "dc_proposal race_grant = race_mark ''alpha''"
    by (simp_all add: race_winner_def reserving_def pending_receipt_def race_spend_simps race_grant_def spend_granted_def)
  moreover have "find_proposal race_won (sample_uuid (CHR ''1'')) (race_mark ''alpha'') = Some (race_proposal ''alpha'')"
    using race_ids [of "''alpha''"] by (simp add: find_proposal_def race_won_tables race_tables proposal_key_def)
  moreover have "pr_evidence_binding (race_proposal ''alpha'') = dig (CHR ''a'')"
    by (simp add: race_proposal_def proposal_of_def Let_def race_selection_def sample_selection_def)
  ultimately show "rc_decision race_row_answer = race_grant" "rc_durable race_row_answer" "rc_evidence_binding race_row_answer = Some (dig (CHR ''a''))"
    "rc_evidence race_row_answer = Some (sample_uuid (CHR ''5''))" "rc_evidence_digest race_row_answer = Some (dig (CHR ''5''))"
    using race_ids(1) [of "''alpha''"] by (simp_all add: race_row_answer_def race_answer_def Let_def)
qed

lemma race_requests: "fld race_invocation ''operationId'' = Str (race_uuid ''alpha'' (CHR ''1''))" "fld race_invocation ''requestDigest'' = Str (race_mark ''alpha'')"
    "fld race_invocation ''proposalDigest'' = Str (race_mark ''alpha'')" "fld race_invocation ''logicalActionDigest'' = Str (race_mark ''alpha'')"
    "fld race_invocation ''authorityEvidenceBindingSha256'' = Str (dig (CHR ''a''))" "fld race_invocation ''evidenceId'' = Str (sample_uuid (CHR ''5''))"
    "fld race_invocation ''selectedEvidenceDigest'' = Str (dig (CHR ''5''))"
  by (simp_all add: race_invocation_def, simp_all add: race_request_def race_members_def)

lemma race_granted: "dc_outcome race_grant = ''resource_reserved''" "dc_reason race_grant = None" "dc_fence race_grant = Some 1"
    "dc_expires race_grant = Some 300001502" "dc_operation race_grant = race_uuid ''alpha'' (CHR ''1'')" "dc_digest race_grant = race_mark ''alpha''"
    "dc_replay race_grant = None" "dc_proposal race_grant = race_mark ''alpha''" "dc_action race_grant = race_mark ''alpha''" "dc_epoch race_grant = Some 1"
    "dc_key race_grant = Some (race_mark ''alpha'')" "dc_binding race_grant = Some (race_mark ''alpha'')" "dc_current race_grant" "dc_now race_grant = 1502"
  using race_ids(1) [of "''alpha''"] by (simp_all add: race_grant_def spend_granted_def race_spend_simps sample_clock_def)

lemma race_normalized:
  "\<exists>d. normalize_spend_row race_env (race_row (\<lambda>t. t div 1000) race_row_answer) race_invocation = Inr d \<and> ld_current d \<and> ld_durable d = Some True"
proof -
  let ?row = "race_row (\<lambda>t. t div 1000) race_row_answer"
  have dates: "normalize_timestamp race_env (fld ?row ''decision_lease_expires_at'') = Inr (Some ''1970-01-01T00:05:00.001Z'')"
    "normalize_timestamp race_env (fld ?row ''decision_database_now'') = Inr (Some ''1970-01-01T00:00:00.001Z'')"
    by (simp_all add: race_columns race_answered race_granted normalized_date race_dates)
  have "any_uuid (sample_uuid (CHR ''5''))" by code_simp
  then have "committed_evidence_ok ?row race_invocation Null Null"
    by (simp add: committed_evidence_ok_def Let_def race_columns race_answered race_granted race_requests coalesce_def sample_hex)
  moreover have "spend_row_shaped ?row race_invocation Null (Some t)" for t
    using race_marks(1) by (simp add: spend_row_shaped_def race_columns race_answered race_granted race_requests one_of_def lambda_outcomes_def coalesce_def)
      (simp add: race_row_def Let_def)
  moreover have "spend_identity_ok ?row race_invocation Null \<lparr>ri_epoch = 1, ri_key = race_mark ''alpha'', ri_binding = race_mark ''alpha''\<rparr>"
    by (simp add: spend_identity_ok_def race_columns race_answered race_granted race_requests)
  moreover have "spend_state_ok race_env ?row Null (Some ''1'') (Some ''1970-01-01T00:05:00.001Z'') ''1970-01-01T00:00:00.001Z''"
    using race_unexpired int_str_positive [of 1] by (simp add: spend_state_ok_def Let_def race_columns race_answered race_granted positive_text_def race_numbers)
  moreover have "text_if_any race_env (driver_int 1) = Some ''1''" using driver_fence [of race_env "Some 1"] by (simp add: race_numbers)
  ultimately show ?thesis
    using dates race_identified by (simp add: normalize_spend_row_def Let_def race_columns race_answered race_granted race_requests race_numbers or_null_def coalesce_def)
qed

section \<open>Witnesses\<close>

definition race_asking :: jsv where
  "race_asking = race_event (sample_uuid (CHR ''6'')) race_drill ''alpha''"

lemma race_session_simps: "ss_opening race_session n = None" "ss_others race_session n L = L" "ss_commit race_session n = Acknowledged"
    "ss_isolation race_session n = Str ''serializable''" "ss_backend race_session n = Str ''7''"
  by (simp_all add: race_session_def)

lemma race_started: "normalize_timestamp race_env (ss_started race_session n) = Inr (Some ''1970-01-01T00:00:00.001Z'')"
  "ss_completion race_session n = Inr (driver_date (\<lambda>t. t div 1000) 1600)"
  "normalize_timestamp race_env (driver_date (\<lambda>t. t div 1000) 1600) = Inr (Some ''1970-01-01T00:00:00.001Z'')"
  by (simp_all add: race_session_def normalized_date race_dates)

lemma race_spent: "\<exists>d tr. lambda_spend race_env race_pg (\<lambda>t. t div 1000) race_session race_invocation None race_both = (race_won, Inr (d, tr)) \<and>
   ld_current d \<and> ld_durable d = Some True"
proof -
  from race_normalized obtain d where d: "normalize_spend_row race_env (race_row (\<lambda>t. t div 1000) race_row_answer) race_invocation = Inr d"
      "ld_current d" "ld_durable d = Some True" by blast
  have "\<exists>tr. accepted_answer race_env (\<lambda>t. t div 1000) race_session 0 race_invocation [] (driver_date (\<lambda>t. t div 1000) 1600) race_row_answer = Inr (d, tr)"
    using race_started(1,3) d(1) by (simp add: accepted_answer_def race_session_simps split: option.split)
  then obtain tr where "spend_attempt race_env race_pg (\<lambda>t. t div 1000) race_session race_invocation None 0 [] race_both = (race_won, Answered d tr)"
    using race_statement race_started(2) by (auto simp: spend_attempt_def commit_spend_def race_session_simps)
  then have "lambda_spend race_env race_pg (\<lambda>t. t div 1000) race_session race_invocation None race_both = (race_won, Inr (d, tr))"
    by (simp add: lambda_spend_def race_session_simps)
  with d show ?thesis by blast
qed

lemma race_runs: "\<exists>answer. run_authority race_env race_pg race_world race_asking context race_both = (race_won, answer) \<and>
   fld answer ''requiresFreshAuthorization'' = Bool False"
proof -
  from race_spent obtain d tr where s: "lambda_spend race_env race_pg (\<lambda>t. t div 1000) race_session race_invocation None race_both = (race_won, Inr (d, tr))"
      "ld_current d" "ld_durable d = Some True" by blast
  let ?p = "\<lparr>pe_race = sample_uuid (CHR ''6''), pe_contender = Some ''alpha'', pe_drill = race_drill\<rparr>"
  have "run_reserve race_env race_pg race_world race_config race_asking context race_both
      = (race_won, committed_answer race_environment context race_config ?p race_invocation d tr)"
    using s race_parsed [of "''alpha''"] race_requested [of "''alpha''"]
    by (simp add: run_reserve_def race_asking_def Let_def race_world_def race_invocation_def)
  moreover have "\<not> exact_keys race_asking [''mode'']" "fld race_asking ''mode'' = Str ''reserve''"
    by (simp_all add: race_asking_def race_event_def, code_simp)
  ultimately show ?thesis
    using s(2) race_configuration by (simp add: run_authority_def committed_fields) (simp add: race_world_def committed_fields)
qed

lemma race_honest: "honest (ledger_step E C vector D ms) race_session"
  by (auto simp: honest_def race_session_def intro: run_nil)

theorem handler_reports_live_authority_witness:
  "\<exists>answer a r. run_authority race_env race_pg race_world race_asking Undef race_both = (race_won, answer) \<and>
     fld answer ''status'' = Str ''COMMITTED'' \<and> spends race_won (sample_uuid (CHR ''1'')) (ai_action (ar_id a)) = [a] \<and>
     fld answer ''fencingToken'' = Str (int_str (rs_fence r)) \<and> find_resource race_won (sample_uuid (CHR ''1'')) (ar_resource a) = Some r"
proof -
  from race_runs obtain answer where a: "run_authority race_env race_pg race_world race_asking Undef race_both = (race_won, answer)"
      "fld answer ''requiresFreshAuthorization'' = Bool False" by blast
  have "honest (ledger_step request_env sample_crypto (\<lambda>_. True) race_pg (\<lambda>t. t div 1000)) (lw_session race_world)"
    by (simp add: race_world_def race_honest)
  from handler_reports_live_authority [OF race_both_run this a] a race_configuration show ?thesis
    by (auto simp: race_world_def) (auto simp: race_config_def)
qed

theorem race_proof_iff_settled_witness:
  "\<exists>state tr. lambda_observe race_env race_sha1 (\<lambda>t. t div 1000) race_reading race_config race_drill (sample_uuid (CHR ''6'')) race_over = Inr (state, tr)"
proof -
  obtain evs where r: "run (ledger_step request_env sample_crypto (\<lambda>_. True) race_pg (\<lambda>t. t div 1000)) empty_ledger evs race_over"
    using race_over_run by blast
  have run_id: "fld race_drill ''runId'' = Str (sample_uuid (CHR ''2''))" by (simp add: race_drill_def)
  have q: "authority_request_for race_env race_sha1 race_config (race_event (sample_uuid (CHR ''6'')) race_drill ''alpha'') = Inr (race_request ''alpha'')"
    "authority_request_for race_env race_sha1 race_config (race_event (sample_uuid (CHR ''6'')) race_drill ''bravo'') = Inr (race_request ''bravo'')"
    by (rule race_requested, simp)+
  have p: "os_failing race_reading = None" "os_isolation race_reading = Str ''serializable''" "is_string (os_backend race_reading)"
    "to_iso_string ((\<lambda>t. t div 1000) (os_clock race_reading)) \<noteq> None"
    by (simp_all add: race_reading_def race_dates)
  have "lc_tenant race_config = sample_uuid (CHR ''1'')" "lc_resource race_config = ''boat''" by (simp_all add: race_config_def)
  with race_proof_iff_settled [where ms = "\<lambda>t. t div 1000", OF r run_id q] p race_is_settled show ?thesis by simp
qed

end
