(* ===== verification/Spec2Isabelle.thy ===== *)
theory Spec2Isabelle
  imports Protocol_Succession Protocol_Evidence Protocol_Props Dispatch_Errors Dispatch_Binding_Props Commit_Result Evidence_Props Ledger_Props Ledger_Digest
    Strict_Json_Props Store_Retry Authority_Reconcile_Props Store_Agreement Retrieval_Props Retrieval_Digest
    Race_Witness
begin

text \<open>
  Verification of ProofToAct.

  The program lets agents act on shared resources only under evidence. Signed evidence is
  admitted into a registry; an agent's proposal, bound by digests to the evidence it rests on,
  is authorized by the database; the authority is then spent once, which reserves the resource
  under a fencing token with a lease; a protected effect is recorded only while that authority
  is live. A separate life cycle lets one provider call be dispatched at most once. The rules
  live partly in JavaScript (\<open>src/protocol.js\<close>, \<open>src/cloud\<close>) and partly in the stored
  functions that \<open>src/cloud/primary-security.js\<close> and \<open>src/cloud/authority-store.js\<close> install.

  \<^bold>\<open>How the code is modelled.\<close> A dynamic JavaScript value is a \<open>jsv\<close> (\<open>Js_Value\<close>); a function
  returns what it throws on the left of a sum. Where the code mutates an object or a table the
  model passes the state. A table is a record of lists of rows, a stored function runs in one
  serializable transaction, so it maps the tables to an error or to new tables and an answer; an
  exception leaves the tables as they were. Nullable columns are options, and a comparison with a
  null operand does not hold. Times are integers (milliseconds in JavaScript, microseconds in the
  database). What the standard library leaves to the host, or what only a library outside the
  repository computes (SHA-256, signatures, \<open>localeCompare\<close>, \<open>Date.parse\<close>, the driver's
  conversions, the readings of a clock), is an argument: the records \<open>jsenv\<close>, \<open>crypto\<close>, \<open>pg\<close>,
  and functions from the number of a reading to its value.

  \<^bold>\<open>Theories and code.\<close>

  \<^item> \<open>Prelude\<close>: sums of an error or a value, ordered maps, stable sorting, tables with unique keys,
    labelled machines, and the contracts \<open>invariant_machine\<close>, \<open>one_shot_machine\<close> and
    \<open>consistent_comparator\<close> that the components discharge.
  \<^item> \<open>Js_Value\<close>, \<open>Json\<close>, \<open>Iso_Time\<close>: the JavaScript the program uses: values and coercions,
    \<open>JSON.stringify\<close> and the two \<open>canonicalJson\<close>, which is shown injective on the values the
    program hashes, and \<open>toISOString\<close> with a parser (contract \<open>js_dates\<close>).
  \<^item> \<open>Protocol\<close>, \<open>Protocol_Inv\<close>, \<open>Protocol_Props\<close>, \<open>Protocol_Evidence\<close>, \<open>Protocol_Succession\<close>:
    the class \<open>ProofToActMemory\<close> of \<open>src/protocol.js\<close>: ingestion, contradictions, retrieval from a
    vector index (contract \<open>vector_index\<close>), decisions, reservations with fencing tokens, replay,
    checkpoints, succession and outages.
  \<^item> \<open>Sql\<close>: exceptions, null comparisons and keys shared by the stored functions.
  \<^item> \<open>Dispatch_Sql\<close>, \<open>Dispatch_Inv\<close>, \<open>Dispatch_Props\<close>, \<open>Dispatch_Errors\<close>: the provider-dispatch
    tables and the functions \<open>claim\<close> to \<open>resolve\<close> of \<open>primary-security.js\<close>; the life cycle
    \<open>dispatch_edge\<close> they refine, the invariant \<open>db_ok\<close>, and what holds over all runs.
  \<^item> \<open>Dispatch_Client\<close>, \<open>Dispatch_Wire\<close>, \<open>Dispatch_Client_Props\<close>, \<open>Dispatch_Binding_Props\<close>: the
    files \<open>provider-dispatch-*.js\<close>: bindings, validation of results, the retrying query, the
    controls, and their agreement with the rows of the stored functions.
  \<^item> \<open>Commit_Result\<close>: \<open>database-commit-result.js\<close>.
  \<^item> \<open>Authority_Identity\<close>, \<open>Authority_Request\<close>, \<open>Authority_Request_Props\<close>:
    \<open>authority-identity.js\<close>, \<open>dvi-selection.js\<close>, and \<open>normalizeRequest\<close> of \<open>authority-store.js\<close>.
  \<^item> \<open>Evidence_Store\<close>, \<open>Evidence_Admission\<close>, \<open>Evidence_Props\<close>: keys, receipts of verification and
    evidence rows with all their writers in \<open>authority-store.js\<close> and \<open>primary-security.js\<close>, and
    admissibility (\<open>g1_list_admissibility_internal_v1\<close>, \<open>auditEvidenceStatusAt\<close>).
  \<^item> \<open>Ledger\<close>, \<open>Ledger_Proposal\<close>, \<open>Ledger_Spend\<close>, \<open>Ledger_Acquire\<close>, \<open>Ledger_Effect\<close>: the tables of
    the authority ledger with their checks and unique keys, and the functions
    \<open>g1_authorize_dvi_proposal_v1\<close>, \<open>g1_authority_receipt_current_v2\<close>, \<open>g1_spend_authority_v1\<close>,
    \<open>g2_spend_authority_race_v1\<close>, \<open>g1_record_protected_effect_v1\<close>.
  \<^item> \<open>Ledger_Change\<close>, \<open>Ledger_Inv\<close>, \<open>Ledger_Grant\<close>, \<open>Ledger_Sample\<close>, \<open>Ledger_Props\<close>,
    \<open>Ledger_Digest\<close>: what each of them changes, the machine of all ledger and evidence operations
    with the invariant \<open>ledger_ok\<close>, when a spend is granted, a concrete run, the properties, and the
    proof that client and database hash the same texts.
  \<^item> \<open>Store_Proposal\<close>, \<open>Store_Spend\<close>, \<open>Store_Effect\<close>, \<open>Store_Change\<close>: the store's own transactions
    \<open>authorizeDviProposal\<close>, \<open>spendAuthority\<close> and \<open>recordProtectedEffect\<close> of \<open>authority-store.js\<close> on
    the same tables, and what each changes; they are events of the ledger machine too.
  \<^item> \<open>Store_Agreement\<close>: \<open>spendAuthority\<close> of the store and \<open>g1_spend_authority_v1\<close> of the database
    answer alike on one state of the tables, stage by stage.
  \<^item> \<open>Retrieval\<close>, \<open>Retrieval_Inv\<close>, \<open>Retrieval_Props\<close>, \<open>Retrieval_Digest\<close>: the vector sets and the
    functions \<open>g1_prepare_vector_set_v1\<close> to \<open>g1_commit_dvi_selection_v1\<close> of \<open>primary-security.js\<close>; the
    machine in which selections are committed, which refines the ledger machine; what a spent
    authority rests on; and the agreement with the binding of \<open>admissible-vector-retrieval.js\<close>.
  \<^item> \<open>Ledger_Resolve\<close>, \<open>Ledger_Resolve_Props\<close>: the functions that read the ledger back,
    \<open>g1_resolve_request_v1\<close> and \<open>g1_observe_authority_race_v1\<close>; resolving a request agrees with
    replaying it, and authority called current holds its resource.
  \<^item> \<open>Ledger_Outcomes\<close>: a second invariant of the ledger machine, on what a receipt says of its
    outcome: a denial names the reservation that held the resource.
  \<^item> \<open>Race_Request\<close>, \<open>Race_Rows\<close>, \<open>Race_Lambda\<close>, \<open>Race_Handler\<close>: the authority Lambda
    \<open>infra/aws/lambda/authority.cjs\<close>: configuration, events and requests; the checks of the rows of
    the database; the spend with retries and reconciliation, on the tables of the ledger; the
    handler with its answers.
  \<^item> \<open>Race_Props\<close>, \<open>Race_Report\<close>, \<open>Race_Proof\<close>: what the Lambda reports as current is live in the
    tables, an answer of the handler that claims authority is backed by them, and the handler proves
    a race exactly when the tables decide it.
  \<^item> \<open>Race_Sample\<close>, \<open>Race_Witness\<close>: a race of two contenders on concrete inputs, the winner's
    invocation and the proof.
  \<^item> \<open>Authority_Reconcile\<close>, \<open>Authority_Reconcile_Props\<close>: \<open>reconcileRequest\<close> of \<open>authority-store.js\<close> and
    the normalization of the row it reads.
  \<^item> \<open>Store_Retry\<close>: \<open>#runSerializable\<close> of \<open>authority-store.js\<close>, the loop around every transaction of
    the store.
  \<^item> \<open>Strict_Json\<close>, \<open>Strict_Json_Props\<close>: \<open>strict-json.js\<close>, the scanner in front of \<open>JSON.parse\<close>,
    and the grammar of JSON it is proved against.

  \<^bold>\<open>What the groups of lemmas show.\<close> For every stateful component there is a machine whose events
  are calls with any arguments, by any user and at any clock readings, an invariant every call
  keeps, and properties of all runs from empty state: at most one grant of an authority, one start
  of an effect, one delivery of a credential; strictly increasing fences; leases that do not
  overlap; effects only under live authority; no admission of contradicting or revoked evidence.
  The pure parts have type, functional, round-trip, equivalence and termination properties. The
  properties of collision-free identities state their assumption on the hash explicitly (that it
  is injective on the texts in question) or conclude that the hashed texts are equal.

  \<^bold>\<open>Bounds.\<close> No definition uses fuel for the program's own control flow: loops are structural, or
  recursions with a measure. Clocks are functions of the number of the reading, so any finite
  number of readings is covered.

  \<^bold>\<open>Not modelled.\<close> The vector index of the database (a distance stands for it), the retriever of
  \<open>admissible-vector-retrieval.js\<close>, and the audit and recovery functions of the stores; the recovery database and its broker; the live-drill orchestration over
  processes, sockets and files; AWS, MCP and HTTP clients; deployment templates, release control
  and the scripts. They are clients of outside services or operator tooling; where the modelled
  parts meet them (driver results) the model quantifies over everything they may
  supply. Two transactions that the database would serialize are modelled in one order or the
  other; isolation itself is the database's documented behaviour.
\<close>

end
